(* ===== verification/Prelude.thy ===== *)
theory Prelude
  imports Main "HOL-Library.AList"
begin

text \<open>
  The prelude of the development: the collections of facts the component theories share, the
  string operations of JavaScript that the code uses (on ASCII, a \<open>string\<close> is a list of
  characters), the tables of the database as lists of rows, and JavaScript's \<open>Map\<close> as an
  association list in insertion order.
\<close>

named_theorems op_defs \<open>definitions of the operations of the components\<close>
named_theorems js_simps \<open>rewriting of JavaScript's strings and maps\<close>
named_theorems table_simps \<open>rewriting of the database tables\<close>

section \<open>Names of the program's ids\<close>

type_synonym run_id = string
type_synonym issue_id = string
type_synonym millis = int

section \<open>Strings\<close>

text \<open>
  \<open>s.startsWith(p)\<close>, \<open>s.includes(p)\<close> and \<open>s.toLowerCase()\<close>. Case folding is that of
  ASCII; the labels, states and patterns the code compares are ASCII.
\<close>

fun startsWith :: "string \<Rightarrow> string \<Rightarrow> bool" where
  "startsWith s [] = True"
| "startsWith [] (p # ps) = False"
| "startsWith (c # cs) (p # ps) = (c = p \<and> startsWith cs ps)"

definition endsWith :: "string \<Rightarrow> string \<Rightarrow> bool" where
  "endsWith s p = startsWith (rev s) (rev p)"

fun strIncludes :: "string \<Rightarrow> string \<Rightarrow> bool" where
  "strIncludes [] p = (p = [])"
| "strIncludes (c # cs) p = (startsWith (c # cs) p \<or> strIncludes cs p)"

definition lower_char :: "char \<Rightarrow> char" where
  "lower_char c =
     (let n = (of_char c :: nat) in if 65 \<le> n \<and> n \<le> 90 then char_of (n + 32) else c)"

definition toLowerCase :: "string \<Rightarrow> string" where
  "toLowerCase s = map lower_char s"

fun joinWith :: "string \<Rightarrow> string list \<Rightarrow> string" where
  "joinWith sep [] = []"
| "joinWith sep [x] = x"
| "joinWith sep (x # y # ys) = x @ sep @ joinWith sep (y # ys)"

text \<open>\<open>s.split\<close> at line feeds.\<close>

fun split_lines :: "string \<Rightarrow> string list" where
  "split_lines [] = [[]]"
| "split_lines (c # cs) =
     (if c = CHR 0x0A then [] # split_lines cs
      else (case split_lines cs of [] \<Rightarrow> [[c]] | l # ls \<Rightarrow> (c # l) # ls))"

text \<open>\<open>s.split(c)\<close> at a character: one part more than \<open>s\<close> has occurrences of \<open>c\<close>.\<close>

fun split_char :: "char \<Rightarrow> string \<Rightarrow> string list" where
  "split_char d [] = [[]]"
| "split_char d (c # cs) =
     (if c = d then [] # split_char d cs
      else (case split_char d cs of [] \<Rightarrow> [[c]] | l # ls \<Rightarrow> (c # l) # ls))"

lemma split_char_neq_Nil [simp]: "split_char d s \<noteq> []"
  by (induction d s rule: split_char.induct) (auto split: list.split)

lemma split_char_single [simp]: "d \<notin> set s \<Longrightarrow> split_char d s = [s]"
  by (induction d s rule: split_char.induct) auto

lemma split_char_append: "d \<notin> set s \<Longrightarrow> split_char d (s @ d # t) = s # split_char d t"
  by (induction s) auto

text \<open>The parts of a split, joined again, are the string, and no part holds the separator.\<close>

lemma split_char_join: "joinWith [d] (split_char d s) = s"
proof (induction d s rule: split_char.induct)
  case (2 d c cs)
  then show ?case
    by (cases "split_char d cs"; cases "tl (split_char d cs)") auto
qed simp

lemma split_char_parts: "p \<in> set (split_char d s) \<Longrightarrow> d \<notin> set p"
  by (induction d s arbitrary: p rule: split_char.induct) (auto split: list.splits if_splits)

text \<open>Decimal printing of a natural number and of an integer, as in a template string.\<close>

fun show_nat :: "nat \<Rightarrow> string" where
  "show_nat n = (if n < 10 then [char_of (48 + n)]
     else show_nat (n div 10) @ [char_of (48 + n mod 10)])"

declare show_nat.simps [simp del]

definition show_int :: "int \<Rightarrow> string" where
  "show_int i = (if i < 0 then ''-'' @ show_nat (nat (- i)) else show_nat (nat i))"

text \<open>
  \<open>s.trim()\<close> and the character class \<open>\d\<close> on ASCII, and the value of a string of digits
  (exact below \<open>2 ^ 53\<close>, where JavaScript's numbers are the integers).
\<close>

definition is_space :: "char \<Rightarrow> bool" where
  "is_space c \<longleftrightarrow> (let n = (of_char c :: nat) in n = 32 \<or> (9 \<le> n \<and> n \<le> 13))"

definition trim :: "string \<Rightarrow> string" where
  "trim s = rev (dropWhile is_space (rev (dropWhile is_space s)))"

definition is_digit :: "char \<Rightarrow> bool" where
  "is_digit c \<longleftrightarrow> (let n = (of_char c :: nat) in 48 \<le> n \<and> n \<le> 57)"

definition parse_nat :: "string \<Rightarrow> nat" where
  "parse_nat s = foldl (\<lambda>n c. 10 * n + (of_char c - 48)) 0 s"

text \<open>The longest prefix of characters in a class, at least one: a greedy \<open>[..]+\<close>.\<close>

definition span1 :: "(char \<Rightarrow> bool) \<Rightarrow> string \<Rightarrow> (string \<times> string) option" where
  "span1 P s = (if takeWhile P s = [] then None else Some (takeWhile P s, dropWhile P s))"

fun eat :: "char \<Rightarrow> string \<Rightarrow> string option" where
  "eat c [] = None"
| "eat c (x # xs) = (if x = c then Some xs else None)"

lemma startsWith_append [simp]: "startsWith (p @ s) p"
  by (induction p) simp_all

lemma startsWith_iff: "startsWith s p \<longleftrightarrow> (\<exists>t. s = p @ t)"
  by (induction s p rule: startsWith.induct) auto

lemma strIncludes_Nil [simp]: "strIncludes s []"
  by (cases s) simp_all

lemma strIncludes_prefix: "startsWith s p \<Longrightarrow> strIncludes s p"
  by (cases s; cases p) auto

lemma strIncludes_append_right: "strIncludes s p \<Longrightarrow> strIncludes (u @ s) p"
  by (induction u) auto

lemma strIncludes_iff: "strIncludes s p \<longleftrightarrow> (\<exists>u v. s = u @ p @ v)"
proof
  show "strIncludes s p \<Longrightarrow> \<exists>u v. s = u @ p @ v"
  proof (induction s p rule: strIncludes.induct)
    case (1 p)
    then show ?case by simp
  next
    case (2 c cs p)
    then show ?case
      by (metis append_Cons append_Nil strIncludes.simps(2) startsWith_iff)
  qed
next
  assume "\<exists>u v. s = u @ p @ v"
  then obtain u v where "s = u @ p @ v" by blast
  moreover have "strIncludes (p @ v) p"
    by (rule strIncludes_prefix) simp
  ultimately show "strIncludes s p"
    by (simp add: strIncludes_append_right)
qed

lemma endsWith_iff: "endsWith s p \<longleftrightarrow> (\<exists>t. s = t @ p)"
proof -
  have "endsWith s p \<longleftrightarrow> (\<exists>t. rev s = rev p @ t)"
    by (simp add: endsWith_def startsWith_iff)
  also have "\<dots> \<longleftrightarrow> (\<exists>t. s = t @ p)"
    by (metis append_Nil2 rev_append rev_rev_ident)
  finally show ?thesis .
qed

lemma toLowerCase_append [simp]: "toLowerCase (s @ t) = toLowerCase s @ toLowerCase t"
  by (simp add: toLowerCase_def)

lemma parse_nat_append_digit:
  "d < 10 \<Longrightarrow> parse_nat (s @ [char_of (48 + d :: nat)]) = 10 * parse_nat s + d"
  by (simp add: parse_nat_def)

lemma parse_nat_show [simp]: "parse_nat (show_nat n) = n"
proof (induction n rule: show_nat.induct)
  case (1 n)
  show ?case
  proof (cases "n < 10")
    case True
    then have "show_nat n = [] @ [char_of (48 + n)]"
      by (simp add: show_nat.simps)
    with True show ?thesis
      using parse_nat_append_digit [of n "[]"] by (simp add: parse_nat_def)
  next
    case False
    with 1 have "parse_nat (show_nat (n div 10)) = n div 10" by simp
    moreover have "show_nat n = show_nat (n div 10) @ [char_of (48 + n mod 10)]"
      using False by (simp add: show_nat.simps)
    ultimately show ?thesis
      using parse_nat_append_digit [of "n mod 10" "show_nat (n div 10)"] by simp
  qed
qed

lemma is_digit_char_of [simp]: "d < 10 \<Longrightarrow> is_digit (char_of (48 + d :: nat))"
  by (simp add: is_digit_def Let_def)

lemma show_nat_digits: "c \<in> set (show_nat n) \<Longrightarrow> is_digit c"
proof (induction n rule: show_nat.induct)
  case (1 n)
  show ?case
  proof (cases "n < 10")
    case True
    with 1 have "c = char_of (48 + n)" by (simp add: show_nat.simps)
    with True show ?thesis by simp
  next
    case False
    with 1 show ?thesis
      by (auto simp: show_nat.simps [of n])
  qed
qed

lemma show_nat_neq_Nil [simp]: "show_nat n \<noteq> []"
  by (simp add: show_nat.simps [of n])

lemma span1_append:
  assumes "xs \<noteq> []" "\<And>c. c \<in> set xs \<Longrightarrow> P c" "ys = [] \<or> \<not> P (hd ys)"
  shows "span1 P (xs @ ys) = Some (xs, ys)"
proof -
  have "takeWhile P (xs @ ys) = xs \<and> dropWhile P (xs @ ys) = ys"
    using assms(2,3) by (cases ys) (auto simp: takeWhile_append dropWhile_append takeWhile_eq_all_conv)
  with assms(1) show ?thesis by (simp add: span1_def)
qed

section \<open>Database tables\<close>

text \<open>
  A table is the list of its rows. \<open>UPDATE .. SET f WHERE P\<close>, \<open>DELETE .. WHERE P\<close> and
  \<open>SELECT .. WHERE P\<close>; \<open>LIMIT 1\<close> is the head of the selection.
\<close>

definition update_where :: "('a \<Rightarrow> bool) \<Rightarrow> ('a \<Rightarrow> 'a) \<Rightarrow> 'a list \<Rightarrow> 'a list" where
  "update_where P f rows = map (\<lambda>r. if P r then f r else r) rows"

definition delete_where :: "('a \<Rightarrow> bool) \<Rightarrow> 'a list \<Rightarrow> 'a list" where
  "delete_where P rows = filter (\<lambda>r. \<not> P r) rows"

definition select_where :: "('a \<Rightarrow> bool) \<Rightarrow> 'a list \<Rightarrow> 'a list" where
  "select_where P rows = filter P rows"

definition select_one :: "('a \<Rightarrow> bool) \<Rightarrow> 'a list \<Rightarrow> 'a option" where
  "select_one P rows = find P rows"

lemma length_update_where [table_simps, simp]: "length (update_where P f rows) = length rows"
  by (simp add: update_where_def)

lemma set_update_where [table_simps]:
  "set (update_where P f rows) = (\<lambda>r. if P r then f r else r) ` set rows"
  by (simp add: update_where_def)

lemma map_update_where [table_simps]:
  "(\<And>r. k (f r) = k r) \<Longrightarrow> map k (update_where P f rows) = map k rows"
  by (simp add: update_where_def)

lemma set_delete_where [table_simps, simp]: "set (delete_where P rows) = {r \<in> set rows. \<not> P r}"
  by (auto simp: delete_where_def)

lemma set_select_where [table_simps, simp]: "set (select_where P rows) = {r \<in> set rows. P r}"
  by (auto simp: select_where_def)

lemma select_one_Some: "select_one P rows = Some r \<Longrightarrow> r \<in> set rows \<and> P r"
  by (auto simp: select_one_def find_Some_iff)

lemma select_one_None: "select_one P rows = None \<longleftrightarrow> (\<forall>r \<in> set rows. \<not> P r)"
  by (auto simp: select_one_def find_None_iff)

section \<open>JavaScript's Map\<close>

text \<open>
  A \<open>Map\<close> keeps its keys in insertion order and \<open>set\<close> on a present key keeps its place:
  the library's \<open>AList.update\<close> and \<open>AList.delete\<close>, read with \<open>map_of\<close>.
\<close>

type_synonym ('k, 'v) js_map = "('k \<times> 'v) list"

abbreviation mapGet :: "('k, 'v) js_map \<Rightarrow> 'k \<Rightarrow> 'v option" where
  "mapGet m k \<equiv> map_of m k"

abbreviation mapHas :: "('k, 'v) js_map \<Rightarrow> 'k \<Rightarrow> bool" where
  "mapHas m k \<equiv> map_of m k \<noteq> None"

abbreviation mapSet :: "('k, 'v) js_map \<Rightarrow> 'k \<Rightarrow> 'v \<Rightarrow> ('k, 'v) js_map" where
  "mapSet m k v \<equiv> AList.update k v m"

abbreviation mapDelete :: "('k, 'v) js_map \<Rightarrow> 'k \<Rightarrow> ('k, 'v) js_map" where
  "mapDelete m k \<equiv> AList.delete k m"

lemma mapGet_set [js_simps, simp]: "mapGet (mapSet m k v) = (mapGet m)(k \<mapsto> v)"
  by (rule update_conv')

lemma mapGet_delete [js_simps, simp]: "mapGet (mapDelete m k) = (mapGet m)(k := None)"
  by (rule delete_conv')

section \<open>Lists and options\<close>

text \<open>\<open>xs.indexOf(x)\<close>: the first position, \<open>-1\<close> if there is none.\<close>

fun indexOf_from :: "nat \<Rightarrow> 'a list \<Rightarrow> 'a \<Rightarrow> int" where
  "indexOf_from i [] y = - 1"
| "indexOf_from i (x # xs) y = (if x = y then int i else indexOf_from (Suc i) xs y)"

definition indexOf :: "'a list \<Rightarrow> 'a \<Rightarrow> int" where
  "indexOf xs y = indexOf_from 0 xs y"

text \<open>\<open>xs.slice(i)\<close> for \<open>i \<ge> 0\<close>; a negative \<open>i\<close> counts from the end.\<close>

definition slice :: "'a list \<Rightarrow> int \<Rightarrow> 'a list" where
  "slice xs i =
     (if 0 \<le> i then drop (nat i) xs else drop (nat (max 0 (int (length xs) + i))) xs)"

lemma indexOf_from_nth:
  "distinct xs \<Longrightarrow> i < length xs \<Longrightarrow> indexOf_from k xs (xs ! i) = int (k + i)"
proof (induction xs arbitrary: i k)
  case Nil
  then show ?case by simp
next
  case (Cons x xs)
  then show ?case by (cases i) (auto simp: nth_Cons)
qed

lemma indexOf_nth: "distinct xs \<Longrightarrow> i < length xs \<Longrightarrow> indexOf xs (xs ! i) = int i"
  using indexOf_from_nth [of xs i 0] by (simp add: indexOf_def)

lemma indexOf_from_ge: "indexOf_from k xs y = - 1 \<or> int k \<le> indexOf_from k xs y"
  by (induction k xs y rule: indexOf_from.induct) auto

lemma indexOf_ge: "- 1 \<le> indexOf xs y"
  using indexOf_from_ge [of 0 xs y] by (auto simp: indexOf_def)

lemma slice_nat [simp]: "slice xs (int n) = drop n xs"
  by (simp add: slice_def)

text \<open>\<open>[...new Set(xs)]\<close>: the first occurrence of each element, in order.\<close>

fun dedup :: "'a list \<Rightarrow> 'a list \<Rightarrow> 'a list" where
  "dedup seen [] = []"
| "dedup seen (x # xs) = (if x \<in> set seen then dedup seen xs else x # dedup (x # seen) xs)"

definition setOf :: "'a list \<Rightarrow> 'a list" where
  "setOf xs = dedup [] xs"

lemma set_dedup: "set (dedup seen xs) = set xs - set seen"
  by (induction seen xs rule: dedup.induct) auto

lemma distinct_dedup: "distinct (dedup seen xs)"
  by (induction seen xs rule: dedup.induct) (auto simp: set_dedup)

lemma set_setOf [simp]: "set (setOf xs) = set xs"
  by (simp add: setOf_def set_dedup)

lemma distinct_setOf [simp]: "distinct (setOf xs)"
  by (simp add: setOf_def distinct_dedup)

end
