(* ===== verification/Glob.thy ===== *)
theory Glob
  imports Prelude
begin

text \<open>
  \<open>matchesAnyPattern\<close> of \<open>packages/core/src/util/glob.ts\<close>, which the path policy and the auto-merge
  exclusions share. The code rewrites a glob into the text of a regular expression in eight passes
  and lets the engine match; here the passes produce a list of pieces, one constructor for each
  regular expression the passes can emit, and \<open>piece_match\<close> is the language of the pieces. A
  pattern has no NUL character (the code uses it as its own marker).
\<close>

section \<open>From a pattern to pieces\<close>

datatype piece =
    Lit char
  | NotSlash
  | NotSlashes
  | Between
  | Leading
  | Trailing
  | Anything

text \<open>
  The second pass takes the pairs of stars from the left, the third the single stars and the fourth
  the question marks; every other character stands for itself, the first pass escapes it.
\<close>

datatype mark = Chr char | Star | Quest | Deep

fun marks :: "string \<Rightarrow> mark list" where
  "marks (c # d # cs) =
     (if c = CHR ''*'' \<and> d = CHR ''*'' then Deep # marks cs
      else (if c = CHR ''*'' then Star else if c = CHR ''?'' then Quest else Chr c) # marks (d # cs))"
| "marks [c] = [if c = CHR ''*'' then Star else if c = CHR ''?'' then Quest else Chr c]"
| "marks [] = []"

abbreviation slash :: mark where
  "slash \<equiv> Chr (CHR ''/'')"

text \<open>The fifth pass: a deep star between two slashes, from the left, without overlap.\<close>

datatype mark2 = Keep mark | Mid

fun between :: "mark list \<Rightarrow> mark2 list" where
  "between (a # b # c # ms) =
     (if a = slash \<and> b = Deep \<and> c = slash then Mid # between ms else Keep a # between (b # c # ms))"
| "between [a, b] = [Keep a, Keep b]"
| "between [a] = [Keep a]"
| "between [] = []"

fun plain :: "mark2 \<Rightarrow> piece" where
  "plain Mid = Between"
| "plain (Keep Deep) = Anything"
| "plain (Keep Star) = NotSlashes"
| "plain (Keep Quest) = NotSlash"
| "plain (Keep (Chr c)) = Lit c"

text \<open>The sixth pass looks at the beginning, the seventh at the end, the eighth at what is left.\<close>

fun lead :: "mark2 list \<Rightarrow> piece list \<times> mark2 list" where
  "lead (Keep Deep # Keep (Chr c) # ms) =
     (if c = CHR ''/'' then ([Leading], ms) else ([], Keep Deep # Keep (Chr c) # ms))"
| "lead ms = ([], ms)"

fun trail :: "mark2 list \<Rightarrow> piece list" where
  "trail [] = []"
| "trail [m] = [plain m]"
| "trail [m, n] = (if m = Keep slash \<and> n = Keep Deep then [Trailing] else [plain m, plain n])"
| "trail (m # n # k # ms) = plain m # trail (n # k # ms)"

definition pieces :: "string \<Rightarrow> piece list" where
  "pieces p = (let (l, ms) = lead (between (marks p)) in l @ trail ms)"

section \<open>The language of the pieces\<close>

text \<open>
  In a JavaScript expression the dot stands for every character but a line terminator (of the ASCII
  ones, line feed and carriage return), and a negated class for every character but its own.
\<close>

definition dot :: "char \<Rightarrow> bool" where
  "dot c \<longleftrightarrow> c \<noteq> CHR 0x0A \<and> c \<noteq> CHR 0x0D"

text \<open>The rests of \<open>s\<close> behind a prefix of characters in \<open>P\<close>.\<close>

fun rests :: "(char \<Rightarrow> bool) \<Rightarrow> string \<Rightarrow> string list" where
  "rests P [] = [[]]"
| "rests P (c # cs) = (c # cs) # (if P c then rests P cs else [])"

definition rests1 :: "(char \<Rightarrow> bool) \<Rightarrow> string \<Rightarrow> string list" where
  "rests1 P s = (case s of [] \<Rightarrow> [] | c # cs \<Rightarrow> if P c then rests P cs else [])"

definition after_char :: "char \<Rightarrow> string \<Rightarrow> string list" where
  "after_char d s = (case s of [] \<Rightarrow> [] | c # cs \<Rightarrow> if c = d then [cs] else [])"

text \<open>What is left of \<open>s\<close> after a piece has matched a prefix of it, for each way to match.\<close>

fun eat :: "piece \<Rightarrow> string \<Rightarrow> string list" where
  "eat (Lit d) s = after_char d s"
| "eat NotSlash s = (case s of [] \<Rightarrow> [] | c # cs \<Rightarrow> if c \<noteq> CHR ''/'' then [cs] else [])"
| "eat NotSlashes s = rests (\<lambda>c. c \<noteq> CHR ''/'') s"
| "eat Anything s = rests dot s"
| "eat Between s = concat (map (\<lambda>t. t # concat (map (after_char (CHR ''/'')) (rests1 dot t)))
     (after_char (CHR ''/'') s))"
| "eat Leading s = s # concat (map (after_char (CHR ''/'')) (rests1 dot s))"
| "eat Trailing s = s # concat (map (rests1 dot) (after_char (CHR ''/'') s))"

fun piece_match :: "piece list \<Rightarrow> string \<Rightarrow> bool" where
  "piece_match [] s = (s = [])"
| "piece_match (p # ps) s = list_ex (piece_match ps) (eat p s)"

definition matchesAnyPattern :: "string \<Rightarrow> string list \<Rightarrow> bool" where
  "matchesAnyPattern filePath patterns = list_ex (\<lambda>p. piece_match (pieces p) filePath) patterns"

section \<open>Properties\<close>

lemma rests_iff: "t \<in> set (rests P s) \<longleftrightarrow> (\<exists>u. s = u @ t \<and> list_all P u)"
proof (induction s)
  case Nil
  then show ?case by auto
next
  case (Cons c cs)
  show ?case
  proof
    assume "t \<in> set (rests P (c # cs))"
    then consider "t = c # cs" | u where "P c" "cs = u @ t" "list_all P u"
      using Cons.IH by (auto split: if_splits)
    then show "\<exists>u. c # cs = u @ t \<and> list_all P u"
    proof cases
      case 1
      then show ?thesis by (intro exI [of _ "[]"]) simp
    next
      case (2 u)
      then show ?thesis by (intro exI [of _ "c # u"]) simp
    qed
  next
    assume "\<exists>u. c # cs = u @ t \<and> list_all P u"
    then obtain u where "c # cs = u @ t" "list_all P u" by blast
    then show "t \<in> set (rests P (c # cs))"
      using Cons.IH by (cases u) auto
  qed
qed

lemma rests1_iff: "t \<in> set (rests1 P s) \<longleftrightarrow> (\<exists>u. u \<noteq> [] \<and> s = u @ t \<and> list_all P u)"
proof (cases s)
  case (Cons c cs)
  then show ?thesis
    by (auto simp: rests1_def rests_iff Cons_eq_append_conv)
qed (simp add: rests1_def)

lemma piece_match_lits: "piece_match (map Lit cs) s \<longleftrightarrow> s = cs"
  by (induction cs arbitrary: s) (auto simp: after_char_def split: list.splits)

lemma piece_match_lits_append:
  "piece_match (map Lit cs @ ps) s \<longleftrightarrow> (\<exists>t. s = cs @ t \<and> piece_match ps t)"
  by (induction cs arbitrary: s) (auto simp: after_char_def split: list.splits)

text \<open>Patterns made of a plain text and one deep star.\<close>

definition plain_text :: "string \<Rightarrow> bool" where
  "plain_text d \<longleftrightarrow> list_all (\<lambda>c. c \<noteq> CHR ''*'' \<and> c \<noteq> CHR ''?'') d"

lemma marks_plain: "plain_text d \<Longrightarrow> marks d = map Chr d"
  by (induction d rule: marks.induct) (auto simp: plain_text_def)

lemma marks_plain_append: "plain_text d \<Longrightarrow> marks (d @ ''/**'') = map Chr d @ [slash, Deep]"
proof (induction d rule: marks.induct)
  case (1 c d cs)
  then show ?case by (auto simp: plain_text_def)
qed (auto simp: plain_text_def)

lemma between_Cons:
  "m \<noteq> slash \<or> take 2 ms \<noteq> [Deep, slash] \<Longrightarrow> between (m # ms) = Keep m # between ms"
  by (cases ms; cases "tl ms") auto

lemma trail_Cons: "m \<noteq> Keep slash \<or> ms \<noteq> [Keep Deep] \<Longrightarrow> trail (m # ms) = plain m # trail ms"
  by (cases ms; cases "tl ms") auto

lemma take2_chr [simp]: "take 2 (map Chr d) \<noteq> [Deep, slash]" "take 2 (map Chr d @ [slash, Deep]) \<noteq> [Deep, slash]"
  by (cases d; cases "tl d"; simp add: numeral_2_eq_2)+

lemma between_plain: "between (map Chr d) = map (\<lambda>c. Keep (Chr c)) d"
  by (induction d) (simp_all add: between_Cons)

lemma between_dir: "between (map Chr d @ [slash, Deep]) = map (\<lambda>c. Keep (Chr c)) d @ [Keep slash, Keep Deep]"
proof (induction d)
  case (Cons c d)
  have "between (Chr c # (map Chr d @ [slash, Deep])) = Keep (Chr c) # between (map Chr d @ [slash, Deep])"
    by (rule between_Cons) (simp only: take2_chr simp_thms)
  then show ?case using Cons by simp
qed simp

lemma trail_plain: "trail (map (\<lambda>c. Keep (Chr c)) d) = map Lit d"
proof (induction d)
  case (Cons c d)
  have "map (\<lambda>c. Keep (Chr c)) d \<noteq> [Keep Deep]" by (auto simp: map_eq_Cons_conv)
  then show ?case using Cons by (simp add: trail_Cons)
qed simp

lemma trail_dir: "trail (map (\<lambda>c. Keep (Chr c)) d @ [Keep slash, Keep Deep]) = map Lit d @ [Trailing]"
  by (induction d) (simp_all add: trail_Cons)

lemma lead_plain [simp]: "lead (map (\<lambda>c. Keep (Chr c)) d @ ms) =
    (case d of [] \<Rightarrow> lead ms | _ \<Rightarrow> ([], map (\<lambda>c. Keep (Chr c)) d @ ms))"
  by (cases d) simp_all

lemma pieces_dir: "plain_text d \<Longrightarrow> pieces (d @ ''/**'') = map Lit d @ [Trailing]"
  using trail_dir [of d]
  by (cases d) (simp_all add: pieces_def marks_plain_append [simplified] between_dir
      marks_plain_append [of "_ # _", simplified] between_dir [of "_ # _", simplified])

lemma marks_any: "plain_text n \<Longrightarrow> marks (''**/'' @ n) = Deep # slash # map Chr n"
  by (cases n) (auto simp: plain_text_def marks_plain [unfolded plain_text_def])

lemma between_any: "between (Deep # slash # map Chr n) = Keep Deep # Keep slash # map (\<lambda>c. Keep (Chr c)) n"
  by (simp add: between_Cons between_plain)

lemma pieces_plain: "plain_text n \<Longrightarrow> pieces n = map Lit n"
  using trail_plain [of n] by (cases n) (simp_all add: pieces_def marks_plain between_plain
      marks_plain [of "_ # _", simplified] between_plain [of "_ # _", simplified])

lemma pieces_any: "plain_text n \<Longrightarrow> pieces (''**/'' @ n) = Leading # map Lit n"
  by (simp only: pieces_def marks_any between_any) (simp add: trail_plain)

text \<open>
  C22. The two patterns every blocklist uses mean what they say. For a text without wildcards,
  \<open>d/**\<close> matches \<open>d\<close> itself and exactly the paths below \<open>d\<close>, and \<open>**/n\<close> matches \<open>n\<close> in the root and
  in every directory, as long as the path below or above has no line break; the text alone matches
  only itself, and a list of patterns matches what one of them matches.
\<close>

theorem glob_language:
  assumes "plain_text d"
  shows "(matchesAnyPattern f [d @ ''/**''] \<longleftrightarrow>
      f = d \<or> (\<exists>t. t \<noteq> [] \<and> list_all dot t \<and> f = d @ ''/'' @ t)) \<and>
    (matchesAnyPattern f [''**/'' @ d] \<longleftrightarrow>
      f = d \<or> (\<exists>t. t \<noteq> [] \<and> list_all dot t \<and> f = t @ ''/'' @ d)) \<and>
    (matchesAnyPattern f [d] \<longleftrightarrow> f = d) \<and>
    (matchesAnyPattern f (ps @ qs) \<longleftrightarrow> matchesAnyPattern f ps \<or> matchesAnyPattern f qs)"
proof (intro conjI)
  show "matchesAnyPattern f [d @ ''/**''] \<longleftrightarrow>
      f = d \<or> (\<exists>t. t \<noteq> [] \<and> list_all dot t \<and> f = d @ ''/'' @ t)"
    by (auto simp: matchesAnyPattern_def pieces_dir [OF assms] piece_match_lits_append list_ex_iff
        after_char_def rests1_iff split: list.splits)
  show "matchesAnyPattern f [''**/'' @ d] \<longleftrightarrow>
      f = d \<or> (\<exists>t. t \<noteq> [] \<and> list_all dot t \<and> f = t @ ''/'' @ d)"
    by (auto simp: matchesAnyPattern_def pieces_any [OF assms, simplified] piece_match_lits list_ex_iff
        after_char_def rests1_iff split: list.splits)
  show "matchesAnyPattern f [d] \<longleftrightarrow> f = d"
    by (simp add: matchesAnyPattern_def pieces_plain [OF assms] piece_match_lits)
  show "matchesAnyPattern f (ps @ qs) \<longleftrightarrow> matchesAnyPattern f ps \<or> matchesAnyPattern f qs"
    by (simp add: matchesAnyPattern_def)
qed

theorem glob_language_witness:
  "matchesAnyPattern ''infra/db/x.sql'' [''infra/**''] \<and> \<not> matchesAnyPattern ''infra2/x'' [''infra/**'']"
proof -
  have p: "plain_text ''infra''" by (simp add: plain_text_def)
  have "list_all dot ''db/x.sql''" by (simp add: dot_def)
  then show ?thesis
    using glob_language [OF p, of "''infra/db/x.sql''" "[]" "[]"]
      glob_language [OF p, of "''infra2/x''" "[]" "[]"]
    by auto
qed

end
