(* ===== verification/Types.thy ===== *)
theory Types
  imports Prelude
begin

text \<open>
  The data of the pipeline, from \<open>packages/core/src/types.ts\<close>: stages, pipeline and repository
  configurations, review findings, handoff artifacts, run statuses and stage results. An optional
  field is an \<open>option\<close>; the field names carry the initials of their type, because Isabelle's record
  fields share one name space. The bounds that the zod schemas put on the numbers are the predicate
  \<open>PipelineConfigSchema\<close>. Tokens, counts and line numbers are integers in the schemas and natural
  numbers here.
\<close>

section \<open>Stages and statuses\<close>

datatype stage = Triage | AwaitApproval | Reproduce | Implement | Test | Review

definition AGENT_STAGES :: "stage list" where
  "AGENT_STAGES = [Triage, Reproduce, Implement, Test, Review]"

fun stage_name :: "stage \<Rightarrow> string" where
  "stage_name Triage = ''triage''"
| "stage_name AwaitApproval = ''await-approval''"
| "stage_name Reproduce = ''reproduce''"
| "stage_name Implement = ''implement''"
| "stage_name Test = ''test''"
| "stage_name Review = ''review''"

lemma stage_name_inject [simp]: "stage_name a = stage_name b \<longleftrightarrow> a = b"
  by (cases a; cases b) simp_all

datatype retry_strategy = FixAndRetry | Escalate | FailFast

text \<open>
  \<open>PipelineRunStatus\<close>, and the status \<open>retriable\<close>, which the runner stores in the same column
  with a cast.
\<close>

datatype run_status =
    Queued | Running | Completed | Failed | Aborted | Paused | Cancelled | Retriable

datatype stage_run_status = SRunning | SCompleted | SFailed | SSkipped | SCancelled

section \<open>Findings and handoffs\<close>

datatype severity = Blocking | Warning | Suggestion

record finding =
  fi_severity :: severity
  fi_file :: string
  fi_line :: int
  fi_category :: string
  fi_description :: string
  fi_fix :: string

record handoff =
  ha_runId :: run_id
  ha_issueId :: issue_id
  ha_stage :: string
  ha_summary :: string
  ha_filesChanged :: "string list"
  ha_approach :: string
  ha_issueIntent :: string
  ha_constraints :: "string list"
  ha_assumptions :: "string list"
  ha_reviewFindings :: "finding list option"

definition blocking :: "finding \<Rightarrow> bool" where
  "blocking f \<longleftrightarrow> fi_severity f = Blocking"

text \<open>\<open>handoff?.context?.reviewFindings ?? []\<close>, the findings of a possibly missing handoff.\<close>

definition findings_of :: "handoff option \<Rightarrow> finding list" where
  "findings_of h =
     (case h of None \<Rightarrow> [] | Some a \<Rightarrow> (case ha_reviewFindings a of None \<Rightarrow> [] | Some fs \<Rightarrow> fs))"

section \<open>Configurations\<close>

record retry_config =
  rc_maxAttempts :: nat
  rc_strategy :: retry_strategy

record thresholds =
  th_changedFiles :: nat
  th_totalLines :: nat
  th_newPublicExports :: nat

datatype merge_method = MergeCommit | Squash | Rebase

record auto_merge_config =
  am_minimumApprovingReviews :: "nat option"
  am_requiredStatusChecks :: "string list option"
  am_requiredLabels :: "string list option"
  am_allowedBranches :: "string list option"
  am_mergeMethod :: "merge_method option"

record reviewers =
  rv_users :: "string list"
  rv_teams :: "string list"

record policy =
  po_pathBlocklist :: "string list"
  po_maxTokensPerIssue :: "nat option"
  po_overrideLabel :: string
  po_mandatoryReviewers :: "reviewers option"

datatype pr_strategy = Draft | Ready

record pipeline_config =
  pc_name :: string
  pc_stages :: "stage list"
  pc_retry :: retry_config
  pc_requiredApprovals :: nat
  pc_prStrategy :: pr_strategy
  pc_validateHandoffs :: "bool option"
  pc_ralphIterations :: "nat option"
  pc_reviewFixIterations :: "nat option"
  pc_deepReviewPasses :: "nat option"
  pc_maxDeepReviewPasses :: "nat option"
  pc_autoDeepReviewThresholds :: "thresholds option"
  pc_deepReviewFindingsAreBlocking :: "bool option"
  pc_autoMerge :: "bool option"
  pc_autoMergeMaxLines :: "nat option"
  pc_autoMergeExcludePatterns :: "string list option"
  pc_autoMergeConfig :: "auto_merge_config option"
  pc_maxTokens :: "nat option"
  pc_stageModels :: "(string, string) js_map"
  pc_failOnAutoCommit :: "bool option"
  pc_policy :: "policy option"

definition opt_le :: "nat option \<Rightarrow> nat \<Rightarrow> bool" where
  "opt_le x n \<longleftrightarrow> (case x of None \<Rightarrow> True | Some k \<Rightarrow> k \<le> n)"

definition opt_pos :: "nat option \<Rightarrow> bool" where
  "opt_pos x \<longleftrightarrow> (case x of None \<Rightarrow> True | Some k \<Rightarrow> 0 < k)"

definition PipelineConfigSchema :: "pipeline_config \<Rightarrow> bool" where
  "PipelineConfigSchema c \<longleftrightarrow>
     pc_stages c \<noteq> [] \<and>
     opt_le (pc_ralphIterations c) 5 \<and>
     opt_le (pc_reviewFixIterations c) 5 \<and>
     opt_le (pc_deepReviewPasses c) 5 \<and>
     opt_pos (pc_maxDeepReviewPasses c) \<and> opt_le (pc_maxDeepReviewPasses c) 10 \<and>
     opt_pos (pc_autoMergeMaxLines c) \<and>
     opt_pos (pc_maxTokens c) \<and>
     (case pc_policy c of None \<Rightarrow> True
      | Some p \<Rightarrow> opt_pos (po_maxTokensPerIssue p) \<and> po_overrideLabel p \<noteq> [])"

datatype provider = GitHub | GitLab | Bitbucket

record repo_config =
  rp_url :: string
  rp_defaultBranch :: string
  rp_testCommand :: string
  rp_buildCommand :: string
  rp_setupCommands :: "string list list option"
  rp_provider :: "provider option"
  rp_labelPattern :: "string option"

record sanitized_issue =
  si_id :: issue_id
  si_slug :: string
  si_title :: string
  si_description :: string
  si_acceptanceCriteria :: "string list"
  si_labels :: "string list"
  si_priority :: int

section \<open>Runs and results\<close>

datatype stage_outcome = StageCompleted | StageFailed | StageCancelled

record stage_result =
  re_status :: stage_outcome
  re_handoff :: "handoff option"
  re_structured :: "bool option"
  re_inputTokens :: nat
  re_outputTokens :: nat
  re_errorMessage :: "string option"
  re_stageRunId :: string
  re_newSessionId :: "string option"

text \<open>
  The in-memory \<open>PipelineRun\<close>; \<open>pr_retryCount\<close> is the field that \<open>resume\<close> adds to it, missing on
  a fresh start.
\<close>

record pipeline_run =
  pr_id :: run_id
  pr_issueId :: issue_id
  pr_issueTitle :: string
  pr_pipelineKey :: string
  pr_repoUrl :: string
  pr_branch :: "string option"
  pr_status :: run_status
  pr_prUrl :: "string option"
  pr_totalInputTokens :: nat
  pr_totalOutputTokens :: nat
  pr_autoMerged :: "bool option"
  pr_autoMergeReason :: "string option"
  pr_autoCommitted :: "bool option"
  pr_stageRetries :: "(string, nat) js_map"
  pr_runType :: "string option"
  pr_retryCount :: "nat option"

record pipeline_error =
  pe_stage :: string
  pe_message :: string
  pe_retriesExhausted :: bool

text \<open>The context a paused or interrupted run needs, \<open>ResumePayloadSchema\<close>.\<close>

record resume_payload =
  pl_worktreePath :: string
  pl_currentStageIndex :: int
  pl_handoff :: "handoff option"
  pl_pipelineConfig :: pipeline_config
  pl_repoConfig :: repo_config
  pl_sanitizedIssue :: sanitized_issue

text \<open>What the notifier is told, \<open>Notifier\<close>.\<close>

datatype notification =
    OnPipelineStart run_id
  | OnStageComplete run_id string stage_outcome
  | OnPipelineComplete run_id string
  | OnPipelineFailed run_id pipeline_error
  | OnHumanReviewNeeded run_id string string
  | OnTokenBudgetAlert run_id nat nat

text \<open>
  The audit events of the modelled operations, with the fields their constructors in
  \<open>audit/events.ts\<close> and \<open>audit/policy-release-events.ts\<close> carry.
\<close>

datatype gate_type = PathGate | CostGate

datatype audit_event =
    SkippedExistingBranch issue_id string string
  | StaleBranchRecovered issue_id string run_id
  | AgentSessionCreated run_id issue_id string
  | RestartInterruptRecovered run_id issue_id string millis
  | PolicyOverrideUsed run_id issue_id gate_type string
  | PolicyPathBlocked run_id string string
  | PolicyCostExceeded run_id nat nat string
  | PolicyReviewersRequested run_id string "string list" "string list"
  | SurgicalReviewFix run_id issue_id bool nat
  | AutoDeepReviewBumped run_id issue_id nat nat
  | ScratchFilesBlocked run_id issue_id "string list"
  | TypecheckFailed run_id issue_id nat "string list"
  | SpecVsImplFailed run_id issue_id nat

section \<open>Review comments\<close>

text \<open>A comment as the webhooks report it, and the context the implementing agent is given.\<close>

record feedback_comment =
  fb_commentId :: string
  fb_author :: string
  fb_body :: string
  fb_filePath :: "string option"
  fb_lineNumber :: "nat option"

record review_comment =
  rm_author :: string
  rm_body :: string
  rm_file :: "string option"
  rm_line :: "nat option"
  rm_createdAt :: string

record review_feedback =
  rf_prUrl :: string
  rf_prBranch :: string
  rf_comments :: "review_comment list"

end
