(* ===== verification/Policy.thy ===== *)
theory Policy
  imports Types Glob
begin

text \<open>
  The organisation policy of \<open>packages/core/src/policy\<close>: the path blocklist (\<open>path-gate.ts\<close>), the cost
  limit (\<open>cost-gate.ts\<close>), the override label (\<open>override.ts\<close>), their composition
  (\<open>evaluate.ts\<close>) and the mandatory reviewers (\<open>reviewer-gate.ts\<close>). The policy record of the
  model is the \<open>Policy\<close> of \<open>types.ts\<close>. What the GitHub API answers is an argument; a call that
  throws is \<open>Inl\<close> with the message.
\<close>

section \<open>The gates\<close>

record violation =
  vi_gate :: gate_type
  vi_detail :: string
  vi_path :: "string option"
  vi_pattern :: "string option"
  vi_tokensUsed :: nat
  vi_limit :: nat
  vi_stage :: string

definition path_violation :: "string \<Rightarrow> string \<Rightarrow> violation" where
  "path_violation file pattern =
     \<lparr>vi_gate = PathGate, vi_detail = file @ '' matches '' @ pattern, vi_path = Some file,
      vi_pattern = Some pattern, vi_tokensUsed = 0, vi_limit = 0, vi_stage = []\<rparr>"

definition evaluatePathBlocklist :: "string list \<Rightarrow> string list \<Rightarrow> violation list" where
  "evaluatePathBlocklist changedFiles patterns =
     (if patterns = [] then []
      else concat (map (\<lambda>file. map (path_violation file)
             (filter (\<lambda>pattern. matchesAnyPattern file [pattern]) patterns)) changedFiles))"

definition evaluateCostGate :: "nat \<Rightarrow> nat option \<Rightarrow> string \<Rightarrow> violation option" where
  "evaluateCostGate tokensUsed limit stg =
     (case limit of
        None \<Rightarrow> None
      | Some l \<Rightarrow>
          if tokensUsed \<le> l then None
          else Some \<lparr>vi_gate = CostGate,
            vi_detail = ''token usage '' @ show_nat tokensUsed @ '' exceeds per-issue limit '' @
              show_nat l @ '' after '' @ stg,
            vi_path = None, vi_pattern = None, vi_tokensUsed = tokensUsed, vi_limit = l,
            vi_stage = stg\<rparr>)"

text \<open>The labels of the issue, or \<open>None\<close> when reading them throws.\<close>

definition hasOverrideLabel :: "string list option \<Rightarrow> string \<Rightarrow> bool" where
  "hasOverrideLabel labels labelName =
     (case labels of
        None \<Rightarrow> False
      | Some ls \<Rightarrow> list_ex (\<lambda>l. toLowerCase l = toLowerCase labelName) ls)"

record gate_input =
  gi_runId :: run_id
  gi_issueId :: issue_id
  gi_labels :: "string list option"
  gi_policy :: "policy option"
  gi_changedFiles :: "string list"
  gi_tokensUsed :: nat
  gi_stage :: string

record gate_result =
  gr_violations :: "violation list"
  gr_overrideActive :: bool
  gr_shouldDraft :: bool

definition path_event :: "run_id \<Rightarrow> violation \<Rightarrow> audit_event" where
  "path_event run v = PolicyPathBlocked run (case vi_path v of None \<Rightarrow> [] | Some p \<Rightarrow> p)
     (case vi_pattern v of None \<Rightarrow> [] | Some p \<Rightarrow> p)"

text \<open>The result and the audit events, in the order they are logged.\<close>

definition evaluatePolicyGates :: "gate_input \<Rightarrow> gate_result \<times> audit_event list" where
  "evaluatePolicyGates i =
     (case gi_policy i of
        None \<Rightarrow> (\<lparr>gr_violations = [], gr_overrideActive = False, gr_shouldDraft = False\<rparr>, [])
      | Some p \<Rightarrow>
          (let overrideActive = hasOverrideLabel (gi_labels i) (po_overrideLabel p);
               pathViolations = evaluatePathBlocklist (gi_changedFiles i) (po_pathBlocklist p);
               costViolation = evaluateCostGate (gi_tokensUsed i) (po_maxTokensPerIssue p) (gi_stage i);
               all = pathViolations @ (case costViolation of None \<Rightarrow> [] | Some v \<Rightarrow> [v])
           in if all = []
              then (\<lparr>gr_violations = [], gr_overrideActive = False, gr_shouldDraft = False\<rparr>, [])
              else if overrideActive
              then (\<lparr>gr_violations = all, gr_overrideActive = True, gr_shouldDraft = False\<rparr>,
                 (if pathViolations \<noteq> []
                  then [PolicyOverrideUsed (gi_runId i) (gi_issueId i) PathGate (po_overrideLabel p)]
                  else []) @
                 (if costViolation \<noteq> None
                  then [PolicyOverrideUsed (gi_runId i) (gi_issueId i) CostGate (po_overrideLabel p)]
                  else []))
              else (\<lparr>gr_violations = all, gr_overrideActive = False, gr_shouldDraft = True\<rparr>,
                 map (path_event (gi_runId i)) pathViolations @
                 (case costViolation of None \<Rightarrow> []
                  | Some v \<Rightarrow> [PolicyCostExceeded (gi_runId i) (vi_tokensUsed v) (vi_limit v)
                                (vi_stage v)]))))"

section \<open>Mandatory reviewers\<close>

definition buildReviewerRequest :: "policy option \<Rightarrow> reviewers option" where
  "buildReviewerRequest p =
     (case Option.bind p po_mandatoryReviewers of
        None \<Rightarrow> None
      | Some r \<Rightarrow> if rv_users r = [] \<and> rv_teams r = [] then None else Some r)"

definition TEAM_CACHE_TTL_MS :: millis where
  "TEAM_CACHE_TTL_MS = 15 * 60 * 1000"

record team_entry =
  te_members :: "string list"
  te_expiresAt :: millis

type_synonym team_cache = "(string, team_entry) js_map"

definition cache_key :: "string \<Rightarrow> string \<Rightarrow> string" where
  "cache_key owner team = owner @ [CHR 0x00] @ team"

record review =
  rw_login :: "string option"
  rw_state :: string

text \<open>The map of the latest state by lower-cased login: later reviews overwrite earlier ones.\<close>

definition latestByUser :: "review list \<Rightarrow> (string, string) js_map" where
  "latestByUser reviews =
     foldl (\<lambda>m r. case rw_login r of None \<Rightarrow> m | Some l \<Rightarrow> mapSet m (toLowerCase l) (rw_state r)) [] reviews"

definition approved_logins :: "review list \<Rightarrow> string list" where
  "approved_logins reviews = map fst (filter (\<lambda>(l, st). st = ''APPROVED'') (latestByUser reviews))"

text \<open>The members of a team, from the cache while the entry is fresh, from the API otherwise.\<close>

definition team_members ::
  "(string \<Rightarrow> string + string list) \<Rightarrow> millis \<Rightarrow> string \<Rightarrow> string \<Rightarrow> team_cache \<Rightarrow>
   string + (string list \<times> team_cache)" where
  "team_members api now owner team cache =
     (case mapGet cache (cache_key owner team) of
        Some e \<Rightarrow>
          if now < te_expiresAt e then Inr (te_members e, cache)
          else (case api team of
                  Inl err \<Rightarrow> Inl err
                | Inr ms \<Rightarrow> Inr (map toLowerCase ms, mapSet cache (cache_key owner team)
                    \<lparr>te_members = map toLowerCase ms, te_expiresAt = now + TEAM_CACHE_TTL_MS\<rparr>))
      | None \<Rightarrow>
          (case api team of
             Inl err \<Rightarrow> Inl err
           | Inr ms \<Rightarrow> Inr (map toLowerCase ms, mapSet cache (cache_key owner team)
               \<lparr>te_members = map toLowerCase ms, te_expiresAt = now + TEAM_CACHE_TTL_MS\<rparr>)))"

text \<open>The loop over the required teams: the teams nobody approved for, in order.\<close>

fun missing_teams ::
  "(string \<Rightarrow> string + string list) \<Rightarrow> millis \<Rightarrow> string \<Rightarrow> string list \<Rightarrow> string list \<Rightarrow> team_cache \<Rightarrow>
   string + (string list \<times> team_cache)" where
  "missing_teams api now owner approved [] cache = Inr ([], cache)"
| "missing_teams api now owner approved (t # ts) cache =
     (case team_members api now owner t cache of
        Inl err \<Rightarrow> Inl err
      | Inr (ms, cache1) \<Rightarrow>
          (case missing_teams api now owner approved ts cache1 of
             Inl err \<Rightarrow> Inl err
           | Inr (missing, cache2) \<Rightarrow>
               Inr (if list_ex (\<lambda>u. u \<in> set ms) approved then missing else t # missing, cache2)))"

record verification =
  ve_satisfied :: bool
  ve_missingUsers :: "string list"
  ve_missingTeams :: "string list"

definition verifyApprovalsReceived ::
  "string + review list \<Rightarrow> (string \<Rightarrow> string + string list) \<Rightarrow> millis \<Rightarrow> string \<Rightarrow> reviewers \<Rightarrow>
   team_cache \<Rightarrow> string + (verification \<times> team_cache)" where
  "verifyApprovalsReceived reviews api now owner required cache =
     (if rv_users required = [] \<and> rv_teams required = []
      then Inr (\<lparr>ve_satisfied = True, ve_missingUsers = [], ve_missingTeams = []\<rparr>, cache)
      else (case reviews of
              Inl err \<Rightarrow> Inl err
            | Inr rs \<Rightarrow>
                (let approved = approved_logins rs;
                     missingUsers = filter (\<lambda>u. toLowerCase u \<notin> set approved) (rv_users required)
                 in case missing_teams api now owner approved (rv_teams required) cache of
                      Inl err \<Rightarrow> Inl err
                    | Inr (missingTeams, cache1) \<Rightarrow>
                        Inr (\<lparr>ve_satisfied = (missingUsers = [] \<and> missingTeams = []),
                              ve_missingUsers = missingUsers, ve_missingTeams = missingTeams\<rparr>,
                             cache1))))"

section \<open>Properties of the gates\<close>

lemma blocklist_paths:
  "v \<in> set (evaluatePathBlocklist files patterns) \<longleftrightarrow>
     (\<exists>f \<in> set files. \<exists>p \<in> set patterns. matchesAnyPattern f [p] \<and> v = path_violation f p)"
  by (auto simp: evaluatePathBlocklist_def)

lemma blocklist_empty:
  "evaluatePathBlocklist files patterns = [] \<longleftrightarrow>
     (\<forall>f \<in> set files. \<not> matchesAnyPattern f patterns)"
  by (auto simp: evaluatePathBlocklist_def filter_empty_conv matchesAnyPattern_def list_ex_iff)

lemma cost_gate_None: "evaluateCostGate n l s = None \<longleftrightarrow> (\<forall>k. l = Some k \<longrightarrow> n \<le> k)"
  by (auto simp: evaluateCostGate_def split: option.split)

definition policy_broken :: "gate_input \<Rightarrow> policy \<Rightarrow> bool" where
  "policy_broken i p \<longleftrightarrow> (\<exists>f \<in> set (gi_changedFiles i). matchesAnyPattern f (po_pathBlocklist p)) \<or>
     (\<exists>k. po_maxTokensPerIssue p = Some k \<and> k < gi_tokensUsed i)"

lemma gates_all_empty:
  "evaluatePathBlocklist (gi_changedFiles i) (po_pathBlocklist p) @
     (case evaluateCostGate (gi_tokensUsed i) (po_maxTokensPerIssue p) (gi_stage i) of
        None \<Rightarrow> [] | Some v \<Rightarrow> [v]) = [] \<longleftrightarrow> \<not> policy_broken i p"
  using cost_gate_None [of "gi_tokensUsed i" "po_maxTokensPerIssue p" "gi_stage i"]
  by (cases "evaluateCostGate (gi_tokensUsed i) (po_maxTokensPerIssue p) (gi_stage i)")
     (auto simp: policy_broken_def blocklist_empty not_less)

lemma policy_gates:
  "gr_shouldDraft (fst (evaluatePolicyGates i)) =
     (\<exists>p. gi_policy i = Some p \<and> policy_broken i p \<and> \<not> hasOverrideLabel (gi_labels i) (po_overrideLabel p)) \<and>
   gr_overrideActive (fst (evaluatePolicyGates i)) =
     (\<exists>p. gi_policy i = Some p \<and> policy_broken i p \<and> hasOverrideLabel (gi_labels i) (po_overrideLabel p)) \<and>
   (gr_violations (fst (evaluatePolicyGates i)) = []) =
     (\<nexists>p. gi_policy i = Some p \<and> policy_broken i p) \<and>
   (snd (evaluatePolicyGates i) = []) = (gr_violations (fst (evaluatePolicyGates i)) = [])"
proof (cases "gi_policy i")
  case None
  then show ?thesis by (simp add: evaluatePolicyGates_def)
next
  case (Some p)
  let ?pv = "evaluatePathBlocklist (gi_changedFiles i) (po_pathBlocklist p)"
  let ?cv = "evaluateCostGate (gi_tokensUsed i) (po_maxTokensPerIssue p) (gi_stage i)"
  show ?thesis
  proof (cases "policy_broken i p")
    case False
    then show ?thesis
      using gates_all_empty [of i p] Some by (simp add: evaluatePolicyGates_def Let_def)
  next
    case True
    then have "?pv \<noteq> [] \<or> ?cv \<noteq> None"
      using gates_all_empty [of i p] by (auto split: option.splits)
    then show ?thesis
      using True Some
      by (cases "?pv = []"; cases ?cv) (auto simp: evaluatePolicyGates_def Let_def)
  qed
qed

lemma policy_draft_iff:
  "gr_shouldDraft (fst (evaluatePolicyGates i)) =
     (\<exists>p. gi_policy i = Some p \<and> policy_broken i p \<and> \<not> hasOverrideLabel (gi_labels i) (po_overrideLabel p))"
  using policy_gates [of i] by blast

text \<open>
  The policy gates are exact. A draft is forced if and only if there is a policy, a changed file
  matches a blocked pattern or the tokens exceed the limit, and no label of the issue is the
  override label up to case; the override is reported active exactly when it was needed and used,
  every violation is recorded, and an audit event is written if and only if there is a violation.
\<close>

theorem policy_gates_exact:
  "gr_shouldDraft (fst (evaluatePolicyGates i)) =
     (\<exists>p. gi_policy i = Some p \<and> policy_broken i p \<and> \<not> hasOverrideLabel (gi_labels i) (po_overrideLabel p)) \<and>
   gr_overrideActive (fst (evaluatePolicyGates i)) =
     (\<exists>p. gi_policy i = Some p \<and> policy_broken i p \<and> hasOverrideLabel (gi_labels i) (po_overrideLabel p)) \<and>
   (gr_violations (fst (evaluatePolicyGates i)) = []) =
     (\<nexists>p. gi_policy i = Some p \<and> policy_broken i p) \<and>
   (snd (evaluatePolicyGates i) = []) = (gr_violations (fst (evaluatePolicyGates i)) = [])"
  by (rule policy_gates)

section \<open>Properties of the reviewers\<close>

text \<open>The state of the last review of a login.\<close>

definition last_state :: "review list \<Rightarrow> string \<Rightarrow> string option" where
  "last_state rs l = map_option rw_state (find (\<lambda>r. map_option toLowerCase (rw_login r) = Some l) (rev rs))"

lemma latest_map_of: "map_of (latestByUser rs) l = last_state rs l"
proof (induction rs rule: rev_induct)
  case Nil
  then show ?case by (simp add: latestByUser_def last_state_def)
next
  case (snoc r rs)
  have "latestByUser (rs @ [r]) = (case rw_login r of None \<Rightarrow> latestByUser rs
      | Some u \<Rightarrow> mapSet (latestByUser rs) (toLowerCase u) (rw_state r))"
    by (simp add: latestByUser_def split: option.split)
  then show ?case
    using snoc by (auto simp: last_state_def split: option.split)
qed

lemma latest_distinct: "distinct (map fst (latestByUser rs))"
  by (induction rs rule: rev_induct)
     (auto simp: latestByUser_def distinct_update split: option.split)

lemma approved_iff: "l \<in> set (approved_logins rs) \<longleftrightarrow> last_state rs l = Some ''APPROVED''"
proof -
  have "l \<in> set (approved_logins rs) \<longleftrightarrow> (l, ''APPROVED'') \<in> set (latestByUser rs)"
    by (force simp: approved_logins_def)
  then show ?thesis
    using latest_distinct [of rs] by (simp add: map_of_eq_Some_iff flip: latest_map_of)
qed

text \<open>The members the gate counts for a team: those of a fresh entry, else those of the API.\<close>

definition counted_members ::
  "(string \<Rightarrow> string + string list) \<Rightarrow> millis \<Rightarrow> string \<Rightarrow> team_cache \<Rightarrow> string \<Rightarrow> string list" where
  "counted_members api now owner cache team =
     (case team_members api now owner team cache of Inl err \<Rightarrow> [] | Inr (ms, c) \<Rightarrow> ms)"

lemma cache_key_inject: "cache_key o1 t1 = cache_key o1 t2 \<longleftrightarrow> t1 = t2"
  by (simp add: cache_key_def)

lemma counted_members_after:
  assumes "team_members api now owner t cache = Inr (ms, cache')"
  shows "counted_members api now owner cache' u = counted_members api now owner cache u"
proof (cases "u = t")
  case False
  then have "mapGet cache' (cache_key owner u) = mapGet cache (cache_key owner u)"
    using assms by (auto simp: team_members_def cache_key_inject split: option.splits if_splits sum.splits)
  then show ?thesis
    by (simp add: counted_members_def team_members_def split: option.split sum.split)
next
  case True
  then show ?thesis
    using assms
    by (auto simp: counted_members_def team_members_def TEAM_CACHE_TTL_MS_def
        split: option.splits if_splits sum.splits)
qed

lemma missing_teams_iff:
  "missing_teams api now owner approved ts cache = Inr (missing, cache') \<Longrightarrow>
   missing = filter (\<lambda>t. set (counted_members api now owner cache t) \<inter> set approved = {}) ts"
proof (induction ts arbitrary: cache missing cache')
  case Nil
  then show ?case by simp
next
  case (Cons t ts)
  obtain ms c1 where 1: "team_members api now owner t cache = Inr (ms, c1)"
    using Cons.prems by (auto split: sum.splits)
  obtain rest c2 where 2: "missing_teams api now owner approved ts c1 = Inr (rest, c2)"
    using Cons.prems 1 by (auto split: sum.splits)
  have "rest = filter (\<lambda>t. set (counted_members api now owner cache t) \<inter> set approved = {}) ts"
    using Cons.IH [OF 2] counted_members_after [OF 1] by simp
  moreover have "counted_members api now owner cache t = ms"
    by (simp add: counted_members_def 1)
  ultimately show ?case
    using Cons.prems 1 2 by (auto simp: list_ex_iff disjoint_iff)
qed

text \<open>
  Mandatory reviews cannot be satisfied by a withdrawn approval. When the check answers at all,
  it is satisfied if and only if the last review of every required user is an approval and every
  required team has a member (of the cached roster while it is fresh, of GitHub's otherwise) whose
  last review is an approval.
\<close>

theorem reviewer_gate_exact:
  assumes "verifyApprovalsReceived (Inr rs) api now owner required cache = Inr (v, cache')"
  shows "ve_satisfied v \<longleftrightarrow>
    (\<forall>u \<in> set (rv_users required). last_state rs (toLowerCase u) = Some ''APPROVED'') \<and>
    (\<forall>t \<in> set (rv_teams required). \<exists>m \<in> set (counted_members api now owner cache t).
       last_state rs m = Some ''APPROVED'')"
proof (cases "rv_users required = [] \<and> rv_teams required = []")
  case True
  then show ?thesis using assms by (auto simp: verifyApprovalsReceived_def)
next
  case False
  then obtain missing c where m: "missing_teams api now owner (approved_logins rs) (rv_teams required) cache
      = Inr (missing, c)"
    using assms by (auto simp: verifyApprovalsReceived_def Let_def split: sum.splits)
  have "ve_satisfied v \<longleftrightarrow> filter (\<lambda>u. toLowerCase u \<notin> set (approved_logins rs)) (rv_users required) = [] \<and>
      missing = []"
    using assms False m by (auto simp: verifyApprovalsReceived_def Let_def)
  then show ?thesis
    unfolding missing_teams_iff [OF m] by (auto simp: filter_empty_conv approved_iff disjoint_iff)
qed

theorem reviewer_gate_exact_witness:
  "\<exists>v c. verifyApprovalsReceived (Inr [\<lparr>rw_login = Some ''Ann'', rw_state = ''APPROVED''\<rparr>,
       \<lparr>rw_login = Some ''ann'', rw_state = ''CHANGES_REQUESTED''\<rparr>]) (\<lambda>t. Inr [''Ann'']) 0 ''o''
       \<lparr>rv_users = [], rv_teams = [''sec'']\<rparr> [] = Inr (v, c) \<and> \<not> ve_satisfied v"
proof -
  let ?rs = "[\<lparr>rw_login = Some ''Ann'', rw_state = ''APPROVED''\<rparr>,
       \<lparr>rw_login = Some ''ann'', rw_state = ''CHANGES_REQUESTED''\<rparr>]"
  let ?req = "\<lparr>rv_users = [], rv_teams = [''sec'']\<rparr>"
  obtain v c where v: "verifyApprovalsReceived (Inr ?rs) (\<lambda>t. Inr [''Ann'']) 0 ''o'' ?req [] = Inr (v, c)"
    by (simp add: verifyApprovalsReceived_def team_members_def Let_def)
  have ann: "toLowerCase ''Ann'' = ''ann''" "toLowerCase ''ann'' = ''ann''"
    by code_simp+
  then have "last_state ?rs ''ann'' = Some ''CHANGES_REQUESTED''"
    by (simp add: last_state_def)
  then have "\<not> ve_satisfied v"
    using reviewer_gate_exact [OF v] ann
    by (simp add: counted_members_def team_members_def)
  then show ?thesis using v by blast
qed

end
