(* ===== verification/ControlSignals.thy ===== *)
theory ControlSignals
  imports Prelude
begin

text \<open>
  The in-memory stop signals of the runner, \<open>packages/core/src/pipeline/control-signals.ts\<close>:
  the map of signals, the map from runs to the \<open>Set\<close> of their listeners, and the five exported
  operations. The \<open>Set\<close> objects live on a small heap, because the unsubscribe function that
  \<open>onStop\<close> returns captures the object itself: after \<open>clearStopSignal\<close> it still refers to the
  old, detached set. Listeners are opaque; \<open>fired\<close> is the log of their invocations, and an
  exception of a listener is caught and logged by the code, so it leaves no trace in the state.
\<close>

datatype stop_mode = Cancel | Graceful

type_synonym listener = nat
type_synonym set_id = nat

record ctl =
  signals :: "run_id \<rightharpoonup> stop_mode"
  listeners :: "run_id \<rightharpoonup> set_id"
  sets :: "set_id \<Rightarrow> listener list"
  next_set :: nat
  fired :: "(run_id \<times> listener) list"

definition ctl_init :: ctl where
  "ctl_init = \<lparr>signals = Map.empty, listeners = Map.empty, sets = (\<lambda>_. []),
     next_set = 0, fired = []\<rparr>"

definition subscribers :: "ctl \<Rightarrow> run_id \<Rightarrow> listener list" where
  "subscribers s r = (case listeners s r of None \<Rightarrow> [] | Some i \<Rightarrow> sets s i)"

definition requestStop :: "ctl \<Rightarrow> run_id \<Rightarrow> stop_mode \<Rightarrow> ctl \<times> stop_mode" where
  "requestStop s r mode =
     (if signals s r = Some Cancel then (s, Cancel)
      else
        (let s1 = s\<lparr>signals := (signals s)(r \<mapsto> mode)\<rparr>
         in (if mode = Cancel
             then s1\<lparr>fired := fired s1 @ map (Pair r) (subscribers s1 r)\<rparr>
             else s1, mode)))"

definition getStopSignal :: "ctl \<Rightarrow> run_id \<Rightarrow> stop_mode option" where
  "getStopSignal s r = signals s r"

definition clearStopSignal :: "ctl \<Rightarrow> run_id \<Rightarrow> ctl" where
  "clearStopSignal s r =
     s\<lparr>signals := (signals s)(r := None), listeners := (listeners s)(r := None)\<rparr>"

text \<open>
  \<open>onStop\<close> returns the new state and the captured set of its unsubscribe function. A JavaScript
  \<open>Set\<close> holds an element once, at the place of its first insertion.
\<close>

definition onStop :: "ctl \<Rightarrow> run_id \<Rightarrow> listener \<Rightarrow> ctl \<times> set_id" where
  "onStop s r l =
     (let s1 = (if signals s r = Some Cancel then s\<lparr>fired := fired s @ [(r, l)]\<rparr> else s);
          (s2, i) = (case listeners s1 r of
              Some i \<Rightarrow> (s1, i)
            | None \<Rightarrow>
                (s1\<lparr>listeners := (listeners s1)(r \<mapsto> next_set s1),
                    sets := (sets s1)(next_set s1 := []),
                    next_set := Suc (next_set s1)\<rparr>, next_set s1));
          s3 = (if l \<in> set (sets s2 i) then s2
                else s2\<lparr>sets := (sets s2)(i := sets s2 i @ [l])\<rparr>)
      in (s3, i))"

definition unsubscribe :: "ctl \<Rightarrow> set_id \<Rightarrow> listener \<Rightarrow> ctl" where
  "unsubscribe s i l = s\<lparr>sets := (sets s)(i := removeAll l (sets s i))\<rparr>"

definition clearAllSignals :: "ctl \<Rightarrow> ctl" where
  "clearAllSignals s = s\<lparr>signals := Map.empty, listeners := Map.empty\<rparr>"

datatype ctl_op =
    OpRequest run_id stop_mode
  | OpOnStop run_id listener
  | OpUnsubscribe set_id listener
  | OpClear run_id
  | OpClearAll

fun ctl_step :: "ctl \<Rightarrow> ctl_op \<Rightarrow> ctl" where
  "ctl_step s (OpRequest r m) = fst (requestStop s r m)"
| "ctl_step s (OpOnStop r l) = fst (onStop s r l)"
| "ctl_step s (OpUnsubscribe i l) = unsubscribe s i l"
| "ctl_step s (OpClear r) = clearStopSignal s r"
| "ctl_step s OpClearAll = clearAllSignals s"

definition ctl_run :: "ctl \<Rightarrow> ctl_op list \<Rightarrow> ctl" where
  "ctl_run s ops = foldl ctl_step s ops"

lemmas ctl_defs [op_defs] = requestStop_def getStopSignal_def clearStopSignal_def onStop_def
  unsubscribe_def clearAllSignals_def subscribers_def

section \<open>The invariant\<close>

text \<open>
  The sets on the heap are allocated and not shared between runs, hold no listener twice, and
  every listener subscribed to a run whose signal is \<open>cancel\<close> has been called for it.
\<close>

definition heap_ok :: "ctl \<Rightarrow> bool" where
  "heap_ok s \<longleftrightarrow>
     (\<forall>r i. listeners s r = Some i \<longrightarrow> i < next_set s) \<and>
     (\<forall>r r' i. listeners s r = Some i \<longrightarrow> listeners s r' = Some i \<longrightarrow> r = r') \<and>
     (\<forall>i. distinct (sets s i))"

definition delivered :: "ctl \<Rightarrow> bool" where
  "delivered s \<longleftrightarrow>
     (\<forall>r. signals s r = Some Cancel \<longrightarrow> (\<forall>l \<in> set (subscribers s r). (r, l) \<in> set (fired s)))"

definition ctl_inv :: "ctl \<Rightarrow> bool" where
  "ctl_inv s \<longleftrightarrow> heap_ok s \<and> delivered s"

lemma ctl_inv_init: "ctl_inv ctl_init"
  by (simp add: ctl_inv_def heap_ok_def delivered_def ctl_init_def)

lemma heap_ok_step: "heap_ok s \<Longrightarrow> heap_ok (ctl_step s op)"
proof (cases op)
  case (OpOnStop r l)
  assume inv: "heap_ok s"
  show ?thesis
  proof (cases "listeners s r")
    case None
    have fresh: "listeners s r' \<noteq> Some (next_set s)" for r'
      using inv by (auto simp: heap_ok_def)
    show ?thesis
      using inv None fresh unfolding OpOnStop
      by (auto simp: heap_ok_def onStop_def Let_def less_Suc_eq)
  next
    case (Some i)
    then show ?thesis
      using inv unfolding OpOnStop by (auto simp: heap_ok_def onStop_def Let_def)
  qed
qed (auto simp: heap_ok_def ctl_defs Let_def distinct_removeAll split: if_splits)

lemma subscribers_onStop:
  assumes "heap_ok s"
  shows "set (subscribers (fst (onStop s r l)) r') =
    (if r' = r then insert l (set (subscribers s r)) else set (subscribers s r'))"
proof (cases "listeners s r")
  case None
  have "listeners s r' \<noteq> Some (next_set s)"
    using assms by (auto simp: heap_ok_def)
  then show ?thesis
    using None by (cases "listeners s r'") (auto simp: onStop_def subscribers_def Let_def)
next
  case (Some i)
  have "listeners s r' = Some i \<Longrightarrow> r' = r"
    using assms Some by (auto simp: heap_ok_def)
  then show ?thesis
    using Some by (cases "listeners s r'") (auto simp: onStop_def subscribers_def Let_def)
qed

lemma signals_onStop [simp]: "signals (fst (onStop s r l)) = signals s"
  by (auto simp: onStop_def Let_def split: option.splits)

lemma fired_onStop:
  "fired (fst (onStop s r l)) =
     fired s @ (if signals s r = Some Cancel then [(r, l)] else [])"
  by (auto simp: onStop_def Let_def split: option.splits)

lemma delivered_step:
  assumes "heap_ok s" "delivered s"
  shows "delivered (ctl_step s op)"
proof (cases op)
  case (OpRequest r m)
  then show ?thesis
    using assms(2)
    by (auto simp: delivered_def requestStop_def subscribers_def Let_def)
next
  case (OpOnStop r l)
  show ?thesis
    unfolding OpOnStop delivered_def ctl_step.simps subscribers_onStop [OF assms(1)]
    using assms(2) by (auto simp: delivered_def fired_onStop split: if_splits)
next
  case (OpUnsubscribe i l)
  then show ?thesis
    using assms(2)
    by (auto simp: delivered_def unsubscribe_def subscribers_def split: option.splits if_splits)
next
  case (OpClear r)
  then show ?thesis
    using assms(2) by (auto simp: delivered_def clearStopSignal_def subscribers_def)
next
  case OpClearAll
  then show ?thesis
    by (auto simp: delivered_def clearAllSignals_def subscribers_def)
qed

lemma ctl_inv_step: "ctl_inv s \<Longrightarrow> ctl_inv (ctl_step s op)"
  by (simp add: ctl_inv_def heap_ok_step delivered_step)

lemma ctl_inv_run: "ctl_inv s \<Longrightarrow> ctl_inv (ctl_run s ops)"
  by (induction ops arbitrary: s) (auto simp: ctl_run_def intro: ctl_inv_step)


section \<open>The interface the runner relies on\<close>

text \<open>
  The runner only requests, reads and clears signals. The laws are what its halting operations
  need: a request is recorded at the stronger of the two modes, and other runs are not touched.
\<close>

locale stop_source =
  fixes req :: "'s \<Rightarrow> run_id \<Rightarrow> stop_mode \<Rightarrow> 's"
    and get :: "'s \<Rightarrow> run_id \<Rightarrow> stop_mode option"
    and clr :: "'s \<Rightarrow> run_id \<Rightarrow> 's"
  assumes get_req: "get (req s r m) r = (if get s r = Some Cancel then Some Cancel else Some m)"
    and get_req_other: "r' \<noteq> r \<Longrightarrow> get (req s r m) r' = get s r'"
    and get_clr: "get (clr s r) r = None"
    and get_clr_other: "r' \<noteq> r \<Longrightarrow> get (clr s r) r' = get s r'"
begin

lemma cancel_sticky: "get s r = Some Cancel \<Longrightarrow> get (req s r' m) r = Some Cancel"
  by (cases "r' = r") (auto simp: get_req get_req_other)

lemma cancel_sticky_requests:
  "get s r = Some Cancel \<Longrightarrow> get (foldl (\<lambda>s (r', m). req s r' m) s rs) r = Some Cancel"
  by (induction rs arbitrary: s) (auto intro: cancel_sticky)

lemma signalled_requests:
  "get s r \<noteq> None \<Longrightarrow> get (foldl (\<lambda>s r'. req s r' m) s rs) r \<noteq> None"
proof (induction rs arbitrary: s)
  case Nil
  then show ?case by simp
next
  case (Cons x rs)
  then show ?case by (cases "x = r") (auto simp: get_req get_req_other)
qed

lemma cancel_all:
  "r \<in> set rs \<Longrightarrow> get (foldl (\<lambda>s r. req s r Cancel) s rs) r = Some Cancel"
proof (induction rs arbitrary: s)
  case Nil
  then show ?case by simp
next
  case (Cons x rs)
  show ?case
  proof (cases "r \<in> set rs")
    case True
    then show ?thesis using Cons.IH by simp
  next
    case False
    then have "get (req s x Cancel) r = Some Cancel"
      using Cons.prems by (auto simp: get_req)
    then have "get (foldl (\<lambda>s (r', m). req s r' m) (req s x Cancel) (map (\<lambda>r. (r, Cancel)) rs)) r
        = Some Cancel"
      by (rule cancel_sticky_requests)
    then show ?thesis by (simp add: foldl_map)
  qed
qed

lemma cancel_all_other:
  "r \<notin> set rs \<Longrightarrow> get (foldl (\<lambda>s r. req s r m) s rs) r = get s r"
  by (induction rs arbitrary: s) (auto simp: get_req_other)

end

interpretation ctl: stop_source "\<lambda>s r m. fst (requestStop s r m)" getStopSignal clearStopSignal
  by unfold_locales (auto simp: ctl_defs Let_def)

lemma ctl_step_sticky:
  assumes "signals s r = Some Cancel" "op \<noteq> OpClear r" "op \<noteq> OpClearAll"
  shows "signals (ctl_step s op) r = Some Cancel"
  using assms by (cases op) (auto simp: requestStop_def clearStopSignal_def unsubscribe_def Let_def)

lemma ctl_run_sticky:
  "signals s r = Some Cancel \<Longrightarrow> OpClear r \<notin> set ops \<Longrightarrow> OpClearAll \<notin> set ops \<Longrightarrow>
   signals (ctl_run s ops) r = Some Cancel"
proof (induction ops arbitrary: s)
  case Nil
  then show ?case by (simp add: ctl_run_def)
next
  case (Cons op ops)
  then have "signals (ctl_step s op) r = Some Cancel"
    by (intro ctl_step_sticky) auto
  then show ?case using Cons by (simp add: ctl_run_def)
qed

lemma requestStop_cancelled: "signals s r = Some Cancel \<Longrightarrow> requestStop s r m = (s, Cancel)"
  by (simp add: requestStop_def)

section \<open>Properties\<close>

text \<open>
  C21. No cancel is missed. After any sequence of operations from the empty module state,
  every listener that is currently subscribed to a run whose signal is \<open>cancel\<close> has been
  called for that run, whether it subscribed before or after the request.
\<close>

theorem no_missed_cancel:
  assumes "getStopSignal (ctl_run ctl_init ops) r = Some Cancel"
    and "l \<in> set (subscribers (ctl_run ctl_init ops) r)"
  shows "(r, l) \<in> set (fired (ctl_run ctl_init ops))"
proof -
  have "delivered (ctl_run ctl_init ops)"
    using ctl_inv_run [OF ctl_inv_init] by (simp add: ctl_inv_def)
  then show ?thesis
    using assms by (simp add: delivered_def getStopSignal_def)
qed

definition demo_ops :: "ctl_op list" where
  "demo_ops = [OpOnStop ''r1'' 7, OpRequest ''r1'' Graceful, OpRequest ''r1'' Cancel,
     OpOnStop ''r1'' 8, OpRequest ''r1'' Graceful]"

theorem no_missed_cancel_witness:
  "(''r1'', 7) \<in> set (fired (ctl_run ctl_init demo_ops))"
proof -
  have 1: "getStopSignal (ctl_run ctl_init demo_ops) ''r1'' = Some Cancel"
    by (simp add: demo_ops_def ctl_run_def ctl_init_def ctl_defs Let_def)
  have 2: "7 \<in> set (subscribers (ctl_run ctl_init demo_ops) ''r1'')"
    by (simp add: demo_ops_def ctl_run_def ctl_init_def ctl_defs Let_def)
  show ?thesis by (rule no_missed_cancel [OF 1 2])
qed

text \<open>
  A cancel cannot be downgraded. Once the signal of a run is \<open>cancel\<close>, no sequence of
  operations without a clear of that run changes it; a further request, of either mode, reports
  \<open>cancel\<close>, changes nothing and calls no listener again.
\<close>

theorem cancel_not_downgraded:
  assumes "getStopSignal s r = Some Cancel"
    and "OpClear r \<notin> set ops" and "OpClearAll \<notin> set ops"
  shows "getStopSignal (ctl_run s ops) r = Some Cancel \<and>
    requestStop (ctl_run s ops) r m = (ctl_run s ops, Cancel)"
  using assms by (simp add: getStopSignal_def ctl_run_sticky requestStop_cancelled)

theorem cancel_not_downgraded_witness:
  "requestStop (ctl_run (fst (requestStop ctl_init ''r1'' Cancel)) [OpRequest ''r1'' Graceful])
     ''r1'' Graceful
   = (ctl_run (fst (requestStop ctl_init ''r1'' Cancel)) [OpRequest ''r1'' Graceful], Cancel)"
proof -
  have 1: "getStopSignal (fst (requestStop ctl_init ''r1'' Cancel)) ''r1'' = Some Cancel"
    by (simp add: ctl_init_def ctl_defs Let_def)
  show ?thesis
    using cancel_not_downgraded [OF 1, of "[OpRequest ''r1'' Graceful]" Graceful] by simp
qed

end
