(* ===== verification/WorkQueue.thy ===== *)
theory WorkQueue
  imports Prelude
begin

text \<open>
  The work queue \<open>createQueue(concurrency)\<close> of \<open>packages/core/src/pipeline/queue.ts\<close>. JavaScript
  runs one synchronous turn at a time, so the state machine has one step per turn: the call of
  \<open>enqueue\<close> up to its first real suspension, the turn in which the task settles and the
  \<open>finally\<close> block runs \<open>release\<close>, and the later turn in which a waiter whose promise was resolved
  continues behind its \<open>await\<close> (\<open>pending--; running++\<close>). Between the last two, other turns can run.
  Tasks are numbered; \<open>resolved\<close> holds the waiters whose promise is resolved and which have not
  continued yet, and \<open>active\<close> the tasks that hold a slot.
\<close>

record wqueue =
  running :: int
  pending :: int
  waiting :: "nat list"
  resolved :: "nat list"
  active :: "nat list"

definition createQueue :: wqueue where
  "createQueue = \<lparr>running = 0, pending = 0, waiting = [], resolved = [], active = []\<rparr>"

text \<open>\<open>acquire()\<close> up to the first suspension.\<close>

definition q_acquire :: "int \<Rightarrow> nat \<Rightarrow> wqueue \<Rightarrow> wqueue" where
  "q_acquire concurrency t q =
     (if running q < concurrency
      then q\<lparr>running := running q + 1, active := active q @ [t]\<rparr>
      else q\<lparr>pending := pending q + 1, waiting := waiting q @ [t]\<rparr>)"

text \<open>The rest of \<open>acquire()\<close>, behind the \<open>await\<close>, for the waiter resolved first.\<close>

definition q_continue :: "wqueue \<Rightarrow> wqueue" where
  "q_continue q =
     (case resolved q of
        [] \<Rightarrow> q
      | t # ts \<Rightarrow> q\<lparr>pending := pending q - 1, running := running q + 1,
                     resolved := ts, active := active q @ [t]\<rparr>)"

definition q_release :: "nat \<Rightarrow> wqueue \<Rightarrow> wqueue" where
  "q_release t q =
     (let q1 = q\<lparr>running := running q - 1, active := remove1 t (active q)\<rparr>
      in (case waiting q1 of
            [] \<Rightarrow> q1
          | w # ws \<Rightarrow> q1\<lparr>waiting := ws, resolved := resolved q1 @ [w]\<rparr>))"

datatype q_event = Enqueue nat | Continue | Settle nat

inductive q_step :: "int \<Rightarrow> wqueue \<Rightarrow> q_event \<Rightarrow> wqueue \<Rightarrow> bool" for c where
  enqueue: "t \<notin> set (active q) \<union> set (waiting q) \<union> set (resolved q) \<Longrightarrow>
     q_step c q (Enqueue t) (q_acquire c t q)"
| "continue": "resolved q \<noteq> [] \<Longrightarrow> q_step c q Continue (q_continue q)"
| settle: "t \<in> set (active q) \<Longrightarrow> q_step c q (Settle t) (q_release t q)"

inductive q_trace :: "int \<Rightarrow> wqueue \<Rightarrow> q_event list \<Rightarrow> wqueue \<Rightarrow> bool" for c where
  nil: "q_trace c q [] q"
| snoc: "q_trace c q es q1 \<Longrightarrow> q_step c q1 e q2 \<Longrightarrow> q_trace c q (es @ [e]) q2"

inductive_cases q_enqueueE [elim]: "q_step c q (Enqueue t) q'"
inductive_cases q_continueE [elim]: "q_step c q Continue q'"
inductive_cases q_settleE [elim]: "q_step c q (Settle t) q'"

lemmas q_defs [op_defs] = q_acquire_def q_continue_def q_release_def

section \<open>The invariant of every execution\<close>

definition q_inv :: "int \<Rightarrow> wqueue \<Rightarrow> bool" where
  "q_inv c q \<longleftrightarrow>
     running q = int (length (active q)) \<and>
     pending q = int (length (waiting q) + length (resolved q)) \<and>
     (waiting q \<noteq> [] \<longrightarrow> c \<le> running q + int (length (resolved q))) \<and>
     distinct (active q @ waiting q @ resolved q)"

lemma q_inv_init: "q_inv c createQueue"
  by (simp add: q_inv_def createQueue_def)

lemma q_inv_acquire:
  "q_inv c q \<Longrightarrow> t \<notin> set (active q) \<union> set (waiting q) \<union> set (resolved q) \<Longrightarrow>
   q_inv c (q_acquire c t q)"
  by (auto simp: q_inv_def q_acquire_def)

lemma q_inv_continue: "q_inv c q \<Longrightarrow> q_inv c (q_continue q)"
  by (auto simp: q_inv_def q_continue_def split: list.splits)

lemma q_inv_release: "q_inv c q \<Longrightarrow> t \<in> set (active q) \<Longrightarrow> q_inv c (q_release t q)"
proof -
  assume inv: "q_inv c q" and t: "t \<in> set (active q)"
  have len: "int (length (remove1 t (active q))) = int (length (active q)) - 1"
  proof -
    obtain n where "length (active q) = Suc n"
      using length_pos_if_in_set [OF t] by (metis gr0_conv_Suc)
    then show ?thesis using t by (simp add: length_remove1)
  qed
  show ?thesis
    using inv len
    by (auto simp: q_inv_def q_release_def Let_def dest: subsetD [OF set_remove1_subset] split: list.splits)
qed

lemma q_inv_step: "q_step c q e q' \<Longrightarrow> q_inv c q \<Longrightarrow> q_inv c q'"
  by (induction rule: q_step.induct) (auto intro: q_inv_acquire q_inv_continue q_inv_release)

lemma q_inv_trace: "q_trace c q es q' \<Longrightarrow> q_inv c q \<Longrightarrow> q_inv c q'"
  by (induction rule: q_trace.induct) (auto intro: q_inv_step)

section \<open>The bound on the number of running tasks\<close>

text \<open>
  A trace has no barging enqueue if no \<open>enqueue\<close> is called while a resolved waiter has not
  continued.
\<close>

inductive calm_trace :: "int \<Rightarrow> wqueue \<Rightarrow> q_event list \<Rightarrow> wqueue \<Rightarrow> bool" for c where
  nil: "calm_trace c q [] q"
| snoc: "calm_trace c q es q1 \<Longrightarrow> q_step c q1 e q2 \<Longrightarrow>
     (\<And>t. e = Enqueue t \<Longrightarrow> resolved q1 = []) \<Longrightarrow> calm_trace c q (es @ [e]) q2"

lemma calm_bound:
  "calm_trace c q es q' \<Longrightarrow> running q + int (length (resolved q)) \<le> c \<Longrightarrow>
   running q' + int (length (resolved q')) \<le> c"
proof (induction rule: calm_trace.induct)
  case (nil q)
  then show ?case by simp
next
  case (snoc q es q1 e q2)
  have IH: "running q1 + int (length (resolved q1)) \<le> c"
    using snoc.IH snoc.prems by simp
  show ?case
    using snoc.hyps(2)
  proof cases
    case (enqueue t)
    then have "resolved q1 = []" using snoc.hyps(3) by simp
    then show ?thesis using enqueue IH by (auto simp: q_acquire_def)
  next
    case "continue"
    then show ?thesis using IH by (auto simp: q_continue_def split: list.splits)
  next
    case (settle t)
    then show ?thesis using IH by (auto simp: q_release_def Let_def split: list.splits)
  qed
qed

section \<open>Draining\<close>

definition q_load :: "wqueue \<Rightarrow> nat" where
  "q_load q = 3 * length (waiting q) + 2 * length (resolved q) + length (active q)"

lemma q_load_decreases:
  assumes "q_step c q e q'" and "\<And>t. e \<noteq> Enqueue t"
  shows "q_load q' < q_load q"
  using assms(1)
proof cases
  case (enqueue t)
  then show ?thesis using assms(2) by blast
next
  case "continue"
  then show ?thesis by (auto simp: q_load_def q_continue_def split: list.splits)
next
  case (settle t)
  then show ?thesis
    using length_pos_if_in_set [of t "active q"]
    by (auto simp: q_load_def q_release_def Let_def length_remove1 split: list.splits)
qed


lemma stuck_iff_idle:
  assumes "q_inv c q" and "1 \<le> c"
  shows "(\<forall>e q'. (\<forall>t. e \<noteq> Enqueue t) \<longrightarrow> \<not> q_step c q e q') \<longleftrightarrow>
    active q = [] \<and> waiting q = [] \<and> resolved q = []"
proof
  assume stuck: "\<forall>e q'. (\<forall>t. e \<noteq> Enqueue t) \<longrightarrow> \<not> q_step c q e q'"
  have r: "resolved q = []"
    using stuck q_step.continue [of q c] by blast
  have a: "active q = []"
  proof (rule ccontr)
    assume "active q \<noteq> []"
    then have "hd (active q) \<in> set (active q)" by simp
    then have "q_step c q (Settle (hd (active q))) (q_release (hd (active q)) q)"
      by (rule q_step.settle)
    then show False using stuck by blast
  qed
  have "waiting q = []"
    using assms a r by (auto simp: q_inv_def)
  then show "active q = [] \<and> waiting q = [] \<and> resolved q = []" using a r by simp
qed (auto elim: q_step.cases)

section \<open>Properties\<close>

text \<open>
  No wake-up is lost. In every reachable state of the queue the counters agree with the
  tasks, no task is in two places, and while a task waits, every slot is taken or handed to a
  resolved waiter: \<open>concurrency\<close> is at most the running tasks and the resolved waiters.
\<close>

theorem queue_work_conserving:
  assumes "q_trace c createQueue es q"
  shows "running q = int (length (active q)) \<and>
    pending q = int (length (waiting q) + length (resolved q)) \<and>
    distinct (active q @ waiting q @ resolved q) \<and>
    (waiting q \<noteq> [] \<longrightarrow> c \<le> running q + int (length (resolved q)))"
  using q_inv_trace [OF assms q_inv_init] unfolding q_inv_def by auto

definition q_demo1 :: wqueue where
  "q_demo1 = q_acquire 1 1 (q_acquire 1 0 createQueue)"

lemma q_demo1_trace: "q_trace 1 createQueue [Enqueue 0, Enqueue 1] q_demo1"
proof -
  have 1: "q_trace 1 createQueue ([] @ [Enqueue 0]) (q_acquire 1 0 createQueue)"
    by (rule q_trace.snoc [OF q_trace.nil q_step.enqueue]) (simp add: createQueue_def)
  have "q_trace 1 createQueue (([] @ [Enqueue 0]) @ [Enqueue 1]) q_demo1"
    unfolding q_demo1_def
    by (rule q_trace.snoc [OF 1 q_step.enqueue]) (simp add: createQueue_def q_acquire_def)
  then show ?thesis by simp
qed

theorem queue_work_conserving_witness:
  "waiting q_demo1 = [1] \<and> (1::int) \<le> running q_demo1 + int (length (resolved q_demo1))"
proof -
  have w: "waiting q_demo1 = [1]"
    by (simp add: q_demo1_def q_acquire_def createQueue_def)
  then show ?thesis
    using queue_work_conserving [OF q_demo1_trace] by simp
qed

text \<open>
  C19. Every queued task gets to run. From any reachable state of a queue with at least one slot,
  the turns of the queue itself (continuations and settlements) decrease a measure, so they
  cannot go on forever, and they stop only when no task is active, waiting or resolved.
\<close>

theorem queue_drains:
  assumes "q_trace c createQueue es q" and "1 \<le> c"
  shows "(\<forall>e q'. q_step c q e q' \<longrightarrow> (\<forall>t. e \<noteq> Enqueue t) \<longrightarrow> q_load q' < q_load q) \<and>
    ((\<forall>e q'. (\<forall>t. e \<noteq> Enqueue t) \<longrightarrow> \<not> q_step c q e q') \<longleftrightarrow>
      active q = [] \<and> waiting q = [] \<and> resolved q = [])"
  using stuck_iff_idle [OF q_inv_trace [OF assms(1) q_inv_init] assms(2)] q_load_decreases
  by blast

theorem queue_drains_witness:
  "\<not> (\<forall>e q'. (\<forall>t. e \<noteq> Enqueue t) \<longrightarrow> \<not> q_step 1 q_demo1 e q')"
proof -
  have "active q_demo1 \<noteq> []"
    by (simp add: q_demo1_def q_acquire_def createQueue_def)
  then show ?thesis
    using queue_drains [OF q_demo1_trace] by simp
qed

definition q_race :: wqueue where
  "q_race = q_continue (q_acquire 1 2 (q_release 0 q_demo1))"

lemma q_race_trace:
  "q_trace 1 createQueue [Enqueue 0, Enqueue 1, Settle 0, Enqueue 2, Continue] q_race"
proof -
  have 3: "q_trace 1 createQueue ([Enqueue 0, Enqueue 1] @ [Settle 0]) (q_release 0 q_demo1)"
    by (rule q_trace.snoc [OF q_demo1_trace q_step.settle])
       (simp add: q_demo1_def q_acquire_def createQueue_def)
  have 4: "q_trace 1 createQueue (([Enqueue 0, Enqueue 1] @ [Settle 0]) @ [Enqueue 2])
      (q_acquire 1 2 (q_release 0 q_demo1))"
    by (rule q_trace.snoc [OF 3 q_step.enqueue])
       (simp add: q_demo1_def q_defs createQueue_def Let_def)
  have "q_trace 1 createQueue ((([Enqueue 0, Enqueue 1] @ [Settle 0]) @ [Enqueue 2]) @ [Continue])
      q_race"
    unfolding q_race_def
    by (rule q_trace.snoc [OF 4 q_step.continue])
       (simp add: q_demo1_def q_defs createQueue_def Let_def)
  then show ?thesis by simp
qed

text \<open>
  The concurrency limit holds when no \<open>enqueue\<close> is called between a release and the
  continuation of the waiter it resolved, and only then: with one slot, an \<open>enqueue\<close> in that
  window is admitted at once, the waiter continues without looking at the counter, and two tasks
  run.
\<close>

theorem queue_limit:
  "(\<forall>c es q. 0 \<le> c \<longrightarrow> calm_trace c createQueue es q \<longrightarrow> running q \<le> c) \<and>
   (\<exists>es q. q_trace 1 createQueue es q \<and> active q = [2, 1] \<and> running q = 2)"
proof (intro conjI allI impI)
  fix c es q
  assume "0 \<le> c" "calm_trace c createQueue es q"
  then have "running q + int (length (resolved q)) \<le> c"
    using calm_bound [of c createQueue es q] by (simp add: createQueue_def)
  then show "running q \<le> c" by simp
next
  have "active q_race = [2, 1] \<and> running q_race = 2"
    by (simp add: q_race_def q_demo1_def q_defs createQueue_def Let_def)
  then show "\<exists>es q. q_trace 1 createQueue es q \<and> active q = [2, 1] \<and> running q = 2"
    using q_race_trace by blast
qed

theorem queue_limit_witness:
  "running (q_acquire 1 0 createQueue) \<le> 1"
proof -
  have "calm_trace 1 createQueue ([] @ [Enqueue 0]) (q_acquire 1 0 createQueue)"
    by (rule calm_trace.snoc [OF calm_trace.nil q_step.enqueue]) (simp_all add: createQueue_def)
  then show ?thesis by (rule queue_limit [THEN conjunct1, rule_format, rotated]) simp
qed

end
