(* ===== verification/BranchLock.thy ===== *)
theory BranchLock
  imports Prelude
begin

text \<open>
  The branch lock of \<open>packages/core/src/pipeline/distributed-lock.ts\<close>. A \<open>LockAdapter\<close> is a record of
  two functions; its answers may change from call to call, so \<open>tryAcquire\<close> also takes the number of
  the attempt. The clock \<open>Date.now()\<close> is a function of the attempt too. \<open>withBranchLock\<close> polls in a
  loop that has no bound of its own, so it is a partial function: \<open>None\<close> means that it never
  returns. The trace lists the calls in their order.
\<close>

record 'e lock_adapter =
  tryAcquire :: "nat \<Rightarrow> string \<Rightarrow> bool"
  release :: "string \<Rightarrow> 'e option"

datatype 'e lock_error = LockTimeoutError string int | Thrown 'e

datatype lock_event = Attempt nat bool | RunFn | ReleaseLock

section \<open>Adapters\<close>

definition createNoopLockAdapter :: "'e lock_adapter" where
  "createNoopLockAdapter = \<lparr>tryAcquire = (\<lambda>_ _. True), release = (\<lambda>_. None)\<rparr>"

text \<open>
  The database answers a query with an error or with rows, each with its \<open>acquired\<close> column; the
  answers are parameters. Both operations catch every error.
\<close>

definition createPgLockAdapter ::
  "(nat \<Rightarrow> string \<Rightarrow> 'x + bool option list) \<Rightarrow> (string \<Rightarrow> 'x + unit) \<Rightarrow> 'e lock_adapter" where
  "createPgLockAdapter try_lock unlock =
     \<lparr>tryAcquire = (\<lambda>n key.
        (case try_lock n key of
           Inl err \<Rightarrow> False
         | Inr rows \<Rightarrow> (case rows of [] \<Rightarrow> False | acquired # _ \<Rightarrow> acquired = Some True))),
      release = (\<lambda>key. (case unlock key of Inl err \<Rightarrow> None | Inr _ \<Rightarrow> None))\<rparr>"

definition createBranchLockAdapter ::
  "bool \<Rightarrow> (nat \<Rightarrow> string \<Rightarrow> 'x + bool option list) \<Rightarrow> (string \<Rightarrow> 'x + unit) \<Rightarrow> 'e lock_adapter" where
  "createBranchLockAdapter isPostgres try_lock unlock =
     (if isPostgres then createPgLockAdapter try_lock unlock else createNoopLockAdapter)"

section \<open>The polling loop\<close>

definition POLL_INTERVAL_MS :: int where
  "POLL_INTERVAL_MS = 250"

text \<open>
  \<open>poll acquired now deadline k\<close>: the loop from attempt \<open>k\<close> on, ending in the number of the last
  attempt and whether it acquired the lock.
\<close>

partial_function (option) poll ::
  "(nat \<Rightarrow> bool) \<Rightarrow> (nat \<Rightarrow> int) \<Rightarrow> int \<Rightarrow> nat \<Rightarrow> (nat \<times> bool) option" where
  "poll acquired now deadline k =
     (if acquired k then Some (k, True)
      else if deadline - now k \<le> 0 then Some (k, False)
      else poll acquired now deadline (Suc k))"

text \<open>
  \<open>try { return await fn(); } finally { await adapter.release(key); }\<close>: an error of \<open>release\<close>
  replaces the outcome of \<open>fn\<close>.
\<close>

definition locked_section ::
  "'e lock_adapter \<Rightarrow> string \<Rightarrow> ('e + 'a) \<Rightarrow> 'e lock_error + 'a" where
  "locked_section adapter key outcome =
     (case release adapter key of
        Some e \<Rightarrow> Inl (Thrown e)
      | None \<Rightarrow> (case outcome of Inl e \<Rightarrow> Inl (Thrown e) | Inr v \<Rightarrow> Inr v))"

definition withBranchLock ::
  "'e lock_adapter \<Rightarrow> string \<Rightarrow> int \<Rightarrow> int \<Rightarrow> (nat \<Rightarrow> int) \<Rightarrow> ('e + 'a) \<Rightarrow>
   (lock_event list \<times> ('e lock_error + 'a)) option" where
  "withBranchLock adapter key timeoutMs start now outcome =
     map_option
       (\<lambda>(k, got).
          (map (\<lambda>i. Attempt i (tryAcquire adapter i key)) [0..<Suc k] @
             (if got then [RunFn, ReleaseLock] else []),
           if got then locked_section adapter key outcome
           else Inl (LockTimeoutError key timeoutMs)))
       (poll (\<lambda>i. tryAcquire adapter i key) now (start + timeoutMs) 0)"

section \<open>Facts about the loop\<close>

lemma poll_acquired [simp]: "acquired k \<Longrightarrow> poll acquired now d k = Some (k, True)"
  by (simp add: poll.simps)

lemma poll_timeout [simp]:
  "\<not> acquired k \<Longrightarrow> d \<le> now k \<Longrightarrow> poll acquired now d k = Some (k, False)"
  by (simp add: poll.simps)

lemma poll_retry:
  "\<not> acquired k \<Longrightarrow> now k < d \<Longrightarrow> poll acquired now d k = poll acquired now d (Suc k)"
  by (subst poll.simps) simp

text \<open>The loop ends at the first attempt that acquires the lock or finds the deadline passed.\<close>

lemma poll_first:
  assumes "k \<le> n" "acquired n \<or> d \<le> now n"
    and "\<And>i. k \<le> i \<Longrightarrow> i < n \<Longrightarrow> \<not> acquired i \<and> now i < d"
  shows "poll acquired now d k = Some (n, acquired n)"
  using assms
proof (induction "n - k" arbitrary: k)
  case 0
  then show ?case by (cases "acquired n") auto
next
  case (Suc m)
  then have "\<not> acquired k \<and> now k < d" by simp
  then have "poll acquired now d k = poll acquired now d (Suc k)"
    by (simp add: poll_retry)
  also have "\<dots> = Some (n, acquired n)"
    using Suc by (intro Suc.hyps(1)) auto
  finally show ?case .
qed

lemma poll_first_exists:
  assumes "acquired n \<or> d \<le> now n"
  shows "\<exists>m \<le> n. poll acquired now d 0 = Some (m, acquired m) \<and>
    (acquired m \<or> d \<le> now m) \<and> (\<forall>i < m. \<not> acquired i \<and> now i < d)"
proof -
  define m where "m = (LEAST i. acquired i \<or> d \<le> now i)"
  have m: "acquired m \<or> d \<le> now m" and le: "m \<le> n"
    unfolding m_def using assms by (rule LeastI, rule Least_le)
  have before: "\<not> acquired i \<and> now i < d" if "i < m" for i
    using that not_less_Least [of i "\<lambda>i. acquired i \<or> d \<le> now i"] unfolding m_def by auto
  have "poll acquired now d 0 = Some (m, acquired m)"
    using m before by (intro poll_first) auto
  then show ?thesis using m le before by blast
qed

lemma poll_stop:
  assumes "poll acquired now d k = Some r"
  shows "acquired (fst r) = snd r \<and> (acquired (fst r) \<or> d \<le> now (fst r))"
  by (rule poll.raw_induct [where P = "\<lambda>acq now d k r. acq (fst r) = snd r \<and>
        (acq (fst r) \<or> d \<le> now (fst r))", OF _ assms])
     (auto split: if_splits)

lemma poll_before:
  assumes "poll acquired now d k = Some r"
  shows "\<forall>i. k \<le> i \<and> i < fst r \<longrightarrow> \<not> acquired i"
proof (rule poll.raw_induct [where P = "\<lambda>acq now d k r. \<forall>i. k \<le> i \<and> i < fst r \<longrightarrow> \<not> acq i",
      OF _ assms])
  fix f :: "(nat \<Rightarrow> bool) \<Rightarrow> (nat \<Rightarrow> int) \<Rightarrow> int \<Rightarrow> nat \<Rightarrow> (nat \<times> bool) option"
    and acq now d k r
  assume IH: "\<And>acq now d k r. f acq now d k = Some r \<Longrightarrow> \<forall>i. k \<le> i \<and> i < fst r \<longrightarrow> \<not> acq i"
    and eq: "(if acq k then Some (k, True) else if d - now k \<le> 0 then Some (k, False)
       else f acq now d (Suc k)) = Some r"
  show "\<forall>i. k \<le> i \<and> i < fst r \<longrightarrow> \<not> acq i"
  proof (cases "acq k \<or> d \<le> now k")
    case True
    then show ?thesis using eq by (auto split: if_splits)
  next
    case False
    then have "f acq now d (Suc k) = Some r" using eq by simp
    then have later: "\<forall>i. Suc k \<le> i \<and> i < fst r \<longrightarrow> \<not> acq i" by (rule IH)
    have "\<not> acq i" if "k \<le> i" "i < fst r" for i
    proof (cases "i = k")
      case True
      then show ?thesis using False by simp
    next
      case neq: False
      then have "Suc k \<le> i" using that by simp
      then show ?thesis using later that by blast
    qed
    then show ?thesis by blast
  qed
qed

lemma poll_first_stop:
  "poll acquired now d 0 = Some (n, got) \<Longrightarrow> \<forall>i < n. \<not> acquired i"
  by (drule poll_before) simp

text \<open>A timer never fires early: each sleep moves the clock by what was asked for.\<close>

definition timers_ok :: "(nat \<Rightarrow> int) \<Rightarrow> int \<Rightarrow> bool" where
  "timers_ok now deadline \<longleftrightarrow>
     (\<forall>k. now k < deadline \<longrightarrow> now k + min POLL_INTERVAL_MS (deadline - now k) \<le> now (Suc k))"

lemma clock_progress:
  assumes "timers_ok now d" and "\<And>i. i < k \<Longrightarrow> now i < d"
  shows "min d (now 0 + 250 * int k) \<le> now k"
  using assms(2)
proof (induction k)
  case 0
  then show ?case by simp
next
  case (Suc k)
  have IH: "min d (now 0 + 250 * int k) \<le> now k"
    using Suc by simp
  have "now k + min 250 (d - now k) \<le> now (Suc k)"
    using assms(1) Suc.prems by (simp add: timers_ok_def POLL_INTERVAL_MS_def)
  then show ?case using IH by simp
qed

lemma deadline_reached:
  assumes "timers_ok now d"
  shows "\<exists>n \<le> nat ((d - now 0 + 249) div 250). d \<le> now n"
proof (rule ccontr)
  define N where "N = nat ((d - now 0 + 249) div 250)"
  assume never: "\<not> (\<exists>n \<le> nat ((d - now 0 + 249) div 250). d \<le> now n)"
  have before: "now n < d" if "n \<le> N" for n
    using never that unfolding N_def by (meson not_le)
  then have "min d (now 0 + 250 * int N) \<le> now N"
    by (intro clock_progress [OF assms]) simp
  moreover have "d \<le> now 0 + 250 * int N"
    unfolding N_def by (cases "0 \<le> d - now 0") auto
  ultimately show False using before [of N] by simp
qed


section \<open>The adapter contract\<close>

text \<open>
  What \<open>withBranchLock\<close> needs from an adapter to hand back the outcome of the work: releasing
  never fails.
\<close>

locale releasing_adapter =
  fixes adapter :: "'e lock_adapter"
  assumes release_total: "release adapter key = None"
begin

lemma section_outcome:
  "locked_section adapter key outcome = (case outcome of Inl e \<Rightarrow> Inl (Thrown e) | Inr v \<Rightarrow> Inr v)"
  by (simp add: locked_section_def release_total)

lemma withBranchLock_shape:
  assumes "withBranchLock adapter key ms start now outcome = Some (tr, res)"
  shows "\<exists>k got. tr = map (\<lambda>i. Attempt i False) [0..<k] @ [Attempt k got] @
      (if got then [RunFn, ReleaseLock] else []) \<and>
    res = (if got then (case outcome of Inl e \<Rightarrow> Inl (Thrown e) | Inr v \<Rightarrow> Inr v)
           else Inl (LockTimeoutError key ms))"
proof -
  let ?acq = "\<lambda>i. tryAcquire adapter i key"
  obtain k got where p: "poll ?acq now (start + ms) 0 = Some (k, got)"
    and tr: "tr = map (\<lambda>i. Attempt i (?acq i)) [0..<Suc k] @ (if got then [RunFn, ReleaseLock] else [])"
    and res: "res = (if got then locked_section adapter key outcome
        else Inl (LockTimeoutError key ms))"
    using assms unfolding withBranchLock_def by (auto simp del: upt_Suc)
  have got: "?acq k = got"
    using poll_stop [OF p] by simp
  have "\<forall>i < k. \<not> ?acq i" by (rule poll_first_stop [OF p])
  then have "map (\<lambda>i. Attempt i (?acq i)) [0..<k] = map (\<lambda>i. Attempt i False) [0..<k]"
    by simp
  then show ?thesis
    using tr res got by (intro exI [of _ k] exI [of _ got]) (simp add: section_outcome)
qed

end

interpretation noop: releasing_adapter createNoopLockAdapter
  by unfold_locales (simp add: createNoopLockAdapter_def)

interpretation pg: releasing_adapter "createPgLockAdapter try_lock unlock" for try_lock unlock
  by unfold_locales (simp add: createPgLockAdapter_def split: sum.splits)

lemma releasing_createBranchLockAdapter:
  "releasing_adapter (createBranchLockAdapter p try_lock unlock)"
  by (auto simp: createBranchLockAdapter_def noop.releasing_adapter_axioms
      pg.releasing_adapter_axioms)

section \<open>Properties\<close>

text \<open>
  C20. The wait for the branch lock is bounded. With timers that never fire early, \<open>withBranchLock\<close>
  returns, and it makes at most one attempt per started 250 ms of the timeout and one more.
\<close>

theorem lock_wait_bounded:
  assumes "timers_ok now (start + timeoutMs)" and "now 0 = start"
  shows "\<exists>tr res. withBranchLock adapter key timeoutMs start now outcome = Some (tr, res) \<and>
    length (filter (\<lambda>e. \<exists>i b. e = Attempt i b) tr) \<le> nat ((timeoutMs + 249) div 250) + 1"
proof -
  let ?acq = "\<lambda>i. tryAcquire adapter i key" and ?d = "start + timeoutMs"
  obtain n where n: "n \<le> nat ((timeoutMs + 249) div 250)" "?d \<le> now n"
    using deadline_reached [OF assms(1)] assms(2) by auto
  then obtain m where m: "m \<le> n" "poll ?acq now ?d 0 = Some (m, ?acq m)"
    using poll_first_exists [of ?acq n ?d now] by blast
  have "length (filter (\<lambda>e. \<exists>i b. e = Attempt i b) (map (\<lambda>i. Attempt i (?acq i)) [0..<Suc m])) = Suc m"
    by (simp add: filter_True del: upt_Suc)
  then show ?thesis
    using m n by (auto simp: withBranchLock_def simp del: upt_Suc)
qed

theorem lock_wait_bounded_witness:
  "\<exists>tr res. withBranchLock \<lparr>tryAcquire = (\<lambda>_ _. False), release = (\<lambda>_. None :: unit option)\<rparr>
     ''agent/BEC-1'' 1000 0 (\<lambda>k. 250 * int k) (Inr True) = Some (tr, res) \<and>
   length (filter (\<lambda>e. \<exists>i b. e = Attempt i b) tr) \<le> 5"
proof -
  have "timers_ok (\<lambda>k. 250 * int k) (0 + 1000)"
    by (simp add: timers_ok_def POLL_INTERVAL_MS_def)
  from lock_wait_bounded [OF this] show ?thesis by simp
qed

text \<open>
  The lock protects exactly one run of the work and is given back. When \<open>withBranchLock\<close>
  returns, the work ran if and only if the last attempt acquired the lock, every earlier attempt
  failed, and then the trace ends with the work followed by one release; with the adapters of
  either database the result is that of the work, and a \<open>LockTimeoutError\<close> if it did not run.
\<close>

theorem lock_released_once:
  assumes "withBranchLock (createBranchLockAdapter isPg try_lock unlock) key timeoutMs start now outcome
      = Some (tr, res)"
  shows "\<exists>k got. tr = map (\<lambda>i. Attempt i False) [0..<k] @ [Attempt k got] @
      (if got then [RunFn, ReleaseLock] else []) \<and>
    res = (if got then (case outcome of Inl e \<Rightarrow> Inl (Thrown e) | Inr v \<Rightarrow> Inr v)
           else Inl (LockTimeoutError key timeoutMs))"
  using assms by (rule releasing_adapter.withBranchLock_shape [OF releasing_createBranchLockAdapter])

theorem lock_released_once_witness:
  "\<exists>k got. [Attempt 0 True, RunFn, ReleaseLock] =
      map (\<lambda>i. Attempt i False) [0..<k] @ [Attempt k got] @ (if got then [RunFn, ReleaseLock] else [])"
proof -
  have "withBranchLock (createBranchLockAdapter False (\<lambda>_ _. Inl ()) (\<lambda>_. Inl ())) ''b'' 0 0 (\<lambda>_. 0)
      (Inr 5 :: unit + nat) = Some ([Attempt 0 True, RunFn, ReleaseLock], Inr 5)"
    by (simp add: withBranchLock_def createBranchLockAdapter_def createNoopLockAdapter_def
        locked_section_def)
  from lock_released_once [OF this] show ?thesis by blast
qed

end
