(* ===== verification/ErrorClassifier.thy ===== *)
theory ErrorClassifier
  imports Prelude
begin

text \<open>
  The classification of error messages of \<open>packages/core/src/pipeline/error-classifier.ts\<close>: the
  thirteen patterns, their matching, and the retry limit. A pattern is a literal, with or without
  the \<open>i\<close> flag, or two literals with one optional character between them (\<open>a.?b\<close> with the \<open>i\<close>
  flag), where the dot matches any character but a line terminator.
\<close>

definition MAX_TRANSIENT_RETRIES :: nat where
  "MAX_TRANSIENT_RETRIES = 3"

datatype pattern = Exact string | Fold string | Gap string string

definition TRANSIENT_PATTERNS :: "pattern list" where
  "TRANSIENT_PATTERNS =
    [Fold ''401'', Fold ''authentication'', Fold ''unauthorized'', Fold ''429'',
     Gap ''rate'' ''limit'', Exact ''ECONNRESET'', Exact ''ETIMEDOUT'', Exact ''ECONNREFUSED'',
     Fold ''socket hang up'', Gap ''network'' ''timeout'', Fold ''fetch failed'',
     Fold ''unable to access'', Fold ''session-id-collision-recovered'']"

definition line_end :: "char \<Rightarrow> bool" where
  "line_end c \<longleftrightarrow> (let n = (of_char c :: nat) in n = 10 \<or> n = 13)"

text \<open>A match of \<open>a.?b\<close> at the start of the string: with the character, or without it.\<close>

definition gap_here :: "string \<Rightarrow> string \<Rightarrow> string \<Rightarrow> bool" where
  "gap_here a b s \<longleftrightarrow> startsWith s a \<and>
     (let r = drop (length a) s in
      startsWith r b \<or>
      (case r of [] \<Rightarrow> False | c # cs \<Rightarrow> \<not> line_end c \<and> startsWith cs b))"

fun gap_match :: "string \<Rightarrow> string \<Rightarrow> string \<Rightarrow> bool" where
  "gap_match a b [] = gap_here a b []"
| "gap_match a b (c # cs) = (gap_here a b (c # cs) \<or> gap_match a b cs)"

fun pattern_test :: "pattern \<Rightarrow> string \<Rightarrow> bool" where
  "pattern_test (Exact p) s = strIncludes s p"
| "pattern_test (Fold p) s = strIncludes (toLowerCase s) (toLowerCase p)"
| "pattern_test (Gap a b) s = gap_match (toLowerCase a) (toLowerCase b) (toLowerCase s)"

definition isTransientError :: "string \<Rightarrow> bool" where
  "isTransientError message = list_ex (\<lambda>p. pattern_test p message) TRANSIENT_PATTERNS"

section \<open>Matching is a substring search\<close>

lemma startsWith_extend: "startsWith s p \<Longrightarrow> startsWith (s @ t) p"
  by (auto simp: startsWith_iff)

lemma strIncludes_extend: "strIncludes s p \<Longrightarrow> strIncludes (u @ s @ t) p"
  by (metis append.assoc strIncludes_iff)

lemma gap_here_iff:
  "gap_here a b s \<longleftrightarrow>
    (\<exists>t. s = a @ b @ t) \<or> (\<exists>c t. s = a @ c # b @ t \<and> \<not> line_end c)"
proof
  assume "gap_here a b s"
  then obtain r where s: "s = a @ r"
    and r: "startsWith r b \<or> (case r of [] \<Rightarrow> False | c # cs \<Rightarrow> \<not> line_end c \<and> startsWith cs b)"
    by (auto simp: gap_here_def Let_def startsWith_iff)
  from r show "(\<exists>t. s = a @ b @ t) \<or> (\<exists>c t. s = a @ c # b @ t \<and> \<not> line_end c)"
    unfolding s by (cases r) (auto simp: startsWith_iff)
next
  assume "(\<exists>t. s = a @ b @ t) \<or> (\<exists>c t. s = a @ c # b @ t \<and> \<not> line_end c)"
  then show "gap_here a b s"
    by (auto simp: gap_here_def Let_def)
qed

lemma gap_match_iff: "gap_match a b s \<longleftrightarrow> (\<exists>u v. s = u @ v \<and> gap_here a b v)"
proof (induction s)
  case Nil
  then show ?case by simp
next
  case (Cons c cs)
  show ?case
  proof
    assume "gap_match a b (c # cs)"
    then consider "gap_here a b (c # cs)" | "gap_match a b cs" by auto
    then show "\<exists>u v. c # cs = u @ v \<and> gap_here a b v"
    proof cases
      case 1
      then show ?thesis by (metis append_Nil)
    next
      case 2
      then obtain u v where "cs = u @ v" "gap_here a b v" using Cons.IH by blast
      then show ?thesis by (metis append_Cons)
    qed
  next
    assume "\<exists>u v. c # cs = u @ v \<and> gap_here a b v"
    then obtain u v where uv: "c # cs = u @ v" "gap_here a b v" by blast
    then show "gap_match a b (c # cs)"
      using Cons.IH by (cases u) auto
  qed
qed

lemma gap_match_extend: "gap_match a b s \<Longrightarrow> gap_match a b (u @ s @ t)"
proof -
  assume "gap_match a b s"
  then obtain x v where s: "s = x @ v" and v: "gap_here a b v"
    by (auto simp: gap_match_iff)
  have "gap_here a b (v @ t)"
    using v by (auto simp: gap_here_iff)
  then show ?thesis
    unfolding s gap_match_iff by (metis append.assoc)
qed

lemma pattern_test_extend: "pattern_test p s \<Longrightarrow> pattern_test p (u @ s @ t)"
  by (cases p) (auto intro: strIncludes_extend gap_match_extend)

lemma isTransientError_extend: "isTransientError s \<Longrightarrow> isTransientError (u @ s @ t)"
  by (auto simp: isTransientError_def list_ex_iff intro: pattern_test_extend)

lemma isTransientError_suffix: "isTransientError s \<Longrightarrow> isTransientError (u @ s)"
  using isTransientError_extend [of s u "[]"] by simp

section \<open>Properties\<close>

text \<open>
  Wrapping keeps the class. An error message that counts as transient still does when the
  runner embeds it in a longer message, as it does for a review-fix iteration, a deep-review pass
  and a failed setup command.
\<close>

theorem transient_embedding:
  assumes "isTransientError e"
  shows "isTransientError (prefix @ e @ suffix)"
  using assms by (rule isTransientError_extend)

theorem transient_embedding_witness:
  "isTransientError (''review-fix iteration 1: '' @ ''Rate-Limit hit'' @ [])"
proof -
  have "isTransientError ''Rate-Limit hit''" by code_simp
  then show ?thesis by (rule transient_embedding)
qed

end
