(* ===== verification/PipelineConfigs.thy ===== *)
theory PipelineConfigs
  imports Types
begin

text \<open>
  The built-in pipelines and the environment overrides of \<open>packages/core/src/pipeline/config.ts\<close>,
  the choice of a pipeline by label in \<open>pipeline/router.ts\<close>, and the number of RALPH iterations in
  \<open>pipeline/runner-ralph-helpers.ts\<close>. A \<open>Record\<close> of configurations is an association list of its own
  properties.
\<close>

type_synonym configs = "(string, pipeline_config) js_map"

section \<open>Built-in pipelines\<close>

text \<open>\<open>LOOP_DEFAULTS\<close>, with every field that a built-in pipeline does not set.\<close>

definition LOOP_DEFAULTS :: pipeline_config where
  "LOOP_DEFAULTS = \<lparr>pc_name = [], pc_stages = [],
     pc_retry = \<lparr>rc_maxAttempts = 0, rc_strategy = FailFast\<rparr>,
     pc_requiredApprovals = 0, pc_prStrategy = Draft,
     pc_validateHandoffs = Some False, pc_ralphIterations = Some 2,
     pc_reviewFixIterations = Some 1, pc_deepReviewPasses = Some 0,
     pc_maxDeepReviewPasses = None, pc_autoDeepReviewThresholds = None,
     pc_deepReviewFindingsAreBlocking = None, pc_autoMerge = None, pc_autoMergeMaxLines = None,
     pc_autoMergeExcludePatterns = None, pc_autoMergeConfig = None, pc_maxTokens = None,
     pc_stageModels = [], pc_failOnAutoCommit = None, pc_policy = None\<rparr>"

definition defaultConfigs :: configs where
  "defaultConfigs =
    [(''auto-implement'', LOOP_DEFAULTS\<lparr>pc_name := ''Auto Implement'',
        pc_stages := [Implement, Test, Review],
        pc_retry := \<lparr>rc_maxAttempts = 2, rc_strategy = FixAndRetry\<rparr>,
        pc_requiredApprovals := 1, pc_prStrategy := Draft\<rparr>),
     (''bug'', LOOP_DEFAULTS\<lparr>pc_name := ''Bug Fix'',
        pc_stages := [Reproduce, Implement, Test, Review],
        pc_retry := \<lparr>rc_maxAttempts = 3, rc_strategy = FixAndRetry\<rparr>,
        pc_requiredApprovals := 1, pc_prStrategy := Draft\<rparr>),
     (''needs-design'', LOOP_DEFAULTS\<lparr>pc_name := ''Needs Design'',
        pc_stages := [Triage, AwaitApproval, Implement, Test, Review],
        pc_retry := \<lparr>rc_maxAttempts = 1, rc_strategy = FailFast\<rparr>,
        pc_requiredApprovals := 1, pc_prStrategy := Draft\<rparr>),
     (''quick-fix'', LOOP_DEFAULTS\<lparr>pc_name := ''Quick Fix'',
        pc_stages := [Implement, Test],
        pc_retry := \<lparr>rc_maxAttempts = 1, rc_strategy = Escalate\<rparr>,
        pc_requiredApprovals := 0, pc_prStrategy := Ready\<rparr>)]"

section \<open>Environment overrides\<close>

text \<open>The configuration is unchanged on a missing value and on one that is not a literal number.\<close>

definition applyDeepReviewPassesOverride :: "configs \<Rightarrow> string option \<Rightarrow> configs" where
  "applyDeepReviewPassesOverride cfgs envValue =
     (case envValue of
        None \<Rightarrow> cfgs
      | Some v \<Rightarrow>
          (let trimmed = trim v in
           if trimmed = [] \<or> \<not> list_all is_digit trimmed then cfgs
           else map (\<lambda>(key, cfg).
             if Review \<in> set (pc_stages cfg)
             then (key, cfg\<lparr>pc_deepReviewPasses := Some (parse_nat trimmed)\<rparr>)
             else (key, cfg)) cfgs))"

definition applyAutoMergeOverride :: "configs \<Rightarrow> string option \<Rightarrow> configs" where
  "applyAutoMergeOverride cfgs envValue =
     (case envValue of
        None \<Rightarrow> cfgs
      | Some v \<Rightarrow>
          (let trimmed = toLowerCase (trim v) in
           if trimmed \<noteq> ''true'' \<and> trimmed \<noteq> ''false'' then cfgs
           else map (\<lambda>(key, cfg). (key, cfg\<lparr>pc_autoMerge := Some (trimmed = ''true'')\<rparr>)) cfgs))"

section \<open>Routing\<close>

definition LABEL_PRIORITY :: "string list" where
  "LABEL_PRIORITY = [''quick-fix'', ''bug'', ''auto-implement'', ''needs-design'']"

text \<open>
  Reading \<open>configs[k]\<close> of a JavaScript object finds own properties first and then the ones of
  \<open>Object.prototype\<close>. The router looks up lower-cased keys only, so \<open>constructor\<close> and \<open>__proto__\<close> are
  the inherited names it can meet: all the others contain a capital letter.
\<close>

datatype lookup = Own pipeline_config | Inherited string

definition object_get :: "configs \<Rightarrow> string \<Rightarrow> lookup option" where
  "object_get cfgs k =
     (case map_of cfgs k of
        Some c \<Rightarrow> Some (Own c)
      | None \<Rightarrow> if k = ''constructor'' \<or> k = ''__proto__'' then Some (Inherited k) else None)"

definition resolvePipeline :: "string list \<Rightarrow> configs \<Rightarrow> (string \<times> lookup) option" where
  "resolvePipeline labels cfgs =
     (let lower = map toLowerCase labels;
          pick = (\<lambda>k. map_option (Pair k) (object_get cfgs k))
      in case find (\<lambda>k. k \<in> set lower \<and> object_get cfgs k \<noteq> None) LABEL_PRIORITY of
           Some k \<Rightarrow> pick k
         | None \<Rightarrow>
             (case find (\<lambda>k. object_get cfgs k \<noteq> None) lower of
                Some k \<Rightarrow> pick k
              | None \<Rightarrow> None))"

section \<open>RALPH iterations\<close>

definition computeEffectiveRalphIterations :: "pipeline_run \<Rightarrow> nat option \<Rightarrow> bool \<Rightarrow> nat" where
  "computeEffectiveRalphIterations run configIterations hasDeepReviewLicense =
     (if pr_runType run = Some ''review-feedback'' then 0
      else if hasDeepReviewLicense
      then (case configIterations of None \<Rightarrow> 2 | Some n \<Rightarrow> n)
      else min (case configIterations of None \<Rightarrow> 1 | Some n \<Rightarrow> n) 1)"

section \<open>The schema after the overrides\<close>

definition well_formed :: "configs \<Rightarrow> bool" where
  "well_formed cfgs \<longleftrightarrow> list_all (\<lambda>(k, c). PipelineConfigSchema c) cfgs"

text \<open>The number an override sets, if it is one.\<close>

definition override_passes :: "string option \<Rightarrow> nat option" where
  "override_passes envValue =
     (case envValue of
        None \<Rightarrow> None
      | Some v \<Rightarrow> if trim v = [] \<or> \<not> list_all is_digit (trim v) then None else Some (parse_nat (trim v)))"

lemma override_cases:
  "applyDeepReviewPassesOverride cfgs envValue =
     (case override_passes envValue of
        None \<Rightarrow> cfgs
      | Some n \<Rightarrow> map (\<lambda>(k, c). (k, if Review \<in> set (pc_stages c) then c\<lparr>pc_deepReviewPasses := Some n\<rparr> else c)) cfgs)"
  by (auto simp: applyDeepReviewPassesOverride_def override_passes_def Let_def split: option.split)

lemma schema_passes:
  "PipelineConfigSchema c \<Longrightarrow> PipelineConfigSchema (c\<lparr>pc_deepReviewPasses := Some n\<rparr>) \<longleftrightarrow> n \<le> 5"
  by (auto simp: PipelineConfigSchema_def opt_le_def split: option.splits)

text \<open>
  The configurations that a server starts with meet the schema. The override of \<open>autoMerge\<close> keeps that; the
  override of the deep-review passes keeps it exactly if it sets at most the 5 that the schema allows, or
  sets nothing: the schema is not asked again.
\<close>

theorem overrides_meet_schema:
  assumes "well_formed cfgs"
  shows "well_formed (applyAutoMergeOverride cfgs merge) \<and>
    (well_formed (applyDeepReviewPassesOverride cfgs passes) \<longleftrightarrow>
      (case override_passes passes of
         None \<Rightarrow> True
       | Some n \<Rightarrow> n \<le> 5 \<or> list_all (\<lambda>(k, c). Review \<notin> set (pc_stages c)) cfgs))"
proof
  have "PipelineConfigSchema (c\<lparr>pc_autoMerge := b\<rparr>) = PipelineConfigSchema c" for c b
    by (simp add: PipelineConfigSchema_def)
  with assms show "well_formed (applyAutoMergeOverride cfgs merge)"
    by (auto simp: well_formed_def applyAutoMergeOverride_def Let_def list_all_iff split: option.split)
  show "well_formed (applyDeepReviewPassesOverride cfgs passes) \<longleftrightarrow>
      (case override_passes passes of
         None \<Rightarrow> True
       | Some n \<Rightarrow> n \<le> 5 \<or> list_all (\<lambda>(k, c). Review \<notin> set (pc_stages c)) cfgs)"
  proof (cases "override_passes passes")
    case None
    with assms show ?thesis by (simp add: override_cases)
  next
    case (Some n)
    with assms show ?thesis
      by (fastforce simp: override_cases well_formed_def list_all_iff schema_passes split: if_splits)
  qed
qed

theorem overrides_meet_schema_witness:
  "well_formed defaultConfigs \<and> \<not> well_formed (applyDeepReviewPassesOverride defaultConfigs (Some '' 9 ''))"
proof -
  have "well_formed defaultConfigs" by code_simp
  moreover have "override_passes (Some '' 9 '') = Some 9" by code_simp
  moreover have "\<not> list_all (\<lambda>(k, c). Review \<notin> set (pc_stages c)) defaultConfigs" by code_simp
  ultimately show ?thesis using overrides_meet_schema [of defaultConfigs None "Some '' 9 ''"] by simp
qed

end
