(* ===== verification/DeepReviewTools.thy ===== *)
theory DeepReviewTools
  imports PipelineConfigs Glob
begin

text \<open>
  The pure decisions around a deep review: the convergence check of its loop
  (\<open>packages/core/src/executor/deep-review.ts\<close>), and the heuristic that forces a deep review on large
  diffs (\<open>pipeline/auto-deep-review.ts\<close>) with the numbers it reads from \<open>git diff\<close>.
\<close>

section \<open>Convergence\<close>

datatype convergence_reason = ZeroFindings | NonDecreasing | PassLimit

record findings_diff =
  fd_added :: "string list"
  fd_removed :: "string list"
  fd_common :: "string list"

record convergence_check =
  cc_converged :: bool
  cc_shouldStop :: bool
  cc_reason :: "convergence_reason option"
  cc_findingsDiff :: findings_diff

text \<open>\<open>replace(/\s+/g, " ")\<close>.\<close>

fun squeeze :: "bool \<Rightarrow> string \<Rightarrow> string" where
  "squeeze inSpace [] = []"
| "squeeze inSpace (c # cs) =
     (if is_space c then (if inSpace then squeeze True cs else CHR '' '' # squeeze True cs)
      else c # squeeze False cs)"

definition buildFindingFingerprint :: "finding \<Rightarrow> string" where
  "buildFindingFingerprint f =
     fi_file f @ '':'' @ show_int (fi_line f) @ '':'' @ fi_category f @ '':'' @
     trim (squeeze False (take 80 (fi_description f)))"

text \<open>\<open>None\<close> stands for the \<open>Infinity\<close> of the first pass.\<close>

definition checkDeepReviewConvergence ::
  "string list \<Rightarrow> finding list \<Rightarrow> nat option \<Rightarrow> convergence_check" where
  "checkDeepReviewConvergence previous current previousCount =
     (let prints = setOf (map buildFindingFingerprint current);
          diff = \<lparr>fd_added = filter (\<lambda>p. p \<notin> set previous) prints,
                  fd_removed = filter (\<lambda>p. p \<notin> set prints) previous,
                  fd_common = filter (\<lambda>p. p \<in> set previous) prints\<rparr>
      in if length current = 0
         then \<lparr>cc_converged = True, cc_shouldStop = True, cc_reason = Some ZeroFindings,
               cc_findingsDiff = diff\<rparr>
         else if (case previousCount of None \<Rightarrow> False | Some n \<Rightarrow> n \<le> length current)
         then \<lparr>cc_converged = False, cc_shouldStop = True, cc_reason = Some NonDecreasing,
               cc_findingsDiff = diff\<rparr>
         else \<lparr>cc_converged = False, cc_shouldStop = False, cc_reason = None,
               cc_findingsDiff = diff\<rparr>)"

record nonconvergence_diagnostic =
  nd_passLimit :: nat
  nd_finalPass :: nat
  nd_finalFindingsCount :: nat
  nd_reason :: convergence_reason
  nd_findingsDiff :: findings_diff
  nd_diffStat :: string

definition buildNonConvergenceDiagnostic ::
  "nat \<Rightarrow> nat \<Rightarrow> nat \<Rightarrow> convergence_reason \<Rightarrow> findings_diff \<Rightarrow> string \<Rightarrow> nonconvergence_diagnostic" where
  "buildNonConvergenceDiagnostic passLimit finalPass count reason diff diffStat =
     \<lparr>nd_passLimit = passLimit, nd_finalPass = finalPass, nd_finalFindingsCount = count,
      nd_reason = reason, nd_findingsDiff = diff, nd_diffStat = diffStat\<rparr>"

section \<open>Auto deep review\<close>

record diff_metrics =
  dm_changedFiles :: nat
  dm_totalLines :: nat
  dm_newPublicExports :: nat

definition DEFAULT_AUTO_DEEP_REVIEW_THRESHOLDS :: thresholds where
  "DEFAULT_AUTO_DEEP_REVIEW_THRESHOLDS =
     \<lparr>th_changedFiles = 5, th_totalLines = 200, th_newPublicExports = 2\<rparr>"

text \<open>The first argument: \<open>URATEAM_DISABLE_AUTO_DEEP_REVIEW\<close> is \<open>true\<close>.\<close>

definition shouldAutoDeepReview :: "bool \<Rightarrow> diff_metrics \<Rightarrow> thresholds \<Rightarrow> bool" where
  "shouldAutoDeepReview disabled m t =
     (if disabled then False
      else th_changedFiles t \<le> dm_changedFiles m \<or> th_totalLines t \<le> dm_totalLines m \<or>
           th_newPublicExports t \<le> dm_newPublicExports m)"

text \<open>One or more spaces are dropped; \<open>None\<close> when there is none.\<close>

definition spaces1 :: "string \<Rightarrow> string option" where
  "spaces1 s = (case s of [] \<Rightarrow> None | c # cs \<Rightarrow> if is_space c then Some (dropWhile is_space cs) else None)"

text \<open>The path of a \<open>+++ b/\<close> header, and whether it is source but not test.\<close>

definition header_path :: "string \<Rightarrow> string option" where
  "header_path line =
     (if startsWith line ''+++ b/''
      then (let p = drop 6 line in if p \<noteq> [] \<and> list_all dot p then Some p else None)
      else None)"

definition source_path :: "string \<Rightarrow> bool" where
  "source_path p \<longleftrightarrow>
     (startsWith p ''packages/'' \<and>
        (let rest = drop 9 p; pkg = takeWhile (\<lambda>c. c \<noteq> CHR ''/'') rest
         in pkg \<noteq> [] \<and> startsWith (drop (length pkg) rest) ''/src/'')) \<or>
     startsWith p ''src/''"

definition in_scope :: "string \<Rightarrow> bool" where
  "in_scope p \<longleftrightarrow> source_path p \<and> \<not> strIncludes p ''/__tests__/''"

text \<open>An optional word with the spaces behind it.\<close>

definition skip_word :: "string \<Rightarrow> string \<Rightarrow> string" where
  "skip_word w s =
     (if startsWith s w then (case spaces1 (drop (length w) s) of None \<Rightarrow> s | Some t \<Rightarrow> t) else s)"

definition export_words :: "string list" where
  "export_words = [''function'', ''class'', ''const'', ''let'', ''interface'', ''type'', ''enum'',
     ''{'', ''*'']"

definition export_line :: "string \<Rightarrow> bool" where
  "export_line line =
     (if startsWith line ''+export''
      then (case spaces1 (drop 7 line) of
              None \<Rightarrow> False
            | Some s \<Rightarrow> list_ex (startsWith (skip_word ''async'' (skip_word ''default'' s))) export_words)
      else False)"

text \<open>The scan, with the scope of the current file (\<open>False\<close> before the first header).\<close>

fun count_exports :: "bool \<Rightarrow> string list \<Rightarrow> nat" where
  "count_exports scope [] = 0"
| "count_exports scope (l # ls) =
     (case header_path l of
        Some p \<Rightarrow> count_exports (in_scope p) ls
      | None \<Rightarrow> (if scope \<and> export_line l then 1 else 0) + count_exports scope ls)"

definition countNewPublicExports :: "string \<Rightarrow> nat" where
  "countNewPublicExports diff = count_exports False (split_lines diff)"

text \<open>
  The numbers of the last line of \<open>git diff --stat\<close>, as the runner reads them: at the beginning of
  the line for the files, at the first place that fits for insertions and deletions.
\<close>

definition number_then :: "string list \<Rightarrow> string \<Rightarrow> nat option" where
  "number_then ws s =
     (let ds = takeWhile is_digit s in
      if ds = [] then None
      else (case spaces1 (drop (length ds) s) of
              None \<Rightarrow> None
            | Some t \<Rightarrow> if list_ex (startsWith t) ws then Some (parse_nat ds) else None))"

fun number_anywhere :: "string list \<Rightarrow> string \<Rightarrow> nat option" where
  "number_anywhere ws [] = None"
| "number_anywhere ws (c # cs) =
     (case number_then ws (c # cs) of Some n \<Rightarrow> Some n | None \<Rightarrow> number_anywhere ws cs)"

definition or_zero :: "nat option \<Rightarrow> nat" where
  "or_zero x = (case x of None \<Rightarrow> 0 | Some n \<Rightarrow> n)"

definition diff_metrics_of :: "string \<Rightarrow> string \<Rightarrow> diff_metrics" where
  "diff_metrics_of stat diff =
     (let ls = filter (\<lambda>l. l \<noteq> []) (split_lines stat);
          tail = (if ls = [] then [] else last ls)
      in \<lparr>dm_changedFiles = or_zero (number_then [''file changed'', ''files changed'']
             (dropWhile is_space tail)),
          dm_totalLines = or_zero (number_anywhere [''insertion''] tail) +
             or_zero (number_anywhere [''deletion''] tail),
          dm_newPublicExports = countNewPublicExports diff\<rparr>)"

section \<open>Properties\<close>

text \<open>
  The convergence check stops exactly when the findings are gone or their number did not go
  down, and its difference is exact: a fingerprint is added, common or removed according to whether
  it occurs now and before. A pass that goes on has strictly fewer findings than the one before.
\<close>

theorem convergence_check_exact:
  "(cc_shouldStop (checkDeepReviewConvergence prev fs n) \<longleftrightarrow> fs = [] \<or> (\<exists>k. n = Some k \<and> k \<le> length fs)) \<and>
   (cc_converged (checkDeepReviewConvergence prev fs n) \<longleftrightarrow> fs = []) \<and>
   set (fd_added (cc_findingsDiff (checkDeepReviewConvergence prev fs n)))
     = buildFindingFingerprint ` set fs - set prev \<and>
   set (fd_common (cc_findingsDiff (checkDeepReviewConvergence prev fs n)))
     = buildFindingFingerprint ` set fs \<inter> set prev \<and>
   set (fd_removed (cc_findingsDiff (checkDeepReviewConvergence prev fs n)))
     = set prev - buildFindingFingerprint ` set fs"
  by (auto simp: checkDeepReviewConvergence_def Let_def split: option.split)

text \<open>
  Repeated findings alone do not stop the loop. The check's interface promises to stop on the
  same fingerprints as before; but two passes with the same set of fingerprints, the second with one
  duplicate less, go on.
\<close>

theorem same_fingerprints_go_on:
  "\<exists>before now. set (map buildFindingFingerprint before) = set (map buildFindingFingerprint now) \<and>
     now \<noteq> [] \<and>
     \<not> cc_shouldStop (checkDeepReviewConvergence (setOf (map buildFindingFingerprint before)) now
         (Some (length before)))"
proof -
  let ?f = "\<lparr>fi_severity = Warning, fi_file = ''a.ts'', fi_line = 1, fi_category = ''quality'',
    fi_description = ''x'', fi_fix = []\<rparr>"
  show ?thesis
    by (rule exI [of _ "[?f, ?f]"], rule exI [of _ "[?f]"])
       (simp add: checkDeepReviewConvergence_def Let_def)
qed

lemma count_exports_header:
  "header_path l = Some p \<Longrightarrow> count_exports b (l # ls) = count_exports (in_scope p) ls"
  by simp

lemma count_exports_append_header:
  assumes "header_path l = Some p"
  shows "count_exports b (xs @ l # ls) = count_exports b xs + count_exports (in_scope p) ls"
  using assms by (induction b xs rule: count_exports.induct) (auto split: option.split)

lemma count_exports_out: "list_all (\<lambda>l. header_path l = None) ls \<Longrightarrow> count_exports False ls = 0"
  by (induction ls) auto

lemma count_exports_in:
  "list_all (\<lambda>l. header_path l = None) ls \<Longrightarrow> count_exports True ls = length (filter export_line ls)"
  by (induction ls) auto

text \<open>
  The export count is additive over the files of a diff and counts, in source files outside test
  directories only, the added lines that open an export: for a diff that is the concatenation of one
  more file's part, the count is the count of the rest plus that file's export lines if it is in
  scope.
\<close>

theorem exports_by_file:
  assumes "header_path h = Some p" "list_all (\<lambda>l. header_path l = None) body"
    and "split_lines diff = pre @ h # body"
  shows "countNewPublicExports diff =
    count_exports False pre + (if in_scope p then length (filter export_line body) else 0)"
  unfolding countNewPublicExports_def assms(3) count_exports_append_header [OF assms(1)]
  using count_exports_in [OF assms(2)] count_exports_out [OF assms(2)]
  by (cases "in_scope p") simp_all

theorem exports_by_file_witness:
  "countNewPublicExports (''+++ b/src/a.ts'' @ [CHR 0x0A] @ ''+export const x = 1'' @ [CHR 0x0A] @
      ''+export default x'') = 1"
proof -
  have 1: "header_path ''+++ b/src/a.ts'' = Some ''src/a.ts''" by code_simp
  have 2: "list_all (\<lambda>l. header_path l = None) [''+export const x = 1'', ''+export default x'']"
    by code_simp
  have 3: "split_lines (''+++ b/src/a.ts'' @ [CHR 0x0A] @ ''+export const x = 1'' @ [CHR 0x0A] @
      ''+export default x'') = [] @ ''+++ b/src/a.ts'' # [''+export const x = 1'', ''+export default x'']"
    by simp
  have 4: "in_scope ''src/a.ts''" "length (filter export_line [''+export const x = 1'', ''+export default x'']) = 1"
    by code_simp+
  show ?thesis using exports_by_file [OF 1 2 3] 4 by simp
qed

end
