(* ===== verification/Store.thy ===== *)
theory Store
  imports Types
begin

text \<open>
  The database rows the runner works on (\<open>packages/core/src/db/schema.ts\<close>), the stored resume
  payload with its serialisation and its validation (\<open>buildResumePayload\<close> in \<open>pipeline/runner.ts\<close>,
  \<open>ResumePayloadSchema\<close> in \<open>types.ts\<close>), the coordination table of active work
  (\<open>pm/coordination.ts\<close>) and the paths of the agent's transcripts
  (\<open>executor/session-store.ts\<close>). A query of the database succeeds; the branches that log a
  database error and go on are not modelled. Times are milliseconds.
\<close>

section \<open>Rows\<close>

text \<open>
  The text of the column \<open>resume_payload\<close>: text that \<open>JSON.parse\<close> does not turn into an object,
  or an object whose fields are missing, of a wrong type, or good. A configuration counts as good
  here when its fields have their types; its bounds are checked by the schema below.
\<close>

datatype 'a field = Missing | WrongType | Good 'a

record raw_payload =
  raw_worktreePath :: "string field"
  raw_currentStageIndex :: "int field"
  raw_handoff :: "handoff option field"
  raw_pipelineConfig :: "pipeline_config field"
  raw_repoConfig :: "repo_config field"
  raw_sanitizedIssue :: "sanitized_issue field"

datatype stored_payload = BadJson string | Json raw_payload

record run_row =
  r_id :: run_id
  r_issueId :: issue_id
  r_issueTitle :: string
  r_pipelineKey :: string
  r_repoUrl :: string
  r_agentSessionId :: "string option"
  r_branch :: "string option"
  r_status :: run_status
  r_startedAt :: millis
  r_completedAt :: "millis option"
  r_prUrl :: "string option"
  r_totalInputTokens :: nat
  r_totalOutputTokens :: nat
  r_errorMessage :: "string option"
  r_currentStageIndex :: "int option"
  r_resumePayload :: "stored_payload option"
  r_retryCount :: nat
  r_runType :: string
  r_autoMerged :: "bool option"
  r_autoMergeReason :: "string option"
  r_autoCommitted :: "bool option"
  r_linearTeamId :: "string option"

record stage_row =
  s_id :: string
  s_pipelineRunId :: run_id
  s_stage :: string
  s_status :: stage_run_status
  s_startedAt :: millis
  s_completedAt :: "millis option"
  s_inputTokens :: nat
  s_outputTokens :: nat

record work_row =
  w_runId :: run_id
  w_issueId :: issue_id
  w_stage :: string
  w_filesModified :: "string list option"
  w_updatedAt :: millis

section \<open>The resume payload\<close>

definition buildResumePayload ::
  "handoff option \<Rightarrow> pipeline_config \<Rightarrow> repo_config \<Rightarrow> sanitized_issue \<Rightarrow> string \<Rightarrow> int \<Rightarrow>
   stored_payload" where
  "buildResumePayload h cfg repo si wt i =
     Json \<lparr>raw_worktreePath = Good wt, raw_currentStageIndex = Good i, raw_handoff = Good h,
       raw_pipelineConfig = Good cfg, raw_repoConfig = Good repo, raw_sanitizedIssue = Good si\<rparr>"

definition ResumePayload_safeParse :: "raw_payload \<Rightarrow> resume_payload option" where
  "ResumePayload_safeParse raw =
     (case (raw_worktreePath raw, raw_currentStageIndex raw, raw_handoff raw,
            raw_pipelineConfig raw, raw_repoConfig raw, raw_sanitizedIssue raw) of
        (Good wt, Good i, Good h, Good cfg, Good repo, Good si) \<Rightarrow>
          if PipelineConfigSchema cfg
          then Some \<lparr>pl_worktreePath = wt, pl_currentStageIndex = i, pl_handoff = h,
                     pl_pipelineConfig = cfg, pl_repoConfig = repo, pl_sanitizedIssue = si\<rparr>
          else None
      | _ \<Rightarrow> None)"

lemma safeParse_build:
  "buildResumePayload h cfg repo si wt i = Json raw \<Longrightarrow>
   ResumePayload_safeParse raw =
     (if PipelineConfigSchema cfg
      then Some \<lparr>pl_worktreePath = wt, pl_currentStageIndex = i, pl_handoff = h,
                 pl_pipelineConfig = cfg, pl_repoConfig = repo, pl_sanitizedIssue = si\<rparr>
      else None)"
  by (auto simp: buildResumePayload_def ResumePayload_safeParse_def)

section \<open>Coordination\<close>

text \<open>
  One row per run: a second call for the run replaces its stage and its files, and clears the files
  when the call carries none.
\<close>

definition upsertActiveWork ::
  "millis \<Rightarrow> run_id \<Rightarrow> issue_id \<Rightarrow> string \<Rightarrow> string list option \<Rightarrow> work_row list \<Rightarrow> work_row list" where
  "upsertActiveWork now run issue stg files rows =
     (if (\<exists>w \<in> set rows. w_runId w = run)
      then update_where (\<lambda>w. w_runId w = run)
             (\<lambda>w. w\<lparr>w_stage := stg, w_filesModified := files, w_updatedAt := now\<rparr>) rows
      else rows @ [\<lparr>w_runId = run, w_issueId = issue, w_stage = stg, w_filesModified = files,
                    w_updatedAt = now\<rparr>])"

definition removeActiveWork :: "run_id \<Rightarrow> work_row list \<Rightarrow> work_row list" where
  "removeActiveWork run rows = delete_where (\<lambda>w. w_runId w = run) rows"

record overlap =
  ov_hasOverlap :: bool
  ov_overlappingFiles :: "string list"
  ov_conflictingRunIds :: "run_id list"

text \<open>
  The loop over the other runs' rows: the shared files that are new to the list, and the run.
\<close>

fun overlap_loop :: "string list \<Rightarrow> work_row list \<Rightarrow> string list \<Rightarrow> run_id list \<Rightarrow>
    string list \<times> run_id list" where
  "overlap_loop files [] fs rs = (fs, rs)"
| "overlap_loop files (w # ws) fs rs =
     (let other = (case w_filesModified w of None \<Rightarrow> [] | Some x \<Rightarrow> x);
          shared = filter (\<lambda>f. f \<in> set files) other
      in if shared = [] then overlap_loop files ws fs rs
         else overlap_loop files ws
           (foldl (\<lambda>acc f. if f \<in> set acc then acc else acc @ [f]) fs shared)
           (rs @ [w_runId w]))"

definition other_rows :: "run_id \<Rightarrow> work_row list \<Rightarrow> work_row list" where
  "other_rows run rows = select_where (\<lambda>w. w_runId w \<noteq> run \<and> w_filesModified w \<noteq> None) rows"

definition checkFileOverlap :: "run_id \<Rightarrow> string list \<Rightarrow> work_row list \<Rightarrow> overlap" where
  "checkFileOverlap run files rows =
     (if files = [] then \<lparr>ov_hasOverlap = False, ov_overlappingFiles = [], ov_conflictingRunIds = []\<rparr>
      else (let (fs, rs) = overlap_loop files (other_rows run rows) [] []
            in \<lparr>ov_hasOverlap = fs \<noteq> [], ov_overlappingFiles = fs, ov_conflictingRunIds = rs\<rparr>))"

section \<open>The files of a worktree\<close>

text \<open>The text behind the first \<open> -> \<close>, if the line has one: the new name of a rename.\<close>

fun after_arrow :: "string \<Rightarrow> string option" where
  "after_arrow [] = None"
| "after_arrow (c # cs) =
     (if startsWith (c # cs) '' -> '' then Some (drop 4 (c # cs)) else after_arrow cs)"

definition porcelain_path :: "string \<Rightarrow> string" where
  "porcelain_path line =
     (let path = drop 3 line in case after_arrow path of None \<Rightarrow> path | Some p \<Rightarrow> p)"

text \<open>
  The outputs of \<open>git status --porcelain\<close> and of \<open>git log --name-only\<close>, or \<open>None\<close> when a command
  failed.
\<close>

definition getModifiedFiles :: "(string \<times> string) option \<Rightarrow> string list" where
  "getModifiedFiles out =
     (case out of
        None \<Rightarrow> []
      | Some (statusOutput, logOutput) \<Rightarrow>
          (let nonempty = filter (\<lambda>l. l \<noteq> []);
               workingTree = (if statusOutput = [] then []
                 else nonempty (map porcelain_path (nonempty (split_lines statusOutput))));
               committed = (if logOutput = [] then [] else nonempty (split_lines logOutput))
           in setOf (workingTree @ committed)))"

section \<open>Transcripts\<close>

definition encodeCwd :: "string \<Rightarrow> string" where
  "encodeCwd cwd = map (\<lambda>c. if c = CHR ''/'' \<or> c = CHR 0x5C then CHR ''-'' else c) cwd"

definition joinPath :: "string list \<Rightarrow> string" where
  "joinPath parts = joinWith ''/'' parts"

definition transcriptPath :: "string \<Rightarrow> string \<Rightarrow> string \<Rightarrow> string" where
  "transcriptPath projectsRoot cwd sessionId =
     joinPath [projectsRoot, encodeCwd cwd, sessionId @ ''.jsonl'']"

definition transcriptExists :: "string list \<Rightarrow> string \<Rightarrow> string \<Rightarrow> string \<Rightarrow> bool" where
  "transcriptExists disk projectsRoot cwd sessionId \<longleftrightarrow>
     transcriptPath projectsRoot cwd sessionId \<in> set disk"

section \<open>Facts\<close>

definition work_keys :: "work_row list \<Rightarrow> run_id list" where
  "work_keys rows = map w_runId rows"

lemma work_keys_upsert:
  "work_keys (upsertActiveWork now run issue stg files rows) =
    (if run \<in> set (work_keys rows) then work_keys rows else work_keys rows @ [run])"
  by (auto simp: upsertActiveWork_def work_keys_def update_where_def)

lemma work_keys_remove:
  "work_keys (removeActiveWork run rows) = filter (\<lambda>r. r \<noteq> run) (work_keys rows)"
  by (induction rows) (auto simp: removeActiveWork_def work_keys_def delete_where_def)

lemma foldl_new:
  "set (foldl (\<lambda>acc f. if f \<in> set acc then acc else acc @ [f]) fs xs) = set fs \<union> set xs"
  by (induction xs arbitrary: fs) auto

definition work_files :: "work_row \<Rightarrow> string list" where
  "work_files w = (case w_filesModified w of None \<Rightarrow> [] | Some x \<Rightarrow> x)"

lemma work_files_None [simp]: "w_filesModified w = None \<Longrightarrow> work_files w = []"
  by (simp add: work_files_def)

lemma overlap_loop_Cons:
  "overlap_loop files (w # ws) fs rs =
    (let shared = filter (\<lambda>f. f \<in> set files) (work_files w)
     in if shared = [] then overlap_loop files ws fs rs
        else overlap_loop files ws
          (foldl (\<lambda>acc f. if f \<in> set acc then acc else acc @ [f]) fs shared) (rs @ [w_runId w]))"
  by (simp add: work_files_def Let_def)

lemma overlap_loop_files:
  "set (fst (overlap_loop files ws fs rs)) =
     set fs \<union> (\<Union>w \<in> set ws. set (work_files w) \<inter> set files)"
proof (induction ws arbitrary: fs rs)
  case Nil
  then show ?case by simp
next
  case (Cons w ws)
  show ?case
    unfolding overlap_loop_Cons Let_def
    by (auto simp: Cons.IH foldl_new filter_empty_conv simp del: overlap_loop.simps)
qed

lemma overlap_loop_runs:
  "set (snd (overlap_loop files ws fs rs)) =
     set rs \<union> w_runId ` {w \<in> set ws. set (work_files w) \<inter> set files \<noteq> {}}"
proof (induction ws arbitrary: fs rs)
  case Nil
  then show ?case by simp
next
  case (Cons w ws)
  have shared: "filter (\<lambda>f. f \<in> set files) (work_files w) = [] \<longleftrightarrow>
      set (work_files w) \<inter> set files = {}"
    by (auto simp: filter_empty_conv)
  have split: "{x \<in> set (w # ws). set (work_files x) \<inter> set files \<noteq> {}} =
      (if set (work_files w) \<inter> set files = {} then {} else {w}) \<union>
      {x \<in> set ws. set (work_files x) \<inter> set files \<noteq> {}}"
    by auto
  show ?case
    unfolding overlap_loop_Cons Let_def shared split
    by (simp add: Cons.IH image_Un del: overlap_loop.simps)
qed

section \<open>Properties\<close>


definition demo_payload_cfg :: pipeline_config where
  "demo_payload_cfg = \<lparr>pc_name = ''Bug Fix'', pc_stages = [Implement, Test],
     pc_retry = \<lparr>rc_maxAttempts = 3, rc_strategy = FixAndRetry\<rparr>,
     pc_requiredApprovals = 1, pc_prStrategy = Draft, pc_validateHandoffs = None,
     pc_ralphIterations = Some 2, pc_reviewFixIterations = None, pc_deepReviewPasses = Some 5,
     pc_maxDeepReviewPasses = None, pc_autoDeepReviewThresholds = None,
     pc_deepReviewFindingsAreBlocking = None, pc_autoMerge = None, pc_autoMergeMaxLines = None,
     pc_autoMergeExcludePatterns = None, pc_autoMergeConfig = None, pc_maxTokens = Some 1000,
     pc_stageModels = [], pc_failOnAutoCommit = None, pc_policy = None\<rparr>"


text \<open>
  \<open>checkFileOverlap\<close> reports exactly the overlaps with other runs: a file is listed if and
  only if it is one of the run's files and another run's row lists it, and a run is listed if and
  only if it is another run whose row shares a file.
\<close>

theorem overlap_exact:
  "(\<forall>f. f \<in> set (ov_overlappingFiles (checkFileOverlap run files rows)) \<longleftrightarrow>
      f \<in> set files \<and>
      (\<exists>w \<in> set rows. w_runId w \<noteq> run \<and> f \<in> set (work_files w))) \<and>
   (\<forall>r. r \<in> set (ov_conflictingRunIds (checkFileOverlap run files rows)) \<longleftrightarrow>
      (\<exists>w \<in> set rows. w_runId w = r \<and> r \<noteq> run \<and> set (work_files w) \<inter> set files \<noteq> {})) \<and>
   ov_hasOverlap (checkFileOverlap run files rows) =
     (ov_overlappingFiles (checkFileOverlap run files rows) \<noteq> [])"
proof -
  obtain fs rs where l: "overlap_loop files (other_rows run rows) [] [] = (fs, rs)"
    by fastforce
  have others: "set (other_rows run rows) =
      {w \<in> set rows. w_runId w \<noteq> run \<and> w_filesModified w \<noteq> None}"
    by (simp add: other_rows_def)
  show ?thesis
  proof (cases "files = []")
    case True
    then show ?thesis by (simp add: checkFileOverlap_def)
  next
    case False
    then have eq: "checkFileOverlap run files rows =
        \<lparr>ov_hasOverlap = fs \<noteq> [], ov_overlappingFiles = fs, ov_conflictingRunIds = rs\<rparr>"
      by (simp add: checkFileOverlap_def l)
    have "set fs = (\<Union>w \<in> set (other_rows run rows). set (work_files w) \<inter> set files)"
      using overlap_loop_files [of files "other_rows run rows" "[]" "[]"] by (simp add: l)
    moreover have "set rs =
        w_runId ` {w \<in> set (other_rows run rows). set (work_files w) \<inter> set files \<noteq> {}}"
      using overlap_loop_runs [of files "other_rows run rows" "[]" "[]"] by (simp add: l)
    ultimately show ?thesis
      unfolding eq others by (fastforce simp: image_iff)
  qed
qed

end
