(* ===== verification/AgentChecks.thy ===== *)
theory AgentChecks
  imports Store PipelineConfigs
begin

text \<open>
  The checks that wrap a small agent: the handoff validator
  (\<open>packages/core/src/executor/validate.ts\<close>), the RALPH requirements check (\<open>executor/ralph.ts\<close>), the
  choice between a surgical and a full review fix (\<open>pipeline/run-surgical-review-fix.ts\<close>), the
  session policy (\<open>executor/session-policy.ts\<close>) and the push strategy (\<open>repo/git.ts\<close>). The agent
  and its language model are a parameter: what it answered is an argument, \<open>Inl\<close> when the call threw
  and \<open>Inr None\<close> when the answer had no JSON block.
\<close>

section \<open>Handoff validation\<close>

datatype run_mode = FirstResumed | Resumed | Fallback

definition validateHandoff ::
  "string + (bool \<times> string list) option \<Rightarrow> string \<Rightarrow> handoff \<Rightarrow> bool \<Rightarrow> run_mode \<Rightarrow> bool \<times> string list" where
  "validateHandoff agent stg artifact structured mode =
     (if mode = Resumed then (True, [])
      else if \<not> structured
      then (True, [''Stage \"'' @ stg @
              ''\" produced no structured handoff -- validation skipped (already flagged)''])
      else if ha_filesChanged artifact \<noteq> [] \<and> trim (ha_summary artifact) \<noteq> []
      then (True, [])
      else (case agent of
              Inl msg \<Rightarrow> (True, [''Validation skipped due to error: '' @ msg])
            | Inr None \<Rightarrow> (False, [''Validation agent did not produce structured output''])
            | Inr (Some r) \<Rightarrow> r))"

section \<open>Requirements\<close>

record ralph_check =
  ck_satisfied :: bool
  ck_gaps :: "string list"
  ck_suggestions :: "string list"
  ck_evaluationFailed :: bool
  ck_evaluationError :: "string option"

definition evaluation_failed :: "string \<Rightarrow> ralph_check" where
  "evaluation_failed msg = \<lparr>ck_satisfied = False, ck_gaps = [], ck_suggestions = [],
     ck_evaluationFailed = True, ck_evaluationError = Some msg\<rparr>"

definition checkRequirements ::
  "string + (bool \<times> string list \<times> string list) option \<Rightarrow> sanitized_issue \<Rightarrow> ralph_check" where
  "checkRequirements agent issue =
     (if si_acceptanceCriteria issue = []
      then \<lparr>ck_satisfied = True, ck_gaps = [], ck_suggestions = [], ck_evaluationFailed = False,
            ck_evaluationError = None\<rparr>
      else (case agent of
              Inr (Some (satisfied, gaps, suggestions)) \<Rightarrow>
                \<lparr>ck_satisfied = satisfied, ck_gaps = gaps, ck_suggestions = suggestions,
                 ck_evaluationFailed = False, ck_evaluationError = None\<rparr>
            | Inr None \<Rightarrow> evaluation_failed (''RALPH check agent completed but produced no parseable '' @
                ''structured output -- gaps could not be evaluated'')
            | Inl msg \<Rightarrow> evaluation_failed (''RALPH check agent failed: '' @ msg)))"

section \<open>Sessions\<close>

definition ALWAYS_FRESH_STAGES :: "string list" where
  "ALWAYS_FRESH_STAGES = [''validate'', ''ralph-check'']"

definition isAlwaysFreshStage :: "string \<Rightarrow> bool" where
  "isAlwaysFreshStage stg \<longleftrightarrow> stg \<in> set ALWAYS_FRESH_STAGES"

datatype family = Claude | Haiku | OtherFamily

definition modelFamily :: "string \<Rightarrow> family" where
  "modelFamily model =
     (if startsWith model ''claude-haiku'' then Haiku
      else if startsWith model ''claude-'' then Claude else OtherFamily)"

definition isResumable :: "string \<Rightarrow> string \<Rightarrow> bool" where
  "isResumable stg model = (if isAlwaysFreshStage stg then False else modelFamily model = Claude)"

text \<open>
  \<open>runSurgicalReviewFix\<close>: the prompt of the surgical path, \<open>None\<close> on the legacy path; rendering
  the prompt from the findings and the stored decisions is a parameter, and so are the transcripts on
  disk.
\<close>

definition runSurgicalReviewFix ::
  "(finding list \<Rightarrow> string) \<Rightarrow> string list \<Rightarrow> string \<Rightarrow> run_id \<Rightarrow> issue_id \<Rightarrow> string option \<Rightarrow> string \<Rightarrow>
   finding list \<Rightarrow> string option \<times> audit_event" where
  "runSurgicalReviewFix prompt files projectsRoot run issue agentSessionId worktree findings =
     (let surgical = (case agentSessionId of None \<Rightarrow> False
            | Some sid \<Rightarrow> transcriptExists files projectsRoot worktree sid)
      in (if surgical then Some (prompt findings) else None,
          SurgicalReviewFix run issue surgical (length findings)))"

section \<open>Pushing\<close>

datatype push_strategy = ForceWithLease | Standard

definition choosePushStrategy :: "string \<Rightarrow> bool \<Rightarrow> push_strategy" where
  "choosePushStrategy branch rebaseConflict =
     (if rebaseConflict \<or> startsWith branch ''agent/'' then ForceWithLease else Standard)"

section \<open>Properties\<close>

text \<open>
  When a handoff is rejected. The validator rejects a handoff only if the stage does not resume
  the run's session, the handoff is structured, it names no file or has a blank summary, and the
  agent rejected it or gave no answer; in particular the claims of a handoff that lists files and has
  a summary are never checked against the worktree, and an agent that throws lets it pass.
\<close>

theorem validation_rejects_iff:
  "\<not> fst (validateHandoff agent stg artifact structured mode) \<longleftrightarrow>
     mode \<noteq> Resumed \<and> structured \<and>
     (ha_filesChanged artifact = [] \<or> trim (ha_summary artifact) = []) \<and>
     (agent = Inr None \<or> (\<exists>issues. agent = Inr (Some (False, issues))))"
  by (auto simp: validateHandoff_def split: sum.split option.split)

text \<open>
  The requirements check fails closed. An agent that threw or answered nothing usable never
  counts as satisfied; the check is satisfied only on the agent's word, or when the issue has no
  acceptance criteria; and a failed evaluation carries its reason and no gaps.
\<close>

theorem requirements_fail_closed:
  "(ck_satisfied (checkRequirements agent issue) \<longleftrightarrow>
      si_acceptanceCriteria issue = [] \<or> (\<exists>gaps sugg. agent = Inr (Some (True, gaps, sugg)))) \<and>
   (ck_evaluationFailed (checkRequirements agent issue) \<longleftrightarrow>
      si_acceptanceCriteria issue \<noteq> [] \<and> (agent = Inr None \<or> (\<exists>msg. agent = Inl msg))) \<and>
   (if ck_evaluationFailed (checkRequirements agent issue)
    then ck_evaluationError (checkRequirements agent issue) \<noteq> None \<and>
      ck_satisfied (checkRequirements agent issue) = False \<and> ck_gaps (checkRequirements agent issue) = []
    else ck_evaluationError (checkRequirements agent issue) = None)"
  by (auto simp: checkRequirements_def evaluation_failed_def split: sum.split option.split)

end
