(* ===== verification/Gates.thy ===== *)
theory Gates
  imports Store PipelineConfigs Glob
begin

text \<open>
  Two of the gates in front of the push: the scratch-file guard
  (\<open>packages/core/src/pipeline/scratch-file-guard.ts\<close>) and the typecheck gate
  (\<open>pipeline/typecheck-gate.ts\<close>). The outputs of git and of the typecheck command are arguments.
  Paths are ASCII, so that matching without case is matching the lower-cased path; the ellipsis of
  the messages is written as three dots.
\<close>

section \<open>Scratch files\<close>

definition ROOT_MARKDOWN_EXEMPTIONS :: "string list" where
  "ROOT_MARKDOWN_EXEMPTIONS = map toLowerCase [''README.md'', ''CLAUDE.md'', ''CHANGELOG.md'',
     ''CONTRIBUTING.md'', ''SECURITY.md'', ''CODE_OF_CONDUCT.md'', ''LICENSE.md'', ''AUTHORS.md'']"

fun suffixes_of :: "'a list \<Rightarrow> 'a list list" where
  "suffixes_of [] = [[]]"
| "suffixes_of (x # xs) = (x # xs) # suffixes_of xs"

definition no_slash :: "string \<Rightarrow> bool" where
  "no_slash p = list_all (\<lambda>c. c \<noteq> CHR ''/'') p"

text \<open>The predicates of \<open>SCRATCH_PATTERNS\<close> on a lower-cased path, in their order.\<close>

definition bak_pattern :: "string \<Rightarrow> bool" where
  "bak_pattern p \<longleftrightarrow> endsWith p ''.bak'' \<or>
     list_ex (\<lambda>s. startsWith s ''.bak.'' \<and> drop 5 s \<noteq> [] \<and> no_slash (drop 5 s)) (suffixes_of p)"

definition prefixed_md :: "string \<Rightarrow> string \<Rightarrow> bool" where
  "prefixed_md pre p \<longleftrightarrow> startsWith p pre \<and>
     (let rest = drop (length pre) p in endsWith rest ''.md'' \<and> list_all dot (take (length rest - 3) rest))"

definition report_pattern :: "string \<Rightarrow> bool" where
  "report_pattern p \<longleftrightarrow> p \<noteq> [] \<and> no_slash p \<and>
     (prefixed_md ''test_'' p \<or> prefixed_md ''testing_'' p \<or> prefixed_md ''final_'' p \<or>
      endsWith p ''_report.md'' \<or> endsWith p ''_checklist.md'')"

definition shell_pattern :: "string \<Rightarrow> bool" where
  "shell_pattern p \<longleftrightarrow> list_ex (\<lambda>pre. startsWith p pre \<and>
     (let rest = drop (length pre) p in no_slash rest \<and> endsWith rest ''.sh'')) [''commit-'', ''run-'']"

definition root_md_pattern :: "string \<Rightarrow> bool" where
  "root_md_pattern p \<longleftrightarrow> no_slash p \<and> endsWith p ''.md'' \<and> p \<noteq> ''.md'' \<and>
     p \<notin> set ROOT_MARKDOWN_EXEMPTIONS"

definition is_scratch :: "string \<Rightarrow> bool" where
  "is_scratch path =
     (let p = toLowerCase path
      in bak_pattern p \<or> report_pattern p \<or> shell_pattern p \<or> endsWith p ''.tmp'' \<or>
         endsWith p ''.log'' \<or> root_md_pattern p)"

fun scratch_loop :: "string list \<Rightarrow> string list \<Rightarrow> string list" where
  "scratch_loop seen [] = []"
| "scratch_loop seen (p # ps) =
     (if p \<in> set seen then scratch_loop seen ps
      else if is_scratch p then p # scratch_loop (p # seen) ps
      else scratch_loop seen ps)"

definition matchScratchPatterns :: "string list \<Rightarrow> string list" where
  "matchScratchPatterns paths = scratch_loop [] paths"

text \<open>\<open>rest.split(" -> ")[1]\<close>: the text between the first and the second arrow.\<close>

fun before_arrow :: "string \<Rightarrow> string" where
  "before_arrow [] = []"
| "before_arrow (c # cs) = (if startsWith (c # cs) '' -> '' then [] else c # before_arrow cs)"

definition status_path :: "string \<Rightarrow> string option" where
  "status_path line =
     (let xy = take 2 line; rest = drop 3 line in
      if trim line = [] then None
      else if xy = ''??'' \<or> CHR ''A'' \<in> set xy
      then (let p = (case after_arrow rest of Some t \<Rightarrow> trim (before_arrow t) | None \<Rightarrow> trim rest)
            in if p = [] then None else Some p)
      else None)"

definition enumerateAddedFiles :: "string \<Rightarrow> string \<Rightarrow> string list" where
  "enumerateAddedFiles diffOut statusOut =
     setOf (filter (\<lambda>p. p \<noteq> []) (map trim (split_lines diffOut)) @
       List.map_filter status_path (split_lines statusOut))"

text \<open>
  The first argument: \<open>URATEAM_DISABLE_SCRATCH_GUARD\<close> is \<open>true\<close>. The result is the matched files, or
  \<open>None\<close> when the guard was skipped.
\<close>

definition findScratchFiles :: "bool \<Rightarrow> string \<Rightarrow> string \<Rightarrow> string list option" where
  "findScratchFiles disabled diffOut statusOut =
     (if disabled then None else Some (matchScratchPatterns (enumerateAddedFiles diffOut statusOut)))"

section \<open>Typecheck\<close>

record typecheck_result =
  tc_passed :: bool
  tc_errorCount :: nat
  tc_firstMessages :: "string list"
  tc_output :: string
  tc_skipped :: bool

definition is_word :: "char \<Rightarrow> bool" where
  "is_word c \<longleftrightarrow> (let n = (of_char c :: nat) in (48 \<le> n \<and> n \<le> 57) \<or> (65 \<le> n \<and> n \<le> 90) \<or>
     (97 \<le> n \<and> n \<le> 122) \<or> n = 95)"

text \<open>\<open>error TSnnnn\<close> between word boundaries; the first argument says whether a word precedes.\<close>

fun ts_error_from :: "bool \<Rightarrow> string \<Rightarrow> bool" where
  "ts_error_from w [] = False"
| "ts_error_from w (c # cs) =
     ((\<not> w \<and> startsWith (c # cs) ''error TS'' \<and>
        (let rest = drop 8 (c # cs); ds = takeWhile is_digit rest; after = drop (length ds) rest
         in ds \<noteq> [] \<and> (after = [] \<or> \<not> is_word (hd after)))) \<or>
      ts_error_from (is_word c) cs)"

definition ts_error_line :: "string \<Rightarrow> bool" where
  "ts_error_line l = ts_error_from False l"

definition parseFirstMessages :: "string \<Rightarrow> nat \<times> string list" where
  "parseFirstMessages out =
     (let errorLines = filter ts_error_line (map trim (split_lines out))
      in (length errorLines,
          map (\<lambda>l. if 500 < length l then take 500 l @ ''...'' else l) (take 5 errorLines)))"

definition truncateOutput :: "string \<Rightarrow> nat \<Rightarrow> string" where
  "truncateOutput combined limit =
     (if length combined \<le> limit then combined
      else take limit combined @ [CHR 0x0A] @ ''...(truncated)'')"

text \<open>
  The first argument: \<open>URATEAM_DISABLE_TYPECHECK_GATE\<close> is \<open>true\<close>; the second: the command's outputs
  and its exit code.
\<close>

definition runTypecheck :: "bool \<Rightarrow> string \<times> string \<times> int \<Rightarrow> typecheck_result" where
  "runTypecheck disabled r =
     (case r of (stdout, stderr, code) \<Rightarrow>
        if disabled
        then \<lparr>tc_passed = True, tc_errorCount = 0, tc_firstMessages = [], tc_output = [],
              tc_skipped = True\<rparr>
        else (let combined = trim (stderr @ [CHR 0x0A] @ stdout) in
          if code = 0
          then \<lparr>tc_passed = True, tc_errorCount = 0, tc_firstMessages = [], tc_output = [],
                tc_skipped = False\<rparr>
          else (let (count, first) = parseFirstMessages combined
                in \<lparr>tc_passed = False, tc_errorCount = count, tc_firstMessages = first,
                    tc_output = truncateOutput combined 50000, tc_skipped = False\<rparr>)))"

section \<open>Properties\<close>

lemma set_suffixes: "s \<in> set (suffixes_of p) \<longleftrightarrow> (\<exists>u. p = u @ s)"
proof (induction p)
  case (Cons c p)
  have "(\<exists>u. c # p = u @ s) \<longleftrightarrow> s = c # p \<or> (\<exists>u. p = u @ s)"
    by (metis append_Cons append_Nil append_eq_Cons_conv)
  then show ?case using Cons by simp
qed simp

lemma scratch_loop_filter:
  "scratch_loop seen ps = dedup seen (filter is_scratch ps)"
  by (induction seen ps rule: scratch_loop.induct) auto

lemma no_slash_append [simp]: "no_slash (a @ b) \<longleftrightarrow> no_slash a \<and> no_slash b"
  by (simp add: no_slash_def)

lemma report_flat: "report_pattern p \<Longrightarrow> no_slash p"
  by (simp add: report_pattern_def)

lemma shell_flat: "shell_pattern p \<Longrightarrow> no_slash p"
  by (auto simp: shell_pattern_def startsWith_iff Let_def) (simp_all add: no_slash_def)

lemma root_md_flat: "root_md_pattern p \<Longrightarrow> no_slash p"
  by (simp add: root_md_pattern_def)

lemma lower_char_idem [simp]: "lower_char (lower_char c) = lower_char c"
proof -
  have "(of_char (lower_char c) :: nat) = (if 65 \<le> (of_char c :: nat) \<and> (of_char c :: nat) \<le> 90
      then of_char c + 32 else of_char c)"
    by (auto simp: lower_char_def Let_def of_char_of)
  then show ?thesis
    by (auto simp: lower_char_def [of "lower_char c"] Let_def)
qed

lemma exempt_names: "ROOT_MARKDOWN_EXEMPTIONS = [''readme.md'', ''claude.md'', ''changelog.md'',
     ''contributing.md'', ''security.md'', ''code_of_conduct.md'', ''license.md'', ''authors.md'']"
  by code_simp

lemma exempt_lower: "map toLowerCase ROOT_MARKDOWN_EXEMPTIONS = ROOT_MARKDOWN_EXEMPTIONS"
  by (simp only: ROOT_MARKDOWN_EXEMPTIONS_def map_map) (simp add: toLowerCase_def)

lemma exempt_not_scratch: "list_all (\<lambda>d. \<not> is_scratch d) ROOT_MARKDOWN_EXEMPTIONS"
proof -
  have lower: "d \<in> set ROOT_MARKDOWN_EXEMPTIONS \<Longrightarrow> toLowerCase d = d" for d
    using exempt_lower map_eq_conv [of toLowerCase ROOT_MARKDOWN_EXEMPTIONS "\<lambda>x. x"]
    by (simp only: list.map_ident) blast
  have "list_all (\<lambda>p. \<not> bak_pattern p) ROOT_MARKDOWN_EXEMPTIONS"
    by (simp add: exempt_names bak_pattern_def endsWith_def)
  moreover have "list_all (\<lambda>p. \<not> report_pattern p) ROOT_MARKDOWN_EXEMPTIONS"
    by (simp add: exempt_names report_pattern_def prefixed_md_def endsWith_def)
  moreover have "list_all (\<lambda>p. \<not> shell_pattern p) ROOT_MARKDOWN_EXEMPTIONS"
    by (simp add: exempt_names shell_pattern_def endsWith_def)
  moreover have "list_all (\<lambda>p. \<not> endsWith p ''.tmp'' \<and> \<not> endsWith p ''.log'') ROOT_MARKDOWN_EXEMPTIONS"
    by (simp add: exempt_names endsWith_def)
  moreover have "list_all (\<lambda>p. \<not> root_md_pattern p) ROOT_MARKDOWN_EXEMPTIONS"
    by (simp add: list_all_iff root_md_pattern_def)
  ultimately show ?thesis
    by (simp add: list_all_iff is_scratch_def lower)
qed

lemma scratch_matched: "set (matchScratchPatterns ps) = {p \<in> set ps. is_scratch p}"
  by (auto simp: matchScratchPatterns_def scratch_loop_filter set_dedup)

lemma typecheck_passed:
  "tc_passed (runTypecheck d r) \<or> tc_skipped (runTypecheck d r) \<Longrightarrow> tc_errorCount (runTypecheck d r) = 0"
  by (cases r) (auto simp: runTypecheck_def Let_def split: prod.splits if_splits)

text \<open>
  What the scratch guard takes. Its answer is the scratch files among its arguments, each once, in
  their order. Below a directory only backups, temporary files and logs are scratch; in the root,
  every Markdown file is scratch unless it is one of the exempt documents, whose names are matched
  without case.
\<close>

theorem scratch_guard_scope:
  "set (matchScratchPatterns ps) = {p \<in> set ps. is_scratch p} \<and>
   distinct (matchScratchPatterns ps) \<and>
   (no_slash (toLowerCase p) \<or>
      is_scratch p = (bak_pattern (toLowerCase p) \<or> endsWith (toLowerCase p) ''.tmp'' \<or>
        endsWith (toLowerCase p) ''.log'')) \<and>
   (no_slash (toLowerCase q) \<and> endsWith (toLowerCase q) ''.md'' \<and> toLowerCase q \<noteq> ''.md'' \<and>
      toLowerCase q \<notin> set ROOT_MARKDOWN_EXEMPTIONS \<longrightarrow> is_scratch q) \<and>
   list_all (\<lambda>d. \<not> is_scratch d) ROOT_MARKDOWN_EXEMPTIONS"
proof (intro conjI)
  show "set (matchScratchPatterns ps) = {p \<in> set ps. is_scratch p}"
    "distinct (matchScratchPatterns ps)"
    by (auto simp: matchScratchPatterns_def scratch_loop_filter set_dedup distinct_dedup)
  show "no_slash (toLowerCase p) \<or>
      is_scratch p = (bak_pattern (toLowerCase p) \<or> endsWith (toLowerCase p) ''.tmp'' \<or>
        endsWith (toLowerCase p) ''.log'')"
    using report_flat shell_flat root_md_flat by (auto simp: is_scratch_def Let_def)
  show "no_slash (toLowerCase q) \<and> endsWith (toLowerCase q) ''.md'' \<and> toLowerCase q \<noteq> ''.md'' \<and>
      toLowerCase q \<notin> set ROOT_MARKDOWN_EXEMPTIONS \<longrightarrow> is_scratch q"
    by (simp add: is_scratch_def root_md_pattern_def Let_def)
  show "list_all (\<lambda>d. \<not> is_scratch d) ROOT_MARKDOWN_EXEMPTIONS"
    by (rule exempt_not_scratch)
qed

theorem scratch_guard_scope_witness:
  "is_scratch ''NOTES.md'' \<and> matchScratchPatterns [''docs/NOTES.md'', ''NOTES.md'', ''NOTES.md''] = [''NOTES.md'']"
proof -
  have "no_slash (toLowerCase ''NOTES.md'') \<and> endsWith (toLowerCase ''NOTES.md'') ''.md'' \<and>
      toLowerCase ''NOTES.md'' \<noteq> ''.md'' \<and> toLowerCase ''NOTES.md'' \<notin> set ROOT_MARKDOWN_EXEMPTIONS"
    by code_simp
  moreover have "matchScratchPatterns [''docs/NOTES.md'', ''NOTES.md'', ''NOTES.md''] = [''NOTES.md'']"
    by code_simp
  ultimately show ?thesis
    using scratch_guard_scope [of "[]" "[]" "''NOTES.md''"] by blast
qed

text \<open>
  The typecheck result is bounded and consistent: at most five messages of at most 503 characters,
  as many as there are errors up to five, an output of at most 50015 characters, and a run that passed
  or was skipped reports no error.
\<close>

theorem typecheck_result_bounded:
  "length (tc_firstMessages (runTypecheck d r)) = min 5 (tc_errorCount (runTypecheck d r)) \<and>
   list_all (\<lambda>m. length m \<le> 503) (tc_firstMessages (runTypecheck d r)) \<and>
   length (tc_output (runTypecheck d r)) \<le> 50015 \<and>
   (tc_passed (runTypecheck d r) = (d \<or> snd (snd r) = 0)) \<and>
   \<not> (tc_passed (runTypecheck d r) \<and> 0 < tc_errorCount (runTypecheck d r))"
proof -
  obtain out err code where r: "r = (out, err, code)" by (cases r)
  obtain n ms where p: "parseFirstMessages (trim (err @ [CHR 0x0A] @ out)) = (n, ms)" by fastforce
  have "length ms = min 5 n" "list_all (\<lambda>m. length m \<le> 503) ms"
    using p by (auto simp: parseFirstMessages_def Let_def list_all_iff)
  moreover have "length (truncateOutput s 50000) \<le> 50015" for s
    by (simp add: truncateOutput_def)
  ultimately show ?thesis
    using p unfolding r by (auto simp: runTypecheck_def Let_def simp del: append_Cons)
qed

end
