(* ===== verification/RunControl.thy ===== *)
theory RunControl
  imports Store ControlSignals ErrorClassifier PipelineConfigs
begin

text \<open>
  The runner's bookkeeping, \<open>PipelineRunner\<close> in \<open>packages/core/src/pipeline/runner.ts\<close> without the
  execution of a pipeline: starting, resuming, pausing, aborting and stopping runs, the failure
  path with its automatic retries, the token budget, the recovery after a restart; with
  \<open>pipeline/branch-classifier.ts\<close>, \<open>pipeline/terminate.ts\<close>, \<open>pm/pause-state.ts\<close> and the retry
  loop of the PM agent in \<open>pm/actions/recover.ts\<close>.

  The state \<open>sys\<close> holds the database tables, the runner's fields, the stop signals, what the
  notifier was told, the closures handed to the work queue (\<open>jobs\<close>), the paths that exist on disk
  and the clock. An operation is the composition of its synchronous segments; \<open>start\<close> and \<open>resume\<close>
  look at \<open>activeRuns\<close> before their first \<open>await\<close> and claim the slot after it, so their two
  segments are separate definitions.
\<close>

section \<open>State\<close>

record linear_issue =
  li_id :: string
  li_identifier :: issue_id
  li_title :: string
  li_teamId :: string

datatype job =
    FreshJob pipeline_run pipeline_config repo_config sanitized_issue string "string option"
  | ResumeJob pipeline_run pipeline_config repo_config sanitized_issue string int string
      "handoff option" "string option"

fun job_run :: "job \<Rightarrow> pipeline_run" where
  "job_run (FreshJob run _ _ _ _ _) = run"
| "job_run (ResumeJob run _ _ _ _ _ _ _ _) = run"

record sys =
  runs :: "run_row list"
  stages :: "stage_row list"
  work :: "work_row list"
  audit :: "audit_event list"
  activeRuns :: "(issue_id, run_id) js_map"
  activeFeedbackRuns :: "(string, run_id) js_map"
  budgetAlerted :: "run_id list"
  signal :: ctl
  pmPaused :: bool
  notices :: "notification list"
  jobs :: "job list"
  disk :: "string list"
  clock :: millis

definition update_run :: "run_id \<Rightarrow> (run_row \<Rightarrow> run_row) \<Rightarrow> sys \<Rightarrow> sys" where
  "update_run run f s = s\<lparr>runs := update_where (\<lambda>r. r_id r = run) f (runs s)\<rparr>"

definition get_run :: "sys \<Rightarrow> run_id \<Rightarrow> run_row option" where
  "get_run s run = select_one (\<lambda>r. r_id r = run) (runs s)"

text \<open>\<open>cancelRunningStageRuns\<close>.\<close>

definition cancelRunningStageRuns :: "run_id \<Rightarrow> sys \<Rightarrow> sys" where
  "cancelRunningStageRuns run s =
     s\<lparr>stages := update_where (\<lambda>g. s_pipelineRunId g = run \<and> s_status g = SRunning)
         (\<lambda>g. g\<lparr>s_status := SCancelled, s_completedAt := Some (clock s)\<rparr>) (stages s)\<rparr>"

definition remove_work :: "run_id \<Rightarrow> sys \<Rightarrow> sys" where
  "remove_work run s = s\<lparr>work := removeActiveWork run (work s)\<rparr>"

definition notify :: "notification \<Rightarrow> sys \<Rightarrow> sys" where
  "notify n s = s\<lparr>notices := notices s @ [n]\<rparr>"

definition log_audit :: "audit_event \<Rightarrow> sys \<Rightarrow> sys" where
  "log_audit e s = s\<lparr>audit := audit s @ [e]\<rparr>"

section \<open>Classifying an existing branch\<close>

definition branchName :: "issue_id \<Rightarrow> string \<Rightarrow> string" where
  "branchName issueId slug = ''agent/'' @ issueId @ ''-'' @ slug"

text \<open>\<open>line.split(tab)[1]\<close> and \<open>ref.replace(p, '')\<close>, which removes the first occurrence.\<close>

definition second_field :: "string \<Rightarrow> string option" where
  "second_field line =
     (case dropWhile (\<lambda>c. c \<noteq> CHR 0x09) line of
        [] \<Rightarrow> None
      | _ # rest \<Rightarrow> Some (takeWhile (\<lambda>c. c \<noteq> CHR 0x09) rest))"

fun remove_first :: "string \<Rightarrow> string \<Rightarrow> string" where
  "remove_first p [] = []"
| "remove_first p (c # cs) =
     (if startsWith (c # cs) p then drop (length p) (c # cs) else c # remove_first p cs)"

text \<open>
  \<open>checkDuplicateBranch\<close>: the output of \<open>git ls-remote\<close>, or \<open>None\<close> if the command failed, and the
  first line whose reference belongs to the issue.
\<close>

definition checkDuplicateBranch :: "string option \<Rightarrow> issue_id \<Rightarrow> string option" where
  "checkDuplicateBranch stdout issueId =
     (case stdout of
        None \<Rightarrow> None
      | Some out \<Rightarrow>
          (let refs = map (\<lambda>l. map_option (remove_first ''refs/heads/'') (second_field l))
                          (split_lines out);
               hit = find (\<lambda>r. case r of None \<Rightarrow> False
                 | Some ref \<Rightarrow> startsWith ref (''agent/'' @ issueId @ ''-'')) refs
           in (case hit of None \<Rightarrow> None | Some r \<Rightarrow> r)))"

datatype branch_state = OpenPr nat | Stale | ActiveRun run_id

text \<open>The answer of the pull-request check is an error, no pull request, or its number.\<close>

definition classifyExistingBranch ::
  "run_row list \<Rightarrow> string \<Rightarrow> unit + nat option \<Rightarrow> branch_state" where
  "classifyExistingBranch rows branch checkPR =
     (case select_one (\<lambda>r. r_branch r = Some branch \<and>
             (r_status r = Running \<or> r_status r = Queued)) rows of
        Some r \<Rightarrow> ActiveRun (r_id r)
      | None \<Rightarrow>
          (case checkPR of
             Inl err \<Rightarrow> Stale
           | Inr None \<Rightarrow> Stale
           | Inr (Some n) \<Rightarrow> OpenPr n))"

section \<open>Starting a run\<close>

text \<open>
  What the outside world answers to \<open>start\<close>: the remote's references, the pull-request check, the
  fresh ids, and whether \<open>URATEAM_DISABLE_AGENT_SESSION_RESUME\<close> is set to \<open>true\<close>. Deleting a stale
  remote branch is best effort and its failure is only logged.
\<close>

record start_env =
  se_lsRemote :: "string option"
  se_openPr :: "unit + nat option"
  se_runId :: run_id
  se_uuid :: string
  se_sessionResumeDisabled :: bool

definition isAgentSessionResumeEnabled :: "start_env \<Rightarrow> bool" where
  "isAgentSessionResumeEnabled env = (\<not> se_sessionResumeDisabled env)"

definition buildPipelineRun ::
  "run_id \<Rightarrow> linear_issue \<Rightarrow> string \<Rightarrow> repo_config \<Rightarrow> string \<Rightarrow> pipeline_run" where
  "buildPipelineRun run issue key repo branch =
     \<lparr>pr_id = run, pr_issueId = li_identifier issue, pr_issueTitle = li_title issue,
      pr_pipelineKey = key, pr_repoUrl = rp_url repo, pr_branch = Some branch,
      pr_status = Queued, pr_prUrl = None, pr_totalInputTokens = 0, pr_totalOutputTokens = 0,
      pr_autoMerged = None, pr_autoMergeReason = None, pr_autoCommitted = None,
      pr_stageRetries = [], pr_runType = None, pr_retryCount = None\<rparr>"

definition fresh_row ::
  "millis \<Rightarrow> run_id \<Rightarrow> linear_issue \<Rightarrow> string \<Rightarrow> repo_config \<Rightarrow> string \<Rightarrow> string option \<Rightarrow>
   string option \<Rightarrow> run_row" where
  "fresh_row now run issue key repo branch team session =
     \<lparr>r_id = run, r_issueId = li_identifier issue, r_issueTitle = li_title issue,
      r_pipelineKey = key, r_repoUrl = rp_url repo, r_agentSessionId = session,
      r_branch = Some branch, r_status = Queued, r_startedAt = now, r_completedAt = None,
      r_prUrl = None, r_totalInputTokens = 0, r_totalOutputTokens = 0, r_errorMessage = None,
      r_currentStageIndex = None, r_resumePayload = None, r_retryCount = 0,
      r_runType = ''standard'', r_autoMerged = None, r_autoMergeReason = None,
      r_autoCommitted = None, r_linearTeamId = team\<rparr>"

text \<open>The part of \<open>start\<close> behind the checks: insert the row, claim the slot, enqueue the job.\<close>

definition start_commit ::
  "start_env \<Rightarrow> linear_issue \<Rightarrow> string \<Rightarrow> pipeline_config \<Rightarrow> repo_config \<Rightarrow> sanitized_issue \<Rightarrow>
   string option \<Rightarrow> string option \<Rightarrow> sys \<Rightarrow> sys" where
  "start_commit env issue key cfg repo si team staleBranch s =
     (let run = se_runId env;
          session = (if isAgentSessionResumeEnabled env then Some (se_uuid env) else None);
          branch = branchName (li_identifier issue) (si_slug si);
          s1 = s\<lparr>runs := runs s @ [fresh_row (clock s) run issue key repo branch team session]\<rparr>;
          s2 = (case staleBranch of None \<Rightarrow> s1
                | Some b \<Rightarrow> log_audit (StaleBranchRecovered (li_identifier issue) b run) s1);
          s3 = (case session of None \<Rightarrow> s2
                | Some u \<Rightarrow> log_audit (AgentSessionCreated run (li_identifier issue) u) s2)
      in s3\<lparr>activeRuns := mapSet (activeRuns s3) (li_identifier issue) run,
            jobs := jobs s3 @
              [FreshJob (buildPipelineRun run issue key repo branch) cfg repo si branch session]\<rparr>)"

text \<open>The synchronous check at the entry; the branch checks behind the first \<open>await\<close>.\<close>

definition start_check :: "linear_issue \<Rightarrow> sys \<Rightarrow> bool" where
  "start_check issue s = (\<not> mapHas (activeRuns s) (li_identifier issue))"

definition start_rest ::
  "start_env \<Rightarrow> linear_issue \<Rightarrow> string \<Rightarrow> pipeline_config \<Rightarrow> repo_config \<Rightarrow> sanitized_issue \<Rightarrow>
   string option \<Rightarrow> sys \<Rightarrow> sys" where
  "start_rest env issue key cfg repo si team s =
     (let ident = li_identifier issue in
      case checkDuplicateBranch (se_lsRemote env) ident of
        None \<Rightarrow> start_commit env issue key cfg repo si team None s
      | Some existing \<Rightarrow>
          (case classifyExistingBranch (runs s) existing (se_openPr env) of
             ActiveRun r \<Rightarrow> log_audit (SkippedExistingBranch ident existing ''active-run'') s
           | OpenPr n \<Rightarrow> log_audit (SkippedExistingBranch ident existing ''open-pr'') s
           | Stale \<Rightarrow> start_commit env issue key cfg repo si team (Some existing) s))"

definition start ::
  "start_env \<Rightarrow> linear_issue \<Rightarrow> string \<Rightarrow> pipeline_config \<Rightarrow> repo_config \<Rightarrow> sanitized_issue \<Rightarrow>
   string option \<Rightarrow> sys \<Rightarrow> sys" where
  "start env issue key cfg repo si team s =
     (if start_check issue s then start_rest env issue key cfg repo si team s else s)"

text \<open>
  The closure in the queue: when it is its turn it looks whether the issue is still claimed, and
  when the execution ends, its \<open>finally\<close> block frees the slot of the issue.
\<close>

definition job_begins :: "job \<Rightarrow> sys \<Rightarrow> bool" where
  "job_begins j s = mapHas (activeRuns s) (pr_issueId (job_run j))"

definition job_ends :: "job \<Rightarrow> sys \<Rightarrow> sys" where
  "job_ends j s = s\<lparr>activeRuns := mapDelete (activeRuns s) (pr_issueId (job_run j))\<rparr>"


section \<open>Resuming a run\<close>

text \<open>
  \<open>agentRunDir\<close> and Node's \<open>path.resolve\<close> (which collapses dot segments) are parameters; the path
  separator is the one of POSIX.
\<close>

record runner_env =
  rv_agentRunDir :: string
  rv_projectsRoot :: string
  rv_resolve :: "string \<Rightarrow> string"

definition path_contained :: "runner_env \<Rightarrow> string \<Rightarrow> bool" where
  "path_contained env wt =
     (let resolved = rv_resolve env wt;
          base = (if endsWith (rv_agentRunDir env) ''/'' then rv_agentRunDir env
                  else rv_agentRunDir env @ ''/'')
      in startsWith resolved base \<or> resolved = rv_agentRunDir env)"

text \<open>Marking the run failed and giving the slot back, as every refusal of \<open>resume\<close> does.\<close>

definition refuse_resume :: "issue_id \<Rightarrow> run_id \<Rightarrow> string \<Rightarrow> sys \<Rightarrow> sys" where
  "refuse_resume issue run msg s =
     (let s1 = update_run run (\<lambda>r. r\<lparr>r_status := Failed, r_completedAt := Some (clock s),
                 r_errorMessage := Some msg\<rparr>) s
      in s1\<lparr>activeRuns := mapDelete (activeRuns s1) issue\<rparr>)"

text \<open>
  The stored payload, with the stage index of the column put in where the object has none; the
  error of each way to fail. The code appends the validator's list of issues to the second one.
\<close>

definition parse_payload :: "int \<Rightarrow> stored_payload \<Rightarrow> string + resume_payload" where
  "parse_payload index p =
     (case p of
        BadJson text \<Rightarrow> Inl ''Invalid resume payload -- cannot resume''
      | Json raw \<Rightarrow>
          (let raw1 = (if raw_currentStageIndex raw = Missing
                       then raw\<lparr>raw_currentStageIndex := Good index\<rparr> else raw)
           in case ResumePayload_safeParse raw1 of
                None \<Rightarrow> Inl ''Invalid resume payload structure -- cannot resume''
              | Some payload \<Rightarrow> Inr payload))"

definition resumed_run :: "run_row \<Rightarrow> pipeline_run" where
  "resumed_run r =
     \<lparr>pr_id = r_id r, pr_issueId = r_issueId r, pr_issueTitle = r_issueTitle r,
      pr_pipelineKey = r_pipelineKey r, pr_repoUrl = r_repoUrl r, pr_branch = r_branch r,
      pr_status = Running, pr_prUrl = None, pr_totalInputTokens = r_totalInputTokens r,
      pr_totalOutputTokens = r_totalOutputTokens r, pr_autoMerged = None,
      pr_autoMergeReason = None, pr_autoCommitted = None, pr_stageRetries = [],
      pr_runType = None, pr_retryCount = Some (r_retryCount r)\<rparr>"

text \<open>The row that \<open>resume\<close> picks: the first paused or retriable run of the issue.\<close>

definition resumable_row :: "issue_id \<Rightarrow> sys \<Rightarrow> run_row option" where
  "resumable_row issue s =
     select_one (\<lambda>r. r_issueId r = issue \<and> (r_status r = Paused \<or> r_status r = Retriable)) (runs s)"

text \<open>The part of \<open>resume\<close> behind the query: claim the slot, validate, enqueue.\<close>

definition resume_row :: "runner_env \<Rightarrow> issue_id \<Rightarrow> run_row \<Rightarrow> sys \<Rightarrow> sys" where
  "resume_row env issue row s =
     (let run = r_id row;
          s1 = s\<lparr>activeRuns := mapSet (activeRuns s) issue run\<rparr>;
          s2 = (if r_status row = Retriable
                then update_run run (\<lambda>r. r\<lparr>r_status := Paused\<rparr>) s1 else s1)
      in case (r_currentStageIndex row, r_resumePayload row) of
           (Some index, Some stored) \<Rightarrow>
             (case parse_payload index stored of
                Inl msg \<Rightarrow> refuse_resume issue run msg s2
              | Inr p \<Rightarrow>
                  if \<not> path_contained env (pl_worktreePath p)
                  then refuse_resume issue run (''Worktree path '' @ pl_worktreePath p @
                    '' is outside agent run directory -- cannot resume'') s2
                  else if pl_worktreePath p \<notin> set (disk s2)
                  then refuse_resume issue run (''Worktree no longer exists at '' @
                    pl_worktreePath p @ '' -- cannot resume'') s2
                  else (case r_branch row of
                    None \<Rightarrow> refuse_resume issue run ''Branch is null -- cannot resume pipeline'' s2
                  | Some branch \<Rightarrow>
                      if branch = []
                      then refuse_resume issue run ''Branch is null -- cannot resume pipeline'' s2
                      else s2\<lparr>jobs := jobs s2 @
                        [ResumeJob (resumed_run row) (pl_pipelineConfig p) (pl_repoConfig p)
                           (pl_sanitizedIssue p) branch (pl_currentStageIndex p)
                           (pl_worktreePath p) (pl_handoff p) (r_agentSessionId row)]\<rparr>))
         | _ \<Rightarrow> refuse_resume issue run
                 ''Resume payload missing -- cannot resume pipeline execution'' s2)"

definition resume :: "runner_env \<Rightarrow> issue_id \<Rightarrow> sys \<Rightarrow> sys" where
  "resume env issue s =
     (case mapGet (activeRuns s) issue of
        Some run \<Rightarrow> update_run run (\<lambda>r. r\<lparr>r_status := Running\<rparr>) s
      | None \<Rightarrow>
          (case resumable_row issue s of
             None \<Rightarrow> s
           | Some row \<Rightarrow> resume_row env issue row s))"

section \<open>Pausing, aborting, stopping\<close>

definition pause :: "issue_id \<Rightarrow> sys \<Rightarrow> sys" where
  "pause issue s =
     (case mapGet (activeRuns s) issue of
        None \<Rightarrow> s
      | Some run \<Rightarrow> update_run run (\<lambda>r. r\<lparr>r_status := Paused\<rparr>) s)"

definition abort :: "issue_id \<Rightarrow> sys \<Rightarrow> sys" where
  "abort issue s =
     (case mapGet (activeRuns s) issue of
        None \<Rightarrow> s
      | Some run \<Rightarrow>
          (let s1 = remove_work run s;
               s2 = update_run run (\<lambda>r. r\<lparr>r_status := Aborted, r_completedAt := Some (clock s)\<rparr>) s1;
               s3 = cancelRunningStageRuns run s2
           in s3\<lparr>activeRuns := mapDelete (activeRuns s3) issue\<rparr>))"

definition runner_requestStop ::
  "run_id \<Rightarrow> stop_mode \<Rightarrow> sys \<Rightarrow> sys \<times> issue_id option \<times> stop_mode" where
  "runner_requestStop run mode s =
     (let issue = map_option fst (find (\<lambda>(iss, rid). rid = run) (activeRuns s));
          (c, effective) = requestStop (signal s) run mode
      in (s\<lparr>signal := c\<rparr>, issue, effective))"

definition isPmPaused :: "string option \<Rightarrow> sys \<Rightarrow> bool" where
  "isPmPaused PM_AGENT_PAUSED s \<longleftrightarrow> PM_AGENT_PAUSED = Some ''true'' \<or> pmPaused s"

definition setPmPaused :: "bool \<Rightarrow> sys \<Rightarrow> sys" where
  "setPmPaused v s = s\<lparr>pmPaused := v\<rparr>"

definition haltAll :: "sys \<Rightarrow> sys \<times> run_id list" where
  "haltAll s =
     (let s1 = setPmPaused True s;
          ids = map snd (activeRuns s1) @ map snd (activeFeedbackRuns s1);
          c = foldl (\<lambda>c r. fst (requestStop c r Cancel)) (signal s1) ids
      in (s1\<lparr>signal := c\<rparr>, setOf ids))"

definition mode_name :: "stop_mode \<Rightarrow> string" where
  "mode_name m = (case m of Cancel \<Rightarrow> ''cancel'' | Graceful \<Rightarrow> ''graceful'')"

text \<open>The operations that change the in-memory run return it next to the state.\<close>

definition markRunCancelled ::
  "run_id \<Rightarrow> pipeline_run \<Rightarrow> stop_mode \<Rightarrow> string option \<Rightarrow> sys \<Rightarrow> sys \<times> pipeline_run" where
  "markRunCancelled rid run mode feedbackPrUrl s =
     (let s1 = remove_work rid s;
          s2 = update_run rid (\<lambda>r. r\<lparr>r_status := Cancelled,
                 r_errorMessage := Some (''cancelled by operator ('' @ mode_name mode @ '')''),
                 r_completedAt := Some (clock s)\<rparr>) s1;
          s3 = cancelRunningStageRuns rid s2;
          run1 = run\<lparr>pr_status := Cancelled\<rparr>;
          s4 = s3\<lparr>activeRuns := mapDelete (activeRuns s3) (pr_issueId run1)\<rparr>;
          s5 = (case feedbackPrUrl of None \<Rightarrow> s4
                | Some u \<Rightarrow> if u = [] then s4
                    else s4\<lparr>activeFeedbackRuns := mapDelete (activeFeedbackRuns s4) u\<rparr>)
      in (s5\<lparr>signal := clearStopSignal (signal s5) rid\<rparr>, run1))"

section \<open>Failing a run\<close>

record fail_context =
  fc_worktreePath :: "string option"
  fc_currentStageIndex :: "int option"
  fc_handoff :: "handoff option"
  fc_pipelineConfig :: "pipeline_config option"
  fc_repoConfig :: "repo_config option"
  fc_sanitizedIssue :: "sanitized_issue option"

text \<open>The fields of a complete context; an empty worktree path counts as missing.\<close>

definition retry_context :: "fail_context option \<Rightarrow>
    (string \<times> int \<times> pipeline_config \<times> repo_config \<times> sanitized_issue) option" where
  "retry_context context =
     (case context of
        None \<Rightarrow> None
      | Some c \<Rightarrow>
          (case (fc_worktreePath c, fc_currentStageIndex c, fc_pipelineConfig c,
                 fc_repoConfig c, fc_sanitizedIssue c) of
             (Some wt, Some i, Some cfg, Some repo, Some si) \<Rightarrow>
               if wt = [] then None else Some (wt, i, cfg, repo, si)
           | _ \<Rightarrow> None))"

definition retry_count :: "pipeline_run \<Rightarrow> nat" where
  "retry_count run = (case pr_retryCount run of None \<Rightarrow> 0 | Some n \<Rightarrow> n)"

definition mark_retriable ::
  "run_id \<Rightarrow> pipeline_run \<Rightarrow> string \<Rightarrow> handoff option \<Rightarrow>
   string \<times> int \<times> pipeline_config \<times> repo_config \<times> sanitized_issue \<Rightarrow> sys \<Rightarrow> sys \<times> pipeline_run" where
  "mark_retriable rid run msg h ctx s =
     (case ctx of (wt, i, cfg, repo, si) \<Rightarrow>
        (let resumeStageIndex = i - 1 in
         (update_run rid (\<lambda>r. r\<lparr>r_status := Retriable,
             r_currentStageIndex := Some resumeStageIndex,
             r_resumePayload := Some (buildResumePayload h cfg repo si wt resumeStageIndex),
             r_retryCount := retry_count run + 1,
             r_errorMessage := Some msg\<rparr>) s,
          run\<lparr>pr_status := Retriable\<rparr>)))"

definition mark_failed ::
  "run_id \<Rightarrow> pipeline_run \<Rightarrow> string \<Rightarrow> string \<Rightarrow> bool \<Rightarrow> sys \<Rightarrow> sys \<times> pipeline_run" where
  "mark_failed rid run stg msg exhausted s =
     (let s1 = update_run rid (\<lambda>r. r\<lparr>r_status := Failed, r_completedAt := Some (clock s),
                 r_errorMessage := Some msg\<rparr>) s;
          s2 = cancelRunningStageRuns rid s1;
          run1 = run\<lparr>pr_status := Failed\<rparr>
      in (notify (OnPipelineFailed rid
            \<lparr>pe_stage = stg, pe_message = msg, pe_retriesExhausted = exhausted\<rparr>) s2, run1))"

definition failPipeline ::
  "run_id \<Rightarrow> pipeline_run \<Rightarrow> string \<Rightarrow> string \<Rightarrow> bool \<Rightarrow> fail_context option \<Rightarrow> sys \<Rightarrow>
   sys \<times> pipeline_run" where
  "failPipeline rid run stg msg exhausted context s =
     (case retry_context context of
        Some ctx \<Rightarrow>
          if isTransientError msg \<and> retry_count run < MAX_TRANSIENT_RETRIES
          then mark_retriable rid run msg (Option.bind context fc_handoff) ctx s
          else mark_failed rid run stg msg exhausted s
      | None \<Rightarrow> mark_failed rid run stg msg exhausted s)"

section \<open>The token budget\<close>

text \<open>
  \<open>toLocaleString\<close> is a parameter. The threshold \<open>totalUsed >= maxTokens * 0.8\<close> is compared exactly.
\<close>

definition budget_message :: "string \<Rightarrow> string \<Rightarrow> string" where
  "budget_message used maxTokens =
     ''Token budget exceeded: '' @ used @ '' used of '' @ maxTokens @ '' max''"

definition checkTokenBudget ::
  "(nat \<Rightarrow> string) \<Rightarrow> run_id \<Rightarrow> pipeline_run \<Rightarrow> pipeline_config \<Rightarrow> string \<Rightarrow> sys \<Rightarrow>
   sys \<times> pipeline_run \<times> bool" where
  "checkTokenBudget fmt rid run cfg stg s =
     (case pc_maxTokens cfg of
        None \<Rightarrow> (s, run, False)
      | Some maxTokens \<Rightarrow>
          if maxTokens = 0 then (s, run, False)
          else
            (let totalUsed = pr_totalInputTokens run + pr_totalOutputTokens run;
                 s1 = (if 4 * maxTokens \<le> 5 * totalUsed \<and> rid \<notin> set (budgetAlerted s)
                       then notify (OnTokenBudgetAlert rid totalUsed maxTokens)
                              (s\<lparr>budgetAlerted := budgetAlerted s @ [rid]\<rparr>)
                       else s)
             in if maxTokens \<le> totalUsed
                then (let (s2, run2) = failPipeline rid run stg
                            (budget_message (fmt totalUsed) (fmt maxTokens)) False None s1
                      in (s2, run2, True))
                else (s1, run, False)))"


section \<open>Recovery\<close>

definition NON_IDEMPOTENT_STAGES :: "string list" where
  "NON_IDEMPOTENT_STAGES = [''push'', ''await-approval'']"

definition MIN_AGE_MS :: millis where
  "MIN_AGE_MS = 5 * 60 * 1000"

text \<open>\<open>ORDER BY started_at DESC LIMIT 1\<close>; of rows with the same time, the first.\<close>

fun latest :: "stage_row list \<Rightarrow> stage_row option" where
  "latest [] = None"
| "latest (g # gs) =
     (case latest gs of
        None \<Rightarrow> Some g
      | Some h \<Rightarrow> if s_startedAt h \<le> s_startedAt g then Some g else Some h)"

definition last_stage :: "run_id \<Rightarrow> sys \<Rightarrow> string option" where
  "last_stage run s =
     map_option s_stage (latest (select_where (\<lambda>g. s_pipelineRunId g = run) (stages s)))"

definition worktree_of :: "runner_env \<Rightarrow> run_id \<Rightarrow> string" where
  "worktree_of env run = joinPath [rv_agentRunDir env, run, ''worktree'']"

definition is_stuck :: "sys \<Rightarrow> run_row \<Rightarrow> bool" where
  "is_stuck s r \<longleftrightarrow> (r_status r = Running \<or> r_status r = Queued) \<and>
     r_id r \<notin> set (map snd (activeRuns s)) \<and> r_startedAt r < clock s - MIN_AGE_MS"

definition auto_resumable :: "runner_env \<Rightarrow> sys \<Rightarrow> run_row \<Rightarrow> bool" where
  "auto_resumable env s r \<longleftrightarrow>
     worktree_of env (r_id r) \<in> set (disk s) \<and>
     (case r_agentSessionId r of None \<Rightarrow> False
      | Some sid \<Rightarrow> transcriptExists (disk s) (rv_projectsRoot env) (worktree_of env (r_id r)) sid) \<and>
     (case last_stage (r_id r) s of None \<Rightarrow> True | Some g \<Rightarrow> g \<notin> set NON_IDEMPOTENT_STAGES)"

definition stuck_message :: "runner_env \<Rightarrow> sys \<Rightarrow> run_row \<Rightarrow> string" where
  "stuck_message env s r =
     (let wt = worktree_of env (r_id r);
          present = ''Pipeline interrupted by server restart; worktree present at '' @ wt;
          absent = ''Pipeline interrupted by server restart; worktree not found at '' @ wt
      in case last_stage (r_id r) s of
           Some g \<Rightarrow>
             if g \<in> set NON_IDEMPOTENT_STAGES
             then ''interrupted mid-'' @ g @ '' -- not safe to auto-resume; manual ura retry required''
             else if wt \<in> set (disk s) then present else absent
         | None \<Rightarrow> if wt \<in> set (disk s) then present else absent)"

definition recover_one :: "runner_env \<Rightarrow> run_row \<Rightarrow> sys \<Rightarrow> sys" where
  "recover_one env r s =
     (if auto_resumable env s r
      then remove_work (r_id r)
        (update_run (r_id r) (\<lambda>x. x\<lparr>r_status := Retriable, r_completedAt := Some (clock s),
           r_errorMessage := Some (''Pipeline interrupted by server restart; worktree present at '' @
             worktree_of env (r_id r))\<rparr>) s)
      else remove_work (r_id r)
        (cancelRunningStageRuns (r_id r)
          (update_run (r_id r) (\<lambda>x. x\<lparr>r_status := Failed, r_completedAt := Some (clock s),
             r_errorMessage := Some (stuck_message env s r)\<rparr>) s)))"

text \<open>The runs are selected once, then handled; they touch disjoint rows, so their order is free.\<close>

definition recoverStuckRuns :: "runner_env \<Rightarrow> sys \<Rightarrow> sys" where
  "recoverStuckRuns env s =
     foldl (\<lambda>s r. recover_one env r s) s (select_where (is_stuck s) (runs s))"

text \<open>\<open>recoverRetriableRuns\<close> of the PM agent, for one row and for all of them.\<close>

definition restart_prefix :: string where
  "restart_prefix = ''Pipeline interrupted by server restart''"

definition recover_retriable_one ::
  "runner_env \<Rightarrow> nat \<Rightarrow> run_row \<Rightarrow> sys \<times> issue_id list \<times> issue_id list \<Rightarrow>
   sys \<times> issue_id list \<times> issue_id list" where
  "recover_retriable_one env maxRetries r acc =
     (case acc of (s, recovered, exhausted) \<Rightarrow>
        let msg = (case r_errorMessage r of None \<Rightarrow> [] | Some m \<Rightarrow> m) in
        if maxRetries \<le> r_retryCount r
        then (update_run (r_id r) (\<lambda>x. x\<lparr>r_status := Failed, r_completedAt := Some (clock s),
                r_errorMessage := Some ((case r_errorMessage r of None \<Rightarrow> ''unknown'' | Some m \<Rightarrow> m) @
                  '' [max retries exhausted after '' @ show_nat (r_retryCount r) @ '' attempts]'')\<rparr>) s,
              recovered, exhausted @ [r_issueId r])
        else
          (let s1 = (if startsWith msg restart_prefix
                     then log_audit (RestartInterruptRecovered (r_id r) (r_issueId r)
                       (case last_stage (r_id r) s of None \<Rightarrow> ''unknown'' | Some g \<Rightarrow> g)
                       (clock s - (case r_completedAt r of None \<Rightarrow> 0 | Some t \<Rightarrow> t))) s
                     else s);
               s2 = update_run (r_id r) (\<lambda>x. x\<lparr>r_status := Paused\<rparr>) s1
           in (resume env (r_issueId r) s2, recovered @ [r_issueId r], exhausted)))"

definition recoverRetriableRuns ::
  "runner_env \<Rightarrow> nat \<Rightarrow> sys \<Rightarrow> sys \<times> issue_id list \<times> issue_id list" where
  "recoverRetriableRuns env maxRetries s =
     foldl (\<lambda>acc r. recover_retriable_one env maxRetries r acc) (s, [], [])
       (select_where (\<lambda>r. r_status r = Retriable) (runs s))"

text \<open>\<open>terminateRun\<close> of \<open>pipeline/terminate.ts\<close>.\<close>

datatype terminate_error = RunNotFound run_id | AlreadyTerminal run_id run_status

definition TERMINAL_STATUSES :: "run_status list" where
  "TERMINAL_STATUSES = [Completed, Aborted]"

definition terminateRun :: "run_id \<Rightarrow> sys \<Rightarrow> terminate_error + (sys \<times> issue_id \<times> run_status)" where
  "terminateRun run s =
     (case get_run s run of
        None \<Rightarrow> Inl (RunNotFound run)
      | Some r \<Rightarrow>
          if r_status r \<in> set TERMINAL_STATUSES then Inl (AlreadyTerminal run (r_status r))
          else Inr (remove_work run
                 (update_run run (\<lambda>r. r\<lparr>r_status := Failed,
                    r_errorMessage := Some ''manually terminated via CLI'',
                    r_completedAt := Some (clock s)\<rparr>) s),
               r_issueId r, r_status r))"

text \<open>\<open>sendDailyTokenSummary\<close>: the sums over the runs started in \<open>[dayStart, dayEnd)\<close>.\<close>

record daily_summary =
  ds_totalInputTokens :: nat
  ds_totalOutputTokens :: nat
  ds_runsCompleted :: nat
  ds_runsFailed :: nat

definition dailyTokenSummary :: "millis \<Rightarrow> millis \<Rightarrow> sys \<Rightarrow> daily_summary" where
  "dailyTokenSummary dayStart dayEnd s =
     (let rows = select_where (\<lambda>r. dayStart \<le> r_startedAt r \<and> r_startedAt r < dayEnd) (runs s)
      in \<lparr>ds_totalInputTokens = sum_list (map r_totalInputTokens rows),
          ds_totalOutputTokens = sum_list (map r_totalOutputTokens rows),
          ds_runsCompleted = sum_list (map (\<lambda>r. if r_status r = Completed then 1 else 0) rows),
          ds_runsFailed = sum_list (map (\<lambda>r. if r_status r = Failed then 1 else 0) rows)\<rparr>)"


section \<open>A concrete system\<close>

text \<open>Used by the witnesses: one run of the built-in bug pipeline, in its test stage.\<close>

definition demo_cfg :: pipeline_config where
  "demo_cfg = LOOP_DEFAULTS\<lparr>pc_name := ''Bug Fix'', pc_stages := [Reproduce, Implement, Test, Review],
     pc_retry := \<lparr>rc_maxAttempts = 3, rc_strategy = FixAndRetry\<rparr>\<rparr>"

definition demo_repo :: repo_config where
  "demo_repo = \<lparr>rp_url = ''https://github.com/o/r'', rp_defaultBranch = ''main'',
     rp_testCommand = [], rp_buildCommand = [], rp_setupCommands = None, rp_provider = None,
     rp_labelPattern = None\<rparr>"

definition demo_issue :: sanitized_issue where
  "demo_issue = \<lparr>si_id = ''BEC-1'', si_slug = ''fix'', si_title = ''T'', si_description = [],
     si_acceptanceCriteria = [], si_labels = [], si_priority = 0\<rparr>"

definition demo_linear :: linear_issue where
  "demo_linear = \<lparr>li_id = ''u1'', li_identifier = ''BEC-1'', li_title = ''T'', li_teamId = ''t''\<rparr>"

definition demo_row :: run_row where
  "demo_row = fresh_row 0 ''r1'' demo_linear ''bug'' demo_repo ''agent/BEC-1-fix'' None (Some ''sid'')"

definition demo_run :: pipeline_run where
  "demo_run = buildPipelineRun ''r1'' demo_linear ''bug'' demo_repo ''agent/BEC-1-fix''"

definition demo_env :: runner_env where
  "demo_env = \<lparr>rv_agentRunDir = ''/runs'', rv_projectsRoot = ''/p'', rv_resolve = (\<lambda>p. p)\<rparr>"

definition demo_wt :: string where
  "demo_wt = ''/runs/r1/worktree''"

definition demo_sys :: sys where
  "demo_sys = \<lparr>runs = [demo_row], stages = [], work = [], audit = [], activeRuns = [],
     activeFeedbackRuns = [], budgetAlerted = [], signal = ctl_init, pmPaused = False,
     notices = [], jobs = [], disk = [demo_wt], clock = 1000000\<rparr>"

definition demo_ctx :: fail_context where
  "demo_ctx = \<lparr>fc_worktreePath = Some demo_wt, fc_currentStageIndex = Some 2, fc_handoff = None,
     fc_pipelineConfig = Some demo_cfg, fc_repoConfig = Some demo_repo,
     fc_sanitizedIssue = Some demo_issue\<rparr>"

definition demo_start :: "run_id \<Rightarrow> start_env" where
  "demo_start rid = \<lparr>se_lsRemote = None, se_openPr = Inr None, se_runId = rid, se_uuid = ''u'',
     se_sessionResumeDisabled = True\<rparr>"

definition demo_waiting :: run_row where
  "demo_waiting = (fresh_row 0 ''r0'' demo_linear ''needs-design'' demo_repo ''agent/BEC-1-old'' None None)
     \<lparr>r_status := Paused, r_currentStageIndex := Some 1,
      r_resumePayload := Some (buildResumePayload None demo_cfg demo_repo demo_issue demo_wt 1)\<rparr>"

definition demo_retriable :: run_row where
  "demo_retriable = demo_row\<lparr>r_status := Retriable, r_retryCount := 1\<rparr>"

definition demo_waiting_sys :: sys where
  "demo_waiting_sys = demo_sys\<lparr>runs := [demo_waiting, demo_retriable]\<rparr>"

lemmas demo_defs = demo_cfg_def demo_repo_def demo_issue_def demo_linear_def demo_row_def
  demo_run_def demo_env_def demo_wt_def demo_sys_def demo_ctx_def LOOP_DEFAULTS_def
  buildPipelineRun_def fresh_row_def

section \<open>Facts about rows and slots\<close>

lemmas sys_defs [op_defs] = update_run_def cancelRunningStageRuns_def remove_work_def notify_def
  log_audit_def setPmPaused_def

text \<open>What the operations leave alone.\<close>

lemma sys_frame [simp]:
  "stages (update_run k f s) = stages s"
  "work (update_run k f s) = work s"
  "audit (update_run k f s) = audit s"
  "activeRuns (update_run k f s) = activeRuns s"
  "activeFeedbackRuns (update_run k f s) = activeFeedbackRuns s"
  "budgetAlerted (update_run k f s) = budgetAlerted s"
  "signal (update_run k f s) = signal s"
  "pmPaused (update_run k f s) = pmPaused s"
  "notices (update_run k f s) = notices s"
  "jobs (update_run k f s) = jobs s"
  "disk (update_run k f s) = disk s"
  "clock (update_run k f s) = clock s"
  "runs (cancelRunningStageRuns r s) = runs s"
  "work (cancelRunningStageRuns r s) = work s"
  "audit (cancelRunningStageRuns r s) = audit s"
  "activeRuns (cancelRunningStageRuns r s) = activeRuns s"
  "activeFeedbackRuns (cancelRunningStageRuns r s) = activeFeedbackRuns s"
  "budgetAlerted (cancelRunningStageRuns r s) = budgetAlerted s"
  "signal (cancelRunningStageRuns r s) = signal s"
  "pmPaused (cancelRunningStageRuns r s) = pmPaused s"
  "notices (cancelRunningStageRuns r s) = notices s"
  "jobs (cancelRunningStageRuns r s) = jobs s"
  "disk (cancelRunningStageRuns r s) = disk s"
  "clock (cancelRunningStageRuns r s) = clock s"
  "runs (remove_work r s) = runs s"
  "stages (remove_work r s) = stages s"
  "audit (remove_work r s) = audit s"
  "activeRuns (remove_work r s) = activeRuns s"
  "activeFeedbackRuns (remove_work r s) = activeFeedbackRuns s"
  "budgetAlerted (remove_work r s) = budgetAlerted s"
  "signal (remove_work r s) = signal s"
  "pmPaused (remove_work r s) = pmPaused s"
  "notices (remove_work r s) = notices s"
  "jobs (remove_work r s) = jobs s"
  "disk (remove_work r s) = disk s"
  "clock (remove_work r s) = clock s"
  "runs (notify n s) = runs s"
  "stages (notify n s) = stages s"
  "work (notify n s) = work s"
  "audit (notify n s) = audit s"
  "activeRuns (notify n s) = activeRuns s"
  "activeFeedbackRuns (notify n s) = activeFeedbackRuns s"
  "budgetAlerted (notify n s) = budgetAlerted s"
  "signal (notify n s) = signal s"
  "pmPaused (notify n s) = pmPaused s"
  "jobs (notify n s) = jobs s"
  "disk (notify n s) = disk s"
  "clock (notify n s) = clock s"
  "runs (log_audit e s) = runs s"
  "stages (log_audit e s) = stages s"
  "work (log_audit e s) = work s"
  "activeRuns (log_audit e s) = activeRuns s"
  "activeFeedbackRuns (log_audit e s) = activeFeedbackRuns s"
  "budgetAlerted (log_audit e s) = budgetAlerted s"
  "signal (log_audit e s) = signal s"
  "pmPaused (log_audit e s) = pmPaused s"
  "notices (log_audit e s) = notices s"
  "jobs (log_audit e s) = jobs s"
  "disk (log_audit e s) = disk s"
  "clock (log_audit e s) = clock s"
  by (simp_all add: sys_defs)

text \<open>
  The interface of a table with a primary key: updating one row by its key with a function that
  keeps keys is seen under that key and under no other.
\<close>

locale row_store =
  fixes get :: "'t \<Rightarrow> 'k \<Rightarrow> 'r option"
    and upd :: "'k \<Rightarrow> ('r \<Rightarrow> 'r) \<Rightarrow> 't \<Rightarrow> 't"
    and key :: "'r \<Rightarrow> 'k"
  assumes get_upd: "(\<And>r. key (f r) = key r) \<Longrightarrow> get (upd k f t) k = map_option f (get t k)"
    and get_upd_other: "(\<And>r. key (f r) = key r) \<Longrightarrow> k' \<noteq> k \<Longrightarrow> get (upd k f t) k' = get t k'"
    and get_key: "get t k = Some r \<Longrightarrow> key r = k"
begin

lemma get_upd_Some:
  "(\<And>r. key (f r) = key r) \<Longrightarrow> get t k = Some r \<Longrightarrow> get (upd k f t) k = Some (f r)"
  by (simp add: get_upd)

lemma get_upd_if:
  "(\<And>r. key (f r) = key r) \<Longrightarrow>
   get (upd k f t) k' = (if k' = k then map_option f (get t k) else get t k')"
  by (simp add: get_upd get_upd_other)

end

lemma find_update_where:
  assumes "\<And>r. key (f r) = key r"
  shows "find (\<lambda>r. key r = k') (update_where (\<lambda>r. key r = k) f rows) =
    (if k' = k then map_option f (find (\<lambda>r. key r = k) rows) else find (\<lambda>r. key r = k') rows)"
  using assms by (induction rows) (auto simp: update_where_def)

interpretation run_table: row_store get_run update_run r_id
proof unfold_locales
  fix f :: "run_row \<Rightarrow> run_row" and k :: run_id and t
  assume "\<And>r. r_id (f r) = r_id r"
  then show "get_run (update_run k f t) k = map_option f (get_run t k)"
    by (simp add: get_run_def update_run_def select_one_def find_update_where)
next
  fix f :: "run_row \<Rightarrow> run_row" and k k' :: run_id and t
  assume "\<And>r. r_id (f r) = r_id r" "k' \<noteq> k"
  then show "get_run (update_run k f t) k' = get_run t k'"
    by (simp add: get_run_def update_run_def select_one_def find_update_where)
next
  fix t and k :: run_id and r
  assume "get_run t k = Some r"
  then show "r_id r = k"
    by (auto simp: get_run_def dest: select_one_Some)
qed

text \<open>The other operations do not touch the table of runs.\<close>

lemma get_run_frame [simp]:
  "get_run (cancelRunningStageRuns r s) k = get_run s k"
  "get_run (remove_work r s) k = get_run s k"
  "get_run (notify n s) k = get_run s k"
  "get_run (log_audit e s) k = get_run s k"
  "get_run (s\<lparr>activeRuns := m\<rparr>) k = get_run s k"
  "get_run (s\<lparr>activeFeedbackRuns := m\<rparr>) k = get_run s k"
  "get_run (s\<lparr>signal := c\<rparr>) k = get_run s k"
  "get_run (s\<lparr>budgetAlerted := b\<rparr>) k = get_run s k"
  by (simp_all add: get_run_def sys_defs)

lemma get_run_mem: "get_run s k = Some r \<Longrightarrow> r \<in> set (runs s) \<and> r_id r = k"
  by (auto simp: get_run_def dest: select_one_Some)

lemma get_run_distinct:
  "distinct (map r_id (runs s)) \<Longrightarrow> r \<in> set (runs s) \<Longrightarrow> get_run s (r_id r) = Some r"
proof -
  have "distinct (map r_id rows) \<Longrightarrow> r \<in> set rows \<Longrightarrow> find (\<lambda>x. r_id x = r_id r) rows = Some r"
    for rows by (induction rows) auto
  then show "distinct (map r_id (runs s)) \<Longrightarrow> r \<in> set (runs s) \<Longrightarrow> get_run s (r_id r) = Some r"
    by (simp add: get_run_def select_one_def)
qed

text \<open>What a terminal transition leaves of a run in the other tables.\<close>

definition quiet :: "run_id \<Rightarrow> sys \<Rightarrow> bool" where
  "quiet rid s \<longleftrightarrow>
     (\<forall>g \<in> set (stages s). s_pipelineRunId g = rid \<longrightarrow> s_status g \<noteq> SRunning) \<and>
     rid \<notin> set (work_keys (work s))"

lemma cancelled_stages:
  "\<forall>g \<in> set (stages (cancelRunningStageRuns rid s)). s_pipelineRunId g = rid \<longrightarrow> s_status g \<noteq> SRunning"
  by (simp add: cancelRunningStageRuns_def update_where_def ball_Un)

lemma removed_work: "rid \<notin> set (work_keys (work (remove_work rid s)))"
  by (simp add: remove_work_def work_keys_remove)

section \<open>Properties of starting\<close>

lemma start_commit_active:
  "activeRuns (start_commit env issue key cfg repo si team st s) =
     mapSet (activeRuns s) (li_identifier issue) (se_runId env)"
  by (cases st) (simp_all add: start_commit_def Let_def)

lemma start_commit_jobs:
  "\<exists>j. jobs (start_commit env issue key cfg repo si team st s) = jobs s @ [j] \<and>
     pr_id (job_run j) = se_runId env \<and> pr_issueId (job_run j) = li_identifier issue"
  by (cases st) (simp_all add: start_commit_def Let_def buildPipelineRun_def)

lemma start_commit_row:
  "\<exists>r \<in> set (runs (start_commit env issue key cfg repo si team st s)).
     r_id r = se_runId env \<and> r_issueId r = li_identifier issue \<and> r_status r = Queued"
  by (cases st) (simp_all add: start_commit_def Let_def fresh_row_def)

lemma start_cases:
  "jobs (start env issue key cfg repo si team s) = jobs s \<or>
   (\<exists>st. start env issue key cfg repo si team s = start_commit env issue key cfg repo si team st s)"
proof (cases "start_check issue s")
  case True
  then have eq: "start env issue key cfg repo si team s = start_rest env issue key cfg repo si team s"
    by (simp add: start_def)
  show ?thesis
  proof (cases "checkDuplicateBranch (se_lsRemote env) (li_identifier issue)")
    case None
    then show ?thesis unfolding eq by (simp add: start_rest_def) blast
  next
    case (Some b)
    then show ?thesis
      unfolding eq
      by (cases "classifyExistingBranch (runs s) b (se_openPr env)")
         (simp_all add: start_rest_def, blast)
  qed
qed (simp add: start_def)

text \<open>
  C17. One run per issue, as long as the calls do not overlap. A \<open>start\<close> that enqueues a job claims
  the issue, and every further \<open>start\<close> for the issue is then ignored; but two calls whose checks
  both precede the first claim both enqueue a run for the issue.
\<close>

theorem start_exclusive:
  "(jobs (start env issue key cfg repo si team s) \<noteq> jobs s \<longrightarrow>
      start env' issue key' cfg' repo' si' team' (start env issue key cfg repo si team s)
        = start env issue key cfg repo si team s) \<and>
   (start_check issue s \<longrightarrow> se_lsRemote env = None \<longrightarrow> se_lsRemote env' = None \<longrightarrow>
      (\<exists>j j'. jobs (start_rest env' issue key' cfg' repo' si' team'
                 (start_rest env issue key cfg repo si team s)) = jobs s @ [j, j'] \<and>
         pr_issueId (job_run j) = li_identifier issue \<and>
         pr_issueId (job_run j') = li_identifier issue))"
proof (intro conjI impI)
  assume new: "jobs (start env issue key cfg repo si team s) \<noteq> jobs s"
  have "\<exists>st. start env issue key cfg repo si team s = start_commit env issue key cfg repo si team st s"
    using start_cases [of env issue key cfg repo si team s] new by blast
  then have "mapHas (activeRuns (start env issue key cfg repo si team s)) (li_identifier issue)"
    by (auto simp: start_commit_active)
  then show "start env' issue key' cfg' repo' si' team' (start env issue key cfg repo si team s)
      = start env issue key cfg repo si team s"
    by (simp add: start_def start_check_def)
next
  assume "se_lsRemote env = None" "se_lsRemote env' = None"
  then have rest: "start_rest env issue key cfg repo si team t
        = start_commit env issue key cfg repo si team None t"
      "start_rest env' issue key' cfg' repo' si' team' t
        = start_commit env' issue key' cfg' repo' si' team' None t" for t
    by (simp_all add: start_rest_def checkDuplicateBranch_def)
  obtain j where "jobs (start_commit env issue key cfg repo si team None s) = jobs s @ [j]"
      "pr_issueId (job_run j) = li_identifier issue"
    using start_commit_jobs by blast
  moreover obtain j' where "jobs (start_commit env' issue key' cfg' repo' si' team' None
        (start_commit env issue key cfg repo si team None s))
      = jobs (start_commit env issue key cfg repo si team None s) @ [j']"
      "pr_issueId (job_run j') = li_identifier issue"
    using start_commit_jobs by blast
  ultimately show "\<exists>j j'. jobs (start_rest env' issue key' cfg' repo' si' team'
                 (start_rest env issue key cfg repo si team s)) = jobs s @ [j, j'] \<and>
         pr_issueId (job_run j) = li_identifier issue \<and>
         pr_issueId (job_run j') = li_identifier issue"
    unfolding rest by auto
qed

theorem start_exclusive_witness:
  "jobs (start_rest (demo_start ''b'') demo_linear ''bug'' demo_cfg demo_repo demo_issue None
      (start_rest (demo_start ''a'') demo_linear ''bug'' demo_cfg demo_repo demo_issue None demo_sys)) \<noteq> [] \<and>
   start (demo_start ''b'') demo_linear ''bug'' demo_cfg demo_repo demo_issue None
      (start (demo_start ''a'') demo_linear ''bug'' demo_cfg demo_repo demo_issue None demo_sys)
    = start (demo_start ''a'') demo_linear ''bug'' demo_cfg demo_repo demo_issue None demo_sys"
proof -
  have 1: "start_check demo_linear demo_sys"
    by (simp add: start_check_def demo_sys_def)
  have 2: "jobs (start (demo_start ''a'') demo_linear ''bug'' demo_cfg demo_repo demo_issue None demo_sys)
      \<noteq> jobs demo_sys"
    using start_commit_jobs [of "demo_start ''a''" demo_linear "''bug''" demo_cfg demo_repo demo_issue None None
        demo_sys] 1
    by (auto simp: start_def start_rest_def checkDuplicateBranch_def demo_start_def)
  show ?thesis
    using start_exclusive [of "demo_start ''a''" demo_linear "''bug''" demo_cfg demo_repo demo_issue None
        demo_sys "demo_start ''b''" "''bug''" demo_cfg demo_repo demo_issue None] 1 2
    by (auto simp: demo_start_def)
qed

text \<open>
  The slot is freed by issue, not by run. If a run of the issue ended late (it was aborted,
  and a new run of the same issue has been started), its \<open>finally\<close> block takes the slot of the new
  run: the new job, still in the queue, then sees no claim and returns at once, and its row stays
  \<open>queued\<close>.
\<close>

theorem late_end_drops_new_run:
  assumes "pr_issueId (job_run old) = li_identifier issue"
  shows "\<exists>j r. jobs (start_commit env issue key cfg repo si team st s) = jobs s @ [j] \<and>
    pr_id (job_run j) = se_runId env \<and>
    job_begins j (start_commit env issue key cfg repo si team st s) \<and>
    \<not> job_begins j (job_ends old (start_commit env issue key cfg repo si team st s)) \<and>
    r \<in> set (runs (job_ends old (start_commit env issue key cfg repo si team st s))) \<and>
    r_id r = se_runId env \<and> r_status r = Queued"
proof -
  let ?s = "start_commit env issue key cfg repo si team st s"
  obtain j where j: "jobs ?s = jobs s @ [j]" "pr_id (job_run j) = se_runId env"
      "pr_issueId (job_run j) = li_identifier issue"
    using start_commit_jobs by blast
  obtain r where r: "r \<in> set (runs ?s)" "r_id r = se_runId env" "r_status r = Queued"
    using start_commit_row by blast
  have "job_begins j ?s" "\<not> job_begins j (job_ends old ?s)" "runs (job_ends old ?s) = runs ?s"
    using j(3) assms by (simp_all add: job_begins_def job_ends_def start_commit_active)
  then show ?thesis using j r by auto
qed

theorem late_end_drops_new_run_witness:
  "\<exists>j. jobs (start_commit (demo_start ''b'') demo_linear ''bug'' demo_cfg demo_repo demo_issue None None demo_sys)
      = [j] \<and>
    \<not> job_begins j (job_ends (FreshJob demo_run demo_cfg demo_repo demo_issue ''agent/BEC-1-fix'' None)
      (start_commit (demo_start ''b'') demo_linear ''bug'' demo_cfg demo_repo demo_issue None None demo_sys))"
proof -
  let ?old = "FreshJob demo_run demo_cfg demo_repo demo_issue ''agent/BEC-1-fix'' None"
  have "pr_issueId (job_run ?old) = li_identifier demo_linear"
    by (simp add: demo_run_def buildPipelineRun_def)
  from late_end_drops_new_run [OF this, of "demo_start ''b''" "''bug''" demo_cfg demo_repo demo_issue None
      None demo_sys]
  show ?thesis by (auto simp: demo_sys_def)
qed


section \<open>Properties of failing and retrying\<close>

lemma failPipeline_retriable:
  assumes "retry_context ctx = Some (wt, i, cfg, repo, si)" "isTransientError msg"
    and "retry_count run < MAX_TRANSIENT_RETRIES"
  shows "failPipeline rid run stg msg ex ctx s =
    mark_retriable rid run msg (Option.bind ctx fc_handoff) (wt, i, cfg, repo, si) s"
  using assms by (simp add: failPipeline_def)

lemma failPipeline_failed:
  assumes "retry_context ctx = None \<or> \<not> isTransientError msg \<or> MAX_TRANSIENT_RETRIES \<le> retry_count run"
  shows "failPipeline rid run stg msg ex ctx s = mark_failed rid run stg msg ex s"
  using assms by (auto simp: failPipeline_def split: option.split)

definition retriable_row ::
  "pipeline_run \<Rightarrow> string \<Rightarrow> handoff option \<Rightarrow> string \<Rightarrow> int \<Rightarrow> pipeline_config \<Rightarrow> repo_config \<Rightarrow>
   sanitized_issue \<Rightarrow> run_row \<Rightarrow> run_row" where
  "retriable_row run msg h wt i cfg repo si r = r\<lparr>r_status := Retriable,
     r_currentStageIndex := Some (i - 1),
     r_resumePayload := Some (buildResumePayload h cfg repo si wt (i - 1)),
     r_retryCount := retry_count run + 1, r_errorMessage := Some msg\<rparr>"

lemma mark_retriable_row:
  "fst (mark_retriable rid run msg h (wt, i, cfg, repo, si) s)
    = update_run rid (retriable_row run msg h wt i cfg repo si) s"
  by (simp add: mark_retriable_def Let_def retriable_row_def [abs_def])

lemma parse_built_payload:
  "PipelineConfigSchema cfg \<Longrightarrow>
   parse_payload n (buildResumePayload h cfg repo si wt i) =
     Inr \<lparr>pl_worktreePath = wt, pl_currentStageIndex = i, pl_handoff = h,
          pl_pipelineConfig = cfg, pl_repoConfig = repo, pl_sanitizedIssue = si\<rparr>"
  by (simp add: parse_payload_def buildResumePayload_def ResumePayload_safeParse_def)

lemma find_none_update:
  assumes "find P rows = None" "get = find (\<lambda>r. r_id r = k) rows" "get = Some r"
    and "P (f r)" "\<And>x. r_id (f x) = r_id x" "distinct (map r_id rows)"
  shows "find P (update_where (\<lambda>r. r_id r = k) f rows) = Some (f r)"
  using assms
proof (induction rows)
  case Nil
  then show ?case by simp
next
  case (Cons x rows)
  show ?case
  proof (cases "r_id x = k")
    case True
    then show ?thesis using Cons.prems by (auto simp: update_where_def)
  next
    case False
    then show ?thesis using Cons by (auto simp: update_where_def split: if_splits)
  qed
qed




lemma recover_exhausted:
  assumes "maxRetries \<le> r_retryCount r"
  shows "jobs (fst (recover_retriable_one env maxRetries r (s, rec, exh))) = jobs s \<and>
    fst (snd (recover_retriable_one env maxRetries r (s, rec, exh))) = rec \<and>
    (\<forall>x. get_run s (r_id r) = Some x \<longrightarrow>
      (\<exists>y. get_run (fst (recover_retriable_one env maxRetries r (s, rec, exh))) (r_id r) = Some y \<and>
        r_status y = Failed))"
  using assms by (auto simp: recover_retriable_one_def Let_def run_table.get_upd)




section \<open>Properties of recovery\<close>

text \<open>The row that \<open>recover_one\<close> writes.\<close>

definition recovered_row :: "runner_env \<Rightarrow> sys \<Rightarrow> run_row \<Rightarrow> run_row \<Rightarrow> run_row" where
  "recovered_row env s r x =
     (if auto_resumable env s r
      then x\<lparr>r_status := Retriable, r_completedAt := Some (clock s),
           r_errorMessage := Some (''Pipeline interrupted by server restart; worktree present at '' @
             worktree_of env (r_id r))\<rparr>
      else x\<lparr>r_status := Failed, r_completedAt := Some (clock s),
           r_errorMessage := Some (stuck_message env s r)\<rparr>)"

lemma recover_one_runs:
  "get_run (recover_one env r s) k =
     (if k = r_id r then map_option (recovered_row env s r) (get_run s k) else get_run s k)"
  by (cases "auto_resumable env s r")
     (simp_all add: recover_one_def recovered_row_def [abs_def] run_table.get_upd_if)

lemma recover_one_frame [simp]:
  "clock (recover_one env r s) = clock s" "disk (recover_one env r s) = disk s"
  "activeRuns (recover_one env r s) = activeRuns s" "jobs (recover_one env r s) = jobs s"
  "notices (recover_one env r s) = notices s"
  by (simp_all add: recover_one_def)

lemma latest_map:
  assumes "\<And>g. s_startedAt (f g) = s_startedAt g"
  shows "latest (map f gs) = map_option f (latest gs)"
  using assms by (induction gs) (auto split: option.split)

lemma last_stage_cancel [simp]: "last_stage k (cancelRunningStageRuns r s) = last_stage k s"
proof -
  define f :: "stage_row \<Rightarrow> stage_row" where "f g = (if s_pipelineRunId g = r \<and> s_status g = SRunning
    then g\<lparr>s_status := SCancelled, s_completedAt := Some (clock s)\<rparr> else g)" for g
  have keep: "s_startedAt (f g) = s_startedAt g" "s_stage (f g) = s_stage g"
    "s_pipelineRunId (f g) = s_pipelineRunId g" for g
    by (simp_all add: f_def)
  have sel: "filter (\<lambda>g. s_pipelineRunId g = k) (map f gs) = map f (filter (\<lambda>g. s_pipelineRunId g = k) gs)" for gs
    by (induction gs) (simp_all add: keep)
  have "stages (cancelRunningStageRuns r s) = map f (stages s)"
    by (simp add: cancelRunningStageRuns_def update_where_def f_def [abs_def])
  moreover have "map_option (\<lambda>x. s_stage (f x)) opt = map_option s_stage opt" for opt
    by (simp add: keep)
  ultimately show ?thesis
    by (simp add: last_stage_def select_where_def sel latest_map keep option.map_comp comp_def)
qed

lemma last_stage_frame [simp]:
  "last_stage k (update_run r f s) = last_stage k s"
  "last_stage k (remove_work r s) = last_stage k s"
  by (simp_all add: last_stage_def)

lemma recover_one_last [simp]: "last_stage k (recover_one env r s) = last_stage k s"
  by (simp add: recover_one_def)

lemma recover_one_auto [simp]: "auto_resumable env (recover_one env r s) = auto_resumable env s"
  by (rule ext) (simp only: auto_resumable_def recover_one_last recover_one_frame)

lemma recover_one_message [simp]: "stuck_message env (recover_one env r s) = stuck_message env s"
  by (rule ext) (simp only: stuck_message_def recover_one_last recover_one_frame)

lemma recover_one_row [simp]: "recovered_row env (recover_one env r s) = recovered_row env s"
  by (intro ext) (simp only: recovered_row_def recover_one_auto recover_one_message recover_one_frame)

lemma recover_one_work [simp]: "work (recover_one env r s) = removeActiveWork (r_id r) (work s)"
  by (simp add: recover_one_def remove_work_def)

lemma quiet_cancel: "quiet k s \<Longrightarrow> quiet k (cancelRunningStageRuns r s)"
  by (auto simp: quiet_def cancelRunningStageRuns_def update_where_def)

lemma quiet_frame [simp]:
  "quiet k (update_run r f s) = quiet k s"
  by (simp add: quiet_def)

lemma quiet_remove: "quiet k s \<Longrightarrow> quiet k (remove_work r s)"
  by (auto simp: quiet_def remove_work_def work_keys_remove)

lemma quiet_cancel_remove: "quiet k (remove_work k (cancelRunningStageRuns k s))"
  using cancelled_stages [of k s] by (simp add: quiet_def removed_work)

lemma recover_one_quiet: "quiet k s \<Longrightarrow> quiet k (recover_one env r s)"
  by (simp add: recover_one_def quiet_remove quiet_cancel)

lemma recover_one_quiet_own: "\<not> auto_resumable env s r \<Longrightarrow> quiet (r_id r) (recover_one env r s)"
  by (simp add: recover_one_def quiet_cancel_remove)

lemma recover_all_work:
  "set (work_keys (work (foldl (\<lambda>s r. recover_one env r s) s rs))) = set (work_keys (work s)) - r_id ` set rs"
  by (induction rs arbitrary: s) (auto simp: work_keys_remove)

lemma recover_all_keeps_quiet: "quiet k s \<Longrightarrow> quiet k (foldl (\<lambda>s r. recover_one env r s) s rs)"
  by (induction rs arbitrary: s) (simp_all add: recover_one_quiet)

lemma recover_all_quiet:
  "r \<in> set rs \<Longrightarrow> \<not> auto_resumable env s r \<Longrightarrow> quiet (r_id r) (foldl (\<lambda>s r. recover_one env r s) s rs)"
  by (induction rs arbitrary: s) (auto simp: recover_one_quiet_own recover_all_keeps_quiet)

lemma recover_all_run:
  "distinct (map r_id rs) \<Longrightarrow> get_run (foldl (\<lambda>s r. recover_one env r s) s rs) k =
      (case find (\<lambda>r. r_id r = k) rs of
         None \<Rightarrow> get_run s k
       | Some r \<Rightarrow> map_option (recovered_row env s r) (get_run s k))"
proof (induction rs arbitrary: s)
  case Nil
  then show ?case by simp
next
  case (Cons r rs)
  have "r_id r = k \<Longrightarrow> find (\<lambda>r. r_id r = k) rs = None"
    using Cons.prems by (auto simp: find_None_iff) (metis imageI)
  then show ?case
    using Cons.IH [of "recover_one env r s"] Cons.prems
    by (simp add: recover_one_runs split: option.split)
qed

lemma recover_all_frame:
  "jobs (foldl (\<lambda>s r. recover_one env r s) s rs) = jobs s"
  "activeRuns (foldl (\<lambda>s r. recover_one env r s) s rs) = activeRuns s"
  by (induction rs arbitrary: s) simp_all

lemma find_filter_key:
  assumes "distinct (map k xs)" "x \<in> set xs"
  shows "find (\<lambda>y. k y = k x) (filter P xs) = (if P x then Some x else None)"
  using assms by (induction xs) (auto simp: find_None_iff, metis imageI)

text \<open>
  C16. A restart settles every interrupted run and touches no other. After \<open>recoverStuckRuns\<close> a run
  that was running or queued, is not in memory and is older than five minutes is \<open>retriable\<close> if its
  worktree and transcript exist and its last stage can be repeated, and \<open>failed\<close> otherwise; it holds
  no claim on files any more, a failed one has no stage in state \<open>running\<close>, and every other row is as
  before. Nothing is enqueued.
\<close>

theorem recovery_settles_stuck_runs:
  assumes "distinct (map r_id (runs s))" "r \<in> set (runs s)"
  shows "(\<exists>r'. get_run (recoverStuckRuns env s) (r_id r) = Some r' \<and>
      (if is_stuck s r
       then r_status r' = (if auto_resumable env s r then Retriable else Failed) \<and>
         r_completedAt r' = Some (clock s) \<and>
         r_id r \<notin> set (work_keys (work (recoverStuckRuns env s))) \<and>
         (auto_resumable env s r \<or> quiet (r_id r) (recoverStuckRuns env s))
       else r' = r)) \<and>
    jobs (recoverStuckRuns env s) = jobs s \<and> activeRuns (recoverStuckRuns env s) = activeRuns s"
proof -
  let ?rs = "filter (is_stuck s) (runs s)"
  have d: "distinct (map r_id ?rs)"
    using assms(1) by (rule distinct_map_filter)
  have eq: "recoverStuckRuns env s = foldl (\<lambda>s r. recover_one env r s) s ?rs"
    by (simp add: recoverStuckRuns_def select_where_def)
  have own: "get_run s (r_id r) = Some r"
    using assms by (rule get_run_distinct)
  have row: "get_run (recoverStuckRuns env s) (r_id r) =
      Some (if is_stuck s r then recovered_row env s r r else r)"
    unfolding eq recover_all_run [OF d] find_filter_key [OF assms] by (simp add: own)
  have "is_stuck s r \<Longrightarrow> r \<in> set ?rs" using assms(2) by simp
  then show ?thesis
    using row recover_all_quiet [of r ?rs env s]
    unfolding eq recover_all_frame
    by (auto simp: recover_all_work recovered_row_def)
qed

theorem recovery_settles_stuck_runs_witness:
  "\<exists>r'. get_run (recoverStuckRuns demo_env demo_sys) ''r1'' = Some r' \<and> r_status r' = Failed \<and>
     quiet ''r1'' (recoverStuckRuns demo_env demo_sys)"
proof -
  have 1: "distinct (map r_id (runs demo_sys))" "demo_row \<in> set (runs demo_sys)"
    by (simp_all add: demo_sys_def)
  have 2: "is_stuck demo_sys demo_row" "r_id demo_row = ''r1''" "\<not> auto_resumable demo_env demo_sys demo_row"
    by (simp_all add: demo_sys_def demo_row_def fresh_row_def is_stuck_def MIN_AGE_MS_def auto_resumable_def
        transcriptExists_def demo_env_def demo_wt_def worktree_of_def transcriptPath_def encodeCwd_def
        joinPath_def)
  show ?thesis using recovery_settles_stuck_runs [OF 1, of demo_env] 2 by auto
qed

text \<open>
  Which run an automatic retry resumes. The PM agent looks up the run to retry by its issue and
  not by its id: if another run of the same issue waits for approval and stands first in the table,
  the retry of \<open>r\<close> enqueues that run, behind its approval stage, and not \<open>r\<close>.
\<close>

theorem retry_may_resume_waiting_run:
  assumes "distinct (map r_id (runs s))" "r \<in> set (runs s)"
    and "r_status r = Retriable" "r_issueId r = issue" "r_retryCount r < maxRetries"
    and "\<not> mapHas (activeRuns s) issue"
    and "resumable_row issue s = Some w" "r_status w = Paused" "r_id w \<noteq> r_id r"
    and "r_currentStageIndex w = Some i"
    and "r_resumePayload w = Some (buildResumePayload h cfg repo si wt i)" "PipelineConfigSchema cfg"
    and "path_contained env wt" "wt \<in> set (disk s)"
    and "r_branch w = Some branch" "branch \<noteq> []"
  shows "jobs (fst (recover_retriable_one env maxRetries r (s, rec, exh))) =
    jobs s @ [ResumeJob (resumed_run w) cfg repo si branch i wt h (r_agentSessionId w)]"
proof -
  have same: "x = r" if "x \<in> set (runs s)" "r_id x = r_id r" for x
    using assms(1,2) that by (metis get_run_distinct option.inject)
  have pick: "resumable_row issue (update_run (r_id r) (\<lambda>x. x\<lparr>r_status := Paused\<rparr>) t) = Some w"
    if "runs t = runs s" for t
  proof -
    have "(\<And>x. x \<in> set rows \<Longrightarrow> r_id x = r_id r \<Longrightarrow> x = r) \<Longrightarrow>
       find (\<lambda>r. r_issueId r = issue \<and> (r_status r = Paused \<or> r_status r = Retriable)) rows = Some w \<Longrightarrow>
       find (\<lambda>r. r_issueId r = issue \<and> (r_status r = Paused \<or> r_status r = Retriable))
         (update_where (\<lambda>x. r_id x = r_id r) (\<lambda>x. x\<lparr>r_status := Paused\<rparr>) rows) = Some w" for rows
    proof (induction rows)
      case Nil
      then show ?case by simp
    next
      case (Cons x rows)
      then show ?case
        using assms(3,4,9) by (cases "x = r") (auto simp: update_where_def split: if_splits)
    qed
    from this [OF same] show ?thesis
      using assms(7) that by (simp add: resumable_row_def select_one_def update_run_def)
  qed
  have parse: "parse_payload i (buildResumePayload h cfg repo si wt i) =
      Inr \<lparr>pl_worktreePath = wt, pl_currentStageIndex = i, pl_handoff = h,
        pl_pipelineConfig = cfg, pl_repoConfig = repo, pl_sanitizedIssue = si\<rparr>"
    using assms(12) by (rule parse_built_payload)
  have res: "jobs (resume env issue (update_run (r_id r) (\<lambda>x. x\<lparr>r_status := Paused\<rparr>) t)) =
      jobs t @ [ResumeJob (resumed_run w) cfg repo si branch i wt h (r_agentSessionId w)]"
    if "runs t = runs s" "activeRuns t = activeRuns s" "disk t = disk s" for t
    using assms(6,8,10,11,13-16) pick [OF that(1)] that
    by (simp add: resume_def resume_row_def Let_def parse)
  show ?thesis
    using assms(4,5) res by (simp add: recover_retriable_one_def Let_def)
qed

theorem retry_may_resume_waiting_run_witness:
  "\<exists>run'. jobs (fst (recover_retriable_one demo_env 3 demo_retriable (demo_waiting_sys, [], []))) =
     [ResumeJob run' demo_cfg demo_repo demo_issue ''agent/BEC-1-old'' 1 demo_wt None None] \<and>
     pr_id run' = ''r0''"
proof -
  have 1: "resumable_row ''BEC-1'' demo_waiting_sys = Some demo_waiting"
    by (simp add: resumable_row_def select_one_def demo_waiting_sys_def demo_waiting_def fresh_row_def
        demo_linear_def)
  have 2: "PipelineConfigSchema demo_cfg"
    by (simp add: demo_defs PipelineConfigSchema_def opt_le_def opt_pos_def)
  have 3: "path_contained demo_env demo_wt"
    by (simp add: path_contained_def demo_env_def demo_wt_def endsWith_def Let_def)
  show ?thesis
    using retry_may_resume_waiting_run [OF _ _ _ _ _ _ 1 _ _ _ _ 2 3, of demo_retriable 3 1 None
        demo_repo demo_issue "''agent/BEC-1-old''" "[]" "[]"]
    by (auto simp: demo_retriable_def demo_waiting_def demo_waiting_sys_def demo_sys_def demo_row_def
        fresh_row_def demo_linear_def resumed_run_def)
qed


section \<open>Properties of the budget\<close>

lemma mark_failed_row:
  "get_run (fst (mark_failed rid run stg msg ex s)) rid =
     map_option (\<lambda>r. r\<lparr>r_status := Failed, r_completedAt := Some (clock s),
       r_errorMessage := Some msg\<rparr>) (get_run s rid)"
  by (simp add: mark_failed_def Let_def run_table.get_upd)

lemma mark_failed_run: "snd (mark_failed rid run stg msg ex s) = run\<lparr>pr_status := Failed\<rparr>"
  by (simp add: mark_failed_def Let_def)

lemma mark_failed_notices:
  "notices (fst (mark_failed rid run stg msg ex s)) = notices s @
     [OnPipelineFailed rid \<lparr>pe_stage = stg, pe_message = msg, pe_retriesExhausted = ex\<rparr>]"
  by (simp add: mark_failed_def Let_def notify_def)

lemma mark_failed_alerted [simp]:
  "budgetAlerted (fst (mark_failed rid run stg msg ex s)) = budgetAlerted s"
  by (simp add: mark_failed_def Let_def)

lemma failPipeline_None: "failPipeline rid run stg msg ex None s = mark_failed rid run stg msg ex s"
  by (rule failPipeline_failed) (simp add: retry_context_def)

definition used_tokens :: "pipeline_run \<Rightarrow> nat" where
  "used_tokens run = pr_totalInputTokens run + pr_totalOutputTokens run"

definition alerts :: "run_id \<Rightarrow> notification list \<Rightarrow> notification list" where
  "alerts rid ns = filter (\<lambda>n. \<exists>u m. n = OnTokenBudgetAlert rid u m) ns"

text \<open>
  The token budget is a hard stop. \<open>checkTokenBudget\<close> asks to stop exactly when a budget is set
  and reached; the run is then failed, never kept for a retry, whatever the message looks like; and
  the 80\% alert is sent at the first check at or above four fifths and never again for the run.
\<close>

theorem token_budget_enforced:
  assumes "checkTokenBudget fmt rid run cfg stg s = (s', run', stop)"
  shows "(stop \<longleftrightarrow> (\<exists>m. pc_maxTokens cfg = Some m \<and> 0 < m \<and> m \<le> used_tokens run)) \<and>
    (stop \<longrightarrow> pr_status run' = Failed \<and>
      (\<forall>r. get_run s rid = Some r \<longrightarrow> (\<exists>r'. get_run s' rid = Some r' \<and> r_status r' = Failed))) \<and>
    (\<not> stop \<longrightarrow> run' = run \<and> runs s' = runs s) \<and>
    length (alerts rid (notices s')) = length (alerts rid (notices s)) +
      (if rid \<notin> set (budgetAlerted s) \<and>
          (\<exists>m. pc_maxTokens cfg = Some m \<and> 0 < m \<and> 4 * m \<le> 5 * used_tokens run) then 1 else 0) \<and>
    (length (alerts rid (notices s')) > length (alerts rid (notices s)) \<longrightarrow> rid \<in> set (budgetAlerted s'))"
proof (cases "pc_maxTokens cfg")
  case None
  then show ?thesis using assms by (simp add: checkTokenBudget_def)
next
  case (Some m)
  show ?thesis
  proof (cases "m = 0")
    case True
    then show ?thesis using assms Some by (simp add: checkTokenBudget_def)
  next
    case False
    define alert where "alert \<longleftrightarrow> 4 * m \<le> 5 * used_tokens run \<and> rid \<notin> set (budgetAlerted s)"
    define s1 where "s1 = (if alert then notify (OnTokenBudgetAlert rid (used_tokens run) m)
        (s\<lparr>budgetAlerted := budgetAlerted s @ [rid]\<rparr>) else s)"
    define msg where "msg = budget_message (fmt (used_tokens run)) (fmt m)"
    have res: "(s', run', stop) = (if m \<le> used_tokens run
        then (fst (mark_failed rid run stg msg False s1), snd (mark_failed rid run stg msg False s1), True)
        else (s1, run, False))"
      using assms Some False
      by (auto simp: checkTokenBudget_def Let_def failPipeline_None case_prod_unfold
          s1_def alert_def msg_def used_tokens_def [symmetric] split: if_splits)
    have alerted: "length (alerts rid (notices s1)) = length (alerts rid (notices s)) + (if alert then 1 else 0)"
      "alert \<Longrightarrow> rid \<in> set (budgetAlerted s1)" "runs s1 = runs s" "get_run s1 rid = get_run s rid"
      by (simp_all add: s1_def notify_def alerts_def get_run_def)
    have extra: "alerts rid (notices (fst (mark_failed rid run stg msg False s1))) = alerts rid (notices s1)"
      by (simp add: mark_failed_notices alerts_def)
    show ?thesis
      using res alerted extra Some False
      by (auto simp: mark_failed_row mark_failed_run alert_def split: if_splits)
  qed
qed

theorem token_budget_enforced_witness:
  "(case checkTokenBudget (\<lambda>n. ''401'') ''r1'' (demo_run\<lparr>pr_totalInputTokens := 500\<rparr>)
      (demo_cfg\<lparr>pc_maxTokens := Some 500\<rparr>) ''test'' demo_sys of
    (s', run', stop) \<Rightarrow> stop \<and> pr_status run' = Failed)"
proof -
  obtain s' run' stop where c: "checkTokenBudget (\<lambda>n. ''401'') ''r1'' (demo_run\<lparr>pr_totalInputTokens := 500\<rparr>)
      (demo_cfg\<lparr>pc_maxTokens := Some 500\<rparr>) ''test'' demo_sys = (s', run', stop)"
    by (metis prod_cases3)
  show ?thesis
    using token_budget_enforced [OF c] by (simp add: c used_tokens_def)
qed

section \<open>Properties of stopping\<close>

lemma haltAll_signal:
  "signal (fst (haltAll s)) =
     foldl (\<lambda>c r. fst (requestStop c r Cancel)) (signal s)
       (map snd (activeRuns s) @ map snd (activeFeedbackRuns s))"
  by (simp add: haltAll_def Let_def setPmPaused_def)

text \<open>
  A halt reaches every run and only those. After \<open>haltAll\<close> the PM agent is paused, the stop
  signal of every active pipeline run and feedback run is \<open>cancel\<close>, the signals of all other runs
  are as before, the returned ids are exactly the cancelled runs, each once, and no row changes.
\<close>

theorem haltAll_cancels_all:
  "isPmPaused env_flag (fst (haltAll s)) \<and>
   runs (fst (haltAll s)) = runs s \<and>
   distinct (snd (haltAll s)) \<and>
   set (snd (haltAll s)) = snd ` set (activeRuns s) \<union> snd ` set (activeFeedbackRuns s) \<and>
   (\<forall>r. getStopSignal (signal (fst (haltAll s))) r =
      (if r \<in> set (snd (haltAll s)) then Some Cancel else getStopSignal (signal s) r))"
proof -
  have ids: "snd (haltAll s) = setOf (map snd (activeRuns s) @ map snd (activeFeedbackRuns s))"
    by (simp add: haltAll_def Let_def setPmPaused_def)
  have "getStopSignal (signal (fst (haltAll s))) r =
      (if r \<in> set (snd (haltAll s)) then Some Cancel else getStopSignal (signal s) r)" for r
  proof (cases "r \<in> set (map snd (activeRuns s) @ map snd (activeFeedbackRuns s))")
    case True
    then show ?thesis
      unfolding haltAll_signal ids using ctl.cancel_all [OF True] by simp
  next
    case False
    then show ?thesis
      unfolding haltAll_signal ids using ctl.cancel_all_other [OF False] by simp
  qed
  then show ?thesis
    by (simp add: ids) (simp add: haltAll_def Let_def setPmPaused_def isPmPaused_def)
qed

lemma cancelled_run_effect:
  assumes "get_run s rid = Some row"
    and "markRunCancelled rid run mode feedbackPrUrl s = (s', run')"
  shows "(\<exists>r. get_run s' rid = Some r \<and> r_status r = Cancelled \<and>
      r_errorMessage r = Some (''cancelled by operator ('' @ mode_name mode @ '')'')) \<and>
    pr_status run' = Cancelled \<and> quiet rid s' \<and>
    \<not> mapHas (activeRuns s') (pr_issueId run) \<and>
    getStopSignal (signal s') rid = None \<and>
    (\<forall>u. feedbackPrUrl = Some u \<longrightarrow> u \<noteq> [] \<longrightarrow> \<not> mapHas (activeFeedbackRuns s') u) \<and>
    (\<forall>k. k \<noteq> rid \<longrightarrow> get_run s' k = get_run s k)"
proof -
  let ?u = "update_run rid (\<lambda>r. r\<lparr>r_status := Cancelled,
      r_errorMessage := Some (''cancelled by operator ('' @ mode_name mode @ '')''),
      r_completedAt := Some (clock s)\<rparr>) (remove_work rid s)"
  have s': "runs s' = runs ?u" "stages s' = stages (cancelRunningStageRuns rid ?u)"
    "work s' = work (remove_work rid s)" "run' = run\<lparr>pr_status := Cancelled\<rparr>"
    "activeRuns s' = mapDelete (activeRuns s) (pr_issueId run)"
    "getStopSignal (signal s') rid = None"
    "\<And>u. feedbackPrUrl = Some u \<Longrightarrow> u \<noteq> [] \<Longrightarrow>
       activeFeedbackRuns s' = mapDelete (activeFeedbackRuns s) u"
    using assms(2)
    by (auto simp: markRunCancelled_def Let_def ctl.get_clr split: option.splits if_splits)
  have get: "get_run s' k = get_run ?u k" for k
    by (simp add: get_run_def s'(1))
  show ?thesis
    using assms(1) s' cancelled_stages [of rid ?u] removed_work [of rid s]
    by (simp add: get run_table.get_upd run_table.get_upd_other quiet_def)
qed

text \<open>
  A cancelled run leaves nothing behind. \<open>markRunCancelled\<close> sets the row to \<open>cancelled\<close> with the
  mode in its message, leaves no stage of the run in state \<open>running\<close>, no row of active work, no
  claim of its issue, no stop signal, and frees the slot of the pull request when one is given;
  the rows of other runs are unchanged.
\<close>

theorem cancelled_run_quiet:
  assumes "get_run s rid = Some row"
    and "markRunCancelled rid run mode feedbackPrUrl s = (s', run')"
  shows "(\<exists>r. get_run s' rid = Some r \<and> r_status r = Cancelled \<and>
      r_errorMessage r = Some (''cancelled by operator ('' @ mode_name mode @ '')'')) \<and>
    pr_status run' = Cancelled \<and> quiet rid s' \<and>
    \<not> mapHas (activeRuns s') (pr_issueId run) \<and>
    getStopSignal (signal s') rid = None \<and>
    (\<forall>u. feedbackPrUrl = Some u \<longrightarrow> u \<noteq> [] \<longrightarrow> \<not> mapHas (activeFeedbackRuns s') u) \<and>
    (\<forall>k. k \<noteq> rid \<longrightarrow> get_run s' k = get_run s k)"
  using assms by (rule cancelled_run_effect)

theorem cancelled_run_quiet_witness:
  "quiet ''r1'' (fst (markRunCancelled ''r1'' demo_run Graceful None demo_sys))"
proof -
  have 1: "get_run demo_sys ''r1'' = Some demo_row"
    by (simp add: get_run_def select_one_def demo_sys_def demo_row_def fresh_row_def)
  obtain s' run' where 2: "markRunCancelled ''r1'' demo_run Graceful None demo_sys = (s', run')"
    by (metis surj_pair)
  show ?thesis using cancelled_run_quiet [OF 1 2] by (simp add: 2)
qed

end
