(* ===== verification/Execution.thy ===== *)
theory Execution
  imports RunControl AgentChecks DeepReviewTools Policy Gates
begin

text \<open>
  The frame of \<open>executePipeline\<close> in \<open>packages/core/src/pipeline/runner.ts\<close>: the local variables of
  the function as a record, the answers of the outside world as functions of the number of external
  calls made so far, and the small operations every phase uses. An external call appends an action to
  the trace, and while it is awaited the other operations of the process may change the shared state
  (\<open>en_world\<close>). A phase is a function of the record; it ends early by setting \<open>x_exit\<close>, to \<open>Returned\<close>
  for a \<open>return\<close> and to \<open>Threw\<close> for an exception, and \<open>seq\<close> runs phases until one does.

  The notifier never throws (\<open>notifier/composite.ts\<close> settles every call) and database queries
  succeed. Log output is not modelled.
\<close>

section \<open>Calls and actions\<close>

datatype stage_context =
    RalphContext nat ralph_check handoff
  | DeepReviewContext nat "finding list" handoff
  | MergeConflictContext string
  | FeedbackContext review_feedback

record stage_call =
  sc_stage :: stage
  sc_handoff :: "handoff option"
  sc_agentSessionId :: "string option"
  sc_isFirstResumableStage :: bool
  sc_suppressHandoff :: bool
  sc_iteration :: "nat option"
  sc_promptOverride :: "string option"
  sc_context :: "stage_context option"

record review_outcome =
  ro_agenticFindings :: "finding list"
  ro_inputTokens :: nat
  ro_outputTokens :: nat
  ro_fanoutRuns :: "string list"

datatype forge = GitLabApi | BitbucketApi | GitHubApp | GhCli

datatype act =
    Cloned string
  | WorktreeCreated string
  | DevcontainerChecked
  | SetupRan "string list"
  | TechStackDetected
  | Executed stage_call stage_result
  | StageThrew stage_call
  | RalphChecked
  | Validated stage
  | QualityChecked
  | AutoCommitted bool
  | FilesRead
  | ReviewProvidersRan bool
  | DiffRead
  | PolicyEvaluated
  | ScratchChecked
  | TypecheckRan
  | SpecChecked
  | LockTaken
  | LockRefused
  | Rebased
  | RebaseAborted
  | Pushed push_strategy
  | PrRequested forge bool "reviewers option"
  | FanoutPosted
  | DraftCommented
  | DiffLinesRead
  | ReviewsRead
  | MergeRequested forge
  | ReviewRerequested
  | DevcontainerDown
  | WorktreeDeleted

section \<open>The outside world\<close>

record rebase_result =
  rb_success :: bool
  rb_hasConflicts :: bool

text \<open>
  The arguments of the function, its configuration, and the answers to its external calls. An answer
  that is an error is \<open>Inl\<close> with the message, or \<open>Some\<close> message for a call without a result.
\<close>

record pipeline_env =
  en_runId :: run_id
  en_config :: pipeline_config
  en_repo :: repo_config
  en_issue :: sanitized_issue
  en_branch :: string
  en_licensed :: "string \<Rightarrow> bool"
  en_fmt :: "nat \<Rightarrow> string"
  en_world :: "nat \<Rightarrow> sys \<Rightarrow> sys"
  en_projectsRoot :: string
  en_cloneUrl :: string
  en_clone :: "nat \<Rightarrow> string option"
  en_createWorktree :: "nat \<Rightarrow> string + string"
  en_devcontainer :: "nat \<Rightarrow> string + bool"
  en_setup :: "nat \<Rightarrow> string list \<Rightarrow> string option"
  en_techStack :: "nat \<Rightarrow> string option"
  en_executeStage :: "nat \<Rightarrow> stage_call \<Rightarrow> string + stage_result"
  en_extractHandoff :: "nat \<Rightarrow> handoff"
  en_ralphAgent :: "nat \<Rightarrow> string + (bool \<times> string list \<times> string list) option"
  en_validateAgent :: "nat \<Rightarrow> string + (bool \<times> string list) option"
  en_testQuality :: "nat \<Rightarrow> string list \<Rightarrow> string + finding list"
  en_autoCommit :: "nat \<Rightarrow> string + bool"
  en_modified :: "nat \<Rightarrow> (string \<times> string) option"
  en_surgicalPrompt :: "finding list \<Rightarrow> string"
  en_diff :: "nat \<Rightarrow> string \<times> string"
  en_autoDeepReviewDisabled :: bool
  en_reviewProviders :: "nat \<Rightarrow> bool \<Rightarrow> string + review_outcome"
  en_changedFiles :: "nat \<Rightarrow> string list"
  en_scratchDisabled :: bool
  en_scratch :: "nat \<Rightarrow> string \<times> string"
  en_typecheckDisabled :: bool
  en_typecheck :: "nat \<Rightarrow> string \<times> string \<times> int"
  en_specGate :: "nat \<Rightarrow> string + (string \<times> string \<times> string) list option"
  en_lock :: "nat \<Rightarrow> string option"
  en_unlock :: "nat \<Rightarrow> string option"
  en_rebase :: "nat \<Rightarrow> rebase_result"
  en_push :: "nat \<Rightarrow> push_strategy \<Rightarrow> string option"
  en_gitlab :: bool
  en_bitbucket :: bool
  en_github :: bool
  en_createPr :: "nat \<Rightarrow> string + string"
  en_diffLines :: "nat \<Rightarrow> nat option"
  en_reviews :: "nat \<Rightarrow> string + review list"
  en_teamMembers :: "nat \<Rightarrow> string \<Rightarrow> string + string list"
  en_merge :: "nat \<Rightarrow> string + bool"

section \<open>The local variables\<close>

datatype exit = Returned | Threw string

record px =
  x_sys :: sys
  x_run :: pipeline_run
  x_session :: "string option"
  x_hasInitiatedSession :: bool
  x_handoff :: "handoff option"
  x_worktree :: "string option"
  x_devcontainer :: bool
  x_lastStageIndex :: int
  x_files :: "string list"
  x_lastReviewStageRunId :: string
  x_fanout :: "string list"
  x_ralphSatisfied :: bool
  x_ralphGaps :: "string list"
  x_ralphSuggestions :: "string list"
  x_ralphEvaluationFailed :: bool
  x_ralphEvaluationError :: "string option"
  x_result :: stage_result
  x_first :: bool
  x_ralphRan :: bool
  x_passes :: nat
  x_shouldDraft :: bool
  x_unresolved :: "finding list"
  x_rebaseConflict :: bool
  x_prUrl :: string
  x_autoMerged :: bool
  x_teamCache :: team_cache
  x_log :: "act list"
  x_exit :: "exit option"

section \<open>Sequencing\<close>

definition step :: "(px \<Rightarrow> px) \<Rightarrow> px \<Rightarrow> px" where
  "step f x = (if x_exit x = None then f x else x)"

fun seq :: "(px \<Rightarrow> px) list \<Rightarrow> px \<Rightarrow> px" where
  "seq [] x = x"
| "seq (f # fs) x = seq fs (step f x)"

definition return :: "px \<Rightarrow> px" where
  "return x = x\<lparr>x_exit := Some Returned\<rparr>"

definition throw :: "string \<Rightarrow> px \<Rightarrow> px" where
  "throw msg x = x\<lparr>x_exit := Some (Threw msg)\<rparr>"

text \<open>An external call: the next action of the trace, during which the world moves.\<close>

definition now :: "px \<Rightarrow> nat" where
  "now x = length (x_log x)"

definition await :: "pipeline_env \<Rightarrow> act \<Rightarrow> px \<Rightarrow> px" where
  "await e a x = x\<lparr>x_log := x_log x @ [a], x_sys := en_world e (now x) (x_sys x)\<rparr>"

definition on_sys :: "(sys \<Rightarrow> sys) \<Rightarrow> px \<Rightarrow> px" where
  "on_sys f x = x\<lparr>x_sys := f (x_sys x)\<rparr>"

definition on_run :: "(pipeline_run \<Rightarrow> pipeline_run) \<Rightarrow> px \<Rightarrow> px" where
  "on_run f x = x\<lparr>x_run := f (x_run x)\<rparr>"

section \<open>Shared operations\<close>

text \<open>The result of the stage before there is one.\<close>

definition no_result :: stage_result where
  "no_result = \<lparr>re_status = StageFailed, re_handoff = None, re_structured = None, re_inputTokens = 0,
     re_outputTokens = 0, re_errorMessage = None, re_stageRunId = [], re_newSessionId = None\<rparr>"

definition applyCollisionRecovery :: "stage_result \<Rightarrow> px \<Rightarrow> px" where
  "applyCollisionRecovery r x =
     (case re_newSessionId r of
        None \<Rightarrow> x
      | Some n \<Rightarrow>
          if n \<noteq> [] \<and> Some n \<noteq> x_session x
          then x\<lparr>x_session := Some n, x_hasInitiatedSession := False\<rparr> else x)"

definition claimFirstResumableStage :: "string \<Rightarrow> px \<Rightarrow> px \<times> bool" where
  "claimFirstResumableStage stg x =
     (if x_session x = None then (x, False)
      else if x_hasInitiatedSession x then (x, False)
      else if isAlwaysFreshStage stg then (x, False)
      else (x\<lparr>x_hasInitiatedSession := True\<rparr>, True))"

text \<open>The call \<open>executeStage\<close> and the collision recovery behind it, at every call site.\<close>

definition run_stage :: "pipeline_env \<Rightarrow> stage_call \<Rightarrow> px \<Rightarrow> px" where
  "run_stage e c x =
     (case en_executeStage e (now x) c of
        Inl msg \<Rightarrow> throw msg (await e (StageThrew c) x)
      | Inr r \<Rightarrow> (applyCollisionRecovery r (await e (Executed c r) x))\<lparr>x_result := r\<rparr>)"

definition plain_call :: "stage \<Rightarrow> handoff option \<Rightarrow> px \<Rightarrow> bool \<Rightarrow> stage_call" where
  "plain_call stg h x first =
     \<lparr>sc_stage = stg, sc_handoff = h, sc_agentSessionId = x_session x,
      sc_isFirstResumableStage = first, sc_suppressHandoff = False, sc_iteration = None,
      sc_promptOverride = None, sc_context = None\<rparr>"

definition add_tokens :: "nat \<Rightarrow> nat \<Rightarrow> px \<Rightarrow> px" where
  "add_tokens i out = on_run (\<lambda>r. r\<lparr>pr_totalInputTokens := pr_totalInputTokens r + i,
     pr_totalOutputTokens := pr_totalOutputTokens r + out\<rparr>)"

definition count_result :: "px \<Rightarrow> px" where
  "count_result x = add_tokens (re_inputTokens (x_result x)) (re_outputTokens (x_result x)) x"

definition check_budget :: "pipeline_env \<Rightarrow> stage \<Rightarrow> px \<Rightarrow> px" where
  "check_budget e stg x =
     (let (s, run, stop) = checkTokenBudget (en_fmt e) (en_runId e) (x_run x) (en_config e)
            (stage_name stg) (x_sys x);
          x1 = x\<lparr>x_sys := s, x_run := run\<rparr>
      in if stop then return x1 else x1)"

definition stage_index :: "pipeline_env \<Rightarrow> stage \<Rightarrow> int" where
  "stage_index e stg = indexOf (pc_stages (en_config e)) stg"

definition fail_context_at :: "pipeline_env \<Rightarrow> int \<Rightarrow> px \<Rightarrow> fail_context" where
  "fail_context_at e i x =
     \<lparr>fc_worktreePath = x_worktree x, fc_currentStageIndex = Some i, fc_handoff = x_handoff x,
      fc_pipelineConfig = Some (en_config e), fc_repoConfig = Some (en_repo e),
      fc_sanitizedIssue = Some (en_issue e)\<rparr>"

text \<open>\<open>failPipeline\<close> with the full context, as the phases call it.\<close>

definition fail_with :: "pipeline_env \<Rightarrow> string \<Rightarrow> string \<Rightarrow> bool \<Rightarrow> int \<Rightarrow> px \<Rightarrow> px" where
  "fail_with e stg msg exhausted i x =
     (let (s, run) = failPipeline (en_runId e) (x_run x) stg msg exhausted
            (Some (fail_context_at e i x)) (x_sys x)
      in x\<lparr>x_sys := s, x_run := run\<rparr>)"

definition fail_stage :: "pipeline_env \<Rightarrow> stage \<Rightarrow> string \<Rightarrow> bool \<Rightarrow> px \<Rightarrow> px" where
  "fail_stage e stg msg exhausted x =
     return (fail_with e (stage_name stg) msg exhausted (stage_index e stg) x)"

definition cancel_run :: "pipeline_env \<Rightarrow> stop_mode \<Rightarrow> px \<Rightarrow> px" where
  "cancel_run e mode x =
     (let (s, run) = markRunCancelled (en_runId e) (x_run x) mode None (x_sys x)
      in return (x\<lparr>x_sys := s, x_run := run\<rparr>))"

definition stage_done :: "pipeline_env \<Rightarrow> stage \<Rightarrow> px \<Rightarrow> px" where
  "stage_done e stg x =
     on_sys (notify (OnStageComplete (en_runId e) (stage_name stg) (re_status (x_result x)))) x"

text \<open>
  The relation of the current call to the run's session, for the validator.
\<close>

definition run_mode_of :: "px \<Rightarrow> bool \<Rightarrow> run_mode" where
  "run_mode_of x first = (if x_session x = None then Fallback else if first then FirstResumed else Resumed)"

definition error_or :: "string \<Rightarrow> px \<Rightarrow> string" where
  "error_or d x = (case re_errorMessage (x_result x) of None \<Rightarrow> d | Some m \<Rightarrow> m)"

section \<open>Facts about sequencing\<close>

lemma step_exit [simp]: "x_exit x \<noteq> None \<Longrightarrow> step f x = x"
  by (auto simp: step_def)

lemma seq_exit [simp]: "x_exit x \<noteq> None \<Longrightarrow> seq fs x = x"
  by (induction fs arbitrary: x) simp_all

lemma seq_none: "x_exit (seq fs x) = None \<Longrightarrow> x_exit x = None"
  by (cases "x_exit x") simp_all

lemma seq_append: "seq (fs @ gs) x = seq gs (seq fs x)"
  by (induction fs arbitrary: x) simp_all

text \<open>
  How a phase extends the trace: by actions with a property, with at most \<open>n\<close> calls of an agent
  stage among them.
\<close>

fun is_call :: "act \<Rightarrow> bool" where
  "is_call (Executed c r) = True"
| "is_call (StageThrew c) = True"
| "is_call _ = False"

definition ext :: "nat \<Rightarrow> (act \<Rightarrow> bool) \<Rightarrow> px \<Rightarrow> px \<Rightarrow> bool" where
  "ext n P x y \<longleftrightarrow> (\<exists>new. x_log y = x_log x @ new \<and> list_all P new \<and> length (filter is_call new) \<le> n)"

lemma ext_same: "x_log y = x_log x \<Longrightarrow> ext n P x y"
  by (simp add: ext_def)

lemma ext_refl [simp]: "ext n P x x"
  by (simp add: ext_same)

lemma ext_trans:
  assumes "ext n P x y" "ext m P y z" "n + m \<le> k"
  shows "ext k P x z"
proof -
  obtain a b where "x_log y = x_log x @ a" "list_all P a" "length (filter is_call a) \<le> n"
    "x_log z = x_log y @ b" "list_all P b" "length (filter is_call b) \<le> m"
    using assms(1,2) unfolding ext_def by blast
  then show ?thesis
    using assms(3) unfolding ext_def by (intro exI [of _ "a @ b"]) simp
qed

lemma ext_mono: "ext n P x y \<Longrightarrow> n \<le> m \<Longrightarrow> ext m P x y"
  by (rule ext_trans [OF _ ext_refl [of 0]]) simp_all

lemma ext_log: "ext n P x y \<Longrightarrow> x_log x' = x_log x \<Longrightarrow> x_log y' = x_log y \<Longrightarrow> ext n P x' y'"
  by (simp add: ext_def)

lemma ext_step: "ext n P x (f x) \<Longrightarrow> ext n P x (step f x)"
  by (simp add: step_def)

lemma ext_seq:
  "list_all2 (\<lambda>n f. \<forall>x. ext n P x (f x)) ns fs \<Longrightarrow> ext (sum_list ns) P x (seq fs x)"
proof (induction ns fs arbitrary: x rule: list_all2_induct)
  case Nil
  then show ?case by simp
next
  case (Cons n ns f fs)
  have "ext n P x (step f x)" using Cons.hyps(1) by (simp add: ext_step)
  moreover have "ext (sum_list ns) P (step f x) (seq fs (step f x))" by (rule Cons.IH)
  ultimately show ?case by (simp add: ext_trans)
qed

lemma ext_await: "P a \<Longrightarrow> \<not> is_call a \<Longrightarrow> ext n P x (await e a x)"
  by (simp add: ext_def await_def)

lemma log_frame [simp]:
  "x_log (throw msg x) = x_log x"
  "x_log (return x) = x_log x"
  "x_log (on_sys g x) = x_log x"
  "x_log (on_run h x) = x_log x"
  "x_log (applyCollisionRecovery r x) = x_log x"
  "x_log (add_tokens i j x) = x_log x"
  "x_log (count_result x) = x_log x"
  "x_log (check_budget e stg x) = x_log x"
  "x_log (fail_with e st msg ex k x) = x_log x"
  "x_log (fail_stage e stg msg ex x) = x_log x"
  "x_log (cancel_run e mode x) = x_log x"
  "x_log (stage_done e stg x) = x_log x"
  "x_log (fst (claimFirstResumableStage st x)) = x_log x"
  by (simp_all add: throw_def return_def on_sys_def on_run_def applyCollisionRecovery_def add_tokens_def
      count_result_def check_budget_def fail_with_def fail_stage_def cancel_run_def stage_done_def
      claimFirstResumableStage_def case_prod_unfold Let_def split: option.split)

lemma claim_log: "claimFirstResumableStage st x = (y, b) \<Longrightarrow> x_log y = x_log x"
  by (metis fst_conv log_frame(13))

lemma run_stage_ext:
  assumes "\<And>r. P (Executed c r)" "P (StageThrew c)"
  shows "ext (Suc 0) P x (run_stage e c x)"
  using assms by (simp add: ext_def run_stage_def await_def split: sum.split)

text \<open>
  A phase keeps a property if it leads from states with the property to states with the property;
  sequences of phases that keep it keep it.
\<close>

definition keeps :: "(px \<Rightarrow> bool) \<Rightarrow> (px \<Rightarrow> px) \<Rightarrow> bool" where
  "keeps P f \<longleftrightarrow> (\<forall>x. P x \<longrightarrow> P (f x))"

named_theorems keeping \<open>phases that keep a property\<close>

lemma keepsI [intro?]: "(\<And>x. P x \<Longrightarrow> P (f x)) \<Longrightarrow> keeps P f"
  by (simp add: keeps_def)

lemma keepsD: "keeps P f \<Longrightarrow> P x \<Longrightarrow> P (f x)"
  by (simp add: keeps_def)

lemma keeps_step: "keeps P f \<Longrightarrow> keeps P (step f)"
  by (simp add: keeps_def step_def)

lemma keeps_seq: "list_all (keeps P) fs \<Longrightarrow> keeps P (seq fs)"
proof (induction fs)
  case Nil
  then show ?case by (simp add: keeps_def)
next
  case (Cons f fs)
  then have "keeps P (step f)" "keeps P (seq fs)"
    by (simp_all add: keeps_step)
  then show ?case by (simp add: keeps_def)
qed

lemma keeps_comp: "keeps P f \<Longrightarrow> keeps P g \<Longrightarrow> keeps P (\<lambda>x. g (f x))"
  by (simp add: keeps_def)

lemma keeps_if: "keeps P f \<Longrightarrow> keeps P g \<Longrightarrow> keeps P (\<lambda>x. if b x then f x else g x)"
  by (simp add: keeps_def)

lemma keeps_id: "keeps P (\<lambda>x. x)"
  by (simp add: keeps_def)

section \<open>A concrete execution\<close>

text \<open>
  Used by the witnesses: a quiet world in which every check passes, for a configuration and the
  results of the agent calls.
\<close>

definition demo_pipeline ::
  "pipeline_config \<Rightarrow> (nat \<Rightarrow> stage_call \<Rightarrow> string + stage_result) \<Rightarrow> pipeline_env" where
  "demo_pipeline cfg agent =
     \<lparr>en_runId = ''r1'', en_config = cfg, en_repo = demo_repo, en_issue = demo_issue,
      en_branch = ''agent/BEC-1-fix'', en_licensed = (\<lambda>f. False), en_fmt = (\<lambda>n. []),
      en_world = (\<lambda>n s. s), en_projectsRoot = [], en_cloneUrl = [],
      en_clone = (\<lambda>n. None), en_createWorktree = (\<lambda>n. Inr demo_wt),
      en_devcontainer = (\<lambda>n. Inr False), en_setup = (\<lambda>n c. None), en_techStack = (\<lambda>n. None),
      en_executeStage = agent,
      en_extractHandoff = (\<lambda>n. \<lparr>ha_runId = [], ha_issueId = [], ha_stage = [], ha_summary = [],
        ha_filesChanged = [], ha_approach = [], ha_issueIntent = [], ha_constraints = [],
        ha_assumptions = [], ha_reviewFindings = None\<rparr>),
      en_ralphAgent = (\<lambda>n. Inr None), en_validateAgent = (\<lambda>n. Inr None),
      en_testQuality = (\<lambda>n fs. Inr []), en_autoCommit = (\<lambda>n. Inr False),
      en_modified = (\<lambda>n. None), en_surgicalPrompt = (\<lambda>fs. []), en_diff = (\<lambda>n. ([], [])),
      en_autoDeepReviewDisabled = False, en_reviewProviders = (\<lambda>n b. Inl []),
      en_changedFiles = (\<lambda>n. []), en_scratchDisabled = True, en_scratch = (\<lambda>n. ([], [])),
      en_typecheckDisabled = True, en_typecheck = (\<lambda>n. ([], [], 0)),
      en_specGate = (\<lambda>n. Inr None), en_lock = (\<lambda>n. None), en_unlock = (\<lambda>n. None),
      en_rebase = (\<lambda>n. \<lparr>rb_success = True, rb_hasConflicts = False\<rparr>),
      en_push = (\<lambda>n st. None),
      en_gitlab = False, en_bitbucket = False, en_github = False,
      en_createPr = (\<lambda>n. Inr ''https://github.com/o/r/pull/7''), en_diffLines = (\<lambda>n. Some 10),
      en_reviews = (\<lambda>n. Inr []), en_teamMembers = (\<lambda>n t. Inr []),
      en_merge = (\<lambda>n. Inr True)\<rparr>"

definition initial_px :: "sys \<Rightarrow> pipeline_run \<Rightarrow> string option \<Rightarrow> px" where
  "initial_px s run session =
     \<lparr>x_sys = s, x_run = run, x_session = session, x_hasInitiatedSession = False, x_handoff = None,
      x_worktree = None, x_devcontainer = False, x_lastStageIndex = 0, x_files = [],
      x_lastReviewStageRunId = [], x_fanout = [], x_ralphSatisfied = True, x_ralphGaps = [],
      x_ralphSuggestions = [], x_ralphEvaluationFailed = False, x_ralphEvaluationError = None,
      x_result = no_result, x_first = False, x_ralphRan = False, x_passes = 0,
      x_shouldDraft = False, x_unresolved = [], x_rebaseConflict = False, x_prUrl = [],
      x_autoMerged = False, x_teamCache = [], x_log = [], x_exit = None\<rparr>"

definition demo_px :: px where
  "demo_px = (initial_px demo_sys (demo_run\<lparr>pr_status := Running\<rparr>) None)\<lparr>x_worktree := Some demo_wt\<rparr>"

definition demo_result :: "stage_outcome \<Rightarrow> handoff option \<Rightarrow> nat \<Rightarrow> stage_result" where
  "demo_result st h n = \<lparr>re_status = st, re_handoff = h, re_structured = Some True, re_inputTokens = n,
     re_outputTokens = 0, re_errorMessage = Some ''boom'', re_stageRunId = ''s1'', re_newSessionId = None\<rparr>"

definition demo_handoff :: "finding list option \<Rightarrow> handoff" where
  "demo_handoff fs = \<lparr>ha_runId = ''r1'', ha_issueId = ''BEC-1'', ha_stage = [], ha_summary = ''done'',
     ha_filesChanged = [''a.ts''], ha_approach = [], ha_issueIntent = [], ha_constraints = [],
     ha_assumptions = [], ha_reviewFindings = fs\<rparr>"

definition demo_finding :: finding where
  "demo_finding = \<lparr>fi_severity = Blocking, fi_file = ''a.ts'', fi_line = 1, fi_category = ''bug'',
     fi_description = ''d'', fi_fix = ''f''\<rparr>"

lemmas demo_exec_defs = demo_pipeline_def initial_px_def demo_px_def demo_result_def demo_handoff_def
  demo_finding_def

end
