(* ===== verification/StageLoop.thy ===== *)
theory StageLoop
  imports Execution
begin

text \<open>
  The stage loop of \<open>executePipeline\<close> (\<open>packages/core/src/pipeline/runner.ts\<close>): what one stage does,
  in the order of the code, and the loop over the stages to run.
\<close>

section \<open>Before the stage\<close>

text \<open>The operator's stop check and the approval stage.\<close>

definition pause_for_approval :: "pipeline_env \<Rightarrow> px \<Rightarrow> px" where
  "pause_for_approval e x =
     (let i = stage_index e AwaitApproval;
          payload = buildResumePayload (x_handoff x) (en_config e) (en_repo e) (en_issue e)
            (case x_worktree x of None \<Rightarrow> [] | Some w \<Rightarrow> w) i;
          x1 = on_sys (update_run (en_runId e) (\<lambda>r. r\<lparr>r_status := Paused,
                 r_currentStageIndex := Some i, r_resumePayload := Some payload\<rparr>)) x;
          x2 = on_run (\<lambda>r. r\<lparr>pr_status := Paused\<rparr>) x1
      in return (on_sys (notify (OnHumanReviewNeeded (en_runId e) []
           ''Pipeline paused at await-approval stage -- human approval required'')) x2))"

definition before_stage :: "pipeline_env \<Rightarrow> stage \<Rightarrow> px \<Rightarrow> px" where
  "before_stage e stg x =
     (let x1 = x\<lparr>x_lastStageIndex := stage_index e stg\<rparr> in
      case getStopSignal (signal (x_sys x1)) (en_runId e) of
        Some mode \<Rightarrow> cancel_run e mode x1
      | None \<Rightarrow> if stg = AwaitApproval then pause_for_approval e x1 else x1)"

text \<open>The announcement in the coordination table; the overlap check behind it only logs.\<close>

definition announce :: "pipeline_env \<Rightarrow> stage \<Rightarrow> px \<Rightarrow> px" where
  "announce e stg x =
     on_sys (\<lambda>s. s\<lparr>work := upsertActiveWork (clock s) (en_runId e) (si_id (en_issue e))
       (stage_name stg) (if x_files x = [] then None else Some (x_files x)) (work s)\<rparr>) x"

section \<open>The main call\<close>

definition main_call :: "pipeline_env \<Rightarrow> stage \<Rightarrow> px \<Rightarrow> px" where
  "main_call e stg x =
     (let (x1, first) = claimFirstResumableStage (stage_name stg) x
      in run_stage e (plain_call stg (x_handoff x1) x1 first)
           (x1\<lparr>x_first := first, x_ralphRan := False\<rparr>))"

definition after_main :: "pipeline_env \<Rightarrow> stage \<Rightarrow> px \<Rightarrow> px" where
  "after_main e stg x =
     (if re_status (x_result x) = StageCancelled
      then cancel_run e (case getStopSignal (signal (x_sys x)) (en_runId e) of
             None \<Rightarrow> Cancel | Some m \<Rightarrow> m) x
      else if stg = Review then x\<lparr>x_lastReviewStageRunId := re_stageRunId (x_result x)\<rparr>
      else x)"

section \<open>RALPH\<close>

definition ralph_iterations :: "pipeline_env \<Rightarrow> pipeline_run \<Rightarrow> nat" where
  "ralph_iterations e run =
     computeEffectiveRalphIterations run (pc_ralphIterations (en_config e))
       (en_licensed e ''deep-review'')"

definition ralph_verdict :: "pipeline_env \<Rightarrow> px \<Rightarrow> ralph_check" where
  "ralph_verdict e x = checkRequirements (en_ralphAgent e (now x)) (en_issue e)"

text \<open>
  The re-implementation of an iteration: the call, with the context rendered from the check and the
  extracted handoff, its tokens, the budget.
\<close>

definition reimplement :: "pipeline_env \<Rightarrow> nat \<Rightarrow> ralph_check \<Rightarrow> handoff \<Rightarrow> px \<Rightarrow> px" where
  "reimplement e iteration check h x =
     (let (x1, first) = claimFirstResumableStage (stage_name Implement) x;
          base = plain_call Implement (x_handoff x1) x1 first;
          c = base\<lparr>sc_suppressHandoff := (x_session x1 \<noteq> None \<and> \<not> first),
                sc_iteration := Some iteration,
                sc_context := Some (RalphContext iteration check h)\<rparr>
      in seq [run_stage e c, count_result, check_budget e Implement] x1)"

text \<open>\<open>k\<close> iterations are left, the current one included.\<close>

fun ralph_loop :: "pipeline_env \<Rightarrow> nat \<Rightarrow> nat \<Rightarrow> px \<Rightarrow> px" where
  "ralph_loop e 0 iteration x = x"
| "ralph_loop e (Suc k) iteration x =
     (let check = ralph_verdict e x; x1 = await e RalphChecked x in
      if ck_satisfied check
      then x1\<lparr>x_ralphSatisfied := True, x_ralphGaps := [], x_ralphSuggestions := []\<rparr>
      else if ck_evaluationFailed check
      then x1\<lparr>x_ralphSatisfied := False, x_ralphEvaluationFailed := True,
              x_ralphEvaluationError := ck_evaluationError check, x_ralphGaps := [],
              x_ralphSuggestions := []\<rparr>
      else (let x2 = x1\<lparr>x_ralphGaps := ck_gaps check, x_ralphSuggestions := ck_suggestions check\<rparr> in
        if k = 0 then x2
        else (let x3 = reimplement e iteration check (en_extractHandoff e (now x)) x2 in
          if x_exit x3 \<noteq> None then x3
          else if re_status (x_result x3) = StageFailed then x3
          else ralph_loop e k (Suc iteration) x3)))"

definition ralph_applies :: "pipeline_env \<Rightarrow> stage \<Rightarrow> px \<Rightarrow> bool" where
  "ralph_applies e stg x \<longleftrightarrow> stg = Implement \<and> 0 < ralph_iterations e (x_run x) \<and>
     re_status (x_result x) = StageCompleted \<and> re_handoff (x_result x) \<noteq> None"

definition ralph :: "pipeline_env \<Rightarrow> stage \<Rightarrow> px \<Rightarrow> px" where
  "ralph e stg x =
     (if ralph_applies e stg x
      then ralph_loop e (ralph_iterations e (x_run x)) 1
             (count_result (x\<lparr>x_ralphRan := True, x_ralphSatisfied := False\<rparr>))
      else x)"

section \<open>Retries\<close>

definition count_retry :: "stage \<Rightarrow> px \<Rightarrow> px" where
  "count_retry stg = on_run (\<lambda>r. r\<lparr>pr_stageRetries := mapSet (pr_stageRetries r) (stage_name stg)
     ((case mapGet (pr_stageRetries r) (stage_name stg) of None \<Rightarrow> 0 | Some n \<Rightarrow> n) + 1)\<rparr>)"

definition retry_call :: "pipeline_env \<Rightarrow> stage \<Rightarrow> px \<Rightarrow> px" where
  "retry_call e stg x =
     (let (x1, first) = claimFirstResumableStage (stage_name stg) (count_retry stg x);
          h = (case re_handoff (x_result x1) of None \<Rightarrow> x_handoff x1 | Some h \<Rightarrow> Some h)
      in run_stage e (plain_call stg h x1 first) x1)"

fun retry_loop :: "pipeline_env \<Rightarrow> stage \<Rightarrow> nat \<Rightarrow> px \<Rightarrow> px" where
  "retry_loop e stg 0 x = x"
| "retry_loop e stg (Suc k) x =
     (let x1 = retry_call e stg x
      in if x_exit x1 \<noteq> None then x1
         else if re_status (x_result x1) = StageCompleted then x1
         else retry_loop e stg k x1)"

definition retries :: "pipeline_env \<Rightarrow> stage \<Rightarrow> px \<Rightarrow> px" where
  "retries e stg x =
     (if \<not> x_ralphRan x \<and> re_status (x_result x) = StageFailed \<and>
         rc_strategy (pc_retry (en_config e)) = FixAndRetry
      then retry_loop e stg (rc_maxAttempts (pc_retry (en_config e))) x else x)"

section \<open>The end of the stage\<close>

definition count_main :: "px \<Rightarrow> px" where
  "count_main x = (if x_ralphRan x then x else count_result x)"

definition fail_if_failed :: "pipeline_env \<Rightarrow> stage \<Rightarrow> px \<Rightarrow> px" where
  "fail_if_failed e stg x =
     (if re_status (x_result x) = StageFailed
      then fail_stage e stg (error_or ''Stage failed'' x)
             (rc_strategy (pc_retry (en_config e)) \<noteq> FailFast) x
      else x)"

section \<open>Validation of the handoff\<close>

definition validate_result :: "pipeline_env \<Rightarrow> stage \<Rightarrow> bool \<Rightarrow> px \<Rightarrow> px \<times> bool \<times> string list" where
  "validate_result e stg first x =
     (case re_handoff (x_result x) of
        None \<Rightarrow> (x, False, [])
      | Some h \<Rightarrow>
          (let r = validateHandoff (en_validateAgent e (now x)) (stage_name stg) h
                 (case re_structured (x_result x) of None \<Rightarrow> False | Some b \<Rightarrow> b) (run_mode_of x first)
           in (await e (Validated stg) x, fst r, snd r)))"

text \<open>The retries with the last good handoff: the state, and the issues unless one passed.\<close>

definition validation_call :: "pipeline_env \<Rightarrow> stage \<Rightarrow> px \<Rightarrow> px \<times> bool" where
  "validation_call e stg x =
     (let (x1, first) = claimFirstResumableStage (stage_name stg) x
      in (run_stage e (plain_call stg (x_handoff x1) x1 first) x1, first))"

fun validation_loop ::
  "pipeline_env \<Rightarrow> stage \<Rightarrow> nat \<Rightarrow> string list \<Rightarrow> px \<Rightarrow> px \<times> string list option" where
  "validation_loop e stg 0 issues x = (x, Some issues)"
| "validation_loop e stg (Suc k) issues x =
     (let (x1, first) = validation_call e stg x
      in if x_exit x1 \<noteq> None then (x1, None)
         else if re_status (x_result x1) = StageCompleted \<and> re_handoff (x_result x1) \<noteq> None
         then (let (x2, valid, issues1) = validate_result e stg first x1
               in if valid then (x2, None) else validation_loop e stg k issues1 x2)
         else validation_loop e stg k issues x1)"

definition is_last_stage :: "pipeline_env \<Rightarrow> stage \<Rightarrow> bool" where
  "is_last_stage e stg \<longleftrightarrow> stage_index e stg = int (length (pc_stages (en_config e))) - 1"

definition validation_message :: "stage \<Rightarrow> string list \<Rightarrow> string" where
  "validation_message stg issues =
     ''Handoff validation failed for stage '' @ stage_name stg @ '': '' @ joinWith ''; '' issues"

definition validation :: "pipeline_env \<Rightarrow> stage \<Rightarrow> px \<Rightarrow> px" where
  "validation e stg x =
     (if re_status (x_result x) = StageCompleted \<and> re_handoff (x_result x) \<noteq> None \<and>
         pc_validateHandoffs (en_config e) \<noteq> Some False \<and> \<not> is_last_stage e stg
      then (let (x1, valid, issues) = validate_result e stg (x_first x) x in
        if valid then x1
        else (let (x2, left) = validation_loop e stg
                    (if rc_strategy (pc_retry (en_config e)) = FixAndRetry
                     then rc_maxAttempts (pc_retry (en_config e)) else 0) issues x1
              in case left of
                   None \<Rightarrow> x2
                 | Some issues1 \<Rightarrow> fail_stage e stg (validation_message stg issues1) True x2))
      else x)"

section \<open>Test quality, handoff, auto-commit\<close>

definition test_quality :: "pipeline_env \<Rightarrow> stage \<Rightarrow> px \<Rightarrow> px" where
  "test_quality e stg x =
     (case re_handoff (x_result x) of
        None \<Rightarrow> x
      | Some h \<Rightarrow>
          if stg = Test \<and> re_status (x_result x) = StageCompleted \<and> x_worktree x \<noteq> None
          then (let q = en_testQuality e (now x) (ha_filesChanged h); x1 = await e QualityChecked x in
            case q of
              Inl err \<Rightarrow> x1
            | Inr violations \<Rightarrow>
                if violations = [] then x1
                else x1\<lparr>x_result := (x_result x1)\<lparr>re_handoff := Some (h\<lparr>ha_reviewFindings :=
                  Some ((case ha_reviewFindings h of None \<Rightarrow> [] | Some fs \<Rightarrow> fs) @ violations)\<rparr>)\<rparr>\<rparr>)
          else x)"

definition take_handoff :: "px \<Rightarrow> px" where
  "take_handoff x = x\<lparr>x_handoff := re_handoff (x_result x)\<rparr>"

definition autocommit_message :: "stage \<Rightarrow> string" where
  "autocommit_message stg =
     ''Agent did not commit its work after the '' @ stage_name stg @
     '' stage -- auto-commit triggered (failOnAutoCommit is enabled)''"

definition auto_commit :: "pipeline_env \<Rightarrow> stage \<Rightarrow> px \<Rightarrow> px" where
  "auto_commit e stg x =
     (if x_worktree x = None then x
      else (case en_autoCommit e (now x) of
              Inl msg \<Rightarrow> throw msg (await e (AutoCommitted False) x)
            | Inr did \<Rightarrow>
                (let x1 = await e (AutoCommitted did) x in
                 if did
                 then (let x2 = on_run (\<lambda>r. r\<lparr>pr_autoCommitted := Some True\<rparr>) x1 in
                   if pc_failOnAutoCommit (en_config e) = Some True
                   then fail_stage e stg (autocommit_message stg) False x2
                   else x2)
                 else x1)))"

definition refresh_files :: "pipeline_env \<Rightarrow> px \<Rightarrow> px" where
  "refresh_files e x =
     (if x_worktree x = None then x
      else (let fresh = getModifiedFiles (en_modified e (now x)); x1 = await e FilesRead x
            in if fresh = [] then x1 else x1\<lparr>x_files := fresh\<rparr>))"

section \<open>The loop\<close>

definition stage_phases :: "pipeline_env \<Rightarrow> stage \<Rightarrow> (px \<Rightarrow> px) list" where
  "stage_phases e stg =
     [before_stage e stg, announce e stg, main_call e stg, after_main e stg, ralph e stg,
      retries e stg, count_main, check_budget e stg, stage_done e stg, fail_if_failed e stg,
      validation e stg, test_quality e stg, take_handoff, auto_commit e stg, refresh_files e]"

definition run_one :: "pipeline_env \<Rightarrow> stage \<Rightarrow> px \<Rightarrow> px" where
  "run_one e stg = seq (stage_phases e stg)"

definition run_stages :: "pipeline_env \<Rightarrow> stage list \<Rightarrow> px \<Rightarrow> px" where
  "run_stages e stgs = seq (map (run_one e) stgs)"

section \<open>What the loop does to the trace\<close>

text \<open>The actions of the stage loop for a set of stages.\<close>

fun loop_act :: "stage set \<Rightarrow> act \<Rightarrow> bool" where
  "loop_act S (Executed c r) = (sc_stage c \<in> S)"
| "loop_act S (StageThrew c) = (sc_stage c \<in> S)"
| "loop_act S (Validated stg) = (stg \<in> S)"
| "loop_act S RalphChecked = (Implement \<in> S)"
| "loop_act S QualityChecked = (Test \<in> S)"
| "loop_act S (AutoCommitted b) = True"
| "loop_act S FilesRead = True"
| "loop_act S _ = False"

lemma loop_act_mono: "loop_act S a \<Longrightarrow> S \<subseteq> T \<Longrightarrow> loop_act T a"
  by (cases a) auto

lemma ext_calls: "sc_stage c \<in> S \<Longrightarrow> ext (Suc 0) (loop_act S) x (run_stage e c x)"
  by (rule run_stage_ext) simp_all

lemma before_stage_log [simp]: "x_log (before_stage e stg x) = x_log x"
  by (simp add: before_stage_def Let_def pause_for_approval_def split: option.split)

lemma quiet_phases [simp]:
  "x_log (announce e stg x) = x_log x" "x_log (after_main e stg x) = x_log x"
  "x_log (count_main x) = x_log x" "x_log (fail_if_failed e stg x) = x_log x"
  "x_log (take_handoff x) = x_log x"
  by (simp_all add: announce_def after_main_def count_main_def fail_if_failed_def take_handoff_def)

lemma ext_claimed_call:
  assumes "claimFirstResumableStage st x = (x1, b)" "sc_stage c \<in> S" "x_log x2 = x_log x1"
  shows "ext (Suc 0) (loop_act S) x (run_stage e c x2)"
  using ext_calls [OF assms(2), of x2 e] assms(3) claim_log [OF assms(1)] by (simp add: ext_def)

lemma main_call_ext: "stg \<in> S \<Longrightarrow> ext (Suc 0) (loop_act S) x (main_call e stg x)"
  by (cases "claimFirstResumableStage (stage_name stg) x")
     (auto simp: main_call_def plain_call_def intro: ext_claimed_call)

lemma reimplement_ext: "Implement \<in> S \<Longrightarrow> ext (Suc 0) (loop_act S) x (reimplement e i check h x)"
proof -
  assume S: "Implement \<in> S"
  obtain x1 first where c: "claimFirstResumableStage (stage_name Implement) x = (x1, first)" by fastforce
  have "ext (sum_list [Suc 0, 0, 0]) (loop_act S) x1 (seq [run_stage e cl, count_result, check_budget e Implement] x1)"
    if "sc_stage cl = Implement" for cl
    using S that by (intro ext_seq) (auto simp: ext_calls ext_same)
  then show ?thesis
    using claim_log [OF c]
    unfolding reimplement_def c by (simp add: Let_def plain_call_def ext_def del: seq.simps)
qed

lemma ralph_loop_ext: "Implement \<in> S \<Longrightarrow> ext (k - 1) (loop_act S) x (ralph_loop e k i x)"
proof (induction e k i x rule: ralph_loop.induct)
  case (1 e i x)
  then show ?case by simp
next
  case (2 e k i x)
  let ?check = "ralph_verdict e x"
  let ?x2 = "(await e RalphChecked x)\<lparr>x_ralphGaps := ck_gaps ?check, x_ralphSuggestions := ck_suggestions ?check\<rparr>"
  let ?x3 = "reimplement e i ?check (en_extractHandoff e (now x)) ?x2"
  have a: "ext n (loop_act S) x y" if "x_log y = x_log x @ [RalphChecked]" for y n
    using 2(2) that by (simp add: ext_def)
  have b: "ext (Suc 0) (loop_act S) x ?x3"
    by (rule ext_trans [OF a [of _ 0] reimplement_ext [OF 2(2)]]) (simp_all add: await_def)
  show ?case
  proof (cases "ck_satisfied ?check \<or> ck_evaluationFailed ?check \<or> k = 0")
    case True
    then show ?thesis
      using 2(2) by (auto simp: Let_def await_def ext_def)
  next
    case go: False
    show ?thesis
    proof (cases "x_exit ?x3 \<noteq> None \<or> re_status (x_result ?x3) = StageFailed")
      case True
      then show ?thesis using go b by (auto simp: Let_def intro: ext_mono)
    next
      case False
      then have "ext (k - 1) (loop_act S) ?x3 (ralph_loop e k (Suc i) ?x3)"
        using go 2 by (simp add: Let_def)
      then have "ext k (loop_act S) x (ralph_loop e k (Suc i) ?x3)"
        by (rule ext_trans [OF b]) (use go in simp)
      then show ?thesis using go False by (simp add: Let_def)
    qed
  qed
qed

lemma ralph_ext: "stg \<in> S \<Longrightarrow> ext (ralph_iterations e (x_run x) - 1) (loop_act S) x (ralph e stg x)"
proof (cases "ralph_applies e stg x")
  case True
  assume "stg \<in> S"
  then have "Implement \<in> S" using True by (simp add: ralph_applies_def)
  from ralph_loop_ext [OF this, of "ralph_iterations e (x_run x)"
      "count_result (x\<lparr>x_ralphRan := True, x_ralphSatisfied := False\<rparr>)" e 1]
  show ?thesis using True by (simp add: ralph_def ext_def)
qed (simp add: ralph_def)

lemma count_retry_log [simp]: "x_log (count_retry stg x) = x_log x"
  by (simp add: count_retry_def)

lemma retry_call_ext: "stg \<in> S \<Longrightarrow> ext (Suc 0) (loop_act S) x (retry_call e stg x)"
  using ext_claimed_call [of "stage_name stg" "count_retry stg x"]
  by (cases "claimFirstResumableStage (stage_name stg) (count_retry stg x)")
     (auto simp: retry_call_def plain_call_def ext_def Let_def)

lemma retry_loop_ext: "stg \<in> S \<Longrightarrow> ext k (loop_act S) x (retry_loop e stg k x)"
proof (induction e stg k x rule: retry_loop.induct)
  case (1 e stg x)
  then show ?case by simp
next
  case (2 e stg k x)
  let ?x1 = "retry_call e stg x"
  have b: "ext (Suc 0) (loop_act S) x ?x1" using 2(2) by (rule retry_call_ext)
  show ?case
  proof (cases "x_exit ?x1 \<noteq> None \<or> re_status (x_result ?x1) = StageCompleted")
    case True
    then show ?thesis using b by (auto simp: Let_def intro: ext_mono)
  next
    case False
    then have "ext k (loop_act S) ?x1 (retry_loop e stg k ?x1)"
      using 2 by simp
    then have "ext (Suc k) (loop_act S) x (retry_loop e stg k ?x1)"
      by (rule ext_trans [OF b]) simp
    then show ?thesis using False by (simp add: Let_def)
  qed
qed

lemma retries_ext:
  "stg \<in> S \<Longrightarrow> x_ralphRan x \<Longrightarrow> ext 0 (loop_act S) x (retries e stg x)"
  "stg \<in> S \<Longrightarrow> ext (rc_maxAttempts (pc_retry (en_config e))) (loop_act S) x (retries e stg x)"
  by (simp_all add: retries_def retry_loop_ext)

lemma validate_result_ext:
  "stg \<in> S \<Longrightarrow> validate_result e stg f x = (y, v) \<Longrightarrow> ext 0 (loop_act S) x y"
  by (auto simp: validate_result_def Let_def ext_await split: option.splits)

lemma validation_call_ext:
  "stg \<in> S \<Longrightarrow> validation_call e stg x = (y, b) \<Longrightarrow> ext (Suc 0) (loop_act S) x y"
  using ext_claimed_call [of "stage_name stg" x]
  by (cases "claimFirstResumableStage (stage_name stg) x")
     (auto simp: validation_call_def plain_call_def)

lemma validation_loop_ext:
  "stg \<in> S \<Longrightarrow> validation_loop e stg k issues x = (y, left) \<Longrightarrow> ext k (loop_act S) x y"
proof (induction e stg k issues x arbitrary: y left rule: validation_loop.induct)
  case (1 e stg issues x)
  then show ?case by simp
next
  case (2 e stg k issues x)
  obtain x1 first where c: "validation_call e stg x = (x1, first)" by fastforce
  have b: "ext (Suc 0) (loop_act S) x x1" using 2(3) c by (rule validation_call_ext)
  show ?case
  proof (cases "x_exit x1 \<noteq> None")
    case True
    then show ?thesis using 2(4) c b by (auto intro: ext_mono)
  next
    case run: False
    show ?thesis
    proof (cases "re_status (x_result x1) = StageCompleted \<and> re_handoff (x_result x1) \<noteq> None")
      case True
      obtain x2 valid is1 where v: "validate_result e stg first x1 = (x2, valid, is1)"
        by (metis prod_cases3)
      have "ext 0 (loop_act S) x1 x2" using 2(3) v by (rule validate_result_ext)
      then have d: "ext (Suc 0) (loop_act S) x x2" by (rule ext_trans [OF b]) simp
      show ?thesis
      proof (cases valid)
        case True
        then show ?thesis using 2(4) c v d run \<open>re_status _ = _ \<and> _\<close> by (auto intro: ext_mono)
      next
        case False
        then have eq: "validation_loop e stg k is1 x2 = (y, left)"
          using 2(4) c v run \<open>re_status _ = _ \<and> _\<close> by simp
        then have "ext k (loop_act S) x2 y"
          using 2(1) [OF c [symmetric] refl _ _ v [symmetric] refl] run True False 2(3) by simp
        then show ?thesis by (rule ext_trans [OF d]) simp
      qed
    next
      case False
      then have eq: "validation_loop e stg k issues x1 = (y, left)"
        using 2(4) c run by (auto split: if_splits)
      then have "ext k (loop_act S) x1 y"
        using 2(2) [OF c [symmetric] refl _ False] run 2(3) by simp
      then show ?thesis by (rule ext_trans [OF b]) simp
    qed
  qed
qed

lemma validation_ext:
  assumes "stg \<in> S"
  shows "ext (rc_maxAttempts (pc_retry (en_config e))) (loop_act S) x (validation e stg x)"
proof -
  obtain x1 v is1 where v: "validate_result e stg (x_first x) x = (x1, v, is1)" by (metis prod_cases3)
  have a: "ext 0 (loop_act S) x x1" using assms v by (rule validate_result_ext)
  let ?n = "if rc_strategy (pc_retry (en_config e)) = FixAndRetry
                     then rc_maxAttempts (pc_retry (en_config e)) else 0"
  obtain x2 left where l: "validation_loop e stg ?n is1 x1 = (x2, left)" by fastforce
  have "ext ?n (loop_act S) x1 x2" using assms l by (rule validation_loop_ext)
  then have b: "ext (rc_maxAttempts (pc_retry (en_config e))) (loop_act S) x x2"
    by (rule ext_trans [OF a]) simp
  show ?thesis
    using a b v l
    by (auto simp: validation_def Let_def intro: ext_mono ext_log split: option.split)
qed

lemma test_quality_ext: "stg \<in> S \<Longrightarrow> ext 0 (loop_act S) x (test_quality e stg x)"
  by (auto simp: test_quality_def Let_def ext_def await_def split: option.split sum.split)

lemma auto_commit_ext: "ext 0 (loop_act S) x (auto_commit e stg x)"
  by (auto simp: auto_commit_def Let_def ext_def await_def split: option.split sum.split)

lemma refresh_files_ext: "ext 0 (loop_act S) x (refresh_files e x)"
  by (auto simp: refresh_files_def Let_def ext_def await_def)

text \<open>The most calls one stage can make: the main one, the RALPH iterations, two rounds of retries.\<close>

definition max_calls :: "pipeline_env \<Rightarrow> nat" where
  "max_calls e = 1 + ((case pc_ralphIterations (en_config e) of None \<Rightarrow> 2 | Some n \<Rightarrow> n) - 1) +
     2 * rc_maxAttempts (pc_retry (en_config e))"

lemma ralph_iterations_le:
  "ralph_iterations e run \<le> (case pc_ralphIterations (en_config e) of None \<Rightarrow> 2 | Some n \<Rightarrow> n)"
  by (auto simp: ralph_iterations_def computeEffectiveRalphIterations_def split: option.split)

lemma run_one_ext: "ext (max_calls e) (loop_act {stg}) x (run_one e stg x)"
proof -
  let ?A = "rc_maxAttempts (pc_retry (en_config e))"
  let ?R = "(case pc_ralphIterations (en_config e) of None \<Rightarrow> 2 | Some n \<Rightarrow> n) - Suc 0"
  have r: "ext ?R (loop_act {stg}) x (ralph e stg x)" for x
    using ralph_ext [of stg "{stg}" e x] diff_le_mono [OF ralph_iterations_le [of e "x_run x"], of "Suc 0"]
    by (auto intro: ext_mono)
  have "ext (sum_list [0, 0, Suc 0, 0, ?R, ?A, 0, 0, 0, 0, ?A, 0, 0, 0, 0]) (loop_act {stg}) x
      (seq (stage_phases e stg) x)"
    unfolding stage_phases_def
    by (rule ext_seq) (auto intro!: ext_same main_call_ext r retries_ext(2) validation_ext
        test_quality_ext auto_commit_ext refresh_files_ext)
  then show ?thesis
    by (simp add: run_one_def max_calls_def mult_2 add.assoc add.commute add.left_commute)
qed

lemma ext_weaken: "ext n P x y \<Longrightarrow> (\<And>a. P a \<Longrightarrow> Q a) \<Longrightarrow> ext n Q x y"
  unfolding ext_def by (metis list.pred_mono_strong)

lemma run_stages_ext: "ext (length stgs * max_calls e) (loop_act (set stgs)) x (run_stages e stgs x)"
proof -
  have "ext (sum_list (map (\<lambda>s. max_calls e) stgs)) (loop_act (set stgs)) x (seq (map (run_one e) stgs) x)"
  proof (rule ext_seq)
    show "list_all2 (\<lambda>n f. \<forall>x. ext n (loop_act (set stgs)) x (f x)) (map (\<lambda>s. max_calls e) stgs)
        (map (run_one e) stgs)"
      by (auto simp: list_all2_map1 list_all2_map2 list.rel_refl_strong
          intro!: list.rel_refl_strong ext_weaken [OF run_one_ext] elim: loop_act_mono)
  qed
  then show ?thesis by (simp add: run_stages_def sum_list_triv)
qed

end
