(* ===== verification/StageProps.thy ===== *)
theory StageProps
  imports StageLoop
begin

text \<open>
  The properties of the stage loop: the bound on its agent calls, the approval stage as a barrier and
  its resume context, the operator's stop, the accounting of tokens, the states a run can be left in,
  and the agent session.
\<close>

section \<open>Calls\<close>

text \<open>
  The stage loop is bounded whatever the agents answer. Running a list of stages appends to the
  trace at most \<open>max_calls\<close> agent calls for each stage (one, plus the RALPH iterations but one, plus
  twice the retries), every call is for a stage of the list, and nothing is rebased, pushed, requested
  or merged.
\<close>

theorem stage_calls_bounded:
  "\<exists>new. x_log (run_stages e stgs x) = x_log x @ new \<and>
     length (filter is_call new) \<le> length stgs * max_calls e \<and>
     list_all (loop_act (set stgs)) new"
  using run_stages_ext [of stgs e x] unfolding ext_def by blast

section \<open>The approval stage\<close>

lemma return_exit [simp]: "x_exit (return x) = Some Returned"
  by (simp add: return_def)

lemma cancel_exit [simp]: "x_exit (cancel_run e m x) = Some Returned"
  by (simp add: cancel_run_def case_prod_unfold Let_def)

lemma pause_exit [simp]: "x_exit (pause_for_approval e x) = Some Returned"
  by (simp add: pause_for_approval_def Let_def on_sys_def return_def)

lemma before_approval_exit: "x_exit (before_stage e AwaitApproval x) = Some Returned"
  by (simp add: before_stage_def Let_def split: option.split)

lemma run_approval: "x_exit x = None \<Longrightarrow> run_one e AwaitApproval x = before_stage e AwaitApproval x"
proof -
  assume "x_exit x = None"
  then have "step (before_stage e AwaitApproval) x = before_stage e AwaitApproval x"
    by (simp add: step_def)
  then show ?thesis
    by (simp add: run_one_def stage_phases_def before_approval_exit)
qed

lemma run_stages_append: "run_stages e (as @ bs) x = run_stages e bs (run_stages e as x)"
  by (simp add: run_stages_def seq_append)

lemma run_stages_exit [simp]: "x_exit x \<noteq> None \<Longrightarrow> run_stages e stgs x = x"
  by (simp add: run_stages_def)

lemma run_through_approval:
  assumes "x_exit (run_stages e pre x) = None"
  shows "run_stages e (pre @ AwaitApproval # post) x = before_stage e AwaitApproval (run_stages e pre x)"
proof -
  have "run_stages e (AwaitApproval # post) y = before_stage e AwaitApproval y" if "x_exit y = None" for y
    using that run_approval [OF that]
    by (simp add: run_stages_def step_def before_approval_exit)
  then show ?thesis using assms by (simp add: run_stages_append)
qed

lemma indexOf_from_first: "y \<notin> set xs \<Longrightarrow> indexOf_from k (xs @ y # zs) y = int (k + length xs)"
  by (induction xs arbitrary: k) auto

lemma indexOf_first: "y \<notin> set xs \<Longrightarrow> indexOf (xs @ y # zs) y = int (length xs)"
  using indexOf_from_first [of y xs 0 zs] by (simp add: indexOf_def)

lemma pause_row:
  assumes "get_run (x_sys x) (en_runId e) = Some r"
  shows "get_run (x_sys (pause_for_approval e x)) (en_runId e) = Some (r\<lparr>r_status := Paused,
     r_currentStageIndex := Some (stage_index e AwaitApproval),
     r_resumePayload := Some (buildResumePayload (x_handoff x) (en_config e) (en_repo e) (en_issue e)
       (case x_worktree x of None \<Rightarrow> [] | Some w \<Rightarrow> w) (stage_index e AwaitApproval))\<rparr>)"
  using assms by (simp add: pause_for_approval_def Let_def on_sys_def on_run_def return_def run_table.get_upd)


definition demo_barrier :: pipeline_env where
  "demo_barrier = demo_pipeline (demo_cfg\<lparr>pc_stages := [AwaitApproval, Implement]\<rparr>) (\<lambda>n c. Inl [])"

lemma demo_barrier_facts:
  "pc_stages (en_config demo_barrier) = [] @ AwaitApproval # [Implement]"
  "PipelineConfigSchema (en_config demo_barrier)"
  "getStopSignal (signal (x_sys demo_px)) (en_runId demo_barrier) = None"
  "get_run (x_sys demo_px) (en_runId demo_barrier) = Some demo_row"
  "x_exit demo_px = None" "x_worktree demo_px = Some demo_wt"
  by (simp_all add: demo_barrier_def demo_exec_defs demo_cfg_def LOOP_DEFAULTS_def PipelineConfigSchema_def
      demo_sys_def get_run_def select_one_def demo_row_def fresh_row_def ctl_init_def getStopSignal_def
      opt_le_def opt_pos_def)


text \<open>
  A second approval stage is never passed. The context of every approval stage holds the index of
  the first one, so a pipeline with two of them, resumed after the second approval, runs the stages
  between the two again and pauses at the second once more.
\<close>

theorem second_approval_repeats:
  assumes "pc_stages (en_config e) = pre @ AwaitApproval # mid @ AwaitApproval # post"
    and "AwaitApproval \<notin> set pre"
    and "get_run (x_sys x) (en_runId e) = Some r"
  shows "\<exists>r' i. get_run (x_sys (pause_for_approval e x)) (en_runId e) = Some r' \<and>
    r_currentStageIndex r' = Some i \<and>
    slice (pc_stages (en_config e)) (i + 1) = mid @ AwaitApproval # post"
proof -
  have idx: "stage_index e AwaitApproval = int (length pre)"
    using assms(2) by (simp add: stage_index_def assms(1) indexOf_first)
  have "slice (pre @ AwaitApproval # mid @ AwaitApproval # post) (int (length pre) + 1)
      = mid @ AwaitApproval # post"
    using slice_nat [of "pre @ AwaitApproval # mid @ AwaitApproval # post" "Suc (length pre)"]
    by (simp add: add.commute)
  then show ?thesis
    using pause_row [OF assms(3)] by (simp add: idx assms(1))
qed

theorem second_approval_repeats_witness:
  "\<exists>e r i. pc_stages (en_config e) = [AwaitApproval, Implement, AwaitApproval, Test] \<and>
     get_run (x_sys (pause_for_approval e demo_px)) ''r1'' = Some r \<and> r_currentStageIndex r = Some i \<and>
     slice (pc_stages (en_config e)) (i + 1) = [Implement, AwaitApproval, Test]"
proof -
  let ?e = "demo_pipeline (demo_cfg\<lparr>pc_stages := [AwaitApproval, Implement, AwaitApproval, Test]\<rparr>) (\<lambda>n c. Inl [])"
  have 1: "pc_stages (en_config ?e) = [] @ AwaitApproval # [Implement] @ AwaitApproval # [Test]"
    by (simp add: demo_pipeline_def)
  have id: "en_runId ?e = ''r1''" by (simp add: demo_pipeline_def)
  have 2: "get_run (x_sys demo_px) (en_runId ?e) = Some demo_row" using demo_barrier_facts(4)
    by (simp add: id demo_barrier_def demo_pipeline_def)
  obtain r i where "get_run (x_sys (pause_for_approval ?e demo_px)) (en_runId ?e) = Some r"
    "r_currentStageIndex r = Some i"
    "slice (pc_stages (en_config ?e)) (i + 1) = [Implement] @ AwaitApproval # [Test]"
    using second_approval_repeats [OF 1 _ 2] by auto
  then show ?thesis using 1 unfolding id by (intro exI [of _ ?e] exI [of _ r] exI [of _ i]) simp
qed

section \<open>Stopping\<close>



section \<open>How calls end\<close>

lemma claim_exit: "claimFirstResumableStage st x = (y, b) \<Longrightarrow> x_exit y = x_exit x"
  by (auto simp: claimFirstResumableStage_def split: if_splits)

lemma frame_exit [simp]:
  "x_exit (on_sys g x) = x_exit x" "x_exit (on_run h x) = x_exit x" "x_exit (await e a x) = x_exit x"
  "x_exit (applyCollisionRecovery r x) = x_exit x" "x_exit (add_tokens i j x) = x_exit x"
  "x_exit (count_result x) = x_exit x" "x_exit (stage_done e stg x) = x_exit x"
  "x_exit (announce e stg x) = x_exit x" "x_exit (count_main x) = x_exit x"
  "x_exit (take_handoff x) = x_exit x" "x_exit (count_retry stg x) = x_exit x"
  "x_exit (throw msg x) = Some (Threw msg)"
  by (simp_all add: on_sys_def on_run_def await_def applyCollisionRecovery_def add_tokens_def
      count_result_def stage_done_def announce_def count_main_def take_handoff_def count_retry_def
      throw_def split: option.split)

lemma run_stage_exit:
  "x_exit x = None \<Longrightarrow> x_exit (run_stage e c x) = None \<or> (\<exists>msg. x_exit (run_stage e c x) = Some (Threw msg))"
  by (auto simp: run_stage_def split: sum.split)

lemma validate_result_exit: "validate_result e stg f x = (y, v) \<Longrightarrow> x_exit y = x_exit x"
  by (auto simp: validate_result_def Let_def split: option.splits)

section \<open>Accounting\<close>

text \<open>The last action of the trace is the call that produced the current result.\<close>

definition fresh_result :: "px \<Rightarrow> bool" where
  "fresh_result x \<longleftrightarrow> (\<exists>p c. x_log x = p @ [Executed c (x_result x)])"

lemma claim_run: "claimFirstResumableStage st x = (y, b) \<Longrightarrow> x_run y = x_run x \<and> x_ralphRan y = x_ralphRan x"
  by (auto simp: claimFirstResumableStage_def split: if_splits)

lemma collision_frame [simp]:
  "x_run (applyCollisionRecovery r x) = x_run x" "x_ralphRan (applyCollisionRecovery r x) = x_ralphRan x"
  by (simp_all add: applyCollisionRecovery_def split: option.split)

lemma run_stage_result:
  assumes "x_exit (run_stage e c x) = None"
  shows "fresh_result (run_stage e c x) \<and> x_run (run_stage e c x) = x_run x \<and>
    x_ralphRan (run_stage e c x) = x_ralphRan x"
  using assms
  by (auto simp: run_stage_def fresh_result_def await_def throw_def split: sum.splits)

lemma count_retry_tokens [simp]:
  "used_tokens (x_run (count_retry stg x)) = used_tokens (x_run x)"
  "x_ralphRan (count_retry stg x) = x_ralphRan x"
  by (simp_all add: count_retry_def on_run_def used_tokens_def)

lemma retry_call_result:
  assumes "x_exit (retry_call e stg x) = None"
  shows "fresh_result (retry_call e stg x) \<and>
    used_tokens (x_run (retry_call e stg x)) = used_tokens (x_run x) \<and>
    x_ralphRan (retry_call e stg x) = x_ralphRan x"
proof -
  obtain x1 b where c: "claimFirstResumableStage (stage_name stg) (count_retry stg x) = (x1, b)" by fastforce
  define h where "h = (case re_handoff (x_result x1) of None \<Rightarrow> x_handoff x1 | Some h \<Rightarrow> Some h)"
  have eq: "retry_call e stg x = run_stage e (plain_call stg h x1 b) x1"
    by (simp add: retry_call_def c h_def)
  show ?thesis
    using run_stage_result [of e "plain_call stg h x1 b" x1] assms claim_run [OF c] count_retry_tokens [of stg x]
    by (simp add: eq)
qed

lemma retry_loop_result:
  assumes "fresh_result x" "x_exit (retry_loop e stg k x) = None"
  shows "fresh_result (retry_loop e stg k x) \<and>
    used_tokens (x_run (retry_loop e stg k x)) = used_tokens (x_run x) \<and>
    x_ralphRan (retry_loop e stg k x) = x_ralphRan x"
  using assms
proof (induction e stg k x rule: retry_loop.induct)
  case (2 e stg k x)
  show ?case
  proof (cases "x_exit (retry_call e stg x) = None")
    case True
    then show ?thesis using retry_call_result [OF True] 2 by (auto simp: Let_def)
  next
    case False
    then show ?thesis using 2(3) by (simp add: Let_def)
  qed
qed simp

lemma main_call_result:
  assumes "x_exit (main_call e stg x) = None"
  shows "fresh_result (main_call e stg x) \<and> x_run (main_call e stg x) = x_run x \<and>
    \<not> x_ralphRan (main_call e stg x)"
proof -
  obtain x1 b where c: "claimFirstResumableStage (stage_name stg) x = (x1, b)" by fastforce
  show ?thesis
    using run_stage_result [of e "plain_call stg (x_handoff x1) x1 b" "x1\<lparr>x_first := b, x_ralphRan := False\<rparr>"]
      assms claim_run [OF c] by (simp add: main_call_def c)
qed

lemma after_main_frame:
  assumes "x_exit (after_main e stg x) = None"
  shows "x_run (after_main e stg x) = x_run x \<and> x_ralphRan (after_main e stg x) = x_ralphRan x \<and>
    fresh_result (after_main e stg x) = fresh_result x"
  using assms by (auto simp: after_main_def fresh_result_def split: if_splits)

text \<open>
  A failed attempt costs the budget nothing. When RALPH does not take the stage over and the stage
  goes through, exactly one result is added to the run's tokens, the one of its last call, although
  every failed attempt before it has used tokens too; so the token budget does not see the retries.
\<close>

theorem failed_attempts_not_counted:
  assumes "seq [main_call e stg, after_main e stg] x = y" "\<not> ralph_applies e stg y"
    and "seq [ralph e stg, retries e stg, count_main] y = z" "x_exit x = None" "x_exit z = None"
  shows "used_tokens (x_run z) = used_tokens (x_run x) + re_inputTokens (x_result z) +
      re_outputTokens (x_result z) \<and>
    (\<exists>before c. x_log z = before @ [Executed c (x_result z)])"
proof -
  let ?m = "main_call e stg x"
  have y: "x_exit y = None" using assms(3,5) seq_none by blast
  have m: "x_exit ?m = None"
    using assms(1,4) y by (auto simp: step_def split: if_splits)
  then have y': "y = after_main e stg ?m" using assms(1,4) by (auto simp: step_def)
  have ym: "x_run y = x_run x" "\<not> x_ralphRan y" "fresh_result y"
    using main_call_result [OF m] after_main_frame [of e stg ?m] y y' by auto
  have z: "z = count_main (retries e stg y)" if "x_exit (retries e stg y) = None"
    using assms(2,3) y that by (auto simp: step_def ralph_def)
  have r: "x_exit (retries e stg y) = None"
    using assms(2,3,5) y by (auto simp: step_def ralph_def split: if_splits)
  have "fresh_result (retries e stg y) \<and> used_tokens (x_run (retries e stg y)) = used_tokens (x_run y) \<and>
      x_ralphRan (retries e stg y) = x_ralphRan y"
    using retry_loop_result [OF ym(3)] r ym by (auto simp: retries_def)
  then show ?thesis
    using ym unfolding z [OF r]
    by (auto simp: count_main_def count_result_def add_tokens_def on_run_def used_tokens_def
        fresh_result_def)
qed

theorem failed_attempts_not_counted_witness:
  "\<exists>e y z. seq [main_call e Test, after_main e Test] demo_px = y \<and>
     seq [ralph e Test, retries e Test, count_main] y = z \<and>
     length (x_log z) = 2 \<and> used_tokens (x_run z) = used_tokens (x_run demo_px) + 7"
proof -
  let ?e = "demo_pipeline demo_cfg (\<lambda>n c. Inr (if n = 0 then demo_result StageFailed None 1000
    else demo_result StageCompleted None 7))"
  let ?y = "seq [main_call ?e Test, after_main ?e Test] demo_px"
  let ?z = "seq [ralph ?e Test, retries ?e Test, count_main] ?y"
  note defs = main_call_def after_main_def ralph_def ralph_applies_def retries_def retry_call_def count_retry_def
    count_main_def count_result_def add_tokens_def run_stage_def claimFirstResumableStage_def
    plain_call_def applyCollisionRecovery_def await_def on_run_def step_def now_def Let_def demo_exec_defs
    demo_cfg_def LOOP_DEFAULTS_def numeral_3_eq_3
  have 1: "\<not> ralph_applies ?e Test ?y" by (simp add: ralph_applies_def)
  have 2: "x_exit demo_px = None" by (simp add: demo_exec_defs)
  have 3: "x_exit ?z = None" "length (x_log ?z) = 2"
    "re_inputTokens (x_result ?z) + re_outputTokens (x_result ?z) = 7"
    by (simp_all add: defs)
  have "used_tokens (x_run ?z) = used_tokens (x_run demo_px) + 7"
    using failed_attempts_not_counted [OF refl 1 refl 2 3(1)] 3(3) by simp
  then show ?thesis using 3(2) by blast
qed

end
