(* ===== verification/ReviewLoops.thy ===== *)
theory ReviewLoops
  imports StageLoop
begin

text \<open>
  The two loops behind the stage loop of \<open>executePipeline\<close>
  (\<open>packages/core/src/pipeline/runner.ts\<close>): the review-fix loop, which re-runs the pipeline's stages
  while the review has blocking findings, and the deep-review loop with the heuristic that may force
  it. What the code only logs, such as the diagnostic at the pass limit, is not modelled.
\<close>

section \<open>Review-fix\<close>

definition blocking_findings :: "handoff option \<Rightarrow> finding list" where
  "blocking_findings h = filter blocking (findings_of h)"

definition reviewFixIterations :: "pipeline_env \<Rightarrow> nat" where
  "reviewFixIterations e = (case pc_reviewFixIterations (en_config e) of None \<Rightarrow> 1 | Some n \<Rightarrow> n)"

definition review_fix_applies :: "pipeline_env \<Rightarrow> px \<Rightarrow> bool" where
  "review_fix_applies e x \<longleftrightarrow>
     pc_stages (en_config e) \<noteq> [] \<and> last (pc_stages (en_config e)) = Review \<and>
     0 < reviewFixIterations e \<and> blocking_findings (x_handoff x) \<noteq> []"

definition fix_stages :: "pipeline_env \<Rightarrow> stage list" where
  "fix_stages e = filter (\<lambda>s. s = Implement \<or> s = Test \<or> s = Review) (pc_stages (en_config e))"

text \<open>The surgical decision of an implement stage, and the call.\<close>

definition surgical :: "pipeline_env \<Rightarrow> stage \<Rightarrow> px \<Rightarrow> px \<times> string option" where
  "surgical e stg x =
     (let fs = blocking_findings (x_handoff x) in
      if stg = Implement \<and> fs \<noteq> []
      then (let (prompt, event) = runSurgicalReviewFix (en_surgicalPrompt e) (disk (x_sys x))
                  (en_projectsRoot e) (en_runId e) (si_id (en_issue e)) (x_session x)
                  (case x_worktree x of None \<Rightarrow> [] | Some w \<Rightarrow> w) fs
            in (on_sys (log_audit event) x, prompt))
      else (x, None))"

definition fix_call :: "pipeline_env \<Rightarrow> nat \<Rightarrow> stage \<Rightarrow> px \<Rightarrow> px" where
  "fix_call e i stg x =
     (let (x1, prompt) = surgical e stg x;
          (x2, first) = claimFirstResumableStage (stage_name stg) x1;
          base = plain_call stg (x_handoff x2) x2 first
      in run_stage e (base\<lparr>sc_iteration := Some i, sc_promptOverride := prompt,
             sc_suppressHandoff := (prompt \<noteq> None)\<rparr>) (x2\<lparr>x_first := first\<rparr>))"

definition note_review :: "stage \<Rightarrow> px \<Rightarrow> px" where
  "note_review stg x =
     (if stg = Review then x\<lparr>x_lastReviewStageRunId := re_stageRunId (x_result x)\<rparr> else x)"

definition fail_loop_stage :: "pipeline_env \<Rightarrow> stage \<Rightarrow> string \<Rightarrow> string \<Rightarrow> px \<Rightarrow> px" where
  "fail_loop_stage e stg prefix dflt x =
     (if re_status (x_result x) = StageFailed
      then fail_stage e stg (prefix @ error_or dflt x) True x else x)"

text \<open>The validation of a fix stage only warns; it runs when the option is set to \<open>true\<close>.\<close>

definition fix_validation :: "pipeline_env \<Rightarrow> stage \<Rightarrow> px \<Rightarrow> px" where
  "fix_validation e stg x =
     (if re_handoff (x_result x) \<noteq> None \<and> pc_validateHandoffs (en_config e) = Some True
      then fst (validate_result e stg (x_first x) x) else x)"

definition fix_ralph :: "pipeline_env \<Rightarrow> stage \<Rightarrow> px \<Rightarrow> px" where
  "fix_ralph e stg x =
     (if stg = Implement \<and> 0 < ralph_iterations e (x_run x) \<and>
         re_status (x_result x) = StageCompleted \<and> re_handoff (x_result x) \<noteq> None
      then (let check = ralph_verdict e x; x1 = await e RalphChecked x in
        if ck_evaluationFailed check
        then x1\<lparr>x_ralphSatisfied := ck_satisfied check, x_ralphEvaluationFailed := True,
                x_ralphEvaluationError := ck_evaluationError check, x_ralphGaps := [],
                x_ralphSuggestions := []\<rparr>
        else x1\<lparr>x_ralphSatisfied := ck_satisfied check, x_ralphEvaluationFailed := False,
                x_ralphEvaluationError := None, x_ralphGaps := ck_gaps check,
                x_ralphSuggestions := ck_suggestions check\<rparr>)
      else x)"

definition fix_files :: "px \<Rightarrow> px" where
  "fix_files x =
     (case x_handoff x of
        None \<Rightarrow> x
      | Some h \<Rightarrow> if ha_filesChanged h = [] then x else x\<lparr>x_files := ha_filesChanged h\<rparr>)"

definition fix_stage :: "pipeline_env \<Rightarrow> nat \<Rightarrow> stage \<Rightarrow> px \<Rightarrow> px" where
  "fix_stage e i stg =
     seq [fix_call e i stg, note_review stg, count_result, check_budget e stg, stage_done e stg,
          fail_loop_stage e stg (''review-fix iteration '' @ show_nat i @ '': '') ''Stage failed'',
          fix_validation e stg, take_handoff, fix_ralph e stg, fix_files]"

definition fix_iteration :: "pipeline_env \<Rightarrow> nat \<Rightarrow> px \<Rightarrow> px" where
  "fix_iteration e i = seq (map (fix_stage e i) (fix_stages e))"

fun review_fix_loop :: "pipeline_env \<Rightarrow> nat \<Rightarrow> nat \<Rightarrow> px \<Rightarrow> px" where
  "review_fix_loop e 0 i x = x"
| "review_fix_loop e (Suc k) i x =
     (let x1 = fix_iteration e i x
      in if x_exit x1 \<noteq> None then x1
         else if blocking_findings (x_handoff x1) = [] then x1
         else review_fix_loop e k (Suc i) x1)"

definition review_fix :: "pipeline_env \<Rightarrow> px \<Rightarrow> px" where
  "review_fix e x =
     (if review_fix_applies e x then review_fix_loop e (reviewFixIterations e) 1 x else x)"

section \<open>Deep review\<close>

definition has_review_and_implement :: "pipeline_env \<Rightarrow> bool" where
  "has_review_and_implement e \<longleftrightarrow>
     Review \<in> set (pc_stages (en_config e)) \<and> Implement \<in> set (pc_stages (en_config e))"

definition configured_passes :: "pipeline_env \<Rightarrow> nat" where
  "configured_passes e =
     (if en_licensed e ''deep-review''
      then (case pc_deepReviewPasses (en_config e) of None \<Rightarrow> 0 | Some n \<Rightarrow> n) else 0)"

text \<open>The heuristic; git never throws here, its output is empty when it fails.\<close>

definition auto_deep_review :: "pipeline_env \<Rightarrow> px \<Rightarrow> px" where
  "auto_deep_review e x =
     (let passes = configured_passes e; x0 = x\<lparr>x_passes := passes\<rparr> in
      if en_licensed e ''deep-review'' \<and> has_review_and_implement e
      then (let (stat, full) = en_diff e (now x0);
                x1 = await e DiffRead x0;
                thresholds = (case pc_autoDeepReviewThresholds (en_config e) of
                   None \<Rightarrow> DEFAULT_AUTO_DEEP_REVIEW_THRESHOLDS | Some t \<Rightarrow> t)
            in if shouldAutoDeepReview (en_autoDeepReviewDisabled e) (diff_metrics_of stat full) thresholds
                  \<and> passes < max passes 1
               then (on_sys (log_audit (AutoDeepReviewBumped (en_runId e) (si_id (en_issue e)) passes
                       (max passes 1))) x1)\<lparr>x_passes := max passes 1\<rparr>
               else x1)
      else x0)"

text \<open>The providers of one pass: fan-out only in the first, tokens, budget.\<close>

definition run_providers :: "pipeline_env \<Rightarrow> nat \<Rightarrow> px \<Rightarrow> px \<times> finding list" where
  "run_providers e pass x =
     (let (x1, first) = claimFirstResumableStage ''review'' x in
      case en_reviewProviders e (now x1) (pass = 1) of
        Inl msg \<Rightarrow> (throw msg (await e (ReviewProvidersRan (pass = 1)) x1), [])
      | Inr o1 \<Rightarrow>
          (let x2 = await e (ReviewProvidersRan (pass = 1)) x1;
               x3 = (if pass = 1 then x2\<lparr>x_fanout := ro_fanoutRuns o1\<rparr> else x2);
               x4 = add_tokens (ro_inputTokens o1) (ro_outputTokens o1) x3
           in (check_budget e Review x4, ro_agenticFindings o1)))"

text \<open>
  A re-run of the implement stage on the findings, and of the review stage. The context regroups the
  findings by the agent in front of the colon of their category; the model passes them on.
\<close>

definition deep_implement :: "pipeline_env \<Rightarrow> nat \<Rightarrow> finding list \<Rightarrow> px \<Rightarrow> px" where
  "deep_implement e pass fs x =
     (let (x1, first) = claimFirstResumableStage (stage_name Implement) x;
          c = (plain_call Implement (x_handoff x1) x1 first)
                \<lparr>sc_context := map_option (DeepReviewContext pass fs) (x_handoff x1)\<rparr>
      in seq [run_stage e c, count_result, check_budget e Implement, stage_done e Implement,
              fail_loop_stage e Implement (''deep-review pass '' @ show_nat pass @ '': '')
                ''implement failed'', take_handoff] x1)"

definition deep_verify :: "pipeline_env \<Rightarrow> nat \<Rightarrow> px \<Rightarrow> px" where
  "deep_verify e pass x =
     (let (x1, first) = claimFirstResumableStage (stage_name Review) x
      in seq [run_stage e (plain_call Review (x_handoff x1) x1 first), note_review Review,
              count_result, check_budget e Review, stage_done e Review,
              fail_loop_stage e Review (''deep-review pass '' @ show_nat pass @ '': '')
                ''review failed'', take_handoff] x1)"

definition merge_findings :: "pipeline_env \<Rightarrow> finding list \<Rightarrow> px \<Rightarrow> px" where
  "merge_findings e fs x =
     (case x_handoff x of
        None \<Rightarrow> x
      | Some h \<Rightarrow>
          if fs = [] then x
          else (let incoming = (if pc_deepReviewFindingsAreBlocking (en_config e) = Some False then fs
                      else map (\<lambda>f. f\<lparr>fi_severity := Blocking\<rparr>) fs)
                in x\<lparr>x_handoff := Some (h\<lparr>ha_reviewFindings := Some (findings_of (Some h) @ incoming)\<rparr>)\<rparr>))"

text \<open>\<open>k\<close> passes are left; the fingerprints and the count of the pass before.\<close>

fun deep_loop :: "pipeline_env \<Rightarrow> nat \<Rightarrow> nat \<Rightarrow> string list \<Rightarrow> nat option \<Rightarrow> px \<Rightarrow> px" where
  "deep_loop e 0 pass prints count x = x"
| "deep_loop e (Suc k) pass prints count x =
     (if x_handoff x = None then x
      else (let (x1, fs) = run_providers e pass x in
        if x_exit x1 \<noteq> None then x1
        else if cc_shouldStop (checkDeepReviewConvergence prints fs count) then x1
        else (let x2 = seq [deep_implement e pass fs, deep_verify e pass, merge_findings e fs] x1 in
          if x_exit x2 \<noteq> None then x2
          else deep_loop e k (Suc pass) (setOf (map buildFindingFingerprint fs))
                 (Some (length fs)) x2)))"

definition pass_limit :: "pipeline_env \<Rightarrow> px \<Rightarrow> nat" where
  "pass_limit e x =
     min (x_passes x) (case pc_maxDeepReviewPasses (en_config e) of None \<Rightarrow> 3 | Some n \<Rightarrow> n)"

definition deep_review :: "pipeline_env \<Rightarrow> px \<Rightarrow> px" where
  "deep_review e x =
     (if 0 < x_passes x \<and> has_review_and_implement e
      then deep_loop e (pass_limit e x) 1 [] None x else x)"

section \<open>What the loops do to the trace\<close>

fun review_act :: "act \<Rightarrow> bool" where
  "review_act (Executed c r) = (sc_stage c \<in> {Implement, Test, Review})"
| "review_act (StageThrew c) = (sc_stage c \<in> {Implement, Test, Review})"
| "review_act (Validated stg) = True"
| "review_act RalphChecked = True"
| "review_act DiffRead = True"
| "review_act (ReviewProvidersRan b) = True"
| "review_act _ = False"

lemma ext_review_call:
  assumes "claimFirstResumableStage st x = (x1, b)" "sc_stage c \<in> {Implement, Test, Review}"
    and "x_log x2 = x_log x1"
  shows "ext (Suc 0) review_act x (run_stage e c x2)"
  using run_stage_ext [of review_act c x2 e] assms(2,3) claim_log [OF assms(1)] by (auto simp: ext_def)

lemma surgical_log: "surgical e stg x = (y, p) \<Longrightarrow> x_log y = x_log x"
  by (auto simp: surgical_def Let_def split: if_splits prod.splits)

lemma fix_call_ext: "stg \<in> {Implement, Test, Review} \<Longrightarrow> ext (Suc 0) review_act x (fix_call e i stg x)"
proof -
  assume stg: "stg \<in> {Implement, Test, Review}"
  obtain x1 p where s: "surgical e stg x = (x1, p)" by fastforce
  obtain x2 b where c: "claimFirstResumableStage (stage_name stg) x1 = (x2, b)" by fastforce
  let ?c = "(plain_call stg (x_handoff x2) x2 b)\<lparr>sc_iteration := Some i, sc_promptOverride := p,
             sc_suppressHandoff := (p \<noteq> None)\<rparr>"
  have "ext (Suc 0) review_act x1 (run_stage e ?c (x2\<lparr>x_first := b\<rparr>))"
    using stg by (intro ext_review_call [OF c]) (simp_all add: plain_call_def)
  then have "ext (Suc 0) review_act x (run_stage e ?c (x2\<lparr>x_first := b\<rparr>))"
    using surgical_log [OF s] by (simp add: ext_def)
  then show ?thesis by (simp add: fix_call_def s c Let_def)
qed

lemma quiet_log [simp]:
  "x_log (note_review stg x) = x_log x" "x_log (fail_loop_stage e stg p d x) = x_log x"
  "x_log (fix_files x) = x_log x" "x_log (merge_findings e fs x) = x_log x"
  "x_log (take_handoff x) = x_log x"
  by (simp_all add: note_review_def fail_loop_stage_def fix_files_def merge_findings_def take_handoff_def
      Let_def split: option.split)

lemma fix_validation_ext: "ext 0 review_act x (fix_validation e stg x)"
  by (auto simp: fix_validation_def validate_result_def Let_def ext_await split: option.split)

lemma fix_ralph_ext: "ext 0 review_act x (fix_ralph e stg x)"
  by (auto simp: fix_ralph_def Let_def ext_def await_def)

lemma fix_stage_ext:
  assumes "stg \<in> {Implement, Test, Review}"
  shows "ext (Suc 0) review_act x (fix_stage e i stg x)"
proof -
  have "ext (sum_list [Suc 0, 0, 0, 0, 0, 0, 0, 0, 0, 0]) review_act x (fix_stage e i stg x)"
    unfolding fix_stage_def
    by (rule ext_seq) (auto intro!: ext_same fix_call_ext [OF assms] fix_validation_ext fix_ralph_ext)
  then show ?thesis by simp
qed

lemma fix_iteration_ext: "ext (length (fix_stages e)) review_act x (fix_iteration e i x)"
proof -
  have "ext (sum_list (map (\<lambda>s. Suc 0) (fix_stages e))) review_act x (fix_iteration e i x)"
    unfolding fix_iteration_def
    by (rule ext_seq)
       (auto simp: list_all2_map1 list_all2_map2 fix_stages_def intro!: list.rel_refl_strong fix_stage_ext)
  then show ?thesis by (simp add: sum_list_triv)
qed

lemma review_fix_loop_ext: "ext (k * length (fix_stages e)) review_act x (review_fix_loop e k i x)"
proof (induction e k i x rule: review_fix_loop.induct)
  case (2 e k i x)
  have a: "ext (length (fix_stages e)) review_act x (fix_iteration e i x)" by (rule fix_iteration_ext)
  show ?case
  proof (cases "x_exit (fix_iteration e i x) \<noteq> None \<or> blocking_findings (x_handoff (fix_iteration e i x)) = []")
    case True
    then show ?thesis using a by (auto simp: Let_def intro: ext_mono)
  next
    case False
    then have "ext (k * length (fix_stages e)) review_act (fix_iteration e i x)
        (review_fix_loop e k (Suc i) (fix_iteration e i x))"
      using 2 by simp
    from ext_trans [OF a this, of "Suc k * length (fix_stages e)"]
    show ?thesis using False by (simp add: Let_def)
  qed
qed simp

lemma run_providers_ext: "run_providers e p x = (y, fs) \<Longrightarrow> ext 0 review_act x y"
  by (cases "claimFirstResumableStage ''review'' x")
     (auto simp: run_providers_def Let_def ext_def await_def dest: claim_log split: sum.splits)

lemma deep_implement_ext: "ext (Suc 0) review_act x (deep_implement e p fs x)"
proof -
  obtain x1 b where c: "claimFirstResumableStage (stage_name Implement) x = (x1, b)" by fastforce
  have "ext (sum_list [Suc 0, 0, 0, 0, 0, 0]) review_act x1
      (seq [run_stage e cl, count_result, check_budget e Implement, stage_done e Implement,
        fail_loop_stage e Implement m d, take_handoff] x1)"
    if "sc_stage cl = Implement" for cl m d
    using that by (intro ext_seq) (auto simp: ext_same run_stage_ext)
  then show ?thesis
    using claim_log [OF c] unfolding deep_implement_def c
    by (simp add: Let_def plain_call_def ext_def del: seq.simps)
qed

lemma deep_verify_ext: "ext (Suc 0) review_act x (deep_verify e p x)"
proof -
  obtain x1 b where c: "claimFirstResumableStage (stage_name Review) x = (x1, b)" by fastforce
  have "ext (sum_list [Suc 0, 0, 0, 0, 0, 0, 0]) review_act x1
      (seq [run_stage e cl, note_review Review, count_result, check_budget e Review, stage_done e Review,
        fail_loop_stage e Review m d, take_handoff] x1)"
    if "sc_stage cl = Review" for cl m d
    using that by (intro ext_seq) (auto simp: ext_same run_stage_ext)
  then show ?thesis
    using claim_log [OF c] unfolding deep_verify_def c
    by (simp add: plain_call_def ext_def del: seq.simps)
qed

lemma deep_round_ext:
  "ext 2 review_act x (seq [deep_implement e p fs, deep_verify e p, merge_findings e fs] x)"
proof -
  have "ext (sum_list [Suc 0, Suc 0, 0]) review_act x
      (seq [deep_implement e p fs, deep_verify e p, merge_findings e fs] x)"
    by (rule ext_seq) (auto intro!: ext_same deep_implement_ext deep_verify_ext)
  then show ?thesis by (simp add: numeral_2_eq_2 del: seq.simps)
qed

lemma deep_loop_ext: "ext (2 * k) review_act x (deep_loop e k p prints count x)"
proof (induction e k p prints count x rule: deep_loop.induct)
  case (2 e k pass prints count x)
  show ?case
  proof (cases "x_handoff x = None")
    case True
    then show ?thesis by simp
  next
    case h: False
    obtain x1 fs where p: "run_providers e pass x = (x1, fs)" by fastforce
    have a: "ext 0 review_act x x1" using p by (rule run_providers_ext)
    show ?thesis
    proof (cases "x_exit x1 \<noteq> None \<or> cc_shouldStop (checkDeepReviewConvergence prints fs count)")
      case True
      then show ?thesis using a h p by (auto intro: ext_mono)
    next
      case go: False
      let ?x2 = "seq [deep_implement e pass fs, deep_verify e pass, merge_findings e fs] x1"
      have b: "ext 2 review_act x ?x2" using a deep_round_ext by (rule ext_trans) simp
      show ?thesis
      proof (cases "x_exit ?x2 = None")
        case False
        then show ?thesis using b h p go by (auto simp: Let_def simp del: seq.simps intro: ext_mono)
      next
        case True
        then have "ext (2 * k) review_act ?x2 (deep_loop e k (Suc pass)
            (setOf (map buildFindingFingerprint fs)) (Some (length fs)) ?x2)"
          using 2 [OF h p [symmetric] refl _ _ refl] go by (simp del: seq.simps)
        from ext_trans [OF b this, of "2 * Suc k"]
        show ?thesis using h p go True by (simp add: Let_def del: seq.simps)
      qed
    qed
  qed
qed simp

text \<open>
  Both review loops end. The review-fix loop makes at most one call for each of its stages in each
  of its iterations, the deep review at most two for each pass below its limit, and neither does
  anything else to the outside world than to read, review and validate.
\<close>

theorem review_loops_bounded:
  "(\<exists>new. x_log (review_fix e x) = x_log x @ new \<and> list_all review_act new \<and>
      length (filter is_call new) \<le> reviewFixIterations e * length (fix_stages e)) \<and>
   (\<exists>new. x_log (deep_review e x) = x_log x @ new \<and> list_all review_act new \<and>
      length (filter is_call new) \<le> 2 * pass_limit e x)"
  using review_fix_loop_ext [of "reviewFixIterations e" e x 1]
    deep_loop_ext [of "pass_limit e x" x e 1 "[]" None]
  by (auto simp: review_fix_def deep_review_def ext_def)

section \<open>What the loops do to the findings\<close>

text \<open>The last stage of a fix iteration decides: its handoff is the one the loop looks at.\<close>

lemma seq_snoc_none:
  assumes "x_exit (seq (fs @ [f]) x) = None"
  shows "x_exit (seq fs x) = None \<and> seq (fs @ [f]) x = f (seq fs x)"
proof -
  have "x_exit (seq fs x) = None"
    using assms seq_none [of "[f]" "seq fs x"] by (simp add: seq_append)
  then show ?thesis by (simp add: seq_append step_def)
qed

lemma fix_tail_handoff:
  "x_handoff (fix_files x) = x_handoff x" "x_result (fix_files x) = x_result x"
  "x_handoff (fix_ralph e stg x) = x_handoff x" "x_result (fix_ralph e stg x) = x_result x"
  "x_handoff (take_handoff x) = re_handoff (x_result x)" "x_result (take_handoff x) = x_result x"
  by (simp_all add: fix_files_def fix_ralph_def take_handoff_def await_def Let_def split: option.split)

lemma fix_stage_handoff:
  assumes "x_exit (fix_stage e i stg x) = None"
  shows "x_handoff (fix_stage e i stg x) = re_handoff (x_result (fix_stage e i stg x))"
proof -
  let ?pre = "[fix_call e i stg, note_review stg, count_result, check_budget e stg, stage_done e stg,
    fail_loop_stage e stg (''review-fix iteration '' @ show_nat i @ '': '') ''Stage failed'',
    fix_validation e stg]"
  have split: "fix_stage e i stg x = seq (((?pre @ [take_handoff]) @ [fix_ralph e stg]) @ [fix_files]) x"
    by (simp only: fix_stage_def append_Cons append_Nil)
  have 1: "x_exit (seq ((?pre @ [take_handoff]) @ [fix_ralph e stg]) x) = None"
    and 2: "fix_stage e i stg x = fix_files (seq ((?pre @ [take_handoff]) @ [fix_ralph e stg]) x)"
    using seq_snoc_none [of "(?pre @ [take_handoff]) @ [fix_ralph e stg]" fix_files x] assms
    unfolding split by auto
  have 3: "x_exit (seq (?pre @ [take_handoff]) x) = None"
    and 4: "seq ((?pre @ [take_handoff]) @ [fix_ralph e stg]) x = fix_ralph e stg (seq (?pre @ [take_handoff]) x)"
    using seq_snoc_none [OF 1] by auto
  have 5: "seq (?pre @ [take_handoff]) x = take_handoff (seq ?pre x)"
    using seq_snoc_none [OF 3] by blast
  show ?thesis unfolding 2 4 5 by (simp only: fix_tail_handoff)
qed

lemma fix_iteration_handoff:
  assumes "fix_stages e \<noteq> []" "x_exit (fix_iteration e i x) = None"
  shows "x_handoff (fix_iteration e i x) = re_handoff (x_result (fix_iteration e i x))"
proof -
  obtain fs f where f: "fix_stages e = fs @ [f]" using assms(1) by (metis rev_exhaust)
  have "fix_iteration e i x = fix_stage e i f (seq (map (fix_stage e i) fs) x)"
    using seq_snoc_none [of "map (fix_stage e i) fs" "fix_stage e i f" x] assms(2)
    by (simp add: fix_iteration_def f)
  then show ?thesis using fix_stage_handoff assms(2) by metis
qed

text \<open>
  Findings that are not reported count as resolved. If an iteration of the review-fix loop goes
  through and its last stage produced no handoff (its agent was cancelled by the operator, say) or a
  handoff without the list of findings, the loop ends as if every blocking finding had been resolved:
  no blocking finding is left for the draft decision.
\<close>

theorem unreported_findings_resolve:
  assumes "fix_stages e \<noteq> []" "x_exit (fix_iteration e i x) = None"
    and "re_handoff (x_result (fix_iteration e i x)) = None \<or>
      (\<exists>h. re_handoff (x_result (fix_iteration e i x)) = Some h \<and> ha_reviewFindings h = None)"
  shows "review_fix_loop e (Suc k) i x = fix_iteration e i x \<and>
    blocking_findings (x_handoff (fix_iteration e i x)) = []"
  using assms fix_iteration_handoff [OF assms(1,2)]
  by (auto simp: Let_def blocking_findings_def findings_of_def)

theorem unreported_findings_resolve_witness:
  "\<exists>e x. blocking_findings (x_handoff x) \<noteq> [] \<and>
     (\<exists>c r. x_log (review_fix_loop e 3 1 x) = [Executed c r] \<and> re_status r = StageCancelled) \<and>
     blocking_findings (x_handoff (review_fix_loop e 3 1 x)) = []"
proof -
  let ?e = "demo_pipeline (demo_cfg\<lparr>pc_stages := [Review]\<rparr>) (\<lambda>n c. Inr (demo_result StageCancelled None 1))"
  let ?x = "demo_px\<lparr>x_handoff := Some (demo_handoff (Some [demo_finding]))\<rparr>"
  have fs: "fix_stages ?e = [Review]"
    by (simp add: fix_stages_def demo_pipeline_def)
  have run: "x_exit (fix_iteration ?e 1 ?x) = None" "re_handoff (x_result (fix_iteration ?e 1 ?x)) = None"
    "\<exists>c. x_log (fix_iteration ?e 1 ?x) = [Executed c (demo_result StageCancelled None 1)]"
    unfolding fix_iteration_def fs
    by (simp_all add: fix_stage_def fix_call_def surgical_def run_stage_def step_def
        claimFirstResumableStage_def plain_call_def applyCollisionRecovery_def await_def note_review_def
        count_result_def add_tokens_def on_run_def on_sys_def check_budget_def checkTokenBudget_def
        stage_done_def fail_loop_stage_def fix_validation_def take_handoff_def fix_ralph_def fix_files_def
        notify_def demo_exec_defs demo_cfg_def LOOP_DEFAULTS_def now_def)
  have "review_fix_loop ?e (Suc 2) 1 ?x = fix_iteration ?e 1 ?x \<and>
      blocking_findings (x_handoff (fix_iteration ?e 1 ?x)) = []"
    by (rule unreported_findings_resolve) (use fs run in simp_all)
  then have "review_fix_loop ?e 3 1 ?x = fix_iteration ?e 1 ?x"
    "blocking_findings (x_handoff (fix_iteration ?e 1 ?x)) = []"
    by (simp_all only: numeral_3_eq_3 numeral_2_eq_2)
  moreover have "blocking_findings (x_handoff ?x) \<noteq> []"
    by (simp add: blocking_findings_def findings_of_def blocking_def demo_handoff_def demo_finding_def)
  moreover have "re_status (demo_result StageCancelled None 1) = StageCancelled"
    by (simp add: demo_result_def)
  ultimately show ?thesis using run(3) by metis
qed

end
