(* ===== verification/Delivery.thy ===== *)
theory Delivery
  imports ReviewLoops
begin

text \<open>
  The delivery of a run, from \<open>executePipeline\<close> in \<open>packages/core/src/pipeline/runner.ts\<close>: the draft
  decision with its four gates, the section under the branch lock in the push queue (auto-commit,
  rebase, push, pull request, comments, auto-merge), the completion, and the \<open>catch\<close> and \<open>finally\<close> of
  the function. The body of the pull request and the best-effort summary comments behind the
  completion are not modelled; neither is the triage-quality audit event.
\<close>

section \<open>The draft decision\<close>

definition add_blocking :: "finding list \<Rightarrow> px \<Rightarrow> px" where
  "add_blocking fs x = x\<lparr>x_shouldDraft := True, x_unresolved := x_unresolved x @ fs\<rparr>"

definition gate_finding :: "string \<Rightarrow> string \<Rightarrow> string \<Rightarrow> string \<Rightarrow> finding" where
  "gate_finding file category description fix =
     \<lparr>fi_severity = Blocking, fi_file = file, fi_line = 0, fi_category = category,
      fi_description = description, fi_fix = fix\<rparr>"

definition draft_base :: "px \<Rightarrow> px" where
  "draft_base x =
     (let unresolved = blocking_findings (x_handoff x)
      in x\<lparr>x_unresolved := unresolved,
           x_shouldDraft := (\<not> x_ralphSatisfied x \<or> unresolved \<noteq> [])\<rparr>)"

definition policy_finding :: "policy \<Rightarrow> violation \<Rightarrow> finding" where
  "policy_finding p v =
     gate_finding (case vi_path v of None \<Rightarrow> ''(policy)'' | Some f \<Rightarrow> f)
       (case vi_gate v of PathGate \<Rightarrow> ''policy-path'' | CostGate \<Rightarrow> ''policy-cost'')
       (vi_detail v)
       (case vi_gate v of
          PathGate \<Rightarrow> ''Remove changes to this path, or add the `'' @ po_overrideLabel p @ ''` label to bypass.''
        | CostGate \<Rightarrow> ''Reduce token usage, or add the `'' @ po_overrideLabel p @ ''` label to bypass.'')"

definition unevaluated_finding :: finding where
  "unevaluated_finding = gate_finding ''(policy)'' ''policy-error''
     (''Path policy blocklist could not be evaluated (git diff returned no files). '' @
      ''Review the diff manually before merging.'')
     ''Verify the diff manually and merge once path policy is confirmed satisfied.''"

definition policy_gate :: "pipeline_env \<Rightarrow> px \<Rightarrow> px" where
  "policy_gate e x =
     (case pc_policy (en_config e) of
        None \<Rightarrow> x
      | Some p \<Rightarrow>
          if \<not> en_licensed e ''org-policy'' then x
          else (let changed = en_changedFiles e (now x);
                    x1 = await e PolicyEvaluated x;
                    x2 = (if changed = [] \<and> po_pathBlocklist p \<noteq> []
                          then add_blocking [unevaluated_finding] x1 else x1);
                    (g, events) = evaluatePolicyGates
                      \<lparr>gi_runId = pr_id (x_run x2), gi_issueId = si_id (en_issue e),
                       gi_labels = Some (si_labels (en_issue e)), gi_policy = Some p,
                       gi_changedFiles = changed, gi_tokensUsed = used_tokens (x_run x2),
                       gi_stage = ''all-stages''\<rparr>;
                    x3 = on_sys (\<lambda>s. foldl (\<lambda>s ev. log_audit ev s) s events) x2
                in if gr_shouldDraft g
                   then add_blocking (map (policy_finding p) (gr_violations g)) x3 else x3))"

definition scratch_finding :: "string \<Rightarrow> finding" where
  "scratch_finding f =
     gate_finding f ''scratch-files''
       (''Scratch artifact at `'' @ f @ ''` matched the urateam denylist (agent self-documentation / '' @
        ''*.bak / *.tmp / *.log / root-only commit-*.sh|run-*.sh / non-exempt repo-root *.md).'')
       (''Delete the file from the worktree (`git rm`), re-run, or set '' @
        ''`URATEAM_DISABLE_SCRATCH_GUARD=true` if the match is a false positive.'')"

definition scratch_gate :: "pipeline_env \<Rightarrow> px \<Rightarrow> px" where
  "scratch_gate e x =
     (let (diffOut, statusOut) = en_scratch e (now x); x1 = await e ScratchChecked x in
      case findScratchFiles (en_scratchDisabled e) diffOut statusOut of
        None \<Rightarrow> x1
      | Some files \<Rightarrow>
          if files = [] then x1
          else on_sys (log_audit (ScratchFilesBlocked (en_runId e) (si_id (en_issue e)) files))
                 (add_blocking (map scratch_finding files) x1))"

definition typecheck_finding :: "typecheck_result \<Rightarrow> finding" where
  "typecheck_finding tc =
     gate_finding ''(workspace)'' ''typecheck''
       (''Typecheck failed with '' @ show_nat (tc_errorCount tc) @ '' error'' @
        (if tc_errorCount tc = 1 then [] else ''s'') @ ''. First: '' @
        (case tc_firstMessages tc of [] \<Rightarrow> ''(no parseable first message)'' | m # ms \<Rightarrow> m) @
        (if 1 < length (tc_firstMessages tc)
         then '' (+'' @ show_nat (length (tc_firstMessages tc) - 1) @ '' more)'' else []))
       (''Fix the type errors. Full output (up to 5 first errors) is in the audit log '' @
        ''(`pipeline.typecheck_failed` event) and the run's structured logs. Set '' @
        ''`URATEAM_DISABLE_TYPECHECK_GATE=true` if the gate is firing on a false positive.'')"

definition typecheck_gate :: "pipeline_env \<Rightarrow> px \<Rightarrow> px" where
  "typecheck_gate e x =
     (let tc = runTypecheck (en_typecheckDisabled e) (en_typecheck e (now x));
          x1 = await e TypecheckRan x
      in if tc_skipped tc \<or> tc_passed tc \<or> tc_errorCount tc = 0 then x1
         else on_sys (log_audit (TypecheckFailed (en_runId e) (si_id (en_issue e)) (tc_errorCount tc)
                (tc_firstMessages tc))) (add_blocking [typecheck_finding tc] x1))"

text \<open>
  What \<open>checkSpecVsImpl\<close> found (file, prefix, symbol), \<open>None\<close> when it was skipped, \<open>Inl\<close> when it threw.
\<close>

definition spec_finding :: "string \<times> string \<times> string \<Rightarrow> finding" where
  "spec_finding f =
     (case f of (file, prefix, symbol) \<Rightarrow>
        gate_finding file ''spec-vs-impl''
          (''JSDoc references `'' @ prefix @ ''.'' @ symbol @ ''` but `'' @ symbol @
           ''` is not defined anywhere in the worktree's TS/JS source.'')
          (''Either add the symbol to the relevant schema/interface, or update the docblock to '' @
           ''reference the actual field name. Set `URATEAM_DISABLE_SPEC_VS_IMPL_GATE=true` to '' @
           ''bypass (heuristic -- false positives possible).''))"

definition spec_gate :: "pipeline_env \<Rightarrow> px \<Rightarrow> px" where
  "spec_gate e x =
     (let sv = en_specGate e (now x); x1 = await e SpecChecked x in
      case sv of
        Inl err \<Rightarrow> x1
      | Inr None \<Rightarrow> x1
      | Inr (Some fs) \<Rightarrow>
          if fs = [] then x1
          else on_sys (log_audit (SpecVsImplFailed (en_runId e) (si_id (en_issue e)) (length fs)))
                 (add_blocking (map spec_finding fs) x1))"

definition draft_decision :: "pipeline_env \<Rightarrow> px \<Rightarrow> px" where
  "draft_decision e = seq [draft_base, policy_gate e, scratch_gate e, typecheck_gate e, spec_gate e]"

section \<open>The push\<close>

definition push_message :: string where
  "push_message = ''Agent did not commit its work before the push stage '' @
     ''-- auto-commit triggered (failOnAutoCommit is enabled)''"

definition push_auto_commit :: "pipeline_env \<Rightarrow> px \<Rightarrow> px" where
  "push_auto_commit e x =
     (case en_autoCommit e (now x) of
        Inl msg \<Rightarrow> throw msg (await e (AutoCommitted False) x)
      | Inr did \<Rightarrow>
          (let x1 = await e (AutoCommitted did) x in
           if did
           then (let x2 = on_run (\<lambda>r. r\<lparr>pr_autoCommitted := Some True\<rparr>) x1 in
             if pc_failOnAutoCommit (en_config e) = Some True
             then throw push_message
                    (fail_with e ''push'' push_message True (x_lastStageIndex x2) x2)
             else x2)
           else x1))"

definition resolve_conflict :: "pipeline_env \<Rightarrow> px \<Rightarrow> px" where
  "resolve_conflict e x =
     (let (x1, first) = claimFirstResumableStage (stage_name Implement) (await e RebaseAborted x);
          c = (plain_call Implement (x_handoff x1) x1 first)
                \<lparr>sc_context := Some (MergeConflictContext (rp_defaultBranch (en_repo e)))\<rparr>
      in seq [run_stage e c, count_result,
              \<lambda>y. y\<lparr>x_rebaseConflict := (re_status (x_result y) \<noteq> StageCompleted)\<rparr>] x1)"

definition rebase_phase :: "pipeline_env \<Rightarrow> px \<Rightarrow> px" where
  "rebase_phase e x =
     (let r = en_rebase e (now x); x1 = (await e Rebased x)\<lparr>x_rebaseConflict := False\<rparr> in
      if \<not> rb_success r \<and> rb_hasConflicts r then resolve_conflict e x1 else x1)"

definition push_phase :: "pipeline_env \<Rightarrow> px \<Rightarrow> px" where
  "push_phase e x =
     (let strategy = choosePushStrategy (en_branch e) (x_rebaseConflict x);
          outcome = en_push e (now x) strategy; x1 = await e (Pushed strategy) x
      in case outcome of Some msg \<Rightarrow> throw msg x1 | None \<Rightarrow> x1)"

section \<open>The pull request\<close>

definition forge_of :: "pipeline_env \<Rightarrow> forge option" where
  "forge_of e =
     (if rp_provider (en_repo e) = Some GitLab
      then (if en_gitlab e then Some GitLabApi else None)
      else if rp_provider (en_repo e) = Some Bitbucket
      then (if en_bitbucket e then Some BitbucketApi else None)
      else if en_github e then Some GitHubApp else Some GhCli)"

definition reviewer_request :: "pipeline_env \<Rightarrow> reviewers option" where
  "reviewer_request e =
     (if en_licensed e ''org-policy'' then buildReviewerRequest (pc_policy (en_config e)) else None)"

text \<open>
  What each forge is asked for: the draft flag and the reviewers. The GitLab call carries no draft
  flag and the Bitbucket call no reviewers. A failed request leaves the URL empty.
\<close>

definition pr_action :: "pipeline_env \<Rightarrow> px \<Rightarrow> forge \<Rightarrow> act" where
  "pr_action e x forge =
     (case forge of
        GitLabApi \<Rightarrow> PrRequested GitLabApi False (reviewer_request e)
      | BitbucketApi \<Rightarrow> PrRequested BitbucketApi (x_shouldDraft x) None
      | GitHubApp \<Rightarrow> PrRequested GitHubApp (x_shouldDraft x) (reviewer_request e)
      | GhCli \<Rightarrow> PrRequested GhCli (x_shouldDraft x) (reviewer_request e))"

definition create_pr :: "pipeline_env \<Rightarrow> px \<Rightarrow> px" where
  "create_pr e x =
     (case forge_of e of
        None \<Rightarrow> x
      | Some forge \<Rightarrow>
          (let outcome = en_createPr e (now x); x1 = await e (pr_action e x forge) x in
           case outcome of
             Inl err \<Rightarrow> x1
           | Inr url \<Rightarrow>
               if forge = GhCli \<and> url = [] then x1
               else on_run (\<lambda>r. r\<lparr>pr_prUrl := Some url\<rparr>) (x1\<lparr>x_prUrl := url\<rparr>)))"

definition audit_reviewers :: "pipeline_env \<Rightarrow> px \<Rightarrow> px" where
  "audit_reviewers e x =
     (case reviewer_request e of
        None \<Rightarrow> x
      | Some r \<Rightarrow>
          if x_prUrl x = [] then x
          else on_sys (log_audit (PolicyReviewersRequested (pr_id (x_run x)) (x_prUrl x)
                 (rv_users r) (rv_teams r))) x)"

text \<open>The number behind a marker in a URL, \<open>/\/pull\/(\d+)/\<close> and the like.\<close>

fun url_number :: "string \<Rightarrow> string \<Rightarrow> nat option" where
  "url_number marker [] = None"
| "url_number marker (c # cs) =
     (let ds = takeWhile is_digit (drop (length marker) (c # cs)) in
      if startsWith (c # cs) marker \<and> ds \<noteq> [] then Some (parse_nat ds) else url_number marker cs)"

definition post_fanout :: "pipeline_env \<Rightarrow> px \<Rightarrow> px" where
  "post_fanout e x =
     (if x_prUrl x \<noteq> [] \<and> x_fanout x \<noteq> [] \<and> forge_of e = Some GitHubApp \<and>
         url_number ''/pull/'' (x_prUrl x) \<noteq> None
      then await e FanoutPosted x else x)"

definition flag_conflict :: "pipeline_env \<Rightarrow> px \<Rightarrow> px" where
  "flag_conflict e x =
     (if x_rebaseConflict x \<and> x_prUrl x \<noteq> []
      then on_sys (notify (OnHumanReviewNeeded (en_runId e) (x_prUrl x)
             ''Merge conflicts could not be automatically resolved -- please resolve manually'')) x
      else x)"

definition draft_comment :: "pipeline_env \<Rightarrow> px \<Rightarrow> px" where
  "draft_comment e x =
     (if x_shouldDraft x \<and> x_prUrl x \<noteq> []
      then (let summary = (if x_ralphEvaluationFailed x then ''RALPH evaluation failed''
                  else show_nat (length (x_ralphGaps x)) @ '' unmet acceptance criteria'')
            in on_sys (notify (OnHumanReviewNeeded (en_runId e) (x_prUrl x)
                 (''Draft PR created -- '' @ summary @ '', '' @
                  show_nat (length (x_unresolved x)) @ '' blocking findings'')))
               (await e DraftCommented x))
      else x)"

section \<open>Auto-merge\<close>

text \<open>\<open>/github\.com[:/]([^/]+)\/([^/.]+)/\<close> on the repository's URL.\<close>

fun owner_repo :: "string \<Rightarrow> (string \<times> string) option" where
  "owner_repo [] = None"
| "owner_repo (c # cs) =
     (let rest = drop 11 (c # cs);
          owner = takeWhile (\<lambda>d. d \<noteq> CHR ''/'') rest;
          repo = takeWhile (\<lambda>d. d \<noteq> CHR ''/'' \<and> d \<noteq> CHR ''.'') (drop (length owner + 1) rest)
      in if startsWith (c # cs) ''github.com'' \<and>
            (take 1 (drop 10 (c # cs)) = '':'' \<or> take 1 (drop 10 (c # cs)) = ''/'') \<and>
            owner \<noteq> [] \<and> length owner < length rest \<and> repo \<noteq> []
         then Some (owner, repo) else owner_repo cs)"

definition or_none :: "string list \<Rightarrow> string" where
  "or_none xs = (let s = joinWith '','' xs in if s = [] then ''none'' else s)"

text \<open>
  The verdict: \<open>None\<close> to merge, otherwise the reason not to. The size of the diff is \<open>None\<close> when git
  failed, which counts as infinite.
\<close>

definition max_lines :: "pipeline_env \<Rightarrow> nat" where
  "max_lines e = (case pc_autoMergeMaxLines (en_config e) of None \<Rightarrow> 200 | Some n \<Rightarrow> n)"

definition too_large :: "pipeline_env \<Rightarrow> nat option \<Rightarrow> bool" where
  "too_large e lines = (case lines of None \<Rightarrow> True | Some n \<Rightarrow> max_lines e < n)"

definition exclude_patterns :: "pipeline_env \<Rightarrow> string list" where
  "exclude_patterns e =
     (case pc_autoMergeExcludePatterns (en_config e) of None \<Rightarrow> [] | Some ps \<Rightarrow> ps)"

definition merge_verdict ::
  "pipeline_env \<Rightarrow> nat option \<Rightarrow> finding list \<Rightarrow> string option \<Rightarrow> string option" where
  "merge_verdict e lines blockers excluded =
     (if too_large e lines
      then Some (''Diff too large ('' @ (case lines of None \<Rightarrow> ''Infinity'' | Some n \<Rightarrow> show_nat n) @
        '' lines, max '' @ show_nat (max_lines e) @ '')'')
      else if blockers \<noteq> [] then Some ''Blocking review findings detected''
      else (case excluded of
              Some f \<Rightarrow> Some (''File matches exclusion pattern: '' @ f)
            | None \<Rightarrow> None))"

text \<open>
  The reads of the verdict: the size of the diff, and the changed files when there are patterns.
\<close>

definition read_diff :: "pipeline_env \<Rightarrow> px \<Rightarrow> px \<times> string option" where
  "read_diff e x =
     (let lines = en_diffLines e (now x);
          x1 = await e DiffLinesRead x;
          (x2, excluded) = (if exclude_patterns e = [] then (x1, None)
            else (await e FilesRead x1,
                  find (\<lambda>f. matchesAnyPattern f (exclude_patterns e)) (en_changedFiles e (now x1))))
      in (x2, merge_verdict e lines (blocking_findings (x_handoff x)) excluded))"

text \<open>
  The mandatory reviewers: checked with a GitHub App only, and only when the URLs can be parsed; an
  error of the check forbids the merge.
\<close>

definition reviewer_gate :: "pipeline_env \<Rightarrow> px \<Rightarrow> px \<times> string option" where
  "reviewer_gate e x =
     (case (reviewer_request e, en_github e, owner_repo (rp_url (en_repo e)),
            url_number ''/pull/'' (x_prUrl x)) of
        (Some required, True, Some (owner, repo), Some n) \<Rightarrow>
          if n = 0 then (x, None)
          else (let i = now x; x1 = await e ReviewsRead x in
            case verifyApprovalsReceived (en_reviews e i) (en_teamMembers e i) (clock (x_sys x)) owner
                   required (x_teamCache x) of
              Inl err \<Rightarrow>
                (x1, Some ''mandatory reviewers check failed -- requires manual verification'')
            | Inr (v, cache) \<Rightarrow>
                (x1\<lparr>x_teamCache := cache\<rparr>,
                 if ve_satisfied v then None
                 else Some (''mandatory reviewers pending: users='' @ or_none (ve_missingUsers v) @
                   '' teams='' @ or_none (ve_missingTeams v))))
      | _ \<Rightarrow> (x, None))"

definition alert :: "pipeline_env \<Rightarrow> string \<Rightarrow> px \<Rightarrow> px" where
  "alert e msg x = on_sys (notify (OnHumanReviewNeeded (en_runId e) (x_prUrl x) msg)) x"

definition set_reason :: "string \<Rightarrow> px \<Rightarrow> px" where
  "set_reason r = on_run (\<lambda>run. run\<lparr>pr_autoMergeReason := Some r\<rparr>)"

text \<open>The merge itself, with the reasons and alerts of its three forges.\<close>

record merge_texts =
  mt_done :: string
  mt_failed :: string
  mt_noNumber :: string
  mt_thrown :: string
  mt_alert :: string
  mt_noNumberAlert :: string

definition merge_with :: "pipeline_env \<Rightarrow> forge \<Rightarrow> string \<Rightarrow> merge_texts \<Rightarrow> px \<Rightarrow> px" where
  "merge_with e forge marker texts x =
     (if marker \<noteq> [] \<and> url_number marker (x_prUrl x) = None
      then alert e (mt_noNumberAlert texts) (set_reason (mt_noNumber texts) x)
      else (let outcome = en_merge e (now x); x1 = await e (MergeRequested forge) x in
        case outcome of
          Inl err \<Rightarrow> alert e (mt_alert texts) (set_reason (mt_thrown texts) x1)
        | Inr True \<Rightarrow> (set_reason (mt_done texts) x1)\<lparr>x_autoMerged := True\<rparr>
        | Inr False \<Rightarrow> alert e (mt_alert texts) (set_reason (mt_failed texts) x1)))"

definition gitlab_texts :: merge_texts where
  "gitlab_texts =
     \<lparr>mt_done = ''PR auto-merged via GitLab merge_when_pipeline_succeeds'',
      mt_failed = ''GitLab merge_when_pipeline_succeeds API call failed'',
      mt_noNumber = ''Could not parse MR IID from URL'',
      mt_thrown = ''GitLab auto-merge threw an error'',
      mt_alert = ''GitLab auto-merge failed -- please merge manually'',
      mt_noNumberAlert = ''GitLab auto-merge failed -- could not determine MR ID''\<rparr>"

definition bitbucket_texts :: merge_texts where
  "bitbucket_texts =
     \<lparr>mt_done = ''PR auto-merged via Bitbucket API'',
      mt_failed = ''Bitbucket merge API call failed'',
      mt_noNumber = ''Could not parse PR ID from Bitbucket URL'',
      mt_thrown = ''Bitbucket auto-merge threw an error'',
      mt_alert = ''Bitbucket auto-merge failed -- please merge manually'',
      mt_noNumberAlert = ''Bitbucket auto-merge failed -- could not determine PR ID''\<rparr>"

text \<open>The command of the last forge never throws and needs no number.\<close>

definition cli_texts :: merge_texts where
  "cli_texts =
     \<lparr>mt_done = ''PR auto-merged successfully'', mt_failed = ''Auto-merge command failed'',
      mt_noNumber = [], mt_thrown = ''Auto-merge command failed'',
      mt_alert = ''Auto-merge failed -- please merge manually'', mt_noNumberAlert = []\<rparr>"

definition do_merge :: "pipeline_env \<Rightarrow> px \<Rightarrow> px" where
  "do_merge e x =
     (if rp_provider (en_repo e) = Some GitLab \<and> en_gitlab e
      then merge_with e GitLabApi ''/merge_requests/'' gitlab_texts x
      else if rp_provider (en_repo e) = Some Bitbucket \<and> en_bitbucket e
      then merge_with e BitbucketApi ''/pull-requests/'' bitbucket_texts x
      else merge_with e GhCli [] cli_texts x)"

definition auto_merge :: "pipeline_env \<Rightarrow> px \<Rightarrow> px" where
  "auto_merge e x =
     (if pc_autoMerge (en_config e) = Some True \<and> x_prUrl x \<noteq> [] \<and> \<not> x_rebaseConflict x \<and>
         \<not> x_shouldDraft x
      then (let (x1, verdict) = read_diff e x;
                (x2, verdict2) = (case verdict of Some r \<Rightarrow> (x1, Some r) | None \<Rightarrow> reviewer_gate e x1);
                x3 = (case verdict2 of
                        Some r \<Rightarrow> alert e r (set_reason r x2)
                      | None \<Rightarrow> do_merge e x2)
            in on_run (\<lambda>r. r\<lparr>pr_autoMerged := Some (x_autoMerged x3)\<rparr>) x3)
      else x)"

section \<open>The section under the lock\<close>

definition push_section :: "pipeline_env \<Rightarrow> px \<Rightarrow> px" where
  "push_section e =
     seq [push_auto_commit e, rebase_phase e, push_phase e, create_pr e, audit_reviewers e,
          post_fanout e, flag_conflict e, draft_comment e, auto_merge e]"

text \<open>
  \<open>withBranchLock\<close> around the section: \<open>en_lock\<close> says how the acquisition failed (a timeout, say),
  \<open>en_unlock\<close> how the release failed, which replaces the outcome of the section.
\<close>

definition under_lock :: "pipeline_env \<Rightarrow> (px \<Rightarrow> px) \<Rightarrow> px \<Rightarrow> px" where
  "under_lock e body x =
     (case en_lock e (now x) of
        Some msg \<Rightarrow> throw msg (await e LockRefused x)
      | None \<Rightarrow>
          (let x1 = body (await e LockTaken x) in
           case en_unlock e (now x1) of Some err \<Rightarrow> throw err x1 | None \<Rightarrow> x1))"

section \<open>Completion and clean-up\<close>

definition complete :: "pipeline_env \<Rightarrow> px \<Rightarrow> px" where
  "complete e x =
     (let run = x_run x;
          x1 = on_sys (\<lambda>s. cancelRunningStageRuns (en_runId e) (update_run (en_runId e)
                 (\<lambda>r. r\<lparr>r_status := Completed, r_completedAt := Some (clock s),
                   r_totalInputTokens := pr_totalInputTokens run,
                   r_totalOutputTokens := pr_totalOutputTokens run,
                   r_prUrl := (if x_prUrl x = [] then None else Some (x_prUrl x)),
                   r_autoMerged := pr_autoMerged run, r_autoMergeReason := pr_autoMergeReason run,
                   r_autoCommitted := pr_autoCommitted run\<rparr>) s)) x;
          x2 = on_run (\<lambda>r. r\<lparr>pr_status := Completed\<rparr>) x1
      in on_sys (notify (OnPipelineComplete (en_runId e) (x_prUrl x))) x2)"

text \<open>The \<open>catch\<close> block.\<close>

definition on_error :: "pipeline_env \<Rightarrow> px \<Rightarrow> px" where
  "on_error e x =
     (case x_exit x of
        Some (Threw msg) \<Rightarrow>
          if pr_status (x_run x) \<noteq> Failed \<and> pr_status (x_run x) \<noteq> Retriable
          then fail_with e ''unknown'' msg True (x_lastStageIndex x) x else x
      | _ \<Rightarrow> x)"

text \<open>The \<open>finally\<close> block; errors of the clean-up are ignored.\<close>

definition clean_up :: "pipeline_env \<Rightarrow> px \<Rightarrow> px" where
  "clean_up e x =
     (let x1 = on_sys (\<lambda>s. remove_work (en_runId e)
                 (s\<lparr>budgetAlerted := removeAll (en_runId e) (budgetAlerted s)\<rparr>)) x;
          x2 = (if x_devcontainer x1 then await e DevcontainerDown x1 else x1)
      in if x_worktree x2 \<noteq> None \<and>
            (pr_status (x_run x2) = Completed \<or> pr_status (x_run x2) = Failed)
         then await e WorktreeDeleted x2 else x2)"

end
