(* ===== verification/Pipeline.thy ===== *)
theory Pipeline
  imports Delivery
begin

text \<open>
  \<open>executePipeline\<close> of \<open>packages/core/src/pipeline/runner.ts\<close> as a whole: the two ways to begin, the
  setup of a fresh run, and the composition of the phases with the \<open>catch\<close> and \<open>finally\<close> blocks.
\<close>

section \<open>Beginning\<close>

text \<open>
  A fresh run with the session id minted by \<open>start\<close>, or a resumed one with what \<open>resume\<close> read back.
\<close>

datatype beginning =
    Fresh "string option"
  | Resume int string "handoff option" "string option"

definition announce_run :: "pipeline_env \<Rightarrow> string \<Rightarrow> px \<Rightarrow> px" where
  "announce_run e stg x =
     on_sys (\<lambda>s. s\<lparr>work := upsertActiveWork (clock s) (en_runId e) (pr_issueId (x_run x)) stg None
       (work s)\<rparr>) x"

definition mark_running :: "pipeline_env \<Rightarrow> px \<Rightarrow> px" where
  "mark_running e x =
     on_run (\<lambda>r. r\<lparr>pr_status := Running\<rparr>)
       (on_sys (update_run (en_runId e) (\<lambda>r. r\<lparr>r_status := Running\<rparr>)) x)"

text \<open>\<open>config.stages[i + 1] ?? "unknown"\<close>.\<close>

definition stage_at :: "pipeline_env \<Rightarrow> int \<Rightarrow> string" where
  "stage_at e i =
     (if 0 \<le> i \<and> nat i < length (pc_stages (en_config e))
      then stage_name (pc_stages (en_config e) ! nat i) else ''unknown'')"

definition begin_run :: "pipeline_env \<Rightarrow> beginning \<Rightarrow> px \<Rightarrow> px" where
  "begin_run e b x =
     (case b of
        Fresh session \<Rightarrow>
          on_sys (notify (OnPipelineStart (en_runId e)))
            (announce_run e (stage_at e 0) (mark_running e (x\<lparr>x_session := session\<rparr>)))
      | Resume i wt h session \<Rightarrow>
          announce_run e (stage_at e (i + 1)) (mark_running e (x\<lparr>x_session := session,
            x_hasInitiatedSession := True, x_worktree := Some wt, x_handoff := h\<rparr>)))"

section \<open>Setup\<close>

text \<open>A call without a result that may throw.\<close>

definition attempt :: "pipeline_env \<Rightarrow> act \<Rightarrow> string option \<Rightarrow> px \<Rightarrow> px" where
  "attempt e a outcome x =
     (case outcome of Some msg \<Rightarrow> throw msg (await e a x) | None \<Rightarrow> await e a x)"

definition clone_repo :: "pipeline_env \<Rightarrow> px \<Rightarrow> px" where
  "clone_repo e x = attempt e (Cloned (en_cloneUrl e)) (en_clone e (now x)) x"

definition create_worktree :: "pipeline_env \<Rightarrow> px \<Rightarrow> px" where
  "create_worktree e x =
     (case en_createWorktree e (now x) of
        Inl msg \<Rightarrow> throw msg (await e (WorktreeCreated []) x)
      | Inr wt \<Rightarrow> (await e (WorktreeCreated wt) x)\<lparr>x_worktree := Some wt\<rparr>)"

definition start_devcontainer :: "pipeline_env \<Rightarrow> px \<Rightarrow> px" where
  "start_devcontainer e x =
     (case en_devcontainer e (now x) of
        Inl msg \<Rightarrow> throw msg (await e DevcontainerChecked x)
      | Inr used \<Rightarrow> (await e DevcontainerChecked x)\<lparr>x_devcontainer := used\<rparr>)"

definition setup_command :: "pipeline_env \<Rightarrow> string list \<Rightarrow> px \<Rightarrow> px" where
  "setup_command e cmd x =
     attempt e (SetupRan cmd)
       (map_option (\<lambda>m. ''Setup command failed: '' @
            (case cmd of [] \<Rightarrow> [] | c # args \<Rightarrow> c @ '' '' @ joinWith '' '' args) @ '' -- '' @ m)
          (en_setup e (now x) cmd)) x"

definition setup_commands :: "pipeline_env \<Rightarrow> px \<Rightarrow> px" where
  "setup_commands e =
     seq (map (setup_command e)
       (case rp_setupCommands (en_repo e) of None \<Rightarrow> [] | Some cs \<Rightarrow> cs))"

definition fresh_setup :: "pipeline_env \<Rightarrow> px \<Rightarrow> px" where
  "fresh_setup e = seq [clone_repo e, create_worktree e, start_devcontainer e, setup_commands e]"

definition detect_stack :: "pipeline_env \<Rightarrow> px \<Rightarrow> px" where
  "detect_stack e x =
     (if x_worktree x = None \<or> x_worktree x = Some []
      then throw ''worktreePath not set after setup -- this should not happen'' x
      else attempt e TechStackDetected (en_techStack e (now x)) x)"

text \<open>The first resume context of a fresh run: index \<open>-1\<close>, so that it restarts from stage 0.\<close>

definition persist_context :: "pipeline_env \<Rightarrow> px \<Rightarrow> px" where
  "persist_context e x =
     on_sys (update_run (en_runId e) (\<lambda>r. r\<lparr>r_currentStageIndex := Some (- 1),
       r_resumePayload := Some (buildResumePayload None (en_config e) (en_repo e) (en_issue e)
         (case x_worktree x of None \<Rightarrow> [] | Some w \<Rightarrow> w) (- 1))\<rparr>)) x"

definition setup_phases :: "pipeline_env \<Rightarrow> beginning \<Rightarrow> (px \<Rightarrow> px) list" where
  "setup_phases e b =
     (case b of
        Fresh _ \<Rightarrow> [fresh_setup e, detect_stack e, persist_context e]
      | Resume _ _ _ _ \<Rightarrow> [detect_stack e])"

definition stages_to_run :: "pipeline_env \<Rightarrow> beginning \<Rightarrow> stage list" where
  "stages_to_run e b =
     (case b of
        Fresh _ \<Rightarrow> pc_stages (en_config e)
      | Resume i _ _ _ \<Rightarrow> slice (pc_stages (en_config e)) (i + 1))"

section \<open>The whole function\<close>

definition review_phases :: "pipeline_env \<Rightarrow> (px \<Rightarrow> px) list" where
  "review_phases e = [review_fix e, auto_deep_review e, deep_review e]"

definition delivery_phases :: "pipeline_env \<Rightarrow> (px \<Rightarrow> px) list" where
  "delivery_phases e = [draft_decision e, under_lock e (push_section e), complete e]"

definition try_block :: "pipeline_env \<Rightarrow> beginning \<Rightarrow> px \<Rightarrow> px" where
  "try_block e b =
     seq (setup_phases e b @ [run_stages e (stages_to_run e b)] @ review_phases e @ delivery_phases e)"

definition executePipeline :: "pipeline_env \<Rightarrow> beginning \<Rightarrow> sys \<Rightarrow> pipeline_run \<Rightarrow> px" where
  "executePipeline e b s run =
     clean_up e (on_error e (try_block e b (begin_run e b (initial_px s run None))))"

end
