(* ===== verification/PipelineProps.thy ===== *)
theory PipelineProps
  imports Pipeline StageProps
begin

text \<open>
  The properties of the delivery and of \<open>executePipeline\<close> as a whole: the draft decision, the guards of
  the auto-merge, the order of the deliveries, how a run ends and what it leaves behind.
\<close>

section \<open>The draft decision\<close>

lemma gate_frame [simp]:
  "x_exit (draft_base x) = x_exit x" "x_exit (policy_gate e x) = x_exit x"
  "x_exit (scratch_gate e x) = x_exit x" "x_exit (typecheck_gate e x) = x_exit x"
  "x_exit (spec_gate e x) = x_exit x" "x_exit (add_blocking fs x) = x_exit x"
  by (simp_all add: draft_base_def policy_gate_def scratch_gate_def typecheck_gate_def spec_gate_def
      add_blocking_def Let_def split: option.split sum.split prod.split)

text \<open>What makes each gate force a draft, in the state it runs in.\<close>

definition policy_fires :: "pipeline_env \<Rightarrow> px \<Rightarrow> bool" where
  "policy_fires e x \<longleftrightarrow> en_licensed e ''org-policy'' \<and>
     (\<exists>p. pc_policy (en_config e) = Some p \<and>
       (let changed = en_changedFiles e (now x) in
        (changed = [] \<and> po_pathBlocklist p \<noteq> []) \<or>
        (\<not> hasOverrideLabel (Some (si_labels (en_issue e))) (po_overrideLabel p) \<and>
         ((\<exists>f \<in> set changed. matchesAnyPattern f (po_pathBlocklist p)) \<or>
          (\<exists>k. po_maxTokensPerIssue p = Some k \<and> k < used_tokens (x_run x))))))"

definition scratch_fires :: "pipeline_env \<Rightarrow> px \<Rightarrow> bool" where
  "scratch_fires e x \<longleftrightarrow> \<not> en_scratchDisabled e \<and>
     (\<exists>f \<in> set (enumerateAddedFiles (fst (en_scratch e (now x))) (snd (en_scratch e (now x)))). is_scratch f)"

definition typecheck_fires :: "pipeline_env \<Rightarrow> px \<Rightarrow> bool" where
  "typecheck_fires e x \<longleftrightarrow>
     0 < tc_errorCount (runTypecheck (en_typecheckDisabled e) (en_typecheck e (now x)))"

definition spec_fires :: "pipeline_env \<Rightarrow> px \<Rightarrow> bool" where
  "spec_fires e x \<longleftrightarrow> (\<exists>f fs. en_specGate e (now x) = Inr (Some (f # fs)))"

lemma draft_frame [simp]:
  "x_shouldDraft (await e a x) = x_shouldDraft x" "x_shouldDraft (on_sys g x) = x_shouldDraft x"
  "x_shouldDraft (add_blocking fs x)" "x_run (await e a x) = x_run x" "x_run (on_sys g x) = x_run x"
  "x_run (add_blocking fs x) = x_run x"
  by (simp_all add: await_def on_sys_def add_blocking_def)

lemma policy_gate_draft:
  "x_shouldDraft (policy_gate e x) \<longleftrightarrow> x_shouldDraft x \<or> policy_fires e x"
proof (cases "pc_policy (en_config e)")
  case None
  then show ?thesis by (simp add: policy_gate_def policy_fires_def)
next
  case (Some p)
  let ?i = "\<lparr>gi_runId = pr_id (x_run x), gi_issueId = si_id (en_issue e),
    gi_labels = Some (si_labels (en_issue e)), gi_policy = Some p,
    gi_changedFiles = en_changedFiles e (now x), gi_tokensUsed = used_tokens (x_run x),
    gi_stage = ''all-stages''\<rparr>"
  have "gr_shouldDraft (fst (evaluatePolicyGates ?i)) \<longleftrightarrow>
      policy_broken ?i p \<and> \<not> hasOverrideLabel (Some (si_labels (en_issue e))) (po_overrideLabel p)"
    using policy_draft_iff [of ?i] by simp
  then show ?thesis
    using Some
    by (auto simp: policy_gate_def policy_fires_def policy_broken_def Let_def case_prod_unfold)
qed

lemma scratch_gate_draft:
  "x_shouldDraft (scratch_gate e x) \<longleftrightarrow> x_shouldDraft x \<or> scratch_fires e x"
proof -
  obtain d s where ds: "en_scratch e (now x) = (d, s)" by fastforce
  have "matchScratchPatterns (enumerateAddedFiles d s) = [] \<longleftrightarrow>
      (\<forall>f \<in> set (enumerateAddedFiles d s). \<not> is_scratch f)"
    using scratch_matched [of "enumerateAddedFiles d s"] by (metis (mono_tags, lifting) empty_Collect_eq set_empty2)
  then show ?thesis
    by (auto simp: scratch_gate_def scratch_fires_def findScratchFiles_def ds Let_def)
qed

lemma typecheck_gate_draft:
  "x_shouldDraft (typecheck_gate e x) \<longleftrightarrow> x_shouldDraft x \<or> typecheck_fires e x"
  using typecheck_passed [of "en_typecheckDisabled e" "en_typecheck e (now x)"]
  by (auto simp: typecheck_gate_def typecheck_fires_def Let_def)

lemma spec_gate_draft: "x_shouldDraft (spec_gate e x) \<longleftrightarrow> x_shouldDraft x \<or> spec_fires e x"
  by (auto simp: spec_gate_def spec_fires_def Let_def neq_Nil_conv split: sum.split option.split)

lemma draft_decision_phases:
  "x_exit x = None \<Longrightarrow> draft_decision e x =
     spec_gate e (typecheck_gate e (scratch_gate e (policy_gate e (draft_base x))))"
  by (simp add: draft_decision_def step_def)

text \<open>
  C10. When a pull request is a draft. The decision is to draft if and only if RALPH is not satisfied,
  the handoff has a blocking finding, the policy is broken or could not be evaluated (an empty diff
  under a blocklist), a scratch file was added, the typecheck has a parsed error, or a documented
  symbol does not exist; a typecheck that fails without a parsed error, a gate that throws and a
  disabled gate do not force a draft.
\<close>

theorem draft_decision_exact:
  assumes "x_exit x = None"
    and "x0 = draft_base x" "x1 = policy_gate e x0" "x2 = scratch_gate e x1" "x3 = typecheck_gate e x2"
  shows "x_shouldDraft (draft_decision e x) \<longleftrightarrow>
    \<not> x_ralphSatisfied x \<or> blocking_findings (x_handoff x) \<noteq> [] \<or> policy_fires e x0 \<or>
    scratch_fires e x1 \<or> typecheck_fires e x2 \<or> spec_fires e x3"
  unfolding draft_decision_phases [OF assms(1)] assms(2-5)
  by (auto simp: policy_gate_draft scratch_gate_draft typecheck_gate_draft spec_gate_draft draft_base_def
      Let_def)

theorem draft_decision_exact_witness:
  "x_shouldDraft (draft_decision (demo_pipeline demo_cfg (\<lambda>n c. Inl []))
     (demo_px\<lparr>x_handoff := Some (demo_handoff (Some [demo_finding]))\<rparr>))"
proof -
  let ?x = "demo_px\<lparr>x_handoff := Some (demo_handoff (Some [demo_finding]))\<rparr>"
  have 1: "x_exit ?x = None" by (simp add: demo_exec_defs)
  have 2: "blocking_findings (x_handoff ?x) \<noteq> []"
    by (simp add: blocking_findings_def findings_of_def blocking_def demo_exec_defs)
  show ?thesis using draft_decision_exact [OF 1 refl refl refl refl] 2 by blast
qed

section \<open>Auto-merge\<close>

text \<open>The mandatory reviewers, whenever the check can be made.\<close>

definition reviewers_ok :: "pipeline_env \<Rightarrow> px \<Rightarrow> bool" where
  "reviewers_ok e x \<longleftrightarrow>
     (\<forall>required owner repo n. reviewer_request e = Some required \<longrightarrow> en_github e \<longrightarrow>
        owner_repo (rp_url (en_repo e)) = Some (owner, repo) \<longrightarrow>
        url_number ''/pull/'' (x_prUrl x) = Some n \<longrightarrow> 0 < n \<longrightarrow>
        (\<exists>i t v c. verifyApprovalsReceived (en_reviews e i) (en_teamMembers e i) t owner required
           (x_teamCache x) = Inr (v, c) \<and> ve_satisfied v))"

definition merge_allowed :: "pipeline_env \<Rightarrow> px \<Rightarrow> bool" where
  "merge_allowed e x \<longleftrightarrow>
     pc_autoMerge (en_config e) = Some True \<and> x_prUrl x \<noteq> [] \<and> \<not> x_rebaseConflict x \<and>
     \<not> x_shouldDraft x \<and> blocking_findings (x_handoff x) = [] \<and>
     (\<exists>n. en_diffLines e (now x) = Some n \<and> n \<le> max_lines e) \<and>
     (\<forall>f \<in> set (en_changedFiles e (Suc (now x))). \<not> matchesAnyPattern f (exclude_patterns e)) \<and>
     reviewers_ok e x"

fun is_delivery :: "act \<Rightarrow> bool" where
  "is_delivery (Pushed s) = True"
| "is_delivery (PrRequested f d r) = True"
| "is_delivery (MergeRequested f) = True"
| "is_delivery _ = False"

fun is_read :: "act \<Rightarrow> bool" where
  "is_read DiffLinesRead = True"
| "is_read FilesRead = True"
| "is_read ReviewsRead = True"
| "is_read _ = False"

lemma verdict_None:
  "merge_verdict e lines blockers excluded = None \<longleftrightarrow>
     (\<exists>n. lines = Some n \<and> n \<le> max_lines e) \<and> blockers = [] \<and> excluded = None"
  by (auto simp: merge_verdict_def too_large_def split: option.splits)

lemma read_diff_log:
  "read_diff e x = (y, v) \<Longrightarrow> \<exists>r. x_log y = x_log x @ r \<and> list_all is_read r"
  by (auto simp: read_diff_def Let_def await_def split: if_splits)

lemma read_diff_frame:
  "read_diff e x = (y, v) \<Longrightarrow> x_prUrl y = x_prUrl x \<and> x_teamCache y = x_teamCache x"
  by (auto simp: read_diff_def Let_def await_def split: if_splits)

lemma read_diff_None:
  assumes "read_diff e x = (y, None)"
  shows "(\<exists>n. en_diffLines e (now x) = Some n \<and> n \<le> max_lines e) \<and>
    blocking_findings (x_handoff x) = [] \<and>
    (\<forall>f \<in> set (en_changedFiles e (Suc (now x))). \<not> matchesAnyPattern f (exclude_patterns e))"
  using assms
  by (auto simp: read_diff_def Let_def verdict_None find_None_iff now_def await_def matchesAnyPattern_def
      split: if_splits)

lemma reviewer_gate_log:
  "reviewer_gate e x = (y, v) \<Longrightarrow> \<exists>r. x_log y = x_log x @ r \<and> list_all is_read r"
  by (auto simp: reviewer_gate_def Let_def await_def split: option.splits bool.splits if_splits sum.splits)

lemma reviewer_gate_None:
  assumes "reviewer_gate e x = (y, None)"
  shows "reviewers_ok e x"
  unfolding reviewers_ok_def
proof (intro allI impI)
  fix required owner repo n
  assume "reviewer_request e = Some required" "en_github e"
    "owner_repo (rp_url (en_repo e)) = Some (owner, repo)"
    "url_number ''/pull/'' (x_prUrl x) = Some n" "0 < n"
  then obtain v c where "verifyApprovalsReceived (en_reviews e (now x)) (en_teamMembers e (now x))
      (clock (x_sys x)) owner required (x_teamCache x) = Inr (v, c)" "ve_satisfied v"
    using assms by (auto simp: reviewer_gate_def Let_def split: sum.splits if_splits)
  then show "\<exists>i t v c. verifyApprovalsReceived (en_reviews e i) (en_teamMembers e i) t owner required
           (x_teamCache x) = Inr (v, c) \<and> ve_satisfied v"
    by blast
qed

lemma merge_with_log:
  "x_log (merge_with e f m texts x) = x_log x \<or> x_log (merge_with e f m texts x) = x_log x @ [MergeRequested f]"
  by (auto simp: merge_with_def Let_def alert_def set_reason_def await_def split: sum.split bool.split)

lemma do_merge_log:
  "x_log (do_merge e x) = x_log x \<or> (\<exists>f. x_log (do_merge e x) = x_log x @ [MergeRequested f])"
proof -
  have *: "x_log (merge_with e f m t x) = x_log x \<or> (\<exists>g. x_log (merge_with e f m t x) = x_log x @ [MergeRequested g])"
    for f m t
    using merge_with_log [of e f m t x] by blast
  show ?thesis unfolding do_merge_def by (simp only: split: if_split) (intro conjI impI *)
qed

lemma reviewers_ok_cong:
  "x_prUrl y = x_prUrl x \<Longrightarrow> x_teamCache y = x_teamCache x \<Longrightarrow> reviewers_ok e y = reviewers_ok e x"
  by (simp add: reviewers_ok_def)

lemma auto_merge_effect:
  "\<exists>reads m. x_log (auto_merge e x) = x_log x @ reads @ m \<and> list_all is_read reads \<and>
     (m = [] \<or> (\<exists>f. m = [MergeRequested f] \<and> merge_allowed e x))"
proof (cases "pc_autoMerge (en_config e) = Some True \<and> x_prUrl x \<noteq> [] \<and> \<not> x_rebaseConflict x \<and>
    \<not> x_shouldDraft x")
  case False
  then have "auto_merge e x = x" by (auto simp: auto_merge_def)
  then show ?thesis by simp
next
  case True
  obtain x1 v1 where 1: "read_diff e x = (x1, v1)" by fastforce
  obtain r1 where r1: "x_log x1 = x_log x @ r1" "list_all is_read r1"
    using read_diff_log [OF 1] by blast
  show ?thesis
  proof (cases v1)
    case (Some r)
    then have "x_log (auto_merge e x) = x_log x1"
      using True 1 by (simp add: auto_merge_def alert_def set_reason_def Let_def)
    then show ?thesis using r1 by (intro exI [of _ r1] exI [of _ "[]"]) simp
  next
    case None
    obtain x2 v2 where 2: "reviewer_gate e x1 = (x2, v2)" by fastforce
    obtain r2 where r2: "x_log x2 = x_log x1 @ r2" "list_all is_read r2"
      using reviewer_gate_log [OF 2] by blast
    show ?thesis
    proof (cases v2)
      case (Some r)
      then have "x_log (auto_merge e x) = x_log x2"
        using True 1 None 2 by (simp add: auto_merge_def alert_def set_reason_def Let_def)
      then show ?thesis using r1 r2 by (intro exI [of _ "r1 @ r2"] exI [of _ "[]"]) simp
    next
      case v2: None
      have log: "x_log (auto_merge e x) = x_log (do_merge e x2)"
        using True 1 None 2 v2 by (simp add: auto_merge_def Let_def)
      have ok: "merge_allowed e x"
        using True 1 None 2 v2 read_diff_None [of e x x1] reviewer_gate_None [of e x1 x2]
          read_diff_frame [OF 1] reviewers_ok_cong [of x1 x e]
        by (auto simp: merge_allowed_def)
      show ?thesis
        using do_merge_log [of e x2]
      proof
        assume "x_log (do_merge e x2) = x_log x2"
        then show ?thesis using log r1 r2 by (intro exI [of _ "r1 @ r2"] exI [of _ "[]"]) simp
      next
        assume "\<exists>f. x_log (do_merge e x2) = x_log x2 @ [MergeRequested f]"
        then obtain f where "x_log (do_merge e x2) = x_log x2 @ [MergeRequested f]" by blast
        then show ?thesis
          using log r1 r2 ok by (intro exI [of _ "r1 @ r2"] exI [of _ "[MergeRequested f]"]) simp
      qed
    qed
  qed
qed

text \<open>
  C11. The guards of the auto-merge. A merge is requested only when it is configured, the pull request
  exists, is not a draft and has no unresolved conflict, the handoff has no blocking finding, the size
  of the diff is known and within the limit, no changed file matches an exclusion pattern, and the
  mandatory reviewers have approved wherever they can be checked.
\<close>

theorem auto_merge_guarded:
  assumes "x_log (auto_merge e x) = x_log x @ new" "MergeRequested f \<in> set new"
  shows "pc_autoMerge (en_config e) = Some True \<and> x_prUrl x \<noteq> [] \<and> \<not> x_rebaseConflict x \<and>
    \<not> x_shouldDraft x \<and> blocking_findings (x_handoff x) = [] \<and>
    (\<exists>n. en_diffLines e (now x) = Some n \<and> n \<le> max_lines e) \<and>
    (\<forall>f \<in> set (en_changedFiles e (Suc (now x))). \<not> matchesAnyPattern f (exclude_patterns e)) \<and>
    reviewers_ok e x"
proof -
  obtain reads m where e: "x_log (auto_merge e x) = x_log x @ reads @ m"
    "list_all is_read reads" "m = [] \<or> (\<exists>f. m = [MergeRequested f] \<and> merge_allowed e x)"
    using auto_merge_effect by blast
  have "MergeRequested f \<notin> set reads" using e(2) by (auto simp: list_all_iff)
  then have "m \<noteq> []" using assms e(1) by auto
  then show ?thesis using e(3) by (simp add: merge_allowed_def)
qed

definition demo_merge_px :: px where
  "demo_merge_px = demo_px\<lparr>x_prUrl := ''https://github.com/o/r/pull/7''\<rparr>"

theorem auto_merge_guarded_witness:
  "\<exists>e. en_diffLines e (now demo_merge_px) = Some 10 \<and> 10 \<le> max_lines e \<and>
     (\<exists>new. x_log (auto_merge e demo_merge_px) = x_log demo_merge_px @ new \<and> MergeRequested GhCli \<in> set new)"
proof -
  let ?e = "demo_pipeline (demo_cfg\<lparr>pc_autoMerge := Some True\<rparr>) (\<lambda>n c. Inl [])"
  have log: "x_log (auto_merge ?e demo_merge_px) = x_log demo_merge_px @ [DiffLinesRead, MergeRequested GhCli]"
    by (simp add: auto_merge_def read_diff_def merge_verdict_def too_large_def max_lines_def exclude_patterns_def
        reviewer_gate_def reviewer_request_def do_merge_def merge_with_def cli_texts_def set_reason_def await_def
        Let_def demo_merge_px_def demo_exec_defs demo_cfg_def LOOP_DEFAULTS_def demo_repo_def
        blocking_findings_def findings_of_def)
  have "MergeRequested GhCli \<in> set [DiffLinesRead, MergeRequested GhCli]" by simp
  from auto_merge_guarded [OF log this] obtain n where
    "en_diffLines ?e (now demo_merge_px) = Some n" "n \<le> max_lines ?e" by blast
  moreover have "en_diffLines ?e (now demo_merge_px) = Some 10" by (simp add: demo_pipeline_def)
  ultimately show ?thesis using log by (intro exI [of _ ?e]) auto
qed

end
