(* ===== verification/RunInvariants.thy ===== *)
theory RunInvariants
  imports PipelineProps
begin

text \<open>
  Invariants of a run. A client states a predicate of the local variables, shows that the few operations
  the phases are made of keep it, and gets that the review loops (\<open>review_invariant\<close>) and the stage loop
  (\<open>stage_invariant\<close>) keep it.
\<close>

section \<open>The operations\<close>

text \<open>Two states that differ in nothing that the run delivers or reports.\<close>

definition like :: "px \<Rightarrow> px \<Rightarrow> bool" where
  "like x y \<longleftrightarrow> x_log y = x_log x \<and> x_prUrl y = x_prUrl x \<and> x_exit y = x_exit x \<and>
     pr_status (x_run y) = pr_status (x_run x)"

text \<open>A phase keeps a predicate if it does so when it is run, that is, before the exit.\<close>

definition ok :: "(px \<Rightarrow> bool) \<Rightarrow> (px \<Rightarrow> px) \<Rightarrow> bool" where
  "ok P f \<longleftrightarrow> (\<forall>x. x_exit x = None \<longrightarrow> P x \<longrightarrow> P (f x))"

lemma okI: "(\<And>x. x_exit x = None \<Longrightarrow> P x \<Longrightarrow> P (f x)) \<Longrightarrow> ok P f"
  by (simp add: ok_def)

lemma okD: "ok P f \<Longrightarrow> x_exit x = None \<Longrightarrow> P x \<Longrightarrow> P (f x)"
  by (simp add: ok_def)

lemma ok_step: "ok P f \<Longrightarrow> P x \<Longrightarrow> P (step f x)"
  by (simp add: ok_def step_def)

lemma ok_seq: "list_all (ok P) fs \<Longrightarrow> P x \<Longrightarrow> P (seq fs x)"
  by (induction fs arbitrary: x) (simp_all add: ok_step)

lemma ok_seqs: "list_all (ok P) fs \<Longrightarrow> ok P (seq fs)"
  by (simp add: ok_def ok_seq)

lemma like_trans: "like x y \<Longrightarrow> like y z \<Longrightarrow> like x z"
  by (simp add: like_def)

lemma prUrl_frame [simp]:
  "x_prUrl (on_sys g x) = x_prUrl x" "x_prUrl (on_run h x) = x_prUrl x" "x_prUrl (await e a x) = x_prUrl x"
  "x_prUrl (applyCollisionRecovery r x) = x_prUrl x" "x_prUrl (throw msg x) = x_prUrl x"
  "x_prUrl (return x) = x_prUrl x" "x_prUrl (add_tokens i j x) = x_prUrl x"
  "x_prUrl (fail_with e st msg ex k x) = x_prUrl x" "x_prUrl (check_budget e stg x) = x_prUrl x"
  "x_prUrl (cancel_run e mode x) = x_prUrl x"
  by (simp_all add: on_sys_def on_run_def await_def applyCollisionRecovery_def throw_def return_def
      add_tokens_def fail_with_def check_budget_def cancel_run_def Let_def case_prod_unfold
      split: option.split)

lemma status_frame [simp]:
  "pr_status (x_run (throw msg x)) = pr_status (x_run x)" "pr_status (x_run (return x)) = pr_status (x_run x)"
  "pr_status (x_run (add_tokens i j x)) = pr_status (x_run x)"
  by (simp_all add: throw_def return_def add_tokens_def on_run_def)

lemma like_ops [simp]:
  "like x x" "like x (on_sys g x)" "like x (count_result x)" "like x (stage_done e stg x)"
  "like x (announce e stg x)" "like x (count_main x)" "like x (take_handoff x)" "like x (count_retry stg x)"
  "like x (add_tokens i j x)" "like x (note_review stg x)" "like x (fix_files x)"
  "like x (merge_findings e fs x)" "like x (applyCollisionRecovery r x)"
  by (simp_all add: like_def on_sys_def on_run_def count_result_def add_tokens_def stage_done_def
      announce_def count_main_def take_handoff_def count_retry_def note_review_def fix_files_def
      merge_findings_def applyCollisionRecovery_def Let_def split: option.split)

lemma like_claim: "claimFirstResumableStage st x = (y, b) \<Longrightarrow> like x y"
  by (auto simp: claimFirstResumableStage_def like_def split: if_splits)

lemma like_surgical: "surgical e stg x = (y, p) \<Longrightarrow> like x y"
  by (auto simp: surgical_def Let_def split: if_splits prod.splits)

section \<open>Invariants of the review loops\<close>

locale review_invariant =
  fixes e :: pipeline_env and P :: "px \<Rightarrow> bool"
  assumes frame: "P x \<Longrightarrow> like x y \<Longrightarrow> P y"
    and acted: "P x \<Longrightarrow> \<not> is_delivery a \<Longrightarrow> P (await e a x)"
    and threw: "P x \<Longrightarrow> x_exit x = None \<Longrightarrow> P (throw msg x)"
    and failed: "P x \<Longrightarrow> x_exit x = None \<Longrightarrow> P (fail_stage e stg msg ex x)"
    and budget: "P x \<Longrightarrow> x_exit x = None \<Longrightarrow> P (check_budget e stg x)"
begin

lemma set_field: "P x \<Longrightarrow> x_log y = x_log x \<Longrightarrow> x_prUrl y = x_prUrl x \<Longrightarrow> x_exit y = x_exit x \<Longrightarrow>
    pr_status (x_run y) = pr_status (x_run x) \<Longrightarrow> P y"
  by (rule frame) (simp_all add: like_def)

lemma ok_like: "(\<And>x. like x (f x)) \<Longrightarrow> ok P f"
  by (rule okI) (rule frame)

lemma call_kept: "P x \<Longrightarrow> x_exit x = None \<Longrightarrow> P (run_stage e c x)"
proof -
  assume P: "P x" and x: "x_exit x = None"
  show "P (run_stage e c x)"
  proof (cases "en_executeStage e (now x) c")
    case (Inl msg)
    then show ?thesis using P x by (simp add: run_stage_def acted threw)
  next
    case (Inr r)
    have "P (await e (Executed c r) x)" using P by (simp add: acted)
    then have "P ((applyCollisionRecovery r (await e (Executed c r) x))\<lparr>x_result := r\<rparr>)"
      by (rule frame) (simp add: like_def applyCollisionRecovery_def split: option.split)
    then show ?thesis using Inr by (simp add: run_stage_def)
  qed
qed

lemma ok_call: "ok P (run_stage e c)"
  by (rule okI) (rule call_kept)

lemma ok_budget: "ok P (check_budget e stg)"
  by (rule okI) (rule budget)

lemma ok_fail_loop: "ok P (fail_loop_stage e stg prefix d)"
  by (rule okI) (simp add: fail_loop_stage_def failed)

lemma validated: "P x \<Longrightarrow> validate_result e stg f x = (y, v) \<Longrightarrow> P y"
  by (auto simp: validate_result_def Let_def acted split: option.splits)

lemma ok_fix_call: "ok P (fix_call e i stg)"
proof (rule okI)
  fix x :: px
  assume x: "x_exit x = None" "P x"
  obtain x1 p where s: "surgical e stg x = (x1, p)" by fastforce
  obtain x2 b where c: "claimFirstResumableStage (stage_name stg) x1 = (x2, b)" by fastforce
  have l: "like x (x2\<lparr>x_first := b\<rparr>)"
    using like_surgical [OF s] like_claim [OF c] by (simp add: like_def)
  have "P (x2\<lparr>x_first := b\<rparr>)" "x_exit (x2\<lparr>x_first := b\<rparr>) = None"
    using frame [OF x(2) l] l x(1) by (simp_all add: like_def)
  then show "P (fix_call e i stg x)"
    by (simp add: fix_call_def s c Let_def call_kept)
qed

lemma ok_fix_validation: "ok P (fix_validation e stg)"
proof (rule okI)
  fix x :: px
  assume "P x"
  then show "P (fix_validation e stg x)"
    using validated [of x stg "x_first x"]
    by (cases "validate_result e stg (x_first x) x") (simp add: fix_validation_def)
qed

lemma ok_fix_ralph: "ok P (fix_ralph e stg)"
proof (rule okI)
  fix x :: px
  assume "P x"
  moreover from this have "P (await e RalphChecked x)" by (simp add: acted)
  ultimately show "P (fix_ralph e stg x)"
    by (auto simp: fix_ralph_def Let_def intro: set_field)
qed

lemma ok_fix_stage: "ok P (fix_stage e i stg)"
  unfolding fix_stage_def
  by (rule ok_seqs [where P = P]) (simp add: ok_fix_call ok_like ok_budget ok_fail_loop ok_fix_validation ok_fix_ralph)

lemma ok_fix_iteration: "ok P (fix_iteration e i)"
  unfolding fix_iteration_def by (rule ok_seqs [where P = P]) (simp add: list_all_iff ok_fix_stage)

lemma review_fix_loop_kept: "x_exit x = None \<Longrightarrow> P x \<Longrightarrow> P (review_fix_loop e k i x)"
proof (induction k arbitrary: i x)
  case (Suc k)
  have "P (fix_iteration e i x)" by (rule okD [OF ok_fix_iteration Suc.prems])
  then show ?case using Suc.IH by (simp add: Let_def)
qed simp

lemma ok_review_fix: "ok P (review_fix e)"
  by (rule okI) (simp add: review_fix_def review_fix_loop_kept)

lemma ok_auto_deep_review: "ok P (auto_deep_review e)"
proof (rule okI)
  fix x :: px
  assume "P x"
  then have 1: "P (x\<lparr>x_passes := configured_passes e\<rparr>)" by (rule set_field) simp_all
  then have 2: "P (await e DiffRead (x\<lparr>x_passes := configured_passes e\<rparr>))" by (simp add: acted)
  have 3: "P ((on_sys g (await e DiffRead (x\<lparr>x_passes := configured_passes e\<rparr>)))\<lparr>x_passes := n\<rparr>)" for g n
    by (rule frame [OF 2]) (simp add: like_def on_sys_def)
  show "P (auto_deep_review e x)"
    using 1 2 3 by (simp add: auto_deep_review_def Let_def split: prod.split)
qed

lemma providers_kept: "x_exit x = None \<Longrightarrow> P x \<Longrightarrow> run_providers e p x = (y, fs) \<Longrightarrow> P y"
proof -
  assume x: "x_exit x = None" "P x" and y: "run_providers e p x = (y, fs)"
  obtain x1 b where c: "claimFirstResumableStage ''review'' x = (x1, b)" by fastforce
  have 1: "P x1" "x_exit x1 = None" using frame [OF x(2) like_claim [OF c]] like_claim [OF c] x(1)
    by (simp_all add: like_def)
  let ?x2 = "await e (ReviewProvidersRan (p = 1)) x1"
  have 2: "P ?x2" "x_exit ?x2 = None" using 1 by (simp_all add: acted)
  show "P y"
  proof (cases "en_reviewProviders e (now x1) (p = 1)")
    case (Inl msg)
    then show ?thesis using y c 2 by (auto simp: run_providers_def threw)
  next
    case (Inr o1)
    let ?x3 = "if p = 1 then ?x2\<lparr>x_fanout := ro_fanoutRuns o1\<rparr> else ?x2"
    have l: "like ?x2 (add_tokens (ro_inputTokens o1) (ro_outputTokens o1) ?x3)"
      by (simp add: like_def add_tokens_def on_run_def)
    have "P (add_tokens (ro_inputTokens o1) (ro_outputTokens o1) ?x3)"
      "x_exit (add_tokens (ro_inputTokens o1) (ro_outputTokens o1) ?x3) = None"
      using frame [OF 2(1) l] l 2(2) by (simp_all add: like_def)
    then show ?thesis using y c Inr by (auto simp: run_providers_def Let_def budget)
  qed
qed

lemma ok_deep_implement: "ok P (deep_implement e p fs)"
proof (rule okI)
  fix x :: px
  assume x: "x_exit x = None" "P x"
  obtain x1 b where c: "claimFirstResumableStage (stage_name Implement) x = (x1, b)" by fastforce
  have "P x1" using frame [OF x(2) like_claim [OF c]] .
  then have "P (seq [run_stage e cl, count_result, check_budget e Implement, stage_done e Implement,
      fail_loop_stage e Implement m d, take_handoff] x1)" for cl m d
    by (intro ok_seq [where P = P]) (simp_all add: ok_call ok_like ok_budget ok_fail_loop)
  then show "P (deep_implement e p fs x)"
    unfolding deep_implement_def c by (simp add: Let_def del: seq.simps)
qed

lemma ok_deep_verify: "ok P (deep_verify e p)"
proof (rule okI)
  fix x :: px
  assume x: "x_exit x = None" "P x"
  obtain x1 b where c: "claimFirstResumableStage (stage_name Review) x = (x1, b)" by fastforce
  have "P x1" using frame [OF x(2) like_claim [OF c]] .
  then have "P (seq [run_stage e cl, note_review Review, count_result, check_budget e Review,
      stage_done e Review, fail_loop_stage e Review m d, take_handoff] x1)" for cl m d
    by (intro ok_seq [where P = P]) (simp_all add: ok_call ok_like ok_budget ok_fail_loop)
  then show "P (deep_verify e p x)"
    unfolding deep_verify_def c by (simp del: seq.simps)
qed

lemma deep_loop_kept: "x_exit x = None \<Longrightarrow> P x \<Longrightarrow> P (deep_loop e k p prints count x)"
proof (induction k arbitrary: p prints count x)
  case (Suc k)
  obtain x1 fs where r: "run_providers e p x = (x1, fs)" by fastforce
  have 1: "P x1" by (rule providers_kept [OF Suc.prems r])
  have 2: "P (seq [deep_implement e p fs, deep_verify e p, merge_findings e fs] x1)"
    using 1 by (intro ok_seq [where P = P]) (simp_all add: ok_deep_implement ok_deep_verify ok_like)
  show ?case using 1 2 Suc.IH Suc.prems r by (simp add: Let_def del: seq.simps)
qed simp

lemma ok_deep_review: "ok P (deep_review e)"
  by (rule okI) (simp add: deep_review_def deep_loop_kept)

lemma ok_review_phases: "list_all (ok P) (review_phases e)"
  by (simp add: review_phases_def ok_review_fix ok_auto_deep_review ok_deep_review)

end

section \<open>Invariants of the setup and of the draft decision\<close>

context review_invariant
begin

lemma ok_await: "\<not> is_delivery a \<Longrightarrow> ok P (await e a)"
  by (rule okI) (simp add: acted)

lemma attempt_kept: "P x \<Longrightarrow> x_exit x = None \<Longrightarrow> \<not> is_delivery a \<Longrightarrow> P (attempt e a out x)"
  by (simp add: attempt_def acted threw split: option.split)

lemma ok_clone: "ok P (clone_repo e)"
  by (rule okI) (simp add: clone_repo_def attempt_kept)

lemma ok_worktree: "ok P (create_worktree e)"
proof (rule okI)
  fix x :: px
  assume x: "x_exit x = None" "P x"
  have "P ((await e (WorktreeCreated w) x)\<lparr>x_worktree := Some w\<rparr>)" for w
    by (rule set_field [OF acted [OF x(2)]]) simp_all
  then show "P (create_worktree e x)"
    using x by (simp add: create_worktree_def acted threw split: sum.split)
qed

lemma ok_devcontainer: "ok P (start_devcontainer e)"
proof (rule okI)
  fix x :: px
  assume x: "x_exit x = None" "P x"
  have "P ((await e DevcontainerChecked x)\<lparr>x_devcontainer := b\<rparr>)" for b
    by (rule set_field [OF acted [OF x(2)]]) simp_all
  then show "P (start_devcontainer e x)"
    using x by (simp add: start_devcontainer_def acted threw split: sum.split)
qed

lemma ok_setup_commands: "ok P (setup_commands e)"
  unfolding setup_commands_def
  by (rule ok_seqs [where P = P])
     (auto simp: list_all_iff setup_command_def intro!: okI attempt_kept)

lemma ok_detect: "ok P (detect_stack e)"
  by (rule okI) (simp add: detect_stack_def attempt_kept threw)

lemma ok_setup_phases: "list_all (ok P) (setup_phases e b)"
  by (cases b)
     (simp_all add: setup_phases_def fresh_setup_def persist_context_def ok_detect ok_clone ok_worktree
       ok_devcontainer ok_setup_commands ok_like ok_seqs del: seq.simps)

lemma blocking_kept: "P x \<Longrightarrow> P (add_blocking fs x)"
  by (erule set_field) (simp_all add: add_blocking_def)

lemma sys_kept: "P x \<Longrightarrow> P (on_sys g x)"
  by (erule frame) simp

lemma ok_draft_base: "ok P draft_base"
  by (rule okI, erule set_field) (simp_all add: draft_base_def Let_def)

lemma ok_policy_gate: "ok P (policy_gate e)"
  by (rule okI)
     (simp add: policy_gate_def Let_def acted blocking_kept sys_kept split: option.split prod.split)

lemma ok_scratch_gate: "ok P (scratch_gate e)"
  by (rule okI)
     (simp add: scratch_gate_def Let_def acted blocking_kept sys_kept split: option.split prod.split)

lemma ok_typecheck_gate: "ok P (typecheck_gate e)"
  by (rule okI) (simp add: typecheck_gate_def Let_def acted blocking_kept sys_kept)

lemma ok_spec_gate: "ok P (spec_gate e)"
  by (rule okI)
     (simp add: spec_gate_def Let_def acted blocking_kept sys_kept split: option.split sum.split)

lemma ok_draft_decision: "ok P (draft_decision e)"
  unfolding draft_decision_def
  by (rule ok_seqs [where P = P])
     (simp add: ok_draft_base ok_policy_gate ok_scratch_gate ok_typecheck_gate ok_spec_gate)

lemma rebase_kept:
  assumes "x_exit x = None" "P x"
  shows "P (rebase_phase e x)"
proof -
  have 0: "P ((await e Rebased x)\<lparr>x_rebaseConflict := b\<rparr>)" for b
    by (rule set_field [OF acted [OF assms(2)]]) simp_all
  have "P (resolve_conflict e y)" if y: "P y" for y
  proof -
    obtain y1 b where c: "claimFirstResumableStage (stage_name Implement) (await e RebaseAborted y) = (y1, b)"
      by fastforce
    have "P (await e RebaseAborted y)" using y by (simp add: acted)
    then have "P y1" using like_claim [OF c] by (rule frame)
    moreover have "ok P (\<lambda>y. y\<lparr>x_rebaseConflict := (re_status (x_result y) \<noteq> StageCompleted)\<rparr>)"
      by (rule ok_like) (simp add: like_def)
    ultimately have "P (seq [run_stage e cl, count_result,
        \<lambda>y. y\<lparr>x_rebaseConflict := (re_status (x_result y) \<noteq> StageCompleted)\<rparr>] y1)" for cl
      by (intro ok_seq [where P = P]) (simp_all add: ok_call ok_like)
    then show ?thesis unfolding resolve_conflict_def c by (simp add: Let_def del: seq.simps)
  qed
  then show ?thesis using 0 by (simp add: rebase_phase_def Let_def)
qed

end

section \<open>Invariants of the stage loop\<close>

locale stage_invariant = review_invariant +
  assumes cancelled: "P x \<Longrightarrow> x_exit x = None \<Longrightarrow> P (cancel_run e mode x)"
    and paused: "P x \<Longrightarrow> x_exit x = None \<Longrightarrow> P (pause_for_approval e x)"
begin

lemma ok_before: "ok P (before_stage e stg)"
proof (rule okI)
  fix x :: px
  assume x: "x_exit x = None" "P x"
  have "P (x\<lparr>x_lastStageIndex := i\<rparr>)" for i by (rule set_field [OF x(2)]) simp_all
  then show "P (before_stage e stg x)"
    using x(1) by (simp add: before_stage_def Let_def cancelled paused split: option.split)
qed

lemma ok_main: "ok P (main_call e stg)"
proof (rule okI)
  fix x :: px
  assume x: "x_exit x = None" "P x"
  obtain x1 b where c: "claimFirstResumableStage (stage_name stg) x = (x1, b)" by fastforce
  let ?y = "x1\<lparr>x_first := b, x_ralphRan := False\<rparr>"
  have l: "like x ?y" using like_claim [OF c] by (simp add: like_def)
  have "P ?y" "x_exit ?y = None" using frame [OF x(2) l] l x(1) by (simp_all add: like_def)
  then show "P (main_call e stg x)" by (simp add: main_call_def c call_kept)
qed

lemma ok_after: "ok P (after_main e stg)"
  by (rule okI) (auto simp: after_main_def cancelled intro: set_field)

lemma reimplement_kept: "P x \<Longrightarrow> P (reimplement e i check h x)"
proof -
  assume x: "P x"
  obtain x1 b where c: "claimFirstResumableStage (stage_name Implement) x = (x1, b)" by fastforce
  have "P x1" using frame [OF x like_claim [OF c]] .
  then have "P (seq [run_stage e cl, count_result, check_budget e Implement] x1)" for cl
    by (intro ok_seq [where P = P]) (simp_all add: ok_call ok_like ok_budget)
  then show ?thesis unfolding reimplement_def c by (simp add: Let_def del: seq.simps)
qed

lemma ralph_loop_kept: "x_exit x = None \<Longrightarrow> P x \<Longrightarrow> P (ralph_loop e k i x)"
proof (induction k arbitrary: i x)
  case (Suc k)
  let ?c = "ralph_verdict e x"
  let ?x1 = "await e RalphChecked x"
  let ?x2 = "?x1\<lparr>x_ralphGaps := ck_gaps ?c, x_ralphSuggestions := ck_suggestions ?c\<rparr>"
  let ?x3 = "reimplement e i ?c (en_extractHandoff e (now x)) ?x2"
  have 1: "P ?x1" using Suc.prems by (simp add: acted)
  have sat: "P (?x1\<lparr>x_ralphSatisfied := b, x_ralphGaps := g, x_ralphSuggestions := h\<rparr>)" for b g h
    using 1 by (rule set_field) simp_all
  have bad: "P (?x1\<lparr>x_ralphSatisfied := b, x_ralphEvaluationFailed := f, x_ralphEvaluationError := r,
      x_ralphGaps := g, x_ralphSuggestions := h\<rparr>)" for b f r g h
    using 1 by (rule set_field) simp_all
  have 2: "P ?x2" using 1 by (rule set_field) simp_all
  have 3: "P ?x3" using 2 by (rule reimplement_kept)
  have 4: "x_exit ?x3 = None \<Longrightarrow> P (ralph_loop e k (Suc i) ?x3)" using Suc.IH 3 by blast
  show ?case using sat bad 2 3 4 by (simp add: Let_def)
qed simp

lemma ok_ralph: "ok P (ralph e stg)"
proof (rule okI)
  fix x :: px
  assume x: "x_exit x = None" "P x"
  let ?y = "count_result (x\<lparr>x_ralphRan := True, x_ralphSatisfied := False\<rparr>)"
  have l: "like x ?y" by (simp add: like_def count_result_def add_tokens_def on_run_def)
  have "P ?y" "x_exit ?y = None" using frame [OF x(2) l] l x(1) by (simp_all add: like_def)
  then show "P (ralph e stg x)" using x by (simp add: ralph_def ralph_loop_kept)
qed

lemma retry_call_kept: "x_exit x = None \<Longrightarrow> P x \<Longrightarrow> P (retry_call e stg x)"
proof -
  assume x: "x_exit x = None" "P x"
  obtain x1 b where c: "claimFirstResumableStage (stage_name stg) (count_retry stg x) = (x1, b)" by fastforce
  have l: "like x x1" using like_trans [OF like_ops(8) like_claim [OF c]] .
  have "P x1" "x_exit x1 = None" using frame [OF x(2) l] l x(1) by (simp_all add: like_def)
  then show ?thesis by (simp add: retry_call_def c Let_def call_kept)
qed

lemma retry_loop_kept: "x_exit x = None \<Longrightarrow> P x \<Longrightarrow> P (retry_loop e stg k x)"
proof (induction k arbitrary: x)
  case (Suc k)
  then show ?case using retry_call_kept [OF Suc.prems] by (simp add: Let_def)
qed simp

lemma ok_retries: "ok P (retries e stg)"
  by (rule okI) (simp add: retries_def retry_loop_kept)

lemma ok_fail_if: "ok P (fail_if_failed e stg)"
  by (rule okI) (simp add: fail_if_failed_def failed)

lemma validation_call_kept:
  "x_exit x = None \<Longrightarrow> P x \<Longrightarrow> validation_call e stg x = (y, b) \<Longrightarrow> P y"
proof -
  assume x: "x_exit x = None" "P x" and y: "validation_call e stg x = (y, b)"
  obtain x1 b1 where c: "claimFirstResumableStage (stage_name stg) x = (x1, b1)" by fastforce
  have "P x1" "x_exit x1 = None" using frame [OF x(2) like_claim [OF c]] like_claim [OF c] x(1)
    by (simp_all add: like_def)
  then show "P y" using y by (auto simp: validation_call_def c call_kept)
qed

lemma validation_loop_kept:
  "x_exit x = None \<Longrightarrow> P x \<Longrightarrow> validation_loop e stg k is x = (y, left) \<Longrightarrow>
     P y \<and> (left \<noteq> None \<longrightarrow> x_exit y = None)"
proof (induction k arbitrary: "is" x)
  case (Suc k)
  obtain x1 b where c: "validation_call e stg x = (x1, b)" by fastforce
  have 1: "P x1" by (rule validation_call_kept [OF Suc.prems(1,2) c])
  obtain x2 v is1 where v: "validate_result e stg b x1 = (x2, v, is1)" by (metis prod_cases3)
  have 2: "P x2" "x_exit x2 = x_exit x1" using validated [OF 1 v] validate_result_exit [OF v] by simp_all
  show ?case
    using Suc.IH [of x1 "is"] Suc.IH [of x2 is1] Suc.prems(3) 1 2 c v
    by (auto split: if_splits)
qed simp

lemma ok_validation: "ok P (validation e stg)"
proof (rule okI)
  fix x :: px
  assume x: "x_exit x = None" "P x"
  obtain x1 v is1 where v: "validate_result e stg (x_first x) x = (x1, v, is1)" by (metis prod_cases3)
  have 1: "P x1" "x_exit x1 = None" using validated [OF x(2) v] validate_result_exit [OF v] x(1) by simp_all
  obtain x2 left where l: "validation_loop e stg (if rc_strategy (pc_retry (en_config e)) = FixAndRetry
      then rc_maxAttempts (pc_retry (en_config e)) else 0) is1 x1 = (x2, left)" by fastforce
  have "P x2 \<and> (left \<noteq> None \<longrightarrow> x_exit x2 = None)" by (rule validation_loop_kept [OF 1(2,1) l])
  then show "P (validation e stg x)"
    using x 1 v l by (auto simp: validation_def Let_def failed split: option.split)
qed

lemma ok_quality: "ok P (test_quality e stg)"
proof (rule okI)
  fix x :: px
  assume "P x"
  then have 1: "P (await e QualityChecked x)" by (simp add: acted)
  then have 2: "P y" if "like (await e QualityChecked x) y" for y using that by (rule frame)
  show "P (test_quality e stg x)"
    using \<open>P x\<close> 1 by (auto simp: test_quality_def Let_def like_def intro!: 2 split: option.split sum.split)
qed

lemma ok_commit: "ok P (auto_commit e stg)"
proof (rule okI)
  fix x :: px
  assume x: "x_exit x = None" "P x"
  have 1: "P (await e (AutoCommitted b) x)" for b using x by (simp add: acted)
  let ?y = "on_run (\<lambda>r. r\<lparr>pr_autoCommitted := Some True\<rparr>) (await e (AutoCommitted True) x)"
  have "P ?y" by (rule frame [OF 1]) (simp add: like_def on_run_def)
  moreover have "x_exit ?y = None" using x by simp
  ultimately show "P (auto_commit e stg x)"
    using x 1 by (auto simp: auto_commit_def Let_def threw failed split: sum.split)
qed

lemma ok_refresh: "ok P (refresh_files e)"
proof (rule okI)
  fix x :: px
  assume "P x"
  then have 1: "P (await e FilesRead x)" by (simp add: acted)
  then have "P ((await e FilesRead x)\<lparr>x_files := fs\<rparr>)" for fs by (rule set_field) simp_all
  then show "P (refresh_files e x)" using \<open>P x\<close> 1 by (simp add: refresh_files_def Let_def)
qed

lemma ok_run_one: "ok P (run_one e stg)"
  unfolding run_one_def stage_phases_def
  by (rule ok_seqs [where P = P]) (simp add: ok_before ok_like ok_main ok_after ok_ralph ok_retries ok_budget ok_fail_if
      ok_validation ok_quality ok_commit ok_refresh)

lemma ok_run_stages: "ok P (run_stages e stgs)"
  unfolding run_stages_def by (rule ok_seqs [where P = P]) (simp add: list_all_iff ok_run_one)

end

end
