(* ===== verification/RunProps.thy ===== *)
theory RunProps
  imports RunInvariants
begin

text \<open>
  The properties of \<open>executePipeline\<close> as a whole: in which order it delivers, how many agent calls it
  makes, how it ends, and what it does not do once the stage loop is behind it.
\<close>

section \<open>The order of the deliveries\<close>

definition deliv :: "px \<Rightarrow> act list" where
  "deliv x = filter is_delivery (x_log x)"

definition undelivered :: "px \<Rightarrow> bool" where
  "undelivered x \<longleftrightarrow> x_prUrl x = [] \<and> deliv x = []"

lemma deliv_frame [simp]:
  "deliv (throw msg x) = deliv x" "deliv (return x) = deliv x" "deliv (on_sys g x) = deliv x"
  "deliv (on_run h x) = deliv x" "deliv (fail_with e st msg ex k x) = deliv x"
  "deliv (fail_stage e stg msg ex x) = deliv x" "deliv (check_budget e stg x) = deliv x"
  "deliv (cancel_run e mode x) = deliv x" "deliv (pause_for_approval e x) = deliv x"
  by (simp_all add: deliv_def pause_for_approval_def Let_def)

lemma deliv_await [simp]: "deliv (await e a x) = deliv x @ (if is_delivery a then [a] else [])"
  by (simp add: deliv_def await_def)

lemma fail_stage_frame [simp]:
  "x_prUrl (fail_stage e stg msg ex x) = x_prUrl x" "x_exit (fail_stage e stg msg ex x) = Some Returned"
  by (simp_all add: fail_stage_def)

lemma pause_frame [simp]: "x_prUrl (pause_for_approval e x) = x_prUrl x"
  by (simp_all add: pause_for_approval_def Let_def)

interpretation undelivered: stage_invariant e undelivered for e
proof
  show "undelivered y" if "undelivered x" "like x y" for x y
    using that by (simp add: undelivered_def like_def deliv_def)
qed (simp_all add: undelivered_def)

fun is_push :: "act \<Rightarrow> bool" where
  "is_push (Pushed s) = True"
| "is_push _ = False"

text \<open>A request with the draft flag of the decision, which GitLab's has no place for.\<close>

fun is_request :: "bool \<Rightarrow> act \<Rightarrow> bool" where
  "is_request d (PrRequested f b r) = (b = (d \<and> f \<noteq> GitLabApi))"
| "is_request d _ = False"

fun is_merge :: "act \<Rightarrow> bool" where
  "is_merge (MergeRequested f) = True"
| "is_merge _ = False"

fun in_order :: "bool \<Rightarrow> act list \<Rightarrow> bool" where
  "in_order d [] = True"
| "in_order d [p] = is_push p"
| "in_order d [p, q] = (is_push p \<and> is_request d q)"
| "in_order d (p # q # m # rest) = (is_push p \<and> is_request d q \<and> is_merge m \<and> \<not> d \<and> rest = [])"

text \<open>The stations of the push section, with the draft decision taken before it.\<close>

definition at_rebase :: "bool \<Rightarrow> px \<Rightarrow> bool" where
  "at_rebase d x \<longleftrightarrow> undelivered x \<and> x_shouldDraft x = d"

definition at_request :: "bool \<Rightarrow> px \<Rightarrow> bool" where
  "at_request d x \<longleftrightarrow> (\<exists>s. deliv x = [Pushed s]) \<and> x_prUrl x = [] \<and> x_shouldDraft x = d"

definition at_merge :: "bool \<Rightarrow> px \<Rightarrow> bool" where
  "at_merge d x \<longleftrightarrow> at_request d x \<or> x_shouldDraft x = d \<and>
     (\<exists>s f r. deliv x = [Pushed s, PrRequested f (d \<and> f \<noteq> GitLabApi) r])"

definition shipped :: "bool \<Rightarrow> px \<Rightarrow> bool" where
  "shipped d x \<longleftrightarrow> x_shouldDraft x = d \<and> in_order d (deliv x)"

lemma station_shipped:
  "at_rebase d x \<Longrightarrow> shipped d x" "at_request d x \<Longrightarrow> shipped d x" "at_merge d x \<Longrightarrow> shipped d x"
  by (auto simp: at_rebase_def at_request_def at_merge_def shipped_def undelivered_def)

text \<open>A phase leads from one station to the next, unless the run has left with what it has shipped.\<close>

definition reached :: "bool \<Rightarrow> (px \<Rightarrow> bool) \<Rightarrow> px \<Rightarrow> bool" where
  "reached d A x \<longleftrightarrow> A x \<or> x_exit x \<noteq> None \<and> shipped d x"

lemma reached_step:
  assumes "reached d A x" "\<And>x. A x \<Longrightarrow> shipped d x" "\<And>x. x_exit x = None \<Longrightarrow> A x \<Longrightarrow> B (f x)"
  shows "reached d B (step f x)"
  using assms by (auto simp: reached_def step_def)

lemma reached_here: "A x \<Longrightarrow> reached d A x"
  by (simp add: reached_def)

lemma draft_kept [simp]:
  "x_shouldDraft (on_run h x) = x_shouldDraft x" "x_shouldDraft (throw msg x) = x_shouldDraft x"
  "x_shouldDraft (applyCollisionRecovery r x) = x_shouldDraft x"
  "x_shouldDraft (add_tokens i j x) = x_shouldDraft x" "x_shouldDraft (count_result x) = x_shouldDraft x"
  "x_shouldDraft (fail_with e st msg ex k x) = x_shouldDraft x"
  by (simp_all add: on_run_def throw_def applyCollisionRecovery_def add_tokens_def count_result_def
      fail_with_def case_prod_unfold Let_def split: option.split)

lemma run_stage_draft: "x_shouldDraft (run_stage e c x) = x_shouldDraft x"
  by (simp add: run_stage_def split: sum.split)

lemma seq_draft: "list_all (\<lambda>f. \<forall>x. x_shouldDraft (f x) = x_shouldDraft x) fs \<Longrightarrow>
    x_shouldDraft (seq fs x) = x_shouldDraft x"
  by (induction fs arbitrary: x) (simp_all add: step_def)

lemma rebase_draft: "x_shouldDraft (rebase_phase e x) = x_shouldDraft x"
proof -
  have "x_shouldDraft (resolve_conflict e y) = x_shouldDraft y" for y
  proof -
    obtain y1 b where c: "claimFirstResumableStage (stage_name Implement) (await e RebaseAborted y) = (y1, b)"
      by fastforce
    then have "x_shouldDraft y1 = x_shouldDraft (await e RebaseAborted y)"
      by (auto simp: claimFirstResumableStage_def split: if_splits)
    moreover have "x_shouldDraft (seq [run_stage e cl, count_result,
        \<lambda>y. y\<lparr>x_rebaseConflict := (re_status (x_result y) \<noteq> StageCompleted)\<rparr>] y1) = x_shouldDraft y1" for cl
      by (rule seq_draft) (simp add: run_stage_draft)
    ultimately show ?thesis unfolding resolve_conflict_def c by (simp add: Let_def del: seq.simps)
  qed
  then show ?thesis by (simp add: rebase_phase_def Let_def)
qed

lemma commit_station: "at_rebase d x \<Longrightarrow> at_rebase d (push_auto_commit e x)"
  by (auto simp: at_rebase_def undelivered_def push_auto_commit_def Let_def
      split: sum.split)

lemma rebase_station: "x_exit x = None \<Longrightarrow> at_rebase d x \<Longrightarrow> at_rebase d (rebase_phase e x)"
  using undelivered.rebase_kept [of x e] by (simp add: at_rebase_def rebase_draft)

lemma push_station: "at_rebase d x \<Longrightarrow> at_request d (push_phase e x)"
  by (auto simp: at_rebase_def at_request_def undelivered_def push_phase_def Let_def
      split: option.split)

lemma create_station: "at_request d x \<Longrightarrow> at_merge d (create_pr e x)"
  by (auto simp: at_merge_def at_request_def create_pr_def pr_action_def Let_def on_run_def
      deliv_def await_def split: option.split sum.split forge.split)

lemma middle_station:
  assumes "at_merge d x"
  shows "at_merge d (audit_reviewers e x)" "at_merge d (post_fanout e x)" "at_merge d (flag_conflict e x)"
    "at_merge d (draft_comment e x)"
  using assms
  by (auto simp: at_merge_def at_request_def audit_reviewers_def post_fanout_def flag_conflict_def
      draft_comment_def Let_def split: option.split)

lemma auto_merge_draft: "x_shouldDraft (auto_merge e x) = x_shouldDraft x"
proof -
  have read: "x_shouldDraft y = x_shouldDraft x" if "read_diff e x = (y, v)" for x y v
    using that by (auto simp: read_diff_def Let_def split: if_splits)
  have gate: "x_shouldDraft y = x_shouldDraft x" if "reviewer_gate e x = (y, v)" for x y v
    using that
    by (auto simp: reviewer_gate_def Let_def split: option.splits bool.splits if_splits sum.splits)
  have mw: "x_shouldDraft (merge_with e f m t x) = x_shouldDraft x" for f m t x
    by (simp add: merge_with_def Let_def alert_def set_reason_def split: sum.split bool.split)
  have merge: "x_shouldDraft (do_merge e x) = x_shouldDraft x" for x
    unfolding do_merge_def by (simp only: mw split: if_split) simp
  show ?thesis
    by (auto simp: auto_merge_def Let_def merge alert_def set_reason_def split: prod.split option.split
        dest: read gate)
qed

lemma merge_station: "at_merge d x \<Longrightarrow> shipped d (auto_merge e x)"
proof -
  assume x: "at_merge d x"
  obtain reads m where a: "x_log (auto_merge e x) = x_log x @ reads @ m"
    "list_all is_read reads" "m = [] \<or> (\<exists>f. m = [MergeRequested f] \<and> merge_allowed e x)"
    using auto_merge_effect by blast
  have "is_read a \<Longrightarrow> \<not> is_delivery a" for a by (cases a) simp_all
  then have "filter is_delivery reads = []" using a(2) by (auto simp: filter_empty_conv list_all_iff)
  then have log: "deliv (auto_merge e x) = deliv x @ m" using a(1,3) by (auto simp: deliv_def)
  show ?thesis
  proof (cases "m = []")
    case True
    then show ?thesis
      using station_shipped(3) [OF x] log by (simp add: shipped_def auto_merge_draft)
  next
    case False
    then obtain f where "m = [MergeRequested f]" "merge_allowed e x" using a(3) by blast
    then show ?thesis
      using x log
      by (auto simp: at_merge_def at_request_def shipped_def merge_allowed_def auto_merge_draft)
  qed
qed

lemma push_section_shipped:
  assumes "at_rebase d x"
  shows "shipped d (push_section e x)"
proof -
  note move = reached_step [OF _ station_shipped(1)] reached_step [OF _ station_shipped(2)]
    reached_step [OF _ station_shipped(3)]
  let ?x1 = "step (push_auto_commit e) x"
  let ?x2 = "step (rebase_phase e) ?x1"
  let ?x3 = "step (push_phase e) ?x2"
  let ?x4 = "step (create_pr e) ?x3"
  let ?x5 = "step (audit_reviewers e) ?x4"
  let ?x6 = "step (post_fanout e) ?x5"
  let ?x7 = "step (flag_conflict e) ?x6"
  let ?x8 = "step (draft_comment e) ?x7"
  have "reached d (at_rebase d) ?x1"
    using reached_here [of "at_rebase d", OF assms] by (rule move(1)) (simp_all add: commit_station)
  then have "reached d (at_rebase d) ?x2" by (rule move(1)) (simp_all add: rebase_station)
  then have "reached d (at_request d) ?x3" by (rule move(1)) (simp_all add: push_station)
  then have "reached d (at_merge d) ?x4" by (rule move(2)) (simp_all add: create_station)
  then have "reached d (at_merge d) ?x5" by (rule move(3)) (simp_all add: middle_station)
  then have "reached d (at_merge d) ?x6" by (rule move(3)) (simp_all add: middle_station)
  then have "reached d (at_merge d) ?x7" by (rule move(3)) (simp_all add: middle_station)
  then have "reached d (at_merge d) ?x8" by (rule move(3)) (simp_all add: middle_station)
  then have "reached d (shipped d) (step (auto_merge e) ?x8)" by (rule move(3)) (simp_all add: merge_station)
  then show ?thesis by (simp add: push_section_def reached_def) blast
qed

lemma shipped_frame:
  assumes "shipped d x" "x_shouldDraft y = x_shouldDraft x" "deliv y = deliv x"
  shows "shipped d y"
  using assms by (simp add: shipped_def)

lemma under_lock_shipped: "at_rebase d x \<Longrightarrow> shipped d (under_lock e (push_section e) x)"
proof -
  assume x: "at_rebase d x"
  have "at_rebase d (await e LockTaken x)" using x by (simp add: at_rebase_def undelivered_def)
  from push_section_shipped [OF this, of e] x show ?thesis
    by (auto simp: under_lock_def Let_def at_rebase_def undelivered_def shipped_def split: option.split)
qed

lemma end_shipped:
  assumes "shipped d x"
  shows "shipped d (complete e x)" "shipped d (on_error e x)" "shipped d (clean_up e x)"
  using assms
  by (simp_all add: shipped_def complete_def on_error_def clean_up_def Let_def
      split: option.split exit.split)

lemma undelivered_up_to_draft:
  assumes "undelivered x"
  shows "undelivered (seq (setup_phases e b @ [run_stages e stgs] @ review_phases e) x)"
proof (rule ok_seq [where P = undelivered])
  show "list_all (ok undelivered) (setup_phases e b @ [run_stages e stgs] @ review_phases e)"
    using undelivered.ok_setup_phases [of e b] undelivered.ok_run_stages [of e stgs]
      undelivered.ok_review_phases [of e] by simp
qed (rule assms)

lemma try_block_shipped:
  assumes "undelivered x"
  shows "shipped (x_shouldDraft (try_block e b x)) (try_block e b x)"
proof -
  let ?y = "seq (setup_phases e b @ [run_stages e (stages_to_run e b)] @ review_phases e) x"
  have y: "undelivered ?y" using assms by (rule undelivered_up_to_draft)
  let ?z = "step (draft_decision e) ?y"
  let ?d = "x_shouldDraft ?z"
  have z: "at_rebase ?d ?z"
    using ok_step [OF undelivered.ok_draft_decision y] by (simp add: at_rebase_def)
  have "reached ?d (shipped ?d) (step (under_lock e (push_section e)) ?z)"
    using reached_here [of "at_rebase ?d", OF z]
    by (rule reached_step [OF _ station_shipped(1)]) (simp_all add: under_lock_shipped)
  then have "shipped ?d (step (under_lock e (push_section e)) ?z)" by (auto simp: reached_def)
  then have "shipped ?d (step (complete e) (step (under_lock e (push_section e)) ?z))"
    by (simp add: step_def end_shipped)
  moreover have "try_block e b x = step (complete e) (step (under_lock e (push_section e)) ?z)"
    unfolding try_block_def delivery_phases_def append_assoc [symmetric] seq_append [of _ "[_, _, _]"]
    by simp
  ultimately show ?thesis by (simp add: shipped_def)
qed

text \<open>
  C1. The order of the deliveries. Whatever the agents, the forges and git answer, a run pushes at most
  once, requests a pull request at most once and only behind its push, and asks for a merge at most once
  and only behind the request; the request carries the draft flag of the decision except on GitLab,
  where a run to be drafted is requested as ready; and what is to be a draft is never merged.
\<close>

theorem deliveries_in_order:
  "in_order (x_shouldDraft (executePipeline e b s run)) (filter is_delivery (x_log (executePipeline e b s run)))"
proof -
  have "undelivered (begin_run e b (initial_px s run None))"
    by (cases b) (simp_all add: undelivered_def deliv_def begin_run_def announce_run_def mark_running_def
        on_sys_def on_run_def initial_px_def)
  from try_block_shipped [OF this, of e b]
  have "shipped (x_shouldDraft (try_block e b (begin_run e b (initial_px s run None))))
      (executePipeline e b s run)"
    unfolding executePipeline_def by (intro end_shipped)
  then show ?thesis by (simp add: shipped_def deliv_def)
qed

section \<open>How a run ends\<close>

text \<open>
  Behind the stage loop the status is the one it had, or the completion, or a failure; a phase that
  returns has failed the run.
\<close>

definition closing :: "run_status \<Rightarrow> px \<Rightarrow> bool" where
  "closing st x \<longleftrightarrow>
     (x_exit x = Some Returned \<longrightarrow> pr_status (x_run x) \<in> {Failed, Retriable}) \<and>
     pr_status (x_run x) \<in> {st, Completed, Failed, Retriable}"

lemma fail_with_status: "pr_status (x_run (fail_with e stg msg ex k x)) \<in> {Failed, Retriable}"
  by (simp add: fail_with_def failPipeline_def mark_failed_def mark_retriable_def Let_def
      split: option.split prod.split)

lemma fail_stage_status: "pr_status (x_run (fail_stage e stg msg ex x)) \<in> {Failed, Retriable}"
  using fail_with_status [of e "stage_name stg" msg ex "stage_index e stg" x] by (simp add: fail_stage_def)

lemma budget_end:
  assumes "x_exit x = None"
  shows "x_exit (check_budget e stg x) = None \<and> x_run (check_budget e stg x) = x_run x \<or>
    x_exit (check_budget e stg x) = Some Returned \<and> pr_status (x_run (check_budget e stg x)) \<in> {Failed, Retriable}"
proof -
  obtain s run stop where c: "checkTokenBudget (en_fmt e) (en_runId e) (x_run x) (en_config e) (stage_name stg)
      (x_sys x) = (s, run, stop)" by (metis prod_cases3)
  have "if stop then pr_status run \<in> {Failed, Retriable} else run = x_run x"
    using c
    by (auto simp: checkTokenBudget_def failPipeline_None mark_failed_def Let_def split: option.splits if_splits)
  then show ?thesis
    using assms by (auto simp: check_budget_def c return_def split: if_splits)
qed

interpretation closing: review_invariant e "closing st" for e st
proof
  show "closing st y" if "closing st x" "like x y" for x y
    using that by (simp add: closing_def like_def)
  show "closing st (await e a x)" if "closing st x" "\<not> is_delivery a" for x a
    using that by (simp add: closing_def await_def)
  show "closing st (throw msg x)" if "closing st x" "x_exit x = None" for x msg
    using that by (simp add: closing_def)
  show "closing st (fail_stage e stg msg ex x)" if "closing st x" "x_exit x = None" for x stg msg ex
    using fail_stage_status [of e stg msg ex x] by (auto simp: closing_def)
  show "closing st (check_budget e stg x)" if "closing st x" "x_exit x = None" for x stg
    using budget_end [OF that(2), of e stg] that by (auto simp: closing_def)
qed

lemma closing_acted: "closing st x \<Longrightarrow> closing st (await e a x)"
  by (simp add: closing_def await_def)

lemma closing_frame:
  "closing st x \<Longrightarrow> x_exit y = x_exit x \<Longrightarrow> pr_status (x_run y) = pr_status (x_run x) \<Longrightarrow> closing st y"
  by (simp add: closing_def)

lemma closing_thrown: "closing st x \<Longrightarrow> closing st (throw msg x)"
  by (simp add: closing_def)

lemma ok_push_commit: "ok (closing st) (push_auto_commit e)"
proof (rule okI)
  fix x :: px
  assume x: "closing st x"
  have 1: "closing st (on_run (\<lambda>r. r\<lparr>pr_autoCommitted := Some True\<rparr>) (await e a x))" for a
    by (rule closing_frame [OF x]) (simp_all add: on_run_def)
  have 2: "closing st (throw msg (fail_with e stg msg ex k y))" for msg stg ex k y
    using fail_with_status [of e stg msg ex k y] by (auto simp: closing_def)
  show "closing st (push_auto_commit e x)"
    using x 1 2 by (simp add: push_auto_commit_def Let_def closing_acted closing_thrown split: sum.split)
qed

lemma ok_closing_frame:
  "(\<And>x. x_exit (f x) = x_exit x) \<Longrightarrow> (\<And>x. pr_status (x_run (f x)) = pr_status (x_run x)) \<Longrightarrow>
     ok (closing st) f"
  by (rule okI) (rule closing_frame)

lemma ok_push: "ok (closing st) (push_phase e)"
  by (rule okI) (simp add: push_phase_def Let_def closing_acted closing_thrown split: option.split)

lemma merge_end:
  "x_exit (merge_with e f m t x) = x_exit x"
  "pr_status (x_run (merge_with e f m t x)) = pr_status (x_run x)"
  by (simp_all add: merge_with_def Let_def alert_def set_reason_def on_run_def split: sum.split bool.split)

lemma do_merge_end:
  "x_exit (do_merge e x) = x_exit x" "pr_status (x_run (do_merge e x)) = pr_status (x_run x)"
  unfolding do_merge_def by (simp_all only: merge_end split: if_split) simp_all

lemma auto_merge_end:
  "x_exit (auto_merge e x) = x_exit x" "pr_status (x_run (auto_merge e x)) = pr_status (x_run x)"
proof -
  have read: "x_exit y = x_exit x \<and> x_run y = x_run x" if "read_diff e x = (y, v)" for x y v
    using that by (auto simp: read_diff_def Let_def split: if_splits)
  have gate: "x_exit y = x_exit x \<and> x_run y = x_run x" if "reviewer_gate e x = (y, v)" for x y v
    using that
    by (auto simp: reviewer_gate_def Let_def split: option.splits bool.splits if_splits sum.splits)
  obtain x1 v1 where 1: "read_diff e x = (x1, v1)" by fastforce
  obtain x2 v2 where 2: "reviewer_gate e x1 = (x2, v2)" by fastforce
  show "x_exit (auto_merge e x) = x_exit x" "pr_status (x_run (auto_merge e x)) = pr_status (x_run x)"
    using read [OF 1] gate [OF 2]
    by (simp_all add: auto_merge_def Let_def 1 2 do_merge_end alert_def set_reason_def on_run_def
        split: option.split)
qed

lemma request_end:
  "x_exit (create_pr e x) = x_exit x" "pr_status (x_run (create_pr e x)) = pr_status (x_run x)"
  "x_exit (audit_reviewers e x) = x_exit x" "pr_status (x_run (audit_reviewers e x)) = pr_status (x_run x)"
  "x_exit (post_fanout e x) = x_exit x" "pr_status (x_run (post_fanout e x)) = pr_status (x_run x)"
  "x_exit (flag_conflict e x) = x_exit x" "pr_status (x_run (flag_conflict e x)) = pr_status (x_run x)"
  "x_exit (draft_comment e x) = x_exit x" "pr_status (x_run (draft_comment e x)) = pr_status (x_run x)"
  by (simp_all add: create_pr_def audit_reviewers_def post_fanout_def flag_conflict_def draft_comment_def
      Let_def on_run_def split: option.split sum.split)

lemma push_section_closing: "closing st x \<Longrightarrow> closing st (push_section e x)"
  unfolding push_section_def
  by (rule ok_seq [where P = "closing st"])
     (simp_all add: ok_push_commit ok_push closing.rebase_kept okI ok_closing_frame request_end auto_merge_end
       del: seq.simps)

lemma under_lock_closing: "ok (closing st) (under_lock e (push_section e))"
proof (rule okI)
  fix x :: px
  assume "closing st x"
  then show "closing st (under_lock e (push_section e) x)"
    using push_section_closing [of st "await e LockTaken x" e]
    by (simp add: under_lock_def Let_def closing_acted closing_thrown split: option.split)
qed

lemma complete_end: "x_exit (complete e x) = x_exit x" "pr_status (x_run (complete e x)) = Completed"
  by (simp_all add: complete_def Let_def on_run_def on_sys_def)

lemma ok_complete: "ok (closing st) (complete e)"
  by (rule okI) (simp add: closing_def complete_end)

lemma ok_late: "list_all (ok (closing st)) (review_phases e @ delivery_phases e)"
  using closing.ok_review_phases [of st e]
  by (simp add: delivery_phases_def closing.ok_draft_decision under_lock_closing ok_complete)

text \<open>
  A state is settled if, whenever the pipeline has returned, the run is cancelled, paused, failed or
  kept for a retry.
\<close>

definition settled_status :: "run_status \<Rightarrow> bool" where
  "settled_status st \<longleftrightarrow> st \<in> {Cancelled, Paused, Failed, Retriable}"

definition settled :: "px \<Rightarrow> bool" where
  "settled x \<longleftrightarrow> (x_exit x = Some Returned \<longrightarrow> settled_status (pr_status (x_run x)))"

lemma settled_running [simp]: "x_exit x = None \<Longrightarrow> settled x"
  by (simp add: settled_def)

lemma settled_threw [simp]: "x_exit x = Some (Threw msg) \<Longrightarrow> settled x"
  by (simp add: settled_def)

lemma failPipeline_settled: "settled_status (pr_status (snd (failPipeline rid run st msg ex ctx s)))"
  by (simp add: failPipeline_def mark_failed_def mark_retriable_def Let_def settled_status_def
      split: option.split prod.split)

lemma settled_fail [simp]: "settled (fail_stage e stg msg ex x)"
  using failPipeline_settled [of "en_runId e" "x_run x" "stage_name stg" msg ex
      "Some (fail_context_at e (stage_index e stg) x)" "x_sys x"]
  by (simp add: settled_def fail_stage_def fail_with_def return_def case_prod_unfold Let_def)

lemma settled_cancel [simp]: "settled (cancel_run e mode x)"
  by (simp add: settled_def cancel_run_def markRunCancelled_def return_def Let_def settled_status_def)

lemma settled_pause [simp]: "settled (pause_for_approval e x)"
  by (simp add: settled_def pause_for_approval_def return_def on_sys_def on_run_def Let_def
      settled_status_def)

lemma budget_status:
  "checkTokenBudget fmt rid run cfg st s = (s', run', True) \<Longrightarrow> settled_status (pr_status run')"
  using failPipeline_settled
  by (auto simp: checkTokenBudget_def Let_def case_prod_unfold split: option.splits if_splits)

lemma settled_budget [simp]: "x_exit x = None \<Longrightarrow> settled (check_budget e stg x)"
  by (auto simp: check_budget_def settled_def return_def Let_def dest: budget_status split: prod.split)

interpretation settled: stage_invariant e settled for e
proof
  show "settled y" if "settled x" "like x y" for x y
    using that by (simp add: settled_def like_def)
  show "settled (await e a x)" if "settled x" "\<not> is_delivery a" for x a
    using that by (simp add: settled_def await_def)
qed simp_all

text \<open>
  The stage loop never returns with the run still running. When \<open>executePipeline\<close> leaves the loop
  with a \<open>return\<close>, the run is cancelled, paused, failed or kept for a retry.
\<close>

theorem loop_returns_settled:
  assumes "x_exit x = None" "x_exit (run_stages e stgs x) = Some Returned"
  shows "pr_status (x_run (run_stages e stgs x)) \<in> {Cancelled, Paused, Failed, Retriable}"
  using okD [OF settled.ok_run_stages [of e stgs] assms(1) settled_running [OF assms(1)]] assms(2)
  by (simp add: settled_def settled_status_def)

theorem loop_returns_settled_witness:
  "x_exit (run_stages (demo_pipeline demo_cfg (\<lambda>n c. Inl [])) [AwaitApproval] demo_px) = Some Returned \<and>
   pr_status (x_run (run_stages (demo_pipeline demo_cfg (\<lambda>n c. Inl [])) [AwaitApproval] demo_px))
     \<in> {Cancelled, Paused, Failed, Retriable}"
proof -
  have 1: "x_exit demo_px = None" by (simp add: demo_exec_defs)
  have 2: "x_exit (run_stages (demo_pipeline demo_cfg (\<lambda>n c. Inl [])) [AwaitApproval] demo_px) = Some Returned"
    using run_approval [OF 1] by (simp add: run_stages_def step_def 1 before_approval_exit)
  show ?thesis using loop_returns_settled [OF 1 2] 2 by blast
qed

lemma closing_settled: "closing st x \<Longrightarrow> settled x"
  by (auto simp: closing_def settled_def settled_status_def)

lemma late_settled: "settled x \<Longrightarrow> settled (seq (review_phases e @ delivery_phases e) x)"
proof (cases "x_exit x")
  case None
  then have "closing (pr_status (x_run x)) x" by (simp add: closing_def)
  then show ?thesis using ok_seq [OF ok_late] closing_settled by blast
qed simp

lemma try_block_settled: "settled x \<Longrightarrow> settled (try_block e b x)"
proof -
  assume x: "settled x"
  have "settled (seq (setup_phases e b @ [run_stages e (stages_to_run e b)]) x)"
    using settled.ok_setup_phases [of e b] settled.ok_run_stages [of e "stages_to_run e b"] x
    by (intro ok_seq [where P = settled]) simp_all
  from late_settled [OF this, of e] show ?thesis by (simp add: try_block_def seq_append)
qed

lemma try_block_done: "x_exit (try_block e b x) = None \<Longrightarrow> pr_status (x_run (try_block e b x)) = Completed"
proof -
  assume y: "x_exit (try_block e b x) = None"
  have e: "try_block e b x = seq ((setup_phases e b @ [run_stages e (stages_to_run e b)] @ review_phases e @
      [draft_decision e, under_lock e (push_section e)]) @ [complete e]) x"
    by (simp add: try_block_def delivery_phases_def)
  show ?thesis using seq_snoc_none [OF y [unfolded e]] unfolding e by (metis complete_end(2))
qed

lemma on_error_status:
  assumes "settled x" "x_exit x = None \<Longrightarrow> pr_status (x_run x) = Completed"
  shows "pr_status (x_run (on_error e x)) \<in> {Completed, Cancelled, Paused, Failed, Retriable}"
proof (cases "x_exit x")
  case None
  then show ?thesis using assms(2) by (simp add: on_error_def)
next
  case (Some ex)
  show ?thesis
  proof (cases ex)
    case Returned
    then show ?thesis using assms(1) Some by (auto simp: on_error_def settled_def settled_status_def)
  next
    case (Threw msg)
    then show ?thesis
      using Some fail_with_status [of e "''unknown''" msg True "x_lastStageIndex x" x]
      by (auto simp: on_error_def)
  qed
qed

lemma clean_up_run: "x_run (clean_up e x) = x_run x"
  by (simp add: clean_up_def Let_def)

section \<open>What a run does to the outside world\<close>

text \<open>The actions of everything but the clean-up.\<close>

definition kept_worktree :: "act \<Rightarrow> bool" where
  "kept_worktree a \<longleftrightarrow> a \<noteq> WorktreeDeleted"

definition adds :: "nat \<Rightarrow> (px \<Rightarrow> px) \<Rightarrow> bool" where
  "adds n f \<longleftrightarrow> (\<forall>x. ext n kept_worktree x (f x))"

lemma addsI: "(\<And>x. ext n kept_worktree x (f x)) \<Longrightarrow> adds n f"
  by (simp add: adds_def)

lemma adds_seq: "list_all2 adds ns fs \<Longrightarrow> adds (sum_list ns) (seq fs)"
  by (rule addsI, rule ext_seq, erule list_all2_mono) (simp add: adds_def)

lemma ext_await_then: "x_log y = x_log x @ [a] \<Longrightarrow> kept_worktree a \<Longrightarrow> \<not> is_call a \<Longrightarrow> ext n kept_worktree x y"
  by (simp add: ext_def)

lemma await_log: "x_log (await e a x) = x_log x @ [a]"
  by (simp add: await_def)

lemma attempt_log: "x_log (attempt e a out x) = x_log x @ [a]"
  by (simp add: attempt_def await_log split: option.split)

lemma adds_one: "(\<And>x. x_log (f x) = x_log x \<or> (\<exists>a. x_log (f x) = x_log x @ [a] \<and> kept_worktree a \<and> \<not> is_call a)) \<Longrightarrow> adds n f"
  by (rule addsI) (metis ext_same ext_await_then)

lemma setup_adds:
  "adds 0 (clone_repo e)" "adds 0 (create_worktree e)" "adds 0 (start_devcontainer e)"
  "adds 0 (setup_command e c)" "adds 0 (detect_stack e)" "adds 0 (persist_context e)"
  by (rule adds_one, simp add: clone_repo_def create_worktree_def start_devcontainer_def setup_command_def
      detect_stack_def persist_context_def attempt_log await_log kept_worktree_def split: sum.split)+

lemma setup_phases_add: "list_all2 adds (map (\<lambda>_. 0) (setup_phases e b)) (setup_phases e b)"
proof -
  have "adds (sum_list (map (\<lambda>_. 0) cs)) (seq (map (setup_command e) cs))" for cs
    by (rule adds_seq) (simp add: list_all2_map1 list_all2_map2 list.rel_refl_strong setup_adds)
  then have "adds 0 (setup_commands e)" by (simp add: setup_commands_def)
  moreover from this have "adds (sum_list [0, 0, 0, 0]) (fresh_setup e)"
    unfolding fresh_setup_def by (intro adds_seq) (simp add: setup_adds)
  ultimately show ?thesis by (cases b) (simp_all add: setup_phases_def setup_adds)
qed

lemma gates_add:
  "adds 0 draft_base" "adds 0 (policy_gate e)" "adds 0 (scratch_gate e)" "adds 0 (typecheck_gate e)"
  "adds 0 (spec_gate e)"
  by (rule adds_one, simp add: draft_base_def policy_gate_def scratch_gate_def typecheck_gate_def spec_gate_def
      add_blocking_def Let_def await_log kept_worktree_def split: option.split sum.split prod.split)+

lemma draft_decision_adds: "adds 0 (draft_decision e)"
proof -
  have "adds (sum_list [0, 0, 0, 0, 0]) (draft_decision e)"
    unfolding draft_decision_def by (rule adds_seq) (simp add: gates_add)
  then show ?thesis by simp
qed

lemma loops_add:
  "adds (length stgs * max_calls e) (run_stages e stgs)"
  "adds (reviewFixIterations e * length (fix_stages e)) (review_fix e)"
  "adds 0 (auto_deep_review e)"
proof -
  have *: "kept_worktree a" if "loop_act S a \<or> review_act a" for S a
    using that by (cases a) (simp_all add: kept_worktree_def)
  show "adds (length stgs * max_calls e) (run_stages e stgs)"
    by (rule addsI, rule ext_weaken [OF run_stages_ext]) (use * in blast)
  show "adds (reviewFixIterations e * length (fix_stages e)) (review_fix e)"
    by (rule addsI) (auto simp: review_fix_def intro: ext_weaken [OF review_fix_loop_ext] *)
  show "adds 0 (auto_deep_review e)"
    by (rule adds_one) (simp add: auto_deep_review_def Let_def await_log kept_worktree_def split: prod.split)
qed

definition max_passes :: "pipeline_env \<Rightarrow> nat" where
  "max_passes e = (case pc_maxDeepReviewPasses (en_config e) of None \<Rightarrow> 3 | Some n \<Rightarrow> n)"

lemma deep_review_adds: "adds (2 * max_passes e) (deep_review e)"
proof (rule addsI)
  fix x
  have *: "kept_worktree a" if "review_act a" for a using that by (cases a) (simp_all add: kept_worktree_def)
  have "ext (2 * pass_limit e x) kept_worktree x (deep_loop e (pass_limit e x) 1 [] None x)"
    by (rule ext_weaken [OF deep_loop_ext]) (rule *)
  moreover have "pass_limit e x \<le> max_passes e" by (simp add: pass_limit_def max_passes_def)
  ultimately show "ext (2 * max_passes e) kept_worktree x (deep_review e x)"
    by (auto simp: deep_review_def intro: ext_mono)
qed

lemma push_adds:
  "adds 0 (push_auto_commit e)" "adds 0 (push_phase e)" "adds 0 (create_pr e)"
  "adds 0 (audit_reviewers e)" "adds 0 (post_fanout e)" "adds 0 (flag_conflict e)"
  "adds 0 (draft_comment e)" "adds 0 (complete e)" "adds 0 (on_error e)"
  by (rule adds_one, simp add: push_auto_commit_def push_phase_def create_pr_def pr_action_def
      audit_reviewers_def post_fanout_def flag_conflict_def draft_comment_def complete_def on_error_def
      Let_def await_log kept_worktree_def split: option.split sum.split forge.split exit.split)+

lemma auto_merge_adds: "adds 0 (auto_merge e)"
proof (rule addsI)
  fix x
  obtain reads m where a: "x_log (auto_merge e x) = x_log x @ reads @ m" "list_all is_read reads"
    "m = [] \<or> (\<exists>f. m = [MergeRequested f] \<and> merge_allowed e x)"
    using auto_merge_effect by blast
  have "is_read a \<Longrightarrow> kept_worktree a \<and> \<not> is_call a" for a by (cases a) (simp_all add: kept_worktree_def)
  then have "list_all kept_worktree reads" "filter is_call reads = []"
    using a(2) by (auto simp: filter_empty_conv list_all_iff)
  then show "ext 0 kept_worktree x (auto_merge e x)"
    using a(1,3) by (auto simp: ext_def kept_worktree_def)
qed

lemma rebase_adds: "adds (Suc 0) (rebase_phase e)"
proof (rule addsI)
  fix x
  let ?y = "(await e Rebased x)\<lparr>x_rebaseConflict := False\<rparr>"
  obtain y1 b where c: "claimFirstResumableStage (stage_name Implement) (await e RebaseAborted ?y) = (y1, b)"
    by fastforce
  have 1: "ext 0 kept_worktree x y1"
    using claim_log [OF c] by (simp add: ext_def await_log kept_worktree_def)
  have "ext (sum_list [Suc 0, 0, 0]) kept_worktree y1 (seq [run_stage e cl, count_result,
      \<lambda>y. y\<lparr>x_rebaseConflict := (re_status (x_result y) \<noteq> StageCompleted)\<rparr>] y1)" for cl
    by (rule ext_seq) (simp add: run_stage_ext ext_same kept_worktree_def)
  from ext_trans [OF 1 this, of "Suc 0"] have "ext (Suc 0) kept_worktree x (resolve_conflict e ?y)"
    unfolding resolve_conflict_def c by (simp add: Let_def del: seq.simps)
  then show "ext (Suc 0) kept_worktree x (rebase_phase e x)"
    by (simp add: rebase_phase_def Let_def ext_def await_log kept_worktree_def)
qed

lemma under_lock_adds: "adds (Suc 0) (under_lock e (push_section e))"
proof (rule addsI)
  fix x
  have "adds (sum_list [0, Suc 0, 0, 0, 0, 0, 0, 0, 0]) (push_section e)"
    unfolding push_section_def by (rule adds_seq) (simp add: push_adds rebase_adds auto_merge_adds)
  then have 2: "ext (Suc 0) kept_worktree (await e LockTaken x) (push_section e (await e LockTaken x))"
    by (simp add: adds_def)
  have "ext 0 kept_worktree x (await e LockTaken x)" by (rule ext_await) (simp_all add: kept_worktree_def)
  from ext_trans [OF this 2, of "Suc 0"] show "ext (Suc 0) kept_worktree x (under_lock e (push_section e) x)"
    by (auto simp: under_lock_def Let_def ext_def await_log kept_worktree_def split: option.split)
qed

text \<open>The agent calls a run can make.\<close>

definition run_calls :: "pipeline_env \<Rightarrow> nat" where
  "run_calls e = length (pc_stages (en_config e)) * max_calls e +
     reviewFixIterations e * length (fix_stages e) + 2 * max_passes e + 1"

lemma stages_to_run_le: "length (stages_to_run e b) \<le> length (pc_stages (en_config e))"
  by (simp add: stages_to_run_def slice_def split: beginning.split)

lemma try_block_adds: "adds (run_calls e) (try_block e b)"
proof -
  let ?ns = "map (\<lambda>_. 0) (setup_phases e b) @ [length (stages_to_run e b) * max_calls e] @
    [reviewFixIterations e * length (fix_stages e), 0, 2 * max_passes e] @ [0, Suc 0, 0]"
  have "adds (sum_list ?ns) (try_block e b)"
    unfolding try_block_def review_phases_def delivery_phases_def
    by (rule adds_seq)
       (intro list_all2_appendI setup_phases_add,
        simp_all add: loops_add deep_review_adds draft_decision_adds under_lock_adds push_adds)
  moreover have "sum_list ?ns \<le> run_calls e"
    using mult_le_mono1 [OF stages_to_run_le [of e b], of "max_calls e"] by (simp add: run_calls_def)
  ultimately show ?thesis unfolding adds_def by (blast intro: ext_mono)
qed

lemma clean_up_log:
  "\<exists>d w. x_log (clean_up e x) = x_log x @ d @ w \<and> set d \<subseteq> {DevcontainerDown} \<and>
     (w = [] \<or> w = [WorktreeDeleted] \<and> pr_status (x_run x) \<in> {Completed, Failed})"
proof -
  let ?d = "if x_devcontainer x then [DevcontainerDown] else []"
  let ?w = "if x_worktree x \<noteq> None \<and> (pr_status (x_run x) = Completed \<or> pr_status (x_run x) = Failed)
    then [WorktreeDeleted] else []"
  have "x_worktree (await e a y) = x_worktree y" "x_worktree (on_sys g y) = x_worktree y"
    "x_devcontainer (on_sys g y) = x_devcontainer y" for a g y
    by (simp_all add: await_def on_sys_def)
  then have "x_log (clean_up e x) = x_log x @ ?d @ ?w"
    by (simp add: clean_up_def Let_def await_log)
  then show ?thesis by (intro exI [of _ ?d] exI [of _ ?w]) auto
qed

lemma run_log:
  obtains new d w where "x_log (executePipeline e b s run) = new @ d @ w" "list_all kept_worktree new"
    "length (filter is_call new) \<le> run_calls e" "set d \<subseteq> {DevcontainerDown}"
    "w = [] \<or> w = [WorktreeDeleted] \<and> pr_status (x_run (executePipeline e b s run)) \<in> {Completed, Failed}"
proof -
  let ?x = "begin_run e b (initial_px s run None)"
  have x: "x_log ?x = []"
    by (cases b) (simp_all add: begin_run_def announce_run_def mark_running_def initial_px_def)
  have "ext 0 kept_worktree (try_block e b ?x) (on_error e (try_block e b ?x))"
    using push_adds(9) [of e] by (simp add: adds_def)
  moreover have "ext (run_calls e) kept_worktree ?x (try_block e b ?x)"
    using try_block_adds by (simp add: adds_def)
  ultimately have "ext (run_calls e) kept_worktree ?x (on_error e (try_block e b ?x))"
    using ext_trans by fastforce
  then obtain new where "x_log (on_error e (try_block e b ?x)) = new" "list_all kept_worktree new"
    "length (filter is_call new) \<le> run_calls e"
    using x by (auto simp: ext_def)
  moreover obtain d w where "x_log (clean_up e (on_error e (try_block e b ?x))) =
      x_log (on_error e (try_block e b ?x)) @ d @ w" "set d \<subseteq> {DevcontainerDown}"
      "w = [] \<or> w = [WorktreeDeleted] \<and> pr_status (x_run (on_error e (try_block e b ?x))) \<in> {Completed, Failed}"
    using clean_up_log by blast
  ultimately show ?thesis
    unfolding executePipeline_def by (intro that [of new d w]) (simp_all add: executePipeline_def clean_up_run)
qed

text \<open>
  C2. Every run settles. When \<open>executePipeline\<close> is done, whatever happened on the way, the run is
  completed, cancelled, paused for approval, failed, or kept for a retry; and its worktree has been
  deleted only if it is completed or failed, so that what can be resumed still has its files.
\<close>

theorem run_always_settles:
  "pr_status (x_run (executePipeline e b s run)) \<in> {Completed, Cancelled, Paused, Failed, Retriable} \<and>
   (\<exists>before after. x_log (executePipeline e b s run) = before @ after \<and> WorktreeDeleted \<notin> set before \<and>
      (after = [] \<or> after = [WorktreeDeleted] \<and>
        pr_status (x_run (executePipeline e b s run)) \<in> {Completed, Failed}))"
proof (rule conjI)
  let ?y = "try_block e b (begin_run e b (initial_px s run None))"
  have "x_exit (begin_run e b (initial_px s run None)) = None"
    by (cases b) (simp_all add: begin_run_def announce_run_def mark_running_def on_sys_def on_run_def initial_px_def)
  then have "settled ?y" by (simp add: try_block_settled)
  then have "pr_status (x_run (on_error e ?y)) \<in> {Completed, Cancelled, Paused, Failed, Retriable}"
    by (rule on_error_status) (rule try_block_done)
  then show "pr_status (x_run (executePipeline e b s run)) \<in> {Completed, Cancelled, Paused, Failed, Retriable}"
    by (simp add: executePipeline_def clean_up_run)
next
  obtain new d w where l: "x_log (executePipeline e b s run) = new @ d @ w" "list_all kept_worktree new"
    "set d \<subseteq> {DevcontainerDown}" "w = [] \<or> w = [WorktreeDeleted] \<and>
       pr_status (x_run (executePipeline e b s run)) \<in> {Completed, Failed}"
    by (rule run_log)
  have "WorktreeDeleted \<notin> set (new @ d)"
    using l(2,3) by (auto simp: list_all_iff kept_worktree_def)
  then show "\<exists>before after. x_log (executePipeline e b s run) = before @ after \<and> WorktreeDeleted \<notin> set before \<and>
      (after = [] \<or> after = [WorktreeDeleted] \<and>
        pr_status (x_run (executePipeline e b s run)) \<in> {Completed, Failed})"
    using l(1,4) by (intro exI [of _ "new @ d"] exI [of _ w]) simp
qed


section \<open>Behind the stage loop\<close>

text \<open>
  Behind the last stage boundary a stop is not honoured. Whatever the control signals say, a run that
  has left the stage loop with its status running is never cancelled: the review loops, the push, the pull
  request and the merge are made, and the run ends completed, failed or kept for a retry, or throws.
\<close>

theorem late_stop_ignored:
  assumes "x_exit x = None" "pr_status (x_run x) = Running"
    and "seq (review_phases e @ delivery_phases e) x = y"
  shows "pr_status (x_run y) \<in> {Running, Completed, Failed, Retriable} \<and>
    (x_exit y = None \<longrightarrow> pr_status (x_run y) = Completed)"
proof -
  have 1: "closing Running x" using assms(1,2) by (simp add: closing_def)
  have 2: "closing Running y" unfolding assms(3) [symmetric] by (rule ok_seq [OF ok_late 1])
  have e: "y = seq ((review_phases e @ [draft_decision e, under_lock e (push_section e)]) @ [complete e]) x"
    by (simp add: assms(3) [symmetric] delivery_phases_def)
  have "pr_status (x_run y) = Completed" if "x_exit y = None"
    using seq_snoc_none [OF that [unfolded e]] unfolding e by (metis complete_end(2))
  then show ?thesis using 2 by (simp add: closing_def)
qed

definition demo_stopped :: px where
  "demo_stopped = demo_px\<lparr>x_sys := demo_sys\<lparr>signal := fst (requestStop (signal demo_sys) ''r1'' Cancel),
     activeRuns := [(''BEC-1'', ''r1'')]\<rparr>\<rparr>"

lemmas delivery_defs = review_phases_def delivery_phases_def review_fix_def review_fix_applies_def
  auto_deep_review_def configured_passes_def deep_review_def draft_decision_def draft_base_def
  policy_gate_def scratch_gate_def typecheck_gate_def spec_gate_def findScratchFiles_def
  runTypecheck_def under_lock_def push_section_def push_auto_commit_def rebase_phase_def push_phase_def
  create_pr_def forge_of_def pr_action_def reviewer_request_def audit_reviewers_def post_fanout_def
  flag_conflict_def draft_comment_def auto_merge_def complete_def step_def Let_def await_def on_sys_def
  on_run_def blocking_findings_def findings_of_def

theorem late_stop_ignored_witness:
  "\<exists>e x y. getStopSignal (signal (x_sys x)) (en_runId e) = Some Cancel \<and>
     seq (review_phases e @ delivery_phases e) x = y \<and> pr_status (x_run y) = Completed \<and>
     PrRequested GhCli False None \<in> set (x_log y)"
proof -
  let ?e = "demo_pipeline (demo_cfg\<lparr>pc_stages := [Implement]\<rparr>) (\<lambda>n c. Inl [])"
  let ?y = "seq (review_phases ?e @ delivery_phases ?e) demo_stopped"
  have y: "x_exit ?y = None" "PrRequested GhCli False None \<in> set (x_log ?y)"
    by (simp_all add: delivery_defs demo_stopped_def demo_exec_defs demo_cfg_def LOOP_DEFAULTS_def demo_repo_def)
  have x: "x_exit demo_stopped = None" "pr_status (x_run demo_stopped) = Running"
    by (simp_all add: demo_stopped_def demo_exec_defs)
  have "pr_status (x_run ?y) = Completed"
    using late_stop_ignored [OF x refl, of ?e] y(1) by blast
  moreover have "getStopSignal (signal (x_sys demo_stopped)) (en_runId ?e) = Some Cancel"
    by (simp add: demo_stopped_def demo_exec_defs demo_sys_def ctl_init_def ctl_defs Let_def)
  ultimately show ?thesis using y(2) by blast
qed

text \<open>
  A failed request of the pull request does not fail the run. If the forge refuses it, nothing else of
  the push section happens (no reviewers, no comments, no merge), the run is completed, its row has no URL,
  and the completion is announced with an empty one.
\<close>

theorem failed_request_completes:
  assumes "x_exit x = None" "x_prUrl x = []" "forge_of e = Some f" "en_createPr e (now x) = Inl err"
    and "get_run (x_sys (await e (pr_action e x f) x)) (en_runId e) = Some r"
    and "seq [create_pr e, audit_reviewers e, post_fanout e, flag_conflict e, draft_comment e, auto_merge e,
      complete e] x = y"
  shows "x_exit y = None \<and> pr_status (x_run y) = Completed \<and> x_log y = x_log x @ [pr_action e x f] \<and>
    (\<exists>r'. get_run (x_sys y) (en_runId e) = Some r' \<and> r_status r' = Completed \<and> r_prUrl r' = None) \<and>
    OnPipelineComplete (en_runId e) [] \<in> set (notices (x_sys y))"
proof -
  let ?z = "await e (pr_action e x f) x"
  have 0: "create_pr e x = ?z" using assms(3,4) by (simp add: create_pr_def Let_def)
  have z: "x_prUrl ?z = []" "x_exit ?z = None" using assms(1,2) by simp_all
  have same: "audit_reviewers e ?z = ?z" "post_fanout e ?z = ?z" "flag_conflict e ?z = ?z"
    "draft_comment e ?z = ?z" "auto_merge e ?z = ?z"
    using z by (auto simp: audit_reviewers_def post_fanout_def flag_conflict_def draft_comment_def
        auto_merge_def split: option.split)
  have y: "y = complete e ?z"
    using assms(1) z by (simp add: assms(6) [symmetric] step_def 0 same)
  have "get_run (x_sys y) (en_runId e) = Some (r\<lparr>r_status := Completed,
      r_completedAt := Some (clock (x_sys ?z)),
      r_totalInputTokens := pr_totalInputTokens (x_run ?z),
      r_totalOutputTokens := pr_totalOutputTokens (x_run ?z), r_prUrl := None,
      r_autoMerged := pr_autoMerged (x_run ?z), r_autoMergeReason := pr_autoMergeReason (x_run ?z),
      r_autoCommitted := pr_autoCommitted (x_run ?z)\<rparr>)"
    using assms(5) z by (simp add: y complete_def Let_def on_sys_def on_run_def run_table.get_upd)
  moreover have "OnPipelineComplete (en_runId e) [] \<in> set (notices (x_sys y))"
    using z by (simp add: y complete_def Let_def on_sys_def on_run_def notify_def)
  moreover have "x_log y = x_log x @ [pr_action e x f]"
    by (simp add: y complete_def Let_def await_log)
  ultimately show ?thesis using z by (simp add: y complete_end)
qed

theorem failed_request_completes_witness:
  "\<exists>e x y. seq [create_pr e, audit_reviewers e, post_fanout e, flag_conflict e, draft_comment e, auto_merge e,
      complete e] x = y \<and> en_createPr e (now x) = Inl ''403'' \<and> pr_status (x_run y) = Completed"
proof -
  let ?e = "(demo_pipeline demo_cfg (\<lambda>n c. Inl []))\<lparr>en_createPr := (\<lambda>n. Inl ''403'')\<rparr>"
  have 1: "x_exit demo_px = None" "x_prUrl demo_px = []" "forge_of ?e = Some GhCli"
    "en_createPr ?e (now demo_px) = Inl ''403''"
    by (simp_all add: demo_exec_defs forge_of_def demo_repo_def)
  have 2: "get_run (x_sys (await ?e (pr_action ?e demo_px GhCli) demo_px)) (en_runId ?e) = Some demo_row"
    by (simp add: await_def demo_exec_defs demo_sys_def get_run_def select_one_def demo_row_def fresh_row_def)
  show ?thesis using failed_request_completes [OF 1 2 refl] 1(4) by blast
qed

text \<open>
  The completion overwrites an abort. \<open>abort\<close> only marks the row; if it strikes while a run is
  delivering, the row is aborted until the run comes to its end, and completed from then on.
\<close>

theorem completion_overwrites_abort:
  assumes "mapGet (activeRuns (x_sys x)) issue = Some (en_runId e)"
    and "get_run (x_sys x) (en_runId e) = Some r"
    and "abort issue (x_sys x) = s"
  shows "(\<exists>r1. get_run s (en_runId e) = Some r1 \<and> r_status r1 = Aborted) \<and>
    (\<exists>r2. get_run (x_sys (complete e (x\<lparr>x_sys := s\<rparr>))) (en_runId e) = Some r2 \<and> r_status r2 = Completed)"
proof -
  have "get_run s (en_runId e) = Some (r\<lparr>r_status := Aborted, r_completedAt := Some (clock (x_sys x))\<rparr>)"
    using assms(1,2) by (simp add: assms(3) [symmetric] abort_def Let_def run_table.get_upd)
  moreover from this have "\<exists>r2. get_run (x_sys (complete e (x\<lparr>x_sys := s\<rparr>))) (en_runId e) = Some r2 \<and>
      r_status r2 = Completed"
    by (simp add: complete_def Let_def on_sys_def on_run_def run_table.get_upd)
  ultimately show ?thesis by simp
qed

theorem completion_overwrites_abort_witness:
  "\<exists>e r. get_run (x_sys (complete e (demo_stopped\<lparr>x_sys := abort ''BEC-1'' (x_sys demo_stopped)\<rparr>))) ''r1'' = Some r \<and>
     r_status r = Completed"
proof -
  let ?e = "demo_pipeline demo_cfg (\<lambda>n c. Inl [])"
  have id: "en_runId ?e = ''r1''" by (simp add: demo_pipeline_def)
  have 1: "mapGet (activeRuns (x_sys demo_stopped)) ''BEC-1'' = Some (en_runId ?e)"
    by (simp add: id demo_stopped_def)
  have 2: "get_run (x_sys demo_stopped) (en_runId ?e) = Some demo_row"
    by (simp add: id demo_stopped_def demo_sys_def get_run_def select_one_def demo_row_def fresh_row_def)
  show ?thesis using completion_overwrites_abort [OF 1 2 refl] unfolding id by blast
qed

end
