(* ===== verification/Versioning.thy ===== *)
theory Versioning
  imports Prelude "HOL-Library.Monad_Syntax"
begin

text \<open>
  The version arithmetic of the release manager (\<open>release-manager/versioning.ts\<close>): parsing a tag,
  the kind of bump that the commits ask for, and the next tag. The regular expressions are written out as
  greedy spans, which is exact because each span is followed by a character outside its class. Strings
  are ASCII; the line terminators of a multi-line \<open>^\<close> are then the line feed and the carriage return.
  Numbers are unbounded here and doubles in the code, so the two agree below \<open>2 ^ 53\<close>.
\<close>

datatype bump_policy = PatchPolicy | MinorPolicy | ConventionalCommits

datatype channel = Beta | Rc | Alpha | NoChannel

datatype bump_kind = MajorBump | MinorBump | PatchBump

record semver =
  sv_major :: int
  sv_minor :: int
  sv_patch :: int
  sv_prerelease :: "(string \<times> nat) option"

fun channel_name :: "channel \<Rightarrow> string" where
  "channel_name Beta = ''beta''"
| "channel_name Rc = ''rc''"
| "channel_name Alpha = ''alpha''"
| "channel_name NoChannel = ''none''"

section \<open>Parsing a tag\<close>

definition is_lower :: "char \<Rightarrow> bool" where
  "is_lower c \<longleftrightarrow> (let n = (of_char c :: nat) in 97 \<le> n \<and> n \<le> 122)"

definition core_re :: "string \<Rightarrow> (nat \<times> nat \<times> nat \<times> string) option" where
  "core_re s = do {
     (a, s) \<leftarrow> span1 is_digit s;
     s \<leftarrow> eat (CHR ''.'') s;
     (b, s) \<leftarrow> span1 is_digit s;
     s \<leftarrow> eat (CHR ''.'') s;
     (c, s) \<leftarrow> span1 is_digit s;
     Some (parse_nat a, parse_nat b, parse_nat c, s) }"

definition suffix_re :: "string \<Rightarrow> (string \<times> nat) option" where
  "suffix_re s = do {
     s \<leftarrow> eat (CHR ''-'') s;
     (ch, s) \<leftarrow> span1 is_lower s;
     s \<leftarrow> eat (CHR ''.'') s;
     (n, s) \<leftarrow> span1 is_digit s;
     if s = [] then Some (ch, parse_nat n) else None }"

definition semver_re :: "string \<Rightarrow> semver option" where
  "semver_re s = do {
     (a, b, c, rest) \<leftarrow> core_re s;
     if rest = []
     then Some \<lparr>sv_major = int a, sv_minor = int b, sv_patch = int c, sv_prerelease = None\<rparr>
     else do {
       pre \<leftarrow> suffix_re rest;
       Some \<lparr>sv_major = int a, sv_minor = int b, sv_patch = int c, sv_prerelease = Some pre\<rparr> } }"

definition strip_v :: "string \<Rightarrow> string" where
  "strip_v s = (case s of c # cs \<Rightarrow> if c = CHR ''v'' then cs else s | [] \<Rightarrow> [])"

text \<open>\<open>parseInt(s, 10) || 0\<close>: blanks, a sign and the longest run of digits; \<open>NaN\<close> is read as 0.\<close>

definition parseInt_or_0 :: "string \<Rightarrow> int" where
  "parseInt_or_0 s =
     (let t = dropWhile is_space s
      in case t of
           [] \<Rightarrow> 0
         | c # cs \<Rightarrow>
             if c = CHR ''-'' then - int (parse_nat (takeWhile is_digit cs))
             else if c = CHR ''+'' then int (parse_nat (takeWhile is_digit cs))
             else int (parse_nat (takeWhile is_digit t)))"

fun split_at :: "char \<Rightarrow> string \<Rightarrow> string list" where
  "split_at d [] = [[]]"
| "split_at d (c # cs) =
     (if c = d then [] # split_at d cs
      else (case split_at d cs of [] \<Rightarrow> [[c]] | l # ls \<Rightarrow> (c # l) # ls))"

definition part :: "string list \<Rightarrow> nat \<Rightarrow> string" where
  "part xs i = (if i < length xs then xs ! i else ''0'')"

definition parseSemver :: "string option \<Rightarrow> semver" where
  "parseSemver input =
     (case input of
        None \<Rightarrow> \<lparr>sv_major = 0, sv_minor = 0, sv_patch = 0, sv_prerelease = None\<rparr>
      | Some [] \<Rightarrow> \<lparr>sv_major = 0, sv_minor = 0, sv_patch = 0, sv_prerelease = None\<rparr>
      | Some i \<Rightarrow>
          (let stripped = strip_v i
           in case semver_re stripped of
                Some v \<Rightarrow> v
              | None \<Rightarrow>
                  (let parts = split_at (CHR ''.'') stripped
                   in \<lparr>sv_major = parseInt_or_0 (part parts 0), sv_minor = parseInt_or_0 (part parts 1),
                       sv_patch = parseInt_or_0 (part parts 2), sv_prerelease = None\<rparr>)))"

text \<open>\<open>RELEASE_TAG_RE\<close> of \<open>state.ts\<close> and \<open>isPrereleaseTag\<close>.\<close>

definition release_tag :: "string \<Rightarrow> bool" where
  "release_tag t \<longleftrightarrow> semver_re (strip_v t) \<noteq> None"

definition isPrereleaseTag :: "string \<Rightarrow> bool" where
  "isPrereleaseTag t \<longleftrightarrow>
     (case semver_re (strip_v t) of Some v \<Rightarrow> sv_prerelease v \<noteq> None | None \<Rightarrow> False)"

section \<open>What the commits ask for\<close>

text \<open>The suffixes of a message that start a line: where a multi-line \<open>^\<close> matches.\<close>

fun line_starts :: "string \<Rightarrow> string list" where
  "line_starts [] = []"
| "line_starts (c # cs) =
     (if (of_char c :: nat) \<in> {10, 13} then cs # line_starts cs else line_starts cs)"

definition at_line_start :: "(string \<Rightarrow> bool) \<Rightarrow> string \<Rightarrow> bool" where
  "at_line_start P s \<longleftrightarrow> list_ex P (s # line_starts s)"

text \<open>\<open>(\([^)]+\))?\<close>: a scope in parentheses, if there is one with at least one character.\<close>

definition skip_scope :: "string \<Rightarrow> string option" where
  "skip_scope s = do {
     s \<leftarrow> eat (CHR ''('') s;
     (_, s) \<leftarrow> span1 (\<lambda>c. c \<noteq> CHR '')'') s;
     eat (CHR '')'') s }"

definition typed :: "string list \<Rightarrow> string \<Rightarrow> string \<Rightarrow> bool" where
  "typed types mark s \<longleftrightarrow>
     list_ex (\<lambda>t. startsWith s t \<and>
       (let rest = drop (length t) s
        in startsWith rest mark \<or> (case skip_scope rest of Some r \<Rightarrow> startsWith r mark | None \<Rightarrow> False)))
     types"

definition breaking :: "string \<Rightarrow> bool" where
  "breaking msg \<longleftrightarrow>
     at_line_start (typed [''feat'', ''fix'', ''refactor'', ''perf''] ''!:'') msg \<or>
     strIncludes msg ''BREAKING CHANGE:''"

definition feature :: "string \<Rightarrow> bool" where
  "feature msg \<longleftrightarrow> at_line_start (typed [''feat''] '':'') msg"

fun detect_loop :: "bump_kind \<Rightarrow> string list \<Rightarrow> bump_kind" where
  "detect_loop saw [] = saw"
| "detect_loop saw (msg # ms) =
     (if breaking msg then MajorBump
      else detect_loop (if feature msg then MinorBump else saw) ms)"

definition detectKindFromCommits :: "string list \<Rightarrow> bump_kind" where
  "detectKindFromCommits commits = detect_loop PatchBump commits"

section \<open>The next tag\<close>

fun applyBump :: "semver \<Rightarrow> bump_kind \<Rightarrow> semver" where
  "applyBump v MajorBump =
     \<lparr>sv_major = sv_major v + 1, sv_minor = 0, sv_patch = 0, sv_prerelease = None\<rparr>"
| "applyBump v MinorBump =
     \<lparr>sv_major = sv_major v, sv_minor = sv_minor v + 1, sv_patch = 0, sv_prerelease = None\<rparr>"
| "applyBump v PatchBump =
     \<lparr>sv_major = sv_major v, sv_minor = sv_minor v, sv_patch = sv_patch v + 1, sv_prerelease = None\<rparr>"

definition show_core :: "semver \<Rightarrow> string" where
  "show_core v = ''v'' @ show_int (sv_major v) @ ''.'' @ show_int (sv_minor v) @ ''.'' @
     show_int (sv_patch v)"

definition show_pre :: "semver \<Rightarrow> string \<Rightarrow> nat \<Rightarrow> string" where
  "show_pre v ch n = show_core v @ ''-'' @ ch @ ''.'' @ show_nat n"

definition bump_kind_of :: "bump_policy \<Rightarrow> string list \<Rightarrow> bump_kind" where
  "bump_kind_of policy commits =
     (case policy of
        PatchPolicy \<Rightarrow> PatchBump
      | MinorPolicy \<Rightarrow> MinorBump
      | ConventionalCommits \<Rightarrow> detectKindFromCommits commits)"

definition bumpFromConfigAndCommits ::
  "string option \<Rightarrow> string list \<Rightarrow> bump_policy \<Rightarrow> channel \<Rightarrow> string" where
  "bumpFromConfigAndCommits current commits policy prereleaseChannel =
     (let v = parseSemver current;
          kind = bump_kind_of policy commits
      in if prereleaseChannel = NoChannel then
           (case sv_prerelease v of
              Some _ \<Rightarrow> show_core v
            | None \<Rightarrow> show_core (applyBump v kind))
         else
           (case sv_prerelease v of
              Some (ch, n) \<Rightarrow>
                if ch = channel_name prereleaseChannel
                then show_pre v (channel_name prereleaseChannel) (n + 1)
                else show_pre (applyBump v kind) (channel_name prereleaseChannel) 1
            | None \<Rightarrow> show_pre (applyBump v kind) (channel_name prereleaseChannel) 1))"

section \<open>Tags parse back\<close>

definition natural :: "semver \<Rightarrow> bool" where
  "natural v \<longleftrightarrow> 0 \<le> sv_major v \<and> 0 \<le> sv_minor v \<and> 0 \<le> sv_patch v"

definition channel_ok :: "string \<Rightarrow> bool" where
  "channel_ok ch \<longleftrightarrow> ch \<noteq> [] \<and> list_all is_lower ch"

lemma channel_name_ok [simp]: "channel_ok (channel_name c)"
  by (cases c) (simp_all add: channel_ok_def is_lower_def Let_def)

lemma show_int_nonneg: "0 \<le> i \<Longrightarrow> show_int i = show_nat (nat i)"
  by (simp add: show_int_def)

lemma not_digit_dot [simp]: "\<not> is_digit (CHR ''.'')" "\<not> is_digit (CHR ''-'')" "\<not> is_lower (CHR ''.'')"
  by (simp_all add: is_digit_def is_lower_def Let_def)

lemma span1_show_nat [simp]:
  "ys = [] \<or> \<not> is_digit (hd ys) \<Longrightarrow> span1 is_digit (show_nat n @ ys) = Some (show_nat n, ys)"
  by (rule span1_append) (auto intro: show_nat_digits)

lemma span1_channel [simp]:
  "channel_ok ch \<Longrightarrow> span1 is_lower (ch @ CHR ''.'' # ys) = Some (ch, CHR ''.'' # ys)"
  by (rule span1_append) (auto simp: channel_ok_def list_all_iff)

lemma core_re_show:
  assumes "rest = [] \<or> \<not> is_digit (hd rest)"
  shows "core_re (show_nat a @ ''.'' @ show_nat b @ ''.'' @ show_nat c @ rest) = Some (a, b, c, rest)"
  using assms by (simp add: core_re_def)

lemma suffix_re_show: "channel_ok ch \<Longrightarrow> suffix_re (''-'' @ ch @ ''.'' @ show_nat n) = Some (ch, n)"
  using span1_show_nat [of "[]" n] by (simp add: suffix_re_def)

definition show_semver :: "semver \<Rightarrow> string" where
  "show_semver v =
     (case sv_prerelease v of None \<Rightarrow> show_core v | Some (ch, n) \<Rightarrow> show_pre v ch n)"

definition wf_semver :: "semver \<Rightarrow> bool" where
  "wf_semver v \<longleftrightarrow>
     natural v \<and> (case sv_prerelease v of None \<Rightarrow> True | Some (ch, n) \<Rightarrow> channel_ok ch)"

lemma semver_re_show: "wf_semver v \<Longrightarrow> semver_re (strip_v (show_semver v)) = Some v"
proof (cases v)
  case (fields a b c pre)
  assume wf: "wf_semver v"
  then have nn: "0 \<le> a" "0 \<le> b" "0 \<le> c" using fields by (simp_all add: wf_semver_def natural_def)
  show ?thesis
  proof (cases pre)
    case None
    have "strip_v (show_semver v) =
        show_nat (nat a) @ ''.'' @ show_nat (nat b) @ ''.'' @ show_nat (nat c) @ []"
      using fields None nn by (simp add: show_semver_def show_core_def strip_v_def show_int_nonneg)
    then have "semver_re (strip_v (show_semver v)) =
        Some \<lparr>sv_major = a, sv_minor = b, sv_patch = c, sv_prerelease = None\<rparr>"
      using core_re_show [of "[]"] nn by (simp only: semver_re_def) simp
    with fields None show ?thesis by simp
  next
    case (Some p)
    obtain ch n where p: "p = (ch, n)" by (cases p)
    have ch: "channel_ok ch" using wf fields Some p by (simp add: wf_semver_def)
    have eq: "strip_v (show_semver v) = show_nat (nat a) @ ''.'' @ show_nat (nat b) @ ''.'' @
        show_nat (nat c) @ (''-'' @ ch @ ''.'' @ show_nat n)"
      using fields Some p nn
      by (simp add: show_semver_def show_pre_def show_core_def strip_v_def show_int_nonneg)
    have "core_re (strip_v (show_semver v)) =
        Some (nat a, nat b, nat c, ''-'' @ ch @ ''.'' @ show_nat n)"
      unfolding eq by (rule core_re_show) simp
    then show ?thesis
      using suffix_re_show [OF ch, of n] nn fields Some p by (simp add: semver_re_def)
  qed
qed

lemma show_semver_Cons: "\<exists>cs. show_semver v = CHR ''v'' # cs"
  by (auto simp: show_semver_def show_core_def show_pre_def split: option.split)

lemma parse_show: "wf_semver v \<Longrightarrow> parseSemver (Some (show_semver v)) = v"
  using semver_re_show [of v] show_semver_Cons [of v] by (auto simp: parseSemver_def)

text \<open>The version a tag stands for is well formed when the tag is a release tag.\<close>

lemma suffix_re_ok: "suffix_re s = Some (ch, n) \<Longrightarrow> channel_ok ch"
  by (auto simp: suffix_re_def channel_ok_def span1_def bind_eq_Some_conv list_all_iff
      dest: set_takeWhileD split: if_splits)

lemma semver_re_wf: "semver_re s = Some v \<Longrightarrow> wf_semver v"
  by (auto simp: semver_re_def bind_eq_Some_conv wf_semver_def natural_def
      dest!: suffix_re_ok split: if_splits)

definition release_input :: "string option \<Rightarrow> bool" where
  "release_input current \<longleftrightarrow> (case current of None \<Rightarrow> True | Some t \<Rightarrow> release_tag t)"

lemma parseSemver_wf: "release_input current \<Longrightarrow> wf_semver (parseSemver current)"
  by (auto simp: release_input_def parseSemver_def release_tag_def Let_def wf_semver_def [of "\<lparr>sv_major = 0, sv_minor = 0, sv_patch = 0, sv_prerelease = None\<rparr>"] natural_def
      dest: semver_re_wf split: option.splits list.splits)

text \<open>The version of the next tag, as a record.\<close>

definition next_semver :: "semver \<Rightarrow> bump_kind \<Rightarrow> channel \<Rightarrow> semver" where
  "next_semver v kind ch =
     (if ch = NoChannel then
        (if sv_prerelease v \<noteq> None then v\<lparr>sv_prerelease := None\<rparr> else applyBump v kind)
      else
        (case sv_prerelease v of
           Some (c, n) \<Rightarrow>
             if c = channel_name ch then v\<lparr>sv_prerelease := Some (c, n + 1)\<rparr>
             else (applyBump v kind)\<lparr>sv_prerelease := Some (channel_name ch, 1)\<rparr>
         | None \<Rightarrow> (applyBump v kind)\<lparr>sv_prerelease := Some (channel_name ch, 1)\<rparr>))"

lemma applyBump_sel [simp]:
  "sv_prerelease (applyBump v kind) = None"
  "natural v \<Longrightarrow> natural (applyBump v kind)"
  by (cases kind; simp add: natural_def)+

lemma show_core_pre [simp]: "show_core (v\<lparr>sv_prerelease := p\<rparr>) = show_core v"
  by (simp add: show_core_def)

lemma natural_pre [simp]: "natural (v\<lparr>sv_prerelease := p\<rparr>) = natural v"
  by (simp add: natural_def)

lemma bump_eq:
  "bumpFromConfigAndCommits current commits policy ch =
     show_semver (next_semver (parseSemver current) (bump_kind_of policy commits) ch)"
  by (auto simp: bumpFromConfigAndCommits_def next_semver_def show_semver_def show_pre_def Let_def
      split: option.split)

lemma next_semver_wf: "wf_semver v \<Longrightarrow> wf_semver (next_semver v kind ch)"
  by (auto simp: wf_semver_def next_semver_def split: option.split)

lemma parse_bump:
  "release_input current \<Longrightarrow>
   parseSemver (Some (bumpFromConfigAndCommits current commits policy ch)) =
     next_semver (parseSemver current) (bump_kind_of policy commits) ch"
  by (simp add: bump_eq parse_show next_semver_wf parseSemver_wf)

text \<open>The precedence of versions: a prerelease comes before its release.\<close>

definition pre_less :: "(string \<times> nat) option \<Rightarrow> (string \<times> nat) option \<Rightarrow> bool" where
  "pre_less p q =
     (case (p, q) of
        (Some (c, n), Some (d, m)) \<Rightarrow> c = d \<and> n < m
      | (Some _, None) \<Rightarrow> True
      | (None, _) \<Rightarrow> False)"

definition semver_less :: "semver \<Rightarrow> semver \<Rightarrow> bool" where
  "semver_less v w \<longleftrightarrow>
     sv_major v < sv_major w \<or>
     sv_major v = sv_major w \<and>
       (sv_minor v < sv_minor w \<or>
        sv_minor v = sv_minor w \<and>
          (sv_patch v < sv_patch w \<or>
           sv_patch v = sv_patch w \<and> pre_less (sv_prerelease v) (sv_prerelease w)))"

lemma applyBump_greater: "semver_less v ((applyBump v kind)\<lparr>sv_prerelease := p\<rparr>)"
  by (cases kind) (simp_all add: semver_less_def)

lemma next_semver_greater: "semver_less v (next_semver v kind ch)"
proof -
  have bumped: "semver_less v (applyBump v kind)"
    by (cases kind) (simp_all add: semver_less_def)
  have promoted: "sv_prerelease v = Some q \<Longrightarrow> semver_less v (v\<lparr>sv_prerelease := None\<rparr>)" for q
    by (cases q) (simp add: semver_less_def pre_less_def)
  have counted: "sv_prerelease v = Some (c, n) \<Longrightarrow>
      semver_less v (v\<lparr>sv_prerelease := Some (c, Suc n)\<rparr>)" for c n
    by (simp add: semver_less_def pre_less_def)
  show ?thesis
    by (auto simp: next_semver_def bumped applyBump_greater counted
        intro: promoted split: option.split)
qed

text \<open>
  The next tag is a release tag again, and its version comes after that of the current tag, whatever the
  commits, the policy and the channel are: tags never repeat and never go backwards, also at the
  promotion of a prerelease and at a change of channel.
\<close>
theorem next_version_increases:
  assumes "release_input current"
  shows "release_tag (bumpFromConfigAndCommits current commits policy ch) \<and>
    semver_less (parseSemver current)
      (parseSemver (Some (bumpFromConfigAndCommits current commits policy ch)))"
proof
  show "release_tag (bumpFromConfigAndCommits current commits policy ch)"
    using assms by (simp add: release_tag_def bump_eq semver_re_show next_semver_wf parseSemver_wf)
  show "semver_less (parseSemver current)
      (parseSemver (Some (bumpFromConfigAndCommits current commits policy ch)))"
    using assms by (simp only: parse_bump next_semver_greater)
qed

theorem next_version_increases_witness:
  "release_input (Some ''v1.2.3-rc.4'') \<and>
   release_tag (bumpFromConfigAndCommits (Some ''v1.2.3-rc.4'') [] PatchPolicy Beta) \<and>
   semver_less (parseSemver (Some ''v1.2.3-rc.4''))
     (parseSemver (Some (bumpFromConfigAndCommits (Some ''v1.2.3-rc.4'') [] PatchPolicy Beta)))"
proof -
  have r: "release_input (Some ''v1.2.3-rc.4'')" by code_simp
  show ?thesis using r next_version_increases [OF r] by blast
qed

lemma detect_loop_eq:
  "detect_loop saw ms =
     (if list_ex breaking ms then MajorBump
      else if list_ex feature ms then MinorBump else saw)"
  by (induction ms arbitrary: saw) auto

text \<open>
  The kind of the bump: a major version only under the policy of conventional commits and only for a
  breaking commit, wherever it stands among the commits; a minor one for a feature.
\<close>
theorem major_needs_breaking_commit:
  "bump_kind_of policy commits =
     (case policy of
        PatchPolicy \<Rightarrow> PatchBump
      | MinorPolicy \<Rightarrow> MinorBump
      | ConventionalCommits \<Rightarrow>
          if list_ex breaking commits then MajorBump
          else if list_ex feature commits then MinorBump else PatchBump)"
  by (simp add: bump_kind_of_def detectKindFromCommits_def detect_loop_eq split: bump_policy.split)

end
