(* ===== verification/ReleaseManager.thy ===== *)
theory ReleaseManager
  imports Versioning
begin

text \<open>
  The release manager (\<open>release-manager/\<close> and \<open>qa/\<close>): its triggers, the decision, the collected
  state of the repository, and one tick of the scheduler with the retry of pending releases, the check of
  the quality workflow, the approval gate and the creation of tag and release.

  The services (GitHub, Linear, Slack) answer through an environment that is fixed during a tick, with a
  constructor or \<open>None\<close> for a call that fails; the clock is read once per tick. What the tick changes
  is its state: the rows of the three tables, the mutable state that survives between ticks, the audit
  events and the calls that change something outside. The ids of new rows are a counter. Database queries
  succeed; rows with the same time are ordered by insertion. The hours and minutes printed in a reason
  are rendered by a parameter (the rounding of \<open>toFixed\<close>). Texts posted to Slack are kept as the data
  they are built from.
\<close>

section \<open>Configuration\<close>

record qa_check_config =
  qa_workflow :: string
  qa_timeoutMinutes :: nat
  qa_linearTeamId :: string
  qa_workflowInputs :: "(string \<times> string) list option"

record rm_triggers =
  mergedPRsSince :: "nat option"
  timeSinceLastHours :: "nat option"
  ciGreenForMinutes :: "nat option"
  requireSlackApproval :: bool
  qaCheck :: "qa_check_config option"

record rm_config =
  rm_enabled :: bool
  rm_schedule :: string
  rm_triggers :: rm_triggers
  rm_versionBump :: bump_policy
  rm_slackChannel :: "string option"
  rm_branch :: string
  rm_paths :: "string list option"
  rm_prereleaseChannel :: "channel option"

definition QaCheckConfigSchema :: "qa_check_config \<Rightarrow> bool" where
  "QaCheckConfigSchema q \<longleftrightarrow>
     qa_workflow q \<noteq> [] \<and> 0 < qa_timeoutMinutes q \<and> qa_linearTeamId q \<noteq> []"

definition positive :: "nat option \<Rightarrow> bool" where
  "positive n \<longleftrightarrow> (case n of None \<Rightarrow> True | Some k \<Rightarrow> 0 < k)"

definition ReleaseManagerTriggersSchema :: "rm_triggers \<Rightarrow> bool" where
  "ReleaseManagerTriggersSchema t \<longleftrightarrow>
     positive (mergedPRsSince t) \<and> positive (timeSinceLastHours t) \<and> positive (ciGreenForMinutes t) \<and>
     (case qaCheck t of None \<Rightarrow> True | Some q \<Rightarrow> QaCheckConfigSchema q)"

definition ReleaseManagerConfigSchema :: "rm_config \<Rightarrow> bool" where
  "ReleaseManagerConfigSchema cfg \<longleftrightarrow>
     (let t = rm_triggers cfg;
          anyTrigger = (mergedPRsSince t \<noteq> None \<or> timeSinceLastHours t \<noteq> None \<or>
            ciGreenForMinutes t \<noteq> None \<or> requireSlackApproval t \<or> qaCheck t \<noteq> None)
      in ReleaseManagerTriggersSchema t \<and> anyTrigger \<and>
         (requireSlackApproval t \<longrightarrow> rm_slackChannel cfg \<noteq> None \<and> rm_slackChannel cfg \<noteq> Some []))"

section \<open>Triggers\<close>

datatype ci_status = CiGreen | CiNotGreen | CiUnavailable

record qa_run_snapshot =
  q_runId :: int
  q_runSha :: string
  q_triggeredAt :: millis

record collected_state =
  s_lastTag :: "string option"
  s_lastTagSha :: "string option"
  s_lastTagAt :: "millis option"
  s_headSha :: string
  s_mergedCommits :: nat
  s_commits :: "string list"
  s_ciStatus :: ci_status
  s_ciGreenSince :: "millis option"
  s_hasFreshApproval :: bool
  s_freshApprovalApprover :: "string option"
  s_manualTagDetected :: bool
  s_qaRun :: "qa_run_snapshot option"

text \<open>The rendering of an elapsed time in hours and in minutes.\<close>

record rendering =
  fmt_hours :: "millis \<Rightarrow> string"
  fmt_minutes :: "millis \<Rightarrow> string"

type_synonym trigger_result = "bool \<times> string"

definition evalMergedPRsSince :: "nat \<Rightarrow> nat \<Rightarrow> trigger_result" where
  "evalMergedPRsSince actualCount threshold =
     (if threshold \<le> actualCount
      then (True, ''mergedPRsSince='' @ show_nat threshold @ '' (have '' @ show_nat actualCount @ '')'')
      else (False,
        ''mergedPRsSince not met ('' @ show_nat actualCount @ ''/'' @ show_nat threshold @ '')''))"

definition evalTimeSinceLastHours ::
  "rendering \<Rightarrow> millis option \<Rightarrow> nat \<Rightarrow> millis \<Rightarrow> trigger_result" where
  "evalTimeSinceLastHours fmt lastTagAt thresholdHours now =
     (case lastTagAt of
        None \<Rightarrow> (True, ''no prior tag'')
      | Some at \<Rightarrow>
          (let elapsed = now - at in
           if int thresholdHours * 3600 * 1000 \<le> elapsed
           then (True, ''timeSinceLastHours='' @ show_nat thresholdHours @ '' (have '' @
             fmt_hours fmt elapsed @ ''h)'')
           else (False, ''timeSinceLastHours not met ('' @ fmt_hours fmt elapsed @ ''h/'' @
             show_nat thresholdHours @ ''h)'')))"

definition evalCiGreenForMinutes ::
  "rendering \<Rightarrow> ci_status \<Rightarrow> millis option \<Rightarrow> nat \<Rightarrow> millis \<Rightarrow> trigger_result" where
  "evalCiGreenForMinutes fmt ciStatus greenSince thresholdMinutes now =
     (if ciStatus = CiUnavailable then (False, ''ci_check_unavailable'')
      else if ciStatus \<noteq> CiGreen then (False, ''ci_not_green'')
      else (case greenSince of
        None \<Rightarrow> (False, ''ci_not_green'')
      | Some at \<Rightarrow>
          (let elapsed = now - at in
           if int thresholdMinutes * 60 * 1000 \<le> elapsed
           then (True, ''ciGreenForMinutes='' @ show_nat thresholdMinutes @ '' ('' @
             fmt_minutes fmt elapsed @ ''m green)'')
           else (False, ''ciGreenForMinutes not met ('' @ fmt_minutes fmt elapsed @ ''m/'' @
             show_nat thresholdMinutes @ ''m)''))))"

definition evalRequireSlackApproval :: "bool \<Rightarrow> bool \<Rightarrow> trigger_result" where
  "evalRequireSlackApproval req hasFresh =
     (if \<not> req then (True, ''approval not required'')
      else if hasFresh then (True, ''approval is fresh'')
      else (False, ''no_fresh_approval''))"

datatype qa_trigger_result =
    QaPassed | QaFailed int string | QaRunning int | QaTimedOut int | QaNeedsTrigger | QaNoWorkflow

fun qa_reason :: "qa_trigger_result \<Rightarrow> string" where
  "qa_reason QaPassed = ''qa passed''"
| "qa_reason (QaFailed r c) = ''qa_failed''"
| "qa_reason (QaRunning r) = ''qa_running''"
| "qa_reason (QaTimedOut r) = ''qa_timed_out''"
| "qa_reason QaNeedsTrigger = ''qa_needs_trigger''"
| "qa_reason QaNoWorkflow = ''qa_no_workflow''"

definition evalQaCheck ::
  "qa_check_config \<Rightarrow> string \<Rightarrow> bool \<Rightarrow> qa_run_snapshot option \<Rightarrow> string option \<Rightarrow> millis \<Rightarrow>
   qa_trigger_result" where
  "evalQaCheck qaConfig headSha workflowFileExists qaRun runConclusion now =
     (if \<not> workflowFileExists then QaNoWorkflow
      else (case qaRun of
        None \<Rightarrow> QaNeedsTrigger
      | Some run \<Rightarrow>
          if q_runSha run \<noteq> headSha then QaNeedsTrigger
          else (case runConclusion of
            Some c \<Rightarrow> if c = ''success'' then QaPassed else QaFailed (q_runId run) c
          | None \<Rightarrow>
              if int (qa_timeoutMinutes qaConfig) * 60 * 1000 < now - q_triggeredAt run
              then QaTimedOut (q_runId run)
              else QaRunning (q_runId run))))"

section \<open>The decision\<close>

record decide_qa_state =
  wfExists :: bool
  runConclusion :: "string option"

datatype decision_result =
    DFire string
  | DSkip string "qa_trigger_result option"
  | DAwaitApproval string

definition decide ::
  "rendering \<Rightarrow> collected_state \<Rightarrow> rm_triggers \<Rightarrow> millis \<Rightarrow> decide_qa_state option \<Rightarrow>
   decision_result" where
  "decide fmt state triggers now qaState =
     (let merged = (case mergedPRsSince triggers of
            None \<Rightarrow> (True, []) | Some n \<Rightarrow> evalMergedPRsSince (s_mergedCommits state) n);
          cadence = (case timeSinceLastHours triggers of
            None \<Rightarrow> (True, []) | Some h \<Rightarrow> evalTimeSinceLastHours fmt (s_lastTagAt state) h now);
          ci = (case ciGreenForMinutes triggers of
            None \<Rightarrow> (True, [])
          | Some m \<Rightarrow> evalCiGreenForMinutes fmt (s_ciStatus state) (s_ciGreenSince state) m now);
          qa = (case qaState of None \<Rightarrow> \<lparr>wfExists = False, runConclusion = None\<rparr> | Some q \<Rightarrow> q);
          quality = (case qaCheck triggers of
            None \<Rightarrow> QaPassed
          | Some c \<Rightarrow> evalQaCheck c (s_headSha state) (wfExists qa) (s_qaRun state)
              (runConclusion qa) now);
          approval = (if requireSlackApproval triggers
            then evalRequireSlackApproval True (s_hasFreshApproval state) else (True, []))
      in if \<not> fst merged then DSkip (snd merged) None
         else if \<not> fst cadence then DSkip (snd cadence) None
         else if \<not> fst ci then DSkip (snd ci) None
         else if quality \<noteq> QaPassed then DSkip (qa_reason quality) (Some quality)
         else if \<not> fst approval then DAwaitApproval (snd approval)
         else DFire ''all triggers passed'')"

section \<open>Tables, audit events and calls\<close>

datatype decision = Fired | Skipped | AwaitingApproval | FirePending

text \<open>\<open>trigger_state_json\<close>: the snapshot of a tick, or the source of a skip from Slack.\<close>

datatype trigger_snapshot =
    TickSnapshot nat "string option" "millis option" ci_status bool
  | SlackSource string

record decision_row =
  d_id :: nat
  d_repoUrl :: string
  d_branch :: string
  d_decidedAt :: millis
  d_decision :: decision
  d_reason :: string
  d_snapshot :: trigger_snapshot
  d_proposedVersion :: "string option"
  d_firedTag :: "string option"
  d_firedSha :: "string option"
  d_attemptCount :: nat
  d_qaRunId :: "int option"
  d_qaRunSha :: "string option"

record approval_row =
  a_id :: nat
  a_repoUrl :: string
  a_branch :: string
  a_approvedAt :: millis
  a_approvedBy :: string
  a_consumedAt :: "millis option"
  a_consumedBy :: "nat option"

record gap_row =
  g_repoUrl :: string
  g_branch :: string
  g_workflowPath :: string
  g_linearIssueId :: string
  g_resolvedAt :: "millis option"

datatype rm_audit =
    ReleaseFired string string nat
  | ReleaseSkipped string
  | ReleaseTagConflict string
  | ReleasePartial string nat
  | QaRunCompleted int string millis bool
  | QaRunTriggered string int string
  | QaGapFiled string string
  | SlackPostFailed string
  | ReleaseApproved string

datatype slack_text =
    RetryReleased string string
  | SkipText string
  | ReadyText string nat
  | ReleasedText string string

text \<open>
  The calls that change something outside. The third component of \<open>CreateRelease\<close> is the
  \<open>prerelease\<close> flag, if the call passes one.
\<close>

datatype rm_call =
    CreateRef string string
  | CreateRelease string string "bool option"
  | DispatchWorkflow string string
  | SlackPost string slack_text bool
  | CreateIssue string

record rm_state =
  decisions :: "decision_row list"
  approvals :: "approval_row list"
  gaps :: "gap_row list"
  lastSkipReason :: "string option"
  lastPostAt :: millis
  licenseWarnLogged :: bool
  auditedRunIds :: "int list"
  pausedUntilTs :: millis
  audits :: "rm_audit list"
  calls :: "rm_call list"
  nextId :: nat

section \<open>The services\<close>

record check_run =
  cr_status :: string
  cr_conclusion :: "string option"
  cr_completedAt :: "millis option"

record workflow_run =
  wr_status :: "string option"
  wr_conclusion :: "string option"
  wr_startedAt :: "millis option"
  wr_createdAt :: "millis option"
  wr_updatedAt :: "millis option"

datatype lookup_answer = Found | NotFound | LookupError

text \<open>A failed call carries its status and message.\<close>

datatype 'a answer = Answer 'a | Failure "nat option" string

record rm_env =
  e_now :: millis
  e_licensed :: bool
  e_fmt :: rendering
  getBranch :: "string option"
  listTags :: "(string \<times> string) list option"
  commitDate :: "string \<Rightarrow> millis option option"
  compareCommits :: "string \<Rightarrow> string \<Rightarrow> string list option"
  listCommits :: "string list option"
  checkRuns :: "check_run list option"
  getContent :: "string \<Rightarrow> string \<Rightarrow> lookup_answer"
  getRef :: "string \<Rightarrow> lookup_answer"
  createRefAnswer :: "string \<Rightarrow> string \<Rightarrow> unit answer"
  createReleaseAnswer :: "string \<Rightarrow> string option answer"
  getWorkflowRun :: "int \<Rightarrow> workflow_run option"
  dispatchAnswer :: "string \<Rightarrow> string \<Rightarrow> unit answer"
  listWorkflowRuns :: "string \<Rightarrow> string \<Rightarrow> int list option"
  createIssueAnswer :: "string \<Rightarrow> string answer"
  postOk :: "slack_text \<Rightarrow> bool"

text \<open>
  What a tick is given: the Linear client may be missing, and so may the Slack client, which may or may
  not have Block Kit posts.
\<close>

record tick_context =
  c_config :: rm_config
  c_repoUrl :: string
  hasLinear :: bool
  slackClient :: "bool option"

abbreviation ctx_branch :: "tick_context \<Rightarrow> string" where
  "ctx_branch c \<equiv> rm_branch (c_config c)"

abbreviation ctx_triggers :: "tick_context \<Rightarrow> rm_triggers" where
  "ctx_triggers c \<equiv> rm_triggers (c_config c)"

section \<open>GitHub\<close>

text \<open>
  \<open>parseRepoFromUrl\<close>: the owner is a non-empty text up to the first slash; the repository is the rest,
  at least one character and on one line, without a final \<open>.git\<close> that leaves something. \<open>None\<close> is
  the exception.
\<close>

definition drop_git :: "string \<Rightarrow> string" where
  "drop_git r = (if endsWith r ''.git'' \<and> 4 < length r then take (length r - 4) r else r)"

definition one_line :: "string \<Rightarrow> bool" where
  "one_line r \<longleftrightarrow> list_all (\<lambda>c. (of_char c :: nat) \<notin> {10, 13}) r"

definition owner_repo :: "string \<Rightarrow> (string \<times> string) option" where
  "owner_repo s = do {
     (owner, s) \<leftarrow> span1 (\<lambda>c. c \<noteq> CHR ''/'') s;
     r \<leftarrow> eat (CHR ''/'') s;
     if r \<noteq> [] \<and> one_line r then Some (owner, drop_git r) else None }"

definition after_prefix :: "string \<Rightarrow> string \<Rightarrow> string option" where
  "after_prefix p s = (if startsWith s p then Some (drop (length p) s) else None)"

definition parseRepoFromUrl :: "string \<Rightarrow> (string \<times> string) option" where
  "parseRepoFromUrl url =
     (case Option.bind (after_prefix ''git@github.com:'' url) owner_repo of
        Some r \<Rightarrow> Some r
      | None \<Rightarrow>
          (case Option.bind (after_prefix ''https://github.com/'' url) owner_repo of
             Some r \<Rightarrow> Some r
           | None \<Rightarrow> Option.bind (after_prefix ''http://github.com/'' url) owner_repo))"

definition log_call :: "rm_call \<Rightarrow> rm_state \<Rightarrow> rm_state" where
  "log_call a st = st\<lparr>calls := calls st @ [a]\<rparr>"

definition log_audit :: "rm_audit \<Rightarrow> rm_state \<Rightarrow> rm_state" where
  "log_audit a st = st\<lparr>audits := audits st @ [a]\<rparr>"

definition default_url :: "string \<Rightarrow> string \<Rightarrow> string" where
  "default_url repoUrl tag =
     (case parseRepoFromUrl repoUrl of
        None \<Rightarrow> []
      | Some (owner, repo) \<Rightarrow>
          ''https://github.com/'' @ owner @ ''/'' @ repo @ ''/releases/tag/'' @ tag)"

datatype tag_result = TagOk string | TagExists | ReleaseCreateFailed string | TagOtherError string

definition createTagAndRelease ::
  "tick_context \<Rightarrow> rm_env \<Rightarrow> string \<Rightarrow> string \<Rightarrow> bool \<Rightarrow> rm_state \<Rightarrow> tag_result \<times> rm_state" where
  "createTagAndRelease c e tag sha isPrerelease st =
     (let st1 = log_call (CreateRef tag sha) st in
      case createRefAnswer e tag sha of
        Failure status msg \<Rightarrow>
          if status = Some 422 \<or> strIncludes (toLowerCase msg) ''already exists''
          then (TagExists, st1) else (TagOtherError msg, st1)
      | Answer _ \<Rightarrow>
          (let st2 = log_call (CreateRelease tag sha (Some isPrerelease)) st1 in
           case createReleaseAnswer e tag of
             Answer url \<Rightarrow>
               (TagOk (case url of Some u \<Rightarrow> u | None \<Rightarrow> default_url (c_repoUrl c) tag), st2)
           | Failure _ msg \<Rightarrow> (ReleaseCreateFailed msg, st2)))"

section \<open>Slack and rows\<close>

definition SLACK_DEDUP_WINDOW_MS :: int where
  "SLACK_DEDUP_WINDOW_MS = 24 * 3600 * 1000"

definition MAX_QA_RETRY_ATTEMPTS :: nat where
  "MAX_QA_RETRY_ATTEMPTS = 3"

text \<open>\<open>blocks\<close> tells whether the caller passes Block Kit blocks. An empty channel or reason is falsy.\<close>

definition maybePostSlack ::
  "tick_context \<Rightarrow> rm_env \<Rightarrow> slack_text \<Rightarrow> string option \<Rightarrow> bool \<Rightarrow> rm_state \<Rightarrow> rm_state" where
  "maybePostSlack c e msg currentSkipReason blocks st =
     (case (slackClient c, rm_slackChannel (c_config c)) of
        (Some blockKit, Some channel) \<Rightarrow>
          if channel = [] then st
          else if currentSkipReason \<noteq> None \<and> currentSkipReason \<noteq> Some [] \<and>
                  currentSkipReason = lastSkipReason st \<and>
                  e_now e - lastPostAt st < SLACK_DEDUP_WINDOW_MS then st
          else (let st1 = log_call (SlackPost channel msg (blocks \<and> blockKit)) st in
                if \<not> postOk e msg then log_audit (SlackPostFailed channel) st1
                else st1\<lparr>lastPostAt := e_now e, lastSkipReason := currentSkipReason\<rparr>)
      | _ \<Rightarrow> st)"

text \<open>A row with its defaults, and its insertion.\<close>

definition new_row ::
  "tick_context \<Rightarrow> rm_env \<Rightarrow> rm_state \<Rightarrow> decision \<Rightarrow> string \<Rightarrow> trigger_snapshot \<Rightarrow> decision_row" where
  "new_row c e st kind reason snap =
     \<lparr>d_id = nextId st, d_repoUrl = c_repoUrl c, d_branch = ctx_branch c, d_decidedAt = e_now e,
      d_decision = kind, d_reason = reason, d_snapshot = snap, d_proposedVersion = None,
      d_firedTag = None, d_firedSha = None, d_attemptCount = 0, d_qaRunId = None, d_qaRunSha = None\<rparr>"

definition persistDecision :: "decision_row \<Rightarrow> rm_state \<Rightarrow> rm_state" where
  "persistDecision row st = st\<lparr>decisions := decisions st @ [row], nextId := Suc (nextId st)\<rparr>"

definition here :: "tick_context \<Rightarrow> decision_row \<Rightarrow> bool" where
  "here c r \<longleftrightarrow> d_repoUrl r = c_repoUrl c \<and> d_branch r = ctx_branch c"

text \<open>\<open>ORDER BY decided_at DESC\<close>, and its first row.\<close>

definition by_latest :: "decision_row list \<Rightarrow> decision_row list" where
  "by_latest rows = sort_key (\<lambda>r. - d_decidedAt r) rows"

definition queryLatestReleaseDecision ::
  "tick_context \<Rightarrow> (decision_row \<Rightarrow> bool) \<Rightarrow> decision_row list \<Rightarrow> decision_row option" where
  "queryLatestReleaseDecision c additionalCondition rows =
     (case by_latest (filter (\<lambda>r. here c r \<and> additionalCondition r) rows) of
        [] \<Rightarrow> None | r # _ \<Rightarrow> Some r)"

definition approvals_here :: "tick_context \<Rightarrow> approval_row list \<Rightarrow> approval_row list" where
  "approvals_here c rows =
     sort_key (\<lambda>r. - a_approvedAt r)
       (filter (\<lambda>r. a_repoUrl r = c_repoUrl c \<and> a_branch r = ctx_branch c \<and> a_consumedAt r = None) rows)"

definition consumeApprovalRow :: "tick_context \<Rightarrow> rm_env \<Rightarrow> nat \<Rightarrow> rm_state \<Rightarrow> rm_state" where
  "consumeApprovalRow c e decisionId st =
     (case approvals_here c (approvals st) of
        [] \<Rightarrow> st
      | fresh # _ \<Rightarrow>
          st\<lparr>approvals := update_where (\<lambda>r. a_id r = a_id fresh)
             (\<lambda>r. r\<lparr>a_consumedAt := Some (e_now e), a_consumedBy := Some decisionId\<rparr>) (approvals st)\<rparr>)"

definition getMaxAttemptCountForReason ::
  "tick_context \<Rightarrow> string \<Rightarrow> string option \<Rightarrow> decision_row list \<Rightarrow> nat" where
  "getMaxAttemptCountForReason c reason qaRunSha rows =
     foldr max (map d_attemptCount (filter (\<lambda>r. here c r \<and> d_reason r = reason \<and>
       (case qaRunSha of None \<Rightarrow> True | Some sha \<Rightarrow> d_qaRunSha r = Some sha)) rows)) 0"

definition clearFailureRowsForSha :: "tick_context \<Rightarrow> string \<Rightarrow> string \<Rightarrow> rm_state \<Rightarrow> rm_state" where
  "clearFailureRowsForSha c reason sha st =
     st\<lparr>decisions := delete_where (\<lambda>r. here c r \<and> d_reason r = reason \<and> d_qaRunSha r = Some sha \<and>
        d_qaRunId r = None) (decisions st)\<rparr>"

section \<open>The quality workflow\<close>

text \<open>\<open>None\<close> is the error that \<open>workflowFileExists\<close> passes on.\<close>

definition workflowFileExists :: "rm_env \<Rightarrow> string \<Rightarrow> string \<Rightarrow> bool option" where
  "workflowFileExists e path ref =
     (case getContent e path ref of
        Found \<Rightarrow> Some True | NotFound \<Rightarrow> Some False | LookupError \<Rightarrow> None)"

datatype dispatch_result =
    DispatchOk int | Dispatch404 | Dispatch422 string | DispatchError string | DispatchPending

definition triggerWorkflow ::
  "rm_env \<Rightarrow> string \<Rightarrow> string \<Rightarrow> rm_state \<Rightarrow> dispatch_result \<times> rm_state" where
  "triggerWorkflow e workflow ref st =
     (let st1 = log_call (DispatchWorkflow workflow ref) st in
      case dispatchAnswer e workflow ref of
        Failure status msg \<Rightarrow>
          (if status = Some 404 then Dispatch404
           else if status = Some 422 then Dispatch422 msg else DispatchError msg, st1)
      | Answer _ \<Rightarrow>
          (case listWorkflowRuns e workflow ref of
             Some (runId # _) \<Rightarrow> (DispatchOk runId, log_audit (QaRunTriggered workflow runId ref) st1)
           | _ \<Rightarrow> (DispatchPending, st1)))"

datatype poll_result = PollRunning | PollCompleted string millis

text \<open>\<open>None\<close> is the error that \<open>pollWorkflowRun\<close> passes on.\<close>

definition pollWorkflowRun :: "rm_env \<Rightarrow> int \<Rightarrow> poll_result option" where
  "pollWorkflowRun e runId =
     (case getWorkflowRun e runId of
        None \<Rightarrow> None
      | Some data \<Rightarrow>
          if wr_status data \<noteq> Some ''completed'' then Some PollRunning
          else (let started = (case wr_startedAt data of Some t \<Rightarrow> t
                  | None \<Rightarrow> (case wr_createdAt data of Some t \<Rightarrow> t | None \<Rightarrow> e_now e));
                    updated = (case wr_updatedAt data of Some t \<Rightarrow> t | None \<Rightarrow> e_now e)
                in Some (PollCompleted
                     (case wr_conclusion data of Some x \<Rightarrow> x | None \<Rightarrow> ''neutral'')
                     (max 0 (updated - started)))))"

datatype gap_result = GapFiled string | GapAlreadyFiled string | GapLinearError string

definition open_gap :: "tick_context \<Rightarrow> string \<Rightarrow> gap_row \<Rightarrow> bool" where
  "open_gap c path g \<longleftrightarrow> g_repoUrl g = c_repoUrl c \<and> g_branch g = ctx_branch c \<and>
     g_workflowPath g = path \<and> g_resolvedAt g = None"

definition fileGapIssue ::
  "tick_context \<Rightarrow> rm_env \<Rightarrow> qa_check_config \<Rightarrow> rm_state \<Rightarrow> gap_result \<times> rm_state" where
  "fileGapIssue c e q st =
     (let existing = select_one (open_gap c (qa_workflow q)) (gaps st) in
      if existing \<noteq> None \<and> g_linearIssueId (the existing) \<noteq> []
      then (GapAlreadyFiled (g_linearIssueId (the existing)), st)
      else (let st1 = log_call (CreateIssue (qa_linearTeamId q)) st in
            case createIssueAnswer e (qa_linearTeamId q) of
              Failure _ msg \<Rightarrow> (GapLinearError msg, st1)
            | Answer identifier \<Rightarrow>
                if identifier = [] then (GapLinearError ''Linear createIssue returned no identifier'', st1)
                else (GapFiled identifier,
                  log_audit (QaGapFiled (qa_workflow q) identifier)
                    (st1\<lparr>gaps := gaps st1 @ [\<lparr>g_repoUrl = c_repoUrl c, g_branch = ctx_branch c,
                       g_workflowPath = qa_workflow q, g_linearIssueId = identifier,
                       g_resolvedAt = None\<rparr>]\<rparr>))))"

definition markGapResolved :: "tick_context \<Rightarrow> rm_env \<Rightarrow> string \<Rightarrow> rm_state \<Rightarrow> rm_state" where
  "markGapResolved c e path st =
     st\<lparr>gaps := update_where (open_gap c path) (\<lambda>g. g\<lparr>g_resolvedAt := Some (e_now e)\<rparr>) (gaps st)\<rparr>"

definition tryFileQaGapIssue ::
  "tick_context \<Rightarrow> rm_env \<Rightarrow> qa_check_config \<Rightarrow> rm_state \<Rightarrow> (string \<times> nat) \<times> rm_state" where
  "tryFileQaGapIssue c e q st =
     (case fileGapIssue c e q st of
        (GapLinearError msg, st1) \<Rightarrow>
          (let attemptCount =
             getMaxAttemptCountForReason c ''qa_no_workflow'' None (decisions st1) + 1
           in ((if MAX_QA_RETRY_ATTEMPTS \<le> attemptCount then ''qa_gap_file_error''
                else ''qa_no_workflow'', attemptCount), st1))
      | (_, st1) \<Rightarrow> ((''qa_no_workflow'', 0), st1))"

definition fileGapOrLog ::
  "tick_context \<Rightarrow> rm_env \<Rightarrow> qa_check_config \<Rightarrow> rm_state \<Rightarrow> (string \<times> nat) \<times> rm_state" where
  "fileGapOrLog c e q st =
     (if \<not> hasLinear c then ((''qa_no_workflow'', 0), st) else tryFileQaGapIssue c e q st)"

section \<open>Collecting the state of the repository\<close>

text \<open>The latest tag: its name with a leading v, its commit and its time. A failed list is an empty one;
  a failed read of the commit keeps name and commit and leaves the time out.\<close>

definition with_v :: "string \<Rightarrow> string" where
  "with_v t = (if startsWith t ''v'' then t else ''v'' @ t)"

definition latest_tag :: "rm_env \<Rightarrow> (string \<times> string \<times> millis option) option" where
  "latest_tag e =
     (case find (\<lambda>t. release_tag (fst t)) (case listTags e of None \<Rightarrow> [] | Some ts \<Rightarrow> ts) of
        None \<Rightarrow> None
      | Some (name, sha) \<Rightarrow>
          Some (with_v name, sha, case commitDate e sha of None \<Rightarrow> None | Some d \<Rightarrow> d))"

definition commits_since :: "rm_env \<Rightarrow> string option \<Rightarrow> string \<Rightarrow> string list" where
  "commits_since e lastTagSha headSha =
     (case lastTagSha of
        None \<Rightarrow> (case listCommits e of None \<Rightarrow> [] | Some ms \<Rightarrow> ms)
      | Some sha \<Rightarrow>
          if sha = [] then (case listCommits e of None \<Rightarrow> [] | Some ms \<Rightarrow> ms)
          else (case compareCommits e sha headSha of None \<Rightarrow> [] | Some ms \<Rightarrow> ms))"

definition latest_completed :: "check_run list \<Rightarrow> millis option" where
  "latest_completed runs =
     (case List.map_filter cr_completedAt runs of [] \<Rightarrow> None | t # ts \<Rightarrow> Some (foldl max t ts))"

definition ci_of :: "rm_env \<Rightarrow> ci_status \<times> millis option" where
  "ci_of e =
     (case checkRuns e of
        None \<Rightarrow> (CiUnavailable, None)
      | Some runs \<Rightarrow>
          if runs = [] then (CiUnavailable, None)
          else if \<not> list_all (\<lambda>r. cr_status r = ''completed'') runs then (CiNotGreen, None)
          else if list_all (\<lambda>r. cr_conclusion r = Some ''success'') runs
          then (CiGreen, latest_completed runs)
          else (CiNotGreen, None))"

definition is_release_row :: "decision_row \<Rightarrow> bool" where
  "is_release_row r \<longleftrightarrow> d_decision r = Fired \<or> d_decision r = FirePending"

definition last_fired_tag :: "tick_context \<Rightarrow> decision_row list \<Rightarrow> string option" where
  "last_fired_tag c rows =
     Option.bind (queryLatestReleaseDecision c is_release_row rows) d_firedTag"

definition fresh_approvals :: "tick_context \<Rightarrow> millis \<Rightarrow> approval_row list \<Rightarrow> approval_row list" where
  "fresh_approvals c cutoff rows = filter (\<lambda>r. cutoff \<le> a_approvedAt r) (approvals_here c rows)"

definition latest_qa_run :: "tick_context \<Rightarrow> decision_row list \<Rightarrow> qa_run_snapshot option" where
  "latest_qa_run c rows =
     (case queryLatestReleaseDecision c (\<lambda>r. d_qaRunId r \<noteq> None) rows of
        None \<Rightarrow> None
      | Some r \<Rightarrow>
          Some \<lparr>q_runId = the (d_qaRunId r),
            q_runSha = (case d_qaRunSha r of None \<Rightarrow> [] | Some s \<Rightarrow> s),
            q_triggeredAt = d_decidedAt r\<rparr>)"

text \<open>\<open>None\<close> is an exception: the branch cannot be read, or the URL of the repository is no GitHub URL.\<close>

definition collectState ::
  "tick_context \<Rightarrow> rm_env \<Rightarrow> millis \<Rightarrow> rm_state \<Rightarrow> collected_state option" where
  "collectState c e approvalTtlMs st = do {
     _ \<leftarrow> parseRepoFromUrl (c_repoUrl c);
     head \<leftarrow> getBranch e;
     let tag = latest_tag e;
         lastTag = map_option fst tag;
         tagSha = map_option (fst \<circ> snd) tag;
         lastFiredTag = last_fired_tag c (decisions st);
         commits = commits_since e tagSha head;
         fresh = fresh_approvals c (e_now e - approvalTtlMs) (approvals st);
         (ci, greenSince) = ci_of e
     in Some \<lparr>s_lastTag = lastTag, s_lastTagSha = tagSha,
          s_lastTagAt = Option.bind tag (snd \<circ> snd), s_headSha = head,
          s_mergedCommits = length commits, s_commits = commits,
          s_ciStatus = ci, s_ciGreenSince = greenSince,
          s_hasFreshApproval = (fresh \<noteq> []),
          s_freshApprovalApprover = (case fresh of [] \<Rightarrow> None | r # _ \<Rightarrow> Some (a_approvedBy r)),
          s_manualTagDetected =
            (lastTag \<noteq> None \<and> lastFiredTag \<noteq> None \<and> lastTag \<noteq> lastFiredTag),
          s_qaRun = latest_qa_run c (decisions st)\<rparr> }"

section \<open>The retry of pending releases\<close>

definition MAX_FIRE_PENDING_ATTEMPTS :: nat where
  "MAX_FIRE_PENDING_ATTEMPTS = 3"

definition PERMANENT_SKIP_ATTEMPT_COUNT :: nat where
  "PERMANENT_SKIP_ATTEMPT_COUNT = 99"

definition MAX_AUDITED_RUN_IDS :: nat where
  "MAX_AUDITED_RUN_IDS = 10000"

definition updateReleaseDecisionAttemptCount :: "nat \<Rightarrow> nat \<Rightarrow> rm_state \<Rightarrow> rm_state" where
  "updateReleaseDecisionAttemptCount rowId count st =
     st\<lparr>decisions := update_where (\<lambda>r. d_id r = rowId) (\<lambda>r. r\<lparr>d_attemptCount := count\<rparr>) (decisions st)\<rparr>"

definition promote_row :: "nat \<Rightarrow> rm_state \<Rightarrow> rm_state" where
  "promote_row rowId st =
     st\<lparr>decisions := update_where (\<lambda>r. d_id r = rowId) (\<lambda>r. r\<lparr>d_decision := Fired\<rparr>) (decisions st)\<rparr>"

fun snapshot_merged :: "trigger_snapshot \<Rightarrow> nat" where
  "snapshot_merged (TickSnapshot merged _ _ _ _) = merged"
| "snapshot_merged (SlackSource _) = 0"

text \<open>One pending row: the Slack text of a success, and the state.\<close>

definition retry_failed ::
  "tick_context \<Rightarrow> rm_env \<Rightarrow> decision_row \<Rightarrow> string \<Rightarrow> string \<Rightarrow> rm_state \<Rightarrow> rm_state" where
  "retry_failed c e row tag sha st =
     (let newAttemptCount = d_attemptCount row + 1;
          st1 = updateReleaseDecisionAttemptCount (d_id row) newAttemptCount st
      in if MAX_FIRE_PENDING_ATTEMPTS \<le> newAttemptCount
         then log_audit (ReleasePartial tag newAttemptCount)
           (persistDecision
             ((new_row c e st1 Skipped ''release_create_failed_after_retries'' (d_snapshot row))
               \<lparr>d_proposedVersion := d_proposedVersion row, d_firedTag := Some tag,
                d_firedSha := Some sha, d_attemptCount := newAttemptCount\<rparr>) st1)
         else st1)"

definition retry_row ::
  "tick_context \<Rightarrow> rm_env \<Rightarrow> decision_row \<Rightarrow> slack_text list \<times> rm_state \<Rightarrow>
   slack_text list \<times> rm_state" where
  "retry_row c e row acc =
     (case acc of (msgs, st) \<Rightarrow>
       (case (d_firedTag row, d_firedSha row) of
          (Some tag, Some sha) \<Rightarrow>
            if tag = [] \<or> sha = [] then acc
            else if getRef e tag = NotFound then acc
            else (let st1 = log_call (CreateRelease tag sha None) st in
                  case createReleaseAnswer e tag of
                    Failure _ _ \<Rightarrow> (msgs, retry_failed c e row tag sha st1)
                  | Answer url \<Rightarrow>
                      (msgs @ [RetryReleased tag
                         (case url of Some u \<Rightarrow> u | None \<Rightarrow> default_url (c_repoUrl c) tag)],
                       log_audit (ReleaseFired tag sha (snapshot_merged (d_snapshot row)))
                         (promote_row (d_id row) st1)))
        | _ \<Rightarrow> acc))"

definition pending_rows :: "tick_context \<Rightarrow> decision_row list \<Rightarrow> decision_row list" where
  "pending_rows c rows =
     by_latest (filter (\<lambda>r. here c r \<and> d_decision r = FirePending \<and>
       d_attemptCount r < MAX_FIRE_PENDING_ATTEMPTS) rows)"

text \<open>
  The Slack posts run in parallel, but each of them decides, logs its call and takes the answer in the
  order of the list. A URL that does not parse makes the sweep throw, which the tick catches.
\<close>

definition sweepFirePendingRows :: "tick_context \<Rightarrow> rm_env \<Rightarrow> rm_state \<Rightarrow> rm_state" where
  "sweepFirePendingRows c e st =
     (let pending = pending_rows c (decisions st) in
      if pending = [] \<or> parseRepoFromUrl (c_repoUrl c) = None then st
      else (let (msgs, st1) = fold (retry_row c e) pending ([], st) in
            if msgs = [] then st1
            else (fold (\<lambda>m s. maybePostSlack c e m None False s) msgs st1)\<lparr>lastSkipReason := None\<rparr>))"

section \<open>The tick\<close>

definition approvalTtlMs :: "rm_config \<Rightarrow> millis" where
  "approvalTtlMs cfg =
     (case timeSinceLastHours (rm_triggers cfg) of
        Some hours \<Rightarrow> if 0 < hours then int hours * 3600 * 1000 else 24 * 3600 * 1000
      | None \<Rightarrow> 24 * 3600 * 1000)"

definition snapshot_of :: "collected_state \<Rightarrow> trigger_snapshot" where
  "snapshot_of s = TickSnapshot (s_mergedCommits s) (s_lastTag s) (s_lastTagAt s) (s_ciStatus s)
     (s_hasFreshApproval s)"

text \<open>The inputs of the quality check; a completed run is audited once, unless it was evicted since.\<close>

definition note_completion :: "int \<Rightarrow> string \<Rightarrow> millis \<Rightarrow> rm_state \<Rightarrow> rm_state" where
  "note_completion runId conclusion durationMs st =
     (if runId \<in> set (auditedRunIds st) then st
      else log_audit (QaRunCompleted runId conclusion durationMs False)
        (st\<lparr>auditedRunIds :=
           (if MAX_AUDITED_RUN_IDS \<le> length (auditedRunIds st) then [] else auditedRunIds st) @ [runId]\<rparr>))"

definition qa_inputs ::
  "tick_context \<Rightarrow> rm_env \<Rightarrow> collected_state \<Rightarrow> rm_state \<Rightarrow> decide_qa_state option \<times> rm_state" where
  "qa_inputs c e s st =
     (case qaCheck (ctx_triggers c) of
        None \<Rightarrow> (None, st)
      | Some q \<Rightarrow>
          (let exists = (case workflowFileExists e (qa_workflow q) (s_headSha s) of
                 Some b \<Rightarrow> b | None \<Rightarrow> True);
               st1 = (if exists then markGapResolved c e (qa_workflow q) st else st)
           in case s_qaRun s of
                Some run \<Rightarrow>
                  if q_runSha run = s_headSha s then
                    (case pollWorkflowRun e (q_runId run) of
                       Some (PollCompleted conclusion dur) \<Rightarrow>
                         (Some \<lparr>wfExists = exists, runConclusion = Some conclusion\<rparr>,
                          note_completion (q_runId run) conclusion dur st1)
                     | _ \<Rightarrow> (Some \<lparr>wfExists = exists, runConclusion = None\<rparr>, st1))
                  else (Some \<lparr>wfExists = exists, runConclusion = None\<rparr>, st1)
              | None \<Rightarrow> (Some \<lparr>wfExists = exists, runConclusion = None\<rparr>, st1)))"

text \<open>What a skip records: reason, attempts, and the run and commit of the quality workflow.\<close>

record skip_outcome =
  so_reason :: string
  so_attempts :: nat
  so_qaRunId :: "int option"
  so_qaRunSha :: "string option"

definition skip_for_trigger ::
  "tick_context \<Rightarrow> rm_env \<Rightarrow> qa_check_config \<Rightarrow> string \<Rightarrow> rm_state \<Rightarrow> skip_outcome \<times> rm_state" where
  "skip_for_trigger c e q head st =
     (let prev = getMaxAttemptCountForReason c ''qa_needs_trigger'' (Some head) (decisions st) in
      case triggerWorkflow e (qa_workflow q) head st of
        (DispatchOk runId, st1) \<Rightarrow>
          (\<lparr>so_reason = ''qa_needs_trigger'', so_attempts = 0, so_qaRunId = Some runId,
            so_qaRunSha = Some head\<rparr>, clearFailureRowsForSha c ''qa_needs_trigger'' head st1)
      | (Dispatch404, st1) \<Rightarrow>
          (case fileGapOrLog c e q st1 of
             ((reason, attempts), st2) \<Rightarrow>
               (\<lparr>so_reason = reason, so_attempts = attempts, so_qaRunId = None, so_qaRunSha = None\<rparr>, st2))
      | (Dispatch422 _, st1) \<Rightarrow>
          (\<lparr>so_reason = ''qa_dispatch_error'', so_attempts = PERMANENT_SKIP_ATTEMPT_COUNT,
            so_qaRunId = None, so_qaRunSha = None\<rparr>, st1)
      | (DispatchPending, st1) \<Rightarrow>
          (\<lparr>so_reason = ''qa_needs_trigger'', so_attempts = 0, so_qaRunId = None,
            so_qaRunSha = Some head\<rparr>, clearFailureRowsForSha c ''qa_needs_trigger'' head st1)
      | (DispatchError _, st1) \<Rightarrow>
          (\<lparr>so_reason = (if MAX_QA_RETRY_ATTEMPTS \<le> prev + 1 then ''qa_dispatch_error''
              else ''qa_needs_trigger''),
            so_attempts = prev + 1, so_qaRunId = None, so_qaRunSha = Some head\<rparr>, st1))"

definition skip_outcome_of ::
  "tick_context \<Rightarrow> rm_env \<Rightarrow> collected_state \<Rightarrow> string \<Rightarrow> qa_trigger_result option \<Rightarrow> rm_state \<Rightarrow>
   skip_outcome \<times> rm_state" where
  "skip_outcome_of c e s reason action st =
     (let plain = \<lparr>so_reason = reason, so_attempts = 0, so_qaRunId = None, so_qaRunSha = None\<rparr> in
      case (action, qaCheck (ctx_triggers c)) of
        (Some QaNeedsTrigger, Some q) \<Rightarrow> skip_for_trigger c e q (s_headSha s) st
      | (Some QaNoWorkflow, Some q) \<Rightarrow>
          (case fileGapOrLog c e q st of
             ((r, attempts), st1) \<Rightarrow> (plain\<lparr>so_reason := r, so_attempts := attempts\<rparr>, st1))
      | (Some (QaTimedOut runId), Some q) \<Rightarrow>
          (plain, case s_qaRun s of
             None \<Rightarrow> st
           | Some run \<Rightarrow>
               log_audit (QaRunCompleted runId ''timed_out'' (e_now e - q_triggeredAt run) True) st)
      | _ \<Rightarrow> (plain, st))"

definition tick_skip ::
  "tick_context \<Rightarrow> rm_env \<Rightarrow> collected_state \<Rightarrow> string \<Rightarrow> string \<Rightarrow> qa_trigger_result option \<Rightarrow>
   rm_state \<Rightarrow> rm_state" where
  "tick_skip c e s proposedVersion reason action st =
     (case skip_outcome_of c e s reason action st of
        (o1, st1) \<Rightarrow>
          (let row = (new_row c e st1 Skipped (so_reason o1) (snapshot_of s))
                 \<lparr>d_proposedVersion := Some proposedVersion, d_qaRunId := so_qaRunId o1,
                  d_qaRunSha := so_qaRunSha o1, d_attemptCount := so_attempts o1\<rparr>;
               st2 = log_audit (ReleaseSkipped (so_reason o1)) (persistDecision row st1)
           in maybePostSlack c e (SkipText (so_reason o1)) (Some (so_reason o1)) False st2))"

definition tick_await ::
  "tick_context \<Rightarrow> rm_env \<Rightarrow> collected_state \<Rightarrow> string \<Rightarrow> string \<Rightarrow> rm_state \<Rightarrow> rm_state" where
  "tick_await c e s proposedVersion reason st =
     (let row = (new_row c e st AwaitingApproval reason (snapshot_of s))
            \<lparr>d_proposedVersion := Some proposedVersion\<rparr>;
          st1 = log_audit (ReleaseSkipped ''awaiting-approval'') (persistDecision row st)
      in maybePostSlack c e (ReadyText proposedVersion (s_mergedCommits s)) None True
           (st1\<lparr>lastSkipReason := None\<rparr>))"

definition tick_fire ::
  "tick_context \<Rightarrow> rm_env \<Rightarrow> collected_state \<Rightarrow> string \<Rightarrow> rm_state \<Rightarrow> rm_state" where
  "tick_fire c e s proposedVersion st0 =
     (case createTagAndRelease c e proposedVersion (s_headSha s) (isPrereleaseTag proposedVersion) st0 of
        (result, st) \<Rightarrow>
          (let skipped = (\<lambda>reason. (new_row c e st Skipped reason (snapshot_of s))
                 \<lparr>d_proposedVersion := Some proposedVersion\<rparr>);
               tagged = (\<lambda>kind reason. (new_row c e st kind reason (snapshot_of s))
                 \<lparr>d_proposedVersion := Some proposedVersion, d_firedTag := Some proposedVersion,
                  d_firedSha := Some (s_headSha s)\<rparr>)
           in case result of
                TagExists \<Rightarrow>
                  log_audit (ReleaseTagConflict proposedVersion) (persistDecision (skipped ''tag_exists'') st)
              | ReleaseCreateFailed _ \<Rightarrow>
                  persistDecision
                    ((tagged FirePending ''release_create_failed'')\<lparr>d_attemptCount := 1\<rparr>) st
              | TagOtherError _ \<Rightarrow>
                  log_audit (ReleaseSkipped ''tag_create_error'')
                    (persistDecision (skipped ''tag_create_error'') st)
              | TagOk url \<Rightarrow>
                  (let st1 = persistDecision (tagged Fired ''all triggers passed'') st;
                       st2 = (if s_hasFreshApproval s
                         then consumeApprovalRow c e (nextId st) st1 else st1);
                       st3 = log_audit (ReleaseFired proposedVersion (s_headSha s) (s_mergedCommits s)) st2
                   in (maybePostSlack c e (ReleasedText proposedVersion url) None False st3)
                        \<lparr>lastSkipReason := None\<rparr>)))"

definition proposed_version :: "tick_context \<Rightarrow> collected_state \<Rightarrow> string" where
  "proposed_version c s =
     bumpFromConfigAndCommits (s_lastTag s) (s_commits s) (rm_versionBump (c_config c))
       (case rm_prereleaseChannel (c_config c) of None \<Rightarrow> NoChannel | Some ch \<Rightarrow> ch)"

definition tick_decide ::
  "tick_context \<Rightarrow> rm_env \<Rightarrow> collected_state \<Rightarrow> rm_state \<Rightarrow> rm_state" where
  "tick_decide c e s st =
     (case qa_inputs c e s st of
        (qaState, st1) \<Rightarrow>
          (let version = proposed_version c s in
           case decide (e_fmt e) s (ctx_triggers c) (e_now e) qaState of
             DSkip reason action \<Rightarrow> tick_skip c e s version reason action st1
           | DAwaitApproval reason \<Rightarrow> tick_await c e s version reason st1
           | DFire _ \<Rightarrow> tick_fire c e s version st1))"

definition tick :: "tick_context \<Rightarrow> rm_env \<Rightarrow> rm_state \<Rightarrow> rm_state" where
  "tick c e st =
     (if \<not> e_licensed e then st\<lparr>licenseWarnLogged := True\<rparr>
      else if e_now e < pausedUntilTs st then st
      else (let st1 = sweepFirePendingRows c e st in
            case collectState c e (approvalTtlMs (c_config c)) st1 of
              None \<Rightarrow> st1
            | Some s \<Rightarrow>
                if s_manualTagDetected s
                then log_audit (ReleaseSkipped ''manual_tag_detected'')
                  (persistDecision (new_row c e st1 Skipped ''manual_tag_detected'' (snapshot_of s)) st1)
                else tick_decide c e s st1))"

section \<open>The scheduler and the Slack commands\<close>

definition createReleaseManagerScheduler ::
  "decision_row list \<Rightarrow> approval_row list \<Rightarrow> gap_row list \<Rightarrow> nat \<Rightarrow> rm_state" where
  "createReleaseManagerScheduler ds as gs n =
     \<lparr>decisions = ds, approvals = as, gaps = gs, lastSkipReason = None, lastPostAt = 0,
      licenseWarnLogged = False, auditedRunIds = [], pausedUntilTs = 0, audits = [], calls = [],
      nextId = n\<rparr>"

definition pauseUntil :: "millis \<Rightarrow> rm_state \<Rightarrow> rm_state" where
  "pauseUntil ts st = st\<lparr>pausedUntilTs := ts\<rparr>"

datatype release_subcommand = ReleaseApprove | ReleaseSkip string | ReleaseStatus | ReleaseUnknown string

text \<open>\<open>/^skip\s+/i\<close>: what follows the word and its blanks, if there is a blank.\<close>

definition after_skip :: "string \<Rightarrow> string option" where
  "after_skip s =
     (if startsWith (toLowerCase s) ''skip'' \<and> takeWhile is_space (drop 4 s) \<noteq> []
      then Some (dropWhile is_space (drop 4 s)) else None)"

definition parseReleaseSubcommand :: "string \<Rightarrow> release_subcommand" where
  "parseReleaseSubcommand text1 =
     (let trimmed = trim text1; lower = toLowerCase trimmed in
      if lower = ''approve'' then ReleaseApprove
      else if lower = ''status'' then ReleaseStatus
      else (case after_skip trimmed of
              Some rest \<Rightarrow> if rest \<noteq> [] then ReleaseSkip (trim rest) else ReleaseUnknown trimmed
            | None \<Rightarrow> ReleaseUnknown trimmed))"

datatype command_response =
    ApprovedBy string | AlreadyApproved string | SkippedFor string nat | StatusView | HelpText

text \<open>
  \<open>/release approve\<close>: the partial unique index on (repository, branch, user) where the approval is not
  consumed refuses a second row. \<open>/release skip\<close> pauses the scheduler for the cadence, or a day.
\<close>

definition open_approval :: "tick_context \<Rightarrow> string \<Rightarrow> approval_row \<Rightarrow> bool" where
  "open_approval c user r \<longleftrightarrow> a_repoUrl r = c_repoUrl c \<and> a_branch r = ctx_branch c \<and>
     a_approvedBy r = user \<and> a_consumedAt r = None"

definition handleReleaseSubcommand ::
  "tick_context \<Rightarrow> rm_env \<Rightarrow> string \<Rightarrow> release_subcommand \<Rightarrow> rm_state \<Rightarrow>
   command_response \<times> rm_state" where
  "handleReleaseSubcommand c e user cmd st =
     (case cmd of
        ReleaseApprove \<Rightarrow>
          if list_ex (open_approval c user) (approvals st) then (AlreadyApproved user, st)
          else (ApprovedBy user,
            log_audit (ReleaseApproved user)
              (st\<lparr>approvals := approvals st @ [\<lparr>a_id = nextId st, a_repoUrl = c_repoUrl c,
                 a_branch = ctx_branch c, a_approvedAt = e_now e, a_approvedBy = user,
                 a_consumedAt = None, a_consumedBy = None\<rparr>], nextId := Suc (nextId st)\<rparr>))
      | ReleaseSkip reason \<Rightarrow>
          (let hours = (case timeSinceLastHours (ctx_triggers c) of None \<Rightarrow> 24 | Some h \<Rightarrow> h);
               st1 = log_audit (ReleaseSkipped (''manual:'' @ reason))
                 (persistDecision (new_row c e st Skipped (''manual:'' @ reason) (SlackSource user)) st)
           in (SkippedFor reason hours, pauseUntil (e_now e + int hours * 3600 * 1000) st1))
      | ReleaseStatus \<Rightarrow> (StatusView, st)
      | ReleaseUnknown _ \<Rightarrow> (HelpText, st))"

text \<open>The version that \<open>/release status\<close> announces: the channel is not passed.\<close>

definition status_proposed_next :: "tick_context \<Rightarrow> collected_state \<Rightarrow> string" where
  "status_proposed_next c s =
     bumpFromConfigAndCommits (s_lastTag s) (s_commits s) (rm_versionBump (c_config c)) NoChannel"

end
