(* ===== verification/ReleaseProps.thy ===== *)
theory ReleaseProps
  imports ReleaseManager
begin

text \<open>
  What the release manager promises. A tick is followed through its operations once: it is a sequence of
  the steps in which the decision rows change. The invariant of the rows and the refinement of an abstract
  ledger of releases, which bounds the retries, are then inductions over these steps.
\<close>

section \<open>What the operations leave alone\<close>

text \<open>The retries of pending releases are the calls without a \<open>prerelease\<close> flag.\<close>

definition is_retry :: "rm_call \<Rightarrow> bool" where
  "is_retry a \<longleftrightarrow> (case a of CreateRelease _ _ flag \<Rightarrow> flag = None | _ \<Rightarrow> False)"

definition retry_count :: "rm_state \<Rightarrow> nat" where
  "retry_count st = length (filter is_retry (calls st))"

definition same_rows :: "rm_state \<Rightarrow> rm_state \<Rightarrow> bool" where
  "same_rows st st' \<longleftrightarrow>
     decisions st' = decisions st \<and> nextId st \<le> nextId st' \<and> retry_count st' = retry_count st"

named_theorems rows_same

lemma same_rows_refl [rows_same, simp]: "same_rows st st"
  by (simp add: same_rows_def)

lemma same_rows_trans: "same_rows a b \<Longrightarrow> same_rows b c \<Longrightarrow> same_rows a c"
  by (simp add: same_rows_def)

lemma same_rows_audit [rows_same]: "same_rows st (log_audit a st)"
  by (simp add: same_rows_def log_audit_def retry_count_def)

lemma same_rows_call [rows_same]: "\<not> is_retry a \<Longrightarrow> same_rows st (log_call a st)"
  by (simp add: same_rows_def log_call_def retry_count_def)

lemma same_rows_slack [rows_same]: "same_rows st (maybePostSlack c e m r b st)"
  by (auto simp: maybePostSlack_def same_rows_def log_call_def log_audit_def retry_count_def Let_def
      is_retry_def split: option.split)

lemma same_rows_create_tag: "same_rows st (snd (createTagAndRelease c e tag sha p st))"
  by (auto simp: createTagAndRelease_def same_rows_def log_call_def retry_count_def Let_def is_retry_def
      split: answer.split)

lemma same_rows_consume [rows_same]: "same_rows st (consumeApprovalRow c e i st)"
  by (simp add: consumeApprovalRow_def same_rows_def retry_count_def split: list.split)

lemma same_rows_trigger: "same_rows st (snd (triggerWorkflow e w sha st))"
  by (auto simp: triggerWorkflow_def same_rows_def log_call_def log_audit_def retry_count_def Let_def
      is_retry_def split: answer.split option.split list.split)

lemma same_rows_gap: "same_rows st (snd (fileGapIssue c e q st))"
  by (auto simp: fileGapIssue_def same_rows_def log_call_def log_audit_def retry_count_def Let_def
      is_retry_def split: answer.split)

lemma same_rows_try_gap: "same_rows st (snd (tryFileQaGapIssue c e q st))"
  using same_rows_gap [of st c e q]
  by (auto simp: tryFileQaGapIssue_def Let_def split: prod.split gap_result.split)

lemma same_rows_gap_or_log: "same_rows st (snd (fileGapOrLog c e q st))"
  by (simp add: fileGapOrLog_def same_rows_try_gap)

lemma gap_or_log_pair: "fileGapOrLog c e q st = ((a, b), st') \<Longrightarrow> same_rows st st'"
  using same_rows_gap_or_log [of st c e q] by simp

lemma same_rows_completion: "same_rows st (note_completion r conc d st)"
  by (simp add: note_completion_def same_rows_def log_audit_def retry_count_def)

lemma same_rows_resolved: "same_rows st (markGapResolved c e path st)"
  by (simp add: markGapResolved_def same_rows_def retry_count_def)

lemma same_rows_qa_inputs: "same_rows st (snd (qa_inputs c e s st))"
  by (auto simp: qa_inputs_def Let_def
      intro: same_rows_trans [OF same_rows_resolved] same_rows_resolved same_rows_completion
      split: option.split poll_result.split)

section \<open>The invariant of the rows\<close>

definition rows_ok :: "rm_state \<Rightarrow> bool" where
  "rows_ok st \<longleftrightarrow>
     distinct (map d_id (decisions st)) \<and>
     (\<forall>r \<in> set (decisions st). d_id r < nextId st \<and>
        (is_release_row r \<longrightarrow> d_firedTag r \<noteq> None \<and> d_reason r \<noteq> ''qa_needs_trigger''))"

text \<open>
  The ways in which a tick changes the decision rows. The flag tells whether new release rows are among
  them; the retry of pending releases adds none.
\<close>

inductive row_step :: "bool \<Rightarrow> rm_state \<Rightarrow> rm_state \<Rightarrow> bool" where
  quiet: "same_rows st st' \<Longrightarrow> row_step rel st st'"
| plain_row: "\<not> is_release_row row \<Longrightarrow> d_id row = nextId st \<Longrightarrow>
    row_step rel st (persistDecision row st)"
| release_row: "is_release_row row \<Longrightarrow> d_id row = nextId st \<Longrightarrow> d_firedTag row \<noteq> None \<Longrightarrow>
    d_reason row \<noteq> ''qa_needs_trigger'' \<Longrightarrow>
    d_decision row = FirePending \<longrightarrow> d_attemptCount row = 1 \<Longrightarrow>
    row_step True st (persistDecision row st)"
| clear: "row_step rel st (clearFailureRowsForSha c ''qa_needs_trigger'' sha st)"
| retry_ok: "row \<in> set (decisions st) \<Longrightarrow> d_decision row = FirePending \<Longrightarrow>
    d_attemptCount row < MAX_FIRE_PENDING_ATTEMPTS \<Longrightarrow>
    row_step rel st (promote_row (d_id row) (log_call (CreateRelease tag sha None) st))"
| retry_fail: "row \<in> set (decisions st) \<Longrightarrow> d_decision row = FirePending \<Longrightarrow>
    d_attemptCount row < MAX_FIRE_PENDING_ATTEMPTS \<Longrightarrow>
    row_step rel st (updateReleaseDecisionAttemptCount (d_id row) (Suc (d_attemptCount row))
      (log_call (CreateRelease tag sha None) st))"

lemma is_release_attempt [simp]:
  "is_release_row (r\<lparr>d_attemptCount := n\<rparr>) = is_release_row r"
  by (simp add: is_release_row_def)

lemma log_call_rows [simp]: "decisions (log_call a st) = decisions st" "nextId (log_call a st) = nextId st"
  by (simp_all add: log_call_def)

lemma log_audit_rows: "decisions (log_audit a st) = decisions st"
  by (simp add: log_audit_def)

lemma rows_ok_step: "row_step rel st st' \<Longrightarrow> rows_ok st \<Longrightarrow> rows_ok st'"
proof (induction rule: row_step.induct)
  case (quiet st st' rel)
  then show ?case by (auto simp: rows_ok_def same_rows_def intro: less_le_trans)
next
  case (plain_row row st rel)
  then show ?case by (auto simp: rows_ok_def persistDecision_def less_Suc_eq)
next
  case (release_row row st)
  then show ?case by (auto simp: rows_ok_def persistDecision_def less_Suc_eq)
next
  case (clear rel st c sha)
  then show ?case
    by (auto simp: rows_ok_def clearFailureRowsForSha_def delete_where_def distinct_map
        intro: inj_on_subset)
next
  case (retry_ok row st rel tag sha)
  have "d_firedTag r \<noteq> None \<and> d_reason r \<noteq> ''qa_needs_trigger''"
    if "r \<in> set (decisions st)" "d_id r = d_id row" for r
  proof -
    have "r = row"
      using retry_ok that by (auto simp: rows_ok_def distinct_map dest: inj_onD)
    with retry_ok show ?thesis by (auto simp: rows_ok_def is_release_row_def)
  qed
  with retry_ok show ?case
    by (auto simp: rows_ok_def promote_row_def map_update_where set_update_where)
next
  case (retry_fail row st rel tag sha)
  then show ?case
    by (auto simp: rows_ok_def updateReleaseDecisionAttemptCount_def map_update_where set_update_where)
qed

section \<open>Every tick is made of such steps\<close>

abbreviation row_steps :: "bool \<Rightarrow> rm_state \<Rightarrow> rm_state \<Rightarrow> bool" where
  "row_steps rel \<equiv> (row_step rel)\<^sup>*\<^sup>*"

lemma rows_ok_steps: "row_steps rel st st' \<Longrightarrow> rows_ok st \<Longrightarrow> rows_ok st'"
  by (induction rule: rtranclp_induct) (auto intro: rows_ok_step)

lemma steps_quiet: "row_steps rel st st1 \<Longrightarrow> same_rows st1 st2 \<Longrightarrow> row_steps rel st st2"
  by (rule rtranclp.rtrancl_into_rtrancl) (auto intro: quiet)

lemma quiet_steps: "same_rows st st1 \<Longrightarrow> row_steps rel st1 st2 \<Longrightarrow> row_steps rel st st2"
  by (rule converse_rtranclp_into_rtranclp) (auto intro: quiet)

lemma steps_plain:
  "row_steps rel st st1 \<Longrightarrow> \<not> is_release_row row \<Longrightarrow> d_id row = nextId st1 \<Longrightarrow>
   row_steps rel st (persistDecision row st1)"
  by (rule rtranclp.rtrancl_into_rtrancl) (auto intro: plain_row)

lemma new_row_sel [simp]:
  "d_id (new_row c e st k r sn) = nextId st" "d_decision (new_row c e st k r sn) = k"
  "d_reason (new_row c e st k r sn) = r" "d_attemptCount (new_row c e st k r sn) = 0"
  "d_firedTag (new_row c e st k r sn) = None" "d_repoUrl (new_row c e st k r sn) = c_repoUrl c"
  "d_branch (new_row c e st k r sn) = ctx_branch c" "d_decidedAt (new_row c e st k r sn) = e_now e"
  "d_qaRunId (new_row c e st k r sn) = None"
  by (simp_all add: new_row_def)

text \<open>The rows still to retry are rows of the table, unchanged by the retries before them.\<close>

definition to_retry :: "decision_row list \<Rightarrow> rm_state \<Rightarrow> bool" where
  "to_retry rows st \<longleftrightarrow>
     distinct (map d_id rows) \<and> set rows \<subseteq> set (decisions st) \<and>
     (\<forall>r \<in> set rows. d_decision r = FirePending \<and> d_attemptCount r < MAX_FIRE_PENDING_ATTEMPTS)"

lemma to_retry_update:
  assumes "to_retry (row # rows) st" "set (update_where (\<lambda>r. d_id r = d_id row) f (decisions st)) \<subseteq> set (decisions st')"
  shows "to_retry rows st'"
proof -
  have "r \<in> set (decisions st')" if "r \<in> set rows" for r
  proof -
    have "d_id r \<in> d_id ` set rows" "d_id row \<notin> d_id ` set rows" "r \<in> set (decisions st)"
      using assms(1) that by (auto simp: to_retry_def)
    then have "d_id r \<noteq> d_id row" "r \<in> set (decisions st)" by auto
    then have "r \<in> set (update_where (\<lambda>r. d_id r = d_id row) f (decisions st))"
      by (force simp: set_update_where)
    with assms(2) show ?thesis by blast
  qed
  with assms(1) show ?thesis by (auto simp: to_retry_def)
qed

lemma retry_failed_steps:
  assumes "to_retry (row # rows) st"
  shows "row_steps rel st (retry_failed c e row tag sha (log_call (CreateRelease tag sha None) st)) \<and>
    to_retry rows (retry_failed c e row tag sha (log_call (CreateRelease tag sha None) st))"
proof -
  define st1 where "st1 = updateReleaseDecisionAttemptCount (d_id row) (Suc (d_attemptCount row))
      (log_call (CreateRelease tag sha None) st)"
  have step: "row_steps rel st st1"
    using assms by (auto simp: to_retry_def st1_def intro!: r_into_rtranclp retry_fail)
  have rows: "to_retry rows st1"
    by (rule to_retry_update [OF assms, of "\<lambda>r. r\<lparr>d_attemptCount := Suc (d_attemptCount row)\<rparr>"])
      (simp add: st1_def updateReleaseDecisionAttemptCount_def)
  show ?thesis
  proof (cases "MAX_FIRE_PENDING_ATTEMPTS \<le> Suc (d_attemptCount row)")
    case True
    define new where "new = (new_row c e st1 Skipped ''release_create_failed_after_retries''
        (d_snapshot row))\<lparr>d_proposedVersion := d_proposedVersion row, d_firedTag := Some tag,
                d_firedSha := Some sha, d_attemptCount := Suc (d_attemptCount row)\<rparr>"
    have eq: "retry_failed c e row tag sha (log_call (CreateRelease tag sha None) st) =
        log_audit (ReleasePartial tag (Suc (d_attemptCount row))) (persistDecision new st1)"
      using True by (simp only: retry_failed_def st1_def new_def Let_def if_True Suc_eq_plus1)
    have "row_steps rel st (persistDecision new st1)"
      by (rule steps_plain [OF step]) (simp_all add: new_def is_release_row_def)
    moreover have "to_retry rows (persistDecision new st1)"
      using rows by (auto simp: to_retry_def persistDecision_def)
    ultimately show ?thesis
      unfolding eq using steps_quiet [OF _ same_rows_audit]
      by (simp add: to_retry_def log_audit_rows)
  next
    case False
    then have "retry_failed c e row tag sha (log_call (CreateRelease tag sha None) st) = st1"
      by (simp only: retry_failed_def st1_def Let_def if_False Suc_eq_plus1)
    with step rows show ?thesis by simp
  qed
qed

lemma retry_row_steps:
  assumes "to_retry (row # rows) st"
  shows "row_steps rel st (snd (retry_row c e row (msgs, st))) \<and>
    to_retry rows (snd (retry_row c e row (msgs, st)))"
proof -
  have skip: "to_retry rows st" using assms by (auto simp: to_retry_def)
  have ok: "row_steps rel st (log_audit a (promote_row (d_id row) (log_call (CreateRelease tag sha None) st))) \<and>
      to_retry rows (log_audit a (promote_row (d_id row) (log_call (CreateRelease tag sha None) st)))"
    for a tag sha
  proof
    have "row_steps rel st (promote_row (d_id row) (log_call (CreateRelease tag sha None) st))"
      using assms by (auto simp: to_retry_def intro!: r_into_rtranclp retry_ok)
    then show "row_steps rel st (log_audit a (promote_row (d_id row) (log_call (CreateRelease tag sha None) st)))"
      by (rule steps_quiet) (rule same_rows_audit)
    show "to_retry rows (log_audit a (promote_row (d_id row) (log_call (CreateRelease tag sha None) st)))"
      by (rule to_retry_update [OF assms, of "\<lambda>r. r\<lparr>d_decision := Fired\<rparr>"])
        (simp add: log_audit_def promote_row_def)
  qed
  show ?thesis
    using skip ok retry_failed_steps [OF assms]
    by (simp add: retry_row_def Let_def split: option.split answer.split)
qed

lemma retry_fold_steps:
  "to_retry rows st \<Longrightarrow> row_steps rel st (snd (fold (retry_row c e) rows (msgs, st)))"
proof (induction rows arbitrary: msgs st)
  case Nil
  then show ?case by simp
next
  case (Cons row rows)
  obtain msgs1 st1 where eq: "retry_row c e row (msgs, st) = (msgs1, st1)" by fastforce
  then have "row_steps rel st st1" "to_retry rows st1"
    using retry_row_steps [OF Cons.prems, where c = c and e = e and msgs = msgs] by auto
  with Cons.IH [of st1 msgs1] show ?case by (simp add: eq)
qed

lemma same_rows_posts: "same_rows st (fold (\<lambda>m s. maybePostSlack c e m r b s) msgs st)"
proof (induction msgs arbitrary: st)
  case (Cons m ms)
  from Cons same_rows_slack [of st c e m r b] show ?case
    by (auto intro: same_rows_trans)
qed simp

lemma pending_to_retry: "rows_ok st \<Longrightarrow> to_retry (pending_rows c (decisions st)) st"
  by (auto simp: to_retry_def pending_rows_def by_latest_def rows_ok_def distinct_map
      intro: inj_on_subset)

lemma sweep_steps: "rows_ok st \<Longrightarrow> row_steps rel st (sweepFirePendingRows c e st)"
proof -
  assume ok: "rows_ok st"
  obtain msgs st1 where eq: "fold (retry_row c e) (pending_rows c (decisions st)) ([], st) = (msgs, st1)"
    by fastforce
  have st1: "row_steps rel st st1"
    using retry_fold_steps [OF pending_to_retry [OF ok, of c], where msgs = "[]" and c = c and e = e
        and rel = rel] eq by simp
  have "same_rows st1 ((fold (\<lambda>m s. maybePostSlack c e m None False s) msgs st1)\<lparr>lastSkipReason := None\<rparr>)"
    using same_rows_posts [of st1 c e None False msgs] by (simp add: same_rows_def retry_count_def)
  from steps_quiet [OF st1 this] st1 show ?thesis
    by (simp add: sweepFirePendingRows_def Let_def eq)
qed

lemma same_rows_tail:
  "same_rows st (maybePostSlack c e m r b (log_audit a st))"
  by (rule same_rows_trans [OF same_rows_audit same_rows_slack])

lemma skip_outcome_steps: "row_steps rel st (snd (skip_outcome_of c e s reason action st))"
proof -
  have trig: "row_steps rel st (snd (skip_for_trigger c e q head st))" for q head
  proof -
    obtain r st1 where eq: "triggerWorkflow e (qa_workflow q) head st = (r, st1)" by fastforce
    then have same: "same_rows st st1"
      using same_rows_trigger [of st e "qa_workflow q" head] by simp
    then have st1: "row_steps rel st st1"
      by (auto intro: quiet)
    have cleared: "row_steps rel st (clearFailureRowsForSha c ''qa_needs_trigger'' head st1)"
      using st1 by (rule rtranclp.rtrancl_into_rtrancl) (rule clear)
    have filed: "row_steps rel st (snd (fileGapOrLog c e q st1))"
      using st1 same_rows_gap_or_log by (rule steps_quiet)
    show ?thesis
      using st1 cleared filed
      by (cases r) (auto simp: skip_for_trigger_def eq Let_def split: prod.split)
  qed
  show ?thesis
    using trig gap_or_log_pair
    by (auto simp: skip_outcome_of_def Let_def
        intro!: r_into_rtranclp quiet same_rows_audit
        split: prod.split option.split qa_trigger_result.split)
qed

lemma tick_skip_steps: "row_steps rel st (tick_skip c e s v reason action st)"
proof -
  obtain o1 st1 where eq: "skip_outcome_of c e s reason action st = (o1, st1)" by fastforce
  have "row_steps rel st st1"
    using skip_outcome_steps [where st = st and c = c and e = e and s = s and reason = reason and action = action] eq by simp
  then have "row_steps rel st (persistDecision ((new_row c e st1 Skipped (so_reason o1) (snapshot_of s))
      \<lparr>d_proposedVersion := Some v, d_qaRunId := so_qaRunId o1,
       d_qaRunSha := so_qaRunSha o1, d_attemptCount := so_attempts o1\<rparr>) st1)"
    by (rule steps_plain) (simp_all add: is_release_row_def)
  from steps_quiet [OF this same_rows_tail] show ?thesis
    by (simp add: tick_skip_def eq Let_def)
qed

lemma same_rows_reason: "same_rows (st\<lparr>lastSkipReason := x\<rparr>) st' \<Longrightarrow> same_rows st st'"
  by (simp add: same_rows_def retry_count_def)

lemma same_rows_reason_set [simp]: "same_rows st (st'\<lparr>lastSkipReason := x\<rparr>) = same_rows st st'"
  by (simp add: same_rows_def retry_count_def)

lemma tick_await_steps: "row_steps rel st (tick_await c e s v reason st)"
proof -
  have "row_steps rel st (persistDecision ((new_row c e st AwaitingApproval reason (snapshot_of s))
      \<lparr>d_proposedVersion := Some v\<rparr>) st)"
    by (rule steps_plain) (simp_all add: is_release_row_def)
  moreover have "same_rows st1 (maybePostSlack c e m r b ((log_audit a st1)\<lparr>lastSkipReason := None\<rparr>))"
    for st1 m r b a
    by (rule same_rows_trans [OF same_rows_audit same_rows_reason [OF same_rows_slack]])
  ultimately show ?thesis
    by (auto simp: tick_await_def Let_def intro: steps_quiet)
qed

lemma tick_fire_steps: "row_steps True st (tick_fire c e s v st)"
proof -
  obtain r st1 where eq: "createTagAndRelease c e v (s_headSha s) (isPrereleaseTag v) st = (r, st1)"
    by fastforce
  have st1: "row_steps True st st1"
    using same_rows_create_tag [of st c e v "s_headSha s" "isPrereleaseTag v"] eq
    by (auto intro: quiet)
  define tagged where "tagged = (\<lambda>kind reason. (new_row c e st1 kind reason (snapshot_of s))
      \<lparr>d_proposedVersion := Some v, d_firedTag := Some v, d_firedSha := Some (s_headSha s)\<rparr>)"
  have skipped: "row_steps True st (log_audit a (persistDecision
      ((new_row c e st1 Skipped reason (snapshot_of s))\<lparr>d_proposedVersion := Some v\<rparr>) st1))"
    for a reason
    by (rule steps_quiet [OF steps_plain [OF st1] same_rows_audit]) (simp_all add: is_release_row_def)
  have pending: "row_steps True st (persistDecision
      ((tagged FirePending ''release_create_failed'')\<lparr>d_attemptCount := 1\<rparr>) st1)"
    using st1 by (rule rtranclp.rtrancl_into_rtrancl)
      (rule release_row; simp add: tagged_def is_release_row_def)
  have fired: "row_steps True st (persistDecision (tagged Fired ''all triggers passed'') st1)"
    using st1 by (rule rtranclp.rtrancl_into_rtrancl)
      (rule release_row; simp add: tagged_def is_release_row_def)
  have finished: "row_steps True st ((maybePostSlack c e m None False (log_audit a
      (persistDecision (tagged Fired ''all triggers passed'') st1)))\<lparr>lastSkipReason := None\<rparr>)"
    "row_steps True st ((maybePostSlack c e m None False (log_audit a (consumeApprovalRow c e i
      (persistDecision (tagged Fired ''all triggers passed'') st1))))\<lparr>lastSkipReason := None\<rparr>)"
    for m a i
    by (rule steps_quiet [OF fired], simp add: same_rows_tail
        same_rows_trans [OF same_rows_consume same_rows_tail])+
  show ?thesis
    using skipped pending finished
    by (cases r) (simp_all add: tick_fire_def eq tagged_def Let_def)
qed

lemma tick_decide_steps: "row_steps True st (tick_decide c e s st)"
proof -
  obtain q st1 where eq: "qa_inputs c e s st = (q, st1)" by fastforce
  then have "same_rows st st1" using same_rows_qa_inputs [of st c e s] by simp
  then show ?thesis
    using tick_skip_steps tick_await_steps tick_fire_steps
    by (auto simp: tick_decide_def eq Let_def intro: quiet_steps split: decision_result.split)
qed

lemma tick_steps: "rows_ok st \<Longrightarrow> row_steps True st (tick c e st)"
proof -
  assume ok: "rows_ok st"
  let ?st1 = "sweepFirePendingRows c e st"
  have sweep: "row_steps True st ?st1" by (rule sweep_steps [OF ok])
  have "row_steps True st (log_audit a (persistDecision
      (new_row c e ?st1 Skipped ''manual_tag_detected'' sn) ?st1))" for a sn
    by (rule steps_quiet [OF steps_plain [OF sweep] same_rows_audit]) (simp_all add: is_release_row_def)
  moreover have "row_steps True st (tick_decide c e s ?st1)" for s
    using sweep tick_decide_steps by (rule rtranclp_trans)
  moreover have "row_steps True st (st\<lparr>licenseWarnLogged := True\<rparr>)"
    by (auto intro!: quiet simp: same_rows_def retry_count_def)
  ultimately show ?thesis
    using sweep by (simp add: tick_def Let_def split: option.split)
qed

section \<open>The commands\<close>

lemma command_steps: "row_steps True st (snd (handleReleaseSubcommand c e user cmd st))"
proof -
  have "row_step True st (persistDecision (new_row c e st Skipped r sn) st)" for r sn
    by (rule plain_row) (simp_all add: is_release_row_def)
  then have "row_steps True st (pauseUntil ts (log_audit a
      (persistDecision (new_row c e st Skipped r sn) st)))" for ts a r sn
    by (intro steps_quiet [OF r_into_rtranclp])
      (auto simp: same_rows_def retry_count_def pauseUntil_def log_audit_def)
  then show ?thesis
    by (auto simp: handleReleaseSubcommand_def Let_def same_rows_def retry_count_def log_audit_def
        intro!: r_into_rtranclp quiet split: release_subcommand.split)
qed

text \<open>The scheduler as a sequence of ticks and commands.\<close>

datatype rm_event = Tick rm_env | Command rm_env string string

definition rm_step :: "tick_context \<Rightarrow> rm_event \<Rightarrow> rm_state \<Rightarrow> rm_state" where
  "rm_step c ev st =
     (case ev of
        Tick e \<Rightarrow> tick c e st
      | Command e user text1 \<Rightarrow>
          snd (handleReleaseSubcommand c e user (parseReleaseSubcommand text1) st))"

definition rm_run :: "tick_context \<Rightarrow> rm_event list \<Rightarrow> rm_state \<Rightarrow> rm_state" where
  "rm_run c evs st = fold (rm_step c) evs st"

lemma rm_step_steps: "rows_ok st \<Longrightarrow> row_steps True st (rm_step c ev st)"
  by (auto simp: rm_step_def intro: tick_steps command_steps split: rm_event.split)

lemma rm_run_steps: "rows_ok st \<Longrightarrow> row_steps True st (rm_run c evs st)"
proof (induction evs arbitrary: st)
  case Nil
  then show ?case by (simp add: rm_run_def)
next
  case (Cons ev evs)
  have step: "row_steps True st (rm_step c ev st)" by (rule rm_step_steps [OF Cons.prems])
  moreover have "row_steps True (rm_step c ev st) (rm_run c evs (rm_step c ev st))"
    by (rule Cons.IH) (rule rows_ok_steps [OF step Cons.prems])
  ultimately show ?case
    by (simp add: rm_run_def)
qed

section \<open>The ledger of releases\<close>

text \<open>
  The abstract specification: a ledger of tags, each published, still to be published after a number of
  failed attempts, or given up, and the number of retries made so far. A tag enters the ledger at its
  end, a published tag stays so, and a retry needs an entry that is still to be published.
\<close>

datatype phase = Published | Retrying nat | GaveUp

type_synonym ledger = "(nat \<times> string \<times> phase) list \<times> nat"

definition after_failure :: "nat \<Rightarrow> phase" where
  "after_failure k = (if Suc k < MAX_FIRE_PENDING_ATTEMPTS then Retrying (Suc k) else GaveUp)"

inductive ledger_step :: "ledger \<Rightarrow> ledger \<Rightarrow> bool" where
  stay: "ledger_step l l"
| publish: "ledger_step (es, n) (es @ [(i, t, Published)], n)"
| tag_only: "ledger_step (es, n) (es @ [(i, t, Retrying (Suc 0))], n)"
| retried: "k < MAX_FIRE_PENDING_ATTEMPTS \<Longrightarrow>
    ledger_step (es @ (i, t, Retrying k) # es', n) (es @ (i, t, Published) # es', Suc n)"
| failed: "k < MAX_FIRE_PENDING_ATTEMPTS \<Longrightarrow>
    ledger_step (es @ (i, t, Retrying k) # es', n) (es @ (i, t, after_failure k) # es', Suc n)"

definition phase_of :: "decision_row \<Rightarrow> phase" where
  "phase_of r =
     (if d_decision r = Fired then Published
      else if d_attemptCount r < MAX_FIRE_PENDING_ATTEMPTS then Retrying (d_attemptCount r)
      else GaveUp)"

definition entry :: "decision_row \<Rightarrow> nat \<times> string \<times> phase" where
  "entry r = (d_id r, the (d_firedTag r), phase_of r)"

definition entries :: "decision_row list \<Rightarrow> (nat \<times> string \<times> phase) list" where
  "entries rows = map entry (filter is_release_row rows)"

definition ledger_of :: "rm_state \<Rightarrow> ledger" where
  "ledger_of st = (entries (decisions st), retry_count st)"

lemma entries_append [simp]: "entries (xs @ ys) = entries xs @ entries ys"
  by (simp add: entries_def)

lemma update_id:
  assumes "distinct (map d_id rows)" "row \<in> set rows"
  obtains xs ys where "rows = xs @ row # ys"
    "update_where (\<lambda>r. d_id r = d_id row) (f :: decision_row \<Rightarrow> decision_row) rows = xs @ f row # ys"
proof -
  obtain xs ys where split: "rows = xs @ row # ys"
    using assms(2) by (auto dest: split_list)
  have other: "d_id r \<noteq> d_id row" if "r \<in> set xs \<or> r \<in> set ys" for r
    using assms(1) that unfolding split by (auto simp: image_iff)
  then have "update_where (\<lambda>r. d_id r = d_id row) f rows = xs @ f row # ys"
    unfolding split by (simp add: update_where_def map_idI)
  with split show thesis by (rule that)
qed

lemma filter_release_delete:
  "(\<And>r. r \<in> set rows \<Longrightarrow> is_release_row r \<Longrightarrow> \<not> P r) \<Longrightarrow>
   filter is_release_row (delete_where P rows) = filter is_release_row rows"
  by (induction rows) (auto simp: delete_where_def)

lemma ledger_of_step: "row_step rel st st' \<Longrightarrow> rows_ok st \<Longrightarrow> ledger_step (ledger_of st) (ledger_of st')"
proof (induction rule: row_step.induct)
  case (quiet st st' rel)
  then show ?case by (simp add: ledger_of_def same_rows_def ledger_step.stay)
next
  case (plain_row row st rel)
  then show ?case
    by (simp add: ledger_of_def persistDecision_def entries_def retry_count_def ledger_step.stay)
next
  case (release_row row st)
  then have "entry row = (d_id row, the (d_firedTag row), Published) \<or>
      entry row = (d_id row, the (d_firedTag row), Retrying (Suc 0))"
    by (auto simp: entry_def phase_of_def is_release_row_def MAX_FIRE_PENDING_ATTEMPTS_def)
  with release_row show ?case
    by (auto simp: ledger_of_def persistDecision_def entries_def retry_count_def
        intro: ledger_step.publish ledger_step.tag_only)
next
  case (clear rel st c sha)
  have "entries (decisions (clearFailureRowsForSha c ''qa_needs_trigger'' sha st)) =
      entries (decisions st)"
    using clear by (auto simp: entries_def clearFailureRowsForSha_def rows_ok_def
        intro!: arg_cong [where f = "map entry"] filter_release_delete)
  then show ?case
    by (simp add: ledger_of_def retry_count_def clearFailureRowsForSha_def ledger_step.stay)
next
  case (retry_ok row st rel tag sha)
  obtain xs ys where split: "decisions st = xs @ row # ys"
    "update_where (\<lambda>r. d_id r = d_id row) (\<lambda>r. r\<lparr>d_decision := Fired\<rparr>) (decisions st) =
       xs @ row\<lparr>d_decision := Fired\<rparr> # ys"
    using retry_ok update_id [where rows = "decisions st" and row = row and f = "\<lambda>r. r\<lparr>d_decision := Fired\<rparr>"]
    unfolding rows_ok_def by blast
  then show ?case
    using retry_ok ledger_step.retried [of "d_attemptCount row" "entries xs"]
    by (simp add: ledger_of_def promote_row_def log_call_def retry_count_def is_retry_def entries_def
        entry_def phase_of_def is_release_row_def)
next
  case (retry_fail row st rel tag sha)
  let ?f = "\<lambda>r. r\<lparr>d_attemptCount := Suc (d_attemptCount row)\<rparr>"
  obtain xs ys where split: "decisions st = xs @ row # ys"
    "update_where (\<lambda>r. d_id r = d_id row) ?f (decisions st) = xs @ ?f row # ys"
    using retry_fail update_id [where rows = "decisions st" and row = row and f = "?f"]
    unfolding rows_ok_def by blast
  have "entry (?f row) = (d_id row, the (d_firedTag row), after_failure (d_attemptCount row))"
    "entry row = (d_id row, the (d_firedTag row), Retrying (d_attemptCount row))"
    using retry_fail by (simp_all add: entry_def phase_of_def after_failure_def)
  with split show ?case
    using retry_fail
      ledger_step.failed [of "d_attemptCount row" "entries xs" "d_id row" "the (d_firedTag row)"]
    by (simp add: ledger_of_def updateReleaseDecisionAttemptCount_def log_call_def retry_count_def
        is_retry_def entries_def is_release_row_def)
qed

lemma ledger_of_steps:
  "row_steps rel st st' \<Longrightarrow> rows_ok st \<Longrightarrow> ledger_step\<^sup>*\<^sup>* (ledger_of st) (ledger_of st')"
proof (induction rule: rtranclp_induct)
  case (step y z)
  from step(1) step(4) have "rows_ok y" by (rule rows_ok_steps)
  with step show ?case
    by (meson ledger_of_step rtranclp.rtrancl_into_rtrancl)
qed simp

section \<open>What the ledger promises\<close>

fun weight :: "phase \<Rightarrow> nat" where
  "weight Published = 0"
| "weight (Retrying k) = MAX_FIRE_PENDING_ATTEMPTS - k"
| "weight GaveUp = 0"

text \<open>The retries made and those that may still come.\<close>

fun potential :: "ledger \<Rightarrow> nat" where
  "potential (es, n) = n + sum_list (map (weight \<circ> snd \<circ> snd) es)"

lemma ledger_step_potential:
  "ledger_step l l' \<Longrightarrow> potential l' + 2 * length (fst l) \<le> potential l + 2 * length (fst l')"
  by (induction rule: ledger_step.induct) (auto simp: MAX_FIRE_PENDING_ATTEMPTS_def after_failure_def)

lemma ledger_steps_potential:
  "ledger_step\<^sup>*\<^sup>* l l' \<Longrightarrow> potential l' + 2 * length (fst l) \<le> potential l + 2 * length (fst l')"
  by (induction rule: rtranclp_induct) (auto dest!: ledger_step_potential)

lemma retries_le_potential: "snd l \<le> potential l"
  by (cases l) simp

lemma ledger_step_published:
  "ledger_step l l' \<Longrightarrow> (i, t, Published) \<in> set (fst l) \<Longrightarrow> (i, t, Published) \<in> set (fst l')"
  by (induction rule: ledger_step.induct) auto

lemma ledger_steps_published:
  "ledger_step\<^sup>*\<^sup>* l l' \<Longrightarrow> (i, t, Published) \<in> set (fst l) \<Longrightarrow>
   (i, t, Published) \<in> set (fst l')"
  by (induction rule: rtranclp_induct) (auto dest: ledger_step_published)


lemma rows_ok_initial [simp]: "rows_ok (createReleaseManagerScheduler [] as gs n)"
  by (simp add: rows_ok_def createReleaseManagerScheduler_def)

text \<open>
  The attempts to create a release for a tag that has none are bounded: whatever happens in any sequence
  of ticks and Slack commands, a new scheduler makes at most two retries for each release it records.
\<close>
theorem release_retries_bounded:
  "retry_count (rm_run c evs (createReleaseManagerScheduler [] as gs n)) \<le>
     2 * length (filter is_release_row
       (decisions (rm_run c evs (createReleaseManagerScheduler [] as gs n))))"
proof -
  let ?init = "createReleaseManagerScheduler [] as gs n"
  let ?st = "rm_run c evs ?init"
  have start: "ledger_of ?init = ([], 0)"
    by (simp add: ledger_of_def entries_def retry_count_def createReleaseManagerScheduler_def)
  have "row_steps True ?init ?st"
    by (rule rm_run_steps) simp
  then have "ledger_step\<^sup>*\<^sup>* ([], 0) (ledger_of ?st)"
    using ledger_of_steps [of True ?init ?st] start by simp
  from ledger_steps_potential [OF this] have "potential (ledger_of ?st) \<le> 2 * length (fst (ledger_of ?st))"
    by simp
  with retries_le_potential [of "ledger_of ?st"] show ?thesis
    by (simp add: ledger_of_def entries_def)
qed

section \<open>When a release is made\<close>

text \<open>What the configured triggers demand of the collected state.\<close>

definition triggers_met :: "tick_context \<Rightarrow> rm_env \<Rightarrow> collected_state \<Rightarrow> bool" where
  "triggers_met c e s \<longleftrightarrow>
     (\<forall>n. mergedPRsSince (ctx_triggers c) = Some n \<longrightarrow> n \<le> s_mergedCommits s) \<and>
     (\<forall>h at. timeSinceLastHours (ctx_triggers c) = Some h \<longrightarrow> s_lastTagAt s = Some at \<longrightarrow>
        int h * 3600 * 1000 \<le> e_now e - at) \<and>
     (\<forall>m. ciGreenForMinutes (ctx_triggers c) = Some m \<longrightarrow>
        s_ciStatus s = CiGreen \<and> (\<exists>at. s_ciGreenSince s = Some at \<and> int m * 60 * 1000 \<le> e_now e - at)) \<and>
     (\<forall>q. qaCheck (ctx_triggers c) = Some q \<longrightarrow>
        workflowFileExists e (qa_workflow q) (s_headSha s) \<noteq> Some False \<and>
        (\<exists>run dur. s_qaRun s = Some run \<and> q_runSha run = s_headSha s \<and>
           pollWorkflowRun e (q_runId run) = Some (PollCompleted ''success'' dur))) \<and>
     (requireSlackApproval (ctx_triggers c) \<longrightarrow> s_hasFreshApproval s)"

lemma evalQaCheck_passed:
  "evalQaCheck q head found run conc t = QaPassed \<longleftrightarrow>
     found \<and> conc = Some ''success'' \<and> (\<exists>r. run = Some r \<and> q_runSha r = head)"
  by (auto simp: evalQaCheck_def split: option.split)

lemma qa_inputs_fst:
  "qaCheck (ctx_triggers c) = Some q \<Longrightarrow>
   fst (qa_inputs c e s st) = Some \<lparr>
     wfExists = (workflowFileExists e (qa_workflow q) (s_headSha s) \<noteq> Some False),
     runConclusion = (case s_qaRun s of None \<Rightarrow> None | Some run \<Rightarrow>
       if q_runSha run = s_headSha s then
         (case pollWorkflowRun e (q_runId run) of Some (PollCompleted conc d) \<Rightarrow> Some conc | _ \<Rightarrow> None)
       else None)\<rparr>"
  by (auto simp: qa_inputs_def Let_def split: option.split poll_result.split)

lemma decide_fire_met:
  assumes "decide (e_fmt e) s (ctx_triggers c) (e_now e) (fst (qa_inputs c e s st)) = DFire r"
  shows "triggers_met c e s"
proof -
  have quality: "evalQaCheck q (s_headSha s) (wfExists w) (s_qaRun s) (runConclusion w) (e_now e) = QaPassed"
    if "qaCheck (ctx_triggers c) = Some q" "fst (qa_inputs c e s st) = Some w" for q w
    using assms that by (simp add: decide_def Let_def split: if_splits)
  show ?thesis
    unfolding triggers_met_def
  proof (intro conjI allI impI)
    fix n assume "mergedPRsSince (ctx_triggers c) = Some n"
    with assms show "n \<le> s_mergedCommits s"
      by (simp add: decide_def Let_def evalMergedPRsSince_def split: if_splits)
  next
    fix h at assume "timeSinceLastHours (ctx_triggers c) = Some h" "s_lastTagAt s = Some at"
    with assms show "int h * 3600 * 1000 \<le> e_now e - at"
      by (simp add: decide_def Let_def evalTimeSinceLastHours_def split: if_splits)
  next
    fix m assume "ciGreenForMinutes (ctx_triggers c) = Some m"
    with assms show "s_ciStatus s = CiGreen"
      and "\<exists>at. s_ciGreenSince s = Some at \<and> int m * 60 * 1000 \<le> e_now e - at"
      by (auto simp: decide_def Let_def evalCiGreenForMinutes_def split: if_splits option.splits)
  next
    fix q assume q: "qaCheck (ctx_triggers c) = Some q"
    from quality [OF q qa_inputs_fst [OF q]]
    show "workflowFileExists e (qa_workflow q) (s_headSha s) \<noteq> Some False"
      and "\<exists>run dur. s_qaRun s = Some run \<and> q_runSha run = s_headSha s \<and>
        pollWorkflowRun e (q_runId run) = Some (PollCompleted ''success'' dur)"
      by (auto simp: evalQaCheck_passed split: option.splits poll_result.splits if_splits)
  next
    assume "requireSlackApproval (ctx_triggers c)"
    with assms show "s_hasFreshApproval s"
      by (simp add: decide_def Let_def evalRequireSlackApproval_def split: if_splits)
  qed
qed

text \<open>The tags created: only \<open>createTagAndRelease\<close> adds to them.\<close>

definition is_ref :: "rm_call \<Rightarrow> bool" where
  "is_ref a \<longleftrightarrow> (case a of CreateRef _ _ \<Rightarrow> True | _ \<Rightarrow> False)"

definition refs :: "rm_state \<Rightarrow> rm_call list" where
  "refs st = filter is_ref (calls st)"

named_theorems refs_same

lemma refs_ops [refs_same, simp]:
  "refs (log_audit ev st) = refs st" "refs (persistDecision row st) = refs st"
  "refs (st\<lparr>lastSkipReason := x\<rparr>) = refs st" "refs (promote_row i st) = refs st"
  "refs (updateReleaseDecisionAttemptCount i n st) = refs st"
  "refs (clearFailureRowsForSha c r sha st) = refs st" "refs (consumeApprovalRow c e i st) = refs st"
  "refs (markGapResolved c e path st) = refs st" "refs (note_completion run conc d st) = refs st"
  "\<not> is_ref a \<Longrightarrow> refs (log_call a st) = refs st"
  "is_ref a \<Longrightarrow> refs (log_call a st) = refs st @ [a]"
  by (simp_all add: refs_def log_audit_def persistDecision_def promote_row_def log_call_def
      updateReleaseDecisionAttemptCount_def clearFailureRowsForSha_def consumeApprovalRow_def
      markGapResolved_def note_completion_def split: list.split)

lemma is_ref_simps [simp]:
  "is_ref (CreateRef tag sha)" "\<not> is_ref (CreateRelease tag sha p)" "\<not> is_ref (DispatchWorkflow w sha)"
  "\<not> is_ref (SlackPost ch m b)" "\<not> is_ref (CreateIssue team)"
  by (simp_all add: is_ref_def)

lemma refs_set [simp]: "refs (st\<lparr>lastPostAt := t\<rparr>) = refs st" "refs (st\<lparr>gaps := g\<rparr>) = refs st"
  by (simp_all add: refs_def)

lemma refs_slack [refs_same, simp]: "refs (maybePostSlack c e m r b st) = refs st"
  by (simp add: maybePostSlack_def Let_def split: option.split)

lemma refs_posts: "refs (fold (\<lambda>m s. maybePostSlack c e m r b s) msgs st) = refs st"
  by (induction msgs arbitrary: st) simp_all

lemma refs_retry_row: "refs (snd (retry_row c e row (msgs, st))) = refs st"
  by (simp add: retry_row_def retry_failed_def Let_def split: option.split answer.split)

lemma refs_retries: "refs (snd (fold (retry_row c e) rows acc)) = refs (snd acc)"
proof (induction rows arbitrary: acc)
  case (Cons row rows)
  then show ?case by (cases acc) (simp add: refs_retry_row)
qed simp

lemma refs_sweep [refs_same]: "refs (sweepFirePendingRows c e st) = refs st"
  using refs_retries [of c e "pending_rows c (decisions st)" "([], st)"]
  by (auto simp: sweepFirePendingRows_def Let_def refs_posts split: prod.split)

lemma refs_trigger: "refs (snd (triggerWorkflow e w sha st)) = refs st"
  by (simp add: triggerWorkflow_def Let_def split: answer.split option.split list.split)

lemma refs_gap: "refs (snd (fileGapOrLog c e q st)) = refs st"
proof -
  have "refs (snd (fileGapIssue c e q st)) = refs st"
    by (simp add: fileGapIssue_def Let_def split: answer.split)
  then show ?thesis
    by (auto simp: fileGapOrLog_def tryFileQaGapIssue_def Let_def split: prod.split gap_result.split)
qed

lemma refs_skip_outcome: "refs (snd (skip_outcome_of c e s reason action st)) = refs st"
proof -
  have "refs (snd (skip_for_trigger c e q head st)) = refs st" for q head
    using refs_trigger [of e "qa_workflow q" head st] refs_gap [of c e q]
    by (auto simp: skip_for_trigger_def Let_def split: prod.split dispatch_result.split)
      (metis snd_conv)
  then show ?thesis
    using refs_gap [of c e]
    by (auto simp: skip_outcome_of_def Let_def split: prod.split option.split qa_trigger_result.split)
      (metis snd_conv)
qed

lemma refs_qa_inputs: "refs (snd (qa_inputs c e s st)) = refs st"
  by (simp add: qa_inputs_def Let_def split: option.split poll_result.split)

lemma refs_tick_skip: "refs (tick_skip c e s v reason action st) = refs st"
  using refs_skip_outcome [of c e s reason action st]
  by (auto simp: tick_skip_def Let_def split: prod.split)

lemma refs_tick_await: "refs (tick_await c e s v reason st) = refs st"
  by (simp add: tick_await_def Let_def)

lemma refs_tick_fire: "refs (tick_fire c e s v st) = refs st @ [CreateRef v (s_headSha s)]"
  by (simp add: tick_fire_def createTagAndRelease_def Let_def split: answer.split)

lemma refs_tick_decide:
  "refs (tick_decide c e s st) \<noteq> refs st \<Longrightarrow>
   triggers_met c e s \<and>
   refs (tick_decide c e s st) = refs st @ [CreateRef (proposed_version c s) (s_headSha s)]"
  using refs_qa_inputs [of c e s st] decide_fire_met [of e s c st]
  by (auto simp: tick_decide_def Let_def refs_tick_skip refs_tick_await refs_tick_fire
      split: prod.splits decision_result.splits)

text \<open>
  A tick creates at most one tag, and only when the manager is licensed and not paused, no tag was made
  by hand since its last release, and every configured trigger holds of the state it collected: enough
  commits, enough time since the last tag, checks green for long enough, the quality workflow successful
  on this very commit, and a fresh approval. The tag is the next version and points to the head.
\<close>
theorem release_only_when_allowed:
  "if refs (tick c e st) = refs st then True
   else e_licensed e \<and> pausedUntilTs st \<le> e_now e \<and>
     (\<exists>s. collectState c e (approvalTtlMs (c_config c)) (sweepFirePendingRows c e st) = Some s \<and>
        \<not> s_manualTagDetected s \<and> triggers_met c e s \<and>
        refs (tick c e st) = refs st @ [CreateRef (proposed_version c s) (s_headSha s)])"
proof -
  have unlicensed: "refs (st\<lparr>licenseWarnLogged := True\<rparr>) = refs st" by (simp add: refs_def)
  show ?thesis
    using refs_tick_decide [of c e _ "sweepFirePendingRows c e st"]
    by (auto simp: tick_def Let_def refs_sweep unlicensed split: option.split)
qed

section \<open>A tag made by hand\<close>

text \<open>What the detection reads of the release rows; it is kept by every step that adds no release.\<close>

definition key :: "decision_row \<Rightarrow> (string \<times> string) \<times> millis \<times> string option" where
  "key r = ((d_repoUrl r, d_branch r), d_decidedAt r, d_firedTag r)"

definition release_keys :: "rm_state \<Rightarrow> ((string \<times> string) \<times> millis \<times> string option) list" where
  "release_keys st = map key (filter is_release_row (decisions st))"

lemma insort_key_map: "map f (insort_key (g \<circ> f) x xs) = insort_key g (f x) (map f xs)"
  by (induction xs) auto

lemma sort_key_map: "map f (sort_key (g \<circ> f) xs) = sort_key g (map f xs)"
  by (induction xs) (simp_all add: insort_key_map [unfolded o_def] o_def)

lemma hd_tag:
  "Option.bind (case rows of [] \<Rightarrow> None | r # _ \<Rightarrow> Some r) d_firedTag =
     (case map key rows of [] \<Rightarrow> None | k # _ \<Rightarrow> snd (snd k))"
  by (cases rows) (simp_all add: key_def)

lemma last_fired_keys:
  "last_fired_tag c (decisions st) =
     (case sort_key (\<lambda>k. - fst (snd k))
        (filter (\<lambda>k. fst k = (c_repoUrl c, ctx_branch c)) (release_keys st)) of
        [] \<Rightarrow> None | k # _ \<Rightarrow> snd (snd k))"
proof -
  have keyed: "map key (by_latest rows) = sort_key (\<lambda>k. - fst (snd k)) (map key rows)" for rows
    using sort_key_map [of key "\<lambda>k. - fst (snd k)" rows] by (simp add: by_latest_def o_def key_def)
  have "map key (filter (\<lambda>r. here c r \<and> is_release_row r) rows) =
      filter (\<lambda>k. fst k = (c_repoUrl c, ctx_branch c)) (map key (filter is_release_row rows))" for rows
    by (induction rows) (auto simp: here_def key_def)
  then show ?thesis
    by (simp add: last_fired_tag_def queryLatestReleaseDecision_def hd_tag keyed release_keys_def)
qed

lemma release_keys_step:
  "row_step rel st st' \<Longrightarrow> \<not> rel \<Longrightarrow> rows_ok st \<Longrightarrow> release_keys st' = release_keys st"
proof (induction rule: row_step.induct)
  case (clear rel st c sha)
  then show ?case
    by (auto simp: release_keys_def clearFailureRowsForSha_def rows_ok_def
        intro!: arg_cong [where f = "map key"] filter_release_delete)
next
  case (retry_ok row st rel tag sha)
  then obtain xs ys where split: "decisions st = xs @ row # ys"
    "update_where (\<lambda>r. d_id r = d_id row) (\<lambda>r. r\<lparr>d_decision := Fired\<rparr>) (decisions st) =
       xs @ row\<lparr>d_decision := Fired\<rparr> # ys"
    using update_id [where rows = "decisions st" and row = row and f = "\<lambda>r. r\<lparr>d_decision := Fired\<rparr>"]
    unfolding rows_ok_def by blast
  then show ?case
    using retry_ok by (simp add: release_keys_def promote_row_def key_def is_release_row_def)
next
  case (retry_fail row st rel tag sha)
  let ?f = "\<lambda>r. r\<lparr>d_attemptCount := Suc (d_attemptCount row)\<rparr>"
  from retry_fail obtain xs ys where split: "decisions st = xs @ row # ys"
    "update_where (\<lambda>r. d_id r = d_id row) ?f (decisions st) = xs @ ?f row # ys"
    using update_id [where rows = "decisions st" and row = row and f = "?f"]
    unfolding rows_ok_def by blast
  then show ?case
    using retry_fail
    by (simp add: release_keys_def updateReleaseDecisionAttemptCount_def key_def is_release_row_def)
qed (auto simp: release_keys_def same_rows_def persistDecision_def)

lemma release_keys_steps:
  "row_steps False st st' \<Longrightarrow> rows_ok st \<Longrightarrow> release_keys st' = release_keys st"
proof (induction rule: rtranclp_induct)
  case (step y z)
  from step(1) step(4) have "rows_ok y" by (rule rows_ok_steps)
  with step show ?case by (simp add: release_keys_step)
qed simp

lemma last_fired_same:
  "release_keys st' = release_keys st \<Longrightarrow>
   last_fired_tag c (decisions st') = last_fired_tag c (decisions st)"
  by (simp add: last_fired_keys)

lemma release_keys_sweep: "rows_ok st \<Longrightarrow> release_keys (sweepFirePendingRows c e st) = release_keys st"
  by (rule release_keys_steps [OF sweep_steps])

text \<open>The tag that GitHub reports is not the last one the manager made.\<close>

definition foreign_tag :: "string \<Rightarrow> rm_env \<Rightarrow> bool" where
  "foreign_tag own e \<longleftrightarrow> (case latest_tag e of None \<Rightarrow> False | Some (tag, _) \<Rightarrow> tag \<noteq> own)"

lemma collect_manual:
  assumes "collectState c e ttl st = Some s" "last_fired_tag c (decisions st) = Some own" "foreign_tag own e"
  shows "s_manualTagDetected s"
proof (cases "ci_of e")
  case (Pair ci since)
  with assms show ?thesis
    by (auto simp: collectState_def foreign_tag_def Let_def bind_eq_Some_conv
        split: option.splits prod.splits)
qed

lemma tick_manual:
  assumes "rows_ok st" "last_fired_tag c (decisions st) = Some own" "foreign_tag own e"
  shows "refs (tick c e st) = refs st \<and> release_keys (tick c e st) = release_keys st"
proof -
  let ?st1 = "sweepFirePendingRows c e st"
  have keys: "release_keys ?st1 = release_keys st" by (rule release_keys_sweep [OF assms(1)])
  from last_fired_same [OF this] have "last_fired_tag c (decisions ?st1) = Some own"
    using assms(2) by simp
  then have manual: "s_manualTagDetected s" if "collectState c e ttl ?st1 = Some s" for s ttl
    using collect_manual that assms(3) by blast
  have rows: "release_keys (log_audit a (persistDecision (new_row c e st2 Skipped r sn) st2)) =
      release_keys st2" for a st2 r sn
    by (simp add: release_keys_def log_audit_rows persistDecision_def is_release_row_def)
  have unlicensed: "refs (st\<lparr>licenseWarnLogged := True\<rparr>) = refs st"
    "release_keys (st\<lparr>licenseWarnLogged := True\<rparr>) = release_keys st"
    by (simp_all add: refs_def release_keys_def)
  show ?thesis
    using keys manual
    by (auto simp: tick_def Let_def refs_sweep unlicensed rows split: option.split)
qed

text \<open>
  A tag made by hand stops the manager for good: as long as GitHub reports a tag other than the last one
  it made, no tick creates a tag, in whatever number and order they come, because the tag that the
  detection compares with is never brought up to date.
\<close>
theorem manual_tag_blocks_releases:
  assumes "rows_ok st" "last_fired_tag c (decisions st) = Some own" "list_all (foreign_tag own) es"
  shows "refs (rm_run c (map Tick es) st) = refs st"
  using assms
proof (induction es arbitrary: st)
  case Nil
  then show ?case by (simp add: rm_run_def)
next
  case (Cons e es)
  then have tick: "refs (tick c e st) = refs st" "release_keys (tick c e st) = release_keys st"
    using tick_manual [of st c own e] by auto
  have "refs (rm_run c (map Tick es) (tick c e st)) = refs (tick c e st)"
  proof (rule Cons.IH)
    show "rows_ok (tick c e st)"
      using rows_ok_steps [OF tick_steps] Cons.prems(1) by blast
    show "last_fired_tag c (decisions (tick c e st)) = Some own"
      using last_fired_same [OF tick(2), of c] Cons.prems(2) by simp
    show "list_all (foreign_tag own) es"
      using Cons.prems(3) by simp
  qed
  then show ?case
    using tick(1) by (simp add: rm_run_def rm_step_def)
qed

text \<open>A repository for the witnesses: one tag, two commits since, no checks.\<close>

definition demo_env :: "millis \<Rightarrow> (string \<times> string) list option \<Rightarrow> rm_env" where
  "demo_env t tags = \<lparr>e_now = t, e_licensed = True,
     e_fmt = \<lparr>fmt_hours = (\<lambda>ms. show_int (ms div 3600000)), fmt_minutes = (\<lambda>ms. show_int (ms div 60000))\<rparr>,
     getBranch = Some ''head'', listTags = tags, commitDate = (\<lambda>_. Some (Some 0)),
     compareCommits = (\<lambda>_ _. Some [''fix: a'', ''feat: b'']), listCommits = Some [''fix: a''],
     checkRuns = Some [], getContent = (\<lambda>_ _. Found), getRef = (\<lambda>_. Found),
     createRefAnswer = (\<lambda>_ _. Answer ()), createReleaseAnswer = (\<lambda>_. Answer None),
     getWorkflowRun = (\<lambda>_. None), dispatchAnswer = (\<lambda>_ _. Answer ()),
     listWorkflowRuns = (\<lambda>_ _. None), createIssueAnswer = (\<lambda>_. Answer ''QA-1''),
     postOk = (\<lambda>_. True)\<rparr>"

definition demo_ctx :: tick_context where
  "demo_ctx = \<lparr>c_config = \<lparr>rm_enabled = True, rm_schedule = ''*/30 * * * *'',
       rm_triggers = \<lparr>mergedPRsSince = None, timeSinceLastHours = Some 24, ciGreenForMinutes = None,
         requireSlackApproval = False, qaCheck = None\<rparr>,
       rm_versionBump = PatchPolicy, rm_slackChannel = Some ''#rel'', rm_branch = ''main'',
       rm_paths = None, rm_prereleaseChannel = None\<rparr>,
     c_repoUrl = ''https://github.com/o/r'', hasLinear = False, slackClient = Some False\<rparr>"

definition demo_row :: decision_row where
  "demo_row = (new_row demo_ctx (demo_env 0 None) (createReleaseManagerScheduler [] [] [] 0)
     Fired ''all triggers passed'' (SlackSource [])) \<lparr>d_firedTag := Some ''v1.0.0'',
     d_firedSha := Some ''abc''\<rparr>"

theorem manual_tag_blocks_releases_witness:
  "refs (rm_run demo_ctx (map Tick [demo_env 0 (Some [(''v9.0.0'', ''x'')]), demo_env 9 (Some [(''v9.0.0'', ''x'')])])
     (createReleaseManagerScheduler [demo_row] [] [] 1)) =
   refs (createReleaseManagerScheduler [demo_row] [] [] 1)"
proof (rule manual_tag_blocks_releases)
  show "rows_ok (createReleaseManagerScheduler [demo_row] [] [] 1)"
    by (simp add: rows_ok_def createReleaseManagerScheduler_def demo_row_def)
  show "last_fired_tag demo_ctx (decisions (createReleaseManagerScheduler [demo_row] [] [] 1)) =
      Some ''v1.0.0''"
    by (simp add: last_fired_tag_def queryLatestReleaseDecision_def by_latest_def here_def
        is_release_row_def createReleaseManagerScheduler_def demo_row_def)
  show "list_all (foreign_tag ''v1.0.0'')
      [demo_env 0 (Some [(''v9.0.0'', ''x'')]), demo_env 9 (Some [(''v9.0.0'', ''x'')])]"
    by code_simp
qed


section \<open>Answers that fail\<close>

lemma last_attempt: "collectState c e ttl st = Some s \<Longrightarrow> listTags e = None \<Longrightarrow>
    s_lastTag s = None \<and> s_lastTagAt s = None \<and> \<not> s_manualTagDetected s \<and>
    (\<exists>head. getBranch e = Some head \<and> s_headSha s = head)"
  by (cases "ci_of e") (auto simp: collectState_def latest_tag_def Let_def bind_eq_Some_conv)

lemma show_small: "show_int 0 = ''0''" "show_int 1 = ''1''"
  by code_simp+

lemma first_version: "bumpFromConfigAndCommits None ms PatchPolicy NoChannel = ''v0.0.1''"
  by (simp add: bumpFromConfigAndCommits_def parseSemver_def bump_kind_of_def show_core_def show_small Let_def)

text \<open>
  A failed read of the tags counts as a repository without any: under a configuration whose only trigger is
  the cadence, the tick then creates the tag \<open>v0.0.1\<close> at once, whatever was released before and
  however recently.
\<close>
theorem tag_list_failure_releases:
  assumes "e_licensed e" "pausedUntilTs st \<le> e_now e" "listTags e = None" "getBranch e = Some head"
    "parseRepoFromUrl (c_repoUrl c) \<noteq> None"
    "ctx_triggers c = \<lparr>mergedPRsSince = None, timeSinceLastHours = Some h, ciGreenForMinutes = None,
       requireSlackApproval = False, qaCheck = None\<rparr>"
    "rm_versionBump (c_config c) = PatchPolicy" "rm_prereleaseChannel (c_config c) = None"
  shows "refs (tick c e st) = refs st @ [CreateRef ''v0.0.1'' head]"
proof -
  let ?st1 = "sweepFirePendingRows c e st"
  obtain s where s: "collectState c e (approvalTtlMs (c_config c)) ?st1 = Some s"
    using assms(4,5) by (cases "ci_of e") (auto simp: collectState_def Let_def)
  from last_attempt [OF s assms(3)] assms(4)
  have sel: "s_lastTag s = None" "s_lastTagAt s = None" "\<not> s_manualTagDetected s" "s_headSha s = head"
    by auto
  have "proposed_version c s = ''v0.0.1''"
    using assms(7,8) sel by (simp add: proposed_version_def first_version)
  moreover have "tick_decide c e s ?st1 = tick_fire c e s (proposed_version c s) ?st1"
    using assms(6) sel by (simp add: tick_decide_def qa_inputs_def decide_def evalTimeSinceLastHours_def)
  ultimately show ?thesis
    using assms(1,2) s sel by (simp add: tick_def Let_def refs_tick_fire refs_sweep)
qed

theorem tag_list_failure_releases_witness:
  "refs (tick demo_ctx (demo_env 1 None) (createReleaseManagerScheduler [demo_row] [] [] 1)) =
     refs (createReleaseManagerScheduler [demo_row] [] [] 1) @ [CreateRef ''v0.0.1'' ''head'']"
proof (rule tag_list_failure_releases [where h = 24])
  show "parseRepoFromUrl (c_repoUrl demo_ctx) \<noteq> None" by code_simp
qed (simp_all add: demo_env_def demo_ctx_def createReleaseManagerScheduler_def)

section \<open>Prereleases\<close>

text \<open>The releases that are created, with the flag the call passes.\<close>

definition flags :: "rm_state \<Rightarrow> (string \<times> bool option) list" where
  "flags st = List.map_filter
     (\<lambda>a. case a of CreateRelease tag sha flag \<Rightarrow> Some (tag, flag) | _ \<Rightarrow> None) (calls st)"

lemma flags_call [simp]:
  "flags (log_call a st) =
     flags st @ (case a of CreateRelease tag sha flag \<Rightarrow> [(tag, flag)] | _ \<Rightarrow> [])"
  by (simp add: flags_def log_call_def map_filter_def split: rm_call.split)

lemma flags_ops [simp]:
  "flags (log_audit ev st) = flags st" "flags (persistDecision row st) = flags st"
  "flags (st\<lparr>lastSkipReason := x\<rparr>) = flags st" "flags (st\<lparr>lastPostAt := t\<rparr>) = flags st"
  "flags (promote_row i st) = flags st" "flags (updateReleaseDecisionAttemptCount i n st) = flags st"
  "flags (consumeApprovalRow c e i st) = flags st"
  by (simp_all add: flags_def log_audit_def persistDecision_def promote_row_def
      updateReleaseDecisionAttemptCount_def consumeApprovalRow_def split: list.split)

lemma flags_slack [simp]: "flags (maybePostSlack c e m r b st) = flags st"
  by (simp add: maybePostSlack_def Let_def split: option.split)

lemma flags_retry:
  "\<exists>tags. flags (snd (retry_row c e row (msgs, st))) = flags st @ map (\<lambda>t. (t, None)) tags"
proof -
  have "\<exists>tags. flags st @ [(t, None)] = flags st @ map (\<lambda>t. (t, None)) tags" for t
    by (rule exI [of _ "[t]"]) simp
  then show ?thesis
    by (auto simp: retry_row_def retry_failed_def Let_def split: option.split answer.split)
qed

lemma flags_retries:
  "\<exists>tags. flags (snd (fold (retry_row c e) rows (msgs, st))) = flags st @ map (\<lambda>t. (t, None)) tags"
proof (induction rows arbitrary: msgs st)
  case (Cons row rows)
  obtain msgs1 st1 where eq: "retry_row c e row (msgs, st) = (msgs1, st1)" by fastforce
  obtain ts where "flags st1 = flags st @ map (\<lambda>t. (t, None)) ts"
    using flags_retry [of c e row msgs st] eq by auto
  moreover obtain us where
    "flags (snd (fold (retry_row c e) rows (msgs1, st1))) = flags st1 @ map (\<lambda>t. (t, None)) us"
    using Cons by blast
  ultimately have "flags (snd (fold (retry_row c e) (row # rows) (msgs, st))) =
      flags st @ map (\<lambda>t. (t, None)) (ts @ us)"
    by (simp add: eq)
  then show ?case by blast
qed simp

text \<open>
  The flag of a prerelease is lost at a retry: the first attempt to create a release says whether its
  tag is a prerelease, while the sweep over the pending releases passes no flag at all, for which GitHub
  takes a full release.
\<close>
theorem retry_drops_prerelease_flag:
  "(\<exists>tags. flags (sweepFirePendingRows c e st) = flags st @ map (\<lambda>t. (t, None)) tags) \<and>
   (flags (tick_fire c e s v st) = flags st \<or>
    flags (tick_fire c e s v st) = flags st @ [(v, Some (isPrereleaseTag v))])"
proof
  obtain tags where tags: "flags (snd (fold (retry_row c e) (pending_rows c (decisions st)) ([], st))) =
      flags st @ map (\<lambda>t. (t, None)) tags"
    using flags_retries [of c e "pending_rows c (decisions st)" "[]" st] by blast
  have posts: "flags (fold (\<lambda>m s. maybePostSlack c e m None False s) msgs st1) = flags st1" for msgs st1
    by (induction msgs arbitrary: st1) simp_all
  have "flags (sweepFirePendingRows c e st) = flags st \<or>
      flags (sweepFirePendingRows c e st) = flags st @ map (\<lambda>t. (t, None)) tags"
    using tags by (auto simp: sweepFirePendingRows_def Let_def posts split: prod.split)
  moreover have "flags st = flags st @ map (\<lambda>t. (t, None :: bool option)) []" by simp
  ultimately show "\<exists>tags. flags (sweepFirePendingRows c e st) = flags st @ map (\<lambda>t. (t, None)) tags"
    by metis
  show "flags (tick_fire c e s v st) = flags st \<or>
      flags (tick_fire c e s v st) = flags st @ [(v, Some (isPrereleaseTag v))]"
    by (simp add: tick_fire_def createTagAndRelease_def Let_def split: answer.split)
qed

section \<open>Approvals\<close>

definition demo_approval :: approval_row where
  "demo_approval = \<lparr>a_id = 0, a_repoUrl = ''https://github.com/o/r'', a_branch = ''main'', a_approvedAt = 0,
          a_approvedBy = ''U1'', a_consumedAt = None, a_consumedBy = None\<rparr>"

text \<open>
  An approval that has grown stale blocks its own renewal: while it is unconsumed, the same user's
  \<open>/release approve\<close> is answered with "already approved" and changes nothing, and no tick sees a fresh
  approval, now or at any later time.
\<close>
theorem stale_approval_blocks:
  assumes "r \<in> set (approvals st)" "open_approval c user r"
    "\<forall>r \<in> set (approvals_here c (approvals st)). a_approvedAt r < e_now e - ttl"
  shows "handleReleaseSubcommand c e user ReleaseApprove st = (AlreadyApproved user, st) \<and>
    fresh_approvals c (e_now e + int later - ttl) (approvals st) = []"
  using assms
  by (force simp: handleReleaseSubcommand_def fresh_approvals_def list_ex_iff filter_empty_conv)

theorem stale_approval_blocks_witness:
  "handleReleaseSubcommand demo_ctx (demo_env 100000000 None) ''U1'' ReleaseApprove
     (createReleaseManagerScheduler [] [demo_approval] [] 1) =
   (AlreadyApproved ''U1'', createReleaseManagerScheduler [] [demo_approval] [] 1)"
  by (rule conjunct1, rule stale_approval_blocks [where r = demo_approval and ttl = 86400000 and later = 0])
    (simp_all add: createReleaseManagerScheduler_def open_approval_def demo_ctx_def demo_env_def
      approvals_here_def demo_approval_def)

lemma approvals_ops [simp]:
  "approvals (log_audit ev st) = approvals st" "approvals (log_call a st) = approvals st"
  "approvals (persistDecision row st) = approvals st" "approvals (promote_row i st) = approvals st"
  "approvals (updateReleaseDecisionAttemptCount i n st) = approvals st"
  by (simp_all add: log_audit_def log_call_def persistDecision_def promote_row_def
      updateReleaseDecisionAttemptCount_def)

lemma approvals_slack [simp]: "approvals (maybePostSlack c e m r b st) = approvals st"
  by (simp add: maybePostSlack_def Let_def split: option.split)

lemma approvals_retries: "approvals (snd (fold (retry_row c e) rows acc)) = approvals (snd acc)"
proof (induction rows arbitrary: acc)
  case (Cons row rows)
  have "approvals (snd (retry_row c e row acc)) = approvals (snd acc)"
    by (cases acc) (simp add: retry_row_def retry_failed_def Let_def split: option.split answer.split)
  with Cons show ?case by simp
qed simp

text \<open>
  An approval is consumed only by a release that succeeds at once: when the tag is made but the creation of
  the release fails, the approval stays, and so it does when a later retry publishes the release. It then
  counts as fresh for the release after that one.
\<close>
theorem retried_release_keeps_approval:
  "approvals (sweepFirePendingRows c e st) = approvals st \<and>
   (case createReleaseAnswer e v of
      Failure _ _ \<Rightarrow> approvals (tick_fire c e s v st) = approvals st
    | Answer _ \<Rightarrow> True)"
proof
  have posts: "approvals (fold (\<lambda>m s. maybePostSlack c e m None False s) msgs st1) = approvals st1"
    for msgs st1
    by (induction msgs arbitrary: st1) simp_all
  show "approvals (sweepFirePendingRows c e st) = approvals st"
    using approvals_retries [of c e "pending_rows c (decisions st)" "([], st)"]
    by (auto simp: sweepFirePendingRows_def Let_def posts split: prod.split)
  show "case createReleaseAnswer e v of
      Failure _ _ \<Rightarrow> approvals (tick_fire c e s v st) = approvals st
    | Answer _ \<Rightarrow> True"
    by (simp add: tick_fire_def createTagAndRelease_def Let_def split: answer.split)
qed

section \<open>Slack posts\<close>

text \<open>
  A skip is announced once in 24 hours: after a post that succeeded, the same reason within the window
  leaves everything as it is, whatever the text.
\<close>
theorem skip_posts_deduplicated:
  assumes "reason \<noteq> []" "postOk e m" "e_now e' - e_now e < SLACK_DEDUP_WINDOW_MS"
    "lastSkipReason st \<noteq> Some reason"
  shows "maybePostSlack c e' m' (Some reason) b' (maybePostSlack c e m (Some reason) b st) =
    maybePostSlack c e m (Some reason) b st"
  using assms by (auto simp: maybePostSlack_def Let_def split: option.split)

theorem skip_posts_deduplicated_witness:
  "maybePostSlack demo_ctx (demo_env 5 None) (SkipText ''x'') (Some ''qa_failed'') False
     (maybePostSlack demo_ctx (demo_env 0 None) (SkipText ''y'') (Some ''qa_failed'') False
       (createReleaseManagerScheduler [] [] [] 0)) =
   maybePostSlack demo_ctx (demo_env 0 None) (SkipText ''y'') (Some ''qa_failed'') False
       (createReleaseManagerScheduler [] [] [] 0)"
  by (rule skip_posts_deduplicated)
    (simp_all add: demo_env_def SLACK_DEDUP_WINDOW_MS_def createReleaseManagerScheduler_def)

end
