(* ===== verification/PmBudget.thy ===== *)
theory PmBudget
  imports Store
begin

text \<open>
  The budget guard of the PM agent (\<open>pm/types.ts\<close>, \<open>pm/budget.ts\<close>, \<open>pm/budget-alerts.ts\<close>): the
  evaluation of today's token spend per scope, and the alerts with their deduplication. The percentage is
  a product of doubles in the code; it is a parameter here, and what is used of it is that it reaches 50,
  80 and 100 exactly when the spend does. The groups of the query come in the order of their first row.
\<close>

section \<open>Configuration\<close>

record pm_budgets =
  b_default :: "nat option"
  b_perTeam :: "(string, nat) js_map option"
  b_perRepo :: "(string, nat) js_map option"
  b_alertChannel :: "string option"

record pm_config =
  pm_enabled :: bool
  pm_cronIntervalMs :: nat
  pm_maxInFlight :: nat
  pm_triageBatchSize :: nat
  pm_dailyTokenBudget :: nat
  pm_slackChannelId :: string
  pm_teamIds :: "string list"
  pm_stuckIssueRecovery :: bool
  pm_stuckIssueTargetState :: string
  pm_stuckIssueMaxPerTick :: nat
  pm_requirePipelineLabelForPromote :: bool
  pm_maxConsecutiveFailures :: nat
  pm_budgets :: "pm_budgets option"

definition PmBudgetsSchema :: "pm_budgets \<Rightarrow> bool" where
  "PmBudgetsSchema b \<longleftrightarrow>
     b_default b \<noteq> Some 0 \<and>
     (case b_perTeam b of None \<Rightarrow> True | Some m \<Rightarrow> list_all (\<lambda>(k, v). k \<noteq> [] \<and> 0 < v) m) \<and>
     (case b_perRepo b of None \<Rightarrow> True | Some m \<Rightarrow> list_all (\<lambda>(k, v). k \<noteq> [] \<and> 0 < v) m) \<and>
     b_alertChannel b \<noteq> Some []"

definition PmAgentConfigSchema :: "pm_config \<Rightarrow> bool" where
  "PmAgentConfigSchema c \<longleftrightarrow>
     0 < pm_cronIntervalMs c \<and> 1 \<le> pm_maxInFlight c \<and> 1 \<le> pm_triageBatchSize c \<and>
     0 < pm_dailyTokenBudget c \<and> pm_slackChannelId c \<noteq> [] \<and>
     list_all (\<lambda>t. t \<noteq> []) (pm_teamIds c) \<and> 1 \<le> length (pm_teamIds c) \<and>
     pm_stuckIssueTargetState c \<in> {''Backlog'', ''Todo''} \<and> 1 \<le> pm_stuckIssueMaxPerTick c \<and>
     (case pm_budgets c of None \<Rightarrow> True | Some b \<Rightarrow> PmBudgetsSchema b)"

datatype budget_tier = TierOk | Warn50 | Warn80 | Blocked100

datatype budget_scope = GlobalScope | TeamScope string | RepoScope string

record scope_budget =
  sb_scope :: budget_scope
  sb_label :: string
  sb_limit :: nat
  sb_used :: nat
  sb_percent :: nat
  sb_tier :: budget_tier

text \<open>\<open>be_blockReason\<close> keeps the scope that the text of the reason is printed from.\<close>

record budget_evaluation =
  be_scopes :: "scope_budget list"
  be_worstTier :: budget_tier
  be_promoteBlocked :: bool
  be_blockReason :: "scope_budget option"
  be_activeCount :: nat

section \<open>Evaluation\<close>

definition DAY_MS :: millis where
  "DAY_MS = 24 * 60 * 60 * 1000"

definition day_of :: "millis \<Rightarrow> int" where
  "day_of t = t div DAY_MS"

definition started_today :: "millis \<Rightarrow> run_row \<Rightarrow> bool" where
  "started_today now r \<longleftrightarrow>
     day_of now * DAY_MS \<le> r_startedAt r \<and> r_startedAt r < (day_of now + 1) * DAY_MS"

record usage_row =
  u_linearTeamId :: "string option"
  u_repoUrl :: string
  u_totalTokens :: nat
  u_activeCount :: nat

definition run_tokens :: "run_row \<Rightarrow> nat" where
  "run_tokens r = r_totalInputTokens r + r_totalOutputTokens r"

definition counts_active :: "run_row \<Rightarrow> nat" where
  "counts_active r = (if r_status r \<in> {Queued, Running} then 1 else 0)"

definition usage_groups :: "run_row list \<Rightarrow> usage_row list" where
  "usage_groups rows =
     map (\<lambda>(team, repo).
       (let group = filter (\<lambda>r. r_linearTeamId r = team \<and> r_repoUrl r = repo) rows
        in \<lparr>u_linearTeamId = team, u_repoUrl = repo,
            u_totalTokens = sum_list (map run_tokens group),
            u_activeCount = sum_list (map counts_active group)\<rparr>))
       (setOf (map (\<lambda>r. (r_linearTeamId r, r_repoUrl r)) rows))"

fun formatScopeLabel :: "budget_scope \<Rightarrow> string" where
  "formatScopeLabel GlobalScope = ''global''"
| "formatScopeLabel (TeamScope t) = ''team '' @ t"
| "formatScopeLabel (RepoScope r) = ''repo '' @ r"

definition tier_of :: "nat \<Rightarrow> budget_tier" where
  "tier_of percent =
     (if 100 \<le> percent then Blocked100
      else if 80 \<le> percent then Warn80
      else if 50 \<le> percent then Warn50 else TierOk)"

text \<open>\<open>pct used limit\<close> is \<open>Math.floor((used / limit) * 100)\<close>.\<close>

type_synonym percentage = "nat \<Rightarrow> nat \<Rightarrow> nat"

definition makeScope :: "percentage \<Rightarrow> budget_scope \<Rightarrow> nat \<Rightarrow> nat \<Rightarrow> scope_budget" where
  "makeScope pct scope used limit =
     (let percent = (if 0 < limit then pct used limit else 0)
      in \<lparr>sb_scope = scope, sb_label = formatScopeLabel scope, sb_limit = limit, sb_used = used,
          sb_percent = percent, sb_tier = tier_of percent\<rparr>)"

definition add_usage :: "(string, nat) js_map \<Rightarrow> string \<Rightarrow> nat \<Rightarrow> (string, nat) js_map" where
  "add_usage m k n = mapSet m k ((case mapGet m k of None \<Rightarrow> 0 | Some v \<Rightarrow> v) + n)"

definition team_usage :: "usage_row list \<Rightarrow> (string, nat) js_map" where
  "team_usage rows =
     foldl (\<lambda>m row. case u_linearTeamId row of
        Some t \<Rightarrow> if t = [] then m else add_usage m t (u_totalTokens row) | None \<Rightarrow> m) [] rows"

definition repo_usage :: "usage_row list \<Rightarrow> (string, nat) js_map" where
  "repo_usage rows = foldl (\<lambda>m row. add_usage m (u_repoUrl row) (u_totalTokens row)) [] rows"

definition with_configured :: "(string, nat) js_map option \<Rightarrow> (string, nat) js_map \<Rightarrow> (string, nat) js_map" where
  "with_configured configured m =
     foldl (\<lambda>m k. if mapHas m k then m else mapSet m k 0) m
       (case configured of None \<Rightarrow> [] | Some c \<Rightarrow> map fst c)"

definition limit_for :: "(string, nat) js_map option \<Rightarrow> nat \<Rightarrow> string \<Rightarrow> nat" where
  "limit_for configured defaultLimit k =
     (case configured of
        None \<Rightarrow> defaultLimit
      | Some m \<Rightarrow> (case mapGet m k of Some l \<Rightarrow> l | None \<Rightarrow> defaultLimit))"

fun tierRank :: "budget_tier \<Rightarrow> nat" where
  "tierRank TierOk = 0"
| "tierRank Warn50 = 1"
| "tierRank Warn80 = 2"
| "tierRank Blocked100 = 3"

definition worse :: "budget_tier \<Rightarrow> scope_budget \<Rightarrow> budget_tier" where
  "worse t s = (if tierRank t < tierRank (sb_tier s) then sb_tier s else t)"

text \<open>A failed query counts as no runs.\<close>

definition evaluateBudget ::
  "percentage \<Rightarrow> pm_config \<Rightarrow> millis \<Rightarrow> run_row list option \<Rightarrow> budget_evaluation" where
  "evaluateBudget pct config now runs =
     (let rows = (case runs of None \<Rightarrow> [] | Some rs \<Rightarrow> usage_groups (filter (started_today now) rs));
          budgets = pm_budgets config;
          globalLimit = pm_dailyTokenBudget config;
          defaultLimit = (case Option.bind budgets b_default of None \<Rightarrow> globalLimit | Some l \<Rightarrow> l);
          perTeam = Option.bind budgets b_perTeam;
          perRepo = Option.bind budgets b_perRepo;
          globalUsed = sum_list (map u_totalTokens rows);
          activeCount = sum_list (map u_activeCount rows);
          teamUsed = with_configured perTeam (team_usage rows);
          repoUsed = with_configured perRepo (repo_usage rows);
          scopes = [makeScope pct GlobalScope globalUsed globalLimit] @
            map (\<lambda>(t, used). makeScope pct (TeamScope t) used (limit_for perTeam defaultLimit t)) teamUsed @
            map (\<lambda>(r, used). makeScope pct (RepoScope r) used (limit_for perRepo defaultLimit r)) repoUsed;
          worstTier = foldl worse TierOk scopes
      in \<lparr>be_scopes = scopes, be_worstTier = worstTier, be_promoteBlocked = (worstTier = Blocked100),
          be_blockReason = find (\<lambda>s. sb_tier s = Blocked100) scopes, be_activeCount = activeCount\<rparr>)"

section \<open>Alerts\<close>

text \<open>A row of \<open>budget_alerts\<close>: day, scope and threshold, which are unique together.\<close>

type_synonym alert_key = "int \<times> string \<times> nat"

fun scopeToKey :: "budget_scope \<Rightarrow> string" where
  "scopeToKey GlobalScope = ''global''"
| "scopeToKey (TeamScope t) = ''team:'' @ t"
| "scopeToKey (RepoScope r) = ''repo:'' @ r"

fun thresholdsForTier :: "budget_tier \<Rightarrow> nat list" where
  "thresholdsForTier Blocked100 = [50, 80, 100]"
| "thresholdsForTier Warn80 = [50, 80]"
| "thresholdsForTier Warn50 = [50]"
| "thresholdsForTier TierOk = []"

definition tryInsertAlert :: "alert_key \<Rightarrow> alert_key list \<Rightarrow> bool \<times> alert_key list" where
  "tryInsertAlert k rows = (if k \<in> set rows then (False, rows) else (True, rows @ [k]))"

text \<open>
  The posts made so far go along, as (scope, threshold); \<open>ok\<close> tells whether the post succeeds. A
  failed post removes the row again.
\<close>

definition fire_one ::
  "(scope_budget \<Rightarrow> nat \<Rightarrow> bool) \<Rightarrow> int \<Rightarrow> scope_budget \<Rightarrow> nat \<Rightarrow> alert_key list \<times> (string \<times> nat) list \<Rightarrow>
   alert_key list \<times> (string \<times> nat) list" where
  "fire_one ok today scope threshold acc =
     (case acc of (rows, posts) \<Rightarrow>
       (let scopeKey = scopeToKey (sb_scope scope); k = (today, scopeKey, threshold) in
        case tryInsertAlert k rows of
          (False, rows') \<Rightarrow> (rows', posts)
        | (True, rows') \<Rightarrow>
            if ok scope threshold then (rows', posts @ [(scopeKey, threshold)])
            else (delete_where (\<lambda>r. r = k) rows', posts)))"

definition maybeFireAlerts ::
  "(scope_budget \<Rightarrow> nat \<Rightarrow> bool) \<Rightarrow> millis \<Rightarrow> budget_evaluation \<Rightarrow> alert_key list \<Rightarrow>
   alert_key list \<times> (string \<times> nat) list" where
  "maybeFireAlerts ok now ev rows =
     fold (\<lambda>s acc. if sb_tier s = TierOk then acc
             else fold (fire_one ok (day_of now) s) (thresholdsForTier (sb_tier s)) acc)
       (be_scopes ev) (rows, [])"

section \<open>What the evaluation says\<close>

text \<open>What is used of the percentage.\<close>

definition pct_ok :: "percentage \<Rightarrow> bool" where
  "pct_ok pct \<longleftrightarrow>
     (\<forall>used limit. 0 < limit \<longrightarrow> (\<forall>k \<in> {50, 80, 100}. k \<le> pct used limit \<longleftrightarrow> k * limit \<le> 100 * used))"

lemma pct_blocked:
  "pct_ok pct \<Longrightarrow> sb_tier (makeScope pct sc used limit) = Blocked100 \<longleftrightarrow> 0 < limit \<and> limit \<le> used"
  by (auto simp: makeScope_def tier_of_def pct_ok_def Let_def)

lemma worst_blocked:
  "foldl worse t ss = Blocked100 \<longleftrightarrow> t = Blocked100 \<or> (\<exists>s \<in> set ss. sb_tier s = Blocked100)"
proof (induction ss arbitrary: t)
  case (Cons s ss)
  have "worse t s = Blocked100 \<longleftrightarrow> t = Blocked100 \<or> sb_tier s = Blocked100"
    by (cases t; cases "sb_tier s") (auto simp: worse_def)
  with Cons show ?case by auto
qed simp

lemma sum_groups:
  fixes f :: "'a \<Rightarrow> nat"
  assumes "distinct ks" "\<And>x. x \<in> set xs \<Longrightarrow> key x \<in> set ks"
  shows "sum_list (map (\<lambda>k. sum_list (map f (filter (\<lambda>x. key x = k) xs))) ks) = sum_list (map f xs)"
  using assms(2)
proof (induction xs)
  case (Cons x xs)
  have split: "sum_list (map f (filter (\<lambda>y. key y = k) (x # xs))) =
      (if k = key x then f x else 0) + sum_list (map f (filter (\<lambda>y. key y = k) xs))" for k
    by simp
  have one: "sum_list (map (\<lambda>k. if k = key x then f x else 0) ks) = f x"
    using assms(1) Cons.prems [of x] by (simp add: sum_list_distinct_conv_sum_set sum.delta)
  have "sum_list (map (\<lambda>k. sum_list (map f (filter (\<lambda>y. key y = k) (x # xs)))) ks) =
      sum_list (map (\<lambda>k. if k = key x then f x else 0) ks) +
      sum_list (map (\<lambda>k. sum_list (map f (filter (\<lambda>y. key y = k) xs))) ks)"
    unfolding split by (rule sum_list_addf)
  with one Cons show ?case by simp
qed simp

definition group_key :: "run_row \<Rightarrow> string option \<times> string" where
  "group_key r = (r_linearTeamId r, r_repoUrl r)"

lemma usage_groups_sum:
  "sum_list (map u_totalTokens (usage_groups rows)) = sum_list (map run_tokens rows)"
  "sum_list (map u_activeCount (usage_groups rows)) = sum_list (map counts_active rows)"
proof -
  have "(\<lambda>r. r_linearTeamId r = team \<and> r_repoUrl r = repo) = (\<lambda>r. group_key r = (team, repo))" for team repo
    by (auto simp: group_key_def)
  then have groups: "usage_groups rows =
      map (\<lambda>k. \<lparr>u_linearTeamId = fst k, u_repoUrl = snd k,
          u_totalTokens = sum_list (map run_tokens (filter (\<lambda>r. group_key r = k) rows)),
          u_activeCount = sum_list (map counts_active (filter (\<lambda>r. group_key r = k) rows))\<rparr>)
        (setOf (map group_key rows))"
    by (auto simp: usage_groups_def Let_def group_key_def [abs_def])
  show "sum_list (map u_totalTokens (usage_groups rows)) = sum_list (map run_tokens rows)"
    "sum_list (map u_activeCount (usage_groups rows)) = sum_list (map counts_active rows)"
    using sum_groups [of "setOf (map group_key rows)" rows group_key]
    by (simp_all add: groups o_def)
qed

lemma distinct_mapSet: "distinct (map fst m) \<Longrightarrow> distinct (map fst (mapSet m k v))"
  by (rule distinct_update)

lemma add_usage_get:
  "mapGet (add_usage m k n) x =
     (if x = k then Some ((case mapGet m k of None \<Rightarrow> 0 | Some v \<Rightarrow> v) + n) else mapGet m x)"
  by (simp add: add_usage_def)

definition got :: "(string, nat) js_map \<Rightarrow> string \<Rightarrow> nat" where
  "got m k = (case mapGet m k of None \<Rightarrow> 0 | Some v \<Rightarrow> v)"

lemma foldl_usage_get:
  "mapHas (foldl (\<lambda>m p. add_usage m (fst p) (snd p)) m ps) k \<longleftrightarrow> mapHas m k \<or> k \<in> fst ` set ps"
  "got (foldl (\<lambda>m p. add_usage m (fst p) (snd p)) m ps) k =
     got m k + sum_list (map snd (filter (\<lambda>p. fst p = k) ps))"
  by (induction ps arbitrary: m) (auto simp: add_usage_get got_def split: option.splits)

lemma foldl_usage_distinct:
  "distinct (map fst m) \<Longrightarrow> distinct (map fst (foldl (\<lambda>m p. add_usage m (fst p) (snd p)) m ps))"
  by (induction ps arbitrary: m) (simp_all add: add_usage_def distinct_mapSet)

definition team_pairs :: "usage_row list \<Rightarrow> (string \<times> nat) list" where
  "team_pairs rows = List.map_filter (\<lambda>row. case u_linearTeamId row of
     Some t \<Rightarrow> if t = [] then None else Some (t, u_totalTokens row) | None \<Rightarrow> None) rows"

lemma team_usage_pairs:
  "team_usage rows = foldl (\<lambda>m p. add_usage m (fst p) (snd p)) [] (team_pairs rows)"
proof -
  have "foldl (\<lambda>m row. case u_linearTeamId row of
        Some t \<Rightarrow> if t = [] then m else add_usage m t (u_totalTokens row) | None \<Rightarrow> m) m rows =
      foldl (\<lambda>m p. add_usage m (fst p) (snd p)) m (team_pairs rows)" for m
    by (induction rows arbitrary: m) (auto simp: team_pairs_def map_filter_simps split: option.split)
  then show ?thesis by (simp add: team_usage_def)
qed

lemma repo_usage_pairs:
  "repo_usage rows = foldl (\<lambda>m p. add_usage m (fst p) (snd p)) []
     (map (\<lambda>row. (u_repoUrl row, u_totalTokens row)) rows)"
  by (simp add: repo_usage_def foldl_map)

lemma with_configured_get:
  "got (with_configured configured m) k = got m k"
proof -
  have "got (foldl (\<lambda>m k. if mapHas m k then m else mapSet m k 0) m ks) k = got m k" for ks
    by (induction ks arbitrary: m) (auto simp: got_def)
  then show ?thesis by (simp add: with_configured_def)
qed

lemma with_configured_has:
  "mapHas m k \<Longrightarrow> mapHas (with_configured configured m) k"
proof -
  have "mapHas m k \<Longrightarrow> mapHas (foldl (\<lambda>m k. if mapHas m k then m else mapSet m k 0) m ks) k" for ks
    by (induction ks arbitrary: m) auto
  then show "mapHas m k \<Longrightarrow> ?thesis" by (simp add: with_configured_def)
qed

lemma with_configured_distinct:
  "distinct (map fst m) \<Longrightarrow> distinct (map fst (with_configured configured m))"
proof -
  have "distinct (map fst m) \<Longrightarrow>
      distinct (map fst (foldl (\<lambda>m k. if mapHas m k then m else mapSet m k 0) m ks))" for ks
    by (induction ks arbitrary: m) (auto simp: distinct_mapSet)
  then show "distinct (map fst m) \<Longrightarrow> ?thesis" by (simp add: with_configured_def)
qed

text \<open>A scope of a usage map reaches its limit exactly when the usage of its key does.\<close>

lemma ex_over_limit:
  assumes "distinct (map fst m)" "\<And>k. 0 < (lim k :: nat)" "\<And>k. \<not> mapHas m k \<Longrightarrow> used k = 0"
    "\<And>k. got m k = used k"
  shows "(\<exists>(k, u) \<in> set m. 0 < lim k \<and> lim k \<le> u) \<longleftrightarrow> (\<exists>k. lim k \<le> used k)"
proof
  assume "\<exists>(k, u) \<in> set m. 0 < lim k \<and> lim k \<le> u"
  then obtain k u where "(k, u) \<in> set m" "lim k \<le> u" by auto
  moreover from this assms(1) have "mapGet m k = Some u" by simp
  ultimately show "\<exists>k. lim k \<le> used k"
    using assms(4) [of k] by (auto simp: got_def)
next
  assume "\<exists>k. lim k \<le> used k"
  then obtain k where k: "lim k \<le> used k" ..
  with assms(2) [of k] assms(3) [of k] obtain u where u: "mapGet m k = Some u" by fastforce
  with assms(4) [of k] have "u = used k" by (simp add: got_def)
  with u k assms(2) [of k] show "\<exists>(k, u) \<in> set m. 0 < lim k \<and> lim k \<le> u"
    by (auto dest!: map_of_SomeD)
qed

text \<open>Today's tokens of a team and of a repository.\<close>

definition today_runs :: "millis \<Rightarrow> run_row list \<Rightarrow> run_row list" where
  "today_runs now rs = filter (started_today now) rs"

definition team_tokens :: "run_row list \<Rightarrow> string \<Rightarrow> nat" where
  "team_tokens rs t = (if t = [] then 0
     else sum_list (map run_tokens (filter (\<lambda>r. r_linearTeamId r = Some t) rs)))"

definition repo_tokens :: "run_row list \<Rightarrow> string \<Rightarrow> nat" where
  "repo_tokens rs u = sum_list (map run_tokens (filter (\<lambda>r. r_repoUrl r = u) rs))"

lemma usage_groups_filter:
  "sum_list (map u_totalTokens (filter (\<lambda>g. P (u_linearTeamId g) (u_repoUrl g)) (usage_groups rows))) =
     sum_list (map run_tokens (filter (\<lambda>r. P (r_linearTeamId r) (r_repoUrl r)) rows))"
proof -
  let ?keys = "filter (\<lambda>k. P (fst k) (snd k)) (setOf (map group_key rows))"
  let ?rows = "filter (\<lambda>r. P (r_linearTeamId r) (r_repoUrl r)) rows"
  have same: "filter (\<lambda>r. group_key r = k) ?rows = filter (\<lambda>r. group_key r = k) rows" if "P (fst k) (snd k)" for k
    using that by (auto simp: group_key_def intro!: filter_cong)
  have "map u_totalTokens (filter (\<lambda>g. P (u_linearTeamId g) (u_repoUrl g)) (usage_groups rows)) =
      map (\<lambda>k. sum_list (map run_tokens (filter (\<lambda>r. group_key r = k) rows))) ?keys"
    by (simp add: usage_groups_def filter_map o_def Let_def group_key_def [abs_def] case_prod_beta
        prod_eq_iff)
  also have "\<dots> = map (\<lambda>k. sum_list (map run_tokens (filter (\<lambda>r. group_key r = k) ?rows))) ?keys"
    using same by (intro map_cong) auto
  also have "sum_list \<dots> = sum_list (map run_tokens ?rows)"
    by (rule sum_groups) (auto simp: group_key_def)
  finally show ?thesis .
qed

lemma team_usage_got: "got (team_usage (usage_groups rows)) t = team_tokens rows t"
proof (cases "t = []")
  case True
  have "filter (\<lambda>p. fst p = t) (team_pairs gs) = []" for gs
    using True by (induction gs) (auto simp: team_pairs_def map_filter_simps split: option.splits)
  then show ?thesis
    using True by (simp add: team_usage_pairs foldl_usage_get team_tokens_def) (simp add: got_def)
next
  case False
  have "map snd (filter (\<lambda>p. fst p = t) (team_pairs gs)) =
      map u_totalTokens (filter (\<lambda>g. u_linearTeamId g = Some t) gs)" for gs
    using False by (induction gs) (auto simp: team_pairs_def map_filter_simps split: option.splits)
  then show ?thesis
    using False usage_groups_filter [of "\<lambda>a b. a = Some t" rows]
    by (simp add: team_usage_pairs foldl_usage_get team_tokens_def) (simp add: got_def)
qed

lemma repo_usage_got: "got (repo_usage (usage_groups rows)) u = repo_tokens rows u"
  using usage_groups_filter [of "\<lambda>a b. b = u" rows]
  by (simp add: repo_usage_pairs foldl_usage_get repo_tokens_def filter_map o_def) (simp add: got_def)

lemma not_has_got: "\<not> mapHas m k \<Longrightarrow> got m k = 0"
  by (simp add: got_def)

definition default_limit :: "pm_config \<Rightarrow> nat" where
  "default_limit c = (case Option.bind (pm_budgets c) b_default of None \<Rightarrow> pm_dailyTokenBudget c | Some l \<Rightarrow> l)"

definition team_limit :: "pm_config \<Rightarrow> string \<Rightarrow> nat" where
  "team_limit c = limit_for (Option.bind (pm_budgets c) b_perTeam) (default_limit c)"

definition repo_limit :: "pm_config \<Rightarrow> string \<Rightarrow> nat" where
  "repo_limit c = limit_for (Option.bind (pm_budgets c) b_perRepo) (default_limit c)"

lemma limits_positive:
  assumes "PmAgentConfigSchema c"
  shows "0 < team_limit c t" "0 < repo_limit c u" "0 < pm_dailyTokenBudget c"
proof -
  have d: "0 < default_limit c"
    using assms by (auto simp: PmAgentConfigSchema_def PmBudgetsSchema_def default_limit_def
        split: option.splits)
  show "0 < team_limit c t" "0 < repo_limit c u" "0 < pm_dailyTokenBudget c"
    using assms d
    by (cases "pm_budgets c"; force simp: PmAgentConfigSchema_def PmBudgetsSchema_def team_limit_def
        repo_limit_def limit_for_def list_all_iff dest!: map_of_SomeD split: option.splits)+
qed

lemma ex_scope:
  "pct_ok pct \<Longrightarrow>
   sb_tier (case s of (k, u) \<Rightarrow> makeScope pct (sc k) u (lim k)) = Blocked100 \<longleftrightarrow>
     (case s of (k, u) \<Rightarrow> 0 < lim k \<and> lim k \<le> u)"
  by (cases s) (simp add: pct_blocked)

text \<open>
  New runs are blocked exactly when today's tokens reach the daily limit, or those of a team or a repository
  reach theirs (its own limit, the default of the budgets, or the daily limit), with no further condition:
  the grouping of the query, the order of the scopes and the configured keys without spend do not
  matter.
\<close>
theorem budget_blocks_iff:
  assumes "pct_ok pct" "PmAgentConfigSchema c"
  shows "be_promoteBlocked (evaluateBudget pct c now (Some rs)) \<longleftrightarrow>
    pm_dailyTokenBudget c \<le> sum_list (map run_tokens (today_runs now rs)) \<or>
    (\<exists>t. team_limit c t \<le> team_tokens (today_runs now rs) t) \<or>
    (\<exists>u. repo_limit c u \<le> repo_tokens (today_runs now rs) u)"
proof -
  let ?rs = "today_runs now rs"
  let ?groups = "usage_groups ?rs"
  let ?team = "with_configured (Option.bind (pm_budgets c) b_perTeam) (team_usage ?groups)"
  let ?repo = "with_configured (Option.bind (pm_budgets c) b_perRepo) (repo_usage ?groups)"
  have team: "(\<exists>(k, u) \<in> set ?team. 0 < team_limit c k \<and> team_limit c k \<le> u) \<longleftrightarrow>
      (\<exists>t. team_limit c t \<le> team_tokens ?rs t)"
  proof (rule ex_over_limit)
    show "distinct (map fst ?team)"
      by (intro with_configured_distinct) (simp add: team_usage_pairs foldl_usage_distinct)
    show got: "got ?team k = team_tokens ?rs k" for k
      by (simp add: with_configured_get team_usage_got)
    show "\<not> mapHas ?team k \<Longrightarrow> team_tokens ?rs k = 0" for k
      using not_has_got [of ?team k] got [of k] by simp
  qed (rule limits_positive(1) [OF assms(2)])
  have repo: "(\<exists>(k, u) \<in> set ?repo. 0 < repo_limit c k \<and> repo_limit c k \<le> u) \<longleftrightarrow>
      (\<exists>u. repo_limit c u \<le> repo_tokens ?rs u)"
  proof (rule ex_over_limit)
    show "distinct (map fst ?repo)"
      by (intro with_configured_distinct) (simp add: repo_usage_pairs foldl_usage_distinct)
    show got: "got ?repo k = repo_tokens ?rs k" for k
      by (simp add: with_configured_get repo_usage_got)
    show "\<not> mapHas ?repo k \<Longrightarrow> repo_tokens ?rs k = 0" for k
      using not_has_got [of ?repo k] got [of k] by simp
  qed (rule limits_positive(2) [OF assms(2)])
  have "be_promoteBlocked (evaluateBudget pct c now (Some rs)) \<longleftrightarrow>
      pm_dailyTokenBudget c \<le> sum_list (map run_tokens ?rs) \<or>
      (\<exists>(k, u) \<in> set ?team. 0 < team_limit c k \<and> team_limit c k \<le> u) \<or>
      (\<exists>(k, u) \<in> set ?repo. 0 < repo_limit c k \<and> repo_limit c k \<le> u)"
    using limits_positive(3) [OF assms(2)]
    by (simp add: evaluateBudget_def Let_def worst_blocked bex_Un ex_scope [OF assms(1)]
        pct_blocked [OF assms(1)] usage_groups_sum today_runs_def [symmetric] default_limit_def [symmetric]
        team_limit_def [symmetric] repo_limit_def [symmetric])
  with team repo show ?thesis by simp
qed

definition demo_pm_config :: pm_config where
  "demo_pm_config = \<lparr>pm_enabled = True, pm_cronIntervalMs = 1800000, pm_maxInFlight = 3,
     pm_triageBatchSize = 3, pm_dailyTokenBudget = 1000, pm_slackChannelId = ''C1'',
     pm_teamIds = [''t1''], pm_stuckIssueRecovery = True, pm_stuckIssueTargetState = ''Backlog'',
     pm_stuckIssueMaxPerTick = 5, pm_requirePipelineLabelForPromote = False,
     pm_maxConsecutiveFailures = 3, pm_budgets = None\<rparr>"

lemma demo_pct: "pct_ok (\<lambda>used limit. 100 * used div limit)"
  by (auto simp: pct_ok_def less_eq_div_iff_mult_less_eq)

theorem budget_blocks_iff_witness:
  "be_promoteBlocked (evaluateBudget (\<lambda>used limit. 100 * used div limit) demo_pm_config 0 (Some [])) \<longleftrightarrow>
     pm_dailyTokenBudget demo_pm_config \<le> sum_list (map run_tokens (today_runs 0 [])) \<or>
     (\<exists>t. team_limit demo_pm_config t \<le> team_tokens (today_runs 0 []) t) \<or>
     (\<exists>u. repo_limit demo_pm_config u \<le> repo_tokens (today_runs 0 []) u)"
  by (rule budget_blocks_iff [OF demo_pct])
    (simp add: demo_pm_config_def PmAgentConfigSchema_def)

lemma counts_active_length:
  "sum_list (map counts_active rs) = length (filter (\<lambda>r. r_status r \<in> {Queued, Running}) rs)"
  by (induction rs) (auto simp: counts_active_def)

text \<open>
  The in-flight count is that of the queued and running runs that were started on the current UTC day: a
  run that began before midnight does not count, however long it still runs, and with a failed query
  nothing counts and nothing is blocked.
\<close>
theorem active_count_exact:
  "be_activeCount (evaluateBudget pct c now (Some rs)) =
     length (filter (\<lambda>r. started_today now r \<and> r_status r \<in> {Queued, Running}) rs) \<and>
   be_activeCount (evaluateBudget pct c now None) = 0"
proof
  have "be_activeCount (evaluateBudget pct c now (Some rs)) =
      length (filter (\<lambda>r. r_status r \<in> {Queued, Running}) (filter (started_today now) rs))"
    by (simp add: evaluateBudget_def Let_def usage_groups_sum counts_active_length)
  also have "\<dots> = length (filter (\<lambda>r. started_today now r \<and> r_status r \<in> {Queued, Running}) rs)"
    by (simp add: conj_commute)
  finally show "be_activeCount (evaluateBudget pct c now (Some rs)) =
      length (filter (\<lambda>r. started_today now r \<and> r_status r \<in> {Queued, Running}) rs)" .
  show "be_activeCount (evaluateBudget pct c now None) = 0"
    by (simp add: evaluateBudget_def Let_def)
qed

section \<open>What the alerts do\<close>

text \<open>Rows and posts agree: every post has its row, none is posted twice.\<close>

definition alert_row :: "int \<Rightarrow> string \<times> nat \<Rightarrow> alert_key" where
  "alert_row day p = (day, fst p, snd p)"

definition alerts_agree :: "int \<Rightarrow> alert_key list \<Rightarrow> alert_key list \<times> (string \<times> nat) list \<Rightarrow> bool" where
  "alerts_agree day rows0 acc \<longleftrightarrow>
     fst acc = rows0 @ map (alert_row day) (snd acc) \<and> distinct (fst acc)"

lemma fire_one_agree:
  assumes "alerts_agree day rows0 acc"
  shows "alerts_agree day rows0 (fire_one ok day sc th acc)"
proof -
  obtain rows posts where acc: "acc = (rows, posts)" by (cases acc)
  let ?k = "(day, scopeToKey (sb_scope sc), th)"
  have restore: "delete_where (\<lambda>r. r = ?k) (rows @ [?k]) = rows" if "?k \<notin> set rows"
    using that by (induction rows) (auto simp: delete_where_def)
  show ?thesis
  proof (cases "?k \<in> set rows")
    case True
    then have "fire_one ok day sc th acc = acc"
      by (simp add: fire_one_def acc tryInsertAlert_def Let_def)
    with assms show ?thesis by simp
  next
    case False
    have fired: "fire_one ok day sc th acc =
        (if ok sc th then (rows @ [?k], posts @ [(scopeToKey (sb_scope sc), th)]) else acc)"
      using restore [OF False] False by (simp add: fire_one_def acc tryInsertAlert_def Let_def)
    have rows: "rows = rows0 @ map (alert_row day) posts" "distinct rows"
      using assms unfolding alerts_agree_def acc fst_conv snd_conv by blast+
    have "rows @ [?k] = rows0 @ map (alert_row day) (posts @ [(scopeToKey (sb_scope sc), th)])"
      by (simp add: rows(1) alert_row_def)
    moreover have "distinct (rows @ [?k])"
      using rows(2) False by simp
    ultimately have "alerts_agree day rows0 (rows @ [?k], posts @ [(scopeToKey (sb_scope sc), th)])"
      by (simp only: alerts_agree_def fst_conv snd_conv)
    with assms show ?thesis
      by (simp only: fired split: if_split) blast
  qed
qed

lemma fire_all_agree:
  "alerts_agree day rows0 acc \<Longrightarrow> alerts_agree day rows0 (fold (fire_one ok day sc) ths acc)"
  by (induction ths arbitrary: acc) (simp_all add: fire_one_agree)

text \<open>
  An alert is posted at most once a day: on unique rows, the alerts that are posted are exactly the rows that
  are added, none of them was there before and none is added twice, and a failed post leaves no row, so
  that the next evaluation posts it.
\<close>
theorem alerts_once_a_day:
  assumes "distinct rows"
  shows "fst (maybeFireAlerts ok now ev rows) =
      rows @ map (alert_row (day_of now)) (snd (maybeFireAlerts ok now ev rows)) \<and>
    distinct (fst (maybeFireAlerts ok now ev rows))"
proof -
  have "alerts_agree (day_of now) rows0 acc \<Longrightarrow> alerts_agree (day_of now) rows0
      (fold (\<lambda>s acc. if sb_tier s = TierOk then acc
             else fold (fire_one ok (day_of now) s) (thresholdsForTier (sb_tier s)) acc) ss acc)"
    for ss acc rows0
    by (induction ss arbitrary: acc) (simp_all add: fire_all_agree)
  moreover have "alerts_agree (day_of now) rows (rows, [])"
    using assms by (simp add: alerts_agree_def)
  ultimately have "alerts_agree (day_of now) rows (maybeFireAlerts ok now ev rows)"
    unfolding maybeFireAlerts_def by blast
  then show ?thesis
    unfolding alerts_agree_def .
qed

theorem alerts_once_a_day_witness:
  "fst (maybeFireAlerts (\<lambda>_ _. True) 0 (evaluateBudget (\<lambda>u l. 100 * u div l) demo_pm_config 0 None) [(0, ''global'', 50)]) =
     [(0, ''global'', 50)] @ map (alert_row (day_of 0))
       (snd (maybeFireAlerts (\<lambda>_ _. True) 0 (evaluateBudget (\<lambda>u l. 100 * u div l) demo_pm_config 0 None) [(0, ''global'', 50)])) \<and>
   distinct (fst (maybeFireAlerts (\<lambda>_ _. True) 0 (evaluateBudget (\<lambda>u l. 100 * u div l) demo_pm_config 0 None) [(0, ''global'', 50)]))"
  by (rule alerts_once_a_day) simp

end
