(* ===== verification/PmBreaker.thy ===== *)
theory PmBreaker
  imports Store "HOL-Library.List_Lexorder" "HOL-Library.Char_ord"
begin

text \<open>
  The circuit breaker of the PM agent (\<open>pm/actions/db-queries.ts\<close>, \<open>circuit-breaker-config.ts\<close>,
  \<open>select-probe-candidates.ts\<close>, \<open>recover-circuit-breaker.ts\<close>,
  \<open>sweep-recovered-circuit-breakers.ts\<close>): counting the consecutive failures of an issue, the half-open
  probe, recovery and reset. Linear answers through parameters. Where a query does not order its rows,
  they come in the order of the table.
\<close>

section \<open>Rows\<close>

record breaker_row =
  cb_issueId :: issue_id
  cb_escalatedAt :: millis
  cb_lastProbeAt :: "millis option"
  cb_probeAttempts :: nat

text \<open>The tables a reset works on; of the children only the reference to their parent matters.\<close>

record pm_tables =
  t_runs :: "run_row list"
  t_stages :: "stage_row list"
  t_reviewModelRuns :: "string list"
  t_agentLogs :: "string list"
  t_runDecisions :: "run_id list"
  t_breaker :: "breaker_row list"

section \<open>Counting failures\<close>

definition countLeadingFailures :: "run_status list \<Rightarrow> nat" where
  "countLeadingFailures rows = length (takeWhile (\<lambda>s. s = Failed) rows)"

definition terminal_run :: "run_row \<Rightarrow> bool" where
  "terminal_run r \<longleftrightarrow> r_status r \<in> {Completed, Failed}"

text \<open>\<open>ORDER BY started_at DESC, id DESC\<close>\<close>

definition newest_first :: "run_row list \<Rightarrow> run_row list" where
  "newest_first rows = sort_key (\<lambda>r. - r_startedAt r) (rev (sort_key r_id rows))"

definition countConsecutiveFailures :: "run_row list \<Rightarrow> issue_id \<Rightarrow> nat" where
  "countConsecutiveFailures rows issueId =
     countLeadingFailures (map r_status
       (newest_first (filter (\<lambda>r. r_issueId r = issueId \<and> terminal_run r) rows)))"

definition add_bucket ::
  "(issue_id, run_status list) js_map \<Rightarrow> run_row \<Rightarrow> (issue_id, run_status list) js_map" where
  "add_bucket m r =
     (case mapGet m (r_issueId r) of
        Some bucket \<Rightarrow> mapSet m (r_issueId r) (bucket @ [r_status r])
      | None \<Rightarrow> mapSet m (r_issueId r) [r_status r])"

definition batchCountConsecutiveFailures ::
  "run_row list \<Rightarrow> issue_id list \<Rightarrow> (issue_id, nat) js_map" where
  "batchCountConsecutiveFailures rows issueIds =
     (if issueIds = [] then []
      else (let sel = newest_first (filter (\<lambda>r. r_issueId r \<in> set issueIds \<and> terminal_run r) rows);
                byIssue = foldl add_bucket [] sel
            in foldl (\<lambda>m i. mapSet m i (countLeadingFailures
                 (case mapGet byIssue i of Some b \<Rightarrow> b | None \<Rightarrow> []))) [] issueIds))"

definition getLastFailureError :: "run_row list \<Rightarrow> issue_id \<Rightarrow> string option" where
  "getLastFailureError rows issueId =
     (case newest_first (filter (\<lambda>r. r_issueId r = issueId \<and> r_status r = Failed) rows) of
        [] \<Rightarrow> None | r # _ \<Rightarrow> r_errorMessage r)"

definition failures_of :: "(issue_id, nat) js_map \<Rightarrow> issue_id \<Rightarrow> nat" where
  "failures_of m i = (case mapGet m i of Some n \<Rightarrow> n | None \<Rightarrow> 0)"

section \<open>Active and recent issues\<close>

definition RECENT_WINDOW_MS :: millis where
  "RECENT_WINDOW_MS = 30 * 60 * 1000"

definition is_active :: "millis \<Rightarrow> millis option \<Rightarrow> run_row \<Rightarrow> bool" where
  "is_active now stuckRunAgeMs r \<longleftrightarrow>
     (case stuckRunAgeMs of
        Some age \<Rightarrow> r_status r = Queued \<or> (r_status r = Running \<and> now - age \<le> r_startedAt r)
      | None \<Rightarrow> r_status r \<in> {Queued, Running})"

definition is_recent :: "millis \<Rightarrow> millis \<Rightarrow> run_row \<Rightarrow> bool" where
  "is_recent now window r \<longleftrightarrow> terminal_run r \<and>
     (case r_completedAt r of None \<Rightarrow> False | Some t \<Rightarrow> now - window \<le> t)"

definition getActiveAndRecentIssueIds ::
  "millis \<Rightarrow> millis \<Rightarrow> millis option \<Rightarrow> run_row list \<Rightarrow> issue_id set \<times> issue_id set" where
  "getActiveAndRecentIssueIds now recentWindowMs stuckRunAgeMs rows =
     (set (map r_issueId (filter (is_active now stuckRunAgeMs) rows)),
      set (map r_issueId (filter (is_recent now recentWindowMs) rows)))"

section \<open>Issues with an open breaker\<close>

record broken_issue =
  bi_issueId :: issue_id
  bi_issueTitle :: string
  bi_errorMessage :: "string option"
  bi_failedAt :: millis

definition CIRCUIT_BROKEN_FETCH_LIMIT :: nat where
  "CIRCUIT_BROKEN_FETCH_LIMIT = 50"

definition to_broken :: "run_row \<Rightarrow> broken_issue" where
  "to_broken r = \<lparr>bi_issueId = r_issueId r, bi_issueTitle = r_issueTitle r,
     bi_errorMessage = r_errorMessage r,
     bi_failedAt = (case r_completedAt r of Some t \<Rightarrow> t | None \<Rightarrow> r_startedAt r)\<rparr>"

definition fetchCircuitBrokenIssues ::
  "millis \<Rightarrow> nat \<Rightarrow> nat \<Rightarrow> run_row list \<Rightarrow> broken_issue list" where
  "fetchCircuitBrokenIssues now minConsecutiveFailures windowDays rows =
     (let cutoff = now - int windowDays * 24 * 60 * 60 * 1000;
          sel = take CIRCUIT_BROKEN_FETCH_LIMIT
            (newest_first (filter (\<lambda>r. r_status r = Failed \<and> cutoff \<le> r_startedAt r) rows));
          byIssue = foldl (\<lambda>m r. if mapHas m (r_issueId r) then m
            else mapSet m (r_issueId r) (to_broken r)) [] sel;
          counts = batchCountConsecutiveFailures rows (map fst byIssue)
      in sort_key (\<lambda>b. - bi_failedAt b)
           (map snd (filter (\<lambda>(i, _). minConsecutiveFailures \<le> failures_of counts i) byIssue)))"

section \<open>The half-open probe\<close>

record probe_config =
  pb_disabled :: bool
  pb_cooldownMs :: millis
  pb_maxProbesPerTick :: nat

text \<open>\<open>Number.parseInt\<close> with a fallback for what is no positive number.\<close>

definition parse_positive :: "string \<Rightarrow> nat option" where
  "parse_positive raw =
     (let t = dropWhile is_space raw;
          u = (case t of c # cs \<Rightarrow> if c = CHR ''+'' then cs else t | [] \<Rightarrow> []);
          n = parse_nat (takeWhile is_digit u)
      in if n = 0 then None else Some n)"

definition parsePositiveInt :: "string option \<Rightarrow> nat \<Rightarrow> nat" where
  "parsePositiveInt raw fallback =
     (case raw of
        None \<Rightarrow> fallback
      | Some s \<Rightarrow> (case parse_positive s of None \<Rightarrow> fallback | Some n \<Rightarrow> n))"

definition getCircuitBreakerProbeConfig :: "(string \<Rightarrow> string option) \<Rightarrow> probe_config" where
  "getCircuitBreakerProbeConfig env =
     \<lparr>pb_disabled = (env ''PM_DISABLE_CIRCUIT_BREAKER_PROBE'' = Some ''true''),
      pb_cooldownMs = int (parsePositiveInt (env ''PM_CIRCUIT_BREAKER_PROBE_AGE_MIN'') 120) * 60 * 1000,
      pb_maxProbesPerTick = parsePositiveInt (env ''PM_CIRCUIT_BREAKER_MAX_PROBES_PER_TICK'') 2\<rparr>"

text \<open>Never probed rows first, then the oldest probe first.\<close>

definition probe_order :: "breaker_row list \<Rightarrow> breaker_row list" where
  "probe_order rows =
     filter (\<lambda>r. cb_lastProbeAt r = None) rows @
     sort_key (\<lambda>r. the (cb_lastProbeAt r)) (filter (\<lambda>r. cb_lastProbeAt r \<noteq> None) rows)"

definition cooled_down :: "millis \<Rightarrow> millis \<Rightarrow> breaker_row \<Rightarrow> bool" where
  "cooled_down now cooldownMs r \<longleftrightarrow>
     (case cb_lastProbeAt r of None \<Rightarrow> True | Some t \<Rightarrow> t \<le> now - cooldownMs)"

definition probe_picks ::
  "probe_config \<Rightarrow> nat \<Rightarrow> millis \<Rightarrow> run_row list \<Rightarrow> breaker_row list \<Rightarrow> breaker_row list" where
  "probe_picks cfg maxConsecutiveFailures now runs rows =
     (if pb_disabled cfg \<or> maxConsecutiveFailures = 0 then []
      else (let sel = probe_order (filter (cooled_down now (pb_cooldownMs cfg)) rows);
                counts = batchCountConsecutiveFailures runs (map cb_issueId sel)
            in take (pb_maxProbesPerTick cfg)
                 (filter (\<lambda>r. maxConsecutiveFailures \<le> failures_of counts (cb_issueId r)) sel)))"

text \<open>The issues picked, the marked rows, and for each pick its failures, age and attempts for the audit.\<close>

definition selectProbeCandidates ::
  "probe_config \<Rightarrow> nat \<Rightarrow> millis \<Rightarrow> run_row list \<Rightarrow> breaker_row list \<Rightarrow>
   issue_id list \<times> breaker_row list \<times> (issue_id \<times> nat \<times> int \<times> nat) list" where
  "selectProbeCandidates cfg maxConsecutiveFailures now runs rows =
     (let picked = probe_picks cfg maxConsecutiveFailures now runs rows;
          ids = map cb_issueId picked
      in (setOf ids,
          update_where (\<lambda>r. cb_issueId r \<in> set ids)
            (\<lambda>r. r\<lparr>cb_lastProbeAt := Some now, cb_probeAttempts := cb_probeAttempts r + 1\<rparr>) rows,
          map (\<lambda>r. (cb_issueId r, failures_of (batchCountConsecutiveFailures runs ids) (cb_issueId r),
            case cb_lastProbeAt r of None \<Rightarrow> - 1 | Some t \<Rightarrow> (now - t) div 60000,
            cb_probeAttempts r + 1)) picked))"

section \<open>Recovery\<close>

text \<open>
  Linear's labels of an issue (id and name), \<open>None\<close> for a failed call; the label sets that are written and
  the issues whose recovery is audited go along.
\<close>

type_synonym label_source = "issue_id \<Rightarrow> (string \<times> string) list option"

record recovery =
  rv_rows :: "breaker_row list"
  rv_labelWrites :: "(issue_id \<times> string list) list"
  rv_audits :: "(issue_id \<times> nat) list"

definition recoverCircuitBreaker :: "label_source \<Rightarrow> issue_id \<Rightarrow> recovery \<Rightarrow> recovery" where
  "recoverCircuitBreaker labels issueId s =
     (case select_where (\<lambda>r. cb_issueId r = issueId) (rv_rows s) of
        [] \<Rightarrow> s
      | row # _ \<Rightarrow>
          s\<lparr>rv_rows := delete_where (\<lambda>r. cb_issueId r = issueId) (rv_rows s),
            rv_labelWrites := rv_labelWrites s @ (case labels issueId of
               None \<Rightarrow> []
             | Some ls \<Rightarrow> [(issueId, map fst (filter (\<lambda>l. toLowerCase (snd l) \<noteq> ''needs-design'') ls))]),
            rv_audits := rv_audits s @ [(issueId, cb_probeAttempts row)]\<rparr>)"

definition sweepRecoveredCircuitBreakers ::
  "label_source \<Rightarrow> nat \<Rightarrow> run_row list \<Rightarrow> recovery \<Rightarrow> recovery" where
  "sweepRecoveredCircuitBreakers labels maxConsecutiveFailures runs s =
     (let ids = map cb_issueId (rv_rows s);
          counts = batchCountConsecutiveFailures runs ids;
          recoverable = filter (\<lambda>i. failures_of counts i < maxConsecutiveFailures) ids
      in fold (recoverCircuitBreaker labels) recoverable s)"

section \<open>Reset\<close>

definition deleteFailedRunsForIssue :: "issue_id \<Rightarrow> pm_tables \<Rightarrow> (bool \<times> nat) \<times> pm_tables" where
  "deleteFailedRunsForIssue issueId t =
     (let hadStateRow = list_ex (\<lambda>r. cb_issueId r = issueId) (t_breaker t);
          failed = map r_id (filter (\<lambda>r. r_issueId r = issueId \<and> r_status r = Failed) (t_runs t));
          stages = map s_id (filter (\<lambda>s. s_pipelineRunId s \<in> set failed) (t_stages t))
      in ((hadStateRow, length failed),
          \<lparr>t_runs = delete_where (\<lambda>r. r_id r \<in> set failed) (t_runs t),
           t_stages = delete_where (\<lambda>s. s_id s \<in> set stages) (t_stages t),
           t_reviewModelRuns = delete_where (\<lambda>s. s \<in> set stages) (t_reviewModelRuns t),
           t_agentLogs = delete_where (\<lambda>s. s \<in> set stages) (t_agentLogs t),
           t_runDecisions = delete_where (\<lambda>r. r \<in> set failed) (t_runDecisions t),
           t_breaker = delete_where (\<lambda>r. cb_issueId r = issueId) (t_breaker t)\<rparr>))"

section \<open>The batch count agrees with the single one\<close>

lemma filter_newest_first: "filter P (newest_first rows) = newest_first (filter P rows)"
  by (simp add: newest_first_def filter_sort flip: rev_filter)

lemma set_newest_first [simp]: "set (newest_first rows) = set rows"
  by (simp add: newest_first_def)

lemma buckets:
  "mapGet (foldl add_bucket m rows) i =
     (case filter (\<lambda>r. r_issueId r = i) rows of
        [] \<Rightarrow> mapGet m i
      | rs \<Rightarrow> Some ((case mapGet m i of Some b \<Rightarrow> b | None \<Rightarrow> []) @ map r_status rs))"
proof (induction rows arbitrary: m)
  case (Cons r rows)
  have "mapGet (add_bucket m r) i =
      (if r_issueId r = i then Some ((case mapGet m i of Some b \<Rightarrow> b | None \<Rightarrow> []) @ [r_status r])
       else mapGet m i)"
    by (auto simp: add_bucket_def split: option.split)
  with Cons show ?case by (auto split: list.split)
qed simp

lemma bucket_statuses:
  "(case mapGet (foldl add_bucket [] rows) i of Some b \<Rightarrow> b | None \<Rightarrow> []) =
     map r_status (filter (\<lambda>r. r_issueId r = i) rows)"
  by (simp add: buckets split: list.split)

lemma foldl_mapSet_get:
  "mapGet (foldl (\<lambda>m i. mapSet m i (f i)) m is) k = (if k \<in> set is then Some (f k) else mapGet m k)"
  by (induction "is" arbitrary: m) auto

lemma batch_get:
  "mapGet (batchCountConsecutiveFailures rows ids) i =
     (if i \<in> set ids then Some (countConsecutiveFailures rows i) else None)"
proof (cases "ids = []")
  case True
  then show ?thesis by (simp add: batchCountConsecutiveFailures_def)
next
  case False
  let ?sel = "newest_first (filter (\<lambda>r. r_issueId r \<in> set ids \<and> terminal_run r) rows)"
  have "filter (\<lambda>r. r_issueId r = i) ?sel =
      newest_first (filter (\<lambda>r. r_issueId r = i \<and> terminal_run r) rows)" if "i \<in> set ids"
    using that by (simp add: filter_newest_first) (metis (mono_tags, lifting))
  then show ?thesis
    using False
    by (simp add: batchCountConsecutiveFailures_def Let_def foldl_mapSet_get bucket_statuses
        countConsecutiveFailures_def)
qed

lemma failures_of_batch: "i \<in> set ids \<Longrightarrow>
   failures_of (batchCountConsecutiveFailures rows ids) i = countConsecutiveFailures rows i"
  by (simp add: failures_of_def batch_get)

text \<open>
  The batch count is the single count for every issue it is asked for, and has no entry for any other: one
  query for all candidates decides as one query for each would.
\<close>
theorem batch_count_agrees:
  "mapGet (batchCountConsecutiveFailures rows ids) i =
     (if i \<in> set ids then Some (countConsecutiveFailures rows i) else None)"
  by (rule batch_get)

text \<open>
  The count is the number of failures since the last completed run: runs that are active, cancelled or
  aborted do not matter, and neither does the order of the rows beyond start time and id.
\<close>

lemma count_zero_no_failures:
  "(\<And>r. r \<in> set rows \<Longrightarrow> r_issueId r = i \<Longrightarrow> r_status r \<noteq> Failed) \<Longrightarrow>
   countConsecutiveFailures rows i = 0"
proof -
  assume none: "\<And>r. r \<in> set rows \<Longrightarrow> r_issueId r = i \<Longrightarrow> r_status r \<noteq> Failed"
  have "takeWhile (\<lambda>s. s = Failed) ss = []" if "\<forall>s \<in> set ss. s \<noteq> Failed" for ss
    using that by (cases ss) auto
  moreover have "\<forall>s \<in> set (map r_status
      (newest_first (filter (\<lambda>r. r_issueId r = i \<and> terminal_run r) rows))). s \<noteq> Failed"
    using none by auto
  ultimately show ?thesis
    by (simp add: countConsecutiveFailures_def countLeadingFailures_def)
qed

section \<open>Reset\<close>

definition no_dangling :: "pm_tables \<Rightarrow> bool" where
  "no_dangling t \<longleftrightarrow>
     (\<forall>s \<in> set (t_stages t). s_pipelineRunId s \<in> r_id ` set (t_runs t)) \<and>
     (\<forall>x \<in> set (t_reviewModelRuns t). x \<in> s_id ` set (t_stages t)) \<and>
     (\<forall>x \<in> set (t_agentLogs t). x \<in> s_id ` set (t_stages t)) \<and>
     (\<forall>x \<in> set (t_runDecisions t). x \<in> r_id ` set (t_runs t))"

text \<open>
  A reset closes the breaker of an issue: it has no failures left and no row of the breaker, its other runs
  and all runs of other issues stay, and no row of a child table is left without its parent.
\<close>
theorem reset_closes_breaker:
  assumes "distinct (map r_id (t_runs t))" "no_dangling t"
  shows "countConsecutiveFailures (t_runs (snd (deleteFailedRunsForIssue i t))) i = 0 \<and>
    set (t_runs (snd (deleteFailedRunsForIssue i t))) =
      {r \<in> set (t_runs t). r_issueId r \<noteq> i \<or> r_status r \<noteq> Failed} \<and>
    i \<notin> cb_issueId ` set (t_breaker (snd (deleteFailedRunsForIssue i t))) \<and>
    no_dangling (snd (deleteFailedRunsForIssue i t))"
proof -
  let ?t = "snd (deleteFailedRunsForIssue i t)"
  let ?failed = "r_id ` {r \<in> set (t_runs t). r_issueId r = i \<and> r_status r = Failed}"
  have same: "r_id r \<in> ?failed \<longleftrightarrow> r_issueId r = i \<and> r_status r = Failed" if "r \<in> set (t_runs t)" for r
    using that assms(1) by (auto simp: distinct_map dest: inj_onD)
  have runs: "set (t_runs ?t) = {r \<in> set (t_runs t). r_issueId r \<noteq> i \<or> r_status r \<noteq> Failed}"
    using same by (auto simp: deleteFailedRunsForIssue_def Let_def)
  have ids: "r_id ` set (t_runs ?t) = r_id ` set (t_runs t) - ?failed"
    using same by (auto simp: runs image_iff)
  have "no_dangling ?t"
    unfolding no_dangling_def ids using assms(2)
    by (auto simp: deleteFailedRunsForIssue_def Let_def no_dangling_def image_iff; metis)
  moreover have "countConsecutiveFailures (t_runs ?t) i = 0"
    by (rule count_zero_no_failures) (use runs in auto)
  moreover have "i \<notin> cb_issueId ` set (t_breaker ?t)"
    by (auto simp: deleteFailedRunsForIssue_def Let_def)
  ultimately show ?thesis using runs by blast
qed

theorem reset_closes_breaker_witness:
  "countConsecutiveFailures (t_runs (snd (deleteFailedRunsForIssue ''A-1''
     \<lparr>t_runs = [], t_stages = [], t_reviewModelRuns = [], t_agentLogs = [], t_runDecisions = [],
      t_breaker = [\<lparr>cb_issueId = ''A-1'', cb_escalatedAt = 0, cb_lastProbeAt = None, cb_probeAttempts = 0\<rparr>]\<rparr>))) ''A-1'' = 0"
  by (rule conjunct1, rule reset_closes_breaker) (simp_all add: no_dangling_def)

section \<open>Probes\<close>

lemma picks_cooled: "r \<in> set (probe_picks cfg m now runs rows) \<Longrightarrow>
   r \<in> set rows \<and> cooled_down now (pb_cooldownMs cfg) r"
  by (auto simp: probe_picks_def probe_order_def Let_def split: if_splits dest!: in_set_takeD)

text \<open>A run of the probe over a sequence of ticks, with the issues each of them picks.\<close>

fun probe_ticks ::
  "probe_config \<Rightarrow> nat \<Rightarrow> (millis \<times> run_row list) list \<Rightarrow> breaker_row list \<Rightarrow> (millis \<times> issue_id list) list" where
  "probe_ticks cfg m [] rows = []"
| "probe_ticks cfg m ((now, runs) # ts) rows =
     (case selectProbeCandidates cfg m now runs rows of
        (ids, rows', _) \<Rightarrow> (now, ids) # probe_ticks cfg m ts rows')"

text \<open>Every row of the issue was probed at that time or later.\<close>

definition probed_since :: "issue_id \<Rightarrow> millis \<Rightarrow> breaker_row list \<Rightarrow> bool" where
  "probed_since i t rows \<longleftrightarrow>
     (\<forall>r \<in> set rows. cb_issueId r = i \<longrightarrow> (\<exists>u. cb_lastProbeAt r = Some u \<and> t \<le> u))"

lemma probe_marks:
  "i \<in> set (fst (selectProbeCandidates cfg m now runs rows)) \<Longrightarrow>
   probed_since i now (fst (snd (selectProbeCandidates cfg m now runs rows)))"
  by (auto simp: selectProbeCandidates_def Let_def probed_since_def set_update_where)

lemma probe_keeps:
  "probed_since i t rows \<Longrightarrow> t \<le> now \<Longrightarrow>
   probed_since i t (fst (snd (selectProbeCandidates cfg m now runs rows)))"
  by (auto simp: selectProbeCandidates_def Let_def probed_since_def set_update_where)

lemma probe_waits:
  "probed_since i t rows \<Longrightarrow> i \<in> set (fst (selectProbeCandidates cfg m now runs rows)) \<Longrightarrow>
   t + pb_cooldownMs cfg \<le> now"
  by (fastforce simp: selectProbeCandidates_def Let_def probed_since_def cooled_down_def
      dest: picks_cooled)

lemma probe_ticks_wait:
  "probed_since i t rows \<Longrightarrow> sorted (t # map fst ts) \<Longrightarrow>
   (now, ids) \<in> set (probe_ticks cfg m ts rows) \<Longrightarrow> i \<in> set ids \<Longrightarrow> t + pb_cooldownMs cfg \<le> now"
proof (induction ts arbitrary: rows)
  case (Cons tick ts)
  obtain n runs where tick: "tick = (n, runs)" by (cases tick)
  obtain ids1 rows1 audits where eq: "selectProbeCandidates cfg m n runs rows = (ids1, rows1, audits)"
    by (cases "selectProbeCandidates cfg m n runs rows") auto
  have later: "probed_since i t rows1"
    using probe_keeps [of i t rows n cfg m runs] Cons.prems(1,2) by (simp add: eq tick)
  have now: "n = now \<and> ids1 = ids \<or> (now, ids) \<in> set (probe_ticks cfg m ts rows1)"
    using Cons.prems(3) by (auto simp: tick eq)
  show ?case
  proof (cases "n = now \<and> ids1 = ids")
    case True
    have "i \<in> set ids1 \<Longrightarrow> t + pb_cooldownMs cfg \<le> n"
      using probe_waits [of i t rows cfg m n runs] Cons.prems(1) by (simp add: eq)
    with True Cons.prems(4) show ?thesis by simp
  next
    case False
    with now have "(now, ids) \<in> set (probe_ticks cfg m ts rows1)" by blast
    moreover have "sorted (t # map fst ts)" using Cons.prems(2) by (auto simp: tick)
    ultimately show ?thesis using Cons.IH [OF later] Cons.prems(4) by blast
  qed
qed simp

text \<open>
  A probe of an issue is followed by no other within the cooldown: in any sequence of ticks in time order,
  whatever runs end in between, two ticks that pick the same issue are at least the cooldown apart.
\<close>
theorem probe_cooldown:
  assumes "sorted (map fst ts)" "i < j" "j < length (probe_ticks cfg m ts rows)"
    "x \<in> set (snd (probe_ticks cfg m ts rows ! i))" "x \<in> set (snd (probe_ticks cfg m ts rows ! j))"
  shows "fst (probe_ticks cfg m ts rows ! i) + pb_cooldownMs cfg \<le> fst (probe_ticks cfg m ts rows ! j)"
  using assms
proof (induction ts arbitrary: rows i j)
  case (Cons tick ts)
  obtain n runs where tick: "tick = (n, runs)" by (cases tick)
  obtain ids1 rows1 audits where eq: "selectProbeCandidates cfg m n runs rows = (ids1, rows1, audits)"
    by (cases "selectProbeCandidates cfg m n runs rows") auto
  have unfold: "probe_ticks cfg m ((n, runs) # ts) rows = (n, ids1) # probe_ticks cfg m ts rows1"
    by (simp add: eq)
  obtain j' where j: "j = Suc j'" using Cons.prems(2) by (cases j) auto
  show ?case
  proof (cases i)
    case 0
    have "probed_since x n rows1"
      using probe_marks [of x cfg m n runs rows] Cons.prems(4) 0
      by (simp add: tick unfold eq del: probe_ticks.simps)
    moreover have "probe_ticks cfg m ts rows1 ! j' \<in> set (probe_ticks cfg m ts rows1)"
      using Cons.prems(3) by (simp add: tick unfold j del: probe_ticks.simps)
    ultimately show ?thesis
      using probe_ticks_wait [of x n rows1 ts "fst (probe_ticks cfg m ts rows1 ! j')"
          "snd (probe_ticks cfg m ts rows1 ! j')" cfg m] Cons.prems(1,5) 0
      by (simp add: tick unfold j del: probe_ticks.simps)
  next
    case (Suc i')
    then show ?thesis
      using Cons.IH [of i' j' rows1] Cons.prems by (simp add: tick unfold j del: probe_ticks.simps)
  qed
qed simp

definition demo_breaker :: breaker_row where
  "demo_breaker = \<lparr>cb_issueId = ''A-1'', cb_escalatedAt = 0, cb_lastProbeAt = None, cb_probeAttempts = 0\<rparr>"

definition demo_probe :: probe_config where
  "demo_probe = \<lparr>pb_disabled = False, pb_cooldownMs = 10, pb_maxProbesPerTick = 1\<rparr>"

definition demo_failed :: run_row where
  "demo_failed = \<lparr>r_id = ''1'', r_issueId = ''A-1'', r_issueTitle = [], r_pipelineKey = [],
     r_repoUrl = [], r_agentSessionId = None, r_branch = None, r_status = Failed, r_startedAt = 0,
     r_completedAt = Some 0, r_prUrl = None, r_totalInputTokens = 0, r_totalOutputTokens = 0,
     r_errorMessage = None, r_currentStageIndex = None, r_resumePayload = None, r_retryCount = 0,
     r_runType = [], r_autoMerged = None, r_autoMergeReason = None, r_autoCommitted = None,
     r_linearTeamId = None\<rparr>"

lemma demo_ticks:
  "probe_ticks demo_probe 1 [(0, [demo_failed]), (5, [demo_failed]), (20, [demo_failed])] [demo_breaker] =
     [(0, [''A-1'']), (5, []), (20, [''A-1''])]"
  by code_simp

theorem probe_cooldown_witness:
  "fst (probe_ticks demo_probe 1 [(0, [demo_failed]), (5, [demo_failed]), (20, [demo_failed])] [demo_breaker] ! 0)
     + pb_cooldownMs demo_probe \<le>
   fst (probe_ticks demo_probe 1 [(0, [demo_failed]), (5, [demo_failed]), (20, [demo_failed])] [demo_breaker] ! 2)"
  by (rule probe_cooldown [where x = "''A-1''"]) (simp_all only: demo_ticks, simp_all)

section \<open>Recovery\<close>

text \<open>
  A recovery that cannot strip the label is not tried again: it has deleted the row of the breaker by then,
  so that every later recovery of the issue does nothing.
\<close>
theorem failed_label_removal_is_final:
  "recoverCircuitBreaker labels' i (recoverCircuitBreaker labels i s) = recoverCircuitBreaker labels i s \<and>
   (case labels i of
      None \<Rightarrow> rv_labelWrites (recoverCircuitBreaker labels i s) = rv_labelWrites s
    | Some _ \<Rightarrow> True)"
  by (auto simp: recoverCircuitBreaker_def select_where_def delete_where_def
      split: list.split option.split)

end
