(* ===== verification/PmActions.thy ===== *)
theory PmActions
  imports PmBudget PmBreaker PipelineConfigs
begin

text \<open>
  The actions of the PM agent (\<open>pm/actions/\<close>): starting the issues in Todo, promoting from the backlog
  with the escalation of broken issues, recovering stuck issues, the sweep over orphaned stage rows and
  the approvals of deprioritisations and cancellations. Linear, Slack and the runner answer through the
  arguments; a call that throws outside a handler ends the action, which is the result \<open>None\<close> next to
  the state it leaves. What the agent asks for is the list of its calls.
\<close>

section \<open>State\<close>

record linear_issue =
  li_id :: string
  li_identifier :: issue_id
  li_title :: string
  li_description :: "string option"
  li_priority :: "nat option"
  li_team :: "string option"
  li_project :: "string option"
  li_labels :: "(string \<times> string) list"
  li_state :: "string option"
  li_updatedAt :: millis
  li_comments :: "millis list"

datatype approval_action = Deprioritize | CancelIssue

datatype approval_status = ApprovalPending | Approved | Rejected | Expired

record pm_approval =
  ap_id :: nat
  ap_issueId :: issue_id
  ap_action :: approval_action
  ap_slackTs :: string
  ap_status :: approval_status
  ap_createdAt :: millis
  ap_resolvedAt :: "millis option"

datatype pm_audit =
    BudgetRefused string nat nat nat
  | SkippedBreaker issue_id nat nat string
  | EscalatedToNeedsDesign issue_id nat "string option"
  | PmPromoted issue_id
  | SkippedAlreadyShipped issue_id
  | RecoveredLongRunning issue_id run_id
  | PmDeprioritized issue_id nat
  | PmCancelled issue_id nat
  | BreakerProbe issue_id nat int nat
  | BreakerRecovered issue_id nat

datatype pm_comment =
    EscalationComment nat nat "string option"
  | PromotedComment
  | RecoveredComment string
  | ApprovalComment approval_action

datatype pm_call =
    StartRun issue_id string repo_config "string option"
  | SetState string string
  | SetLabels string "string list"
  | Comment string pm_comment
  | AskApproval issue_id approval_action
  | NotifyExpired issue_id
  | NotifyRecovered "issue_id list"

record pm_state =
  ps_runs :: "run_row list"
  ps_stages :: "stage_row list"
  ps_breaker :: "breaker_row list"
  ps_approvals :: "pm_approval list"
  ps_audits :: "pm_audit list"
  ps_calls :: "pm_call list"
  ps_nextId :: nat

definition say :: "pm_call \<Rightarrow> pm_state \<Rightarrow> pm_state" where
  "say a st = st\<lparr>ps_calls := ps_calls st @ [a]\<rparr>"

definition audit :: "pm_audit \<Rightarrow> pm_state \<Rightarrow> pm_state" where
  "audit a st = st\<lparr>ps_audits := ps_audits st @ [a]\<rparr>"

text \<open>Whether a call of Linear, Slack or the runner succeeds; \<open>None\<close> is success, otherwise its error.\<close>

type_synonym answers = "pm_call \<Rightarrow> string option"

section \<open>Repositories\<close>

text \<open>The keys of the configurations are ids of Linear, which are no inherited properties.\<close>

definition selectRepoConfig ::
  "string \<Rightarrow> string option \<Rightarrow> string option \<Rightarrow> (string, repo_config) js_map \<Rightarrow> repo_config option" where
  "selectRepoConfig pipelineLabel teamId projectId repoConfigs =
     (let byId = (\<lambda>k. case k of None \<Rightarrow> None | Some i \<Rightarrow> if i = [] then None else mapGet repoConfigs i)
      in case find (\<lambda>c. case rp_labelPattern c of
             None \<Rightarrow> False
           | Some p \<Rightarrow> p \<noteq> [] \<and> toLowerCase p = toLowerCase pipelineLabel) (map snd repoConfigs) of
           Some c \<Rightarrow> Some c
         | None \<Rightarrow> (case byId teamId of Some c \<Rightarrow> Some c | None \<Rightarrow> byId projectId))"

section \<open>The breaker in front of an issue\<close>

text \<open>
  The threshold is missing when the breaker is off. The failures are fetched for all candidates at once;
  issues picked by the probe pass.
\<close>

definition breaker_open ::
  "nat option \<Rightarrow> issue_id set \<Rightarrow> (issue_id, nat) js_map \<Rightarrow> issue_id \<Rightarrow> bool" where
  "breaker_open threshold probes counts i \<longleftrightarrow>
     (case threshold of None \<Rightarrow> False | Some m \<Rightarrow> m \<le> failures_of counts i \<and> i \<notin> probes)"

section \<open>Starting the issues in Todo\<close>

record start_input =
  st_maxPerTick :: nat
  st_budgetBlocked :: bool
  st_threshold :: "nat option"
  st_probes :: "issue_id set"
  st_pipelines :: configs
  st_repos :: "(string, repo_config) js_map"

datatype start_reason =
    BreakerOpen nat nat | NoPipeline | NoRepo string "string option" | StartedPipeline string
  | StartFailed string

record start_result =
  sr_identifier :: issue_id
  sr_started :: bool
  sr_reason :: start_reason

definition start_issue ::
  "start_input \<Rightarrow> answers \<Rightarrow> (issue_id, nat) js_map \<Rightarrow> linear_issue \<Rightarrow> pm_state \<Rightarrow>
   start_result \<times> pm_state" where
  "start_issue inp ans counts issue st =
     (let i = li_identifier issue;
          res = (\<lambda>b r. \<lparr>sr_identifier = i, sr_started = b, sr_reason = r\<rparr>)
      in if breaker_open (st_threshold inp) (st_probes inp) counts i
         then (res False (BreakerOpen (failures_of counts i) (the (st_threshold inp))),
               audit (SkippedBreaker i (failures_of counts i) (the (st_threshold inp)) ''start-todo'') st)
         else (case resolvePipeline (map snd (li_labels issue)) (st_pipelines inp) of
           None \<Rightarrow> (res False NoPipeline, st)
         | Some (key, _) \<Rightarrow>
             (case selectRepoConfig key (li_team issue) (li_project issue) (st_repos inp) of
                None \<Rightarrow> (res False (NoRepo key (li_team issue)), st)
              | Some repo \<Rightarrow>
                  (let call = StartRun i key repo (li_team issue); st1 = say call st in
                   case ans call of
                     None \<Rightarrow> (res True (StartedPipeline key), st1)
                   | Some msg \<Rightarrow> (res False (StartFailed msg), st1)))))"

fun start_loop ::
  "start_input \<Rightarrow> answers \<Rightarrow> (issue_id, nat) js_map \<Rightarrow> linear_issue list \<Rightarrow> pm_state \<Rightarrow>
   start_result list \<times> pm_state" where
  "start_loop inp ans counts [] st = ([], st)"
| "start_loop inp ans counts (issue # rest) st =
     (case start_issue inp ans counts issue st of
        (r, st1) \<Rightarrow> (case start_loop inp ans counts rest st1 of (rs, st2) \<Rightarrow> (r # rs, st2)))"

text \<open>The candidates: in Todo, without an active run and without one that ended in the last half hour.\<close>

definition start_candidates ::
  "millis \<Rightarrow> nat \<Rightarrow> run_row list \<Rightarrow> linear_issue list \<Rightarrow> linear_issue list" where
  "start_candidates now maxPerTick runs todo =
     (case getActiveAndRecentIssueIds now RECENT_WINDOW_MS None runs of
        (active, recent) \<Rightarrow>
          take maxPerTick
            (filter (\<lambda>i. li_identifier i \<notin> recent) (filter (\<lambda>i. li_identifier i \<notin> active) todo)))"

definition startTodoIssues ::
  "start_input \<Rightarrow> answers \<Rightarrow> millis \<Rightarrow> linear_issue list \<Rightarrow> pm_state \<Rightarrow> start_result list \<times> pm_state" where
  "startTodoIssues inp ans now todo st =
     (if st_budgetBlocked inp then ([], st)
      else (let toProcess = start_candidates now (st_maxPerTick inp) (ps_runs st) todo;
                counts = (if st_threshold inp = None then []
                  else batchCountConsecutiveFailures (ps_runs st) (map li_identifier toProcess))
            in start_loop inp ans counts toProcess st))"

section \<open>Promotion\<close>

datatype overlap_risk = RiskNone | RiskLow | RiskHigh

record promote_input =
  pi_slots :: nat
  pi_requireLabel :: bool
  pi_pipelines :: "configs option"
  pi_threshold :: "nat option"
  pi_probes :: "issue_id set"
  pi_stateMap :: "(string, string) js_map"
  pi_conflict :: "string \<Rightarrow> overlap_risk option"
  pi_allLabels :: "(string \<times> string) list option"

datatype promote_reason =
    NoPipelineLabel | PromoteBreaker nat bool | HighConflict | NoTodoState | PromotedIt overlap_risk

record promote_result =
  pm_issueId :: issue_id
  pm_promoted :: bool
  pm_reason :: promote_reason

definition ESCALATION_PIPELINE_LABEL :: string where
  "ESCALATION_PIPELINE_LABEL = ''needs-design''"

definition already_escalated :: "linear_issue \<Rightarrow> bool" where
  "already_escalated issue \<longleftrightarrow>
     ESCALATION_PIPELINE_LABEL \<in> set (map (toLowerCase \<circ> snd) (li_labels issue))"

text \<open>
  The escalation: the label is added to the ones there are, if the workspace has it; then the comment.
  A failure of either ends this part only. The row of the breaker is unique per issue.
\<close>

definition escalation_calls :: "promote_input \<Rightarrow> answers \<Rightarrow> nat \<Rightarrow> string option \<Rightarrow> linear_issue \<Rightarrow> pm_call list" where
  "escalation_calls inp ans n err issue =
     (let label = (case pi_allLabels inp of
            None \<Rightarrow> None
          | Some ls \<Rightarrow> map_option fst (find (\<lambda>l. toLowerCase (snd l) = ESCALATION_PIPELINE_LABEL) ls));
          comment = Comment (li_id issue) (EscalationComment n (the (pi_threshold inp)) err)
      in case label of
           None \<Rightarrow> [comment]
         | Some l \<Rightarrow>
             (let relabel = SetLabels (li_id issue)
                    (setOf (filter (\<lambda>x. x \<noteq> []) (map fst (li_labels issue)) @ [l]))
              in if ans relabel = None then [relabel, comment] else [relabel]))"

definition insert_breaker :: "issue_id \<Rightarrow> millis \<Rightarrow> breaker_row list \<Rightarrow> breaker_row list" where
  "insert_breaker i now rows =
     (if i \<in> cb_issueId ` set rows then rows
      else rows @ [\<lparr>cb_issueId = i, cb_escalatedAt = now, cb_lastProbeAt = None, cb_probeAttempts = 0\<rparr>])"

definition escalate ::
  "promote_input \<Rightarrow> answers \<Rightarrow> millis \<Rightarrow> nat \<Rightarrow> linear_issue \<Rightarrow> pm_state \<Rightarrow> pm_state" where
  "escalate inp ans now n issue st =
     (let err = getLastFailureError (ps_runs st) (li_identifier issue);
          st1 = fold say (escalation_calls inp ans n err issue) st;
          st2 = st1\<lparr>ps_breaker := insert_breaker (li_identifier issue) now (ps_breaker st1)\<rparr>
      in audit (EscalatedToNeedsDesign (li_identifier issue) n err) st2)"

text \<open>The id of the state Todo by team: keys are \<open>team:state\<close>.\<close>

definition todo_states :: "(string, string) js_map \<Rightarrow> (string, string) js_map" where
  "todo_states stateMap =
     foldl (\<lambda>m (k, i). if endsWith k '':Todo'' then mapSet m (takeWhile (\<lambda>c. c \<noteq> CHR '':'') k) i else m)
       [] stateMap"

text \<open>One candidate; \<open>None\<close> when a call outside the handlers throws.\<close>

definition promote_issue ::
  "promote_input \<Rightarrow> answers \<Rightarrow> millis \<Rightarrow> (issue_id, nat) js_map \<Rightarrow> linear_issue \<Rightarrow> pm_state \<Rightarrow>
   promote_result option \<times> pm_state" where
  "promote_issue inp ans now counts issue st =
     (let i = li_identifier issue;
          res = (\<lambda>b r. Some \<lparr>pm_issueId = i, pm_promoted = b, pm_reason = r\<rparr>);
          n = failures_of counts i;
          todo = (case li_team issue of
            None \<Rightarrow> None
          | Some t \<Rightarrow> if t = [] then None else mapGet (todo_states (pi_stateMap inp)) t)
      in if pi_requireLabel inp \<and>
            resolvePipeline (map snd (li_labels issue)) (the (pi_pipelines inp)) = None
         then (res False NoPipelineLabel, st)
         else if breaker_open (pi_threshold inp) (pi_probes inp) counts i
         then (let st1 = audit (SkippedBreaker i n (the (pi_threshold inp)) ''promote'') st in
               if already_escalated issue then (res False (PromoteBreaker n True), st1)
               else (res False (PromoteBreaker n False), escalate inp ans now n issue st1))
         else (case pi_conflict inp (case li_description issue of None \<Rightarrow> [] | Some d \<Rightarrow> d) of
           None \<Rightarrow> (None, st)
         | Some RiskHigh \<Rightarrow> (res False HighConflict, st)
         | Some risk \<Rightarrow>
             (case todo of
                None \<Rightarrow> (res False NoTodoState, st)
              | Some stateId \<Rightarrow>
                  if stateId = [] then (res False NoTodoState, st)
                  else (let move = SetState (li_id issue) stateId;
                            comment = Comment (li_id issue) PromotedComment;
                            st1 = say move st
                        in if ans move \<noteq> None then (None, st1)
                           else (let st2 = say comment (audit (PmPromoted i) st1) in
                                 if ans comment \<noteq> None then (None, st2)
                                 else (res True (PromotedIt risk), st2))))))"

fun promote_loop ::
  "promote_input \<Rightarrow> answers \<Rightarrow> millis \<Rightarrow> (issue_id, nat) js_map \<Rightarrow> nat \<Rightarrow> linear_issue list \<Rightarrow> pm_state \<Rightarrow>
   promote_result list option \<times> pm_state" where
  "promote_loop inp ans now counts k [] st = (Some [], st)"
| "promote_loop inp ans now counts k (issue # rest) st =
     (if pi_slots inp \<le> k then (Some [], st)
      else (case promote_issue inp ans now counts issue st of
        (None, st1) \<Rightarrow> (None, st1)
      | (Some r, st1) \<Rightarrow>
          (case promote_loop inp ans now counts (if pm_promoted r then Suc k else k) rest st1 of
             (None, st2) \<Rightarrow> (None, st2)
           | (Some rs, st2) \<Rightarrow> (Some (r # rs), st2))))"

definition priority_of :: "linear_issue \<Rightarrow> nat" where
  "priority_of issue = (case li_priority issue of None \<Rightarrow> 4 | Some p \<Rightarrow> p)"

definition promoteReadyIssues ::
  "promote_input \<Rightarrow> answers \<Rightarrow> millis \<Rightarrow> linear_issue list \<Rightarrow> pm_state \<Rightarrow>
   promote_result list option \<times> pm_state" where
  "promoteReadyIssues inp ans now backlog st =
     (if pi_slots inp = 0 then (Some [], st)
      else if pi_requireLabel inp \<and> pi_pipelines inp = None then (None, st)
      else (let candidates = sort_key priority_of backlog;
                counts = (if pi_threshold inp = None then []
                  else batchCountConsecutiveFailures (ps_runs st) (map li_identifier candidates))
            in promote_loop inp ans now counts 0 candidates st))"

section \<open>Recovering stuck issues\<close>

record recover_input =
  ri_targetState :: string
  ri_maxPerTick :: nat
  ri_stuckRunAgeMinutes :: nat
  ri_stateMap :: "(string, string) js_map"

record stuck_result =
  sk_identifier :: issue_id
  sk_lastRunStatus :: "run_status option"
  sk_targetState :: string
  sk_longRunning :: bool

definition stuck_issues ::
  "millis \<Rightarrow> recover_input \<Rightarrow> run_row list \<Rightarrow> linear_issue list \<Rightarrow> linear_issue list" where
  "stuck_issues now inp runs inProgress =
     (case getActiveAndRecentIssueIds now RECENT_WINDOW_MS
             (Some (int (ri_stuckRunAgeMinutes inp) * 60 * 1000)) runs of
        (active, recent) \<Rightarrow>
          filter (\<lambda>i. li_identifier i \<notin> active \<and> li_identifier i \<notin> recent) inProgress)"

text \<open>The run of an issue that was started last.\<close>

definition last_run :: "run_row list \<Rightarrow> issue_id \<Rightarrow> run_row option" where
  "last_run runs i =
     (case sort_key (\<lambda>r. - r_startedAt r) (filter (\<lambda>r. r_issueId r = i) runs) of
        [] \<Rightarrow> None | r # _ \<Rightarrow> Some r)"

definition zombie_message :: "nat \<Rightarrow> string" where
  "zombie_message age = ''recovered: running > '' @ show_nat age @ '' min with no completion''"

definition fail_zombie :: "millis \<Rightarrow> nat \<Rightarrow> run_id \<Rightarrow> run_row list \<Rightarrow> run_row list" where
  "fail_zombie now age rid runs =
     update_where (\<lambda>r. r_id r = rid)
       (\<lambda>r. r\<lparr>r_status := Failed, r_errorMessage := Some (zombie_message age),
              r_completedAt := Some now\<rparr>) runs"

definition state_id :: "(string, string) js_map \<Rightarrow> string option \<Rightarrow> string \<Rightarrow> string option" where
  "state_id stateMap team name =
     (case team of
        None \<Rightarrow> None
      | Some t \<Rightarrow> if t = [] then None else mapGet stateMap (t @ '':'' @ name))"

text \<open>The state to move to: an issue whose run completed with a pull request goes to In Review.\<close>

definition recovery_target ::
  "recover_input \<Rightarrow> run_row option \<Rightarrow> linear_issue \<Rightarrow> string \<times> string option" where
  "recovery_target inp run issue =
     (let override = (case run of
            None \<Rightarrow> None
          | Some r \<Rightarrow> if r_status r = Completed \<and> r_prUrl r \<noteq> None
              then state_id (ri_stateMap inp) (li_team issue) ''In Review'' else None)
      in case override of
           Some i \<Rightarrow> (''In Review'', Some i)
         | None \<Rightarrow> (ri_targetState inp, state_id (ri_stateMap inp) (li_team issue) (ri_targetState inp)))"

text \<open>
  One issue, with the run that was read for it before the loop. The two calls to Linear are made together;
  the issue counts as recovered when both succeed.
\<close>

definition recover_issue ::
  "recover_input \<Rightarrow> answers \<Rightarrow> millis \<Rightarrow> linear_issue \<times> run_row option \<Rightarrow> pm_state \<Rightarrow>
   stuck_result option \<times> pm_state" where
  "recover_issue inp ans now entry st =
     (case entry of (issue, run) \<Rightarrow>
       (let i = li_identifier issue;
            status = map_option r_status run;
            shipped = (case run of None \<Rightarrow> False
              | Some r \<Rightarrow> r_status r = Completed \<and> r_autoMerged r = Some True);
            longRunning = (status = Some Running)
        in if shipped then (None, audit (SkippedAlreadyShipped i) st)
           else (case recovery_target inp run issue of
             (target, targetId) \<Rightarrow>
               (case targetId of
                  None \<Rightarrow> (None, st)
                | Some stateId \<Rightarrow>
                    if stateId = [] then (None, st)
                    else (let st1 = (if longRunning
                            then audit (RecoveredLongRunning i (r_id (the run)))
                              (st\<lparr>ps_runs := fail_zombie now (ri_stuckRunAgeMinutes inp) (r_id (the run))
                                 (ps_runs st)\<rparr>)
                            else st);
                          move = SetState (li_id issue) stateId;
                          comment = Comment (li_id issue) (RecoveredComment target);
                          st2 = say comment (say move st1)
                      in if ans move = None \<and> ans comment = None
                         then (Some \<lparr>sk_identifier = i, sk_lastRunStatus = status,
                                 sk_targetState = target, sk_longRunning = longRunning\<rparr>, st2)
                         else (None, st2))))))"

fun recover_loop ::
  "recover_input \<Rightarrow> answers \<Rightarrow> millis \<Rightarrow> (linear_issue \<times> run_row option) list \<Rightarrow> pm_state \<Rightarrow>
   stuck_result list \<times> pm_state" where
  "recover_loop inp ans now [] st = ([], st)"
| "recover_loop inp ans now (x # xs) st =
     (case recover_issue inp ans now x st of
        (r, st1) \<Rightarrow>
          (case recover_loop inp ans now xs st1 of
             (rs, st2) \<Rightarrow> ((case r of None \<Rightarrow> rs | Some y \<Rightarrow> y # rs), st2)))"

definition recoverStuckInProgressIssues ::
  "recover_input \<Rightarrow> answers \<Rightarrow> millis \<Rightarrow> linear_issue list \<Rightarrow> pm_state \<Rightarrow> stuck_result list \<times> pm_state" where
  "recoverStuckInProgressIssues inp ans now inProgress st =
     (let toProcess = take (ri_maxPerTick inp) (stuck_issues now inp (ps_runs st) inProgress);
          entries = map (\<lambda>i. (i, last_run (ps_runs st) (li_identifier i))) toProcess
      in case recover_loop inp ans now entries st of
           (rs, st1) \<Rightarrow>
             (rs, if rs = [] then st1 else say (NotifyRecovered (map sk_identifier rs)) st1))"

section \<open>Orphaned stage rows\<close>

definition TERMINAL_PARENT_STATUSES :: "run_status set" where
  "TERMINAL_PARENT_STATUSES = {Failed, Cancelled, Completed, Aborted}"

definition sweepOrphanStageRuns :: "millis \<Rightarrow> pm_state \<Rightarrow> (nat \<times> nat) \<times> pm_state" where
  "sweepOrphanStageRuns now st =
     (let running = filter (\<lambda>s. s_status s = SRunning) (ps_stages st);
          terminalOrphans = map s_id (filter (\<lambda>s. \<exists>r \<in> set (ps_runs st).
            r_id r = s_pipelineRunId s \<and> r_status r \<in> TERMINAL_PARENT_STATUSES) running);
          missing = map s_id (filter (\<lambda>s. \<forall>r \<in> set (ps_runs st). r_id r \<noteq> s_pipelineRunId s) running);
          cancelled = update_where (\<lambda>s. s_id s \<in> set terminalOrphans)
            (\<lambda>s. s\<lparr>s_status := SCancelled, s_completedAt := Some now\<rparr>) (ps_stages st)
      in ((length terminalOrphans, length missing),
          st\<lparr>ps_stages := delete_where (\<lambda>s. s_id s \<in> set missing) cancelled\<rparr>))"

section \<open>Approvals\<close>

definition batchFetchPendingApprovals ::
  "issue_id list \<Rightarrow> approval_action \<Rightarrow> pm_approval list \<Rightarrow> issue_id set" where
  "batchFetchPendingApprovals issueIds action rows =
     set (map ap_issueId (filter (\<lambda>r. ap_issueId r \<in> set issueIds \<and> ap_action r = action \<and>
       ap_status r = ApprovalPending) rows))"

text \<open>The Slack timestamp of a request is that of its call; without one nothing is inserted.\<close>

definition insertApprovalRequest ::
  "answers \<Rightarrow> millis \<Rightarrow> issue_id \<Rightarrow> approval_action \<Rightarrow> pm_state \<Rightarrow> bool \<times> pm_state" where
  "insertApprovalRequest ans now i action st =
     (let call = AskApproval i action; st1 = say call st in
      if ans call \<noteq> None then (False, st1)
      else (True, st1\<lparr>ps_approvals := ps_approvals st1 @ [\<lparr>ap_id = ps_nextId st1, ap_issueId = i,
              ap_action = action, ap_slackTs = show_nat (ps_nextId st1), ap_status = ApprovalPending,
              ap_createdAt = now, ap_resolvedAt = None\<rparr>], ps_nextId := Suc (ps_nextId st1)\<rparr>))"

fun request_loop ::
  "answers \<Rightarrow> millis \<Rightarrow> issue_id set \<Rightarrow> approval_action \<Rightarrow> issue_id list \<Rightarrow> pm_state \<Rightarrow>
   issue_id list \<times> pm_state" where
  "request_loop ans now pending action [] st = ([], st)"
| "request_loop ans now pending action (i # is) st =
     (if i \<in> pending then request_loop ans now pending action is st
      else (case insertApprovalRequest ans now i action st of
        (ok, st1) \<Rightarrow>
          (case request_loop ans now pending action is st1 of
             (rs, st2) \<Rightarrow> (if ok then i # rs else rs, st2))))"

definition deprioritizeStaleIssues ::
  "answers \<Rightarrow> millis \<Rightarrow> linear_issue list \<Rightarrow> pm_state \<Rightarrow> issue_id list \<times> pm_state" where
  "deprioritizeStaleIssues ans now stale st =
     (let ids = map li_identifier stale
      in request_loop ans now (batchFetchPendingApprovals ids Deprioritize (ps_approvals st))
           Deprioritize ids st)"

definition has_recent_comment :: "millis \<Rightarrow> linear_issue \<Rightarrow> bool" where
  "has_recent_comment now issue \<longleftrightarrow> list_ex (\<lambda>c. now - 14 * DAY_MS < c) (li_comments issue)"

definition cancelAbandonedIssues ::
  "answers \<Rightarrow> millis \<Rightarrow> linear_issue list \<Rightarrow> linear_issue list \<Rightarrow> pm_state \<Rightarrow> issue_id list \<times> pm_state" where
  "cancelAbandonedIssues ans now backlog icebox st =
     (let issues = backlog @ icebox;
          pending = batchFetchPendingApprovals (map li_identifier issues) CancelIssue (ps_approvals st)
      in request_loop ans now pending CancelIssue
           (map li_identifier (filter (\<lambda>i. \<not> has_recent_comment now i) issues)) st)"

datatype reaction = ReactPending | ReactRejected | ReactApproved

definition APPROVAL_TIMEOUT_MS :: millis where
  "APPROVAL_TIMEOUT_MS = 48 * 60 * 60 * 1000"

definition set_approval :: "nat \<Rightarrow> approval_status \<Rightarrow> millis \<Rightarrow> pm_state \<Rightarrow> pm_state" where
  "set_approval i s now st =
     st\<lparr>ps_approvals := update_where (\<lambda>r. ap_id r = i)
        (\<lambda>r. r\<lparr>ap_status := s, ap_resolvedAt := Some now\<rparr>) (ps_approvals st)\<rparr>"

definition target_name :: "approval_action \<Rightarrow> string" where
  "target_name action = (case action of Deprioritize \<Rightarrow> ''Icebox'' | CancelIssue \<Rightarrow> ''Canceled'')"

text \<open>
  The action on Linear: the first team with such a state is taken, and the next one only when a call fails.
  \<open>search\<close> finds the issue; \<open>None\<close> is a failed search.
\<close>

fun execute_action ::
  "answers \<Rightarrow> (issue_id \<Rightarrow> string option option) \<Rightarrow> (string, string) js_map \<Rightarrow> pm_approval \<Rightarrow>
   string list \<Rightarrow> pm_state \<Rightarrow> bool \<times> pm_state" where
  "execute_action ans search stateMap a [] st = (False, st)"
| "execute_action ans search stateMap a (team # teams) st =
     (case mapGet stateMap (team @ '':'' @ target_name (ap_action a)) of
        None \<Rightarrow> execute_action ans search stateMap a teams st
      | Some stateId \<Rightarrow>
          if stateId = [] then execute_action ans search stateMap a teams st
          else (case search (ap_issueId a) of
            None \<Rightarrow> execute_action ans search stateMap a teams st
          | Some None \<Rightarrow> (False, st)
          | Some (Some issue) \<Rightarrow>
              (let move = SetState issue stateId; comment = Comment issue (ApprovalComment (ap_action a));
                   st1 = say move st
               in if ans move \<noteq> None then execute_action ans search stateMap a teams st1
                  else (let st2 = say comment st1 in
                        if ans comment \<noteq> None then execute_action ans search stateMap a teams st2
                        else (True, st2)))))"

record resolve_input =
  rz_teams :: "string list"
  rz_stateMap :: "(string, string) js_map"
  rz_search :: "issue_id \<Rightarrow> string option option"
  rz_reaction :: "string \<Rightarrow> reaction option"

text \<open>One pending approval: whether it was resolved and whether it expired, in the counts of the action.\<close>

definition resolve_one ::
  "resolve_input \<Rightarrow> answers \<Rightarrow> millis \<Rightarrow> pm_approval \<Rightarrow> pm_state \<Rightarrow> (bool \<times> bool) \<times> pm_state" where
  "resolve_one inp ans now a st =
     (if APPROVAL_TIMEOUT_MS < now - ap_createdAt a
      then (let call = NotifyExpired (ap_issueId a); st1 = say call (set_approval (ap_id a) Expired now st)
            in ((False, ans call = None), st1))
      else (case rz_reaction inp (ap_slackTs a) of
        None \<Rightarrow> ((False, False), st)
      | Some ReactPending \<Rightarrow> ((False, False), st)
      | Some ReactRejected \<Rightarrow> ((True, False), set_approval (ap_id a) Rejected now st)
      | Some ReactApproved \<Rightarrow>
          (case execute_action ans (rz_search inp) (rz_stateMap inp) a (rz_teams inp)
                  (set_approval (ap_id a) Approved now st) of
             (executed, st1) \<Rightarrow>
               ((True, False),
                if \<not> executed then st1
                else (case ap_action a of
                  Deprioritize \<Rightarrow> audit (PmDeprioritized (ap_issueId a) (ap_id a)) st1
                | CancelIssue \<Rightarrow> audit (PmCancelled (ap_issueId a) (ap_id a)) st1)))))"

fun resolve_loop ::
  "resolve_input \<Rightarrow> answers \<Rightarrow> millis \<Rightarrow> pm_approval list \<Rightarrow> pm_state \<Rightarrow> (nat \<times> nat) \<times> pm_state" where
  "resolve_loop inp ans now [] st = ((0, 0), st)"
| "resolve_loop inp ans now (a # as) st =
     (case resolve_one inp ans now a st of
        ((resolved, expired), st1) \<Rightarrow>
          (case resolve_loop inp ans now as st1 of
             ((m, n), st2) \<Rightarrow> ((m + of_bool resolved, n + of_bool expired), st2)))"

definition resolveApprovals ::
  "resolve_input \<Rightarrow> answers \<Rightarrow> millis \<Rightarrow> pm_state \<Rightarrow> (nat \<times> nat \<times> nat) \<times> pm_state" where
  "resolveApprovals inp ans now st =
     (let pending = filter (\<lambda>a. ap_status a = ApprovalPending) (ps_approvals st)
      in case resolve_loop inp ans now pending st of
           ((resolved, expired), st1) \<Rightarrow>
             ((resolved, expired, length pending - resolved - expired), st1))"

end
