(* ===== verification/PmActionProps.thy ===== *)
theory PmActionProps
  imports PmActions
begin

text \<open>
  What the actions of the PM agent guarantee: which calls they make, on which issues, and what they leave
  of the tables. Every action only appends to the list of calls.
\<close>

lemma say_simps [simp]:
  "ps_calls (say a st) = ps_calls st @ [a]" "ps_runs (say a st) = ps_runs st"
  "ps_stages (say a st) = ps_stages st" "ps_breaker (say a st) = ps_breaker st"
  "ps_approvals (say a st) = ps_approvals st" "ps_audits (say a st) = ps_audits st"
  "ps_nextId (say a st) = ps_nextId st"
  by (simp_all add: say_def)

lemma audit_simps [simp]:
  "ps_audits (audit a st) = ps_audits st @ [a]" "ps_calls (audit a st) = ps_calls st"
  "ps_runs (audit a st) = ps_runs st" "ps_stages (audit a st) = ps_stages st"
  "ps_breaker (audit a st) = ps_breaker st" "ps_approvals (audit a st) = ps_approvals st"
  "ps_nextId (audit a st) = ps_nextId st"
  by (simp_all add: audit_def)

definition new_calls :: "pm_state \<Rightarrow> pm_state \<Rightarrow> pm_call list" where
  "new_calls st st' = drop (length (ps_calls st)) (ps_calls st')"

lemma new_calls_append: "ps_calls st' = ps_calls st @ cs \<Longrightarrow> new_calls st st' = cs"
  by (simp add: new_calls_def)

section \<open>Starting the issues in Todo\<close>

text \<open>The call that is made for an issue, if its breaker is closed and it has a pipeline and a repository.\<close>

definition start_call ::
  "start_input \<Rightarrow> (issue_id, nat) js_map \<Rightarrow> linear_issue \<Rightarrow> pm_call list" where
  "start_call inp counts issue =
     (if breaker_open (st_threshold inp) (st_probes inp) counts (li_identifier issue) then []
      else (case resolvePipeline (map snd (li_labels issue)) (st_pipelines inp) of
        None \<Rightarrow> []
      | Some (key, _) \<Rightarrow>
          (case selectRepoConfig key (li_team issue) (li_project issue) (st_repos inp) of
             None \<Rightarrow> []
           | Some repo \<Rightarrow> [StartRun (li_identifier issue) key repo (li_team issue)])))"

lemma start_issue_calls:
  "ps_calls (snd (start_issue inp ans counts issue st)) = ps_calls st @ start_call inp counts issue"
  by (simp add: start_issue_def start_call_def Let_def split: option.split prod.split)

lemma start_issue_runs [simp]: "ps_runs (snd (start_issue inp ans counts issue st)) = ps_runs st"
  by (simp add: start_issue_def Let_def split: option.split prod.split)

lemma start_loop_calls:
  "ps_calls (snd (start_loop inp ans counts issues st)) =
     ps_calls st @ concat (map (start_call inp counts) issues)"
proof (induction issues arbitrary: st)
  case (Cons issue rest)
  then show ?case
    by (simp add: case_prod_beta start_issue_calls)
qed simp

lemma length_start_call: "length (start_call inp counts issue) \<le> 1"
  by (simp add: start_call_def split: option.split prod.split)

lemma length_start_calls: "length (concat (map (start_call inp counts) issues)) \<le> length issues"
proof (induction issues)
  case (Cons i rest)
  then show ?case using length_start_call [of inp counts i] by simp
qed simp

definition start_counts :: "start_input \<Rightarrow> run_row list \<Rightarrow> linear_issue list \<Rightarrow> (issue_id, nat) js_map" where
  "start_counts inp runs issues =
     (if st_threshold inp = None then [] else batchCountConsecutiveFailures runs (map li_identifier issues))"

lemma startTodoIssues_calls:
  "new_calls st (snd (startTodoIssues inp ans now todo st)) =
     (if st_budgetBlocked inp then []
      else (let issues = start_candidates now (st_maxPerTick inp) (ps_runs st) todo
            in concat (map (start_call inp (start_counts inp (ps_runs st) issues)) issues)))"
  by (rule new_calls_append) (simp add: startTodoIssues_def start_loop_calls start_counts_def Let_def)

lemma start_candidates_mem:
  assumes "issue \<in> set (start_candidates now n runs todo)"
  shows "issue \<in> set todo" and "\<forall>r \<in> set runs. r_issueId r = li_identifier issue \<longrightarrow>
    r_status r \<notin> {Queued, Running} \<and> \<not> is_recent now RECENT_WINDOW_MS r"
proof -
  from in_set_takeD [OF assms [unfolded start_candidates_def getActiveAndRecentIssueIds_def prod.case]]
  have "issue \<in> set todo \<and>
      li_identifier issue \<notin> r_issueId ` set (filter (is_active now None) runs) \<and>
      li_identifier issue \<notin> r_issueId ` set (filter (is_recent now RECENT_WINDOW_MS) runs)"
    by simp
  then show "issue \<in> set todo" and "\<forall>r \<in> set runs. r_issueId r = li_identifier issue \<longrightarrow>
      r_status r \<notin> {Queued, Running} \<and> \<not> is_recent now RECENT_WINDOW_MS r"
    by (auto simp: is_active_def image_iff)
qed

lemma start_call_guard:
  assumes "c \<in> set (start_call inp counts issue)"
  shows "\<exists>key cfg repo.
    c = StartRun (li_identifier issue) key repo (li_team issue) \<and>
    resolvePipeline (map snd (li_labels issue)) (st_pipelines inp) = Some (key, cfg) \<and>
    selectRepoConfig key (li_team issue) (li_project issue) (st_repos inp) = Some repo \<and>
    \<not> breaker_open (st_threshold inp) (st_probes inp) counts (li_identifier issue)"
  proof -
  from assms have closed: "\<not> breaker_open (st_threshold inp) (st_probes inp) counts (li_identifier issue)"
    by (auto simp: start_call_def split: if_splits)
  with assms obtain key cfg where
      key: "resolvePipeline (map snd (li_labels issue)) (st_pipelines inp) = Some (key, cfg)"
    by (cases "resolvePipeline (map snd (li_labels issue)) (st_pipelines inp)")
      (auto simp: start_call_def)
  with assms closed obtain repo where
      "selectRepoConfig key (li_team issue) (li_project issue) (st_repos inp) = Some repo"
      "c = StartRun (li_identifier issue) key repo (li_team issue)"
    by (cases "selectRepoConfig key (li_team issue) (li_project issue) (st_repos inp)")
      (auto simp: start_call_def)
  with key closed show ?thesis by blast
qed

text \<open>
  The agent starts a run only for an issue in Todo without an active run and without a run that ended in
  the last half hour, whose consecutive failures are below the threshold unless it is probed, in the
  pipeline its labels name and the repository selected for it; never when the budget is spent, and at most
  \<open>maxPerTick\<close> runs at a time.
\<close>
theorem start_todo_guarded:
  assumes "c \<in> set (new_calls st (snd (startTodoIssues inp ans now todo st)))"
  shows "length (new_calls st (snd (startTodoIssues inp ans now todo st))) \<le> st_maxPerTick inp \<and>
    \<not> st_budgetBlocked inp \<and>
    (\<exists>issue \<in> set todo. \<exists>key cfg repo.
      c = StartRun (li_identifier issue) key repo (li_team issue) \<and>
      resolvePipeline (map snd (li_labels issue)) (st_pipelines inp) = Some (key, cfg) \<and>
      selectRepoConfig key (li_team issue) (li_project issue) (st_repos inp) = Some repo \<and>
      (\<forall>r \<in> set (ps_runs st). r_issueId r = li_identifier issue \<longrightarrow>
        r_status r \<notin> {Queued, Running} \<and> \<not> is_recent now RECENT_WINDOW_MS r) \<and>
      (case st_threshold inp of None \<Rightarrow> True | Some m \<Rightarrow>
        countConsecutiveFailures (ps_runs st) (li_identifier issue) < m \<or>
        li_identifier issue \<in> st_probes inp))"
proof -
  let ?is = "start_candidates now (st_maxPerTick inp) (ps_runs st) todo"
  let ?counts = "start_counts inp (ps_runs st) ?is"
  have open_budget: "\<not> st_budgetBlocked inp"
    using assms by (auto simp: startTodoIssues_calls)
  then have calls: "new_calls st (snd (startTodoIssues inp ans now todo st)) =
      concat (map (start_call inp ?counts) ?is)"
    by (simp add: startTodoIssues_calls Let_def)
  have "length ?is \<le> st_maxPerTick inp"
    by (simp add: start_candidates_def getActiveAndRecentIssueIds_def)
  then have bound: "length (concat (map (start_call inp ?counts) ?is)) \<le> st_maxPerTick inp"
    using length_start_calls order_trans by blast
  obtain issue where issue: "issue \<in> set ?is" and c: "c \<in> set (start_call inp ?counts issue)"
    using assms unfolding calls by auto
  have closed: "case st_threshold inp of None \<Rightarrow> True | Some m \<Rightarrow>
      countConsecutiveFailures (ps_runs st) (li_identifier issue) < m \<or> li_identifier issue \<in> st_probes inp"
    if "\<not> breaker_open (st_threshold inp) (st_probes inp) ?counts (li_identifier issue)"
    using that failures_of_batch [of "li_identifier issue" "map li_identifier ?is" "ps_runs st"] issue
    by (auto simp: breaker_open_def start_counts_def split: option.splits)
  show ?thesis
    using open_budget bound start_candidates_mem [OF issue] start_call_guard [OF c] closed
    unfolding calls by blast
qed

text \<open>
  The candidates are cut to \<open>maxPerTick\<close> before the breaker is looked at: when the breaker is open for
  those at the head, no run is started, whatever follows them in Todo and however many slots are free.
\<close>
theorem open_breakers_starve_the_rest:
  assumes "st_threshold inp = Some m"
    "\<forall>issue \<in> set (start_candidates now (st_maxPerTick inp) (ps_runs st) todo).
       m \<le> countConsecutiveFailures (ps_runs st) (li_identifier issue) \<and>
       li_identifier issue \<notin> st_probes inp"
  shows "new_calls st (snd (startTodoIssues inp ans now todo st)) = []"
proof -
  let ?is = "start_candidates now (st_maxPerTick inp) (ps_runs st) todo"
  have "start_call inp (start_counts inp (ps_runs st) ?is) issue = []" if "issue \<in> set ?is" for issue
    using that assms failures_of_batch [of "li_identifier issue" "map li_identifier ?is" "ps_runs st"]
    by (simp add: start_call_def breaker_open_def start_counts_def)
  then show ?thesis by (simp add: startTodoIssues_calls Let_def)
qed

definition demo_todo :: "issue_id \<Rightarrow> linear_issue" where
  "demo_todo i = \<lparr>li_id = ''id-'' @ i, li_identifier = i, li_title = ''t'', li_description = None,
     li_priority = Some 2, li_team = Some ''T'', li_project = None, li_labels = [(''l1'', ''Bug'')],
     li_state = Some ''Todo'', li_updatedAt = 0, li_comments = []\<rparr>"

definition demo_pm_repo :: repo_config where
  "demo_pm_repo = \<lparr>rp_url = ''url'', rp_defaultBranch = ''main'', rp_testCommand = ''t'',
     rp_buildCommand = ''b'', rp_setupCommands = None, rp_provider = None, rp_labelPattern = None\<rparr>"

definition demo_pm_run :: "run_id \<Rightarrow> issue_id \<Rightarrow> run_status \<Rightarrow> millis \<Rightarrow> run_row" where
  "demo_pm_run rid i s t = \<lparr>r_id = rid, r_issueId = i, r_issueTitle = ''t'', r_pipelineKey = ''bug'',
     r_repoUrl = ''url'', r_agentSessionId = None, r_branch = None, r_status = s, r_startedAt = t,
     r_completedAt = None, r_prUrl = None, r_totalInputTokens = 0, r_totalOutputTokens = 0,
     r_errorMessage = None, r_currentStageIndex = None, r_resumePayload = None, r_retryCount = 0,
     r_runType = ''standard'', r_autoMerged = None, r_autoMergeReason = None, r_autoCommitted = None,
     r_linearTeamId = None\<rparr>"

definition demo_pm_state :: "run_row list \<Rightarrow> pm_state" where
  "demo_pm_state runs = \<lparr>ps_runs = runs, ps_stages = [], ps_breaker = [], ps_approvals = [],
     ps_audits = [], ps_calls = [], ps_nextId = 0\<rparr>"

definition demo_start_input :: "nat \<Rightarrow> start_input" where
  "demo_start_input n = \<lparr>st_maxPerTick = n, st_budgetBlocked = False, st_threshold = Some 1,
     st_probes = {}, st_pipelines = defaultConfigs, st_repos = [(''T'', demo_pm_repo)]\<rparr>"

lemmas demo_pm_defs = demo_todo_def demo_pm_repo_def demo_pm_run_def demo_pm_state_def
  demo_start_input_def

abbreviation (input) failing_head :: pm_state where
  "failing_head \<equiv> demo_pm_state [demo_pm_run ''r1'' ''A'' Failed 5]"

lemma demo_second_starts:
  "new_calls failing_head (snd (startTodoIssues (demo_start_input 2) (\<lambda>c. None) 10
     [demo_todo ''A'', demo_todo ''B''] failing_head)) =
   [StartRun ''B'' ''bug'' demo_pm_repo (Some ''T'')]"
  by code_simp

theorem start_todo_guarded_witness:
  "length (new_calls failing_head (snd (startTodoIssues (demo_start_input 2) (\<lambda>c. None) 10
     [demo_todo ''A'', demo_todo ''B''] failing_head))) \<le> 2 \<and>
   \<not> st_budgetBlocked (demo_start_input 2)"
  using start_todo_guarded [of "StartRun ''B'' ''bug'' demo_pm_repo (Some ''T'')" failing_head
      "demo_start_input 2" "\<lambda>c. None" 10 "[demo_todo ''A'', demo_todo ''B'']"]
  by (simp add: demo_second_starts)

theorem open_breakers_starve_the_rest_witness:
  "new_calls failing_head (snd (startTodoIssues (demo_start_input 1) (\<lambda>c. None) 10
     [demo_todo ''A'', demo_todo ''B''] failing_head)) = []"
proof (rule open_breakers_starve_the_rest [where m = 1])
  show "st_threshold (demo_start_input 1) = Some 1" by (simp add: demo_start_input_def)
  show "\<forall>issue \<in> set (start_candidates 10 (st_maxPerTick (demo_start_input 1)) (ps_runs failing_head)
      [demo_todo ''A'', demo_todo ''B'']).
     1 \<le> countConsecutiveFailures (ps_runs failing_head) (li_identifier issue) \<and>
     li_identifier issue \<notin> st_probes (demo_start_input 1)"
    by code_simp
qed

section \<open>Promotion\<close>

fun is_move :: "pm_call \<Rightarrow> bool" where
  "is_move (SetState i s) = True"
| "is_move _ = False"

abbreviation moves :: "pm_state \<Rightarrow> nat" where
  "moves st \<equiv> length (filter is_move (ps_calls st))"

lemma fold_say_simps [simp]:
  "ps_calls (fold say cs st) = ps_calls st @ cs" "ps_runs (fold say cs st) = ps_runs st"
  "ps_stages (fold say cs st) = ps_stages st" "ps_approvals (fold say cs st) = ps_approvals st"
  "ps_breaker (fold say cs st) = ps_breaker st" "ps_audits (fold say cs st) = ps_audits st"
  by (induction cs arbitrary: st) simp_all

lemma escalation_calls_no_move [simp]: "filter is_move (escalation_calls inp ans n err issue) = []"
  by (simp add: escalation_calls_def Let_def split: option.split)

lemma escalate_calls:
  "ps_calls (escalate inp ans now n issue st) =
     ps_calls st @ escalation_calls inp ans n (getLastFailureError (ps_runs st) (li_identifier issue)) issue"
  by (simp add: escalate_def Let_def)

text \<open>Why an issue may be moved to Todo.\<close>

definition may_promote :: "promote_input \<Rightarrow> (issue_id, nat) js_map \<Rightarrow> linear_issue \<Rightarrow> bool" where
  "may_promote inp counts issue \<longleftrightarrow>
     (pi_requireLabel inp \<longrightarrow>
        resolvePipeline (map snd (li_labels issue)) (the (pi_pipelines inp)) \<noteq> None) \<and>
     \<not> breaker_open (pi_threshold inp) (pi_probes inp) counts (li_identifier issue) \<and>
     pi_conflict inp (case li_description issue of None \<Rightarrow> [] | Some d \<Rightarrow> d) \<in> {Some RiskNone, Some RiskLow}"

definition todo_state_of :: "promote_input \<Rightarrow> linear_issue \<Rightarrow> string option" where
  "todo_state_of inp issue =
     (case li_team issue of
        None \<Rightarrow> None | Some t \<Rightarrow> if t = [] then None else mapGet (todo_states (pi_stateMap inp)) t)"

lemma promote_issue_moves:
  assumes "promote_issue inp ans now counts issue st = (r, st')"
  shows "\<exists>cs. ps_calls st' = ps_calls st @ cs \<and>
    (filter is_move cs = [] \<and> (\<forall>x. r = Some x \<longrightarrow> \<not> pm_promoted x) \<or>
     (\<exists>s. filter is_move cs = [SetState (li_id issue) s] \<and> todo_state_of inp issue = Some s \<and>
        may_promote inp counts issue \<and> (\<forall>x. r = Some x \<longrightarrow> pm_promoted x)))"
proof (cases "pi_requireLabel inp \<and>
    resolvePipeline (map snd (li_labels issue)) (the (pi_pipelines inp)) = None")
  case True
  then show ?thesis using assms by (auto simp: promote_issue_def Let_def)
next
  case label: False
  show ?thesis
  proof (cases "breaker_open (pi_threshold inp) (pi_probes inp) counts (li_identifier issue)")
    case True
    then show ?thesis
      using assms label by (auto simp: promote_issue_def Let_def escalate_calls split: if_splits)
  next
    case False
    then show ?thesis
      using assms label
      by (cases "todo_state_of inp issue";
          cases "pi_conflict inp (case li_description issue of None \<Rightarrow> [] | Some d \<Rightarrow> d)")
        (auto simp: promote_issue_def Let_def may_promote_def todo_state_of_def
          split: if_splits overlap_risk.splits)
  qed
qed

lemma promote_loop_moves:
  assumes "promote_loop inp ans now counts k issues st = (rs, st')" "k \<le> pi_slots inp"
  shows "\<exists>cs. ps_calls st' = ps_calls st @ cs \<and> k + length (filter is_move cs) \<le> pi_slots inp \<and>
    (\<forall>c \<in> set cs. is_move c \<longrightarrow> (\<exists>issue \<in> set issues. \<exists>s. c = SetState (li_id issue) s \<and>
       todo_state_of inp issue = Some s \<and> may_promote inp counts issue))"
  using assms
proof (induction issues arbitrary: k st rs st')
  case Nil
  then show ?case by simp
next
  case (Cons issue rest)
  show ?case
  proof (cases "pi_slots inp \<le> k")
    case True
    with Cons.prems show ?thesis by auto
  next
    case False
    obtain r st1 where one: "promote_issue inp ans now counts issue st = (r, st1)" by fastforce
    from promote_issue_moves [OF one] obtain cs1 where
      cs1: "ps_calls st1 = ps_calls st @ cs1" and
      kind: "filter is_move cs1 = [] \<and> (\<forall>x. r = Some x \<longrightarrow> \<not> pm_promoted x) \<or>
        (\<exists>s. filter is_move cs1 = [SetState (li_id issue) s] \<and> todo_state_of inp issue = Some s \<and>
          may_promote inp counts issue \<and> (\<forall>x. r = Some x \<longrightarrow> pm_promoted x))" by blast
    have guard: "\<exists>s. c = SetState (li_id issue) s \<and> todo_state_of inp issue = Some s \<and>
        may_promote inp counts issue" if "c \<in> set cs1" "is_move c" for c
    proof -
      have "c \<in> set (filter is_move cs1)" using that by simp
      with kind show ?thesis by (metis empty_iff list.set(1) list.set(2) singletonD)
    qed
    show ?thesis
    proof (cases r)
      case None
      with Cons.prems False one have "st' = st1" by simp
      then show ?thesis using cs1 kind guard False by fastforce
    next
      case (Some x)
      let ?k = "if pm_promoted x then Suc k else k"
      obtain rs2 st2 where rest: "promote_loop inp ans now counts ?k rest st1 = (rs2, st2)" by fastforce
      then have "st' = st2"
        using Cons.prems False one Some by (auto split: option.splits)
      moreover have "?k \<le> pi_slots inp" using False by simp
      from Cons.IH [OF rest this] obtain cs2 where
        cs2: "ps_calls st2 = ps_calls st1 @ cs2" "?k + length (filter is_move cs2) \<le> pi_slots inp"
          "\<forall>c \<in> set cs2. is_move c \<longrightarrow> (\<exists>issue \<in> set rest. \<exists>s. c = SetState (li_id issue) s \<and>
             todo_state_of inp issue = Some s \<and> may_promote inp counts issue)" by blast
      moreover have "length (filter is_move cs1) = (if pm_promoted x then 1 else 0)"
        using kind Some by auto
      ultimately show ?thesis
        using cs1 guard by (intro exI [of _ "cs1 @ cs2"]) (auto split: if_splits)
    qed
  qed
qed

text \<open>
  A tick moves at most as many issues to Todo as there are slots, even when a call fails midway. Each one
  was in the backlog; its labels name a pipeline where that is required; its failures are below the
  threshold unless it is probed; no conflict of high risk was predicted; and it goes to its own team's
  state.
\<close>
theorem promotion_guarded:
  assumes "SetState i s \<in> set (new_calls st (snd (promoteReadyIssues inp ans now backlog st)))"
  shows "length (filter is_move (new_calls st (snd (promoteReadyIssues inp ans now backlog st))))
      \<le> pi_slots inp \<and>
    (\<exists>issue \<in> set backlog. li_id issue = i \<and> todo_state_of inp issue = Some s \<and>
      (pi_requireLabel inp \<longrightarrow>
         resolvePipeline (map snd (li_labels issue)) (the (pi_pipelines inp)) \<noteq> None) \<and>
      (case pi_threshold inp of None \<Rightarrow> True | Some m \<Rightarrow>
        countConsecutiveFailures (ps_runs st) (li_identifier issue) < m \<or>
        li_identifier issue \<in> pi_probes inp) \<and>
      pi_conflict inp (case li_description issue of None \<Rightarrow> [] | Some d \<Rightarrow> d) \<noteq> Some RiskHigh)"
proof -
  let ?is = "sort_key priority_of backlog"
  let ?counts = "if pi_threshold inp = None then []
    else batchCountConsecutiveFailures (ps_runs st) (map li_identifier ?is)"
  obtain rs st' where loop: "promote_loop inp ans now ?counts 0 ?is st = (rs, st')" by fastforce
  have run: "snd (promoteReadyIssues inp ans now backlog st) = st'"
    using assms loop by (auto simp: promoteReadyIssues_def Let_def new_calls_def split: if_splits)
  from promote_loop_moves [OF loop] obtain cs where cs: "ps_calls st' = ps_calls st @ cs"
    "length (filter is_move cs) \<le> pi_slots inp"
    "\<forall>c \<in> set cs. is_move c \<longrightarrow> (\<exists>issue \<in> set ?is. \<exists>s. c = SetState (li_id issue) s \<and>
       todo_state_of inp issue = Some s \<and> may_promote inp ?counts issue)" by auto
  have new: "new_calls st st' = cs" using cs(1) by (rule new_calls_append)
  obtain issue where issue: "issue \<in> set backlog" "li_id issue = i" "todo_state_of inp issue = Some s"
    "may_promote inp ?counts issue"
    using cs(3) assms unfolding run new by fastforce
  have "case pi_threshold inp of None \<Rightarrow> True | Some m \<Rightarrow>
      countConsecutiveFailures (ps_runs st) (li_identifier issue) < m \<or> li_identifier issue \<in> pi_probes inp"
    using issue(1,4) failures_of_batch [of "li_identifier issue" "map li_identifier ?is" "ps_runs st"]
    by (auto simp: may_promote_def breaker_open_def split: option.splits)
  with issue cs(2) show ?thesis
    unfolding run new by (auto simp: may_promote_def)
qed

text \<open>
  An issue whose breaker is open and that does not carry the label yet is escalated again at every tick as
  long as the label cannot be set: in a workspace without it the same comment is posted each time.
\<close>
theorem escalation_repeats_without_label:
  assumes "pi_slots inp \<noteq> 0" "\<not> pi_requireLabel inp" "pi_threshold inp = Some m"
    "m \<le> countConsecutiveFailures (ps_runs st) (li_identifier issue)"
    "li_identifier issue \<notin> pi_probes inp" "\<not> already_escalated issue"
    "\<forall>ls. pi_allLabels inp = Some ls \<longrightarrow> 
       (\<forall>l \<in> set ls. toLowerCase (snd l) \<noteq> ESCALATION_PIPELINE_LABEL)"
    "tick = (\<lambda>now. snd \<circ> promoteReadyIssues inp ans now [issue])"
  shows "new_calls st ((tick t2 \<circ> tick t1) st) =
    replicate 2 (Comment (li_id issue) (EscalationComment
      (countConsecutiveFailures (ps_runs st) (li_identifier issue)) m
      (getLastFailureError (ps_runs st) (li_identifier issue))))"
proof -
  let ?i = "li_identifier issue"
  have label: "(case pi_allLabels inp of None \<Rightarrow> None | Some ls \<Rightarrow> map_option fst
      (find (\<lambda>l. toLowerCase (snd l) = ESCALATION_PIPELINE_LABEL) ls)) = None"
    using assms(7) by (force simp: find_None_iff split: option.split)
  have tick: "tick now st0 = escalate inp ans now (countConsecutiveFailures (ps_runs st0) ?i) issue
      (audit (SkippedBreaker ?i (countConsecutiveFailures (ps_runs st0) ?i) m ''promote'') st0)"
    if "ps_runs st0 = ps_runs st" for now st0
    using assms that failures_of_batch [of ?i "[?i]" "ps_runs st"]
    by (simp add: promoteReadyIssues_def promote_issue_def breaker_open_def Let_def)
  have runs: "ps_runs (tick t1 st) = ps_runs st"
    by (simp add: tick escalate_def Let_def)
  have calls: "ps_calls (tick now st0) = ps_calls st0 @ [Comment (li_id issue) (EscalationComment
      (countConsecutiveFailures (ps_runs st) ?i) m (getLastFailureError (ps_runs st) ?i))]"
    if "ps_runs st0 = ps_runs st" for now st0
    using that assms(3) label by (simp add: tick escalate_calls escalation_calls_def Let_def)
  show ?thesis
    by (rule new_calls_append) (simp add: calls runs numeral_2_eq_2)
qed

definition demo_promote_input :: promote_input where
  "demo_promote_input = \<lparr>pi_slots = 1, pi_requireLabel = False, pi_pipelines = None,
     pi_threshold = Some 1, pi_probes = {}, pi_stateMap = [(''T:Todo'', ''s1'')],
     pi_conflict = (\<lambda>d. Some RiskLow), pi_allLabels = Some [(''l1'', ''Bug'')]\<rparr>"

theorem promotion_guarded_witness:
  "length (filter is_move (new_calls failing_head (snd (promoteReadyIssues demo_promote_input
     (\<lambda>c. None) 10 [demo_todo ''A'', demo_todo ''B''] failing_head)))) \<le> 1"
proof -
  have "SetState ''id-B'' ''s1'' \<in> set (new_calls failing_head (snd (promoteReadyIssues demo_promote_input
      (\<lambda>c. None) 10 [demo_todo ''A'', demo_todo ''B''] failing_head)))"
    by code_simp
  from promotion_guarded [OF this] show ?thesis by (simp add: demo_promote_input_def)
qed

theorem escalation_repeats_without_label_witness:
  "new_calls failing_head ((snd \<circ> promoteReadyIssues demo_promote_input (\<lambda>c. None) 20 [demo_todo ''A'']
     \<circ> (snd \<circ> promoteReadyIssues demo_promote_input (\<lambda>c. None) 10 [demo_todo ''A''])) failing_head) =
   replicate 2 (Comment ''id-A'' (EscalationComment 1 1 None))"
proof -
  have count: "countConsecutiveFailures (ps_runs failing_head) (li_identifier (demo_todo ''A'')) = 1"
    "getLastFailureError (ps_runs failing_head) (li_identifier (demo_todo ''A'')) = None"
    by code_simp+
  have no_label: "\<forall>l \<in> set [(''l1'', ''Bug'')]. toLowerCase (snd l) \<noteq> ESCALATION_PIPELINE_LABEL"
    "\<not> already_escalated (demo_todo ''A'')"
    by code_simp+
  show ?thesis
    using escalation_repeats_without_label [of demo_promote_input 1 failing_head "demo_todo ''A''" _
        "\<lambda>c. None" 20 10, OF _ _ _ _ _ _ _ refl] count no_label
    by (simp add: demo_promote_input_def demo_todo_def comp_assoc)
qed

section \<open>Recovering stuck issues\<close>

definition mark_zombie :: "millis \<Rightarrow> nat \<Rightarrow> run_row \<Rightarrow> run_row" where
  "mark_zombie now age r =
     r\<lparr>r_status := Failed, r_errorMessage := Some (zombie_message age), r_completedAt := Some now\<rparr>"

definition is_zombie :: "millis \<Rightarrow> nat \<Rightarrow> run_row \<Rightarrow> bool" where
  "is_zombie now age r \<longleftrightarrow> r_status r = Running \<and> r_startedAt r < now - int age * 60 * 1000"

definition only_zombies :: "millis \<Rightarrow> nat \<Rightarrow> run_row list \<Rightarrow> run_row list \<Rightarrow> bool" where
  "only_zombies now age = list_all2 (\<lambda>r r'. r' = r \<or> is_zombie now age r \<and> r' = mark_zombie now age r)"

lemma mark_zombie_simps [simp]: "r_id (mark_zombie now age r) = r_id r"
  "mark_zombie now age (mark_zombie now age r) = mark_zombie now age r"
  by (simp_all add: mark_zombie_def)

lemma only_zombies_refl: "only_zombies now age rows rows"
  by (simp add: only_zombies_def list_all2_refl)

lemma only_zombies_fail:
  assumes "only_zombies now age base rows" "x \<in> set base" "is_zombie now age x" "distinct (map r_id base)"
  shows "only_zombies now age base (fail_zombie now age (r_id x) rows)"
proof -
  have same: "r = x" if "r \<in> set base" "r_id r = r_id x" for r
    using that assms(2,4) by (auto simp: distinct_map inj_on_def)
  show ?thesis
    unfolding only_zombies_def list_all2_conv_all_nth
  proof (intro conjI allI impI)
    show "length base = length (fail_zombie now age (r_id x) rows)"
      using assms(1) by (simp add: only_zombies_def fail_zombie_def list_all2_lengthD)
    fix k assume k: "k < length base"
    then have row: "rows ! k = base ! k \<or> is_zombie now age (base ! k) \<and> rows ! k = mark_zombie now age (base ! k)"
      and len: "k < length rows"
      using assms(1) by (simp_all add: only_zombies_def list_all2_conv_all_nth)
    have "fail_zombie now age (r_id x) rows ! k =
        (if r_id (rows ! k) = r_id x then mark_zombie now age (rows ! k) else rows ! k)"
      using len by (simp add: fail_zombie_def update_where_def mark_zombie_def)
    moreover have "is_zombie now age (base ! k)" if "r_id (rows ! k) = r_id x"
      using that row same [of "base ! k"] assms(3) k by auto
    ultimately show "fail_zombie now age (r_id x) rows ! k = base ! k \<or>
        is_zombie now age (base ! k) \<and> fail_zombie now age (r_id x) rows ! k = mark_zombie now age (base ! k)"
      using row by auto
  qed
qed

lemma recover_issue_effect:
  assumes "recover_issue inp ans now (issue, run) st = (r, st')"
  shows "\<exists>cs. ps_calls st' = ps_calls st @ cs \<and> length (filter is_move cs) \<le> 1 \<and>
    (\<forall>c \<in> set cs. is_move c \<longrightarrow> (\<exists>s. c = SetState (li_id issue) s) \<and>
       (\<forall>x. run = Some x \<longrightarrow> \<not> (r_status x = Completed \<and> r_autoMerged x = Some True))) \<and>
    (ps_runs st' = ps_runs st \<or> (\<exists>x. run = Some x \<and> r_status x = Running \<and>
       ps_runs st' = fail_zombie now (ri_stuckRunAgeMinutes inp) (r_id x) (ps_runs st)))"
proof (cases run)
  case None
  then show ?thesis
    using assms by (auto simp: recover_issue_def Let_def split: prod.splits option.splits if_splits)
next
  case (Some x)
  then show ?thesis
    using assms by (auto simp: recover_issue_def Let_def split: prod.splits option.splits if_splits)
qed

abbreviation (input) merged_run :: "run_row option \<Rightarrow> bool" where
  "merged_run run \<equiv> (\<exists>x. run = Some x \<and> r_status x = Completed \<and> r_autoMerged x = Some True)"

lemma recover_loop_effect:
  assumes "recover_loop inp ans now entries st = (rs, st')"
    "only_zombies now (ri_stuckRunAgeMinutes inp) base (ps_runs st)" "distinct (map r_id base)"
    "\<forall>issue x. (issue, Some x) \<in> set entries \<longrightarrow> r_status x = Running \<longrightarrow>
       x \<in> set base \<and> is_zombie now (ri_stuckRunAgeMinutes inp) x"
  shows "\<exists>cs. ps_calls st' = ps_calls st @ cs \<and> length (filter is_move cs) \<le> length entries \<and>
    (\<forall>c \<in> set cs. is_move c \<longrightarrow> (\<exists>(issue, run) \<in> set entries.
       (\<exists>s. c = SetState (li_id issue) s) \<and> \<not> merged_run run)) \<and>
    only_zombies now (ri_stuckRunAgeMinutes inp) base (ps_runs st')"
  using assms
proof (induction entries arbitrary: st rs)
  case Nil
  then show ?case by simp
next
  case (Cons entry rest)
  obtain issue run where entry: "entry = (issue, run)" by fastforce
  obtain r st1 where one: "recover_issue inp ans now (issue, run) st = (r, st1)" by fastforce
  obtain rs2 st2 where loop: "recover_loop inp ans now rest st1 = (rs2, st2)" by fastforce
  have end_state: "st' = st2" using Cons.prems(1) entry one loop by simp
  from recover_issue_effect [OF one] obtain cs1 where cs1: "ps_calls st1 = ps_calls st @ cs1"
    "length (filter is_move cs1) \<le> 1"
    "\<forall>c \<in> set cs1. is_move c \<longrightarrow> (\<exists>s. c = SetState (li_id issue) s) \<and> \<not> merged_run run"
    and runs1: "ps_runs st1 = ps_runs st \<or> (\<exists>x. run = Some x \<and> r_status x = Running \<and>
       ps_runs st1 = fail_zombie now (ri_stuckRunAgeMinutes inp) (r_id x) (ps_runs st))"
    by blast
  have zombies1: "only_zombies now (ri_stuckRunAgeMinutes inp) base (ps_runs st1)"
    using runs1
  proof
    assume "\<exists>x. run = Some x \<and> r_status x = Running \<and>
      ps_runs st1 = fail_zombie now (ri_stuckRunAgeMinutes inp) (r_id x) (ps_runs st)"
    then obtain x where x: "run = Some x" "r_status x = Running"
      "ps_runs st1 = fail_zombie now (ri_stuckRunAgeMinutes inp) (r_id x) (ps_runs st)" by blast
    then show ?thesis
      using Cons.prems(2,3) Cons.prems(4) entry by (simp add: only_zombies_fail)
  qed (use Cons.prems(2) in simp)
  from Cons.IH [OF loop [folded end_state] zombies1 Cons.prems(3)] Cons.prems(4) obtain cs2 where
    "ps_calls st' = ps_calls st1 @ cs2" "length (filter is_move cs2) \<le> length rest"
    "\<forall>c \<in> set cs2. is_move c \<longrightarrow> (\<exists>(issue, run) \<in> set rest.
       (\<exists>s. c = SetState (li_id issue) s) \<and> \<not> merged_run run)"
    "only_zombies now (ri_stuckRunAgeMinutes inp) base (ps_runs st')" by fastforce
  with cs1 entry show ?case
    by (intro exI [of _ "cs1 @ cs2"]) (auto simp: split_beta)
qed

lemma last_run_mem: "last_run runs i = Some x \<Longrightarrow> x \<in> set runs \<and> r_issueId x = i"
proof -
  assume "last_run runs i = Some x"
  then have "sort_key (\<lambda>r. - r_startedAt r) (filter (\<lambda>r. r_issueId r = i) runs) \<noteq> [] \<and>
      hd (sort_key (\<lambda>r. - r_startedAt r) (filter (\<lambda>r. r_issueId r = i) runs)) = x"
    by (auto simp: last_run_def split: list.splits)
  then have "x \<in> set (sort_key (\<lambda>r. - r_startedAt r) (filter (\<lambda>r. r_issueId r = i) runs))"
    using hd_in_set by blast
  then show ?thesis by simp
qed

lemma stuck_issues_mem:
  assumes "issue \<in> set (stuck_issues now inp runs inProgress)"
  shows "issue \<in> set inProgress" "\<forall>r \<in> set runs. r_issueId r = li_identifier issue \<longrightarrow>
    r_status r \<noteq> Queued \<and> \<not> is_recent now RECENT_WINDOW_MS r \<and>
    (r_status r = Running \<longrightarrow> is_zombie now (ri_stuckRunAgeMinutes inp) r)"
  using assms
  by (force simp: stuck_issues_def getActiveAndRecentIssueIds_def is_active_def is_zombie_def)+

text \<open>
  The recovery of stuck issues spares what is alive. It moves at most \<open>maxPerTick\<close> issues, each of them in
  progress with no queued run, no run that started within the age and none that ended in the last half
  hour, and not one whose last run was merged; the only rows it changes are runs that have been running
  for longer than the age, which it marks as failed.
\<close>
theorem recovery_spares_live_runs:
  assumes "distinct (map r_id (ps_runs st))"
    "recoverStuckInProgressIssues inp ans now inProgress st = (rs, st')"
  shows "list_all2 (\<lambda>r r'. r' = r \<or>
      r_status r = Running \<and> r_startedAt r < now - int (ri_stuckRunAgeMinutes inp) * 60 * 1000 \<and>
      r' = r\<lparr>r_status := Failed, r_errorMessage := Some (zombie_message (ri_stuckRunAgeMinutes inp)),
              r_completedAt := Some now\<rparr>)
      (ps_runs st) (ps_runs st') \<and>
    length (filter is_move (new_calls st st')) \<le> ri_maxPerTick inp \<and>
    (\<forall>i s. SetState i s \<in> set (new_calls st st') \<longrightarrow> (\<exists>issue \<in> set inProgress. li_id issue = i \<and>
      \<not> merged_run (last_run (ps_runs st) (li_identifier issue)) \<and>
      (\<forall>r \<in> set (ps_runs st). r_issueId r = li_identifier issue \<longrightarrow>
         r_status r \<noteq> Queued \<and> \<not> is_recent now RECENT_WINDOW_MS r \<and>
         (r_status r = Running \<longrightarrow>
            r_startedAt r < now - int (ri_stuckRunAgeMinutes inp) * 60 * 1000))))"
proof -
  let ?age = "ri_stuckRunAgeMinutes inp"
  let ?stuck = "stuck_issues now inp (ps_runs st) inProgress"
  let ?entries = "map (\<lambda>i. (i, last_run (ps_runs st) (li_identifier i))) (take (ri_maxPerTick inp) ?stuck)"
  obtain rs1 st1 where loop: "recover_loop inp ans now ?entries st = (rs1, st1)" by fastforce
  then have st': "st' = (if rs1 = [] then st1 else say (NotifyRecovered (map sk_identifier rs1)) st1)"
    using assms(2) by (auto simp: recoverStuckInProgressIssues_def Let_def)
  have entry: "issue \<in> set ?stuck \<and> run = last_run (ps_runs st) (li_identifier issue)"
    if "(issue, run) \<in> set ?entries" for issue run
    using that by (auto dest: in_set_takeD)
  have one: "x \<in> set (ps_runs st) \<and> is_zombie now ?age x"
    if "(issue, Some x) \<in> set ?entries" "r_status x = Running" for issue x
    using entry [OF that(1)] stuck_issues_mem(2) [of issue now inp "ps_runs st" inProgress]
      last_run_mem [of "ps_runs st" "li_identifier issue" x] that(2) by auto
  have "\<forall>issue x. (issue, Some x) \<in> set ?entries \<longrightarrow> r_status x = Running \<longrightarrow>
      x \<in> set (ps_runs st) \<and> is_zombie now ?age x"
    using one by blast
  from recover_loop_effect [OF loop only_zombies_refl assms(1) this] obtain cs where
    cs: "ps_calls st1 = ps_calls st @ cs" "length (filter is_move cs) \<le> length ?entries"
      "\<forall>c \<in> set cs. is_move c \<longrightarrow> (\<exists>(issue, run) \<in> set ?entries.
         (\<exists>s. c = SetState (li_id issue) s) \<and> \<not> merged_run run)"
    and zombies: "only_zombies now ?age (ps_runs st) (ps_runs st1)" by blast
  have new: "new_calls st st' = cs @ (if rs1 = [] then [] else [NotifyRecovered (map sk_identifier rs1)])"
    by (rule new_calls_append) (simp add: st' cs(1))
  have guard: "\<exists>issue \<in> set inProgress. li_id issue = i \<and>
      \<not> merged_run (last_run (ps_runs st) (li_identifier issue)) \<and>
      (\<forall>r \<in> set (ps_runs st). r_issueId r = li_identifier issue \<longrightarrow>
         r_status r \<noteq> Queued \<and> \<not> is_recent now RECENT_WINDOW_MS r \<and>
         (r_status r = Running \<longrightarrow> r_startedAt r < now - int ?age * 60 * 1000))"
    if "SetState i s \<in> set (new_calls st st')" for i s
  proof -
    have "SetState i s \<in> set cs" using that unfolding new by (simp split: if_splits)
    with cs(3) obtain issue run where found: "(issue, run) \<in> set ?entries" "li_id issue = i" "\<not> merged_run run"
      by fastforce
    from entry [OF found(1)] have stuck: "issue \<in> set ?stuck"
      and run: "run = last_run (ps_runs st) (li_identifier issue)" by simp_all
    show ?thesis
      using stuck_issues_mem [OF stuck] found(2,3) unfolding run is_zombie_def by (intro bexI [of _ issue]) simp_all
  qed
  have "length (filter is_move (new_calls st st')) \<le> ri_maxPerTick inp"
    using cs(2) by (simp add: new)
  moreover have "only_zombies now ?age (ps_runs st) (ps_runs st')"
    using zombies by (simp add: st')
  ultimately show ?thesis
    using guard unfolding only_zombies_def is_zombie_def mark_zombie_def by auto
qed

definition demo_recover_input :: recover_input where
  "demo_recover_input = \<lparr>ri_targetState = ''Backlog'', ri_maxPerTick = 5, ri_stuckRunAgeMinutes = 2,
     ri_stateMap = [(''T:Backlog'', ''s0'')]\<rparr>"

abbreviation (input) zombie_state :: pm_state where
  "zombie_state \<equiv> demo_pm_state [demo_pm_run ''r1'' ''A'' Running 5]"

theorem recovery_spares_live_runs_witness:
  "\<exists>st'. SetState ''id-A'' ''s0'' \<in> set (new_calls zombie_state st') \<and>
     length (filter is_move (new_calls zombie_state st')) \<le> 5 \<and>
     map r_status (ps_runs st') = [Failed]"
proof -
  obtain rs st' where run: "recoverStuckInProgressIssues demo_recover_input (\<lambda>c. None) 10000000
      [demo_todo ''A''] zombie_state = (rs, st')" by fastforce
  then have st': "st' = snd (recoverStuckInProgressIssues demo_recover_input (\<lambda>c. None) 10000000
      [demo_todo ''A''] zombie_state)" by simp
  have "SetState ''id-A'' ''s0'' \<in> set (new_calls zombie_state st')"
    unfolding st' by code_simp
  moreover have "map r_status (ps_runs st') = [Failed]"
    unfolding st' by code_simp
  moreover have "distinct (map r_id (ps_runs zombie_state))"
    by code_simp
  then have "length (filter is_move (new_calls zombie_state st')) \<le> ri_maxPerTick demo_recover_input"
    by (rule recovery_spares_live_runs [OF _ run, THEN conjunct2, THEN conjunct1])
  then have "length (filter is_move (new_calls zombie_state st')) \<le> 5"
    by (simp only: demo_recover_input_def recover_input.simps)
  ultimately show ?thesis by (intro exI [of _ st'] conjI)
qed

end
