(* ===== verification/PmApprovalProps.thy ===== *)
theory PmApprovalProps
  imports PmActionProps
begin

text \<open>
  What the sweep over stage rows and the approvals of the PM agent guarantee.
\<close>

section \<open>Orphaned stage rows\<close>

definition live_parent :: "run_row list \<Rightarrow> stage_row \<Rightarrow> bool" where
  "live_parent runs s \<longleftrightarrow> (\<exists>r \<in> set runs. r_id r = s_pipelineRunId s) \<and>
     \<not> (\<exists>r \<in> set runs. r_id r = s_pipelineRunId s \<and> r_status r \<in> TERMINAL_PARENT_STATUSES)"

text \<open>
  What the sweep does to the stage rows: a running row of an ended run becomes cancelled, a running row
  without a run is deleted, and every other row stays as it is; both counts are exact.
\<close>

definition swept :: "millis \<Rightarrow> run_row list \<Rightarrow> stage_row \<Rightarrow> stage_row option" where
  "swept now runs s =
     (if s_status s \<noteq> SRunning \<or> live_parent runs s then Some s
      else if \<exists>r \<in> set runs. r_id r = s_pipelineRunId s
      then Some (s\<lparr>s_status := SCancelled, s_completedAt := Some now\<rparr>) else None)"

lemma distinct_key_eq: "distinct (map f xs) \<Longrightarrow> x \<in> set xs \<Longrightarrow> y \<in> set xs \<Longrightarrow> f x = f y \<Longrightarrow> x = y"
  by (auto simp: distinct_map inj_on_def)

lemma map_filter_cong:
  "(\<And>x. x \<in> set xs \<Longrightarrow> f x = g x) \<Longrightarrow> List.map_filter f xs = List.map_filter g xs"
  by (induction xs) (simp_all split: option.split)

text \<open>
  With ids that name one row each, the sweep changes exactly the running rows of ended and of missing runs,
  counts them, and leaves none: the running rows that remain all have a run that has not ended, and a
  second sweep has nothing to do.
\<close>
theorem orphan_sweep_exact:
  assumes "distinct (map s_id (ps_stages st))" "sweepOrphanStageRuns now st = (counts, st')"
  shows "ps_stages st' = List.map_filter (swept now (ps_runs st)) (ps_stages st) \<and>
    (\<forall>s \<in> set (ps_stages st'). s_status s = SRunning \<longrightarrow> live_parent (ps_runs st') s) \<and>
    sweepOrphanStageRuns t st' = ((0, 0), st')"
proof -
  let ?run = "filter (\<lambda>s. s_status s = SRunning) (ps_stages st)"
  let ?ended = "map s_id (filter (\<lambda>s. \<exists>r \<in> set (ps_runs st).
      r_id r = s_pipelineRunId s \<and> r_status r \<in> TERMINAL_PARENT_STATUSES) ?run)"
  let ?missing = "map s_id (filter (\<lambda>s. \<forall>r \<in> set (ps_runs st). r_id r \<noteq> s_pipelineRunId s) ?run)"
  let ?cancel = "\<lambda>s. s\<lparr>s_status := SCancelled, s_completedAt := Some now\<rparr>"
  have key: "s_id s \<in> set ?ended \<longleftrightarrow> s_status s = SRunning \<and> (\<exists>r \<in> set (ps_runs st).
        r_id r = s_pipelineRunId s \<and> r_status r \<in> TERMINAL_PARENT_STATUSES)"
      "s_id s \<in> set ?missing \<longleftrightarrow> s_status s = SRunning \<and>
        (\<forall>r \<in> set (ps_runs st). r_id r \<noteq> s_pipelineRunId s)"
    if "s \<in> set (ps_stages st)" for s
    using that distinct_key_eq [OF assms(1), of s] by auto
  have st': "st' = st\<lparr>ps_stages := delete_where (\<lambda>s. s_id s \<in> set ?missing)
      (update_where (\<lambda>s. s_id s \<in> set ?ended) ?cancel (ps_stages st))\<rparr>"
    using assms(2) by (auto simp: sweepOrphanStageRuns_def Let_def)
  have "delete_where (\<lambda>s. s_id s \<in> set ?missing)
      (update_where (\<lambda>s. s_id s \<in> set ?ended) ?cancel (ps_stages st)) =
    map (\<lambda>s. if s_id s \<in> set ?ended then ?cancel s else s)
      (filter (\<lambda>s. s_id s \<notin> set ?missing) (ps_stages st))"
    by (auto simp: delete_where_def update_where_def filter_map o_def intro!: arg_cong2 [where f = map] filter_cong)
  also have "\<dots> = List.map_filter (\<lambda>s. if s_id s \<notin> set ?missing
      then Some (if s_id s \<in> set ?ended then ?cancel s else s) else None) (ps_stages st)"
    by (rule List.map_filter_map_filter)
  also have "\<dots> = List.map_filter (swept now (ps_runs st)) (ps_stages st)"
    by (rule map_filter_cong) (use key in \<open>auto simp: swept_def live_parent_def image_iff\<close>)
  finally have rows: "ps_stages st' = List.map_filter (swept now (ps_runs st)) (ps_stages st)"
    by (simp add: st')
  have runs: "ps_runs st' = ps_runs st" by (simp add: st')
  have live: "\<forall>s \<in> set (ps_stages st'). s_status s = SRunning \<longrightarrow> live_parent (ps_runs st') s"
    unfolding rows runs by (auto simp: List.map_filter_def swept_def split: if_splits)
  have none: "filter (\<lambda>s. \<exists>r \<in> set (ps_runs st'). r_id r = s_pipelineRunId s \<and>
        r_status r \<in> TERMINAL_PARENT_STATUSES) (filter (\<lambda>s. s_status s = SRunning) (ps_stages st')) = []"
      "filter (\<lambda>s. \<forall>r \<in> set (ps_runs st'). r_id r \<noteq> s_pipelineRunId s)
        (filter (\<lambda>s. s_status s = SRunning) (ps_stages st')) = []"
    using live by (auto simp: filter_empty_conv live_parent_def)
  have "sweepOrphanStageRuns t st' = ((0, 0), st')"
    unfolding sweepOrphanStageRuns_def Let_def none by (simp add: delete_where_def update_where_def)
  with rows live show ?thesis by blast
qed

definition demo_stage_row :: "string \<Rightarrow> run_id \<Rightarrow> stage_row" where
  "demo_stage_row i rid = \<lparr>s_id = i, s_pipelineRunId = rid, s_stage = ''test'', s_status = SRunning,
     s_startedAt = 0, s_completedAt = None, s_inputTokens = 0, s_outputTokens = 0\<rparr>"

definition demo_orphans :: pm_state where
  "demo_orphans = (demo_pm_state [demo_pm_run ''r1'' ''A'' Running 5, demo_pm_run ''r2'' ''B'' Aborted 5])
     \<lparr>ps_stages := [demo_stage_row ''s1'' ''r1'', demo_stage_row ''s2'' ''r2'', demo_stage_row ''s3'' ''r3'']\<rparr>"

theorem orphan_sweep_exact_witness:
  "map (\<lambda>s. (s_id s, s_status s)) (ps_stages (snd (sweepOrphanStageRuns 9 demo_orphans))) =
     [(''s1'', SRunning), (''s2'', SCancelled)]"
proof -
  obtain counts st' where run: "sweepOrphanStageRuns 9 demo_orphans = (counts, st')" by fastforce
  have "distinct (map s_id (ps_stages demo_orphans))" by code_simp
  note rows = orphan_sweep_exact [OF this run, THEN conjunct1]
  show ?thesis unfolding run snd_conv rows by code_simp
qed

section \<open>Approvals\<close>

text \<open>What a tick decides about a pending request: whether it is too old, and what the reactions say.\<close>

definition approval_verdict :: "resolve_input \<Rightarrow> millis \<Rightarrow> pm_approval \<Rightarrow> approval_status" where
  "approval_verdict inp now a =
     (if APPROVAL_TIMEOUT_MS < now - ap_createdAt a then Expired
      else (case rz_reaction inp (ap_slackTs a) of
        Some ReactApproved \<Rightarrow> Approved | Some ReactRejected \<Rightarrow> Rejected | _ \<Rightarrow> ApprovalPending))"

definition settle_approval :: "resolve_input \<Rightarrow> millis \<Rightarrow> pm_approval \<Rightarrow> pm_approval" where
  "settle_approval inp now a =
     (if ap_status a = ApprovalPending \<and> approval_verdict inp now a \<noteq> ApprovalPending
      then a\<lparr>ap_status := approval_verdict inp now a, ap_resolvedAt := Some now\<rparr> else a)"

definition moves_to :: "(issue_id \<Rightarrow> string option option) \<Rightarrow> (string, string) js_map \<Rightarrow> pm_approval \<Rightarrow>
    string list \<Rightarrow> pm_call \<Rightarrow> bool" where
  "moves_to search sm a teams c \<longleftrightarrow> (\<forall>i s. c = SetState i s \<longrightarrow> search (ap_issueId a) = Some (Some i) \<and>
     (\<exists>t \<in> set teams. mapGet sm (t @ '':'' @ target_name (ap_action a)) = Some s))"

lemma moves_to_Cons: "moves_to search sm a ts c \<Longrightarrow> moves_to search sm a (t # ts) c"
  by (auto simp: moves_to_def)

lemma execute_action_calls:
  "\<exists>cs. ps_calls (snd (execute_action ans search sm a teams st)) = ps_calls st @ cs \<and>
     list_all (moves_to search sm a teams) cs"
proof (induction teams arbitrary: st)
  case (Cons t ts)
  have IH: "\<exists>cs. ps_calls (snd (execute_action ans search sm a ts st1)) = ps_calls st1 @ cs \<and>
      list_all (moves_to search sm a (t # ts)) cs" for st1
    using Cons [of st1] by (auto simp: list_all_iff intro: moves_to_Cons)
  show ?case
  proof (cases "mapGet sm (t @ '':'' @ target_name (ap_action a))")
    case None
    then show ?thesis using IH [of st] by simp
  next
    case (Some sid)
    show ?thesis
    proof (cases "sid = [] \<or> search (ap_issueId a) = None \<or> search (ap_issueId a) = Some None")
      case True
      then show ?thesis using Some IH [of st] by (auto intro: exI [of _ "[]"])
    next
      case False
      then obtain i where i: "search (ap_issueId a) = Some (Some i)" "sid \<noteq> []" by auto
      have to: "moves_to search sm a (t # ts) (SetState i sid)"
        "moves_to search sm a (t # ts) (Comment i c)" for c
        using Some i by (auto simp: moves_to_def)
      let ?st1 = "say (SetState i sid) st"
      let ?st2 = "say (Comment i (ApprovalComment (ap_action a))) ?st1"
      obtain cs1 where cs1: "ps_calls (snd (execute_action ans search sm a ts ?st1)) = ps_calls ?st1 @ cs1"
        "list_all (moves_to search sm a (t # ts)) cs1" using IH [of ?st1] by blast
      obtain cs2 where cs2: "ps_calls (snd (execute_action ans search sm a ts ?st2)) = ps_calls ?st2 @ cs2"
        "list_all (moves_to search sm a (t # ts)) cs2" using IH [of ?st2] by blast
      show ?thesis
        using Some i cs1 cs2 to by (simp add: Let_def)
    qed
  qed
qed simp

lemma execute_action_frame [simp]:
  "ps_approvals (snd (execute_action ans search sm a teams st)) = ps_approvals st"
  "ps_nextId (snd (execute_action ans search sm a teams st)) = ps_nextId st"
  by (induction teams arbitrary: st) (simp_all add: Let_def split: option.split)

lemma set_approval_simps [simp]:
  "ps_calls (set_approval i s now st) = ps_calls st" "ps_nextId (set_approval i s now st) = ps_nextId st"
  "ps_audits (set_approval i s now st) = ps_audits st"
  by (simp_all add: set_approval_def)

text \<open>One request: its row gets the verdict, and Linear is called on only when it is approved.\<close>

lemma resolve_one_effect:
  assumes "resolve_one inp ans now a st = (counts, st')" "ap_status a = ApprovalPending"
  shows "ps_approvals st' = (if approval_verdict inp now a = ApprovalPending then ps_approvals st
      else update_where (\<lambda>r. ap_id r = ap_id a)
        (\<lambda>r. r\<lparr>ap_status := approval_verdict inp now a, ap_resolvedAt := Some now\<rparr>) (ps_approvals st))"
    "ps_nextId st' = ps_nextId st"
    "\<exists>cs. ps_calls st' = ps_calls st @ cs \<and>
       (\<forall>c \<in> set cs. is_move c \<longrightarrow> approval_verdict inp now a = Approved \<and>
          moves_to (rz_search inp) (rz_stateMap inp) a (rz_teams inp) c)"
proof -
  obtain ex st1 where act: "execute_action ans (rz_search inp) (rz_stateMap inp) a (rz_teams inp)
      (set_approval (ap_id a) Approved now st) = (ex, st1)" by fastforce
  from execute_action_calls [of ans "rz_search inp" "rz_stateMap inp" a "rz_teams inp"
      "set_approval (ap_id a) Approved now st"] act
  obtain cs where cs: "ps_calls st1 = ps_calls st @ cs"
    "list_all (moves_to (rz_search inp) (rz_stateMap inp) a (rz_teams inp)) cs" by auto
  have frame: "ps_approvals st1 = ps_approvals (set_approval (ap_id a) Approved now st)"
    "ps_nextId st1 = ps_nextId st"
    using execute_action_frame [of ans "rz_search inp" "rz_stateMap inp" a "rz_teams inp"
        "set_approval (ap_id a) Approved now st"] act by simp_all
  show "ps_approvals st' = (if approval_verdict inp now a = ApprovalPending then ps_approvals st
      else update_where (\<lambda>r. ap_id r = ap_id a)
        (\<lambda>r. r\<lparr>ap_status := approval_verdict inp now a, ap_resolvedAt := Some now\<rparr>) (ps_approvals st))"
    "ps_nextId st' = ps_nextId st"
    using assms(1) act frame
    by (auto simp: resolve_one_def approval_verdict_def set_approval_def Let_def
        split: option.splits reaction.splits if_splits approval_action.splits)
  show "\<exists>cs. ps_calls st' = ps_calls st @ cs \<and>
      (\<forall>c \<in> set cs. is_move c \<longrightarrow> approval_verdict inp now a = Approved \<and>
         moves_to (rz_search inp) (rz_stateMap inp) a (rz_teams inp) c)"
    using assms(1) act cs
    by (auto simp: resolve_one_def approval_verdict_def Let_def list_all_iff
        split: option.splits reaction.splits if_splits approval_action.splits)
qed

definition record_verdict :: "resolve_input \<Rightarrow> millis \<Rightarrow> pm_approval \<Rightarrow> pm_approval list \<Rightarrow> pm_approval list" where
  "record_verdict inp now a rows =
     (if approval_verdict inp now a = ApprovalPending then rows
      else update_where (\<lambda>r. ap_id r = ap_id a)
        (\<lambda>r. r\<lparr>ap_status := approval_verdict inp now a, ap_resolvedAt := Some now\<rparr>) rows)"

lemma resolve_loop_effect:
  assumes "resolve_loop inp ans now as st = (counts, st')" "\<forall>a \<in> set as. ap_status a = ApprovalPending"
  shows "ps_approvals st' = fold (record_verdict inp now) as (ps_approvals st) \<and>
    ps_nextId st' = ps_nextId st \<and>
    (\<exists>cs. ps_calls st' = ps_calls st @ cs \<and> (\<forall>c \<in> set cs. is_move c \<longrightarrow> (\<exists>a \<in> set as.
       approval_verdict inp now a = Approved \<and>
       moves_to (rz_search inp) (rz_stateMap inp) a (rz_teams inp) c)))"
  using assms
proof (induction as arbitrary: st counts)
  case Nil
  then show ?case by simp
next
  case (Cons a rest)
  obtain c1 st1 where one: "resolve_one inp ans now a st = (c1, st1)" by fastforce
  obtain c2 st2 where loop: "resolve_loop inp ans now rest st1 = (c2, st2)" by fastforce
  have end_state: "st' = st2"
    using Cons.prems(1) one loop by (auto split: prod.splits)
  have pending: "ap_status a = ApprovalPending" "\<forall>a \<in> set rest. ap_status a = ApprovalPending"
    using Cons.prems(2) by auto
  note e1 = resolve_one_effect [OF one pending(1)]
  note e2 = Cons.IH [OF loop [folded end_state] pending(2)]
  from e1(3) obtain cs1 where cs1: "ps_calls st1 = ps_calls st @ cs1"
    "\<forall>c \<in> set cs1. is_move c \<longrightarrow> approval_verdict inp now a = Approved \<and>
       moves_to (rz_search inp) (rz_stateMap inp) a (rz_teams inp) c" by blast
  from e2 obtain cs2 where cs2: "ps_calls st' = ps_calls st1 @ cs2"
    "\<forall>c \<in> set cs2. is_move c \<longrightarrow> (\<exists>a \<in> set rest. approval_verdict inp now a = Approved \<and>
       moves_to (rz_search inp) (rz_stateMap inp) a (rz_teams inp) c)" by blast
  have "ps_calls st' = ps_calls st @ (cs1 @ cs2) \<and> (\<forall>c \<in> set (cs1 @ cs2). is_move c \<longrightarrow>
      (\<exists>a \<in> set (a # rest). approval_verdict inp now a = Approved \<and>
       moves_to (rz_search inp) (rz_stateMap inp) a (rz_teams inp) c))"
    using cs1 cs2 by auto
  moreover have "ps_approvals st' = fold (record_verdict inp now) (a # rest) (ps_approvals st)"
    "ps_nextId st' = ps_nextId st"
    using e1(1,2) e2 by (simp_all add: record_verdict_def [of inp now a])
  ultimately show ?case by blast
qed

lemma ap_id_settle [simp]: "ap_id (settle_approval inp now a) = ap_id a"
  by (simp add: settle_approval_def)

lemma record_verdicts:
  assumes "distinct (map ap_id base)" "distinct as" "set as \<subseteq> set base"
    "\<forall>a \<in> set as. ap_status a = ApprovalPending"
  shows "fold (record_verdict inp now) as base =
    map (\<lambda>r. if r \<in> set as then settle_approval inp now r else r) base"
  using assms(2-4)
proof (induction as rule: rev_induct)
  case Nil
  then show ?case by simp
next
  case (snoc a as)
  have same: "ap_id r = ap_id a \<longleftrightarrow> r = a" if "r \<in> set base" for r
    using distinct_key_eq [OF assms(1) that, of a] snoc.prems(2) by auto
  have "fold (record_verdict inp now) (as @ [a]) base = record_verdict inp now a
      (map (\<lambda>r. if r \<in> set as then settle_approval inp now r else r) base)"
    using snoc by simp
  also have "\<dots> = map (\<lambda>r. if r \<in> set (as @ [a]) then settle_approval inp now r else r) base"
    using snoc.prems same
    by (auto simp: record_verdict_def update_where_def settle_approval_def [of inp now a])
  finally show ?case .
qed

lemma resolved_effect:
  fixes st :: pm_state
  defines "pending \<equiv> filter (\<lambda>a. ap_status a = ApprovalPending) (ps_approvals st)"
  shows "ps_approvals (snd (resolveApprovals inp ans now st)) =
      fold (record_verdict inp now) pending (ps_approvals st)"
    "ps_nextId (snd (resolveApprovals inp ans now st)) = ps_nextId st"
    "\<exists>cs. ps_calls (snd (resolveApprovals inp ans now st)) = ps_calls st @ cs \<and>
       (\<forall>c \<in> set cs. is_move c \<longrightarrow> (\<exists>a \<in> set pending. approval_verdict inp now a = Approved \<and>
          moves_to (rz_search inp) (rz_stateMap inp) a (rz_teams inp) c))"
proof -
  obtain counts st1 where loop: "resolve_loop inp ans now pending st = (counts, st1)" by fastforce
  then have st1: "snd (resolveApprovals inp ans now st) = st1"
    by (auto simp: resolveApprovals_def Let_def pending_def split: prod.split)
  show "ps_approvals (snd (resolveApprovals inp ans now st)) =
      fold (record_verdict inp now) pending (ps_approvals st)"
    "ps_nextId (snd (resolveApprovals inp ans now st)) = ps_nextId st"
    "\<exists>cs. ps_calls (snd (resolveApprovals inp ans now st)) = ps_calls st @ cs \<and>
       (\<forall>c \<in> set cs. is_move c \<longrightarrow> (\<exists>a \<in> set pending. approval_verdict inp now a = Approved \<and>
          moves_to (rz_search inp) (rz_stateMap inp) a (rz_teams inp) c))"
    using resolve_loop_effect [OF loop] unfolding st1 by (simp_all add: pending_def)
qed

lemma resolved_rows:
  assumes "distinct (map ap_id (ps_approvals st))"
  shows "ps_approvals (snd (resolveApprovals inp ans now st)) = map (settle_approval inp now) (ps_approvals st)"
proof -
  let ?pending = "filter (\<lambda>a. ap_status a = ApprovalPending) (ps_approvals st)"
  have "distinct ?pending" using assms by (simp add: distinct_map)
  then have "ps_approvals (snd (resolveApprovals inp ans now st)) =
      map (\<lambda>r. if r \<in> set ?pending then settle_approval inp now r else r) (ps_approvals st)"
    unfolding resolved_effect(1) by (intro record_verdicts [OF assms]) simp_all
  also have "\<dots> = map (settle_approval inp now) (ps_approvals st)"
    by (rule map_cong) (simp_all add: settle_approval_def)
  finally show ?thesis .
qed

text \<open>
  C34. Resolving the approvals gives every pending request its verdict and leaves the others as they are: it
  expires after 48 hours, and within them the reactions decide. Linear is asked to move an issue only for
  a request that is approved in this tick, to the state the request was for; since the request is then no
  longer pending, no later tick acts on it again.
\<close>
theorem approvals_resolved_exactly:
  assumes "distinct (map ap_id (ps_approvals st))"
  shows "ps_approvals (snd (resolveApprovals inp ans now st)) =
      map (settle_approval inp now) (ps_approvals st) \<and>
    (\<forall>i s. SetState i s \<in> set (new_calls st (snd (resolveApprovals inp ans now st))) \<longrightarrow>
      (\<exists>a \<in> set (ps_approvals st). ap_status a = ApprovalPending \<and>
        now - ap_createdAt a \<le> APPROVAL_TIMEOUT_MS \<and>
        rz_reaction inp (ap_slackTs a) = Some ReactApproved \<and>
        rz_search inp (ap_issueId a) = Some (Some i) \<and>
        (\<exists>t \<in> set (rz_teams inp). mapGet (rz_stateMap inp) (t @ '':'' @ target_name (ap_action a)) = Some s)))"
proof -
  let ?st1 = "snd (resolveApprovals inp ans now st)"
  obtain cs where cs: "ps_calls ?st1 = ps_calls st @ cs"
    "\<forall>c \<in> set cs. is_move c \<longrightarrow> (\<exists>a \<in> set (filter (\<lambda>a. ap_status a = ApprovalPending) (ps_approvals st)).
       approval_verdict inp now a = Approved \<and>
       moves_to (rz_search inp) (rz_stateMap inp) a (rz_teams inp) c)"
    using resolved_effect(3) by blast
  have "\<exists>a \<in> set (ps_approvals st). ap_status a = ApprovalPending \<and>
      now - ap_createdAt a \<le> APPROVAL_TIMEOUT_MS \<and>
      rz_reaction inp (ap_slackTs a) = Some ReactApproved \<and>
      rz_search inp (ap_issueId a) = Some (Some i) \<and>
      (\<exists>t \<in> set (rz_teams inp). mapGet (rz_stateMap inp) (t @ '':'' @ target_name (ap_action a)) = Some s)"
    if call: "SetState i s \<in> set (new_calls st ?st1)" for i s
  proof -
    have "SetState i s \<in> set cs" using call by (simp add: new_calls_append [OF cs(1)])
    with cs(2) obtain a where a: "a \<in> set (ps_approvals st)" "ap_status a = ApprovalPending"
      "approval_verdict inp now a = Approved"
      "moves_to (rz_search inp) (rz_stateMap inp) a (rz_teams inp) (SetState i s)"
      by fastforce
    have "now - ap_createdAt a \<le> APPROVAL_TIMEOUT_MS \<and> rz_reaction inp (ap_slackTs a) = Some ReactApproved"
      using a(3) by (auto simp: approval_verdict_def split: if_splits option.splits reaction.splits)
    with a show ?thesis by (intro bexI [of _ a]) (simp_all add: moves_to_def)
  qed
  with resolved_rows [OF assms] show ?thesis by blast
qed

section \<open>One open request per issue and action\<close>

definition open_requests :: "pm_state \<Rightarrow> (issue_id \<times> approval_action) list" where
  "open_requests st = map (\<lambda>a. (ap_issueId a, ap_action a))
     (filter (\<lambda>a. ap_status a = ApprovalPending) (ps_approvals st))"

definition approvals_ok :: "pm_state \<Rightarrow> bool" where
  "approvals_ok st \<longleftrightarrow> distinct (map ap_id (ps_approvals st)) \<and>
     (\<forall>a \<in> set (ps_approvals st). ap_id a < ps_nextId st) \<and> distinct (open_requests st)"

lemma insert_request:
  assumes "insertApprovalRequest ans now i action st = (ok, st')" "approvals_ok st"
    "(i, action) \<notin> set (open_requests st)"
  shows "approvals_ok st' \<and> set (open_requests st') \<subseteq> insert (i, action) (set (open_requests st)) \<and>
    ps_calls st' = ps_calls st @ [AskApproval i action]"
  using assms
  by (force simp: insertApprovalRequest_def Let_def approvals_ok_def open_requests_def split: if_splits)

lemma request_loop_ok:
  assumes "approvals_ok st" "distinct is"
    "\<forall>i \<in> set is. i \<notin> pending \<longrightarrow> (i, action) \<notin> set (open_requests st)"
  shows "approvals_ok (snd (request_loop ans now pending action is st)) \<and>
    ps_calls (snd (request_loop ans now pending action is st)) =
      ps_calls st @ map (\<lambda>i. AskApproval i action) (filter (\<lambda>i. i \<notin> pending) is)"
  using assms
proof (induction "is" arbitrary: st)
  case Nil
  then show ?case by simp
next
  case (Cons i rest)
  show ?case
  proof (cases "i \<in> pending")
    case True
    then show ?thesis using Cons by simp
  next
    case False
    obtain ok st1 where one: "insertApprovalRequest ans now i action st = (ok, st1)" by fastforce
    from insert_request [OF this Cons.prems(1)] Cons.prems(3) False
    have st1: "approvals_ok st1" "set (open_requests st1) \<subseteq> insert (i, action) (set (open_requests st))"
      "ps_calls st1 = ps_calls st @ [AskApproval i action]" by auto
    have "\<forall>j \<in> set rest. j \<notin> pending \<longrightarrow> (j, action) \<notin> set (open_requests st1)"
      using st1(2) Cons.prems(2,3) by auto
    with Cons.IH [OF st1(1)] Cons.prems(2) st1(3) one False show ?thesis
      by (simp add: case_prod_beta)
  qed
qed

lemma fetched_pending:
  "i \<in> set ids \<Longrightarrow> i \<notin> batchFetchPendingApprovals ids action (ps_approvals st) \<longleftrightarrow>
     (i, action) \<notin> set (open_requests st)"
  by (auto simp: batchFetchPendingApprovals_def open_requests_def)

lemma settle_pending:
  "ap_status (settle_approval inp now a) = ApprovalPending \<longleftrightarrow>
     ap_status a = ApprovalPending \<and> approval_verdict inp now a = ApprovalPending"
  "ap_status (settle_approval inp now a) = ApprovalPending \<Longrightarrow> settle_approval inp now a = a"
  by (auto simp: settle_approval_def)

lemma resolve_open:
  assumes "distinct (map ap_id (ps_approvals st))"
  shows "open_requests (snd (resolveApprovals inp ans now st)) =
    map (\<lambda>a. (ap_issueId a, ap_action a)) (filter (\<lambda>a. ap_status a = ApprovalPending \<and>
      approval_verdict inp now a = ApprovalPending) (ps_approvals st))"
proof -
  have "open_requests (snd (resolveApprovals inp ans now st)) =
      map ((\<lambda>a. (ap_issueId a, ap_action a)) \<circ> settle_approval inp now)
        (filter (\<lambda>a. ap_status (settle_approval inp now a) = ApprovalPending) (ps_approvals st))"
    by (simp add: open_requests_def resolved_rows [OF assms] filter_map o_def)
  also have "\<dots> = map (\<lambda>a. (ap_issueId a, ap_action a)) (filter (\<lambda>a. ap_status a = ApprovalPending \<and>
      approval_verdict inp now a = ApprovalPending) (ps_approvals st))"
    unfolding settle_pending(1) by (rule map_cong [OF refl]) (simp add: settle_approval_def)
  finally show ?thesis .
qed

lemma resolve_keeps_ok: "approvals_ok st \<Longrightarrow> approvals_ok (snd (resolveApprovals inp ans now st))"
proof -
  assume ok: "approvals_ok st"
  then have ids: "distinct (map ap_id (ps_approvals st))" by (simp add: approvals_ok_def)
  have "distinct (map (\<lambda>a. (ap_issueId a, ap_action a)) (filter (\<lambda>a. ap_status a = ApprovalPending \<and>
      approval_verdict inp now a = ApprovalPending) (ps_approvals st)))"
    using ok distinct_map_filter [of "\<lambda>a. (ap_issueId a, ap_action a)"
        "filter (\<lambda>a. ap_status a = ApprovalPending) (ps_approvals st)"
        "\<lambda>a. approval_verdict inp now a = ApprovalPending"]
    by (simp add: approvals_ok_def open_requests_def conj_commute)
  with ok ids show ?thesis
    by (simp add: approvals_ok_def resolve_open resolved_rows resolved_effect(2) o_def)
qed

lemma deprioritize_ok: "approvals_ok st \<Longrightarrow> distinct (map li_identifier stale) \<Longrightarrow>
   approvals_ok (snd (deprioritizeStaleIssues ans now stale st))"
  using request_loop_ok [of st "map li_identifier stale"]
  by (simp add: deprioritizeStaleIssues_def Let_def fetched_pending)

lemma cancel_ok:
  assumes "approvals_ok st" "distinct (map li_identifier (backlog @ icebox))"
  shows "approvals_ok (snd (cancelAbandonedIssues ans now backlog icebox st))"
proof -
  let ?old = "map li_identifier (filter (\<lambda>i. \<not> has_recent_comment now i) (backlog @ icebox))"
  have sub: "distinct ?old" using assms(2) by (rule distinct_map_filter)
  have "\<forall>i \<in> set ?old. i \<notin> batchFetchPendingApprovals (map li_identifier (backlog @ icebox)) CancelIssue
      (ps_approvals st) \<longrightarrow> (i, CancelIssue) \<notin> set (open_requests st)"
    by (auto simp: fetched_pending)
  from request_loop_ok [OF assms(1) sub this] show ?thesis
    by (simp add: cancelAbandonedIssues_def Let_def)
qed

text \<open>
  The requests stay in order: ids name one row each, and there is at most one open request for an issue
  and an action. Asking for deprioritisations and for cancellations keeps this, as long as Linear lists an
  issue once, and so does resolving.
\<close>
theorem one_open_request:
  assumes "approvals_ok st" "distinct (map li_identifier stale)"
    "distinct (map li_identifier (backlog @ icebox))"
  shows "approvals_ok (snd (deprioritizeStaleIssues ans now stale st)) \<and>
    approvals_ok (snd (cancelAbandonedIssues ans now backlog icebox st)) \<and>
    approvals_ok (snd (resolveApprovals inp ans now st))"
  using assms by (simp add: deprioritize_ok cancel_ok resolve_keeps_ok del: map_append)

text \<open>
  A rejection does not end the matter: once the open request for an issue is rejected or expires, the next
  tick that lists the issue as stale posts a new request, and so on after each rejection.
\<close>
theorem rejected_request_asked_again:
  assumes "approvals_ok st" "distinct (map li_identifier stale)" "issue \<in> set stale"
    "\<forall>a \<in> set (ps_approvals st). ap_issueId a = li_identifier issue \<and> ap_action a = Deprioritize \<longrightarrow>
       approval_verdict inp now a \<noteq> ApprovalPending"
    "st1 = snd (resolveApprovals inp ans now st)"
  shows "AskApproval (li_identifier issue) Deprioritize \<in>
    set (new_calls st1 (snd (deprioritizeStaleIssues ans t stale st1)))"
proof -
  let ?ids = "map li_identifier stale"
  let ?pending = "batchFetchPendingApprovals ?ids Deprioritize (ps_approvals st1)"
  have ok: "approvals_ok st1" using assms(1) by (simp add: assms(5) resolve_keeps_ok)
  have "distinct (map ap_id (ps_approvals st))" using assms(1) by (simp add: approvals_ok_def)
  then have "(li_identifier issue, Deprioritize) \<notin> set (open_requests st1)"
    using assms(4) by (auto simp: assms(5) resolve_open)
  then have new: "li_identifier issue \<notin> ?pending"
    using assms(3) by (simp add: fetched_pending)
  have "ps_calls (snd (deprioritizeStaleIssues ans t stale st1)) = ps_calls st1 @
      map (\<lambda>i. AskApproval i Deprioritize) (filter (\<lambda>i. i \<notin> ?pending) ?ids)"
    using request_loop_ok [OF ok assms(2), of ?pending Deprioritize ans t]
    by (simp add: deprioritizeStaleIssues_def Let_def fetched_pending)
  from new_calls_append [OF this] new assms(3) show ?thesis by auto
qed

definition demo_request :: "issue_id \<Rightarrow> nat \<Rightarrow> millis \<Rightarrow> pm_approval" where
  "demo_request i n t = \<lparr>ap_id = n, ap_issueId = i, ap_action = Deprioritize, ap_slackTs = ''ts'',
     ap_status = ApprovalPending, ap_createdAt = t, ap_resolvedAt = None\<rparr>"

definition demo_asked :: pm_state where
  "demo_asked = (demo_pm_state [])\<lparr>ps_approvals := [demo_request ''A'' 0 5], ps_nextId := 1\<rparr>"

definition demo_reactions :: "reaction \<Rightarrow> resolve_input" where
  "demo_reactions r = \<lparr>rz_teams = [''T''], rz_stateMap = [(''T:Icebox'', ''s9'')],
     rz_search = (\<lambda>i. Some (Some (''id-'' @ i))), rz_reaction = (\<lambda>ts. Some r)\<rparr>"

lemma demo_asked_ok: "approvals_ok demo_asked"
  unfolding approvals_ok_def by code_simp

theorem approvals_resolved_exactly_witness:
  "map ap_status (ps_approvals (snd (resolveApprovals (demo_reactions ReactApproved) (\<lambda>c. None) 10 demo_asked))) =
     [Approved]"
proof -
  have "distinct (map ap_id (ps_approvals demo_asked))" by code_simp
  note rows = approvals_resolved_exactly [OF this, THEN conjunct1]
  show ?thesis unfolding rows by code_simp
qed

theorem one_open_request_witness:
  "approvals_ok (snd (deprioritizeStaleIssues (\<lambda>c. None) 10 [demo_todo ''A'', demo_todo ''B''] demo_asked)) \<and>
   approvals_ok (snd (cancelAbandonedIssues (\<lambda>c. None) 10 [demo_todo ''A''] [demo_todo ''B''] demo_asked)) \<and>
   approvals_ok (snd (resolveApprovals (demo_reactions ReactApproved) (\<lambda>c. None) 10 demo_asked))"
proof (rule one_open_request)
  show "approvals_ok demo_asked" by (rule demo_asked_ok)
  show "distinct (map li_identifier [demo_todo ''A'', demo_todo ''B''])" by code_simp
  show "distinct (map li_identifier ([demo_todo ''A''] @ [demo_todo ''B'']))" by code_simp
qed

theorem rejected_request_asked_again_witness:
  "AskApproval ''A'' Deprioritize \<in> set (new_calls
     (snd (resolveApprovals (demo_reactions ReactRejected) (\<lambda>c. None) 10 demo_asked))
     (snd (deprioritizeStaleIssues (\<lambda>c. None) 20 [demo_todo ''A'']
        (snd (resolveApprovals (demo_reactions ReactRejected) (\<lambda>c. None) 10 demo_asked)))))"
proof -
  have rejected: "\<forall>a \<in> set (ps_approvals demo_asked).
      ap_issueId a = li_identifier (demo_todo ''A'') \<and> ap_action a = Deprioritize \<longrightarrow>
      approval_verdict (demo_reactions ReactRejected) 10 a \<noteq> ApprovalPending"
    by code_simp
  have "AskApproval (li_identifier (demo_todo ''A'')) Deprioritize \<in> set (new_calls
     (snd (resolveApprovals (demo_reactions ReactRejected) (\<lambda>c. None) 10 demo_asked))
     (snd (deprioritizeStaleIssues (\<lambda>c. None) 20 [demo_todo ''A'']
        (snd (resolveApprovals (demo_reactions ReactRejected) (\<lambda>c. None) 10 demo_asked)))))"
    by (rule rejected_request_asked_again [OF demo_asked_ok _ _ rejected refl]) simp_all
  then show ?thesis by (simp add: demo_todo_def)
qed

end
