(* ===== verification/PmTick.thy ===== *)
theory PmTick
  imports PmApprovalProps
begin

text \<open>
  One tick of the PM agent (\<open>pm/scheduler.ts\<close>) as the composition of its actions, in the order of the
  code. What the outside answers during the tick is its environment: the lock, the lists of issues, the
  errors of calls, the licence. The recovery of retriable runs (modelled with the runner) and the triage are
  functions of the environment; the reports at the end of the tick (digest, retention, rollups) are left
  out. Deprioritising and cancelling run at the same time in the code; they work on different requests and
  are run one after the other here.
\<close>

section \<open>Environment and result\<close>

text \<open>Where a tick asks whether the agent is paused; the answer may change while it runs.\<close>

datatype pause_point = PauseRecover | PauseStart | PauseReport | PausePromote | PauseApprovals

record tick_env =
  te_now :: millis
  te_pct :: percentage
  te_config :: pm_config
  te_lock :: "bool option"
  te_paused :: "pause_point \<Rightarrow> bool"
  te_postAlert :: "(scope_budget \<Rightarrow> nat \<Rightarrow> bool) option"
  te_recover :: "run_row list \<Rightarrow> run_row list option"
  te_triage :: "linear_issue list option"
  te_stateMap :: "(string, string) js_map option"
  te_stuckAge :: "string option"
  te_probeEnv :: "string \<Rightarrow> string option"
  te_labels :: label_source
  te_runner :: bool
  te_pipelines :: "configs option"
  te_repos :: "(string, repo_config) js_map option"
  te_inProgress :: "linear_issue list option"
  te_todo :: "linear_issue list option"
  te_backlog :: "linear_issue list option"
  te_stale :: "linear_issue list option"
  te_abandoned :: "(linear_issue list \<times> linear_issue list) option"
  te_allLabels :: "(string \<times> string) list option"
  te_conflictLicensed :: bool
  te_conflict :: "string \<Rightarrow> overlap_risk option"
  te_approvalsLicensed :: bool
  te_search :: "issue_id \<Rightarrow> string option option"
  te_reaction :: "string \<Rightarrow> reaction option"
  te_answers :: answers

datatype tick_error =
    RecoverError | WorkflowStatesError | RecoverStuckError | StartTodoError | TriageError
  | PromoteError | DeprioritizeError | CancelError

record tick_result =
  tr_blocked :: bool
  tr_reason :: "scope_budget option"
  tr_activeCount :: nat
  tr_recoveredStuck :: "issue_id list"
  tr_startedTodo :: "start_result list"
  tr_triaged :: "linear_issue list"
  tr_resolved :: nat
  tr_pending :: nat
  tr_promoted :: "promote_result list"
  tr_deprioritize :: "issue_id list"
  tr_cancel :: "issue_id list"
  tr_paused :: bool
  tr_errors :: "tick_error list"
  tr_broken :: "broken_issue list"

record tick_state =
  tk_pm :: pm_state
  tk_alerts :: "alert_key list"
  tk_posts :: "(string \<times> nat) list"
  tk_result :: tick_result

definition on_pm :: "(pm_state \<Rightarrow> pm_state) \<Rightarrow> tick_state \<Rightarrow> tick_state" where
  "on_pm f t = t\<lparr>tk_pm := f (tk_pm t)\<rparr>"

definition on_result :: "(tick_result \<Rightarrow> tick_result) \<Rightarrow> tick_state \<Rightarrow> tick_state" where
  "on_result f t = t\<lparr>tk_result := f (tk_result t)\<rparr>"

definition captureTickError :: "tick_error \<Rightarrow> tick_state \<Rightarrow> tick_state" where
  "captureTickError e = on_result (\<lambda>r. r\<lparr>tr_errors := tr_errors r @ [e]\<rparr>)"

section \<open>Configuration of the tick\<close>

text \<open>\<open>parseInt\<close> with its sign: a negative number is raised to one, what is no number is the default.\<close>

definition parseStuckRunAgeMinutes :: "string option \<Rightarrow> nat" where
  "parseStuckRunAgeMinutes envValue =
     (let t = dropWhile is_space (case envValue of None \<Rightarrow> [] | Some v \<Rightarrow> v);
          (negative, u) = (case t of
            c # cs \<Rightarrow> if c = CHR ''-'' then (True, cs) else if c = CHR ''+'' then (False, cs) else (False, t)
          | [] \<Rightarrow> (False, []));
          digits = takeWhile is_digit u
      in if digits = [] then 120
         else if negative then 1 else max 1 (parse_nat digits))"

definition tick_threshold :: "tick_env \<Rightarrow> nat option" where
  "tick_threshold e =
     (if 0 < pm_maxConsecutiveFailures (te_config e) then Some (pm_maxConsecutiveFailures (te_config e))
      else None)"

definition breaker_threshold :: "tick_env \<Rightarrow> nat" where
  "breaker_threshold e = (case tick_threshold e of Some n \<Rightarrow> n | None \<Rightarrow> 3)"

definition tick_stateMap :: "tick_env \<Rightarrow> (string, string) js_map" where
  "tick_stateMap e = (case te_stateMap e of Some m \<Rightarrow> m | None \<Rightarrow> [])"

section \<open>The phases\<close>

definition refused_audits :: "budget_evaluation \<Rightarrow> pm_audit list" where
  "refused_audits ev =
     (if be_promoteBlocked ev
      then map (\<lambda>s. BudgetRefused (scopeToKey (sb_scope s)) (sb_used s) (sb_limit s) (sb_percent s))
        (filter (\<lambda>s. sb_tier s = Blocked100) (be_scopes ev))
      else [])"

definition budget_phase :: "tick_env \<Rightarrow> budget_evaluation \<Rightarrow> tick_state \<Rightarrow> tick_state" where
  "budget_phase e ev t =
     (let t1 = on_pm (fold audit (refused_audits ev))
            (on_result (\<lambda>r. r\<lparr>tr_blocked := be_promoteBlocked ev, tr_reason := be_blockReason ev,
               tr_activeCount := be_activeCount ev\<rparr>) t);
          maxInFlight = pm_maxInFlight (te_config e)
      in if maxInFlight \<le> be_activeCount ev \<and> \<not> be_promoteBlocked ev
         then on_pm (audit (BudgetRefused ''global'' (be_activeCount ev) maxInFlight 100))
           (on_result (\<lambda>r. r\<lparr>tr_blocked := True\<rparr>) t1)
         else t1)"

definition alert_phase :: "tick_env \<Rightarrow> budget_evaluation \<Rightarrow> tick_state \<Rightarrow> tick_state" where
  "alert_phase e ev t =
     (case te_postAlert e of
        None \<Rightarrow> t
      | Some ok \<Rightarrow>
          (case maybeFireAlerts ok (te_now e) ev (tk_alerts t) of
             (rows, posts) \<Rightarrow> t\<lparr>tk_alerts := rows, tk_posts := tk_posts t @ posts\<rparr>))"

definition recover_phase :: "tick_env \<Rightarrow> tick_state \<Rightarrow> tick_state" where
  "recover_phase e t =
     (case te_recover e (ps_runs (tk_pm t)) of
        None \<Rightarrow> captureTickError RecoverError t
      | Some runs \<Rightarrow> on_pm (\<lambda>p. p\<lparr>ps_runs := runs\<rparr>) t)"

definition states_phase :: "tick_env \<Rightarrow> tick_state \<Rightarrow> tick_state" where
  "states_phase e t = (if te_stateMap e = None then captureTickError WorkflowStatesError t else t)"

definition stuck_phase :: "tick_env \<Rightarrow> tick_state \<Rightarrow> tick_state" where
  "stuck_phase e t =
     (let c = te_config e in
      if \<not> pm_stuckIssueRecovery c \<or> te_paused e PauseRecover then t
      else (case te_inProgress e of
        None \<Rightarrow> captureTickError RecoverStuckError t
      | Some issues \<Rightarrow>
          (case recoverStuckInProgressIssues
             \<lparr>ri_targetState = pm_stuckIssueTargetState c, ri_maxPerTick = pm_stuckIssueMaxPerTick c,
              ri_stuckRunAgeMinutes = parseStuckRunAgeMinutes (te_stuckAge e),
              ri_stateMap = tick_stateMap e\<rparr> (te_answers e) (te_now e) issues (tk_pm t) of
             (rs, p) \<Rightarrow> on_result (\<lambda>r. if rs = [] then r
                 else r\<lparr>tr_recoveredStuck := map sk_identifier rs\<rparr>) (t\<lparr>tk_pm := p\<rparr>))))"

definition sweep_phase :: "tick_env \<Rightarrow> tick_state \<Rightarrow> tick_state" where
  "sweep_phase e = on_pm (snd \<circ> sweepOrphanStageRuns (te_now e))"

text \<open>The probe picks its issues; then breakers whose issue has recovered are closed.\<close>

definition probe_phase :: "tick_env \<Rightarrow> tick_state \<Rightarrow> issue_id set \<times> tick_state" where
  "probe_phase e t =
     (let cfg = getCircuitBreakerProbeConfig (te_probeEnv e) in
      if pb_disabled cfg then ({}, t)
      else (case selectProbeCandidates cfg (breaker_threshold e) (te_now e) (ps_runs (tk_pm t))
                   (ps_breaker (tk_pm t)) of
        (ids, rows, probes) \<Rightarrow>
          (let p1 = fold (\<lambda>(i, n, age, k). audit (BreakerProbe i n age k)) probes
                 ((tk_pm t)\<lparr>ps_breaker := rows\<rparr>);
               rv = sweepRecoveredCircuitBreakers (te_labels e) (breaker_threshold e) (ps_runs p1)
                 \<lparr>rv_rows = ps_breaker p1, rv_labelWrites = [], rv_audits = []\<rparr>;
               p2 = fold (\<lambda>(i, ls). say (SetLabels i ls)) (rv_labelWrites rv)
                 (fold (\<lambda>(i, n). audit (BreakerRecovered i n)) (rv_audits rv)
                    (p1\<lparr>ps_breaker := rv_rows rv\<rparr>))
           in (set ids, t\<lparr>tk_pm := p2\<rparr>))))"

definition slots_available :: "tick_env \<Rightarrow> tick_state \<Rightarrow> nat" where
  "slots_available e t = pm_maxInFlight (te_config e) - tr_activeCount (tk_result t)"

definition start_phase ::
  "tick_env \<Rightarrow> budget_evaluation \<Rightarrow> nat \<Rightarrow> issue_id set \<Rightarrow> tick_state \<Rightarrow> tick_state" where
  "start_phase e ev slots probes t =
     (case (te_pipelines e, te_repos e) of
        (Some pipelines, Some repos) \<Rightarrow>
          if \<not> te_runner e \<or> slots = 0 \<or> tr_blocked (tk_result t) \<or> te_paused e PauseStart then t
          else (case te_todo e of
            None \<Rightarrow> captureTickError StartTodoError t
          | Some todo \<Rightarrow>
              (case startTodoIssues
                 \<lparr>st_maxPerTick = slots, st_budgetBlocked = be_promoteBlocked ev,
                  st_threshold = tick_threshold e, st_probes = probes, st_pipelines = pipelines,
                  st_repos = repos\<rparr> (te_answers e) (te_now e) todo (tk_pm t) of
                 (rs, p) \<Rightarrow> on_result (\<lambda>r. if list_ex sr_started rs then r\<lparr>tr_startedTodo := rs\<rparr> else r)
                   (t\<lparr>tk_pm := p\<rparr>)))
      | _ \<Rightarrow> t)"

definition triage_phase :: "tick_env \<Rightarrow> tick_state \<Rightarrow> tick_state" where
  "triage_phase e t =
     (case te_triage e of
        None \<Rightarrow> captureTickError TriageError t
      | Some issues \<Rightarrow> on_result (\<lambda>r. r\<lparr>tr_triaged := issues\<rparr>) t)"

definition resolve_phase :: "tick_env \<Rightarrow> tick_state \<Rightarrow> tick_state" where
  "resolve_phase e t =
     (case resolveApprovals
        \<lparr>rz_teams = pm_teamIds (te_config e), rz_stateMap = tick_stateMap e, rz_search = te_search e,
         rz_reaction = te_reaction e\<rparr> (te_answers e) (te_now e) (tk_pm t) of
        ((resolved, expired, pending), p) \<Rightarrow>
          on_result (\<lambda>r. r\<lparr>tr_resolved := resolved, tr_pending := pending\<rparr>) (t\<lparr>tk_pm := p\<rparr>))"

definition report_pause :: "tick_env \<Rightarrow> tick_state \<Rightarrow> tick_state" where
  "report_pause e = on_result (\<lambda>r. if te_paused e PauseReport then r\<lparr>tr_paused := True\<rparr> else r)"

definition promote_phase :: "tick_env \<Rightarrow> nat \<Rightarrow> issue_id set \<Rightarrow> tick_state \<Rightarrow> tick_state" where
  "promote_phase e slots probes t =
     (if tr_blocked (tk_result t) \<or> te_paused e PausePromote then t
      else (let inp = \<lparr>pi_slots = slots, pi_requireLabel = pm_requirePipelineLabelForPromote (te_config e),
                 pi_pipelines = te_pipelines e, pi_threshold = tick_threshold e, pi_probes = probes,
                 pi_stateMap = tick_stateMap e,
                 pi_conflict = (if te_conflictLicensed e then te_conflict e else (\<lambda>d. Some RiskNone)),
                 pi_allLabels = te_allLabels e\<rparr>
            in if slots \<noteq> 0 \<and> te_backlog e = None then captureTickError PromoteError t
               else (case promoteReadyIssues inp (te_answers e) (te_now e)
                       (case te_backlog e of Some b \<Rightarrow> b | None \<Rightarrow> []) (tk_pm t) of
                 (None, p) \<Rightarrow> captureTickError PromoteError (t\<lparr>tk_pm := p\<rparr>)
               | (Some rs, p) \<Rightarrow> on_result (\<lambda>r. r\<lparr>tr_promoted := rs\<rparr>) (t\<lparr>tk_pm := p\<rparr>))))"

definition approvals_phase :: "tick_env \<Rightarrow> tick_state \<Rightarrow> tick_state" where
  "approvals_phase e t =
     (if te_paused e PauseApprovals \<or> \<not> te_approvalsLicensed e then t
      else (let t1 = (case te_stale e of
                 None \<Rightarrow> captureTickError DeprioritizeError t
               | Some stale \<Rightarrow>
                   (case deprioritizeStaleIssues (te_answers e) (te_now e) stale (tk_pm t) of
                      (ids, p) \<Rightarrow> on_result (\<lambda>r. r\<lparr>tr_deprioritize := ids\<rparr>) (t\<lparr>tk_pm := p\<rparr>)))
            in case te_abandoned e of
                 None \<Rightarrow> captureTickError CancelError t1
               | Some (backlog, icebox) \<Rightarrow>
                   (case cancelAbandonedIssues (te_answers e) (te_now e) backlog icebox (tk_pm t1) of
                      (ids, p) \<Rightarrow> on_result (\<lambda>r. r\<lparr>tr_cancel := ids\<rparr>) (t1\<lparr>tk_pm := p\<rparr>))))"

definition broken_phase :: "tick_env \<Rightarrow> tick_state \<Rightarrow> tick_state" where
  "broken_phase e t =
     on_result (\<lambda>r. r\<lparr>tr_broken :=
       fetchCircuitBrokenIssues (te_now e) (breaker_threshold e) 7 (ps_runs (tk_pm t))\<rparr>) t"

section \<open>The tick\<close>

text \<open>
  \<open>te_lock\<close> is the answer of the advisory lock: \<open>None\<close> when there is none (SQLite) or it cannot be asked.
  A tick that does not get it does nothing.
\<close>

definition new_result :: tick_result where
  "new_result = \<lparr>tr_blocked = False, tr_reason = None, tr_activeCount = 0, tr_recoveredStuck = [],
     tr_startedTodo = [], tr_triaged = [], tr_resolved = 0, tr_pending = 0, tr_promoted = [],
     tr_deprioritize = [], tr_cancel = [], tr_paused = False, tr_errors = [], tr_broken = []\<rparr>"

definition tick :: "tick_env \<Rightarrow> tick_state \<Rightarrow> tick_state" where
  "tick e t0 =
     (if te_lock e = Some False then t0
      else (let t = t0\<lparr>tk_result := new_result\<rparr>;
                ev = evaluateBudget (te_pct e) (te_config e) (te_now e) (Some (ps_runs (tk_pm t)));
                t1 = sweep_phase e (stuck_phase e (states_phase e (recover_phase e
                  (alert_phase e ev (budget_phase e ev t)))));
                slots = slots_available e t1
            in case probe_phase e t1 of
                 (probes, t2) \<Rightarrow>
                   broken_phase e (approvals_phase e (promote_phase e slots probes
                     (report_pause e (resolve_phase e (triage_phase e
                       (start_phase e ev slots probes t2))))))))"

end
