(* ===== verification/PmTickProps.thy ===== *)
theory PmTickProps
  imports PmTick
begin

text \<open>
  Properties of a whole tick of the PM agent. What the phases have in common is stated once: an invariant of
  the tables and calls that is closed under the elementary changes is kept by every action, as far as it
  makes only calls that the invariant allows.
\<close>

section \<open>Invariants of the actions\<close>

locale action_invariant =
  fixes I :: "pm_state \<Rightarrow> bool" and allowed :: "pm_call \<Rightarrow> bool"
  assumes inv_say: "I st \<Longrightarrow> allowed c \<Longrightarrow> I (say c st)"
    and inv_audit: "I st \<Longrightarrow> I (audit a st)"
    and inv_runs: "I st \<Longrightarrow> I (st\<lparr>ps_runs := runs\<rparr>)"
    and inv_stages: "I st \<Longrightarrow> I (st\<lparr>ps_stages := stages\<rparr>)"
    and inv_breaker: "I st \<Longrightarrow> I (st\<lparr>ps_breaker := rows\<rparr>)"
begin

lemma fold_say: "I st \<Longrightarrow> \<forall>c \<in> set cs. allowed c \<Longrightarrow> I (fold say cs st)"
  by (induction cs arbitrary: st) (simp_all add: inv_say)

lemma fold_audit: "I st \<Longrightarrow> I (fold (\<lambda>x. audit (f x)) xs st)"
  by (induction xs arbitrary: st) (simp_all add: inv_audit)

lemma start_issue_keeps:
  assumes "I st" "\<And>i k r t. allowed (StartRun i k r t)"
  shows "I (snd (start_issue inp ans counts issue st))"
  using assms by (auto simp: start_issue_def Let_def inv_say inv_audit split: option.split prod.split)

lemma start_keeps:
  assumes "I st" "\<And>i k r t. allowed (StartRun i k r t)"
  shows "I (snd (startTodoIssues inp ans now todo st))"
proof -
  have "I (snd (start_loop inp ans counts issues st))" for counts issues
    using assms(1) by (induction issues arbitrary: st)
      (simp_all add: case_prod_beta start_issue_keeps assms(2))
  then show ?thesis using assms(1) by (simp add: startTodoIssues_def Let_def)
qed

lemma escalate_keeps:
  assumes "I st" "\<And>i l. allowed (SetLabels i l)" "\<And>i c. allowed (Comment i c)"
  shows "I (escalate inp ans now n issue st)"
proof -
  have "\<forall>c \<in> set (escalation_calls inp ans n err issue). allowed c" for err
    using assms(2,3) by (auto simp: escalation_calls_def Let_def split: option.split)
  then show ?thesis
    using assms(1) by (simp add: escalate_def Let_def inv_audit inv_breaker fold_say)
qed

lemma promote_issue_keeps:
  assumes "I st" "\<And>i s. allowed (SetState i s)" "\<And>i l. allowed (SetLabels i l)"
    "\<And>i c. allowed (Comment i c)"
  shows "I (snd (promote_issue inp ans now counts issue st))"
  using assms
  by (auto simp: promote_issue_def Let_def inv_say inv_audit escalate_keeps
      split: option.split overlap_risk.split)

lemma promote_keeps:
  assumes "I st" "\<And>i s. allowed (SetState i s)" "\<And>i l. allowed (SetLabels i l)"
    "\<And>i c. allowed (Comment i c)"
  shows "I (snd (promoteReadyIssues inp ans now backlog st))"
proof -
  have "I (snd (promote_loop inp ans now counts k issues st))" for counts k issues
    using assms(1)
  proof (induction issues arbitrary: k st)
    case (Cons issue rest)
    obtain r st1 where one: "promote_issue inp ans now counts issue st = (r, st1)" by fastforce
    have "I st1"
      using promote_issue_keeps [OF Cons.prems assms(2-4), of inp ans now counts issue] one by simp
    with Cons.IH [of st1] Cons.prems one show ?case
      by (auto split: option.split prod.split) (metis snd_conv)+
  qed simp
  then show ?thesis using assms(1) by (simp add: promoteReadyIssues_def Let_def)
qed

lemma recover_issue_keeps:
  assumes "I st" "\<And>i s. allowed (SetState i s)" "\<And>i c. allowed (Comment i c)"
  shows "I (snd (recover_issue inp ans now entry st))"
  using assms
  by (auto simp: recover_issue_def Let_def inv_say inv_audit inv_runs split: prod.split option.split)

lemma recover_keeps:
  assumes "I st" "\<And>i s. allowed (SetState i s)" "\<And>i c. allowed (Comment i c)"
    "\<And>is. allowed (NotifyRecovered is)"
  shows "I (snd (recoverStuckInProgressIssues inp ans now issues st))"
proof -
  have "I (snd (recover_loop inp ans now entries st))" for entries
    using assms(1) by (induction entries arbitrary: st)
      (simp_all add: case_prod_beta recover_issue_keeps assms(2,3))
  then show ?thesis
    using assms(4) by (simp add: recoverStuckInProgressIssues_def Let_def case_prod_beta inv_say)
qed

lemma sweep_keeps: "I st \<Longrightarrow> I (snd (sweepOrphanStageRuns now st))"
  by (simp add: sweepOrphanStageRuns_def Let_def inv_stages)

end

locale call_invariant = action_invariant +
  assumes inv_approvals: "I st \<Longrightarrow> I (st\<lparr>ps_approvals := rows\<rparr>)"
    and inv_nextId: "I st \<Longrightarrow> I (st\<lparr>ps_nextId := n\<rparr>)"
begin

lemma set_approval_keeps: "I st \<Longrightarrow> I (set_approval i s now st)"
  by (simp add: set_approval_def inv_approvals)

lemma execute_keeps:
  assumes "I st" "\<And>i s. allowed (SetState i s)" "\<And>i c. allowed (Comment i c)"
  shows "I (snd (execute_action ans search sm a teams st))"
  using assms(1)
  by (induction teams arbitrary: st) (auto simp: Let_def inv_say assms(2,3) split: option.split)

lemma resolve_one_keeps:
  assumes "I st" "\<And>i s. allowed (SetState i s)" "\<And>i c. allowed (Comment i c)"
    "\<And>i. allowed (NotifyExpired i)"
  shows "I (snd (resolve_one inp ans now a st))"
proof -
  have "I (snd (execute_action ans search sm a teams (set_approval i s now st)))" for search sm teams i s
    using assms by (intro execute_keeps set_approval_keeps) auto
  then show ?thesis
    using assms
    by (auto simp: resolve_one_def Let_def inv_say inv_audit set_approval_keeps case_prod_beta
        split: option.split reaction.split approval_action.split)
qed

lemma resolve_keeps:
  assumes "I st" "\<And>i s. allowed (SetState i s)" "\<And>i c. allowed (Comment i c)"
    "\<And>i. allowed (NotifyExpired i)"
  shows "I (snd (resolveApprovals inp ans now st))"
proof -
  have "I (snd (resolve_loop inp ans now as st))" for as
    using assms(1) by (induction as arbitrary: st)
      (simp_all add: case_prod_beta resolve_one_keeps assms(2-4))
  then show ?thesis by (simp add: resolveApprovals_def Let_def case_prod_beta)
qed

lemma request_loop_keeps:
  assumes "I st" "\<And>i a. allowed (AskApproval i a)"
  shows "I (snd (request_loop ans now pending action is st))"
proof -
  have "I (snd (insertApprovalRequest ans now i action st))" if "I st" for i st
  proof -
    have 1: "I (say (AskApproval i action) st)" using that assms(2) by (rule inv_say)
    have "I (p\<lparr>ps_approvals := rows, ps_nextId := n\<rparr>)" if "I p" for p rows n
      using inv_nextId [OF inv_approvals [OF that]] by simp
    with 1 show ?thesis by (simp add: insertApprovalRequest_def Let_def)
  qed
  then show ?thesis
    using assms(1) by (induction "is" arbitrary: st) (simp_all add: case_prod_beta)
qed

end

section \<open>The phases keep them\<close>

context action_invariant
begin

lemma budget_phase_keeps: "I (tk_pm t) \<Longrightarrow> I (tk_pm (budget_phase e ev t))"
proof -
  assume "I (tk_pm t)"
  then have "I (fold audit (refused_audits ev) (tk_pm t))"
    using fold_audit [where f = "\<lambda>a. a"] by simp
  then show ?thesis by (simp add: budget_phase_def Let_def on_pm_def on_result_def inv_audit)
qed

lemma alert_phase_pm [simp]: "tk_pm (alert_phase e ev t) = tk_pm t"
  by (simp add: alert_phase_def case_prod_beta split: option.split)

lemma recover_phase_keeps: "I (tk_pm t) \<Longrightarrow> I (tk_pm (recover_phase e t))"
  by (simp add: recover_phase_def captureTickError_def on_pm_def on_result_def inv_runs split: option.split)

lemma states_phase_pm [simp]: "tk_pm (states_phase e t) = tk_pm t"
  by (simp add: states_phase_def captureTickError_def on_result_def)

lemma stuck_phase_keeps:
  assumes "I (tk_pm t)" "\<And>i s. allowed (SetState i s)" "\<And>i c. allowed (Comment i c)"
    "\<And>is. allowed (NotifyRecovered is)"
  shows "I (tk_pm (stuck_phase e t))"
  using assms
  by (simp add: stuck_phase_def captureTickError_def on_result_def Let_def case_prod_beta recover_keeps
      split: option.split)

lemma sweep_phase_keeps: "I (tk_pm t) \<Longrightarrow> I (tk_pm (sweep_phase e t))"
  by (simp add: sweep_phase_def on_pm_def sweep_keeps)

lemma probe_phase_keeps:
  assumes "I (tk_pm t)" "\<And>i l. allowed (SetLabels i l)"
  shows "I (tk_pm (snd (probe_phase e t)))"
proof -
  have probes: "I (fold (\<lambda>(i, n, age, k). audit (BreakerProbe i n age k)) xs p)" if "I p" for xs p
    using that by (induction xs arbitrary: p) (auto simp: inv_audit)
  have recovered: "I (fold (\<lambda>(i, n). audit (BreakerRecovered i n)) xs p)" if "I p" for xs p
    using that by (induction xs arbitrary: p) (auto simp: inv_audit)
  have labels: "I (fold (\<lambda>(i, ls). say (SetLabels i ls)) xs p)" if "I p" for xs p
    using that by (induction xs arbitrary: p) (auto simp: inv_say assms(2))
  show ?thesis
    using assms(1) by (simp add: probe_phase_def Let_def case_prod_beta inv_breaker)
      (use probes recovered labels inv_breaker in \<open>simp add: case_prod_beta\<close>)
qed

lemma start_phase_keeps:
  assumes "I (tk_pm t)" "\<And>i k r team. allowed (StartRun i k r team)"
  shows "I (tk_pm (start_phase e ev slots probes t))"
  using assms
  by (simp add: start_phase_def captureTickError_def on_result_def case_prod_beta start_keeps
      split: option.split)

lemma triage_phase_pm [simp]: "tk_pm (triage_phase e t) = tk_pm t"
  by (simp add: triage_phase_def captureTickError_def on_result_def split: option.split)

lemma report_pause_pm [simp]: "tk_pm (report_pause e t) = tk_pm t"
  by (simp add: report_pause_def on_result_def)

lemma promote_phase_keeps:
  assumes "I (tk_pm t)" "\<And>i s. allowed (SetState i s)" "\<And>i l. allowed (SetLabels i l)"
    "\<And>i c. allowed (Comment i c)"
  shows "I (tk_pm (promote_phase e slots probes t))"
proof -
  let ?backlog = "case te_backlog e of Some b \<Rightarrow> b | None \<Rightarrow> []"
  let ?inp = "\<lparr>pi_slots = slots, pi_requireLabel = pm_requirePipelineLabelForPromote (te_config e),
     pi_pipelines = te_pipelines e, pi_threshold = tick_threshold e, pi_probes = probes,
     pi_stateMap = tick_stateMap e,
     pi_conflict = (if te_conflictLicensed e then te_conflict e else (\<lambda>d. Some RiskNone)),
     pi_allLabels = te_allLabels e\<rparr>"
  obtain r p where run: "promoteReadyIssues ?inp (te_answers e) (te_now e) ?backlog (tk_pm t) = (r, p)"
    by fastforce
  then have "I p"
    using promote_keeps [OF assms, of ?inp "te_answers e" "te_now e" ?backlog] by simp
  then show ?thesis
    using assms(1) unfolding promote_phase_def Let_def run
    by (cases r) (auto simp: captureTickError_def on_result_def)
qed

lemma broken_phase_pm [simp]: "tk_pm (broken_phase e t) = tk_pm t"
  by (simp add: broken_phase_def on_result_def)

end

context call_invariant
begin

lemma resolve_phase_keeps:
  assumes "I (tk_pm t)" "\<And>i s. allowed (SetState i s)" "\<And>i c. allowed (Comment i c)"
    "\<And>i. allowed (NotifyExpired i)"
  shows "I (tk_pm (resolve_phase e t))"
  using assms by (simp add: resolve_phase_def on_result_def case_prod_beta resolve_keeps)

lemma approvals_phase_keeps:
  assumes "I (tk_pm t)" "\<And>i a. allowed (AskApproval i a)"
  shows "I (tk_pm (approvals_phase e t))"
  using assms
  by (auto simp: approvals_phase_def captureTickError_def on_result_def Let_def case_prod_beta
      deprioritizeStaleIssues_def cancelAbandonedIssues_def request_loop_keeps split: option.split)

end

text \<open>The part of a tick before the probe.\<close>

definition tick_front :: "tick_env \<Rightarrow> tick_state \<Rightarrow> tick_state" where
  "tick_front e t0 =
     (let t = t0\<lparr>tk_result := new_result\<rparr>;
          ev = evaluateBudget (te_pct e) (te_config e) (te_now e) (Some (ps_runs (tk_pm t)))
      in sweep_phase e (stuck_phase e (states_phase e (recover_phase e
           (alert_phase e ev (budget_phase e ev t))))))"

definition tick_evaluation :: "tick_env \<Rightarrow> tick_state \<Rightarrow> budget_evaluation" where
  "tick_evaluation e t = evaluateBudget (te_pct e) (te_config e) (te_now e) (Some (ps_runs (tk_pm t)))"

lemma tick_parts:
  assumes "te_lock e \<noteq> Some False" "probe_phase e (tick_front e t) = (probes, t2)"
  shows "tick e t = broken_phase e (approvals_phase e (promote_phase e (slots_available e (tick_front e t))
    probes (report_pause e (resolve_phase e (triage_phase e (start_phase e (tick_evaluation e t)
      (slots_available e (tick_front e t)) probes t2))))))"
  using assms by (simp add: tick_def tick_front_def tick_evaluation_def Let_def)

context action_invariant
begin

lemma front_keeps:
  assumes "I (tk_pm t)" "\<And>i s. allowed (SetState i s)" "\<And>i c. allowed (Comment i c)"
    "\<And>is. allowed (NotifyRecovered is)"
  shows "I (tk_pm (tick_front e t))"
  using assms unfolding tick_front_def Let_def
  by (intro sweep_phase_keeps stuck_phase_keeps) (simp_all add: recover_phase_keeps budget_phase_keeps)

end

context call_invariant
begin

lemma tick_keeps:
  assumes "I (tk_pm t)" "\<And>c. allowed c"
  shows "I (tk_pm (tick e t))"
proof (cases "te_lock e = Some False")
  case True
  then show ?thesis using assms(1) by (simp add: tick_def)
next
  case False
  have 1: "I (tk_pm (tick_front e t))" using assms by (intro front_keeps) auto
  obtain probes t2 where probe: "probe_phase e (tick_front e t) = (probes, t2)" by fastforce
  have 2: "I (tk_pm t2)" using probe_phase_keeps [OF 1 assms(2), of e] probe by simp
  show ?thesis
    unfolding tick_parts [OF False probe] using assms(2)
    by (simp add: approvals_phase_keeps promote_phase_keeps resolve_phase_keeps start_phase_keeps 2)
qed

end

section \<open>Interpretations\<close>

interpretation ok: action_invariant approvals_ok "\<lambda>c. True"
  by unfold_locales (simp_all add: approvals_ok_def open_requests_def)

interpretation calls: call_invariant "\<lambda>st. filter P (ps_calls st) = base" "\<lambda>c. \<not> P c" for P base
  by unfold_locales simp_all

interpretation grows: call_invariant "\<lambda>st. \<exists>cs. ps_calls st = base @ cs" "\<lambda>c. True" for base
  by unfold_locales auto

lemma tick_calls_grow: "\<exists>cs. ps_calls (tk_pm (tick e t)) = ps_calls (tk_pm t) @ cs"
  by (rule grows.tick_keeps) simp_all

section \<open>The requests over a tick\<close>

text \<open>What is known of the lists of Linear: each issue is listed once.\<close>

definition lists_once :: "tick_env \<Rightarrow> bool" where
  "lists_once e \<longleftrightarrow>
     (\<forall>l. te_stale e = Some l \<longrightarrow> distinct (map li_identifier l)) \<and>
     (\<forall>b i. te_abandoned e = Some (b, i) \<longrightarrow> distinct (map li_identifier (b @ i)))"

lemma resolve_phase_ok: "approvals_ok (tk_pm t) \<Longrightarrow> approvals_ok (tk_pm (resolve_phase e t))"
  by (simp add: resolve_phase_def on_result_def case_prod_beta resolve_keeps_ok)

lemma approvals_phase_ok:
  assumes "approvals_ok (tk_pm t)" "lists_once e"
  shows "approvals_ok (tk_pm (approvals_phase e t))"
  using assms
  by (auto simp: approvals_phase_def captureTickError_def on_result_def Let_def case_prod_beta
      lists_once_def deprioritize_ok cancel_ok split: option.split)

text \<open>
  A tick keeps the requests in order, whatever fails in it: their ids name one row each, and there is at
  most one open request for an issue and an action.
\<close>
theorem tick_keeps_requests:
  assumes "approvals_ok (tk_pm t)" "lists_once e"
  shows "approvals_ok (tk_pm (tick e t))"
proof (cases "te_lock e = Some False")
  case True
  then show ?thesis using assms(1) by (simp add: tick_def)
next
  case False
  have 1: "approvals_ok (tk_pm (tick_front e t))"
    using assms(1) by (rule ok.front_keeps) simp_all
  obtain probes t2 where probe: "probe_phase e (tick_front e t) = (probes, t2)" by fastforce
  have 2: "approvals_ok (tk_pm t2)"
    using ok.probe_phase_keeps [OF 1, of e] probe by simp
  have "approvals_ok (tk_pm (promote_phase e slots probes
      (report_pause e (resolve_phase e (triage_phase e (start_phase e ev slots probes t2))))))" for slots ev
    using ok.start_phase_keeps [OF 2] by (intro ok.promote_phase_keeps) (simp_all add: resolve_phase_ok)
  from approvals_phase_ok [OF this assms(2)] show ?thesis
    unfolding tick_parts [OF False probe] by simp
qed

section \<open>Capacity\<close>

fun is_start :: "pm_call \<Rightarrow> bool" where
  "is_start (StartRun i k r t) = True"
| "is_start _ = False"

lemma blocked_phases [simp]:
  "tr_blocked (tk_result (alert_phase e ev t)) = tr_blocked (tk_result t)"
  "tr_blocked (tk_result (recover_phase e t)) = tr_blocked (tk_result t)"
  "tr_blocked (tk_result (states_phase e t)) = tr_blocked (tk_result t)"
  "tr_blocked (tk_result (stuck_phase e t)) = tr_blocked (tk_result t)"
  "tr_blocked (tk_result (sweep_phase e t)) = tr_blocked (tk_result t)"
  "tr_blocked (tk_result (snd (probe_phase e t))) = tr_blocked (tk_result t)"
  "tr_blocked (tk_result (start_phase e ev slots probes t)) = tr_blocked (tk_result t)"
  "tr_blocked (tk_result (triage_phase e t)) = tr_blocked (tk_result t)"
  "tr_blocked (tk_result (resolve_phase e t)) = tr_blocked (tk_result t)"
  "tr_blocked (tk_result (report_pause e t)) = tr_blocked (tk_result t)"
  by (simp_all add: alert_phase_def recover_phase_def states_phase_def stuck_phase_def sweep_phase_def
      probe_phase_def start_phase_def triage_phase_def resolve_phase_def report_pause_def
      captureTickError_def on_result_def on_pm_def Let_def case_prod_beta split: option.split)

lemma active_phases [simp]:
  "tr_activeCount (tk_result (alert_phase e ev t)) = tr_activeCount (tk_result t)"
  "tr_activeCount (tk_result (recover_phase e t)) = tr_activeCount (tk_result t)"
  "tr_activeCount (tk_result (states_phase e t)) = tr_activeCount (tk_result t)"
  "tr_activeCount (tk_result (stuck_phase e t)) = tr_activeCount (tk_result t)"
  "tr_activeCount (tk_result (sweep_phase e t)) = tr_activeCount (tk_result t)"
  by (simp_all add: alert_phase_def recover_phase_def states_phase_def stuck_phase_def sweep_phase_def
      captureTickError_def on_result_def on_pm_def Let_def case_prod_beta split: option.split)

lemma budget_phase_result [simp]:
  "tr_activeCount (tk_result (budget_phase e ev t)) = be_activeCount ev"
  "tr_blocked (tk_result (budget_phase e ev t)) \<longleftrightarrow>
     be_promoteBlocked ev \<or> pm_maxInFlight (te_config e) \<le> be_activeCount ev"
  by (auto simp: budget_phase_def on_result_def on_pm_def Let_def)

lemma filter_starts_length: "length (filter is_start cs) \<le> length cs"
  by (rule length_filter_le)

lemma start_phase_starts:
  "length (filter is_start (ps_calls (tk_pm (start_phase e ev slots probes t)))) \<le>
     (if tr_blocked (tk_result t) then 0 else slots) + length (filter is_start (ps_calls (tk_pm t)))"
proof -
  have bound: "length (filter is_start (ps_calls (snd (startTodoIssues inp ans now todo st)))) \<le>
      st_maxPerTick inp + length (filter is_start (ps_calls st))" for inp ans now todo st
  proof (cases "st_budgetBlocked inp")
    case True
    then show ?thesis by (simp add: startTodoIssues_def)
  next
    case False
    let ?is = "start_candidates now (st_maxPerTick inp) (ps_runs st) todo"
    have "length ?is \<le> st_maxPerTick inp"
      by (simp add: start_candidates_def getActiveAndRecentIssueIds_def)
    then have "length (concat (map (start_call inp counts) ?is)) \<le> st_maxPerTick inp" for counts
      using length_start_calls [of inp counts ?is] by linarith
    then have "length (filter is_start (concat (map (start_call inp counts) ?is))) \<le> st_maxPerTick inp" for counts
      using length_filter_le order_trans by blast
    then show ?thesis
      using False by (simp add: startTodoIssues_def start_loop_calls Let_def)
  qed
  have "length (filter is_start (ps_calls (snd (startTodoIssues \<lparr>st_maxPerTick = slots,
      st_budgetBlocked = be_promoteBlocked ev, st_threshold = tick_threshold e, st_probes = probes,
      st_pipelines = pipelines, st_repos = repos\<rparr> (te_answers e) (te_now e) todo (tk_pm t))))) \<le>
      slots + length (filter is_start (ps_calls (tk_pm t)))" for pipelines repos todo
    by (rule order_trans [OF bound]) simp
  then show ?thesis
    by (simp add: start_phase_def captureTickError_def on_result_def case_prod_beta split: option.split)
qed

lemma promote_phase_blocked:
  "tr_blocked (tk_result t) \<Longrightarrow> promote_phase e slots probes t = t"
  by (simp add: promote_phase_def)

text \<open>The slots that are free at the start of a tick.\<close>

definition tick_slots :: "tick_env \<Rightarrow> tick_state \<Rightarrow> nat" where
  "tick_slots e t = (if be_promoteBlocked (tick_evaluation e t) then 0
     else pm_maxInFlight (te_config e) - be_activeCount (tick_evaluation e t))"

lemma promote_phase_moves:
  "length (filter is_move (ps_calls (tk_pm (promote_phase e slots probes t)))) \<le>
     (if tr_blocked (tk_result t) then 0 else slots) + moves (tk_pm t)"
proof -
  have bound: "moves (snd (promoteReadyIssues inp ans now backlog st)) \<le> pi_slots inp + moves st"
    for inp ans now backlog st
  proof -
    have "moves (snd (promote_loop inp ans now counts 0 issues st)) \<le> pi_slots inp + moves st" for counts issues
    proof -
      obtain rs st' where loop: "promote_loop inp ans now counts 0 issues st = (rs, st')" by fastforce
      from promote_loop_moves [OF loop] show ?thesis by (auto simp: loop)
    qed
    then show ?thesis by (simp add: promoteReadyIssues_def Let_def)
  qed
  let ?backlog = "case te_backlog e of Some b \<Rightarrow> b | None \<Rightarrow> []"
  let ?inp = "\<lparr>pi_slots = slots, pi_requireLabel = pm_requirePipelineLabelForPromote (te_config e),
     pi_pipelines = te_pipelines e, pi_threshold = tick_threshold e, pi_probes = probes,
     pi_stateMap = tick_stateMap e,
     pi_conflict = (if te_conflictLicensed e then te_conflict e else (\<lambda>d. Some RiskNone)),
     pi_allLabels = te_allLabels e\<rparr>"
  obtain r p where run: "promoteReadyIssues ?inp (te_answers e) (te_now e) ?backlog (tk_pm t) = (r, p)"
    by fastforce
  then have "moves p \<le> slots + moves (tk_pm t)"
    using bound [of ?inp "te_answers e" "te_now e" ?backlog "tk_pm t"] by simp
  then show ?thesis
    unfolding promote_phase_def Let_def run
    by (cases r) (auto simp: captureTickError_def on_result_def)
qed

lemma front_blocked:
  "tr_blocked (tk_result (tick_front e t)) \<longleftrightarrow> be_promoteBlocked (tick_evaluation e t) \<or>
     pm_maxInFlight (te_config e) \<le> be_activeCount (tick_evaluation e t)"
  by (simp add: tick_front_def tick_evaluation_def Let_def)

lemma front_slots:
  "slots_available e (tick_front e t) = pm_maxInFlight (te_config e) - be_activeCount (tick_evaluation e t)"
  by (simp add: slots_available_def tick_front_def tick_evaluation_def Let_def)

lemma broken_phase_calls: "tk_pm (broken_phase e t) = tk_pm t"
  by (simp add: broken_phase_def on_result_def)

text \<open>
  A tick starts no more runs than there are free slots, and none when a budget is spent: counted by the
  active runs of the day at its start.
\<close>
theorem tick_within_capacity:
  "length (filter is_start (new_calls (tk_pm t) (tk_pm (tick e t)))) \<le> tick_slots e t"
proof (cases "te_lock e = Some False")
  case True
  then show ?thesis by (simp add: tick_def new_calls_def)
next
  case False
  let ?base = "filter is_start (ps_calls (tk_pm t))"
  have 1: "filter is_start (ps_calls (tk_pm (tick_front e t))) = ?base"
    by (rule calls.front_keeps) simp_all
  obtain probes t2 where probe: "probe_phase e (tick_front e t) = (probes, t2)" by fastforce
  have 2: "filter is_start (ps_calls (tk_pm t2)) = ?base"
    using calls.probe_phase_keeps [OF 1, of e] probe by simp
  let ?t3 = "start_phase e (tick_evaluation e t) (slots_available e (tick_front e t)) probes t2"
  have "filter is_start (ps_calls (tk_pm (tick e t))) = filter is_start (ps_calls (tk_pm ?t3))"
    unfolding tick_parts [OF False probe] broken_phase_calls
    by (intro calls.approvals_phase_keeps calls.promote_phase_keeps) (simp_all add: calls.resolve_phase_keeps)
  moreover have "length (filter is_start (ps_calls (tk_pm ?t3))) \<le> tick_slots e t + length ?base"
    using start_phase_starts [of e "tick_evaluation e t" "slots_available e (tick_front e t)" probes t2]
      2 front_blocked [of e t] front_slots [of e t] blocked_phases(6) [of e "tick_front e t"] probe
    by (auto simp: tick_slots_def split: if_splits)
  ultimately have "length (filter is_start (ps_calls (tk_pm (tick e t)))) \<le> tick_slots e t + length ?base"
    by simp
  moreover obtain cs where "ps_calls (tk_pm (tick e t)) = ps_calls (tk_pm t) @ cs"
    using tick_calls_grow by blast
  ultimately show ?thesis by (simp add: new_calls_append)
qed

section \<open>Pausing\<close>

text \<open>The calls the agent makes on its own initiative.\<close>

fun initiative :: "pm_call \<Rightarrow> bool" where
  "initiative (StartRun i k r t) = True"
| "initiative (AskApproval i a) = True"
| "initiative (NotifyRecovered is) = True"
| "initiative (SetState i s) = True"
| "initiative _ = False"

lemma paused_phases [simp]:
  "te_paused e PauseRecover \<Longrightarrow> stuck_phase e t = t"
  "te_paused e PauseStart \<Longrightarrow> start_phase e ev slots probes t = t"
  "te_paused e PausePromote \<Longrightarrow> promote_phase e slots probes t = t"
  "te_paused e PauseApprovals \<Longrightarrow> approvals_phase e t = t"
  by (simp_all add: stuck_phase_def start_phase_def promote_phase_def approvals_phase_def split: option.split)

interpretation settled_requests: action_invariant "\<lambda>st. open_requests st = os" "\<lambda>c. True" for os
  by unfold_locales (simp_all add: open_requests_def)

text \<open>
  While the agent is paused, a tick takes no initiative: it starts no run, moves no issue, recovers none and
  asks for no approval. Only what was already asked for goes on, so without an open request there is no
  such call at all.
\<close>
theorem paused_tick_quiet:
  assumes "\<forall>p. te_paused e p" "open_requests (tk_pm t) = []"
  shows "filter initiative (new_calls (tk_pm t) (tk_pm (tick e t))) = []"
proof (cases "te_lock e = Some False")
  case True
  then show ?thesis by (simp add: tick_def new_calls_def)
next
  case False
  let ?base = "filter initiative (ps_calls (tk_pm t))"
  have front: "tick_front e t = sweep_phase e (states_phase e (recover_phase e (alert_phase e
      (tick_evaluation e t) (budget_phase e (tick_evaluation e t) (t\<lparr>tk_result := new_result\<rparr>)))))"
    using assms(1) by (simp add: tick_front_def tick_evaluation_def Let_def)
  have 1: "filter initiative (ps_calls (tk_pm (tick_front e t))) = ?base"
    unfolding front by (intro calls.sweep_phase_keeps)
      (simp_all add: calls.recover_phase_keeps calls.budget_phase_keeps)
  have settled: "open_requests (tk_pm (tick_front e t)) = []"
    by (rule settled_requests.front_keeps) (simp_all add: assms(2))
  obtain probes t2 where probe: "probe_phase e (tick_front e t) = (probes, t2)" by fastforce
  have 2: "filter initiative (ps_calls (tk_pm t2)) = ?base"
    using calls.probe_phase_keeps [OF 1, of e] probe by simp
  have 3: "open_requests (tk_pm t2) = []"
    using settled_requests.probe_phase_keeps [OF settled, of e] probe by simp
  let ?t3 = "triage_phase e t2"
  have "ps_calls (tk_pm (resolve_phase e ?t3)) = ps_calls (tk_pm t2)"
    using 3 by (simp add: resolve_phase_def resolveApprovals_def open_requests_def on_result_def Let_def)
  then have "filter initiative (ps_calls (tk_pm (tick e t))) = ?base"
    unfolding tick_parts [OF False probe] broken_phase_calls using assms(1) 2 by simp
  with tick_calls_grow [of e t] show ?thesis by (auto simp: new_calls_append)
qed

section \<open>A tick that uses its slots twice\<close>

definition demo_tick_config :: pm_config where
  "demo_tick_config = \<lparr>pm_enabled = True, pm_cronIntervalMs = 1, pm_maxInFlight = 1,
     pm_triageBatchSize = 3, pm_dailyTokenBudget = 100, pm_slackChannelId = ''c'', pm_teamIds = [''T''],
     pm_stuckIssueRecovery = True, pm_stuckIssueTargetState = ''Backlog'', pm_stuckIssueMaxPerTick = 5,
     pm_requirePipelineLabelForPromote = True, pm_maxConsecutiveFailures = 3, pm_budgets = None\<rparr>"

definition demo_tick_env :: "bool \<Rightarrow> tick_env" where
  "demo_tick_env paused = \<lparr>te_now = 1000, te_pct = (\<lambda>used limit. 100 * used div limit),
     te_config = demo_tick_config, te_lock = None, te_paused = (\<lambda>p. paused), te_postAlert = None,
     te_recover = Some, te_triage = Some [], te_stateMap = Some [(''T:Todo'', ''s1'')],
     te_stuckAge = None, te_probeEnv = (\<lambda>v. None), te_labels = (\<lambda>i. None), te_runner = True,
     te_pipelines = Some defaultConfigs, te_repos = Some [(''T'', demo_pm_repo)],
     te_inProgress = Some [], te_todo = Some [demo_todo ''A''], te_backlog = Some [demo_todo ''B''],
     te_stale = Some [demo_todo ''B''], te_abandoned = Some ([demo_todo ''B''], []),
     te_allLabels = Some [], te_conflictLicensed = False, te_conflict = (\<lambda>d. None),
     te_approvalsLicensed = True, te_search = (\<lambda>i. None), te_reaction = (\<lambda>ts. None),
     te_answers = (\<lambda>c. None)\<rparr>"

definition demo_tick_state :: tick_state where
  "demo_tick_state = \<lparr>tk_pm = demo_pm_state [], tk_alerts = [], tk_posts = [], tk_result = new_result\<rparr>"

text \<open>
  The free slots are counted once and used twice: with room for one run and one issue in Todo and one in
  the backlog, a tick starts the run of the first and moves the second to Todo, where the webhook starts it
  at once. So a tick can bring up to twice as many runs as there are slots.
\<close>
theorem slots_used_twice:
  "tick_slots (demo_tick_env False) demo_tick_state = 1 \<and>
   new_calls (tk_pm demo_tick_state) (tk_pm (tick (demo_tick_env False) demo_tick_state)) =
     [StartRun ''A'' ''bug'' demo_pm_repo (Some ''T''), SetState ''id-B'' ''s1'',
      Comment ''id-B'' PromotedComment, AskApproval ''B'' Deprioritize, AskApproval ''B'' CancelIssue]"
proof
  show "tick_slots (demo_tick_env False) demo_tick_state = 1" by code_simp
  let ?e = "demo_tick_env False"
  let ?run = "StartRun ''A'' ''bug'' demo_pm_repo (Some ''T'')"
  let ?t3 = "demo_tick_state\<lparr>tk_pm := say ?run (demo_pm_state []), tk_result := new_result
    \<lparr>tr_startedTodo := [\<lparr>sr_identifier = ''A'', sr_started = True, sr_reason = StartedPipeline ''bug''\<rparr>]\<rparr>\<rparr>"
  have unlocked: "te_lock ?e \<noteq> Some False" by (simp add: demo_tick_env_def)
  have front: "tick_front ?e demo_tick_state = demo_tick_state" by code_simp
  have probe: "probe_phase ?e (tick_front ?e demo_tick_state) = ({}, demo_tick_state)"
    unfolding front by code_simp
  have slots: "slots_available ?e demo_tick_state = 1" by code_simp
  have start: "start_phase ?e (tick_evaluation ?e demo_tick_state) 1 {} demo_tick_state = ?t3"
    by code_simp
  have rest: "ps_calls (tk_pm (approvals_phase ?e (promote_phase ?e 1 {}
      (report_pause ?e (resolve_phase ?e (triage_phase ?e ?t3)))))) =
    [?run, SetState ''id-B'' ''s1'', Comment ''id-B'' PromotedComment,
     AskApproval ''B'' Deprioritize, AskApproval ''B'' CancelIssue]"
    by code_simp
  have none: "ps_calls (tk_pm demo_tick_state) = []" by (simp add: demo_tick_state_def demo_pm_state_def)
  show "new_calls (tk_pm demo_tick_state) (tk_pm (tick ?e demo_tick_state)) =
     [?run, SetState ''id-B'' ''s1'', Comment ''id-B'' PromotedComment,
      AskApproval ''B'' Deprioritize, AskApproval ''B'' CancelIssue]"
    unfolding new_calls_def none tick_parts [OF unlocked probe] broken_phase_calls front slots start rest
    by (simp only: list.size drop_0)
qed

theorem tick_keeps_requests_witness:
  "approvals_ok (tk_pm (tick (demo_tick_env False) demo_tick_state))"
proof (rule tick_keeps_requests)
  show "approvals_ok (tk_pm demo_tick_state)" unfolding approvals_ok_def by code_simp
  show "lists_once (demo_tick_env False)"
    by (simp add: lists_once_def demo_tick_env_def)
qed

theorem paused_tick_quiet_witness:
  "filter initiative (new_calls (tk_pm demo_tick_state)
     (tk_pm (tick (demo_tick_env True) demo_tick_state))) = []"
proof (rule paused_tick_quiet)
  show "\<forall>p. te_paused (demo_tick_env True) p" by (simp add: demo_tick_env_def)
  show "open_requests (tk_pm demo_tick_state) = []" by code_simp
qed

end
