(* ===== verification/AutoMerge.thy ===== *)
theory AutoMerge
  imports Types
begin

text \<open>
  Merging a pull request from a webhook (\<open>pipeline/automerge.ts\<close>) with the calls of GitHub's interface
  it makes (\<open>repo/github.ts\<close>). The answers of GitHub are a record of parameters: an error is its message.
\<close>

section \<open>GitHub's answers\<close>

record gh_pr_details =
  gd_draft :: bool
  gd_base :: string
  gd_sha :: string
  gd_labels :: "string option list"
  gd_merged :: bool
  gd_closed :: bool

datatype review_state = ReviewApproved | ReviewChangesRequested | ReviewCommented | ReviewDismissed

text \<open>A failed merge carries its HTTP status and message.\<close>

record github_api =
  ga_get :: "nat \<Rightarrow> string + gh_pr_details"
  ga_reviews :: "nat \<Rightarrow> string + (nat option \<times> review_state) list"
  ga_statuses :: "string \<Rightarrow> (string \<times> string) list option"
  ga_checks :: "string \<Rightarrow> (string \<times> string option) list option"
  ga_merge :: "nat \<Rightarrow> merge_method \<Rightarrow> nat \<times> string + bool \<times> string option"

section \<open>Reading reviews and checks\<close>

text \<open>The latest state per reviewer; a review without a user counts for the user \<open>0\<close>.\<close>

definition getPRApprovalCount :: "github_api \<Rightarrow> nat \<Rightarrow> string + nat" where
  "getPRApprovalCount api n =
     (case ga_reviews api n of
        Inl err \<Rightarrow> Inl err
      | Inr reviews \<Rightarrow>
          (let latest = foldl (\<lambda>m (u, s). mapSet m (case u of None \<Rightarrow> 0 | Some i \<Rightarrow> i) s) [] reviews
           in Inr (length (filter (\<lambda>s. s = ReviewApproved) (map snd latest)))))"

text \<open>Statuses first, then check runs, which replace a status of the same name.\<close>

definition getPRCheckResults :: "github_api \<Rightarrow> string \<Rightarrow> (string, string) js_map" where
  "getPRCheckResults api sha =
     (let statuses = (case ga_statuses api sha of None \<Rightarrow> [] | Some l \<Rightarrow> l);
          checks = (case ga_checks api sha of None \<Rightarrow> [] | Some l \<Rightarrow> l)
      in foldl (\<lambda>m (n, c). mapSet m n (case c of None \<Rightarrow> ''pending'' | Some x \<Rightarrow> x))
           (foldl (\<lambda>m (n, s). mapSet m n s) [] statuses) checks)"

definition mergePRViaApi :: "github_api \<Rightarrow> nat \<Rightarrow> merge_method \<Rightarrow> string + bool \<times> string" where
  "mergePRViaApi api n method =
     (case ga_merge api n method of
        Inr (merged, message) \<Rightarrow>
          Inr (merged, case message of None \<Rightarrow> ''Merged successfully'' | Some m \<Rightarrow> m)
      | Inl (status, message) \<Rightarrow>
          if status = 405 then Inr (False, ''Branch protection prevented merge: '' @ message)
          else if status = 409 then Inr (False, ''Merge conflict: '' @ message)
          else if status = 422 then Inr (False, ''Merge validation failed: '' @ message)
          else Inl message)"

section \<open>Eligibility\<close>

definition opt_list :: "'a list option \<Rightarrow> 'a list" where
  "opt_list l = (case l of None \<Rightarrow> [] | Some x \<Rightarrow> x)"

definition quote_name :: "string \<Rightarrow> string" where
  "quote_name s = CHR 0x27 # s @ [CHR 0x27]"

definition passing :: "string option \<Rightarrow> bool" where
  "passing conclusion \<longleftrightarrow> conclusion = Some ''success'' \<or> conclusion = Some ''neutral''"

definition label_names :: "string option list \<Rightarrow> string list" where
  "label_names labels = filter (\<lambda>l. l \<noteq> []) (map (\<lambda>l. case l of None \<Rightarrow> [] | Some x \<Rightarrow> x) labels)"

definition approvals_missing :: "github_api \<Rightarrow> nat \<Rightarrow> auto_merge_config \<Rightarrow> string option" where
  "approvals_missing api n options =
     (let need = (case am_minimumApprovingReviews options of None \<Rightarrow> 0 | Some k \<Rightarrow> k) in
      if need = 0 then None
      else (case getPRApprovalCount api n of
        Inl err \<Rightarrow> Some (''Failed to fetch reviews: '' @ err)
      | Inr have_n \<Rightarrow>
          if have_n < need then Some (''PR has '' @ show_nat have_n @ '' approving review(s), need '' @ show_nat need)
          else None))"

definition checks_missing :: "github_api \<Rightarrow> string \<Rightarrow> auto_merge_config \<Rightarrow> string option" where
  "checks_missing api sha options =
     (let results = getPRCheckResults api sha in
      case find (\<lambda>c. \<not> passing (mapGet results c)) (opt_list (am_requiredStatusChecks options)) of
        None \<Rightarrow> None
      | Some c \<Rightarrow> Some (''Required status check '' @ quote_name c @ '' has not passed (status: '' @
          (case mapGet results c of None \<Rightarrow> ''not found'' | Some s \<Rightarrow> s) @ '')''))"

definition checkAutoMergeEligibility :: "github_api \<Rightarrow> nat \<Rightarrow> auto_merge_config \<Rightarrow> bool \<times> string" where
  "checkAutoMergeEligibility api n options =
     (case ga_get api n of
        Inl err \<Rightarrow> (False, ''Failed to fetch PR details: '' @ err)
      | Inr pr \<Rightarrow>
          (let branches = opt_list (am_allowedBranches options);
               missing = filter (\<lambda>l. l \<notin> set (label_names (gd_labels pr))) (opt_list (am_requiredLabels options))
           in if gd_draft pr then (False, ''PR is a draft'')
              else if gd_merged pr \<or> gd_closed pr then (False, ''PR is already merged or closed'')
              else if branches \<noteq> [] \<and> gd_base pr \<notin> set branches
              then (False, ''Base branch '' @ quote_name (gd_base pr) @ '' is not in allowedBranches: ['' @
                     joinWith '', '' branches @ '']'')
              else if missing \<noteq> []
              then (False, ''PR is missing required labels: '' @ joinWith '', '' missing)
              else (case approvals_missing api n options of
                Some r \<Rightarrow> (False, r)
              | None \<Rightarrow> (case checks_missing api (gd_sha pr) options of
                  Some r \<Rightarrow> (False, r)
                | None \<Rightarrow> (True, ''All automerge criteria met'')))))"

section \<open>The merge\<close>

text \<open>The result, and whether the interface was asked to merge.\<close>

definition attemptAutoMerge :: "github_api \<Rightarrow> nat \<Rightarrow> auto_merge_config \<Rightarrow> (bool \<times> string) \<times> bool" where
  "attemptAutoMerge api n options =
     (case checkAutoMergeEligibility api n options of
        (False, reason) \<Rightarrow> ((False, reason), False)
      | (True, _) \<Rightarrow>
          (case mergePRViaApi api n (case am_mergeMethod options of None \<Rightarrow> Squash | Some m \<Rightarrow> m) of
             Inr (True, _) \<Rightarrow> ((True, ''PR auto-merged successfully''), True)
           | Inr (False, message) \<Rightarrow> ((False, message), True)
           | Inl err \<Rightarrow> ((False, ''Automerge error: '' @ err), True)))"

section \<open>All criteria are required\<close>

text \<open>The last review of every reviewer who approved.\<close>

definition last_review :: "(nat option \<times> review_state) list \<Rightarrow> nat \<Rightarrow> review_state option" where
  "last_review reviews u =
     map_option snd (find (\<lambda>(v, s). (case v of None \<Rightarrow> 0 | Some i \<Rightarrow> i) = u) (rev reviews))"

definition approvers :: "(nat option \<times> review_state) list \<Rightarrow> nat set" where
  "approvers reviews = {u. last_review reviews u = Some ReviewApproved}"

lemma latest_review_map:
  fixes reviews :: "(nat option \<times> review_state) list"
  defines "latest \<equiv> foldl (\<lambda>m (u, s). mapSet m (case u of None \<Rightarrow> 0 | Some i \<Rightarrow> i) s) []"
  shows "distinct (map fst (latest reviews)) \<and> mapGet (latest reviews) u = last_review reviews u"
proof (induction reviews rule: rev_induct)
  case Nil
  then show ?case by (simp add: latest_def last_review_def)
next
  case (snoc r reviews)
  then show ?case
    by (cases r) (auto simp: latest_def last_review_def distinct_update)
qed

lemma count_by_key:
  assumes "distinct (map fst m)"
  shows "length (filter P (map snd m)) = card {k. \<exists>v. mapGet m k = Some v \<and> P v}"
  using assms
proof (induction m)
  case Nil
  then show ?case by simp
next
  case (Cons kv m)
  obtain k v where kv: "kv = (k, v)" by fastforce
  have fresh: "mapGet m k = None" using Cons.prems kv by (auto simp: map_of_eq_None_iff)
  let ?S = "{k. \<exists>v. mapGet m k = Some v \<and> P v}"
  have fin: "finite ?S" by (rule finite_subset [of _ "dom (map_of m)"]) (auto simp: finite_dom_map_of)
  have notin: "k \<notin> ?S" using fresh by simp
  have "{k'. \<exists>v'. mapGet (kv # m) k' = Some v' \<and> P v'} = (if P v then insert k ?S else ?S)"
    using fresh by (auto simp: kv)
  then show ?case using Cons fin notin by (simp add: kv)
qed

lemma approval_count:
  "getPRApprovalCount api n =
     (case ga_reviews api n of Inl err \<Rightarrow> Inl err | Inr reviews \<Rightarrow> Inr (card (approvers reviews)))"
proof (cases "ga_reviews api n")
  case (Inr reviews)
  let ?latest = "foldl (\<lambda>m (u, s). mapSet m (case u of None \<Rightarrow> 0 | Some i \<Rightarrow> i) s) [] reviews"
  have "{k. \<exists>v. mapGet ?latest k = Some v \<and> v = ReviewApproved} = approvers reviews"
    using latest_review_map [of reviews] by (auto simp: approvers_def)
  with count_by_key [of ?latest "\<lambda>s. s = ReviewApproved"] latest_review_map [of reviews] Inr show ?thesis
    by (simp add: getPRApprovalCount_def)
qed (simp add: getPRApprovalCount_def)

text \<open>
  The interface is asked to merge exactly when every criterion of the configuration holds: the pull request
  is open, no draft and on an allowed branch, it carries every required label, enough reviewers have an
  approval as their last review, and every required check passes. A failed call counts as not satisfied.
\<close>
theorem webhook_merge_criteria:
  "snd (attemptAutoMerge api n options) =
     (case ga_get api n of
        Inl err \<Rightarrow> False
      | Inr pr \<Rightarrow>
          \<not> gd_draft pr \<and> \<not> gd_merged pr \<and> \<not> gd_closed pr \<and>
          (if opt_list (am_allowedBranches options) = [] then True
           else gd_base pr \<in> set (opt_list (am_allowedBranches options))) \<and>
          set (opt_list (am_requiredLabels options)) \<subseteq> set (label_names (gd_labels pr)) \<and>
          (case am_minimumApprovingReviews options of None \<Rightarrow> True | Some need \<Rightarrow>
             if need = 0 then True
             else (case ga_reviews api n of
               Inl err \<Rightarrow> False | Inr reviews \<Rightarrow> need \<le> card (approvers reviews))) \<and>
          set (opt_list (am_requiredStatusChecks options)) \<subseteq>
            {c. passing (mapGet (getPRCheckResults api (gd_sha pr)) c)})"
proof (cases "ga_get api n")
  case (Inl err)
  then show ?thesis by (simp add: attemptAutoMerge_def checkAutoMergeEligibility_def)
next
  case (Inr pr)
  have asked: "snd (attemptAutoMerge api n options) = fst (checkAutoMergeEligibility api n options)"
    by (auto simp: attemptAutoMerge_def split: prod.split bool.split sum.split)
  have reviews: "approvals_missing api n options = None \<longleftrightarrow>
      (case am_minimumApprovingReviews options of None \<Rightarrow> True | Some need \<Rightarrow>
        if need = 0 then True
        else (case ga_reviews api n of Inl err \<Rightarrow> False | Inr reviews \<Rightarrow> need \<le> card (approvers reviews)))"
    by (auto simp: approvals_missing_def approval_count Let_def split: option.split sum.split)
  have checks: "checks_missing api (gd_sha pr) options = None \<longleftrightarrow>
      set (opt_list (am_requiredStatusChecks options)) \<subseteq>
        {c. passing (mapGet (getPRCheckResults api (gd_sha pr)) c)}"
    by (auto simp: checks_missing_def Let_def find_None_iff find_Some_iff subset_iff split: option.split)
      (use nth_mem in blast)
  have labels: "filter (\<lambda>l. l \<notin> set (label_names (gd_labels pr))) (opt_list (am_requiredLabels options)) = [] \<longleftrightarrow>
      set (opt_list (am_requiredLabels options)) \<subseteq> set (label_names (gd_labels pr))"
    by (auto simp: filter_empty_conv)
  have "fst (checkAutoMergeEligibility api n options) \<longleftrightarrow>
      \<not> gd_draft pr \<and> \<not> gd_merged pr \<and> \<not> gd_closed pr \<and>
      (if opt_list (am_allowedBranches options) = [] then True
       else gd_base pr \<in> set (opt_list (am_allowedBranches options))) \<and>
      filter (\<lambda>l. l \<notin> set (label_names (gd_labels pr))) (opt_list (am_requiredLabels options)) = [] \<and>
      approvals_missing api n options = None \<and> checks_missing api (gd_sha pr) options = None"
    unfolding checkAutoMergeEligibility_def Inr Let_def sum.case
    by (simp del: filter_empty_conv split: option.split)
  then show ?thesis unfolding asked labels reviews checks Inr sum.case .
qed

text \<open>
  A comment undoes an approval: only the last review of each reviewer is looked at, and one that merely
  comments is a review, so a reviewer who approves and then comments no longer counts.
\<close>
theorem comment_undoes_approval:
  "last_review (reviews @ [(Some u, ReviewCommented)]) u = Some ReviewCommented \<and>
   u \<notin> approvers (reviews @ [(Some u, ReviewCommented)])"
  by (simp add: approvers_def last_review_def)

end
