(* ===== verification/Webhooks.thy ===== *)
theory Webhooks
  imports PmActions AutoMerge "HOL-Library.Word"
begin

text \<open>
  The webhooks (\<open>webhook/\<close>): Linear's changes of state with their deduplication and the budget gate,
  GitHub's events (merges, review feedback), and the handlers of GitLab and Bitbucket with what they share.
  A body is given parsed, or \<open>None\<close> when it is no JSON; a field that may be missing is an option. The
  runner is the list of calls it gets. The digest of a body is a parameter. Objects are read at keys that
  are no inherited properties: names of states, ids of teams, and the keys of pipelines.
\<close>

section \<open>Calls and configurations\<close>

record feedback_config =
  fc_allowedReviewers :: "string list option"
  fc_botLogins :: "string list option"
  fc_triggerKeyword :: "string option"
  fc_autoTrigger :: "bool option"
  fc_rerequestReview :: "bool option"

record trigger_map =
  tm_start :: string
  tm_resume :: string
  tm_pause :: string
  tm_abort :: string

definition DEFAULT_TRIGGER_MAP :: trigger_map where
  "DEFAULT_TRIGGER_MAP = \<lparr>tm_start = ''Todo'', tm_resume = ''Approved'', tm_pause = ''Blocked'',
     tm_abort = ''Canceled''\<rparr>"

text \<open>A repository's configuration with the two fields that only the webhooks read.\<close>

record hook_repo =
  hr_repo :: repo_config
  hr_triggerMap :: "trigger_map option"
  hr_feedback :: "feedback_config option"

record feedback_call =
  fk_issueId :: issue_id
  fk_pipelineKey :: string
  fk_repo :: repo_config
  fk_slug :: string
  fk_branch :: string
  fk_prUrl :: string
  fk_prNumber :: nat
  fk_parentRunId :: run_id
  fk_comment :: feedback_comment
  fk_rerequestReview :: bool

datatype hook_call =
    HookStart issue_id string repo_config "string option"
  | HookResume issue_id | HookPause issue_id | HookAbort issue_id
  | HookFeedback feedback_call
  | HookMerged run_id
  | HookMergeRequest nat

datatype hook_reply =
    Unauthorized | NotConfigured | InvalidJson | Ignored | Deduplicated | NoPipelineConfig | NoRepoMapping
  | RunQueued | BudgetExceeded | Resumed | PausedReply | AbortedReply
  | Skipped string | AutoMergeChecked | PrMerged | FeedbackTriggered

section \<open>Signatures\<close>

text \<open>
  \<open>timingSafeEqual\<close> throws on buffers of different lengths, which counts as a mismatch. The bytes of a
  header and of a hexadecimal digest are its characters.
\<close>

definition timingSafeEqual :: "string \<Rightarrow> string \<Rightarrow> bool option" where
  "timingSafeEqual a b = (if length a = length b then Some (a = b) else None)"

type_synonym hmac = "string \<Rightarrow> string \<Rightarrow> string"

definition verifyLinearSignature :: "hmac \<Rightarrow> string \<Rightarrow> string \<Rightarrow> string \<Rightarrow> bool" where
  "verifyLinearSignature digest body signature secret =
     (case timingSafeEqual signature (digest secret body) of Some b \<Rightarrow> b | None \<Rightarrow> False)"

definition verifyGitHubSignature :: "hmac \<Rightarrow> string \<Rightarrow> string \<Rightarrow> string \<Rightarrow> bool" where
  "verifyGitHubSignature digest body signature secret =
     (startsWith signature ''sha256='' \<and>
      (case timingSafeEqual (drop 7 signature) (digest secret body) of Some b \<Rightarrow> b | None \<Rightarrow> False))"

text \<open>\<open>s.padEnd(256, NUL)\<close>, its bytes, and the comparison that looks at all of them.\<close>

definition padEnd :: "nat \<Rightarrow> string \<Rightarrow> string" where
  "padEnd n s = s @ replicate (n - length s) (CHR 0x00)"

definition bytes :: "string \<Rightarrow> 8 word list" where
  "bytes s = map of_char s"

fun diff_bytes :: "8 word list \<Rightarrow> 8 word list \<Rightarrow> 8 word \<Rightarrow> 8 word" where
  "diff_bytes (a # as) (b # bs) r = diff_bytes as bs (or r (xor a b))"
| "diff_bytes _ _ r = r"

definition verifyGitLabToken :: "string \<Rightarrow> string \<Rightarrow> bool" where
  "verifyGitLabToken received expected =
     (if received = [] \<or> expected = [] then False
      else (let a = bytes (padEnd 256 received); b = bytes (padEnd 256 expected) in
        if length a \<noteq> length b then False else diff_bytes a b 0 = 0))"

section \<open>Deduplication\<close>

text \<open>The sets in memory (\<open>DedupSet\<close>, \<open>CommentDedupSet\<close>, \<open>WebhookDedupSet\<close>): keys with their expiry.\<close>

type_synonym dedup_set = "(string, millis) js_map"

definition dedup_has :: "dedup_set \<Rightarrow> millis \<Rightarrow> string \<Rightarrow> bool \<times> dedup_set" where
  "dedup_has s now k =
     (case mapGet s k of
        None \<Rightarrow> (False, s)
      | Some expiry \<Rightarrow> if expiry < now then (False, mapDelete s k) else (True, s))"

definition dedup_add :: "millis \<Rightarrow> dedup_set \<Rightarrow> millis \<Rightarrow> string \<Rightarrow> dedup_set" where
  "dedup_add ttl s now k = mapSet s k (now + ttl)"

definition dedup_cleanup :: "dedup_set \<Rightarrow> millis \<Rightarrow> dedup_set" where
  "dedup_cleanup s now = filter (\<lambda>(k, expiry). \<not> expiry < now) s"

text \<open>\<open>DbDedupSet\<close>: a table with the key as its id.\<close>

record dedup_row =
  dd_id :: string
  dd_expiresAt :: millis

definition db_has :: "dedup_row list \<Rightarrow> millis \<Rightarrow> string \<Rightarrow> bool \<times> dedup_row list" where
  "db_has rows now k =
     (case select_where (\<lambda>r. dd_id r = k) rows of
        [] \<Rightarrow> (False, rows)
      | r # _ \<Rightarrow> if dd_expiresAt r < now then (False, delete_where (\<lambda>r. dd_id r = k) rows) else (True, rows))"

definition db_add :: "millis \<Rightarrow> dedup_row list \<Rightarrow> millis \<Rightarrow> string \<Rightarrow> dedup_row list" where
  "db_add ttl rows now k =
     (if k \<in> dd_id ` set rows
      then update_where (\<lambda>r. dd_id r = k) (\<lambda>r. r\<lparr>dd_expiresAt := now + ttl\<rparr>) rows
      else rows @ [\<lparr>dd_id = k, dd_expiresAt = now + ttl\<rparr>])"

definition db_cleanup :: "dedup_row list \<Rightarrow> millis \<Rightarrow> dedup_row list" where
  "db_cleanup rows now = delete_where (\<lambda>r. dd_expiresAt r < now) rows"

definition DEDUP_TTL_MS :: millis where
  "DEDUP_TTL_MS = 30000"

definition COMMENT_TTL_MS :: millis where
  "COMMENT_TTL_MS = 86400000"

section \<open>Linear\<close>

record state_change =
  sc_identifier :: issue_id
  sc_labels :: "string list"
  sc_teamId :: string
  sc_projectId :: "string option"
  sc_newState :: string

text \<open>The parts of a payload; the team and the project may come as an id or as an object with one.\<close>

record linear_data =
  ld_identifier :: "issue_id option"
  ld_labels :: "string option list option"
  ld_teamId :: "string option"
  ld_team :: "string option"
  ld_projectId :: "string option"
  ld_project :: "string option"
  ld_stateName :: "string option"

record linear_payload =
  lp_type :: string
  lp_action :: string
  lp_updatedStateId :: "string option"
  lp_data :: "linear_data option"

definition or_else :: "'a option \<Rightarrow> 'a option \<Rightarrow> 'a option" where
  "or_else a b = (case a of None \<Rightarrow> b | Some x \<Rightarrow> Some x)"

definition or_empty :: "string option \<Rightarrow> string" where
  "or_empty a = (case a of None \<Rightarrow> [] | Some x \<Rightarrow> x)"

definition parseStateChange :: "linear_payload \<Rightarrow> state_change option" where
  "parseStateChange p =
     (if lp_type p \<noteq> ''Issue'' \<or> lp_action p \<noteq> ''update'' then None
      else if or_empty (lp_updatedStateId p) = [] then None
      else (case lp_data p of
        None \<Rightarrow> None
      | Some d \<Rightarrow>
          if or_empty (ld_stateName d) = [] then None
          else Some \<lparr>sc_identifier = or_empty (ld_identifier d),
            sc_labels = map or_empty (opt_list (ld_labels d)),
            sc_teamId = or_empty (or_else (ld_teamId d) (ld_team d)),
            sc_projectId = or_else (ld_projectId d) (ld_project d),
            sc_newState = or_empty (ld_stateName d)\<rparr>))"

datatype trigger_action = ActStart | ActResume | ActPause | ActAbort

text \<open>The reverse of the trigger map; of two actions on one state the later one counts.\<close>

definition action_of :: "trigger_map \<Rightarrow> string \<Rightarrow> trigger_action option" where
  "action_of tm state = mapGet
     (foldl (\<lambda>m (k, a). mapSet m k a) [] [(tm_start tm, ActStart), (tm_resume tm, ActResume),
        (tm_pause tm, ActPause), (tm_abort tm, ActAbort)]) state"

record linear_hook =
  lh_secret :: string
  lh_pipelines :: configs
  lh_repos :: "(string, hook_repo) js_map"
  lh_triggerMap :: "trigger_map option"
  lh_pmConfig :: "pm_config option"

definition trigger_map_for :: "linear_hook \<Rightarrow> state_change \<Rightarrow> trigger_map" where
  "trigger_map_for h sc =
     (let repo = or_else (mapGet (lh_repos h) (sc_teamId sc))
            (mapGet (lh_repos h) (or_empty (sc_projectId sc)))
      in case Option.bind repo hr_triggerMap of
           Some tm \<Rightarrow> tm
         | None \<Rightarrow> (case lh_triggerMap h of Some tm \<Rightarrow> tm | None \<Rightarrow> DEFAULT_TRIGGER_MAP))"

text \<open>The key of a delivery: issue, state and the half minute it arrives in.\<close>

definition dedup_key :: "millis \<Rightarrow> state_change \<Rightarrow> string" where
  "dedup_key now sc =
     sc_identifier sc @ '':'' @ sc_newState sc @ '':'' @ show_int (now div 30000)"

text \<open>The start of a run, behind the budget gate; \<open>runs\<close> are the rows the gate evaluates.\<close>

definition start_change ::
  "linear_hook \<Rightarrow> percentage \<Rightarrow> millis \<Rightarrow> run_row list \<Rightarrow> state_change \<Rightarrow> hook_reply \<times> hook_call list" where
  "start_change h pct now runs sc =
     (case resolvePipeline (sc_labels sc) (lh_pipelines h) of
        None \<Rightarrow> (NoPipelineConfig, [])
      | Some (key, _) \<Rightarrow>
          (case selectRepoConfig key (Some (sc_teamId sc)) (sc_projectId sc)
                  (map (\<lambda>(k, r). (k, hr_repo r)) (lh_repos h)) of
             None \<Rightarrow> (NoRepoMapping, [])
           | Some repo \<Rightarrow>
               if (case lh_pmConfig h of None \<Rightarrow> False
                   | Some c \<Rightarrow> be_promoteBlocked (evaluateBudget pct c now (Some runs)))
               then (BudgetExceeded, [])
               else (RunQueued, [HookStart (sc_identifier sc) key repo (Some (sc_teamId sc))])))"

text \<open>The handler over a store for the deduplication: the one in memory or the one in the database.\<close>

definition handleLinear ::
  "('s \<Rightarrow> millis \<Rightarrow> string \<Rightarrow> bool \<times> 's) \<Rightarrow> ('s \<Rightarrow> millis \<Rightarrow> string \<Rightarrow> 's) \<Rightarrow> linear_hook \<Rightarrow> hmac \<Rightarrow>
   percentage \<Rightarrow> millis \<Rightarrow> run_row list \<Rightarrow> string \<Rightarrow> string \<Rightarrow> linear_payload option \<Rightarrow> 's \<Rightarrow>
   (hook_reply \<times> hook_call list) \<times> 's" where
  "handleLinear has add h digest pct now runs body signature payload d =
     (if \<not> verifyLinearSignature digest body signature (lh_secret h) then ((Unauthorized, []), d)
      else (case payload of
        None \<Rightarrow> ((InvalidJson, []), d)
      | Some p \<Rightarrow> (case parseStateChange p of
          None \<Rightarrow> ((Ignored, []), d)
        | Some sc \<Rightarrow> (case action_of (trigger_map_for h sc) (sc_newState sc) of
            None \<Rightarrow> ((Ignored, []), d)
          | Some act \<Rightarrow> (case has d now (dedup_key now sc) of
              (True, d1) \<Rightarrow> ((Deduplicated, []), d1)
            | (False, d1) \<Rightarrow>
                ((case act of
                    ActStart \<Rightarrow> start_change h pct now runs sc
                  | ActResume \<Rightarrow> (Resumed, [HookResume (sc_identifier sc)])
                  | ActPause \<Rightarrow> (PausedReply, [HookPause (sc_identifier sc)])
                  | ActAbort \<Rightarrow> (AbortedReply, [HookAbort (sc_identifier sc)])),
                 add d1 now (dedup_key now sc)))))))"

section \<open>Runs of a pull request\<close>

definition findPipelineRunByUrlOrBranch :: "run_row list \<Rightarrow> string \<Rightarrow> string option \<Rightarrow> run_row option" where
  "findPipelineRunByUrlOrBranch rows url branch =
     (case (if url = [] then None else select_one (\<lambda>r. r_prUrl r = Some url) rows) of
        Some r \<Rightarrow> Some r
      | None \<Rightarrow>
          (case branch of
             None \<Rightarrow> None
           | Some b \<Rightarrow> if startsWith b ''agent/'' then select_one (\<lambda>r. r_branch r = Some b) rows else None))"

definition updatePipelineRunMerged :: "run_id \<Rightarrow> bool option \<Rightarrow> string \<Rightarrow> run_row list \<Rightarrow> run_row list" where
  "updatePipelineRunMerged rid merged reason rows =
     update_where (\<lambda>r. r_id r = rid)
       (\<lambda>r. r\<lparr>r_autoMerged := merged, r_autoMergeReason := Some reason\<rparr>) rows"

text \<open>A merge from outside. The reply of GitHub's handler tells what was skipped, the shared one does not.\<close>

definition handleMergedEvent ::
  "string \<Rightarrow> string \<Rightarrow> string \<Rightarrow> bool \<Rightarrow> run_row list \<Rightarrow> (string option \<times> hook_call list) \<times> run_row list" where
  "handleMergedEvent url branch reason notifies rows =
     (if url = [] then ((Some ''no PR URL in payload'', []), rows)
      else (case findPipelineRunByUrlOrBranch rows url (Some branch) of
        None \<Rightarrow> ((Some ''not an agent-created PR'', []), rows)
      | Some r \<Rightarrow>
          if r_autoMerged r = Some True then ((Some ''already recorded as merged'', []), rows)
          else ((None, if notifies then [HookMerged (r_id r)] else []),
                updatePipelineRunMerged (r_id r) (Some True) reason rows)))"

section \<open>Review feedback\<close>

definition CLOSE_TAG :: string where
  "CLOSE_TAG = ''</review-comment>''"

definition CLOSE_TEXT :: string where
  "CLOSE_TEXT = ''[/review-comment]''"

text \<open>Replacing every closing tag, in whatever case.\<close>

function replace_close :: "string \<Rightarrow> string" where
  "replace_close [] = []"
| "replace_close (c # cs) =
     (if startsWith (toLowerCase (c # cs)) CLOSE_TAG
      then CLOSE_TEXT @ replace_close (drop (length CLOSE_TAG - 1) cs)
      else c # replace_close cs)"
  by pat_completeness auto
termination by (relation "measure length") auto

definition sanitize_comment :: "string \<Rightarrow> string" where
  "sanitize_comment body = replace_close (take 4000 body)"

text \<open>Why a comment does not trigger a run, if it does not; \<open>seen\<close> is the answer of the deduplication.\<close>

definition feedback_filter ::
  "feedback_config option \<Rightarrow> string \<Rightarrow> string \<Rightarrow> string option" where
  "feedback_filter cfg author body =
     (let bots = opt_list (Option.bind cfg fc_botLogins);
          allowed = opt_list (Option.bind cfg fc_allowedReviewers);
          keyword = or_empty (Option.bind cfg fc_triggerKeyword);
          autoTrigger = (Option.bind cfg fc_autoTrigger \<noteq> Some False)
      in if bots \<noteq> [] \<and> author \<in> set bots then Some ''comment from bot login''
         else if allowed \<noteq> [] \<and> author \<notin> set allowed then Some ''commenter not in allowedReviewers''
         else if keyword \<noteq> []
         then (if strIncludes body keyword then None else Some ''trigger keyword not found'')
         else if \<not> autoTrigger then Some ''autoTrigger is disabled and no triggerKeyword configured''
         else None)"

definition slug_of :: "string \<Rightarrow> run_row \<Rightarrow> string" where
  "slug_of branch r = (if startsWith branch ''agent/'' then drop 6 branch else r_issueId r)"

record comment_input =
  ci_id :: string
  ci_body :: string
  ci_author :: string
  ci_filePath :: "string option"
  ci_line :: "nat option"
  ci_prUrl :: string
  ci_prBranch :: string
  ci_prNumber :: nat
  ci_rerequest :: bool

text \<open>
  The filters, the deduplication, the rate limit and the call. \<open>active url\<close> tells whether a feedback run
  of the pull request is going on.
\<close>

definition processCommentFeedback ::
  "configs \<Rightarrow> (string \<Rightarrow> bool) \<Rightarrow> millis \<Rightarrow> comment_input \<Rightarrow> run_row \<Rightarrow> hook_repo \<Rightarrow> dedup_set \<Rightarrow>
   (hook_reply \<times> hook_call list) \<times> dedup_set" where
  "processCommentFeedback pipelines active now c r repo d =
     (case feedback_filter (hr_feedback repo) (ci_author c) (ci_body c) of
        Some why \<Rightarrow> ((Skipped why, []), d)
      | None \<Rightarrow> (case dedup_has d now (ci_id c) of
          (True, d1) \<Rightarrow> ((Deduplicated, []), d1)
        | (False, d1) \<Rightarrow>
            if active (ci_prUrl c) then ((Skipped ''feedback run already in progress'', []), d1)
            else if object_get pipelines (r_pipelineKey r) = None
            then ((Skipped ''pipeline config not found'', []), d1)
            else (let branch = (if ci_prBranch c = [] then or_empty (r_branch r) else ci_prBranch c)
                  in ((FeedbackTriggered, [HookFeedback \<lparr>fk_issueId = r_issueId r,
                        fk_pipelineKey = r_pipelineKey r, fk_repo = hr_repo repo,
                        fk_slug = slug_of branch r, fk_branch = branch, fk_prUrl = ci_prUrl c,
                        fk_prNumber = ci_prNumber c, fk_parentRunId = r_id r,
                        fk_comment = \<lparr>fb_commentId = ci_id c, fb_author = ci_author c,
                          fb_body = sanitize_comment (ci_body c),
                          fb_filePath = map_option (replace_close \<circ> take 500)
                            (case ci_filePath c of None \<Rightarrow> None | Some p \<Rightarrow> if p = [] then None else Some p),
                          fb_lineNumber = ci_line c\<rparr>,
                        fk_rerequestReview = ci_rerequest c\<rparr>]),
                      dedup_add COMMENT_TTL_MS d1 now (ci_id c)))))"

section \<open>GitHub\<close>

record gh_pull =
  gq_number :: "nat option"
  gq_htmlUrl :: "string option"
  gq_headRef :: "string option"
  gq_draft :: bool
  gq_merged :: bool

record gh_note =
  gn_id :: "nat option"
  gn_body :: "string option"
  gn_login :: "string option"
  gn_path :: "string option"
  gn_line :: "nat option"
  gn_originalLine :: "nat option"

record gh_payload =
  gp_action :: string
  gp_owner :: "string option"
  gp_repoName :: "string option"
  gp_checkPrs :: "gh_pull list option"
  gp_branches :: "string list option"
  gp_pull :: "gh_pull option"
  gp_review :: "gh_note option"
  gp_comment :: "gh_note option"
  gp_issueNumber :: nat
  gp_issuePr :: "string option option"

text \<open>A pull request an event is about: number (\<open>0\<close> when unknown), address and branch.\<close>

record pr_candidate =
  cd_number :: nat
  cd_url :: "string option"
  cd_branch :: "string option"

definition pull_candidate :: "gh_pull \<Rightarrow> pr_candidate" where
  "pull_candidate q = \<lparr>cd_number = (case gq_number q of None \<Rightarrow> 0 | Some n \<Rightarrow> n),
     cd_url = gq_htmlUrl q, cd_branch = gq_headRef q\<rparr>"

definition candidates :: "string \<Rightarrow> gh_payload \<Rightarrow> pr_candidate list" where
  "candidates event p =
     (if or_empty (gp_owner p) = [] \<or> or_empty (gp_repoName p) = [] then []
      else if event = ''check_suite'' then map pull_candidate (opt_list (gp_checkPrs p))
      else if event = ''status''
      then map (\<lambda>b. \<lparr>cd_number = 0, cd_url = None, cd_branch = Some b\<rparr>)
        (filter (\<lambda>b. startsWith b ''agent/'') (opt_list (gp_branches p)))
      else if event = ''pull_request''
      then (case gp_pull p of
        None \<Rightarrow> []
      | Some q \<Rightarrow> (case gq_number q of None \<Rightarrow> [] | Some n \<Rightarrow> if n = 0 then [] else [pull_candidate q]))
      else [])"

record github_hook =
  gh_secret :: "string option"
  gh_pipelines :: configs
  gh_repos :: "(string, hook_repo) js_map"
  gh_api :: "github_api option"
  gh_openPull :: "string \<Rightarrow> nat option option"
  gh_notifies :: bool

text \<open>
  One candidate. \<open>gh_openPull\<close> is the search for the open pull request of a branch: \<open>None\<close> when it fails,
  \<open>Some None\<close> when there is none.
\<close>

definition auto_merge_one ::
  "github_hook \<Rightarrow> github_api \<Rightarrow> pr_candidate \<Rightarrow> run_row list \<Rightarrow> hook_call list \<times> run_row list" where
  "auto_merge_one h api c rows =
     (case findPipelineRunByUrlOrBranch rows (or_empty (cd_url c)) (cd_branch c) of
        None \<Rightarrow> ([], rows)
      | Some r \<Rightarrow>
          if r_autoMerged r = Some True then ([], rows)
          else (case Option.bind (mapGet (gh_pipelines h) (r_pipelineKey r)) pc_autoMergeConfig of
            None \<Rightarrow> ([], rows)
          | Some options \<Rightarrow>
              (let number = (if cd_number c = 0 \<and> or_empty (cd_branch c) \<noteq> []
                     then (case gh_openPull h (or_empty (cd_branch c)) of
                       Some (Some n) \<Rightarrow> n | _ \<Rightarrow> 0)
                     else cd_number c)
               in if number = 0 then ([], rows)
                  else (case attemptAutoMerge api number options of
                    ((merged, message), asked) \<Rightarrow>
                      (if asked then [HookMergeRequest number] else [],
                       updatePipelineRunMerged (r_id r) (if merged then Some True else None) message rows)))))"

fun auto_merge_loop ::
  "github_hook \<Rightarrow> github_api \<Rightarrow> pr_candidate list \<Rightarrow> run_row list \<Rightarrow> hook_call list \<times> run_row list" where
  "auto_merge_loop h api [] rows = ([], rows)"
| "auto_merge_loop h api (c # cs) rows =
     (case auto_merge_one h api c rows of
        (calls, rows1) \<Rightarrow> (case auto_merge_loop h api cs rows1 of
          (calls2, rows2) \<Rightarrow> (calls @ calls2, rows2)))"

definition handleAutoMergeEvent ::
  "github_hook \<Rightarrow> string \<Rightarrow> gh_payload \<Rightarrow> run_row list \<Rightarrow> hook_call list \<times> run_row list" where
  "handleAutoMergeEvent h event p rows =
     (case gh_api h of None \<Rightarrow> ([], rows) | Some api \<Rightarrow> auto_merge_loop h api (candidates event p) rows)"

definition handlePRMergedEvent ::
  "github_hook \<Rightarrow> gh_payload \<Rightarrow> run_row list \<Rightarrow> (string option \<times> hook_call list) \<times> run_row list" where
  "handlePRMergedEvent h p rows =
     handleMergedEvent (or_empty (Option.bind (gp_pull p) gq_htmlUrl))
       (or_empty (Option.bind (gp_pull p) gq_headRef)) ''merged via GitHub'' (gh_notifies h) rows"

definition is_auto_merge_event :: "string \<Rightarrow> string \<Rightarrow> bool" where
  "is_auto_merge_event event action \<longleftrightarrow> event = ''check_suite'' \<or> event = ''status'' \<or>
     event = ''pull_request'' \<and> action \<in> {''labeled'', ''synchronize'', ''opened''}"

text \<open>The event of a comment or review, or why it is none.\<close>

definition comment_event :: "string \<Rightarrow> gh_payload \<Rightarrow> string option" where
  "comment_event event p =
     (if event \<notin> {''pull_request_review'', ''pull_request_review_comment'', ''issue_comment''}
      then Some ''unhandled event type''
      else if event = ''pull_request_review'' \<and> gp_action p \<noteq> ''submitted'' then Some ''not a submitted review''
      else if event \<noteq> ''pull_request_review'' \<and> gp_action p \<noteq> ''created'' then Some ''not a created comment''
      else if event = ''issue_comment'' \<and> gp_issuePr p = None then Some ''not a PR comment''
      else None)"

definition repo_of_run :: "(string, hook_repo) js_map \<Rightarrow> run_row \<Rightarrow> hook_repo option" where
  "repo_of_run repos r = find (\<lambda>rc. rp_url (hr_repo rc) = r_repoUrl r) (map snd repos)"

text \<open>The branch and the comment of an event; comments on issues come without a branch.\<close>

definition github_branch :: "string \<Rightarrow> gh_payload \<Rightarrow> string option" where
  "github_branch event p =
     (if event = ''issue_comment'' then None else Option.bind (gp_pull p) gq_headRef)"

definition github_comment :: "string \<Rightarrow> gh_payload \<Rightarrow> comment_input" where
  "github_comment event p =
     (let note_opt = (if event = ''pull_request_review'' then gp_review p else gp_comment p);
          inline = (event = ''pull_request_review_comment'');
          issue = (event = ''issue_comment'')
      in \<lparr>ci_id = (case Option.bind note_opt gn_id of None \<Rightarrow> [] | Some n \<Rightarrow> show_nat n),
           ci_body = or_empty (Option.bind note_opt gn_body),
           ci_author = or_empty (Option.bind note_opt gn_login),
           ci_filePath = (if inline then Option.bind note_opt gn_path else None),
           ci_line = (if inline then or_else (Option.bind note_opt gn_line)
             (Option.bind note_opt gn_originalLine) else None),
           ci_prUrl = (if issue then or_empty (Option.bind (gp_issuePr p) (\<lambda>u. u))
             else or_empty (Option.bind (gp_pull p) gq_htmlUrl)),
           ci_prBranch = or_empty (github_branch event p),
           ci_prNumber = (if issue then gp_issueNumber p
             else (case Option.bind (gp_pull p) gq_number of None \<Rightarrow> 0 | Some n \<Rightarrow> n)),
           ci_rerequest = False\<rparr>)"

definition github_feedback ::
  "github_hook \<Rightarrow> (string \<Rightarrow> bool) \<Rightarrow> millis \<Rightarrow> string \<Rightarrow> gh_payload \<Rightarrow> run_row list \<Rightarrow> dedup_set \<Rightarrow>
   (hook_reply \<times> hook_call list) \<times> dedup_set" where
  "github_feedback h active now event p rows d =
     (let c = github_comment event p; issue = (event = ''issue_comment'')
      in if trim (ci_body c) = [] then ((Skipped ''empty comment body'', []), d)
         else if \<not> issue \<and> gp_pull p = None then ((Skipped ''no pull_request in payload'', []), d)
         else if \<not> issue \<and> (case gp_pull p of None \<Rightarrow> False | Some q \<Rightarrow> gq_draft q)
         then ((Skipped ''PR is a draft'', []), d)
         else (case findPipelineRunByUrlOrBranch rows (ci_prUrl c) (github_branch event p) of
           None \<Rightarrow> ((Skipped ''not an agent-created PR'', []), d)
         | Some r \<Rightarrow> (case repo_of_run (gh_repos h) r of
             None \<Rightarrow> ((Skipped ''no repo config for this PR'', []), d)
           | Some repo \<Rightarrow> processCommentFeedback (gh_pipelines h) active now
               (c\<lparr>ci_rerequest := (Option.bind (hr_feedback repo) fc_rerequestReview = Some True)\<rparr>)
               r repo d)))"

record hook_state =
  hk_runs :: "run_row list"
  hk_dedup :: dedup_set

definition handleGitHub ::
  "github_hook \<Rightarrow> hmac \<Rightarrow> (string \<Rightarrow> bool) \<Rightarrow> millis \<Rightarrow> string \<Rightarrow> string \<Rightarrow> string \<Rightarrow> gh_payload option \<Rightarrow>
   hook_state \<Rightarrow> (hook_reply \<times> hook_call list) \<times> hook_state" where
  "handleGitHub h digest active now event body signature payload st =
     (case gh_secret h of
        None \<Rightarrow> ((NotConfigured, []), st)
      | Some secret \<Rightarrow>
          if secret = [] then ((NotConfigured, []), st)
          else if \<not> verifyGitHubSignature digest body signature secret then ((Unauthorized, []), st)
          else (case payload of
            None \<Rightarrow> ((InvalidJson, []), st)
          | Some p \<Rightarrow>
              if is_auto_merge_event event (gp_action p)
              then (case handleAutoMergeEvent h event p (hk_runs st) of
                (calls, rows) \<Rightarrow> ((AutoMergeChecked, calls), st\<lparr>hk_runs := rows\<rparr>))
              else if event = ''pull_request'' \<and> gp_action p = ''closed''
              then (if \<not> (case gp_pull p of None \<Rightarrow> False | Some q \<Rightarrow> gq_merged q)
                    then ((Skipped ''PR closed without merge'', []), st)
                    else (case handlePRMergedEvent h p (hk_runs st) of
                      ((Some why, calls), rows) \<Rightarrow> ((Skipped why, calls), st\<lparr>hk_runs := rows\<rparr>)
                    | ((None, calls), rows) \<Rightarrow> ((PrMerged, calls), st\<lparr>hk_runs := rows\<rparr>)))
              else (case comment_event event p of
                Some why \<Rightarrow> ((Skipped why, []), st)
              | None \<Rightarrow> (case github_feedback h active now event p (hk_runs st) (hk_dedup st) of
                  (out, d) \<Rightarrow> (out, st\<lparr>hk_dedup := d\<rparr>)))))"

section \<open>GitLab and Bitbucket\<close>

definition buildRepoConfigMap :: "(string, hook_repo) js_map \<Rightarrow> (string, hook_repo) js_map" where
  "buildRepoConfigMap repos = foldl (\<lambda>m rc. if rp_url (hr_repo rc) = [] then m
     else mapSet m (rp_url (hr_repo rc)) rc) [] (map snd repos)"

record note_event =
  ne_id :: "nat option"
  ne_body :: string
  ne_author :: string
  ne_url :: string
  ne_branch :: string
  ne_draft :: bool
  ne_number :: nat

datatype shared_event = MergedEvent string string | NoteEvent note_event | OtherEvent

text \<open>GitLab's payload, with the attributes of the object it is about, and Bitbucket's.\<close>

record gitlab_payload =
  lb_objectKind :: "string option"
  lb_action :: "string option"
  lb_state :: "string option"
  lb_url :: "string option"
  lb_sourceBranch :: "string option"
  lb_noteableType :: "string option"
  lb_id :: "nat option"
  lb_note :: "string option"
  lb_username :: "string option"
  lb_mrUrl :: "string option"
  lb_mrBranch :: "string option"
  lb_mrDraft :: "bool option"
  lb_mrWip :: "bool option"
  lb_mrIid :: "nat option"

definition gitlab_event :: "gitlab_payload \<Rightarrow> shared_event" where
  "gitlab_event p =
     (if lb_objectKind p = Some ''merge_request'' \<and>
         (lb_action p = Some ''merge'' \<or> lb_state p = Some ''merged'')
      then MergedEvent (or_empty (lb_url p)) (or_empty (lb_sourceBranch p))
      else if lb_objectKind p \<noteq> Some ''note'' \<or> lb_noteableType p \<noteq> Some ''MergeRequest'' then OtherEvent
      else NoteEvent \<lparr>ne_id = lb_id p, ne_body = or_empty (lb_note p), ne_author = or_empty (lb_username p),
        ne_url = or_empty (lb_mrUrl p), ne_branch = or_empty (lb_mrBranch p),
        ne_draft = (lb_mrDraft p = Some True \<or> lb_mrWip p = Some True),
        ne_number = (case lb_mrIid p of None \<Rightarrow> 0 | Some n \<Rightarrow> n)\<rparr>)"

record bitbucket_payload =
  bb_href :: "string option"
  bb_branch :: "string option"
  bb_prId :: "nat option"
  bb_commentId :: "nat option"
  bb_raw :: "string option"
  bb_nickname :: "string option"
  bb_displayName :: "string option"

definition bitbucket_event :: "string \<Rightarrow> bitbucket_payload \<Rightarrow> shared_event" where
  "bitbucket_event key p =
     (if key = ''pullrequest:fulfilled'' then MergedEvent (or_empty (bb_href p)) (or_empty (bb_branch p))
      else if key \<noteq> ''pullrequest:comment_created'' then OtherEvent
      else NoteEvent \<lparr>ne_id = bb_commentId p, ne_body = or_empty (bb_raw p),
        ne_author = or_empty (or_else (bb_nickname p) (bb_displayName p)), ne_url = or_empty (bb_href p),
        ne_branch = or_empty (bb_branch p), ne_draft = False,
        ne_number = (case bb_prId p of None \<Rightarrow> 0 | Some n \<Rightarrow> n)\<rparr>)"

record shared_hook =
  sh_secret :: "string option"
  sh_pipelines :: configs
  sh_repos :: "(string, hook_repo) js_map"
  sh_notifies :: bool

text \<open>
  What both handlers do after the check of the signature, which \<open>authentic\<close> tells. Without a secret every
  request is taken. The two differ in the words of their replies: \<open>forge\<close> and the name of a request.
\<close>

definition handleShared ::
  "string \<Rightarrow> string \<Rightarrow> string \<Rightarrow> shared_hook \<Rightarrow> (string \<Rightarrow> bool) \<Rightarrow> (string \<Rightarrow> bool) \<Rightarrow> millis \<Rightarrow>
   shared_event option \<Rightarrow> hook_state \<Rightarrow> (hook_reply \<times> hook_call list) \<times> hook_state" where
  "handleShared forge request unhandled h authentic active now payload st =
     (if \<not> (case sh_secret h of None \<Rightarrow> True | Some s \<Rightarrow> s = [] \<or> authentic s) then ((Unauthorized, []), st)
      else (case payload of
        None \<Rightarrow> ((InvalidJson, []), st)
      | Some OtherEvent \<Rightarrow> ((Skipped unhandled, []), st)
      | Some (MergedEvent url branch) \<Rightarrow>
          (case handleMergedEvent url branch (''merged via '' @ forge) (sh_notifies h) (hk_runs st) of
             ((why, calls), rows) \<Rightarrow> ((PrMerged, calls), st\<lparr>hk_runs := rows\<rparr>))
      | Some (NoteEvent n) \<Rightarrow>
          if trim (ne_body n) = [] then ((Skipped ''empty comment body'', []), st)
          else if ne_draft n then ((Skipped (request @ '' is a draft''), []), st)
          else if ne_url n = [] then ((Skipped (''no '' @ request @ '' URL in payload''), []), st)
          else (case findPipelineRunByUrlOrBranch (hk_runs st) (ne_url n) (Some (ne_branch n)) of
            None \<Rightarrow> ((Skipped (''not an agent-created '' @ request), []), st)
          | Some r \<Rightarrow> (case mapGet (buildRepoConfigMap (sh_repos h)) (r_repoUrl r) of
              None \<Rightarrow> ((Skipped (''no repo config for this '' @ request), []), st)
            | Some repo \<Rightarrow>
                (case processCommentFeedback (sh_pipelines h) active now
                   \<lparr>ci_id = (case ne_id n of None \<Rightarrow> [] | Some k \<Rightarrow> show_nat k), ci_body = ne_body n,
                    ci_author = ne_author n, ci_filePath = None, ci_line = None, ci_prUrl = ne_url n,
                    ci_prBranch = ne_branch n, ci_prNumber = ne_number n, ci_rerequest = False\<rparr>
                   r repo (hk_dedup st) of
                   (out, d) \<Rightarrow> (out, st\<lparr>hk_dedup := d\<rparr>))))))"

definition handleGitLab ::
  "shared_hook \<Rightarrow> (string \<Rightarrow> bool) \<Rightarrow> millis \<Rightarrow> string \<Rightarrow> gitlab_payload option \<Rightarrow> hook_state \<Rightarrow>
   (hook_reply \<times> hook_call list) \<times> hook_state" where
  "handleGitLab h active now token payload st =
     handleShared ''GitLab'' ''MR'' ''unhandled event type'' h (verifyGitLabToken token) active now
       (map_option gitlab_event payload) st"

definition verifyBitbucketSignature :: "hmac \<Rightarrow> string \<Rightarrow> string \<Rightarrow> string \<Rightarrow> bool" where
  "verifyBitbucketSignature digest body signature secret =
     (if \<not> startsWith signature ''sha256='' then False
      else (case timingSafeEqual (drop 7 signature) (digest secret body) of Some b \<Rightarrow> b | None \<Rightarrow> False))"

definition handleBitbucket ::
  "shared_hook \<Rightarrow> hmac \<Rightarrow> (string \<Rightarrow> bool) \<Rightarrow> millis \<Rightarrow> string \<Rightarrow> string \<Rightarrow> string \<Rightarrow> bitbucket_payload option \<Rightarrow>
   hook_state \<Rightarrow> (hook_reply \<times> hook_call list) \<times> hook_state" where
  "handleBitbucket h digest active now key body signature payload st =
     handleShared ''Bitbucket'' ''PR'' ''unhandled event key'' h (verifyBitbucketSignature digest body signature)
       active now (map_option (bitbucket_event key) payload) st"

end
