(* ===== verification/WebhookProps.thy ===== *)
theory WebhookProps
  imports Webhooks
begin

text \<open>
  What the webhooks guarantee: a delivery is acted on once, a call to the runner is guarded, and what a
  merge from a webhook does not look at.
\<close>

section \<open>Stores for the deduplication\<close>

text \<open>
  The interface: asking for a key, adding it and cleaning up, over the expiry of the keys. An entry is kept
  until it expires; an expired one counts as missing.
\<close>

locale dedup_store =
  fixes has :: "'s \<Rightarrow> millis \<Rightarrow> string \<Rightarrow> bool \<times> 's"
    and add :: "'s \<Rightarrow> millis \<Rightarrow> string \<Rightarrow> 's"
    and cleanup :: "'s \<Rightarrow> millis \<Rightarrow> 's"
    and expiry :: "'s \<Rightarrow> string \<Rightarrow> millis option"
    and ttl :: millis
    and invar :: "'s \<Rightarrow> bool"
  assumes has_iff: "invar s \<Longrightarrow> fst (has s now k) \<longleftrightarrow> (\<exists>t. expiry s k = Some t \<and> now \<le> t)"
    and has_keeps: "invar s \<Longrightarrow> expiry s k' = Some t \<Longrightarrow> now \<le> t \<Longrightarrow> expiry (snd (has s now k)) k' = Some t"
    and add_expiry: "invar s \<Longrightarrow> expiry (add s now k) k' = (if k' = k then Some (now + ttl) else expiry s k')"
    and cleanup_keeps: "invar s \<Longrightarrow> expiry s k = Some t \<Longrightarrow> now \<le> t \<Longrightarrow> expiry (cleanup s now) k = Some t"
    and invar_has: "invar s \<Longrightarrow> invar (snd (has s now k))"
    and invar_add: "invar s \<Longrightarrow> invar (add s now k)"
    and invar_cleanup: "invar s \<Longrightarrow> invar (cleanup s now)"
begin

text \<open>A key is known at a time if it expires no earlier.\<close>

definition known :: "'s \<Rightarrow> string \<Rightarrow> millis \<Rightarrow> bool" where
  "known s k until \<longleftrightarrow> (\<exists>t. expiry s k = Some t \<and> until \<le> t)"

lemma known_has: "invar s \<Longrightarrow> known s k' until \<Longrightarrow> now \<le> until \<Longrightarrow> known (snd (has s now k)) k' until"
  unfolding known_def by (meson has_keeps order_trans)

lemma known_add:
  "invar s \<Longrightarrow> known s k' until \<Longrightarrow> k' \<noteq> k \<or> until \<le> now + ttl \<Longrightarrow> known (add s now k) k' until"
  by (auto simp: known_def add_expiry)

lemma known_added: "invar s \<Longrightarrow> until \<le> now + ttl \<Longrightarrow> known (add s now k) k until"
  by (simp add: known_def add_expiry)

lemma known_cleanup: "invar s \<Longrightarrow> known s k until \<Longrightarrow> now \<le> until \<Longrightarrow> known (cleanup s now) k until"
  unfolding known_def by (meson cleanup_keeps order_trans)

lemma known_found: "invar s \<Longrightarrow> known s k until \<Longrightarrow> now \<le> until \<Longrightarrow> fst (has s now k)"
  unfolding known_def has_iff by (meson order_trans)

end

definition map_expiry :: "dedup_set \<Rightarrow> string \<Rightarrow> millis option" where
  "map_expiry s k = mapGet s k"

definition map_invar :: "dedup_set \<Rightarrow> bool" where
  "map_invar s \<longleftrightarrow> distinct (map fst s)"

definition row_expiry :: "dedup_row list \<Rightarrow> string \<Rightarrow> millis option" where
  "row_expiry rows k = map_of (map (\<lambda>r. (dd_id r, dd_expiresAt r)) rows) k"

definition row_invar :: "dedup_row list \<Rightarrow> bool" where
  "row_invar rows \<longleftrightarrow> distinct (map dd_id rows)"

lemma map_cleanup: "map_invar s \<Longrightarrow> mapGet s k = Some t \<Longrightarrow> now \<le> t \<Longrightarrow> mapGet (dedup_cleanup s now) k = Some t"
  unfolding map_invar_def dedup_cleanup_def
  by (rule map_of_is_SomeI) (auto simp: distinct_map_filter dest: map_of_SomeD)

interpretation mem: dedup_store dedup_has "dedup_add ttl" dedup_cleanup map_expiry ttl map_invar for ttl
proof unfold_locales
  fix s :: dedup_set and now t :: millis and k k' :: string
  assume inv: "map_invar s"
  show "fst (dedup_has s now k) \<longleftrightarrow> (\<exists>t. map_expiry s k = Some t \<and> now \<le> t)"
    by (auto simp: dedup_has_def map_expiry_def split: option.split)
  show "map_expiry (snd (dedup_has s now k)) k' = Some t" if "map_expiry s k' = Some t" "now \<le> t"
    using that by (cases "mapGet s k") (auto simp: dedup_has_def map_expiry_def)
  show "map_expiry (dedup_add ttl s now k) k' = (if k' = k then Some (now + ttl) else map_expiry s k')"
    by (simp add: dedup_add_def map_expiry_def)
  show "map_expiry (dedup_cleanup s now) k = Some t" if "map_expiry s k = Some t" "now \<le> t"
    using that map_cleanup [OF inv] by (simp add: map_expiry_def)
  show "map_invar (snd (dedup_has s now k))" "map_invar (dedup_add ttl s now k)" "map_invar (dedup_cleanup s now)"
    using inv by (simp_all add: map_invar_def dedup_has_def dedup_add_def dedup_cleanup_def distinct_delete
        distinct_update distinct_map_filter split: option.split)
qed

lemma row_expiry_iff: "row_invar rows \<Longrightarrow>
   row_expiry rows k = Some t \<longleftrightarrow> (\<exists>r \<in> set rows. dd_id r = k \<and> dd_expiresAt r = t)"
proof -
  assume "row_invar rows"
  then have "distinct (map fst (map (\<lambda>r. (dd_id r, dd_expiresAt r)) rows))"
    by (simp add: row_invar_def o_def)
  from map_of_eq_Some_iff [OF this] show ?thesis by (auto simp: row_expiry_def image_iff)
qed

lemma select_key:
  "(case select_where (\<lambda>r. dd_id r = k) rows of [] \<Rightarrow> None | r # _ \<Rightarrow> Some (dd_expiresAt r)) = row_expiry rows k"
  unfolding row_expiry_def select_where_def by (induction rows) auto

lemma db_has_expiry: "db_has rows now k =
   (case row_expiry rows k of
      None \<Rightarrow> (False, rows)
    | Some t \<Rightarrow> if t < now then (False, delete_where (\<lambda>r. dd_id r = k) rows) else (True, rows))"
  unfolding db_has_def select_key [symmetric] by (simp split: list.split)

lemma row_invar_delete: "row_invar rows \<Longrightarrow> row_invar (delete_where P rows)"
  by (simp add: row_invar_def delete_where_def distinct_map_filter)

lemma row_expiry_delete:
  "row_invar rows \<Longrightarrow> row_expiry rows k = Some t \<Longrightarrow> (\<And>r. dd_id r = k \<Longrightarrow> dd_expiresAt r = t \<Longrightarrow> \<not> P r) \<Longrightarrow>
   row_expiry (delete_where P rows) k = Some t"
  by (auto simp: row_expiry_iff row_invar_delete)

lemma map_update_of: "map_of (map (\<lambda>r. (dd_id r, dd_expiresAt r))
    (update_where (\<lambda>r. dd_id r = k) (\<lambda>r. r\<lparr>dd_expiresAt := e\<rparr>) rows)) k' =
  (if k' = k \<and> k \<in> dd_id ` set rows then Some e else row_expiry rows k')"
  unfolding row_expiry_def update_where_def by (induction rows) auto

interpretation db: dedup_store db_has "db_add ttl" db_cleanup row_expiry ttl row_invar for ttl
proof unfold_locales
  fix s :: "dedup_row list" and now t :: millis and k k' :: string
  assume inv: "row_invar s"
  show "fst (db_has s now k) \<longleftrightarrow> (\<exists>t. row_expiry s k = Some t \<and> now \<le> t)"
    by (auto simp: db_has_expiry split: option.split)
  show "row_expiry (snd (db_has s now k)) k' = Some t" if "row_expiry s k' = Some t" "now \<le> t"
  proof (cases "row_expiry s k")
    case None
    then show ?thesis using that by (simp add: db_has_expiry)
  next
    case (Some e)
    then have "k \<noteq> k'" if "e < now" using that \<open>row_expiry s k' = Some t\<close> \<open>now \<le> t\<close> by auto
    then show ?thesis using that Some by (auto simp: db_has_expiry intro!: row_expiry_delete [OF inv])
  qed
  show "row_expiry (db_add ttl s now k) k' = (if k' = k then Some (now + ttl) else row_expiry s k')"
  proof (cases "k \<in> dd_id ` set s")
    case True
    then show ?thesis unfolding db_add_def by (simp add: row_expiry_def [of "update_where P f s" for P f] map_update_of)
  next
    case False
    then have "row_expiry s k = None" by (auto simp: row_expiry_def map_of_eq_None_iff image_iff)
    with False show ?thesis
      by (auto simp: db_add_def row_expiry_def map_add_def split: option.split)
  qed
  show "row_expiry (db_cleanup s now) k = Some t" if "row_expiry s k = Some t" "now \<le> t"
    using that unfolding db_cleanup_def by (intro row_expiry_delete [OF inv]) auto
  have keys: "map dd_id (update_where P (\<lambda>r. r\<lparr>dd_expiresAt := e\<rparr>) s) = map dd_id s" for P e
    by (rule map_update_where) simp
  show "row_invar (db_add ttl s now k)" using inv keys by (auto simp: row_invar_def db_add_def)
  show "row_invar (snd (db_has s now k))" "row_invar (db_cleanup s now)"
    using inv by (simp_all add: db_has_expiry db_cleanup_def row_invar_delete split: option.split)
qed

section \<open>A change is acted on once\<close>

record delivery =
  dv_time :: millis
  dv_cleaned :: bool
  dv_runs :: "run_row list"
  dv_body :: string
  dv_signature :: string
  dv_payload :: "linear_payload option"

text \<open>The key of a delivery that is authentic and asks for an action.\<close>

definition delivery_key :: "linear_hook \<Rightarrow> hmac \<Rightarrow> delivery \<Rightarrow> string option" where
  "delivery_key h digest d =
     (if verifyLinearSignature digest (dv_body d) (dv_signature d) (lh_secret h)
      then (case Option.bind (dv_payload d) parseStateChange of
        None \<Rightarrow> None
      | Some sc \<Rightarrow> (case action_of (trigger_map_for h sc) (sc_newState sc) of
          None \<Rightarrow> None | Some act \<Rightarrow> Some (dedup_key (dv_time d) sc)))
      else None)"

text \<open>
  The keys that are acted on, in order, when deliveries arrive one after the other. Before any of them the
  timer may have cleaned up (\<open>dv_cleaned\<close>).
\<close>

fun acted_keys ::
  "('s \<Rightarrow> millis \<Rightarrow> string \<Rightarrow> bool \<times> 's) \<Rightarrow> ('s \<Rightarrow> millis \<Rightarrow> string \<Rightarrow> 's) \<Rightarrow> ('s \<Rightarrow> millis \<Rightarrow> 's) \<Rightarrow>
   linear_hook \<Rightarrow> hmac \<Rightarrow> percentage \<Rightarrow> delivery list \<Rightarrow> 's \<Rightarrow> string list" where
  "acted_keys has add cleanup h digest pct [] s = []"
| "acted_keys has add cleanup h digest pct (d # ds) s =
     (case handleLinear has add h digest pct (dv_time d) (dv_runs d) (dv_body d) (dv_signature d)
             (dv_payload d) (if dv_cleaned d then cleanup s (dv_time d) else s) of
        ((reply, calls), s1) \<Rightarrow>
          (case delivery_key h digest d of
             None \<Rightarrow> acted_keys has add cleanup h digest pct ds s1
           | Some k \<Rightarrow>
               (if reply = Deduplicated then [] else [k]) @ acted_keys has add cleanup h digest pct ds s1))"

lemma handle_no_key: "delivery_key h digest d = None \<Longrightarrow>
   snd (handleLinear has add h digest pct (dv_time d) runs (dv_body d) (dv_signature d) (dv_payload d) s) = s"
proof (cases "dv_payload d")
  case None
  then show ?thesis by (simp add: handleLinear_def)
next
  case (Some p)
  assume none: "delivery_key h digest d = None"
  show ?thesis
  proof (cases "parseStateChange p")
    case None
    with Some show ?thesis by (simp add: handleLinear_def)
  next
    case change: (Some sc)
    show ?thesis using none Some change
      by (cases "action_of (trigger_map_for h sc) (sc_newState sc)")
        (auto simp: handleLinear_def delivery_key_def split: if_splits)
  qed
qed

lemma start_not_dup: "fst (start_change h pct now runs sc) \<noteq> Deduplicated"
  by (simp add: start_change_def split: option.split prod.split)

lemma handle_key:
  assumes "delivery_key h digest d = Some k"
  shows "fst (fst (handleLinear has add h digest pct (dv_time d) runs (dv_body d) (dv_signature d)
        (dv_payload d) s)) = Deduplicated \<longleftrightarrow> fst (has s (dv_time d) k)"
    "snd (handleLinear has add h digest pct (dv_time d) runs (dv_body d) (dv_signature d) (dv_payload d) s) =
       (if fst (has s (dv_time d) k) then snd (has s (dv_time d) k)
        else add (snd (has s (dv_time d) k)) (dv_time d) k)"
proof -
  from assms obtain p sc act where parts:
    "verifyLinearSignature digest (dv_body d) (dv_signature d) (lh_secret h)" "dv_payload d = Some p"
    "parseStateChange p = Some sc" "action_of (trigger_map_for h sc) (sc_newState sc) = Some act"
    "k = dedup_key (dv_time d) sc"
    by (auto simp: delivery_key_def bind_eq_Some_conv split: if_splits option.splits)
  obtain seen s1 where asked: "has s (dv_time d) k = (seen, s1)" by fastforce
  show "fst (fst (handleLinear has add h digest pct (dv_time d) runs (dv_body d) (dv_signature d)
        (dv_payload d) s)) = Deduplicated \<longleftrightarrow> fst (has s (dv_time d) k)"
    using parts asked start_not_dup [of h pct "dv_time d" runs sc]
    by (cases act; cases seen) (auto simp: handleLinear_def)
  show "snd (handleLinear has add h digest pct (dv_time d) runs (dv_body d) (dv_signature d) (dv_payload d) s) =
       (if fst (has s (dv_time d) k) then snd (has s (dv_time d) k)
        else add (snd (has s (dv_time d) k)) (dv_time d) k)"
    using parts asked by (cases seen) (simp_all add: handleLinear_def)
qed

lemma after_last_colon:
  assumes "x @ '':'' @ a = y @ '':'' @ b" "CHR '':'' \<notin> set a" "CHR '':'' \<notin> set b"
  shows "a = b"
proof -
  have "rev a = takeWhile (\<lambda>c. c \<noteq> CHR '':'') (rev (x @ '':'' @ a))"
    using assms(2) by (auto simp: takeWhile_append takeWhile_eq_all_conv)
  also have "\<dots> = rev b"
    using assms(1,3) by (auto simp: takeWhile_append takeWhile_eq_all_conv)
  finally show ?thesis by simp
qed

lemma show_int_no_colon: "0 \<le> i \<Longrightarrow> CHR '':'' \<notin> set (show_int i)"
proof
  assume "0 \<le> i" "CHR '':'' \<in> set (show_int i)"
  then have "is_digit (CHR '':'')" using show_nat_digits [of "CHR '':''" "nat i"] by (simp add: show_int_def)
  then show False by (simp add: is_digit_def)
qed

lemma show_int_inject: "0 \<le> i \<Longrightarrow> 0 \<le> j \<Longrightarrow> show_int i = show_int j \<Longrightarrow> i = j"
proof -
  assume "0 \<le> i" "0 \<le> j" "show_int i = show_int j"
  then have "show_nat (nat i) = show_nat (nat j)" unfolding show_int_def by (simp only: not_less [symmetric] if_False)
  then have "nat i = nat j" by (metis parse_nat_show)
  with \<open>0 \<le> i\<close> \<open>0 \<le> j\<close> show "i = j" by simp
qed

lemma same_key_same_bucket:
  assumes "delivery_key h digest d = Some k" "delivery_key h digest d' = Some k" "0 \<le> dv_time d" "0 \<le> dv_time d'"
  shows "dv_time d div 30000 = dv_time d' div 30000"
proof -
  obtain sc where key: "dedup_key (dv_time d) sc = k"
    using assms(1) by (auto simp: delivery_key_def split: if_splits option.splits)
  obtain sc' where key': "dedup_key (dv_time d') sc' = k"
    using assms(2) by (auto simp: delivery_key_def split: if_splits option.splits)
  have pos: "0 \<le> dv_time d div 30000" "0 \<le> dv_time d' div 30000"
    using assms(3,4) by (simp_all add: pos_imp_zdiv_nonneg_iff)
  have "(sc_identifier sc @ '':'' @ sc_newState sc) @ '':'' @ show_int (dv_time d div 30000) =
      (sc_identifier sc' @ '':'' @ sc_newState sc') @ '':'' @ show_int (dv_time d' div 30000)"
    unfolding append_assoc using key key' unfolding dedup_key_def by (rule trans [OF _ sym])
  from after_last_colon [OF this show_int_no_colon [OF pos(1)] show_int_no_colon [OF pos(2)]]
  show ?thesis by (rule show_int_inject [OF pos])
qed

lemma same_key_window:
  assumes "delivery_key h digest d = Some k" "delivery_key h digest d' = Some k" "0 \<le> dv_time d" "0 \<le> dv_time d'"
  shows "dv_time d' \<le> dv_time d + 30000"
proof -
  have "dv_time d div 30000 = dv_time d' div 30000" by (rule same_key_same_bucket [OF assms])
  moreover have "dv_time d' = dv_time d' div 30000 * 30000 + dv_time d' mod 30000"
    "dv_time d = dv_time d div 30000 * 30000 + dv_time d mod 30000" by simp_all
  moreover have "dv_time d' mod 30000 < 30000" "0 \<le> dv_time d mod 30000" by simp_all
  ultimately show ?thesis by linarith
qed

context dedup_store begin

lemma acted_once:
  assumes "sorted (map dv_time ds)" "\<forall>d \<in> set ds. 0 \<le> dv_time d" "invar s" "30000 \<le> ttl"
    and "\<forall>k \<in> K. \<forall>d \<in> set ds. delivery_key h digest d = Some k \<longrightarrow> known s k (dv_time d)"
  shows "distinct (acted_keys has add cleanup h digest pct ds s) \<and>
     set (acted_keys has add cleanup h digest pct ds s) \<inter> K = {}"
  using assms
proof (induction ds arbitrary: s K)
  case Nil
  then show ?case by simp
next
  case (Cons d ds)
  let ?t = "dv_time d"
  let ?c = "if dv_cleaned d then cleanup s ?t else s"
  let ?r = "handleLinear has add h digest pct ?t (dv_runs d) (dv_body d) (dv_signature d) (dv_payload d) ?c"
  have later: "?t \<le> dv_time d'" if "d' \<in> set ds" for d' using that Cons.prems(1) by auto
  have inv: "invar ?c" using Cons.prems(3) by (simp add: invar_cleanup)
  have K: "known ?c k (dv_time d')" if "k \<in> K" "d' \<in> set (d # ds)" "delivery_key h digest d' = Some k" for k d'
    using that Cons.prems(3,5) later by (auto intro: known_cleanup)
  obtain reply calls s1 where r: "?r = ((reply, calls), s1)" by (metis prod.exhaust)
  note IH = Cons.IH [OF _ _ _ Cons.prems(4)]
  show ?case
  proof (cases "delivery_key h digest d")
    case None
    with handle_no_key [OF None, of has add pct "dv_runs d" ?c] r have "s1 = ?c" by simp
    then have "distinct (acted_keys has add cleanup h digest pct ds s1) \<and>
        set (acted_keys has add cleanup h digest pct ds s1) \<inter> K = {}"
      using Cons.prems(1,2) inv K by (intro IH) auto
    with None r show ?thesis by simp
  next
    case (Some k)
    let ?h = "has ?c ?t k"
    from handle_key [OF Some, of has add pct "dv_runs d" ?c] r
    have reply: "reply = Deduplicated \<longleftrightarrow> fst ?h" and s1: "s1 = (if fst ?h then snd ?h else add (snd ?h) ?t k)"
      by simp_all
    have inv': "invar (snd ?h)" using inv by (rule invar_has)
    have old: "known (snd ?h) k' (dv_time d')" if "k' \<in> K" "d' \<in> set ds" "delivery_key h digest d' = Some k'" for k' d'
      using that K later by (intro known_has [OF inv]) auto
    show ?thesis
    proof (cases "fst ?h")
      case True
      then have "distinct (acted_keys has add cleanup h digest pct ds s1) \<and>
          set (acted_keys has add cleanup h digest pct ds s1) \<inter> K = {}"
        using Cons.prems(1,2) invar_has [OF inv] old s1 by (intro IH) auto
      with True reply Some r show ?thesis by simp
    next
      case False
      then have "k \<notin> K" using K [of k d] Some known_found [OF inv] by auto
      have "known s1 k' (dv_time d')" if "k' \<in> insert k K" "d' \<in> set ds" "delivery_key h digest d' = Some k'" for k' d'
      proof (cases "k' = k")
        case True
        then have "dv_time d' \<le> ?t + 30000"
          using same_key_window [OF Some] that Cons.prems(2) by simp
        with True Cons.prems(4) False s1 show ?thesis using known_added [OF inv'] by simp
      next
        case neq: False
        with that old False s1 show ?thesis using known_add [OF inv'] by simp
      qed
      moreover have "invar s1" using False s1 invar_add [OF inv'] by simp
      ultimately have "distinct (acted_keys has add cleanup h digest pct ds s1) \<and>
          set (acted_keys has add cleanup h digest pct ds s1) \<inter> insert k K = {}"
        using Cons.prems(1,2) by (intro IH) auto
      with \<open>k \<notin> K\<close> False reply Some r show ?thesis by auto
    qed
  qed
qed

end


text \<open>A delivery of "ENG-7 is Approved" that is signed with the digest the model is given.\<close>

definition sample_digest :: hmac where
  "sample_digest secret body = secret @ body"

definition sample_hook :: linear_hook where
  "sample_hook = \<lparr>lh_secret = ''s'', lh_pipelines = [], lh_repos = [], lh_triggerMap = None,
     lh_pmConfig = None\<rparr>"

definition sample_delivery :: "millis \<Rightarrow> delivery" where
  "sample_delivery t = \<lparr>dv_time = t, dv_cleaned = True, dv_runs = [], dv_body = ''b'', dv_signature = ''sb'',
     dv_payload = Some \<lparr>lp_type = ''Issue'', lp_action = ''update'', lp_updatedStateId = Some ''old'',
       lp_data = Some \<lparr>ld_identifier = Some ''ENG-7'', ld_labels = None, ld_teamId = None, ld_team = None,
         ld_projectId = None, ld_project = None, ld_stateName = Some ''Approved''\<rparr>\<rparr>\<rparr>"


text \<open>
  Two deliveries of one change in different half minutes are both acted on, be they a millisecond apart.
\<close>

theorem redelivery_across_boundary:
  assumes "delivery_key h digest d = Some k" "delivery_key h digest d' = Some k'"
    and "dv_time d div 30000 \<noteq> dv_time d' div 30000" "0 \<le> dv_time d" "0 \<le> dv_time d'"
  shows "acted_keys dedup_has (dedup_add DEDUP_TTL_MS) dedup_cleanup h digest pct [d, d'] [] = [k, k']"
proof -
  have "k \<noteq> k'" using same_key_same_bucket assms by metis
  have first: "\<exists>calls reply. handleLinear dedup_has (dedup_add DEDUP_TTL_MS) h digest pct (dv_time d) (dv_runs d) (dv_body d)
      (dv_signature d) (dv_payload d) [] = ((reply, calls), [(k, dv_time d + DEDUP_TTL_MS)]) \<and> reply \<noteq> Deduplicated"
    using handle_key [OF assms(1), of dedup_has "dedup_add DEDUP_TTL_MS" pct "dv_runs d" "[]"]
    by (cases "handleLinear dedup_has (dedup_add DEDUP_TTL_MS) h digest pct (dv_time d) (dv_runs d) (dv_body d)
      (dv_signature d) (dv_payload d) []") (auto simp: dedup_has_def dedup_add_def)
  let ?s = "if dv_cleaned d' then dedup_cleanup [(k, dv_time d + DEDUP_TTL_MS)] (dv_time d')
    else [(k, dv_time d + DEDUP_TTL_MS)]"
  have "mapGet ?s k' = None" using \<open>k \<noteq> k'\<close> by (auto simp: dedup_cleanup_def)
  then have second: "fst (fst (handleLinear dedup_has (dedup_add DEDUP_TTL_MS) h digest pct (dv_time d') (dv_runs d')
      (dv_body d') (dv_signature d') (dv_payload d') ?s)) \<noteq> Deduplicated"
    using handle_key(1) [OF assms(2), of dedup_has "dedup_add DEDUP_TTL_MS" pct "dv_runs d'" ?s]
    by (simp add: dedup_has_def)
  have empty: "(if dv_cleaned d then dedup_cleanup [] (dv_time d) else []) = []" by (simp add: dedup_cleanup_def)
  from first second show ?thesis
    by (cases "dv_cleaned d'") (auto simp: assms(1,2) empty split: prod.split)
qed

theorem redelivery_across_boundary_witness:
  "acted_keys dedup_has (dedup_add DEDUP_TTL_MS) dedup_cleanup sample_hook sample_digest
      (\<lambda>_ _. 0) [sample_delivery 29999, sample_delivery 30000] [] = [''ENG-7:Approved:0'', ''ENG-7:Approved:1'']"
proof (rule redelivery_across_boundary)
  show "delivery_key sample_hook sample_digest (sample_delivery 29999) = Some ''ENG-7:Approved:0''"
    "delivery_key sample_hook sample_digest (sample_delivery 30000) = Some ''ENG-7:Approved:1''"
    by code_simp+
qed (simp_all add: sample_delivery_def)

section \<open>What a comment can carry into a prompt\<close>

lemma replace_close_prefix:
  "startsWith (toLowerCase (replace_close s)) p \<Longrightarrow> CHR ''['' \<notin> set p \<Longrightarrow> startsWith (toLowerCase s) p"
proof (induction s arbitrary: p rule: replace_close.induct)
  case 1
  then show ?case by simp
next
  case (2 c cs)
  show ?case
  proof (cases "startsWith (toLowerCase (c # cs)) CLOSE_TAG")
    case True
    with 2(3,4) have "p = []"
      by (cases p) (auto simp: CLOSE_TEXT_def toLowerCase_def lower_char_def)
    then show ?thesis by simp
  next
    case False
    with 2 show ?thesis by (cases p) (auto simp: toLowerCase_def)
  qed
qed

lemma no_tag_in_text:
  assumes "\<not> strIncludes s CLOSE_TAG" "CHR ''<'' \<notin> set u"
  shows "\<not> strIncludes (u @ s) CLOSE_TAG"
  using assms(2)
proof (induction u)
  case Nil
  then show ?case using assms(1) by simp
next
  case (Cons c u)
  then show ?case by (auto simp: CLOSE_TAG_def)
qed

text \<open>
  Whatever a reviewer writes, the text that goes into the prompt holds no closing tag, in any case, so it
  cannot leave the element it is put into.
\<close>

theorem no_tag_breakout: "\<not> strIncludes (toLowerCase (sanitize_comment body)) CLOSE_TAG"
proof -
  have "\<not> strIncludes (toLowerCase (replace_close s)) CLOSE_TAG" for s
  proof (induction s rule: replace_close.induct)
    case 1
    then show ?case by (simp add: toLowerCase_def CLOSE_TAG_def)
  next
    case (2 c cs)
    show ?case
    proof (cases "startsWith (toLowerCase (c # cs)) CLOSE_TAG")
      case True
      have "toLowerCase (replace_close (c # cs)) =
          toLowerCase CLOSE_TEXT @ toLowerCase (replace_close (drop (length CLOSE_TAG - 1) cs))"
        using True by (simp add: toLowerCase_def)
      moreover have "CHR ''<'' \<notin> set (toLowerCase CLOSE_TEXT)" by code_simp
      ultimately show ?thesis using no_tag_in_text [OF 2(1) [OF True]] by simp
    next
      case False
      have "CHR ''['' \<notin> set CLOSE_TAG" by code_simp
      with False replace_close_prefix [of "c # cs" CLOSE_TAG]
      have "\<not> startsWith (toLowerCase (replace_close (c # cs))) CLOSE_TAG" by blast
      with False 2(2) show ?thesis by (simp add: toLowerCase_def)
    qed
  qed
  then show ?thesis by (simp add: sanitize_comment_def)
qed

section \<open>Tokens\<close>

lemma or_word_zero: "or x y = (0 :: 8 word) \<longleftrightarrow> x = 0 \<and> y = 0"
  by (metis or_eq_0_iff)

lemma xor_zero: "xor x y = (0 :: 8 word) \<longleftrightarrow> x = y"
proof
  assume "xor x y = 0"
  then have "xor (xor x y) y = y" by simp
  then show "x = y" by (simp add: bit.conj_xor_distrib xor.assoc)
qed simp

lemma diff_bytes_zero: "length as = length bs \<Longrightarrow> diff_bytes as bs r = 0 \<longleftrightarrow> r = 0 \<and> as = bs"
proof (induction as bs r rule: diff_bytes.induct)
  case (1 a as b bs r)
  then show ?case by (auto simp: or_word_zero xor_zero)
qed auto

lemma pad_inject:
  assumes "padEnd n a = padEnd n b" "CHR 0x00 \<notin> set a" "CHR 0x00 \<notin> set b"
  shows "a = b"
proof -
  have strip: "takeWhile (\<lambda>c. c \<noteq> CHR 0x00) (padEnd n s) = s" if "CHR 0x00 \<notin> set s" for s
  proof -
    have "takeWhile (\<lambda>c. c \<noteq> CHR 0x00) (s @ replicate k (CHR 0x00)) = s" for k
      using that by (induction s) (auto simp: takeWhile_replicate)
    then show ?thesis by (simp add: padEnd_def)
  qed
  show ?thesis using strip [OF assms(2)] strip [OF assms(3)] assms(1) by metis
qed

lemma bytes_inject: "bytes a = bytes b \<longleftrightarrow> a = b"
proof
  assume "bytes a = bytes b"
  moreover have "inj (of_char :: char \<Rightarrow> 8 word)" proof (rule injI)
    fix c d :: char
    assume "(of_char c :: 8 word) = of_char d"
    then have "unat (of_nat (of_char c) :: 8 word) = unat (of_nat (of_char d) :: 8 word)"
      by (simp only: of_nat_of_char)
    then show "c = d" by (simp add: unat_of_nat take_bit_eq_mod)
  qed
  ultimately show "a = b" by (simp add: bytes_def inj_map_eq_map)
qed simp

text \<open>The comparison of GitLab's token takes exactly the token, if neither holds a NUL.\<close>

theorem gitlab_token_exact:
  assumes "CHR 0x00 \<notin> set received" "CHR 0x00 \<notin> set expected"
  shows "verifyGitLabToken received expected \<longleftrightarrow> received = expected \<and> expected \<noteq> []"
proof -
  have "diff_bytes (bytes (padEnd 256 received)) (bytes (padEnd 256 expected)) 0 = 0 \<longleftrightarrow> received = expected"
    if "length (bytes (padEnd 256 received)) = length (bytes (padEnd 256 expected))"
    using that assms pad_inject by (auto simp: diff_bytes_zero bytes_inject)
  moreover have "length (bytes (padEnd 256 received)) = length (bytes (padEnd 256 expected))"
    if "received = expected" using that by simp
  ultimately show ?thesis by (auto simp: verifyGitLabToken_def Let_def)
qed

theorem gitlab_token_exact_witness:
  "\<not> verifyGitLabToken ''secret'' ''secrets'' \<and> verifyGitLabToken ''secret'' ''secret''"
  using gitlab_token_exact [of "''secret''" "''secrets''"] gitlab_token_exact [of "''secret''" "''secret''"]
  by simp

section \<open>Merges\<close>

text \<open>A merge is recorded and announced once, however often and from wherever it is reported.\<close>

theorem merge_recorded_once:
  "\<exists>why. handleMergedEvent url branch reason' notifies'
       (snd (handleMergedEvent url branch reason notifies rows)) =
     ((Some why, []), snd (handleMergedEvent url branch reason notifies rows))"
proof (cases "url = [] \<or> findPipelineRunByUrlOrBranch rows url (Some branch) = None")
  case True
  then show ?thesis by (auto simp: handleMergedEvent_def)
next
  case False
  then obtain r where r: "url \<noteq> []" "findPipelineRunByUrlOrBranch rows url (Some branch) = Some r" by auto
  show ?thesis
  proof (cases "r_autoMerged r = Some True")
    case True
    with r show ?thesis by (simp add: handleMergedEvent_def)
  next
    case False
    let ?f = "\<lambda>r. r\<lparr>r_autoMerged := Some True, r_autoMergeReason := Some reason\<rparr>"
    have upd: "find P (update_where Q ?f rows) = map_option (\<lambda>r. if Q r then ?f r else r) (find P rows)"
      if "\<And>r. P (?f r) = P r" for P Q
      unfolding update_where_def using that by (induction rows) auto
    have "findPipelineRunByUrlOrBranch (updatePipelineRunMerged (r_id r) (Some True) reason rows) url (Some branch)
        = Some (?f r)"
      using r by (auto simp: findPipelineRunByUrlOrBranch_def updatePipelineRunMerged_def select_one_def upd
          split: option.splits if_splits)
    with r False show ?thesis by (simp add: handleMergedEvent_def)
  qed
qed

text \<open>Other limits in the configurations.\<close>

definition change_limits :: "(string \<Rightarrow> policy option) \<Rightarrow> (string \<Rightarrow> bool option) \<Rightarrow> (string \<Rightarrow> nat option) \<Rightarrow>
    (string \<Rightarrow> string list option) \<Rightarrow> configs \<Rightarrow> configs" where
  "change_limits policy switch lines paths = map (\<lambda>(k, c). (k, c\<lparr>pc_policy := policy k, pc_autoMerge := switch k,
     pc_autoMergeMaxLines := lines k, pc_autoMergeExcludePatterns := paths k\<rparr>))"

lemma limits_keep_merge_config:
  "Option.bind (mapGet (change_limits policy switch lines paths cs) k) pc_autoMergeConfig =
   Option.bind (mapGet cs k) pc_autoMergeConfig"
  unfolding change_limits_def by (induction cs) auto

text \<open>
  A merge from a webhook does not look at the policy of the organisation, at the limit of lines, the
  excluded paths or the switch that the stage \<open>automerge\<close> of a run goes by: with any other values it does
  the same.
\<close>
theorem webhook_merge_ignores_policy:
  "handleAutoMergeEvent (h\<lparr>gh_pipelines := change_limits policy switch lines paths (gh_pipelines h)\<rparr>) event p rows =
   handleAutoMergeEvent h event p rows"
proof -
  have "auto_merge_one (h\<lparr>gh_pipelines := change_limits policy switch lines paths (gh_pipelines h)\<rparr>) =
      auto_merge_one h"
    by (intro ext) (simp add: auto_merge_one_def limits_keep_merge_config split: option.split)
  then have "auto_merge_loop (h\<lparr>gh_pipelines := change_limits policy switch lines paths (gh_pipelines h)\<rparr>) api cs rows =
      auto_merge_loop h api cs rows" for api cs rows
    by (induction cs arbitrary: rows) simp_all
  then show ?thesis by (simp add: handleAutoMergeEvent_def split: option.split)
qed

section \<open>Calls to the runner are guarded\<close>

text \<open>
  A run is started from Linear only by an authentic change into the starting state, for a labelled issue of
  a known repository, not seen in the last half minute, and not when the budget stops promotions.
\<close>

theorem linear_start_guarded:
  assumes "HookStart i key repo team \<in>
    set (snd (fst (handleLinear has add h digest pct now runs body signature payload s)))"
  shows "verifyLinearSignature digest body signature (lh_secret h) \<and> (\<exists>p sc. payload = Some p \<and>
    parseStateChange p = Some sc \<and> i = sc_identifier sc \<and> team = Some (sc_teamId sc) \<and>
    action_of (trigger_map_for h sc) (sc_newState sc) = Some ActStart \<and>
    map_option fst (resolvePipeline (sc_labels sc) (lh_pipelines h)) = Some key \<and>
    \<not> fst (has s now (dedup_key now sc)) \<and>
    (\<forall>c. lh_pmConfig h = Some c \<longrightarrow> \<not> be_promoteBlocked (evaluateBudget pct c now (Some runs))))"
proof -
  have "verifyLinearSignature digest body signature (lh_secret h)"
    using assms by (auto simp: handleLinear_def split: if_splits)
  moreover obtain p where p: "payload = Some p"
    using assms by (cases payload) (auto simp: handleLinear_def split: if_splits)
  moreover obtain sc where sc: "parseStateChange p = Some sc"
    using assms p by (cases "parseStateChange p") (auto simp: handleLinear_def split: if_splits)
  moreover obtain act where act: "action_of (trigger_map_for h sc) (sc_newState sc) = Some act"
    using assms p sc by (cases "action_of (trigger_map_for h sc) (sc_newState sc)")
      (auto simp: handleLinear_def split: if_splits)
  moreover obtain seen s1 where seen: "has s now (dedup_key now sc) = (seen, s1)" by fastforce
  moreover have "\<not> seen"
    using assms p sc act seen by (cases seen) (auto simp: handleLinear_def split: if_splits)
  moreover have start: "act = ActStart \<and> HookStart i key repo team \<in> set (snd (start_change h pct now runs sc))"
    using assms p sc act seen \<open>\<not> seen\<close> by (cases act) (auto simp: handleLinear_def split: if_splits)
  moreover have "i = sc_identifier sc \<and> team = Some (sc_teamId sc) \<and>
      map_option fst (resolvePipeline (sc_labels sc) (lh_pipelines h)) = Some key"
    using start by (auto simp: start_change_def split: option.splits prod.splits if_splits)
  moreover have "\<forall>c. lh_pmConfig h = Some c \<longrightarrow> \<not> be_promoteBlocked (evaluateBudget pct c now (Some runs))"
    using start by (auto simp: start_change_def split: option.splits prod.splits if_splits)
  ultimately show ?thesis by auto
qed

text \<open>What a call for a feedback run has to do with the event it answers.\<close>

lemma processed_call:
  assumes "HookFeedback f \<in> set (snd (fst (processCommentFeedback pipelines active now c r repo d)))"
  shows "feedback_filter (hr_feedback repo) (ci_author c) (ci_body c) = None \<and>
    \<not> fst (dedup_has d now (ci_id c)) \<and> \<not> active (ci_prUrl c) \<and>
    object_get pipelines (r_pipelineKey r) \<noteq> None \<and>
    snd (fst (processCommentFeedback pipelines active now c r repo d)) = [HookFeedback f] \<and>
    snd (processCommentFeedback pipelines active now c r repo d) =
      dedup_add COMMENT_TTL_MS (snd (dedup_has d now (ci_id c))) now (ci_id c) \<and>
    fk_parentRunId f = r_id r \<and> fk_repo f = hr_repo repo \<and> fk_prUrl f = ci_prUrl c \<and>
    fb_commentId (fk_comment f) = ci_id c \<and> fb_author (fk_comment f) = ci_author c \<and>
    fb_body (fk_comment f) = sanitize_comment (ci_body c)"
proof -
  obtain seen d1 where seen: "dedup_has d now (ci_id c) = (seen, d1)" by fastforce
  have "feedback_filter (hr_feedback repo) (ci_author c) (ci_body c) = None"
    using assms by (auto simp: processCommentFeedback_def split: option.splits)
  moreover from this have "\<not> seen"
    using assms seen by (cases seen) (simp_all add: processCommentFeedback_def)
  ultimately show ?thesis
    using assms seen by (auto simp: processCommentFeedback_def Let_def split: if_splits)
qed

lemma processed_store:
  "snd (fst (processCommentFeedback pipelines active now c r repo d)) = [] \<Longrightarrow>
   snd (processCommentFeedback pipelines active now c r repo d) \<in> {d, snd (dedup_has d now (ci_id c))}"
  by (auto simp: processCommentFeedback_def Let_def split: option.splits prod.splits bool.splits if_splits)

lemma processed_calls:
  "snd (fst (processCommentFeedback pipelines active now c r repo d)) = [] \<or>
   (\<exists>f. snd (fst (processCommentFeedback pipelines active now c r repo d)) = [HookFeedback f])"
  by (auto simp: processCommentFeedback_def Let_def split: option.splits prod.splits bool.splits if_splits)

lemma repo_of_run_Some: "repo_of_run repos r = Some repo \<Longrightarrow> repo \<in> snd ` set repos \<and> rp_url (hr_repo repo) = r_repoUrl r"
  by (auto simp: repo_of_run_def find_Some_iff)

lemma found_run: "findPipelineRunByUrlOrBranch rows url branch = Some r \<Longrightarrow> r \<in> set rows"
  by (auto simp: findPipelineRunByUrlOrBranch_def dest!: select_one_Some split: option.splits if_splits)

lemma github_feedback_cases:
  "(\<exists>why. github_feedback h active now event p rows d = ((Skipped why, []), d)) \<or>
   (\<exists>c r repo. github_feedback h active now event p rows d =
       processCommentFeedback (gh_pipelines h) active now c r repo d \<and> trim (ci_body c) \<noteq> [] \<and>
     r \<in> set rows \<and> repo \<in> snd ` set (gh_repos h) \<and> rp_url (hr_repo repo) = r_repoUrl r)"
proof (cases "\<exists>why. github_feedback h active now event p rows d = ((Skipped why, []), d)")
  case False
  let ?c = "github_comment event p"
  have run: "github_feedback h active now event p rows d \<noteq> ((Skipped why, []), d)" for why using False by simp
  have body: "trim (ci_body ?c) \<noteq> []"
    using run [of "''empty comment body''"] by (auto simp: github_feedback_def Let_def)
  have pull: "(event \<noteq> ''issue_comment'' \<and> gp_pull p = None) = False"
    using run [of "''no pull_request in payload''"] body
    by (cases "event = ''issue_comment''"; cases "gp_pull p") (simp_all add: github_feedback_def Let_def)
  have draft: "(event \<noteq> ''issue_comment'' \<and> (case gp_pull p of None \<Rightarrow> False | Some q \<Rightarrow> gq_draft q)) = False"
    using run [of "''PR is a draft''"] body pull
    by (cases "event = ''issue_comment''"; cases "gp_pull p")
      (auto simp: github_feedback_def Let_def split: if_splits)
  obtain r where r: "findPipelineRunByUrlOrBranch rows (ci_prUrl ?c) (github_branch event p) = Some r"
    using run [of "''not an agent-created PR''"] body pull draft
    by (cases "findPipelineRunByUrlOrBranch rows (ci_prUrl ?c) (github_branch event p)")
      (auto simp: github_feedback_def Let_def)
  obtain repo where repo: "repo_of_run (gh_repos h) r = Some repo"
    using run [of "''no repo config for this PR''"] body pull draft r
    by (cases "repo_of_run (gh_repos h) r") (auto simp: github_feedback_def Let_def)
  let ?i = "?c\<lparr>ci_rerequest := (Option.bind (hr_feedback repo) fc_rerequestReview = Some True)\<rparr>"
  have "github_feedback h active now event p rows d = processCommentFeedback (gh_pipelines h) active now ?i r repo d"
    unfolding github_feedback_def Let_def pull draft using body r repo by (simp only: if_False option.case)
  then show ?thesis using body found_run [OF r] repo_of_run_Some [OF repo]
    by (intro disjI2 exI [where x = ?i] exI [where x = r] exI [where x = repo]) simp
qed auto

lemma auto_merge_calls: "HookFeedback f \<notin> set (fst (handleAutoMergeEvent h event p rows))"
proof -
  have one: "HookFeedback f \<notin> set (fst (auto_merge_one h api c rows))" for api c rows
    by (auto simp: auto_merge_one_def Let_def split: option.splits prod.splits if_splits)
  have "HookFeedback f \<notin> set (fst (auto_merge_loop h api cs rows))" for api cs rows
  proof (induction cs arbitrary: rows)
    case (Cons c cs)
    obtain calls rows1 where "auto_merge_one h api c rows = (calls, rows1)" by fastforce
    moreover obtain calls2 rows2 where "auto_merge_loop h api cs rows1 = (calls2, rows2)" by fastforce
    ultimately show ?case using Cons.IH [of rows1] one [of api c rows] by simp
  qed simp
  then show ?thesis by (simp add: handleAutoMergeEvent_def split: option.split)
qed

lemma merged_calls: "HookFeedback f \<notin> set (snd (fst (handleMergedEvent url branch reason notifies rows)))"
  by (auto simp: handleMergedEvent_def split: option.splits)

text \<open>An event either asks for no feedback run and leaves the store, or is processed as a comment.\<close>

lemma github_cases:
  assumes "handleGitHub h digest active now event body signature payload st = ((reply, calls), st')"
  shows "(\<forall>f. HookFeedback f \<notin> set calls) \<and> hk_dedup st' = hk_dedup st \<or>
   (\<exists>secret c r repo. gh_secret h = Some secret \<and> secret \<noteq> [] \<and> verifyGitHubSignature digest body signature secret \<and>
     processCommentFeedback (gh_pipelines h) active now c r repo (hk_dedup st) = ((reply, calls), hk_dedup st') \<and>
     trim (ci_body c) \<noteq> [] \<and> r \<in> set (hk_runs st) \<and> repo \<in> snd ` set (gh_repos h) \<and>
     rp_url (hr_repo repo) = r_repoUrl r)"
proof (cases "\<exists>secret p. gh_secret h = Some secret \<and> secret \<noteq> [] \<and>
    verifyGitHubSignature digest body signature secret \<and> payload = Some p")
  case False
  then have "calls = [] \<and> st' = st"
    using assms unfolding handleGitHub_def by (cases "gh_secret h"; cases payload) (auto split: if_splits)
  then show ?thesis by simp
next
  case True
  then obtain secret p where ok: "gh_secret h = Some secret" "secret \<noteq> []"
    "verifyGitHubSignature digest body signature secret" "payload = Some p" by blast
  consider (auto_merge) "is_auto_merge_event event (gp_action p)"
    | (closed) "\<not> is_auto_merge_event event (gp_action p)" "event = ''pull_request'' \<and> gp_action p = ''closed''"
    | (other) why where "\<not> is_auto_merge_event event (gp_action p)"
        "(event = ''pull_request'' \<and> gp_action p = ''closed'') = False" "comment_event event p = Some why"
    | (comment) "\<not> is_auto_merge_event event (gp_action p)"
        "(event = ''pull_request'' \<and> gp_action p = ''closed'') = False" "comment_event event p = None"
    by blast
  then show ?thesis
  proof cases
    case auto_merge
    obtain cs rows where "handleAutoMergeEvent h event p (hk_runs st) = (cs, rows)" by fastforce
    with auto_merge_calls [where h = h and event = event and p = p and rows = "hk_runs st"] auto_merge ok assms
    show ?thesis by (auto simp: handleGitHub_def)
  next
    case closed
    obtain why cs rows where "handlePRMergedEvent h p (hk_runs st) = ((why, cs), rows)" by (metis prod.exhaust)
    moreover from this have "HookFeedback f \<notin> set cs" for f
      using merged_calls [where f = f and rows = "hk_runs st"] unfolding handlePRMergedEvent_def by (metis fst_conv snd_conv)
    ultimately show ?thesis using closed ok assms
      by (cases why) (auto simp: handleGitHub_def split: if_splits)
  next
    case other
    have "handleGitHub h digest active now event body signature payload st = ((Skipped why, []), st)"
      unfolding handleGitHub_def ok(1,4) other(2,3) option.case using ok(2,3) other(1) by simp
    with assms show ?thesis by simp
  next
    case comment
    obtain out d where fb: "github_feedback h active now event p (hk_runs st) (hk_dedup st) = (out, d)" by fastforce
    have "handleGitHub h digest active now event body signature payload st = (out, st\<lparr>hk_dedup := d\<rparr>)"
      unfolding handleGitHub_def ok(1,4) comment(2,3) option.case fb prod.case using ok(2,3) comment(1) by simp
    with assms have out: "out = (reply, calls)" "st' = st\<lparr>hk_dedup := d\<rparr>" by simp_all
    from github_feedback_cases [of h active now event p "hk_runs st" "hk_dedup st"] show ?thesis
    proof
      assume "\<exists>why. github_feedback h active now event p (hk_runs st) (hk_dedup st) = ((Skipped why, []), hk_dedup st)"
      with fb out show ?thesis by auto
    next
      assume "\<exists>c r repo. github_feedback h active now event p (hk_runs st) (hk_dedup st) =
          processCommentFeedback (gh_pipelines h) active now c r repo (hk_dedup st) \<and> trim (ci_body c) \<noteq> [] \<and>
        r \<in> set (hk_runs st) \<and> repo \<in> snd ` set (gh_repos h) \<and> rp_url (hr_repo repo) = r_repoUrl r"
      then obtain c r repo where "processCommentFeedback (gh_pipelines h) active now c r repo (hk_dedup st) = (out, d)"
        "trim (ci_body c) \<noteq> []" "r \<in> set (hk_runs st)" "repo \<in> snd ` set (gh_repos h)"
        "rp_url (hr_repo repo) = r_repoUrl r" using fb by metis
      with ok out show ?thesis
        by (intro disjI2 exI [where x = secret] exI [where x = c] exI [where x = r] exI [where x = repo]) simp
    qed
  qed
qed


text \<open>The comments that are answered when events arrive one after the other, the timer cleaning up or not.\<close>

record gh_event =
  ge_time :: millis
  ge_cleaned :: bool
  ge_active :: "string \<Rightarrow> bool"
  ge_event :: string
  ge_body :: string
  ge_signature :: string
  ge_payload :: "gh_payload option"

definition answered :: "hook_call list \<Rightarrow> string list" where
  "answered calls = concat (map (\<lambda>c. case c of HookFeedback f \<Rightarrow> [fb_commentId (fk_comment f)] | _ \<Rightarrow> []) calls)"

fun answered_ids :: "github_hook \<Rightarrow> hmac \<Rightarrow> gh_event list \<Rightarrow> hook_state \<Rightarrow> string list" where
  "answered_ids h digest [] st = []"
| "answered_ids h digest (e # es) st =
     (let st0 = (if ge_cleaned e then st\<lparr>hk_dedup := dedup_cleanup (hk_dedup st) (ge_time e)\<rparr> else st) in
      case handleGitHub h digest (ge_active e) (ge_time e) (ge_event e) (ge_body e) (ge_signature e)
             (ge_payload e) st0 of
        ((reply, calls), st1) \<Rightarrow> answered calls @ answered_ids h digest es st1)"

lemma answered_none: "(\<forall>f. HookFeedback f \<notin> set calls) \<Longrightarrow> answered calls = []"
  by (auto simp: answered_def split: hook_call.split)

text \<open>What one event does to the store and which comment it answers.\<close>

lemma github_step:
  assumes "handleGitHub h digest active now event body signature payload st = ((reply, calls), st')"
  shows "\<exists>k. answered calls = [] \<and> hk_dedup st' \<in> {hk_dedup st, snd (dedup_has (hk_dedup st) now k)} \<or>
    answered calls = [k] \<and> \<not> fst (dedup_has (hk_dedup st) now k) \<and>
    hk_dedup st' = dedup_add COMMENT_TTL_MS (snd (dedup_has (hk_dedup st) now k)) now k"
  using github_cases [OF assms]
proof
  assume "(\<forall>f. HookFeedback f \<notin> set calls) \<and> hk_dedup st' = hk_dedup st"
  then show ?thesis by (simp add: answered_none)
next
  assume "\<exists>secret c r repo. gh_secret h = Some secret \<and> secret \<noteq> [] \<and> verifyGitHubSignature digest body signature secret \<and>
     processCommentFeedback (gh_pipelines h) active now c r repo (hk_dedup st) = ((reply, calls), hk_dedup st') \<and>
     trim (ci_body c) \<noteq> [] \<and> r \<in> set (hk_runs st) \<and> repo \<in> snd ` set (gh_repos h) \<and>
     rp_url (hr_repo repo) = r_repoUrl r"
  then obtain c r repo where
    p: "processCommentFeedback (gh_pipelines h) active now c r repo (hk_dedup st) = ((reply, calls), hk_dedup st')" by blast
  show ?thesis
  proof (cases "calls = []")
    case True
    with processed_store [of "gh_pipelines h" active now c r repo "hk_dedup st"] p show ?thesis
      by (intro exI [where x = "ci_id c"]) (simp add: answered_def)
  next
    case False
    with processed_calls [of "gh_pipelines h" active now c r repo "hk_dedup st"] p
    obtain f where f: "calls = [HookFeedback f]" by auto
    with processed_call [of f "gh_pipelines h" active now c r repo "hk_dedup st"] p show ?thesis
      by (intro exI [where x = "ci_id c"]) (auto simp: answered_def)
  qed
qed

lemma answered_fresh:
  assumes "\<forall>e \<in> set es. T - COMMENT_TTL_MS \<le> ge_time e \<and> ge_time e \<le> T" "map_invar (hk_dedup st)"
    and "\<forall>k \<in> K. mem.known (hk_dedup st) k T"
  shows "distinct (answered_ids h digest es st) \<and> set (answered_ids h digest es st) \<inter> K = {}"
  using assms
proof (induction es arbitrary: st K)
  case Nil
  then show ?case by simp
next
  case (Cons e es)
  let ?now = "ge_time e"
  let ?st = "if ge_cleaned e then st\<lparr>hk_dedup := dedup_cleanup (hk_dedup st) ?now\<rparr> else st"
  let ?d = "hk_dedup ?st"
  have inv: "map_invar ?d" using Cons.prems(2) mem.invar_cleanup by simp
  have time: "?now \<le> T" "T \<le> ?now + COMMENT_TTL_MS" using Cons.prems(1) by auto
  have K: "\<forall>k \<in> K. mem.known ?d k T" using Cons.prems(2,3) time(1) mem.known_cleanup by simp
  obtain reply calls st1 where r: "handleGitHub h digest (ge_active e) ?now (ge_event e) (ge_body e)
      (ge_signature e) (ge_payload e) ?st = ((reply, calls), st1)" by (metis prod.exhaust)
  obtain k where k: "answered calls = [] \<and> hk_dedup st1 \<in> {?d, snd (dedup_has ?d ?now k)} \<or>
    answered calls = [k] \<and> \<not> fst (dedup_has ?d ?now k) \<and>
    hk_dedup st1 = dedup_add COMMENT_TTL_MS (snd (dedup_has ?d ?now k)) ?now k"
    using github_step [OF r] by blast
  have inv1: "map_invar (snd (dedup_has ?d ?now k))" using inv by (rule mem.invar_has)
  have K1: "\<forall>k' \<in> K. mem.known (snd (dedup_has ?d ?now k)) k' T"
    using K mem.known_has [OF inv _ time(1)] by blast
  have rest: "distinct (answered_ids h digest es st1) \<and> set (answered_ids h digest es st1) \<inter> L = {}"
    if "map_invar (hk_dedup st1)" "\<forall>k \<in> L. mem.known (hk_dedup st1) k T" for L
    using Cons.prems(1) that by (intro Cons.IH) auto
  have split: "answered_ids h digest (e # es) st = answered calls @ answered_ids h digest es st1"
    using r by (simp add: Let_def)
  from k show ?case
  proof
    assume none: "answered calls = [] \<and> hk_dedup st1 \<in> {?d, snd (dedup_has ?d ?now k)}"
    then have "map_invar (hk_dedup st1)" "\<forall>k \<in> K. mem.known (hk_dedup st1) k T"
      using inv inv1 K K1 by (auto split: if_splits)
    with rest none split show ?thesis by simp
  next
    assume one: "answered calls = [k] \<and> \<not> fst (dedup_has ?d ?now k) \<and>
      hk_dedup st1 = dedup_add COMMENT_TTL_MS (snd (dedup_has ?d ?now k)) ?now k"
    have "k \<notin> K" using one K mem.known_found [OF inv _ time(1)] by blast
    have "map_invar (hk_dedup st1)" using one mem.invar_add [OF inv1] by simp
    moreover have "\<forall>k' \<in> insert k K. mem.known (hk_dedup st1) k' T"
      using one K1 mem.known_added [OF inv1 time(2)] mem.known_add [OF inv1 _ disjI2 [OF time(2)]] by auto
    ultimately show ?thesis using rest [of "insert k K"] one split \<open>k \<notin> K\<close> by simp
  qed
qed

text \<open>
  A comment is answered once in a day, however often GitHub delivers it.\<close>

theorem comment_answered_once:
  assumes "\<forall>e \<in> set es. t \<le> ge_time e \<and> ge_time e \<le> t + COMMENT_TTL_MS"
  shows "distinct (answered_ids h digest es \<lparr>hk_runs = rows, hk_dedup = []\<rparr>)"
  using answered_fresh [of es "t + COMMENT_TTL_MS" "\<lparr>hk_runs = rows, hk_dedup = []\<rparr>" "{}"] assms
  by (simp add: map_invar_def)

text \<open>A repository, a run with a pull request and an event for the witnesses.\<close>

definition sample_repo :: hook_repo where
  "sample_repo = \<lparr>hr_repo = \<lparr>rp_url = ''url'', rp_defaultBranch = ''main'', rp_testCommand = ''t'',
     rp_buildCommand = ''b'', rp_setupCommands = None, rp_provider = None, rp_labelPattern = None\<rparr>,
     hr_triggerMap = None, hr_feedback = None\<rparr>"

definition sample_start :: linear_payload where
  "sample_start = \<lparr>lp_type = ''Issue'', lp_action = ''update'', lp_updatedStateId = Some ''old'',
     lp_data = Some \<lparr>ld_identifier = Some ''ENG-7'', ld_labels = Some [Some ''Bug''], ld_teamId = Some ''T'',
       ld_team = None, ld_projectId = None, ld_project = None, ld_stateName = Some ''Todo''\<rparr>\<rparr>"

definition sample_linear :: linear_hook where
  "sample_linear = \<lparr>lh_secret = ''s'', lh_pipelines = defaultConfigs, lh_repos = [(''T'', sample_repo)],
     lh_triggerMap = None, lh_pmConfig = None\<rparr>"

theorem linear_start_guarded_witness:
  "verifyLinearSignature sample_digest ''b'' ''sb'' (lh_secret sample_linear) \<and>
   HookStart ''ENG-7'' ''bug'' (hr_repo sample_repo) (Some ''T'') \<in>
    set (snd (fst (handleLinear dedup_has (dedup_add DEDUP_TTL_MS) sample_linear sample_digest (\<lambda>_ _. 0) 5 []
      ''b'' ''sb'' (Some sample_start) [])))"
proof -
  have "HookStart ''ENG-7'' ''bug'' (hr_repo sample_repo) (Some ''T'') \<in>
    set (snd (fst (handleLinear dedup_has (dedup_add DEDUP_TTL_MS) sample_linear sample_digest (\<lambda>_ _. 0) 5 []
      ''b'' ''sb'' (Some sample_start) [])))" by code_simp
  with linear_start_guarded [OF this] show ?thesis by blast
qed

definition sample_run :: run_row where
  "sample_run = \<lparr>r_id = ''r1'', r_issueId = ''ENG-7'', r_issueTitle = ''t'', r_pipelineKey = ''bug'',
     r_repoUrl = ''url'', r_agentSessionId = None, r_branch = Some ''agent/x'', r_status = Completed,
     r_startedAt = 0, r_completedAt = None, r_prUrl = Some ''pr'', r_totalInputTokens = 0,
     r_totalOutputTokens = 0, r_errorMessage = None, r_currentStageIndex = None, r_resumePayload = None,
     r_retryCount = 0, r_runType = ''standard'', r_autoMerged = None, r_autoMergeReason = None,
     r_autoCommitted = None, r_linearTeamId = None\<rparr>"

definition sample_github :: github_hook where
  "sample_github = \<lparr>gh_secret = Some ''s'', gh_pipelines = defaultConfigs, gh_repos = [(''T'', sample_repo)],
     gh_api = None, gh_openPull = (\<lambda>_. None), gh_notifies = False\<rparr>"

definition sample_note :: gh_payload where
  "sample_note = \<lparr>gp_action = ''created'', gp_owner = None, gp_repoName = None, gp_checkPrs = None,
     gp_branches = None, gp_pull = None, gp_review = None,
     gp_comment = Some \<lparr>gn_id = Some 4, gn_body = Some ''fix'', gn_login = Some ''ann'', gn_path = None,
       gn_line = None, gn_originalLine = None\<rparr>,
     gp_issueNumber = 3, gp_issuePr = Some (Some ''pr'')\<rparr>"

definition sample_state :: hook_state where
  "sample_state = \<lparr>hk_runs = [sample_run], hk_dedup = []\<rparr>"

definition sample_event :: "millis \<Rightarrow> gh_event" where
  "sample_event t = \<lparr>ge_time = t, ge_cleaned = False, ge_active = (\<lambda>_. False), ge_event = ''issue_comment'',
     ge_body = ''b'', ge_signature = ''sha256=sb'', ge_payload = Some sample_note\<rparr>"

definition sample_call :: feedback_call where
  "sample_call = \<lparr>fk_issueId = ''ENG-7'', fk_pipelineKey = ''bug'', fk_repo = hr_repo sample_repo, fk_slug = ''x'',
     fk_branch = ''agent/x'', fk_prUrl = ''pr'', fk_prNumber = 3, fk_parentRunId = ''r1'',
     fk_comment = \<lparr>fb_commentId = ''4'', fb_author = ''ann'', fb_body = ''fix'', fb_filePath = None,
       fb_lineNumber = None\<rparr>, fk_rerequestReview = False\<rparr>"

lemma sample_answer:
  "handleGitHub sample_github sample_digest (\<lambda>_. False) 5 ''issue_comment'' ''b'' ''sha256=sb''
     (Some sample_note) sample_state =
   ((FeedbackTriggered, [HookFeedback sample_call]), sample_state\<lparr>hk_dedup := [(''4'', 86400005)]\<rparr>)"
  by code_simp


theorem comment_answered_once_witness:
  "distinct (answered_ids sample_github sample_digest [sample_event 5, sample_event 86400000] sample_state) \<and>
   answered_ids sample_github sample_digest [sample_event 5] sample_state = [''4'']"
  using comment_answered_once [of "[sample_event 5, sample_event 86400000]" 5 sample_github sample_digest "[sample_run]"]
  by (simp add: sample_event_def COMMENT_TTL_MS_def sample_state_def [symmetric] sample_answer answered_def
      sample_call_def split: prod.split)

end
