(* ===== verification/Feedback.thy ===== *)
theory Feedback
  imports Pipeline
begin

text \<open>
  The review-feedback run (\<open>pipeline/feedback-pipeline.ts\<close>): it checks out the branch of an existing pull
  request, runs the stages of the pipeline with the comments as context, and pushes to the same branch. It
  shares the local variables, the external calls and many phases with \<open>executePipeline\<close>; the stage loop is
  its own. In front of it, \<open>startFeedbackPipeline\<close> claims the slot of the pull request and enqueues the job.
  The pull request's reviewers are asked again through \<open>repo/github.ts\<close>. The stored copy of the comments and
  the id of the parent run are read by no modelled code and left out.
\<close>

section \<open>Arguments\<close>

text \<open>What the function is called with, next to what it has in common with \<open>executePipeline\<close>.\<close>

record feedback_env =
  fe_env :: pipeline_env
  fe_prUrl :: string
  fe_prNumber :: "nat option"
  fe_comments :: "feedback_comment list"
  fe_rerequestReview :: bool

definition FEEDBACK_RUN_TYPE :: string where
  "FEEDBACK_RUN_TYPE = ''review-feedback''"

definition FEEDBACK_SKIP_STAGES :: "stage set" where
  "FEEDBACK_SKIP_STAGES = {Triage, Reproduce, AwaitApproval}"

definition buildReviewFeedbackContext :: "string \<Rightarrow> string \<Rightarrow> feedback_comment list \<Rightarrow> review_feedback" where
  "buildReviewFeedbackContext prUrl prBranch comments =
     \<lparr>rf_prUrl = prUrl, rf_prBranch = prBranch,
      rf_comments = map (\<lambda>c. \<lparr>rm_author = fb_author c, rm_body = fb_body c, rm_file = fb_filePath c,
        rm_line = fb_lineNumber c, rm_createdAt = []\<rparr>) comments\<rparr>"

section \<open>Beginning and setup\<close>

text \<open>The name of the current stage is that of \<open>x_lastStageIndex\<close>, \<open>unknown\<close> before the first.\<close>

definition feedback_begin :: "feedback_env \<Rightarrow> px \<Rightarrow> px" where
  "feedback_begin f x =
     (let e = fe_env f; x1 = mark_running e (x\<lparr>x_lastStageIndex := - 1\<rparr>) in
      on_sys (notify (OnPipelineStart (en_runId e)))
        (on_sys (\<lambda>s. s\<lparr>work := upsertActiveWork (clock s) (en_runId e) (si_id (en_issue e))
           ''implement'' None (work s)\<rparr>) x1))"

definition feedback_setup :: "pipeline_env \<Rightarrow> px \<Rightarrow> px" where
  "feedback_setup e = seq [clone_repo e, create_worktree e, start_devcontainer e, setup_commands e, detect_stack e]"

section \<open>The stages\<close>

definition feedback_stage_list :: "pipeline_config \<Rightarrow> stage list" where
  "feedback_stage_list cfg = filter (\<lambda>s. s \<notin> FEEDBACK_SKIP_STAGES) (pc_stages cfg)"

definition feedback_cancel :: "feedback_env \<Rightarrow> stop_mode \<Rightarrow> px \<Rightarrow> px" where
  "feedback_cancel f mode x =
     (let (s, run) = markRunCancelled (en_runId (fe_env f)) (x_run x) mode (Some (fe_prUrl f)) (x_sys x)
      in return (x\<lparr>x_sys := s, x_run := run\<rparr>))"

definition feedback_stop_check :: "feedback_env \<Rightarrow> stage \<Rightarrow> px \<Rightarrow> px" where
  "feedback_stop_check f stg x =
     (let x1 = x\<lparr>x_lastStageIndex := stage_index (fe_env f) stg\<rparr> in
      case getStopSignal (signal (x_sys x1)) (en_runId (fe_env f)) of
        Some mode \<Rightarrow> feedback_cancel f mode x1
      | None \<Rightarrow> x1)"

text \<open>The call; only the implementing stage gets the comments. A new session id is not looked at.\<close>

definition feedback_call :: "feedback_env \<Rightarrow> stage \<Rightarrow> px \<Rightarrow> stage_call" where
  "feedback_call f stg x =
     \<lparr>sc_stage = stg, sc_handoff = x_handoff x, sc_agentSessionId = None,
      sc_isFirstResumableStage = False, sc_suppressHandoff = False, sc_iteration = None,
      sc_promptOverride = None,
      sc_context = (if stg = Implement
        then Some (FeedbackContext (buildReviewFeedbackContext (fe_prUrl f) (en_branch (fe_env f)) (fe_comments f)))
        else None)\<rparr>"

definition feedback_execute :: "feedback_env \<Rightarrow> stage \<Rightarrow> px \<Rightarrow> px" where
  "feedback_execute f stg x =
     (let e = fe_env f; c = feedback_call f stg x in
      case en_executeStage e (now x) c of
        Inl msg \<Rightarrow> throw msg (await e (StageThrew c) x)
      | Inr r \<Rightarrow> (await e (Executed c r) x)\<lparr>x_result := r\<rparr>)"

definition feedback_after_call :: "feedback_env \<Rightarrow> px \<Rightarrow> px" where
  "feedback_after_call f x =
     (if re_status (x_result x) = StageCancelled
      then feedback_cancel f (case getStopSignal (signal (x_sys x)) (en_runId (fe_env f)) of
             None \<Rightarrow> Cancel | Some m \<Rightarrow> m) x
      else count_result x)"

text \<open>\<open>failPipeline\<close> without a context: a feedback run is never retried.\<close>

definition feedback_fail :: "pipeline_env \<Rightarrow> string \<Rightarrow> string \<Rightarrow> bool \<Rightarrow> px \<Rightarrow> px" where
  "feedback_fail e stg msg exhausted x =
     (let (s, run) = failPipeline (en_runId e) (x_run x) stg msg exhausted None (x_sys x)
      in x\<lparr>x_sys := s, x_run := run\<rparr>)"

definition feedback_fail_if_failed :: "pipeline_env \<Rightarrow> stage \<Rightarrow> px \<Rightarrow> px" where
  "feedback_fail_if_failed e stg x =
     (if re_status (x_result x) = StageFailed
      then return (feedback_fail e (stage_name stg) (error_or ''Stage failed'' x) False x) else x)"

definition applyAutoCommit :: "pipeline_env \<Rightarrow> px \<Rightarrow> px" where
  "applyAutoCommit e x =
     (case en_autoCommit e (now x) of
        Inl msg \<Rightarrow> throw msg (await e (AutoCommitted False) x)
      | Inr did \<Rightarrow>
          (let x1 = await e (AutoCommitted did) x
           in if did then on_run (\<lambda>r. r\<lparr>pr_autoCommitted := Some True\<rparr>) x1 else x1))"

definition feedback_stage_phases :: "feedback_env \<Rightarrow> stage \<Rightarrow> (px \<Rightarrow> px) list" where
  "feedback_stage_phases f stg =
     (let e = fe_env f in
      [feedback_stop_check f stg, announce e stg, feedback_execute f stg, feedback_after_call f,
       check_budget e stg, stage_done e stg, feedback_fail_if_failed e stg, take_handoff,
       applyAutoCommit e, refresh_files e])"

definition feedback_stage :: "feedback_env \<Rightarrow> stage \<Rightarrow> px \<Rightarrow> px" where
  "feedback_stage f stg = seq (feedback_stage_phases f stg)"

definition feedback_stages :: "feedback_env \<Rightarrow> px \<Rightarrow> px" where
  "feedback_stages f = seq (map (feedback_stage f) (feedback_stage_list (en_config (fe_env f))))"

section \<open>The push\<close>

text \<open>
  The two expressions of \<open>parseRepoUrl\<close>, \<open>/git@github\.com:([^/]+)\/([^/.]+)/\<close> and
  \<open>/github\.com\/([^/]+)\/([^/.]+)/\<close>, as the first place a marker, an owner and a name follow each other.
\<close>

fun match_repo :: "string \<Rightarrow> string \<Rightarrow> (string \<times> string) option" where
  "match_repo marker [] = None"
| "match_repo marker (c # cs) =
     (let rest = drop (length marker) (c # cs);
          owner = takeWhile (\<lambda>d. d \<noteq> CHR ''/'') rest;
          repo = takeWhile (\<lambda>d. d \<noteq> CHR ''/'' \<and> d \<noteq> CHR ''.'') (drop (length owner + 1) rest)
      in if startsWith (c # cs) marker \<and> owner \<noteq> [] \<and> length owner < length rest \<and> repo \<noteq> []
         then Some (owner, repo) else match_repo marker cs)"

definition parseRepoUrl :: "string \<Rightarrow> (string \<times> string) option" where
  "parseRepoUrl url =
     (case match_repo ''git@github.com:'' url of
        Some p \<Rightarrow> Some p
      | None \<Rightarrow> match_repo ''github.com/'' url)"

text \<open>A conflict is pushed by force for a human; any other failed rebase is pushed like a successful one.\<close>

definition feedback_rebase_push :: "feedback_env \<Rightarrow> px \<Rightarrow> px" where
  "feedback_rebase_push f x =
     (let e = fe_env f; r = en_rebase e (now x); x1 = await e Rebased x in
      if \<not> rb_success r \<and> rb_hasConflicts r
      then seq [\<lambda>y. await e RebaseAborted y,
                \<lambda>y. attempt e (Pushed ForceWithLease) (en_push e (now y) ForceWithLease) y,
                \<lambda>y. on_sys (notify (OnHumanReviewNeeded (en_runId e) (fe_prUrl f)
                  ''Merge conflicts in feedback run -- please resolve manually'')) y] x1
      else (let strategy = choosePushStrategy (en_branch e) False
            in attempt e (Pushed strategy) (en_push e (now x1) strategy) x1))"

text \<open>Asking for the review again; an error is only logged.\<close>

definition rerequest_review :: "feedback_env \<Rightarrow> px \<Rightarrow> px" where
  "rerequest_review f x =
     (if fe_rerequestReview f \<and> en_github (fe_env f) \<and>
         (case fe_prNumber f of None \<Rightarrow> False | Some n \<Rightarrow> n \<noteq> 0) \<and>
         parseRepoUrl (rp_url (en_repo (fe_env f))) \<noteq> None
      then await (fe_env f) ReviewRerequested x else x)"

definition feedback_push_section :: "feedback_env \<Rightarrow> px \<Rightarrow> px" where
  "feedback_push_section f =
     seq [applyAutoCommit (fe_env f), feedback_rebase_push f, rerequest_review f]"

section \<open>The whole function\<close>

definition feedback_complete :: "feedback_env \<Rightarrow> px \<Rightarrow> px" where
  "feedback_complete f x =
     (let e = fe_env f; run = x_run x;
          x1 = on_sys (\<lambda>s. update_run (en_runId e)
                 (\<lambda>r. r\<lparr>r_status := Completed, r_completedAt := Some (clock s),
                   r_totalInputTokens := pr_totalInputTokens run,
                   r_totalOutputTokens := pr_totalOutputTokens run,
                   r_prUrl := Some (fe_prUrl f), r_autoCommitted := pr_autoCommitted run\<rparr>) s) x;
          x2 = on_run (\<lambda>r. r\<lparr>pr_status := Completed\<rparr>) x1
      in on_sys (notify (OnPipelineComplete (en_runId e) (fe_prUrl f))) x2)"

definition feedback_try :: "feedback_env \<Rightarrow> px \<Rightarrow> px" where
  "feedback_try f =
     seq [feedback_setup (fe_env f), feedback_stages f, under_lock (fe_env f) (feedback_push_section f),
          feedback_complete f]"

definition feedback_catch :: "feedback_env \<Rightarrow> px \<Rightarrow> px" where
  "feedback_catch f x =
     (case x_exit x of
        Some (Threw msg) \<Rightarrow>
          feedback_fail (fe_env f) (stage_at (fe_env f) (x_lastStageIndex x)) msg True x
      | _ \<Rightarrow> x)"

definition executeFeedbackPipeline :: "feedback_env \<Rightarrow> sys \<Rightarrow> pipeline_run \<Rightarrow> px" where
  "executeFeedbackPipeline f s run =
     clean_up (fe_env f) (feedback_catch f (feedback_try f (feedback_begin f (initial_px s run None))))"

section \<open>Starting\<close>

text \<open>
  A request names the issue by its identifier and title. The fresh id comes from outside. The check of the
  slot and the claim are separated by the query for the parent run and the insertion of the row.
\<close>

record feedback_request =
  fq_runId :: run_id
  fq_issueId :: issue_id
  fq_issueTitle :: string
  fq_pipelineKey :: string
  fq_config :: pipeline_config
  fq_repo :: repo_config
  fq_issue :: sanitized_issue
  fq_branch :: string
  fq_prUrl :: string
  fq_prNumber :: "nat option"
  fq_parentRunId :: "run_id option"
  fq_comments :: "feedback_comment list"
  fq_rerequestReview :: bool

record feedback_job =
  fj_run :: pipeline_run
  fj_request :: feedback_request

definition isActiveFeedback :: "sys \<Rightarrow> string \<Rightarrow> bool" where
  "isActiveFeedback s prUrl = mapHas (activeFeedbackRuns s) prUrl"

definition parent_team :: "feedback_request \<Rightarrow> sys \<Rightarrow> string option" where
  "parent_team q s =
     (case fq_parentRunId q of
        None \<Rightarrow> None
      | Some p \<Rightarrow> if p = [] then None else Option.bind (get_run s p) r_linearTeamId)"

definition feedback_row :: "feedback_request \<Rightarrow> sys \<Rightarrow> run_row" where
  "feedback_row q s =
     \<lparr>r_id = fq_runId q, r_issueId = fq_issueId q, r_issueTitle = fq_issueTitle q,
      r_pipelineKey = fq_pipelineKey q, r_repoUrl = rp_url (fq_repo q), r_agentSessionId = None,
      r_branch = Some (fq_branch q), r_status = Queued, r_startedAt = clock s, r_completedAt = None,
      r_prUrl = Some (fq_prUrl q), r_totalInputTokens = 0, r_totalOutputTokens = 0,
      r_errorMessage = None, r_currentStageIndex = None, r_resumePayload = None, r_retryCount = 0,
      r_runType = FEEDBACK_RUN_TYPE, r_autoMerged = None, r_autoMergeReason = None,
      r_autoCommitted = None, r_linearTeamId = parent_team q s\<rparr>"

definition feedback_run :: "feedback_request \<Rightarrow> pipeline_run" where
  "feedback_run q =
     (buildPipelineRun (fq_runId q)
        \<lparr>li_id = [], li_identifier = fq_issueId q, li_title = fq_issueTitle q, li_teamId = []\<rparr>
        (fq_pipelineKey q) (fq_repo q) (fq_branch q))
       \<lparr>pr_prUrl := Some (fq_prUrl q), pr_runType := Some FEEDBACK_RUN_TYPE\<rparr>"

definition feedback_commit :: "feedback_request \<Rightarrow> sys \<Rightarrow> sys \<times> feedback_job" where
  "feedback_commit q s =
     (let s1 = s\<lparr>runs := runs s @ [feedback_row q s]\<rparr>
      in (s1\<lparr>activeFeedbackRuns := mapSet (activeFeedbackRuns s1) (fq_prUrl q) (fq_runId q)\<rparr>,
          \<lparr>fj_run = feedback_run q, fj_request = q\<rparr>))"

definition startFeedbackPipeline :: "feedback_request \<Rightarrow> sys \<Rightarrow> sys \<times> feedback_job option" where
  "startFeedbackPipeline q s =
     (if isActiveFeedback s (fq_prUrl q) then (s, None)
      else (case feedback_commit q s of (s1, j) \<Rightarrow> (s1, Some j)))"

text \<open>The closure in the queue: the look at the slot when its turn comes, and its \<open>finally\<close> block.\<close>

definition feedback_job_begins :: "feedback_job \<Rightarrow> sys \<Rightarrow> bool" where
  "feedback_job_begins j s = mapHas (activeFeedbackRuns s) (fq_prUrl (fj_request j))"

definition feedback_job_ends :: "feedback_job \<Rightarrow> sys \<Rightarrow> sys" where
  "feedback_job_ends j s =
     s\<lparr>activeFeedbackRuns := mapDelete (activeFeedbackRuns s) (fq_prUrl (fj_request j))\<rparr>"

end
