(* ===== verification/FeedbackProps.thy ===== *)
theory FeedbackProps
  imports Feedback RunProps
begin

text \<open>
  What a review-feedback run guarantees: which actions it takes and in which order, when it pushes, how it
  ends, and what its slot protects.
\<close>

section \<open>The trace of a run\<close>

text \<open>The actions of the setup, of the stages in a set, and of the push.\<close>

fun setup_act :: "act \<Rightarrow> bool" where
  "setup_act (Cloned u) = True"
| "setup_act (WorktreeCreated w) = True"
| "setup_act DevcontainerChecked = True"
| "setup_act (SetupRan c) = True"
| "setup_act TechStackDetected = True"
| "setup_act _ = False"

fun stage_act :: "stage set \<Rightarrow> act \<Rightarrow> bool" where
  "stage_act S (Executed c r) = (sc_stage c \<in> S)"
| "stage_act S (StageThrew c) = (sc_stage c \<in> S)"
| "stage_act S (AutoCommitted b) = True"
| "stage_act S FilesRead = True"
| "stage_act S _ = False"

fun push_act :: "act \<Rightarrow> bool" where
  "push_act LockTaken = True"
| "push_act LockRefused = True"
| "push_act (AutoCommitted b) = True"
| "push_act Rebased = True"
| "push_act RebaseAborted = True"
| "push_act (Pushed s) = True"
| "push_act ReviewRerequested = True"
| "push_act _ = False"

fun is_push :: "act \<Rightarrow> bool" where
  "is_push (Pushed s) = True"
| "is_push _ = False"

text \<open>The stages that were executed, with their outcomes.\<close>

fun outcome_of :: "act \<Rightarrow> (stage \<times> stage_outcome) list" where
  "outcome_of (Executed c r) = [(sc_stage c, re_status r)]"
| "outcome_of _ = []"

definition outcomes :: "act list \<Rightarrow> (stage \<times> stage_outcome) list" where
  "outcomes log = concat (map outcome_of log)"

lemma outcomes_append [simp]: "outcomes (a @ b) = outcomes a @ outcomes b"
  by (simp add: outcomes_def)

lemma outcomes_none: "list_all P log \<Longrightarrow> (\<And>a. P a \<Longrightarrow> outcome_of a = []) \<Longrightarrow> outcomes log = []"
  by (auto simp: outcomes_def list_all_iff)

lemma log_await [simp]: "x_log (await e a x) = x_log x @ [a]"
  by (simp add: await_def)

lemma exit_await [simp]: "x_exit (await e a x) = x_exit x"
  by (simp add: await_def)

lemma ext_attempt: "P a \<Longrightarrow> \<not> is_call a \<Longrightarrow> ext 0 P x (attempt e a outcome x)"
  by (simp add: attempt_def ext_def split: option.split)

lemma setup_ext: "ext 0 setup_act x (feedback_setup e x)"
proof -
  have commands: "ext 0 setup_act y (setup_commands e y)" for y
  proof -
    have "list_all2 (\<lambda>n f. \<forall>z. ext n setup_act z (f z)) (map (\<lambda>_. 0) cs) (map (setup_command e) cs)" for cs
      by (induction cs) (simp_all add: setup_command_def ext_attempt)
    from ext_seq [OF this] show ?thesis by (simp add: setup_commands_def)
  qed
  have "ext (sum_list [0, 0, 0, 0, 0]) setup_act x (feedback_setup e x)"
    unfolding feedback_setup_def
  proof (rule ext_seq, simp only: list_all2_Cons list_all2_Nil2, intro conjI allI refl)
    fix y
    show "ext 0 setup_act y (clone_repo e y)" by (simp add: clone_repo_def ext_attempt)
    show "ext 0 setup_act y (create_worktree e y)"
      by (simp add: create_worktree_def ext_def split: sum.split)
    show "ext 0 setup_act y (start_devcontainer e y)"
      by (simp add: start_devcontainer_def ext_def split: sum.split)
    show "ext 0 setup_act y (setup_commands e y)" by (rule commands)
    show "ext 0 setup_act y (detect_stack e y)" by (simp add: detect_stack_def ext_attempt ext_same)
  qed
  then show ?thesis by simp
qed

lemma stage_logs [simp]:
  "x_log (feedback_cancel f mode x) = x_log x"
  "x_log (feedback_stop_check f stg x) = x_log x"
  "x_log (feedback_after_call f x) = x_log x"
  "x_log (feedback_fail e st msg ex x) = x_log x"
  "x_log (feedback_fail_if_failed e stg x) = x_log x"
  by (simp_all add: feedback_cancel_def feedback_stop_check_def feedback_after_call_def feedback_fail_def
      feedback_fail_if_failed_def Let_def case_prod_unfold return_def split: option.split)

lemma auto_commit_acts: "x_log (applyAutoCommit e x) = x_log x @ [AutoCommitted (en_autoCommit e (now x) = Inr True)]"
  by (auto simp: applyAutoCommit_def Let_def split: sum.split)

lemma refresh_acts: "\<exists>new. x_log (refresh_files e x) = x_log x @ new \<and> set new \<subseteq> {FilesRead}"
  by (auto simp: refresh_files_def Let_def)

lemma execute_acts: "x_log (feedback_execute f stg x) = x_log x @
   [case en_executeStage (fe_env f) (now x) (feedback_call f stg x) of
      Inl msg \<Rightarrow> StageThrew (feedback_call f stg x) | Inr r \<Rightarrow> Executed (feedback_call f stg x) r]"
  by (simp add: feedback_execute_def Let_def split: sum.split)

lemma call_stage [simp]: "sc_stage (feedback_call f stg x) = stg"
  by (simp add: feedback_call_def)

lemma feedback_stage_ext: "ext 1 (stage_act {stg}) x (feedback_stage f stg x)"
proof -
  have "ext (sum_list [0, 0, 1, 0, 0, 0, 0, 0, 0, 0]) (stage_act {stg}) x (feedback_stage f stg x)"
    unfolding feedback_stage_def feedback_stage_phases_def Let_def
  proof (rule ext_seq, simp only: list_all2_Cons list_all2_Nil2, intro conjI allI refl)
    fix y
    show "ext 1 (stage_act {stg}) y (feedback_execute f stg y)"
      by (simp add: ext_def execute_acts split: sum.split)
    show "ext 0 (stage_act {stg}) y (applyAutoCommit (fe_env f) y)"
      by (simp add: ext_def auto_commit_acts)
    show "ext 0 (stage_act {stg}) y (refresh_files (fe_env f) y)"
      by (auto simp: refresh_files_def Let_def ext_def)
  qed (simp_all add: ext_same)
  then show ?thesis by simp
qed

lemma feedback_stages_ext:
  "ext (length (feedback_stage_list (en_config (fe_env f)))) (stage_act (- FEEDBACK_SKIP_STAGES)) x
     (feedback_stages f x)"
proof -
  have one: "ext (Suc 0) (stage_act (- FEEDBACK_SKIP_STAGES)) y (feedback_stage f stg y)"
    if "stg \<notin> FEEDBACK_SKIP_STAGES" for stg y
  proof -
    have mono: "stage_act {stg} a \<Longrightarrow> stage_act (- FEEDBACK_SKIP_STAGES) a" for a using that by (cases a) auto
    from feedback_stage_ext [of stg y f] show ?thesis
      unfolding ext_def by (auto simp: list_all_iff intro!: mono)
  qed
  have each: "list_all2 (\<lambda>n g. \<forall>z. ext n (stage_act (- FEEDBACK_SKIP_STAGES)) z (g z))
     (map (\<lambda>_. Suc 0) ss) (map (feedback_stage f) ss)" if "set ss \<inter> FEEDBACK_SKIP_STAGES = {}" for ss
    using that by (induction ss) (simp_all add: one)
  let ?ss = "feedback_stage_list (en_config (fe_env f))"
  have "set ?ss \<inter> FEEDBACK_SKIP_STAGES = {}" by (auto simp: feedback_stage_list_def)
  from ext_seq [OF each [OF this]] show ?thesis by (simp add: feedback_stages_def sum_list_triv)
qed

section \<open>A push comes after all stages\<close>

lemma keep_exit [simp]:
  "x_exit (on_sys g x) = x_exit x" "x_exit (on_run h x) = x_exit x"
  "x_exit (announce e stg x) = x_exit x" "x_exit (stage_done e stg x) = x_exit x"
  "x_exit (take_handoff x) = x_exit x" "x_exit (refresh_files e x) = x_exit x"
  "x_exit (return x) \<noteq> None" "x_exit (throw m x) \<noteq> None"
  by (simp_all add: on_sys_def on_run_def announce_def stage_done_def take_handoff_def refresh_files_def
      Let_def return_def throw_def)

lemma keep_result [simp]:
  "x_result (on_sys g x) = x_result x" "x_result (on_run h x) = x_result x"
  "x_result (check_budget e stg x) = x_result x" "x_result (stage_done e stg x) = x_result x"
  "x_result (count_result x) = x_result x"
  by (simp_all add: on_sys_def on_run_def check_budget_def stage_done_def count_result_def add_tokens_def
      case_prod_unfold Let_def return_def)

lemma seq_goes_on:
  assumes "x_exit (seq (g # gs) x) = None"
  shows "x_exit x = None" "x_exit (seq gs (g x)) = None" "seq (g # gs) x = seq gs (g x)"
proof -
  show x: "x_exit x = None" by (rule seq_none [OF assms])
  show "seq (g # gs) x = seq gs (g x)" using x by (simp add: step_def)
  with assms show "x_exit (seq gs (g x)) = None" by simp
qed

text \<open>A sequence that does not end is the composition of its phases, none of which ends.\<close>

lemma seq_all:
  "x_exit (seq fs x) = None \<Longrightarrow> seq fs x = fold (\<lambda>f. f) fs x \<and> (\<forall>n. x_exit (fold (\<lambda>f. f) (take n fs) x) = None)"
proof (induction fs arbitrary: x)
  case Nil
  then show ?case by simp
next
  case (Cons g gs)
  note go = seq_goes_on [OF Cons.prems]
  from Cons.IH [OF go(2)] go(1,3) show ?case by (auto simp: take_Cons split: nat.split)
qed

text \<open>A stage that does not end the run was executed once and completed.\<close>

lemma stage_completes:
  assumes "x_exit (feedback_stage f stg x) = None"
  shows "x_exit x = None \<and>
    outcomes (x_log (feedback_stage f stg x)) = outcomes (x_log x) @ [(stg, StageCompleted)]"
proof -
  let ?e = "fe_env f"
  let ?x1 = "feedback_stop_check f stg x"
  let ?x2 = "announce ?e stg ?x1"
  let ?x3 = "feedback_execute f stg ?x2"
  let ?x4 = "feedback_after_call f ?x3"
  let ?x5 = "check_budget ?e stg ?x4"
  let ?x6 = "stage_done ?e stg ?x5"
  let ?x7 = "feedback_fail_if_failed ?e stg ?x6"
  let ?x8 = "take_handoff ?x7"
  let ?x9 = "applyAutoCommit ?e ?x8"
  have ends: "x_exit (seq (feedback_stage_phases f stg) x) = None" using assms by (simp add: feedback_stage_def)
  have part: "x_exit (fold (\<lambda>f. f) (take n (feedback_stage_phases f stg)) x) = None" for n
    using seq_all [OF ends] by blast
  have chain: "x_exit x = None" "x_exit ?x3 = None" "x_exit ?x4 = None" "x_exit ?x7 = None"
    "feedback_stage f stg x = refresh_files ?e ?x9"
    using part [of 0] part [of 3] part [of 4] part [of 7] seq_all [OF ends]
    by (simp_all add: feedback_stage_def feedback_stage_phases_def Let_def numeral_eq_Suc)
  obtain r where r: "en_executeStage ?e (now ?x2) (feedback_call f stg ?x2) = Inr r"
    using chain(2) by (cases "en_executeStage ?e (now ?x2) (feedback_call f stg ?x2)")
      (simp_all add: feedback_execute_def Let_def)
  then have result: "x_result ?x3 = r" by (simp add: feedback_execute_def Let_def)
  have "re_status r \<noteq> StageCancelled"
    using chain(3) result by (auto simp: feedback_after_call_def feedback_cancel_def case_prod_unfold Let_def)
  moreover from this have "x_result ?x6 = r" using result by (simp add: feedback_after_call_def)
  then have "re_status r \<noteq> StageFailed"
    using chain(4) by (auto simp: feedback_fail_if_failed_def)
  ultimately have "re_status r = StageCompleted" by (cases "re_status r") auto
  moreover obtain new where "x_log (refresh_files ?e ?x9) = x_log ?x9 @ new" "set new \<subseteq> {FilesRead}"
    using refresh_acts by blast
  moreover from this have "outcomes new = []" by (intro outcomes_none [of "\<lambda>a. a = FilesRead"]) (auto simp: list_all_iff)
  ultimately show ?thesis
    using chain(1,5) r by (simp add: auto_commit_acts execute_acts outcomes_def)
qed

lemma stages_complete:
  "x_exit (seq (map (feedback_stage f) ss) x) = None \<Longrightarrow>
   outcomes (x_log (seq (map (feedback_stage f) ss) x)) = outcomes (x_log x) @ map (\<lambda>s. (s, StageCompleted)) ss"
proof (induction ss arbitrary: x)
  case Nil
  then show ?case by simp
next
  case (Cons stg ss)
  note go = seq_goes_on [of "feedback_stage f stg" "map (feedback_stage f) ss" x, OF Cons.prems [unfolded list.map]]
  have first: "x_exit (feedback_stage f stg x) = None" by (rule seq_none [OF go(2)])
  show ?case
    unfolding list.map go(3) Cons.IH [OF go(2)] using stage_completes [OF first] by simp
qed

text \<open>What the section under the lock adds: at most one push, and nothing of an agent.\<close>

lemma push_acts:
  "\<exists>new. x_log (under_lock (fe_env f) (feedback_push_section f) x) = x_log x @ new \<and> list_all push_act new \<and>
     length (filter is_push new) \<le> 1"
proof -
  have sec: "\<exists>new. x_log (feedback_push_section f y) = x_log y @ new \<and> list_all push_act new \<and>
      length (filter is_push new) \<le> 1" if "x_exit y = None" for y
    using that
    by (auto simp: feedback_push_section_def step_def auto_commit_acts feedback_rebase_push_def attempt_def
        rerequest_review_def Let_def split: option.split)
  show ?thesis
  proof (cases "en_lock (fe_env f) (now x)")
    case (Some msg)
    then show ?thesis by (simp add: under_lock_def)
  next
    case None
    show ?thesis
    proof (cases "x_exit x = None")
      case True
      then obtain new where "x_log (feedback_push_section f (await (fe_env f) LockTaken x)) =
          x_log x @ LockTaken # new" "list_all push_act new" "length (filter is_push new) \<le> 1"
        using sec [of "await (fe_env f) LockTaken x"] by auto
      with None show ?thesis
        by (intro exI [of _ "LockTaken # new"]) (simp add: under_lock_def Let_def split: option.split)
    next
      case False
      then show ?thesis using None by (simp add: under_lock_def Let_def feedback_push_section_def split: option.split)
    qed
  qed
qed

text \<open>What is in the trace of a run: the setup, the stages, the push, the clean-up.\<close>

lemma feedback_log:
  obtains a b c d where "x_log (executeFeedbackPipeline f s run) = a @ b @ c @ d" "list_all setup_act a"
    "list_all (stage_act (- FEEDBACK_SKIP_STAGES)) b"
    "length (filter is_call b) \<le> length (feedback_stage_list (en_config (fe_env f)))"
    "list_all push_act c" "length (filter is_push c) \<le> 1"
    "c = [] \<or> outcomes b = map (\<lambda>s. (s, StageCompleted)) (feedback_stage_list (en_config (fe_env f)))"
    "set d \<subseteq> {DevcontainerDown, WorktreeDeleted}"
proof -
  let ?x0 = "feedback_begin f (initial_px s run None)"
  let ?x1 = "feedback_setup (fe_env f) ?x0"
  let ?x2 = "feedback_stages f ?x1"
  let ?x3 = "under_lock (fe_env f) (feedback_push_section f) ?x2"
  have x0: "x_log ?x0 = []" "x_exit ?x0 = None"
    by (simp_all add: feedback_begin_def mark_running_def initial_px_def on_sys_def on_run_def Let_def)
  obtain a where a: "x_log ?x1 = a" "list_all setup_act a" using setup_ext [of ?x0 "fe_env f"] x0 by (auto simp: ext_def)
  obtain b where b: "x_log ?x2 = x_log ?x1 @ b" "list_all (stage_act (- FEEDBACK_SKIP_STAGES)) b"
    "length (filter is_call b) \<le> length (feedback_stage_list (en_config (fe_env f)))"
    using feedback_stages_ext [of f ?x1] by (auto simp: ext_def)
  obtain c where c: "x_log ?x3 = x_log ?x2 @ c" "list_all push_act c" "length (filter is_push c) \<le> 1"
    using push_acts by blast
  have last: "x_log (step (feedback_complete f) y) = x_log y" for y
    by (simp add: step_def feedback_complete_def on_sys_def on_run_def Let_def)
  have after: "x_log (feedback_catch f y) = x_log y" for y
    by (simp add: feedback_catch_def split: option.split exit.split)
  have run1: "step g y = g y" if "x_exit y = None" for g y using that by (simp add: step_def)
  have chain: "feedback_try f ?x0 = step (feedback_complete f)
      (step (under_lock (fe_env f) (feedback_push_section f)) (step (feedback_stages f) ?x1))"
    unfolding feedback_try_def seq.simps run1 [OF x0(2)] ..
  have "\<exists>b' c'. x_log (feedback_try f ?x0) = a @ b' @ c' \<and> b' \<in> {[], b} \<and> c' \<in> {[], c} \<and>
      (c' = [] \<or> b' = b \<and> x_exit ?x2 = None)"
  proof (cases "x_exit ?x1 = None")
    case False
    then have "x_log (feedback_try f ?x0) = x_log ?x1" unfolding chain by simp
    with a show ?thesis by (intro exI [of _ "[]"]) simp
  next
    case True
    show ?thesis
    proof (cases "x_exit ?x2 = None")
      case False
      then have "x_log (feedback_try f ?x0) = x_log ?x2" unfolding chain run1 [OF True] by simp
      with a b show ?thesis by (intro exI [of _ b] exI [of _ "[]"]) simp
    next
      case None: True
      have "x_log (feedback_try f ?x0) = x_log ?x3"
        unfolding chain run1 [OF True] run1 [OF None] by (rule last)
      with a b c None show ?thesis by (intro exI [of _ b] exI [of _ c]) simp
    qed
  qed
  then obtain b' c' where try_log: "x_log (feedback_try f ?x0) = a @ b' @ c'" "b' \<in> {[], b}" "c' \<in> {[], c}"
    "c' = [] \<or> b' = b \<and> x_exit ?x2 = None" by blast
  have fin: "c' = [] \<or> outcomes b' = map (\<lambda>s. (s, StageCompleted)) (feedback_stage_list (en_config (fe_env f)))"
    using try_log(4) stages_complete [of f "feedback_stage_list (en_config (fe_env f))" ?x1] b(1)
    by (auto simp: feedback_stages_def)
  obtain d w where "x_log (executeFeedbackPipeline f s run) = x_log (feedback_try f ?x0) @ d @ w"
    "set d \<subseteq> {DevcontainerDown}" "w = [] \<or> w = [WorktreeDeleted]"
    using clean_up_log [of "fe_env f" "feedback_catch f (feedback_try f ?x0)"] after
    unfolding executeFeedbackPipeline_def by auto
  with try_log a(2) b(2,3) c(2,3) fin show thesis
    by (intro that [of a b' c' "d @ w"]) auto
qed

text \<open>All actions a feedback run takes.\<close>

definition feedback_act :: "act \<Rightarrow> bool" where
  "feedback_act a \<longleftrightarrow> setup_act a \<or> stage_act (- FEEDBACK_SKIP_STAGES) a \<or> push_act a \<or>
     a = DevcontainerDown \<or> a = WorktreeDeleted"

text \<open>
  C37. A feedback run requests no pull request, merges none, asks no gate and runs none of the stages it is to
  skip; it calls an agent at most once for each other stage; and it pushes at most once, after every stage of
  the pipeline was executed, in order, and completed.
\<close>

theorem feedback_push_after_stages:
  "let log = x_log (executeFeedbackPipeline f s run); todo = feedback_stage_list (en_config (fe_env f)) in
    list_all feedback_act log \<and> length (filter is_call log) \<le> length todo \<and>
    length (filter is_push log) \<le> 1 \<and>
    (filter is_push log = [] \<or> outcomes log = map (\<lambda>s. (s, StageCompleted)) todo)"
proof -
  let ?log = "x_log (executeFeedbackPipeline f s run)" and ?todo = "feedback_stage_list (en_config (fe_env f))"
  obtain a b c d where l: "?log = a @ b @ c @ d" "list_all setup_act a" "list_all (stage_act (- FEEDBACK_SKIP_STAGES)) b"
    "length (filter is_call b) \<le> length ?todo" "list_all push_act c" "length (filter is_push c) \<le> 1"
    "c = [] \<or> outcomes b = map (\<lambda>s. (s, StageCompleted)) ?todo" "set d \<subseteq> {DevcontainerDown, WorktreeDeleted}"
    by (rule feedback_log)
  have none: "filter is_call a = []" "filter is_call c = []" "filter is_call d = []" "filter is_push a = []"
    "filter is_push b = []" "filter is_push d = []"
    using l(2,3,5,8) by (auto simp: filter_empty_conv list_all_iff elim!: setup_act.elims stage_act.elims push_act.elims)
  have quiet: "outcomes a = []" "outcomes c = []" "outcomes d = []"
    using l(2,5,8) by (auto simp: outcomes_def list_all_iff elim!: setup_act.elims push_act.elims)
  have "list_all feedback_act ?log"
    using l(1,2,3,5,8) by (auto simp: list_all_iff feedback_act_def)
  then show ?thesis unfolding Let_def using l(1,4,6,7) none quiet by auto
qed

section \<open>How a run ends\<close>

text \<open>A run that returned was cancelled or failed.\<close>

definition returned_settled :: "px \<Rightarrow> bool" where
  "returned_settled x \<longleftrightarrow> (x_exit x = Some Returned \<longrightarrow> pr_status (x_run x) \<in> {Cancelled, Failed})"

lemma not_returned: "(\<And>x. x_exit x = None \<Longrightarrow> x_exit (g x) \<noteq> Some Returned) \<Longrightarrow> ok returned_settled g"
  by (simp add: ok_def returned_settled_def)

lemma attempt_exit: "x_exit x = None \<Longrightarrow> x_exit (attempt e a outcome x) \<noteq> Some Returned"
  by (simp add: attempt_def throw_def split: option.split)

lemma attempt_not_returned [simp]:
  "x_exit x = None \<Longrightarrow> (x_exit (attempt e a outcome x) = Some Returned) = False"
  using attempt_exit by simp

lemma setup_settled: "ok returned_settled (feedback_setup e)"
proof -
  have "ok returned_settled (setup_command e cmd)" for cmd
    unfolding setup_command_def by (rule not_returned) (rule attempt_exit)
  then have "ok returned_settled (setup_commands e)"
    unfolding setup_commands_def by (intro ok_seqs) (simp add: list_all_iff)
  moreover have "ok returned_settled (clone_repo e)" "ok returned_settled (create_worktree e)"
    "ok returned_settled (start_devcontainer e)" "ok returned_settled (detect_stack e)"
    by (auto intro!: not_returned simp: clone_repo_def create_worktree_def start_devcontainer_def
        detect_stack_def throw_def split: sum.splits if_splits)
  ultimately show ?thesis unfolding feedback_setup_def by (intro ok_seqs) simp
qed

lemma failed_status: "failPipeline rid run stg msg ex None s = (s', run') \<Longrightarrow> pr_status run' = Failed"
  by (auto simp: failPipeline_def retry_context_def mark_failed_def Let_def)

lemma cancelled_status: "pr_status (x_run (feedback_cancel f mode x)) = Cancelled"
  by (simp add: feedback_cancel_def markRunCancelled_def Let_def return_def)

lemma failing_status: "pr_status (x_run (feedback_fail e stg msg ex x)) = Failed"
  using failed_status by (auto simp: feedback_fail_def split: prod.split)

lemma commit_settled: "ok returned_settled (applyAutoCommit e)"
  by (rule not_returned) (simp add: applyAutoCommit_def Let_def throw_def split: sum.split)

lemma stage_settled: "ok returned_settled (feedback_stage f stg)"
proof -
  have "ok returned_settled (feedback_stop_check f stg)"
    by (rule okI) (auto simp: feedback_stop_check_def Let_def cancelled_status returned_settled_def split: option.split)
  moreover have "ok returned_settled (feedback_execute f stg)"
    by (rule not_returned) (simp add: feedback_execute_def Let_def throw_def split: sum.split)
  moreover have "ok returned_settled (feedback_after_call f)"
    by (rule okI) (auto simp: feedback_after_call_def cancelled_status returned_settled_def count_result_def add_tokens_def)
  moreover have "ok returned_settled (check_budget (fe_env f) stg)"
  proof (rule okI)
    fix x :: px
    assume none: "x_exit x = None"
    obtain s run stop where b: "checkTokenBudget (en_fmt (fe_env f)) (en_runId (fe_env f)) (x_run x)
        (en_config (fe_env f)) (stage_name stg) (x_sys x) = (s, run, stop)" by (metis prod.exhaust)
    have "pr_status run = Failed" if stop
      using b that by (auto simp: checkTokenBudget_def Let_def dest: failed_status split: option.splits if_splits prod.splits)
    with none b show "returned_settled (check_budget (fe_env f) stg x)"
      by (simp add: returned_settled_def check_budget_def return_def Let_def)
  qed
  moreover have "ok returned_settled (feedback_fail_if_failed (fe_env f) stg)"
    by (rule okI) (auto simp: feedback_fail_if_failed_def returned_settled_def failing_status return_def)
  moreover note commit_settled [of "fe_env f"]
  moreover have "ok returned_settled (announce (fe_env f) stg)" "ok returned_settled (stage_done (fe_env f) stg)"
    "ok returned_settled take_handoff" "ok returned_settled (refresh_files (fe_env f))"
    by (auto intro!: not_returned)
  ultimately show ?thesis
    unfolding feedback_stage_def feedback_stage_phases_def Let_def by (intro ok_seqs) simp
qed

lemma push_settled: "ok returned_settled (under_lock (fe_env f) (feedback_push_section f))"
proof -
  have none: "x_exit x = None \<Longrightarrow> returned_settled x" for x by (simp add: returned_settled_def)
  have push: "ok returned_settled (\<lambda>y. attempt e (Pushed st) (en_push e (now y) st) y)" for e st
    by (rule not_returned) (rule attempt_exit)
  have rebase: "ok returned_settled (feedback_rebase_push f)"
  proof (rule okI)
    fix x :: px
    assume x: "x_exit x = None"
    have "returned_settled (seq [\<lambda>y. await (fe_env f) RebaseAborted y,
        \<lambda>y. attempt (fe_env f) (Pushed ForceWithLease) (en_push (fe_env f) (now y) ForceWithLease) y,
        \<lambda>y. on_sys (notify (OnHumanReviewNeeded (en_runId (fe_env f)) (fe_prUrl f)
          ''Merge conflicts in feedback run -- please resolve manually'')) y] (await (fe_env f) Rebased x))"
    proof (rule ok_seq [where P = returned_settled])
      have "ok returned_settled (\<lambda>y. await (fe_env f) RebaseAborted y)"
        "ok returned_settled (on_sys g)" for g
        by (simp_all add: not_returned)
      then show "list_all (ok returned_settled) [\<lambda>y. await (fe_env f) RebaseAborted y,
        \<lambda>y. attempt (fe_env f) (Pushed ForceWithLease) (en_push (fe_env f) (now y) ForceWithLease) y,
        \<lambda>y. on_sys (notify (OnHumanReviewNeeded (en_runId (fe_env f)) (fe_prUrl f)
          ''Merge conflicts in feedback run -- please resolve manually'')) y]"
        using push [of "fe_env f" ForceWithLease] by (simp only: list_all_iff list.set) blast
    qed (simp add: none x)
    moreover have "returned_settled (attempt (fe_env f) (Pushed st)
        (en_push (fe_env f) (now (await (fe_env f) Rebased x)) st) (await (fe_env f) Rebased x))" for st
      by (simp add: returned_settled_def x)
    ultimately show "returned_settled (feedback_rebase_push f x)"
      unfolding feedback_rebase_push_def Let_def by simp
  qed
  have rerequest: "ok returned_settled (rerequest_review f)"
    by (rule not_returned) (simp add: rerequest_review_def)
  have sec: "ok returned_settled (feedback_push_section f)"
    unfolding feedback_push_section_def using commit_settled rebase rerequest by (intro ok_seqs) simp
  show ?thesis
  proof (rule okI)
    fix x :: px
    assume x: "x_exit x = None"
    then have "returned_settled (feedback_push_section f (await (fe_env f) LockTaken x))"
      by (intro okD [OF sec] none) simp_all
    then show "returned_settled (under_lock (fe_env f) (feedback_push_section f) x)"
      by (simp add: under_lock_def Let_def returned_settled_def throw_def split: option.split)
  qed
qed

text \<open>
  A feedback run always settles as completed, failed or cancelled, whatever happens in it; none is kept for a
  retry or an approval.
\<close>

theorem feedback_settles:
  "pr_status (x_run (executeFeedbackPipeline f s run)) \<in> {Completed, Failed, Cancelled}"
proof -
  let ?x0 = "feedback_begin f (initial_px s run None)"
  let ?y = "feedback_try f ?x0"
  have x0: "returned_settled ?x0"
    by (simp add: returned_settled_def feedback_begin_def mark_running_def initial_px_def on_sys_def on_run_def Let_def)
  have "ok returned_settled (feedback_stages f)"
    unfolding feedback_stages_def by (rule ok_seqs) (simp add: list_all_iff stage_settled)
  moreover note push_settled [of f]
  moreover have "ok returned_settled (feedback_complete f)"
    by (rule not_returned) (simp add: feedback_complete_def Let_def)
  ultimately have "returned_settled ?y"
    unfolding feedback_try_def by (intro ok_seq [where P = returned_settled, OF _ x0]) (simp add: setup_settled)
  moreover have "pr_status (x_run ?y) = Completed" if "x_exit ?y = None"
    using seq_all [of _ ?x0, OF that [unfolded feedback_try_def], THEN conjunct1]
    by (simp add: feedback_try_def feedback_complete_def Let_def on_sys_def on_run_def)
  ultimately have "pr_status (x_run (feedback_catch f ?y)) \<in> {Completed, Failed, Cancelled}"
    by (auto simp: feedback_catch_def returned_settled_def failing_status split: option.split exit.split)
  then show ?thesis by (simp add: executeFeedbackPipeline_def clean_up_run)
qed

section \<open>A failed rebase\<close>

text \<open>Reading every failure of the rebase but a conflict as a success.\<close>

definition rebase_reported :: "feedback_env \<Rightarrow> feedback_env" where
  "rebase_reported f = f\<lparr>fe_env := (fe_env f)\<lparr>en_rebase := (\<lambda>n.
     \<lparr>rb_success = rb_success (en_rebase (fe_env f) n) \<or> \<not> rb_hasConflicts (en_rebase (fe_env f) n),
      rb_hasConflicts = rb_hasConflicts (en_rebase (fe_env f) n)\<rparr>)\<rparr>\<rparr>"

lemma reported_await: "await (fe_env (rebase_reported f)) = await (fe_env f)"
  by (simp add: rebase_reported_def await_def fun_eq_iff)

lemma reported_fields:
  "en_push (fe_env (rebase_reported f)) = en_push (fe_env f)"
  "en_branch (fe_env (rebase_reported f)) = en_branch (fe_env f)"
  "en_runId (fe_env (rebase_reported f)) = en_runId (fe_env f)"
  "en_autoCommit (fe_env (rebase_reported f)) = en_autoCommit (fe_env f)"
  "en_github (fe_env (rebase_reported f)) = en_github (fe_env f)"
  "en_repo (fe_env (rebase_reported f)) = en_repo (fe_env f)"
  "fe_prUrl (rebase_reported f) = fe_prUrl f"
  "fe_prNumber (rebase_reported f) = fe_prNumber f"
  "fe_rerequestReview (rebase_reported f) = fe_rerequestReview f"
  "attempt (fe_env (rebase_reported f)) = attempt (fe_env f)"
  unfolding attempt_def reported_await by (simp_all add: rebase_reported_def)

lemma reported_rebase:
  "(\<not> rb_success (en_rebase (fe_env (rebase_reported f)) n) \<and> rb_hasConflicts (en_rebase (fe_env (rebase_reported f)) n)) =
   (\<not> rb_success (en_rebase (fe_env f) n) \<and> rb_hasConflicts (en_rebase (fe_env f) n))"
  by (auto simp: rebase_reported_def)

lemma rebase_reported_push:
  "feedback_rebase_push (rebase_reported f) x = feedback_rebase_push f x"
  unfolding feedback_rebase_push_def Let_def reported_rebase reported_fields reported_await ..

text \<open>
  A rebase that fails without a conflict, a failed fetch for one, is not noticed: the run pushes and completes
  exactly as if the rebase had succeeded.
\<close>

theorem failed_rebase_unnoticed:
  "feedback_push_section (rebase_reported f) x = feedback_push_section f x"
proof -
  have "applyAutoCommit (fe_env (rebase_reported f)) = applyAutoCommit (fe_env f)"
    unfolding applyAutoCommit_def reported_fields reported_await ..
  moreover have "feedback_rebase_push (rebase_reported f) = feedback_rebase_push f"
    by (intro ext rebase_reported_push)
  moreover have "rerequest_review (rebase_reported f) = rerequest_review f"
    unfolding rerequest_review_def reported_fields reported_await ..
  ultimately show ?thesis by (simp add: feedback_push_section_def)
qed

section \<open>The slot of a pull request\<close>

text \<open>
  Cancelling a feedback run gives back the slot of its pull request, and also the slot of its issue, although
  that belongs to another run of the issue: the runner then takes a second run of the issue, and the job of the
  first does nothing when its turn comes.
\<close>

theorem feedback_cancel_frees_issue:
  "start_check (issue\<lparr>li_identifier := pr_issueId (x_run x)\<rparr>) (x_sys (feedback_cancel f mode x)) \<and>
   job_begins (FreshJob (run\<lparr>pr_issueId := pr_issueId (x_run x)\<rparr>) cfg repo si branch session)
     (x_sys (feedback_cancel f mode x)) = False"
  by (simp add: start_check_def job_begins_def feedback_cancel_def markRunCancelled_def Let_def return_def
      split: option.split)

text \<open>
  The \<open>finally\<close> block of a cancelled run frees the slot by the address of the pull request, not by run: if
  another run has taken the slot in between, its job does nothing when its turn comes, and its row stays
  queued.
\<close>

theorem late_end_drops_new_feedback:
  assumes "startFeedbackPipeline q s = (s1, Some j)" "startFeedbackPipeline q' s2 = (s3, Some j')"
    and "fq_prUrl q' = fq_prUrl q"
  shows "\<not> feedback_job_begins j' (feedback_job_ends j s3) \<and>
    (\<exists>r \<in> set (runs (feedback_job_ends j s3)). r_id r = fq_runId q' \<and> r_status r = Queued)"
  using assms by (auto simp: startFeedbackPipeline_def feedback_commit_def feedback_job_begins_def
      feedback_job_ends_def feedback_row_def Let_def split: if_splits)

text \<open>
  The check of the slot and the claim are separated by queries: two comments that are both let in before the
  first one claims the slot start two runs on the same branch, and both jobs begin.
\<close>

theorem interleaved_comments_start_two:
  "let (s1, j) = feedback_commit q s; (s2, j') = feedback_commit (q'\<lparr>fq_prUrl := fq_prUrl q\<rparr>) s1 in
     feedback_job_begins j s2 \<and> feedback_job_begins j' s2 \<and>
     runs s2 = runs s @ [feedback_row q s, feedback_row (q'\<lparr>fq_prUrl := fq_prUrl q\<rparr>) s1]"
  by (simp add: feedback_commit_def feedback_job_begins_def Let_def)

definition demo_feedback_request :: "run_id \<Rightarrow> feedback_request" where
  "demo_feedback_request rid = \<lparr>fq_runId = rid, fq_issueId = ''BEC-1'', fq_issueTitle = ''T'', fq_pipelineKey = ''bug'',
     fq_config = demo_cfg, fq_repo = demo_repo, fq_issue = demo_issue, fq_branch = ''agent/BEC-1-fix'',
     fq_prUrl = ''pr'', fq_prNumber = Some 7, fq_parentRunId = None, fq_comments = [], fq_rerequestReview = False\<rparr>"

theorem late_end_drops_new_feedback_witness:
  "\<exists>s1 j s3 j'. startFeedbackPipeline (demo_feedback_request ''f1'') demo_sys = (s1, Some j) \<and>
     startFeedbackPipeline (demo_feedback_request ''f2'') (feedback_job_ends j s1) = (s3, Some j') \<and>
     \<not> feedback_job_begins j' (feedback_job_ends j s3)"
proof -
  let ?q = "demo_feedback_request ''f1''" and ?q' = "demo_feedback_request ''f2''"
  have free: "\<not> isActiveFeedback demo_sys ''pr''" by (simp add: isActiveFeedback_def demo_sys_def)
  obtain s1 j where 1: "startFeedbackPipeline ?q demo_sys = (s1, Some j)" "fq_prUrl (fj_request j) = ''pr''"
    using free by (simp add: startFeedbackPipeline_def feedback_commit_def demo_feedback_request_def Let_def)
  then have "\<not> isActiveFeedback (feedback_job_ends j s1) ''pr''"
    by (simp add: isActiveFeedback_def feedback_job_ends_def)
  then obtain s3 j' where 2: "startFeedbackPipeline ?q' (feedback_job_ends j s1) = (s3, Some j')"
    by (simp add: startFeedbackPipeline_def feedback_commit_def demo_feedback_request_def Let_def)
  have "fq_prUrl ?q' = fq_prUrl ?q" by (simp add: demo_feedback_request_def)
  from late_end_drops_new_feedback [OF 1(1) 2 this] 1 2 show ?thesis by blast
qed

end
