(* ===== verification/Base64.thy ===== *)
theory Base64
  imports Prelude "HOL-Library.Word"
begin

text \<open>
  Bytes and their base64 text, as Node's \<open>Buffer\<close> reads and writes them: \<open>toString("base64url")\<close> writes the
  URL-safe alphabet without padding, \<open>Buffer.from(s, "base64")\<close> reads both alphabets and skips every
  character outside of them, the padding included. A byte is an 8-bit word, a string of ASCII characters
  has one byte per character.
\<close>

type_synonym byte = "8 word"

definition to_bytes :: "string \<Rightarrow> byte list" where
  "to_bytes s = map (\<lambda>c. of_nat (of_char c)) s"

definition of_bytes :: "byte list \<Rightarrow> string" where
  "of_bytes bs = map (\<lambda>b. char_of (unat b)) bs"

definition sextet_char :: "nat \<Rightarrow> char" where
  "sextet_char n =
     (if n < 26 then char_of (n + 65) else if n < 52 then char_of (n + 71)
      else if n < 62 then char_of (n - 4) else if n = 62 then CHR ''-'' else CHR ''_'')"

definition char_sextet :: "char \<Rightarrow> nat option" where
  "char_sextet c =
     (let n = (of_char c :: nat) in
      if 65 \<le> n \<and> n \<le> 90 then Some (n - 65)
      else if 97 \<le> n \<and> n \<le> 122 then Some (n - 71)
      else if 48 \<le> n \<and> n \<le> 57 then Some (n + 4)
      else if c = CHR ''+'' \<or> c = CHR ''-'' then Some 62
      else if c = CHR ''/'' \<or> c = CHR ''_'' then Some 63
      else None)"

text \<open>Three bytes are four groups of six bits; one or two bytes at the end are two or three groups.\<close>

fun sextets :: "byte list \<Rightarrow> nat list" where
  "sextets [] = []"
| "sextets [a] = [unat a div 4, unat a mod 4 * 16]"
| "sextets [a, b] = [unat a div 4, unat a mod 4 * 16 + unat b div 16, unat b mod 16 * 4]"
| "sextets (a # b # c # bs) =
     [unat a div 4, unat a mod 4 * 16 + unat b div 16,
      unat b mod 16 * 4 + unat c div 64, unat c mod 64] @ sextets bs"

fun octets :: "nat list \<Rightarrow> byte list" where
  "octets (w # x # y # z # r) =
     [of_nat (w * 4 + x div 16), of_nat (x mod 16 * 16 + y div 4), of_nat (y mod 4 * 64 + z)] @ octets r"
| "octets [w, x, y] = [of_nat (w * 4 + x div 16), of_nat (x mod 16 * 16 + y div 4)]"
| "octets [w, x] = [of_nat (w * 4 + x div 16)]"
| "octets _ = []"

definition encode64 :: "byte list \<Rightarrow> string" where
  "encode64 bs = map sextet_char (sextets bs)"

definition decode64 :: "string \<Rightarrow> byte list" where
  "decode64 s = octets (List.map_filter char_sextet s)"

section \<open>Writing and reading back\<close>

lemma char_sextet_sextet:
  assumes "n < 64"
  shows "char_sextet (sextet_char n) = Some n"
proof -
  consider "n < 26" | "26 \<le> n" "n < 52" | "52 \<le> n" "n < 62" | "n = 62" | "n = 63"
    using assms by linarith
  then show ?thesis
    by cases (auto simp: sextet_char_def char_sextet_def Let_def)
qed

lemma byte_less: "unat (a :: byte) < 256"
proof -
  have "unat a < (2 :: nat) ^ LENGTH(8)" by (rule unsigned_less)
  then show ?thesis by simp
qed

lemma sextets_less: "n \<in> set (sextets bs) \<Longrightarrow> n < 64"
proof (induction bs rule: sextets.induct)
  case (2 a)
  then show ?case using byte_less [of a] by auto
next
  case (3 a b)
  then show ?case using byte_less [of a] byte_less [of b] by auto
next
  case (4 a b c bs)
  then show ?case
    using byte_less [of a] byte_less [of b] byte_less [of c] by auto
qed simp

lemma of_nat_unat_eq:
  fixes a :: byte
  assumes "k = unat a"
  shows "of_nat k = a"
  using assms by simp

lemma octets_sextets: "octets (sextets bs) = bs"
proof (induction bs rule: sextets.induct)
  case (2 a)
  show ?case by (simp add: of_nat_unat_eq)
next
  case (3 a b)
  have "unat a div 4 * 4 + (unat a mod 4 * 16 + unat b div 16) div 16 = unat a"
    using byte_less [of b] by simp
  moreover have "(unat a mod 4 * 16 + unat b div 16) mod 16 * 16 + unat b mod 16 * 4 div 4 = unat b"
    using byte_less [of b] by simp
  ultimately show ?case by (simp add: of_nat_unat_eq del: of_nat_add of_nat_mult)
next
  case (4 a b c bs)
  have "unat a div 4 * 4 + (unat a mod 4 * 16 + unat b div 16) div 16 = unat a"
    using byte_less [of b] by simp
  moreover have "(unat a mod 4 * 16 + unat b div 16) mod 16 * 16
      + (unat b mod 16 * 4 + unat c div 64) div 4 = unat b"
    using byte_less [of b] byte_less [of c] by simp
  moreover have "(unat b mod 16 * 4 + unat c div 64) mod 4 * 64 + unat c mod 64 = unat c"
    using byte_less [of c] by simp
  ultimately show ?case using 4 by (simp add: of_nat_unat_eq del: of_nat_add of_nat_mult)
qed simp

lemma map_filter_sextets:
  "(\<And>n. n \<in> set ns \<Longrightarrow> n < 64) \<Longrightarrow> List.map_filter char_sextet (map sextet_char ns) = ns"
  by (induction ns) (simp_all add: List.map_filter_simps char_sextet_sextet)

lemma decode_encode [simp]: "decode64 (encode64 bs) = bs"
  by (simp add: decode64_def encode64_def map_filter_sextets sextets_less octets_sextets)

lemma unat_byte_of_char [simp]: "unat (of_nat (of_char c) :: byte) = of_char c"
proof -
  have "(of_char c :: nat) < 256" by simp
  then show ?thesis by (simp add: unat_of_nat take_bit_nat_eq_self_iff)
qed

lemma of_bytes_to_bytes [simp]: "of_bytes (to_bytes s) = s"
  by (induction s) (simp_all add: of_bytes_def to_bytes_def)

lemma encode64_no_dot: "CHR ''.'' \<notin> set (encode64 bs)"
proof -
  have "sextet_char n \<noteq> CHR ''.''" if "n < 64" for n
    using char_sextet_sextet [OF that] by (auto simp: char_sextet_def)
  then show ?thesis using sextets_less by (fastforce simp: encode64_def)
qed

lemma encode64_Nil_iff [simp]: "encode64 bs = [] \<longleftrightarrow> bs = []"
  by (cases bs rule: sextets.cases) (simp_all add: encode64_def)

end
