(* ===== verification/License.thy ===== *)
theory License
  imports Base64
begin

text \<open>
  The licence of the process (\<open>packages/core/src/license.ts\<close>): the features each tier unlocks, the check
  of the signed key and the cached status every gate of the program reads. \<open>JSON.parse\<close> of the two
  segments of the key, the published key and the signature check are the parameters \<open>jwt_lib\<close>; a
  segment that is no JSON object has no claims. Times of the clock are milliseconds, those of the claims
  seconds.
\<close>

section \<open>Tiers and features\<close>

datatype tier = Oss | Pro | Enterprise

definition PRO_FEATURES :: "string list" where
  "PRO_FEATURES = [''slack-interface'', ''conflict-detection'', ''deep-review'', ''approval-workflows'',
     ''multi-repo'', ''stage-models'', ''advanced-automerge'', ''release-manager'']"

definition ENTERPRISE_FEATURES :: "string list" where
  "ENTERPRISE_FEATURES = PRO_FEATURES @ [''sso'', ''audit-log'', ''spend-caps'', ''rbac'',
     ''cost-dashboard'', ''cost-roi'', ''org-policy'', ''pm-agent-governance'']"

primrec FEATURES_BY_TIER :: "tier \<Rightarrow> string list" where
  "FEATURES_BY_TIER Oss = []"
| "FEATURES_BY_TIER Pro = PRO_FEATURES"
| "FEATURES_BY_TIER Enterprise = ENTERPRISE_FEATURES"

definition ALL_COMMERCIAL_FEATURES :: "string list" where
  "ALL_COMMERCIAL_FEATURES = setOf (concat (map FEATURES_BY_TIER [Oss, Pro, Enterprise]))"

section \<open>The key\<close>

datatype invalid_reason = KeyExpired | BadSignature | WrongIssuer | Malformed

record jwt_claims =
  jc_iss :: string
  jc_sub :: string
  jc_tier :: string
  jc_seats :: "nat option"
  jc_exp :: "int option"
  jc_features :: "string list option"

record jwt_lib =
  jw_alg :: "byte list \<Rightarrow> string option"
  jw_claims :: "byte list \<Rightarrow> jwt_claims option"
  jw_publicKey :: bool
  jw_verify :: "string \<Rightarrow> byte list \<Rightarrow> bool"

definition ISSUER :: string where
  "ISSUER = ''urateams.com''"

definition tier_of :: "string \<Rightarrow> tier option" where
  "tier_of t = (if t = ''oss'' then Some Oss else if t = ''pro'' then Some Pro
     else if t = ''enterprise'' then Some Enterprise else None)"

definition verifyJwt ::
  "jwt_lib \<Rightarrow> string \<Rightarrow> millis \<Rightarrow> invalid_reason + (jwt_claims \<times> tier)" where
  "verifyJwt J token now =
     (case split_char (CHR ''.'') token of
        [h, p, s] \<Rightarrow>
          (if jw_alg J (decode64 h) \<noteq> Some ''EdDSA'' then Inl Malformed
           else case jw_claims J (decode64 p) of
             None \<Rightarrow> Inl Malformed
           | Some c \<Rightarrow>
               if \<not> jw_publicKey J then Inl Malformed
               else if \<not> jw_verify J (h @ ''.'' @ p) (decode64 s) then Inl BadSignature
               else if jc_iss c \<noteq> ISSUER then Inl WrongIssuer
               else (case jc_exp c of
                   None \<Rightarrow> Inl KeyExpired
                 | Some e \<Rightarrow>
                     if e \<le> now div 1000 then Inl KeyExpired
                     else (case tier_of (jc_tier c) of
                         None \<Rightarrow> Inl Malformed
                       | Some t \<Rightarrow> Inr (c, t))))
      | _ \<Rightarrow> Inl Malformed)"

section \<open>The status\<close>

record license_status =
  ls_licensed :: bool
  ls_tier :: tier
  ls_customerId :: "string option"
  ls_expiresAt :: "millis option"
  ls_seats :: "nat option"
  ls_features :: "string list"
  ls_invalidReason :: "invalid_reason option"

definition ossStatus :: "invalid_reason option \<Rightarrow> license_status" where
  "ossStatus r = \<lparr>ls_licensed = False, ls_tier = Oss, ls_customerId = None, ls_expiresAt = None,
     ls_seats = None, ls_features = FEATURES_BY_TIER Oss, ls_invalidReason = r\<rparr>"

definition licensed_status :: "jwt_claims \<Rightarrow> tier \<Rightarrow> license_status" where
  "licensed_status c t = \<lparr>ls_licensed = True, ls_tier = t, ls_customerId = Some (jc_sub c),
     ls_expiresAt = map_option (\<lambda>e. e * 1000) (jc_exp c), ls_seats = jc_seats c,
     ls_features = (case jc_features c of Some fs \<Rightarrow> setOf fs | None \<Rightarrow> FEATURES_BY_TIER t),
     ls_invalidReason = None\<rparr>"

text \<open>
  \<open>checkLicense\<close> with the variable \<open>URATEAM_LICENSE_KEY\<close>, whether a database was passed, and the cache of
  the process: the status, the cache after it and the reasons of the audit events.
\<close>

definition checkLicense ::
  "jwt_lib \<Rightarrow> string option \<Rightarrow> bool \<Rightarrow> millis \<Rightarrow> license_status option \<Rightarrow>
   license_status \<times> license_status option \<times> invalid_reason list" where
  "checkLicense J key db now cache =
     (case cache of
        Some st \<Rightarrow> (st, cache, [])
      | None \<Rightarrow>
          if key = None \<or> key = Some [] then (ossStatus None, Some (ossStatus None), [])
          else (case verifyJwt J (the key) now of
              Inl r \<Rightarrow> (ossStatus (Some r), Some (ossStatus (Some r)),
                if db \<and> r \<noteq> Malformed then [r] else [])
            | Inr (c, t) \<Rightarrow> (licensed_status c t, Some (licensed_status c t), [])))"

definition isFeatureLicensed ::
  "jwt_lib \<Rightarrow> string option \<Rightarrow> millis \<Rightarrow> license_status option \<Rightarrow> string \<Rightarrow>
   bool \<times> license_status option" where
  "isFeatureLicensed J key now cache f =
     (if f \<notin> set ALL_COMMERCIAL_FEATURES then (True, cache)
      else let (st, cache', _) = checkLicense J key False now cache in (f \<in> set (ls_features st), cache'))"

lemmas license_defs [op_defs] =
  checkLicense_def isFeatureLicensed_def ossStatus_def licensed_status_def

section \<open>What a key unlocks\<close>

lemma pro_in_enterprise: "set PRO_FEATURES \<subseteq> set ENTERPRISE_FEATURES"
  unfolding ENTERPRISE_FEATURES_def set_append by (rule Un_upper1)

lemma commercial_iff: "f \<in> set ALL_COMMERCIAL_FEATURES \<longleftrightarrow> f \<in> set ENTERPRISE_FEATURES"
  using pro_in_enterprise by (auto simp: ALL_COMMERCIAL_FEATURES_def)

lemma first_check_cached:
  "fst (snd (checkLicense J key db now None)) = Some (fst (checkLicense J key db now None))"
  by (simp add: checkLicense_def split: sum.split prod.split)

lemma split_three:
  "split_char (CHR ''.'') token = [h, p, s] \<longleftrightarrow>
     token = h @ ''.'' @ p @ ''.'' @ s \<and>
     CHR ''.'' \<notin> set h \<and> CHR ''.'' \<notin> set p \<and> CHR ''.'' \<notin> set s"
proof
  assume split: "split_char (CHR ''.'') token = [h, p, s]"
  have token: "h @ ''.'' @ p @ ''.'' @ s = token"
    using split_char_join [of "CHR ''.''" token] by (simp add: split)
  have "CHR ''.'' \<notin> set q" if "q \<in> set [h, p, s]" for q
    using split_char_parts [of q "CHR ''.''" token] that unfolding split .
  then show "token = h @ ''.'' @ p @ ''.'' @ s \<and>
      CHR ''.'' \<notin> set h \<and> CHR ''.'' \<notin> set p \<and> CHR ''.'' \<notin> set s"
    by (simp add: token [symmetric])
qed (simp add: split_char_append)

lemma verifyJwt_Inr_iff:
  "verifyJwt J token now = Inr (c, t) \<longleftrightarrow>
     (\<exists>h p s e. split_char (CHR ''.'') token = [h, p, s] \<and> jw_alg J (decode64 h) = Some ''EdDSA'' \<and>
        jw_claims J (decode64 p) = Some c \<and> jw_publicKey J \<and>
        jw_verify J (h @ ''.'' @ p) (decode64 s) \<and> jc_iss c = ISSUER \<and>
        jc_exp c = Some e \<and> now div 1000 < e \<and> tier_of (jc_tier c) = Some t)"
  by (auto simp: verifyJwt_def split: list.splits option.splits if_splits)

text \<open>
  In a new process a commercial feature is unlocked exactly by a key of three segments that names the
  algorithm EdDSA, whose signature over its first two segments is that of the published key, that is
  issued by urateams.com, not expired now, of a known tier, and that lists the feature, or lists none and
  is of a tier that has it. Every other feature is always available.
\<close>
theorem feature_licensed_exactly:
  "fst (isFeatureLicensed J key now None f) =
     (if f \<in> set ENTERPRISE_FEATURES then
      (\<exists>h p s c t e. key = Some (h @ ''.'' @ p @ ''.'' @ s) \<and>
         CHR ''.'' \<notin> set h \<and> CHR ''.'' \<notin> set p \<and> CHR ''.'' \<notin> set s \<and>
         jw_alg J (decode64 h) = Some ''EdDSA'' \<and> jw_publicKey J \<and>
         jw_verify J (h @ ''.'' @ p) (decode64 s) \<and> jw_claims J (decode64 p) = Some c \<and>
         jc_iss c = ''urateams.com'' \<and> jc_exp c = Some e \<and> now div 1000 < e \<and>
         tier_of (jc_tier c) = Some t \<and>
         (case jc_features c of Some fs \<Rightarrow> f \<in> set fs | None \<Rightarrow> f \<in> set (FEATURES_BY_TIER t)))
      else True)"
proof (cases "f \<in> set ENTERPRISE_FEATURES \<and> key \<noteq> None \<and> key \<noteq> Some []")
  case False
  then show ?thesis by (auto simp: isFeatureLicensed_def commercial_iff checkLicense_def ossStatus_def)
next
  case True
  then obtain k where k: "key = Some k" "k \<noteq> []" by auto
  have features: "f \<in> set (ls_features (licensed_status c t)) \<longleftrightarrow>
      (case jc_features c of Some fs \<Rightarrow> f \<in> set fs | None \<Rightarrow> f \<in> set (FEATURES_BY_TIER t))" for c t
    by (simp add: licensed_status_def split: option.split)
  have "fst (isFeatureLicensed J key now None f) \<longleftrightarrow>
      (\<exists>c t. verifyJwt J k now = Inr (c, t) \<and> f \<in> set (ls_features (licensed_status c t)))"
    using True k by (auto simp: isFeatureLicensed_def commercial_iff checkLicense_def ossStatus_def
        split: sum.split prod.split)
  then show ?thesis
    unfolding k verifyJwt_Inr_iff split_three features ISSUER_def option.inject if_P [OF conjunct1 [OF True]]
    by blast
qed

text \<open>
  The first question about a commercial feature decides for the life of the process: whatever the
  environment and the clock are later, the answers for every feature are those the first check gave, so
  that a key that expires while the server runs keeps its features until a restart.
\<close>
theorem license_decided_once:
  "let cache = snd (isFeatureLicensed J key now None f0)
   in if f0 \<in> set ENTERPRISE_FEATURES
      then isFeatureLicensed J' key' now' cache f = (fst (isFeatureLicensed J key now None f), cache)
      else cache = None"
proof (cases "f0 \<in> set ENTERPRISE_FEATURES")
  case False
  then show ?thesis by (simp add: isFeatureLicensed_def commercial_iff)
next
  case True
  obtain st evs where st: "checkLicense J key False now None = (st, Some st, evs)"
    using first_check_cached [of J key False now] by (metis prod.collapse)
  with True show ?thesis
    by (simp add: isFeatureLicensed_def commercial_iff) (simp add: checkLicense_def)
qed

end
