(* ===== verification/Access.thy ===== *)
theory Access
  imports License
begin

text \<open>
  Users, roles and sessions of the dashboard (\<open>packages/core/src/rbac/\<close>, \<open>packages/core/src/auth/session-store.ts\<close>,
  \<open>packages/core/src/auth/user-store.ts\<close>). The tables are lists of rows; a licence is the function that
  \<open>isFeatureLicensed\<close> is once the status is cached. The random ids of new rows are arguments. An audit event
  is written when the audit log is licensed.
\<close>

section \<open>Permissions\<close>

datatype role = Admin | Operator | Viewer

datatype permission =
    RunsView | RunsRetry | RunsStop | SystemHalt | TokensView | AuditView | AuditExport
  | CostView | CostExport | ErrorsView | CoordinationView | ConfigView | UsersView | UsersManage

primrec PERMISSION_MATRIX :: "permission \<Rightarrow> role list" where
  "PERMISSION_MATRIX RunsView = [Admin, Operator, Viewer]"
| "PERMISSION_MATRIX RunsRetry = [Admin, Operator]"
| "PERMISSION_MATRIX RunsStop = [Admin, Operator]"
| "PERMISSION_MATRIX SystemHalt = [Admin, Operator]"
| "PERMISSION_MATRIX TokensView = [Admin, Operator, Viewer]"
| "PERMISSION_MATRIX AuditView = [Admin, Operator]"
| "PERMISSION_MATRIX AuditExport = [Admin, Operator]"
| "PERMISSION_MATRIX CostView = [Admin, Operator]"
| "PERMISSION_MATRIX CostExport = [Admin, Operator]"
| "PERMISSION_MATRIX ErrorsView = [Admin, Operator, Viewer]"
| "PERMISSION_MATRIX CoordinationView = [Admin, Operator]"
| "PERMISSION_MATRIX ConfigView = [Admin]"
| "PERMISSION_MATRIX UsersView = [Admin]"
| "PERMISSION_MATRIX UsersManage = [Admin]"

type_synonym licence = "string \<Rightarrow> bool"

definition canAccess :: "licence \<Rightarrow> role \<Rightarrow> permission \<Rightarrow> bool" where
  "canAccess lic r action = (if \<not> lic ''rbac'' then False else r \<in> set (PERMISSION_MATRIX action))"

section \<open>Users\<close>

record user_row =
  u_id :: string
  u_email :: string
  u_name :: "string option"
  u_workosUserId :: "string option"
  u_createdAt :: millis
  u_lastLoginAt :: "millis option"
  u_role :: role

datatype access_audit =
    GrantRole string string role role string string
  | RevokeRole string string role role string string
  | BootstrapAdmin string string
  | DashboardLogin string string string
  | DashboardLogout string string
  | DashboardLoginDenied string

definition normalizeEmail :: "string \<Rightarrow> string" where
  "normalizeEmail email = toLowerCase (trim email)"

text \<open>
  \<open>INSERT .. ON CONFLICT (email) DO UPDATE\<close>, then the row of that email is read back. The insertion throws
  when the id of a new row is taken.
\<close>

definition upsertUser ::
  "string \<Rightarrow> millis \<Rightarrow> string \<Rightarrow> string option \<Rightarrow> string option \<Rightarrow> user_row list \<Rightarrow>
   (string \<times> user_row list) option" where
  "upsertUser fresh now email0 name workos users =
     (let email = normalizeEmail email0;
          row = \<lparr>u_id = fresh, u_email = email, u_name = name, u_workosUserId = workos,
                 u_createdAt = now, u_lastLoginAt = Some now, u_role = Viewer\<rparr>
      in case select_one (\<lambda>u. u_email u = email) users of
           Some u \<Rightarrow> Some (u_id u, update_where (\<lambda>u. u_email u = email)
             (\<lambda>u. u\<lparr>u_name := name, u_workosUserId := workos, u_lastLoginAt := Some now\<rparr>) users)
         | None \<Rightarrow> if fresh \<in> u_id ` set users then None else Some (fresh, users @ [row]))"

definition getUserById :: "user_row list \<Rightarrow> string \<Rightarrow> user_row option" where
  "getUserById users i = select_one (\<lambda>u. u_id u = i) users"

definition getUserRole :: "user_row list \<Rightarrow> string \<Rightarrow> role option" where
  "getUserRole users i = map_option u_role (getUserById users i)"

section \<open>Changing a role\<close>

datatype role_error = UserNotFound string | SelfDemoteError | LastAdminError

text \<open>
  The body of the transaction: the reads with the guards, whose result says what to write (\<open>None\<close>: the
  role is the new one already), and the write.
\<close>

definition role_reads ::
  "user_row list \<Rightarrow> string \<Rightarrow> role \<Rightarrow> string \<Rightarrow> role_error + user_row option" where
  "role_reads users target newRole actor =
     (case getUserById users target of
        None \<Rightarrow> Inl (UserNotFound target)
      | Some current \<Rightarrow>
          if u_role current = newRole then Inr None
          else if target = actor \<and> newRole \<noteq> Admin then Inl SelfDemoteError
          else if u_role current = Admin \<and> newRole \<noteq> Admin \<and>
                  length (select_where (\<lambda>u. u_role u = Admin \<and> u_id u \<noteq> target) users) = 0
          then Inl LastAdminError
          else Inr (Some current))"

definition role_write :: "string \<Rightarrow> role \<Rightarrow> user_row list \<Rightarrow> user_row list" where
  "role_write target newRole users =
     update_where (\<lambda>u. u_id u = target) (\<lambda>u. u\<lparr>u_role := newRole\<rparr>) users"

definition role_audit ::
  "licence \<Rightarrow> user_row list \<Rightarrow> user_row \<Rightarrow> role \<Rightarrow> string \<Rightarrow> access_audit list" where
  "role_audit lic users current newRole actor =
     (let actorEmail = (case getUserById users actor of None \<Rightarrow> ''unknown'' | Some u \<Rightarrow> u_email u)
      in if \<not> lic ''audit-log'' then []
         else if newRole = Viewer
         then [RevokeRole (u_id current) (u_email current) (u_role current) newRole actor actorEmail]
         else [GrantRole (u_id current) (u_email current) (u_role current) newRole actor actorEmail])"

definition setUserRole ::
  "licence \<Rightarrow> string \<Rightarrow> role \<Rightarrow> string \<Rightarrow> user_row list \<Rightarrow>
   role_error + (user_row list \<times> access_audit list)" where
  "setUserRole lic target newRole actor users =
     (case role_reads users target newRole actor of
        Inl e \<Rightarrow> Inl e
      | Inr None \<Rightarrow> Inr (users, [])
      | Inr (Some current) \<Rightarrow>
          (let users' = role_write target newRole users
           in Inr (users', role_audit lic users' current newRole actor)))"

text \<open>\<open>applyBootstrapAdmins\<close> with the list of the environment; the flag says whether a role changed.\<close>

definition admin_emails :: "string \<Rightarrow> string list" where
  "admin_emails envList =
     filter (\<lambda>s. s \<noteq> []) (map (\<lambda>s. toLowerCase (trim s)) (split_char (CHR '','') envList))"

definition applyBootstrapAdmins ::
  "licence \<Rightarrow> string \<Rightarrow> string \<Rightarrow> string option \<Rightarrow> user_row list \<Rightarrow>
   bool \<times> user_row list \<times> access_audit list" where
  "applyBootstrapAdmins lic email user envAdminList users =
     (case envAdminList of
        None \<Rightarrow> (False, users, [])
      | Some l \<Rightarrow>
          if trim l = [] then (False, users, [])
          else if toLowerCase (trim email) \<notin> set (admin_emails l) then (False, users, [])
          else if getUserRole users user = Some Admin then (False, users, [])
          else (True, role_write user Admin users,
                if lic ''audit-log'' then [BootstrapAdmin user (toLowerCase (trim email))] else []))"

section \<open>Sessions\<close>

record session_row =
  ss_id :: string
  ss_userId :: string
  ss_createdAt :: millis
  ss_expiresAt :: millis
  ss_lastSeenAt :: millis

definition createSession ::
  "string \<Rightarrow> millis \<Rightarrow> string \<Rightarrow> int \<Rightarrow> session_row list \<Rightarrow> string \<times> session_row list" where
  "createSession fresh now user durationHours ss =
     (fresh, ss @ [\<lparr>ss_id = fresh, ss_userId = user, ss_createdAt = now,
        ss_expiresAt = now + durationHours * 3600000, ss_lastSeenAt = now\<rparr>])"

definition getSession :: "millis \<Rightarrow> string \<Rightarrow> session_row list \<Rightarrow> session_row option" where
  "getSession now i ss = select_one (\<lambda>r. ss_id r = i \<and> now < ss_expiresAt r) ss"

definition deleteSession :: "string \<Rightarrow> session_row list \<Rightarrow> session_row list" where
  "deleteSession i ss = delete_where (\<lambda>r. ss_id r = i) ss"

definition pruneExpiredSessions :: "millis \<Rightarrow> session_row list \<Rightarrow> nat \<times> session_row list" where
  "pruneExpiredSessions now ss =
     (length (select_where (\<lambda>r. ss_expiresAt r < now) ss), delete_where (\<lambda>r. ss_expiresAt r < now) ss)"

definition touchSessionLastSeen :: "millis \<Rightarrow> string \<Rightarrow> session_row list \<Rightarrow> session_row list" where
  "touchSessionLastSeen now i ss = update_where (\<lambda>r. ss_id r = i) (\<lambda>r. r\<lparr>ss_lastSeenAt := now\<rparr>) ss"

lemmas access_defs [op_defs] =
  upsertUser_def getUserById_def getUserRole_def role_reads_def role_write_def setUserRole_def
  applyBootstrapAdmins_def createSession_def getSession_def deleteSession_def
  pruneExpiredSessions_def touchSessionLastSeen_def

section \<open>Histories of the users\<close>

text \<open>
  A change of a role by an actor, or a login: the upsert, and the promotion by the environment's list when
  roles are licensed. A failing operation leaves the table alone.
\<close>

datatype access_op =
    SetRole string role string
  | Login string millis string "string option" "string option" "string option"

fun access_step :: "licence \<Rightarrow> access_op \<Rightarrow> user_row list \<Rightarrow> user_row list" where
  "access_step lic (SetRole target r actor) users =
     (case setUserRole lic target r actor users of Inl e \<Rightarrow> users | Inr (users', evs) \<Rightarrow> users')"
| "access_step lic (Login fresh now email name workos envList) users =
     (case upsertUser fresh now email name workos users of
        None \<Rightarrow> users
      | Some (i, users') \<Rightarrow>
          if lic ''rbac'' then fst (snd (applyBootstrapAdmins lic email i envList users')) else users')"

definition users_ok :: "user_row list \<Rightarrow> bool" where
  "users_ok users \<longleftrightarrow> distinct (map u_id users) \<and> distinct (map u_email users)"

definition admins :: "user_row list \<Rightarrow> string set" where
  "admins users = u_id ` {u \<in> set users. u_role u = Admin}"

lemma role_write_keeps [simp]:
  "map u_id (role_write i r users) = map u_id users"
  "map u_email (role_write i r users) = map u_email users"
  by (simp_all add: role_write_def map_update_where)

lemma users_ok_role_write [simp]: "users_ok (role_write i r users) = users_ok users"
  by (simp add: users_ok_def)

lemma admins_simps [simp]:
  "admins [] = {}"
  "admins (u # us) = (if u_role u = Admin then {u_id u} else {}) \<union> admins us"
  by (auto simp: admins_def)

lemma admins_append [simp]: "admins (us @ vs) = admins us \<union> admins vs"
  by (induction us) auto

lemma admins_update_same:
  "(\<And>u. u_id (f u) = u_id u \<and> u_role (f u) = u_role u) \<Longrightarrow> admins (update_where P f us) = admins us"
  by (induction us) (simp_all add: update_where_def)

lemma admins_role_write:
  "admins (role_write i r users) =
     (if r = Admin then admins users \<union> ({i} \<inter> u_id ` set users) else admins users - {i})"
  by (induction users) (auto simp: role_write_def update_where_def)

lemma getUserById_Some: "getUserById users i = Some u \<Longrightarrow> u \<in> set users \<and> u_id u = i"
  by (auto simp: getUserById_def dest: select_one_Some)

lemma users_ok_same:
  "users_ok users \<Longrightarrow> u \<in> set users \<Longrightarrow> v \<in> set users \<Longrightarrow> u_id u = u_id v \<Longrightarrow> u = v"
  by (auto simp: users_ok_def distinct_map inj_on_def)

lemma admins_getUserById:
  assumes "users_ok users" "x \<in> admins users"
  shows "\<exists>u. getUserById users x = Some u \<and> u_role u = Admin"
proof -
  from assms(2) obtain u where u: "u \<in> set users" "u_role u = Admin" "u_id u = x"
    by (auto simp: admins_def)
  show ?thesis
  proof (cases "getUserById users x")
    case None
    with u show ?thesis by (auto simp: getUserById_def select_one_None)
  next
    case (Some v)
    with getUserById_Some [OF Some] users_ok_same [OF assms(1), of v u] u show ?thesis by simp
  qed
qed

lemma other_admin:
  "length (select_where (\<lambda>u. u_role u = Admin \<and> u_id u \<noteq> t) users) \<noteq> 0 \<longleftrightarrow> admins users - {t} \<noteq> {}"
proof -
  have "select_where (\<lambda>u. u_role u = Admin \<and> u_id u \<noteq> t) users \<noteq> [] \<longleftrightarrow>
      (\<exists>u \<in> set users. u_role u = Admin \<and> u_id u \<noteq> t)"
    by (simp add: select_where_def filter_empty_conv)
  moreover have "admins users - {t} \<noteq> {} \<longleftrightarrow> (\<exists>u \<in> set users. u_role u = Admin \<and> u_id u \<noteq> t)"
    by (auto simp: admins_def)
  ultimately show ?thesis by (simp only: length_0_conv)
qed

lemma role_reads_write:
  assumes "users_ok users" "role_reads users t r a = Inr (Some c)"
  shows "u_id c = t \<and> c \<in> set users \<and> u_role c \<noteq> r \<and>
    (if r = Admin then True else t \<noteq> a \<and> (admins users = {} \<or> admins users - {t} \<noteq> {}))"
proof -
  from assms(2) have c: "getUserById users t = Some c" "u_role c \<noteq> r" "r = Admin \<or> t \<noteq> a"
      "u_role c = Admin \<Longrightarrow> r \<noteq> Admin \<Longrightarrow> admins users - {t} \<noteq> {}"
    unfolding other_admin [symmetric]
    by (auto simp: role_reads_def split: option.splits if_splits)
  have "admins users = {} \<or> admins users - {t} \<noteq> {}" if "r \<noteq> Admin"
  proof (cases "u_role c = Admin")
    case False
    have "t \<notin> admins users"
    proof
      assume "t \<in> admins users"
      then obtain u where u: "u \<in> set users" "u_role u = Admin" "u_id u = t" by (auto simp: admins_def)
      with users_ok_same [OF assms(1), of u c] getUserById_Some [OF c(1)] False show False by simp
    qed
    then show ?thesis by blast
  qed (use c(4) that in simp)
  with c(2,3) getUserById_Some [OF c(1)] show ?thesis by (cases "r = Admin") simp_all
qed

lemma upsert_keeps:
  assumes "users_ok users" "upsertUser fresh now email name workos users = Some (i, users')"
  shows "users_ok users' \<and> admins users' = admins users \<and> u_id ` set users \<subseteq> u_id ` set users' \<and>
    (\<exists>u \<in> set users'. u_id u = i \<and> u_email u = normalizeEmail email)"
proof (cases "select_one (\<lambda>u. u_email u = normalizeEmail email) users")
  case None
  then have "normalizeEmail email \<notin> u_email ` set users" by (auto simp: select_one_None)
  with None assms show ?thesis
    by (auto simp: upsertUser_def Let_def users_ok_def admins_def split: if_splits)
next
  case (Some u)
  note u = select_one_Some [OF Some]
  let ?f = "\<lambda>u. u\<lparr>u_name := name, u_workosUserId := workos, u_lastLoginAt := Some now\<rparr>"
  from Some assms(2) have eq: "i = u_id u"
      "users' = update_where (\<lambda>u. u_email u = normalizeEmail email) ?f users"
    by (auto simp: upsertUser_def Let_def)
  have same: "map u_id users' = map u_id users" "map u_email users' = map u_email users"
    unfolding eq by (simp_all add: map_update_where)
  then have ids: "u_id ` set users' = u_id ` set users" by (metis set_map)
  have "?f u \<in> set users'" using u unfolding eq by (auto simp: set_update_where image_iff intro!: bexI [of _ u])
  moreover have "admins users' = admins users"
    unfolding eq by (rule admins_update_same) simp
  ultimately show ?thesis using assms(1) same ids u eq(1)
    by (auto simp: users_ok_def intro!: bexI [of _ "?f u"])
qed

lemma bootstrap_keeps:
  "users_ok (fst (snd (applyBootstrapAdmins lic email i l users))) = users_ok users \<and>
   admins users \<subseteq> admins (fst (snd (applyBootstrapAdmins lic email i l users))) \<and>
   map u_id (fst (snd (applyBootstrapAdmins lic email i l users))) = map u_id users"
  by (auto simp: applyBootstrapAdmins_def admins_role_write split: option.split)

lemma access_step_ok:
  assumes "users_ok users"
  shows "users_ok (access_step lic op users) \<and>
    (admins users \<noteq> {} \<longrightarrow> admins (access_step lic op users) \<noteq> {}) \<and>
    u_id ` set users \<subseteq> u_id ` set (access_step lic op users)"
proof (cases op)
  case (SetRole t r a)
  have ids: "u_id ` set (role_write t r users) = u_id ` set users"
    by (metis role_write_keeps(1) set_map)
  show ?thesis
  proof (cases "role_reads users t r a")
    case (Inr oc)
    then show ?thesis
    proof (cases oc)
      case (Some c)
      with Inr role_reads_write [OF assms, of t r a c] show ?thesis
        using assms ids by (auto simp: SetRole setUserRole_def admins_role_write Let_def split: if_splits)
    qed (use assms Inr in \<open>simp add: SetRole setUserRole_def\<close>)
  qed (use assms in \<open>simp add: SetRole setUserRole_def\<close>)
next
  case (Login fresh now email name workos l)
  show ?thesis
  proof (cases "upsertUser fresh now email name workos users")
    case None
    then show ?thesis using assms by (simp add: Login)
  next
    case (Some p)
    obtain i users' where p: "p = (i, users')" by (cases p)
    have ids: "u_id ` set (fst (snd (applyBootstrapAdmins lic email i l users'))) = u_id ` set users'"
      using bootstrap_keeps [of lic email i l users'] by (metis set_map)
    show ?thesis
      using upsert_keeps [OF assms, of fresh now email name workos i users'] Some
        bootstrap_keeps [of lic email i l users'] ids
      by (auto simp: Login p)
  qed
qed

lemma access_steps_ok:
  assumes "users_ok users"
  shows "users_ok (fold (access_step lic) ops users) \<and>
    (admins users \<noteq> {} \<longrightarrow> admins (fold (access_step lic) ops users) \<noteq> {}) \<and>
    u_id ` set users \<subseteq> u_id ` set (fold (access_step lic) ops users)"
  using assms
proof (induction ops arbitrary: users)
  case (Cons op ops)
  from access_step_ok [OF Cons.prems, of lic op] Cons.IH [of "access_step lic op users"]
  show ?case by auto
qed simp


definition demo_user :: "string \<Rightarrow> role \<Rightarrow> user_row" where
  "demo_user i r = \<lparr>u_id = i, u_email = i @ ''@x.org'', u_name = None, u_workosUserId = None,
     u_createdAt = 0, u_lastLoginAt = None, u_role = r\<rparr>"

lemma demo_users_ok:
  "users_ok [demo_user ''a'' Admin, demo_user ''b'' Admin]"
  "admins [demo_user ''a'' Admin, demo_user ''b'' Admin] = {''a'', ''b''}"
  by (simp_all add: users_ok_def demo_user_def insert_commute)


text \<open>
  The guard of the last administrator needs the transactions to be serial, which those of PostgreSQL are not
  by default: when the two administrators demote each other and both transactions read before either
  writes, both pass the guard and no administrator is left, while in sequence the second is refused.
\<close>
theorem interleaved_demotions_remove_admins:
  assumes "users_ok users" "admins users = {a, b}" "a \<noteq> b"
  shows "(\<exists>u v. role_reads users a Viewer b = Inr (Some u) \<and> role_reads users b Viewer a = Inr (Some v)) \<and>
    admins (role_write b Viewer (role_write a Viewer users)) = {} \<and>
    role_reads (role_write a Viewer users) b Viewer a = Inl LastAdminError"
proof -
  have pass: "\<exists>u. role_reads users x Viewer y = Inr (Some u)"
    if xy: "x \<noteq> y" "admins users = {x, y}" for x y
  proof -
    from xy obtain v where v: "getUserById users x = Some v" "u_role v = Admin"
      using admins_getUserById [OF assms(1), of x] by auto
    have "length (select_where (\<lambda>u. u_role u = Admin \<and> u_id u \<noteq> x) users) \<noteq> 0"
      unfolding other_admin using xy by auto
    then show ?thesis using v xy(1) unfolding role_reads_def by simp
  qed
  let ?us = "role_write a Viewer users"
  have ok: "users_ok ?us" "admins ?us = {b}" using assms by (auto simp: admins_role_write)
  then obtain v where v: "getUserById ?us b = Some v" "u_role v = Admin"
    using admins_getUserById [OF ok(1), of b] by auto
  have "length (select_where (\<lambda>u. u_role u = Admin \<and> u_id u \<noteq> b) ?us) = 0"
    using other_admin [of b ?us] ok(2) by blast
  then have "role_reads ?us b Viewer a = Inl LastAdminError"
    using v assms(3) unfolding role_reads_def by simp
  moreover have "admins (role_write b Viewer ?us) = {}" using ok(2) by (simp add: admins_role_write)
  ultimately show ?thesis using pass [of a b] pass [of b a] assms(2,3) by (simp add: insert_commute)
qed

theorem interleaved_demotions_remove_admins_witness:
  "admins (role_write ''b'' Viewer (role_write ''a'' Viewer
     [demo_user ''a'' Admin, demo_user ''b'' Admin])) = {}"
  using interleaved_demotions_remove_admins [OF demo_users_ok] by simp

section \<open>The contract of the sessions\<close>

text \<open>
  What the middleware and the routes rely on: a session that is found is the one asked for and has not
  expired; one that is not found now is not found later; deleting ends a session and no other; pruning at
  an earlier time and touching change nothing that is found.
\<close>

locale session_store =
  fixes get :: "millis \<Rightarrow> string \<Rightarrow> 's \<Rightarrow> session_row option"
    and del :: "string \<Rightarrow> 's \<Rightarrow> 's"
    and prune :: "millis \<Rightarrow> 's \<Rightarrow> 's"
    and touch :: "millis \<Rightarrow> string \<Rightarrow> 's \<Rightarrow> 's"
    and create :: "string \<Rightarrow> millis \<Rightarrow> string \<Rightarrow> int \<Rightarrow> 's \<Rightarrow> 's"
  assumes get_live: "get now i s = Some r \<Longrightarrow> ss_id r = i \<and> now < ss_expiresAt r"
    and get_later: "get now i s = None \<Longrightarrow> now \<le> now' \<Longrightarrow> get now' i s = None"
    and get_del: "get now i (del j s) = (if i = j then None else get now i s)"
    and get_prune: "now \<le> now' \<Longrightarrow> get now' i (prune now s) = get now' i s"
    and get_touch: "get now i (touch t j s) = None \<longleftrightarrow> get now i s = None"
    and get_create: "i \<noteq> j \<Longrightarrow> get now i (create j t u d s) = get now i s"

datatype session_op =
  CreateOp string millis string int | DeleteOp string | PruneOp millis | TouchOp millis string

context session_store
begin

fun op :: "session_op \<Rightarrow> 's \<Rightarrow> 's" where
  "op (CreateOp i now u d) = create i now u d"
| "op (DeleteOp i) = del i"
| "op (PruneOp now) = prune now"
| "op (TouchOp now i) = touch now i"

lemma op_ended:
  assumes "get now i s = None" "\<And>t u d. o1 \<noteq> CreateOp i t u d" "\<And>t. o1 = PruneOp t \<Longrightarrow> t \<le> now"
  shows "get now i (op o1 s) = None"
proof (cases o1)
  case (CreateOp j t u d)
  with assms(2) have "i \<noteq> j" by blast
  with assms(1) show ?thesis by (simp add: CreateOp get_create)
qed (use assms(1,3) in \<open>simp_all add: get_del get_prune get_touch\<close>)

lemma ended_stays_ended:
  assumes "get now i s = None" "i \<notin> {j. \<exists>t u d. CreateOp j t u d \<in> set ops}"
    "\<And>t. PruneOp t \<in> set ops \<Longrightarrow> t \<le> now" "now \<le> now'"
  shows "get now' i (fold op ops s) = None"
  using assms(1-3)
proof (induction ops arbitrary: s)
  case Nil
  then show ?case using get_later assms(4) by simp
next
  case (Cons o1 ops)
  have "get now i (op o1 s) = None" using Cons.prems by (intro op_ended) auto
  with Cons show ?case by auto
qed

end

interpretation db_sessions: session_store getSession deleteSession
  "\<lambda>now ss. snd (pruneExpiredSessions now ss)" touchSessionLastSeen
  "\<lambda>i now u d ss. snd (createSession i now u d ss)"
proof unfold_locales
  fix now now' t :: millis and i j u :: string and d :: int and ss :: "session_row list" and r
  show "getSession now i ss = Some r \<Longrightarrow> ss_id r = i \<and> now < ss_expiresAt r"
    by (auto simp: getSession_def dest: select_one_Some)
  show "getSession now i ss = None \<Longrightarrow> now \<le> now' \<Longrightarrow> getSession now' i ss = None"
    by (auto simp: getSession_def select_one_None)
  show "getSession now i (deleteSession j ss) = (if i = j then None else getSession now i ss)"
    by (induction ss) (auto simp: getSession_def deleteSession_def delete_where_def select_one_def)
  show "now \<le> now' \<Longrightarrow> getSession now' i (snd (pruneExpiredSessions now ss)) = getSession now' i ss"
    by (induction ss) (auto simp: getSession_def pruneExpiredSessions_def delete_where_def select_one_def)
  show "getSession now i (touchSessionLastSeen t j ss) = None \<longleftrightarrow> getSession now i ss = None"
    by (induction ss) (auto simp: getSession_def touchSessionLastSeen_def update_where_def select_one_def)
  show "i \<noteq> j \<Longrightarrow> getSession now i (snd (createSession j t u d ss)) = getSession now i ss"
    by (induction ss) (auto simp: getSession_def createSession_def select_one_def)
qed

end
