(* ===== verification/Sso.thy ===== *)
theory Sso
  imports Access
begin

text \<open>
  Logging into the dashboard: the signed state of the login (\<open>packages/core/src/auth/sso-config.ts\<close>), the
  session middleware (\<open>packages/dashboard/src/middleware/sso.ts\<close>) and the routes of the login
  (\<open>packages/dashboard/src/routes/auth.ts\<close>). \<open>JSON.stringify\<close> and \<open>JSON.parse\<close> of the state, the HMAC, and the
  answers of WorkOS are parameters.
\<close>

section \<open>Responses\<close>

datatype cookie_change = SetCookie string int | ClearCookie

record response =
  rs_status :: nat
  rs_body :: string
  rs_location :: "string option"
  rs_cookie :: "cookie_change option"

definition text_response :: "nat \<Rightarrow> string \<Rightarrow> response" where
  "text_response st b = \<lparr>rs_status = st, rs_body = b, rs_location = None, rs_cookie = None\<rparr>"

definition redirect :: "string \<Rightarrow> response" where
  "redirect url = \<lparr>rs_status = 302, rs_body = [], rs_location = Some url, rs_cookie = None\<rparr>"

definition notFound :: response where
  "notFound = text_response 404 ''404 Not Found''"

text \<open>\<open>encodeURIComponent\<close> on ASCII.\<close>

definition hex_digit :: "nat \<Rightarrow> char" where
  "hex_digit n = (if n < 10 then char_of (n + 48) else char_of (n + 55))"

definition uri_unreserved :: "char \<Rightarrow> bool" where
  "uri_unreserved c \<longleftrightarrow>
     (let n = (of_char c :: nat) in
      48 \<le> n \<and> n \<le> 57 \<or> 65 \<le> n \<and> n \<le> 90 \<or> 97 \<le> n \<and> n \<le> 122) \<or>
     c \<in> {CHR ''-'', CHR ''_'', CHR ''.'', CHR ''!'', CHR ''~'', CHR ''*'', CHR 0x27, CHR ''('', CHR '')''}"

definition encodeURIComponent :: "string \<Rightarrow> string" where
  "encodeURIComponent s = concat (map (\<lambda>c. if uri_unreserved c then [c]
     else [CHR ''%'', hex_digit (of_char c div 16), hex_digit (of_char c mod 16)]) s)"

text \<open>\<open>s.replace(/\/+$/, "")\<close>.\<close>

definition strip_slashes :: "string \<Rightarrow> string" where
  "strip_slashes s = rev (dropWhile (\<lambda>c. c = CHR ''/'') (rev s))"

section \<open>The state of a login\<close>

record state_payload =
  sp_next :: string
  sp_nonce :: string

record state_lib =
  sl_stringify :: "state_payload \<Rightarrow> string"
  sl_parse :: "string \<Rightarrow> state_payload option"
  sl_hmac :: "string \<Rightarrow> string \<Rightarrow> byte list"

definition signState :: "state_lib \<Rightarrow> state_payload \<Rightarrow> string \<Rightarrow> string" where
  "signState L p secret =
     (let b64 = encode64 (to_bytes (sl_stringify L p))
      in b64 @ ''.'' @ encode64 (sl_hmac L secret b64))"

definition verifyState :: "state_lib \<Rightarrow> string \<Rightarrow> string \<Rightarrow> state_payload option" where
  "verifyState L token secret =
     (let sig = rev (takeWhile (\<lambda>c. c \<noteq> CHR ''.'') (rev token));
          rest = dropWhile (\<lambda>c. c \<noteq> CHR ''.'') (rev token);
          b64 = rev (tl rest)
      in if rest = [] \<or> b64 = [] \<or> sig = [] then None
         else let expected = encode64 (sl_hmac L secret b64);
                  sigBuf = decode64 sig;
                  expBuf = decode64 expected
              in if length sigBuf \<noteq> length expBuf then None
                 else if sigBuf \<noteq> expBuf then None
                 else sl_parse L (of_bytes (decode64 b64)))"

definition validateNextPath :: "string option \<Rightarrow> string" where
  "validateNextPath nxt =
     (case nxt of
        None \<Rightarrow> ''/''
      | Some n \<Rightarrow>
          if n = [] then ''/''
          else if \<not> startsWith n ''/'' then ''/''
          else if startsWith n ''//'' then ''/''
          else if startsWith n [CHR ''/'', CHR 0x5C] \<or> CHR 0x5C \<in> set n then ''/''
          else n)"

section \<open>The session middleware\<close>

text \<open>
  The paths that are left to their own checks, a redirect to the login, or a user: with the sessions after
  it.
\<close>

datatype gate = PassThrough | Refuse response | PassUser user_row

definition login_redirect :: "string \<Rightarrow> string \<Rightarrow> response" where
  "login_redirect basePath path =
     redirect (basePath @ ''/auth/login?next='' @ encodeURIComponent path)"

definition sso_middleware ::
  "string \<Rightarrow> millis \<Rightarrow> string option \<Rightarrow> string \<Rightarrow> user_row list \<Rightarrow> session_row list \<Rightarrow>
   gate \<times> session_row list" where
  "sso_middleware basePath0 now cookie path users ss =
     (let basePath = strip_slashes basePath0 in
      if startsWith path (basePath @ ''/auth/'') then (PassThrough, ss)
      else if startsWith path (basePath @ ''/webhooks/'') then (PassThrough, ss)
      else if startsWith path (basePath @ ''/cli/'') then (PassThrough, ss)
      else if cookie = None \<or> cookie = Some [] then (Refuse (login_redirect basePath path), ss)
      else (let sid = the cookie in
        case getSession now sid ss of
          None \<Rightarrow> (Refuse ((login_redirect basePath path)\<lparr>rs_cookie := Some ClearCookie\<rparr>), ss)
        | Some r \<Rightarrow>
            (case getUserById users (ss_userId r) of
               None \<Rightarrow> (Refuse ((redirect (basePath @ ''/auth/login''))\<lparr>rs_cookie := Some ClearCookie\<rparr>),
                        deleteSession sid ss)
             | Some u \<Rightarrow> (PassUser u, touchSessionLastSeen now sid ss))))"

section \<open>The routes of the login\<close>

record sso_config =
  sc_enabled :: bool
  sc_redirectUri :: string
  sc_allowedDomain :: "string option"
  sc_sessionDurationHours :: int
  sc_stateSigningSecret :: string

record workos_user =
  wu_id :: string
  wu_email :: string
  wu_firstName :: "string option"
  wu_lastName :: "string option"

record sso_env =
  se_lib :: state_lib
  se_url :: "string \<Rightarrow> string \<Rightarrow> string"
  se_authenticate :: "string \<Rightarrow> workos_user option"
  se_admins :: "string option"

record accounts =
  ac_users :: "user_row list"
  ac_sessions :: "session_row list"
  ac_audit :: "access_audit list"

definition audit_access :: "licence \<Rightarrow> access_audit \<Rightarrow> accounts \<Rightarrow> accounts" where
  "audit_access lic e a = (if lic ''audit-log'' then a\<lparr>ac_audit := ac_audit a @ [e]\<rparr> else a)"

definition auth_login :: "sso_env \<Rightarrow> sso_config \<Rightarrow> string \<Rightarrow> string option \<Rightarrow> response" where
  "auth_login E c nonce nxt =
     (let state = signState (se_lib E) \<lparr>sp_next = validateNextPath nxt, sp_nonce = nonce\<rparr>
                    (sc_stateSigningSecret c)
      in redirect (se_url E (sc_redirectUri c) state))"

definition full_name :: "workos_user \<Rightarrow> string option" where
  "full_name w =
     (let parts = filter (\<lambda>s. s \<noteq> []) (List.map_filter id [wu_firstName w, wu_lastName w]);
          n = trim (joinWith '' '' parts)
      in if n = [] then None else Some n)"

definition domain_ok :: "sso_config \<Rightarrow> string \<Rightarrow> bool" where
  "domain_ok c email =
     (case sc_allowedDomain c of
        None \<Rightarrow> True
      | Some d \<Rightarrow> d = [] \<or> endsWith email (''@'' @ toLowerCase d))"

text \<open>The callback behind the state check, for the user WorkOS has authenticated.\<close>

definition login_user ::
  "licence \<Rightarrow> sso_env \<Rightarrow> sso_config \<Rightarrow> string \<Rightarrow> string \<Rightarrow> millis \<Rightarrow> state_payload \<Rightarrow> workos_user \<Rightarrow>
   accounts \<Rightarrow> response \<times> accounts" where
  "login_user lic E c fresh_user fresh_session now state w a =
     (let email = toLowerCase (wu_email w) in
      if \<not> domain_ok c email
      then (text_response 403 (''Access denied. '' @ email @
              '' is not in the allowed domain. Contact your administrator.''),
            audit_access lic (DashboardLoginDenied email) a)
      else case upsertUser fresh_user now email (full_name w) (Some (wu_id w)) (ac_users a) of
          None \<Rightarrow> (text_response 500 ''Internal Server Error'', a)
        | Some (i, users1) \<Rightarrow>
            (let (ch, users2, evs) =
                   (if lic ''rbac'' then applyBootstrapAdmins lic email i (se_admins E) users1
                    else (False, users1, []));
                 (sid, ss) = createSession fresh_session now i (sc_sessionDurationHours c) (ac_sessions a);
                 a1 = a\<lparr>ac_users := users2, ac_sessions := ss, ac_audit := ac_audit a @ evs\<rparr>
             in ((redirect (validateNextPath (Some (sp_next state))))
                   \<lparr>rs_cookie := Some (SetCookie sid (sc_sessionDurationHours c * 3600))\<rparr>,
                 audit_access lic (DashboardLogin i email (wu_id w)) a1)))"

definition auth_callback ::
  "licence \<Rightarrow> sso_env \<Rightarrow> sso_config \<Rightarrow> string \<Rightarrow> string \<Rightarrow> millis \<Rightarrow> string option \<Rightarrow> string option \<Rightarrow>
   accounts \<Rightarrow> response \<times> accounts" where
  "auth_callback lic E c fresh_user fresh_session now code stateRaw a =
     (if code = None \<or> code = Some [] \<or> stateRaw = None \<or> stateRaw = Some []
      then (text_response 400 ''Missing code or state'', a)
      else case verifyState (se_lib E) (the stateRaw) (sc_stateSigningSecret c) of
          None \<Rightarrow> (text_response 400 ''Invalid login state. Please try again.'', a)
        | Some state \<Rightarrow>
            (case se_authenticate E (the code) of
               None \<Rightarrow> (text_response 503
                 ''SSO provider error. Try again or contact your administrator.'', a)
             | Some w \<Rightarrow> login_user lic E c fresh_user fresh_session now state w a))"

definition auth_logout ::
  "licence \<Rightarrow> string \<Rightarrow> millis \<Rightarrow> string option \<Rightarrow> accounts \<Rightarrow> response \<times> accounts" where
  "auth_logout lic basePath now cookie a =
     (let a1 =
        (if cookie = None \<or> cookie = Some [] then a
         else case getSession now (the cookie) (ac_sessions a) of
             None \<Rightarrow> a
           | Some r \<Rightarrow>
               (let a' = a\<lparr>ac_sessions := deleteSession (the cookie) (ac_sessions a)\<rparr>
                in case getUserById (ac_users a) (ss_userId r) of
                     None \<Rightarrow> a'
                   | Some u \<Rightarrow> audit_access lic (DashboardLogout (u_id u) (u_email u)) a'))
      in ((redirect (strip_slashes basePath @ ''/auth/login''))\<lparr>rs_cookie := Some ClearCookie\<rparr>, a1))"

lemmas sso_defs [op_defs] =
  verifyState_def signState_def validateNextPath_def sso_middleware_def auth_login_def login_user_def
  auth_callback_def auth_logout_def

section \<open>The state is authentic\<close>

lemma last_dot:
  assumes "CHR ''.'' \<notin> set sig"
  shows "takeWhile (\<lambda>c. c \<noteq> CHR ''.'') (rev (b64 @ CHR ''.'' # sig)) = rev sig"
    "dropWhile (\<lambda>c. c \<noteq> CHR ''.'') (rev (b64 @ CHR ''.'' # sig)) = CHR ''.'' # rev b64"
  using assms by (auto simp: takeWhile_append dropWhile_append)

lemma verifyState_dot:
  assumes "CHR ''.'' \<notin> set sig"
  shows "verifyState L (b64 @ CHR ''.'' # sig) secret =
    (if b64 = [] \<or> sig = [] \<or> decode64 sig \<noteq> sl_hmac L secret b64 then None
     else sl_parse L (of_bytes (decode64 b64)))"
  unfolding verifyState_def last_dot [OF assms] by (auto simp: Let_def)

lemma verifyState_Some:
  assumes "verifyState L token secret = Some p"
  shows "\<exists>b64 sig. token = b64 @ ''.'' @ sig \<and> decode64 sig = sl_hmac L secret b64 \<and>
    sl_parse L (of_bytes (decode64 b64)) = Some p"
proof -
  let ?t = "takeWhile (\<lambda>c. c \<noteq> CHR ''.'') (rev token)" and ?d = "dropWhile (\<lambda>c. c \<noteq> CHR ''.'') (rev token)"
  have "?d \<noteq> []"
  proof
    assume "?d = []"
    with assms show False unfolding verifyState_def Let_def by (simp only: simp_thms if_True option.distinct)
  qed
  then obtain r where r: "?d = CHR ''.'' # r"
    using hd_dropWhile [of "\<lambda>c. c \<noteq> CHR ''.''" "rev token"] by (cases ?d) auto
  have "rev token = ?t @ ?d" by simp
  then have "rev (rev token) = rev (?t @ ?d)" by (rule arg_cong)
  then have token: "token = rev r @ CHR ''.'' # rev ?t" unfolding r by simp
  moreover have "CHR ''.'' \<notin> set (rev ?t)" using set_takeWhileD by fastforce
  ultimately show ?thesis using assms verifyState_dot [of "rev ?t" L "rev r" secret]
    by (auto simp del: takeWhile_eq_all_conv split: if_splits)
qed

text \<open>
  A login brings back the state it left with, and only a state signed with the secret is accepted: its last
  part is the code of the rest.
\<close>
theorem state_roundtrip:
  assumes "sl_parse L (sl_stringify L p) = Some p" "sl_stringify L p \<noteq> []"
    "\<And>b. sl_hmac L secret b \<noteq> []"
  shows "verifyState L (signState L p secret) secret = Some p \<and>
    (case verifyState L token secret of
       None \<Rightarrow> True
     | Some q \<Rightarrow> \<exists>b64 sig. token = b64 @ ''.'' @ sig \<and> decode64 sig = sl_hmac L secret b64 \<and>
         sl_parse L (of_bytes (decode64 b64)) = Some q)"
proof
  show "verifyState L (signState L p secret) secret = Some p"
    using assms by (simp add: signState_def Let_def verifyState_dot encode64_no_dot to_bytes_def)
      (simp add: to_bytes_def [symmetric])
  show "case verifyState L token secret of None \<Rightarrow> True
     | Some q \<Rightarrow> \<exists>b64 sig. token = b64 @ ''.'' @ sig \<and> decode64 sig = sl_hmac L secret b64 \<and>
         sl_parse L (of_bytes (decode64 b64)) = Some q"
    using verifyState_Some by (auto split: option.split)
qed

text \<open>An instance: the two fields with a line feed between them, and the sum of the bytes as the code.\<close>

definition demo_lib :: state_lib where
  "demo_lib = \<lparr>sl_stringify = (\<lambda>p. sp_next p @ CHR 0x0A # sp_nonce p),
     sl_parse = (\<lambda>s. case split_char (CHR 0x0A) s of
        [n, m] \<Rightarrow> Some \<lparr>sp_next = n, sp_nonce = m\<rparr> | _ \<Rightarrow> None),
     sl_hmac = (\<lambda>k m. [foldl (\<lambda>a b. a + b) 0 (to_bytes (k @ m))])\<rparr>"

theorem state_roundtrip_witness:
  "let p = \<lparr>sp_next = ''/runs'', sp_nonce = ''n1''\<rparr>
   in verifyState demo_lib (signState demo_lib p ''key'') ''key'' = Some p"
  using state_roundtrip [of demo_lib "\<lparr>sp_next = ''/runs'', sp_nonce = ''n1''\<rparr>" "''key''" "[]"]
  by (simp add: demo_lib_def)

section \<open>Where a login leads\<close>

text \<open>
  A browser drops tabs, line feeds and carriage returns from a location before it reads it; two slashes or
  a slash and a backslash at its beginning name another host.
\<close>

definition browser_url :: "string \<Rightarrow> string" where
  "browser_url s = filter (\<lambda>c. c \<notin> {CHR 0x09, CHR 0x0A, CHR 0x0D}) s"

definition leaves_origin :: "string \<Rightarrow> bool" where
  "leaves_origin s \<longleftrightarrow> \<not> startsWith s ''/'' \<or> startsWith s ''//'' \<or> startsWith s [CHR ''/'', CHR 0x5C]"

lemma next_path_local: "\<not> leaves_origin (validateNextPath n)"
  by (auto simp: validateNextPath_def leaves_origin_def split: option.split)

lemma next_path_no_backslash: "CHR 0x5C \<notin> set (validateNextPath n)"
  by (auto simp: validateNextPath_def split: option.split)

lemma validateNextPath_idem [simp]: "validateNextPath (Some (validateNextPath n)) = validateNextPath n"
  by (auto simp: validateNextPath_def split: option.split)

text \<open>
  The page a login leads to is an absolute path of the same server as long as it has no tab, line feed or
  carriage return; but a path of a slash, a tab, a slash and a host passes the check, and a browser leaves
  for that host.
\<close>
theorem next_path_same_origin_unless_tab:
  "let p = validateNextPath n in
   (if browser_url p = p then \<not> leaves_origin (browser_url p) else True) \<and>
   (let evil = ''/'' @ [CHR 0x09] @ ''/evil.com''
    in validateNextPath (Some evil) = evil \<and> browser_url evil = ''//evil.com'' \<and>
       leaves_origin (browser_url evil))"
proof -
  have "\<not> leaves_origin (browser_url (validateNextPath n))"
    if "browser_url (validateNextPath n) = validateNextPath n"
    unfolding that by (rule next_path_local)
  moreover have "validateNextPath (Some (''/'' @ [CHR 0x09] @ ''/evil.com'')) = ''/'' @ [CHR 0x09] @ ''/evil.com''"
    by (simp add: validateNextPath_def)
  ultimately show ?thesis by (simp add: browser_url_def leaves_origin_def Let_def)
qed

section \<open>What a login takes\<close>

lemma role_write_row:
  "u \<in> set users \<Longrightarrow> \<exists>v \<in> set (role_write i r users). u_id v = u_id u \<and> u_email v = u_email u"
  by (rule bexI [of _ "if u_id u = i then u\<lparr>u_role := r\<rparr> else u"])
    (auto simp: role_write_def update_where_def)

text \<open>
  A session begins only by a callback with a state signed here and a code WorkOS accepts, for an email of
  the allowed domain; it is the session of the user with that email and ends after the configured hours.
\<close>
theorem session_needs_login:
  assumes "users_ok (ac_users a)" "auth_callback lic E c fu fs now code stateRaw a = (r, a')"
  shows "if ac_sessions a' = ac_sessions a then True
    else \<exists>w u b64 sig. code \<noteq> None \<and> se_authenticate E (the code) = Some w \<and>
      stateRaw = Some (b64 @ ''.'' @ sig) \<and>
      decode64 sig = sl_hmac (se_lib E) (sc_stateSigningSecret c) b64 \<and>
      domain_ok c (toLowerCase (wu_email w)) \<and> u \<in> set (ac_users a') \<and>
      u_email u = normalizeEmail (toLowerCase (wu_email w)) \<and>
      ac_sessions a' = ac_sessions a @ [\<lparr>ss_id = fs, ss_userId = u_id u, ss_createdAt = now,
        ss_expiresAt = now + sc_sessionDurationHours c * 3600000, ss_lastSeenAt = now\<rparr>]"
proof (cases "ac_sessions a' = ac_sessions a")
  case False
  have given: "code \<noteq> None" "stateRaw \<noteq> None"
  proof -
    have "\<not> (code = None \<or> code = Some [] \<or> stateRaw = None \<or> stateRaw = Some [])"
    proof
      assume "code = None \<or> code = Some [] \<or> stateRaw = None \<or> stateRaw = Some []"
      then have "auth_callback lic E c fu fs now code stateRaw a = (text_response 400 ''Missing code or state'', a)"
        unfolding auth_callback_def by (rule if_P)
      with assms(2) False show False by simp
    qed
    then show "code \<noteq> None" "stateRaw \<noteq> None" by simp_all
  qed
  then obtain raw where raw: "stateRaw = Some raw" by blast
  from False assms(2) obtain st w where
    st: "verifyState (se_lib E) raw (sc_stateSigningSecret c) = Some st" and
    w: "se_authenticate E (the code) = Some w" and
    run: "login_user lic E c fu fs now st w a = (r, a')"
    by (auto simp: auth_callback_def raw split: if_splits option.splits)
  let ?email = "toLowerCase (wu_email w)"
  have dom: "domain_ok c ?email"
    using run False by (auto simp: login_user_def Let_def audit_access_def split: if_splits)
  with run False obtain i users1 where
    up: "upsertUser fu now ?email (full_name w) (Some (wu_id w)) (ac_users a) = Some (i, users1)"
    by (auto simp: login_user_def Let_def split: option.splits)
  let ?b = "if lic ''rbac'' then applyBootstrapAdmins lic ?email i (se_admins E) users1 else (False, users1, [])"
  have a': "ac_users a' = fst (snd ?b)" "ac_sessions a' = snd (createSession fs now i (sc_sessionDurationHours c) (ac_sessions a))"
    using run dom up by (auto simp: login_user_def Let_def audit_access_def split: prod.splits if_splits)
  obtain u where u: "u \<in> set users1" "u_id u = i" "u_email u = normalizeEmail ?email"
    using upsert_keeps [OF assms(1) up] by blast
  have "\<exists>v \<in> set (fst (snd ?b)). u_id v = u_id u \<and> u_email v = u_email u"
    using u(1) role_write_row [of u users1]
    by (auto simp: applyBootstrapAdmins_def split: option.split)
  then obtain v where "v \<in> set (ac_users a')" "u_id v = i" "u_email v = normalizeEmail ?email"
    unfolding a' u(2,3) by blast
  with verifyState_Some [OF st] given(1) w dom a'(2) show ?thesis
    unfolding raw createSession_def by auto
qed simp

definition demo_env :: sso_env where
  "demo_env = \<lparr>se_lib = demo_lib, se_url = (\<lambda>r s. r @ ''?state='' @ s),
     se_authenticate = (\<lambda>code. if code = ''ok''
        then Some \<lparr>wu_id = ''w1'', wu_email = ''Ann@Acme.com'', wu_firstName = Some ''Ann'', wu_lastName = None\<rparr>
        else None),
     se_admins = Some ''root@acme.com, ann@acme.com''\<rparr>"

definition demo_config :: sso_config where
  "demo_config = \<lparr>sc_enabled = True, sc_redirectUri = ''https://x/cb'', sc_allowedDomain = Some ''acme.com'',
     sc_sessionDurationHours = 24, sc_stateSigningSecret = ''key''\<rparr>"

definition demo_accounts :: accounts where
  "demo_accounts = \<lparr>ac_users = [], ac_sessions = [], ac_audit = []\<rparr>"

definition demo_login :: "response \<times> accounts" where
  "demo_login = auth_callback (\<lambda>f. True) demo_env demo_config ''u1'' ''s1'' 0 (Some ''ok'')
     (Some (signState demo_lib \<lparr>sp_next = ''/runs'', sp_nonce = ''n''\<rparr> ''key'')) demo_accounts"

lemma demo_login_result:
  "map ss_userId (ac_sessions (snd demo_login)) = [''u1''] \<and>
   map u_role (ac_users (snd demo_login)) = [Admin] \<and> rs_location (fst demo_login) = Some ''/runs''"
  by code_simp

theorem session_needs_login_witness:
  "\<exists>w. se_authenticate demo_env ''ok'' = Some w \<and> domain_ok demo_config (toLowerCase (wu_email w))"
proof -
  obtain r a' where d: "demo_login = (r, a')" by (cases demo_login)
  have "ac_sessions a' \<noteq> ac_sessions demo_accounts"
    using demo_login_result by (auto simp: d demo_accounts_def)
  moreover have "users_ok (ac_users demo_accounts)" by (simp add: demo_accounts_def users_ok_def)
  ultimately show ?thesis
    using session_needs_login [OF _ d [unfolded demo_login_def]] by (auto simp: demo_env_def)
qed

end
