(* ===== verification/Dashboard.thy ===== *)
theory Dashboard
  imports Sso RunControl
begin

text \<open>
  The dashboard's server (\<open>packages/dashboard/src/server.ts\<close>, \<open>middleware/rbac.ts\<close>, \<open>routes/\<close>): a request
  passes the rate limiter, the check against forged requests and the authentication before a route handles
  it. The routes that act call the runner of \<open>RunControl\<close>; those that only show something answer with the
  name of their page. A request is handled as one step. Headers of the response that no code reads back
  are left out, and of a JSON answer one field stands for the body. The licence is fixed, as \<open>license_decided_once\<close> of \<open>License\<close> shows it to be.
\<close>

section \<open>Requests, configuration and state\<close>

record request =
  rq_method :: string
  rq_path :: string
  rq_forwardedFor :: "string option"
  rq_realIp :: "string option"
  rq_hx :: "string option"
  rq_origin :: "string option"
  rq_cookie :: "string option"
  rq_basic :: "(string \<times> string) option"
  rq_cliToken :: "string option"
  rq_actor :: "string option"
  rq_next :: "string option"
  rq_code :: "string option"
  rq_state :: "string option"
  rq_formRole :: "string option"

record dash_config =
  dc_basePath :: string
  dc_auth :: "(string \<times> string) option"
  dc_sso :: "sso_config option"
  dc_runner :: bool

record dash_env =
  de_licence :: licence
  de_sso :: sso_env
  de_runner :: runner_env
  de_cliToken :: "string option"
  de_origin :: "string option"
  de_tick :: "(sys \<Rightarrow> sys \<times> string option) option"
  de_static :: "string \<Rightarrow> bool"

datatype dash_event =
    RetryRunEvent run_id issue_id run_status string string
  | RunCancelledEvent run_id issue_id string string stop_mode "string option"
  | SystemHaltedEvent string string "run_id list"
  | ManualTickEvent string "string list"

record dash =
  d_sys :: sys
  d_accounts :: accounts
  d_rate :: "(string, nat \<times> millis) js_map"
  d_tick :: bool
  d_events :: "dash_event list"

record dash_user =
  du_id :: string
  du_email :: string
  du_role :: role

definition log_event :: "dash_env \<Rightarrow> dash_event \<Rightarrow> dash \<Rightarrow> dash" where
  "log_event E e d = (if de_licence E ''audit-log'' then d\<lparr>d_events := d_events d @ [e]\<rparr> else d)"

text \<open>\<open>a || b\<close> on headers: the empty string counts as absent.\<close>

definition given :: "string option \<Rightarrow> bool" where
  "given v \<longleftrightarrow> v \<noteq> None \<and> v \<noteq> Some []"

section \<open>The rate limiter\<close>

definition RATE_LIMIT_MAX :: nat where
  "RATE_LIMIT_MAX = 10"

definition RATE_LIMIT_WINDOW_MS :: millis where
  "RATE_LIMIT_WINDOW_MS = 60 * 1000"

definition client_ip :: "request \<Rightarrow> string" where
  "client_ip q =
     (if given (rq_forwardedFor q) then the (rq_forwardedFor q)
      else if given (rq_realIp q) then the (rq_realIp q) else ''127.0.0.1'')"

definition rate_blocked :: "millis \<Rightarrow> string \<Rightarrow> (string, nat \<times> millis) js_map \<Rightarrow> bool" where
  "rate_blocked now ip m =
     (case mapGet m ip of
        None \<Rightarrow> False
      | Some (n, since) \<Rightarrow> now - since < RATE_LIMIT_WINDOW_MS \<and> RATE_LIMIT_MAX < n)"

definition rate_failure ::
  "millis \<Rightarrow> string \<Rightarrow> (string, nat \<times> millis) js_map \<Rightarrow> (string, nat \<times> millis) js_map" where
  "rate_failure now ip m =
     (case mapGet m ip of
        None \<Rightarrow> mapSet m ip (1, now)
      | Some (n, since) \<Rightarrow>
          if now - since < RATE_LIMIT_WINDOW_MS then mapSet m ip (n + 1, since)
          else mapSet (mapDelete m ip) ip (1, now))"

section \<open>Forged requests\<close>

definition csrf_refusal :: "dash_config \<Rightarrow> dash_env \<Rightarrow> request \<Rightarrow> response option" where
  "csrf_refusal C E q =
     (let base = strip_slashes (dc_basePath C);
          exempt = rq_path q \<in> {base @ ''/auth/login'', base @ ''/auth/callback''};
          isCli = startsWith (rq_path q) (base @ ''/cli/'')
      in if rq_method q \<in> {''POST'', ''PUT'', ''DELETE'', ''PATCH''} \<and> \<not> exempt \<and> \<not> isCli
         then if \<not> given (rq_hx q) then Some (text_response 403 ''Forbidden: HTMX header required'')
              else if given (rq_origin q) \<and> given (de_origin E) \<and> rq_origin q \<noteq> de_origin E
              then Some (text_response 403 ''Forbidden: invalid origin'')
              else None
         else None)"

section \<open>Routes\<close>

datatype page =
    RunFeed | RunFeedPartial | TokensPage | ErrorsPage | ConfigPage | CoordinationPage | CoordinationFeed
  | AuditPage | AuditPartial | AuditEvent string | AuditCsv | CostPage | CostPartial | CostCsv | UsersPage

datatype route =
    Show page | RunPage run_id | TranscriptPage run_id | RetryRoute run_id | StopRoute stop_mode run_id
  | HaltRoute | CliStop stop_mode run_id | CliRetry run_id | CliHalt | CliTick | RoleRoute string | NoRoute

text \<open>The segments of a path below the mount point; a parameter of a route is a non-empty segment.\<close>

definition segments :: "string \<Rightarrow> string \<Rightarrow> string list option" where
  "segments basePath path =
     (if path = (if basePath = [] then ''/'' else basePath) then Some []
      else if startsWith path (basePath @ ''/'')
      then Some (split_char (CHR ''/'') (drop (length basePath + 1) path))
      else None)"

definition get_route :: "string list \<Rightarrow> route" where
  "get_route segs =
     (case segs of
        [] \<Rightarrow> Show RunFeed
      | [a] \<Rightarrow>
          if a = ''tokens'' then Show TokensPage else if a = ''errors'' then Show ErrorsPage
          else if a = ''config'' then Show ConfigPage else if a = ''coordination'' then Show CoordinationPage
          else if a = ''audit'' then Show AuditPage else if a = ''cost'' then Show CostPage
          else if a = ''users'' then Show UsersPage else NoRoute
      | [a, b] \<Rightarrow>
          if a = ''runs'' then (if b = ''feed'' then Show RunFeedPartial else if b = [] then NoRoute else RunPage b)
          else if a = ''coordination'' \<and> b = ''feed'' then Show CoordinationFeed
          else if a = ''audit'' \<and> b = ''page'' then Show AuditPartial
          else if a = ''audit'' \<and> b = ''export.csv'' then Show AuditCsv
          else if a = ''cost'' \<and> b = ''page'' then Show CostPartial
          else if a = ''cost'' \<and> b = ''export.csv'' then Show CostCsv else NoRoute
      | [a, b, c] \<Rightarrow>
          if a = ''runs'' \<and> b \<noteq> [] \<and> c = ''transcript'' then TranscriptPage b
          else if a = ''audit'' \<and> b = ''event'' \<and> c \<noteq> [] then Show (AuditEvent c) else NoRoute
      | _ \<Rightarrow> NoRoute)"

definition post_route :: "string list \<Rightarrow> route" where
  "post_route segs =
     (case segs of
        [a, b] \<Rightarrow>
          if a = ''admin'' \<and> b = ''halt-all'' then HaltRoute
          else if a = ''cli'' \<and> b = ''halt-all'' then CliHalt else NoRoute
      | [a, b, c] \<Rightarrow>
          if a = ''runs'' \<and> b \<noteq> [] then
            (if c = ''retry'' then RetryRoute b else if c = ''cancel'' then StopRoute Cancel b
             else if c = ''stop'' then StopRoute Graceful b else NoRoute)
          else if a = ''cli'' \<and> b = ''pm'' \<and> c = ''tick'' then CliTick
          else if a = ''users'' \<and> b \<noteq> [] \<and> c = ''role'' then RoleRoute b else NoRoute
      | [a, b, c, x] \<Rightarrow>
          if a = ''cli'' \<and> b = ''runs'' \<and> c \<noteq> [] then
            (if x = ''cancel'' then CliStop Cancel c else if x = ''stop'' then CliStop Graceful c
             else if x = ''retry'' then CliRetry c else NoRoute)
          else NoRoute
      | _ \<Rightarrow> NoRoute)"

definition route_of :: "string \<Rightarrow> request \<Rightarrow> route" where
  "route_of basePath q =
     (case segments basePath (rq_path q) of
        None \<Rightarrow> NoRoute
      | Some segs \<Rightarrow>
          if rq_method q = ''GET'' then get_route segs
          else if rq_method q = ''POST'' then post_route segs else NoRoute)"

section \<open>Permissions of the routes\<close>

definition requirePermission :: "licence \<Rightarrow> dash_user option \<Rightarrow> permission \<Rightarrow> response option" where
  "requirePermission lic user action =
     (if \<not> lic ''rbac'' then None
      else case user of
          None \<Rightarrow> Some (text_response 401 ''Unauthorized'')
        | Some u \<Rightarrow>
            if \<not> canAccess lic (du_role u) action then Some (text_response 403 ''Forbidden'') else None)"

definition requireRbac :: "licence \<Rightarrow> response option" where
  "requireRbac lic = (if \<not> lic ''rbac'' then Some notFound else None)"

text \<open>The feature and the permission a page asks for; the cost pages ask for no permission.\<close>

definition page_guard :: "page \<Rightarrow> string option \<times> permission option" where
  "page_guard p =
     (case p of
        RunFeed \<Rightarrow> (None, Some RunsView) | RunFeedPartial \<Rightarrow> (None, Some RunsView)
      | TokensPage \<Rightarrow> (None, Some TokensView) | ErrorsPage \<Rightarrow> (None, Some ErrorsView)
      | ConfigPage \<Rightarrow> (None, Some ConfigView)
      | CoordinationPage \<Rightarrow> (None, Some CoordinationView)
      | CoordinationFeed \<Rightarrow> (None, Some CoordinationView)
      | AuditPage \<Rightarrow> (Some ''audit-log'', Some AuditView)
      | AuditPartial \<Rightarrow> (Some ''audit-log'', Some AuditView)
      | AuditEvent i \<Rightarrow> (Some ''audit-log'', Some AuditView)
      | AuditCsv \<Rightarrow> (Some ''audit-log'', Some AuditExport)
      | CostPage \<Rightarrow> (Some ''cost-roi'', None) | CostPartial \<Rightarrow> (Some ''cost-roi'', None)
      | CostCsv \<Rightarrow> (Some ''cost-roi'', None)
      | UsersPage \<Rightarrow> (Some ''rbac'', Some UsersView))"

definition page_refusal :: "licence \<Rightarrow> dash_user option \<Rightarrow> page \<Rightarrow> response option" where
  "page_refusal lic user p =
     (let (feature, perm) = page_guard p in
      if feature \<noteq> None \<and> \<not> lic (the feature) then Some notFound
      else case perm of None \<Rightarrow> None | Some a \<Rightarrow> requirePermission lic user a)"

text \<open>The buttons of a run's page: retry, stop and halt.\<close>

definition run_buttons :: "licence \<Rightarrow> dash_user option \<Rightarrow> bool \<times> bool \<times> bool" where
  "run_buttons lic user =
     (let r = (case user of None \<Rightarrow> Viewer | Some u \<Rightarrow> du_role u);
          can = (\<lambda>a. if lic ''rbac'' then canAccess lic r a else False)
      in (can RunsRetry, can RunsStop, can SystemHalt))"

section \<open>Acting on runs\<close>

definition isRetryableStatus :: "run_status \<Rightarrow> bool" where
  "isRetryableStatus st \<longleftrightarrow> st = Failed \<or> st = Retriable"

definition TERMINAL_RUN_STATUSES :: "run_status list" where
  "TERMINAL_RUN_STATUSES = [Completed, Failed, Aborted, Cancelled]"

primrec status_text :: "run_status \<Rightarrow> string" where
  "status_text Queued = ''queued''"
| "status_text Running = ''running''"
| "status_text Completed = ''completed''"
| "status_text Failed = ''failed''"
| "status_text Aborted = ''aborted''"
| "status_text Paused = ''paused''"
| "status_text Cancelled = ''cancelled''"
| "status_text Retriable = ''retriable''"

definition no_payload_text :: string where
  "no_payload_text = ''Cannot retry: run has no resumePayload. The original Linear/repo/pipeline '' @
     ''context is not reconstructible from a bare run row. Re-open the issue in '' @
     ''Linear or trigger a fresh pipeline run from the webhook.''"

text \<open>The checks and the effect that the route of the dashboard and that of the command line share.\<close>

definition retry_run :: "dash_config \<Rightarrow> dash_env \<Rightarrow> run_id \<Rightarrow> dash \<Rightarrow> response + (run_row \<times> dash)" where
  "retry_run C E i d =
     (case get_run (d_sys d) i of
        None \<Rightarrow> Inl (text_response 404 ''Run not found'')
      | Some run \<Rightarrow>
          if \<not> isRetryableStatus (r_status run)
          then Inl (text_response 409 (''Cannot retry a run in status '' @ status_text (r_status run)))
          else if \<not> dc_runner C then Inl (text_response 500 ''Runner not configured'')
          else if r_resumePayload run = None then Inl (text_response 422 no_payload_text)
          else Inr (run, d\<lparr>d_sys := resume (de_runner E) (r_issueId run) (d_sys d)\<rparr>))"

definition stop_run ::
  "dash_config \<Rightarrow> stop_mode \<Rightarrow> run_id \<Rightarrow> dash \<Rightarrow> response + (issue_id \<times> dash)" where
  "stop_run C mode i d =
     (case get_run (d_sys d) i of
        None \<Rightarrow> Inl (text_response 404 ''Run not found'')
      | Some run \<Rightarrow>
          if r_status run \<in> set TERMINAL_RUN_STATUSES
          then Inl (text_response 409 (''Cannot stop a run in status '' @ status_text (r_status run)))
          else if \<not> dc_runner C then Inl (text_response 500 ''Runner not configured'')
          else (let (s, issue, effective) = runner_requestStop i mode (d_sys d)
                in Inr (case issue of Some x \<Rightarrow> x | None \<Rightarrow> r_issueId run, d\<lparr>d_sys := s\<rparr>)))"

text \<open>\<open>auditCancelledRunsBatch\<close>: an event for every run with a row and an issue.\<close>

definition audit_halt :: "dash_env \<Rightarrow> string \<Rightarrow> string \<Rightarrow> run_id list \<Rightarrow> dash \<Rightarrow> dash" where
  "audit_halt E actor actorType ids d =
     foldl (\<lambda>d i. case get_run (d_sys d) i of
        None \<Rightarrow> d
      | Some run \<Rightarrow> if r_issueId run = [] then d
          else log_event E (RunCancelledEvent i (r_issueId run) actor actorType Cancel (Some ''system.halt'')) d)
       (log_event E (SystemHaltedEvent actor actorType ids) d) ids"

text \<open>A browser that sent \<open>HX-Request\<close> is told the target in a header; others are redirected.\<close>

definition done_response :: "request \<Rightarrow> string \<Rightarrow> response" where
  "done_response q target =
     (if given (rq_hx q) then (text_response 200 [])\<lparr>rs_location := Some target\<rparr> else redirect target)"

definition retry_route ::
  "dash_config \<Rightarrow> dash_env \<Rightarrow> request \<Rightarrow> dash_user option \<Rightarrow> run_id \<Rightarrow> dash \<Rightarrow> response \<times> dash" where
  "retry_route C E q user i d =
     (case retry_run C E i d of
        Inl r \<Rightarrow> (r, d)
      | Inr (run, d1) \<Rightarrow>
          (done_response q (dc_basePath C @ ''/runs/'' @ i),
           case user of
             None \<Rightarrow> d1
           | Some u \<Rightarrow> log_event E (RetryRunEvent i (r_issueId run) (r_status run) (du_id u) (du_email u)) d1))"

definition stop_route ::
  "dash_config \<Rightarrow> dash_env \<Rightarrow> request \<Rightarrow> dash_user option \<Rightarrow> stop_mode \<Rightarrow> run_id \<Rightarrow> dash \<Rightarrow>
   response \<times> dash" where
  "stop_route C E q user mode i d =
     (case stop_run C mode i d of
        Inl r \<Rightarrow> (r, d)
      | Inr (issue, d1) \<Rightarrow>
          (done_response q (dc_basePath C @ ''/runs/'' @ i),
           case user of
             None \<Rightarrow> d1
           | Some u \<Rightarrow> log_event E (RunCancelledEvent i issue (''dashboard:'' @ du_email u) ''dashboard-user''
               mode None) d1))"

definition halt_route ::
  "dash_config \<Rightarrow> dash_env \<Rightarrow> request \<Rightarrow> dash_user option \<Rightarrow> dash \<Rightarrow> response \<times> dash" where
  "halt_route C E q user d =
     (if \<not> dc_runner C then (text_response 500 ''Runner not configured'', d)
      else (let (s, ids) = haltAll (d_sys d); d1 = d\<lparr>d_sys := s\<rparr>
            in (done_response q (dc_basePath C @ ''/''),
                case user of
                  None \<Rightarrow> d1
                | Some u \<Rightarrow> audit_halt E (''dashboard:'' @ du_email u) ''dashboard-user'' ids d1)))"

section \<open>The routes of the command line\<close>

definition requireCliToken :: "dash_env \<Rightarrow> request \<Rightarrow> response option" where
  "requireCliToken E q =
     (if \<not> given (de_cliToken E) then Some notFound
      else if (case rq_cliToken q of None \<Rightarrow> [] | Some t \<Rightarrow> t) = the (de_cliToken E) then None
      else Some (text_response 403 ''invalid CLI token''))"

definition cliActor :: "request \<Rightarrow> string" where
  "cliActor q = ''cli:'' @ (case rq_actor q of None \<Rightarrow> ''unknown'' | Some a \<Rightarrow> a)"

definition cli_stop ::
  "dash_config \<Rightarrow> dash_env \<Rightarrow> request \<Rightarrow> stop_mode \<Rightarrow> run_id \<Rightarrow> dash \<Rightarrow> response \<times> dash" where
  "cli_stop C E q mode i d =
     (case stop_run C mode i d of
        Inl r \<Rightarrow> (r, d)
      | Inr (issue, d1) \<Rightarrow>
          (text_response 200 issue, log_event E (RunCancelledEvent i issue (cliActor q) ''cli'' mode None) d1))"

definition cli_retry :: "dash_config \<Rightarrow> dash_env \<Rightarrow> request \<Rightarrow> run_id \<Rightarrow> dash \<Rightarrow> response \<times> dash" where
  "cli_retry C E q i d =
     (case retry_run C E i d of
        Inl r \<Rightarrow> (r, d)
      | Inr (run, d1) \<Rightarrow>
          (text_response 200 (r_issueId run),
           log_event E (RetryRunEvent i (r_issueId run) (r_status run) (cliActor q) (cliActor q)) d1))"

definition cli_halt :: "dash_config \<Rightarrow> dash_env \<Rightarrow> request \<Rightarrow> dash \<Rightarrow> response \<times> dash" where
  "cli_halt C E q d =
     (if \<not> dc_runner C then (text_response 500 ''Runner not configured'', d)
      else (let (s, ids) = haltAll (d_sys d)
            in (text_response 200 [], audit_halt E (cliActor q) ''cli'' ids (d\<lparr>d_sys := s\<rparr>))))"

text \<open>
  The tick on demand: refused while one is in progress. The scheduler's tick runs between the two segments,
  and other requests may come in meanwhile.
\<close>

definition cli_tick_begin :: "dash_env \<Rightarrow> dash \<Rightarrow> response + dash" where
  "cli_tick_begin E d =
     (if de_tick E = None then Inl (text_response 503 ''PM scheduler not configured'')
      else if d_tick d then Inl (text_response 409 ''PM tick already in progress'')
      else Inr (d\<lparr>d_tick := True\<rparr>))"

definition cli_tick_end :: "dash_env \<Rightarrow> request \<Rightarrow> string option \<Rightarrow> dash \<Rightarrow> response \<times> dash" where
  "cli_tick_end E q err d =
     (let errors = (case err of None \<Rightarrow> [] | Some e \<Rightarrow> [e])
      in (text_response 200 (concat errors),
          log_event E (ManualTickEvent (cliActor q) errors) (d\<lparr>d_tick := False\<rparr>)))"

definition cli_tick :: "dash_env \<Rightarrow> request \<Rightarrow> dash \<Rightarrow> response \<times> dash" where
  "cli_tick E q d =
     (case cli_tick_begin E d of
        Inl r \<Rightarrow> (r, d)
      | Inr d1 \<Rightarrow>
          (let (s, err) = the (de_tick E) (d_sys d1) in cli_tick_end E q err (d1\<lparr>d_sys := s\<rparr>)))"

section \<open>Roles\<close>

definition parseRole :: "string option \<Rightarrow> role option" where
  "parseRole v = (if v = Some ''admin'' then Some Admin else if v = Some ''operator'' then Some Operator
     else if v = Some ''viewer'' then Some Viewer else None)"

definition role_route ::
  "dash_config \<Rightarrow> dash_env \<Rightarrow> request \<Rightarrow> dash_user option \<Rightarrow> string \<Rightarrow> dash \<Rightarrow> response \<times> dash" where
  "role_route C E q user target d =
     (case parseRole (rq_formRole q) of
        None \<Rightarrow> (text_response 400 ''Invalid role'', d)
      | Some r \<Rightarrow>
          (case user of
             None \<Rightarrow> (text_response 401 ''Unauthorized'', d)
           | Some u \<Rightarrow>
               (case setUserRole (de_licence E) target r (du_id u) (ac_users (d_accounts d)) of
                  Inl SelfDemoteError \<Rightarrow> (text_response 400 ''Cannot demote yourself'', d)
                | Inl LastAdminError \<Rightarrow> (text_response 400 ''Cannot demote the last remaining admin'', d)
                | Inl (UserNotFound i) \<Rightarrow>
                    (text_response 500 (''Role update failed: user not found: '' @ i), d)
                | Inr (users, evs) \<Rightarrow>
                    (redirect (dc_basePath C @ ''/users''),
                     d\<lparr>d_accounts := (d_accounts d)\<lparr>ac_users := users,
                         ac_audit := ac_audit (d_accounts d) @ evs\<rparr>\<rparr>))))"

section \<open>A request\<close>

definition no_auth_response :: response where
  "no_auth_response = text_response 503 (''Dashboard authentication is required but not configured. '' @
     ''Set DASHBOARD_USER and DASHBOARD_PASSWORD environment variables and restart.'')"

definition guarded :: "response option \<Rightarrow> response \<times> dash \<Rightarrow> dash \<Rightarrow> response \<times> dash" where
  "guarded g k d = (case g of Some r \<Rightarrow> (r, d) | None \<Rightarrow> k)"

definition orElse :: "'a option \<Rightarrow> 'a option \<Rightarrow> 'a option" where
  "orElse a b = (case a of Some x \<Rightarrow> Some x | None \<Rightarrow> b)"

definition handle_route ::
  "dash_config \<Rightarrow> dash_env \<Rightarrow> request \<Rightarrow> dash_user option \<Rightarrow> route \<Rightarrow> dash \<Rightarrow> response \<times> dash" where
  "handle_route C E q user rt d =
     (let lic = de_licence E;
          need = (\<lambda>a. orElse (requireRbac lic) (requirePermission lic user a))
      in case rt of
           Show p \<Rightarrow> guarded (page_refusal lic user p) (text_response 200 ''page'', d) d
         | RunPage i \<Rightarrow> guarded (requirePermission lic user RunsView)
             (if get_run (d_sys d) i = None then text_response 404 ''Run not found''
              else text_response 200 ''page'', d) d
         | TranscriptPage i \<Rightarrow> guarded (requirePermission lic user RunsView)
             (if get_run (d_sys d) i = None then text_response 404 ''Run not found''
              else text_response 200 ''page'', d) d
         | RetryRoute i \<Rightarrow> guarded (need RunsRetry) (retry_route C E q user i d) d
         | StopRoute mode i \<Rightarrow> guarded (need RunsStop) (stop_route C E q user mode i d) d
         | HaltRoute \<Rightarrow> guarded (need SystemHalt) (halt_route C E q user d) d
         | CliStop mode i \<Rightarrow> guarded (requireCliToken E q) (cli_stop C E q mode i d) d
         | CliRetry i \<Rightarrow> guarded (requireCliToken E q) (cli_retry C E q i d) d
         | CliHalt \<Rightarrow> guarded (requireCliToken E q) (cli_halt C E q d) d
         | CliTick \<Rightarrow> guarded (requireCliToken E q) (cli_tick E q d) d
         | RoleRoute i \<Rightarrow> guarded (need UsersManage) (role_route C E q user i d) d
         | NoRoute \<Rightarrow> (notFound, d))"

text \<open>Behind the authentication: static files, then the routes.\<close>

definition serve_route ::
  "dash_config \<Rightarrow> dash_env \<Rightarrow> request \<Rightarrow> dash_user option \<Rightarrow> dash \<Rightarrow> response \<times> dash" where
  "serve_route C E q user d =
     (let base = strip_slashes (dc_basePath C) in
      if startsWith (rq_path q) (base @ ''/static/'') \<and> de_static E (rq_path q)
      then (text_response 200 ''static'', d)
      else handle_route (C\<lparr>dc_basePath := base\<rparr>) E q user (route_of base q) d)"

definition auth_route ::
  "dash_config \<Rightarrow> dash_env \<Rightarrow> string \<Rightarrow> sso_config \<Rightarrow> millis \<Rightarrow> request \<Rightarrow> dash \<Rightarrow>
   (response \<times> accounts) option" where
  "auth_route C E fresh c now q d =
     (let base = strip_slashes (dc_basePath C); a = d_accounts d; lic = de_licence E in
      if rq_method q = ''GET'' \<and> rq_path q = base @ ''/auth/login''
      then Some (auth_login (de_sso E) c fresh (rq_next q), a)
      else if rq_method q = ''GET'' \<and> rq_path q = base @ ''/auth/callback''
      then Some (auth_callback lic (de_sso E) c (''usr_'' @ fresh) fresh now (rq_code q) (rq_state q) a)
      else if rq_method q = ''POST'' \<and> rq_path q = base @ ''/auth/logout''
      then Some (auth_logout lic base now (rq_cookie q) a)
      else None)"

definition synthetic_admin :: "string \<Rightarrow> dash_user" where
  "synthetic_admin name =
     \<lparr>du_id = ''basic-auth:'' @ name, du_email = name @ ''@basic-auth.local'', du_role = Admin\<rparr>"

definition as_dash_user :: "user_row \<Rightarrow> dash_user" where
  "as_dash_user u = \<lparr>du_id = u_id u, du_email = u_email u, du_role = u_role u\<rparr>"

definition ssoActive :: "dash_config \<Rightarrow> dash_env \<Rightarrow> bool" where
  "ssoActive C E \<longleftrightarrow> de_licence E ''sso'' \<and> (\<exists>c. dc_sso C = Some c \<and> sc_enabled c)"

text \<open>The authentication in front of the routes: by session, by password, or none configured.\<close>

definition authenticate ::
  "dash_config \<Rightarrow> dash_env \<Rightarrow> string \<Rightarrow> millis \<Rightarrow> request \<Rightarrow> dash \<Rightarrow>
   (response + dash_user option) \<times> dash" where
  "authenticate C E fresh now q d =
     (let base = strip_slashes (dc_basePath C); isCli = startsWith (rq_path q) (base @ ''/cli/'') in
      if ssoActive C E
      then (case auth_route C E fresh (the (dc_sso C)) now q d of
          Some (r, a) \<Rightarrow> (Inl r, d\<lparr>d_accounts := a\<rparr>)
        | None \<Rightarrow>
            (let (g, ss) = sso_middleware base now (rq_cookie q) (rq_path q)
                   (ac_users (d_accounts d)) (ac_sessions (d_accounts d));
                 d1 = d\<lparr>d_accounts := (d_accounts d)\<lparr>ac_sessions := ss\<rparr>\<rparr>
             in case g of
                  PassThrough \<Rightarrow> (Inr None, d1)
                | Refuse r \<Rightarrow> (Inl r, d1)
                | PassUser u \<Rightarrow> (Inr (Some (as_dash_user u)), d1)))
      else case dc_auth C of
          Some (name, password) \<Rightarrow>
            if name = [] \<or> password = []
            then (if isCli then Inr None else Inl no_auth_response, d)
            else if \<not> isCli \<and> rq_basic q \<noteq> Some (name, password)
            then (Inl (text_response 401 ''Unauthorized''), d)
            else (Inr (Some (synthetic_admin name)), d)
        | None \<Rightarrow>
            (if isCli then Inr None else Inl no_auth_response, d))"

definition handle_inner ::
  "dash_config \<Rightarrow> dash_env \<Rightarrow> string \<Rightarrow> millis \<Rightarrow> request \<Rightarrow> dash \<Rightarrow> response \<times> dash" where
  "handle_inner C E fresh now q d =
     (case csrf_refusal C E q of
        Some r \<Rightarrow> (r, d)
      | None \<Rightarrow>
          (case authenticate C E fresh now q d of
             (Inl r, d1) \<Rightarrow> (r, d1)
           | (Inr user, d1) \<Rightarrow> serve_route C E q user d1))"

definition handle ::
  "dash_config \<Rightarrow> dash_env \<Rightarrow> string \<Rightarrow> millis \<Rightarrow> request \<Rightarrow> dash \<Rightarrow> response \<times> dash" where
  "handle C E fresh now q d =
     (let ip = client_ip q in
      if rate_blocked now ip (d_rate d) then (text_response 429 ''Too Many Requests'', d)
      else (let (r, d1) = handle_inner C E fresh now q d
            in (r, if rs_status r = 401 then d1\<lparr>d_rate := rate_failure now ip (d_rate d1)\<rparr> else d1)))"

lemmas dash_defs [op_defs] =
  retry_run_def stop_run_def audit_halt_def retry_route_def stop_route_def halt_route_def cli_stop_def
  cli_retry_def cli_halt_def cli_tick_begin_def cli_tick_end_def cli_tick_def role_route_def guarded_def handle_route_def serve_route_def

end
