(* ===== verification/DashboardProps.thy ===== *)
theory DashboardProps
  imports Dashboard
begin

text \<open>
  What the dashboard promises: who can act on runs and roles, what the rate limiter bounds, which pages the
  permission matrix does not reach, and what a retry of a failed run does.
\<close>

section \<open>Whom a request acts for\<close>

text \<open>
  The user of a live session when SSO is active; otherwise the administrator that stands for the password.
  The paths of the command line are let through to their own check.
\<close>

definition acts_as :: "dash_config \<Rightarrow> dash_env \<Rightarrow> millis \<Rightarrow> request \<Rightarrow> dash \<Rightarrow> dash_user \<Rightarrow> bool" where
  "acts_as C E now q d u \<longleftrightarrow>
     (if ssoActive C E
      then \<exists>sid row ur. rq_cookie q = Some sid \<and> getSession now sid (ac_sessions (d_accounts d)) = Some row \<and>
             getUserById (ac_users (d_accounts d)) (ss_userId row) = Some ur \<and> u = as_dash_user ur
      else \<exists>name password. dc_auth C = Some (name, password) \<and> name \<noteq> [] \<and> password \<noteq> [] \<and>
             u = synthetic_admin name \<and> rq_basic q = Some (name, password))"

definition is_cli :: "dash_config \<Rightarrow> request \<Rightarrow> bool" where
  "is_cli C q \<longleftrightarrow> startsWith (rq_path q) (strip_slashes (dc_basePath C) @ ''/cli/'')"

lemma authenticate_frame:
  assumes "authenticate C E fresh now q d = (x, d1)"
  shows "d_sys d1 = d_sys d \<and> d_rate d1 = d_rate d \<and> d_events d1 = d_events d \<and> d_tick d1 = d_tick d"
  using assms unfolding authenticate_def Let_def
  by (auto split: if_splits option.splits prod.splits gate.splits)

lemma authenticate_user:
  assumes "authenticate C E fresh now q d = (Inr (Some u), d1)" "\<not> is_cli C q"
  shows "acts_as C E now q d u"
proof (cases "ssoActive C E")
  case True
  let ?base = "strip_slashes (dc_basePath C)"
  let ?m = "sso_middleware ?base now (rq_cookie q) (rq_path q) (ac_users (d_accounts d)) (ac_sessions (d_accounts d))"
  from assms(1) True obtain ur where "fst ?m = PassUser ur" and u: "u = as_dash_user ur"
    by (cases ?m) (auto simp: authenticate_def Let_def split: option.splits gate.splits)
  then have "\<exists>sid row. rq_cookie q = Some sid \<and> getSession now sid (ac_sessions (d_accounts d)) = Some row \<and>
      getUserById (ac_users (d_accounts d)) (ss_userId row) = Some ur"
    by (auto simp: sso_middleware_def Let_def split: if_splits option.splits)
  with True u show ?thesis by (auto simp: acts_as_def)
next
  case False
  with assms show ?thesis
    by (auto simp: authenticate_def acts_as_def is_cli_def Let_def split: option.splits prod.splits if_splits)
qed

text \<open>Below the prefix of the command line there is no other route.\<close>

lemma cli_segments:
  assumes "is_cli C q"
  shows "\<exists>segs. segments (strip_slashes (dc_basePath C)) (rq_path q) = Some (''cli'' # segs)"
proof -
  let ?b = "strip_slashes (dc_basePath C)"
  from assms obtain t where t: "rq_path q = ?b @ ''/cli/'' @ t"
    by (auto simp: is_cli_def startsWith_iff)
  have "rq_path q \<noteq> (if ?b = [] then ''/'' else ?b)" by (simp add: t)
  moreover have "startsWith (rq_path q) (?b @ ''/'')" by (auto simp: t startsWith_iff)
  moreover have "drop (length ?b + 1) (rq_path q) = ''cli'' @ CHR ''/'' # t" by (simp add: t)
  moreover have "split_char (CHR ''/'') (''cli'' @ CHR ''/'' # t) = ''cli'' # split_char (CHR ''/'') t"
    by (rule split_char_append) simp
  ultimately show ?thesis by (auto simp: segments_def)
qed

definition browser_action :: "route \<Rightarrow> bool" where
  "browser_action rt \<longleftrightarrow> (case rt of RetryRoute i \<Rightarrow> True | StopRoute m i \<Rightarrow> True | HaltRoute \<Rightarrow> True
     | RoleRoute i \<Rightarrow> True | _ \<Rightarrow> False)"

definition cli_action :: "route \<Rightarrow> bool" where
  "cli_action rt \<longleftrightarrow> (case rt of CliStop m i \<Rightarrow> True | CliRetry i \<Rightarrow> True | CliHalt \<Rightarrow> True
     | CliTick \<Rightarrow> True | _ \<Rightarrow> False)"

lemma get_route_no_action: "\<not> browser_action (get_route segs) \<and> \<not> cli_action (get_route segs)"
  unfolding get_route_def by (simp add: browser_action_def cli_action_def split: list.split)

lemma post_cli_no_browser: "\<not> browser_action (post_route (''cli'' # segs))"
  by (simp add: post_route_def browser_action_def split: list.split)

lemma action_is_post:
  assumes "browser_action (route_of b q) \<or> cli_action (route_of b q)"
  shows "rq_method q = ''POST''"
proof (rule ccontr)
  assume "rq_method q \<noteq> ''POST''"
  then have "route_of b q = NoRoute \<or> (\<exists>segs. route_of b q = get_route segs)"
    by (auto simp: route_of_def split: option.split)
  with assms get_route_no_action show False by (auto simp: browser_action_def cli_action_def)
qed

lemma browser_action_not_cli:
  assumes "browser_action (route_of (strip_slashes (dc_basePath C)) q)"
  shows "\<not> is_cli C q"
proof
  assume "is_cli C q"
  with cli_segments obtain segs where
    "segments (strip_slashes (dc_basePath C)) (rq_path q) = Some (''cli'' # segs)" by blast
  moreover have "rq_method q = ''POST''" by (rule action_is_post) (use assms in blast)
  ultimately show False using assms post_cli_no_browser by (simp add: route_of_def)
qed

text \<open>A path of an action is none of the login's.\<close>

lemma csrf_passed:
  assumes "csrf_refusal C E q = None" "rq_method q = ''POST''" "\<not> is_cli C q"
    "rq_path q \<noteq> strip_slashes (dc_basePath C) @ ''/auth/login''"
    "rq_path q \<noteq> strip_slashes (dc_basePath C) @ ''/auth/callback''"
  shows "given (rq_hx q) \<and> (given (rq_origin q) \<and> given (de_origin E) \<longrightarrow> rq_origin q = de_origin E)"
  using assms unfolding csrf_refusal_def is_cli_def Let_def by (auto split: if_splits)

lemma auth_paths_no_route:
  assumes "rq_path q = b @ ''/auth/login'' \<or> rq_path q = b @ ''/auth/callback''" "rq_method q = ''POST''"
  shows "route_of b q = NoRoute"
proof -
  have "\<exists>x. segments b (rq_path q) = Some [''auth'', x]"
    using assms(1)
  proof
    assume "rq_path q = b @ ''/auth/login''"
    then have "segments b (rq_path q) = Some [''auth'', ''login'']"
      by (auto simp: segments_def startsWith_iff)
    then show ?thesis by blast
  next
    assume "rq_path q = b @ ''/auth/callback''"
    then have "segments b (rq_path q) = Some [''auth'', ''callback'']"
      by (auto simp: segments_def startsWith_iff)
    then show ?thesis by blast
  qed
  with assms(2) show ?thesis by (auto simp: route_of_def post_route_def)
qed

section \<open>Frames of the handlers\<close>

lemma log_event_keeps [simp]:
  "d_sys (log_event E e d) = d_sys d" "d_accounts (log_event E e d) = d_accounts d"
  "d_rate (log_event E e d) = d_rate d"
  by (simp_all add: log_event_def)

lemma audit_halt_keeps [simp]:
  "d_sys (audit_halt E actor ty ids d) = d_sys d"
  "d_accounts (audit_halt E actor ty ids d) = d_accounts d"
  "d_rate (audit_halt E actor ty ids d) = d_rate d"
proof -
  have "d_sys (foldl (\<lambda>d i. case get_run (d_sys d) i of None \<Rightarrow> d
      | Some run \<Rightarrow> if r_issueId run = [] then d else log_event E (F i run) d) d ids) = d_sys d \<and>
    d_accounts (foldl (\<lambda>d i. case get_run (d_sys d) i of None \<Rightarrow> d
      | Some run \<Rightarrow> if r_issueId run = [] then d else log_event E (F i run) d) d ids) = d_accounts d \<and>
    d_rate (foldl (\<lambda>d i. case get_run (d_sys d) i of None \<Rightarrow> d
      | Some run \<Rightarrow> if r_issueId run = [] then d else log_event E (F i run) d) d ids) = d_rate d" for F d
    by (induction ids arbitrary: d) (simp_all split: option.split)
  then show "d_sys (audit_halt E actor ty ids d) = d_sys d"
    "d_accounts (audit_halt E actor ty ids d) = d_accounts d"
    "d_rate (audit_halt E actor ty ids d) = d_rate d"
    by (simp_all add: audit_halt_def)
qed

lemma orElse_left [simp]: "orElse None b = b"
  by (simp add: orElse_def)

lemma orElse_None [simp]: "orElse a b = None \<longleftrightarrow> a = None \<and> b = None"
  by (cases a) (simp_all add: orElse_def)

lemma guarded_cases: "guarded g k d = (case g of None \<Rightarrow> k | Some r \<Rightarrow> (r, d))"
  by (cases g) (simp_all add: guarded_def)

lemma need_passed:
  assumes "orElse (requireRbac lic) (requirePermission lic user a) = None"
  shows "lic ''rbac'' \<and> (\<exists>u. user = Some u \<and> du_role u \<in> set (PERMISSION_MATRIX a))"
  using assms by (auto simp: requireRbac_def requirePermission_def canAccess_def
      split: if_splits option.splits)

lemma actions_keep:
  "d_accounts (snd (retry_route C E q user i d)) = d_accounts d"
  "d_accounts (snd (stop_route C E q user m i d)) = d_accounts d"
  "d_accounts (snd (halt_route C E q user d)) = d_accounts d"
  "d_accounts (snd (cli_stop C E q m i d)) = d_accounts d"
  "d_accounts (snd (cli_retry C E q i d)) = d_accounts d"
  "d_accounts (snd (cli_halt C E q d)) = d_accounts d"
  "d_accounts (snd (cli_tick E q d)) = d_accounts d"
  "d_sys (snd (role_route C E q user t d)) = d_sys d"
  by (auto simp: retry_run_def stop_run_def retry_route_def stop_route_def halt_route_def cli_stop_def
      cli_retry_def cli_halt_def cli_tick_begin_def cli_tick_end_def cli_tick_def role_route_def Let_def
      split: option.split sum.split prod.split if_splits role_error.split)

lemma handle_route_actions:
  "handle_route C E q user (RetryRoute i) d = guarded (orElse (requireRbac (de_licence E))
     (requirePermission (de_licence E) user RunsRetry)) (retry_route C E q user i d) d"
  "handle_route C E q user (StopRoute m i) d = guarded (orElse (requireRbac (de_licence E))
     (requirePermission (de_licence E) user RunsStop)) (stop_route C E q user m i d) d"
  "handle_route C E q user HaltRoute d = guarded (orElse (requireRbac (de_licence E))
     (requirePermission (de_licence E) user SystemHalt)) (halt_route C E q user d) d"
  "handle_route C E q user (RoleRoute i) d = guarded (orElse (requireRbac (de_licence E))
     (requirePermission (de_licence E) user UsersManage)) (role_route C E q user i d) d"
  "handle_route C E q user (CliStop m i) d = guarded (requireCliToken E q) (cli_stop C E q m i d) d"
  "handle_route C E q user (CliRetry i) d = guarded (requireCliToken E q) (cli_retry C E q i d) d"
  "handle_route C E q user CliHalt d = guarded (requireCliToken E q) (cli_halt C E q d) d"
  "handle_route C E q user CliTick d = guarded (requireCliToken E q) (cli_tick E q d) d"
  by (simp_all add: handle_route_def Let_def)

lemma handle_route_shows:
  "\<not> browser_action rt \<Longrightarrow> \<not> cli_action rt \<Longrightarrow> snd (handle_route C E q user rt d) = d"
  by (cases rt) (simp_all add: handle_route_def guarded_cases browser_action_def cli_action_def
      split: option.split)

lemma guarded_id: "g \<noteq> None \<Longrightarrow> snd (guarded g k d) = d"
  by (cases g) (simp_all add: guarded_def)

lemma guarded_passed:
  assumes "x = guarded g k d" "f (snd x) \<noteq> f d"
  shows "g = None"
proof (rule ccontr)
  assume "g \<noteq> None"
  then have "snd x = d" unfolding assms(1) by (rule guarded_id)
  with assms(2) show False by simp
qed

lemma route_acts:
  assumes "d_sys (snd (handle_route C E q user rt d)) \<noteq> d_sys d"
  shows "(cli_action rt \<and> requireCliToken E q = None) \<or>
    (browser_action rt \<and> de_licence E ''rbac'' \<and>
     (\<exists>u. user = Some u \<and> du_role u \<in> {Admin, Operator}))"
proof -
  let ?need = "\<lambda>a. orElse (requireRbac (de_licence E)) (requirePermission (de_licence E) user a)"
  have need: "browser_action rt \<and> de_licence E ''rbac'' \<and> (\<exists>u. user = Some u \<and> du_role u \<in> {Admin, Operator})"
    if "handle_route C E q user rt d = guarded (?need a) k d" "a \<in> {RunsRetry, RunsStop, SystemHalt}"
      "browser_action rt" for a k
  proof -
    have "?need a = None" by (rule guarded_passed [OF that(1) assms])
    from need_passed [OF this] that(2,3) show ?thesis by auto
  qed
  have cli: "requireCliToken E q = None"
    if "handle_route C E q user rt d = guarded (requireCliToken E q) k d" for k
    by (rule guarded_passed [OF that assms])
  show ?thesis
  proof (cases rt)
    case (RetryRoute i)
    then show ?thesis using need [of RunsRetry] handle_route_actions(1) by (simp add: browser_action_def)
  next
    case (StopRoute m i)
    then show ?thesis using need [of RunsStop] handle_route_actions(2) by (simp add: browser_action_def)
  next
    case HaltRoute
    then show ?thesis using need [of SystemHalt] handle_route_actions(3) by (simp add: browser_action_def)
  next
    case (RoleRoute i)
    then have "d_sys (snd (handle_route C E q user rt d)) = d_sys d"
      by (simp add: handle_route_actions guarded_cases actions_keep split: option.split)
    with assms show ?thesis by simp
  next
    case (CliStop m i)
    then show ?thesis using cli handle_route_actions(5) by (simp add: cli_action_def)
  next
    case (CliRetry i)
    then show ?thesis using cli handle_route_actions(6) by (simp add: cli_action_def)
  next
    case CliHalt
    then show ?thesis using cli handle_route_actions(7) by (simp add: cli_action_def)
  next
    case CliTick
    then show ?thesis using cli handle_route_actions(8) by (simp add: cli_action_def)
  qed (use assms handle_route_shows [of rt C E q user d] in \<open>auto simp: browser_action_def cli_action_def\<close>)
qed

lemma route_roles:
  assumes "d_accounts (snd (handle_route C E q user rt d)) \<noteq> d_accounts d"
  shows "browser_action rt \<and> de_licence E ''rbac'' \<and>
    (\<exists>u target r users' evs. user = Some u \<and> du_role u = Admin \<and>
       setUserRole (de_licence E) target r (du_id u) (ac_users (d_accounts d)) = Inr (users', evs) \<and>
       d_accounts (snd (handle_route C E q user rt d)) =
         (d_accounts d)\<lparr>ac_users := users', ac_audit := ac_audit (d_accounts d) @ evs\<rparr>)"
proof -
  have "snd (handle_route C E q user rt d) \<noteq> d" using assms by auto
  then have "browser_action rt \<or> cli_action rt" using handle_route_shows by blast
  with assms obtain t where rt: "rt = RoleRoute t"
    by (cases rt) (auto simp: browser_action_def cli_action_def handle_route_actions guarded_cases actions_keep
        split: option.splits)
  have pass: "orElse (requireRbac (de_licence E)) (requirePermission (de_licence E) user UsersManage) = None"
    by (rule guarded_passed [OF handle_route_actions(4) [of C E q user t d], of d_accounts])
      (use assms rt in simp)
  from need_passed [OF this] obtain u where u: "de_licence E ''rbac''" "user = Some u" "du_role u = Admin" by auto
  have eq: "handle_route C E q user rt d = role_route C E q user t d"
    unfolding rt handle_route_actions guarded_def pass by simp
  show ?thesis
    using assms u unfolding eq
    by (auto simp: role_route_def rt browser_action_def split: option.splits sum.splits role_error.splits)
qed

section \<open>Who acts\<close>

abbreviation routed :: "dash_config \<Rightarrow> request \<Rightarrow> route" where
  "routed C q \<equiv> route_of (strip_slashes (dc_basePath C)) q"

lemma inner_cases:
  "(csrf_refusal C E q \<noteq> None \<and> snd (handle_inner C E fresh now q d) = d) \<or>
   (\<exists>x d1. csrf_refusal C E q = None \<and> authenticate C E fresh now q d = (x, d1) \<and>
      (snd (handle_inner C E fresh now q d) = d1 \<or>
       (\<exists>user. x = Inr user \<and> snd (handle_inner C E fresh now q d) =
          snd (handle_route (C\<lparr>dc_basePath := strip_slashes (dc_basePath C)\<rparr>) E q user (routed C q) d1))))"
proof (cases "csrf_refusal C E q")
  case None
  obtain x d1 where a: "authenticate C E fresh now q d = (x, d1)" by fastforce
  with None show ?thesis
    by (cases x) (simp_all add: handle_inner_def serve_route_def Let_def)
qed (simp add: handle_inner_def)

lemma handle_sys:
  "d_sys (snd (handle C E fresh now q d)) =
     (if rate_blocked now (client_ip q) (d_rate d) then d_sys d else d_sys (snd (handle_inner C E fresh now q d)))"
  "d_accounts (snd (handle C E fresh now q d)) =
     (if rate_blocked now (client_ip q) (d_rate d) then d_accounts d
      else d_accounts (snd (handle_inner C E fresh now q d)))"
  by (simp_all add: handle_def Let_def split: prod.split)

lemma acting_user:
  assumes "csrf_refusal C E q = None" "authenticate C E fresh now q d = (Inr (Some u), d1)"
    "browser_action (routed C q)"
  shows "rq_method q = ''POST'' \<and> given (rq_hx q) \<and> acts_as C E now q d u"
proof -
  have post: "rq_method q = ''POST''" by (rule action_is_post) (use assms(3) in blast)
  note nocli = browser_action_not_cli [OF assms(3)]
  have "\<not> (rq_path q = strip_slashes (dc_basePath C) @ ''/auth/login'' \<or>
      rq_path q = strip_slashes (dc_basePath C) @ ''/auth/callback'')"
    using auth_paths_no_route [of q "strip_slashes (dc_basePath C)"] post assms(3)
    by (auto simp: browser_action_def)
  with csrf_passed [OF assms(1) post nocli] have "given (rq_hx q)" by blast
  with post authenticate_user [OF assms(2) nocli] show ?thesis by blast
qed

text \<open>
  C39. Nothing but an authorised request reaches the runner. A request that changes the state of the runs, of
  the stop signals or of the PM agent is a POST that carries the configured token of the command line, or
  one that a page of the dashboard sent (it has the header a foreign form cannot set), with roles licensed,
  by the user of a live session or by the holder of the password, who is an administrator or an operator.
\<close>
theorem control_guarded:
  "let d' = snd (handle C E fresh now q d)
   in if d_sys d' = d_sys d then True
      else rq_method q = ''POST'' \<and>
        ((given (de_cliToken E) \<and> rq_cliToken q = de_cliToken E) \<or>
         (given (rq_hx q) \<and> de_licence E ''rbac'' \<and>
          (\<exists>u. acts_as C E now q d u \<and> du_role u \<in> {Admin, Operator})))"
proof (cases "d_sys (snd (handle C E fresh now q d)) = d_sys d")
  case False
  then have "d_sys (snd (handle_inner C E fresh now q d)) \<noteq> d_sys d"
    by (simp add: handle_sys split: if_splits)
  with inner_cases [of C E q fresh now d] authenticate_frame [of C E fresh now q d] obtain user d1 where
    csrf: "csrf_refusal C E q = None" and auth: "authenticate C E fresh now q d = (Inr user, d1)" and
    ch: "d_sys (snd (handle_route (C\<lparr>dc_basePath := strip_slashes (dc_basePath C)\<rparr>) E q user (routed C q) d1))
           \<noteq> d_sys d1"
    by (metis (no_types, lifting))
  from route_acts [OF ch] show ?thesis
  proof
    assume cli: "cli_action (routed C q) \<and> requireCliToken E q = None"
    then have "rq_method q = ''POST''" by (intro action_is_post [of "strip_slashes (dc_basePath C)"]) blast
    moreover from cli have "given (de_cliToken E) \<and> rq_cliToken q = de_cliToken E"
      by (auto simp: requireCliToken_def given_def split: if_splits option.splits)
    ultimately show ?thesis by (simp add: Let_def)
  next
    assume act: "browser_action (routed C q) \<and> de_licence E ''rbac'' \<and>
      (\<exists>u. user = Some u \<and> du_role u \<in> {Admin, Operator})"
    then obtain u where u: "user = Some u" "du_role u \<in> {Admin, Operator}" by blast
    from acting_user [OF csrf auth [unfolded u(1)]] act u(2) show ?thesis
      unfolding Let_def if_not_P [OF False] by blast
  qed
qed simp

lemma logout_keeps_users: "ac_users (snd (auth_logout lic b now c a)) = ac_users a"
  by (auto simp: auth_logout_def audit_access_def Let_def split: option.split)

lemma authenticate_users:
  assumes "authenticate C E fresh now q d = (x, d1)"
  shows "ac_users (d_accounts d1) = ac_users (d_accounts d) \<or>
    (ssoActive C E \<and> rq_method q = ''GET'' \<and>
     rq_path q = strip_slashes (dc_basePath C) @ ''/auth/callback'' \<and> (\<exists>r. x = Inl r))"
proof (cases "ssoActive C E")
  case False
  with assms show ?thesis by (auto simp: authenticate_def Let_def split: option.splits prod.splits if_splits)
next
  case True
  let ?base = "strip_slashes (dc_basePath C)"
  show ?thesis
  proof (cases "auth_route C E fresh (the (dc_sso C)) now q d")
    case None
    with True assms show ?thesis
      by (auto simp: authenticate_def Let_def split: prod.splits gate.splits)
  next
    case (Some p)
    obtain r a where p: "p = (r, a)" by (cases p)
    with Some True assms have x: "x = Inl r" "d_accounts d1 = a" by (auto simp: authenticate_def Let_def)
    show ?thesis
    proof (cases "rq_method q = ''GET'' \<and> rq_path q = ?base @ ''/auth/callback''")
      case True
      with \<open>ssoActive C E\<close> x(1) show ?thesis by simp
    next
      case False
      with Some logout_keeps_users [of "de_licence E" ?base now "rq_cookie q" "d_accounts d"] have
        "ac_users a = ac_users (d_accounts d)"
        unfolding auth_route_def Let_def p by (auto split: if_splits)
      with x(2) show ?thesis by simp
    qed
  qed
qed

text \<open>
  Roles change by an administrator or by a login only. If a request changes the table of users, SSO is
  active and the request is a callback of the login, or roles are licensed and the request is one that a
  page of the dashboard sent for an administrator, and the change is what \<open>setUserRole\<close> allows that
  administrator.
\<close>
theorem roles_guarded:
  "let d' = snd (handle C E fresh now q d)
   in if ac_users (d_accounts d') = ac_users (d_accounts d) then True
      else (ssoActive C E \<and> rq_method q = ''GET'' \<and>
            rq_path q = strip_slashes (dc_basePath C) @ ''/auth/callback'') \<or>
           (rq_method q = ''POST'' \<and> given (rq_hx q) \<and> de_licence E ''rbac'' \<and>
            (\<exists>u target r evs. acts_as C E now q d u \<and> du_role u = Admin \<and>
               setUserRole (de_licence E) target r (du_id u) (ac_users (d_accounts d)) =
                 Inr (ac_users (d_accounts d'), evs)))"
proof (cases "ac_users (d_accounts (snd (handle C E fresh now q d))) = ac_users (d_accounts d)")
  case False
  let ?d' = "snd (handle C E fresh now q d)"
  let ?C = "C\<lparr>dc_basePath := strip_slashes (dc_basePath C)\<rparr>"
  from False have in_ch: "d_accounts ?d' = d_accounts (snd (handle_inner C E fresh now q d))"
      "ac_users (d_accounts (snd (handle_inner C E fresh now q d))) \<noteq> ac_users (d_accounts d)"
    by (simp_all add: handle_sys split: if_splits)
  then have "snd (handle_inner C E fresh now q d) \<noteq> d" by auto
  with inner_cases [of C E q fresh now d] obtain x d1 where
    csrf: "csrf_refusal C E q = None" and auth: "authenticate C E fresh now q d = (x, d1)" and
    res: "snd (handle_inner C E fresh now q d) = d1 \<or> (\<exists>user. x = Inr user \<and>
      snd (handle_inner C E fresh now q d) = snd (handle_route ?C E q user (routed C q) d1))"
    by blast
  from authenticate_users [OF auth] show ?thesis
  proof
    assume "ssoActive C E \<and> rq_method q = ''GET'' \<and>
      rq_path q = strip_slashes (dc_basePath C) @ ''/auth/callback'' \<and> (\<exists>r. x = Inl r)"
    then show ?thesis unfolding Let_def if_not_P [OF False] by blast
  next
    assume same: "ac_users (d_accounts d1) = ac_users (d_accounts d)"
    with res in_ch(2) obtain user where x: "x = Inr user" and
      eq: "snd (handle_inner C E fresh now q d) = snd (handle_route ?C E q user (routed C q) d1)" by auto
    have "d_accounts (snd (handle_route ?C E q user (routed C q) d1)) \<noteq> d_accounts d1"
      using in_ch(2) same unfolding eq by auto
    from route_roles [OF this] obtain u target r users' evs where
      act: "browser_action (routed C q)" "de_licence E ''rbac''" "user = Some u" "du_role u = Admin"
        "setUserRole (de_licence E) target r (du_id u) (ac_users (d_accounts d)) = Inr (users', evs)" and
      acc: "ac_users (d_accounts (snd (handle_route ?C E q user (routed C q) d1))) = users'"
      unfolding same by auto
    have "ac_users (d_accounts ?d') = users'" unfolding in_ch(1) eq by (rule acc)
    with act acting_user [OF csrf auth [unfolded x act(3)] act(1)] show ?thesis
      unfolding Let_def if_not_P [OF False] by blast
  qed
qed simp

section \<open>The rate limiter\<close>

lemma route_rate: "d_rate (snd (handle_route C E q user rt d)) = d_rate d"
proof -
  have keeps:
    "d_rate (snd (retry_route C E q user i d)) = d_rate d"
    "d_rate (snd (stop_route C E q user m i d)) = d_rate d"
    "d_rate (snd (halt_route C E q user d)) = d_rate d"
    "d_rate (snd (cli_stop C E q m i d)) = d_rate d"
    "d_rate (snd (cli_retry C E q i d)) = d_rate d"
    "d_rate (snd (cli_halt C E q d)) = d_rate d"
    "d_rate (snd (cli_tick E q d)) = d_rate d"
    "d_rate (snd (role_route C E q user t d)) = d_rate d" for i m t
    by (auto simp: retry_run_def stop_run_def retry_route_def stop_route_def halt_route_def cli_stop_def
        cli_retry_def cli_halt_def cli_tick_begin_def cli_tick_end_def cli_tick_def role_route_def Let_def
        split: option.split sum.split prod.split if_splits role_error.split)
  show ?thesis
  proof (cases "browser_action rt \<or> cli_action rt")
    case True
    then show ?thesis
      by (cases rt) (simp_all add: browser_action_def cli_action_def handle_route_actions guarded_cases keeps
          split: option.split)
  qed (simp add: handle_route_shows)
qed

lemma inner_rate: "d_rate (snd (handle_inner C E fresh now q d)) = d_rate d"
  using inner_cases [of C E q fresh now d] authenticate_frame [of C E fresh now q d] route_rate
  by (metis (no_types, lifting))

lemma handle_rate:
  "d_rate (snd (handle C E fresh now q d)) =
     (if rs_status (fst (handle C E fresh now q d)) = 401 then rate_failure now (client_ip q) (d_rate d)
      else d_rate d)"
  using inner_rate [of C E fresh now q d]
  by (auto simp: handle_def Let_def text_response_def split: prod.splits)

lemma handle_blocked:
  "rate_blocked now (client_ip q) (d_rate d) \<Longrightarrow> rs_status (fst (handle C E fresh now q d)) = 429"
  by (simp add: handle_def Let_def text_response_def)

type_synonym arrival = "millis \<times> string \<times> request"

fun serve_all :: "dash_config \<Rightarrow> dash_env \<Rightarrow> arrival list \<Rightarrow> dash \<Rightarrow> response list" where
  "serve_all C E [] d = []"
| "serve_all C E ((now, fresh, q) # qs) d =
     (let (r, d') = handle C E fresh now q d in r # serve_all C E qs d')"

fun failures :: "string \<Rightarrow> arrival list \<Rightarrow> response list \<Rightarrow> nat" where
  "failures ip ((now, fresh, q) # qs) (r # rs) =
     (if client_ip q = ip \<and> rs_status r = 401 then 1 else 0) + failures ip qs rs"
| "failures ip _ _ = 0"

definition counted :: "millis \<Rightarrow> string \<Rightarrow> (string, nat \<times> millis) js_map \<Rightarrow> nat option" where
  "counted t ip m =
     (case mapGet m ip of
        None \<Rightarrow> Some 0
      | Some (n, since) \<Rightarrow> if t \<le> since then Some n else None)"

lemma counted_failure:
  assumes "counted t ip m = Some n" "t \<le> now" "now < t + RATE_LIMIT_WINDOW_MS"
  shows "counted t ip (rate_failure now ip' m) = Some (if ip' = ip then n + 1 else n)"
  using assms by (auto simp: counted_def rate_failure_def RATE_LIMIT_WINDOW_MS_def split: option.splits if_splits)

lemma counted_blocked:
  assumes "counted t ip m = Some n" "now < t + RATE_LIMIT_WINDOW_MS" "RATE_LIMIT_MAX < n"
  shows "rate_blocked now ip m"
  using assms by (auto simp: counted_def rate_blocked_def RATE_LIMIT_WINDOW_MS_def split: option.splits if_splits)

lemma failures_bounded:
  assumes "counted t ip (d_rate d) = Some n" "n \<le> RATE_LIMIT_MAX + 1"
    "\<And>now fresh q. (now, fresh, q) \<in> set qs \<Longrightarrow> t \<le> now \<and> now < t + RATE_LIMIT_WINDOW_MS"
  shows "failures ip qs (serve_all C E qs d) + n \<le> RATE_LIMIT_MAX + 1"
  using assms
proof (induction qs arbitrary: d n)
  case (Cons a qs)
  obtain now fresh q where a: "a = (now, fresh, q)" by (cases a)
  obtain r d' where h: "handle C E fresh now q d = (r, d')" by fastforce
  from Cons.prems(3) have now: "t \<le> now" "now < t + RATE_LIMIT_WINDOW_MS" by (auto simp: a)
  have rest: "\<And>now fresh q. (now, fresh, q) \<in> set qs \<Longrightarrow> t \<le> now \<and> now < t + RATE_LIMIT_WINDOW_MS"
    using Cons.prems(3) by auto
  show ?case
  proof (cases "rs_status r = 401")
    case False
    with handle_rate [of C E fresh now q d] have "d_rate d' = d_rate d" by (simp add: h)
    with Cons.IH [of d' n] Cons.prems(1,2) rest False show ?thesis by (simp add: a h)
  next
    case True
    with handle_rate [of C E fresh now q d] have rate: "d_rate d' = rate_failure now (client_ip q) (d_rate d)"
      by (simp add: h)
    note c = counted_failure [OF Cons.prems(1) now, of "client_ip q"]
    show ?thesis
    proof (cases "client_ip q = ip")
      case ip: True
      have "\<not> RATE_LIMIT_MAX < n"
        using counted_blocked [OF Cons.prems(1) now(2)] handle_blocked [of now q d C E fresh] True
        by (auto simp: h ip)
      with Cons.IH [of d' "n + 1"] c rest True show ?thesis by (simp add: a h rate ip)
    next
      case False
      with Cons.IH [of d' n] c Cons.prems(2) rest show ?thesis by (simp add: a h rate)
    qed
  qed
qed simp

text \<open>
  Guessing is bounded: within a window of a minute at most eleven requests of one address are answered with
  401, whatever comes from other addresses in between; the twelfth and all later ones are not looked at.
\<close>
theorem guesses_bounded:
  assumes "mapGet (d_rate d) ip = None"
    "\<And>now fresh q. (now, fresh, q) \<in> set qs \<Longrightarrow> t \<le> now \<and> now < t + 60000"
  shows "failures ip qs (serve_all C E qs d) \<le> 11"
proof -
  have "counted t ip (d_rate d) = Some 0" using assms(1) by (simp add: counted_def)
  with failures_bounded [of t ip d 0 qs C E] assms(2) show ?thesis
    by (simp add: RATE_LIMIT_WINDOW_MS_def RATE_LIMIT_MAX_def)
qed

text \<open>A dashboard behind a password, and somebody who guesses it.\<close>

definition demo_dash_config :: dash_config where
  "demo_dash_config = \<lparr>dc_basePath = [], dc_auth = Some (''admin'', ''secret''), dc_sso = None, dc_runner = True\<rparr>"

definition demo_dash_env :: dash_env where
  "demo_dash_env = \<lparr>de_licence = (\<lambda>f. True), de_sso = Sso.demo_env, de_runner = RunControl.demo_env,
     de_cliToken = None, de_origin = None, de_tick = None, de_static = (\<lambda>p. False)\<rparr>"

definition demo_dash :: dash where
  "demo_dash = \<lparr>d_sys = demo_waiting_sys, d_accounts = demo_accounts, d_rate = [], d_tick = False, d_events = []\<rparr>"

definition guess :: "string option \<Rightarrow> nat \<Rightarrow> request" where
  "guess header i = \<lparr>rq_method = ''GET'', rq_path = ''/'', rq_forwardedFor = header, rq_realIp = None,
     rq_hx = None, rq_origin = None, rq_cookie = None, rq_basic = Some (''admin'', show_nat i), rq_cliToken = None,
     rq_actor = None, rq_next = None, rq_code = None, rq_state = None, rq_formRole = None\<rparr>"

lemma show_nat_inj: "show_nat i = show_nat j \<Longrightarrow> i = j"
  by (metis parse_nat_show)

lemma show_nat_not_secret: "show_nat i \<noteq> ''secret''"
  using show_nat_digits [of "CHR ''s''" i] by (auto simp: is_digit_def)

lemma handle_guess:
  assumes "\<not> rate_blocked now (client_ip (guess h i)) (d_rate d)"
  shows "handle demo_dash_config demo_dash_env fresh now (guess h i) d =
    (text_response 401 ''Unauthorized'', d\<lparr>d_rate := rate_failure now (client_ip (guess h i)) (d_rate d)\<rparr>)"
proof -
  have "csrf_refusal demo_dash_config demo_dash_env (guess h i) = None"
    by (simp add: csrf_refusal_def guess_def)
  moreover have "authenticate demo_dash_config demo_dash_env fresh now (guess h i) d =
      (Inl (text_response 401 ''Unauthorized''), d)"
    using show_nat_not_secret [of i]
    by (simp add: authenticate_def ssoActive_def demo_dash_config_def guess_def strip_slashes_def)
  ultimately show ?thesis
    using assms by (simp add: handle_def handle_inner_def text_response_def)
qed

theorem guesses_bounded_witness:
  "failures ''127.0.0.1'' [(0, ''f'', guess None 1), (5, ''f'', guess None 2)]
     (serve_all demo_dash_config demo_dash_env [(0, ''f'', guess None 1), (5, ''f'', guess None 2)] demo_dash) \<le> 11"
  by (rule guesses_bounded [where t = 0]) (auto simp: demo_dash_def)

text \<open>
  The address is the one the request claims: a client that sends another value of \<open>X-Forwarded-For\<close> with
  every guess is never stopped. However many guesses come within the same millisecond, each is checked.
\<close>
theorem limiter_trusts_forwarded_header:
  "map rs_status (serve_all demo_dash_config demo_dash_env
     (map (\<lambda>i. (0, ''f'', guess (Some (show_nat i)) i)) [0 ..< n]) demo_dash) = replicate n 401"
proof -
  let ?go = "\<lambda>is d. map rs_status (serve_all demo_dash_config demo_dash_env
     (map (\<lambda>i. (0, ''f'', guess (Some (show_nat i)) i)) is) d)"
  have "?go [i ..< i + k] d = replicate k 401"
    if "\<And>j. i \<le> j \<Longrightarrow> mapGet (d_rate d) (show_nat j) = None" for i k d
    using that
  proof (induction k arbitrary: i d)
    case (Suc k)
    have ip: "client_ip (guess (Some (show_nat i)) i) = show_nat i"
      by (simp add: client_ip_def guess_def given_def)
    have free: "mapGet (d_rate d) (show_nat i) = None" using Suc.prems by simp
    have "\<not> rate_blocked 0 (client_ip (guess (Some (show_nat i)) i)) (d_rate d)"
      unfolding ip by (simp add: rate_blocked_def free)
    note h = handle_guess [OF this, of "''f''"]
    have "mapGet (rate_failure 0 (show_nat i) (d_rate d)) (show_nat j) = None" if "Suc i \<le> j" for j
      using Suc.prems [of j] that show_nat_inj [of i j] free by (auto simp: rate_failure_def)
    then have "?go [Suc i ..< Suc i + k] (d\<lparr>d_rate := rate_failure 0 (show_nat i) (d_rate d)\<rparr>) = replicate k 401"
      by (intro Suc.IH) simp
    moreover have "[i ..< i + Suc k] = i # [Suc i ..< Suc i + k]" by (simp add: upt_conv_Cons)
    ultimately show ?case by (simp add: h [unfolded ip] text_response_def)
  qed simp
  from this [of 0 demo_dash n] show ?thesis by (simp add: demo_dash_def)
qed

section \<open>Pages\<close>

text \<open>The permission the matrix has for a page.\<close>

definition page_permission :: "page \<Rightarrow> permission" where
  "page_permission p =
     (case p of
        RunFeed \<Rightarrow> RunsView | RunFeedPartial \<Rightarrow> RunsView | TokensPage \<Rightarrow> TokensView | ErrorsPage \<Rightarrow> ErrorsView
      | ConfigPage \<Rightarrow> ConfigView | CoordinationPage \<Rightarrow> CoordinationView | CoordinationFeed \<Rightarrow> CoordinationView
      | AuditPage \<Rightarrow> AuditView | AuditPartial \<Rightarrow> AuditView | AuditEvent i \<Rightarrow> AuditView | AuditCsv \<Rightarrow> AuditExport
      | CostPage \<Rightarrow> CostView | CostPartial \<Rightarrow> CostView | CostCsv \<Rightarrow> CostExport | UsersPage \<Rightarrow> UsersView)"

text \<open>
  With roles licensed, a page is shown exactly to the users whose role the permission matrix names for it,
  except for the three pages of costs: they are shown to everybody, also to a viewer, whom the matrix
  denies both the view and the export of costs.
\<close>
theorem pages_follow_matrix_except_costs:
  "let lic = (\<lambda>f. True)
   in (page_refusal lic user p = None) =
        (if p \<in> {CostPage, CostPartial, CostCsv} then True
         else \<exists>u. user = Some u \<and> du_role u \<in> set (PERMISSION_MATRIX (page_permission p))) \<and>
      \<not> canAccess lic Viewer (page_permission CostPage) \<and>
      \<not> canAccess lic Viewer (page_permission CostCsv)"
  by (cases p; cases user)
    (simp_all add: page_refusal_def page_guard_def page_permission_def requirePermission_def canAccess_def)

section \<open>Retrying a failed run\<close>

lemma resumable_status:
  "resumable_row issue s = Some r \<Longrightarrow> r_issueId r = issue \<and> r_status r \<in> {Paused, Retriable}"
  by (auto simp: resumable_row_def dest: select_one_Some)

text \<open>
  The retry button of a failed run never retries that run. The route accepts the status, answers that it has
  been done and records a retry, but \<open>resume\<close> looks for a paused or retriable run of the issue: when there is
  none nothing happens, and when there is one, another run is resumed, one that waits for an approval
  included.
\<close>
theorem failed_run_never_retried:
  assumes "get_run (d_sys d) i = Some run" "r_status run = Failed" "r_resumePayload run \<noteq> None"
    "dc_runner C" "mapGet (activeRuns (d_sys d)) (r_issueId run) = None"
  shows "retry_route C E q (Some u) i d =
    (done_response q (dc_basePath C @ ''/runs/'' @ i),
     log_event E (RetryRunEvent i (r_issueId run) Failed (du_id u) (du_email u))
       (case resumable_row (r_issueId run) (d_sys d) of
          None \<Rightarrow> d
        | Some other \<Rightarrow> d\<lparr>d_sys := resume_row (de_runner E) (r_issueId run) other (d_sys d)\<rparr>)) \<and>
    (case resumable_row (r_issueId run) (d_sys d) of
       None \<Rightarrow> True | Some other \<Rightarrow> other \<noteq> run \<and> r_status other \<in> {Paused, Retriable})"
proof -
  have "retry_run C E i d = Inr (run, d\<lparr>d_sys := resume (de_runner E) (r_issueId run) (d_sys d)\<rparr>)"
    using assms by (simp add: retry_run_def isRetryableStatus_def)
  then have "retry_route C E q (Some u) i d =
    (done_response q (dc_basePath C @ ''/runs/'' @ i),
     log_event E (RetryRunEvent i (r_issueId run) Failed (du_id u) (du_email u))
       (case resumable_row (r_issueId run) (d_sys d) of
          None \<Rightarrow> d
        | Some other \<Rightarrow> d\<lparr>d_sys := resume_row (de_runner E) (r_issueId run) other (d_sys d)\<rparr>))"
    using assms(2,5) by (simp add: retry_route_def resume_def split: option.split)
  moreover have "case resumable_row (r_issueId run) (d_sys d) of
      None \<Rightarrow> True | Some other \<Rightarrow> other \<noteq> run \<and> r_status other \<in> {Paused, Retriable}"
    using resumable_status [of "r_issueId run" "d_sys d"] assms(2) by (auto split: option.split)
  ultimately show ?thesis by blast
qed

definition demo_failed_dash :: dash where
  "demo_failed_dash = demo_dash\<lparr>d_sys := demo_sys\<lparr>runs :=
     [demo_row\<lparr>r_status := Failed, r_resumePayload := Some (BadJson ''x'')\<rparr>]\<rparr>\<rparr>"

theorem failed_run_never_retried_witness:
  "let d' = snd (retry_route demo_dash_config demo_dash_env (guess None 0) (Some (synthetic_admin ''admin''))
       ''r1'' demo_failed_dash)
   in d_sys d' = d_sys demo_failed_dash \<and> length (d_events d') = 1"
proof -
  let ?run = "demo_row\<lparr>r_status := Failed, r_resumePayload := Some (BadJson ''x'')\<rparr>"
  have 1: "get_run (d_sys demo_failed_dash) ''r1'' = Some ?run"
    by (simp add: get_run_def select_one_def demo_failed_dash_def demo_row_def fresh_row_def)
  have 2: "resumable_row (r_issueId ?run) (d_sys demo_failed_dash) = None"
    by (simp add: resumable_row_def select_one_def demo_failed_dash_def)
  have 3: "mapGet (activeRuns (d_sys demo_failed_dash)) (r_issueId ?run) = None"
    by (simp add: demo_failed_dash_def demo_sys_def)
  have 4: "dc_runner demo_dash_config" by (simp add: demo_dash_config_def)
  have 5: "r_status ?run = Failed" "r_resumePayload ?run \<noteq> None" by simp_all
  show ?thesis
    using failed_run_never_retried [OF 1 5 4 3, of demo_dash_env "guess None 0" "synthetic_admin ''admin''"] 2
    by (simp add: log_event_def demo_dash_env_def demo_failed_dash_def demo_dash_def)
qed

section \<open>One tick at a time\<close>

text \<open>While a tick on demand runs, whatever the scheduler changes, another one is refused.\<close>

lemma tick_exclusive:
  "cli_tick_begin E d = Inr d1 \<Longrightarrow> cli_tick_begin E (d1\<lparr>d_sys := s\<rparr>) = Inl (text_response 409 ''PM tick already in progress'')"
  by (auto simp: cli_tick_begin_def split: if_splits)

end
