(* ===== verification/Triage.thy ===== *)
theory Triage
  imports PmActions "HOL-Library.List_Lexorder" "HOL-Library.Char_ord"
begin

text \<open>
  The triage of new issues (\<open>packages/core/src/pm/actions/triage.ts\<close>, \<open>triage-render.ts\<close>,
  \<open>parseHandWrittenACs\<close> of \<open>triage-prompt.ts\<close>, \<open>parseTriageV2Extensions\<close> of \<open>pm/types.ts\<close>,
  \<open>pm/triage-results-store.ts\<close>, \<open>pm/triage-prediction-quality.ts\<close>, \<open>parseJsonObject\<close> of
  \<open>executor/agent-stream.ts\<close>). What the model answers is a JSON value; \<open>JSON.parse\<close>, the model and Linear
  are parameters; the numbers of a JSON value are whole and its objects have each key once. In texts a dash
  is written \<open>--\<close> and emoji are left out.
\<close>

section \<open>JSON\<close>

datatype json =
  JNull | JBool bool | JNum int | JStr string | JArr "json list" | JObj "(string \<times> json) list"

text \<open>\<open>raw[k]\<close>: \<open>None\<close> is undefined.\<close>

fun json_get :: "json \<Rightarrow> string \<Rightarrow> json option" where
  "json_get (JObj fs) k = map_of fs k"
| "json_get _ k = None"

fun truthy :: "json option \<Rightarrow> bool" where
  "truthy (Some (JBool b)) = b"
| "truthy (Some (JNum n)) = (n \<noteq> 0)"
| "truthy (Some (JStr s)) = (s \<noteq> [])"
| "truthy (Some (JArr _)) = True"
| "truthy (Some (JObj _)) = True"
| "truthy _ = False"

text \<open>A value in a template string.\<close>

fun json_text :: "json \<Rightarrow> string" where
  "json_text JNull = ''null''"
| "json_text (JBool b) = (if b then ''true'' else ''false'')"
| "json_text (JNum n) = show_int n"
| "json_text (JStr s) = s"
| "json_text (JArr xs) = joinWith '','' (map (\<lambda>x. if x = JNull then [] else json_text x) xs)"
| "json_text (JObj _) = ''[object Object]''"

definition value_text :: "json option \<Rightarrow> string" where
  "value_text v = (case v of None \<Rightarrow> ''undefined'' | Some j \<Rightarrow> json_text j)"

fun the_strings :: "json list \<Rightarrow> string list" where
  "the_strings [] = []"
| "the_strings (JStr s # xs) = s # the_strings xs"
| "the_strings (_ # xs) = the_strings xs"

fun all_strings :: "json list \<Rightarrow> string list option" where
  "all_strings [] = Some []"
| "all_strings (JStr s # xs) = map_option (Cons s) (all_strings xs)"
| "all_strings _ = None"

text \<open>An array's strings, trimmed, without the blank ones.\<close>

definition clean_strings :: "json list \<Rightarrow> string list" where
  "clean_strings xs = filter (\<lambda>s. s \<noteq> []) (map trim (the_strings xs))"

definition array_of :: "json option \<Rightarrow> json list option" where
  "array_of v = (case v of Some (JArr xs) \<Rightarrow> Some xs | _ \<Rightarrow> None)"

definition trimmed_string :: "json option \<Rightarrow> string option" where
  "trimmed_string v = (case v of Some (JStr s) \<Rightarrow> (if trim s = [] then None else Some (trim s)) | _ \<Rightarrow> None)"

section \<open>The object in an answer\<close>

text \<open>
  The scan for the brace that closes the first object: the text up to it, with the depth and whether the
  scan is in a string or behind a backslash.
\<close>

fun scan_object :: "nat \<Rightarrow> bool \<Rightarrow> bool \<Rightarrow> string \<Rightarrow> string option" where
  "scan_object depth inString escaped [] = None"
| "scan_object depth inString escaped (c # cs) =
     map_option (Cons c)
       (if inString then
          (if escaped then scan_object depth True False cs
           else if c = CHR 0x5C then scan_object depth True True cs
           else if c = CHR 0x22 then scan_object depth False False cs
           else scan_object depth True False cs)
        else if c = CHR 0x22 then scan_object depth True escaped cs
        else if c = CHR ''{'' then scan_object (depth + 1) False escaped cs
        else if c = CHR ''}'' then
          (if depth = 1 then Some [] else scan_object (depth - 1) False escaped cs)
        else scan_object depth False escaped cs)"

definition parseJsonObject :: "(string \<Rightarrow> json option) \<Rightarrow> string \<Rightarrow> json option" where
  "parseJsonObject parse text =
     (let trimmed = trim text;
          direct = (if startsWith trimmed ''{'' then parse trimmed else None)
      in case direct of
           Some j \<Rightarrow> Some j
         | None \<Rightarrow>
             (let rest = dropWhile (\<lambda>c. c \<noteq> CHR ''{'') text in
              if rest = [] then None
              else case scan_object 0 False False rest of None \<Rightarrow> None | Some obj \<Rightarrow> parse obj))"

section \<open>The extensions of the second version\<close>

datatype risk_severity = SevLow | SevMedium | SevHigh

record triage_v2 =
  tv_assumptions :: "string list option"
  tv_examples :: "(string \<times> string) list option"
  tv_affectedFiles :: "string list option"
  tv_testStrategy :: "(string option \<times> string option) option"
  tv_riskAssessment :: "(risk_severity \<times> string list) option"

definition no_v2 :: triage_v2 where
  "no_v2 = \<lparr>tv_assumptions = None, tv_examples = None, tv_affectedFiles = None, tv_testStrategy = None,
     tv_riskAssessment = None\<rparr>"

definition CAP_ASSUMPTIONS :: nat where "CAP_ASSUMPTIONS = 10"
definition CAP_EXAMPLES :: nat where "CAP_EXAMPLES = 3"
definition CAP_FILES :: nat where "CAP_FILES = 20"
definition CAP_AREAS :: nat where "CAP_AREAS = 5"

definition TriageV2ExtensionsSchema :: "triage_v2 \<Rightarrow> bool" where
  "TriageV2ExtensionsSchema v \<longleftrightarrow>
     (case tv_assumptions v of None \<Rightarrow> True
      | Some xs \<Rightarrow> [] \<notin> set xs \<and> length xs \<le> CAP_ASSUMPTIONS) \<and>
     (case tv_examples v of None \<Rightarrow> True
      | Some xs \<Rightarrow> list_all (\<lambda>(s, e). s \<noteq> [] \<and> e \<noteq> []) xs \<and> length xs \<le> CAP_EXAMPLES) \<and>
     (case tv_affectedFiles v of None \<Rightarrow> True
      | Some xs \<Rightarrow> [] \<notin> set xs \<and> length xs \<le> CAP_FILES) \<and>
     (case tv_testStrategy v of None \<Rightarrow> True | Some (u, i) \<Rightarrow> u \<noteq> Some [] \<and> i \<noteq> Some []) \<and>
     (case tv_riskAssessment v of None \<Rightarrow> True
      | Some (s, areas) \<Rightarrow> [] \<notin> set areas \<and> length areas \<le> CAP_AREAS)"

definition collectStringArray :: "json \<Rightarrow> string \<Rightarrow> nat \<Rightarrow> string list option" where
  "collectStringArray r field cap =
     (case array_of (json_get r field) of
        None \<Rightarrow> None
      | Some xs \<Rightarrow>
          (let cleaned = clean_strings xs in if cleaned = [] then None else Some (take cap cleaned)))"

text \<open>A leading bullet or number, then surrounding backticks.\<close>

definition strip_bullet :: "string \<Rightarrow> string" where
  "strip_bullet s =
     (case dropWhile is_space s of
        [] \<Rightarrow> s
      | c # r \<Rightarrow>
          if c \<in> {CHR ''-'', CHR ''*'', CHR ''+''} then dropWhile is_space r
          else (case dropWhile is_digit (c # r) of
              x # r' \<Rightarrow>
                if is_digit c \<and> x \<in> {CHR ''.'', CHR '')''} then dropWhile is_space r' else s
            | [] \<Rightarrow> s))"

definition strip_ticks :: "string \<Rightarrow> string" where
  "strip_ticks s = rev (dropWhile (\<lambda>c. c = CHR 0x60) (rev (dropWhile (\<lambda>c. c = CHR 0x60) s)))"

definition v2_files :: "json \<Rightarrow> string list option" where
  "v2_files r =
     (case collectStringArray r ''affectedFiles'' CAP_FILES of
        None \<Rightarrow> None
      | Some fs \<Rightarrow>
          (let normalized = filter (\<lambda>p. p \<noteq> []) (map (\<lambda>p. trim (strip_ticks (strip_bullet p))) fs)
           in if normalized = [] then None else Some normalized))"

definition v2_example :: "json \<Rightarrow> (string \<times> string) option" where
  "v2_example e =
     (case (trimmed_string (json_get e ''scenario''), trimmed_string (json_get e ''expected'')) of
        (Some s, Some x) \<Rightarrow> Some (s, x)
      | _ \<Rightarrow> None)"

definition v2_examples :: "json \<Rightarrow> (string \<times> string) list option" where
  "v2_examples r =
     (case array_of (json_get r ''examples'') of
        None \<Rightarrow> None
      | Some xs \<Rightarrow>
          (let cleaned = List.map_filter v2_example xs
           in if cleaned = [] then None else Some (take CAP_EXAMPLES cleaned)))"

definition v2_strategy :: "json \<Rightarrow> (string option \<times> string option) option" where
  "v2_strategy r =
     (case json_get r ''testStrategy'' of
        Some (JObj fs) \<Rightarrow>
          (let u = trimmed_string (map_of fs ''unit''); i = trimmed_string (map_of fs ''integration'')
           in if u = None \<and> i = None then None else Some (u, i))
      | _ \<Rightarrow> None)"

definition severity_of :: "json option \<Rightarrow> risk_severity option" where
  "severity_of v = (if v = Some (JStr ''low'') then Some SevLow
     else if v = Some (JStr ''medium'') then Some SevMedium
     else if v = Some (JStr ''high'') then Some SevHigh else None)"

definition v2_risk :: "json \<Rightarrow> (risk_severity \<times> string list) option" where
  "v2_risk r =
     (case json_get r ''riskAssessment'' of
        Some (JObj fs) \<Rightarrow>
          (case severity_of (map_of fs ''severity'') of
             None \<Rightarrow> None
           | Some s \<Rightarrow>
               Some (s, take CAP_AREAS (case array_of (map_of fs ''areas'') of
                 None \<Rightarrow> [] | Some xs \<Rightarrow> clean_strings xs)))
      | _ \<Rightarrow> None)"

definition normalise_v2 :: "json \<Rightarrow> triage_v2" where
  "normalise_v2 r = \<lparr>tv_assumptions = collectStringArray r ''assumptions'' CAP_ASSUMPTIONS,
     tv_examples = v2_examples r, tv_affectedFiles = v2_files r, tv_testStrategy = v2_strategy r,
     tv_riskAssessment = v2_risk r\<rparr>"

definition parseTriageV2Extensions :: "json \<Rightarrow> triage_v2" where
  "parseTriageV2Extensions raw =
     (case raw of
        JObj fs \<Rightarrow> (let out = normalise_v2 raw in if TriageV2ExtensionsSchema out then out else no_v2)
      | _ \<Rightarrow> no_v2)"

section \<open>The result of a triage\<close>

record triage_result =
  tg_issueId :: issue_id
  tg_priority :: int
  tg_labels :: "string list"
  tg_complexity :: "json option"
  tg_rationale :: string
  tg_acceptanceCriteria :: "string list"
  tg_approachSummary :: string
  tg_openQuestions :: "string list"
  tg_antiAcceptanceCriteria :: "string list"
  tg_v2 :: triage_v2

definition lf :: string where
  "lf = [CHR 0x0A]"

definition bullets :: "string \<Rightarrow> string list \<Rightarrow> string" where
  "bullets mark xs = joinWith lf (map (\<lambda>x. mark @ x) xs)"

definition filled :: "'a list option \<Rightarrow> 'a list option" where
  "filled v = (case v of Some [] \<Rightarrow> None | _ \<Rightarrow> v)"

definition hasV2Fields :: "triage_v2 \<Rightarrow> bool" where
  "hasV2Fields v \<longleftrightarrow> filled (tv_assumptions v) \<noteq> None \<or> filled (tv_examples v) \<noteq> None \<or>
     filled (tv_affectedFiles v) \<noteq> None \<or> tv_testStrategy v \<noteq> None \<or> tv_riskAssessment v \<noteq> None"

definition renderOr :: "'a option \<Rightarrow> ('a \<Rightarrow> string) \<Rightarrow> string" where
  "renderOr v f = (case v of None \<Rightarrow> ''(none)'' | Some x \<Rightarrow> f x)"

fun example_lines :: "nat \<Rightarrow> (string \<times> string) list \<Rightarrow> string list" where
  "example_lines n [] = []"
| "example_lines n ((s, e) # xs) =
     (show_nat (n + 1) @ ''. **Scenario:** '' @ s @ lf @ ''   **Expected:** '' @ e) # example_lines (n + 1) xs"

definition strategy_lines :: "string option \<times> string option \<Rightarrow> string list" where
  "strategy_lines ts =
     (let line = (\<lambda>name v. case v of None \<Rightarrow> [] | Some t \<Rightarrow> if t = [] then [] else [name @ t])
      in line ''- **Unit:** '' (fst ts) @ line ''- **Integration:** '' (snd ts))"

primrec severity_text :: "risk_severity \<Rightarrow> string" where
  "severity_text SevLow = ''low''"
| "severity_text SevMedium = ''medium''"
| "severity_text SevHigh = ''high''"

definition areas_text :: "string list \<Rightarrow> string" where
  "areas_text as = (let t = joinWith '', '' as in if t = [] then ''(none)'' else t)"

section \<open>The comment\<close>

definition renderV1Sections :: "triage_result \<Rightarrow> string" where
  "renderV1Sections r =
     (if tg_acceptanceCriteria r = [] then []
      else lf @ lf @ ''**Generated Acceptance Criteria:**'' @ lf @ bullets ''- '' (tg_acceptanceCriteria r)) @
     (if tg_approachSummary r = [] then [] else lf @ lf @ ''**Approach (Tier 4):**'' @ lf @ tg_approachSummary r) @
     (if tg_openQuestions r = [] then []
      else lf @ lf @ ''**Open questions (must be answered before implement):**'' @ lf @
        bullets ''- '' (tg_openQuestions r)) @
     (if tg_antiAcceptanceCriteria r = [] then []
      else lf @ lf @ ''**Anti-acceptance criteria (this should NOT do):**'' @ lf @
        bullets ''- '' (tg_antiAcceptanceCriteria r))"

definition renderV2Block :: "triage_v2 \<Rightarrow> string" where
  "renderV2Block v =
     lf @ lf @ ''### Assumptions'' @ lf @ renderOr (filled (tv_assumptions v)) (bullets ''- '') @
     lf @ lf @ ''### Examples'' @ lf @
       renderOr (filled (tv_examples v)) (\<lambda>xs. joinWith lf (example_lines 0 xs)) @
     lf @ lf @ ''### Affected Files'' @ lf @ renderOr (filled (tv_affectedFiles v)) (bullets ''- '') @
     lf @ lf @ ''### Test Strategy'' @ lf @
       renderOr (tv_testStrategy v) (\<lambda>ts. if strategy_lines ts = [] then ''(none)''
          else joinWith lf (strategy_lines ts)) @
     lf @ lf @ ''### Risk Assessment'' @ lf @
       renderOr (tv_riskAssessment v) (\<lambda>(s, areas). ''**Severity:** '' @ severity_text s @
          '' | **Areas:** '' @ areas_text areas)"

definition renderTriageComment :: "triage_result \<Rightarrow> bool \<Rightarrow> string \<Rightarrow> string" where
  "renderTriageComment r forceNeedsDesign pipelineLabel =
     ''**PM Agent -- Triaged**'' @ (if forceNeedsDesign then '' (routed to needs-design)'' else []) @ lf @ lf @
     ''**Priority:** '' @ show_int (tg_priority r) @ '' | **Complexity:** '' @ value_text (tg_complexity r) @ lf @
     ''**Labels:** '' @ joinWith '', '' (setOf (tg_labels r)) @ lf @
     ''**Pipeline:** '' @ pipelineLabel @ lf @
     ''**Rationale:** '' @ tg_rationale r @
     renderV1Sections r @ (if hasV2Fields (tg_v2 r) then renderV2Block (tg_v2 r) else [])"

section \<open>The description\<close>

text \<open>The sections in order, each with its marker and its text, which begins with the marker.\<close>

definition triage_sections :: "triage_result \<Rightarrow> (string \<times> string option) list" where
  "triage_sections r =
    [(''**Acceptance Criteria:**'',
       if tg_acceptanceCriteria r = [] then None
       else Some (''**Acceptance Criteria:**'' @ lf @ bullets ''- [ ] '' (tg_acceptanceCriteria r))),
     (''**Examples:**'',
       map_option (\<lambda>xs. ''**Examples:**'' @ lf @ joinWith lf (example_lines 0 xs))
         (filled (tv_examples (tg_v2 r)))),
     (''**Affected Files:**'',
       map_option (\<lambda>xs. ''**Affected Files:**'' @ lf @ bullets ''- '' xs) (filled (tv_affectedFiles (tg_v2 r)))),
     (''**Test Strategy:**'',
       case tv_testStrategy (tg_v2 r) of
         None \<Rightarrow> None
       | Some ts \<Rightarrow> if strategy_lines ts = [] then None
           else Some (''**Test Strategy:**'' @ lf @ joinWith lf (strategy_lines ts))),
     (''**Risk Assessment:**'',
       map_option (\<lambda>(s, areas). ''**Risk Assessment:**'' @ lf @ ''- **Severity:** '' @ severity_text s @ lf @
         ''- **Areas:** '' @ areas_text areas) (tv_riskAssessment (tg_v2 r)))]"

fun append_sections :: "(string \<times> string option) list \<Rightarrow> string \<Rightarrow> string" where
  "append_sections [] out = out"
| "append_sections ((marker, rendered) # rest) out =
     append_sections rest
       (if strIncludes out marker then out
        else case rendered of None \<Rightarrow> out | Some t \<Rightarrow> out @ lf @ lf @ t)"

definition appendTriageSectionsToDescription :: "string \<Rightarrow> triage_result \<Rightarrow> string" where
  "appendTriageSectionsToDescription existingDesc r = append_sections (triage_sections r) existingDesc"

text \<open>
  \<open>parseHandWrittenACs\<close>: the items of the lines behind the marker, up to the first line that is neither
  blank nor an item. The expression takes a dash, white space, a box with at most one character and white
  space behind it if there is one, and the rest; a carriage return stands at the end of a line only.
\<close>

fun after_marker :: "string \<Rightarrow> string \<Rightarrow> string option" where
  "after_marker m [] = (if m = [] then Some [] else None)"
| "after_marker m (c # cs) =
     (if startsWith (c # cs) m then Some (drop (length m) (c # cs)) else after_marker m cs)"

definition behind_box :: "string \<Rightarrow> string option" where
  "behind_box t =
     (case t of
        c # u \<Rightarrow> if is_space c \<and> dropWhile is_space u \<noteq> [] then Some (dropWhile is_space u) else None
      | [] \<Rightarrow> None)"

definition strip_box :: "string \<Rightarrow> string option" where
  "strip_box s =
     (let one = (case s of
          a # x # c # t \<Rightarrow> if a = CHR ''['' \<and> c = CHR '']'' then behind_box t else None | _ \<Rightarrow> None)
      in case one of
           Some t \<Rightarrow> Some t
         | None \<Rightarrow> (case s of
             a # c # t \<Rightarrow> if a = CHR ''['' \<and> c = CHR '']'' then behind_box t else None | _ \<Rightarrow> None))"

definition ac_item :: "string \<Rightarrow> string option" where
  "ac_item line =
     (case line of
        c # x # r \<Rightarrow>
          (let body = dropWhile is_space r in
           if c = CHR ''-'' \<and> is_space x \<and> body \<noteq> []
           then Some (trim (case strip_box body of Some t \<Rightarrow> t | None \<Rightarrow> body)) else None)
      | _ \<Rightarrow> None)"

fun ac_items :: "string list \<Rightarrow> string list" where
  "ac_items [] = []"
| "ac_items (l # ls) =
     (if trim l = [] then ac_items ls
      else case ac_item (trim l) of
          None \<Rightarrow> []
        | Some t \<Rightarrow> if t = [] then ac_items ls else t # ac_items ls)"

definition parseHandWrittenACs :: "string option \<Rightarrow> string list" where
  "parseHandWrittenACs description =
     (case description of
        None \<Rightarrow> []
      | Some d \<Rightarrow>
          (case after_marker ''**Acceptance Criteria:**'' d of
             None \<Rightarrow> [] | Some rest \<Rightarrow> ac_items (split_lines rest)))"

section \<open>Storing the prediction\<close>

type_synonym triage_rows = "(issue_id, triage_v2) js_map"

definition upsertTriageResult :: "issue_id \<Rightarrow> triage_v2 \<Rightarrow> triage_rows \<Rightarrow> triage_rows" where
  "upsertTriageResult i v rows = mapSet rows i v"

definition getTriageResult :: "issue_id \<Rightarrow> triage_rows \<Rightarrow> triage_v2 option" where
  "getTriageResult i rows = mapGet rows i"

text \<open>The quality of a prediction against the files a run changed; the lists are sorted.\<close>

record prediction_quality =
  pq_hasV2Prediction :: bool
  pq_predicted :: nat
  pq_actual :: nat
  pq_intersection :: nat
  pq_missed :: "string list"
  pq_unexpected :: "string list"

definition computeAffectedFilesPredictionQuality ::
  "string list option \<Rightarrow> string list \<Rightarrow> prediction_quality" where
  "computeAffectedFilesPredictionQuality predicted actualDiff =
     (let p = setOf (case predicted of None \<Rightarrow> [] | Some xs \<Rightarrow> xs); a = setOf actualDiff
      in \<lparr>pq_hasV2Prediction = (predicted \<noteq> None), pq_predicted = length p, pq_actual = length a,
          pq_intersection = length (filter (\<lambda>x. x \<in> set a) p),
          pq_missed = sort (filter (\<lambda>x. x \<notin> set a) p),
          pq_unexpected = sort (filter (\<lambda>x. x \<notin> set p) a)\<rparr>)"

section \<open>Triaging an issue\<close>

definition MAX_ISSUES_PER_TICK :: nat where
  "MAX_ISSUES_PER_TICK = 10"

definition OBSERVER_BODY_MARKER :: string where
  "OBSERVER_BODY_MARKER = ''<!-- urateam-qo-observer:''"

definition OBSERVER_PIPELINE_LABEL :: string where
  "OBSERVER_PIPELINE_LABEL = ''needs-design''"

definition isObserverOriginIssue :: "string option \<Rightarrow> bool" where
  "isObserverOriginIssue d = (case d of None \<Rightarrow> False | Some t \<Rightarrow> strIncludes t OBSERVER_BODY_MARKER)"

datatype triage_call =
    UpdateIssue string int "string list option" "string option" "string option"
  | CreateComment string string

record triage_state =
  ts_asked :: "issue_id list"
  ts_calls :: "triage_call list"
  ts_audits :: "(issue_id \<times> string \<times> string) list"
  ts_rows :: triage_rows

record triage_input =
  ti_labels :: "(string \<times> string) list"
  ti_states :: "(string, string) js_map"
  ti_db :: bool
  ti_v2Disabled :: bool
  ti_callClaude :: "linear_issue \<Rightarrow> string option"
  ti_parse :: "string \<Rightarrow> json option"
  ti_fails :: "triage_call \<Rightarrow> bool"

definition label_map :: "(string \<times> string) list \<Rightarrow> (string, string) js_map" where
  "label_map ls = foldl (\<lambda>m (name, i). mapSet m (toLowerCase name) i) [] ls"

definition label_ids :: "triage_input \<Rightarrow> string list \<Rightarrow> string list" where
  "label_ids inp ls =
     filter (\<lambda>i. i \<noteq> []) (List.map_filter (\<lambda>l. mapGet (label_map (ti_labels inp)) (toLowerCase l)) ls)"

definition backlog_state :: "triage_input \<Rightarrow> linear_issue \<Rightarrow> string option" where
  "backlog_state inp issue =
     (case li_team issue of
        None \<Rightarrow> None
      | Some t \<Rightarrow> if t = [] then None else
          (case mapGet (ti_states inp) (t @ '':Backlog'') of
             None \<Rightarrow> None | Some i \<Rightarrow> if i = [] then None else Some i))"

text \<open>The update and the comment go out together; the issue fails when one of them fails.\<close>

definition send_both ::
  "triage_input \<Rightarrow> triage_call \<Rightarrow> triage_call \<Rightarrow> triage_state \<Rightarrow> bool \<times> triage_state" where
  "send_both inp a b st = (\<not> ti_fails inp a \<and> \<not> ti_fails inp b, st\<lparr>ts_calls := ts_calls st @ [a, b]\<rparr>)"

definition observer_rationale :: string where
  "observer_rationale = ''Observer-origin finding (body marker detected) -- routed to needs-design so the '' @
     ''await-approval stage gates a human before any implement-stage work runs.''"

definition triage_audit ::
  "triage_input \<Rightarrow> issue_id \<Rightarrow> string \<Rightarrow> string \<Rightarrow> triage_state \<Rightarrow> triage_state" where
  "triage_audit inp i label why st =
     (if ti_db inp then st\<lparr>ts_audits := ts_audits st @ [(i, label, why)]\<rparr> else st)"

definition nonempty :: "'a list \<Rightarrow> 'a list option" where
  "nonempty xs = (if xs = [] then None else Some xs)"

definition triage_observer ::
  "triage_input \<Rightarrow> linear_issue \<Rightarrow> triage_state \<Rightarrow> triage_result option \<times> triage_state" where
  "triage_observer inp issue st =
     (let update = UpdateIssue (li_id issue) 3 (nonempty (label_ids inp [OBSERVER_PIPELINE_LABEL]))
                     (backlog_state inp issue) None;
          note1 = CreateComment (li_id issue) (''**PM Agent -- Triaged (Quality Observer finding)**'' @ lf @ lf @
                     ''**Pipeline:** '' @ OBSERVER_PIPELINE_LABEL @ lf @ ''**Rationale:** '' @ observer_rationale);
          (ok, st1) = send_both inp update note1 st
      in if \<not> ok then (None, st1)
         else (Some \<lparr>tg_issueId = li_identifier issue, tg_priority = 3, tg_labels = [OBSERVER_PIPELINE_LABEL],
                 tg_complexity = Some (JStr ''medium''), tg_rationale = observer_rationale,
                 tg_acceptanceCriteria = [], tg_approachSummary = [], tg_openQuestions = [],
                 tg_antiAcceptanceCriteria = [], tg_v2 = no_v2\<rparr>,
               triage_audit inp (li_identifier issue) OBSERVER_PIPELINE_LABEL observer_rationale st1))"

text \<open>The label of the pipeline: never the one the model suggests.\<close>

definition pipeline_label :: "string list \<Rightarrow> string list \<Rightarrow> json option \<Rightarrow> string" where
  "pipeline_label openQuestions labels complexity =
     (if openQuestions \<noteq> [] then OBSERVER_PIPELINE_LABEL
      else if \<exists>l \<in> set labels. toLowerCase l = ''bug'' then ''bug''
      else if complexity = Some (JStr ''trivial'') then ''quick-fix''
      else ''auto-implement'')"

definition classified ::
  "triage_input \<Rightarrow> linear_issue \<Rightarrow> json \<Rightarrow> (triage_result \<times> string) option" where
  "classified inp issue parsed =
     (case (json_get parsed ''priority'', array_of (json_get parsed ''labels'')) of
        (Some (JNum priority), Some rawLabels) \<Rightarrow>
          if \<not> truthy (json_get parsed ''rationale'') then None
          else (case all_strings rawLabels of
              None \<Rightarrow> None
            | Some labels \<Rightarrow>
                (let strings = (\<lambda>k. case array_of (json_get parsed k) of
                       None \<Rightarrow> [] | Some xs \<Rightarrow> clean_strings xs);
                     openQuestions = strings ''openQuestions'';
                     complexity = json_get parsed ''complexity'';
                     label = pipeline_label openQuestions labels complexity;
                     preSupplied = parseHandWrittenACs (li_description issue);
                     acs = (if preSupplied \<noteq> [] then preSupplied
                       else case array_of (json_get parsed ''acceptanceCriteria'') of
                         None \<Rightarrow> [] | Some xs \<Rightarrow> filter (\<lambda>c. c \<noteq> []) (the_strings xs))
                 in Some (\<lparr>tg_issueId = li_identifier issue, tg_priority = priority,
                       tg_labels = setOf (labels @ [label]), tg_complexity = complexity,
                       tg_rationale = value_text (json_get parsed ''rationale''),
                       tg_acceptanceCriteria = acs,
                       tg_approachSummary = (case json_get parsed ''approachSummary'' of
                         Some (JStr t) \<Rightarrow> trim t | _ \<Rightarrow> []),
                       tg_openQuestions = openQuestions,
                       tg_antiAcceptanceCriteria = strings ''antiAcceptanceCriteria'',
                       tg_v2 = (if ti_v2Disabled inp then no_v2 else parseTriageV2Extensions parsed)\<rparr>, label)))
      | _ \<Rightarrow> None)"

definition triage_classified ::
  "triage_input \<Rightarrow> linear_issue \<Rightarrow> triage_result \<Rightarrow> string \<Rightarrow> triage_state \<Rightarrow>
   triage_result option \<times> triage_state" where
  "triage_classified inp issue r label st =
     (let existing = (case li_description issue of None \<Rightarrow> [] | Some d \<Rightarrow> d);
          updated = appendTriageSectionsToDescription existing r;
          update = UpdateIssue (li_id issue) (tg_priority r) (nonempty (label_ids inp (tg_labels r)))
                     (backlog_state inp issue) (if updated = existing then None else Some updated);
          note1 = CreateComment (li_id issue) (renderTriageComment r (tg_openQuestions r \<noteq> []) label);
          (ok, st1) = send_both inp update note1 st
      in if \<not> ok then (None, st1)
         else (Some r, let st2 = triage_audit inp (li_identifier issue) label (tg_rationale r) st1
                       in if ti_db inp
                          then st2\<lparr>ts_rows := upsertTriageResult (li_identifier issue) (tg_v2 r) (ts_rows st2)\<rparr>
                          else st2))"

definition triage_issue ::
  "triage_input \<Rightarrow> linear_issue \<Rightarrow> triage_state \<Rightarrow> triage_result option \<times> triage_state" where
  "triage_issue inp issue st =
     (if isObserverOriginIssue (li_description issue) then triage_observer inp issue st
      else (let st1 = st\<lparr>ts_asked := ts_asked st @ [li_identifier issue]\<rparr> in
        case ti_callClaude inp issue of
          None \<Rightarrow> (None, st1)
        | Some response \<Rightarrow>
            (case parseJsonObject (ti_parse inp) response of
               None \<Rightarrow> (None, st1)
             | Some parsed \<Rightarrow>
                 (case classified inp issue parsed of
                    None \<Rightarrow> (None, st1)
                  | Some (r, label) \<Rightarrow> triage_classified inp issue r label st1))))"

section \<open>A tick's issues\<close>

text \<open>
  \<open>runInBatches\<close>: the batches one after the other, the items of a batch in order. The size is at least one
  by the schema of the configuration. The items of a batch run interleaved in the code; they share no state
  but the logs of their calls, in which those of one item keep their order.
\<close>

fun run_batch :: "('a \<Rightarrow> 's \<Rightarrow> 'b \<times> 's) \<Rightarrow> 'a list \<Rightarrow> 's \<Rightarrow> 'b list \<times> 's" where
  "run_batch f [] st = ([], st)"
| "run_batch f (x # xs) st =
     (let (y, st1) = f x st; (ys, st2) = run_batch f xs st1 in (y # ys, st2))"

function runInBatches :: "nat \<Rightarrow> ('a \<Rightarrow> 's \<Rightarrow> 'b \<times> 's) \<Rightarrow> 'a list \<Rightarrow> 's \<Rightarrow> 'b list \<times> 's" where
  "runInBatches k f items st =
     (if items = [] then ([], st)
      else let n = max 1 k;
               (ys, st1) = run_batch f (take n items) st;
               (zs, st2) = runInBatches k f (drop n items) st1
           in (ys @ zs, st2))"
  by pat_completeness auto

termination
  by (relation "measure (\<lambda>(k, f, items, st). length items)") auto

declare runInBatches.simps [simp del]

definition triageNewIssues ::
  "triage_input \<Rightarrow> nat \<Rightarrow> linear_issue list \<Rightarrow> triage_state \<Rightarrow> triage_result list \<times> triage_state" where
  "triageNewIssues inp batchSize issues st =
     (let (rs, st1) = runInBatches batchSize (triage_issue inp) (take MAX_ISSUES_PER_TICK issues) st
      in (List.map_filter id rs, st1))"

lemmas triage_defs [op_defs] =
  triage_observer_def classified_def triage_classified_def triage_issue_def triageNewIssues_def
  parseTriageV2Extensions_def appendTriageSectionsToDescription_def send_both_def

end
