(* ===== verification/TriageProps.thy ===== *)
theory TriageProps
  imports Triage
begin

text \<open>
  What the triage promises: the shape of what it takes from the model, the description it writes and reads
  back, where an issue is routed, and what one tick does at most.
\<close>

section \<open>The shape of the extensions\<close>

lemma clean_strings_no_blank: "[] \<notin> set (clean_strings xs)"
  by (auto simp: clean_strings_def)

lemma collectStringArray_ok:
  "collectStringArray r f cap = Some xs \<Longrightarrow> [] \<notin> set xs \<and> length xs \<le> cap"
  using clean_strings_no_blank set_take_subset
  by (fastforce simp: collectStringArray_def Let_def split: option.splits if_splits)

lemma v2_files_ok: "v2_files r = Some xs \<Longrightarrow> [] \<notin> set xs \<and> length xs \<le> CAP_FILES"
  using collectStringArray_ok [of r "''affectedFiles''" CAP_FILES]
  by (fastforce simp: v2_files_def Let_def split: option.splits if_splits
      intro: order_trans [OF length_filter_le])

lemma trimmed_string_Some: "trimmed_string v = Some s \<Longrightarrow> s \<noteq> []"
  by (auto simp: trimmed_string_def split: option.splits json.splits if_splits)

lemma v2_examples_ok:
  "v2_examples r = Some xs \<Longrightarrow> list_all (\<lambda>(s, e). s \<noteq> [] \<and> e \<noteq> []) xs \<and> length xs \<le> CAP_EXAMPLES"
proof -
  have ok: "list_all (\<lambda>(s, e). s \<noteq> [] \<and> e \<noteq> []) (List.map_filter v2_example ys)" for ys
  proof (induction ys)
    case (Cons y ys)
    then show ?case
      by (auto simp: List.map_filter_simps v2_example_def trimmed_string_Some split: option.split)
  qed (simp add: List.map_filter_simps)
  show "v2_examples r = Some xs \<Longrightarrow> ?thesis"
    using ok by (auto simp: v2_examples_def Let_def list_all_iff split: option.splits if_splits
        dest: in_set_takeD)
qed

lemma v2_strategy_ok: "v2_strategy r = Some (u, i) \<Longrightarrow> u \<noteq> Some [] \<and> i \<noteq> Some []"
  using trimmed_string_Some by (fastforce simp: v2_strategy_def Let_def split: option.splits json.splits if_splits)

lemma v2_risk_ok: "v2_risk r = Some (s, areas) \<Longrightarrow> [] \<notin> set areas \<and> length areas \<le> CAP_AREAS"
  using clean_strings_no_blank
  by (auto simp: v2_risk_def split: option.splits json.splits dest: in_set_takeD)

lemma normalise_meets_schema: "TriageV2ExtensionsSchema (normalise_v2 r)"
proof -
  have "case collectStringArray r ''assumptions'' CAP_ASSUMPTIONS of None \<Rightarrow> True
      | Some xs \<Rightarrow> [] \<notin> set xs \<and> length xs \<le> CAP_ASSUMPTIONS"
    using collectStringArray_ok by (auto split: option.split)
  moreover have "case v2_files r of None \<Rightarrow> True | Some xs \<Rightarrow> [] \<notin> set xs \<and> length xs \<le> CAP_FILES"
    using v2_files_ok by (auto split: option.split)
  moreover have "case v2_examples r of None \<Rightarrow> True
      | Some xs \<Rightarrow> list_all (\<lambda>(s, e). s \<noteq> [] \<and> e \<noteq> []) xs \<and> length xs \<le> CAP_EXAMPLES"
    using v2_examples_ok by (simp split: option.split)
  moreover have "case v2_strategy r of None \<Rightarrow> True | Some (u, i) \<Rightarrow> u \<noteq> Some [] \<and> i \<noteq> Some []"
    using v2_strategy_ok by (auto split: option.split)
  moreover have "case v2_risk r of None \<Rightarrow> True | Some (s, areas) \<Rightarrow> [] \<notin> set areas \<and> length areas \<le> CAP_AREAS"
    using v2_risk_ok by (auto split: option.split)
  ultimately show ?thesis by (simp add: TriageV2ExtensionsSchema_def normalise_v2_def)
qed

text \<open>
  Whatever the model answers, the extensions read from it meet their schema, with at most 10 assumptions, 3
  examples, 20 files and 5 areas and no blank text; and the check of the schema at the end never drops
  what the tolerant reader kept.
\<close>
theorem extensions_meet_schema:
  "TriageV2ExtensionsSchema (parseTriageV2Extensions raw) \<and>
   parseTriageV2Extensions raw = (case raw of JObj fs \<Rightarrow> normalise_v2 raw | _ \<Rightarrow> no_v2)"
  using normalise_meets_schema [of raw]
  by (cases raw) (simp_all add: parseTriageV2Extensions_def Let_def TriageV2ExtensionsSchema_def no_v2_def)

section \<open>The description\<close>

lemma append_sections_extends: "\<exists>t. append_sections ss out = out @ t"
proof (induction ss out rule: append_sections.induct)
  case (2 marker rendered rest out)
  then show ?case by (auto split: option.splits)
qed simp

lemma strIncludes_append_left: "strIncludes s p \<Longrightarrow> strIncludes (s @ u) p"
  unfolding strIncludes_iff by (metis append_assoc)

lemma append_sections_noop:
  "(\<And>m t. (m, t) \<in> set ss \<Longrightarrow> strIncludes out m \<or> t = None) \<Longrightarrow> append_sections ss out = out"
proof (induction ss)
  case (Cons a ss)
  then show ?case by (cases a) (auto split: option.split)
qed simp

lemma append_sections_includes:
  assumes "\<And>m t. (m, Some t) \<in> set ss \<Longrightarrow> startsWith t m" "(m, Some t) \<in> set ss"
  shows "strIncludes (append_sections ss out) m"
  using assms
proof (induction ss arbitrary: out)
  case (Cons a ss)
  show ?case
  proof (cases "(m, Some t) \<in> set ss")
    case True
    with Cons show ?thesis by (cases a) auto
  next
    case False
    with Cons.prems(2) have a: "a = (m, Some t)" by simp
    with Cons.prems(1) have "startsWith t m" by simp
    then have "strIncludes (out @ lf @ lf @ t) m"
      by (simp add: strIncludes_prefix strIncludes_append_right)
    then have "strIncludes (if strIncludes out m then out else out @ lf @ lf @ t) m" by simp
    moreover obtain u where
      "append_sections ss (if strIncludes out m then out else out @ lf @ lf @ t) =
        (if strIncludes out m then out else out @ lf @ lf @ t) @ u"
      using append_sections_extends by blast
    ultimately have "strIncludes (append_sections ss (if strIncludes out m then out else out @ lf @ lf @ t)) m"
      by (metis strIncludes_append_left)
    then show ?thesis by (simp only: a append_sections.simps option.case)
  qed
qed simp

lemma sections_start_all:
  "list_all (\<lambda>(m, t). case t of None \<Rightarrow> True | Some x \<Rightarrow> startsWith x m) (triage_sections r)"
  by (simp add: triage_sections_def split: option.split prod.split)

lemma sections_start: "(m, Some t) \<in> set (triage_sections r) \<Longrightarrow> startsWith t m"
  using sections_start_all [of r] by (fastforce simp: list_all_iff)

text \<open>
  Writing the sections is safe to repeat: the text that was there is kept in front, and a second triage
  with the same result adds nothing.
\<close>
theorem description_idempotent:
  "let d' = appendTriageSectionsToDescription d r
   in (\<exists>t. d' = d @ t) \<and> appendTriageSectionsToDescription d' r = d'"
proof -
  let ?d' = "append_sections (triage_sections r) d"
  have "append_sections (triage_sections r) ?d' = ?d'"
  proof (rule append_sections_noop)
    fix m t
    assume "(m, t) \<in> set (triage_sections r)"
    then show "strIncludes ?d' m \<or> t = None"
      using append_sections_includes [of "triage_sections r" m _ d] sections_start by (cases t) blast+
  qed
  with append_sections_extends [of "triage_sections r" d] show ?thesis
    unfolding appendTriageSectionsToDescription_def Let_def by blast
qed

section \<open>Reading the criteria back\<close>

lemma after_marker_first:
  assumes "\<not> strIncludes d m" "CHR 0x0A \<notin> set m" "m \<noteq> []"
  shows "after_marker m (d @ CHR 0x0A # rest) = after_marker m rest"
  using assms(1)
proof (induction d)
  case Nil
  from assms(2,3) have "\<not> startsWith (CHR 0x0A # rest) m" by (cases m) auto
  then show ?case by simp
next
  case (Cons c d)
  have "\<not> startsWith ((c # d) @ CHR 0x0A # rest) m"
  proof
    assume "startsWith ((c # d) @ CHR 0x0A # rest) m"
    then obtain t where "(c # d) @ CHR 0x0A # rest = m @ t" by (auto simp: startsWith_iff)
    then consider u where "c # d = m @ u" | u where "m = (c # d) @ u" "CHR 0x0A # rest = u @ t"
      unfolding append_eq_append_conv2 by blast
    then show False
    proof cases
      case 1
      then have "startsWith (c # d) m" by (metis startsWith_append)
      with Cons.prems strIncludes_prefix show False by blast
    next
      case 2
      then show False
      proof (cases u)
        case Nil
        with 2 have "startsWith (c # d) m" using startsWith_append [of m "[]"] by simp
        with Cons.prems strIncludes_prefix show False by blast
      next
        case (Cons x us)
        with 2 assms(2) show False by auto
      qed
    qed
  qed
  with Cons show ?case by simp
qed

lemma after_marker_here:
  assumes "m \<noteq> []"
  shows "after_marker m (m @ t) = Some t"
proof (cases "m @ t")
  case (Cons a l)
  have "startsWith (a # l) m" unfolding Cons [symmetric] by simp
  then have "after_marker m (a # l) = Some (drop (length m) (a # l))" by (simp only: after_marker.simps if_True)
  then show ?thesis unfolding Cons [symmetric] by simp
qed (use assms in simp)

lemma split_lines_append:
  "CHR 0x0A \<notin> set l \<Longrightarrow> split_lines (l @ CHR 0x0A # t) = l # split_lines t"
  by (induction l) auto

lemma split_lines_single: "CHR 0x0A \<notin> set l \<Longrightarrow> split_lines l = [l]"
  by (induction l) auto

lemma trim_append_space:
  assumes "trim c \<noteq> []" "\<not> is_space x"
  shows "trim (x # ys @ c) = x # ys @ rev (dropWhile is_space (rev c))"
proof -
  have "\<exists>z \<in> set c. \<not> is_space z"
  proof (rule ccontr)
    assume "\<not> ?thesis"
    then have "dropWhile is_space c = []" by (simp add: dropWhile_eq_Nil_conv)
    with assms(1) show False by (simp add: trim_def)
  qed
  then obtain z where "z \<in> set (rev c)" "\<not> is_space z" by auto
  then have "dropWhile is_space (rev c @ rev ys @ [x]) = dropWhile is_space (rev c) @ rev ys @ [x]"
    by (rule dropWhile_append1)
  with assms(2) show ?thesis by (simp add: trim_def)
qed

lemma trim_leading: "trim (dropWhile is_space s) = trim s"
  by (simp add: trim_def)

lemma trim_trailing:
  assumes "\<forall>x \<in> set w. is_space x"
  shows "trim (r @ w) = trim r"
proof (cases "\<forall>x \<in> set r. is_space x")
  case True
  with assms have 1: "dropWhile is_space (r @ w) = []" and 2: "dropWhile is_space r = []"
    by (auto simp: dropWhile_eq_Nil_conv)
  show ?thesis unfolding trim_def 1 2 ..
next
  case False
  then obtain z where "z \<in> set r" "\<not> is_space z" by blast
  then have "dropWhile is_space (r @ w) = dropWhile is_space r @ w" by (rule dropWhile_append1)
  moreover have "dropWhile is_space (rev w @ u) = dropWhile is_space u" for u
    by (rule dropWhile_append2) (use assms in simp)
  ultimately show ?thesis by (simp add: trim_def)
qed

lemma trim_rtrim: "trim (rev (dropWhile is_space (rev c))) = trim c"
proof -
  have "rev c = takeWhile is_space (rev c) @ dropWhile is_space (rev c)" by simp
  then have "c = rev (dropWhile is_space (rev c)) @ rev (takeWhile is_space (rev c))"
    by (metis rev_append rev_rev_ident)
  moreover have "\<forall>x \<in> set (rev (takeWhile is_space (rev c))). is_space x"
    using set_takeWhileD by fastforce
  ultimately show ?thesis using trim_trailing by metis
qed

lemma ac_item_rendered:
  assumes "trim c \<noteq> []"
  shows "ac_item (trim (''- [ ] '' @ c)) = Some (trim c)"
proof -
  let ?c = "rev (dropWhile is_space (rev c))"
  have t: "trim (''- [ ] '' @ c) = ''- [ ] '' @ ?c"
    using trim_append_space [OF assms, of "CHR ''-''" "'' [ ] ''"] by (simp add: is_space_def)
  have ne: "dropWhile is_space ?c \<noteq> []"
  proof
    assume "dropWhile is_space ?c = []"
    then have "\<forall>z \<in> set (dropWhile is_space (rev c)). is_space z" by (simp add: dropWhile_eq_Nil_conv)
    then have "dropWhile is_space (rev c) = []"
      by (metis hd_dropWhile hd_in_set)
    then have "\<forall>z \<in> set c. is_space z" by (simp add: dropWhile_eq_Nil_conv)
    then have "dropWhile is_space c = []" by (simp add: dropWhile_eq_Nil_conv)
    with assms show False by (simp add: trim_def)
  qed
  have box: "strip_box (''[ ] '' @ ?c) = Some (dropWhile is_space ?c)"
    using ne by (simp add: strip_box_def behind_box_def is_space_def [of "CHR '' ''"])
  have "trim (dropWhile is_space ?c) = trim c"
    unfolding trim_leading by (rule trim_rtrim)
  with box show ?thesis unfolding t by (simp add: ac_item_def is_space_def [of "CHR '' ''"] is_space_def [of "CHR ''[''"])
qed

lemma ac_items_rendered:
  assumes "\<And>c. c \<in> set cs \<Longrightarrow> trim c \<noteq> []"
  shows "ac_items (map (\<lambda>c. ''- [ ] '' @ c) cs @ ls) = map trim cs @ ac_items ls"
  using assms
proof (induction cs)
  case (Cons c cs)
  then have "trim c \<noteq> []" by simp
  note item = ac_item_rendered [OF this]
  have "trim (''- [ ] '' @ c) \<noteq> []" using item by (auto simp: ac_item_def)
  with Cons item show ?case by simp
qed simp

lemma split_bullets:
  assumes "\<And>c. c \<in> set cs \<Longrightarrow> CHR 0x0A \<notin> set c" "cs \<noteq> []"
  shows "split_lines (bullets ''- [ ] '' cs @ CHR 0x0A # t) = map (\<lambda>c. ''- [ ] '' @ c) cs @ split_lines t"
    "split_lines (bullets ''- [ ] '' cs) = map (\<lambda>c. ''- [ ] '' @ c) cs"
proof -
  have line: "CHR 0x0A \<notin> set (''- [ ] '' @ c)" if "c \<in> set cs" for c using assms(1) [OF that] by simp
  have main: "split_lines (joinWith lf ls @ CHR 0x0A # t) = ls @ split_lines t \<and> split_lines (joinWith lf ls) = ls"
    if "\<And>l. l \<in> set ls \<Longrightarrow> CHR 0x0A \<notin> set l" "ls \<noteq> []" for ls
    using that
  proof (induction ls)
    case (Cons l ls)
    then show ?case
      by (cases ls) (auto simp: lf_def split_lines_append split_lines_single)
  qed simp
  have both: "split_lines (joinWith lf (map (\<lambda>c. ''- [ ] '' @ c) cs) @ CHR 0x0A # t) =
      map (\<lambda>c. ''- [ ] '' @ c) cs @ split_lines t \<and>
    split_lines (joinWith lf (map (\<lambda>c. ''- [ ] '' @ c) cs)) = map (\<lambda>c. ''- [ ] '' @ c) cs"
    by (rule main) (use line assms(2) in auto)
  show "split_lines (bullets ''- [ ] '' cs @ CHR 0x0A # t) = map (\<lambda>c. ''- [ ] '' @ c) cs @ split_lines t"
    unfolding bullets_def using both by blast
  show "split_lines (bullets ''- [ ] '' cs) = map (\<lambda>c. ''- [ ] '' @ c) cs"
    unfolding bullets_def using both by blast
qed

lemma trim_star: "trim (CHR ''*'' # s) = CHR ''*'' # rev (dropWhile is_space (rev s))"
proof -
  have "dropWhile is_space (rev s @ [CHR ''*'']) = dropWhile is_space (rev s) @ [CHR ''*'']"
  proof (cases "\<forall>x \<in> set (rev s). is_space x")
    case True
    then have "dropWhile is_space (rev s @ [CHR ''*'']) = dropWhile is_space [CHR ''*'']"
      by (intro dropWhile_append2) blast
    moreover from True have "dropWhile is_space (rev s) = []" by (simp only: dropWhile_eq_Nil_conv)
    ultimately show ?thesis by (simp add: is_space_def)
  next
    case False
    then obtain z where "z \<in> set (rev s)" "\<not> is_space z" by blast
    then show ?thesis by (rule dropWhile_append1)
  qed
  then show ?thesis by (simp add: trim_def is_space_def [of "CHR ''*''"])
qed

text \<open>What follows the criteria is nothing, or a blank line and the marker of another section.\<close>

lemma append_sections_tail:
  assumes "\<And>m t. (m, Some t) \<in> set ss \<Longrightarrow> startsWith t ''**''"
  shows "\<exists>t. append_sections ss out = out @ t \<and> (t = [] \<or> (\<exists>u. t = lf @ lf @ ''**'' @ u))"
  using assms
proof (induction ss arbitrary: out)
  case (Cons a ss)
  obtain m v where a: "a = (m, v)" by (cases a)
  show ?case
  proof (cases "strIncludes out m \<or> v = None")
    case True
    with Cons.IH [of out] Cons.prems show ?thesis by (auto simp: a split: option.splits)
  next
    case False
    then obtain x where x: "v = Some x" by auto
    with Cons.prems [of m x] obtain y where "x = ''**'' @ y" by (auto simp: a startsWith_iff)
    with append_sections_extends [of ss "out @ lf @ lf @ x"] False show ?thesis by (auto simp: a x)
  qed
qed simp


definition demo_triage_result :: "string list \<Rightarrow> triage_result" where
  "demo_triage_result acs = \<lparr>tg_issueId = ''BEC-1'', tg_priority = 2, tg_labels = [''bug''], tg_complexity = None,
     tg_rationale = ''r'', tg_acceptanceCriteria = acs, tg_approachSummary = [], tg_openQuestions = [],
     tg_antiAcceptanceCriteria = [],
     tg_v2 = no_v2\<lparr>tv_affectedFiles := Some [''a.ts''], tv_riskAssessment := Some (SevLow, [])\<rparr>\<rparr>"


section \<open>Routing\<close>

lemma classified_labels:
  assumes "classified inp issue parsed = Some (r, label)"
  shows "\<exists>labels. tg_labels r = setOf (labels @ [label]) \<and>
    label = pipeline_label (tg_openQuestions r) labels (tg_complexity r)"
proof -
  let ?p = "json_get parsed ''priority''" and ?l = "array_of (json_get parsed ''labels'')"
  obtain n where p: "?p = Some (JNum n)"
    using assms by (cases ?p rule: option.exhaust; (cases "the ?p")?) (simp_all add: classified_def)
  obtain raw where l: "?l = Some raw"
    using assms by (cases ?l) (simp_all add: classified_def p)
  have t: "truthy (json_get parsed ''rationale'')"
    using assms by (cases "truthy (json_get parsed ''rationale'')") (simp_all add: classified_def p l)
  obtain labels where labels: "all_strings raw = Some labels"
    using assms by (cases "all_strings raw") (simp_all add: classified_def p l t)
  from assms have "tg_labels r = setOf (labels @ [label]) \<and>
      label = pipeline_label (tg_openQuestions r) labels (tg_complexity r)"
    unfolding classified_def p l labels prod.case option.case json.case if_not_P [of "\<not> _", OF iffD2 [OF not_not t]] Let_def
    by (elim option.inject [THEN iffD1, elim_format] conjE,
        clarsimp simp only: option.inject prod.inject triage_result.simps, intro conjI refl)
  then show ?thesis by blast
qed

lemma default_keys:
  "object_get defaultConfigs ''quick-fix'' \<noteq> None" "object_get defaultConfigs ''bug'' \<noteq> None"
  "object_get defaultConfigs ''auto-implement'' \<noteq> None" "object_get defaultConfigs ''needs-design'' \<noteq> None"
  by (simp_all add: object_get_def defaultConfigs_def)

lemma resolve_priority:
  assumes "find (\<lambda>k. k \<in> toLowerCase ` set ls \<and> object_get cfgs k \<noteq> None) LABEL_PRIORITY = Some k"
  shows "map_option fst (resolvePipeline ls cfgs) = Some k"
proof -
  from assms have "object_get cfgs k \<noteq> None" by (auto simp: find_Some_iff)
  with assms show ?thesis by (auto simp: resolvePipeline_def Let_def)
qed

lemma find_default:
  assumes "''needs-design'' \<in> S"
  shows "find (\<lambda>k. k \<in> S \<and> object_get defaultConfigs k \<noteq> None) LABEL_PRIORITY =
    Some (if ''quick-fix'' \<in> S then ''quick-fix'' else if ''bug'' \<in> S then ''bug''
          else if ''auto-implement'' \<in> S then ''auto-implement'' else ''needs-design'')"
  using assms by (simp add: LABEL_PRIORITY_def default_keys)

text \<open>
  Open questions do not force an issue to the pipeline with the approval. Triage adds the label needs-design
  to the labels the model chose, but the router prefers quick-fix, bug and auto-implement: an issue that the
  model calls a bug and has questions about runs the bug pipeline, without an approval; and a label quick-fix
  from the model routes the issue there, although the model's choice of a pipeline is meant to be ignored.
\<close>
theorem open_questions_outranked:
  assumes "classified inp issue parsed = Some (r, label)" "tg_openQuestions r \<noteq> []"
  shows "label = ''needs-design'' \<and>
    map_option fst (resolvePipeline (tg_labels r) defaultConfigs) =
      (let has = (\<lambda>k. \<exists>l \<in> set (tg_labels r). toLowerCase l = k) in
       Some (if has ''quick-fix'' then ''quick-fix'' else if has ''bug'' then ''bug''
             else if has ''auto-implement'' then ''auto-implement'' else ''needs-design'')) \<and>
    map_option (\<lambda>c. AwaitApproval \<in> set (pc_stages c)) (mapGet defaultConfigs ''bug'') = Some False"
proof -
  from classified_labels [OF assms(1)] obtain labels where
    l: "tg_labels r = setOf (labels @ [label])" "label = pipeline_label (tg_openQuestions r) labels (tg_complexity r)"
    by blast
  with assms(2) have label: "label = ''needs-design''" by (simp add: pipeline_label_def OBSERVER_PIPELINE_LABEL_def)
  have "label \<in> set (tg_labels r)" using l(1) by simp
  then have "toLowerCase label \<in> toLowerCase ` set (tg_labels r)" by (rule imageI)
  moreover have "toLowerCase label = ''needs-design''" unfolding label by code_simp
  ultimately have nd: "''needs-design'' \<in> toLowerCase ` set (tg_labels r)" by simp
  have img: "k \<in> toLowerCase ` set (tg_labels r) \<longleftrightarrow> (\<exists>l \<in> set (tg_labels r). toLowerCase l = k)" for k
    by auto
  have "map_option (\<lambda>c. AwaitApproval \<in> set (pc_stages c)) (mapGet defaultConfigs ''bug'') = Some False"
    by (simp add: defaultConfigs_def)
  moreover have "map_option fst (resolvePipeline (tg_labels r) defaultConfigs) =
      (let has = (\<lambda>k. \<exists>l \<in> set (tg_labels r). toLowerCase l = k) in
       Some (if has ''quick-fix'' then ''quick-fix'' else if has ''bug'' then ''bug''
             else if has ''auto-implement'' then ''auto-implement'' else ''needs-design''))"
    unfolding Let_def img [symmetric] by (rule resolve_priority [OF find_default [OF nd]])
  ultimately show ?thesis using label by blast
qed

definition demo_triage_issue :: linear_issue where
  "demo_triage_issue = \<lparr>li_id = ''id1'', li_identifier = ''BEC-1'', li_title = ''Login'', li_description = None,
     li_priority = None, li_team = Some ''t'', li_project = None, li_labels = [], li_state = Some ''Triage'',
     li_updatedAt = 0, li_comments = []\<rparr>"

definition demo_answer :: json where
  "demo_answer = JObj [(''priority'', JNum 2), (''labels'', JArr [JStr ''bug'']), (''complexity'', JStr ''small''),
     (''rationale'', JStr ''crash''), (''openQuestions'', JArr [JStr ''Which browser?''])]"

definition demo_triage_input :: triage_input where
  "demo_triage_input = \<lparr>ti_labels = [(''bug'', ''l1''), (''needs-design'', ''l2'')],
     ti_states = [(''t:Backlog'', ''s1'')], ti_db = True, ti_v2Disabled = False,
     ti_callClaude = (\<lambda>i. Some ''{}''), ti_parse = (\<lambda>t. Some demo_answer), ti_fails = (\<lambda>c. False)\<rparr>"

lemma demo_classified:
  "(case classified demo_triage_input demo_triage_issue demo_answer of
      None \<Rightarrow> False
    | Some (r, l) \<Rightarrow> tg_openQuestions r \<noteq> [] \<and> tg_labels r = [''bug'', ''needs-design''])"
  by code_simp

theorem open_questions_outranked_witness:
  "\<exists>r. classified demo_triage_input demo_triage_issue demo_answer = Some (r, ''needs-design'') \<and>
     map_option fst (resolvePipeline (tg_labels r) defaultConfigs) = Some ''bug''"
proof -
  from demo_classified obtain r l where
    c: "classified demo_triage_input demo_triage_issue demo_answer = Some (r, l)" "tg_openQuestions r \<noteq> []"
      "tg_labels r = [''bug'', ''needs-design'']"
    by (auto split: option.splits)
  have low: "toLowerCase ''bug'' = ''bug''" "toLowerCase ''needs-design'' = ''needs-design''" by code_simp+
  from open_questions_outranked [OF c(1,2)] c show ?thesis by (simp add: low Let_def)
qed

section \<open>Issues of the observer\<close>

lemma triage_observer_effect:
  "\<exists>body. ts_calls (snd (triage_observer inp issue st)) = ts_calls st @
      [UpdateIssue (li_id issue) 3 (nonempty (label_ids inp [''needs-design''])) (backlog_state inp issue) None,
       CreateComment (li_id issue) body] \<and>
    ts_asked (snd (triage_observer inp issue st)) = ts_asked st"
  by (auto simp: triage_observer_def send_both_def triage_audit_def Let_def OBSERVER_PIPELINE_LABEL_def)

section \<open>A tick\<close>

fun call_target :: "triage_call \<Rightarrow> string" where
  "call_target (UpdateIssue i _ _ _ _) = i"
| "call_target (CreateComment i _) = i"

lemma run_batch_append:
  "run_batch f (xs @ ys) st =
     (let (as, st1) = run_batch f xs st; (bs, st2) = run_batch f ys st1 in (as @ bs, st2))"
  by (induction xs arbitrary: st) (auto simp: Let_def split: prod.splits)

lemma runInBatches_eq: "runInBatches k f items st = run_batch f items st"
proof (induction k f items st rule: runInBatches.induct)
  case (1 k f items st)
  show ?case
  proof (cases "items = []")
    case False
    let ?n = "max 1 k"
    obtain ys st1 where ys: "run_batch f (take ?n items) st = (ys, st1)" by fastforce
    have "runInBatches k f (drop ?n items) st1 = run_batch f (drop ?n items) st1"
      by (rule 1 [OF False refl ys [symmetric] refl])
    with False ys show ?thesis
      using run_batch_append [of f "take ?n items" "drop ?n items" st]
      by (simp add: runInBatches.simps [of k f items st] Let_def)
  qed (simp add: runInBatches.simps)
qed

lemma triage_issue_effect:
  "\<exists>new asked. ts_calls (snd (triage_issue inp issue st)) = ts_calls st @ new \<and> length new \<le> 2 \<and>
     (\<forall>c \<in> set new. call_target c = li_id issue) \<and>
     ts_asked (snd (triage_issue inp issue st)) = ts_asked st @ asked \<and> length asked \<le> 1"
proof (cases "isObserverOriginIssue (li_description issue)")
  case True
  then have same: "triage_issue inp issue st = triage_observer inp issue st" by (simp add: triage_issue_def)
  from triage_observer_effect [of inp issue st] obtain body where
    "ts_calls (snd (triage_issue inp issue st)) = ts_calls st @
       [UpdateIssue (li_id issue) 3 (nonempty (label_ids inp [''needs-design''])) (backlog_state inp issue) None,
        CreateComment (li_id issue) body]"
    "ts_asked (snd (triage_issue inp issue st)) = ts_asked st @ []"
    unfolding same by auto
  then show ?thesis by fastforce
next
  case False
  have both: "\<exists>a b. ts_calls (snd (triage_classified inp issue r label st1)) = ts_calls st1 @ [a, b] \<and>
      call_target a = li_id issue \<and> call_target b = li_id issue \<and>
      ts_asked (snd (triage_classified inp issue r label st1)) = ts_asked st1" for r label st1
    by (auto simp: triage_classified_def send_both_def triage_audit_def Let_def)
  let ?st = "st\<lparr>ts_asked := ts_asked st @ [li_identifier issue]\<rparr>"
  consider "snd (triage_issue inp issue st) = ?st"
    | r label where "snd (triage_issue inp issue st) = snd (triage_classified inp issue r label ?st)"
  proof (cases "ti_callClaude inp issue")
    case (Some response)
    show ?thesis
    proof (cases "parseJsonObject (ti_parse inp) response")
      case parsed: (Some v)
      show ?thesis
        by (cases "classified inp issue v")
          (use that False Some parsed in \<open>auto simp: triage_issue_def Let_def\<close>)
    qed (use that(1) False Some in \<open>simp add: triage_issue_def Let_def\<close>)
  qed (use that(1) False in \<open>simp add: triage_issue_def Let_def\<close>)
  then show ?thesis
  proof cases
    case 2
    with both [of r label ?st] show ?thesis by fastforce
  qed auto
qed

lemma run_batch_effect:
  "\<exists>new asked. ts_calls (snd (run_batch (triage_issue inp) issues st)) = ts_calls st @ new \<and>
     length new \<le> 2 * length issues \<and> call_target ` set new \<subseteq> li_id ` set issues \<and>
     ts_asked (snd (run_batch (triage_issue inp) issues st)) = ts_asked st @ asked \<and>
     length asked \<le> length issues"
proof (induction issues arbitrary: st)
  case (Cons i issues)
  obtain r st1 where s: "triage_issue inp i st = (r, st1)" by fastforce
  from triage_issue_effect [of inp i st] obtain n1 a1 where
    one: "ts_calls st1 = ts_calls st @ n1" "length n1 \<le> 2" "\<forall>c \<in> set n1. call_target c = li_id i"
      "ts_asked st1 = ts_asked st @ a1" "length a1 \<le> 1" by (auto simp: s)
  from Cons.IH [of st1] obtain n2 a2 where
    rest: "ts_calls (snd (run_batch (triage_issue inp) issues st1)) = ts_calls st1 @ n2"
      "length n2 \<le> 2 * length issues" "call_target ` set n2 \<subseteq> li_id ` set issues"
      "ts_asked (snd (run_batch (triage_issue inp) issues st1)) = ts_asked st1 @ a2" "length a2 \<le> length issues"
    by blast
  have "snd (run_batch (triage_issue inp) (i # issues) st) = snd (run_batch (triage_issue inp) issues st1)"
    by (simp add: s split: prod.split)
  with one rest show ?case
    by (intro exI [of _ "n1 @ n2"] exI [of _ "a1 @ a2"]) auto
qed simp

text \<open>
  A tick triages at most ten issues, whatever Linear returns: it asks the model at most ten times, sends at
  most one update and one comment for each of these issues and none for another, and the size of the
  batches changes nothing but the pace.
\<close>
theorem triage_tick_bounded:
  "let st' = snd (triageNewIssues inp k issues st)
   in (\<exists>new asked. ts_calls st' = ts_calls st @ new \<and> length new \<le> 20 \<and>
         call_target ` set new \<subseteq> li_id ` set (take 10 issues) \<and>
         ts_asked st' = ts_asked st @ asked \<and> length asked \<le> 10) \<and>
      triageNewIssues inp k issues st = triageNewIssues inp 1 issues st"
proof -
  have eq: "triageNewIssues inp n issues st =
      (let (rs, st1) = run_batch (triage_issue inp) (take 10 issues) st in (List.map_filter id rs, st1))" for n
    by (simp add: triageNewIssues_def runInBatches_eq MAX_ISSUES_PER_TICK_def)
  then have snd: "snd (triageNewIssues inp k issues st) = snd (run_batch (triage_issue inp) (take 10 issues) st)"
    by (simp add: Let_def split: prod.split)
  from run_batch_effect [of inp "take 10 issues" st] obtain new asked where
    "ts_calls (snd (run_batch (triage_issue inp) (take 10 issues) st)) = ts_calls st @ new"
    "length new \<le> 2 * length (take 10 issues)" "call_target ` set new \<subseteq> li_id ` set (take 10 issues)"
    "ts_asked (snd (run_batch (triage_issue inp) (take 10 issues) st)) = ts_asked st @ asked"
    "length asked \<le> length (take 10 issues)" by blast
  moreover from this have "length new \<le> 20" "length asked \<le> 10" by simp_all
  ultimately show ?thesis unfolding Let_def snd using eq [of k] eq [of 1] by auto
qed

section \<open>The quality of a prediction\<close>

text \<open>Every predicted file is counted once: it was touched or it was missed.\<close>

lemma prediction_counts:
  "let q = computeAffectedFilesPredictionQuality predicted actual
   in pq_predicted q = pq_intersection q + length (pq_missed q)"
  unfolding computeAffectedFilesPredictionQuality_def Let_def
  by (simp only: prediction_quality.simps length_sort sum_length_filter_compl)

end
