(* ===== verification/Git.thy ===== *)
theory Git
  imports AgentChecks RunControl Gates "HOL-Library.Extended_Nat"
begin

text \<open>
  Git in the clones and worktrees of the runs (\<open>packages/core/src/repo/git.ts\<close>) and the sweep of stale
  branches (\<open>repo/agent-branch-sweep.ts\<close>). Commands, the file system and \<open>gh\<close> are the parameter \<open>x\<close>: it takes a
  command and the state of the world to an answer, which is the text of an error or the output, and the next
  state. Every command is logged. Paths are normal, so that joining them puts slashes between the parts.
\<close>

section \<open>Commands\<close>

datatype git_cmd = GitCmd string "string list" | GhCmd string "string list" | RemoveDir string | WriteHook string

type_synonym 's shell = "git_cmd \<Rightarrow> 's \<Rightarrow> (string + string) \<times> 's"

record 's repo =
  rp_world :: 's
  rp_cmds :: "git_cmd list"

type_synonym ('s, 'a) git = "'s repo \<Rightarrow> (string + 'a) \<times> 's repo"

definition ok :: "'a \<Rightarrow> ('s, 'a) git" where
  "ok v = (\<lambda>w. (Inr v, w))"

definition throw :: "string \<Rightarrow> ('s, 'a) git" where
  "throw e = (\<lambda>w. (Inl e, w))"

definition andThen :: "('s, 'a) git \<Rightarrow> ('a \<Rightarrow> ('s, 'b) git) \<Rightarrow> ('s, 'b) git" where
  "andThen m f = (\<lambda>w. case m w of (Inl e, w1) \<Rightarrow> (Inl e, w1) | (Inr v, w1) \<Rightarrow> f v w1)"

text \<open>\<open>try\<close> and \<open>catch\<close>: only the failure of the first part is caught.\<close>

definition catching :: "('s, 'a) git \<Rightarrow> (string \<Rightarrow> ('s, 'b) git) \<Rightarrow> ('a \<Rightarrow> ('s, 'b) git) \<Rightarrow> ('s, 'b) git" where
  "catching m h f = (\<lambda>w. case m w of (Inl e, w1) \<Rightarrow> h e w1 | (Inr v, w1) \<Rightarrow> f v w1)"

definition call :: "'s shell \<Rightarrow> git_cmd \<Rightarrow> ('s, string) git" where
  "call x c = (\<lambda>w. let (r, s) = x c (rp_world w) in (r, w\<lparr>rp_world := s, rp_cmds := rp_cmds w @ [c]\<rparr>))"

definition gitExec :: "'s shell \<Rightarrow> string list \<Rightarrow> string \<Rightarrow> ('s, string) git" where
  "gitExec x args cwd =
     catching (call x (GitCmd cwd args)) (\<lambda>e. throw (''git '' @ hd args @ '' failed: '' @ e)) (\<lambda>out. ok (trim out))"

definition gitExecSafe :: "'s shell \<Rightarrow> string list \<Rightarrow> string \<Rightarrow> ('s, string) git" where
  "gitExecSafe x args cwd = catching (gitExec x args cwd) (\<lambda>e. ok []) ok"

definition trimEnd :: "string \<Rightarrow> string" where
  "trimEnd s = rev (dropWhile is_space (rev s))"

definition gitExecRaw :: "'s shell \<Rightarrow> string list \<Rightarrow> string \<Rightarrow> ('s, string) git" where
  "gitExecRaw x args cwd = catching (call x (GitCmd cwd args)) (\<lambda>e. ok []) (\<lambda>out. ok (trimEnd out))"

section \<open>Clones and worktrees\<close>

definition normalizeGitUrl :: "string \<Rightarrow> string" where
  "normalizeGitUrl url =
     (let s = rev (dropWhile (\<lambda>c. c = CHR ''/'') (rev url))
      in if endsWith s ''.git'' then take (length s - 4) s else s)"

definition fetchLatest :: "'s shell \<Rightarrow> string \<Rightarrow> ('s, unit) git" where
  "fetchLatest x repoDir = andThen (gitExec x [''fetch'', ''origin''] repoDir) (\<lambda>_. ok ())"

definition cloneRepo :: "'s shell \<Rightarrow> (string \<Rightarrow> bool) \<Rightarrow> string \<Rightarrow> string \<Rightarrow> ('s, unit) git" where
  "cloneRepo x exists url dir =
     (let clone = catching (call x (GitCmd [] [''clone'', url, dir])) (\<lambda>e. throw (''git clone failed: '' @ e))
                    (\<lambda>_. ok ())
      in if exists dir
         then catching (gitExec x [''remote'', ''get-url'', ''origin''] dir) (\<lambda>_. clone)
                (\<lambda>remote. if normalizeGitUrl remote = normalizeGitUrl url
                   then catching (fetchLatest x dir) (\<lambda>_. clone) ok else clone)
         else clone)"

text \<open>The path of the stale worktree in the error of \<open>git worktree add\<close>.\<close>

fun stale_path :: "string \<Rightarrow> string option" where
  "stale_path [] = None"
| "stale_path (c # cs) =
     (let quoted = (\<lambda>pre. if startsWith (c # cs) pre
                  then (let r = drop (length pre) (c # cs); p = takeWhile (\<lambda>d. d \<noteq> CHR 0x27) r
                        in if p \<noteq> [] \<and> length p < length r then Some p else None)
                  else None)
      in case quoted (''already checked out at '' @ [CHR 0x27]) of
           Some p \<Rightarrow> Some p
         | None \<Rightarrow> (case quoted (''already used by worktree at '' @ [CHR 0x27]) of
             Some p \<Rightarrow> Some p | None \<Rightarrow> stale_path cs))"

definition worktree_prune :: "'s shell \<Rightarrow> string \<Rightarrow> ('s, string) git" where
  "worktree_prune x repoDir = gitExec x [''worktree'', ''prune''] repoDir"

definition worktreeAddWithRetry :: "'s shell \<Rightarrow> string \<Rightarrow> string list \<Rightarrow> ('s, unit) git" where
  "worktreeAddWithRetry x repoDir args =
     (let add = gitExec x (''worktree'' # ''add'' # args) repoDir;
          retry = andThen (worktree_prune x repoDir) (\<lambda>_. andThen add (\<lambda>_. ok ()))
      in andThen (worktree_prune x repoDir) (\<lambda>_.
           catching add
             (\<lambda>msg.
               if \<not> strIncludes msg ''already checked out'' \<and> \<not> strIncludes msg ''already used by worktree''
               then throw msg
               else (case stale_path msg of
                   Some p \<Rightarrow>
                     catching (gitExec x [''worktree'', ''remove'', p, ''--force''] repoDir)
                       (\<lambda>_. andThen (call x (RemoveDir p)) (\<lambda>_. retry)) (\<lambda>_. retry)
                 | None \<Rightarrow> retry))
             (\<lambda>_. ok ())))"

text \<open>
  The hook in front of a push. \<open>isDir\<close>: \<open>.git\<close> is a directory; \<open>existing\<close>: the text of a hook that is there.
  The hook itself refuses a push when one of the references is not the branch of HEAD, if HEAD has one.
\<close>

definition hook_wanted :: "bool \<Rightarrow> string option \<Rightarrow> bool" where
  "hook_wanted isDir existing \<longleftrightarrow> isDir \<and>
     (case existing of None \<Rightarrow> True
      | Some t \<Rightarrow> t = [] \<or> strIncludes t ''# Installed by Linear Agent Framework'')"

definition installPrePushHook ::
  "'s shell \<Rightarrow> (string \<Rightarrow> bool) \<Rightarrow> (string \<Rightarrow> string option) \<Rightarrow> string \<Rightarrow> ('s, unit) git" where
  "installPrePushHook x isDir existing repoDir =
     (let path = repoDir @ ''/.git/hooks/pre-push''
      in if hook_wanted (isDir (repoDir @ ''/.git'')) (existing path)
         then andThen (call x (WriteHook path)) (\<lambda>_. ok ()) else ok ())"

definition pushed_branch :: "string \<Rightarrow> string" where
  "pushed_branch ref = (if startsWith ref ''refs/heads/'' then drop 11 ref else ref)"

definition hook_allows :: "string \<Rightarrow> string list \<Rightarrow> bool" where
  "hook_allows current refs \<longleftrightarrow> list_all (\<lambda>r. current = [] \<or> current = pushed_branch r) refs"

definition worktree_path :: "string \<Rightarrow> run_id \<Rightarrow> string" where
  "worktree_path baseDir runId = joinWith ''/'' [baseDir, runId, ''worktree'']"

definition createWorktree ::
  "'s shell \<Rightarrow> (string \<Rightarrow> bool) \<Rightarrow> (string \<Rightarrow> string option) \<Rightarrow> string \<Rightarrow> run_id \<Rightarrow> string \<Rightarrow> string \<Rightarrow>
   ('s, string) git" where
  "createWorktree x isDir hook repoDir runId branch baseDir =
     (let path = worktree_path baseDir runId
      in andThen (worktreeAddWithRetry x repoDir [''-B'', branch, path]) (\<lambda>_.
           andThen (installPrePushHook x isDir hook repoDir) (\<lambda>_. ok path)))"

definition createWorktreeFromRemote ::
  "'s shell \<Rightarrow> (string \<Rightarrow> bool) \<Rightarrow> (string \<Rightarrow> string option) \<Rightarrow> string \<Rightarrow> run_id \<Rightarrow> string \<Rightarrow> string \<Rightarrow>
   ('s, string) git" where
  "createWorktreeFromRemote x isDir hook repoDir runId branch baseDir =
     (let path = worktree_path baseDir runId
      in andThen (gitExec x [''fetch'', ''origin''] repoDir) (\<lambda>_.
           andThen (worktreeAddWithRetry x repoDir [''-B'', branch, path, ''origin/'' @ branch]) (\<lambda>_.
             andThen (installPrePushHook x isDir hook repoDir) (\<lambda>_. ok path))))"

definition deleteWorktree :: "'s shell \<Rightarrow> string \<Rightarrow> ('s, unit) git" where
  "deleteWorktree x path =
     catching (call x (GitCmd [] [''worktree'', ''remove'', path, ''--force'']))
       (\<lambda>e. throw (''git worktree remove failed: '' @ e)) (\<lambda>_. ok ())"

section \<open>Pushing\<close>

definition getCurrentBranch :: "'s shell \<Rightarrow> string \<Rightarrow> ('s, string) git" where
  "getCurrentBranch x path = gitExecSafe x [''rev-parse'', ''--abbrev-ref'', ''HEAD''] path"

definition mismatch_text :: "string \<Rightarrow> string \<Rightarrow> string" where
  "mismatch_text expected current =
     ''Branch mismatch detected in worktree -- expected '' @ [CHR 0x22] @ expected @ [CHR 0x22] @
     '' but HEAD is on '' @ [CHR 0x22] @ current @ [CHR 0x22] @
     ''. Aborting to prevent cross-branch contamination.''"

definition verifyBranchMatch :: "'s shell \<Rightarrow> string \<Rightarrow> string \<Rightarrow> ('s, unit) git" where
  "verifyBranchMatch x path expected =
     andThen (getCurrentBranch x path) (\<lambda>current.
       if current \<noteq> [] \<and> current \<noteq> expected then throw (mismatch_text expected current) else ok ())"

definition pushBranch :: "'s shell \<Rightarrow> string \<Rightarrow> string \<Rightarrow> ('s, unit) git" where
  "pushBranch x path branch =
     andThen (verifyBranchMatch x path branch) (\<lambda>_.
       andThen (gitExec x [''push'', ''origin'', branch] path) (\<lambda>_. ok ()))"

definition pushBranchForce :: "'s shell \<Rightarrow> string \<Rightarrow> string \<Rightarrow> ('s, unit) git" where
  "pushBranchForce x path branch =
     (let push = gitExec x [''push'', ''origin'', branch, ''--force-with-lease''] path
      in andThen (verifyBranchMatch x path branch) (\<lambda>_.
           catching push
             (\<lambda>msg. if \<not> strIncludes msg ''stale info'' then throw msg
                else andThen (gitExec x [''fetch'', ''--prune'', ''origin''] path) (\<lambda>_.
                       andThen push (\<lambda>_. ok ())))
             (\<lambda>_. ok ())))"

section \<open>Rebasing\<close>

definition GIT_CONFLICT_STATUS_CODES :: "string list" where
  "GIT_CONFLICT_STATUS_CODES = [''UU'', ''AA'', ''DD'']"

record rebase_result =
  rb_success :: bool
  rb_hasConflicts :: bool

definition rebaseBranch :: "'s shell \<Rightarrow> string \<Rightarrow> string \<Rightarrow> ('s, rebase_result) git" where
  "rebaseBranch x path baseBranch =
     (let failed = (\<lambda>c. ok \<lparr>rb_success = False, rb_hasConflicts = c\<rparr>)
      in catching (gitExec x [''fetch'', ''origin''] path) (\<lambda>_. failed False) (\<lambda>_.
           catching (gitExec x [''rebase'', ''origin/'' @ baseBranch] path)
             (\<lambda>_. catching (gitExec x [''status'', ''--porcelain''] path) (\<lambda>_. failed False)
                (\<lambda>status. failed (list_ex (strIncludes status) GIT_CONFLICT_STATUS_CODES)))
             (\<lambda>_. ok \<lparr>rb_success = True, rb_hasConflicts = False\<rparr>)))"

definition abortRebase :: "'s shell \<Rightarrow> string \<Rightarrow> ('s, unit) git" where
  "abortRebase x path = andThen (gitExecSafe x [''rebase'', ''--abort''] path) (\<lambda>_. ok ())"

section \<open>Committing what an agent left\<close>

definition bec_doc :: "string \<Rightarrow> string \<Rightarrow> bool" where
  "bec_doc suffix p \<longleftrightarrow> startsWith p ''BEC-'' \<and>
     (let r = drop 4 p; rest = dropWhile is_digit r; body = drop 1 rest
      in takeWhile is_digit r \<noteq> [] \<and> startsWith rest ''-'' \<and> endsWith body suffix \<and>
         list_all dot (take (length body - length suffix) body))"

definition verify_script :: "string \<Rightarrow> bool" where
  "verify_script p \<longleftrightarrow> startsWith p ''verify-'' \<and>
     list_ex (\<lambda>ext. let body = drop 7 p in endsWith body ext \<and>
         list_all dot (take (length body - length ext) body)) [''.mjs'', ''.ts'', ''.js'', ''.cjs'']"

definition isScratchpadPath :: "string \<Rightarrow> bool" where
  "isScratchpadPath p \<longleftrightarrow> (p = ''.claude'' \<or> startsWith p ''.claude/'') \<or> bec_doc ''.md'' p \<or>
     verify_script p \<or> bec_doc ''-VERIFICATION.md'' p"

definition parseGitLines :: "string \<Rightarrow> string list" where
  "parseGitLines out = filter (\<lambda>l. l \<noteq> []) (map trim (split_lines out))"

text \<open>A text up to a separator and behind it.\<close>

fun cut_at :: "string \<Rightarrow> string \<Rightarrow> (string \<times> string) option" where
  "cut_at sep [] = (if sep = [] then Some ([], []) else None)"
| "cut_at sep (c # cs) =
     (if startsWith (c # cs) sep then Some ([], drop (length sep) (c # cs))
      else map_option (\<lambda>(a, b). (c # a, b)) (cut_at sep cs))"

definition status_path :: "string \<Rightarrow> string" where
  "status_path line =
     (let rest = drop 3 line in
      case cut_at '' -> '' rest of
        None \<Rightarrow> trim rest
      | Some (_, b) \<Rightarrow> trim (case cut_at '' -> '' b of None \<Rightarrow> b | Some (t, _) \<Rightarrow> t))"

definition parseStatusPaths :: "string \<Rightarrow> string list" where
  "parseStatusPaths status = map status_path (filter (\<lambda>l. trim l \<noteq> []) (split_lines status))"

definition findTrackedPaths :: "'s shell \<Rightarrow> string \<Rightarrow> string list \<Rightarrow> ('s, string list) git" where
  "findTrackedPaths x path paths =
     (if paths = [] then ok []
      else andThen (gitExecSafe x (''ls-files'' # ''--'' # paths) path) (\<lambda>out. ok (parseGitLines out)))"

text \<open>The commands that stage and commit, with the paths to take out of the index.\<close>

definition stage_and_commit :: "'s shell \<Rightarrow> string \<Rightarrow> issue_id \<Rightarrow> string list \<Rightarrow> ('s, bool) git" where
  "stage_and_commit x path issueId unstage =
     andThen (gitExecSafe x [''add'', ''-A''] path) (\<lambda>_.
       andThen (if unstage = [] then ok []
                else gitExecSafe x ([''rm'', ''-r'', ''--cached'', ''--ignore-unmatch'', ''--''] @ unstage) path) (\<lambda>_.
         catching (gitExec x [''commit'', ''-m'', ''feat('' @ issueId @ ''): agent implementation (auto-committed)''] path)
           (\<lambda>_. ok False) (\<lambda>_. ok True)))"

definition autoCommitChanges :: "'s shell \<Rightarrow> string \<Rightarrow> issue_id \<Rightarrow> string option \<Rightarrow> ('s, bool) git" where
  "autoCommitChanges x path issueId expectedBranch =
     andThen (case expectedBranch of None \<Rightarrow> ok () | Some b \<Rightarrow> if b = [] then ok () else verifyBranchMatch x path b) (\<lambda>_.
       andThen (gitExecSafe x [''status'', ''--porcelain''] path) (\<lambda>status.
         if trim status = [] then ok False
         else (let allPaths = parseStatusPaths status;
                   realPaths = filter (\<lambda>p. \<not> isScratchpadPath p) allPaths;
                   filteredPaths = filter isScratchpadPath allPaths
               in andThen (findTrackedPaths x path filteredPaths) (\<lambda>tracked.
                    if realPaths = [] \<and> tracked = [] then ok False
                    else stage_and_commit x path issueId (filter (\<lambda>p. p \<notin> set tracked) filteredPaths)))))"

section \<open>Reading a branch\<close>

definition getAgentCommits :: "'s shell \<Rightarrow> string \<Rightarrow> string \<Rightarrow> ('s, string list) git" where
  "getAgentCommits x path baseBranch =
     (let subjects = (\<lambda>base. gitExec x [''log'', ''--format=%s'', ''--reverse'', base @ ''..HEAD''] path)
      in catching (subjects (''origin/'' @ baseBranch))
           (\<lambda>_. catching (subjects baseBranch) (\<lambda>_. ok []) (\<lambda>out. ok (parseGitLines out)))
           (\<lambda>out. ok (parseGitLines out)))"

definition getChangedFiles :: "'s shell \<Rightarrow> string \<Rightarrow> string \<Rightarrow> ('s, string list) git" where
  "getChangedFiles x path baseBranch =
     catching (gitExec x [''diff'', ''--name-only'', ''origin/'' @ baseBranch @ ''...HEAD''] path)
       (\<lambda>_. ok []) (\<lambda>out. ok (parseGitLines out))"

text \<open>The first run of digits in front of a word.\<close>

fun count_before :: "string \<Rightarrow> string \<Rightarrow> string option" where
  "count_before word [] = None"
| "count_before word (c # cs) =
     (let ds = takeWhile is_digit (c # cs)
      in if ds \<noteq> [] \<and> startsWith (dropWhile is_digit (c # cs)) word then Some ds else count_before word cs)"

definition diff_lines :: "string \<Rightarrow> nat" where
  "diff_lines stat =
     (let count = (\<lambda>word. parse_nat (case count_before word stat of None \<Rightarrow> ''0'' | Some ds \<Rightarrow> ds))
      in count '' insertion'' + count '' deletion'')"

definition getDiffLineCount :: "'s shell \<Rightarrow> string \<Rightarrow> string \<Rightarrow> ('s, enat) git" where
  "getDiffLineCount x path baseBranch =
     catching (gitExec x [''diff'', ''--shortstat'', ''origin/'' @ baseBranch @ ''...HEAD''] path)
       (\<lambda>_. ok \<infinity>) (\<lambda>stat. ok (enat (diff_lines stat)))"

section \<open>Pull requests by the command line\<close>

record cli_pr =
  cp_worktreePath :: string
  cp_branch :: string
  cp_base :: string
  cp_title :: string
  cp_body :: string
  cp_draft :: bool
  cp_reviewers :: "string list"
  cp_teamReviewers :: "string list"
  cp_owner :: "string option"

definition cli_pr_args :: "cli_pr \<Rightarrow> string list" where
  "cli_pr_args opts =
     [''pr'', ''create'', ''--head'', cp_branch opts, ''--base'', cp_base opts, ''--title'', cp_title opts,
      ''--body'', cp_body opts] @
     (if cp_draft opts then [''--draft''] else []) @
     (if cp_reviewers opts = [] then [] else [''--reviewer'', joinWith '','' (cp_reviewers opts)]) @
     (case cp_owner opts of
        None \<Rightarrow> []
      | Some owner \<Rightarrow>
          if cp_teamReviewers opts = [] \<or> owner = [] then []
          else [''--reviewer'', joinWith '','' (map (\<lambda>t. owner @ ''/'' @ t) (cp_teamReviewers opts))])"

definition createPRViaCli :: "'s shell \<Rightarrow> cli_pr \<Rightarrow> ('s, string) git" where
  "createPRViaCli x opts =
     catching (call x (GhCmd (cp_worktreePath opts) (cli_pr_args opts))) (\<lambda>_. ok []) (\<lambda>out. ok (trim out))"

definition mergePRViaCli :: "'s shell \<Rightarrow> string \<Rightarrow> string \<Rightarrow> ('s, bool) git" where
  "mergePRViaCli x path branch =
     catching (call x (GhCmd path [''pr'', ''merge'', branch, ''--merge'', ''--delete-branch'']))
       (\<lambda>_. ok False) (\<lambda>_. ok True)"

text \<open>Credentials in a URL: what stands between \<open>://\<close> and the next \<open>@\<close>.\<close>

function redact :: "string \<Rightarrow> string" where
  "redact [] = []"
| "redact (c # cs) =
     (let r = drop 3 (c # cs); u = takeWhile (\<lambda>d. d \<noteq> CHR ''@'') r; rest = dropWhile (\<lambda>d. d \<noteq> CHR ''@'') r
      in if startsWith (c # cs) ''://'' \<and> u \<noteq> [] \<and> rest \<noteq> []
         then ''://[redacted]@'' @ redact (tl rest) else c # redact cs)"
  by pat_completeness auto

termination
proof (relation "measure length")
  fix c :: char and cs r u rest
  assume "r = drop 3 (c # cs)" "rest = dropWhile (\<lambda>d. d \<noteq> CHR ''@'') r"
  then have "length rest \<le> length r" "length r \<le> length cs"
    using length_dropWhile_le [of "\<lambda>d. d \<noteq> CHR ''@''" r] by auto
  then have "length rest \<le> length cs" by (rule le_trans)
  then show "(tl rest, c # cs) \<in> measure length" by simp
qed simp_all

declare redact.simps [simp del]

definition deleteRemoteBranch :: "'s shell \<Rightarrow> string \<Rightarrow> string \<Rightarrow> ('s, unit) git" where
  "deleteRemoteBranch x repoUrl branch =
     catching (call x (GitCmd [] [''push'', repoUrl, ''--delete'', branch]))
       (\<lambda>e. throw (''deleteRemoteBranch failed: '' @ redact e)) (\<lambda>_. ok ())"

section \<open>Cleaning up\<close>

text \<open>
  The entries of the directory of the runs: \<open>None\<close> if the directory cannot be read. Of an entry the code
  reads whether it is a directory, whether it has a \<open>worktree\<close>, and the time of its last change; \<open>None\<close> if that
  fails.
\<close>

record dir_entry =
  de_isDir :: bool
  de_hasWorktree :: bool
  de_mtime :: millis

fun prune_entries ::
  "'s shell \<Rightarrow> string \<Rightarrow> (string \<Rightarrow> bool) \<Rightarrow> string list \<Rightarrow> ('s, string list \<times> string list) git" where
  "prune_entries x baseDir hasGit [] = ok ([], [])"
| "prune_entries x baseDir hasGit (e # es) =
     (if hasGit e
      then andThen (gitExecSafe x [''worktree'', ''prune''] (baseDir @ ''/'' @ e)) (\<lambda>_.
             andThen (prune_entries x baseDir hasGit es) (\<lambda>(pruned, skipped). ok (e # pruned, skipped)))
      else andThen (prune_entries x baseDir hasGit es) (\<lambda>(pruned, skipped). ok (pruned, e # skipped)))"

definition pruneWorktreesInRepoDirs ::
  "'s shell \<Rightarrow> string \<Rightarrow> string list option \<Rightarrow> (string \<Rightarrow> bool) \<Rightarrow> ('s, string list \<times> string list) git" where
  "pruneWorktreesInRepoDirs x baseDir entries hasGit =
     (case entries of None \<Rightarrow> ok ([], []) | Some es \<Rightarrow> prune_entries x baseDir hasGit es)"

definition is_expired :: "millis \<Rightarrow> nat \<Rightarrow> dir_entry \<Rightarrow> bool" where
  "is_expired now ttlHours d \<longleftrightarrow>
     de_isDir d \<and> de_hasWorktree d \<and> now - de_mtime d > int ttlHours * 60 * 60 * 1000"

fun clean_entries ::
  "'s shell \<Rightarrow> string \<Rightarrow> millis \<Rightarrow> nat \<Rightarrow> (string \<times> dir_entry option) list \<Rightarrow> ('s, string list) git" where
  "clean_entries x baseDir now ttl [] = ok []"
| "clean_entries x baseDir now ttl ((e, d) # es) =
     (let dir = baseDir @ ''/'' @ e; rest = clean_entries x baseDir now ttl es
      in case d of
           None \<Rightarrow> rest
         | Some i \<Rightarrow>
             if is_expired now ttl i
             then catching (call x (RemoveDir dir)) (\<lambda>_. rest) (\<lambda>_. andThen rest (\<lambda>ds. ok (dir # ds)))
             else rest)"

definition cleanupWorktrees ::
  "'s shell \<Rightarrow> string \<Rightarrow> millis \<Rightarrow> nat \<Rightarrow> (string \<times> dir_entry option) list option \<Rightarrow> ('s, string list) git" where
  "cleanupWorktrees x baseDir now ttlHours entries =
     (case entries of None \<Rightarrow> ok [] | Some es \<Rightarrow> clean_entries x baseDir now ttlHours es)"

section \<open>The sweep of stale branches\<close>

record branch_info =
  bi_name :: string
  bi_committedAt :: millis

text \<open>A line of \<open>git for-each-ref\<close>: the name up to the last blank, the seconds behind it.\<close>

definition ref_line :: "string \<Rightarrow> branch_info" where
  "ref_line line =
     (let ts = takeWhile (\<lambda>c. c \<noteq> CHR '' '') (rev line);
          ref = rev (drop (length ts + 1) (rev line))
      in \<lparr>bi_name = (if startsWith ref ''origin/'' then drop 7 ref else ref),
          bi_committedAt = int (parse_nat (rev ts)) * 1000\<rparr>)"

definition listRemoteAgentBranches :: "'s shell \<Rightarrow> string \<Rightarrow> ('s, branch_info list) git" where
  "listRemoteAgentBranches x cwd =
     andThen (gitExec x [''fetch'', ''--prune'', ''origin'', ''+refs/heads/agent/*:refs/remotes/origin/agent/*''] cwd) (\<lambda>_.
       andThen (gitExecSafe x [''for-each-ref'', ''--format=%(refname:short) %(committerdate:unix)'',
                  ''refs/remotes/origin/agent/''] cwd) (\<lambda>out.
         ok (map ref_line (filter (\<lambda>l. l \<noteq> []) (split_lines out)))))"

record sweep_result =
  sw_deleted :: "(string \<times> nat) list"
  sw_skippedHasPR :: "string list"
  sw_skippedFresh :: "string list"

definition no_sweep :: sweep_result where
  "no_sweep = \<lparr>sw_deleted = [], sw_skippedHasPR = [], sw_skippedFresh = []\<rparr>"

definition DAY_MS :: millis where
  "DAY_MS = 24 * 60 * 60 * 1000"

definition sweep_one ::
  "'s shell \<Rightarrow> string \<Rightarrow> (string \<Rightarrow> string + bool) \<Rightarrow> millis \<Rightarrow> nat \<Rightarrow> branch_info \<Rightarrow> sweep_result \<Rightarrow>
   ('s, sweep_result) git" where
  "sweep_one x cwd hasOpenPR now ttlDays b r =
     (if bi_committedAt b \<ge> now - int ttlDays * DAY_MS
      then ok (r\<lparr>sw_skippedFresh := sw_skippedFresh r @ [bi_name b]\<rparr>)
      else if hasOpenPR (bi_name b) \<noteq> Inr False
      then ok (r\<lparr>sw_skippedHasPR := sw_skippedHasPR r @ [bi_name b]\<rparr>)
      else catching (gitExec x [''push'', ''origin'', ''--delete'', bi_name b] cwd) (\<lambda>_. ok r)
             (\<lambda>_. ok (r\<lparr>sw_deleted := sw_deleted r @
                [(bi_name b, nat ((now - bi_committedAt b) div DAY_MS))]\<rparr>)))"

fun sweep_branches ::
  "'s shell \<Rightarrow> string \<Rightarrow> (string \<Rightarrow> string + bool) \<Rightarrow> millis \<Rightarrow> nat \<Rightarrow> branch_info list \<Rightarrow> sweep_result \<Rightarrow>
   ('s, sweep_result) git" where
  "sweep_branches x cwd hasOpenPR now ttlDays [] r = ok r"
| "sweep_branches x cwd hasOpenPR now ttlDays (b # bs) r =
     andThen (sweep_one x cwd hasOpenPR now ttlDays b r) (sweep_branches x cwd hasOpenPR now ttlDays bs)"

definition sweepStaleAgentBranches ::
  "'s shell \<Rightarrow> string \<Rightarrow> (string \<Rightarrow> string + bool) \<Rightarrow> millis \<Rightarrow> nat \<Rightarrow> ('s, sweep_result) git" where
  "sweepStaleAgentBranches x cwd hasOpenPR now ttlDays =
     andThen (listRemoteAgentBranches x cwd) (\<lambda>bs.
       sweep_branches x cwd hasOpenPR now ttlDays bs no_sweep)"

text \<open>
  All repositories, each once. The result is the audited deletions; \<open>slug\<close> is the digest that names the clone
  of a repository. An error ends the sweep of one repository only.
\<close>

fun sweep_repos ::
  "'s shell \<Rightarrow> (string \<Rightarrow> bool) \<Rightarrow> (string \<Rightarrow> string) \<Rightarrow> string \<Rightarrow> (string \<Rightarrow> string \<Rightarrow> string + bool) \<Rightarrow> millis \<Rightarrow>
   nat \<Rightarrow> string list \<Rightarrow> string list \<Rightarrow> ('s, (string \<times> nat) list) git" where
  "sweep_repos x exists slug cloneDir hasOpenPR now ttl seen [] = ok []"
| "sweep_repos x exists slug cloneDir hasOpenPR now ttl seen (url # urls) =
     (if url \<in> set seen then sweep_repos x exists slug cloneDir hasOpenPR now ttl seen urls
      else (let dir = joinWith ''/'' [cloneDir, ''.agent-sweep'', slug url];
                rest = sweep_repos x exists slug cloneDir hasOpenPR now ttl (url # seen) urls
            in catching (andThen (cloneRepo x exists url dir)
                           (\<lambda>_. sweepStaleAgentBranches x dir (hasOpenPR url) now ttl))
                 (\<lambda>_. rest) (\<lambda>r. andThen rest (\<lambda>ds. ok (sw_deleted r @ ds)))))"

definition runAgentBranchSweep ::
  "'s shell \<Rightarrow> (string \<Rightarrow> bool) \<Rightarrow> (string \<Rightarrow> string) \<Rightarrow> string \<Rightarrow> (string \<Rightarrow> string \<Rightarrow> string + bool) \<Rightarrow> millis \<Rightarrow>
   nat \<Rightarrow> string list \<Rightarrow> ('s, (string \<times> nat) list) git" where
  "runAgentBranchSweep x exists slug cloneDir hasOpenPR now ttl urls =
     sweep_repos x exists slug cloneDir hasOpenPR now ttl [] urls"

text \<open>The check for an open pull request: the number of entries \<open>gh pr list\<close> answers, if it answers an array.\<close>

definition defaultHasOpenPR :: "string + nat option \<Rightarrow> string + bool" where
  "defaultHasOpenPR answer =
     (case answer of Inl e \<Rightarrow> Inl e | Inr n \<Rightarrow> Inr (case n of None \<Rightarrow> False | Some k \<Rightarrow> k > 0))"

end
