(* ===== verification/GitProps.thy ===== *)
theory GitProps
  imports Git
begin

text \<open>
  What the git operations promise: which commands an operation sends, on which branch it pushes, what an
  automatic commit ships, and which branches and directories are removed.
\<close>

section \<open>The commands an operation sends\<close>

text \<open>The log only grows; \<open>sent m w\<close> is what an operation adds to it.\<close>

named_theorems sent_simps

definition sent :: "('s, 'a) git \<Rightarrow> 's repo \<Rightarrow> git_cmd list" where
  "sent m w = drop (length (rp_cmds w)) (rp_cmds (snd (m w)))"

definition grows :: "('s, 'a) git \<Rightarrow> bool" where
  "grows m \<longleftrightarrow> (\<forall>w. rp_cmds (snd (m w)) = rp_cmds w @ sent m w)"

lemma growsI: "(\<And>w. \<exists>new. rp_cmds (snd (m w)) = rp_cmds w @ new) \<Longrightarrow> grows m"
  unfolding grows_def sent_def by (metis append_eq_conv_conj)

lemma growsD: "grows m \<Longrightarrow> rp_cmds (snd (m w)) = rp_cmds w @ sent m w"
  by (simp add: grows_def)

named_theorems grows_intros

lemma grows_ok [grows_intros]: "grows (ok v)"
  by (rule growsI) (simp add: ok_def)

lemma grows_throw [grows_intros]: "grows (throw e)"
  by (rule growsI) (simp add: throw_def)

lemma grows_call [grows_intros]: "grows (call x c)"
  by (rule growsI) (simp add: call_def Let_def split: prod.split)

lemma grows_catching [grows_intros]:
  assumes "grows m" "\<And>e. grows (h e)" "\<And>v. grows (f v)"
  shows "grows (catching m h f)"
proof (rule growsI)
  fix w
  obtain r w1 where m: "m w = (r, w1)" by fastforce
  have 1: "rp_cmds w1 = rp_cmds w @ sent m w" using growsD [OF assms(1), of w] by (simp add: m)
  show "\<exists>new. rp_cmds (snd (catching m h f w)) = rp_cmds w @ new"
    by (cases r) (simp_all add: catching_def m 1 growsD [OF assms(2)] growsD [OF assms(3)])
qed

lemma andThen_catching: "andThen m f = catching m throw f"
  by (rule ext) (simp add: andThen_def catching_def throw_def split: prod.split sum.split)

lemma andThen_ok [simp]: "andThen (ok v) f = f v"
  by (rule ext) (simp add: andThen_def ok_def)

lemma grows_andThen [grows_intros]: "grows m \<Longrightarrow> (\<And>v. grows (f v)) \<Longrightarrow> grows (andThen m f)"
  unfolding andThen_catching by (intro grows_intros)

lemma sent_ok [sent_simps]: "sent (ok v) w = []"
  by (simp add: sent_def ok_def)

lemma ok_apply: "ok v w = (Inr v, w)"
  by (simp add: ok_def)

lemma catching_apply:
  "catching m h f w = (case m w of (Inl e, w1) \<Rightarrow> h e w1 | (Inr v, w1) \<Rightarrow> f v w1)"
  by (simp add: catching_def)

lemma andThen_apply:
  "andThen m f w = (case m w of (Inl e, w1) \<Rightarrow> (Inl e, w1) | (Inr v, w1) \<Rightarrow> f v w1)"
  by (simp add: andThen_def)

lemma sent_throw [sent_simps]: "sent (throw e) w = []"
  by (simp add: sent_def throw_def)

lemma sent_call [sent_simps]: "sent (call x c) w = [c]"
  by (simp add: sent_def call_def Let_def split: prod.split)

lemma sent_catching [sent_simps]:
  assumes "grows m" "\<And>e. grows (h e)" "\<And>v. grows (f v)"
  shows "sent (catching m h f) w =
    sent m w @ (case m w of (Inl e, w1) \<Rightarrow> sent (h e) w1 | (Inr v, w1) \<Rightarrow> sent (f v) w1)"
proof -
  obtain r w1 where m: "m w = (r, w1)" by fastforce
  have 1: "rp_cmds w1 = rp_cmds w @ sent m w" using growsD [OF assms(1), of w] by (simp add: m)
  show ?thesis
    unfolding sent_def [of "catching m h f" w]
    by (cases r) (simp_all add: catching_def m 1 growsD [OF assms(2)] growsD [OF assms(3)])
qed

lemma sent_andThen [sent_simps]:
  assumes "grows m" "\<And>v. grows (f v)"
  shows "sent (andThen m f) w = sent m w @ (case m w of (Inl e, w1) \<Rightarrow> [] | (Inr v, w1) \<Rightarrow> sent (f v) w1)"
  unfolding andThen_catching using assms
  by (simp add: sent_catching grows_intros sent_throw split: prod.split sum.split)

lemma grows_gitExec [grows_intros]: "grows (gitExec x args cwd)"
  unfolding gitExec_def by (intro grows_intros)

lemma sent_gitExec [sent_simps]: "sent (gitExec x args cwd) w = [GitCmd cwd args]"
  unfolding gitExec_def
  by (simp add: sent_simps grows_intros split: prod.split sum.split)

lemma grows_gitExecSafe [grows_intros]: "grows (gitExecSafe x args cwd)"
  unfolding gitExecSafe_def by (intro grows_intros)

lemma sent_gitExecSafe [sent_simps]: "sent (gitExecSafe x args cwd) w = [GitCmd cwd args]"
  unfolding gitExecSafe_def
  by (simp add: sent_simps grows_intros split: prod.split sum.split)

lemma gitExecSafe_answers: "\<exists>out w1. gitExecSafe x args cwd w = (Inr out, w1)"
  by (simp add: gitExecSafe_def catching_def ok_def split: prod.split sum.split)

section \<open>Pushing\<close>

definition is_git_push :: "git_cmd \<Rightarrow> bool" where
  "is_git_push c \<longleftrightarrow> (case c of GitCmd _ args \<Rightarrow> args \<noteq> [] \<and> hd args = ''push'' | _ \<Rightarrow> False)"

definition head_branch :: "'s shell \<Rightarrow> string \<Rightarrow> 's repo \<Rightarrow> string" where
  "head_branch x path w = (case fst (getCurrentBranch x path w) of Inl _ \<Rightarrow> [] | Inr b \<Rightarrow> b)"

lemma verify_cases:
  "\<exists>w1. verifyBranchMatch x path b w =
     (if head_branch x path w \<in> {[], b} then Inr () else Inl (mismatch_text b (head_branch x path w)), w1)"
proof -
  obtain cur w1 where c: "getCurrentBranch x path w = (Inr cur, w1)"
    using gitExecSafe_answers unfolding getCurrentBranch_def by metis
  then show ?thesis
    by (auto simp: verifyBranchMatch_def andThen_def head_branch_def ok_def throw_def)
qed

lemma grows_verify [grows_intros]: "grows (verifyBranchMatch x path b)"
  unfolding verifyBranchMatch_def getCurrentBranch_def by (intro grows_intros) (simp add: grows_intros)

lemma sent_verify [sent_simps]:
  "sent (verifyBranchMatch x path b) w = [GitCmd path [''rev-parse'', ''--abbrev-ref'', ''HEAD'']]"
  unfolding verifyBranchMatch_def getCurrentBranch_def
  by (simp add: sent_simps grows_intros split: prod.split sum.split)


text \<open>
  C23. Nothing is pushed from a foreign branch. If HEAD is readable and is not the expected branch, both pushes
  fail with the message that says so and send no push; otherwise they send the branch they were given, from the
  worktree they were given, once, and the forced push at most twice.
\<close>
theorem push_guarded:
  "let cur = head_branch x path w;
       pushes = filter is_git_push (sent (pushBranch x path b) w);
       forced = filter is_git_push (sent (pushBranchForce x path b) w)
   in if cur = [] \<or> cur = b
      then pushes = [GitCmd path [''push'', ''origin'', b]] \<and>
           (let f = GitCmd path [''push'', ''origin'', b, ''--force-with-lease''] in forced = [f] \<or> forced = [f, f])
      else pushes = [] \<and> forced = [] \<and> fst (pushBranch x path b w) = Inl (mismatch_text b cur) \<and>
           fst (pushBranchForce x path b w) = Inl (mismatch_text b cur)"
proof -
  let ?p = "gitExec x [''push'', ''origin'', b, ''--force-with-lease''] path"
  let ?f = "GitCmd path [''push'', ''origin'', b, ''--force-with-lease'']"
  let ?h = "\<lambda>msg. if \<not> strIncludes msg ''stale info'' then throw msg
      else andThen (gitExec x [''fetch'', ''--prune'', ''origin''] path) (\<lambda>_. andThen ?p (\<lambda>_. ok ()))"
  have handler: "grows (?h msg)" for msg
    by (cases "strIncludes msg ''stale info''") (simp_all add: grows_intros)
  have push: "grows (andThen (gitExec x [''push'', ''origin'', b] path) (\<lambda>_. ok ()))" by (intro grows_intros)
  have force: "grows (catching ?p ?h (\<lambda>_. ok ()))" by (intro grows_intros handler)
  obtain w1 where v: "verifyBranchMatch x path b w =
      (if head_branch x path w \<in> {[], b} then Inr () else Inl (mismatch_text b (head_branch x path w)), w1)"
    using verify_cases [of x path b w] by blast
  have is_push: "is_git_push ?f" "is_git_push (GitCmd path [''push'', ''origin'', b])"
      "\<not> is_git_push (GitCmd path [''rev-parse'', ''--abbrev-ref'', ''HEAD''])"
      "\<not> is_git_push (GitCmd path [''fetch'', ''--prune'', ''origin''])"
    by (simp_all add: is_git_push_def)
  have tail: "filter is_git_push (sent (?h msg) w') \<in> {[], [?f]}" for msg w'
    by (cases "strIncludes msg ''stale info''")
      (simp_all add: sent_simps grows_intros is_push split: prod.split sum.split)
  have forced: "filter is_git_push (sent (catching ?p ?h (\<lambda>_. ok ())) w1) \<in> {[?f], [?f, ?f]}"
    using tail by (simp add: sent_catching [OF grows_gitExec handler grows_ok] sent_simps is_push
        split: prod.split sum.split)
  show ?thesis
  proof (cases "head_branch x path w \<in> {[], b}")
    case True
    with v have passed: "verifyBranchMatch x path b w = (Inr (), w1)" by (simp only: if_True)
    have "sent (pushBranch x path b) w = [GitCmd path [''rev-parse'', ''--abbrev-ref'', ''HEAD'']] @
        [GitCmd path [''push'', ''origin'', b]]"
      by (simp add: pushBranch_def sent_andThen [OF grows_verify push] sent_verify sent_simps
          grows_intros passed split: prod.split sum.split)
    moreover have "sent (pushBranchForce x path b) w = [GitCmd path [''rev-parse'', ''--abbrev-ref'', ''HEAD'']] @
        sent (catching ?p ?h (\<lambda>_. ok ())) w1"
      by (simp add: pushBranchForce_def Let_def sent_andThen [OF grows_verify force] sent_verify passed)
    ultimately show ?thesis using True forced by (auto simp: Let_def is_push)
  next
    case False
    have "sent (pushBranch x path b) w = [GitCmd path [''rev-parse'', ''--abbrev-ref'', ''HEAD'']]"
      "sent (pushBranchForce x path b) w = [GitCmd path [''rev-parse'', ''--abbrev-ref'', ''HEAD'']]"
      using False by (simp_all add: pushBranch_def pushBranchForce_def Let_def sent_andThen [OF grows_verify push]
          sent_andThen [OF grows_verify force] sent_verify v)
    moreover have "fst (pushBranch x path b w) = Inl (mismatch_text b (head_branch x path w))"
      "fst (pushBranchForce x path b w) = Inl (mismatch_text b (head_branch x path w))"
      using False by (simp_all add: pushBranch_def pushBranchForce_def Let_def andThen_def v)
    ultimately show ?thesis using False by (auto simp: Let_def is_push)
  qed
qed

section \<open>Worktrees\<close>

definition is_add :: "git_cmd \<Rightarrow> bool" where
  "is_add c \<longleftrightarrow> (case c of GitCmd _ args \<Rightarrow> take 2 args = [''worktree'', ''add''] | _ \<Rightarrow> False)"

lemma grows_prune [grows_intros]: "grows (worktree_prune x d)"
  unfolding worktree_prune_def by (intro grows_intros)

lemma grows_hook [grows_intros]: "grows (installPrePushHook x isDir hook d)"
  by (cases "hook_wanted (isDir (d @ ''/.git'')) (hook (d @ ''/.git/hooks/pre-push''))")
    (simp_all add: installPrePushHook_def Let_def grows_intros)

definition add_retry :: "'s shell \<Rightarrow> string \<Rightarrow> string list \<Rightarrow> ('s, unit) git" where
  "add_retry x d args = andThen (worktree_prune x d)
     (\<lambda>_. andThen (gitExec x (''worktree'' # ''add'' # args) d) (\<lambda>_. ok ()))"

definition add_failed :: "'s shell \<Rightarrow> string \<Rightarrow> string list \<Rightarrow> string \<Rightarrow> ('s, unit) git" where
  "add_failed x d args msg =
     (if \<not> strIncludes msg ''already checked out'' \<and> \<not> strIncludes msg ''already used by worktree''
      then throw msg
      else (case stale_path msg of
          Some p \<Rightarrow> catching (gitExec x [''worktree'', ''remove'', p, ''--force''] d)
              (\<lambda>_. andThen (call x (RemoveDir p)) (\<lambda>_. add_retry x d args)) (\<lambda>_. add_retry x d args)
        | None \<Rightarrow> add_retry x d args))"

lemma worktreeAdd_eq:
  "worktreeAddWithRetry x d args = andThen (worktree_prune x d)
     (\<lambda>_. catching (gitExec x (''worktree'' # ''add'' # args) d) (add_failed x d args) (\<lambda>_. ok ()))"
  unfolding worktreeAddWithRetry_def add_failed_def add_retry_def Let_def ..

lemma grows_add_retry [grows_intros]: "grows (add_retry x d args)"
  unfolding add_retry_def by (intro grows_intros)

lemma grows_add_failed [grows_intros]: "grows (add_failed x d args msg)"
  unfolding add_failed_def by (cases "stale_path msg") (auto intro!: grows_intros)

lemma grows_worktreeAdd [grows_intros]: "grows (worktreeAddWithRetry x d args)"
  unfolding worktreeAdd_eq by (intro grows_intros)

lemma adds_of_prune: "filter is_add (sent (worktree_prune x d) w) = []"
  by (simp add: worktree_prune_def sent_simps is_add_def)

lemma adds_of_retry:
  "filter is_add (sent (add_retry x d args) w) \<in> {[], [GitCmd d (''worktree'' # ''add'' # args)]}"
  by (simp add: add_retry_def sent_simps grows_intros adds_of_prune is_add_def split: prod.split sum.split)

lemma adds_of_failed:
  "filter is_add (sent (add_failed x d args msg) w) \<in> {[], [GitCmd d (''worktree'' # ''add'' # args)]}"
proof (cases "stale_path msg")
  case (Some p)
  have other: "\<not> is_add (GitCmd d [''worktree'', ''remove'', p, ''--force''])" "\<not> is_add (RemoveDir p)"
    by (simp_all add: is_add_def)
  show ?thesis
    using adds_of_retry [of x d args]
    by (simp add: add_failed_def Some sent_simps grows_intros other split: prod.split sum.split)
qed (use adds_of_retry [of x d args] in \<open>simp add: add_failed_def sent_simps\<close>)

text \<open>
  Creating a worktree tries at most twice, and each time with \<open>-B\<close>, the branch of the run and the directory of
  the run: no worktree is left without its branch, and a branch is never added somewhere else.
\<close>
theorem worktree_on_its_branch:
  "let add = GitCmd repoDir [''worktree'', ''add'', ''-B'', branch, worktree_path baseDir runId];
       adds = filter is_add (sent (createWorktree x isDir hook repoDir runId branch baseDir) w)
   in adds = [] \<or> adds = [add] \<or> adds = [add, add]"
proof -
  let ?path = "worktree_path baseDir runId"
  let ?args = "[''-B'', branch, ?path]"
  let ?add = "GitCmd repoDir (''worktree'' # ''add'' # ?args)"
  have add: "is_add ?add" by (simp add: is_add_def)
  have hook: "filter is_add (sent (installPrePushHook x isDir hook repoDir) w') = []" for w'
    by (simp add: installPrePushHook_def Let_def sent_simps grows_intros is_add_def split: prod.split sum.split)
  have tail: "grows (andThen (installPrePushHook x isDir hook repoDir) (\<lambda>_. ok ?path))" by (intro grows_intros)
  have rest: "filter is_add (sent (andThen (installPrePushHook x isDir hook repoDir) (\<lambda>_. ok ?path)) w') = []" for w'
    by (simp add: sent_simps grows_intros hook split: prod.split sum.split)
  have "filter is_add (sent (worktreeAddWithRetry x repoDir ?args) w) \<in> {[], [?add], [?add, ?add]}"
    using adds_of_failed [of x repoDir ?args]
    by (simp add: worktreeAdd_eq sent_simps grows_intros adds_of_prune add split: prod.split sum.split)
  then show ?thesis
    by (auto simp: createWorktree_def Let_def sent_andThen [OF grows_worktreeAdd tail] rest split: prod.split sum.split)
qed


section \<open>What an automatic commit ships\<close>

text \<open>
  The index as the commands leave it: \<open>add -A\<close> takes every changed path, \<open>rm --cached\<close> takes paths out, and
  a commit ships what is in it.
\<close>

fun shipped :: "string list \<Rightarrow> string list \<Rightarrow> git_cmd list \<Rightarrow> string list option" where
  "shipped changed index [] = None"
| "shipped changed index (GitCmd cwd args # cs) =
     (if args = [''add'', ''-A''] then shipped changed changed cs
      else if take 5 args = [''rm'', ''-r'', ''--cached'', ''--ignore-unmatch'', ''--'']
      then shipped changed (filter (\<lambda>p. p \<notin> set (drop 5 args)) index) cs
      else if take 1 args = [''commit''] then Some index
      else shipped changed index cs)"
| "shipped changed index (_ # cs) = shipped changed index cs"

lemma findTrackedPaths_answers: "\<exists>ps w1. findTrackedPaths x path paths w = (Inr ps, w1)"
proof (cases "paths = []")
  case False
  obtain out w1 where "gitExecSafe x (''ls-files'' # ''--'' # paths) path w = (Inr out, w1)"
    using gitExecSafe_answers by blast
  with False show ?thesis by (simp add: findTrackedPaths_def andThen_def ok_def)
qed (simp add: findTrackedPaths_def ok_def)

lemma grows_findTrackedPaths [grows_intros]: "grows (findTrackedPaths x path paths)"
  by (cases "paths = []") (simp_all add: findTrackedPaths_def grows_intros)

lemma sent_findTrackedPaths:
  "sent (findTrackedPaths x path paths) w = (if paths = [] then [] else [GitCmd path (''ls-files'' # ''--'' # paths)])"
  by (simp add: findTrackedPaths_def sent_simps grows_intros split: prod.split sum.split)

lemma sent_stage_and_commit:
  "sent (stage_and_commit x path i unstage) w =
     GitCmd path [''add'', ''-A''] #
     (if unstage = [] then []
      else [GitCmd path ([''rm'', ''-r'', ''--cached'', ''--ignore-unmatch'', ''--''] @ unstage)]) @
     [GitCmd path [''commit'', ''-m'', ''feat('' @ i @ ''): agent implementation (auto-committed)'']]"
proof -
  let ?c = "gitExec x [''commit'', ''-m'', ''feat('' @ i @ ''): agent implementation (auto-committed)''] path"
  let ?u = "if unstage = [] then ok []
      else gitExecSafe x ([''rm'', ''-r'', ''--cached'', ''--ignore-unmatch'', ''--''] @ unstage) path"
  obtain o1 w1 where a: "gitExecSafe x [''add'', ''-A''] path w = (Inr o1, w1)" using gitExecSafe_answers by blast
  have u: "grows ?u" by (simp add: grows_intros)
  have c: "grows (catching ?c (\<lambda>_. ok False) (\<lambda>_. ok True))" by (intro grows_intros)
  have uc: "grows (andThen ?u (\<lambda>_. catching ?c (\<lambda>_. ok False) (\<lambda>_. ok True)))" by (intro grows_andThen u c)
  obtain o2 w2 where b: "?u w1 = (Inr o2, w2)"
    using gitExecSafe_answers [of x "[''rm'', ''-r'', ''--cached'', ''--ignore-unmatch'', ''--''] @ unstage" path w1]
    by (cases "unstage = []") (auto simp: ok_def)
  have "sent (andThen ?u (\<lambda>_. catching ?c (\<lambda>_. ok False) (\<lambda>_. ok True))) w1 =
      (if unstage = [] then []
       else [GitCmd path ([''rm'', ''-r'', ''--cached'', ''--ignore-unmatch'', ''--''] @ unstage)]) @
      [GitCmd path [''commit'', ''-m'', ''feat('' @ i @ ''): agent implementation (auto-committed)'']]"
    unfolding sent_andThen [OF u c] b prod.case sum.case
    by (simp add: sent_simps grows_intros split: prod.split sum.split)
  then show ?thesis
    unfolding stage_and_commit_def sent_andThen [OF grows_gitExecSafe uc] a prod.case sum.case
    by (simp add: sent_gitExecSafe)
qed

lemma grows_stage_and_commit [grows_intros]: "grows (stage_and_commit x path i unstage)"
  unfolding stage_and_commit_def by (intro grows_intros) (simp add: grows_intros)



text \<open>
  A failing \<open>git ls-files\<close> reads as none tracked: then a scratch file that is tracked is taken out of the
  index, and the commit deletes it from the repository, which the lookup is there to prevent.
\<close>

definition no_lookup :: "unit shell" where
  "no_lookup = (\<lambda>c s. (case c of
     GitCmd _ args \<Rightarrow> if hd args = ''status'' then Inr (''MM .claude/settings.json'' @ [CHR 0x0A] @ ''M  a.ts'')
       else if hd args = ''ls-files'' then Inl ''timeout'' else Inr []
   | _ \<Rightarrow> Inr [], s))"

lemma failed_lookup_untracks:
  "GitCmd ''/w'' [''rm'', ''-r'', ''--cached'', ''--ignore-unmatch'', ''--'', ''.claude/settings.json'']
     \<in> set (sent (autoCommitChanges no_lookup ''/w'' ''BEC-1'' None) \<lparr>rp_world = (), rp_cmds = []\<rparr>)"
  by code_simp

section \<open>Rebasing\<close>

text \<open>The answers of git to a rebase that fails, with the status it leaves.\<close>

definition failed_rebase :: "string \<Rightarrow> unit shell" where
  "failed_rebase status = (\<lambda>c s. (case c of
     GitCmd _ args \<Rightarrow> if hd args = ''rebase'' then Inl ''could not apply''
       else Inr (if hd args = ''status'' then status else [])
   | _ \<Rightarrow> Inr [], s))"

lemma failed_rebase_result:
  "fst (rebaseBranch (failed_rebase status) path base w) =
     Inr \<lparr>rb_success = False,
       rb_hasConflicts = list_ex (strIncludes (trim status)) GIT_CONFLICT_STATUS_CODES\<rparr>"
  by (simp add: rebaseBranch_def gitExec_def catching_def call_def failed_rebase_def ok_def throw_def)

text \<open>
  A failed rebase is called a conflict if UU, AA or DD stands anywhere in the text of the status, so a file
  called ADDRESS makes one of any failure; and the other codes of an unmerged path are not among them, so a
  file that one side deleted and the other changed is no conflict and nobody is asked to resolve it.
\<close>
theorem rebase_conflicts_misread:
  "fst (rebaseBranch (failed_rebase ''M src/ADDRESS.sql'') path base w) =
     Inr \<lparr>rb_success = False, rb_hasConflicts = True\<rparr> \<and>
   fst (rebaseBranch (failed_rebase ''UD src/login.ts'') path base w) =
     Inr \<lparr>rb_success = False, rb_hasConflicts = False\<rparr>"
proof -
  have "list_ex (strIncludes (trim ''M src/ADDRESS.sql'')) GIT_CONFLICT_STATUS_CODES"
    "\<not> list_ex (strIncludes (trim ''UD src/login.ts'')) GIT_CONFLICT_STATUS_CODES" by code_simp+
  then show ?thesis by (simp add: failed_rebase_result)
qed

section \<open>The size of a diff\<close>

text \<open>The line that \<open>git diff --shortstat\<close> prints: a count of zero is left out unless both are zero.\<close>

definition shortstat :: "nat \<Rightarrow> nat \<Rightarrow> nat \<Rightarrow> string" where
  "shortstat f i d =
     show_nat f @ (if f = 1 then '' file changed'' else '' files changed'') @
     (if i = 0 \<and> d \<noteq> 0 then [] else '', '' @ show_nat i @ (if i = 1 then '' insertion(+)'' else '' insertions(+)'')) @
     (if d = 0 \<and> i \<noteq> 0 then [] else '', '' @ show_nat d @ (if d = 1 then '' deletion(-)'' else '' deletions(-)''))"

lemma count_before_digits:
  assumes "list_all is_digit ds" "ds \<noteq> []" "t = [] \<or> \<not> is_digit (hd t)"
  shows "count_before word (ds @ t) = (if startsWith t word then Some ds else count_before word t)"
  using assms
proof (induction ds)
  case (Cons d ds)
  have "takeWhile is_digit ((d # ds) @ t) = d # ds" "dropWhile is_digit ((d # ds) @ t) = t"
    using Cons.prems by (cases t; auto simp: list_all_iff takeWhile_append dropWhile_append takeWhile_eq_all_conv)+
  then have "count_before word ((d # ds) @ t) =
      (if startsWith t word then Some (d # ds) else count_before word (ds @ t))"
    by (simp only: append_Cons count_before.simps Let_def list.distinct simp_thms)
  with Cons show ?case by (cases "ds = []") auto
qed simp

lemma count_before_skip: "\<not> is_digit c \<Longrightarrow> count_before word (c # cs) = count_before word cs"
  by simp

lemma count_before_text:
  "list_all (\<lambda>c. \<not> is_digit c) u \<Longrightarrow> count_before word (u @ t) = count_before word t"
  by (induction u) auto

declare count_before.simps(2) [simp del]

lemma show_nat_all_digits: "list_all is_digit (show_nat n)"
  by (simp add: list_all_iff show_nat_digits)

lemma count_before_number:
  assumes "list_all (\<lambda>c. \<not> is_digit c) u" "list_all (\<lambda>c. \<not> is_digit c) v" "v \<noteq> []"
  shows "count_before word (u @ show_nat n @ v @ t) =
    (if startsWith (v @ t) word then Some (show_nat n) else count_before word t)"
proof -
  have "\<not> is_digit (hd (v @ t))" using assms(2,3) by (cases v) auto
  with count_before_digits [of "show_nat n" "v @ t" word, OF show_nat_all_digits show_nat_neq_Nil] assms
  show ?thesis by (simp add: count_before_text)
qed

text \<open>The number of changed lines is read off git's own line exactly, in the singular and the plural.\<close>
theorem diff_lines_exact: "diff_lines (shortstat f i d) = i + d"
proof -
  have texts: "list_all (\<lambda>c. \<not> is_digit c) '' file changed''" "list_all (\<lambda>c. \<not> is_digit c) '' files changed''"
    "list_all (\<lambda>c. \<not> is_digit c) '', ''" "list_all (\<lambda>c. \<not> is_digit c) '' insertion(+)''"
    "list_all (\<lambda>c. \<not> is_digit c) '' insertions(+)''" "list_all (\<lambda>c. \<not> is_digit c) '' deletion(-)''"
    "list_all (\<lambda>c. \<not> is_digit c) '' deletions(-)''" by code_simp+
  define F where "F = (if f = 1 then '' file changed'' else '' files changed'')"
  define I where "I = (if i = 1 then '' insertion(+)'' else '' insertions(+)'')"
  define D where "D = (if d = 1 then '' deletion(-)'' else '' deletions(-)'')"
  define ins where "ins = (if i = 0 \<and> d \<noteq> 0 then [] else '', '' @ show_nat i @ I)"
  define del where "del = (if d = 0 \<and> i \<noteq> 0 then [] else '', '' @ show_nat d @ D)"
  have F: "list_all (\<lambda>c. \<not> is_digit c) F" "F \<noteq> []" "\<not> startsWith (F @ t) '' insertion''"
    "\<not> startsWith (F @ t) '' deletion''" for t using texts by (simp_all add: F_def)
  have I: "list_all (\<lambda>c. \<not> is_digit c) I" "I \<noteq> []" "startsWith (I @ t) '' insertion''"
    "\<not> startsWith (I @ t) '' deletion''" for t using texts by (simp_all add: I_def)
  have D: "list_all (\<lambda>c. \<not> is_digit c) D" "D \<noteq> []" "startsWith (D @ t) '' deletion''"
    "\<not> startsWith (D @ t) '' insertion''" for t using texts by (simp_all add: D_def)
  have line: "shortstat f i d = [] @ show_nat f @ F @ ins @ del"
    by (simp add: shortstat_def F_def I_def D_def ins_def del_def)
  have files: "count_before '' insertion'' (shortstat f i d) = count_before '' insertion'' (ins @ del)"
    "count_before '' deletion'' (shortstat f i d) = count_before '' deletion'' (ins @ del)"
    unfolding line count_before_number [OF list.pred_inject(1) F(1,2)]
    by (simp_all only: F(3,4) if_False)
  have dels: "count_before '' deletion'' del = (if d = 0 \<and> i \<noteq> 0 then None else Some (show_nat d))"
    "count_before '' insertion'' del = None"
    using D(3,4) [of "[]"] count_before_number [OF texts(3) D(1,2), of _ d "[]"] by (simp_all add: del_def)
  have ins: "count_before '' insertion'' (ins @ del) = (if i = 0 \<and> d \<noteq> 0 then None else Some (show_nat i))"
    "count_before '' deletion'' (ins @ del) = (if d = 0 \<and> i \<noteq> 0 then None else Some (show_nat d))"
  proof -
    note number = count_before_number [OF texts(3) I(1,2), of _ i del]
    have "count_before '' insertion'' (ins @ del) = (if i = 0 \<and> d \<noteq> 0 then None else Some (show_nat i)) \<and>
      count_before '' deletion'' (ins @ del) = (if d = 0 \<and> i \<noteq> 0 then None else Some (show_nat d))"
    proof (cases "i = 0 \<and> d \<noteq> 0")
      case True
      then show ?thesis using dels by (simp add: ins_def)
    next
      case False
      then have "ins @ del = '', '' @ show_nat i @ I @ del" unfolding ins_def by (simp only: if_False append_assoc)
      then show ?thesis using I(3,4) [of del] dels by (simp only: number if_True if_False False)
    qed
    then show "count_before '' insertion'' (ins @ del) = (if i = 0 \<and> d \<noteq> 0 then None else Some (show_nat i))"
      "count_before '' deletion'' (ins @ del) = (if d = 0 \<and> i \<noteq> 0 then None else Some (show_nat d))"
      by (rule conjunct1, rule conjunct2)
  qed
  have "parse_nat ''0'' = 0" by (simp add: parse_nat_def)
  then show ?thesis by (simp add: diff_lines_def files ins)
qed


section \<open>Sweeping\<close>

definition stale_unused :: "(string \<Rightarrow> string + bool) \<Rightarrow> millis \<Rightarrow> nat \<Rightarrow> branch_info \<Rightarrow> bool" where
  "stale_unused hasOpenPR now ttlDays b \<longleftrightarrow>
     bi_committedAt b < now - int ttlDays * DAY_MS \<and> hasOpenPR (bi_name b) = Inr False"

definition delete_cmd :: "string \<Rightarrow> branch_info \<Rightarrow> git_cmd" where
  "delete_cmd cwd b = GitCmd cwd [''push'', ''origin'', ''--delete'', bi_name b]"

lemma grows_sweep_one [grows_intros]: "grows (sweep_one x cwd pr now ttl b r)"
  unfolding sweep_one_def by (cases "bi_committedAt b \<ge> now - int ttl * DAY_MS"; cases "pr (bi_name b) = Inr False")
    (simp_all add: grows_intros)

lemma grows_sweep_branches [grows_intros]: "grows (sweep_branches x cwd pr now ttl bs r)"
  by (induction bs arbitrary: r) (simp_all add: grows_intros)

lemma sweep_one_effect:
  "\<exists>r' w1. sweep_one x cwd pr now ttl b r w = (Inr r', w1) \<and>
     sent (sweep_one x cwd pr now ttl b r) w = (if stale_unused pr now ttl b then [delete_cmd cwd b] else []) \<and>
     sw_skippedFresh r' = sw_skippedFresh r @ (if bi_committedAt b \<ge> now - int ttl * DAY_MS then [bi_name b] else []) \<and>
     set (map fst (sw_deleted r')) \<subseteq>
       set (map fst (sw_deleted r)) \<union> (if stale_unused pr now ttl b then {bi_name b} else {})"
proof (cases "bi_committedAt b \<ge> now - int ttl * DAY_MS \<or> pr (bi_name b) \<noteq> Inr False")
  case True
  then show ?thesis
    by (cases "bi_committedAt b \<ge> now - int ttl * DAY_MS")
      (simp_all add: sweep_one_def stale_unused_def sent_ok ok_apply)
next
  case False
  let ?del = "gitExec x [''push'', ''origin'', ''--delete'', bi_name b] cwd"
  obtain a w1 where d: "?del w = (a, w1)" by fastforce
  have "sent (sweep_one x cwd pr now ttl b r) w = [delete_cmd cwd b]"
    using False by (simp add: sweep_one_def delete_cmd_def sent_catching grows_intros sent_ok sent_gitExec
        split: prod.split sum.split)
  with False d show ?thesis
    by (cases a) (auto simp: sweep_one_def stale_unused_def catching_apply ok_apply)
qed

lemma sweep_branches_effect:
  "\<exists>r' w1. sweep_branches x cwd pr now ttl bs r w = (Inr r', w1) \<and>
     sent (sweep_branches x cwd pr now ttl bs r) w = map (delete_cmd cwd) (filter (stale_unused pr now ttl) bs) \<and>
     sw_skippedFresh r' =
       sw_skippedFresh r @ map bi_name (filter (\<lambda>b. bi_committedAt b \<ge> now - int ttl * DAY_MS) bs) \<and>
     set (map fst (sw_deleted r')) \<subseteq>
       set (map fst (sw_deleted r)) \<union> bi_name ` {b \<in> set bs. stale_unused pr now ttl b}"
proof (induction bs arbitrary: r w)
  case (Cons b bs)
  from sweep_one_effect [of x cwd pr now ttl b r w] obtain r1 w1 where
    one: "sweep_one x cwd pr now ttl b r w = (Inr r1, w1)"
      "sent (sweep_one x cwd pr now ttl b r) w = (if stale_unused pr now ttl b then [delete_cmd cwd b] else [])"
      "sw_skippedFresh r1 = sw_skippedFresh r @ (if bi_committedAt b \<ge> now - int ttl * DAY_MS then [bi_name b] else [])"
      "set (map fst (sw_deleted r1)) \<subseteq>
         set (map fst (sw_deleted r)) \<union> (if stale_unused pr now ttl b then {bi_name b} else {})" by blast
  from Cons.IH [of r1 w1] obtain r2 w2 where
    rest: "sweep_branches x cwd pr now ttl bs r1 w1 = (Inr r2, w2)"
      "sent (sweep_branches x cwd pr now ttl bs r1) w1 = map (delete_cmd cwd) (filter (stale_unused pr now ttl) bs)"
      "sw_skippedFresh r2 =
         sw_skippedFresh r1 @ map bi_name (filter (\<lambda>b. bi_committedAt b \<ge> now - int ttl * DAY_MS) bs)"
      "set (map fst (sw_deleted r2)) \<subseteq>
         set (map fst (sw_deleted r1)) \<union> bi_name ` {b \<in> set bs. stale_unused pr now ttl b}" by blast
  have "set (map fst (sw_deleted r2)) \<subseteq>
      set (map fst (sw_deleted r)) \<union> bi_name ` {c \<in> set (b # bs). stale_unused pr now ttl c}"
  proof -
    have "bi_name ` {c \<in> set (b # bs). stale_unused pr now ttl c} =
        (if stale_unused pr now ttl b then {bi_name b} else {}) \<union> bi_name ` {c \<in> set bs. stale_unused pr now ttl c}"
      by auto
    with one(4) rest(4) show ?thesis by blast
  qed
  moreover have "sweep_branches x cwd pr now ttl (b # bs) r w = (Inr r2, w2)"
    by (simp add: andThen_apply one rest)
  moreover have "sent (sweep_branches x cwd pr now ttl (b # bs) r) w =
      map (delete_cmd cwd) (filter (stale_unused pr now ttl) (b # bs))"
    by (simp add: sent_andThen [OF grows_sweep_one grows_sweep_branches] one rest)
  moreover have "sw_skippedFresh r2 =
      sw_skippedFresh r @ map bi_name (filter (\<lambda>b. bi_committedAt b \<ge> now - int ttl * DAY_MS) (b # bs))"
    by (simp add: one rest)
  ultimately show ?case by blast
qed (simp add: ok_def sent_def)

text \<open>
  C28. The sweep deletes stale branches without a pull request and no other: a branch is asked to be deleted exactly
  if its last commit is older than the limit and the check has answered that no pull request is open; a check
  that fails spares it. Every fresh branch is reported as such, and the deletions it reports were asked for.
\<close>
theorem sweep_only_stale_unused:
  "\<exists>r. fst (sweep_branches x cwd hasOpenPR now ttlDays bs no_sweep w) = Inr r \<and>
     sent (sweep_branches x cwd hasOpenPR now ttlDays bs no_sweep) w =
       map (delete_cmd cwd) (filter (stale_unused hasOpenPR now ttlDays) bs) \<and>
     sw_skippedFresh r = map bi_name (filter (\<lambda>b. bi_committedAt b \<ge> now - int ttlDays * DAY_MS) bs) \<and>
     set (map fst (sw_deleted r)) \<subseteq> bi_name ` {b \<in> set bs. stale_unused hasOpenPR now ttlDays b}"
  using sweep_branches_effect [of x cwd hasOpenPR now ttlDays bs no_sweep w] by (auto simp: no_sweep_def)

section \<open>Directories of runs\<close>

lemma clean_entries_effect:
  "sent (clean_entries x dir now ttl es) w =
     map (\<lambda>(e, _). RemoveDir (dir @ ''/'' @ e))
       (filter (\<lambda>(_, d). case d of None \<Rightarrow> False | Some i \<Rightarrow> is_expired now ttl i) es) \<and>
   grows (clean_entries x dir now ttl es)"
proof (induction es arbitrary: w)
  case Nil
  then show ?case by (simp add: sent_ok grows_ok)
next
  case (Cons a es)
  obtain e d where a: "a = (e, d)" by fastforce
  have g: "grows (clean_entries x dir now ttl es)" using Cons by blast
  then have g': "grows (andThen (clean_entries x dir now ttl es) (\<lambda>ds. ok ((dir @ ''/'' @ e) # ds)))"
    by (simp_all add: grows_intros)
  show ?case
  proof (cases d)
    case (Some i)
    show ?thesis
      using Cons g g' by (cases "is_expired now ttl i")
        (simp_all add: a Some Let_def sent_catching sent_andThen sent_call sent_ok grows_intros
          split: prod.split sum.split)
  qed (use Cons in \<open>simp add: a Let_def\<close>)
qed

text \<open>Only directories with a worktree that have not changed for the whole time are removed.\<close>

lemma cleanup_only_expired:
  "sent (cleanupWorktrees x dir now ttl entries) w =
     (case entries of None \<Rightarrow> []
      | Some es \<Rightarrow> map (\<lambda>(e, _). RemoveDir (dir @ ''/'' @ e))
          (filter (\<lambda>(_, d). case d of None \<Rightarrow> False | Some i \<Rightarrow> is_expired now ttl i) es))"
  by (cases entries) (simp_all add: cleanupWorktrees_def sent_ok clean_entries_effect)

end
