(* ===== verification/Conflict.thy ===== *)
theory Conflict
  imports Git Triage
begin

text \<open>
  Which issues touch the same files: the matrix and the selection of \<open>packages/core/src/pm/conflict-detector.ts\<close>, and
  the files of the active runs with the prediction of \<open>pm/conflict.ts\<close>. Git and the model are parameters; a set is
  the list of its elements in the order they were added.
\<close>

section \<open>The files of an issue\<close>

fun behind_marker :: "string \<Rightarrow> string \<Rightarrow> string option" where
  "behind_marker m [] = None"
| "behind_marker m (c # cs) =
     (if startsWith (toLowerCase (c # cs)) m then Some (drop (length m) (c # cs)) else behind_marker m cs)"

definition path_char :: "char \<Rightarrow> bool" where
  "path_char c \<longleftrightarrow> is_word c \<or> c \<in> {CHR ''/'', CHR ''.'', CHR ''@'', CHR ''-''}"

definition safe_path :: "string \<Rightarrow> string" where
  "safe_path f = filter path_char f"

text \<open>
  \<open>parseIssueFiles\<close>: the line behind \<open>**Files**:\<close>, in any case, or the next line with text. White space alone has
  no file.
\<close>

definition parseIssueFiles :: "string \<Rightarrow> string list" where
  "parseIssueFiles description =
     (case behind_marker ''**files**:'' description of
        None \<Rightarrow> []
      | Some t \<Rightarrow>
          filter (\<lambda>f. f \<noteq> [])
            (map (\<lambda>f. trim (safe_path (filter (\<lambda>c. c \<noteq> CHR 0x60) f)))
              (split_char CHR '','' (takeWhile (\<lambda>c. c \<noteq> CHR 0x0A) (dropWhile is_space t)))))"

section \<open>The matrix\<close>

record issue_files =
  if_issueId :: issue_id
  if_priority :: nat
  if_files :: "string list"

definition share_file :: "issue_files \<Rightarrow> issue_files \<Rightarrow> bool" where
  "share_file a b \<longleftrightarrow> list_ex (\<lambda>f. f \<in> set (if_files a)) (if_files b)"

definition row_of :: "(issue_id, issue_id list) js_map \<Rightarrow> issue_id \<Rightarrow> issue_id list" where
  "row_of m k = (case mapGet m k of None \<Rightarrow> [] | Some r \<Rightarrow> r)"

definition add_conflict ::
  "issue_files \<Rightarrow> (issue_id, issue_id list) js_map \<Rightarrow> issue_files \<Rightarrow> (issue_id, issue_id list) js_map" where
  "add_conflict a m b =
     (if share_file a b
      then (let m1 = mapSet m (if_issueId a) (row_of m (if_issueId a) @ [if_issueId b])
            in mapSet m1 (if_issueId b) (row_of m1 (if_issueId b) @ [if_issueId a]))
      else m)"

fun matrix_from ::
  "issue_files list \<Rightarrow> (issue_id, issue_id list) js_map \<Rightarrow> (issue_id, issue_id list) js_map" where
  "matrix_from [] m = m"
| "matrix_from (a # rest) m =
     matrix_from rest
       (foldl (add_conflict a) (if mapHas m (if_issueId a) then m else mapSet m (if_issueId a) []) rest)"

definition buildConflictMatrix :: "issue_files list \<Rightarrow> (issue_id, issue_id list) js_map" where
  "buildConflictMatrix issues = matrix_from issues []"

section \<open>Overlap with the active runs\<close>

record overlap_result =
  ov_hasConflict :: bool
  ov_overlappingFiles :: "string list"
  ov_conflictingRunIds :: "run_id list"

definition detectFileOverlap :: "string list \<Rightarrow> (run_id, string list) js_map \<Rightarrow> overlap_result" where
  "detectFileOverlap candidateFiles active =
     (let hits = filter (\<lambda>(r, shared). shared \<noteq> [])
                   (map (\<lambda>(r, fs). (r, filter (\<lambda>f. f \<in> set candidateFiles) fs)) active)
      in \<lparr>ov_hasConflict = (map fst hits \<noteq> []), ov_overlappingFiles = setOf (concat (map snd hits)),
          ov_conflictingRunIds = map fst hits\<rparr>)"

section \<open>The selection\<close>

definition priority_rank :: "issue_files \<Rightarrow> nat" where
  "priority_rank a = (if if_priority a = 0 then 999 else if_priority a)"

fun select_disjoint :: "string list \<Rightarrow> issue_files list \<Rightarrow> issue_files list" where
  "select_disjoint assigned [] = []"
| "select_disjoint assigned (a # as) =
     (if list_ex (\<lambda>f. f \<in> set assigned) (if_files a) then select_disjoint assigned as
      else a # select_disjoint (assigned @ if_files a) as)"

definition sortAndFilterNonConflicting :: "issue_files list \<Rightarrow> issue_files list" where
  "sortAndFilterNonConflicting issues = select_disjoint [] (sort_key priority_rank issues)"

section \<open>The files of the active runs\<close>

record active_run =
  ar_issueId :: issue_id
  ar_branch :: string
  ar_worktreePath :: "string option"

text \<open>The parameter \<open>git\<close> takes arguments and a directory to the output, or \<open>None\<close> when the command fails.\<close>

type_synonym git_query = "string list \<Rightarrow> string \<Rightarrow> string option"

text \<open>The scheduler passes \<open>gitExec\<close>, whose outputs are trimmed.\<close>

definition scheduler_git :: "'s shell \<Rightarrow> 's repo \<Rightarrow> git_query" where
  "scheduler_git x w = (\<lambda>args cwd. case fst (gitExec x args cwd w) of Inl _ \<Rightarrow> None | Inr out \<Rightarrow> Some out)"

definition lines_of :: "string option \<Rightarrow> (string \<Rightarrow> string list) \<Rightarrow> string list" where
  "lines_of out parse = (case out of None \<Rightarrow> [] | Some t \<Rightarrow> parse t)"

definition getWorktreeFiles :: "git_query \<Rightarrow> (string \<Rightarrow> bool) \<Rightarrow> string \<Rightarrow> active_run \<Rightarrow> string list" where
  "getWorktreeFiles git pathExists defaultBranch run =
     (case ar_worktreePath run of
        None \<Rightarrow> []
      | Some w \<Rightarrow>
          if w = [] \<or> \<not> pathExists w then []
          else setOf (lines_of (git [''diff'', ''--name-only'', ''origin/'' @ defaultBranch @ ''...HEAD''] w) parseGitLines @
                      lines_of (git [''status'', ''--porcelain''] w) parseStatusPaths))"

definition run_files :: "git_query \<Rightarrow> (string \<Rightarrow> bool) \<Rightarrow> string \<Rightarrow> string \<Rightarrow> active_run \<Rightarrow> string list" where
  "run_files git pathExists defaultBranch repoDir run =
     (case git [''rev-parse'', ''--verify'', ''--quiet'', ''origin/'' @ ar_branch run] repoDir of
        Some _ \<Rightarrow>
          setOf (lines_of (git [''diff'', ''--name-only'',
            ''origin/'' @ defaultBranch @ ''..origin/'' @ ar_branch run] repoDir) parseGitLines)
      | None \<Rightarrow> getWorktreeFiles git pathExists defaultBranch run)"

text \<open>The fetch in front only refreshes what git answers. The runs have different issues.\<close>

definition getActiveFileMaps ::
  "git_query \<Rightarrow> (string \<Rightarrow> bool) \<Rightarrow> string \<Rightarrow> string \<Rightarrow> active_run list \<Rightarrow> (issue_id, string list) js_map" where
  "getActiveFileMaps git pathExists defaultBranch repoDir actives =
     foldl (\<lambda>m r. mapSet m (ar_issueId r) (run_files git pathExists defaultBranch repoDir r)) [] actives"

section \<open>The prediction\<close>

definition MAX_FILE_PATH_LENGTH :: nat where
  "MAX_FILE_PATH_LENGTH = 500"

record conflict_check =
  cc_overlapRisk :: json
  cc_likelyFiles :: json
  cc_reasoning :: json

definition or_else :: "json option \<Rightarrow> json \<Rightarrow> json" where
  "or_else v d = (case v of None \<Rightarrow> d | Some JNull \<Rightarrow> d | Some j \<Rightarrow> j)"

definition prompt_files :: "(issue_id, string list) js_map \<Rightarrow> string list" where
  "prompt_files active = map (\<lambda>f. take MAX_FILE_PATH_LENGTH (safe_path f)) (concat (map snd active))"

definition conflict_prompt :: "string list \<Rightarrow> string \<Rightarrow> string" where
  "conflict_prompt files description =
     ''You are analyzing whether a new issue would conflict with files already being modified.'' @ lf @ lf @
     ''Files currently being modified by in-flight issues:'' @ lf @ joinWith lf files @ lf @ lf @
     ''New issue description:'' @ lf @ description @ lf @ lf @
     ''Return ONLY a JSON object: { '' @ [CHR 0x22] @ ''likelyFiles'' @ [CHR 0x22] @ '': ['' @ [CHR 0x22] @
     ''file paths this issue would touch'' @ [CHR 0x22] @ ''], '' @ [CHR 0x22] @ ''overlapRisk'' @ [CHR 0x22] @ '': '' @
     [CHR 0x22] @ ''none'' @ [CHR 0x22] @ ''|'' @ [CHR 0x22] @ ''low'' @ [CHR 0x22] @ ''|'' @ [CHR 0x22] @ ''high'' @
     [CHR 0x22] @ '', '' @ [CHR 0x22] @ ''reasoning'' @ [CHR 0x22] @ '': '' @ [CHR 0x22] @ ''one sentence'' @
     [CHR 0x22] @ '' }''"

definition predictConflict ::
  "(string \<Rightarrow> string option) \<Rightarrow> (string \<Rightarrow> json option) \<Rightarrow> (string \<Rightarrow> string) \<Rightarrow> string \<Rightarrow>
   (issue_id, string list) js_map \<Rightarrow> conflict_check" where
  "predictConflict callClaude parse sanitize description active =
     (if concat (map snd active) = []
      then \<lparr>cc_overlapRisk = JStr ''none'', cc_likelyFiles = JArr [],
            cc_reasoning = JStr ''no active runs with known files''\<rparr>
      else (let failed = \<lparr>cc_overlapRisk = JStr ''low'', cc_likelyFiles = JArr [],
                  cc_reasoning = JStr ''prediction failed, defaulting to low''\<rparr>
            in case callClaude (conflict_prompt (prompt_files active) (sanitize description)) of
                 None \<Rightarrow> failed
               | Some response \<Rightarrow>
                   (case parseJsonObject parse response of
                      None \<Rightarrow> failed
                    | Some p \<Rightarrow>
                        \<lparr>cc_overlapRisk = or_else (json_get p ''overlapRisk'') (JStr ''low''),
                         cc_likelyFiles = or_else (json_get p ''likelyFiles'') (JArr []),
                         cc_reasoning = or_else (json_get p ''reasoning'') (JStr [])\<rparr>)))"

end
