(* ===== verification/ConflictProps.thy ===== *)
theory ConflictProps
  imports Conflict GitProps
begin

text \<open>
  What the conflict detection promises: the matrix holds each pair that shares a file, the selection is
  disjoint and leaves nothing out without a reason; and where it is blind.
\<close>

section \<open>The matrix is exact\<close>

lemma share_file_sym: "share_file a b = share_file b a"
  by (auto simp: share_file_def list_ex_iff)

lemma row_of_set: "row_of (mapSet m k v) j = (if j = k then v else row_of m j)"
  by (simp add: row_of_def)

text \<open>
  The rows after the inner loop: the row of \<open>a\<close> gets the issues that share a file, and each of them gets \<open>a\<close>.
\<close>

lemma inner_rows:
  assumes "if_issueId a \<notin> if_issueId ` set rest" "distinct (map if_issueId rest)"
  shows "row_of (foldl (add_conflict a) m rest) k =
    (if k = if_issueId a then row_of m k @ map if_issueId (filter (share_file a) rest)
     else row_of m k @ (if \<exists>b \<in> set rest. if_issueId b = k \<and> share_file a b then [if_issueId a] else []))"
  using assms
proof (induction rest arbitrary: m)
  case (Cons b rest)
  have step: "row_of (add_conflict a m b) j =
      (if share_file a b \<and> j = if_issueId a then row_of m j @ [if_issueId b]
       else if share_file a b \<and> j = if_issueId b then row_of m j @ [if_issueId a] else row_of m j)" for j
    using Cons.prems by (auto simp: add_conflict_def Let_def row_of_set)
  have fresh: "if_issueId b \<notin> if_issueId ` set rest" using Cons.prems by simp
  show ?case
  proof (cases "k = if_issueId a")
    case True
    then show ?thesis using Cons by (auto simp: step)
  next
    case False
    let ?hit = "\<lambda>bs. \<exists>c \<in> set bs. if_issueId c = k \<and> share_file a c"
    have rest: "row_of (foldl (add_conflict a) m (b # rest)) k =
        row_of (add_conflict a m b) k @ (if ?hit rest then [if_issueId a] else [])"
      using Cons.IH [of "add_conflict a m b"] Cons.prems False by simp
    show ?thesis
    proof (cases "k = if_issueId b")
      case True
      then have "\<not> ?hit rest" "?hit (b # rest) = share_file a b" using fresh by (auto simp: image_iff)
      with False True show ?thesis unfolding rest step by (simp only: if_False if_True simp_thms split: if_split) simp
    next
      case other: False
      then have "?hit (b # rest) = ?hit rest" by auto
      with False other show ?thesis unfolding rest step by (simp only: if_False if_True simp_thms)
    qed
  qed
qed simp

lemma matrix_rows:
  assumes "distinct (map if_issueId issues)"
  shows "row_of (matrix_from issues m) k = row_of m k @
    (case find (\<lambda>a. if_issueId a = k) issues of
       None \<Rightarrow> []
     | Some a \<Rightarrow> map if_issueId (filter (\<lambda>b. if_issueId b \<noteq> k \<and> share_file a b) issues))"
  using assms
proof (induction issues arbitrary: m)
  case (Cons a rest)
  let ?m = "if mapHas m (if_issueId a) then m else mapSet m (if_issueId a) []"
  have m: "row_of ?m j = row_of m j" for j
    by (auto simp: row_of_def split: option.split)
  have fresh: "if_issueId a \<notin> if_issueId ` set rest" "distinct (map if_issueId rest)"
    using Cons.prems by auto
  note rows = Cons.IH [OF fresh(2), of "foldl (add_conflict a) ?m rest"] inner_rows [OF fresh, of ?m k] m [of k]
  show ?case
  proof (cases "k = if_issueId a")
    case True
    have none: "find (\<lambda>b. if_issueId b = k) rest = None"
      using fresh(1) True by (auto simp: find_None_iff image_iff)
    have "filter (\<lambda>b. if_issueId b \<noteq> k \<and> share_file a b) rest = filter (share_file a) rest"
      using fresh(1) True by (intro filter_cong) (auto simp: image_iff)
    with rows none True show ?thesis by simp
  next
    case False
    show ?thesis
    proof (cases "find (\<lambda>b. if_issueId b = k) rest")
      case None
      then have "\<not> (\<exists>b \<in> set rest. if_issueId b = k \<and> share_file a b)" by (auto simp: find_None_iff)
      with rows None False show ?thesis by simp
    next
      case (Some b)
      then have b: "b \<in> set rest" "if_issueId b = k" by (auto simp: find_Some_iff)
      have "c = b" if "c \<in> set rest" "if_issueId c = k" for c
        using that b fresh(2) by (metis distinct_map inj_onD)
      then have "(\<exists>c \<in> set rest. if_issueId c = k \<and> share_file a c) = share_file a b" using b by blast
      with rows Some False show ?thesis by (simp add: share_file_sym [of b a])
    qed
  qed
qed simp


text \<open>
  The matrix is exact: the row of an issue holds, in the order of the list, the other issues that share a file
  with it, and nothing else; so it is symmetric.
\<close>
theorem conflict_matrix_exact:
  assumes "distinct (map if_issueId issues)" "a \<in> set issues"
  shows "row_of (buildConflictMatrix issues) (if_issueId a) =
    map if_issueId (filter (\<lambda>b. if_issueId b \<noteq> if_issueId a \<and> share_file a b) issues)"
proof -
  have "find (\<lambda>b. if_issueId b = if_issueId a) issues \<noteq> None" using assms(2) by (auto simp: find_None_iff)
  then obtain b where b: "find (\<lambda>b. if_issueId b = if_issueId a) issues = Some b" by blast
  then have "b \<in> set issues" "if_issueId b = if_issueId a" by (auto simp: find_Some_iff)
  with assms have "b = a" by (metis distinct_map inj_onD)
  with b matrix_rows [OF assms(1), of "[]" "if_issueId a"] show ?thesis
    by (simp add: buildConflictMatrix_def row_of_def)
qed

definition demo_issues :: "issue_files list" where
  "demo_issues = [\<lparr>if_issueId = ''A'', if_priority = 3, if_files = [''a.ts'']\<rparr>,
     \<lparr>if_issueId = ''B'', if_priority = 1, if_files = [''b.ts'', ''a.ts'']\<rparr>,
     \<lparr>if_issueId = ''C'', if_priority = 0, if_files = [''c.ts'']\<rparr>]"

theorem conflict_matrix_exact_witness: "row_of (buildConflictMatrix demo_issues) ''A'' = [''B'']"
proof -
  have "distinct (map if_issueId demo_issues)" "hd demo_issues \<in> set demo_issues"
    by (simp_all add: demo_issues_def)
  from conflict_matrix_exact [OF this] show ?thesis by (simp add: demo_issues_def share_file_def)
qed

section \<open>The selection\<close>

lemma select_subset: "set (select_disjoint assigned as) \<subseteq> set as"
  by (induction assigned as rule: select_disjoint.induct) auto

lemma select_sorted: "sorted (map priority_rank as) \<Longrightarrow> sorted (map priority_rank (select_disjoint assigned as))"
  by (induction assigned as rule: select_disjoint.induct) (use select_subset in auto)

definition disjoint_files :: "issue_files \<Rightarrow> issue_files \<Rightarrow> bool" where
  "disjoint_files a b \<longleftrightarrow> set (if_files a) \<inter> set (if_files b) = {}"

lemma select_avoids: "b \<in> set (select_disjoint assigned as) \<Longrightarrow> set (if_files b) \<inter> set assigned = {}"
  by (induction assigned as rule: select_disjoint.induct) (auto simp: list_ex_iff split: if_splits)

lemma select_pairwise: "sorted_wrt disjoint_files (select_disjoint assigned as)"
  by (induction assigned as rule: select_disjoint.induct) (auto simp: disjoint_files_def dest!: select_avoids)

lemma select_reason:
  assumes "a \<in> set as" "a \<notin> set (select_disjoint assigned as)" "sorted (map priority_rank as)"
  shows "set (if_files a) \<inter> set assigned \<noteq> {} \<or>
    (\<exists>s \<in> set (select_disjoint assigned as). priority_rank s \<le> priority_rank a \<and> \<not> disjoint_files s a)"
  using assms
proof (induction assigned as rule: select_disjoint.induct)
  case (2 assigned b as)
  show ?case
  proof (cases "list_ex (\<lambda>f. f \<in> set assigned) (if_files b)")
    case True
    with 2 show ?thesis by (auto simp: list_ex_iff)
  next
    case False
    with 2(3,4) have a: "a \<in> set as" "a \<notin> set (select_disjoint (assigned @ if_files b) as)" by auto
    moreover have "sorted (map priority_rank as)" "priority_rank b \<le> priority_rank a" using 2(5) a(1) by auto
    ultimately show ?thesis using 2(2) [OF False] False by (auto simp: disjoint_files_def)
  qed
qed simp

text \<open>
  C26. The issues selected for parallel work share no file pairwise and come most urgent first; an issue is
  deferred only for one that is selected, at least as urgent, and shares a file with it.
\<close>
theorem selection_sound:
  "let chosen = sortAndFilterNonConflicting issues
   in sorted_wrt disjoint_files chosen \<and> sorted (map priority_rank chosen) \<and> set chosen \<subseteq> set issues \<and>
      list_all (\<lambda>a. a \<in> set chosen \<or>
        list_ex (\<lambda>s. priority_rank s \<le> priority_rank a \<and> \<not> disjoint_files s a) chosen) issues"
proof -
  let ?s = "sort_key priority_rank issues"
  have "sorted (map priority_rank (select_disjoint [] ?s))" by (rule select_sorted) simp
  moreover have "set (select_disjoint [] ?s) \<subseteq> set issues" using select_subset [of "[]" ?s] by simp
  moreover have "a \<in> set (select_disjoint [] ?s) \<or>
      list_ex (\<lambda>s. priority_rank s \<le> priority_rank a \<and> \<not> disjoint_files s a) (select_disjoint [] ?s)"
    if "a \<in> set issues" for a
    using select_reason [of a ?s "[]"] that by (auto simp: list_ex_iff)
  ultimately show ?thesis
    using select_pairwise by (simp add: sortAndFilterNonConflicting_def Let_def list_all_iff)
qed

section \<open>What the prediction knows\<close>

text \<open>The prompt names no file with a line break or a quote in it, and none longer than the limit.\<close>

lemma prompt_files_safe:
  "list_all (\<lambda>f. list_all path_char f \<and> length f \<le> MAX_FILE_PATH_LENGTH) (prompt_files active)"
  by (auto simp: prompt_files_def list_all_iff safe_path_def dest: in_set_takeD)

lemma values_update: "snd ` set (mapSet m k v) \<subseteq> insert v (snd ` set m)"
  by (induction m) auto

lemma file_maps_values:
  "snd ` set (foldl (\<lambda>m r. mapSet m (ar_issueId r) (f r)) m actives) \<subseteq> snd ` set m \<union> f ` set actives"
proof (induction actives arbitrary: m)
  case (Cons r actives)
  from Cons [of "mapSet m (ar_issueId r) (f r)"] values_update [of "ar_issueId r" "f r" m]
  show ?case by auto
qed simp

text \<open>
  The detection fails open: when git fails in the clone and the worktrees, every run has no files, the model is
  not asked, and the answer is that there is no risk.
\<close>
theorem blind_without_git:
  "predictConflict callClaude parse sanitize description
     (getActiveFileMaps (\<lambda>args cwd. None) pathExists defaultBranch repoDir actives) =
   \<lparr>cc_overlapRisk = JStr ''none'', cc_likelyFiles = JArr [],
    cc_reasoning = JStr ''no active runs with known files''\<rparr>"
proof -
  have "setOf ([] :: string list) = []" by (simp add: setOf_def)
  then have empty: "run_files (\<lambda>args cwd. None) pathExists defaultBranch repoDir r = []" for r
    by (simp add: run_files_def getWorktreeFiles_def lines_of_def split: option.split)
  have "snd ` set (getActiveFileMaps (\<lambda>args cwd. None) pathExists defaultBranch repoDir actives) \<subseteq> {[]}"
    using file_maps_values [of "run_files (\<lambda>args cwd. None) pathExists defaultBranch repoDir" "[]" actives]
    by (auto simp: getActiveFileMaps_def empty)
  then have "concat (map snd (getActiveFileMaps (\<lambda>args cwd. None) pathExists defaultBranch repoDir actives)) = []"
    by (auto simp: concat_eq_Nil_conv)
  then show ?thesis by (simp add: predictConflict_def)
qed

definition status_shell :: "string \<Rightarrow> unit shell" where
  "status_shell status = (\<lambda>c s. (case c of
     GitCmd _ args \<Rightarrow> if hd args = ''status'' then Inr status
       else if hd args = ''diff'' then Inr [] else Inl ''unknown revision''
   | _ \<Rightarrow> Inr [], s))"

text \<open>
  The scheduler reads the status of a worktree trimmed, and with the blank in front goes the column of a file
  that is changed and not staged: the first such file is read without its first letter, and an overlap on it is
  missed. The parser itself reads the untrimmed status right.
\<close>
theorem first_changed_file_missed:
  "run_files (scheduler_git (status_shell '' M src/login.ts'') \<lparr>rp_world = (), rp_cmds = []\<rparr>) (\<lambda>p. True)
     ''main'' ''/repo''
     \<lparr>ar_issueId = ''BEC-1'', ar_branch = ''agent/BEC-1-x'', ar_worktreePath = Some ''/runs/1''\<rparr> = [''rc/login.ts''] \<and>
   parseStatusPaths '' M src/login.ts'' = [''src/login.ts'']"
  by code_simp

end
