(* ===== verification/Sync.thy ===== *)
theory Sync
  imports Prelude
begin

text \<open>
  Open issues of GitHub become tickets of Linear, and issues whose ticket is completed are closed
  (\<open>packages/core/src/sync/gh-linear-sync.ts\<close>). The two clients are parameters over a state \<open>'s\<close> of the services. The two
  messages about the configuration are shortened.
\<close>

section \<open>Data\<close>

record gh_issue =
  gi_number :: nat
  gi_title :: string
  gi_body :: "string option"
  gi_html_url :: string

record sync_ticket =
  sy_identifier :: string
  sy_stateName :: "string option"
  sy_stateType :: "string option"

record sync_config =
  yc_githubRepo :: string
  yc_labelFilters :: "string list option"
  yc_triageStateName :: "string option"
  yc_bidirectionalClose :: bool
  yc_dryRun :: bool

text \<open>
  The clients: the workflow states with their ids; the issues with a label; the first ticket whose title starts
  with a prefix; creating a ticket from a title, a description and a state, which answers whether there is one;
  closing an issue. A left value is an error.
\<close>

record 's sync_clients =
  sc_states :: "'s \<Rightarrow> string + (string \<times> string) list"
  sc_list :: "'s \<Rightarrow> string option \<Rightarrow> string + gh_issue list"
  sc_lookup :: "'s \<Rightarrow> string \<Rightarrow> string + sync_ticket option"
  sc_create :: "'s \<Rightarrow> string \<Rightarrow> string \<Rightarrow> string \<Rightarrow> (string + bool) \<times> 's"
  sc_close :: "'s \<Rightarrow> nat \<Rightarrow> (string + unit) \<times> 's"

record sync_result =
  sr_processed :: nat
  sr_created :: nat
  sr_skipped :: nat
  sr_closed :: nat
  sr_errors :: "string list"

section \<open>Tickets\<close>

definition DEFAULT_TRIAGE_STATE_NAME :: string where
  "DEFAULT_TRIAGE_STATE_NAME = ''Triage''"

definition makeIdempotencyMarker :: "nat \<Rightarrow> string" where
  "makeIdempotencyMarker n = ''<!-- gh-linear-sync:'' @ show_nat n @ '' -->''"

definition title_prefix :: "nat \<Rightarrow> string" where
  "title_prefix n = ''[GH#'' @ show_nat n @ '']''"

definition findLinearTicketForGhIssue :: "'s sync_clients \<Rightarrow> nat \<Rightarrow> 's \<Rightarrow> string + sync_ticket option" where
  "findLinearTicketForGhIssue c n w = sc_lookup c w (title_prefix n)"

definition ticket_title :: "gh_issue \<Rightarrow> string" where
  "ticket_title i = title_prefix (gi_number i) @ '' '' @ gi_title i"

definition ticket_description :: "gh_issue \<Rightarrow> string" where
  "ticket_description i =
     joinWith [CHR 0x0A]
       [case gi_body i of None \<Rightarrow> [] | Some b \<Rightarrow> b, [], ''---'',
        ''**Source:** [GitHub Issue #'' @ show_nat (gi_number i) @ ''](''  @ gi_html_url i @ '')'', [],
        makeIdempotencyMarker (gi_number i)]"

definition createLinearTicketForGhIssue ::
  "'s sync_clients \<Rightarrow> gh_issue \<Rightarrow> string \<Rightarrow> 's \<Rightarrow> (string + unit) \<times> 's" where
  "createLinearTicketForGhIssue c i stateId w =
     (case sc_create c w (ticket_title i) (ticket_description i) stateId of
        (Inl e, w1) \<Rightarrow> (Inl e, w1)
      | (Inr present, w1) \<Rightarrow>
          (if present then Inr ()
           else Inl (''Linear createIssue returned no issue for GH#'' @ show_nat (gi_number i)), w1))"

definition is_done :: "sync_ticket \<Rightarrow> bool" where
  "is_done t \<longleftrightarrow> sy_stateType t = Some ''completed'' \<or>
     (case sy_stateName t of None \<Rightarrow> False | Some n \<Rightarrow> toLowerCase n = ''done'')"

section \<open>A run\<close>

datatype sync_action = Create | Close

definition no_result :: sync_result where
  "no_result = \<lparr>sr_processed = 0, sr_created = 0, sr_skipped = 0, sr_closed = 0, sr_errors = []\<rparr>"

fun list_labels :: "'s sync_clients \<Rightarrow> 's \<Rightarrow> string list \<Rightarrow> string + gh_issue list list" where
  "list_labels c w [] = Inr []"
| "list_labels c w (l # ls) =
     (case sc_list c w (Some l) of
        Inl e \<Rightarrow> Inl e
      | Inr xs \<Rightarrow> (case list_labels c w ls of Inl e \<Rightarrow> Inl e | Inr xss \<Rightarrow> Inr (xs # xss)))"

text \<open>The first issue of each number.\<close>

fun first_of_number :: "nat set \<Rightarrow> gh_issue list \<Rightarrow> gh_issue list" where
  "first_of_number seen [] = []"
| "first_of_number seen (i # is) =
     (if gi_number i \<in> seen then first_of_number seen is
      else i # first_of_number (insert (gi_number i) seen) is)"

definition fetch_issues :: "'s sync_clients \<Rightarrow> sync_config \<Rightarrow> 's \<Rightarrow> string + gh_issue list" where
  "fetch_issues c cfg w =
     (case yc_labelFilters cfg of
        None \<Rightarrow> sc_list c w None
      | Some ls \<Rightarrow>
          (if length ls \<le> 1 then sc_list c w (case ls of [] \<Rightarrow> None | l # _ \<Rightarrow> Some l)
           else (case list_labels c w ls of
               Inl e \<Rightarrow> Inl e | Inr xss \<Rightarrow> Inr (first_of_number {} (concat xss)))))"

text \<open>A lookup that fails is treated as not found.\<close>

definition existing_ticket :: "'s sync_clients \<Rightarrow> 's \<Rightarrow> gh_issue \<Rightarrow> sync_ticket option" where
  "existing_ticket c w i =
     (case findLinearTicketForGhIssue c (gi_number i) w of Inl _ \<Rightarrow> None | Inr t \<Rightarrow> t)"

definition planned :: "sync_config \<Rightarrow> gh_issue \<times> sync_ticket option \<Rightarrow> sync_action option" where
  "planned cfg p =
     (case snd p of
        None \<Rightarrow> Some Create
      | Some t \<Rightarrow> if yc_bidirectionalClose cfg \<and> is_done t then Some Close else None)"

fun pending :: "sync_config \<Rightarrow> (gh_issue \<times> sync_ticket option) list \<Rightarrow> (gh_issue \<times> sync_action) list" where
  "pending cfg [] = []"
| "pending cfg (p # ps) =
     (case planned cfg p of None \<Rightarrow> pending cfg ps | Some a \<Rightarrow> (fst p, a) # pending cfg ps)"

definition do_write ::
  "'s sync_clients \<Rightarrow> string \<Rightarrow> gh_issue \<times> sync_action \<Rightarrow> 's \<Rightarrow> (string + unit) \<times> 's" where
  "do_write c stateId p w =
     (case snd p of
        Create \<Rightarrow> createLinearTicketForGhIssue c (fst p) stateId w
      | Close \<Rightarrow> sc_close c w (gi_number (fst p)))"

text \<open>The writes go out together and none stops another; the counters follow the answers.\<close>

definition tally :: "gh_issue \<times> sync_action \<Rightarrow> string + unit \<Rightarrow> sync_result \<Rightarrow> sync_result" where
  "tally p answer r =
     (case answer of
        Inl e \<Rightarrow> r\<lparr>sr_errors := sr_errors r @ [''GH#'' @ show_nat (gi_number (fst p)) @ '': '' @ e]\<rparr>
      | Inr _ \<Rightarrow> (case snd p of Create \<Rightarrow> r\<lparr>sr_created := sr_created r + 1\<rparr>
                             | Close \<Rightarrow> r\<lparr>sr_closed := sr_closed r + 1\<rparr>))"

fun do_writes ::
  "'s sync_clients \<Rightarrow> string \<Rightarrow> (gh_issue \<times> sync_action) list \<Rightarrow> sync_result \<Rightarrow> 's \<Rightarrow> sync_result \<times> 's" where
  "do_writes c stateId [] r w = (r, w)"
| "do_writes c stateId (p # ps) r w =
     (let (answer, w1) = do_write c stateId p w in do_writes c stateId ps (tally p answer r) w1)"

definition sync_issues ::
  "'s sync_clients \<Rightarrow> sync_config \<Rightarrow> string \<Rightarrow> gh_issue list \<Rightarrow> 's \<Rightarrow> sync_result \<times> 's" where
  "sync_issues c cfg stateId issues w =
     (let ps = map (\<lambda>i. (i, existing_ticket c w i)) issues;
          todo = pending cfg ps;
          count = (\<lambda>a. length (filter (\<lambda>p. snd p = a) todo));
          r = no_result\<lparr>sr_processed := length issues,
                sr_skipped := length (filter (\<lambda>p. snd p \<noteq> None) ps)\<rparr>
      in if yc_dryRun cfg then (r\<lparr>sr_created := count Create, sr_closed := count Close\<rparr>, w)
         else do_writes c stateId todo r w)"

definition runGhLinearSync :: "'s sync_clients \<Rightarrow> sync_config \<Rightarrow> 's \<Rightarrow> (string + sync_result) \<times> 's" where
  "runGhLinearSync c cfg w =
     (let stateName = (case yc_triageStateName cfg of None \<Rightarrow> DEFAULT_TRIAGE_STATE_NAME | Some n \<Rightarrow> n)
      in case sc_states c w of
           Inl e \<Rightarrow> (Inl e, w)
         | Inr states \<Rightarrow>
             (case find (\<lambda>(name, i). name = stateName) states of
                None \<Rightarrow> (Inl (''Linear state not found: '' @ stateName), w)
              | Some (_, stateId) \<Rightarrow>
                  (case split_char CHR ''/'' (yc_githubRepo cfg) of
                     [owner, repo] \<Rightarrow>
                       if owner = [] \<or> repo = [] then (Inl (''Invalid githubRepo format'' @ yc_githubRepo cfg), w)
                       else (case fetch_issues c cfg w of
                           Inl e \<Rightarrow> (Inl e, w)
                         | Inr issues \<Rightarrow>
                             (let (r, w1) = sync_issues c cfg stateId issues w in (Inr r, w1)))
                   | _ \<Rightarrow> (Inl (''Invalid githubRepo format'' @ yc_githubRepo cfg), w))))"

section \<open>What a run does\<close>

lemma first_of_number_set: "gi_number ` set (first_of_number seen is) = gi_number ` set is - seen"
  by (induction seen "is" rule: first_of_number.induct) auto

text \<open>Every label's issues are processed, each number once.\<close>

lemma first_of_number_distinct: "distinct (map gi_number (first_of_number seen is))"
  by (induction seen "is" rule: first_of_number.induct) (auto simp: first_of_number_set image_iff set_eq_iff)

lemma do_writes_account:
  "let r' = fst (do_writes c stateId ps r w)
   in sr_processed r' = sr_processed r \<and> sr_skipped r' = sr_skipped r \<and>
      sr_created r' + sr_closed r' + length (sr_errors r') =
        sr_created r + sr_closed r + length (sr_errors r) + length ps"
proof (induction ps arbitrary: r w)
  case (Cons p ps)
  obtain a w1 where a: "do_write c stateId p w = (a, w1)" by fastforce
  show ?case
    using Cons [of "tally p a r" w1]
    by (cases a; cases "snd p") (simp_all add: a Let_def tally_def)
qed simp

lemma pending_length:
  "length (filter (\<lambda>p. snd p = None) ps) \<le> length (pending cfg ps) \<and> length (pending cfg ps) \<le> length ps"
  by (induction ps) (auto simp: planned_def split: option.split)

text \<open>
  The report of a run accounts for every issue: the tickets it created, the tickets that were there, and the
  creations that failed are the issues it processed; an error is a write that failed.
\<close>
theorem sync_accounts:
  "let r = fst (sync_issues c cfg stateId issues w);
       todo = pending cfg (map (\<lambda>i. (i, existing_ticket c w i)) issues)
   in sr_processed r = length issues \<and>
      sr_created r + sr_closed r + length (sr_errors r) = length todo \<and>
      sr_skipped r + length (filter (\<lambda>p. snd p = Create) todo) = length issues"
proof -
  let ?ps = "map (\<lambda>i. (i, existing_ticket c w i)) issues"
  have creates: "length (filter (\<lambda>p. snd p \<noteq> None) ps) + length (filter (\<lambda>p. snd p = Create) (pending cfg ps)) = length ps"
    for ps :: "(gh_issue \<times> sync_ticket option) list"
    by (induction ps) (auto simp: planned_def split: option.splits)
  have split: "length (filter (\<lambda>p. snd p = Create) todo) + length (filter (\<lambda>p. snd p = Close) todo) = length todo"
    for todo :: "(gh_issue \<times> sync_action) list"
  proof (induction todo)
    case (Cons p todo)
    then show ?case by (cases "snd p") simp_all
  qed simp
  show ?thesis
    using do_writes_account [of c stateId "pending cfg ?ps"
        "no_result\<lparr>sr_processed := length issues, sr_skipped := length (filter (\<lambda>p. snd p \<noteq> None) ?ps)\<rparr>" w]
      creates [of ?ps] split [of "pending cfg ?ps"]
    by (simp add: sync_issues_def Let_def no_result_def)
qed

section \<open>Running twice\<close>

text \<open>
  What Linear promises, as far as the sync relies on it: a ticket that was created is found by the start of
  its title, creating and closing lose no ticket, and a lookup that answers does not depend on anything else.
\<close>

definition finds :: "'s sync_clients \<Rightarrow> 's \<Rightarrow> string \<Rightarrow> bool" where
  "finds c w p \<longleftrightarrow> (case sc_lookup c w p of Inr (Some _) \<Rightarrow> True | _ \<Rightarrow> False)"

definition linear_keeps :: "'s sync_clients \<Rightarrow> bool" where
  "linear_keeps c \<longleftrightarrow>
     (\<forall>w t d st p. finds c w p \<or> fst (sc_create c w t d st) = Inr True \<and> startsWith t p \<longrightarrow>
        finds c (snd (sc_create c w t d st)) p) \<and>
     (\<forall>w n p. finds c w p \<longrightarrow> finds c (snd (sc_close c w n)) p)"

lemma keeps_create: "linear_keeps c \<Longrightarrow> finds c w p \<Longrightarrow> finds c (snd (sc_create c w t d st)) p"
  unfolding linear_keeps_def by blast

lemma keeps_created:
  "linear_keeps c \<Longrightarrow> sc_create c w t d st = (Inr True, w') \<Longrightarrow> startsWith t p \<Longrightarrow> finds c w' p"
  unfolding linear_keeps_def by (metis fst_conv snd_conv)

lemma keeps_close: "linear_keeps c \<Longrightarrow> finds c w p \<Longrightarrow> finds c (snd (sc_close c w n)) p"
  unfolding linear_keeps_def by blast

definition has_ticket :: "'s sync_clients \<Rightarrow> 's \<Rightarrow> gh_issue \<Rightarrow> bool" where
  "has_ticket c w i \<longleftrightarrow> finds c w (title_prefix (gi_number i))"

lemma existing_has_ticket: "existing_ticket c w i \<noteq> None \<longleftrightarrow> has_ticket c w i"
  by (simp add: existing_ticket_def findLinearTicketForGhIssue_def has_ticket_def finds_def split: sum.split option.split)

lemma snd_create: "snd (createLinearTicketForGhIssue c i stateId w) =
    snd (sc_create c w (ticket_title i) (ticket_description i) stateId)"
  by (simp add: createLinearTicketForGhIssue_def split: prod.split sum.split)

lemma write_keeps:
  "linear_keeps c \<Longrightarrow> has_ticket c w i \<Longrightarrow> has_ticket c (snd (do_write c stateId p w)) i"
  by (cases "snd p") (simp_all add: do_write_def has_ticket_def snd_create keeps_create keeps_close)

lemma create_finds:
  assumes "linear_keeps c" "do_write c stateId (i, Create) w = (Inr (), w')"
  shows "has_ticket c w' i"
proof -
  have "sc_create c w (ticket_title i) (ticket_description i) stateId = (Inr True, w')"
    using assms(2) by (auto simp: do_write_def createLinearTicketForGhIssue_def split: prod.splits sum.splits if_splits)
  moreover have "startsWith (ticket_title i) (title_prefix (gi_number i))" by (simp add: ticket_title_def)
  ultimately show ?thesis unfolding has_ticket_def by (rule keeps_created [OF assms(1)])
qed

lemma errors_grow: "\<exists>es. sr_errors (fst (do_writes c stateId ps r w)) = sr_errors r @ es"
proof (induction ps arbitrary: r w)
  case (Cons p ps)
  obtain a w1 where a: "do_write c stateId p w = (a, w1)" by fastforce
  show ?case using Cons [of "tally p a r" w1]
    by (cases a; cases "snd p") (auto simp: a Let_def tally_def)
qed simp

lemma writes_keep:
  assumes "linear_keeps c" "has_ticket c w i"
  shows "has_ticket c (snd (do_writes c stateId ps r w)) i"
  using assms(2)
proof (induction ps arbitrary: r w)
  case (Cons p ps)
  obtain a w1 where a: "do_write c stateId p w = (a, w1)" by fastforce
  with write_keeps [OF assms(1) Cons.prems, of stateId p] have "has_ticket c w1 i" by simp
  with Cons.IH show ?case by (simp add: a)
qed simp

lemma writes_create:
  assumes "linear_keeps c" "sr_errors (fst (do_writes c stateId ps r w)) = sr_errors r" "(i, Create) \<in> set ps"
  shows "has_ticket c (snd (do_writes c stateId ps r w)) i"
  using assms(2,3)
proof (induction ps arbitrary: r w)
  case (Cons p ps)
  obtain a w1 where a: "do_write c stateId p w = (a, w1)" by fastforce
  obtain es where es: "sr_errors (fst (do_writes c stateId ps (tally p a r) w1)) = sr_errors (tally p a r) @ es"
    using errors_grow [of c stateId ps "tally p a r" w1] by blast
  from Cons.prems(1) es have ok: "isl a = False" "sr_errors (tally p a r) = sr_errors r"
    by (cases a; cases "snd p"; simp add: a tally_def)+
  show ?case
  proof (cases "p = (i, Create)")
    case True
    with a ok(1) have "do_write c stateId (i, Create) w = (Inr (), w1)" by (cases a) simp_all
    from create_finds [OF assms(1) this] show ?thesis
      using writes_keep [OF assms(1)] by (simp add: a)
  next
    case False
    with Cons.prems ok Cons.IH [of "tally p a r" w1] show ?thesis by (simp add: a)
  qed
qed simp

lemma pending_create: "(i, None) \<in> set ps \<Longrightarrow> (i, Create) \<in> set (pending cfg ps)"
  by (induction ps) (auto simp: planned_def split: option.split)



definition demo_board :: "string list sync_clients" where
  "demo_board = \<lparr>sc_states = (\<lambda>w. Inr [(''Triage'', ''s1'')]),
     sc_list = (\<lambda>w l. Inr []),
     sc_lookup = (\<lambda>w p. Inr (map_option (\<lambda>t. \<lparr>sy_identifier = t, sy_stateName = Some ''Triage'', sy_stateType = None\<rparr>)
        (find (\<lambda>t. startsWith t p) w))),
     sc_create = (\<lambda>w t d st. (Inr True, w @ [t])), sc_close = (\<lambda>w n. (Inr (), w))\<rparr>"

definition demo_gh_issue :: gh_issue where
  "demo_gh_issue = \<lparr>gi_number = 7, gi_title = ''Crash'', gi_body = None, gi_html_url = ''u''\<rparr>"

definition demo_sync_config :: sync_config where
  "demo_sync_config = \<lparr>yc_githubRepo = ''o/r'', yc_labelFilters = None, yc_triageStateName = None,
     yc_bidirectionalClose = True, yc_dryRun = False\<rparr>"

lemma demo_board_keeps: "linear_keeps demo_board"
proof -
  have "finds demo_board w p \<longleftrightarrow> (\<exists>t \<in> set w. startsWith t p)" for w p
    by (auto simp: finds_def demo_board_def find_None_iff find_Some_iff split: option.split)
  then show ?thesis by (auto simp: linear_keeps_def) (auto simp: demo_board_def)
qed

lemma demo_sync_run:
  "sync_issues demo_board demo_sync_config ''s1'' [demo_gh_issue] [] =
     (\<lparr>sr_processed = 1, sr_created = 1, sr_skipped = 0, sr_closed = 0, sr_errors = []\<rparr>, [''[GH#7] Crash''])"
  by code_simp


text \<open>
  Without an answer from the lookups a run is not idempotent: it takes every issue for a new one and creates
  its ticket again, or reports that this failed; it skips none.
\<close>
theorem failed_lookups_duplicate:
  "let r = fst (sync_issues (c\<lparr>sc_lookup := \<lambda>w p. Inl e\<rparr>) (cfg\<lparr>yc_dryRun := False\<rparr>) stateId issues w)
   in sr_skipped r = 0 \<and> sr_closed r = 0 \<and> sr_created r + length (sr_errors r) = length issues"
proof -
  let ?c = "c\<lparr>sc_lookup := \<lambda>w p. Inl e\<rparr>" and ?cfg = "cfg\<lparr>yc_dryRun := False\<rparr>"
  have ps: "map (\<lambda>i. (i, existing_ticket ?c w i)) issues = map (\<lambda>i. (i, None)) issues"
    by (simp add: existing_ticket_def findLinearTicketForGhIssue_def)
  have todo: "pending ?cfg (map (\<lambda>i. (i, None)) is) = map (\<lambda>i. (i, Create)) is" for "is"
    by (induction "is") (simp_all add: planned_def)
  have closed: "sr_closed (fst (do_writes ?c stateId (map (\<lambda>i. (i, Create)) is) r v)) = sr_closed r" for "is" r v
  proof (induction "is" arbitrary: r v)
    case (Cons i "is")
    obtain a v1 where a: "do_write ?c stateId (i, Create) v = (a, v1)" by fastforce
    from Cons [of "tally (i, Create) a r" v1] show ?case by (cases a) (simp_all add: a tally_def)
  qed simp
  have run: "fst (sync_issues ?c ?cfg stateId issues w) =
      fst (do_writes ?c stateId (map (\<lambda>i. (i, Create)) issues) (no_result\<lparr>sr_processed := length issues\<rparr>) w)"
    by (simp add: sync_issues_def Let_def ps todo no_result_def filter_False comp_def)
  show ?thesis
    using do_writes_account [of ?c stateId "map (\<lambda>i. (i, Create)) issues" "no_result\<lparr>sr_processed := length issues\<rparr>" w]
    by (simp add: run closed Let_def no_result_def)
qed

end
