(* ===== verification/Observers.thy ===== *)
theory Observers
  imports Prelude
begin

text \<open>
  The quality observer (\<open>packages/observers/src\<close>): a tick computes findings and files those it has not seen.
  Computing the findings and filing an issue are parameters; filing answers an error, no address, or the
  address of the issue. The tables of the store are the lists of their keys.
\<close>

section \<open>The store\<close>

record finding =
  qf_fingerprint :: string
  qf_title :: string
  qf_body :: string

record obs_store =
  ob_fingerprints :: "string list"
  ob_meta :: "string list"

definition empty_store :: obs_store where
  "empty_store = \<lparr>ob_fingerprints = [], ob_meta = []\<rparr>"

definition FIRST_TICK_META_KEY :: string where
  "FIRST_TICK_META_KEY = ''firstTickAt''"

text \<open>\<open>INSERT OR IGNORE\<close> on a primary key.\<close>

definition insert_ignore :: "string \<Rightarrow> string list \<Rightarrow> string list" where
  "insert_ignore k ks = (if k \<in> set ks then ks else ks @ [k])"

definition isFirstTick :: "obs_store \<Rightarrow> bool" where
  "isFirstTick s \<longleftrightarrow> FIRST_TICK_META_KEY \<notin> set (ob_meta s)"

definition hasFingerprint :: "obs_store \<Rightarrow> string \<Rightarrow> bool" where
  "hasFingerprint s k \<longleftrightarrow> k \<in> set (ob_fingerprints s)"

definition registerFingerprint :: "obs_store \<Rightarrow> string \<Rightarrow> obs_store" where
  "registerFingerprint s k = s\<lparr>ob_fingerprints := insert_ignore k (ob_fingerprints s)\<rparr>"

definition setFirstTickAt :: "obs_store \<Rightarrow> obs_store" where
  "setFirstTickAt s = s\<lparr>ob_meta := insert_ignore FIRST_TICK_META_KEY (ob_meta s)\<rparr>"

definition countFingerprints :: "obs_store \<Rightarrow> nat" where
  "countFingerprints s = length (ob_fingerprints s)"

section \<open>A tick\<close>

definition seedDedupOnFirstTick :: "finding list \<Rightarrow> obs_store \<Rightarrow> nat \<times> obs_store" where
  "seedDedupOnFirstTick findings s =
     (length findings, setFirstTickAt (foldl (\<lambda>s f. registerFingerprint s (qf_fingerprint f)) s findings))"

text \<open>
  The filings of a tick are logged. An error of \<open>fileIssue\<close> ends the tick; what was registered before stays.
\<close>

record obs_state =
  os_store :: obs_store
  os_filed :: "string list"

fun processFindings ::
  "(finding \<Rightarrow> string + string option) \<Rightarrow> finding list \<Rightarrow> nat \<Rightarrow> nat \<Rightarrow> obs_state \<Rightarrow>
   (string + nat \<times> nat) \<times> obs_state" where
  "processFindings fileIssue [] filed skipped s = (Inr (filed, skipped), s)"
| "processFindings fileIssue (f # fs) filed skipped s =
     (if hasFingerprint (os_store s) (qf_fingerprint f) then processFindings fileIssue fs filed (skipped + 1) s
      else (case fileIssue f of
          Inl e \<Rightarrow> (Inl e, s)
        | Inr None \<Rightarrow> processFindings fileIssue fs filed skipped s
        | Inr (Some url) \<Rightarrow>
            processFindings fileIssue fs (filed + 1) skipped
              (s\<lparr>os_store := registerFingerprint (os_store s) (qf_fingerprint f),
                 os_filed := os_filed s @ [qf_fingerprint f]\<rparr>)))"

record tick_result =
  tr_firstTick :: bool
  tr_seeded :: nat
  tr_filed :: nat
  tr_skipped :: nat

definition observer_tick ::
  "bool \<Rightarrow> string + finding list \<Rightarrow> (finding \<Rightarrow> string + string option) \<Rightarrow> obs_state \<Rightarrow>
   (string + tick_result) \<times> obs_state" where
  "observer_tick forceFile findings fileIssue s =
     (let firstTick = isFirstTick (os_store s) in
      case findings of
        Inl e \<Rightarrow> (Inl e, s)
      | Inr fs \<Rightarrow>
          if firstTick \<and> \<not> forceFile
          then (let (n, st) = seedDedupOnFirstTick fs (os_store s)
                in (Inr \<lparr>tr_firstTick = True, tr_seeded = n, tr_filed = 0, tr_skipped = 0\<rparr>, s\<lparr>os_store := st\<rparr>))
          else (case processFindings fileIssue fs 0 0 s of
              (Inl e, s1) \<Rightarrow> (Inl e, s1)
            | (Inr (filed, skipped), s1) \<Rightarrow>
                (Inr \<lparr>tr_firstTick = firstTick, tr_seeded = 0, tr_filed = filed, tr_skipped = skipped\<rparr>,
                 if firstTick then s1\<lparr>os_store := setFirstTickAt (os_store s1)\<rparr> else s1)))"

section \<open>Runs that loop\<close>

record run_summary =
  rs_id :: run_id
  rs_run_status :: string
  rs_pr_url :: "string option"
  rs_total_turns :: nat

definition LOOP_TURN_THRESHOLD :: nat where
  "LOOP_TURN_THRESHOLD = 50"

definition findLoopingDeepReviews :: "run_summary list \<Rightarrow> (run_id \<times> nat) list" where
  "findLoopingDeepReviews rs =
     map (\<lambda>r. (rs_id r, rs_total_turns r))
       (filter (\<lambda>r. \<not> (rs_run_status r = ''completed'' \<and> rs_pr_url r \<noteq> None))
         (filter (\<lambda>r. rs_total_turns r > LOOP_TURN_THRESHOLD) rs))"

section \<open>Each finding is filed once\<close>

text \<open>Histories of ticks, each with its own findings, answers and flag.\<close>

inductive observer_reach :: "obs_state \<Rightarrow> bool" where
  fresh: "observer_reach \<lparr>os_store = empty_store, os_filed = []\<rparr>"
| step: "observer_reach s \<Longrightarrow> observer_reach (snd (observer_tick force findings fileIssue s))"

definition obs_inv :: "obs_state \<Rightarrow> bool" where
  "obs_inv s \<longleftrightarrow> distinct (os_filed s) \<and> set (os_filed s) \<subseteq> set (ob_fingerprints (os_store s)) \<and>
     distinct (ob_fingerprints (os_store s))"

lemma register_props:
  "set (ob_fingerprints (registerFingerprint st k)) = insert k (set (ob_fingerprints st))"
  "distinct (ob_fingerprints st) \<Longrightarrow> distinct (ob_fingerprints (registerFingerprint st k))"
  by (auto simp: registerFingerprint_def insert_ignore_def)

lemma first_props:
  "ob_fingerprints (setFirstTickAt st) = ob_fingerprints st" "\<not> isFirstTick (setFirstTickAt st)"
  by (auto simp: setFirstTickAt_def isFirstTick_def insert_ignore_def)

lemma seed_props:
  "set (ob_fingerprints (foldl (\<lambda>s f. registerFingerprint s (qf_fingerprint f)) st fs)) =
     set (ob_fingerprints st) \<union> qf_fingerprint ` set fs"
  "distinct (ob_fingerprints st) \<Longrightarrow>
     distinct (ob_fingerprints (foldl (\<lambda>s f. registerFingerprint s (qf_fingerprint f)) st fs))"
  by (induction fs arbitrary: st) (simp_all add: register_props)

lemma process_inv: "obs_inv s \<Longrightarrow> obs_inv (snd (processFindings answer fs a b s))"
proof (induction fs arbitrary: a b s)
  case (Cons f fs)
  show ?case
  proof (cases "hasFingerprint (os_store s) (qf_fingerprint f)")
    case True
    with Cons show ?thesis by simp
  next
    case False
    let ?s = "s\<lparr>os_store := registerFingerprint (os_store s) (qf_fingerprint f), os_filed := os_filed s @ [qf_fingerprint f]\<rparr>"
    have "obs_inv ?s" using Cons.prems False by (auto simp: obs_inv_def register_props hasFingerprint_def)
    with Cons False show ?thesis by (auto split: sum.split option.split)
  qed
qed simp

lemma first_inv: "obs_inv (s\<lparr>os_store := setFirstTickAt (os_store s)\<rparr>) = obs_inv s"
  by (simp add: obs_inv_def first_props)

lemma seed_inv: "obs_inv s \<Longrightarrow> obs_inv (s\<lparr>os_store := snd (seedDedupOnFirstTick fs (os_store s))\<rparr>)"
  by (auto simp: obs_inv_def seedDedupOnFirstTick_def first_props seed_props)

lemma tick_inv:
  assumes "obs_inv s"
  shows "obs_inv (snd (observer_tick force findings answer s))"
proof (cases findings)
  case (Inr fs)
  obtain r s1 where p: "processFindings answer fs 0 0 s = (r, s1)" by fastforce
  have "obs_inv s1" using process_inv [OF assms, of answer fs 0 0] by (simp add: p)
  with assms Inr p show ?thesis
    using seed_inv [OF assms, of fs] first_inv [of s1]
    by (cases r) (auto simp: observer_tick_def Let_def split: prod.split)
qed (simp add: observer_tick_def assms)

text \<open>
  C29. No finding is filed twice, over any history of ticks: whatever the findings and the answers, interrupted
  ticks included, the filings that succeeded are different findings and all of them are registered.
\<close>
theorem each_finding_filed_once:
  assumes "observer_reach s"
  shows "distinct (os_filed s) \<and> set (os_filed s) \<subseteq> set (ob_fingerprints (os_store s))"
proof -
  from assms have "obs_inv s"
  proof induction
    case fresh
    then show ?case by (simp add: obs_inv_def empty_store_def)
  qed (rule tick_inv)
  then show ?thesis by (simp add: obs_inv_def)
qed

theorem each_finding_filed_once_witness:
  "let f = \<lparr>qf_fingerprint = ''a'', qf_title = ''t'', qf_body = ''b''\<rparr>;
       t = (\<lambda>s. snd (observer_tick True (Inr [f, f]) (\<lambda>f. Inr (Some ''url'')) s))
   in os_filed (t (t \<lparr>os_store = empty_store, os_filed = []\<rparr>)) = [''a''] \<and>
      distinct (os_filed (t (t \<lparr>os_store = empty_store, os_filed = []\<rparr>)))"
proof -
  let ?f = "\<lparr>qf_fingerprint = ''a'', qf_title = ''t'', qf_body = ''b''\<rparr>"
  let ?t = "\<lambda>s. snd (observer_tick True (Inr [?f, ?f]) (\<lambda>f. Inr (Some ''url'')) s)"
  have "observer_reach (?t (?t \<lparr>os_store = empty_store, os_filed = []\<rparr>))" by (intro observer_reach.intros)
  from each_finding_filed_once [OF this]
  have "distinct (os_filed (?t (?t \<lparr>os_store = empty_store, os_filed = []\<rparr>)))" by simp
  moreover have "os_filed (?t (?t \<lparr>os_store = empty_store, os_filed = []\<rparr>)) = [''a'']" by code_simp
  ultimately show ?thesis by (simp only: Let_def simp_thms)
qed

text \<open>The first tick of a fresh store floods nobody: without the flag it registers every finding and files none.\<close>

lemma first_tick_silent:
  "isFirstTick (os_store s) \<Longrightarrow>
   let (r, s') = observer_tick False (Inr fs) answer s
   in os_filed s' = os_filed s \<and> \<not> isFirstTick (os_store s') \<and>
      qf_fingerprint ` set fs \<subseteq> set (ob_fingerprints (os_store s'))"
  by (auto simp: observer_tick_def seedDedupOnFirstTick_def Let_def first_props seed_props)

end
