(* ===== verification/Slack.thy ===== *)
theory Slack
  imports RunControl Triage Sanitizer
begin

text \<open>
  The Slack interface of the PM agent (\<open>packages/core/src/pm/slack-interface.ts\<close>, \<open>slack-commands.ts\<close>,
  \<open>slack-bulk.ts\<close>, \<open>pause-state.ts\<close>): requests from Slack, the commands in them, and what a command does to
  the runner of \<open>RunControl\<close> and to Linear. Linear, the models, the digest and the parsers of forms, numbers and
  JSON are parameters. Emoji are left out of the texts.
\<close>

section \<open>Commands\<close>

text \<open>
  A command of the parser has strings in its fields. One that a model wrote is an answer whose \<open>type\<close> is known and
  whose other fields may be missing (\<open>None\<close>) or anything.
\<close>

datatype pm_command =
    CmdPrioritize "json option" | CmdCreate "json option" "json option" | CmdBulkCreate "json option"
  | CmdStatus | CmdPause | CmdResume | CmdAssign "json option"
  | CmdCancel "json option" | CmdStop "json option" | CmdHalt | CmdUnknown

definition upper_char :: "char \<Rightarrow> char" where
  "upper_char c = (let n = (of_char c :: nat) in if 97 \<le> n \<and> n \<le> 122 then char_of (n - 32) else c)"

definition is_upper :: "char \<Rightarrow> bool" where
  "is_upper c \<longleftrightarrow> (let n = (of_char c :: nat) in 65 \<le> n \<and> n \<le> 90)"

definition is_issue_id :: "string \<Rightarrow> bool" where
  "is_issue_id s \<longleftrightarrow> takeWhile is_upper s \<noteq> [] \<and>
     (case dropWhile is_upper s of c # ds \<Rightarrow> c = CHR ''-'' \<and> ds \<noteq> [] \<and> list_all is_digit ds | [] \<Rightarrow> False)"

definition is_run_id :: "string \<Rightarrow> bool" where
  "is_run_id s \<longleftrightarrow> length s \<ge> 6 \<and> list_all (\<lambda>c. is_word c \<or> c = CHR ''-'') s"

text \<open>A keyword in any case, white space, and the rest.\<close>

definition after_keyword :: "string \<Rightarrow> string \<Rightarrow> string option" where
  "after_keyword kw s =
     (if startsWith (toLowerCase s) kw
      then (case drop (length kw) s of
          c # r \<Rightarrow> if is_space c then Some (dropWhile is_space r) else None
        | [] \<Rightarrow> None)
      else None)"

definition parseIssueIdCommand :: "string \<Rightarrow> string option" where
  "parseIssueIdCommand rest = (let raw = map upper_char (trim rest) in if is_issue_id raw then Some raw else None)"

text \<open>One or two texts in double quotes, none of them empty.\<close>

definition create_args :: "string \<Rightarrow> (string \<times> string) option" where
  "create_args rest =
     (case split_char CHR 0x22 rest of
        [a, t, b, d, e] \<Rightarrow>
          if a = [] \<and> e = [] \<and> t \<noteq> [] \<and> d \<noteq> [] \<and> b \<noteq> [] \<and> list_all is_space b then Some (t, d) else None
      | [a, t, e] \<Rightarrow> if a = [] \<and> e = [] \<and> t \<noteq> [] then Some (t, []) else None
      | _ \<Rightarrow> None)"

definition run_arg :: "string option \<Rightarrow> string option" where
  "run_arg rest = (case rest of
     Some r \<Rightarrow> if is_run_id r then Some r else None | None \<Rightarrow> None)"

definition parsePmCommand :: "string \<Rightarrow> pm_command" where
  "parsePmCommand text1 =
     (let trimmed = trim text1; lower = toLowerCase trimmed; str = (\<lambda>s. Some (JStr s)) in
      case after_keyword ''prioritize'' trimmed of
        Some r \<Rightarrow> (case parseIssueIdCommand r of None \<Rightarrow> CmdUnknown | Some i \<Rightarrow> CmdPrioritize (str i))
      | None \<Rightarrow>
      (case after_keyword ''assign'' trimmed of
        Some r \<Rightarrow> (case parseIssueIdCommand r of None \<Rightarrow> CmdUnknown | Some i \<Rightarrow> CmdAssign (str i))
      | None \<Rightarrow>
      (case after_keyword ''create'' trimmed of
        Some r \<Rightarrow> (case create_args (trim r) of None \<Rightarrow> CmdUnknown | Some (t, d) \<Rightarrow> CmdCreate (str t) (str d))
      | None \<Rightarrow>
          if lower = ''status'' then CmdStatus else if lower = ''pause'' then CmdPause
          else if lower = ''resume'' then CmdResume else if lower = ''halt'' then CmdHalt
          else (case run_arg (after_keyword ''cancel'' trimmed) of
              Some i \<Rightarrow> CmdCancel (str i)
            | None \<Rightarrow> (case run_arg (after_keyword ''stop'' trimmed) of
                Some i \<Rightarrow> CmdStop (str i) | None \<Rightarrow> CmdUnknown)))))"

definition command_of_json :: "json \<Rightarrow> pm_command option" where
  "command_of_json j =
     (let f = json_get j in
      case f ''type'' of
        Some (JStr t) \<Rightarrow>
          (if t = ''prioritize'' then Some (CmdPrioritize (f ''issueId''))
           else if t = ''create'' then Some (CmdCreate (f ''title'') (f ''description''))
           else if t = ''bulk_create'' then Some (CmdBulkCreate (f ''request''))
           else if t = ''status'' then Some CmdStatus else if t = ''pause'' then Some CmdPause
           else if t = ''resume'' then Some CmdResume
           else if t = ''assign'' then Some (CmdAssign (f ''issueId''))
           else if t = ''cancel'' then Some (CmdCancel (f ''runId''))
           else if t = ''stop'' then Some (CmdStop (f ''runId''))
           else if t = ''halt'' then Some CmdHalt else if t = ''unknown'' then Some CmdUnknown else None)
      | _ \<Rightarrow> None)"

text \<open>The model gets the sanitized message; its prompt is left out.\<close>

definition interpretNaturalLanguage ::
  "string \<Rightarrow> (string \<Rightarrow> json option) \<Rightarrow> (string \<Rightarrow> string option) \<Rightarrow> string \<Rightarrow> pm_command" where
  "interpretNaturalLanguage sentinel parse callClaude message =
     (case callClaude (sanitize sentinel message) of
        None \<Rightarrow> CmdUnknown
      | Some raw \<Rightarrow>
          (case parseJsonObject parse raw of
             None \<Rightarrow> CmdUnknown
           | Some j \<Rightarrow> (case command_of_json j of None \<Rightarrow> CmdUnknown | Some c \<Rightarrow> c)))"

section \<open>Several issues at once\<close>

record bulk_spec =
  bs_title :: string
  bs_description :: string
  bs_priority :: int
  bs_acceptanceCriteria :: "string list"

definition VALID_PRIORITIES :: "int list" where "VALID_PRIORITIES = [1, 2, 3, 4]"
definition DEFAULT_PRIORITY :: int where "DEFAULT_PRIORITY = 3"
definition MAX_ISSUE_TITLE_LENGTH :: nat where "MAX_ISSUE_TITLE_LENGTH = 200"
definition MAX_ISSUE_DESCRIPTION_LENGTH :: nat where "MAX_ISSUE_DESCRIPTION_LENGTH = 5000"
definition MAX_ACCEPTANCE_CRITERIA_COUNT :: nat where "MAX_ACCEPTANCE_CRITERIA_COUNT = 10"
definition MAX_BULK_ISSUE_SPECS :: nat where "MAX_BULK_ISSUE_SPECS = 10"

text \<open>From the first opening bracket to the last closing one.\<close>

definition bracketed :: "string \<Rightarrow> string option" where
  "bracketed raw =
     (let s = dropWhile (\<lambda>c. c \<noteq> CHR ''['') raw; r = rev (dropWhile (\<lambda>c. c \<noteq> CHR '']'') (rev s))
      in if r = [] then None else Some r)"

definition text_field :: "json \<Rightarrow> string \<Rightarrow> string" where
  "text_field j k = (case json_get j k of Some (JStr s) \<Rightarrow> trim s | _ \<Rightarrow> [])"

definition bulk_item :: "json \<Rightarrow> bulk_spec option" where
  "bulk_item j =
     (let title = text_field j ''title'' in
      if title = [] then None
      else Some \<lparr>bs_title = take MAX_ISSUE_TITLE_LENGTH title,
             bs_description = take MAX_ISSUE_DESCRIPTION_LENGTH (text_field j ''description''),
             bs_priority = (case json_get j ''priority'' of
                 Some (JNum n) \<Rightarrow> if n \<in> set VALID_PRIORITIES then n else DEFAULT_PRIORITY
               | _ \<Rightarrow> DEFAULT_PRIORITY),
             bs_acceptanceCriteria = take MAX_ACCEPTANCE_CRITERIA_COUNT
               (case array_of (json_get j ''acceptanceCriteria'') of
                  None \<Rightarrow> [] | Some xs \<Rightarrow> filter (\<lambda>c. trim c \<noteq> []) (the_strings xs))\<rparr>)"

definition analyzeBulkCreateRequest ::
  "string \<Rightarrow> (string \<Rightarrow> json option) \<Rightarrow> (string \<Rightarrow> string option) \<Rightarrow> string \<Rightarrow> bulk_spec list" where
  "analyzeBulkCreateRequest sentinel parse callSonnet request =
     (case callSonnet (sanitize sentinel request) of
        None \<Rightarrow> []
      | Some raw \<Rightarrow>
          (case bracketed raw of
             None \<Rightarrow> []
           | Some t \<Rightarrow>
               (case parse t of
                  Some (JArr items) \<Rightarrow> take MAX_BULK_ISSUE_SPECS (List.map_filter bulk_item items)
                | _ \<Rightarrow> [])))"

section \<open>Carrying out a command\<close>

record create_payload =
  pl_teamId :: string
  pl_title :: "json option"
  pl_description :: "json option"
  pl_priority :: "int option"
  pl_stateId :: "string option"
  pl_labelIds :: "string list option"

datatype slack_write =
    WritePriority string int | WriteState string string | WriteComment string string | WriteCreate create_payload

datatype slack_audit =
    SlackCancelled run_id issue_id string stop_mode "string option" | SlackHalted string "run_id list"

text \<open>
  What a command depends on. \<open>sv_search\<close> answers the id and the team of the first hit, \<open>sv_states\<close> the names
  and ids of the states of a team, \<open>sv_write\<close> the identifier and address of an issue that was created.
\<close>

record slack_server =
  sv_linearApiKey :: "string option"
  sv_teamIds :: "string list option"
  sv_hasRunner :: bool
  sv_hasDb :: bool
  sv_envPaused :: "string option"
  sv_client :: bool
  sv_search :: "json option \<Rightarrow> string + (string \<times> string option) option"
  sv_states :: "string option \<Rightarrow> string + (string \<times> string) list"
  sv_labels :: "string + (string \<times> string) list"
  sv_write :: "slack_write \<Rightarrow> string + (string \<times> string) option"
  sv_callSonnet :: "(string \<Rightarrow> string option) option"
  sv_callClaude :: "string \<Rightarrow> string option"
  sv_parse :: "string \<Rightarrow> json option"
  sv_sentinel :: string
  sv_hmac :: "string \<Rightarrow> string"
  sv_number :: "string \<Rightarrow> int option"
  sv_form :: "string \<Rightarrow> string \<Rightarrow> string option"
  sv_release :: "(string \<Rightarrow> string \<Rightarrow> string) option"
  sv_channelId :: string

record slack_state =
  ss_sys :: sys
  ss_writes :: "slack_write list"
  ss_audits :: "slack_audit list"
  ss_posted :: "(string \<times> string) list"
  ss_reactions :: "(string \<times> string \<times> string) list"
  ss_releases :: "(string \<times> string) list"

definition log_slack :: "slack_server \<Rightarrow> slack_audit list \<Rightarrow> slack_state \<Rightarrow> slack_state" where
  "log_slack S es st = (if sv_hasDb S then st\<lparr>ss_audits := ss_audits st @ es\<rparr> else st)"

fun send_writes ::
  "slack_server \<Rightarrow> slack_write list \<Rightarrow> slack_state \<Rightarrow> (string + (string \<times> string) option) list \<times> slack_state" where
  "send_writes S [] st = ([], st)"
| "send_writes S (w # ws) st =
     (let (rs, st1) = send_writes S ws (st\<lparr>ss_writes := ss_writes st @ [w]\<rparr>) in (sv_write S w # rs, st1))"

text \<open>The error of the first write that failed.\<close>

fun first_error :: "(string + 'a) list \<Rightarrow> string option" where
  "first_error [] = None"
| "first_error (Inl e # rs) = Some e"
| "first_error (Inr _ # rs) = first_error rs"

definition stop_command ::
  "slack_server \<Rightarrow> string \<Rightarrow> stop_mode \<Rightarrow> string \<Rightarrow> json option \<Rightarrow> slack_state \<Rightarrow> string \<times> slack_state" where
  "stop_command S user mode name run st =
     (let r = value_text run in
      if \<not> sv_hasRunner S then (''Runner not configured -- cannot '' @ name @ '' run *'' @ r @ ''*.'', st)
      else (let (s, issue, effective) = runner_requestStop r mode (ss_sys st);
                st1 = log_slack S [SlackCancelled r (case issue of Some i \<Rightarrow> i | None \<Rightarrow> ''(unknown)'')
                        (''slack:'' @ user) mode None] (st\<lparr>ss_sys := s\<rparr>)
            in (case mode of
                  Cancel \<Rightarrow> ''Cancel signal sent to run *'' @ r @ ''*. The active stage will abort within a few seconds.''
                | Graceful \<Rightarrow> ''Graceful stop requested for run *'' @ r @
                    ''*. The current stage will finish, then the pipeline will stop.'', st1)))"

definition halt_command :: "slack_server \<Rightarrow> string \<Rightarrow> slack_state \<Rightarrow> string \<times> slack_state" where
  "halt_command S user st =
     (if \<not> sv_hasRunner S then (''Runner not configured -- cannot halt.'', st)
      else (let (s, ids) = haltAll (ss_sys st); actor = ''slack:'' @ user
            in (''*Halted.* PM Agent paused; cancelled '' @ show_nat (length ids) @
                  '' active run(s). Use `/pm resume` when ready.'',
                log_slack S (SlackHalted actor ids #
                  map (\<lambda>r. SlackCancelled r ''(halt)'' actor Cancel (Some ''system.halt'')) ids) (st\<lparr>ss_sys := s\<rparr>))))"

definition no_key_text :: string where
  "no_key_text = ''No Linear API key configured -- please set `linearApiKey` in your PM Agent config.''"

definition no_team_text :: string where
  "no_team_text = ''No team IDs configured -- please set `teamIds` in your PM Agent config.''"

definition has_key :: "slack_server \<Rightarrow> bool" where
  "has_key S \<longleftrightarrow> sv_linearApiKey S \<noteq> None \<and> sv_linearApiKey S \<noteq> Some []"

definition prioritize_command :: "slack_server \<Rightarrow> json option \<Rightarrow> slack_state \<Rightarrow> string \<times> slack_state" where
  "prioritize_command S issue st =
     (let i = value_text issue; failed = (\<lambda>e. ''Failed to prioritize *'' @ i @ ''*: '' @ e) in
      if \<not> has_key S then (no_key_text, st)
      else if \<not> sv_client S then (''Linear client could not be initialised -- cannot prioritize *'' @ i @ ''*.'', st)
      else (case sv_search S issue of
          Inl e \<Rightarrow> (failed e, st)
        | Inr None \<Rightarrow> (''Issue *'' @ i @ ''* not found in Linear.'', st)
        | Inr (Some (u, team)) \<Rightarrow>
            (let (rs, st1) = send_writes S
                   [WritePriority u 1, WriteComment u ''**PM Agent** -- Bumped to top of queue via Slack command.''] st
             in (case first_error rs of
                   Some e \<Rightarrow> failed e | None \<Rightarrow> ''*'' @ i @ ''* has been bumped to top priority (Urgent).'', st1))))"

text \<open>The comment is written only when the move has succeeded.\<close>

definition assign_command :: "slack_server \<Rightarrow> json option \<Rightarrow> slack_state \<Rightarrow> string \<times> slack_state" where
  "assign_command S issue st =
     (let i = value_text issue; failed = (\<lambda>e. ''Failed to assign *'' @ i @ ''*: '' @ e) in
      if \<not> has_key S then (no_key_text, st)
      else if \<not> sv_client S then (''Linear client could not be initialised -- cannot assign *'' @ i @ ''*.'', st)
      else (case sv_search S issue of
          Inl e \<Rightarrow> (failed e, st)
        | Inr None \<Rightarrow> (''Issue *'' @ i @ ''* not found in Linear.'', st)
        | Inr (Some (u, team)) \<Rightarrow>
            (case sv_states S team of
               Inl e \<Rightarrow> (failed e, st)
             | Inr states \<Rightarrow>
                 (case map_of states ''Todo'' of
                    None \<Rightarrow> (''No Todo state found for *'' @ i @ ''*'' @ [CHR 0x27] @ ''s team.'', st)
                  | Some todo \<Rightarrow>
                      (let (rs, st1) = send_writes S [WriteState u todo] st in
                       case first_error rs of
                         Some e \<Rightarrow> (failed e, st1)
                       | None \<Rightarrow>
                           (let (rs2, st2) = send_writes S
                                  [WriteComment u ''**PM Agent** -- Manually assigned to Todo via Slack command.''] st1
                            in (case first_error rs2 of
                                  Some e \<Rightarrow> failed e | None \<Rightarrow> ''*'' @ i @ ''* has been moved to Todo.'', st2)))))))"

definition issue_link :: "string \<Rightarrow> string \<Rightarrow> string" where
  "issue_link url i = ''<'' @ url @ ''|'' @ i @ ''>''"

definition create_command ::
  "slack_server \<Rightarrow> json option \<Rightarrow> json option \<Rightarrow> slack_state \<Rightarrow> string \<times> slack_state" where
  "create_command S title description st =
     (if \<not> has_key S then (no_key_text, st)
      else case sv_teamIds S of
        None \<Rightarrow> (no_team_text, st)
      | Some [] \<Rightarrow> (no_team_text, st)
      | Some (team # _) \<Rightarrow>
          if \<not> sv_client S then (''Linear client could not be initialised -- cannot create issue.'', st)
          else (let w = WriteCreate \<lparr>pl_teamId = team, pl_title = title,
                          pl_description = (if truthy description then description else None),
                          pl_priority = None, pl_stateId = None, pl_labelIds = None\<rparr>;
                    (rs, st1) = send_writes S [w] st
                in (case hd rs of
                      Inl e \<Rightarrow> ''Failed to create issue: '' @ e
                    | Inr None \<Rightarrow> ''Created '' @ issue_link [] ''new issue'' @ '': *'' @ value_text title @ ''*''
                    | Inr (Some (i, url)) \<Rightarrow> ''Created '' @ issue_link url i @ '': *'' @ value_text title @ ''*'', st1)))"

definition bulk_payload :: "string \<Rightarrow> string option \<Rightarrow> string option \<Rightarrow> bulk_spec \<Rightarrow> create_payload" where
  "bulk_payload team triage label b =
     (let d = (if bs_acceptanceCriteria b = [] then bs_description b
               else bs_description b @ lf @ lf @ ''**Acceptance Criteria:**'' @ lf @
                 bullets ''- [ ] '' (bs_acceptanceCriteria b))
      in \<lparr>pl_teamId = team, pl_title = Some (JStr (bs_title b)),
          pl_description = (if d = [] then None else Some (JStr d)), pl_priority = Some (bs_priority b),
          pl_stateId = triage, pl_labelIds = map_option (\<lambda>l. [l]) label\<rparr>)"

definition bulk_line :: "bulk_spec \<times> (string + (string \<times> string) option) \<Rightarrow> string option" where
  "bulk_line p =
     (case snd p of
        Inr (Some (i, url)) \<Rightarrow>
          Some (''- '' @ (if url = [] then ''*'' @ i @ ''*'' else issue_link url i) @ '': *'' @ bs_title (fst p) @ ''*'')
      | _ \<Rightarrow> None)"

definition bulk_command :: "slack_server \<Rightarrow> json option \<Rightarrow> slack_state \<Rightarrow> string \<times> slack_state" where
  "bulk_command S request st =
     (let failed = (\<lambda>e. ''Failed to create issues: '' @ e) in
      if \<not> has_key S then (no_key_text, st)
      else case sv_teamIds S of
        None \<Rightarrow> (no_team_text, st)
      | Some [] \<Rightarrow> (no_team_text, st)
      | Some (team # _) \<Rightarrow>
          (case sv_callSonnet S of
             None \<Rightarrow> (''Bulk create requires a Sonnet model caller -- not configured.'', st)
           | Some call \<Rightarrow>
               (case request of
                  Some (JStr req) \<Rightarrow>
                    (let specs = analyzeBulkCreateRequest (sv_sentinel S) (sv_parse S) call req in
                     if specs = []
                     then (''Could not generate any issues from your request. Try being more specific.'', st)
                     else if \<not> sv_client S
                     then (''Linear client could not be initialised -- cannot create issues.'', st)
                     else (case (sv_states S (Some team), sv_labels S) of
                         (Inr states, Inr labels) \<Rightarrow>
                           (let label = mapGet (label_map labels) ''auto-implement'';
                                ws = map (\<lambda>b. WriteCreate (bulk_payload team (map_of states ''Triage'') label b)) specs;
                                (rs, st1) = send_writes S ws st
                            in (case first_error rs of
                                  Some e \<Rightarrow> failed e
                                | None \<Rightarrow>
                                    (let lines = List.map_filter bulk_line (zip specs rs); n = length lines
                                     in if lines = [] then ''Failed to create any issues.''
                                        else joinWith lf ((''Created '' @ show_nat n @
                                          (if n = 1 then '' issue:'' else '' issues:'')) # lines)), st1))
                       | (Inl e, _) \<Rightarrow> (failed e, st)
                       | (_, Inl e) \<Rightarrow> (failed e, st)))
                | _ \<Rightarrow> (failed ''the request is no text'', st))))"

definition executePmCommand :: "slack_server \<Rightarrow> string \<Rightarrow> pm_command \<Rightarrow> slack_state \<Rightarrow> string \<times> slack_state" where
  "executePmCommand S user cmd st =
     (case cmd of
        CmdStatus \<Rightarrow>
          (''PM Agent is '' @ (if isPmPaused (sv_envPaused S) (ss_sys st) then ''*Paused*'' else ''*Running*'') @ ''.'' @
           lf @ ''Use `/pm pause` or `/pm resume` to control autonomous assignment.'', st)
      | CmdPause \<Rightarrow>
          (''PM Agent autonomous assignment has been *paused*. Use `/pm resume` to restart.'',
           st\<lparr>ss_sys := setPmPaused True (ss_sys st)\<rparr>)
      | CmdResume \<Rightarrow>
          (''PM Agent autonomous assignment has been *resumed*.'', st\<lparr>ss_sys := setPmPaused False (ss_sys st)\<rparr>)
      | CmdCancel r \<Rightarrow> stop_command S user Cancel ''cancel'' r st
      | CmdStop r \<Rightarrow> stop_command S user Graceful ''stop'' r st
      | CmdHalt \<Rightarrow> halt_command S user st
      | CmdPrioritize i \<Rightarrow> prioritize_command S i st
      | CmdAssign i \<Rightarrow> assign_command S i st
      | CmdCreate t d \<Rightarrow> create_command S t d st
      | CmdBulkCreate q \<Rightarrow> bulk_command S q st
      | CmdUnknown \<Rightarrow> (''I did not understand that.'', st))"


section \<open>Requests\<close>

record slack_request =
  kq_body :: string
  kq_timestamp :: string
  kq_signature :: string

datatype slack_response =
    SlackInvalidSignature | SlackBadRequest string | SlackOk | SlackChallenge "json option" | SlackText string

text \<open>
  The comparison of the signatures: a disjunction of the differences of all characters. A timestamp that is no
  number is never too old. Times are in milliseconds.
\<close>

definition same_signature :: "string \<Rightarrow> string \<Rightarrow> bool" where
  "same_signature expected sig \<longleftrightarrow> length expected = length sig \<and>
     foldl (\<lambda>r (a, b). or r (xor (of_char a) (of_char b))) (0 :: nat) (zip expected sig) = 0"

definition verifySlackSignature :: "slack_server \<Rightarrow> millis \<Rightarrow> slack_request \<Rightarrow> bool" where
  "verifySlackSignature S now q \<longleftrightarrow>
     (case sv_number S (kq_timestamp q) of None \<Rightarrow> True | Some t \<Rightarrow> \<bar>now - 1000 * t\<bar> \<le> 300 * 1000) \<and>
     same_signature (''v0='' @ sv_hmac S (''v0:'' @ kq_timestamp q @ '':'' @ kq_body q)) (kq_signature q)"

definition post :: "string \<Rightarrow> string \<Rightarrow> slack_state \<Rightarrow> slack_state" where
  "post target text1 st = st\<lparr>ss_posted := ss_posted st @ [(target, text1)]\<rparr>"

definition run_release :: "slack_server \<Rightarrow> string \<Rightarrow> string \<Rightarrow> slack_state \<Rightarrow> string \<times> slack_state" where
  "run_release S text1 user st =
     (case sv_release S of
        None \<Rightarrow> ('':x: Release Manager is not configured on this server.'', st)
      | Some f \<Rightarrow> (f text1 user, st\<lparr>ss_releases := ss_releases st @ [(text1, user)]\<rparr>))"

definition run_command_text :: "slack_server \<Rightarrow> string \<Rightarrow> string \<Rightarrow> slack_state \<Rightarrow> string \<times> slack_state" where
  "run_command_text S user text1 st =
     (let cmd = parsePmCommand text1;
          cmd1 = (if cmd = CmdUnknown \<and> text1 \<noteq> []
                  then interpretNaturalLanguage (sv_sentinel S) (sv_parse S) (sv_callClaude S) text1 else cmd)
      in executePmCommand S user cmd1 st)"

text \<open>
  \<open>POST /slack/commands\<close>. With an address for the reply the command runs behind the answer, here at once, and
  its text is posted there.
\<close>

definition form_field :: "slack_server \<Rightarrow> string \<Rightarrow> string \<Rightarrow> string" where
  "form_field S body k = (case sv_form S body k of None \<Rightarrow> [] | Some v \<Rightarrow> v)"

definition post_commands ::
  "slack_server \<Rightarrow> millis \<Rightarrow> slack_request \<Rightarrow> slack_state \<Rightarrow> slack_response \<times> slack_state" where
  "post_commands S now q st =
     (if \<not> verifySlackSignature S now q then (SlackInvalidSignature, st)
      else (let f = form_field S (kq_body q); commandText = trim (f ''text'');
                url = f ''response_url''; user = f ''user_id''
            in if f ''command'' = ''/release''
               then (case sv_release S of
                   None \<Rightarrow> (SlackText (fst (run_release S commandText user st)), st)
                 | Some _ \<Rightarrow>
                     (let (t, st1) = run_release S commandText user st
                      in (SlackText t, if url = [] then st1 else post url t st1)))
               else (let (t, st1) = run_command_text S user commandText st
                     in if url = [] then (SlackText t, st1)
                        else (SlackText '':thinking_face: Working on it...'', post url t st1))))"

text \<open>\<open>POST /slack/interactivity\<close>: the first action that approves or skips a release; the payload is an object.\<close>

fun first_release_action :: "json list \<Rightarrow> string option" where
  "first_release_action [] = None"
| "first_release_action (a # as) =
     (if json_get a ''action_id'' = Some (JStr ''release_approve'') then Some ''approve''
      else if json_get a ''action_id'' = Some (JStr ''release_skip'')
      then Some (''skip '' @ (case trimmed_string (json_get a ''value'') of
                   Some r \<Rightarrow> r | None \<Rightarrow> ''Skipped via button''))
      else first_release_action as)"

definition payload_user :: "json \<Rightarrow> string" where
  "payload_user p = (case json_get p ''user'' of
     Some u \<Rightarrow> (case json_get u ''id'' of Some (JStr i) \<Rightarrow> i | _ \<Rightarrow> []) | None \<Rightarrow> [])"

definition post_interactivity ::
  "slack_server \<Rightarrow> millis \<Rightarrow> slack_request \<Rightarrow> slack_state \<Rightarrow> slack_response \<times> slack_state" where
  "post_interactivity S now q st =
     (if \<not> verifySlackSignature S now q then (SlackInvalidSignature, st)
      else (let payload = form_field S (kq_body q) ''payload'' in
        if payload = [] then (SlackBadRequest ''Missing payload'', st)
        else (case sv_parse S payload of
            None \<Rightarrow> (SlackBadRequest ''Invalid payload JSON'', st)
          | Some p \<Rightarrow>
              if json_get p ''type'' \<noteq> Some (JStr ''block_actions'') \<or> sv_release S = None then (SlackOk, st)
              else (case first_release_action (case array_of (json_get p ''actions'') of None \<Rightarrow> [] | Some as \<Rightarrow> as) of
                  None \<Rightarrow> (SlackOk, st)
                | Some text1 \<Rightarrow>
                    (let (t, st1) = run_release S text1 (payload_user p) st
                     in (SlackOk, case json_get p ''response_url'' of
                           Some (JStr u) \<Rightarrow> if u = [] then st1 else post u t st1 | _ \<Rightarrow> st1))))))"

text \<open>A mention: \<open><@\<close>, capitals or digits, and \<open>>\<close>.\<close>

definition mention_rest :: "string \<Rightarrow> string option" where
  "mention_rest s =
     (if startsWith s ''<@'' then
        (let r = drop 2 s; u = takeWhile (\<lambda>c. is_upper c \<or> is_digit c) r; e = drop (length u) r
         in if u \<noteq> [] \<and> startsWith e ''>'' then Some (tl e) else None)
      else None)"

function strip_mentions :: "string \<Rightarrow> string" where
  "strip_mentions [] = []"
| "strip_mentions (c # cs) =
     (case mention_rest (c # cs) of Some r \<Rightarrow> strip_mentions r | None \<Rightarrow> c # strip_mentions cs)"
  by pat_completeness auto

termination
  by (relation "measure length") (auto simp: mention_rest_def Let_def split: if_splits)

definition json_string :: "json option \<Rightarrow> string" where
  "json_string v = (case v of Some (JStr s) \<Rightarrow> s | _ \<Rightarrow> [])"

text \<open>The reaction says that the message was read; it is swapped when the reply has been posted.\<close>

definition react :: "string \<Rightarrow> string \<Rightarrow> string \<Rightarrow> slack_state \<Rightarrow> slack_state" where
  "react channel ts emoji st =
     (if ts = [] then st else st\<lparr>ss_reactions := ss_reactions st @ [(channel, ts, emoji)]\<rparr>)"

definition processMessageAsync ::
  "slack_server \<Rightarrow> string \<Rightarrow> string \<Rightarrow> string \<Rightarrow> string \<Rightarrow> slack_state \<Rightarrow> slack_state" where
  "processMessageAsync S user channel ts text1 st =
     (let cmd = interpretNaturalLanguage (sv_sentinel S) (sv_parse S) (sv_callClaude S) text1;
          (t, st1) = executePmCommand S user cmd st
      in react channel ts ''white_check_mark'' (post channel t st1))"

text \<open>\<open>POST /slack/events\<close>: the challenge is answered before the signature is looked at; the body is an object.\<close>

definition handle_event :: "slack_server \<Rightarrow> json \<Rightarrow> slack_state \<Rightarrow> slack_state" where
  "handle_event S e st =
     (if json_get e ''type'' \<notin> {Some (JStr ''app_mention''), Some (JStr ''message'')} then st
      else if truthy (json_get e ''bot_id'') \<or> json_get e ''subtype'' = Some (JStr ''bot_message'') then st
      else (let text1 = trim (strip_mentions (json_string (json_get e ''text'')));
                channel = (case json_get e ''channel'' of Some (JStr c) \<Rightarrow> c | _ \<Rightarrow> sv_channelId S);
                ts = json_string (json_get e ''ts'')
            in if text1 = [] then st
               else processMessageAsync S (json_string (json_get e ''user'')) channel ts text1
                      (react channel ts ''thinking_face'' st)))"

definition post_events ::
  "slack_server \<Rightarrow> millis \<Rightarrow> slack_request \<Rightarrow> slack_state \<Rightarrow> slack_response \<times> slack_state" where
  "post_events S now q st =
     (case sv_parse S (kq_body q) of
        None \<Rightarrow> (SlackBadRequest ''Invalid JSON'', st)
      | Some b \<Rightarrow>
          if json_get b ''type'' = Some (JStr ''url_verification'') then (SlackChallenge (json_get b ''challenge''), st)
          else if \<not> verifySlackSignature S now q then (SlackInvalidSignature, st)
          else (SlackOk, if json_get b ''type'' = Some (JStr ''event_callback'')
                         then handle_event S (case json_get b ''event'' of Some e \<Rightarrow> e | None \<Rightarrow> JObj []) st else st))"

end
