(* ===== verification/SlackProps.thy ===== *)
theory SlackProps
  imports Slack
begin

text \<open>
  What the Slack interface promises: only signed requests change anything, a parsed command is well-formed
  and read back as it was written, several issues stay within their bounds; and what it does not check.
\<close>

section \<open>Signatures\<close>

lemma xor_zero_iff: "xor a b = 0 \<longleftrightarrow> a = b" for a b :: nat
  by (metis xor_self_eq xor.left_neutral xor.assoc xor.commute)

lemma or_zero_iff: "or a b = 0 \<longleftrightarrow> a = 0 \<and> b = 0" for a b :: nat
  by (simp add: or_eq_0_iff)

lemma compare_fold:
  assumes "length s = length t"
  shows "foldl (\<lambda>r (a, b). or r (xor (of_char a) (of_char b))) (r :: nat) (zip s t) = 0 \<longleftrightarrow> r = 0 \<and> s = t"
  using assms by (induction s t arbitrary: r rule: list_induct2) (auto simp: or_zero_iff xor_zero_iff)

text \<open>The comparison without early exit is equality.\<close>
theorem same_signature_is_equality: "same_signature s t \<longleftrightarrow> s = t"
proof (cases "length s = length t")
  case True
  then show ?thesis unfolding same_signature_def compare_fold [OF True] by simp
qed (auto simp: same_signature_def)

text \<open>
  C25. A request that is not signed changes nothing: neither the runs nor the pause flag, nor Linear, the audit
  log, a release or a message. The answer to a challenge, which comes before the check, changes nothing either.
\<close>
theorem unsigned_changes_nothing:
  "if kq_signature q = ''v0='' @ sv_hmac S (''v0:'' @ kq_timestamp q @ '':'' @ kq_body q) then True
   else snd (post_commands S now q st) = st \<and> snd (post_interactivity S now q st) = st \<and>
        snd (post_events S now q st) = st"
  by (auto simp: post_commands_def post_interactivity_def post_events_def verifySlackSignature_def
      same_signature_is_equality split: option.split)

section \<open>Commands\<close>

fun well_formed :: "pm_command \<Rightarrow> bool" where
  "well_formed (CmdPrioritize v) = (case v of Some (JStr i) \<Rightarrow> is_issue_id i | _ \<Rightarrow> False)"
| "well_formed (CmdAssign v) = (case v of Some (JStr i) \<Rightarrow> is_issue_id i | _ \<Rightarrow> False)"
| "well_formed (CmdCancel v) = (case v of Some (JStr i) \<Rightarrow> is_run_id i | _ \<Rightarrow> False)"
| "well_formed (CmdStop v) = (case v of Some (JStr i) \<Rightarrow> is_run_id i | _ \<Rightarrow> False)"
| "well_formed (CmdCreate t d) =
     (case (t, d) of (Some (JStr s), Some (JStr e)) \<Rightarrow> s \<noteq> [] \<and> CHR 0x22 \<notin> set s \<and> CHR 0x22 \<notin> set e | _ \<Rightarrow> False)"
| "well_formed (CmdBulkCreate q) = False"
| "well_formed _ = True"

lemma create_args_quotes:
  assumes "create_args r = Some (t, d)"
  shows "t \<noteq> [] \<and> CHR 0x22 \<notin> set t \<and> CHR 0x22 \<notin> set d"
proof -
  have "p \<in> set (split_char CHR 0x22 r) \<Longrightarrow> CHR 0x22 \<notin> set p" for p by (rule split_char_parts)
  with assms show ?thesis unfolding create_args_def by (auto split: list.splits if_splits)
qed

lemma run_arg_ok: "run_arg v = Some i \<Longrightarrow> is_run_id i"
  by (auto simp: run_arg_def split: option.splits if_splits)

lemma issue_arg_ok: "parseIssueIdCommand r = Some i \<Longrightarrow> is_issue_id i"
  by (auto simp: parseIssueIdCommand_def Let_def split: if_splits)

text \<open>
  The parser makes only well-formed commands: ids of issues and runs have their shape, titles are not empty
  and hold no quote, and the request for several issues is not among them.
\<close>
theorem parsed_well_formed: "well_formed (parsePmCommand text1)"
proof -
  have if_ok: "well_formed (if b then c else d)" if "well_formed c" "well_formed d" for b c d using that by simp
  show ?thesis
    unfolding parsePmCommand_def Let_def
    by (auto split: option.split prod.split dest: issue_arg_ok run_arg_ok create_args_quotes)
qed

text \<open>A command that a model wrote is not checked: it can stop a run without a name.\<close>

lemma model_command_unchecked:
  "let j = JObj [(''type'', JStr ''cancel'')] in
   command_of_json j = Some (CmdCancel None) \<and> \<not> well_formed (CmdCancel None)"
  by (simp add: command_of_json_def)


lemma trim_id:
  assumes "s \<noteq> []" "\<not> is_space (hd s)" "\<not> is_space (last s)"
  shows "trim s = s"
proof -
  have "dropWhile is_space s = s" using assms(1,2) by (cases s) simp_all
  moreover have "dropWhile is_space (rev s) = rev s"
    using assms(1,3) by (cases "rev s") (simp_all add: hd_rev [symmetric])
  ultimately show ?thesis by (simp add: trim_def)
qed

text \<open>A title and a description in quotes are read as they were written.\<close>
theorem create_command_roundtrip:
  assumes "t \<noteq> []" "d \<noteq> []" "CHR 0x22 \<notin> set t" "CHR 0x22 \<notin> set d"
  shows "parsePmCommand (''create '' @ [CHR 0x22] @ t @ [CHR 0x22, CHR '' '', CHR 0x22] @ d @ [CHR 0x22]) =
    CmdCreate (Some (JStr t)) (Some (JStr d))"
proof -
  let ?args = "[CHR 0x22] @ t @ [CHR 0x22, CHR '' '', CHR 0x22] @ d @ [CHR 0x22]"
  have quote: "\<not> is_space CHR 0x22" "is_space CHR '' ''" "\<not> is_space CHR ''c''" by (simp_all add: is_space_def)
  have "trim (''create '' @ ?args) = ''create '' @ ?args" by (rule trim_id) (simp_all add: quote)
  moreover have "trim ?args = ?args" by (rule trim_id) (simp_all add: quote)
  moreover have "split_char CHR 0x22 ?args = [[], t, '' '', d, []]"
    using assms(3,4) by (simp add: split_char_append)
  then have "create_args ?args = Some (t, d)" using assms(1,2) by (simp add: create_args_def quote)
  moreover have "after_keyword ''prioritize'' (''create '' @ ?args) = None"
    "after_keyword ''assign'' (''create '' @ ?args) = None" "after_keyword ''create'' (''create '' @ ?args) = Some ?args"
    by (simp_all add: after_keyword_def toLowerCase_def lower_char_def quote)
  ultimately show ?thesis unfolding parsePmCommand_def Let_def by simp
qed

theorem create_command_roundtrip_witness:
  "parsePmCommand (''create '' @ [CHR 0x22] @ ''Fix'' @ [CHR 0x22, CHR '' '', CHR 0x22] @ ''it'' @ [CHR 0x22]) =
     CmdCreate (Some (JStr ''Fix'')) (Some (JStr ''it''))"
  by (rule create_command_roundtrip) simp_all

section \<open>Several issues\<close>

text \<open>
  A request for several issues makes at most ten, each with a title; titles, descriptions and criteria keep
  their limits and the priority is one that Linear knows, whatever the model answers.
\<close>
theorem bulk_bounded:
  "let specs = analyzeBulkCreateRequest sentinel parse call request
   in length specs \<le> 10 \<and>
      list_all (\<lambda>b. bs_title b \<noteq> [] \<and> length (bs_title b) \<le> 200 \<and> length (bs_description b) \<le> 5000 \<and>
        bs_priority b \<in> {1, 2, 3, 4} \<and> length (bs_acceptanceCriteria b) \<le> 10) specs"
proof -
  let ?P = "\<lambda>b. bs_title b \<noteq> [] \<and> length (bs_title b) \<le> 200 \<and> length (bs_description b) \<le> 5000 \<and>
        bs_priority b \<in> {1, 2, 3, 4} \<and> length (bs_acceptanceCriteria b) \<le> 10"
  have item: "?P b" if "bulk_item j = Some b" for j b
  proof -
    from that have b: "text_field j ''title'' \<noteq> []" "b = the (bulk_item j)" by (auto simp: bulk_item_def Let_def split: if_splits)
    then show ?thesis
      by (auto simp: bulk_item_def Let_def MAX_ISSUE_TITLE_LENGTH_def MAX_ISSUE_DESCRIPTION_LENGTH_def
          MAX_ACCEPTANCE_CRITERIA_COUNT_def VALID_PRIORITIES_def DEFAULT_PRIORITY_def split: option.split json.split)
  qed
  have "list_all ?P (take n (List.map_filter bulk_item items))" for n items
    unfolding list_all_iff
  proof
    fix b assume "b \<in> set (take n (List.map_filter bulk_item items))"
    then have "b \<in> set (List.map_filter bulk_item items)" by (rule in_set_takeD)
    then obtain j where "bulk_item j = Some b" by (auto simp: List.map_filter_def)
    then show "?P b" by (rule item)
  qed
  then show ?thesis
    by (simp add: analyzeBulkCreateRequest_def Let_def MAX_BULK_ISSUE_SPECS_def split: option.split json.split)
qed

lemma send_writes_all:
  "send_writes S ws st = (map (sv_write S) ws, st\<lparr>ss_writes := ss_writes st @ ws\<rparr>)"
  by (induction ws arbitrary: st) simp_all

text \<open>
  When one of several issues cannot be created the others are created all the same, and the reply names none
  of them.
\<close>

lemma bulk_failure_hides_created:
  assumes "has_key S" "sv_teamIds S = Some (team # ts)" "sv_callSonnet S = Some call" "sv_client S"
    "sv_states S (Some team) = Inr states" "sv_labels S = Inr labels"
    "analyzeBulkCreateRequest (sv_sentinel S) (sv_parse S) call req = specs" "specs \<noteq> []"
  defines "ws \<equiv> map (\<lambda>b. WriteCreate (bulk_payload team (map_of states ''Triage'')
      (mapGet (label_map labels) ''auto-implement'') b)) specs"
  assumes "first_error (map (sv_write S) ws) = Some e"
  shows "bulk_command S (Some (JStr req)) st =
    (''Failed to create issues: '' @ e, st\<lparr>ss_writes := ss_writes st @ ws\<rparr>)"
  using assms by (simp add: bulk_command_def Let_def send_writes_all)

section \<open>Stopping\<close>

text \<open>
  The reply to a stop does not depend on whether there is such a run: an id that no run has is answered like
  any other, a signal is stored for it and an audit event is written with an unknown issue.
\<close>
theorem stop_of_unknown_run_reported_sent:
  "if sv_hasRunner S \<and> find (\<lambda>(i, rid). rid = r) (activeRuns (ss_sys st)) = None
   then let (reply, st1) = executePmCommand S user (CmdStop (Some (JStr r))) st
     in reply = ''Graceful stop requested for run *'' @ r @ ''*. The current stage will finish, then the pipeline will stop.'' \<and>
        (if sv_hasDb S then ss_audits st1 = ss_audits st @ [SlackCancelled r ''(unknown)'' (''slack:'' @ user) Graceful None]
         else ss_audits st1 = ss_audits st) \<and>
        getStopSignal (signal (ss_sys st1)) r \<noteq> None
   else True"
  by (auto simp: executePmCommand_def stop_command_def runner_requestStop_def value_text_def log_slack_def
      getStopSignal_def requestStop_def split: prod.split)

text \<open>A halt from Slack is the halt of the runner: it pauses the agent and signals every active run.\<close>

lemma slack_halt_is_haltAll:
  "sv_hasRunner S \<Longrightarrow> ss_sys (snd (executePmCommand S user CmdHalt st)) = fst (haltAll (ss_sys st))"
  by (simp add: executePmCommand_def halt_command_def log_slack_def Let_def split: prod.split)

end
