(* ===== verification/AgentStream.thy ===== *)
theory AgentStream
  imports Triage
begin

text \<open>
  The stream of an agent (\<open>packages/core/src/executor/agent-stream.ts\<close>) and the watch on hanging stages
  (\<open>executor/hang-detection.ts\<close>). The stream of the vendor's SDK is the list of what it delivers, each with
  the time in milliseconds at which it is there; where the list ends, nothing more comes.
\<close>

section \<open>Messages\<close>

record usage =
  us_input :: nat
  us_output :: nat
  us_cacheCreation :: nat
  us_cacheRead :: nat

text \<open>The counts that a message leaves out are 0. A part has a type and perhaps a text.\<close>

datatype msg_content = Parts "(string \<times> string option) list" | PlainText string

datatype msg_inner = InnerText string | InnerMessage "msg_content option" "usage option"

record stream_message =
  sm_type :: "string option"
  sm_usage :: "usage option"
  sm_content :: "msg_content option"
  sm_message :: "msg_inner option"

definition extractText :: "msg_content \<Rightarrow> string" where
  "extractText c =
     (case c of
        PlainText s \<Rightarrow> s
      | Parts ps \<Rightarrow> joinWith [CHR 0x0A]
          (map (\<lambda>(_, t). case t of Some s \<Rightarrow> s | None \<Rightarrow> []) (filter (\<lambda>(k, _). k = ''text'') ps)))"

definition is_assistant :: "stream_message \<Rightarrow> bool" where
  "is_assistant m \<longleftrightarrow> sm_type m = Some ''assistant''"

definition is_tool_message :: "stream_message \<Rightarrow> bool" where
  "is_tool_message m \<longleftrightarrow> sm_type m = Some ''tool_use'' \<or> sm_type m = Some ''tool_result''"

text \<open>The usage of a message: its own, or that of the message inside it.\<close>

definition message_usage :: "stream_message \<Rightarrow> usage option" where
  "message_usage m =
     (case sm_usage m of
        Some u \<Rightarrow> Some u
      | None \<Rightarrow> (case sm_message m of Some (InnerMessage _ u) \<Rightarrow> u | _ \<Rightarrow> None))"

text \<open>The text of an assistant's message; an empty text is no text.\<close>

definition message_text :: "stream_message \<Rightarrow> string" where
  "message_text m =
     (case sm_content m of
        Some c \<Rightarrow> if c = PlainText [] then
            (case sm_message m of
               Some (InnerText s) \<Rightarrow> s
             | Some (InnerMessage (Some d) _) \<Rightarrow> extractText d
             | _ \<Rightarrow> [])
          else extractText c
      | None \<Rightarrow>
          (case sm_message m of
             Some (InnerText s) \<Rightarrow> s
           | Some (InnerMessage (Some d) _) \<Rightarrow> extractText d
           | _ \<Rightarrow> []))"

section \<open>Consuming a stream\<close>

datatype stream_item = Msg stream_message | StreamEnd | StreamError string

record stream_stats =
  ss_messageCount :: nat
  ss_turns :: nat
  ss_inputTokens :: nat
  ss_outputTokens :: nat

datatype stream_outcome =
    Consumed
  | StageStalledError nat stream_stats
  | StagePreStreamStalledError nat
  | StageCancelledError
  | StreamThrew string

text \<open>
  The options: the interval of the reports, the two time limits, and the time at which the signal to abort
  fires, if it does.
\<close>

record stream_options =
  so_progressIntervalMs :: nat
  so_progressTimeoutMs :: nat
  so_firstMessageTimeoutMs :: nat
  so_abortAt :: "nat option"

definition DEFAULT_PROGRESS_INTERVAL_MS :: nat where "DEFAULT_PROGRESS_INTERVAL_MS = 30000"
definition DEFAULT_PROGRESS_TIMEOUT_MS :: nat where "DEFAULT_PROGRESS_TIMEOUT_MS = 30 * 60000"
definition DEFAULT_FIRST_MESSAGE_TIMEOUT_MS :: nat where "DEFAULT_FIRST_MESSAGE_TIMEOUT_MS = 5 * 60000"

definition default_stream_options :: stream_options where
  "default_stream_options = \<lparr>so_progressIntervalMs = DEFAULT_PROGRESS_INTERVAL_MS,
     so_progressTimeoutMs = DEFAULT_PROGRESS_TIMEOUT_MS,
     so_firstMessageTimeoutMs = DEFAULT_FIRST_MESSAGE_TIMEOUT_MS, so_abortAt = None\<rparr>"

text \<open>
  The local variables, with the reports to \<open>onProgress\<close> and the messages to \<open>onToolMessage\<close>, each with its time.
\<close>

record stream_state =
  cs_lastText :: string
  cs_inputTokens :: nat
  cs_outputTokens :: nat
  cs_cacheCreation :: nat
  cs_cacheRead :: nat
  cs_turns :: nat
  cs_messageCount :: nat
  cs_lastProgressTime :: nat
  cs_lastTokenAdvanceAt :: nat
  cs_firstMessageReceived :: bool
  cs_reports :: "(nat \<times> stream_stats) list"
  cs_tools :: "(nat \<times> stream_message) list"

definition stream_start :: "nat \<Rightarrow> stream_state" where
  "stream_start start1 = \<lparr>cs_lastText = [], cs_inputTokens = 0, cs_outputTokens = 0, cs_cacheCreation = 0,
     cs_cacheRead = 0, cs_turns = 0, cs_messageCount = 0, cs_lastProgressTime = start1,
     cs_lastTokenAdvanceAt = start1, cs_firstMessageReceived = False, cs_reports = [], cs_tools = []\<rparr>"

definition stats_of :: "stream_state \<Rightarrow> stream_stats" where
  "stats_of st = \<lparr>ss_messageCount = cs_messageCount st, ss_turns = cs_turns st,
     ss_inputTokens = cs_inputTokens st, ss_outputTokens = cs_outputTokens st\<rparr>"

text \<open>A message is counted, reported if it is time, and its usage added; then its text and its turn.\<close>

definition report_progress :: "stream_options \<Rightarrow> nat \<Rightarrow> stream_state \<Rightarrow> stream_state" where
  "report_progress opts t st =
     (if t - cs_lastProgressTime st \<ge> so_progressIntervalMs opts
      then st\<lparr>cs_reports := cs_reports st @ [(t, stats_of st)], cs_lastProgressTime := t\<rparr> else st)"

definition add_usage :: "usage option \<Rightarrow> stream_state \<Rightarrow> stream_state" where
  "add_usage u st =
     (case u of
        None \<Rightarrow> st
      | Some v \<Rightarrow> st\<lparr>cs_inputTokens := cs_inputTokens st + us_input v,
            cs_outputTokens := cs_outputTokens st + us_output v,
            cs_cacheCreation := cs_cacheCreation st + us_cacheCreation v,
            cs_cacheRead := cs_cacheRead st + us_cacheRead v\<rparr>)"

definition take_message :: "stream_options \<Rightarrow> nat \<Rightarrow> stream_message \<Rightarrow> stream_state \<Rightarrow> stream_state" where
  "take_message opts t m st =
     (let st1 = report_progress opts t
            (st\<lparr>cs_firstMessageReceived := True, cs_messageCount := cs_messageCount st + 1\<rparr>);
          prev = cs_outputTokens st1;
          st2 = add_usage (message_usage m) st1;
          st3 = (if is_tool_message m then st2\<lparr>cs_tools := cs_tools st2 @ [(t, m)]\<rparr> else st2);
          text1 = message_text m;
          st4 = (if is_assistant m
                 then st3\<lparr>cs_lastText := (if text1 = [] then cs_lastText st3 else text1),
                        cs_turns := cs_turns st3 + 1\<rparr> else st3)
      in if cs_outputTokens st4 > prev \<or> is_assistant m then st4\<lparr>cs_lastTokenAdvanceAt := t\<rparr> else st4)"

text \<open>The time left at \<open>now\<close>, never below 0.\<close>

definition remaining :: "stream_options \<Rightarrow> nat \<Rightarrow> nat \<Rightarrow> stream_state \<Rightarrow> nat" where
  "remaining opts start1 now st =
     (let stall = so_progressTimeoutMs opts - (now - cs_lastTokenAdvanceAt st)
      in if cs_firstMessageReceived st then stall
         else min stall (so_firstMessageTimeoutMs opts - (now - start1)))"

definition stall_error :: "stream_options \<Rightarrow> nat \<Rightarrow> stream_state \<Rightarrow> stream_outcome" where
  "stall_error opts now st =
     (if \<not> cs_firstMessageReceived st then StagePreStreamStalledError (so_firstMessageTimeoutMs opts)
      else StageStalledError (now - cs_lastTokenAdvanceAt st) (stats_of st))"

text \<open>What wins when nothing comes before the deadline: the signal, if it fires by then, or the timer.\<close>

definition timed_out ::
  "stream_options \<Rightarrow> nat \<Rightarrow> nat \<Rightarrow> stream_state \<Rightarrow> stream_outcome \<times> nat \<times> stream_state" where
  "timed_out opts now deadline st =
     (case so_abortAt opts of
        Some a \<Rightarrow> if a \<le> deadline then (StageCancelledError, max now a, st)
                  else (stall_error opts deadline st, deadline, st)
      | None \<Rightarrow> (stall_error opts deadline st, deadline, st))"

text \<open>
  The loop from the time \<open>now\<close>: its outcome, the time at which it ends and the variables then. What is there by the
  deadline wins over the timer, and over a signal that does not fire before it.
\<close>

fun consume ::
  "stream_options \<Rightarrow> nat \<Rightarrow> (nat \<times> stream_item) list \<Rightarrow> nat \<Rightarrow> stream_state \<Rightarrow>
   stream_outcome \<times> nat \<times> stream_state" where
  "consume opts start1 [] now st = timed_out opts now (now + remaining opts start1 now st) st"
| "consume opts start1 ((t, item) # es) now st =
     (let deadline = now + remaining opts start1 now st;
          aborted = (case so_abortAt opts of Some a \<Rightarrow> a < t | None \<Rightarrow> False)
      in if deadline < t \<or> aborted then timed_out opts now deadline st
         else (let now1 = max now t in
           case item of
             StreamEnd \<Rightarrow> (Consumed, now1, st)
           | StreamError msg \<Rightarrow> (StreamThrew msg, now1, st)
           | Msg m \<Rightarrow> consume opts start1 es now1 (take_message opts now1 m st)))"

definition consumeAgentStream ::
  "stream_options \<Rightarrow> nat \<Rightarrow> (nat \<times> stream_item) list \<Rightarrow> stream_outcome \<times> nat \<times> stream_state" where
  "consumeAgentStream opts start1 es =
     (case so_abortAt opts of
        Some a \<Rightarrow> if a \<le> start1 then (StageCancelledError, start1, stream_start start1)
                  else consume opts start1 es start1 (stream_start start1)
      | None \<Rightarrow> consume opts start1 es start1 (stream_start start1))"

section \<open>Hanging stages\<close>

definition HANG_DETECTION_INTERVAL_MS :: int where "HANG_DETECTION_INTERVAL_MS = 5 * 60000"
definition DEFAULT_HANG_THRESHOLD_MS :: int where "DEFAULT_HANG_THRESHOLD_MS = 30 * 60000"

definition detectStageHang :: "millis \<Rightarrow> millis \<Rightarrow> millis \<Rightarrow> bool" where
  "detectStageHang now lastUpdateTime hangThresholdMs \<longleftrightarrow> now - lastUpdateTime \<ge> hangThresholdMs"

section \<open>A fenced block of JSON\<close>

text \<open>The text up to the first line that starts with a fence.\<close>

fun until_fence :: "string \<Rightarrow> string option" where
  "until_fence [] = None"
| "until_fence (c # cs) =
     (if startsWith (c # cs) [CHR 0x0A, CHR 0x60, CHR 0x60, CHR 0x60] then Some []
      else map_option (Cons c) (until_fence cs))"

text \<open>
  Behind the opening fence come white space and a line feed; of several line feeds the last is tried first.
\<close>

definition block_at :: "string \<Rightarrow> string option" where
  "block_at rest =
     (let w = length (takeWhile is_space rest);
          starts = filter (\<lambda>i. rest ! i = CHR 0x0A) (rev [0..<w])
      in case List.map_filter (\<lambda>i. until_fence (drop (Suc i) rest)) starts of
           [] \<Rightarrow> None
         | b # _ \<Rightarrow> Some b)"

definition fence_mark :: string where
  "fence_mark = [CHR 0x60, CHR 0x60, CHR 0x60] @ ''json''"

fun json_block :: "string \<Rightarrow> string option" where
  "json_block [] = None"
| "json_block (c # cs) =
     (if startsWith (c # cs) fence_mark
      then (case block_at (drop (length fence_mark) (c # cs)) of Some b \<Rightarrow> Some b | None \<Rightarrow> json_block cs)
      else json_block cs)"

definition parseJsonBlock :: "(string \<Rightarrow> json option) \<Rightarrow> string \<Rightarrow> json option" where
  "parseJsonBlock parse text1 = (case json_block text1 of None \<Rightarrow> None | Some b \<Rightarrow> parse b)"

section \<open>What the stream promises\<close>

text \<open>The usage of the messages in a list of items, up to the first that is none.\<close>

fun arrived :: "(nat \<times> stream_item) list \<Rightarrow> stream_message list" where
  "arrived ((_, Msg m) # es) = m # arrived es"
| "arrived _ = []"

definition used :: "(usage \<Rightarrow> nat) \<Rightarrow> stream_message list \<Rightarrow> nat" where
  "used f ms = sum_list (map (\<lambda>m. case message_usage m of None \<Rightarrow> 0 | Some u \<Rightarrow> f u) ms)"

lemma used_Cons: "used f (m # ms) = (case message_usage m of None \<Rightarrow> 0 | Some u \<Rightarrow> f u) + used f ms"
  by (simp add: used_def)

lemma take_message_counts [simp]:
  "cs_messageCount (take_message opts t m st) = Suc (cs_messageCount st)"
  "cs_firstMessageReceived (take_message opts t m st)"
  "cs_inputTokens (take_message opts t m st) =
     cs_inputTokens st + (case message_usage m of None \<Rightarrow> 0 | Some u \<Rightarrow> us_input u)"
  "cs_outputTokens (take_message opts t m st) =
     cs_outputTokens st + (case message_usage m of None \<Rightarrow> 0 | Some u \<Rightarrow> us_output u)"
  "cs_turns (take_message opts t m st) = cs_turns st + (if is_assistant m then 1 else 0)"
  by (simp_all add: take_message_def report_progress_def add_usage_def Let_def split: option.split)

lemma take_message_advance:
  "cs_lastTokenAdvanceAt (take_message opts t m st) =
     (if is_assistant m \<or> (\<exists>u. message_usage m = Some u \<and> 0 < us_output u) then t
      else cs_lastTokenAdvanceAt st)"
  by (auto simp: take_message_def report_progress_def add_usage_def Let_def split: option.split)

lemma timed_out_fields: "\<exists>out t. timed_out opts now d st = (out, t, st) \<and> out \<noteq> Consumed \<and> t \<le> max now d"
  by (auto simp: timed_out_def stall_error_def split: option.split)

text \<open>What has been received when the loop ends is a beginning of the stream, and all of it when it was consumed.\<close>

lemma consume_counts:
  assumes "consume opts start1 es now st = (out, t, st1)"
  shows "\<exists>n \<le> length (arrived es). cs_messageCount st1 = cs_messageCount st + n \<and>
     cs_inputTokens st1 = cs_inputTokens st + used us_input (take n (arrived es)) \<and>
     cs_outputTokens st1 = cs_outputTokens st + used us_output (take n (arrived es)) \<and>
     cs_turns st1 = cs_turns st + length (filter is_assistant (take n (arrived es))) \<and>
     (out = Consumed \<longrightarrow> n = length (arrived es))"
  using assms
proof (induction opts start1 es now st rule: consume.induct)
  case (1 opts start1 now st)
  then show ?case using timed_out_fields [of opts now "now + remaining opts start1 now st" st]
    by (auto simp: used_def)
next
  case (2 opts start1 t0 item es now st)
  let ?d = "now + remaining opts start1 now st"
  let ?aborted = "case so_abortAt opts of Some a \<Rightarrow> a < t0 | None \<Rightarrow> False"
  show ?case
  proof (cases "?d < t0 \<or> ?aborted")
    case True
    then have "timed_out opts now ?d st = (out, t, st1)" using 2(2) by (simp add: Let_def)
    then show ?thesis using timed_out_fields [of opts now ?d st] by (intro exI [of _ 0]) (auto simp: used_def)
  next
    case False
    show ?thesis
    proof (cases item)
      case (Msg m)
      with 2(2) False have "consume opts start1 es (max now t0) (take_message opts (max now t0) m st) = (out, t, st1)"
        by (simp add: Let_def)
      from 2(1) [OF refl refl False refl Msg this] obtain n where "n \<le> length (arrived es)"
          "cs_messageCount st1 = cs_messageCount (take_message opts (max now t0) m st) + n"
          "cs_inputTokens st1 = cs_inputTokens (take_message opts (max now t0) m st) + used us_input (take n (arrived es))"
          "cs_outputTokens st1 = cs_outputTokens (take_message opts (max now t0) m st) + used us_output (take n (arrived es))"
          "cs_turns st1 = cs_turns (take_message opts (max now t0) m st) + length (filter is_assistant (take n (arrived es)))"
          "out = Consumed \<longrightarrow> n = length (arrived es)" by blast
      then show ?thesis by (intro exI [of _ "Suc n"]) (simp add: used_Cons Msg)
    qed (use 2(2) False in \<open>auto simp: Let_def used_def\<close>)
  qed
qed

text \<open>
  What a stream reports as used is what its messages say: when it was consumed to its end, the sums over all
  its messages, and when it was cut, the sums over those that had come; every assistant's message is a turn.
\<close>
theorem stream_accounts:
  "let (out, t, st) = consumeAgentStream opts start1 es; ms = take (cs_messageCount st) (arrived es)
   in cs_inputTokens st = used us_input ms \<and> cs_outputTokens st = used us_output ms \<and>
      cs_turns st = length (filter is_assistant ms) \<and> (if out = Consumed then ms = arrived es else True)"
proof -
  obtain out t st where c: "consumeAgentStream opts start1 es = (out, t, st)" by (metis prod_cases3)
  show ?thesis
  proof (cases "\<exists>a. so_abortAt opts = Some a \<and> a \<le> start1")
    case True
    then show ?thesis by (auto simp: consumeAgentStream_def stream_start_def used_def)
  next
    case False
    then have "consume opts start1 es start1 (stream_start start1) = (out, t, st)"
      using c by (auto simp: consumeAgentStream_def split: option.splits)
    from consume_counts [OF this] show ?thesis by (auto simp: stream_start_def c)
  qed
qed

text \<open>The time of the loop stays within the limits, as long as it runs.\<close>

definition on_time :: "stream_options \<Rightarrow> nat \<Rightarrow> nat \<Rightarrow> stream_state \<Rightarrow> bool" where
  "on_time opts start1 now st \<longleftrightarrow> start1 \<le> now \<and> cs_lastTokenAdvanceAt st \<le> now \<and>
     now \<le> cs_lastTokenAdvanceAt st + so_progressTimeoutMs opts \<and>
     (cs_firstMessageReceived st \<or> now = start1)"

lemma deadline_within:
  assumes "on_time opts start1 now st"
  shows "now + remaining opts start1 now st \<le> cs_lastTokenAdvanceAt st + so_progressTimeoutMs opts"
    "cs_firstMessageReceived st \<or> now + remaining opts start1 now st \<le> start1 + so_firstMessageTimeoutMs opts"
  using assms by (auto simp: on_time_def remaining_def Let_def)

lemma on_time_take:
  assumes "on_time opts start1 now st" "now \<le> t" "t \<le> cs_lastTokenAdvanceAt st + so_progressTimeoutMs opts"
  shows "on_time opts start1 t (take_message opts t m st)"
  using assms by (simp add: on_time_def take_message_advance)

lemma consume_in_time:
  assumes "consume opts start1 es now st = (out, t, st1)" "on_time opts start1 now st"
  shows "t \<le> cs_lastTokenAdvanceAt st1 + so_progressTimeoutMs opts \<and>
    (cs_firstMessageReceived st1 \<or> t \<le> start1 + so_firstMessageTimeoutMs opts)"
  using assms
proof (induction opts start1 es now st rule: consume.induct)
  case (1 opts start1 now st)
  let ?d = "now + remaining opts start1 now st"
  obtain u v where "timed_out opts now ?d st = (u, v, st)" "v \<le> max now ?d" using timed_out_fields by blast
  with 1 deadline_within [OF 1(2)] show ?case by (cases "cs_firstMessageReceived st") auto
next
  case (2 opts start1 t0 item es now st)
  let ?d = "now + remaining opts start1 now st"
  let ?aborted = "case so_abortAt opts of Some a \<Rightarrow> a < t0 | None \<Rightarrow> False"
  note within = deadline_within [OF 2(3)]
  show ?case
  proof (cases "?d < t0 \<or> ?aborted")
    case True
    then have "timed_out opts now ?d st = (out, t, st1)" using 2(2) by (simp add: Let_def)
    moreover obtain u v where "timed_out opts now ?d st = (u, v, st)" "v \<le> max now ?d" using timed_out_fields by blast
    ultimately show ?thesis using within by (cases "cs_firstMessageReceived st") auto
  next
    case False
    then have le: "max now t0 \<le> ?d" by auto
    show ?thesis
    proof (cases item)
      case (Msg m)
      with 2(2) False have "consume opts start1 es (max now t0) (take_message opts (max now t0) m st) = (out, t, st1)"
        by (simp add: Let_def)
      moreover have "on_time opts start1 (max now t0) (take_message opts (max now t0) m st)"
        using on_time_take [OF 2(3), of "max now t0"] le within(1) by simp
      ultimately show ?thesis by (rule 2(1) [OF refl refl False refl Msg])
    qed (use 2(2) False le within in \<open>auto simp: Let_def\<close>)
  qed
qed

text \<open>
  C6. No agent hangs a stage: whatever the stream delivers, and however many messages without progress, it ends at
  the latest when the limit has passed since the last turn or output token, and before the first message when
  the shorter limit has passed since the start.
\<close>
theorem stream_ends_in_time:
  "let (out, t, st) = consumeAgentStream opts start1 es
   in t \<le> cs_lastTokenAdvanceAt st + so_progressTimeoutMs opts \<and>
      (cs_firstMessageReceived st \<or> t \<le> start1 + so_firstMessageTimeoutMs opts)"
proof -
  obtain out t st where c: "consumeAgentStream opts start1 es = (out, t, st)" by (metis prod_cases3)
  have ok: "on_time opts start1 start1 (stream_start start1)" by (simp add: on_time_def stream_start_def)
  show ?thesis
  proof (cases "\<exists>a. so_abortAt opts = Some a \<and> a \<le> start1")
    case True
    then show ?thesis by (auto simp: consumeAgentStream_def stream_start_def)
  next
    case False
    then have "consume opts start1 es start1 (stream_start start1) = (out, t, st)"
      using c by (auto simp: consumeAgentStream_def split: option.splits)
    from consume_in_time [OF this ok] show ?thesis by (simp add: c)
  qed
qed

text \<open>A signal to abort ends the stream: at once if it has fired, and otherwise by the time it fires.\<close>

lemma consume_aborted:
  assumes "consume opts start1 es now st = (out, t, st1)" "so_abortAt opts = Some a" "now \<le> a"
  shows "t \<le> a"
  using assms
proof (induction opts start1 es now st rule: consume.induct)
  case (1 opts start1 now st)
  then show ?case by (auto simp: timed_out_def split: if_splits)
next
  case (2 opts start1 t0 item es now st)
  show ?case
  proof (cases "now + remaining opts start1 now st < t0 \<or> a < t0")
    case True
    then show ?thesis using 2(2-4) by (auto simp: Let_def timed_out_def split: if_splits)
  next
    case False
    show ?thesis
    proof (cases item)
      case (Msg m)
      have now1: "max now t0 \<le> a" using False 2(4) by simp
      have "consume opts start1 es (max now t0) (take_message opts (max now t0) m st) = (out, t, st1)"
        using 2(2,3) False Msg by (simp add: Let_def)
      from 2(1) [OF refl refl _ refl Msg this 2(3) now1] show ?thesis using False 2(3) by simp
    qed (use 2 False in \<open>auto simp: Let_def\<close>)
  qed
qed

lemma abort_ends_stream:
  "so_abortAt opts = Some a \<Longrightarrow> fst (snd (consumeAgentStream opts start1 es)) \<le> max start1 a"
  using consume_aborted [of opts start1 es start1 "stream_start start1" _ _ _ a]
  by (cases "consume opts start1 es start1 (stream_start start1)") (auto simp: consumeAgentStream_def)

end
