(* ===== verification/AgentAuth.thy ===== *)
theory AgentAuth
  imports Prelude
begin

text \<open>
  The credentials of the agents (\<open>packages/core/src/executor/auth-check.ts\<close>) and their periodic check
  (\<open>executor/auth-monitor.ts\<close>). The probe, a call of the command line of the agent, is a parameter: how it ended.
  The memory of the module is a record; a check that two callers share runs once, here for the first of them.
\<close>

section \<open>The method\<close>

datatype auth_method = OauthToken | ApiKey | MountedSession

text \<open>The two variables of the environment; an empty one counts as absent.\<close>

record auth_env =
  ae_oauthToken :: "string option"
  ae_apiKey :: "string option"

definition is_set :: "string option \<Rightarrow> bool" where
  "is_set v \<longleftrightarrow> v \<noteq> None \<and> v \<noteq> Some []"

definition resolveClaudeAuth :: "auth_env \<Rightarrow> auth_method" where
  "resolveClaudeAuth e =
     (if is_set (ae_oauthToken e) then OauthToken else if is_set (ae_apiKey e) then ApiKey else MountedSession)"

section \<open>The probe\<close>

text \<open>The command ended well, was killed by the timer or not found, or failed with a text on its error output.\<close>

datatype probe_exit = ProbeOk | ProbeKilled | ProbeNotFound | ProbeFailed string

definition AUTH_ERROR_PATTERNS :: "string list" where
  "AUTH_ERROR_PATTERNS = [''401'', ''authentication'', ''unauthorized'', ''invalid api key'',
     ''invalid x-api-key'', ''credentials'']"

definition probeClaudeAuth :: "probe_exit \<Rightarrow> bool" where
  "probeClaudeAuth p =
     (case p of
        ProbeFailed stderr \<Rightarrow> \<not> list_ex (strIncludes (toLowerCase stderr)) AUTH_ERROR_PATTERNS
      | _ \<Rightarrow> True)"

section \<open>The cached check\<close>

record auth_cache =
  ac_lastCheckTime :: millis
  ac_lastCheckResult :: bool

definition CHECK_INTERVAL_MS :: millis where "CHECK_INTERVAL_MS = 5 * 60 * 1000"

definition resetAuthCheckCache :: "auth_cache \<Rightarrow> auth_cache" where
  "resetAuthCheckCache c = c\<lparr>ac_lastCheckTime := 0, ac_lastCheckResult := False\<rparr>"

text \<open>The times are those of the call and of the end of the probe.\<close>

definition isClaudeAuthValid ::
  "auth_env \<Rightarrow> probe_exit \<Rightarrow> millis \<Rightarrow> millis \<Rightarrow> auth_cache \<Rightarrow> bool \<times> auth_cache" where
  "isClaudeAuthValid e p now after c =
     (if is_set (ae_oauthToken e) \<or> is_set (ae_apiKey e) then (True, c)
      else if now - ac_lastCheckTime c < CHECK_INTERVAL_MS then (ac_lastCheckResult c, c)
      else (probeClaudeAuth p, c\<lparr>ac_lastCheckTime := after, ac_lastCheckResult := probeClaudeAuth p\<rparr>))"

section \<open>The monitor\<close>

definition AUTH_MONITOR_INTERVAL_MS :: millis where "AUTH_MONITOR_INTERVAL_MS = 6 * 60 * 60 * 1000"

record monitor_options =
  mo_slack :: bool
  mo_hasDb :: bool

datatype auth_alert = AlertPosted auth_method | AuthExpiredAudited auth_method

text \<open>The time of the last check, the memory, and the alerts in their order; \<open>mo_slack\<close> says that both settings are there.\<close>

definition runAuthMonitorCheck ::
  "auth_env \<Rightarrow> probe_exit \<Rightarrow> monitor_options \<Rightarrow> millis \<Rightarrow> millis \<Rightarrow> millis \<Rightarrow> auth_cache \<Rightarrow>
   millis \<times> auth_cache \<times> auth_alert list" where
  "runAuthMonitorCheck e p opts intervalMs now lastCheckTime c =
     (if now - lastCheckTime < intervalMs then (lastCheckTime, c, [])
      else if is_set (ae_apiKey e) \<and> \<not> is_set (ae_oauthToken e) then (now, c, [])
      else (let authMethod = (if is_set (ae_oauthToken e) then OauthToken else MountedSession)
            in (now, resetAuthCheckCache c,
                if probeClaudeAuth p then []
                else (if mo_slack opts then [AlertPosted authMethod] else []) @
                     (if mo_hasDb opts then [AuthExpiredAudited authMethod] else []))))"

text \<open>Ticks at the given times, each with the end of its probe.\<close>

fun monitor_ticks ::
  "auth_env \<Rightarrow> monitor_options \<Rightarrow> millis \<Rightarrow> (millis \<times> probe_exit) list \<Rightarrow> millis \<Rightarrow> auth_cache \<Rightarrow>
   (millis \<times> auth_alert) list" where
  "monitor_ticks e opts intervalMs [] lastCheckTime c = []"
| "monitor_ticks e opts intervalMs ((now, p) # ts) lastCheckTime c =
     (let (l, c1, as) = runAuthMonitorCheck e p opts intervalMs now lastCheckTime c
      in map (Pair now) as @ monitor_ticks e opts intervalMs ts l c1)"

section \<open>What the checks promise\<close>

text \<open>
  A check refuses only on evidence: what it answers is what the last probe within the interval found, and a
  probe finds an error only in a text that names one. The initial memory and a reset one are older than that.
\<close>

lemma refused_on_evidence:
  assumes "isClaudeAuthValid e p now after c = (False, c1)"
  shows "resolveClaudeAuth e = MountedSession \<and>
    (now - ac_lastCheckTime c < CHECK_INTERVAL_MS \<and> \<not> ac_lastCheckResult c \<or>
     (\<exists>text1. p = ProbeFailed text1 \<and> list_ex (strIncludes (toLowerCase text1)) AUTH_ERROR_PATTERNS))"
  using assms by (auto simp: isClaudeAuthValid_def resolveClaudeAuth_def probeClaudeAuth_def
      split: if_splits probe_exit.splits)

text \<open>The first alert comes at the earliest an interval after the last check.\<close>

lemma alerts_not_before:
  "(t, a) \<in> set (monitor_ticks e opts intervalMs ts l c) \<Longrightarrow> intervalMs \<ge> 0 \<Longrightarrow> t - l \<ge> intervalMs"
proof (induction e opts intervalMs ts l c rule: monitor_ticks.induct)
  case (2 e opts intervalMs now p ts l c)
  then show ?case
    by (fastforce simp: runAuthMonitorCheck_def Let_def split: if_splits)
qed simp

end
