(* ===== verification/Handoff.thy ===== *)
theory Handoff
  imports AgentStream Store
begin

text \<open>
  What a stage hands to the next (\<open>packages/core/src/executor/handoff.ts\<close>, \<open>executor/extract-handoff.ts\<close>) and the
  decisions an implementing agent leaves (\<open>db/decisions-store.ts\<close>). The answer of the agent is a text; the
  outputs of git are arguments and empty when a command failed. \<open>parse\<close> is the parser of JSON.
\<close>

section \<open>Schemas\<close>

text \<open>\<open>None\<close> is a value that does not match.\<close>

definition z_string :: "json option \<Rightarrow> string option" where
  "z_string v = (case v of Some (JStr s) \<Rightarrow> Some s | _ \<Rightarrow> None)"

definition z_strings :: "json option \<Rightarrow> string list option" where
  "z_strings v = (case v of Some (JArr xs) \<Rightarrow> all_strings xs | _ \<Rightarrow> None)"

definition z_int :: "json option \<Rightarrow> int option" where
  "z_int v = (case v of Some (JNum n) \<Rightarrow> Some n | _ \<Rightarrow> None)"

definition z_count :: "json option \<Rightarrow> bool" where
  "z_count v \<longleftrightarrow> (case z_int v of Some n \<Rightarrow> n \<ge> 0 | None \<Rightarrow> False)"

definition z_array :: "(json \<Rightarrow> 'a option) \<Rightarrow> json option \<Rightarrow> 'a list option" where
  "z_array f v = (case v of Some (JArr xs) \<Rightarrow> those (map f xs) | _ \<Rightarrow> None)"

definition z_severity :: "json option \<Rightarrow> severity option" where
  "z_severity v =
     (case v of
        Some (JStr s) \<Rightarrow> (if s = ''blocking'' then Some Blocking else if s = ''warning'' then Some Warning
          else if s = ''suggestion'' then Some Suggestion else None)
      | _ \<Rightarrow> None)"

definition ReviewFindingSchema :: "json \<Rightarrow> finding option" where
  "ReviewFindingSchema j =
     (let f = json_get j in
      case (z_severity (f ''severity''), z_string (f ''file''), z_int (f ''line''), z_string (f ''category''),
            z_string (f ''description''), z_string (f ''fix'')) of
        (Some s, Some p, Some l, Some c, Some d, Some x) \<Rightarrow>
          Some \<lparr>fi_severity = s, fi_file = p, fi_line = l, fi_category = c, fi_description = d, fi_fix = x\<rparr>
      | _ \<Rightarrow> None)"

definition TestResultSchema :: "json \<Rightarrow> bool" where
  "TestResultSchema j \<longleftrightarrow> z_count (json_get j ''passed'') \<and> z_count (json_get j ''failed'') \<and>
     (case json_get j ''firstFailure'' of
        None \<Rightarrow> True
      | Some f \<Rightarrow> z_string (json_get f ''test'') \<noteq> None \<and> z_string (json_get f ''error'') \<noteq> None \<and>
          z_string (json_get f ''file'') \<noteq> None)"

definition addressed_comment :: "json \<Rightarrow> bool" where
  "addressed_comment j \<longleftrightarrow> z_string (json_get j ''commentId'') \<noteq> None \<and> z_string (json_get j ''response'') \<noteq> None"

text \<open>The parts of the context and the budget that no modelled code reads have to match as well.\<close>

definition context_rest_ok :: "json \<Rightarrow> bool" where
  "context_rest_ok c \<longleftrightarrow>
     (case json_get c ''testResults'' of None \<Rightarrow> True | Some t \<Rightarrow> TestResultSchema t) \<and>
     (case json_get c ''addressedComments'' of
        None \<Rightarrow> True | Some (JArr xs) \<Rightarrow> list_all addressed_comment xs | Some _ \<Rightarrow> False)"

definition budget_ok :: "json option \<Rightarrow> bool" where
  "budget_ok v \<longleftrightarrow> (case v of
     Some b \<Rightarrow> z_count (json_get b ''contextTokensUsed'') \<and> z_count (json_get b ''recommendedMaxTurns'')
   | None \<Rightarrow> False)"

record handoff_metadata =
  hm_runId :: run_id
  hm_issueId :: issue_id
  hm_stage :: string

text \<open>
  \<open>HandoffArtifactSchema\<close> on the agent's fields overwritten with the metadata, so that what the agent says of the
  run, the issue and the stage is not looked at.
\<close>

definition HandoffArtifactSchema :: "handoff_metadata \<Rightarrow> json \<Rightarrow> handoff option" where
  "HandoffArtifactSchema m j =
     (case (z_string (json_get j ''summary''), z_strings (json_get j ''filesChanged''),
            z_string (json_get j ''approach''), json_get j ''context'') of
        (Some s, Some fs, Some a, Some c) \<Rightarrow>
          (case (z_string (json_get c ''issueIntent''), z_strings (json_get c ''constraints''),
                 z_strings (json_get c ''assumptions''),
                 case json_get c ''reviewFindings'' of
                   None \<Rightarrow> Some None | Some v \<Rightarrow> map_option Some (z_array ReviewFindingSchema (Some v))) of
             (Some i, Some cs, Some xs, Some rf) \<Rightarrow>
               if context_rest_ok c \<and> budget_ok (json_get j ''tokenBudget'')
               then Some \<lparr>ha_runId = hm_runId m, ha_issueId = hm_issueId m, ha_stage = hm_stage m, ha_summary = s,
                      ha_filesChanged = fs, ha_approach = a, ha_issueIntent = i, ha_constraints = cs,
                      ha_assumptions = xs, ha_reviewFindings = rf\<rparr>
               else None
           | _ \<Rightarrow> None)
      | _ \<Rightarrow> None)"

definition buildFallback :: "handoff_metadata \<Rightarrow> string \<Rightarrow> handoff" where
  "buildFallback m summary =
     \<lparr>ha_runId = hm_runId m, ha_issueId = hm_issueId m, ha_stage = hm_stage m,
      ha_summary = (if summary = [] then ''Stage '' @ hm_stage m @ '' completed without structured output'' else summary),
      ha_filesChanged = [], ha_approach = [], ha_issueIntent = [], ha_constraints = [], ha_assumptions = [],
      ha_reviewFindings = None\<rparr>"

text \<open>The artifact, and whether the agent wrote it.\<close>

definition parseHandoffArtifact ::
  "(string \<Rightarrow> json option) \<Rightarrow> handoff_metadata \<Rightarrow> string \<Rightarrow> handoff \<times> bool" where
  "parseHandoffArtifact parse m agentOutput =
     (let fallback = (buildFallback m (take 500 agentOutput), False); parsed = parseJsonBlock parse agentOutput in
      if \<not> truthy parsed then fallback
      else (case HandoffArtifactSchema m (the parsed) of None \<Rightarrow> fallback | Some h \<Rightarrow> (h, True)))"

section \<open>The files git shows\<close>

definition parseGitPorcelain :: "string \<Rightarrow> string list" where
  "parseGitPorcelain out =
     filter (\<lambda>p. p \<noteq> []) (map porcelain_path (filter (\<lambda>l. l \<noteq> []) (split_lines out)))"

definition parseGitDiffNames :: "string \<Rightarrow> string list" where
  "parseGitDiffNames out = filter (\<lambda>p. p \<noteq> []) (map trim (split_lines out))"

text \<open>The answers of git to \<open>status --porcelain\<close>, \<open>diff --name-only\<close> and \<open>diff --stat\<close>.\<close>

record git_answers =
  gw_status :: string
  gw_diffNames :: string
  gw_diffStat :: string

definition gitChangedFilesAcross :: "git_answers \<Rightarrow> bool \<Rightarrow> string list" where
  "gitChangedFilesAcross g baseRef =
     (let fromStatus = parseGitPorcelain (gw_status g) in
      if \<not> baseRef then fromStatus else setOf (fromStatus @ parseGitDiffNames (gw_diffNames g)))"

section \<open>Decisions\<close>

record decision_artifact =
  da_decisions :: "(string \<times> string \<times> string list) list"
  da_leftUnhandled :: "(string \<times> string) list"
  da_keyFiles :: "string list"

text \<open>A missing list is empty.\<close>

definition z_default :: "(json option \<Rightarrow> 'a list option) \<Rightarrow> json option \<Rightarrow> 'a list option" where
  "z_default f v = (case v of None \<Rightarrow> Some [] | Some j \<Rightarrow> f (Some j))"

definition decision_item :: "json \<Rightarrow> (string \<times> string \<times> string list) option" where
  "decision_item j =
     (case (z_string (json_get j ''choice''), z_string (json_get j ''reason''),
            z_default z_strings (json_get j ''alternativesConsidered'')) of
        (Some c, Some r, Some as) \<Rightarrow> Some (c, r, as) | _ \<Rightarrow> None)"

definition unhandled_item :: "json \<Rightarrow> (string \<times> string) option" where
  "unhandled_item j =
     (case (z_string (json_get j ''case''), z_string (json_get j ''reason'')) of
        (Some c, Some r) \<Rightarrow> Some (c, r) | _ \<Rightarrow> None)"

definition DecisionArtifactSchema :: "json \<Rightarrow> decision_artifact option" where
  "DecisionArtifactSchema j =
     (case j of
        JObj _ \<Rightarrow>
          (case (z_default (z_array decision_item) (json_get j ''decisions''),
                 z_default (z_array unhandled_item) (json_get j ''leftUnhandled''),
                 z_default z_strings (json_get j ''keyFiles'')) of
             (Some ds, Some us, Some ks) \<Rightarrow>
               Some \<lparr>da_decisions = ds, da_leftUnhandled = us, da_keyFiles = ks\<rparr>
           | _ \<Rightarrow> None)
      | _ \<Rightarrow> None)"

text \<open>The text up to the first mark, and the text behind it.\<close>

fun break_at :: "string \<Rightarrow> string \<Rightarrow> (string \<times> string) option" where
  "break_at m [] = None"
| "break_at m (c # cs) =
     (if startsWith (c # cs) m then Some ([], drop (length m) (c # cs))
      else map_option (\<lambda>(a, b). (c # a, b)) (break_at m cs))"

lemma break_at_parts: "m \<noteq> [] \<Longrightarrow> break_at m s = Some (a, b) \<Longrightarrow> length a + length b < length s"
  by (induction m s arbitrary: a b rule: break_at.induct) (fastforce split: if_splits)+

text \<open>The blocks of decisions, one behind the other.\<close>

function decision_blocks :: "string \<Rightarrow> string list" where
  "decision_blocks s =
     (case break_at ''<decisions>'' s of
        None \<Rightarrow> []
      | Some (_, r) \<Rightarrow>
          (case break_at ''</decisions>'' r of
             None \<Rightarrow> []
           | Some (b, r1) \<Rightarrow> b # decision_blocks r1))"
  by pat_completeness auto

termination
  by (relation "measure length") (auto dest!: break_at_parts [rotated])

definition parseDecisionsBlock :: "(string \<Rightarrow> json option) \<Rightarrow> string \<Rightarrow> decision_artifact option" where
  "parseDecisionsBlock parse agentOutput =
     (let bs = decision_blocks agentOutput in
      if bs = [] then None
      else (case parse (trim (last bs)) of None \<Rightarrow> None | Some j \<Rightarrow> DecisionArtifactSchema j))"

section \<open>The store of decisions\<close>

text \<open>A row whose payload is no JSON has none here. Writing one that fails is ignored by the code.\<close>

record decision_row =
  dr_runId :: run_id
  dr_iteration :: nat
  dr_stage :: string
  dr_payload :: "decision_artifact option"

definition persistDecisionArtifact ::
  "run_id \<Rightarrow> nat \<Rightarrow> string \<Rightarrow> decision_artifact \<Rightarrow> decision_row list \<Rightarrow> decision_row list" where
  "persistDecisionArtifact run n stg d rows =
     rows @ [\<lparr>dr_runId = run, dr_iteration = n, dr_stage = stg, dr_payload = Some d\<rparr>]"

text \<open>The row with the highest iteration; of several, the first.\<close>

fun best_row :: "decision_row option \<Rightarrow> decision_row list \<Rightarrow> decision_row option" where
  "best_row b [] = b"
| "best_row None (r # rs) = best_row (Some r) rs"
| "best_row (Some b) (r # rs) = best_row (Some (if dr_iteration b < dr_iteration r then r else b)) rs"

definition getLatestDecisionArtifact ::
  "decision_row list \<Rightarrow> run_id \<Rightarrow> (nat \<times> string \<times> decision_artifact) option" where
  "getLatestDecisionArtifact rows run =
     (case best_row None (filter (\<lambda>r. dr_runId r = run) rows) of
        None \<Rightarrow> None
      | Some r \<Rightarrow> map_option (\<lambda>d. (dr_iteration r, dr_stage r, d)) (dr_payload r))"

section \<open>Extraction\<close>

text \<open>
  The tests for the remains of JSON in the last lines: an opening bracket and a quote at the start, a
  field of a finding, or three pairs of a name and a text.
\<close>

definition json_opener :: "string \<Rightarrow> bool" where
  "json_opener s \<longleftrightarrow>
     (case dropWhile is_space s of
        c # r \<Rightarrow> (c = CHR ''['' \<or> c = CHR ''{'') \<and>
          (case dropWhile is_space r of d # _ \<Rightarrow> d = CHR 0x22 \<or> d = CHR ''{'' | [] \<Rightarrow> False)
      | [] \<Rightarrow> False)"

definition finding_field_at :: "string \<Rightarrow> bool" where
  "finding_field_at s \<longleftrightarrow>
     list_ex (\<lambda>f. let q = [CHR 0x22] @ f @ [CHR 0x22] in
        startsWith s q \<and> startsWith (dropWhile is_space (drop (length q) s)) '':'')
       [''description'', ''fix'', ''severity'', ''category'']"

fun has_finding_field :: "string \<Rightarrow> bool" where
  "has_finding_field [] = False"
| "has_finding_field (c # cs) = (finding_field_at (c # cs) \<or> has_finding_field cs)"

definition behind_pair :: "string \<Rightarrow> string option" where
  "behind_pair s =
     (if startsWith s [CHR 0x22]
      then (case dropWhile is_space (drop 1 s) of
          c # r \<Rightarrow> if c = CHR '':''
            then (case dropWhile is_space r of d # r1 \<Rightarrow> if d = CHR 0x22 then Some r1 else None | [] \<Rightarrow> None)
            else None
        | [] \<Rightarrow> None)
      else None)"

lemma dropWhile_shorter: "dropWhile P s = c # r \<Longrightarrow> length r < length s"
  by (metis length_dropWhile_le length_Cons less_le_trans lessI)

lemma behind_pair_shorter: "behind_pair s = Some r \<Longrightarrow> length r < length s"
  unfolding behind_pair_def
  by (auto split: if_splits list.splits dest!: dropWhile_shorter)

function count_pairs :: "string \<Rightarrow> nat" where
  "count_pairs [] = 0"
| "count_pairs (c # cs) =
     (case behind_pair (c # cs) of Some r \<Rightarrow> Suc (count_pairs r) | None \<Rightarrow> count_pairs cs)"
  by pat_completeness auto

termination
  by (relation "measure length") (auto dest: behind_pair_shorter)

definition looksLikeJsonSoup :: "string \<Rightarrow> bool" where
  "looksLikeJsonSoup s \<longleftrightarrow> json_opener s \<or> has_finding_field s \<or> count_pairs s \<ge> 3"

text \<open>The last five lines that are not blank.\<close>

definition raw_tail :: "string \<Rightarrow> string" where
  "raw_tail agentOutput =
     (let ls = filter (\<lambda>l. trim l \<noteq> []) (split_lines agentOutput)
      in take 500 (joinWith '' '' (drop (length ls - 5) ls)))"

definition tail_summary :: "string \<Rightarrow> string \<Rightarrow> string" where
  "tail_summary stg agentOutput =
     (let t = raw_tail agentOutput in
      if t = [] then ''Stage '' @ stg @ '' completed''
      else if looksLikeJsonSoup t
      then ''Stage '' @ stg @ '' completed -- agent output was not parseable prose; see Changes for files modified''
      else t)"

definition approach_text :: "string \<Rightarrow> string list \<Rightarrow> string" where
  "approach_text diffStat files =
     (if diffStat \<noteq> []
      then ''Modified '' @ show_nat (length files) @ '' file(s): '' @ last (split_lines diffStat)
      else if files \<noteq> [] then show_nat (length files) @ '' file(s) changed (new/untracked)''
      else ''No file changes detected'')"

definition extractHandoff ::
  "(string \<Rightarrow> json option) \<Rightarrow> handoff_metadata \<Rightarrow> git_answers \<Rightarrow> bool \<Rightarrow> string \<Rightarrow>
   handoff \<times> bool \<times> decision_artifact option" where
  "extractHandoff parse m g baseRef agentOutput =
     (let decisions = parseDecisionsBlock parse agentOutput;
          (fast, structured) = parseHandoffArtifact parse m agentOutput;
          gitFiles = gitChangedFilesAcross g baseRef
      in if structured
         then (if ha_filesChanged fast = [] \<and> gitFiles \<noteq> [] then fast\<lparr>ha_filesChanged := gitFiles\<rparr> else fast,
               True, decisions)
         else (\<lparr>ha_runId = hm_runId m, ha_issueId = hm_issueId m, ha_stage = hm_stage m,
                 ha_summary = tail_summary (hm_stage m) agentOutput, ha_filesChanged = gitFiles,
                 ha_approach = approach_text (gw_diffStat g) gitFiles, ha_issueIntent = [], ha_constraints = [],
                 ha_assumptions = [], ha_reviewFindings = None\<rparr>, False, decisions))"

section \<open>What a handoff promises\<close>

lemma schema_metadata:
  assumes "HandoffArtifactSchema m j = Some h"
  shows "ha_runId h = hm_runId m \<and> ha_issueId h = hm_issueId m \<and> ha_stage h = hm_stage m"
proof -
  from assms obtain s fs a i cs xs rf where "h = \<lparr>ha_runId = hm_runId m, ha_issueId = hm_issueId m,
     ha_stage = hm_stage m, ha_summary = s, ha_filesChanged = fs, ha_approach = a, ha_issueIntent = i,
     ha_constraints = cs, ha_assumptions = xs, ha_reviewFindings = rf\<rparr>"
    unfolding HandoffArtifactSchema_def by (auto split: option.splits if_splits)
  then show ?thesis by simp
qed

lemma parsed_metadata:
  "parseHandoffArtifact parse m out = (h, b) \<Longrightarrow>
     ha_runId h = hm_runId m \<and> ha_issueId h = hm_issueId m \<and> ha_stage h = hm_stage m"
  by (auto simp: parseHandoffArtifact_def Let_def buildFallback_def dest: schema_metadata split: if_splits option.splits)

text \<open>
  C8. What an agent writes cannot pass for another run: the run, the issue and the stage of a handoff are those the
  pipeline gave. It cannot hide its changes either: the files are empty only if git shows none. An artifact that
  counts as the agent's matches the schema, and a summary taken from the output is short.
\<close>
theorem handoff_trusted:
  "let (h, structured, d) = extractHandoff parse m g baseRef out
   in ha_runId h = hm_runId m \<and> ha_issueId h = hm_issueId m \<and> ha_stage h = hm_stage m \<and>
      (if ha_filesChanged h = [] then gitChangedFilesAcross g baseRef = [] else True) \<and>
      (if structured then HandoffArtifactSchema m (the (parseJsonBlock parse out)) \<noteq> None
       else length (ha_summary h) \<le> max 500 (length (hm_stage m) + 88))"
proof -
  obtain f s where p: "parseHandoffArtifact parse m out = (f, s)" by fastforce
  have schema: "s \<Longrightarrow> HandoffArtifactSchema m (the (parseJsonBlock parse out)) \<noteq> None"
    using p by (auto simp: parseHandoffArtifact_def Let_def split: if_splits option.splits)
  have "length (raw_tail out) \<le> 500" by (simp add: raw_tail_def Let_def)
  then have "length (tail_summary stg out) \<le> max 500 (length stg + 88)" for stg
    by (auto simp: tail_summary_def Let_def max_def)
  then show ?thesis
    using parsed_metadata [OF p] schema by (simp add: extractHandoff_def p Let_def)
qed

text \<open>The decisions read back are those with the highest iteration, the first written of them.\<close>

lemma best_row_max:
  "best_row b rows = Some r \<Longrightarrow> (Some r = b \<or> r \<in> set rows) \<and>
     (\<forall>x \<in> set rows. dr_iteration x \<le> dr_iteration r) \<and> (\<forall>y. b = Some y \<longrightarrow> dr_iteration y \<le> dr_iteration r)"
  by (induction b rows rule: best_row.induct) (auto split: if_splits)

lemma best_row_new:
  assumes "list_all (\<lambda>r. dr_iteration r < dr_iteration x) rows" "case b of None \<Rightarrow> True | Some y \<Rightarrow> dr_iteration y < dr_iteration x"
  shows "best_row b (rows @ [x]) = Some x"
  using assms by (induction b rows rule: best_row.induct) (auto split: option.splits)

text \<open>Decisions are read back as they were stored, if the iteration is the highest of its run so far.\<close>
theorem decisions_roundtrip:
  assumes "list_all (\<lambda>r. dr_iteration r < n) (filter (\<lambda>r. dr_runId r = run) rows)"
  shows "getLatestDecisionArtifact (persistDecisionArtifact run n stg d rows) run = Some (n, stg, d)"
proof -
  let ?x = "\<lparr>dr_runId = run, dr_iteration = n, dr_stage = stg, dr_payload = Some d\<rparr>"
  have "best_row None (filter (\<lambda>r. dr_runId r = run) rows @ [?x]) = Some ?x"
    by (rule best_row_new) (use assms in simp_all)
  then show ?thesis by (simp add: getLatestDecisionArtifact_def persistDecisionArtifact_def)
qed

theorem decisions_roundtrip_witness:
  "getLatestDecisionArtifact (persistDecisionArtifact ''r'' 0 ''implement''
     \<lparr>da_decisions = [], da_leftUnhandled = [], da_keyFiles = [''a.ts'']\<rparr> []) ''r'' =
   Some (0, ''implement'', \<lparr>da_decisions = [], da_leftUnhandled = [], da_keyFiles = [''a.ts'']\<rparr>)"
  using decisions_roundtrip [of 0 "''r''" "[]" "''implement''"] by simp

end
