(* ===== verification/Executor.thy ===== *)
theory Executor
  imports AgentAuth Handoff AgentChecks
begin

text \<open>
  The execution of one stage by an agent (\<open>packages/core/src/executor/executor.ts\<close>) with the profiles of the
  stages (\<open>executor/profiles.ts\<close>), the permissions (\<open>executor/permissions.ts\<close>), the tools
  (\<open>executor/mcp-resolver.ts\<close>) and the choice of a session (\<open>executor/session-resolver.ts\<close>). The agent is the stream
  of \<open>AgentStream\<close>; the prompt of the templates, the outputs of git, the serialisation of a message and random
  ids are parameters. Times are milliseconds.
\<close>

section \<open>Profiles\<close>

record agent_profile =
  ap_tools :: "string list"
  ap_maxInputTokens :: nat
  ap_maxTurns :: nat
  ap_model :: "string option"

definition DEFAULT_MODEL :: string where "DEFAULT_MODEL = ''claude-sonnet-4-6''"
definition HAIKU_MODEL :: string where "HAIKU_MODEL = ''claude-haiku-4-5''"
definition MAX_TURNS_CEILING :: int where "MAX_TURNS_CEILING = 500"
definition MAX_INPUT_TOKENS_CEILING :: int where "MAX_INPUT_TOKENS_CEILING = 500000"

definition WRITE_TOOLS :: "string list" where
  "WRITE_TOOLS = [''Read'', ''Write'', ''Edit'', ''Bash'', ''Glob'', ''Grep'']"

definition DEFAULT_AGENT_PROFILES :: "(string, agent_profile) js_map" where
  "DEFAULT_AGENT_PROFILES =
     [(''triage'', \<lparr>ap_tools = [''Read'', ''Glob'', ''Grep'', ''WebSearch''], ap_maxInputTokens = 30000,
         ap_maxTurns = 10, ap_model = Some DEFAULT_MODEL\<rparr>),
      (''reproduce'', \<lparr>ap_tools = WRITE_TOOLS, ap_maxInputTokens = 50000, ap_maxTurns = 20,
         ap_model = Some DEFAULT_MODEL\<rparr>),
      (''implement'', \<lparr>ap_tools = WRITE_TOOLS, ap_maxInputTokens = 100000, ap_maxTurns = 100,
         ap_model = Some DEFAULT_MODEL\<rparr>),
      (''test'', \<lparr>ap_tools = WRITE_TOOLS, ap_maxInputTokens = 30000, ap_maxTurns = 50,
         ap_model = Some HAIKU_MODEL\<rparr>),
      (''review'', \<lparr>ap_tools = [''Read'', ''Glob'', ''Grep'', ''Bash''], ap_maxInputTokens = 80000,
         ap_maxTurns = 20, ap_model = Some DEFAULT_MODEL\<rparr>)]"

definition positive_within :: "int \<Rightarrow> json option \<Rightarrow> nat option" where
  "positive_within limit v =
     (case v of Some (JNum n) \<Rightarrow> if 0 < n \<and> n \<le> limit then Some (nat n) else None | _ \<Rightarrow> None)"

text \<open>A field that does not fit is ignored; the others count.\<close>

definition mergeOverride :: "agent_profile \<Rightarrow> json \<Rightarrow> agent_profile" where
  "mergeOverride base ov =
     \<lparr>ap_tools = (case z_strings (json_get ov ''tools'') of Some ts \<Rightarrow> ts | None \<Rightarrow> ap_tools base),
      ap_maxInputTokens = (case positive_within MAX_INPUT_TOKENS_CEILING (json_get ov ''maxInputTokens'') of
          Some n \<Rightarrow> n | None \<Rightarrow> ap_maxInputTokens base),
      ap_maxTurns = (case positive_within MAX_TURNS_CEILING (json_get ov ''maxTurns'') of
          Some n \<Rightarrow> n | None \<Rightarrow> ap_maxTurns base),
      ap_model = (case json_get ov ''model'' of
          Some (JStr s) \<Rightarrow> if s = [] then ap_model base else Some s | _ \<Rightarrow> ap_model base)\<rparr>"

fun override_profiles ::
  "(string \<times> json) list \<Rightarrow> (string, agent_profile) js_map \<Rightarrow> (string, agent_profile) js_map" where
  "override_profiles [] ps = ps"
| "override_profiles ((stg, ov) # os) ps =
     override_profiles os
       (case (mapGet DEFAULT_AGENT_PROFILES stg, ov) of
          (Some base, JObj _) \<Rightarrow> mapSet ps stg (mergeOverride base ov)
        | _ \<Rightarrow> ps)"

text \<open>The argument is \<open>URATEAM_AGENT_PROFILES\<close>, which does not change while the process runs.\<close>

definition getAgentProfiles ::
  "(string \<Rightarrow> json option) \<Rightarrow> string option \<Rightarrow> (string, agent_profile) js_map" where
  "getAgentProfiles parse raw =
     (case raw of
        None \<Rightarrow> DEFAULT_AGENT_PROFILES
      | Some s \<Rightarrow>
          if s = [] then DEFAULT_AGENT_PROFILES
          else (case parse s of
              Some (JObj overrides) \<Rightarrow> override_profiles overrides DEFAULT_AGENT_PROFILES
            | _ \<Rightarrow> DEFAULT_AGENT_PROFILES))"

definition applyReviewFeedbackProfileOverride :: "agent_profile \<Rightarrow> stage \<Rightarrow> bool \<Rightarrow> agent_profile" where
  "applyReviewFeedbackProfileOverride p stg hasReviewFeedback =
     (if hasReviewFeedback \<and> stg = Implement
      then p\<lparr>ap_maxTurns := 30, ap_maxInputTokens := 60000\<rparr> else p)"

section \<open>Permissions\<close>

datatype permission_options = NoPermissionOptions | BypassPermissions | AcceptEdits | DefaultPermissions

text \<open>\<open>root\<close>: the process has the user id 0; \<open>bypass\<close>: \<open>AGENT_BYPASS_PERMISSIONS\<close> is \<open>true\<close>.\<close>

definition buildStagePermissionOptions :: "bool \<Rightarrow> bool \<Rightarrow> string \<Rightarrow> permission_options" where
  "buildStagePermissionOptions root bypass stg =
     (if root then NoPermissionOptions
      else if bypass then BypassPermissions
      else if stg = ''implement'' \<or> stg = ''reproduce'' then AcceptEdits
      else DefaultPermissions)"

section \<open>Tools\<close>

text \<open>The configuration of an MCP server is a text here; \<open>pg_autoDetect\<close> is missing or a flag.\<close>

record plugin_config =
  pg_autoDetect :: "bool option"
  pg_excludeMcpServers :: "string list"
  pg_excludePlugins :: "string list"
  pg_mcpServers :: "(string \<times> string) list"
  pg_plugins :: "string list"

definition no_plugins :: plugin_config where
  "no_plugins = \<lparr>pg_autoDetect = None, pg_excludeMcpServers = [], pg_excludePlugins = [], pg_mcpServers = [],
     pg_plugins = []\<rparr>"

text \<open>
  A recommendation: its name, what it stands for, the languages and frameworks that trigger it, and its stages,
  where an empty list stands for all.
\<close>

record recommendation =
  rc_name :: string
  rc_value :: string
  rc_languages :: "string list"
  rc_frameworks :: "string list"
  rc_stages :: "stage list"

record tech_stack =
  ts_languages :: "string list"
  ts_frameworks :: "string list"

definition MCP_RECOMMENDATIONS :: "recommendation list" where
  "MCP_RECOMMENDATIONS = [\<lparr>rc_name = ''context7'', rc_value = ''npx -y @upstash/context7-mcp@1'',
     rc_languages = [], rc_frameworks = [], rc_stages = [Triage, Implement, Reproduce]\<rparr>]"

definition PLUGIN_RECOMMENDATIONS :: "recommendation list" where
  "PLUGIN_RECOMMENDATIONS = [\<lparr>rc_name = ''superpowers'', rc_value = ''superpowers'',
     rc_languages = [], rc_frameworks = [], rc_stages = [Implement, Test, Review]\<rparr>]"

definition matchesTrigger :: "tech_stack \<Rightarrow> recommendation \<Rightarrow> bool" where
  "matchesTrigger ts r \<longleftrightarrow>
     (if rc_languages r = [] \<and> rc_frameworks r = [] then True
      else list_ex (\<lambda>l. l \<in> set (ts_languages ts)) (rc_languages r) \<or>
           list_ex (\<lambda>f. f \<in> set (ts_frameworks ts)) (rc_frameworks r))"

definition recommended :: "tech_stack \<Rightarrow> stage \<Rightarrow> recommendation \<Rightarrow> bool" where
  "recommended ts stg r \<longleftrightarrow> (rc_stages r = [] \<or> stg \<in> set (rc_stages r)) \<and> matchesTrigger ts r"

fun set_servers :: "string list \<Rightarrow> (string \<times> string) list \<Rightarrow> (string, string) js_map \<Rightarrow> (string, string) js_map" where
  "set_servers excluded [] m = m"
| "set_servers excluded ((n, c) # cs) m =
     set_servers excluded cs (if n \<in> set excluded then m else mapSet m n c)"

definition resolveTooling ::
  "tech_stack \<Rightarrow> stage \<Rightarrow> plugin_config \<Rightarrow> (string, string) js_map \<times> string list" where
  "resolveTooling ts stg pc =
     (let autoDetect = pg_autoDetect pc \<noteq> Some False;
          servers = (if autoDetect then map (\<lambda>r. (rc_name r, rc_value r))
              (filter (\<lambda>r. rc_name r \<notin> set (pg_excludeMcpServers pc) \<and> recommended ts stg r) MCP_RECOMMENDATIONS)
            else []);
          plugins = (if autoDetect then map rc_value
              (filter (\<lambda>r. rc_value r \<notin> set (pg_excludePlugins pc) \<and> recommended ts stg r) PLUGIN_RECOMMENDATIONS)
            else [])
      in (set_servers (pg_excludeMcpServers pc) (pg_mcpServers pc) servers,
          plugins @ filter (\<lambda>p. p \<notin> set (pg_excludePlugins pc)) (pg_plugins pc)))"

section \<open>Sessions\<close>

datatype session_opts = NoSession | CreateSession string | ResumeSession string

datatype exec_audit =
    AgentSessionResumed run_id issue_id string string nat
  | AgentSessionCollisionRecovered run_id issue_id string string string

record session_params =
  sp_stage :: string
  sp_model :: "string option"
  sp_agentSessionId :: "string option"
  sp_workdir :: string
  sp_runId :: "string option"
  sp_issueId :: "string option"
  sp_hasDb :: bool

definition resume_audit :: "session_params \<Rightarrow> string \<Rightarrow> string + nat \<Rightarrow> exec_audit list" where
  "resume_audit p sid lineCount =
     (case (sp_runId p, sp_issueId p) of
        (Some r, Some i) \<Rightarrow>
          if sp_hasDb p \<and> r \<noteq> [] \<and> i \<noteq> []
          then [AgentSessionResumed r i sid (sp_stage p) (case lineCount of Inr n \<Rightarrow> n | Inl _ \<Rightarrow> 0)] else []
      | _ \<Rightarrow> [])"

text \<open>\<open>disk\<close> is the list of the transcripts there are; counting the lines of one may fail.\<close>

definition resolveSessionOpts ::
  "string list \<Rightarrow> string \<Rightarrow> string + nat \<Rightarrow> session_params \<Rightarrow> session_opts \<times> exec_audit list" where
  "resolveSessionOpts disk projectsRoot lineCount p =
     (case (sp_agentSessionId p, sp_model p) of
        (Some sid, Some model) \<Rightarrow>
          if model = [] \<or> \<not> isResumable (sp_stage p) model then (NoSession, [])
          else if \<not> transcriptExists disk projectsRoot (sp_workdir p) sid then (CreateSession sid, [])
          else (ResumeSession sid, resume_audit p sid lineCount)
      | _ \<Rightarrow> (NoSession, []))"

section \<open>The context and the world of a stage\<close>

record exec_context =
  ec_runId :: run_id
  ec_issueId :: issue_id
  ec_stage :: stage
  ec_workdir :: string
  ec_defaultBranch :: string
  ec_devcontainer :: "(string \<times> string) option"
  ec_ralphContext :: "string option"
  ec_stageModels :: "(string, string) js_map"
  ec_reviewFeedback :: bool
  ec_techStack :: "tech_stack option"
  ec_plugins :: plugin_config
  ec_agentSessionId :: "string option"
  ec_iteration :: "nat option"
  ec_promptOverride :: "string option"

text \<open>The row of a stage with the columns that only the executor writes.\<close>

record exec_row = stage_row +
  xr_cacheCreation :: nat
  xr_cacheRead :: nat
  xr_turns :: nat
  xr_lastProgressAt :: "millis option"
  xr_handoff :: "handoff option"
  xr_errorMessage :: "string option"

text \<open>What a query of the agent is asked for.\<close>

record query_call =
  qc_prompt :: string
  qc_allowedTools :: "string list"
  qc_maxTurns :: nat
  qc_cwd :: string
  qc_permissions :: permission_options
  qc_model :: "string option"
  qc_mcpServers :: "(string, string) js_map"
  qc_plugins :: "string list"
  qc_session :: session_opts

record exec_db =
  xd_stageRuns :: "exec_row list"
  xd_agentLogs :: "(string \<times> string \<times> string) list"
  xd_decisions :: "decision_row list"
  xd_sessions :: "(run_id, string) js_map"
  xd_audits :: "exec_audit list"
  xd_queries :: "query_call list"

text \<open>
  The answers of the world: when the stage starts, how long the check of the credentials and the choice of
  the session take (\<open>None\<close>: for ever), what the agent is and writes to its error output. \<open>ev_meanwhile\<close> is what other
  code does to the tables while the agent works.
\<close>

record exec_env =
  ev_start :: nat
  ev_stageRunId :: string
  ev_newSessionId :: string
  ev_prompt :: string
  ev_profiles :: "(string, agent_profile) js_map"
  ev_auth :: auth_env
  ev_authValid :: bool
  ev_authMs :: nat
  ev_root :: bool
  ev_bypass :: bool
  ev_disk :: "string list"
  ev_projectsRoot :: string
  ev_lineCount :: "string + nat"
  ev_resolveMs :: "nat option"
  ev_query :: "string + (nat \<times> stream_item) list"
  ev_stderr :: "string list"
  ev_git :: git_answers
  ev_parse :: "string \<Rightarrow> json option"
  ev_showMessage :: "stream_message \<Rightarrow> string"
  ev_showError :: "string \<Rightarrow> nat option \<Rightarrow> string \<Rightarrow> string \<Rightarrow> nat \<Rightarrow> string \<Rightarrow> string"
  ev_meanwhile :: "exec_db \<Rightarrow> exec_db"

section \<open>The prompt\<close>

definition nl :: string where "nl = [CHR 0x0A]"

definition devcontainer_context :: "string \<times> string \<Rightarrow> string" where
  "devcontainer_context d = nl @ nl @ ''<devcontainer-context>'' @ nl @
     ''A devcontainer is active for this worktree. Run all shell commands inside the container using:'' @ nl @
     ''  devcontainer exec --workspace-folder '' @ fst d @ '' <command>'' @ nl @
     ''The workspace folder inside the container is: '' @ snd d @ nl @
     ''Do NOT run build, test, or lint commands directly on the host -- always use `devcontainer exec`.'' @ nl @
     ''</devcontainer-context>''"

definition full_prompt :: "exec_env \<Rightarrow> exec_context \<Rightarrow> string" where
  "full_prompt v c =
     (let p1 = ev_prompt v @ (case ec_devcontainer c of None \<Rightarrow> [] | Some d \<Rightarrow> devcontainer_context d);
          p2 = p1 @ (case ec_ralphContext c of None \<Rightarrow> [] | Some r \<Rightarrow> if r = [] then [] else nl @ nl @ r)
      in case ec_promptOverride c of None \<Rightarrow> p2 | Some o1 \<Rightarrow> if o1 = [] then p2 else o1)"

section \<open>Running the agent\<close>

definition DEFAULT_WALL_CLOCK_STAGE_TIMEOUT_MS :: nat where "DEFAULT_WALL_CLOCK_STAGE_TIMEOUT_MS = 30 * 60000"
definition FIRST_MESSAGE_TIMEOUT_MS :: nat where "FIRST_MESSAGE_TIMEOUT_MS = 5 * 60000"
definition LOG_CONTENT_MAX_BYTES :: nat where "LOG_CONTENT_MAX_BYTES = 2048"
definition BATCH_SIZE :: nat where "BATCH_SIZE = 20"

definition stageTimeoutMs :: "stage \<Rightarrow> nat" where
  "stageTimeoutMs stg = (if stg = Implement then 60 * 60000 else DEFAULT_WALL_CLOCK_STAGE_TIMEOUT_MS)"

text \<open>How the attempt ended: with the stream consumed, or an error; the time; the variables of the stream; the session.\<close>

record attempt =
  at_error :: "string option"
  at_end :: nat
  at_state :: stream_state
  at_sessionType :: string
  at_audits :: "exec_audit list"
  at_query :: "query_call option"

definition show_secs :: "nat \<Rightarrow> string" where
  "show_secs ms = show_nat ((ms + 500) div 1000)"

definition pre_stream_text :: "nat \<Rightarrow> string" where
  "pre_stream_text ms = ''stage pre-stream stall -- no message received within '' @ show_secs ms @ ''s of starting''"

definition stalled_text :: "nat \<Rightarrow> stream_stats \<Rightarrow> string" where
  "stalled_text ms s = ''stage stalled -- no token/turn progress in '' @ show_secs ms @ ''s (messageCount='' @
     show_nat (ss_messageCount s) @ '', turns='' @ show_nat (ss_turns s) @ '', outputTokens='' @
     show_nat (ss_outputTokens s) @ '')''"

definition outcome_error :: "stream_outcome \<Rightarrow> string option" where
  "outcome_error out =
     (case out of
        Consumed \<Rightarrow> None
      | StageStalledError ms s \<Rightarrow> Some (stalled_text ms s)
      | StagePreStreamStalledError ms \<Rightarrow> Some (pre_stream_text ms)
      | StageCancelledError \<Rightarrow> Some ''stage cancelled by operator''
      | StreamThrew msg \<Rightarrow> Some msg)"

definition session_type :: "session_opts \<Rightarrow> string" where
  "session_type s = (case s of ResumeSession _ \<Rightarrow> ''resumed'' | CreateSession _ \<Rightarrow> ''fresh'' | NoSession \<Rightarrow> ''none'')"

definition resolved_model :: "agent_profile \<Rightarrow> exec_context \<Rightarrow> string option" where
  "resolved_model p c =
     (case mapGet (ec_stageModels c) (stage_name (ec_stage c)) of Some m \<Rightarrow> Some m | None \<Rightarrow> ap_model p)"

definition exec_stream_options :: stream_options where
  "exec_stream_options = default_stream_options\<lparr>so_firstMessageTimeoutMs := FIRST_MESSAGE_TIMEOUT_MS\<rparr>"

definition build_query :: "exec_env \<Rightarrow> exec_context \<Rightarrow> agent_profile \<Rightarrow> session_opts \<Rightarrow> query_call" where
  "build_query v c p s =
     (let (servers, plugins) = (case ec_techStack c of
          None \<Rightarrow> ([], []) | Some ts \<Rightarrow> resolveTooling ts (ec_stage c) (ec_plugins c))
      in \<lparr>qc_prompt = full_prompt v c, qc_allowedTools = ap_tools p, qc_maxTurns = ap_maxTurns p,
          qc_cwd = ec_workdir c,
          qc_permissions = buildStagePermissionOptions (ev_root v) (ev_bypass v) (stage_name (ec_stage c)),
          qc_model = (case resolved_model p c of Some [] \<Rightarrow> None | m \<Rightarrow> m),
          qc_mcpServers = servers, qc_plugins = plugins, qc_session = s\<rparr>)"

text \<open>
  The timer of the stage runs from its start. It is looked at behind the check of the credentials, while the
  session is chosen and while the stream is consumed.
\<close>

definition run_attempt :: "exec_env \<Rightarrow> exec_context \<Rightarrow> agent_profile \<Rightarrow> attempt" where
  "run_attempt v c p =
     (let limit = stageTimeoutMs (ec_stage c); wall = ev_start v + limit; t1 = ev_start v + ev_authMs v;
          failed = (\<lambda>msg t. \<lparr>at_error = Some msg, at_end = t, at_state = stream_start t,
             at_sessionType = ''none'', at_audits = [], at_query = None\<rparr>)
      in if \<not> ev_authValid v
         then failed (''Claude auth credentials are invalid or expired. Run: docker compose exec '' @
                ''<service> claude login'') t1
         else (let timeout = failed (pre_stream_text limit) (max t1 wall) in
           case ev_resolveMs v of
             None \<Rightarrow> timeout
           | Some r \<Rightarrow>
               if wall < t1 + r then timeout
               else (let (s, audits) = resolveSessionOpts (ev_disk v) (ev_projectsRoot v) (ev_lineCount v)
                          \<lparr>sp_stage = stage_name (ec_stage c), sp_model = resolved_model p c,
                           sp_agentSessionId = ec_agentSessionId c, sp_workdir = ec_workdir c,
                           sp_runId = Some (ec_runId c), sp_issueId = Some (ec_issueId c), sp_hasDb = True\<rparr>;
                         t2 = t1 + r;
                         a = (\<lambda>e t st. \<lparr>at_error = e, at_end = t, at_state = st, at_sessionType = session_type s,
                                at_audits = audits, at_query = Some (build_query v c p s)\<rparr>)
                     in case ev_query v of
                          Inl msg \<Rightarrow> a (Some msg) t2 (stream_start t2)
                        | Inr items \<Rightarrow>
                            (let (out, t, st) = consumeAgentStream exec_stream_options t2 items
                             in if t \<le> wall then a (outcome_error out) t st
                                else a (Some (pre_stream_text limit)) wall st))))"

section \<open>What is written\<close>

text \<open>The last 2000 characters of the error output, kept chunk by chunk.\<close>

definition last_n :: "nat \<Rightarrow> 'a list \<Rightarrow> 'a list" where
  "last_n n xs = drop (length xs - n) xs"

definition capture_stderr :: "string list \<Rightarrow> string" where
  "capture_stderr chunks = foldl (\<lambda>acc c. if length (acc @ c) > 2000 then last_n 2000 (acc @ c) else acc @ c) [] chunks"

text \<open>The digits behind the first \<open>exited with code\<close> that has some.\<close>

fun exit_code :: "string \<Rightarrow> nat option" where
  "exit_code [] = None"
| "exit_code (c # cs) =
     (let ds = takeWhile is_digit (drop 17 (c # cs)) in
      if startsWith (c # cs) ''exited with code '' \<and> ds \<noteq> [] then Some (parse_nat ds) else exit_code cs)"

text \<open>The message of the SDK for an id that is taken, in any case, on one line.\<close>

definition says_collision :: "string \<Rightarrow> bool" where
  "says_collision stderr \<longleftrightarrow>
     list_ex (\<lambda>l. case break_at ''session id '' l of
         Some (_, r) \<Rightarrow> strIncludes r '' is already in use'' | None \<Rightarrow> False)
       (concat (map (split_char (CHR 0x0D)) (split_lines (toLowerCase stderr))))"

text \<open>
  The messages to the log are written in groups of twenty while the stream runs, and the rest behind it if it
  was consumed.
\<close>

definition tool_logs :: "exec_env \<Rightarrow> attempt \<Rightarrow> (string \<times> string \<times> string) list" where
  "tool_logs v a =
     (let ms = map snd (filter (\<lambda>(t, _). t \<le> at_end a) (cs_tools (at_state a)));
          kept = (if at_error a = None then ms else take (length ms div BATCH_SIZE * BATCH_SIZE) ms)
      in map (\<lambda>m. (ev_stageRunId v, the (sm_type m), take LOG_CONTENT_MAX_BYTES (ev_showMessage v m))) kept)"

text \<open>The reports up to the end; the last of them is all that a failed stage knows of its use.\<close>

definition reports_until :: "attempt \<Rightarrow> (nat \<times> stream_stats) list" where
  "reports_until a = filter (\<lambda>(t, _). t \<le> at_end a) (cs_reports (at_state a))"

definition snapshot :: "attempt \<Rightarrow> nat \<times> nat \<times> nat" where
  "snapshot a =
     (case rev (reports_until a) of
        [] \<Rightarrow> (0, 0, 0)
      | (_, s) # _ \<Rightarrow> (ss_inputTokens s, ss_outputTokens s, ss_turns s))"

definition auth_text :: "auth_method \<Rightarrow> string" where
  "auth_text m = (case m of OauthToken \<Rightarrow> ''oauth-token'' | ApiKey \<Rightarrow> ''api-key'' | MountedSession \<Rightarrow> ''mounted-session'')"

definition enriched_message :: "exec_env \<Rightarrow> attempt \<Rightarrow> bool \<Rightarrow> string \<Rightarrow> string" where
  "enriched_message v a collision msg = msg @ '' ['' @ joinWith '', ''
     ((if collision then [''session-id-collision-recovered''] else []) @
      [''exitCode='' @ (case exit_code msg of Some n \<Rightarrow> show_nat n | None \<Rightarrow> ''?''),
       ''auth='' @ auth_text (resolveClaudeAuth (ev_auth v)), ''session='' @ at_sessionType a,
       ''duration='' @ show_nat (at_end a - ev_start v) @ ''ms'']) @ '']''"

definition new_row :: "exec_env \<Rightarrow> exec_context \<Rightarrow> exec_row" where
  "new_row v c = \<lparr>s_id = ev_stageRunId v, s_pipelineRunId = ec_runId c, s_stage = stage_name (ec_stage c),
     s_status = SRunning, s_startedAt = int (ev_start v), s_completedAt = None, s_inputTokens = 0, s_outputTokens = 0,
     xr_cacheCreation = 0, xr_cacheRead = 0, xr_turns = 0, xr_lastProgressAt = None, xr_handoff = None,
     xr_errorMessage = None\<rparr>"

definition set_row :: "exec_env \<Rightarrow> (exec_row \<Rightarrow> exec_row) \<Rightarrow> exec_db \<Rightarrow> exec_db" where
  "set_row v f d = d\<lparr>xd_stageRuns := update_where (\<lambda>r. s_id r = ev_stageRunId v) f (xd_stageRuns d)\<rparr>"

text \<open>The tables while the agent works: its query, the audit of its session, its progress and its messages.\<close>

definition working :: "exec_env \<Rightarrow> attempt \<Rightarrow> exec_db \<Rightarrow> exec_db" where
  "working v a d =
     (let d1 = d\<lparr>xd_audits := xd_audits d @ at_audits a,
                 xd_queries := xd_queries d @ (case at_query a of None \<Rightarrow> [] | Some q \<Rightarrow> [q]),
                 xd_agentLogs := xd_agentLogs d @ tool_logs v a\<rparr>
      in case rev (reports_until a) of
           [] \<Rightarrow> d1
         | (t, _) # _ \<Rightarrow> set_row v (\<lambda>r. r\<lparr>xr_lastProgressAt := Some (int t)\<rparr>) d1)"

definition settle_completed :: "exec_env \<Rightarrow> exec_context \<Rightarrow> attempt \<Rightarrow> exec_db \<Rightarrow> stage_result \<times> exec_db" where
  "settle_completed v c a d =
     (let st = at_state a;
          (h, structured, decisions) = extractHandoff (ev_parse v)
             \<lparr>hm_runId = ec_runId c, hm_issueId = ec_issueId c, hm_stage = stage_name (ec_stage c)\<rparr>
             (ev_git v) True (cs_lastText st);
          d1 = (case decisions of
              Some x \<Rightarrow> if ec_stage c = Implement
                then d\<lparr>xd_decisions := persistDecisionArtifact (ec_runId c)
                        (case ec_iteration c of Some n \<Rightarrow> n | None \<Rightarrow> 0) ''implement'' x (xd_decisions d)\<rparr>
                else d
            | None \<Rightarrow> d)
      in (\<lparr>re_status = StageCompleted, re_handoff = Some h, re_structured = Some structured,
           re_inputTokens = cs_inputTokens st, re_outputTokens = cs_outputTokens st, re_errorMessage = None,
           re_stageRunId = ev_stageRunId v, re_newSessionId = None\<rparr>,
          set_row v (\<lambda>r. r\<lparr>s_status := SCompleted, s_completedAt := Some (int (at_end a)),
             s_inputTokens := cs_inputTokens st, s_outputTokens := cs_outputTokens st,
             xr_cacheCreation := cs_cacheCreation st, xr_cacheRead := cs_cacheRead st, xr_turns := cs_turns st,
             xr_handoff := Some h\<rparr>) d1))"

text \<open>
  A collision of session ids stores a fresh id and says so in the message, which makes the error transient for
  the classifier.
\<close>

definition settle_failed :: "exec_env \<Rightarrow> exec_context \<Rightarrow> attempt \<Rightarrow> string \<Rightarrow> exec_db \<Rightarrow> stage_result \<times> exec_db" where
  "settle_failed v c a msg d =
     (let stderr = capture_stderr (ev_stderr v);
          collision = ec_agentSessionId c \<noteq> None \<and> says_collision stderr;
          d1 = (if collision
                then d\<lparr>xd_sessions := mapSet (xd_sessions d) (ec_runId c) (ev_newSessionId v),
                       xd_audits := xd_audits d @ [AgentSessionCollisionRecovered (ec_runId c) (ec_issueId c)
                         (stage_name (ec_stage c)) (the (ec_agentSessionId c)) (ev_newSessionId v)]\<rparr>
                else d);
          text1 = enriched_message v a collision msg;
          log = (ev_stageRunId v, ''error'', take 2048 (ev_showError v msg (exit_code msg)
            (auth_text (resolveClaudeAuth (ev_auth v))) (at_sessionType a) (at_end a - ev_start v) (last_n 500 stderr)));
          (i, out, turns) = snapshot a
      in (\<lparr>re_status = StageFailed, re_handoff = None, re_structured = None, re_inputTokens = i, re_outputTokens = out,
           re_errorMessage = Some text1, re_stageRunId = ev_stageRunId v,
           re_newSessionId = (if collision then Some (ev_newSessionId v) else None)\<rparr>,
          set_row v (\<lambda>r. r\<lparr>s_status := SFailed, s_completedAt := Some (int (at_end a)), s_inputTokens := i,
             s_outputTokens := out, xr_cacheCreation := 0, xr_cacheRead := 0, xr_turns := turns,
             xr_errorMessage := Some text1\<rparr>)
           (d1\<lparr>xd_agentLogs := xd_agentLogs d1 @ [log]\<rparr>)))"

definition executeStage :: "exec_env \<Rightarrow> exec_context \<Rightarrow> exec_db \<Rightarrow> (string + stage_result) \<times> exec_db" where
  "executeStage v c d =
     (if ec_stage c = AwaitApproval then (Inl ''await-approval is not an agent stage'', d)
      else case mapGet (ev_profiles v) (stage_name (ec_stage c)) of
        None \<Rightarrow> (Inl (''No agent profile for stage: '' @ stage_name (ec_stage c)), d)
      | Some profile \<Rightarrow>
          (let p = applyReviewFeedbackProfileOverride profile (ec_stage c) (ec_reviewFeedback c);
               a = run_attempt v c p;
               d1 = d\<lparr>xd_stageRuns := xd_stageRuns d @ [new_row v c]\<rparr>;
               d2 = ev_meanwhile v (working v a d1);
               (r, d3) = (case at_error a of
                   None \<Rightarrow> settle_completed v c a d2 | Some msg \<Rightarrow> settle_failed v c a msg d2)
           in (Inr r, d3)))"

end
