(* ===== verification/ExecutorProps.thy ===== *)
theory ExecutorProps
  imports Executor ErrorClassifier Execution
begin

text \<open>
  What the execution of a stage promises: it settles its row in time, a collision of sessions leads to a
  retry with a fresh session, profiles stay within their bounds; and where it does less than is said.
\<close>

section \<open>Profiles\<close>

definition profile_ok :: "agent_profile \<Rightarrow> bool" where
  "profile_ok p \<longleftrightarrow> 0 < ap_maxTurns p \<and> ap_maxTurns p \<le> 500 \<and> 0 < ap_maxInputTokens p \<and>
     ap_maxInputTokens p \<le> 500000 \<and> ap_model p \<noteq> None \<and> ap_model p \<noteq> Some []"

lemma positive_within_bounds:
  "positive_within limit v = Some n \<Longrightarrow> 0 < n \<and> int n \<le> limit"
  by (auto simp: positive_within_def split: option.splits json.splits if_splits)

lemma merge_ok:
  assumes "profile_ok p"
  shows "profile_ok (mergeOverride p ov)"
proof -
  let ?m = "mergeOverride p ov"
  have "0 < ap_maxTurns ?m \<and> ap_maxTurns ?m \<le> 500"
    using assms positive_within_bounds [of MAX_TURNS_CEILING]
    by (fastforce simp: mergeOverride_def profile_ok_def MAX_TURNS_CEILING_def split: option.split)
  moreover have "0 < ap_maxInputTokens ?m \<and> ap_maxInputTokens ?m \<le> 500000"
    using assms positive_within_bounds [of MAX_INPUT_TOKENS_CEILING]
    by (fastforce simp: mergeOverride_def profile_ok_def MAX_INPUT_TOKENS_CEILING_def split: option.split)
  moreover have "ap_model ?m \<noteq> None \<and> ap_model ?m \<noteq> Some []"
    using assms by (auto simp: mergeOverride_def profile_ok_def split: option.split json.split)
  ultimately show ?thesis by (simp add: profile_ok_def)
qed

lemma default_profiles_ok: "list_all (\<lambda>a. profile_ok (snd a)) DEFAULT_AGENT_PROFILES"
  by (simp add: DEFAULT_AGENT_PROFILES_def profile_ok_def DEFAULT_MODEL_def HAIKU_MODEL_def)

lemma default_get_ok: "mapGet DEFAULT_AGENT_PROFILES stg = Some p \<Longrightarrow> profile_ok p"
  using default_profiles_ok by (auto simp: list_all_iff dest!: map_of_SomeD)

lemma set_profile_ok:
  "list_all (\<lambda>a. profile_ok (snd a)) ps \<Longrightarrow> profile_ok p \<Longrightarrow> list_all (\<lambda>a. profile_ok (snd a)) (mapSet ps k p)"
  by (induction ps) auto

lemma override_ok:
  assumes "list_all (\<lambda>a. profile_ok (snd a)) ps" "map fst ps = map fst DEFAULT_AGENT_PROFILES"
  shows "list_all (\<lambda>a. profile_ok (snd a)) (override_profiles os ps) \<and>
    map fst (override_profiles os ps) = map fst DEFAULT_AGENT_PROFILES"
  using assms
proof (induction os ps rule: override_profiles.induct)
  case (2 stg ov os ps)
  let ?next = "case (mapGet DEFAULT_AGENT_PROFILES stg, ov) of
      (Some base, JObj _) \<Rightarrow> mapSet ps stg (mergeOverride base ov) | _ \<Rightarrow> ps"
  have "list_all (\<lambda>a. profile_ok (snd a)) ?next \<and> map fst ?next = map fst DEFAULT_AGENT_PROFILES"
  proof (cases "\<exists>base fs. mapGet DEFAULT_AGENT_PROFILES stg = Some base \<and> ov = JObj fs")
    case True
    then obtain base fs where b: "mapGet DEFAULT_AGENT_PROFILES stg = Some base" "ov = JObj fs" by blast
    from b(1) have "stg \<in> set (map fst ps)" using 2(3) by (auto dest!: map_of_SomeD) (metis image_eqI fst_conv list.set_map)
    then have "map fst (mapSet ps stg (mergeOverride base ov)) = map fst ps" by (simp add: AList.update_keys)
    with b 2(2,3) show ?thesis by (simp add: set_profile_ok merge_ok [OF default_get_ok [OF b(1)]])
  next
    case False
    then show ?thesis using 2(2,3) by (auto split: option.split json.split)
  qed
  then show ?case using 2(1) by simp
qed simp


section \<open>Sessions\<close>

text \<open>
  A session is continued exactly if its transcript is there, and created under the same id exactly if it is
  not; other stages and models get none.
\<close>
theorem session_follows_disk:
  "fst (resolveSessionOpts transcripts root n p) =
     (case (sp_agentSessionId p, sp_model p) of
        (Some sid, Some m) \<Rightarrow>
          if m \<noteq> [] \<and> isResumable (sp_stage p) m
          then (if transcriptPath root (sp_workdir p) sid \<in> set transcripts then ResumeSession sid else CreateSession sid)
          else NoSession
      | _ \<Rightarrow> NoSession)"
  by (simp add: resolveSessionOpts_def transcriptExists_def split: option.split)

section \<open>The error output\<close>

lemma last_n_append: "last_n n (last_n n xs @ ys) = last_n n (xs @ ys)"
proof (cases "length xs \<le> n")
  case False
  then show ?thesis by (simp add: last_n_def add.commute)
qed (simp add: last_n_def)

text \<open>Kept chunk by chunk, the error output is the end of the whole.\<close>

lemma capture_is_tail: "capture_stderr chunks = last_n 2000 (concat chunks)"
proof -
  have "foldl (\<lambda>acc c. if length (acc @ c) > 2000 then last_n 2000 (acc @ c) else acc @ c) (last_n 2000 xs) chunks =
      last_n 2000 (xs @ concat chunks)" for xs
  proof (induction chunks arbitrary: xs)
    case (Cons c cs)
    have "(if length (last_n 2000 xs @ c) > 2000 then last_n 2000 (last_n 2000 xs @ c) else last_n 2000 xs @ c) =
        last_n 2000 (last_n 2000 xs @ c)" by (simp add: last_n_def)
    then show ?case using Cons [of "xs @ c"] by (simp add: last_n_append)
  qed simp
  from this [of "[]"] show ?thesis by (simp add: capture_stderr_def last_n_def)
qed

section \<open>The end of a stage\<close>

lemma attempt_in_time: "at_end (run_attempt v c p) \<le> ev_start v + max (ev_authMs v) (stageTimeoutMs (ec_stage c))"
  by (auto simp: run_attempt_def Let_def split: option.split sum.split prod.split)

lemma complete_row:
  "settle_completed v c a d = (r, d1) \<Longrightarrow> re_status r = StageCompleted \<and>
     list_all (\<lambda>x. if s_id x = ev_stageRunId v then s_status x = SCompleted else True) (xd_stageRuns d1)"
  by (auto simp: settle_completed_def set_row_def update_where_def list_all_iff Let_def split: prod.splits)

lemma fail_row:
  "settle_failed v c a msg d = (r, d1) \<Longrightarrow> re_status r = StageFailed \<and>
     list_all (\<lambda>x. if s_id x = ev_stageRunId v then s_status x = SFailed \<and> s_completedAt x = Some (int (at_end a))
       else True) (xd_stageRuns d1)"
  by (auto simp: settle_failed_def set_row_def update_where_def list_all_iff Let_def split: prod.splits)

lemma complete_row_time:
  "settle_completed v c a d = (r, d1) \<Longrightarrow>
     list_all (\<lambda>x. if s_id x = ev_stageRunId v then s_completedAt x = Some (int (at_end a)) else True) (xd_stageRuns d1)"
  by (auto simp: settle_completed_def set_row_def update_where_def list_all_iff Let_def split: prod.splits)


section \<open>Collisions of sessions\<close>

lemma isTransient_collision: "isTransientError (s @ ''session-id-collision-recovered'' @ t)"
proof -
  have "isTransientError ''session-id-collision-recovered''" by code_simp
  then show ?thesis by (rule isTransientError_extend)
qed

text \<open>
  C7. A stage that failed because its session id was taken is retried with a fresh one: its message counts as
  transient, the new id is stored for the run and returned, and this happens for no other failure.
\<close>
theorem collision_recovers:
  "let (r, d1) = settle_failed v c a msg d;
       collision = ec_agentSessionId c \<noteq> None \<and> says_collision (last_n 2000 (concat (ev_stderr v)))
   in if collision
      then re_newSessionId r = Some (ev_newSessionId v) \<and> mapGet (xd_sessions d1) (ec_runId c) = Some (ev_newSessionId v) \<and>
           isTransientError (the (re_errorMessage r))
      else re_newSessionId r = None \<and> xd_sessions d1 = xd_sessions d"
proof -
  have "isTransientError (enriched_message v a True msg)"
    using isTransient_collision [of "msg @ '' [''"] by (simp add: enriched_message_def)
  then show ?thesis
    by (auto simp: settle_failed_def capture_is_tail set_row_def Let_def update_Some_unfold AList.update_conv' split: prod.splits)
qed

lemma joinWith_snoc: "joinWith sep (xs @ [y]) = (if xs = [] then y else joinWith sep xs @ sep @ y)"
  by (induction sep xs rule: joinWith.induct) auto

lemma last_part_inside: "\<exists>u w. a @ joinWith sep (ps @ [p @ n @ q]) @ b = u @ n @ w"
proof (cases "ps = []")
  case True
  have "a @ joinWith sep (ps @ [p @ n @ q]) @ b = (a @ p) @ n @ (q @ b)" by (simp add: True)
  then show ?thesis by blast
next
  case False
  have "a @ joinWith sep (ps @ [p @ n @ q]) @ b = (a @ joinWith sep ps @ sep @ p) @ n @ (q @ b)"
    by (simp add: joinWith_snoc False)
  then show ?thesis by blast
qed

lemma enriched_duration: "\<exists>u w. enriched_message v a collision msg = u @ show_nat (at_end a - ev_start v) @ w"
proof -
  let ?ps = "(if collision then [''session-id-collision-recovered''] else []) @
      [''exitCode='' @ (case exit_code msg of Some n \<Rightarrow> show_nat n | None \<Rightarrow> ''?''),
       ''auth='' @ auth_text (resolveClaudeAuth (ev_auth v)), ''session='' @ at_sessionType a]"
  have "enriched_message v a collision msg = (msg @ '' ['') @ joinWith '', ''
      (?ps @ [''duration='' @ show_nat (at_end a - ev_start v) @ ''ms'']) @ '']''"
    unfolding enriched_message_def by (simp only: append.assoc append_Cons append_Nil)
  then show ?thesis using last_part_inside by (simp only:)
qed

text \<open>
  The message of a failure carries its duration, and the classifier looks for status codes anywhere in it: a
  permanent failure after 14.01 seconds counts as transient and is retried.
\<close>
theorem duration_read_as_status:
  "if strIncludes (show_nat (at_end a - ev_start v)) ''401'' then isTransientError (enriched_message v a collision msg)
   else True"
proof -
  have "isTransientError (enriched_message v a collision msg)" if t: "strIncludes (show_nat (at_end a - ev_start v)) ''401''"
  proof -
    from t obtain x y where xy: "show_nat (at_end a - ev_start v) = x @ ''401'' @ y" unfolding strIncludes_iff by blast
    obtain u w where "enriched_message v a collision msg = u @ (x @ ''401'' @ y) @ w"
      using enriched_duration [of v a collision msg] unfolding xy by blast
    moreover have "isTransientError ''401''" by code_simp
    ultimately show ?thesis
      using isTransientError_extend [of "''401''" "u @ x" "y @ w"] by (simp only: append.assoc)
  qed
  then show ?thesis by presburger
qed

section \<open>Tokens\<close>

text \<open>No report says more than has been used.\<close>

definition reports_ok :: "stream_state \<Rightarrow> bool" where
  "reports_ok st \<longleftrightarrow> list_all (\<lambda>(t, s). ss_inputTokens s \<le> cs_inputTokens st \<and>
     ss_outputTokens s \<le> cs_outputTokens st) (cs_reports st)"

lemma reports_ok_take: "reports_ok st \<Longrightarrow> reports_ok (take_message opts t m st)"
  by (auto simp: reports_ok_def take_message_def report_progress_def add_usage_def stats_of_def Let_def list_all_iff
      split: option.split)

lemma reports_ok_consume: "reports_ok st \<Longrightarrow> reports_ok (snd (snd (consume opts start1 es t1 st)))"
proof (induction opts start1 es t1 st rule: consume.induct)
  case (1 opts start1 t1 st)
  then show ?case using timed_out_fields [of opts t1 "t1 + remaining opts start1 t1 st" st] by auto
next
  case (2 opts start1 t0 item es t1 st)
  then show ?case using timed_out_fields [of opts t1 "t1 + remaining opts start1 t1 st" st]
    by (auto simp: Let_def reports_ok_take split: stream_item.split)
qed

lemma reports_ok_stream: "reports_ok (snd (snd (consumeAgentStream opts start1 es)))"
proof -
  have "reports_ok (stream_start start1)" by (simp add: reports_ok_def stream_start_def)
  then show ?thesis by (simp add: consumeAgentStream_def reports_ok_consume split: option.split)
qed

lemma snapshot_below:
  assumes "reports_ok (at_state a)" "snapshot a = (i, out, turns)"
  shows "i \<le> cs_inputTokens (at_state a) \<and> out \<le> cs_outputTokens (at_state a)"
proof (cases "rev (reports_until a)")
  case (Cons x xs)
  then have "x \<in> set (cs_reports (at_state a))" by (metis (no_types, lifting) filter_is_subset in_mono list.set_intros(1) reports_until_def set_rev)
  with assms Cons show ?thesis by (cases x) (auto simp: snapshot_def reports_ok_def list_all_iff)
qed (use assms in \<open>simp add: snapshot_def\<close>)

lemma used_take: "used f (take n ms) \<le> used f ms"
  by (metis append_take_drop_id le_add1 map_append sum_list_append used_def)

text \<open>What the variables of an attempt count is part of what the stream brings, and all of it without an error.\<close>

lemma attempt_counts:
  assumes "ev_query v = Inr items" "a = run_attempt v c p"
  shows "cs_inputTokens (at_state a) \<le> used us_input (arrived items) \<and>
    cs_outputTokens (at_state a) \<le> used us_output (arrived items) \<and> reports_ok (at_state a) \<and>
    (at_error a = None \<longrightarrow> cs_inputTokens (at_state a) = used us_input (arrived items) \<and>
       cs_outputTokens (at_state a) = used us_output (arrived items))"
proof -
  have fresh: "reports_ok (stream_start t)" "cs_inputTokens (stream_start t) = 0" "cs_outputTokens (stream_start t) = 0" for t
    by (simp_all add: reports_ok_def stream_start_def)
  have stream: "reports_ok st \<and> cs_inputTokens st \<le> used us_input (arrived items) \<and>
      cs_outputTokens st \<le> used us_output (arrived items) \<and>
      (out = Consumed \<longrightarrow> cs_inputTokens st = used us_input (arrived items) \<and> cs_outputTokens st = used us_output (arrived items))"
    if "consumeAgentStream exec_stream_options t items = (out, t1, st)" for t out t1 st
  proof -
    from that have "consume exec_stream_options t items t (stream_start t) = (out, t1, st)"
      by (simp add: consumeAgentStream_def exec_stream_options_def default_stream_options_def)
    from consume_counts [OF this] reports_ok_stream [of exec_stream_options t items] that show ?thesis
      by (auto simp: fresh used_take)
  qed
  have none: "outcome_error out = None \<longleftrightarrow> out = Consumed" for out
    by (simp add: outcome_error_def split: stream_outcome.split)
  show ?thesis
    unfolding assms(2) run_attempt_def Let_def
    using stream by (auto simp: assms(1) fresh none split: option.split prod.split)
qed

text \<open>
  The tokens a stage reports to the budget: those of all messages if it completed; of a failed stage no more than
  that, namely those of the last report, which may be none.
\<close>
theorem stage_tokens:
  "case fst (executeStage (v\<lparr>ev_query := Inr items\<rparr>) c d) of
     Inl _ \<Rightarrow> True
   | Inr r \<Rightarrow>
       (if re_status r = StageCompleted
        then re_inputTokens r = used us_input (arrived items) \<and> re_outputTokens r = used us_output (arrived items)
        else re_inputTokens r \<le> used us_input (arrived items) \<and> re_outputTokens r \<le> used us_output (arrived items))"
proof (cases "ec_stage c = AwaitApproval \<or> mapGet (ev_profiles v) (stage_name (ec_stage c)) = None")
  case True
  then show ?thesis by (auto simp: executeStage_def split: option.split)
next
  case False
  then obtain q where q: "ec_stage c \<noteq> AwaitApproval" "mapGet (ev_profiles v) (stage_name (ec_stage c)) = Some q" by auto
  let ?v = "v\<lparr>ev_query := Inr items\<rparr>"
  let ?a = "run_attempt ?v c (applyReviewFeedbackProfileOverride q (ec_stage c) (ec_reviewFeedback c))"
  have counts: "cs_inputTokens (at_state ?a) \<le> used us_input (arrived items)"
    "cs_outputTokens (at_state ?a) \<le> used us_output (arrived items)" "reports_ok (at_state ?a)"
    "at_error ?a = None \<Longrightarrow> cs_inputTokens (at_state ?a) = used us_input (arrived items) \<and>
       cs_outputTokens (at_state ?a) = used us_output (arrived items)"
    using attempt_counts [of ?v items ?a c] by simp_all
  obtain i out turns where s: "snapshot ?a = (i, out, turns)" by (cases "snapshot ?a")
  note below = snapshot_below [OF counts(3) s]
  show ?thesis
  proof (cases "at_error ?a")
    case None
    with counts(4) show ?thesis using q by (simp add: executeStage_def Let_def settle_completed_def split: prod.split)
  next
    case (Some msg)
    with below counts(1,2) show ?thesis using q
      by (simp add: executeStage_def Let_def settle_failed_def s split: prod.split)
  qed
qed

text \<open>The limit on input tokens of a profile reaches neither the agent nor anything else.\<close>

lemma input_limit_unused:
  "run_attempt v c (p\<lparr>ap_maxInputTokens := n\<rparr>) = run_attempt v c p"
proof -
  have m: "resolved_model (p\<lparr>ap_maxInputTokens := n\<rparr>) c = resolved_model p c"
    by (simp add: resolved_model_def split: option.split)
  moreover have "build_query v c (p\<lparr>ap_maxInputTokens := n\<rparr>) s = build_query v c p s" for s
    by (simp add: build_query_def m)
  ultimately show ?thesis unfolding run_attempt_def by (simp only:)
qed

section \<open>Logs\<close>

text \<open>
  Of the messages of a failed stage only whole groups of twenty are written: the last ones before the failure,
  up to nineteen, are lost.
\<close>

lemma failed_stage_loses_logs:
  assumes "at_error a = Some msg"
  shows "length (tool_logs v a) =
    length (filter (\<lambda>(t, _). t \<le> at_end a) (cs_tools (at_state a))) div 20 * 20"
  using assms by (simp add: tool_logs_def Let_def BATCH_SIZE_def split_def)

section \<open>Stopping a stage\<close>

text \<open>The runner's environment with this executor behind it.\<close>

definition with_executor ::
  "(nat \<Rightarrow> stage_call \<Rightarrow> exec_env) \<Rightarrow> (nat \<Rightarrow> stage_call \<Rightarrow> exec_context) \<Rightarrow> (nat \<Rightarrow> stage_call \<Rightarrow> exec_db) \<Rightarrow>
   pipeline_env \<Rightarrow> pipeline_env" where
  "with_executor vs cs ds e = e\<lparr>en_executeStage := \<lambda>n sc. fst (executeStage (vs n sc) (cs n sc) (ds n sc))\<rparr>"

lemma never_cancelled: "fst (executeStage v c d) = Inr r \<Longrightarrow> re_status r \<noteq> StageCancelled"
  by (auto simp: executeStage_def settle_completed_def settle_failed_def Let_def split: if_splits option.splits prod.splits)

text \<open>
  C5. A stop does not reach the agent. The stream is consumed without a signal to abort, and a stage never comes
  back as cancelled, whatever is requested while it runs: the runner's handling of a cancelled stage is never
  reached, and a cancel waits for the end of the stage as a graceful stop does.
\<close>
theorem cancel_never_interrupts:
  "so_abortAt exec_stream_options = None \<and>
   (let x1 = run_stage (with_executor vs cs ds e) sc x
    in if x_exit x1 = None then re_status (x_result x1) \<noteq> StageCancelled else x_exit x1 \<noteq> None)"
proof -
  have "so_abortAt exec_stream_options = None" by (simp add: exec_stream_options_def default_stream_options_def)
  moreover have "re_status (x_result (run_stage (with_executor vs cs ds e) sc x)) \<noteq> StageCancelled"
    if "x_exit (run_stage (with_executor vs cs ds e) sc x) = None"
  proof (cases "fst (executeStage (vs (now x) sc) (cs (now x) sc) (ds (now x) sc))")
    case (Inl msg)
    with that show ?thesis by (simp add: run_stage_def with_executor_def throw_def)
  next
    case (Inr r)
    with never_cancelled [OF Inr] show ?thesis by (simp add: run_stage_def with_executor_def)
  qed
  ultimately show ?thesis by (simp add: Let_def)
qed

section \<open>Decisions\<close>

text \<open>
  The counters of the requirements check and of the review fixes share the column of iterations: the decisions
  of a first fix after two rounds of the check are not the latest.
\<close>

lemma later_decisions_hidden:
  "getLatestDecisionArtifact (persistDecisionArtifact run 1 ''implement'' d2
     (persistDecisionArtifact run 2 ''implement'' d1 [])) run = Some (2, ''implement'', d1)"
  by (simp add: getLatestDecisionArtifact_def persistDecisionArtifact_def)

end
