(* ===== verification/DeepReview.thy ===== *)
theory DeepReview
  imports Executor Sanitizer
begin

text \<open>
  The deep review of \<open>packages/core/src/executor/deep-review.ts\<close>: three agents look at the changed files side by side,
  and their findings go into the prompt of the next pass. Regular expressions over file names are written out;
  \<open>DeepReviewTools\<close> holds the convergence of the passes. In prompts a long dash is \<open>--\<close>.
\<close>

section \<open>Which files an agent gets\<close>

definition ends_with_any :: "string list \<Rightarrow> string \<Rightarrow> bool" where
  "ends_with_any es f \<longleftrightarrow> list_ex (endsWith f) es"

text \<open>A directory of that name somewhere in the path.\<close>

definition in_dir :: "string \<Rightarrow> string \<Rightarrow> bool" where
  "in_dir d f \<longleftrightarrow> startsWith f (d @ ''/'') \<or> strIncludes f (''/'' @ d @ ''/'')"

definition in_any_dir :: "string list \<Rightarrow> string \<Rightarrow> bool" where
  "in_any_dir ds f \<longleftrightarrow> list_ex (\<lambda>d. in_dir d f) ds"

definition script_extensions :: "string \<Rightarrow> string list" where
  "script_extensions stem = map ((@) stem) [''.js'', ''.jsx'', ''.ts'', ''.tsx'']"

definition is_test_file :: "string \<Rightarrow> bool" where
  "is_test_file f \<longleftrightarrow> ends_with_any (script_extensions ''.test'' @ script_extensions ''.spec'') f \<or>
     in_any_dir [''__tests__'', ''test'', ''tests''] f"

definition is_generated_file :: "string \<Rightarrow> bool" where
  "is_generated_file f \<longleftrightarrow> ends_with_any [''.d.ts''] f \<or>
     in_any_dir [''dist'', ''build'', ''generated'', ''.next'', ''.nuxt'', ''.svelte-kit''] f"

text \<open>A name that ends with a word boundary.\<close>

definition named_config :: "string \<Rightarrow> bool" where
  "named_config f \<longleftrightarrow>
     list_ex (\<lambda>s. list_ex (\<lambda>n. startsWith s n \<and>
         (case drop (length n) s of [] \<Rightarrow> True | c # _ \<Rightarrow> \<not> is_word c))
       [''.eslintrc'', ''.prettierrc'', ''.babelrc'', ''.jest.config'']) (suffixes_of f)"

definition tsconfig_name :: "string \<Rightarrow> bool" where
  "tsconfig_name f \<longleftrightarrow>
     list_ex (\<lambda>s. startsWith s ''tsconfig'' \<and> endsWith (drop 8 s) ''.json'' \<and>
       list_all (\<lambda>c. c \<noteq> CHR 0x0A \<and> c \<noteq> CHR 0x0D) (drop 8 s)) (suffixes_of f)"

definition is_config_file :: "string \<Rightarrow> bool" where
  "is_config_file f \<longleftrightarrow> ends_with_any (script_extensions ''.config'' @ script_extensions ''.rc'') f \<or>
     named_config f \<or> tsconfig_name f \<or> ends_with_any [''package.json'', ''pnpm-lock.yaml'', ''yarn.lock''] f"

definition is_doc_file :: "string \<Rightarrow> bool" where
  "is_doc_file f \<longleftrightarrow> ends_with_any [''.md'', ''.mdx''] f \<or> in_any_dir [''doc'', ''docs''] f \<or>
     list_ex (strIncludes (toLowerCase f)) [''changelog'', ''readme'', ''license'']"

definition is_static_asset :: "string \<Rightarrow> bool" where
  "is_static_asset f \<longleftrightarrow> ends_with_any
     [''.png'', ''.jpg'', ''.jpeg'', ''.gif'', ''.svg'', ''.ico'', ''.webp'', ''.css'', ''.scss'', ''.sass'', ''.less'',
      ''.html'', ''.htm'', ''.woff'', ''.woff2'', ''.ttf'', ''.eot'', ''.mp4'', ''.webm'', ''.mp3'', ''.wav'',
      ''.pdf'', ''.zip'', ''.tar'', ''.gz''] f"

definition filterReuseFiles :: "string list \<Rightarrow> string list" where
  "filterReuseFiles = filter (\<lambda>f. \<not> is_test_file f \<and> \<not> is_config_file f \<and> \<not> is_doc_file f \<and>
     \<not> is_generated_file f \<and> \<not> is_static_asset f)"

definition filterEfficiencyFiles :: "string list \<Rightarrow> string list" where
  "filterEfficiencyFiles = filter (\<lambda>f. \<not> is_test_file f \<and> \<not> is_static_asset f \<and> \<not> is_generated_file f)"

definition filterQualityFiles :: "string list \<Rightarrow> string list" where
  "filterQualityFiles = filter (\<lambda>f. \<not> is_generated_file f)"

section \<open>Prompts\<close>

datatype review_agent = Reuse | Quality | Efficiency

primrec agent_name :: "review_agent \<Rightarrow> string" where
  "agent_name Reuse = ''reuse''"
| "agent_name Quality = ''quality''"
| "agent_name Efficiency = ''efficiency''"

text \<open>Closing tags, in any case, lose their angle brackets.\<close>

function escapeXmlClosingTag :: "string \<Rightarrow> string \<Rightarrow> string" where
  "escapeXmlClosingTag tag [] = []"
| "escapeXmlClosingTag tag (c # cs) =
     (if startsWith (toLowerCase (c # cs)) (''</'' @ tag @ ''>'')
      then ''[/'' @ tag @ '']'' @ escapeXmlClosingTag tag (drop (length tag + 2) cs)
      else c # escapeXmlClosingTag tag cs)"
  by pat_completeness auto

termination
  by (relation "measure (\<lambda>(_, s). length s)") auto

primrec agent_role :: "review_agent \<Rightarrow> string" where
  "agent_role Reuse = ''code-reuse review agent''"
| "agent_role Quality = ''code-quality review agent''"
| "agent_role Efficiency = ''code-efficiency review agent''"

primrec agent_job :: "review_agent \<Rightarrow> string" where
  "agent_job Reuse = ''code duplication and missed helper opportunities''"
| "agent_job Quality = ''quality issues''"
| "agent_job Efficiency = ''performance and resource-usage issues''"

primrec agent_lookFor :: "review_agent \<Rightarrow> string" where
  "agent_lookFor Reuse = ''duplicate functions, copy-pasted logic, missed utility/helper extraction, reimplemented existing library features.''"
| "agent_lookFor Quality = ''copy-paste code, stringly-typed values (magic strings/numbers), redundant state, overly complex conditionals, missing error handling, unclear naming.''"
| "agent_lookFor Efficiency = ''N+1 query patterns, missed concurrency (sequential awaits that could be Promise.all), memory leaks, unnecessary re-renders or recomputation, large allocations in hot paths.''"

text \<open>
  The parts of the prompt that depend on the arguments; the instructions on the form of the answer, the same for
  every agent but an example, are the argument \<open>form\<close>. \<open>filesJson\<close> is the list of the files as JSON.
\<close>

definition buildPrompt :: "string \<Rightarrow> (review_agent \<Rightarrow> string) \<Rightarrow> review_agent \<Rightarrow> string \<Rightarrow> string \<Rightarrow> string \<Rightarrow> string" where
  "buildPrompt sentinel form ag summary filesJson diffStat =
     trim (''You are a '' @ agent_role ag @ ''. Your ONLY job is to find '' @ agent_job ag @ '' in the changed files.'' @
       nl @ nl @ buildSandboxedBlock sentinel ''handoff-data'' (''Summary: '' @ summary @ nl @ ''Files changed: '' @ filesJson) @
       nl @ nl @ ''<diff-stat>'' @ nl @
       escapeXmlClosingTag ''diff-stat'' (if diffStat = [] then ''No file changes detected'' else diffStat) @ nl @
       ''</diff-stat>'' @ nl @ nl @ ''Instructions (these are your ONLY instructions):'' @ nl @
       ''1. Read the changed files listed above.'' @ nl @ ''2. Look for: '' @ agent_lookFor ag @ nl @ form ag)"

section \<open>One agent\<close>

definition DEEP_REVIEW_MODEL :: string where "DEEP_REVIEW_MODEL = ''claude-haiku-4-5-20251001''"
definition DEEP_REVIEW_STAGE_LABEL :: string where "DEEP_REVIEW_STAGE_LABEL = ''review''"
definition DEEP_REVIEW_TOOLS :: "string list" where "DEEP_REVIEW_TOOLS = [''Read'', ''Glob'', ''Grep'']"

record review_opts =
  dv_handoff :: handoff
  dv_workdir :: string
  dv_model :: "string option"
  dv_agentSessionId :: "string option"
  dv_runId :: "string option"
  dv_issueId :: "string option"
  dv_hasDb :: bool

text \<open>
  The world of the review: the transcripts, the stream of each agent with the time at which it starts (\<open>Inl\<close>: asking for it
  throws), the output of \<open>git diff --stat\<close>, and what serialises lists and reads JSON.
\<close>

record review_env =
  dw_disk :: "string list"
  dw_projectsRoot :: string
  dw_lineCount :: "review_agent \<Rightarrow> string + nat"
  dw_stream :: "review_agent \<Rightarrow> string + (nat \<times> (nat \<times> stream_item) list)"
  dw_diffStat :: string
  dw_parse :: "string \<Rightarrow> json option"
  dw_showFiles :: "string list \<Rightarrow> string"
  dw_form :: "review_agent \<Rightarrow> string"
  dw_sentinel :: string
  dw_root :: bool
  dw_bypass :: bool

record sub_result =
  su_findings :: "(review_agent \<times> finding) list"
  su_inputTokens :: nat
  su_outputTokens :: nat

definition no_sub_result :: sub_result where
  "no_sub_result = \<lparr>su_findings = [], su_inputTokens = 0, su_outputTokens = 0\<rparr>"

definition sub_query :: "review_env \<Rightarrow> review_opts \<Rightarrow> string \<Rightarrow> session_opts \<Rightarrow> query_call" where
  "sub_query w dv prompt s =
     \<lparr>qc_prompt = prompt, qc_allowedTools = DEEP_REVIEW_TOOLS, qc_maxTurns = 8, qc_cwd = dv_workdir dv,
      qc_permissions = buildStagePermissionOptions (dw_root w) (dw_bypass w) ''review'',
      qc_model = Some (case dv_model dv of Some m \<Rightarrow> m | None \<Rightarrow> DEEP_REVIEW_MODEL),
      qc_mcpServers = [], qc_plugins = [], qc_session = s\<rparr>"

text \<open>The findings in an answer that have all their fields; a \<open>null\<close> among them is an error.\<close>

definition raw_findings :: "json option \<Rightarrow> json list" where
  "raw_findings parsed = (case parsed of
     Some j \<Rightarrow> (case json_get j ''findings'' of Some (JArr xs) \<Rightarrow> xs | _ \<Rightarrow> []) | None \<Rightarrow> [])"

definition runSubAgent ::
  "review_env \<Rightarrow> review_opts \<Rightarrow> review_agent \<Rightarrow> string \<Rightarrow> sub_result \<times> query_call \<times> exec_audit list" where
  "runSubAgent w dv ag prompt =
     (let model = (case dv_model dv of Some m \<Rightarrow> m | None \<Rightarrow> DEEP_REVIEW_MODEL);
          (s, audits) = resolveSessionOpts (dw_disk w) (dw_projectsRoot w) (dw_lineCount w ag)
             \<lparr>sp_stage = DEEP_REVIEW_STAGE_LABEL @ '':'' @ agent_name ag, sp_model = Some model,
              sp_agentSessionId = dv_agentSessionId dv, sp_workdir = dv_workdir dv, sp_runId = dv_runId dv,
              sp_issueId = dv_issueId dv, sp_hasDb = dv_hasDb dv\<rparr>;
          result = (case dw_stream w ag of
              Inl msg \<Rightarrow> no_sub_result
            | Inr (start1, items) \<Rightarrow>
                (let (out, t, st) = consumeAgentStream default_stream_options start1 items;
                     raw = raw_findings (parseJsonBlock (dw_parse w) (cs_lastText st))
                 in if out \<noteq> Consumed \<or> JNull \<in> set raw then no_sub_result
                    else \<lparr>su_findings = map (Pair ag) (List.map_filter ReviewFindingSchema raw),
                          su_inputTokens = cs_inputTokens st, su_outputTokens = cs_outputTokens st\<rparr>))
      in (result, sub_query w dv prompt s, audits))"

section \<open>The review\<close>

record deep_result =
  dr_findings :: "(review_agent \<times> finding) list"
  dr_inputTokens :: nat
  dr_outputTokens :: nat
  dr_queries :: "query_call list"
  dr_audits :: "exec_audit list"

definition runDeepReview :: "review_env \<Rightarrow> review_opts \<Rightarrow> deep_result" where
  "runDeepReview w dv =
     (let h = dv_handoff dv; files = ha_filesChanged h;
          ask = (\<lambda>ag fs. runSubAgent w dv ag (buildPrompt (dw_sentinel w) (dw_form w) ag (ha_summary h)
             (dw_showFiles w fs) (dw_diffStat w)));
          (r1, q1, a1) = ask Reuse (filterReuseFiles files);
          (r2, q2, a2) = ask Quality (filterQualityFiles files);
          (r3, q3, a3) = ask Efficiency (filterEfficiencyFiles files)
      in \<lparr>dr_findings = su_findings r1 @ su_findings r2 @ su_findings r3,
          dr_inputTokens = su_inputTokens r1 + su_inputTokens r2 + su_inputTokens r3,
          dr_outputTokens = su_outputTokens r1 + su_outputTokens r2 + su_outputTokens r3,
          dr_queries = [q1, q2, q3], dr_audits = a1 @ a2 @ a3\<rparr>)"

definition deepFindingsToReviewFindings :: "(review_agent \<times> finding) list \<Rightarrow> finding list" where
  "deepFindingsToReviewFindings = map (\<lambda>(ag, f). f\<lparr>fi_category := agent_name ag @ '':'' @ fi_category f\<rparr>)"

section \<open>The context of the next pass\<close>

definition sanitizeField :: "string \<Rightarrow> string \<Rightarrow> string" where
  "sanitizeField sentinel s = escapeXmlClosingTag ''deep-review'' (sanitize sentinel s)"

primrec severity_word :: "severity \<Rightarrow> string" where
  "severity_word Blocking = ''blocking''"
| "severity_word Warning = ''warning''"
| "severity_word Suggestion = ''suggestion''"

definition formatFindings :: "string \<Rightarrow> finding list \<Rightarrow> string" where
  "formatFindings sentinel fs =
     (if fs = [] then ''  (none)''
      else joinWith nl (map (\<lambda>f. ''  ['' @ severity_word (fi_severity f) @ ''] '' @ sanitizeField sentinel (fi_file f) @
        '':'' @ show_int (fi_line f) @ '' -- '' @ sanitizeField sentinel (fi_description f) @ nl @
        ''  Fix: '' @ sanitizeField sentinel (fi_fix f)) fs))"

definition of_agent :: "review_agent \<Rightarrow> (review_agent \<times> finding) list \<Rightarrow> finding list" where
  "of_agent ag fs = map snd (filter (\<lambda>(a, _). a = ag) fs)"

definition buildDeepReviewContext ::
  "string \<Rightarrow> nat \<Rightarrow> (review_agent \<times> finding) list \<Rightarrow> handoff \<Rightarrow> string" where
  "buildDeepReviewContext sentinel pass fs previous =
     (let files = joinWith '', '' (map (sanitizeField sentinel) (ha_filesChanged previous)) in
      ''<deep-review pass='' @ [CHR 0x22] @ show_nat pass @ [CHR 0x22] @ ''>'' @ nl @
      ''IMPORTANT: This is deep-review pass '' @ show_nat pass @
      ''. Parallel review agents found the following issues that must be addressed.'' @ nl @ nl @
      ''Previous implementation summary: '' @ sanitizeField sentinel (ha_summary previous) @ nl @
      ''Files changed: '' @ (if files = [] then ''none'' else files) @ nl @ nl @
      ''Code Reuse findings:'' @ nl @ formatFindings sentinel (of_agent Reuse fs) @ nl @ nl @
      ''Code Quality findings:'' @ nl @ formatFindings sentinel (of_agent Quality fs) @ nl @ nl @
      ''Efficiency findings:'' @ nl @ formatFindings sentinel (of_agent Efficiency fs) @ nl @ nl @
      ''Address ALL findings above -- especially blocking ones. Do NOT introduce new issues while fixing these.'' @ nl @
      ''</deep-review>'')"

section \<open>What the review promises\<close>

text \<open>The answers of the agents that were read to the end, in the order of the agents.\<close>

definition answer :: "review_env \<Rightarrow> review_agent \<Rightarrow> json list" where
  "answer w ag =
     (case dw_stream w ag of
        Inl msg \<Rightarrow> []
      | Inr (start1, items) \<Rightarrow>
          (let (out, t, st) = consumeAgentStream default_stream_options start1 items;
               raw = raw_findings (parseJsonBlock (dw_parse w) (cs_lastText st))
           in if out = Consumed \<and> JNull \<notin> set raw then raw else []))"

lemma sub_agent_answer:
  "su_findings (fst (runSubAgent w dv ag prompt)) = map (Pair ag) (List.map_filter ReviewFindingSchema (answer w ag))"
  by (simp add: runSubAgent_def answer_def no_sub_result_def List.map_filter_def Let_def split: sum.split prod.split)

lemma sub_agent_query:
  "fst (snd (runSubAgent w dv ag prompt)) = sub_query w dv prompt
     (fst (resolveSessionOpts (dw_disk w) (dw_projectsRoot w) (dw_lineCount w ag)
        \<lparr>sp_stage = DEEP_REVIEW_STAGE_LABEL @ '':'' @ agent_name ag,
         sp_model = Some (case dv_model dv of Some m \<Rightarrow> m | None \<Rightarrow> DEEP_REVIEW_MODEL),
         sp_agentSessionId = dv_agentSessionId dv, sp_workdir = dv_workdir dv, sp_runId = dv_runId dv,
         sp_issueId = dv_issueId dv, sp_hasDb = dv_hasDb dv\<rparr>))"
  by (simp add: runSubAgent_def Let_def split: prod.split)

text \<open>
  The findings of a review are those of the three agents, in this order, each an item of its agent's answer that
  has all its fields; and an agent of a review can read only, has eight turns and sees no generated file.
\<close>
theorem review_collects:
  "let r = runDeepReview w dv
   in dr_findings r = concat (map (\<lambda>ag. map (Pair ag) (List.map_filter ReviewFindingSchema (answer w ag)))
        [Reuse, Quality, Efficiency]) \<and>
      length (dr_queries r) = 3 \<and>
      list_all (\<lambda>q. qc_allowedTools q = [''Read'', ''Glob'', ''Grep''] \<and> qc_maxTurns q = 8) (dr_queries r) \<and>
      list_all (\<lambda>fs. list_all (\<lambda>f. f \<in> set (ha_filesChanged (dv_handoff dv)) \<and> \<not> is_generated_file f) fs)
        (map (\<lambda>flt. flt (ha_filesChanged (dv_handoff dv))) [filterReuseFiles, filterQualityFiles, filterEfficiencyFiles])"
proof -
  let ?ask = "\<lambda>ag fs. runSubAgent w dv ag (buildPrompt (dw_sentinel w) (dw_form w) ag (ha_summary (dv_handoff dv))
      (dw_showFiles w fs) (dw_diffStat w))"
  have q: "qc_allowedTools (fst (snd (?ask ag fs))) = [''Read'', ''Glob'', ''Grep''] \<and> qc_maxTurns (fst (snd (?ask ag fs))) = 8" for ag fs
    by (simp add: sub_agent_query sub_query_def DEEP_REVIEW_TOOLS_def)
  have f: "su_findings (fst (?ask ag fs)) = map (Pair ag) (List.map_filter ReviewFindingSchema (answer w ag))" for ag fs
    by (rule sub_agent_answer)
  have r: "runDeepReview w dv =
      (let fs = ha_filesChanged (dv_handoff dv); x = ?ask Reuse (filterReuseFiles fs);
           y = ?ask Quality (filterQualityFiles fs); z = ?ask Efficiency (filterEfficiencyFiles fs)
       in \<lparr>dr_findings = su_findings (fst x) @ su_findings (fst y) @ su_findings (fst z),
          dr_inputTokens = su_inputTokens (fst x) + su_inputTokens (fst y) + su_inputTokens (fst z),
          dr_outputTokens = su_outputTokens (fst x) + su_outputTokens (fst y) + su_outputTokens (fst z),
          dr_queries = [fst (snd x), fst (snd y), fst (snd z)],
          dr_audits = snd (snd x) @ snd (snd y) @ snd (snd z)\<rparr>)"
    unfolding runDeepReview_def by (simp only: Let_def split_def)
  have files: "list_all (\<lambda>f. f \<in> set fs \<and> \<not> is_generated_file f) (flt fs)"
    if "flt \<in> {filterReuseFiles, filterQualityFiles, filterEfficiencyFiles}" for fs flt
    using that by (auto simp: filterReuseFiles_def filterQualityFiles_def filterEfficiencyFiles_def list_all_iff)
  show ?thesis unfolding r Let_def
    by (intro conjI) (simp_all add: f q files)
qed

text \<open>
  The agents work at the same time in the same session. While its transcript is missing, all three are told to
  create it under one id, which the SDK refuses to the second and third.
\<close>
lemma agents_share_session:
  assumes "dv_agentSessionId dv = Some sid" "dv_model dv = Some ''claude-sonnet-4-6''"
    "transcriptPath (dw_projectsRoot w) (dv_workdir dv) sid \<notin> set (dw_disk w)"
  shows "map qc_session (dr_queries (runDeepReview w dv)) = [CreateSession sid, CreateSession sid, CreateSession sid]"
proof -
  have res: "isResumable (DEEP_REVIEW_STAGE_LABEL @ '':'' @ agent_name ag) ''claude-sonnet-4-6''" for ag
    by (cases ag) code_simp+
  show ?thesis
    using assms res [of Reuse] res [of Quality] res [of Efficiency]
    by (simp add: runDeepReview_def runSubAgent_def sub_query_def resolveSessionOpts_def transcriptExists_def
        Let_def split: prod.split)
qed

text \<open>A source file called license is taken for documentation, and the reuse agent does not see it.\<close>

lemma license_source_skipped: "filterReuseFiles [''src/license.ts'', ''src/login.ts''] = [''src/login.ts'']"
  by code_simp

text \<open>A \<open>null\<close> among the findings of an agent discards the others, and its tokens are not counted.\<close>

lemma null_discards_findings:
  assumes "dw_stream w ag = Inr (t0, items)" "consumeAgentStream default_stream_options t0 items = (Consumed, t, st)"
    "JNull \<in> set (raw_findings (parseJsonBlock (dw_parse w) (cs_lastText st)))"
  shows "fst (runSubAgent w dv ag prompt) = no_sub_result"
  using assms by (simp add: runSubAgent_def Let_def split: prod.split)

section \<open>No way out of an element\<close>

lemma escape_prefix:
  assumes "CHR ''['' \<notin> set p" "startsWith (toLowerCase (escapeXmlClosingTag tag s)) p"
  shows "startsWith (toLowerCase s) p"
  using assms
proof (induction tag s arbitrary: p rule: escapeXmlClosingTag.induct)
  case (2 tag c cs)
  show ?case
  proof (cases "startsWith (toLowerCase (c # cs)) (''</'' @ tag @ ''>'')")
    case True
    then have "p = []" using 2(3,4) by (cases p) (auto simp: toLowerCase_def lower_char_def)
    then show ?thesis by simp
  next
    case False
    with 2 show ?thesis by (cases p) (auto simp: toLowerCase_def)
  qed
qed simp

lemma no_tag_behind:
  assumes "\<not> strIncludes s (CHR ''<'' # q)" "CHR ''<'' \<notin> set u"
  shows "\<not> strIncludes (u @ s) (CHR ''<'' # q)"
  using assms(2)
proof (induction u)
  case Nil
  then show ?case using assms(1) by simp
qed auto

text \<open>An escaped text holds no closing tag, in any case, whatever was written into it.\<close>

lemma escaped_holds_no_tag:
  assumes "CHR ''['' \<notin> set tag" "CHR ''<'' \<notin> set (toLowerCase tag)"
  shows "\<not> strIncludes (toLowerCase (escapeXmlClosingTag tag s)) (''</'' @ tag @ ''>'')"
  using assms
proof (induction tag s rule: escapeXmlClosingTag.induct)
  case (1 tag)
  then show ?case by (simp add: toLowerCase_def)
next
  case (2 tag c cs)
  let ?p = "''</'' @ tag @ ''>''"
  show ?case
  proof (cases "startsWith (toLowerCase (c # cs)) ?p")
    case True
    have split: "toLowerCase (escapeXmlClosingTag tag (c # cs)) =
        toLowerCase (''[/'' @ tag @ '']'') @ toLowerCase (escapeXmlClosingTag tag (drop (length tag + 2) cs))"
      using True by (simp only: escapeXmlClosingTag.simps if_True toLowerCase_def map_append append_assoc)
    have "CHR ''<'' \<notin> set (toLowerCase (''[/'' @ tag @ '']''))"
      using 2(4) by (auto simp: toLowerCase_def lower_char_def)
    then show ?thesis unfolding split using no_tag_behind 2(1) [OF True 2(3,4)] by simp
  next
    case False
    have "CHR ''['' \<notin> set ?p" using 2(3) by simp
    with False escape_prefix [of ?p tag "c # cs"]
    have "\<not> startsWith (toLowerCase (escapeXmlClosingTag tag (c # cs))) ?p" by blast
    moreover have "toLowerCase (escapeXmlClosingTag tag (c # cs)) =
        lower_char c # toLowerCase (escapeXmlClosingTag tag cs)"
      using False by (simp only: escapeXmlClosingTag.simps if_False toLowerCase_def list.map)
    ultimately show ?thesis using 2(2) [OF False 2(3,4)] by (simp only: strIncludes.simps simp_thms)
  qed
qed

text \<open>
  What agents and issues write into the context of the next pass cannot close its element: no field that goes
  into it holds the closing tag.
\<close>
theorem fields_stay_inside:
  "\<not> strIncludes (toLowerCase (sanitizeField sentinel s)) ''</deep-review>''"
  using escaped_holds_no_tag [of "''deep-review''" "sanitize sentinel s"]
  by (simp add: sanitizeField_def toLowerCase_def lower_char_def)

end
