(* ===== verification/Cost.thy ===== *)
theory Cost
  imports Store Complex_Main
begin

text \<open>
  What runs cost and save (\<open>packages/core/src/cost/rates.ts\<close>, \<open>per-run.ts\<close>, \<open>aggregate.ts\<close>, \<open>rollup.ts\<close>): the
  cost of a run, the report over a window of time, and the daily totals that stand in for past days. Dollars and
  hours, floating-point numbers in the code, are exact fractions here. A UTC day is its number, milliseconds divided
  by the length of a day; the dates of the code are ordered alike.
\<close>

section \<open>Rates\<close>

record model_rate =
  mr_inputPerMillion :: rat
  mr_outputPerMillion :: rat

record pipeline_cost =
  pk_stageModels :: "(string, string) js_map"
  pk_profileModel :: "string option"
  pk_timeSavedPerPr :: "rat option"

text \<open>The pricing may be missing as a whole; a pipeline without a configuration is not in the map.\<close>

record cost_config =
  cc_modelPricing :: "(string, model_rate) js_map option"
  cc_hourlyEngRate :: "rat option"
  cc_timeSavedPerPrDefault :: "rat option"
  cc_pipelines :: "(string, pipeline_cost) js_map"
  cc_licensed :: bool

definition BUILTIN_SONNET :: model_rate where
  "BUILTIN_SONNET = \<lparr>mr_inputPerMillion = 3, mr_outputPerMillion = 15\<rparr>"

definition resolveModelRate :: "string \<Rightarrow> cost_config \<Rightarrow> model_rate" where
  "resolveModelRate m cfg =
     (case cc_modelPricing cfg of
        None \<Rightarrow> BUILTIN_SONNET
      | Some t \<Rightarrow>
          (case mapGet t m of
             Some r \<Rightarrow> r
           | None \<Rightarrow> (case mapGet t ''claude-sonnet-4-6'' of Some r \<Rightarrow> r | None \<Rightarrow> BUILTIN_SONNET)))"

definition resolveTimeSavedPerPr :: "string \<Rightarrow> cost_config \<Rightarrow> rat" where
  "resolveTimeSavedPerPr key cfg =
     (case Option.bind (mapGet (cc_pipelines cfg) key) pk_timeSavedPerPr of
        Some h \<Rightarrow> h
      | None \<Rightarrow> (case cc_timeSavedPerPrDefault cfg of Some h \<Rightarrow> h | None \<Rightarrow> 4))"

section \<open>The cost of a run\<close>

text \<open>What is added up: runs, merged pull requests, tokens, dollars and hours.\<close>

datatype amounts =
  Amounts (am_runs: nat) (am_prs: nat) (am_in: nat) (am_out: nat) (am_dollars: rat) (am_hours: rat)

definition no_amounts :: amounts where
  "no_amounts = Amounts 0 0 0 0 0 0"

definition add_amounts :: "amounts \<Rightarrow> amounts \<Rightarrow> amounts" where
  "add_amounts a b = Amounts (am_runs a + am_runs b) (am_prs a + am_prs b) (am_in a + am_in b)
     (am_out a + am_out b) (am_dollars a + am_dollars b) (am_hours a + am_hours b)"

instantiation amounts :: comm_monoid_add
begin

definition zero_amounts :: amounts where
  "zero_amounts = no_amounts"

definition plus_amounts :: "amounts \<Rightarrow> amounts \<Rightarrow> amounts" where
  "plus_amounts = add_amounts"

instance
  by standard (simp_all add: zero_amounts_def plus_amounts_def no_amounts_def add_amounts_def algebra_simps)

end

text \<open>A row of \<open>review_model_runs\<close>.\<close>

record model_run =
  ml_stageRunId :: string
  ml_modelId :: string
  ml_inputTokens :: nat
  ml_outputTokens :: nat

record cost_db =
  co_runs :: "run_row list"
  co_stages :: "stage_row list"
  co_models :: "model_run list"

text \<open>Tokens and dollars at a rate.\<close>

definition priced :: "nat \<Rightarrow> nat \<Rightarrow> model_rate \<Rightarrow> amounts" where
  "priced i out r = Amounts 0 0 i out
     (of_nat i * mr_inputPerMillion r / 1000000 + of_nat out * mr_outputPerMillion r / 1000000) 0"

definition stage_model :: "cost_config \<Rightarrow> string \<Rightarrow> string \<Rightarrow> string" where
  "stage_model cfg pipeline stg =
     (case mapGet (cc_pipelines cfg) pipeline of
        None \<Rightarrow> ''claude-sonnet-4-6''
      | Some pc \<Rightarrow>
          (case mapGet (pk_stageModels pc) stg of
             Some m \<Rightarrow> m
           | None \<Rightarrow> (case pk_profileModel pc of Some m \<Rightarrow> m | None \<Rightarrow> ''claude-sonnet-4-6'')))"

definition stage_cost :: "cost_config \<Rightarrow> cost_db \<Rightarrow> string \<Rightarrow> stage_row \<Rightarrow> amounts" where
  "stage_cost cfg d pipeline s =
     (let ms = filter (\<lambda>m. ml_stageRunId m = s_id s) (co_models d) in
      if ms \<noteq> []
      then sum_list (map (\<lambda>m. priced (ml_inputTokens m) (ml_outputTokens m) (resolveModelRate (ml_modelId m) cfg)) ms)
      else priced (s_inputTokens s) (s_outputTokens s) (resolveModelRate (stage_model cfg pipeline (s_stage s)) cfg))"

definition merged_pr :: "run_row \<Rightarrow> bool" where
  "merged_pr r \<longleftrightarrow> r_status r = Completed \<and> r_runType r \<noteq> ''review-feedback''"

definition computeRunCost :: "cost_config \<Rightarrow> cost_db \<Rightarrow> run_row \<Rightarrow> amounts" where
  "computeRunCost cfg d r =
     (if \<not> cc_licensed cfg then 0
      else sum_list (map (stage_cost cfg d (r_pipelineKey r)) (filter (\<lambda>s. s_pipelineRunId s = r_id r) (co_stages d))) +
        Amounts 0 0 0 0 0 (if merged_pr r then resolveTimeSavedPerPr (r_pipelineKey r) cfg else 0))"

text \<open>What a run adds to a total.\<close>

definition run_amounts :: "cost_config \<Rightarrow> cost_db \<Rightarrow> run_row \<Rightarrow> amounts" where
  "run_amounts cfg d r = Amounts 1 (if merged_pr r then 1 else 0) 0 0 0 0 + computeRunCost cfg d r"

section \<open>Reports\<close>

datatype roi = Infinite | Ratio rat

definition finalizeRoi :: "amounts \<Rightarrow> rat \<Rightarrow> roi" where
  "finalizeRoi a hourlyRate =
     (if am_dollars a = 0 then (if am_hours a > 0 then Infinite else Ratio 0)
      else Ratio (am_hours a * hourlyRate / am_dollars a))"

record breakdown_row =
  bk_key :: string
  bk_label :: string
  bk_amounts :: amounts
  bk_roi :: roi

record cost_report =
  rp_from :: millis
  rp_to :: millis
  rp_summary :: amounts
  rp_roi :: roi
  rp_truncated :: bool
  rp_byTeam :: "breakdown_row list"
  rp_byRepo :: "breakdown_row list"
  rp_byPipeline :: "breakdown_row list"
  rp_byDay :: "(int \<times> amounts) list"

definition emptyAggregateResult :: "millis \<Rightarrow> millis \<Rightarrow> cost_report" where
  "emptyAggregateResult f t = \<lparr>rp_from = f, rp_to = t, rp_summary = 0, rp_roi = Ratio 0, rp_truncated = False,
     rp_byTeam = [], rp_byRepo = [], rp_byPipeline = [], rp_byDay = []\<rparr>"

definition normalizeTeamId :: "string option \<Rightarrow> string \<times> string" where
  "normalizeTeamId t = (case t of
     None \<Rightarrow> (''team:unassigned'', ''(unassigned)'')
   | Some i \<Rightarrow> if i = [] then (''team:unassigned'', ''(unassigned)'') else (''team:'' @ i, i))"

text \<open>Amounts are added to the bucket of their key, which gets the label it was opened with.\<close>

definition into_bucket :: "'k \<times> 'l \<Rightarrow> amounts \<Rightarrow> ('k, 'l \<times> amounts) js_map \<Rightarrow> ('k, 'l \<times> amounts) js_map" where
  "into_bucket kl a m =
     (case mapGet m (fst kl) of
        None \<Rightarrow> mapSet m (fst kl) (snd kl, a)
      | Some (l, b) \<Rightarrow> mapSet m (fst kl) (l, b + a))"

fun buckets :: "('a \<Rightarrow> 'k \<times> 'l) \<Rightarrow> ('a \<Rightarrow> amounts) \<Rightarrow> 'a list \<Rightarrow> ('k, 'l \<times> amounts) js_map \<Rightarrow> ('k, 'l \<times> amounts) js_map" where
  "buckets k f [] m = m"
| "buckets k f (x # xs) m = buckets k f xs (into_bucket (k x) (f x) m)"

text \<open>Most expensive first.\<close>

definition finalize :: "rat \<Rightarrow> (string, string \<times> amounts) js_map \<Rightarrow> breakdown_row list" where
  "finalize hourlyRate m =
     sort_key (\<lambda>b. - am_dollars (bk_amounts b))
       (map (\<lambda>(k, l, a). \<lparr>bk_key = k, bk_label = l, bk_amounts = a, bk_roi = finalizeRoi a hourlyRate\<rparr>) m)"

text \<open>The row of a day counts no tokens.\<close>

definition without_tokens :: "amounts \<Rightarrow> amounts" where
  "without_tokens a = Amounts (am_runs a) (am_prs a) 0 0 (am_dollars a) (am_hours a)"

definition by_date :: "(int, unit \<times> amounts) js_map \<Rightarrow> (int \<times> amounts) list" where
  "by_date m = sort_key fst (map (\<lambda>(d, _, a). (d, a)) m)"

definition report_of ::
  "millis \<Rightarrow> millis \<Rightarrow> rat \<Rightarrow> bool \<Rightarrow> ('a \<Rightarrow> int) \<Rightarrow> ('a \<Rightarrow> string option) \<Rightarrow> ('a \<Rightarrow> string) \<Rightarrow> ('a \<Rightarrow> string) \<Rightarrow>
   ('a \<Rightarrow> amounts) \<Rightarrow> 'a list \<Rightarrow> cost_report" where
  "report_of f t rate truncated day team repo pipeline amounts_of xs =
     (let total = sum_list (map amounts_of xs) in
      \<lparr>rp_from = f, rp_to = t, rp_summary = total, rp_roi = finalizeRoi total rate, rp_truncated = truncated,
       rp_byTeam = finalize rate (buckets (\<lambda>x. normalizeTeamId (team x)) amounts_of xs []),
       rp_byRepo = finalize rate (buckets (\<lambda>x. (''repo:'' @ repo x, repo x)) amounts_of xs []),
       rp_byPipeline = finalize rate (buckets (\<lambda>x. (''pipeline:'' @ pipeline x, pipeline x)) amounts_of xs []),
       rp_byDay = by_date (buckets (\<lambda>x. (day x, ())) (\<lambda>x. without_tokens (amounts_of x)) xs [])\<rparr>)"

definition DAY_MILLIS :: millis where "DAY_MILLIS = 86400000"

definition utc_day :: "millis \<Rightarrow> int" where
  "utc_day t = t div DAY_MILLIS"

definition completed_in :: "millis \<Rightarrow> millis \<Rightarrow> run_row \<Rightarrow> bool" where
  "completed_in f t r \<longleftrightarrow> (case r_completedAt r of None \<Rightarrow> False | Some c \<Rightarrow> f \<le> c \<and> c < t)"

definition completed_day :: "run_row \<Rightarrow> int" where
  "completed_day r = utc_day (the (r_completedAt r))"

definition hourly_rate :: "cost_config \<Rightarrow> rat" where
  "hourly_rate cfg = (case cc_hourlyEngRate cfg of Some r \<Rightarrow> r | None \<Rightarrow> 50)"

definition DEFAULT_MAX_RUNS :: nat where "DEFAULT_MAX_RUNS = 10000"

text \<open>Of too many runs the most recent are kept.\<close>

definition aggregateAll :: "cost_config \<Rightarrow> cost_db \<Rightarrow> nat \<Rightarrow> millis \<Rightarrow> millis \<Rightarrow> cost_report" where
  "aggregateAll cfg d maxRuns f t =
     (if \<not> cc_licensed cfg then emptyAggregateResult f t
      else (let rs = select_where (completed_in f t) (co_runs d); truncated = length rs > maxRuns;
                kept = (if truncated then take maxRuns (sort_key (\<lambda>r. - the (r_completedAt r)) rs) else rs)
            in if kept = [] then emptyAggregateResult f t
               else report_of f t (hourly_rate cfg) truncated completed_day r_linearTeamId r_repoUrl r_pipelineKey
                      (run_amounts cfg d) kept))"

section \<open>Daily totals\<close>

text \<open>A row of \<open>cost_rollups_daily\<close>; a run without a team is stored with the empty text.\<close>

record rollup_row =
  ro_date :: int
  ro_pipelineKey :: string
  ro_linearTeamId :: string
  ro_repoUrl :: string
  ro_amounts :: amounts

definition same_bucket :: "rollup_row \<Rightarrow> rollup_row \<Rightarrow> bool" where
  "same_bucket a b \<longleftrightarrow> ro_date a = ro_date b \<and> ro_pipelineKey a = ro_pipelineKey b \<and>
     ro_linearTeamId a = ro_linearTeamId b \<and> ro_repoUrl a = ro_repoUrl b"

definition upsert_rollup :: "rollup_row \<Rightarrow> rollup_row list \<Rightarrow> rollup_row list" where
  "upsert_rollup x rows =
     (if list_ex (same_bucket x) rows
      then update_where (same_bucket x) (\<lambda>r. r\<lparr>ro_amounts := ro_amounts x\<rparr>) rows
      else rows @ [x])"

definition team_text :: "run_row \<Rightarrow> string" where
  "team_text r = (case r_linearTeamId r of None \<Rightarrow> [] | Some t \<Rightarrow> t)"

definition bucket_key :: "run_row \<Rightarrow> string" where
  "bucket_key r = r_pipelineKey r @ ''|'' @ team_text r @ ''|'' @ r_repoUrl r"

definition day_runs :: "cost_db \<Rightarrow> int \<Rightarrow> run_row list" where
  "day_runs d n = select_where (completed_in (n * DAY_MILLIS) ((n + 1) * DAY_MILLIS)) (co_runs d)"

definition rollups_of_day :: "cost_config \<Rightarrow> cost_db \<Rightarrow> int \<Rightarrow> rollup_row list" where
  "rollups_of_day cfg d n =
     map (\<lambda>(_, (p, t, u), a). \<lparr>ro_date = n, ro_pipelineKey = p, ro_linearTeamId = t, ro_repoUrl = u, ro_amounts = a\<rparr>)
       (buckets (\<lambda>r. (bucket_key r, (r_pipelineKey r, team_text r, r_repoUrl r))) (run_amounts cfg d) (day_runs d n) [])"

definition rollOneDay :: "cost_config \<Rightarrow> cost_db \<Rightarrow> int \<Rightarrow> rollup_row list \<Rightarrow> rollup_row list" where
  "rollOneDay cfg d n rows = fold upsert_rollup (rollups_of_day cfg d n) rows"

definition MAX_BACKFILL_DAYS :: int where "MAX_BACKFILL_DAYS = 30"

text \<open>The days a tick rolls: none when the last one lies in the future. \<open>limit\<close> is the most days it goes back.\<close>

definition latest_date :: "rollup_row list \<Rightarrow> int option" where
  "latest_date rows = (if rows = [] then None else Some (Max (set (map ro_date rows))))"

definition days_to_roll :: "int \<Rightarrow> int \<Rightarrow> int option \<Rightarrow> int list" where
  "days_to_roll limit yesterday latest =
     (let capped = yesterday - (limit - 1) in
      case latest of
        None \<Rightarrow> [capped..yesterday]
      | Some l \<Rightarrow>
          if l < yesterday then [(if l + 1 > capped then l + 1 else capped)..yesterday]
          else if l = yesterday then [yesterday] else [])"

definition recomputeCostRollups ::
  "cost_config \<Rightarrow> cost_db \<Rightarrow> int \<Rightarrow> millis \<Rightarrow> rollup_row list \<Rightarrow> rollup_row list" where
  "recomputeCostRollups cfg d limit now rows =
     (if \<not> cc_licensed cfg then rows
      else fold (rollOneDay cfg d) (days_to_roll limit (utc_day now - 1) (latest_date rows)) rows)"

text \<open>\<open>None\<close> is the error for a number of days that is not positive.\<close>

definition backfillCostRollups ::
  "cost_config \<Rightarrow> cost_db \<Rightarrow> millis \<Rightarrow> int \<Rightarrow> rollup_row list \<Rightarrow> rollup_row list option" where
  "backfillCostRollups cfg d now days rows =
     (if \<not> cc_licensed cfg then Some rows
      else if days \<le> 0 then None
      else (let yesterday = utc_day now - 1
            in Some (fold (rollOneDay cfg d) [yesterday - (days - 1)..yesterday] rows)))"

section \<open>Reports from daily totals\<close>

definition aggregateFromRollups ::
  "rollup_row list \<Rightarrow> int \<Rightarrow> int \<Rightarrow> millis \<Rightarrow> millis \<Rightarrow> rat \<Rightarrow> cost_report" where
  "aggregateFromRollups rows fromDate toDate f t rate =
     report_of f t rate False ro_date
       (\<lambda>r. if ro_linearTeamId r = [] then None else Some (ro_linearTeamId r)) ro_repoUrl ro_pipelineKey ro_amounts
       (select_where (\<lambda>r. fromDate \<le> ro_date r \<and> ro_date r < toDate) rows)"

definition mergeBreakdowns :: "rat \<Rightarrow> breakdown_row list \<Rightarrow> breakdown_row list \<Rightarrow> breakdown_row list" where
  "mergeBreakdowns rate a b =
     finalize rate (buckets (\<lambda>r. (bk_key r, bk_label r)) bk_amounts (a @ b) [])"

definition mergeDailyRows :: "(int \<times> amounts) list \<Rightarrow> (int \<times> amounts) list \<Rightarrow> (int \<times> amounts) list" where
  "mergeDailyRows a b = by_date (buckets (\<lambda>r. (fst r, ())) snd (a @ b) [])"

definition aggregateHybrid ::
  "cost_config \<Rightarrow> cost_db \<Rightarrow> rollup_row list \<Rightarrow> nat \<Rightarrow> bool \<Rightarrow> millis \<Rightarrow> millis \<Rightarrow> millis \<Rightarrow> cost_report" where
  "aggregateHybrid cfg d rows maxRuns enableRollups now f t =
     (if \<not> cc_licensed cfg then emptyAggregateResult f t
      else if \<not> enableRollups then aggregateAll cfg d maxRuns f t
      else (let today = utc_day now; start1 = today * DAY_MILLIS; rate = hourly_rate cfg in
        if start1 \<le> f then aggregateAll cfg d maxRuns f t
        else (let past = aggregateFromRollups rows (utc_day f) (if t < start1 then utc_day t else today) f t rate in
          if t \<le> start1 then past
          else (let live = aggregateAll cfg d maxRuns start1 t; total = rp_summary past + rp_summary live
                in \<lparr>rp_from = f, rp_to = t, rp_summary = total, rp_roi = finalizeRoi total rate,
                    rp_truncated = rp_truncated live,
                    rp_byTeam = mergeBreakdowns rate (rp_byTeam past) (rp_byTeam live),
                    rp_byRepo = mergeBreakdowns rate (rp_byRepo past) (rp_byRepo live),
                    rp_byPipeline = mergeBreakdowns rate (rp_byPipeline past) (rp_byPipeline live),
                    rp_byDay = mergeDailyRows (rp_byDay past) (rp_byDay live)\<rparr>))))"

end
