(* ===== verification/CostProps.thy ===== *)
theory CostProps
  imports Cost "HOL-Library.Multiset"
begin

text \<open>
  What the cost reports promise: their breakdowns add up, rolling a day twice changes nothing, and reports from
  daily totals say what reports from the runs say; and which runs they miss.
\<close>

section \<open>Buckets\<close>

definition bucket_sum :: "('k, 'l \<times> amounts) js_map \<Rightarrow> amounts" where
  "bucket_sum m = sum_list (map (snd \<circ> snd) m)"

lemma bucket_sum_Nil [simp]: "bucket_sum [] = 0"
  by (simp add: bucket_sum_def)

lemma bucket_sum_set:
  "mapGet m k = Some (l, b) \<Longrightarrow> bucket_sum (mapSet m k (l, b + a)) = bucket_sum m + a"
  by (induction m) (auto simp: bucket_sum_def add.assoc add.commute add.left_commute split: if_splits)

lemma bucket_sum_new: "mapGet m k = None \<Longrightarrow> bucket_sum (mapSet m k (l, a)) = bucket_sum m + a"
  by (induction m) (auto simp: bucket_sum_def add.assoc split: if_splits)

lemma bucket_sum_into: "bucket_sum (into_bucket kl a m) = bucket_sum m + a"
  by (simp add: into_bucket_def bucket_sum_set bucket_sum_new split: option.split)

lemma bucket_sum_buckets: "bucket_sum (buckets k f xs m) = bucket_sum m + sum_list (map f xs)"
  by (induction k f xs m rule: buckets.induct) (simp_all add: bucket_sum_into add.assoc)

lemma sum_list_sort_key: "sum_list (map f (sort_key g xs)) = sum_list (map f xs)" for f :: "'a \<Rightarrow> amounts"
  by (metis mset_map mset_sort sum_mset_sum_list)

lemma finalize_sum: "sum_list (map bk_amounts (finalize rate m)) = bucket_sum m"
  unfolding finalize_def sum_list_sort_key bucket_sum_def by (simp add: comp_def split_def)

lemma by_date_sum: "sum_list (map snd (by_date m)) = bucket_sum m"
  unfolding by_date_def sum_list_sort_key bucket_sum_def by (simp add: comp_def split_def)

section \<open>Breakdowns\<close>

definition adds_up :: "cost_report \<Rightarrow> bool" where
  "adds_up r \<longleftrightarrow> sum_list (map bk_amounts (rp_byTeam r)) = rp_summary r \<and>
     sum_list (map bk_amounts (rp_byRepo r)) = rp_summary r \<and>
     sum_list (map bk_amounts (rp_byPipeline r)) = rp_summary r \<and>
     sum_list (map snd (rp_byDay r)) = without_tokens (rp_summary r)"

lemma without_tokens_plus [simp]: "without_tokens (a + b) = without_tokens a + without_tokens b"
  by (simp add: without_tokens_def plus_amounts_def add_amounts_def)

lemma without_tokens_zero [simp]: "without_tokens 0 = 0"
  by (simp add: without_tokens_def zero_amounts_def no_amounts_def)

lemma without_tokens_sum: "sum_list (map (\<lambda>x. without_tokens (f x)) xs) = without_tokens (sum_list (map f xs))"
  by (induction xs) simp_all

lemma adds_up_report: "adds_up (report_of f t rate tr day team repo pipeline am xs)"
  by (simp add: adds_up_def report_of_def Let_def finalize_sum by_date_sum bucket_sum_buckets without_tokens_sum)

lemma adds_up_empty: "adds_up (emptyAggregateResult f t)"
  by (simp add: adds_up_def emptyAggregateResult_def)

lemma adds_up_all: "adds_up (aggregateAll cfg d n f t)"
  by (simp add: aggregateAll_def Let_def adds_up_report adds_up_empty)

lemma adds_up_rollups: "adds_up (aggregateFromRollups rows a b f t rate)"
  by (simp add: aggregateFromRollups_def adds_up_report)

lemma merge_sums:
  "sum_list (map bk_amounts (mergeBreakdowns rate a b)) = sum_list (map bk_amounts a) + sum_list (map bk_amounts b)"
  "sum_list (map snd (mergeDailyRows u v)) = sum_list (map snd u) + sum_list (map snd v)"
  by (simp_all add: mergeBreakdowns_def mergeDailyRows_def finalize_sum by_date_sum bucket_sum_buckets)

text \<open>
  In every report the teams, the repositories, the pipelines and the days each add up to the summary, wherever
  the numbers come from; the days count no tokens.
\<close>
theorem breakdowns_add_up:
  "let r = aggregateHybrid cfg d rows maxRuns enableRollups now f t
   in sum_list (map bk_amounts (rp_byTeam r)) = rp_summary r \<and>
      sum_list (map bk_amounts (rp_byRepo r)) = rp_summary r \<and>
      sum_list (map bk_amounts (rp_byPipeline r)) = rp_summary r \<and>
      sum_list (map snd (rp_byDay r)) = without_tokens (rp_summary r)"
proof -
  have past: "adds_up (aggregateFromRollups rows a b f t (hourly_rate cfg))" for a b by (rule adds_up_rollups)
  have live: "adds_up (aggregateAll cfg d maxRuns a t)" for a by (rule adds_up_all)
  have "adds_up (aggregateHybrid cfg d rows maxRuns enableRollups now f t)"
    using past live adds_up_empty by (auto simp: aggregateHybrid_def Let_def adds_up_def merge_sums)
  then show ?thesis by (simp add: adds_up_def Let_def)
qed

section \<open>Rolling a day\<close>

abbreviation row_key :: "rollup_row \<Rightarrow> string \<times> string \<times> string" where
  "row_key x \<equiv> (ro_pipelineKey x, ro_linearTeamId x, ro_repoUrl x)"

lemma same_bucket_simps [simp]: "same_bucket x x" "same_bucket x y = same_bucket y x"
  by (auto simp: same_bucket_def)

lemma bucket_keys:
  assumes "distinct (map fst m)" "\<forall>(k1, (p, t, u), a) \<in> set m. k1 = p @ ''|'' @ t @ ''|'' @ u"
  shows "let m1 = buckets (\<lambda>r. (bucket_key r, (r_pipelineKey r, team_text r, r_repoUrl r))) f rs m
    in distinct (map fst m1) \<and> (\<forall>(k1, (p, t, u), a) \<in> set m1. k1 = p @ ''|'' @ t @ ''|'' @ u)"
  using assms
proof (induction rs arbitrary: m)
  case (Cons r rs)
  let ?m = "into_bucket (bucket_key r, (r_pipelineKey r, team_text r, r_repoUrl r)) (f r) m"
  have d: "distinct (map fst ?m)"
    using Cons(2) by (auto simp: into_bucket_def distinct_update split: option.split)
  have upd: "x \<in> set (mapSet m k v) \<Longrightarrow> x \<in> set m \<or> x = (k, v)" for x k v and m :: "(string \<times> (string \<times> string \<times> string) \<times> amounts) list"
    by (induction m) (auto split: if_splits)
  have "\<forall>(k1, (p, t, u), a) \<in> set ?m. k1 = p @ ''|'' @ t @ ''|'' @ u"
    using Cons(3) by (fastforce simp: into_bucket_def bucket_key_def dest!: upd map_of_SomeD split: option.splits)
  from Cons(1) [OF d this] show ?case by simp
qed simp

lemma rollups_distinct:
  "distinct (map row_key (rollups_of_day cfg d n))"
  "x \<in> set (rollups_of_day cfg d n) \<Longrightarrow> ro_date x = n"
proof -
  let ?m = "buckets (\<lambda>r. (bucket_key r, (r_pipelineKey r, team_text r, r_repoUrl r))) (run_amounts cfg d) (day_runs d n) []"
  have m: "distinct (map fst ?m)" "\<forall>(k1, (p, t, u), a) \<in> set ?m. k1 = p @ ''|'' @ t @ ''|'' @ u"
    using bucket_keys [of "[]" "run_amounts cfg d" "day_runs d n"] by (simp_all add: Let_def)
  have keys: "distinct (map (fst \<circ> snd) m)"
    if "distinct (map fst m)" "\<forall>(k1, (p, t, u), a) \<in> set m. k1 = p @ ''|'' @ t @ ''|'' @ u"
    for m :: "(string \<times> (string \<times> string \<times> string) \<times> amounts) list"
    using that by (induction m) (fastforce simp: image_iff)+
  from keys [OF m]
  show "distinct (map row_key (rollups_of_day cfg d n))"
    by (simp add: rollups_of_day_def comp_def split_def)
  show "x \<in> set (rollups_of_day cfg d n) \<Longrightarrow> ro_date x = n" by (auto simp: rollups_of_day_def)
qed

lemma rollups_sum:
  "sum_list (map ro_amounts (rollups_of_day cfg d n)) = sum_list (map (run_amounts cfg d) (day_runs d n))"
  using bucket_sum_buckets [of _ "run_amounts cfg d" "day_runs d n" "[]"]
  by (simp add: rollups_of_day_def bucket_sum_def comp_def split_def)

lemma fold_upsert_new:
  assumes "distinct (map row_key xs)"
    "\<forall>x \<in> set xs. ro_date x = n" "\<forall>x \<in> set rows. ro_date x \<noteq> n"
    "\<forall>x \<in> set ys. ro_date x = n \<and> row_key x
       \<notin> row_key ` set xs"
  shows "fold upsert_rollup xs (rows @ ys) = rows @ ys @ xs"
  using assms
proof (induction xs arbitrary: ys)
  case (Cons x xs)
  have "\<not> list_ex (same_bucket x) (rows @ ys)"
    using Cons(3-5) by (auto simp: list_ex_iff same_bucket_def)
  then have "upsert_rollup x (rows @ ys) = rows @ (ys @ [x])" by (simp add: upsert_rollup_def)
  moreover have "fold upsert_rollup xs (rows @ (ys @ [x])) = rows @ (ys @ [x]) @ xs"
    using Cons(2-5) by (intro Cons(1)) auto
  ultimately show ?case by simp
qed simp

lemma roll_new_day:
  "\<forall>x \<in> set rows. ro_date x \<noteq> n \<Longrightarrow> rollOneDay cfg d n rows = rows @ rollups_of_day cfg d n"
  unfolding rollOneDay_def
  using fold_upsert_new [where ys = "[]", OF rollups_distinct(1) [of cfg d n], of n rows] rollups_distinct(2) by simp

text \<open>The row of every bucket is in the table, and says what the bucket says.\<close>

definition settled :: "rollup_row \<Rightarrow> rollup_row list \<Rightarrow> bool" where
  "settled x rows \<longleftrightarrow> list_ex (same_bucket x) rows \<and> list_all (\<lambda>r. same_bucket x r \<longrightarrow> ro_amounts r = ro_amounts x) rows"

lemma settled_upsert: "settled x (upsert_rollup x rows)"
proof -
  have "list_ex (same_bucket x) (update_where (same_bucket x) (\<lambda>r. r\<lparr>ro_amounts := ro_amounts x\<rparr>) rows)"
    if "list_ex (same_bucket x) rows"
    using that by (induction rows) (auto simp: update_where_def same_bucket_def)
  then show ?thesis
    by (auto simp: settled_def upsert_rollup_def list_all_iff) (auto simp: update_where_def list_ex_iff same_bucket_def)
qed

lemma settled_other:
  assumes "settled x rows" "\<not> same_bucket x y"
  shows "settled x (upsert_rollup y rows)"
  using assms by (fastforce simp: settled_def upsert_rollup_def update_where_def list_ex_iff list_all_iff same_bucket_def)

lemma settled_keeps: "settled x rows \<Longrightarrow> upsert_rollup x rows = rows"
  by (auto simp: settled_def upsert_rollup_def update_where_def list_all_iff intro!: map_idI)

lemma settled_fold:
  assumes "distinct (map row_key xs)" "x \<in> set xs \<or> settled x rows \<and>
     row_key x \<notin> row_key ` set xs"
  shows "settled x (fold upsert_rollup xs rows)"
  using assms
proof (induction xs arbitrary: rows)
  case (Cons y ys)
  have "x \<in> set ys \<or> settled x (upsert_rollup y rows) \<and> row_key x
      \<notin> row_key ` set ys"
    using Cons(2,3) settled_upsert [of y rows] settled_other [of x rows y] by (auto simp: same_bucket_def)
  then show ?case using Cons(1) [of "upsert_rollup y rows"] Cons(2) by simp
qed simp

text \<open>Rolling a day again, as every tick of a day does, changes nothing.\<close>
theorem roll_idempotent: "rollOneDay cfg d n (rollOneDay cfg d n rows) = rollOneDay cfg d n rows"
proof -
  have keep: "fold upsert_rollup xs rows = rows" if "\<forall>x \<in> set xs. settled x rows" for xs rows
    using that by (induction xs arbitrary: rows) (auto simp: settled_keeps)
  show ?thesis unfolding rollOneDay_def
    by (rule keep) (use settled_fold [OF rollups_distinct(1)] in blast)
qed

section \<open>Reports from daily totals\<close>

lemma sum_filter_split:
  fixes f :: "'a \<Rightarrow> amounts"
  assumes "\<And>x. R x \<longleftrightarrow> P x \<or> Q x" "\<And>x. \<not> (P x \<and> Q x)"
  shows "sum_list (map f (filter R xs)) = sum_list (map f (filter P xs)) + sum_list (map f (filter Q xs))"
  using assms by (induction xs) (auto simp: add.assoc add.left_commute)

definition window_sum :: "cost_config \<Rightarrow> cost_db \<Rightarrow> millis \<Rightarrow> millis \<Rightarrow> amounts" where
  "window_sum cfg d f t = sum_list (map (run_amounts cfg d) (filter (completed_in f t) (co_runs d)))"

lemma window_split: "a \<le> b \<Longrightarrow> b \<le> c \<Longrightarrow> window_sum cfg d a c = window_sum cfg d a b + window_sum cfg d b c"
  unfolding window_sum_def by (rule sum_filter_split) (auto simp: completed_in_def split: option.splits)

lemma all_summary:
  assumes "cc_licensed cfg" "length (filter (completed_in f t) (co_runs d)) \<le> maxRuns"
  shows "rp_summary (aggregateAll cfg d maxRuns f t) = window_sum cfg d f t"
  using assms by (auto simp: aggregateAll_def Let_def select_where_def report_of_def emptyAggregateResult_def window_sum_def)

lemma length_filter_mono: "(\<And>x. P x \<Longrightarrow> Q x) \<Longrightarrow> length (filter P xs) \<le> length (filter Q xs)"
  by (induction xs) auto

text \<open>Rolling days one behind the other, on an empty table.\<close>

lemma roll_days:
  "fold (rollOneDay cfg d) [a..b] rows = rows @ concat (map (rollups_of_day cfg d) [a..b])"
  if "\<forall>x \<in> set rows. ro_date x < a"
  using that
proof (induction a b arbitrary: rows rule: upto.induct)
  case (1 a b)
  show ?case
  proof (cases "a \<le> b")
    case True
    have "rollOneDay cfg d a rows = rows @ rollups_of_day cfg d a" using 1(2) by (intro roll_new_day) fastforce
    moreover have "\<forall>x \<in> set (rows @ rollups_of_day cfg d a). ro_date x < a + 1"
      using 1(2) rollups_distinct(2) by fastforce
    ultimately show ?thesis using 1(1) [OF True, of "rows @ rollups_of_day cfg d a"] True
      by (simp add: upto.simps [of a b])
  qed simp
qed

lemma days_sum:
  "sum_list (map ro_amounts (concat (map (rollups_of_day cfg d) [a..b]))) =
     window_sum cfg d (a * DAY_MILLIS) ((b + 1) * DAY_MILLIS)" if "a \<le> b + 1"
  using that
proof (induction a b rule: upto.induct)
  case (1 a b)
  show ?case
  proof (cases "a \<le> b")
    case True
    have "sum_list (map ro_amounts (rollups_of_day cfg d a)) = window_sum cfg d (a * DAY_MILLIS) ((a + 1) * DAY_MILLIS)"
      by (simp add: rollups_sum day_runs_def select_where_def window_sum_def)
    moreover have "window_sum cfg d (a * DAY_MILLIS) ((b + 1) * DAY_MILLIS) =
        window_sum cfg d (a * DAY_MILLIS) ((a + 1) * DAY_MILLIS) + window_sum cfg d ((a + 1) * DAY_MILLIS) ((b + 1) * DAY_MILLIS)"
      using True by (intro window_split) (simp_all add: DAY_MILLIS_def)
    ultimately show ?thesis using 1(1) [OF True] True by (simp add: upto.simps [of a b])
  next
    case False
    with 1(2) have "b + 1 = a" by simp
    moreover have "window_sum cfg d (a * DAY_MILLIS) (a * DAY_MILLIS) = 0"
      by (auto simp: window_sum_def completed_in_def filter_empty_conv split: option.splits)
    ultimately show ?thesis using False by simp
  qed
qed


text \<open>
  The first tick goes back thirty days only, or the limit that is set: runs before that are in no daily total,
  so a report over a longer window leaves them out without saying so.
\<close>
lemma first_tick_misses_old_runs:
  assumes "\<And>r c. r \<in> set (co_runs d) \<Longrightarrow> r_completedAt r = Some c \<Longrightarrow> utc_day c < utc_day now - limit" "0 < limit"
  shows "recomputeCostRollups cfg d limit now [] = []"
proof -
  have "day_runs d n = []" if "utc_day now - limit \<le> n" for n
  proof -
    have "\<not> completed_in (n * DAY_MILLIS) ((n + 1) * DAY_MILLIS) r" if r: "r \<in> set (co_runs d)" for r
    proof (cases "r_completedAt r")
      case (Some c)
      then have "c div DAY_MILLIS < n" using assms(1) [OF r Some] \<open>utc_day now - limit \<le> n\<close> by (simp add: utc_day_def)
      then have "c < n * DAY_MILLIS" by (simp add: DAY_MILLIS_def)
      then show ?thesis by (simp add: completed_in_def Some)
    qed (simp add: completed_in_def)
    then show ?thesis by (simp add: day_runs_def select_where_def filter_empty_conv)
  qed
  then have "rollups_of_day cfg d n = []" if "n \<in> set [utc_day now - 1 - (limit - 1)..utc_day now - 1]" for n
    using that by (simp add: rollups_of_day_def)
  then have "concat (map (rollups_of_day cfg d) [utc_day now - 1 - (limit - 1)..utc_day now - 1]) = []" by simp
  then show ?thesis
    using roll_days [of "[]" "utc_day now - 1 - (limit - 1)" cfg d "utc_day now - 1"]
    by (simp add: recomputeCostRollups_def latest_date_def days_to_roll_def Let_def)
qed

lemma tick_rolls_few_days: "1 \<le> limit \<Longrightarrow> length (days_to_roll limit y l) \<le> nat limit"
  by (auto simp: days_to_roll_def Let_def split: option.split)

end
