(* ===== verification/AuditLog.thy ===== *)
theory AuditLog
  imports Triage "HOL-Library.Product_Lexorder"
begin

text \<open>
  The audit log (\<open>packages/core/src/audit/reader.ts\<close>, \<open>projection.ts\<close>, \<open>writer.ts\<close>, \<open>retention.ts\<close>, \<open>csv.ts\<close>):
  entries of its own table together with those read off the runs, the approvals and the budget alerts, listed page
  by page, looked up by their id and exported. A cursor is kept as the pair its text encodes. \<open>JSON\<close> and the
  text of a date are parameters.
\<close>

record audit_lib =
  al_parse :: "string \<Rightarrow> json option"
  al_stringify :: "json \<Rightarrow> string"
  al_iso :: "millis \<Rightarrow> string"

section \<open>Entries\<close>

record audit_entry =
  ev_id :: string
  ev_timestamp :: millis
  ev_eventType :: string
  ev_actor :: string
  ev_actorType :: string
  ev_scope :: "string option"
  ev_runId :: "string option"
  ev_issueId :: "string option"
  ev_inputTokens :: nat
  ev_outputTokens :: nat
  ev_payload :: json

text \<open>A row of \<open>audit_events\<close>, whose payload is a text.\<close>

record audit_row =
  na_id :: string
  na_timestamp :: millis
  na_eventType :: string
  na_actor :: string
  na_actorType :: string
  na_scope :: "string option"
  na_runId :: "string option"
  na_issueId :: "string option"
  na_inputTokens :: nat
  na_outputTokens :: nat
  na_payload :: string

text \<open>The columns of a run, an approval and an alert the entries are made of.\<close>

record run_columns =
  rc_id :: string
  rc_issueId :: string
  rc_status :: string
  rc_startedAt :: millis
  rc_completedAt :: "millis option"
  rc_totalInputTokens :: nat
  rc_totalOutputTokens :: nat
  rc_runType :: string
  rc_parentRunId :: "string option"
  rc_linearTeamId :: "string option"
  rc_repoUrl :: string
  rc_autoMerged :: "bool option"
  rc_autoMergeReason :: "string option"
  rc_errorMessage :: "string option"

record approval_columns =
  ac_id :: string
  ac_issueId :: string
  ac_action :: string
  ac_reason :: string
  ac_status :: string
  ac_createdAt :: millis
  ac_resolvedAt :: "millis option"

record alert_columns =
  al_id :: string
  al_date :: string
  al_scope :: string
  al_threshold :: int
  al_firedAt :: millis

record audit_db =
  ad_native :: "audit_row list"
  ad_runs :: "run_columns list"
  ad_approvals :: "approval_columns list"
  ad_alerts :: "alert_columns list"

definition nullable :: "string option \<Rightarrow> json" where
  "nullable s = (case s of None \<Rightarrow> JNull | Some t \<Rightarrow> JStr t)"

definition present :: "string option \<Rightarrow> bool" where
  "present s \<longleftrightarrow> (case s of None \<Rightarrow> False | Some t \<Rightarrow> t \<noteq> [])"

definition scopeForRun :: "run_columns \<Rightarrow> string option" where
  "scopeForRun r =
     (if present (rc_linearTeamId r) then Some (''team:'' @ the (rc_linearTeamId r)) else Some (''repo:'' @ rc_repoUrl r))"

definition actorForRun :: "run_columns \<Rightarrow> string \<times> string" where
  "actorForRun r =
     (if rc_runType r = ''review-feedback'' then (''github-webhook'', ''webhook'')
      else if present (rc_parentRunId r) then (''pm-agent'', ''pm-agent'')
      else (''linear-webhook'', ''webhook''))"

definition run_entry :: "run_columns \<Rightarrow> string \<Rightarrow> millis \<Rightarrow> string \<Rightarrow> nat \<Rightarrow> nat \<Rightarrow> json \<Rightarrow> audit_entry" where
  "run_entry r pre t ty i out p =
     \<lparr>ev_id = pre @ rc_id r, ev_timestamp = t, ev_eventType = ty, ev_actor = fst (actorForRun r),
      ev_actorType = snd (actorForRun r), ev_scope = scopeForRun r, ev_runId = Some (rc_id r),
      ev_issueId = Some (rc_issueId r), ev_inputTokens = i, ev_outputTokens = out, ev_payload = p\<rparr>"

definition settled_at :: "run_columns \<Rightarrow> millis" where
  "settled_at r = (case rc_completedAt r of Some t \<Rightarrow> t | None \<Rightarrow> rc_startedAt r)"

definition projectPipelineRun :: "run_columns \<Rightarrow> audit_entry list" where
  "projectPipelineRun r =
     run_entry r ''proj_run_started_'' (rc_startedAt r) ''run.started'' 0 0
       (JObj [(''runType'', JStr (rc_runType r)), (''repoUrl'', JStr (rc_repoUrl r))]) #
     (case rc_completedAt r of
        None \<Rightarrow> []
      | Some t \<Rightarrow>
          if rc_status r = ''completed''
          then [run_entry r ''proj_run_completed_'' t ''run.completed'' (rc_totalInputTokens r) (rc_totalOutputTokens r) (JObj [])]
          else []) @
     (case rc_completedAt r of
        None \<Rightarrow> []
      | Some t \<Rightarrow>
          if rc_status r = ''failed'' \<or> rc_status r = ''retriable''
          then [run_entry r ''proj_run_failed_'' t ''run.failed'' (rc_totalInputTokens r) (rc_totalOutputTokens r)
                  (JObj [(''errorMessage'', nullable (rc_errorMessage r)), (''status'', JStr (rc_status r))])]
          else []) @
     (if rc_autoMerged r = Some True
      then [run_entry r ''proj_run_auto_merged_'' (settled_at r) ''run.auto_merged'' 0 0
              (JObj [(''reason'', nullable (rc_autoMergeReason r))])]
      else if rc_autoMerged r = Some False \<and> present (rc_autoMergeReason r)
      then [run_entry r ''proj_run_auto_merge_skipped_'' (settled_at r) ''run.auto_merge_skipped'' 0 0
              (JObj [(''reason'', nullable (rc_autoMergeReason r))])]
      else [])"

definition agent_entry :: "string \<Rightarrow> millis \<Rightarrow> string \<Rightarrow> string option \<Rightarrow> string option \<Rightarrow> json \<Rightarrow> audit_entry" where
  "agent_entry i t ty sc issue p =
     \<lparr>ev_id = i, ev_timestamp = t, ev_eventType = ty, ev_actor = ''pm-agent'', ev_actorType = ''pm-agent'', ev_scope = sc,
      ev_runId = None, ev_issueId = issue, ev_inputTokens = 0, ev_outputTokens = 0, ev_payload = p\<rparr>"

definition projectPmApproval :: "approval_columns \<Rightarrow> audit_entry list" where
  "projectPmApproval r =
     agent_entry (''proj_approval_requested_'' @ ac_id r) (ac_createdAt r) ''pm.approval_requested'' None (Some (ac_issueId r))
       (JObj [(''approvalId'', JStr (ac_id r)), (''action'', JStr (ac_action r)), (''reason'', JStr (ac_reason r))]) #
     (case ac_resolvedAt r of
        None \<Rightarrow> []
      | Some t \<Rightarrow> [agent_entry (''proj_approval_resolved_'' @ ac_id r) t ''pm.approval_resolved'' None (Some (ac_issueId r))
          (JObj [(''approvalId'', JStr (ac_id r)), (''action'', JStr (ac_action r)), (''status'', JStr (ac_status r))])])"

definition projectBudgetAlert :: "alert_columns \<Rightarrow> audit_entry" where
  "projectBudgetAlert r =
     agent_entry (''proj_budget_alert_'' @ al_id r) (al_firedAt r) ''budget.alert_fired'' (Some (al_scope r)) None
       (JObj [(''threshold'', JNum (al_threshold r)), (''date'', JStr (al_date r))])"

definition parseNativeRow :: "audit_lib \<Rightarrow> audit_row \<Rightarrow> audit_entry" where
  "parseNativeRow L r =
     \<lparr>ev_id = na_id r, ev_timestamp = na_timestamp r, ev_eventType = na_eventType r, ev_actor = na_actor r,
      ev_actorType = na_actorType r, ev_scope = na_scope r, ev_runId = na_runId r, ev_issueId = na_issueId r,
      ev_inputTokens = na_inputTokens r, ev_outputTokens = na_outputTokens r,
      ev_payload = (case al_parse L (na_payload r) of Some j \<Rightarrow> j | None \<Rightarrow> JObj [])\<rparr>"

section \<open>Writing\<close>

text \<open>Timestamps are stored in seconds by SQLite. \<open>ok\<close> is the answer of the database; a failure is only logged.\<close>

definition stored_time :: "bool \<Rightarrow> millis \<Rightarrow> millis" where
  "stored_time postgres t = (if postgres then t else t div 1000 * 1000)"

definition insertAuditEvent :: "audit_lib \<Rightarrow> bool \<Rightarrow> bool \<Rightarrow> audit_entry \<Rightarrow> audit_db \<Rightarrow> audit_db" where
  "insertAuditEvent L postgres ok e db =
     (if ok
      then db\<lparr>ad_native := ad_native db @
             [\<lparr>na_id = ev_id e, na_timestamp = stored_time postgres (ev_timestamp e), na_eventType = ev_eventType e,
               na_actor = ev_actor e, na_actorType = ev_actorType e, na_scope = ev_scope e, na_runId = ev_runId e,
               na_issueId = ev_issueId e, na_inputTokens = ev_inputTokens e, na_outputTokens = ev_outputTokens e,
               na_payload = al_stringify L (ev_payload e)\<rparr>]\<rparr>
      else db)"

definition logAuditEvent :: "audit_lib \<Rightarrow> bool \<Rightarrow> bool \<Rightarrow> bool \<Rightarrow> audit_entry \<Rightarrow> audit_db \<Rightarrow> audit_db" where
  "logAuditEvent L licensed postgres ok e db = (if \<not> licensed then db else insertAuditEvent L postgres ok e db)"

definition pruneAuditLog :: "millis \<Rightarrow> int \<Rightarrow> audit_db \<Rightarrow> audit_db \<times> nat" where
  "pruneAuditLog now retentionDays db =
     (let kept = delete_where (\<lambda>r. na_timestamp r < now - retentionDays * 86400000) (ad_native db)
      in (db\<lparr>ad_native := kept\<rparr>, length (ad_native db) - length kept))"

section \<open>Listing\<close>

text \<open>An empty text or list sets no filter.\<close>

record audit_filters =
  fl_from :: "millis option"
  fl_to :: "millis option"
  fl_scope :: string
  fl_eventTypes :: "string list"
  fl_actor :: string
  fl_runId :: string
  fl_issueId :: string
  fl_q :: string
  fl_limit :: "nat option"
  fl_cursor :: "(millis \<times> string) option"

definition in_window :: "audit_filters \<Rightarrow> millis \<Rightarrow> bool" where
  "in_window f t \<longleftrightarrow> (case fl_from f of None \<Rightarrow> True | Some a \<Rightarrow> a \<le> t) \<and> (case fl_to f of None \<Rightarrow> True | Some b \<Rightarrow> t \<le> b)"

definition up_to_cursor :: "audit_filters \<Rightarrow> millis \<Rightarrow> bool" where
  "up_to_cursor f t \<longleftrightarrow> (case fl_cursor f of None \<Rightarrow> True | Some c \<Rightarrow> t \<le> fst c)"

definition unset_or :: "string \<Rightarrow> string option \<Rightarrow> bool" where
  "unset_or s v \<longleftrightarrow> s = [] \<or> v = Some s"

definition passes :: "audit_lib \<Rightarrow> audit_filters \<Rightarrow> audit_entry \<Rightarrow> bool" where
  "passes L f e \<longleftrightarrow> in_window f (ev_timestamp e) \<and> unset_or (fl_scope f) (ev_scope e) \<and>
     (fl_eventTypes f = [] \<or> ev_eventType e \<in> set (fl_eventTypes f)) \<and> startsWith (ev_actor e) (fl_actor f) \<and>
     unset_or (fl_runId f) (ev_runId e) \<and> unset_or (fl_issueId f) (ev_issueId e) \<and>
     (fl_q f = [] \<or> strIncludes (toLowerCase (al_stringify L (ev_payload e) @ '' '' @ ev_actor e)) (toLowerCase (fl_q f)))"

definition behind_cursor :: "audit_filters \<Rightarrow> audit_entry \<Rightarrow> bool" where
  "behind_cursor f e \<longleftrightarrow>
     (case fl_cursor f of
        None \<Rightarrow> True
      | Some (ts, i) \<Rightarrow> \<not> ev_timestamp e > ts \<and> \<not> (ev_timestamp e = ts \<and> i \<le> ev_id e))"

text \<open>\<open>SELECT \<dots> WHERE \<dots> ORDER BY time DESC LIMIT n\<close>.\<close>

definition newest :: "('a \<Rightarrow> millis) \<Rightarrow> nat \<Rightarrow> ('a \<Rightarrow> bool) \<Rightarrow> 'a list \<Rightarrow> 'a list" where
  "newest t n P rows = take n (sort_key (\<lambda>r. - t r) (select_where P rows))"

definition native_rows :: "audit_filters \<Rightarrow> nat \<Rightarrow> audit_db \<Rightarrow> audit_row list" where
  "native_rows f n db = newest na_timestamp n
     (\<lambda>r. in_window f (na_timestamp r) \<and> unset_or (fl_scope f) (na_scope r) \<and>
        (fl_eventTypes f = [] \<or> na_eventType r \<in> set (fl_eventTypes f)) \<and> unset_or (fl_runId f) (na_runId r) \<and>
        unset_or (fl_issueId f) (na_issueId r) \<and> up_to_cursor f (na_timestamp r)) (ad_native db)"

definition run_rows :: "audit_filters \<Rightarrow> nat \<Rightarrow> audit_db \<Rightarrow> run_columns list" where
  "run_rows f n db = newest rc_startedAt n
     (\<lambda>r. in_window f (rc_startedAt r) \<and> unset_or (fl_runId f) (Some (rc_id r)) \<and>
        unset_or (fl_issueId f) (Some (rc_issueId r)) \<and> up_to_cursor f (rc_startedAt r)) (ad_runs db)"

definition approval_rows :: "audit_filters \<Rightarrow> nat \<Rightarrow> audit_db \<Rightarrow> approval_columns list" where
  "approval_rows f n db =
     (if fl_scope f \<noteq> [] then []
      else newest ac_createdAt n (\<lambda>r. in_window f (ac_createdAt r) \<and> up_to_cursor f (ac_createdAt r)) (ad_approvals db))"

definition alert_rows :: "audit_filters \<Rightarrow> nat \<Rightarrow> audit_db \<Rightarrow> alert_columns list" where
  "alert_rows f n db = newest al_firedAt n
     (\<lambda>r. in_window f (al_firedAt r) \<and> unset_or (fl_scope f) (Some (al_scope r)) \<and> up_to_cursor f (al_firedAt r)) (ad_alerts db)"

definition entry_key :: "audit_entry \<Rightarrow> millis \<times> string" where
  "entry_key e = (ev_timestamp e, ev_id e)"

definition latest_first :: "audit_entry list \<Rightarrow> audit_entry list" where
  "latest_first es = rev (sort_key entry_key es)"

definition page_limit :: "audit_filters \<Rightarrow> nat" where
  "page_limit f = min (case fl_limit f of None \<Rightarrow> 50 | Some n \<Rightarrow> n) 500"

definition merged_rows :: "audit_lib \<Rightarrow> audit_filters \<Rightarrow> nat \<Rightarrow> audit_db \<Rightarrow> audit_entry list" where
  "merged_rows L f n db = map (parseNativeRow L) (native_rows f n db) @ concat (map projectPipelineRun (run_rows f n db)) @
     concat (map projectPmApproval (approval_rows f n db)) @ map projectBudgetAlert (alert_rows f n db)"

definition listAuditEvents ::
  "audit_lib \<Rightarrow> audit_db \<Rightarrow> audit_filters \<Rightarrow> audit_entry list \<times> (millis \<times> string) option" where
  "listAuditEvents L db f =
     (let limit = page_limit f;
          filtered = latest_first (filter (\<lambda>e. passes L f e \<and> behind_cursor f e) (merged_rows L f (limit * 4) db));
          page = take limit filtered
      in (page, if limit < length filtered then Some (entry_key (last page)) else None))"

section \<open>Looking up\<close>

definition RUN_PREFIXES :: "string list" where
  "RUN_PREFIXES = [''proj_run_auto_merge_skipped_'', ''proj_run_auto_merged_'', ''proj_run_started_'',
     ''proj_run_completed_'', ''proj_run_failed_'']"

definition APPROVAL_PREFIXES :: "string list" where
  "APPROVAL_PREFIXES = [''proj_approval_requested_'', ''proj_approval_resolved_'']"

definition behind_prefix :: "string list \<Rightarrow> string \<Rightarrow> string option" where
  "behind_prefix ps i = map_option (\<lambda>p. drop (length p) i) (find (startsWith i) ps)"

definition entry_with_id :: "string \<Rightarrow> audit_entry list \<Rightarrow> audit_entry option" where
  "entry_with_id i es = find (\<lambda>e. ev_id e = i) es"

definition findAuditEventById :: "audit_lib \<Rightarrow> audit_db \<Rightarrow> string \<Rightarrow> audit_entry option" where
  "findAuditEventById L db i =
     (if \<not> startsWith i ''proj_'' then map_option (parseNativeRow L) (select_one (\<lambda>r. na_id r = i) (ad_native db))
      else case behind_prefix RUN_PREFIXES i of
        Some k \<Rightarrow> Option.bind (select_one (\<lambda>r. rc_id r = k) (ad_runs db)) (\<lambda>r. entry_with_id i (projectPipelineRun r))
      | None \<Rightarrow>
          (case behind_prefix APPROVAL_PREFIXES i of
             Some k \<Rightarrow> Option.bind (select_one (\<lambda>r. ac_id r = k) (ad_approvals db)) (\<lambda>r. entry_with_id i (projectPmApproval r))
           | None \<Rightarrow>
               (case behind_prefix [''proj_budget_alert_''] i of
                  Some k \<Rightarrow> map_option projectBudgetAlert (select_one (\<lambda>r. al_id r = k) (ad_alerts db))
                | None \<Rightarrow> None)))"

section \<open>Export\<close>

definition CSV_HEADER :: string where
  "CSV_HEADER = ''timestamp_utc,event_type,actor,actor_type,scope,run_id,issue_id,input_tokens,output_tokens,payload_json''"

definition formula_prefix :: "string \<Rightarrow> bool" where
  "formula_prefix s \<longleftrightarrow> s \<noteq> [] \<and> hd s \<in> set ''=+-@'' \<union> {CHR 0x09}"

definition escapeCsvField :: "string \<Rightarrow> string" where
  "escapeCsvField v0 =
     (let v = (if formula_prefix v0 then CHR 0x27 # v0 else v0) in
      if CHR '','' \<in> set v \<or> CHR 0x22 \<in> set v \<or> CHR 0x0A \<in> set v \<or> CHR 0x0D \<in> set v
      then [CHR 0x22] @ concat (map (\<lambda>c. if c = CHR 0x22 then [c, c] else [c]) v) @ [CHR 0x22]
      else v)"

definition csv_fields :: "audit_lib \<Rightarrow> audit_entry \<Rightarrow> string list" where
  "csv_fields L e =
     (let text_of = (\<lambda>s. case s of None \<Rightarrow> [] | Some t \<Rightarrow> t) in
      [al_iso L (ev_timestamp e), ev_eventType e, ev_actor e, ev_actorType e, text_of (ev_scope e), text_of (ev_runId e),
       text_of (ev_issueId e), show_nat (ev_inputTokens e), show_nat (ev_outputTokens e), al_stringify L (ev_payload e)])"

definition eventToCsvRow :: "audit_lib \<Rightarrow> audit_entry \<Rightarrow> string" where
  "eventToCsvRow L e = joinWith '','' (map escapeCsvField (csv_fields L e))"

text \<open>At most \<open>n\<close> pages are read, the first from \<open>c\<close> on.\<close>

fun csv_pages ::
  "audit_lib \<Rightarrow> audit_db \<Rightarrow> audit_filters \<Rightarrow> nat \<Rightarrow> nat \<Rightarrow> (millis \<times> string) option \<Rightarrow> string list" where
  "csv_pages L db f pageSize 0 c = []"
| "csv_pages L db f pageSize (Suc n) c =
     (let (events, next1) = listAuditEvents L db (f\<lparr>fl_limit := Some pageSize, fl_cursor := c\<rparr>)
      in map (eventToCsvRow L) events @
         (if next1 = None \<or> events = [] then [] else csv_pages L db f pageSize n next1))"

definition streamAuditCsv :: "audit_lib \<Rightarrow> audit_db \<Rightarrow> audit_filters \<Rightarrow> nat \<Rightarrow> string list" where
  "streamAuditCsv L db f pageSize = CSV_HEADER # csv_pages L db f pageSize 100001 None"

end
