(* ===== verification/AuditLogProps.thy ===== *)
theory AuditLogProps
  imports AuditLog "HOL-Library.Multiset"
begin

text \<open>
  What the audit log promises: an export holds every entry once and in order, every listed entry is found by its id,
  and a cell of an export is read back as text. Lemmas at the end show when a listing leaves entries out.
\<close>

section \<open>All entries\<close>

definition all_entries :: "audit_lib \<Rightarrow> audit_db \<Rightarrow> audit_entry list" where
  "all_entries L db = map (parseNativeRow L) (ad_native db) @ concat (map projectPipelineRun (ad_runs db)) @
     concat (map projectPmApproval (ad_approvals db)) @ map projectBudgetAlert (ad_alerts db)"

definition entries_for :: "audit_lib \<Rightarrow> audit_filters \<Rightarrow> audit_db \<Rightarrow> audit_entry list" where
  "entries_for L f db = latest_first (filter (passes L f) (all_entries L db))"

text \<open>Ids are primary keys, and those of the table itself do not look like projected ones.\<close>

definition well_keyed :: "audit_db \<Rightarrow> bool" where
  "well_keyed db \<longleftrightarrow> distinct (map na_id (ad_native db)) \<and> distinct (map rc_id (ad_runs db)) \<and>
     distinct (map ac_id (ad_approvals db)) \<and> distinct (map al_id (ad_alerts db)) \<and>
     list_all (\<lambda>r. \<not> startsWith (na_id r) ''proj_'') (ad_native db)"

text \<open>Nothing ends before it began.\<close>

definition time_ordered :: "audit_db \<Rightarrow> bool" where
  "time_ordered db \<longleftrightarrow>
     list_all (\<lambda>r. case rc_completedAt r of None \<Rightarrow> True | Some t \<Rightarrow> rc_startedAt r \<le> t) (ad_runs db) \<and>
     list_all (\<lambda>r. case ac_resolvedAt r of None \<Rightarrow> True | Some t \<Rightarrow> ac_createdAt r \<le> t) (ad_approvals db)"

definition small :: "nat \<Rightarrow> audit_db \<Rightarrow> bool" where
  "small n db \<longleftrightarrow> length (ad_native db) \<le> n \<and> length (ad_runs db) \<le> n \<and> length (ad_approvals db) \<le> n \<and>
     length (ad_alerts db) \<le> n"

section \<open>Ids\<close>

lemmas prefix_defs = behind_prefix_def RUN_PREFIXES_def APPROVAL_PREFIXES_def

lemma run_entry_fields:
  assumes "e \<in> set (projectPipelineRun r)"
  shows "ev_runId e = Some (rc_id r)" "ev_issueId e = Some (rc_issueId r)"
    "ev_timestamp e = rc_startedAt r \<or> rc_completedAt r = Some (ev_timestamp e)"
  using assms
  by (auto simp: projectPipelineRun_def run_entry_def settled_at_def split: option.splits if_splits)

lemma run_ids: "set (map ev_id (projectPipelineRun r)) \<subseteq> (\<lambda>p. p @ rc_id r) ` set RUN_PREFIXES"
  by (auto simp: projectPipelineRun_def run_entry_def RUN_PREFIXES_def split: option.split simp del: append.simps)

lemma run_prefix: "p \<in> set RUN_PREFIXES \<Longrightarrow> startsWith (p @ k) ''proj_'' \<and> behind_prefix RUN_PREFIXES (p @ k) = Some k"
  by (auto simp: prefix_defs)

lemma projected_id:
  assumes "e \<in> set (projectPipelineRun r)"
  shows "startsWith (ev_id e) ''proj_''" "behind_prefix RUN_PREFIXES (ev_id e) = Some (rc_id r)"
proof -
  obtain p where "p \<in> set RUN_PREFIXES" "ev_id e = p @ rc_id r" using run_ids [of r] assms by auto
  then show "startsWith (ev_id e) ''proj_''" "behind_prefix RUN_PREFIXES (ev_id e) = Some (rc_id r)"
    using run_prefix by simp_all
qed

lemma approval_id:
  "e \<in> set (projectPmApproval r) \<Longrightarrow> startsWith (ev_id e) ''proj_'' \<and> behind_prefix RUN_PREFIXES (ev_id e) = None \<and>
     behind_prefix APPROVAL_PREFIXES (ev_id e) = Some (ac_id r)"
  by (auto simp: projectPmApproval_def agent_entry_def prefix_defs split: option.splits)

lemma alert_id:
  "startsWith (ev_id (projectBudgetAlert r)) ''proj_'' \<and> behind_prefix RUN_PREFIXES (ev_id (projectBudgetAlert r)) = None \<and>
     behind_prefix APPROVAL_PREFIXES (ev_id (projectBudgetAlert r)) = None \<and>
     behind_prefix [''proj_budget_alert_''] (ev_id (projectBudgetAlert r)) = Some (al_id r)"
  by (simp add: projectBudgetAlert_def agent_entry_def prefix_defs)

lemma run_ids_distinct: "distinct (map ev_id (projectPipelineRun r))"
  by (auto simp: projectPipelineRun_def run_entry_def split: option.split)

lemma approval_ids_distinct: "distinct (map ev_id (projectPmApproval r))"
  by (auto simp: projectPmApproval_def agent_entry_def split: option.split)

lemma entry_with_id_found: "distinct (map ev_id es) \<Longrightarrow> e \<in> set es \<Longrightarrow> entry_with_id (ev_id e) es = Some e"
  by (induction es) (auto simp: entry_with_id_def)

lemma select_one_key: "distinct (map k rows) \<Longrightarrow> r \<in> set rows \<Longrightarrow> select_one (\<lambda>x. k x = k r) rows = Some r"
  by (induction rows) (auto simp: select_one_def)

lemma found_by_id_of:
  assumes "well_keyed db" "e \<in> set (all_entries L db)"
  shows "findAuditEventById L db (ev_id e) = Some e"
proof -
  consider (native) r where "r \<in> set (ad_native db)" "e = parseNativeRow L r"
    | (run) r where "r \<in> set (ad_runs db)" "e \<in> set (projectPipelineRun r)"
    | (approval) r where "r \<in> set (ad_approvals db)" "e \<in> set (projectPmApproval r)"
    | (alert) r where "r \<in> set (ad_alerts db)" "e = projectBudgetAlert r"
    using assms(2) unfolding all_entries_def by auto
  then show ?thesis
  proof cases
    case native
    with assms(1) show ?thesis
      by (auto simp: findAuditEventById_def well_keyed_def list_all_iff parseNativeRow_def select_one_key)
  next
    case run
    then show ?thesis using assms(1) projected_id [OF run(2)] entry_with_id_found [OF run_ids_distinct run(2)]
      by (simp add: findAuditEventById_def well_keyed_def select_one_key)
  next
    case approval
    then show ?thesis using assms(1) approval_id [OF approval(2)] entry_with_id_found [OF approval_ids_distinct approval(2)]
      by (simp add: findAuditEventById_def well_keyed_def select_one_key)
  next
    case alert
    then show ?thesis using assms(1) alert_id [of r] by (simp add: findAuditEventById_def well_keyed_def select_one_key)
  qed
qed

lemma ids_inject:
  "well_keyed db \<Longrightarrow> e \<in> set (all_entries L db) \<Longrightarrow> e' \<in> set (all_entries L db) \<Longrightarrow> ev_id e = ev_id e' \<Longrightarrow> e = e'"
  using found_by_id_of by (metis option.inject)

text \<open>Every entry of a listing is found by its id, wherever it comes from.\<close>
theorem entries_found_by_id:
  "if well_keyed db then list_all (\<lambda>e. findAuditEventById L db (ev_id e) = Some e) (all_entries L db) else True"
  by (simp add: list_all_iff found_by_id_of)

section \<open>Pages\<close>

lemma mset_newest: "length rows \<le> n \<Longrightarrow> mset (newest t n P rows) = mset (filter P rows)"
proof -
  assume "length rows \<le> n"
  then have "length (filter P rows) \<le> n" using length_filter_le [of P rows] by (rule le_trans [rotated])
  then have "newest t n P rows = sort_key (\<lambda>r. - t r) (filter P rows)"
    by (simp add: newest_def select_where_def)
  then show ?thesis by (simp only: mset_sort)
qed

lemma mset_parts: "mset (filter Q (concat (map g xs))) = (\<Sum>x \<in># mset xs. mset (filter Q (g x)))"
  by (induction xs) simp_all

text \<open>A query that leaves out no row of a wanted entry, and no row for its limit, loses nothing.\<close>

lemma mset_projected:
  assumes "length rows \<le> n" "\<And>r e. r \<in> set rows \<Longrightarrow> e \<in> set (g r) \<Longrightarrow> Q e \<Longrightarrow> P r"
  shows "mset (filter Q (concat (map g (newest t n P rows)))) = mset (filter Q (concat (map g rows)))"
proof -
  have "(\<Sum>x \<in># mset (filter P rows). mset (filter Q (g x))) = (\<Sum>x \<in># mset rows. mset (filter Q (g x)))"
    using assms(2) by (induction rows) (auto simp: filter_empty_conv)
  then show ?thesis by (simp add: mset_parts mset_newest [OF assms(1)] del: mset_filter)
qed

lemma mset_projected_single:
  assumes "length rows \<le> n" "\<And>r. r \<in> set rows \<Longrightarrow> Q (h r) \<Longrightarrow> P r"
  shows "mset (filter Q (map h (newest t n P rows))) = mset (filter Q (map h rows))"
  using mset_projected [of rows n "\<lambda>r. [h r]" Q P t] assms unfolding concat_map_singleton by simp

definition wanted :: "audit_lib \<Rightarrow> audit_filters \<Rightarrow> audit_entry \<Rightarrow> bool" where
  "wanted L f e \<longleftrightarrow> passes L f e \<and> behind_cursor f e"

lemma wanted_earlier:
  "wanted L f e \<Longrightarrow> fl_from f = None \<Longrightarrow> t \<le> ev_timestamp e \<Longrightarrow> in_window f t \<and> up_to_cursor f t"
  by (auto simp: wanted_def passes_def in_window_def behind_cursor_def up_to_cursor_def split: option.splits)

lemma run_wanted:
  assumes "time_ordered db" "r \<in> set (ad_runs db)" "e \<in> set (projectPipelineRun r)"
  shows "rc_startedAt r \<le> ev_timestamp e"
  using run_entry_fields(3) [OF assms(3)] assms(1,2) by (auto simp: time_ordered_def list_all_iff)

lemma approval_wanted:
  assumes "time_ordered db" "r \<in> set (ad_approvals db)" "e \<in> set (projectPmApproval r)"
  shows "ac_createdAt r \<le> ev_timestamp e \<and> ev_scope e = None"
  using assms by (auto simp: time_ordered_def list_all_iff projectPmApproval_def agent_entry_def split: option.splits)

lemma merged_complete:
  assumes "small n db" "time_ordered db" "fl_from f = None"
  shows "mset (filter (wanted L f) (merged_rows L f n db)) = mset (filter (wanted L f) (all_entries L db))"
proof -
  have native: "mset (filter (wanted L f) (map (parseNativeRow L) (native_rows f n db))) =
      mset (filter (wanted L f) (map (parseNativeRow L) (ad_native db)))"
    unfolding native_rows_def using assms(1) wanted_earlier [OF _ assms(3), of L "parseNativeRow L r" "na_timestamp r" for r]
    by (intro mset_projected_single) (auto simp: small_def wanted_def passes_def parseNativeRow_def)
  have runs: "mset (filter (wanted L f) (concat (map projectPipelineRun (run_rows f n db)))) =
      mset (filter (wanted L f) (concat (map projectPipelineRun (ad_runs db))))"
    unfolding run_rows_def
  proof (rule mset_projected)
    fix r e assume "r \<in> set (ad_runs db)" "e \<in> set (projectPipelineRun r)" "wanted L f e"
    then show "in_window f (rc_startedAt r) \<and> unset_or (fl_runId f) (Some (rc_id r)) \<and>
        unset_or (fl_issueId f) (Some (rc_issueId r)) \<and> up_to_cursor f (rc_startedAt r)"
      using wanted_earlier [OF _ assms(3)] run_wanted [OF assms(2)] run_entry_fields(1,2)
      by (metis wanted_def passes_def)
  qed (use assms(1) in \<open>simp add: small_def\<close>)
  have approvals: "mset (filter (wanted L f) (concat (map projectPmApproval (approval_rows f n db)))) =
      mset (filter (wanted L f) (concat (map projectPmApproval (ad_approvals db))))"
  proof (cases "fl_scope f = []")
    case True
    then show ?thesis
      unfolding approval_rows_def using assms(1) wanted_earlier [OF _ assms(3)] approval_wanted [OF assms(2)]
      by (simp del: mset_filter filter_concat) (rule mset_projected, auto simp: small_def)
  next
    case False
    then have "filter (wanted L f) (concat (map projectPmApproval (ad_approvals db))) = []"
      using approval_wanted [OF assms(2)] by (auto simp: filter_empty_conv wanted_def passes_def unset_or_def)
    then show ?thesis using False by (simp add: approval_rows_def)
  qed
  have alerts: "mset (filter (wanted L f) (map projectBudgetAlert (alert_rows f n db))) =
      mset (filter (wanted L f) (map projectBudgetAlert (ad_alerts db)))"
    unfolding alert_rows_def using assms(1) wanted_earlier [OF _ assms(3), of L "projectBudgetAlert r" "al_firedAt r" for r]
    by (intro mset_projected_single) (auto simp: small_def wanted_def passes_def projectBudgetAlert_def agent_entry_def)
  show ?thesis
    unfolding merged_rows_def all_entries_def filter_append mset_append native runs approvals alerts ..
qed

section \<open>Order\<close>

lemma distinct_projected:
  assumes "distinct (map k rows)" "\<And>r. distinct (map ev_id (g r))" "\<And>r e. e \<in> set (g r) \<Longrightarrow> F (ev_id e) = Some (k r)"
  shows "distinct (map ev_id (concat (map g rows)))"
  using assms(1)
proof (induction rows)
  case (Cons r rows)
  have "ev_id e \<noteq> ev_id e'" if "e \<in> set (g r)" "r' \<in> set rows" "e' \<in> set (g r')" for e e' r'
    using Cons(2) assms(3) [OF that(1)] assms(3) [OF that(3)] that(2) by (auto simp: image_iff)
  then show ?case using Cons assms(2) [of r] by (auto simp: image_iff)
qed simp

lemma entry_ids_distinct:
  assumes "well_keyed db"
  shows "distinct (map ev_id (all_entries L db))"
proof -
  let ?N = "map (parseNativeRow L) (ad_native db)" and ?R = "concat (map projectPipelineRun (ad_runs db))"
  let ?P = "concat (map projectPmApproval (ad_approvals db))" and ?A = "map projectBudgetAlert (ad_alerts db)"
  have N: "distinct (map ev_id ?N)" "e \<in> set ?N \<Longrightarrow> \<not> startsWith (ev_id e) ''proj_''" for e
    using assms by (auto simp: well_keyed_def list_all_iff parseNativeRow_def comp_def)
  have R: "distinct (map ev_id ?R)" "e \<in> set ?R \<Longrightarrow> startsWith (ev_id e) ''proj_'' \<and> behind_prefix RUN_PREFIXES (ev_id e) \<noteq> None" for e
    using assms distinct_projected [of rc_id "ad_runs db" projectPipelineRun "behind_prefix RUN_PREFIXES", OF _ run_ids_distinct projected_id(2)] projected_id by (force simp: well_keyed_def)+
  have P: "distinct (map ev_id ?P)" "e \<in> set ?P \<Longrightarrow> startsWith (ev_id e) ''proj_'' \<and> behind_prefix RUN_PREFIXES (ev_id e) = None \<and>
      behind_prefix APPROVAL_PREFIXES (ev_id e) \<noteq> None" for e
    using assms distinct_projected [of ac_id "ad_approvals db" projectPmApproval "behind_prefix APPROVAL_PREFIXES", OF _ approval_ids_distinct] approval_id
    by (force simp: well_keyed_def)+
  have A: "distinct (map ev_id ?A)" "e \<in> set ?A \<Longrightarrow> startsWith (ev_id e) ''proj_'' \<and> behind_prefix RUN_PREFIXES (ev_id e) = None \<and>
      behind_prefix APPROVAL_PREFIXES (ev_id e) = None" for e
    using assms alert_id by (auto simp: well_keyed_def projectBudgetAlert_def agent_entry_def distinct_map inj_on_def)
  have apart: "set (map ev_id xs) \<inter> set (map ev_id ys) = {}"
    if "\<And>e e'. e \<in> set xs \<Longrightarrow> e' \<in> set ys \<Longrightarrow> ev_id e \<noteq> ev_id e'" for xs ys
    using that by auto
  have "set (map ev_id ?P) \<inter> set (map ev_id ?A) = {}" using P(2) A(2) by (intro apart) metis
  moreover have "set (map ev_id ?R) \<inter> set (map ev_id (?P @ ?A)) = {}"
    using R(2) P(2) A(2) unfolding set_append by (intro apart) (metis Un_iff set_append)
  moreover have "set (map ev_id ?N) \<inter> set (map ev_id (?R @ ?P @ ?A)) = {}"
    using N(2) R(2) P(2) A(2) by (intro apart) (metis Un_iff set_append)
  ultimately show ?thesis
    using N(1) R(1) P(1) A(1) unfolding all_entries_def map_append distinct_append set_append by blast
qed

lemma keys_inj: "well_keyed db \<Longrightarrow> inj_on entry_key (set (all_entries L db))"
  using ids_inject by (auto simp: inj_on_def entry_key_def)

lemma latest_first_cong: "mset xs = mset ys \<Longrightarrow> inj_on entry_key (set xs) \<Longrightarrow> latest_first xs = latest_first ys"
  using sort_key_inj_key_eq [of xs "sort_key entry_key ys" entry_key] by (simp add: latest_first_def)

lemma filter_latest_first: "filter P (latest_first xs) = latest_first (filter P xs)"
  by (simp add: latest_first_def filter_sort flip: rev_filter)

text \<open>Strictly descending, so that a cursor cuts a listing in two.\<close>

abbreviation descending :: "audit_entry list \<Rightarrow> bool" where
  "descending \<equiv> sorted_wrt (\<lambda>a b. entry_key b < entry_key a)"

lemma entries_descending:
  assumes "well_keyed db"
  shows "descending (entries_for L f db)"
proof -
  let ?xs = "filter (passes L f) (all_entries L db)"
  have "distinct (all_entries L db)" using entry_ids_distinct [OF assms] by (simp only: distinct_map)
  then have "distinct (map entry_key (sort_key entry_key ?xs))"
    using inj_on_subset [OF keys_inj [OF assms], of "set ?xs" L] by (simp add: distinct_map)
  moreover have "sorted (map entry_key (sort_key entry_key ?xs))" by simp
  ultimately have "sorted_wrt (<) (map entry_key (sort_key entry_key ?xs))" by (simp only: strict_sorted_iff)
  then show ?thesis by (simp add: entries_for_def latest_first_def sorted_wrt_rev sorted_wrt_map)
qed

lemma behind_cursor_iff:
  "behind_cursor f e \<longleftrightarrow> (case fl_cursor f of None \<Rightarrow> True | Some c \<Rightarrow> entry_key e < c)"
  by (auto simp: behind_cursor_def entry_key_def less_prod_def split: option.split prod.split)

lemma behind_last:
  assumes "descending xs" "0 < k" "k \<le> length xs" "fl_cursor f = Some (entry_key (last (take k xs)))"
  shows "filter (behind_cursor f) xs = drop k xs"
proof -
  have l: "last (take k xs) = xs ! (k - 1)" using assms(2,3) last_conv_nth [of "take k xs"] by fastforce
  have nth: "entry_key (xs ! j) < entry_key (xs ! i)" if "i < j" "j < length xs" for i j
    using assms(1) that by (simp add: sorted_wrt_iff_nth_less)
  have "filter (behind_cursor f) (take k xs) = []"
  proof -
    have "\<not> behind_cursor f (xs ! i)" if "i < k" for i
    proof (cases "i = k - 1")
      case False
      then have "entry_key (xs ! (k - 1)) < entry_key (xs ! i)" using that assms(3) by (intro nth) simp_all
      then show ?thesis by (simp add: behind_cursor_iff assms(4) l)
    qed (simp add: behind_cursor_iff assms(4) l)
    then show ?thesis using assms(3) by (auto simp: filter_empty_conv in_set_conv_nth)
  qed
  moreover have "filter (behind_cursor f) (drop k xs) = drop k xs"
    using nth [of "k - 1"] assms(2,3) by (auto simp: filter_id_conv in_set_conv_nth behind_cursor_iff assms(4) l)
  ultimately show ?thesis using filter_append [of "behind_cursor f" "take k xs" "drop k xs"] by simp
qed

section \<open>Exports\<close>

lemma page_exact:
  assumes "small (page_limit f * 4) db" "time_ordered db" "well_keyed db" "fl_from f = None"
  shows "listAuditEvents L db f =
    (let xs = filter (behind_cursor f) (entries_for L f db); n = page_limit f
     in (take n xs, if n < length xs then Some (entry_key (last (take n xs))) else None))"
proof -
  have "latest_first (filter (wanted L f) (merged_rows L f (page_limit f * 4) db)) =
      latest_first (filter (wanted L f) (all_entries L db))"
    using merged_complete [OF assms(1,2,4), of L] inj_on_subset [OF keys_inj [OF assms(3), of L]]
    by (intro latest_first_cong) (auto dest!: mset_eq_setD simp del: mset_filter)
  also have "\<dots> = filter (behind_cursor f) (entries_for L f db)"
    by (simp add: entries_for_def filter_latest_first wanted_def [abs_def] conj_commute)
  finally show ?thesis by (simp add: listAuditEvents_def Let_def wanted_def [abs_def])
qed

lemma passes_page [simp]: "passes L (f\<lparr>fl_limit := a, fl_cursor := c\<rparr>) = passes L f"
  by (simp add: fun_eq_iff passes_def in_window_def)

lemma csv_pages_rest:
  assumes "small (min ps 500 * 4) db" "time_ordered db" "well_keyed db" "fl_from f = None" "0 < ps"
    "filter (behind_cursor (f\<lparr>fl_limit := Some ps, fl_cursor := c\<rparr>)) (entries_for L f db) = drop k (entries_for L f db)"
    "length (entries_for L f db) \<le> k + n * min ps 500"
  shows "csv_pages L db f ps n c = map (eventToCsvRow L) (drop k (entries_for L f db))"
  using assms(6,7)
proof (induction n arbitrary: c k)
  case (Suc n)
  let ?f = "f\<lparr>fl_limit := Some ps, fl_cursor := c\<rparr>" and ?xs = "entries_for L f db" and ?m = "min ps 500"
  have page: "listAuditEvents L db ?f = (take ?m (drop k ?xs),
      if ?m < length ?xs - k then Some (entry_key (last (take ?m (drop k ?xs)))) else None)"
    using page_exact [of ?f db L] assms(1-4) Suc(2) by (simp add: page_limit_def Let_def entries_for_def)
  show ?case
  proof (cases "?m < length ?xs - k")
    case True
    have last: "last (take ?m (drop k ?xs)) = last (take (k + ?m) ?xs)"
      using True assms(5) by (simp add: take_add)
    have "csv_pages L db f ps n (Some (entry_key (last (take (k + ?m) ?xs)))) = map (eventToCsvRow L) (drop (k + ?m) ?xs)"
      using True assms(3,5) Suc(3) by (intro Suc(1) behind_last entries_descending) auto
    moreover have "map (eventToCsvRow L) (take ?m (drop k ?xs)) @ map (eventToCsvRow L) (drop (k + ?m) ?xs) =
        map (eventToCsvRow L) (drop k ?xs)"
      by (metis append_take_drop_id drop_drop add.commute map_append)
    moreover have "take ?m (drop k ?xs) \<noteq> []" using True assms(5) by simp
    ultimately show ?thesis using True by (simp add: page last)
  next
    case False
    then have "length (drop k ?xs) \<le> ?m" by (simp only: length_drop not_less)
    then have "take ?m (drop k ?xs) = drop k ?xs" by (rule take_all)
    with False show ?thesis by (simp only: page csv_pages.simps) simp
  qed
qed simp

lemma length_concat_le: "(\<And>x. length (g x) \<le> b) \<Longrightarrow> length (concat (map g xs)) \<le> b * length xs"
  by (induction xs) (auto intro: add_mono)

lemma entries_few:
  assumes "small n db"
  shows "length (entries_for L f db) \<le> 7 * n"
proof -
  have run: "length (projectPipelineRun r) \<le> 3" for r by (simp add: projectPipelineRun_def split: option.split)
  have approval: "length (projectPmApproval r) \<le> 2" for r by (simp add: projectPmApproval_def split: option.split)
  have "length (all_entries L db) \<le> 7 * n"
    using assms length_concat_le [of projectPipelineRun 3 "ad_runs db", OF run]
      length_concat_le [of projectPmApproval 2 "ad_approvals db", OF approval]
    by (simp add: all_entries_def small_def del: length_concat)
  with length_filter_le have "length (filter (passes L f) (all_entries L db)) \<le> 7 * n" by (rule le_trans)
  then show ?thesis by (simp add: entries_for_def latest_first_def)
qed

text \<open>
  C31. An export holds a header and one row for every entry that passes the filters, the newest first, none twice and
  none left out, however it is cut into pages; as long as no table holds more than four pages of rows and
  the export has no start date.
\<close>
theorem export_complete:
  "if small (min pageSize 500 * 4) db \<and> time_ordered db \<and> well_keyed db \<and> fl_from f = None \<and> 0 < pageSize
   then streamAuditCsv L db f pageSize = CSV_HEADER # map (eventToCsvRow L) (entries_for L f db)
   else True"
proof -
  have "filter (behind_cursor (f\<lparr>fl_limit := Some pageSize, fl_cursor := None\<rparr>)) (entries_for L f db) = drop 0 (entries_for L f db)"
    by (simp add: behind_cursor_def)
  moreover have "length (entries_for L f db) \<le> 0 + 100001 * min pageSize 500" if "small (min pageSize 500 * 4) db"
    using entries_few [OF that, of L f] by simp
  ultimately show ?thesis using csv_pages_rest [of pageSize db f None L 0 100001] by (simp add: streamAuditCsv_def)
qed

section \<open>Cells\<close>

text \<open>A reader of RFC 4180: the cells of a row, the first flag telling whether it is inside quotes.\<close>

fun csv_cells :: "bool \<Rightarrow> string \<Rightarrow> string \<Rightarrow> string list" where
  "csv_cells q acc [] = [rev acc]"
| "csv_cells False acc (c # cs) =
     (if c = CHR '','' then rev acc # csv_cells False [] cs
      else if c = CHR 0x22 \<and> acc = [] then csv_cells True [] cs
      else csv_cells False (c # acc) cs)"
| "csv_cells True acc [c] = (if c = CHR 0x22 then [rev acc] else [rev (c # acc)])"
| "csv_cells True acc (c # d # cs) =
     (if c \<noteq> CHR 0x22 then csv_cells True (c # acc) (d # cs)
      else if d = CHR 0x22 then csv_cells True (CHR 0x22 # acc) cs
      else rev acc # csv_cells False [] cs)"

definition neutral :: "string \<Rightarrow> string" where
  "neutral s = (if formula_prefix s then CHR 0x27 # s else s)"

abbreviation double_quotes :: "string \<Rightarrow> string" where
  "double_quotes v \<equiv> concat (map (\<lambda>c. if c = CHR 0x22 then [c, c] else [c]) v)"

lemma plain_cell:
  "CHR 0x22 \<notin> set v \<Longrightarrow> CHR '','' \<notin> set v \<Longrightarrow> csv_cells False acc (v @ rest) = csv_cells False (rev v @ acc) rest"
  by (induction v arbitrary: acc) auto

lemma quoted_cell: "csv_cells True acc (double_quotes v @ CHR 0x22 # rest) = csv_cells True (rev v @ acc) (CHR 0x22 # rest)"
proof (induction v arbitrary: acc)
  case (Cons c v)
  obtain d ds where "double_quotes v @ CHR 0x22 # rest = d # ds" by (cases "double_quotes v") auto
  then show ?case using Cons by auto
qed simp

lemma cell_read:
  "csv_cells False [] (escapeCsvField v) = [neutral v]"
  "csv_cells False [] (escapeCsvField v @ CHR '','' # rest) = neutral v # csv_cells False [] rest"
  using plain_cell [of "neutral v" "[]" "[]"] plain_cell [of "neutral v" "[]" "CHR '','' # rest"]
    quoted_cell [of "[]" "neutral v" "[]"] quoted_cell [of "[]" "neutral v" "CHR '','' # rest"]
  by (auto simp: escapeCsvField_def neutral_def [symmetric] Let_def)

lemma row_read: "csv_cells False [] (joinWith '','' (map escapeCsvField (v # vs))) = map neutral (v # vs)"
  by (induction vs arbitrary: v) (simp_all add: cell_read)

text \<open>
  Every cell of an exported row is read back by a reader of CSV as the field it holds, behind an apostrophe
  when a spreadsheet would take it for a formula; no cell that is read is a formula.
\<close>
theorem csv_cells_safe:
  "csv_cells False [] (eventToCsvRow L e) = map neutral (csv_fields L e) \<and>
   list_all (\<lambda>c. \<not> formula_prefix c) (csv_cells False [] (eventToCsvRow L e))"
proof -
  have read: "csv_cells False [] (eventToCsvRow L e) = map neutral (csv_fields L e)"
    unfolding eventToCsvRow_def csv_fields_def Let_def by (rule row_read)
  have "\<not> formula_prefix (neutral s)" for s by (simp add: neutral_def formula_prefix_def)
  then show ?thesis by (simp add: read list_all_iff)
qed

section \<open>What a listing leaves out\<close>

text \<open>A run that was started before the window is not asked for, so what happened to it inside the window is missing.\<close>
lemma late_completion_missed:
  assumes "ad_native db = []" "ad_runs db = [r]" "ad_approvals db = []" "ad_alerts db = []"
    "rc_status r = ''completed''" "rc_completedAt r = Some t" "f = plain\<lparr>fl_from := Some a\<rparr>" "rc_startedAt r < a" "a \<le> t"
    "plain = \<lparr>fl_from = None, fl_to = None, fl_scope = [], fl_eventTypes = [], fl_actor = [], fl_runId = [],
       fl_issueId = [], fl_q = [], fl_limit = None, fl_cursor = None\<rparr>"
  shows "listAuditEvents L db f = ([], None)" "list_ex (\<lambda>e. ev_eventType e = ''run.completed'') (entries_for L f db)"
proof -
  have "run_rows f n db = []" for n
    using assms(2,7,8) by (simp add: run_rows_def newest_def select_where_def in_window_def assms(10))
  then show "listAuditEvents L db f = ([], None)"
    using assms(1,3,4) by (simp add: listAuditEvents_def merged_rows_def native_rows_def approval_rows_def alert_rows_def
        newest_def select_where_def latest_first_def Let_def)
  have "run_entry r ''proj_run_completed_'' t ''run.completed'' (rc_totalInputTokens r) (rc_totalOutputTokens r) (JObj [])
      \<in> set (entries_for L f db)"
    using assms(2,5,6,7,9)
    by (simp add: entries_for_def latest_first_def all_entries_def projectPipelineRun_def passes_def unset_or_def in_window_def
        run_entry_def assms(10))
  then show "list_ex (\<lambda>e. ev_eventType e = ''run.completed'') (entries_for L f db)"
    by (force simp: list_ex_iff run_entry_def)
qed

lemma sorted_same_time: "sorted (map (\<lambda>r. - na_timestamp r) (filter (\<lambda>x. t = na_timestamp x) xs))"
  by (induction xs) auto

text \<open>
  The actor and the text are looked for only in the newest rows, four times the size of a page; when none of
  these matches, the answer is empty and says that there are no more, though an older row matches.
\<close>
lemma search_gives_up:
  assumes "ad_native db = old # new" "ad_runs db = []" "ad_approvals db = []" "ad_alerts db = []"
    "length new = 4 * page_limit f" "\<And>r. r \<in> set new \<Longrightarrow> na_timestamp old < na_timestamp r"
    "\<And>r. r \<in> set new \<Longrightarrow> \<not> passes L f (parseNativeRow L r)" "passes L f (parseNativeRow L old)"
    "f = g\<lparr>fl_from := None, fl_to := None, fl_scope := [], fl_eventTypes := [], fl_runId := [], fl_issueId := [], fl_cursor := None\<rparr>"
  shows "listAuditEvents L db f = ([], None)" "entries_for L f db = [parseNativeRow L old]"
proof -
  have sorted: "sort_key (\<lambda>r. - na_timestamp r) (old # new) = sort_key (\<lambda>r. - na_timestamp r) new @ [old]"
  proof (rule properties_for_sort_key)
    show "mset (sort_key (\<lambda>r. - na_timestamp r) new @ [old]) = mset (old # new)" by simp
    show "sorted (map (\<lambda>r. - na_timestamp r) (sort_key (\<lambda>r. - na_timestamp r) new @ [old]))"
      using assms(6) by (auto simp: sorted_append intro: less_imp_le)
    have none: "filter (\<lambda>x. - na_timestamp old = - na_timestamp x) new = []" using assms(6) by (fastforce simp: filter_empty_conv)
    have same: "sort_key (\<lambda>r. - na_timestamp r) (filter (\<lambda>x. na_timestamp k = na_timestamp x) new) =
        filter (\<lambda>x. na_timestamp k = na_timestamp x) new" for k :: audit_row
      by (rule sort_key_id_if_sorted) (simp add: sorted_same_time)
    show "filter (\<lambda>x. - na_timestamp k = - na_timestamp x) (sort_key (\<lambda>r. - na_timestamp r) new @ [old]) =
        filter (\<lambda>x. - na_timestamp k = - na_timestamp x) (old # new)" if "k \<in> set (sort_key (\<lambda>r. - na_timestamp r) new @ [old])" for k
      using that assms(6) none same by (auto simp: filter_sort)
  qed
  have "native_rows f (4 * page_limit f) db = sort_key (\<lambda>r. - na_timestamp r) new"
    using assms(1,5) sorted by (simp add: native_rows_def newest_def select_where_def in_window_def unset_or_def up_to_cursor_def assms(9))
  then show "listAuditEvents L db f = ([], None)"
    using assms(2-4,7) by (simp add: listAuditEvents_def merged_rows_def run_rows_def approval_rows_def alert_rows_def
        newest_def select_where_def latest_first_def Let_def mult.commute comp_def filter_map)
  show "entries_for L f db = [parseNativeRow L old]"
    using assms(1-4,7,8) by (simp add: entries_for_def all_entries_def latest_first_def filter_map comp_def)
qed

end
