(* ===== verification/Migrator.thy ===== *)
theory Migrator
  imports Store "HOL-Library.List_Lexorder" "HOL-Library.Char_ord"
begin

text \<open>
  The migrations of the database (\<open>packages/core/src/db/migrator.ts\<close>, and their start in \<open>db/client.ts\<close>): the files of
  a directory, the renaming of recorded migrations, and the runs for SQLite, statement by statement, and for
  Postgres. The engine is a parameter that answers a statement with an error message or the changed database; the
  log keeps the statements sent to it.
\<close>

record 'd mig =
  mg_names :: "string list"
  mg_db :: 'd
  mg_log :: "string list"

type_synonym 'd engine = "'d \<Rightarrow> string \<Rightarrow> string + 'd"

type_synonym migration = "string \<times> string"

section \<open>Files\<close>

definition SQLITE_MIGRATION_RENAMES :: "(string \<times> string) list" where
  "SQLITE_MIGRATION_RENAMES =
     [(''007_sso'', ''008_sso''),
      (''008_review_model_runs'', ''009_review_model_runs''),
      (''009_release_manager'', ''010_release_manager''),
      (''010_qa_run_columns'', ''011_qa_run_columns''),
      (''011_qa_gap_issues'', ''012_qa_gap_issues''),
      (''012_stage_runs_cache_tokens'', ''013_stage_runs_cache_tokens''),
      (''013_missing_indexes'', ''014_missing_indexes''),
      (''013_triage_results'', ''015_triage_results'')]"

definition POSTGRES_MIGRATION_RENAMES :: "(string \<times> string) list" where
  "POSTGRES_MIGRATION_RENAMES =
     [(''008_sso'', ''009_sso''),
      (''009_review_model_runs'', ''010_review_model_runs''),
      (''010_release_manager'', ''011_release_manager''),
      (''011_qa_run_columns'', ''012_qa_run_columns''),
      (''012_qa_gap_issues'', ''013_qa_gap_issues''),
      (''013_stage_runs_cache_tokens'', ''014_stage_runs_cache_tokens''),
      (''014_missing_indexes'', ''015_missing_indexes''),
      (''015_triage_results'', ''016_triage_results'')]"

text \<open>A directory is the list of its files with their contents; a missing one is \<open>None\<close>.\<close>

definition loadMigrationFiles :: "(string \<times> string) list option \<Rightarrow> migration list" where
  "loadMigrationFiles dir =
     (case dir of
        None \<Rightarrow> []
      | Some fs \<Rightarrow> map (\<lambda>(f, c). (take (length f - 4) f, c)) (sort_key fst (filter (\<lambda>(f, c). endsWith f ''.sql'') fs)))"

definition loadActiveMigrationFiles :: "(string \<times> string) list \<Rightarrow> (string \<times> string) list option \<Rightarrow> migration list" where
  "loadActiveMigrationFiles renames dir = filter (\<lambda>m. fst m \<notin> set (map fst renames)) (loadMigrationFiles dir)"

section \<open>Renaming\<close>

definition rename_row :: "string \<Rightarrow> string \<Rightarrow> string list \<Rightarrow> string list" where
  "rename_row old new ns = map (\<lambda>n. if n = old then new else n) ns"

definition UNIQUE_FAILED :: string where
  "UNIQUE_FAILED = ''UNIQUE constraint failed: schema_migrations.name''"

text \<open>SQLite stops at the first update the unique index refuses, Postgres sends them all.\<close>

fun rename_sqlite :: "(string \<times> string) list \<Rightarrow> string list \<Rightarrow> string option \<times> string list" where
  "rename_sqlite [] ns = (None, ns)"
| "rename_sqlite ((old, new) # rs) ns =
     (if old \<in> set ns \<and> new \<in> set ns then (Some UNIQUE_FAILED, ns) else rename_sqlite rs (rename_row old new ns))"

fun rename_postgres :: "(string \<times> string) list \<Rightarrow> string list \<Rightarrow> string option \<times> string list" where
  "rename_postgres [] ns = (None, ns)"
| "rename_postgres ((old, new) # rs) ns =
     (if old \<in> set ns \<and> new \<in> set ns then (Some UNIQUE_FAILED, snd (rename_postgres rs ns))
      else rename_postgres rs (rename_row old new ns))"

section \<open>Running\<close>

text \<open>
  The text is cut at every semicolon, lines that are comments are dropped from each piece, and empty pieces are
  left out.
\<close>

definition statements :: "string \<Rightarrow> string list" where
  "statements sql = filter (\<lambda>s. s \<noteq> [])
     (map (\<lambda>s. trim (joinWith [CHR 0x0A] (filter (\<lambda>l. \<not> startsWith (trim l) ''--'') (split_char (CHR 0x0A) s))))
       (split_char (CHR '';'') sql))"

definition tolerated :: "string \<Rightarrow> bool" where
  "tolerated msg \<longleftrightarrow> strIncludes msg ''duplicate column name'' \<or> strIncludes msg ''already exists''"

text \<open>What is not tolerated stops the migration; \<open>None\<close> is the end without an error.\<close>

fun exec_statements :: "'d engine \<Rightarrow> string list \<Rightarrow> 'd mig \<Rightarrow> string option \<times> 'd mig" where
  "exec_statements exec [] st = (None, st)"
| "exec_statements exec (s # ss) st =
     (let st1 = st\<lparr>mg_log := mg_log st @ [s]\<rparr> in
      case exec (mg_db st) s of
        Inr d \<Rightarrow> exec_statements exec ss (st1\<lparr>mg_db := d\<rparr>)
      | Inl msg \<Rightarrow> if tolerated msg then exec_statements exec ss st1 else (Some msg, st1))"

definition apply_sqlite :: "'d engine \<Rightarrow> string \<Rightarrow> 'd mig \<Rightarrow> string option \<times> 'd mig" where
  "apply_sqlite exec sql st = exec_statements exec (statements sql) st"

text \<open>Postgres runs the whole file as one query.\<close>

definition apply_postgres :: "'d engine \<Rightarrow> string \<Rightarrow> 'd mig \<Rightarrow> string option \<times> 'd mig" where
  "apply_postgres exec sql st =
     (let st1 = st\<lparr>mg_log := mg_log st @ [sql]\<rparr> in
      case exec (mg_db st) sql of Inr d \<Rightarrow> (None, st1\<lparr>mg_db := d\<rparr>) | Inl msg \<Rightarrow> (Some msg, st1))"

definition record_applied :: "string \<Rightarrow> 'd mig \<Rightarrow> 'd mig" where
  "record_applied n st = (if n \<in> set (mg_names st) then st else st\<lparr>mg_names := mg_names st @ [n]\<rparr>)"

definition failed_text :: "string \<Rightarrow> string \<Rightarrow> string" where
  "failed_text n msg = ''Migration '' @ [CHR 0x22] @ n @ [CHR 0x22] @ '' failed: '' @ msg"

fun run_pending ::
  "(string \<Rightarrow> 'd mig \<Rightarrow> string option \<times> 'd mig) \<Rightarrow> migration list \<Rightarrow> 'd mig \<Rightarrow> string option \<times> 'd mig" where
  "run_pending apply1 [] st = (None, st)"
| "run_pending apply1 ((n, sql) # ms) st =
     (if n \<in> set (mg_names st) then run_pending apply1 ms st
      else case apply1 sql st of
        (Some msg, st1) \<Rightarrow> (Some (failed_text n msg), st1)
      | (None, st1) \<Rightarrow> run_pending apply1 ms (record_applied n st1))"

definition runMigrationsSqlite ::
  "'d engine \<Rightarrow> (string \<times> string) list option \<Rightarrow> 'd mig \<Rightarrow> string option \<times> 'd mig" where
  "runMigrationsSqlite exec dir st =
     (case rename_sqlite SQLITE_MIGRATION_RENAMES (mg_names st) of
        (Some e, ns) \<Rightarrow> (Some e, st\<lparr>mg_names := ns\<rparr>)
      | (None, ns) \<Rightarrow>
          run_pending (apply_sqlite exec) (loadActiveMigrationFiles SQLITE_MIGRATION_RENAMES dir) (st\<lparr>mg_names := ns\<rparr>))"

definition runMigrationsPostgres ::
  "'d engine \<Rightarrow> (string \<times> string) list option \<Rightarrow> 'd mig \<Rightarrow> string option \<times> 'd mig" where
  "runMigrationsPostgres exec dir st =
     (case rename_postgres POSTGRES_MIGRATION_RENAMES (mg_names st) of
        (Some e, ns) \<Rightarrow> (Some e, st\<lparr>mg_names := ns\<rparr>)
      | (None, ns) \<Rightarrow>
          run_pending (apply_postgres exec) (loadActiveMigrationFiles POSTGRES_MIGRATION_RENAMES dir) (st\<lparr>mg_names := ns\<rparr>))"

section \<open>Status\<close>

record migration_status =
  st_name :: string
  st_applied :: bool
  st_appliedAt :: "millis option"

definition buildMigrationStatus :: "migration list \<Rightarrow> (string, millis) js_map \<Rightarrow> migration_status list" where
  "buildMigrationStatus ms appliedMap =
     map (\<lambda>n. \<lparr>st_name = n, st_applied = mapGet appliedMap n \<noteq> None, st_appliedAt = mapGet appliedMap n\<rparr>)
       (sort (setOf (map fst ms @ map fst appliedMap)))"

section \<open>Columns of older databases\<close>

definition MIGRATION_COLUMNS :: "(string \<times> string \<times> string) list" where
  "MIGRATION_COLUMNS =
     [(''pipeline_runs'', ''retry_count'', ''INTEGER NOT NULL DEFAULT 0''),
      (''pipeline_runs'', ''run_type'', ''TEXT NOT NULL DEFAULT '' @ [CHR 0x27] @ ''standard'' @ [CHR 0x27]),
      (''pipeline_runs'', ''parent_run_id'', ''TEXT''),
      (''pipeline_runs'', ''feedback_context'', ''TEXT''),
      (''pipeline_runs'', ''auto_merged'', ''INTEGER''),
      (''pipeline_runs'', ''auto_merge_reason'', ''TEXT''),
      (''pipeline_runs'', ''auto_committed'', ''INTEGER''),
      (''pipeline_runs'', ''linear_team_id'', ''TEXT''),
      (''pipeline_runs'', ''agent_session_id'', ''TEXT''),
      (''dashboard_users'', ''role'', ''TEXT NOT NULL DEFAULT '' @ [CHR 0x27] @ ''viewer'' @ [CHR 0x27]),
      (''stage_runs'', ''last_progress_at'', ''INTEGER'')]"

definition getMigrateSqlite :: "string list" where
  "getMigrateSqlite = map (\<lambda>(t, c, ty). ''ALTER TABLE '' @ t @ '' ADD COLUMN '' @ c @ '' '' @ ty) MIGRATION_COLUMNS"

text \<open>Every error is taken to say that the column is there.\<close>

definition add_columns :: "'d engine \<Rightarrow> 'd mig \<Rightarrow> 'd mig" where
  "add_columns exec st = fold (\<lambda>s st. st\<lparr>mg_log := mg_log st @ [s],
     mg_db := (case exec (mg_db st) s of Inr d \<Rightarrow> d | Inl _ \<Rightarrow> mg_db st)\<rparr>) getMigrateSqlite st"

text \<open>Opening a SQLite database: \<open>ddl\<close> creates the tables, in one call.\<close>

definition createDb_sqlite ::
  "'d engine \<Rightarrow> string \<Rightarrow> (string \<times> string) list option \<Rightarrow> 'd mig \<Rightarrow> string option \<times> 'd mig" where
  "createDb_sqlite exec ddl dir st =
     (let st1 = st\<lparr>mg_log := mg_log st @ [ddl]\<rparr> in
      case exec (mg_db st) ddl of
        Inl msg \<Rightarrow> (Some msg, st1)
      | Inr d \<Rightarrow> runMigrationsSqlite exec dir (add_columns exec (st1\<lparr>mg_db := d\<rparr>)))"

end
