(* ===== verification/MigratorProps.thy ===== *)
theory MigratorProps
  imports Migrator
begin

text \<open>
  What the migrations promise: every pending one runs once, in the order of the files, is recorded when it has
  succeeded and not before, and a database that is up to date is left alone; and what breaks them.
\<close>

section \<open>Renaming\<close>

lemma rename_row_absent: "old \<notin> set ns \<Longrightarrow> rename_row old new ns = ns"
  by (auto simp: rename_row_def intro!: map_idI)

lemma set_rename_row: "set (rename_row old new ns) = (\<lambda>n. if n = old then new else n) ` set ns"
  by (simp add: rename_row_def)

text \<open>No new name is an old one.\<close>

definition renames_ok :: "(string \<times> string) list \<Rightarrow> bool" where
  "renames_ok rs \<longleftrightarrow> list_all (\<lambda>(old, new). new \<notin> set (map fst rs)) rs"

lemma renames_are_ok: "renames_ok SQLITE_MIGRATION_RENAMES" "renames_ok POSTGRES_MIGRATION_RENAMES"
  by (simp_all add: renames_ok_def SQLITE_MIGRATION_RENAMES_def POSTGRES_MIGRATION_RENAMES_def)

lemma rename_sqlite_gone:
  assumes "rename_sqlite rs ns = (None, ns1)" "\<And>old new. (old, new) \<in> set rs \<Longrightarrow> new \<notin> A" "A \<inter> set ns = {}"
  shows "A \<inter> set ns1 = {}"
  using assms
proof (induction rs ns rule: rename_sqlite.induct)
  case (2 old new rs ns)
  then have "rename_sqlite rs (rename_row old new ns) = (None, ns1)" by (auto split: if_splits)
  moreover have "A \<inter> set (rename_row old new ns) = {}" using 2(3,4) by (auto simp: set_rename_row)
  ultimately show ?case using 2 by (auto split: if_splits)
qed simp

lemma rename_sqlite_olds:
  assumes "rename_sqlite rs ns = (None, ns1)" "renames_ok (qs @ rs)"
  shows "set (map fst rs) \<inter> set ns1 = {}"
  using assms
proof (induction rs ns arbitrary: qs rule: rename_sqlite.induct)
  case (2 old new rs ns)
  then have r: "rename_sqlite rs (rename_row old new ns) = (None, ns1)" by (auto split: if_splits)
  have "set (map fst rs) \<inter> set ns1 = {}" using 2(1) [of "qs @ [(old, new)]"] 2(2,3) r by (auto split: if_splits)
  moreover have "{old} \<inter> set ns1 = {}"
  proof (rule rename_sqlite_gone [OF r])
    have ok: "list_all (\<lambda>(o1, n1). n1 \<noteq> old) ((old, new) # rs)"
      using 2(3) by (auto simp: renames_ok_def list_all_iff)
    then show "n1 \<notin> {old}" if "(o1, n1) \<in> set rs" for o1 n1 using that by (auto simp: list_all_iff)
    show "{old} \<inter> set (rename_row old new ns) = {}" using ok by (auto simp: set_rename_row)
  qed
  ultimately show ?case by auto
qed simp

lemma rename_sqlite_absent: "set (map fst rs) \<inter> set ns = {} \<Longrightarrow> rename_sqlite rs ns = (None, ns)"
  by (induction rs ns rule: rename_sqlite.induct) (auto simp: rename_row_absent)

section \<open>Pending migrations\<close>

lemma exec_statements_frame:
  "exec_statements exec ss st = (e, st1) \<Longrightarrow> mg_names st1 = mg_names st \<and> (e = None \<longrightarrow> mg_log st1 = mg_log st @ ss)"
proof (induction ss arbitrary: st)
  case (Cons s ss)
  show ?case
  proof (cases "exec (mg_db st) s")
    case (Inr d)
    with Cons.prems have "exec_statements exec ss (st\<lparr>mg_log := mg_log st @ [s], mg_db := d\<rparr>) = (e, st1)" by (simp add: Let_def)
    from Cons.IH [OF this] show ?thesis by simp
  next
    case (Inl msg)
    show ?thesis
    proof (cases "tolerated msg")
      case True
      with Cons.prems Inl have "exec_statements exec ss (st\<lparr>mg_log := mg_log st @ [s]\<rparr>) = (e, st1)" by (simp add: Let_def)
      from Cons.IH [OF this] show ?thesis by simp
    next
      case False
      with Cons.prems Inl show ?thesis by (auto simp: Let_def)
    qed
  qed
qed simp

lemma apply_sqlite_frame:
  "apply_sqlite exec sql st = (e, st1) \<Longrightarrow> mg_names st1 = mg_names st \<and> (e = None \<longrightarrow> mg_log st1 = mg_log st @ statements sql)"
  unfolding apply_sqlite_def by (rule exec_statements_frame)

lemma run_pending_frame:
  assumes "run_pending (apply_sqlite exec) ms st = (e, st1)" "distinct (map fst ms)"
  shows "if e = None
     then set (mg_names st1) = set (mg_names st) \<union> set (map fst ms) \<and>
       mg_log st1 = mg_log st @ concat (map (statements \<circ> snd) (filter (\<lambda>m. fst m \<notin> set (mg_names st)) ms))
     else list_ex (\<lambda>m. fst m \<notin> set (mg_names st1)) ms \<and> set (mg_names st) \<subseteq> set (mg_names st1)"
  using assms
proof (induction ms arbitrary: st)
  case (Cons m ms)
  obtain n sql where m: "m = (n, sql)" by fastforce
  have d: "distinct (map fst ms)" "n \<notin> set (map fst ms)" using Cons.prems(2) by (auto simp: m)
  show ?case
  proof (cases "n \<in> set (mg_names st)")
    case True
    with Cons.prems(1) have "run_pending (apply_sqlite exec) ms st = (e, st1)" by (simp add: m)
    from Cons.IH [OF this d(1)] True show ?thesis by (auto simp: m)
  next
    case False
    obtain e0 st0 where a: "apply_sqlite exec sql st = (e0, st0)" by fastforce
    note f = apply_sqlite_frame [OF a]
    show ?thesis
    proof (cases e0)
      case None
      let ?st = "record_applied n st0"
      have r: "mg_names ?st = mg_names st @ [n]" "mg_log ?st = mg_log st @ statements sql"
        using False f None by (simp_all add: record_applied_def)
      have "run_pending (apply_sqlite exec) ms ?st = (e, st1)" using Cons.prems(1) False a None by (simp add: m)
      note rest = Cons.IH [OF this d(1)]
      have "filter (\<lambda>x. fst x \<notin> set (mg_names ?st)) ms = filter (\<lambda>x. fst x \<notin> set (mg_names st)) ms"
        using d(2) r(1) by (intro filter_cong) auto
      with rest r False show ?thesis by (auto simp: m split: if_splits)
    next
      case (Some msg)
      with Cons.prems(1) False a have "e = Some (failed_text n msg)" "st1 = st0" by (simp_all add: m)
      with f False show ?thesis by (simp add: m)
    qed
  qed
qed simp

lemma run_pending_done:
  "set (map fst ms) \<subseteq> set (mg_names st) \<Longrightarrow> run_pending apply1 ms st = (None, st)"
  by (induction apply1 ms st rule: run_pending.induct) auto

lemma active_not_renamed: "set (map fst (loadActiveMigrationFiles rs dir)) \<inter> set (map fst rs) = {}"
  by (auto simp: loadActiveMigrationFiles_def)

text \<open>
  C32. A run of the migrations that ends well has sent the statements of every pending one, in order and once, and
  recorded it; a second run sends nothing and changes nothing. A run that fails leaves a migration
  unrecorded, so that the next run takes it up again, unless the renaming failed before.
\<close>
theorem migrations_run_once:
  "let ms = loadActiveMigrationFiles SQLITE_MIGRATION_RENAMES dir;
       (e0, ns) = rename_sqlite SQLITE_MIGRATION_RENAMES (mg_names st);
       (e, st1) = runMigrationsSqlite exec dir st
   in if distinct (map fst ms)
      then if e = None
        then mg_log st1 = mg_log st @ concat (map (statements \<circ> snd) (filter (\<lambda>m. fst m \<notin> set ns) ms)) \<and>
          set (mg_names st1) = set ns \<union> set (map fst ms) \<and> runMigrationsSqlite exec dir st1 = (None, st1)
        else if e0 = None then list_ex (\<lambda>m. fst m \<notin> set (mg_names st1)) ms else st1 = st\<lparr>mg_names := ns\<rparr>
      else True"
proof -
  let ?ms = "loadActiveMigrationFiles SQLITE_MIGRATION_RENAMES dir"
  obtain e0 ns where ns: "rename_sqlite SQLITE_MIGRATION_RENAMES (mg_names st) = (e0, ns)" by fastforce
  obtain e st1 where run: "runMigrationsSqlite exec dir st = (e, st1)" by fastforce
  show ?thesis
  proof (cases e0)
    case (Some msg)
    then show ?thesis using run ns by (auto simp: runMigrationsSqlite_def)
  next
    case None
    have p: "run_pending (apply_sqlite exec) ?ms (st\<lparr>mg_names := ns\<rparr>) = (e, st1)"
      using run ns None by (simp add: runMigrationsSqlite_def)
    have "runMigrationsSqlite exec dir st1 = (None, st1)" if "distinct (map fst ?ms)" "e = None"
    proof -
      have names: "set (mg_names st1) = set ns \<union> set (map fst ?ms)"
        using run_pending_frame [OF p that(1)] that(2) by simp
      have "set (map fst SQLITE_MIGRATION_RENAMES) \<inter> set ns = {}"
        using rename_sqlite_olds [of SQLITE_MIGRATION_RENAMES "mg_names st" ns "[]"] ns None renames_are_ok(1) by simp
      then have "set (map fst SQLITE_MIGRATION_RENAMES) \<inter> set (mg_names st1) = {}"
        using names active_not_renamed [of SQLITE_MIGRATION_RENAMES dir] by blast
      then have "rename_sqlite SQLITE_MIGRATION_RENAMES (mg_names st1) = (None, mg_names st1)"
        by (rule rename_sqlite_absent)
      then show ?thesis using names by (simp add: runMigrationsSqlite_def run_pending_done)
    qed
    with run_pending_frame [OF p] show ?thesis by (simp add: run ns None Let_def)
  qed
qed

section \<open>What breaks them\<close>

text \<open>
  After an older version has run again, which records a migration under its old name beside the new one, no start
  succeeds any more: the renaming violates the unique index.
\<close>
lemma downgrade_blocks_start:
  assumes "''007_sso'' \<in> set (mg_names st)" "''008_sso'' \<in> set (mg_names st)"
  shows "runMigrationsSqlite exec dir st = (Some UNIQUE_FAILED, st)"
  using assms by (simp add: runMigrationsSqlite_def SQLITE_MIGRATION_RENAMES_def)

lemma dropWhile_two: "\<not> P y \<Longrightarrow> dropWhile P (xs @ [y, z]) = dropWhile P xs @ [y, z]"
  by (induction xs) auto

text \<open>A semicolon inside a comment ends the piece: what follows it is sent as a statement.\<close>
lemma comment_semicolon_sent:
  assumes "CHR '';'' \<notin> set a" "CHR '';'' \<notin> set b" "CHR 0x0A \<notin> set a" "CHR 0x0A \<notin> set b" "trim b \<noteq> []"
    "\<not> startsWith (trim b) ''--''"
  shows "statements (''--'' @ a @ CHR '';'' # b) = [trim b]"
proof -
  have "split_char (CHR '';'') (''--'' @ a @ CHR '';'' # b) = [''--'' @ a, b]"
    using split_char_append [of "CHR '';''" "''--'' @ a" b] assms(1,2) by simp
  moreover have "startsWith (trim (''--'' @ a)) ''--''"
    using dropWhile_two [of is_space "CHR ''-''" "rev a" "CHR ''-''"] by (simp add: trim_def is_space_def)
  moreover have "trim [] = []" by (simp add: trim_def)
  ultimately show ?thesis using assms(3-6) by (simp add: statements_def)
qed

end
