(* ===== verification/Spec2Isabelle.thy ===== *)
theory Spec2Isabelle
  imports Prelude Glob Policy ControlSignals WorkQueue BranchLock ErrorClassifier PipelineConfigs
    DeepReviewTools Store AgentChecks Gates RunControl Execution StageLoop StageProps ReviewLoops
    Delivery Pipeline PipelineProps RunInvariants RunProps
    Versioning ReleaseManager ReleaseProps PmBudget PmBreaker PmActions PmActionProps
    PmApprovalProps PmTick PmTickProps AutoMerge Webhooks WebhookProps Feedback FeedbackProps
    Base64 License Access Sso Dashboard DashboardProps Triage TriageProps
    Git GitProps Conflict ConflictProps Sync Observers Sanitizer Slack SlackProps
    AgentStream AgentAuth Handoff Executor ExecutorProps DeepReview Cost CostProps
    AuditLog AuditLogProps Migrator MigratorProps
begin

text \<open>
  A verification library of urateam, a server that takes issues from Linear, runs coding agents on them and
  delivers pull requests. The modelled code is TypeScript under \<open>packages/core/src\<close>; paths below are
  relative to it.

  \<^bold>\<open>The program.\<close> Webhooks (\<open>webhook/\<close>) and the PM agent (\<open>pm/\<close>) call the runner (\<open>pipeline/runner.ts\<close>),
  which keeps one run per issue, executes the stages of its pipeline through agents, reviews and repairs
  what they wrote, and pushes a branch and requests a merge. Runs survive a restart through the table of
  runs: a paused, crashed or retriable run is resumed from the payload stored in its row. Webhooks of the
  forges report merges and review comments, which start feedback runs. The release manager
  (\<open>release-manager/\<close>, \<open>qa/\<close>) tags what has been merged. The dashboard shows runs and lets operators stop, halt and retry.

  \<^bold>\<open>Theories and sources.\<close>
  \<^item> \<open>Prelude\<close>: strings, numbers and maps of JavaScript, tables as lists of rows, and the collections of facts
    (\<open>table_simps\<close> and others) the components share. \<open>Types\<close>: the data of \<open>types.ts\<close>; fields that no modelled
    code reads are left out. \<open>Store\<close>: rows of \<open>db/schema.ts\<close>, the resume payload, \<open>pm/coordination.ts\<close>,
    \<open>executor/session-store.ts\<close>.
  \<^item> \<open>Glob\<close> (\<open>util/glob.ts\<close>) and \<open>Policy\<close> (\<open>policy/\<close>): path blocklist, cost cap, override label, reviewers.
  \<^item> \<open>ControlSignals\<close>, \<open>WorkQueue\<close>, \<open>BranchLock\<close>, \<open>ErrorClassifier\<close>, \<open>PipelineConfigs\<close>, \<open>Gates\<close>,
    \<open>DeepReviewTools\<close>, \<open>AgentChecks\<close>: the modules of \<open>pipeline/\<close> and \<open>executor/\<close> the runner is made of.
  \<^item> \<open>RunControl\<close>: \<open>PipelineRunner\<close> without the execution: start, resume, pause, abort, stop, failure,
    budget, recovery after a restart (with \<open>pm/actions/recover.ts\<close> and \<open>pipeline/terminate.ts\<close>).
  \<^item> \<open>Execution\<close>, \<open>StageLoop\<close>, \<open>ReviewLoops\<close>, \<open>Delivery\<close>, \<open>Pipeline\<close>: \<open>executePipeline\<close>. The local variables
    are the record \<open>px\<close>, its early exits the field \<open>x_exit\<close>; a phase is a function on \<open>px\<close>, phases are
    composed with \<open>seq\<close>, which stops at an exit. What agents, git and forges answer at a step is read from
    the record \<open>env\<close> at a position that every call advances.
  \<^item> \<open>PmBudget\<close>, \<open>PmBreaker\<close>, \<open>PmActions\<close>, \<open>PmTick\<close>: the budgets, the circuit breaker, the actions and the
    tick of the PM agent. The calls it makes are recorded in a list; Linear and Slack answer by parameters.
  \<^item> \<open>AutoMerge\<close> (\<open>pipeline/automerge.ts\<close>, part of \<open>repo/github.ts\<close>) and \<open>Webhooks\<close> (\<open>webhook/\<close>): the four
    handlers from the signature to the calls of the runner.
  \<^item> \<open>Feedback\<close> (\<open>pipeline/feedback-pipeline.ts\<close>): a run that answers review comments on the branch of a pull
    request. The check of its slot and the claim, and the two ends of its job, are separate segments, so
    that histories can interleave them.
  \<^item> \<open>Base64\<close>, \<open>License\<close> (\<open>license.ts\<close>), \<open>Access\<close> (\<open>rbac/\<close>, \<open>auth/\<close>), \<open>Sso\<close> (the login) and \<open>Dashboard\<close>
    (\<open>packages/dashboard/src\<close>): a request goes through the limiter, the check against forged requests and the
    authentication to a route, which calls the runner of \<open>RunControl\<close> or changes the table of users.
  \<^item> \<open>Triage\<close> (\<open>pm/actions/triage.ts\<close>, \<open>pm/actions/triage-render.ts\<close>): a new issue is classified by a model,
    whose answer is a JSON value; the result goes to Linear as labels, a comment and sections of the description.
  \<^item> \<open>Git\<close> (\<open>repo/git.ts\<close>, \<open>repo/agent-branch-sweep.ts\<close>): each operation is a program over a shell, a parameter that
    answers a command from the state of the world; the commands sent are logged. \<open>Conflict\<close>
    (\<open>pm/conflict-detector.ts\<close>, \<open>pm/conflict.ts\<close>): which issues touch the same files, from their texts and from git.
  \<^item> \<open>AgentStream\<close>, \<open>AgentAuth\<close>, \<open>Handoff\<close>, \<open>Executor\<close> (\<open>executor/\<close>): one stage. The stream of the SDK is a list of messages with
    their times, consumed under the limits of the stage; its text becomes the handoff, with git's view of the changes,
    and the tables get its row, its logs, its decisions and, after a collision of sessions, a fresh session. The runner of
    \<open>Execution\<close> takes this function as the parameter \<open>en_executeStage\<close>; \<open>with_executor\<close> puts it in. \<open>DeepReview\<close>
    (\<open>executor/deep-review.ts\<close>): the three agents of a review pass.
  \<^item> \<open>Cost\<close> (\<open>cost/\<close>): what runs cost and save, reports over a window of time, and the daily totals they are read from.
  \<^item> \<open>AuditLog\<close> (\<open>audit/\<close>): entries of the log and those projected from other tables, listed by pages and exported.
    \<open>Migrator\<close> (\<open>db/migrator.ts\<close>): the migrations over an engine, a parameter that answers a statement.
  \<^item> \<open>Sync\<close> (\<open>sync/gh-linear-sync.ts\<close>) over two clients as parameters; \<open>Observers\<close>
    (\<open>packages/observers/src\<close>): findings about runs, filed once; \<open>Sanitizer\<close> (\<open>executor/prompt/sanitizer.ts\<close>).
  \<^item> \<open>Slack\<close> (\<open>pm/slack-interface.ts\<close>, \<open>pm/slack-commands.ts\<close>, \<open>pm/slack-bulk.ts\<close>): signed requests, the commands
    in them, and what a command does to the runner of \<open>RunControl\<close>, to Linear and to the releases.
  \<^item> \<open>Versioning\<close>, \<open>ReleaseManager\<close>: versions, triggers, decision, state, tick and Slack commands.

  \<^bold>\<open>Lemmas.\<close> The theories named \<open>...Props\<close> and the last sections of the others hold what the components
  promise.
  \<^item> A run: \<open>RunInvariants\<close> states once what an invariant of the local variables needs to be kept by every
    phase (locales \<open>review_invariant\<close> and \<open>stage_invariant\<close>); \<open>RunProps\<close> and \<open>StageProps\<close> interpret them: the
    order of delivery, the statuses a run can end in, bounds on the agent calls, approvals as barriers.
    \<open>PipelineProps\<close> says exactly when a pull request is a draft and when it is merged.
  \<^item> Run control: the locale \<open>row_store\<close> is the contract of the table of runs; restarts settle every stuck run,
    retries are bounded, a stored payload is read back as it was written.
  \<^item> The contracts of the small components are locales as well: \<open>stop_source\<close> (stop signals),
    \<open>releasing_adapter\<close> (locks), \<open>dedup_store\<close> (deduplication, in memory and in the database),
    \<open>action_invariant\<close> and \<open>call_invariant\<close> (actions of a tick). Each is interpreted on the model's own
    definitions, and the properties use the facts of the interpretation.
  \<^item> The dashboard: \<open>session_store\<close> is the contract of the sessions; \<open>DashboardProps\<close> says who can act on runs
    and roles and what the limiter bounds, \<open>Access\<close> that an administrator always remains when changes are
    serial, \<open>Sso\<close> what a session takes, \<open>License\<close> which keys unlock what.
  \<^item> \<open>TriageProps\<close>: what the triage takes from a model meets the schema, the criteria it writes are read back,
    writing twice changes nothing, and a tick is bounded.
  \<^item> \<open>AgentStream\<close> and \<open>ExecutorProps\<close>: a stream ends within its limits and is counted exactly, every stage settles its row,
    profiles stay within their ceilings, a collision of sessions is retried with a new one, and a cancel does not
    reach the agent. \<open>Handoff\<close>: what an agent cannot claim. \<open>DeepReview\<close>: what a review collects, and that its findings
    stay inside their element of the next prompt.
  \<^item> \<open>GitProps\<close>: which commands an operation sends, that a push goes to the branch it names only, what a commit
    ships and what the sweep may delete; \<open>ConflictProps\<close>: the matrix is exact, the selection free of overlaps and
    complete. \<open>Sync\<close>: a second run changes nothing when the lookups answer. \<open>SlackProps\<close>: requests without a
    signature change nothing, parsed commands are well-formed. Lemmas in these theories and in \<open>Sanitizer\<close> also
    show where the code does less than it says; the manifest lists them as findings.
  \<^item> \<open>CostProps\<close>: the breakdowns of a report add up, rolling a day again changes nothing, and a report from daily totals
    says what a report from the runs says.
  \<^item> \<open>AuditLogProps\<close>: an export holds every entry once and in order, entries are found by their ids, cells are read back
    as text. \<open>MigratorProps\<close>: a pending migration runs once and is recorded after it has succeeded.
  \<^item> The work queue is a step relation over the turns of the event loop, with reachable states; the rows of
    the release manager change by the steps \<open>row_step\<close>, and a tick refines an abstract ledger of releases
    (\<open>ledger_step\<close>), which bounds retries.
  \<^item> Globs: the matcher of the translated expression accepts the language the documentation describes.

  \<^bold>\<open>Loops, fuel and bounds.\<close> Loops are structural recursions over the list or the counter the code uses (the
  remaining attempts, passes or iterations), so every definition is total and no fuel runs out. Waiting for
  a lock is a loop over polls with time as an argument, shown to end. Numbers that the code keeps as
  JavaScript numbers are \<open>nat\<close> or \<open>int\<close>: token counts and milliseconds stay below 2 ^ 53; dollars and
  hours of the cost reports are exact fractions. Bytes of a token
  are 8-bit words.

  \<^bold>\<open>Assumptions.\<close> The database answers: a query that throws is modelled where the code has a handler of its
  own for it. A notifier never throws. The clock is read once in a tick or a handler. Rows that a query does
  not order come in the order of insertion. Random ids are a counter. A percentage, which the code computes
  in floating point, and the digest of a signature are parameters; theorems that need more than that state
  it. Strings are ASCII. Agents, git, the forges and Linear may answer anything.

  \<^bold>\<open>Not modelled.\<close> The templates of the prompts and other texts; the vendor's SDK behind the stream; the REST calls of the
  forges and Linear; the texts of the tables; logging; the pages of the dashboard, the command line and
  the scaffolding, which are input and output; the notifiers. The manifest lists each part with the reason.
\<close>

end
